(* ===== verification/GoBase.thy ===== *)
theory GoBase
  imports Main "HOL-Library.Word" "HOL-Library.AList" "HOL-Library.Sublist"
    "HOL-Library.Char_ord" "HOL-Library.List_Lexorder" "HOL-Library.Multiset" "HOL-Library.Product_Lexorder"
begin

text \<open>
  The part of the Go language and its standard library that the gateway's code uses, and the
  generic lemmas the components share.

  Strings are byte strings (\<open>string\<close>, a list of 8-bit characters), as in Go. A Go map is an
  association list with distinct keys; its order is the arbitrary order in which \<open>range\<close>
  visits the entries, so a theorem about any such list covers every iteration order. A
  \<open>time.Time\<close> is the number of nanoseconds since Go's zero time, so \<open>IsZero\<close> is a
  comparison with 0. Errors are values of a datatype, with the wrapping of \<open>fmt.Errorf\<close> and
  \<open>%w\<close> kept so that \<open>errors.Is\<close> and \<open>errors.As\<close> can look through it.
\<close>

named_theorems go_simps \<open>evaluation of the modelled standard library on concrete values\<close>
named_theorems frame_simps \<open>what an operation leaves unchanged\<close>
named_theorems store_simps \<open>lookups after updates of the stores\<close>
named_theorems inv_intros \<open>preservation of the components' invariants\<close>

section \<open>Maps\<close>

type_synonym ('k, 'v) gomap = "('k \<times> 'v) list"

abbreviation wf_map :: "('k, 'v) gomap \<Rightarrow> bool" where
  "wf_map m \<equiv> distinct (map fst m)"

lemma map_of_alist_update [simp, store_simps]:
  "map_of (AList.update k v m) k' = (if k' = k then Some v else map_of m k')"
  by (simp add: AList.update_conv)

lemma map_of_alist_delete [simp, store_simps]:
  "map_of (AList.delete k m) k' = (if k' = k then None else map_of m k')"
  by (simp add: AList.delete_conv)

lemma wf_map_update [simp, intro]: "wf_map m \<Longrightarrow> wf_map (AList.update k v m)"
  by (rule AList.distinct_update)

lemma wf_map_delete [simp, intro]: "wf_map m \<Longrightarrow> wf_map (AList.delete k m)"
  by (rule AList.distinct_delete)

lemma in_keys_iff: "k \<in> fst ` set m \<longleftrightarrow> map_of m k \<noteq> None"
  by (simp add: map_of_eq_None_iff)

lemma map_of_in_set: "wf_map m \<Longrightarrow> (k, v) \<in> set m \<longleftrightarrow> map_of m k = Some v"
  by (simp add: map_of_eq_Some_iff)

lemma map_of_map_values: "map_of (map (\<lambda>(k, v). (k, f k v)) m) k = map_option (f k) (map_of m k)"
  by (induction m) auto

lemma wf_map_map_values [simp]: "wf_map (map (\<lambda>(k, v). (k, f k v)) m) = wf_map m"
  by (simp add: case_prod_beta comp_def)

lemma map_of_filter_keys: "map_of (filter (\<lambda>(k, v). P k) m) k = (if P k then map_of m k else None)"
  by (induction m) auto

lemma alist_update_same: "map_of m k = Some v \<Longrightarrow> AList.update k v m = m"
  by (induction m) (auto split: if_splits)

lemma length_alist_update_new: "map_of m k = None \<Longrightarrow> length (AList.update k v m) = Suc (length m)"
  by (induction m) (auto split: if_splits)

lemma length_alist_update_old: "map_of m k \<noteq> None \<Longrightarrow> length (AList.update k v m) = length m"
  by (induction m) (auto split: if_splits)

lemma length_alist_delete: "length (AList.delete k m) \<le> length m"
  by (simp add: AList.delete_eq)

lemma length_alist_delete_present:
  "wf_map m \<Longrightarrow> map_of m k \<noteq> None \<Longrightarrow> Suc (length (AList.delete k m)) = length m"
proof (induction m)
  case Nil
  then show ?case by simp
next
  case (Cons p m)
  show ?case
  proof (cases "fst p = k")
    case True
    with Cons.prems have "k \<notin> set (map fst m)" by auto
    then have "AList.delete k m = m" by (simp add: AList.delete_idem)
    with True show ?thesis by (cases p) simp
  next
    case False
    with Cons show ?thesis by (cases p) auto
  qed
qed

section \<open>Strings\<close>

text \<open>
  \<open>strings.TrimSpace\<close> strips the encodings of the Unicode white space characters
  (\<open>unicode.IsSpace\<close>) from both ends: the six ASCII ones and the UTF-8 byte sequences of the
  others. A UTF-8 sequence is recognised from the right exactly when the bytes end with it.
\<close>

definition space_words :: "string list" where
  "space_words =
    [[CHR 0x09], [CHR 0x0A], [CHR 0x0B], [CHR 0x0C], [CHR 0x0D], [CHR 0x20],
     [CHR 0xC2, CHR 0x85], [CHR 0xC2, CHR 0xA0], [CHR 0xE1, CHR 0x9A, CHR 0x80],
     [CHR 0xE2, CHR 0x80, CHR 0x80], [CHR 0xE2, CHR 0x80, CHR 0x81], [CHR 0xE2, CHR 0x80, CHR 0x82],
     [CHR 0xE2, CHR 0x80, CHR 0x83], [CHR 0xE2, CHR 0x80, CHR 0x84], [CHR 0xE2, CHR 0x80, CHR 0x85],
     [CHR 0xE2, CHR 0x80, CHR 0x86], [CHR 0xE2, CHR 0x80, CHR 0x87], [CHR 0xE2, CHR 0x80, CHR 0x88],
     [CHR 0xE2, CHR 0x80, CHR 0x89], [CHR 0xE2, CHR 0x80, CHR 0x8A], [CHR 0xE2, CHR 0x80, CHR 0xA8],
     [CHR 0xE2, CHR 0x80, CHR 0xA9], [CHR 0xE2, CHR 0x80, CHR 0xAF], [CHR 0xE2, CHR 0x81, CHR 0x9F],
     [CHR 0xE3, CHR 0x80, CHR 0x80]]"

fun strip_word :: "string list \<Rightarrow> string \<Rightarrow> string option" where
  "strip_word [] s = None"
| "strip_word (w # ws) s =
     (if w \<noteq> [] \<and> take (length w) s = w then Some (drop (length w) s) else strip_word ws s)"

lemma strip_word_shorter: "strip_word ws s = Some r \<Longrightarrow> length r < length s"
proof (induction ws)
  case Nil
  then show ?case by simp
next
  case (Cons w ws)
  show ?case
  proof (cases "w \<noteq> [] \<and> take (length w) s = w")
    case True
    then have "s \<noteq> []" and "0 < length w" by auto
    with True Cons.prems show ?thesis by auto
  next
    case False
    with Cons show ?thesis by (auto split: if_splits)
  qed
qed

function trim_left :: "string list \<Rightarrow> string \<Rightarrow> string" where
  "trim_left ws s = (case strip_word ws s of None \<Rightarrow> s | Some r \<Rightarrow> trim_left ws r)"
  by pat_completeness auto
termination
  by (relation "measure (\<lambda>(ws, s). length s)") (auto dest: strip_word_shorter)

declare trim_left.simps [simp del]

definition TrimSpace :: "string \<Rightarrow> string" where
  "TrimSpace s = rev (trim_left (map rev space_words) (rev (trim_left space_words s)))"

lemma strip_trim_left: "strip_word ws (trim_left ws s) = None"
proof (induction ws s rule: trim_left.induct)
  case (1 ws s)
  show ?case
  proof (cases "strip_word ws s")
    case None
    then show ?thesis by (simp add: trim_left.simps [of ws s])
  next
    case (Some r)
    with "1.IH" show ?thesis by (simp add: trim_left.simps [of ws s])
  qed
qed

lemma trim_left_id: "strip_word ws s = None \<Longrightarrow> trim_left ws s = s"
  by (simp add: trim_left.simps [of ws s])

lemma trim_left_Nil [simp]: "trim_left ws [] = []"
proof -
  have "strip_word ws [] = None" by (induction ws) auto
  then show ?thesis by (rule trim_left_id)
qed

lemma strip_word_suffix: "strip_word ws s = Some r \<Longrightarrow> suffix r s"
  by (induction ws) (auto split: if_splits simp: suffix_drop)

lemma trim_left_suffix: "suffix (trim_left ws s) s"
proof (induction ws s rule: trim_left.induct)
  case (1 ws s)
  show ?case
  proof (cases "strip_word ws s")
    case None
    then show ?thesis by (simp add: trim_left_id)
  next
    case (Some r)
    with "1.IH" have "suffix (trim_left ws r) r" by simp
    moreover from Some have "suffix r s" by (rule strip_word_suffix)
    ultimately show ?thesis using Some by (auto simp: trim_left.simps [of ws s] intro: suffix_order.trans)
  qed
qed

lemma strip_word_prefix: "prefix p s \<Longrightarrow> strip_word ws s = None \<Longrightarrow> strip_word ws p = None"
proof (induction ws)
  case (Cons w ws)
  have "take (length w) s = w" if "take (length w) p = w"
  proof -
    from that have "length w \<le> length p" using length_take [of "length w" p] by simp
    with Cons.prems(1) that show ?thesis by (auto simp: prefix_def)
  qed
  with Cons show ?case by (auto split: if_splits)
qed simp

lemma TrimSpace_prefix: "\<exists>ys. trim_left space_words s = TrimSpace s @ ys"
proof -
  have "suffix (rev (TrimSpace s)) (rev (trim_left space_words s))"
    by (simp add: TrimSpace_def trim_left_suffix)
  then show ?thesis by (auto simp: suffix_def intro: rev_swap [THEN iffD1] simp: rev_swap)
qed

lemma TrimSpace_idem [simp]: "TrimSpace (TrimSpace s) = TrimSpace s"
proof -
  obtain ys where ys: "trim_left space_words s = TrimSpace s @ ys" using TrimSpace_prefix by blast
  have "strip_word space_words (TrimSpace s) = None"
    by (rule strip_word_prefix [OF _ strip_trim_left [of space_words s]]) (simp add: ys)
  then have "trim_left space_words (TrimSpace s) = TrimSpace s" by (rule trim_left_id)
  moreover have "trim_left (map rev space_words) (rev (TrimSpace s)) = rev (TrimSpace s)"
    by (simp add: TrimSpace_def trim_left_id strip_trim_left)
  ultimately show ?thesis by (simp add: TrimSpace_def [of "TrimSpace s"])
qed

lemma TrimSpace_Nil [simp]: "TrimSpace [] = []"
  by (simp add: TrimSpace_def)

lemma set_TrimSpace: "set (TrimSpace s) \<subseteq> set s"
proof -
  have "set (trim_left (map rev space_words) (rev (trim_left space_words s))) \<subseteq> set (trim_left space_words s)"
    using set_mono_suffix [OF trim_left_suffix] by fastforce
  moreover have "set (trim_left space_words s) \<subseteq> set s"
    by (rule set_mono_suffix [OF trim_left_suffix])
  ultimately show ?thesis by (auto simp: TrimSpace_def)
qed

lemma TrimSpace_id: "strip_word space_words s = None \<Longrightarrow> strip_word (map rev space_words) (rev s) = None
    \<Longrightarrow> TrimSpace s = s"
  by (simp add: TrimSpace_def trim_left_id)

text \<open>
  \<open>strings.ToLower\<close> and \<open>strings.EqualFold\<close> on the ASCII letters. The code compares their
  results with ASCII constants that hold no \<open>k\<close> (or, for a hash, with hexadecimal digits), for
  which the Unicode mappings of other characters make no difference.
\<close>

definition lower_char :: "char \<Rightarrow> char" where
  "lower_char c = (if CHR ''A'' \<le> c \<and> c \<le> CHR ''Z'' then char_of (of_char c + 32 :: nat) else c)"

definition ToLower :: "string \<Rightarrow> string" where
  "ToLower s = map lower_char s"

definition EqualFold :: "string \<Rightarrow> string \<Rightarrow> bool" where
  "EqualFold s t = (ToLower s = ToLower t)"

lemma ToLower_Nil [simp]: "ToLower [] = []" and ToLower_Cons [simp]: "ToLower (c # s) = lower_char c # ToLower s"
  by (simp_all add: ToLower_def)

lemma EqualFold_refl [simp]: "EqualFold s s"
  by (simp add: EqualFold_def)

text \<open>\<open>strings.HasPrefix\<close>, \<open>strings.TrimPrefix\<close>, \<open>strings.Contains\<close>, \<open>strings.LastIndex\<close>.\<close>

definition HasPrefix :: "string \<Rightarrow> string \<Rightarrow> bool" where
  "HasPrefix s p = (take (length p) s = p)"

definition TrimPrefix :: "string \<Rightarrow> string \<Rightarrow> string" where
  "TrimPrefix s p = (if HasPrefix s p then drop (length p) s else s)"

fun str_contains :: "string \<Rightarrow> string \<Rightarrow> bool" where
  "str_contains [] sub = (sub = [])"
| "str_contains (c # s) sub = (HasPrefix (c # s) sub \<or> str_contains s sub)"

fun index_char :: "char \<Rightarrow> string \<Rightarrow> nat option" where
  "index_char c [] = None"
| "index_char c (x # s) = (if x = c then Some 0 else map_option Suc (index_char c s))"

fun last_index_char :: "char \<Rightarrow> string \<Rightarrow> nat option" where
  "last_index_char c [] = None"
| "last_index_char c (x # s) =
     (case last_index_char c s of Some i \<Rightarrow> Some (Suc i) | None \<Rightarrow> (if x = c then Some 0 else None))"

lemma last_index_char_None: "last_index_char c s = None \<longleftrightarrow> c \<notin> set s"
  by (induction s) (auto split: option.splits)

lemma last_index_char_Some:
  "last_index_char c s = Some i \<Longrightarrow> i < length s \<and> s ! i = c \<and> c \<notin> set (drop (Suc i) s)"
proof (induction s arbitrary: i)
  case Nil
  then show ?case by simp
next
  case (Cons x s)
  show ?case
  proof (cases "last_index_char c s")
    case None
    with Cons.prems show ?thesis by (auto simp: last_index_char_None split: if_splits)
  next
    case (Some j)
    with Cons show ?thesis by auto
  qed
qed

lemma index_char_None: "index_char c s = None \<longleftrightarrow> c \<notin> set s"
  by (induction s) auto

lemma index_char_Some: "index_char c s = Some i \<Longrightarrow> i < length s \<and> s ! i = c \<and> c \<notin> set (take i s)"
  by (induction s arbitrary: i) (auto split: if_splits)

text \<open>The part of a string after the last occurrence of a character (all of it if there is none).\<close>

definition after_last :: "char \<Rightarrow> string \<Rightarrow> string" where
  "after_last c s = (case last_index_char c s of None \<Rightarrow> s | Some i \<Rightarrow> drop (Suc i) s)"

lemma after_last_no_char: "c \<notin> set (after_last c s)"
  by (auto simp: after_last_def last_index_char_None split: option.splits dest: last_index_char_Some)

lemma after_last_id: "c \<notin> set s \<Longrightarrow> after_last c s = s"
  by (simp add: after_last_def last_index_char_None [symmetric])

text \<open>\<open>strings.Split\<close> and \<open>strings.Join\<close> with a one-character separator.\<close>

fun Split :: "char \<Rightarrow> string \<Rightarrow> string list" where
  "Split c [] = [[]]"
| "Split c (x # s) =
     (if x = c then [] # Split c s
      else (case Split c s of [] \<Rightarrow> [[x]] | p # ps \<Rightarrow> (x # p) # ps))"

fun Join :: "char \<Rightarrow> string list \<Rightarrow> string" where
  "Join c [] = []"
| "Join c [p] = p"
| "Join c (p # q # ps) = p @ c # Join c (q # ps)"

lemma Split_nonempty [simp]: "Split c s \<noteq> []"
  by (cases s) (auto split: list.splits)

lemma Join_Split: "Join c (Split c s) = s"
proof (induction s)
  case Nil
  then show ?case by simp
next
  case (Cons x s)
  obtain p ps where ps: "Split c s = p # ps" by (cases "Split c s") auto
  with Cons show ?case by (cases ps) auto
qed

lemma Split_no_sep: "p \<in> set (Split c s) \<Longrightarrow> c \<notin> set p"
proof (induction s arbitrary: p)
  case Nil
  then show ?case by simp
next
  case (Cons x s)
  obtain q qs where "Split c s = q # qs" by (cases "Split c s") auto
  with Cons show ?case by (auto split: if_splits)
qed

lemma Split_Join: "ps \<noteq> [] \<Longrightarrow> (\<And>p. p \<in> set ps \<Longrightarrow> c \<notin> set p) \<Longrightarrow> Split c (Join c ps) = ps"
proof (induction c ps rule: Join.induct)
  case (1 c)
  then show ?case by simp
next
  case (2 c p)
  then have "c \<notin> set p" by simp
  then have "Split c p = [p]" by (induction p) auto
  then show ?case by simp
next
  case (3 c p q ps)
  then have p: "c \<notin> set p" and rest: "Split c (Join c (q # ps)) = q # ps" by auto
  from p have "Split c (p @ c # Join c (q # ps)) = p # (q # ps)"
    using rest by (induction p) auto
  then show ?case by simp
qed

text \<open>\<open>strconv.Itoa\<close>.\<close>

fun nat_digits :: "nat \<Rightarrow> string" where
  "nat_digits n = (if n < 10 then [char_of (48 + n)] else nat_digits (n div 10) @ [char_of (48 + n mod 10)])"

declare nat_digits.simps [simp del]

definition Itoa :: "int \<Rightarrow> string" where
  "Itoa i = (if i < 0 then CHR ''-'' # nat_digits (nat (- i)) else nat_digits (nat i))"

text \<open>\<open>hex.EncodeToString\<close>, and the test \<open>hex.DecodeString\<close> makes of every character.\<close>

definition hex_digit :: "int \<Rightarrow> char" where
  "hex_digit n = (if n < 10 then char_of (48 + n) else char_of (87 + n))"

definition hex_byte :: "char \<Rightarrow> string" where
  "hex_byte c = [hex_digit (of_char c div 16), hex_digit (of_char c mod 16)]"

definition hex_encode :: "string \<Rightarrow> string" where
  "hex_encode bytes = concat (map hex_byte bytes)"

definition is_hex_digit :: "char \<Rightarrow> bool" where
  "is_hex_digit c \<longleftrightarrow> (CHR ''0'' \<le> c \<and> c \<le> CHR ''9'') \<or> (CHR ''a'' \<le> c \<and> c \<le> CHR ''f'') \<or>
     (CHR ''A'' \<le> c \<and> c \<le> CHR ''F'')"

lemma hex_encode_length: "length (hex_encode bs) = 2 * length bs"
  by (induction bs) (auto simp: hex_encode_def hex_byte_def)

lemmas list_splits = list.split list.split_asm
lemmas result_splits = option.splits sum.splits prod.splits if_splits

section \<open>Errors\<close>

datatype go_error =
    GatewayError nat string       \<comment> \<open>\<open>GatewayError{Status, Message}\<close>\<close>
  | Sentinel string               \<comment> \<open>a package-level \<open>errors.New\<close> value\<close>
  | Wrapf string go_error string  \<comment> \<open>\<open>fmt.Errorf\<close> with one \<open>%w\<close>: text before, error, text after\<close>
  | Marked string go_error        \<comment> \<open>an error a library has marked as of a class, such as not found\<close>
  | CodedError string string string  \<comment> \<open>an error with a code and a message, and its text\<close>
  | ErrorString string            \<comment> \<open>any other error, by its text\<close>

primrec error_text :: "go_error \<Rightarrow> string" where
  "error_text (GatewayError st msg) = msg"
| "error_text (Sentinel msg) = msg"
| "error_text (Wrapf pre e post) = pre @ error_text e @ post"
| "error_text (Marked mark e) = error_text e"
| "error_text (CodedError code msg text) = text"
| "error_text (ErrorString msg) = msg"

text \<open>\<open>errors.Is\<close> for a sentinel error.\<close>

primrec errors_Is :: "go_error \<Rightarrow> go_error \<Rightarrow> bool" where
  "errors_Is (GatewayError st msg) target = (target = GatewayError st msg)"
| "errors_Is (Sentinel msg) target = (target = Sentinel msg)"
| "errors_Is (Wrapf pre e post) target = (target = Wrapf pre e post \<or> errors_Is e target)"
| "errors_Is (Marked mark e) target = (target = Marked mark e \<or> errors_Is e target)"
| "errors_Is (CodedError code msg text) target = (target = CodedError code msg text)"
| "errors_Is (ErrorString msg) target = (target = ErrorString msg)"

section \<open>Time\<close>

type_synonym time = int

text \<open>\<open>time.Duration\<close> is a signed 64-bit count of nanoseconds; \<open>time.Second\<close> is \<open>10^9\<close>.\<close>

type_synonym duration = "64 word"

abbreviation IsZero :: "time \<Rightarrow> bool" where
  "IsZero t \<equiv> t = 0"

definition time_Second :: duration where
  "time_Second = 1000000000"

definition time_Add :: "time \<Rightarrow> duration \<Rightarrow> time" where
  "time_Add t d = t + sint d"

text \<open>\<open>time.Duration(n) * time.Second\<close> for a 32-bit \<open>n\<close>: the product of two 64-bit words.\<close>

definition seconds_duration :: "32 word \<Rightarrow> duration" where
  "seconds_duration n = (scast n :: 64 word) * time_Second"

text \<open>Seconds and milliseconds since the Unix epoch (\<open>Unix\<close>, \<open>UnixMilli\<close>): both round down.\<close>

definition unix_epoch :: time where
  "unix_epoch = 62135596800000000000"

definition time_Unix :: "time \<Rightarrow> int" where
  "time_Unix t = (t - unix_epoch) div 1000000000"

definition time_UnixMilli :: "time \<Rightarrow> int" where
  "time_UnixMilli t = (t - unix_epoch) div 1000000"

lemma sint_seconds_duration: "sint (seconds_duration n) = sint n * 1000000000"
proof -
  have lo: "- (2 ^ 31) \<le> sint n" and hi: "sint n < 2 ^ 31"
    using sint_range_size [of n] by (auto simp: word_size)
  have "sint (scast n :: 64 word) = sint n"
    by (rule sint_up_scast) (simp add: is_up)
  moreover have "sint (1000000000 :: 64 word) = 1000000000" by simp
  ultimately have "sint (seconds_duration n) = signed_take_bit 63 (sint n * 1000000000)"
    by (simp add: seconds_duration_def time_Second_def Word.sint_word_ariths)
  also have "\<dots> = sint n * 1000000000"
    using lo hi by (intro signed_take_bit_int_eq_self) simp_all
  finally show ?thesis .
qed

lemma time_Add_seconds: "time_Add t (seconds_duration n) = t + sint n * 1000000000"
  by (simp add: time_Add_def sint_seconds_duration)

lemma time_Unix_mono: "t \<le> t' \<Longrightarrow> time_Unix t \<le> time_Unix t'"
  unfolding time_Unix_def by (rule zdiv_mono1) simp_all

end
