(* ===== verification/Interfaces.thy ===== *)
theory Interfaces
  imports GoBase
begin

text \<open>
  The interfaces the components share, as locales: a transition system with an inductive
  invariant (the concurrent protocols and the application), a guarded update of one entry of a
  keyed store (the setters of the sandbox store), a gate that stops admitting work (the timer
  manager and the build manager both have one), and a simulation of an abstract specification (the
  Docker volumes have one). Each is interpreted, on the model of the code, in
  the theory of the component that provides it.
\<close>

section \<open>Transition systems\<close>

locale transition_system =
  fixes init :: "'s \<Rightarrow> bool" and step :: "'s \<Rightarrow> 's \<Rightarrow> bool" and inv :: "'s \<Rightarrow> bool"
  assumes inv_init: "init s \<Longrightarrow> inv s"
    and inv_step: "step s t \<Longrightarrow> inv s \<Longrightarrow> inv t"
begin

lemma steps_inv: "rtranclp step s t \<Longrightarrow> inv s \<Longrightarrow> inv t"
  by (induction rule: rtranclp_induct) (auto intro: inv_step)

lemma reachable_inv: "init s \<Longrightarrow> rtranclp step s t \<Longrightarrow> inv t"
  by (blast intro: steps_inv inv_init)

text \<open>A quantity that no step increases under the invariant never grows along a run.\<close>

lemma steps_antimono:
  assumes "rtranclp step s t" and "inv s"
    and mono: "\<And>a b. inv a \<Longrightarrow> step a b \<Longrightarrow> (m b :: nat) \<le> m a"
  shows "m t \<le> m s"
  using assms(1,2)
proof (induction rule: rtranclp_induct)
  case base
  show ?case by simp
next
  case (step b c)
  from step.hyps(1) step.prems have "inv b" by (rule steps_inv)
  with step mono [of b c] show ?case by simp
qed

text \<open>A condition that every step keeps stays true.\<close>

lemma steps_stable:
  assumes "rtranclp step s t" and "inv s" and "p s"
    and stable: "\<And>a b. inv a \<Longrightarrow> step a b \<Longrightarrow> p a \<Longrightarrow> p b"
  shows "p t"
  using assms(1,2,3)
proof (induction rule: rtranclp_induct)
  case base
  then show ?case by simp
next
  case (step b c)
  from step.hyps(1) step.prems(1) have "inv b" by (rule steps_inv)
  with step stable show ?case by blast
qed

end

section \<open>Updating one entry of a keyed store\<close>

text \<open>
  The contract of a setter: with no entry under the key nothing changes and nothing is returned;
  otherwise exactly that entry is replaced and its new value is returned.
\<close>

locale entry_update =
  fixes op :: "'k \<Rightarrow> ('k, 'v) gomap \<Rightarrow> (go_error + 'v option) \<times> ('k, 'v) gomap"
    and upd :: "'v \<Rightarrow> 'v"
  assumes op_missing: "map_of m k = None \<Longrightarrow> op k m = (Inr None, m)"
    and op_present: "map_of m k = Some v \<Longrightarrow> op k m = (Inr (Some (upd v)), AList.update k (upd v) m)"
begin

lemma op_wf: "wf_map m \<Longrightarrow> wf_map (snd (op k m))"
  by (cases "map_of m k") (simp_all add: op_missing op_present)

lemma op_result: "fst (op k m) = Inr (map_option upd (map_of m k))"
  by (cases "map_of m k") (simp_all add: op_missing op_present)

lemma op_lookup: "map_of (snd (op k m)) k' = (if k' = k then map_option upd (map_of m k) else map_of m k')"
  by (cases "map_of m k") (auto simp: op_missing op_present)

lemma op_keys: "map_of (snd (op k m)) k' = None \<longleftrightarrow> map_of m k' = None"
  by (auto simp: op_lookup)

lemma op_size: "length (snd (op k m)) = length m"
  by (cases "map_of m k") (simp_all add: op_missing op_present length_alist_update_old)

lemma op_all:
  assumes "\<And>k v. map_of m k = Some v \<Longrightarrow> P k v" and "\<And>v. P k v \<Longrightarrow> P k (upd v)"
    and "map_of (snd (op k m)) k' = Some w"
  shows "P k' w"
  using assms by (cases "k' = k") (auto simp: op_lookup)

end

section \<open>A gate that stops admitting work\<close>

text \<open>
  Both background managers count the work in flight with a \<open>sync.WaitGroup\<close> and refuse new work
  once they are closed. The contract: only admission raises the count, and by one; a closed gate
  stays closed and admits nothing.
\<close>

locale shutdown_gate = transition_system init step inv
  for init :: "'s \<Rightarrow> bool" and step and inv +
  fixes closed :: "'s \<Rightarrow> bool" and in_flight :: "'s \<Rightarrow> nat"
  assumes closed_stays: "inv s \<Longrightarrow> step s t \<Longrightarrow> closed s \<Longrightarrow> closed t"
    and closed_admits_none: "inv s \<Longrightarrow> step s t \<Longrightarrow> closed s \<Longrightarrow> in_flight t \<le> in_flight s"
begin

lemma closed_forever: "rtranclp step s t \<Longrightarrow> inv s \<Longrightarrow> closed s \<Longrightarrow> closed t"
  by (rule steps_stable [where p = closed]) (auto intro: closed_stays)

lemma drains: "rtranclp step s t \<Longrightarrow> inv s \<Longrightarrow> closed s \<Longrightarrow> in_flight t \<le> in_flight s"
proof (induction rule: rtranclp_induct)
  case base
  show ?case by simp
next
  case (step b c)
  from step.hyps(1) step.prems have "inv b" "closed b" by (auto intro: steps_inv closed_forever)
  with step closed_admits_none [of b c] show ?case by simp
qed

lemma drained_stays_empty: "rtranclp step s t \<Longrightarrow> inv s \<Longrightarrow> closed s \<Longrightarrow> in_flight s = 0 \<Longrightarrow> in_flight t = 0"
  using drains [of s t] by simp

end

section \<open>Simulation\<close>

text \<open>
  The contract of a refinement: under the invariant, a concrete request answers as the abstract one
  does and leads to a state that stands for the next abstract state.
\<close>

fun run_all :: "('q \<Rightarrow> 's \<Rightarrow> 'a \<times> 's) \<Rightarrow> 'q list \<Rightarrow> 's \<Rightarrow> 'a list \<times> 's" where
  "run_all f [] s = ([], s)"
| "run_all f (q # qs) s = (case f q s of (a, t) \<Rightarrow> case run_all f qs t of (as, u) \<Rightarrow> (a # as, u))"

locale simulation =
  fixes cstep :: "'q \<Rightarrow> 's \<Rightarrow> 'a \<times> 's" and astep :: "'q \<Rightarrow> 't \<Rightarrow> 'a \<times> 't"
    and abs :: "'s \<Rightarrow> 't" and inv :: "'s \<Rightarrow> bool"
  assumes sim: "inv s \<Longrightarrow> cstep q s = (a, s') \<Longrightarrow> inv s' \<and> astep q (abs s) = (a, abs s')"
begin

lemma runs: "inv s \<Longrightarrow> run_all cstep qs s = (as, s') \<Longrightarrow> inv s' \<and> run_all astep qs (abs s) = (as, abs s')"
proof (induction qs arbitrary: s as s')
  case (Cons q qs)
  obtain a t where t: "cstep q s = (a, t)" by (cases "cstep q s")
  obtain bs u where u: "run_all cstep qs t = (bs, u)" by (cases "run_all cstep qs t")
  from sim [OF Cons.prems(1) t] Cons.IH [OF _ u] Cons.prems(2) t u show ?case by simp
qed simp

end

end
