(* ===== verification/GatewayTypes.thy ===== *)
theory GatewayTypes
  imports Interfaces
begin

text \<open>
  The data of the gateway (\<open>internal/gateway/types.go\<close>, \<open>runtime.go\<close>, \<open>sandbox_timeout.go\<close>, the
  small helpers) and the request bodies of the API it reads. A Go pointer that may be nil is an
  \<open>option\<close>; an \<open>int32\<close> whose width matters is a \<open>32 word\<close>; other integers are \<open>int\<close>.
\<close>

section \<open>Volume mounts and port mappings\<close>

record volume_mount =
  vm_Name :: string
  vm_Path :: string
  vm_VolumeID :: string
  vm_MountPath :: string

record port_mapping =
  pm_ContainerPort :: int
  pm_HostIP :: string
  pm_HostPort :: int
  pm_Protocol :: string

record runtime_info =
  ri_SandboxID :: string
  ri_EnvdURL :: string
  ri_ContainerID :: string
  ri_ContainerName :: string
  ri_ContainerIP :: string
  ri_HostPort :: string
  ri_MachineID :: string
  ri_VolumeMounts :: "volume_mount list"
  ri_PublishedPorts :: "port_mapping list"

record inspection =
  in_Info :: runtime_info
  in_State :: string
  in_Exists :: bool

section \<open>Sandbox records\<close>

type_synonym sandbox_id = string
type_synonym internet_policy = string
type_synonym timeout_action = string

definition InternetAccessUnspecified :: internet_policy where "InternetAccessUnspecified = ''''"
definition InternetAccessAllowed :: internet_policy where "InternetAccessAllowed = ''allowed''"
definition InternetAccessDenied :: internet_policy where "InternetAccessDenied = ''denied''"

definition SandboxTimeoutActionUnspecified :: timeout_action where "SandboxTimeoutActionUnspecified = ''''"
definition SandboxTimeoutActionKill :: timeout_action where "SandboxTimeoutActionKill = ''kill''"
definition SandboxTimeoutActionPause :: timeout_action where "SandboxTimeoutActionPause = ''pause''"

definition Running :: string where "Running = ''running''"
definition Paused :: string where "Paused = ''paused''"

lemmas go_constants [go_simps] =
  InternetAccessUnspecified_def InternetAccessAllowed_def InternetAccessDenied_def
  SandboxTimeoutActionUnspecified_def SandboxTimeoutActionKill_def SandboxTimeoutActionPause_def
  Running_def Paused_def

record sandbox_record =
  sr_ID :: sandbox_id
  sr_TemplateID :: string
  sr_Alias :: string
  sr_ClientID :: string
  sr_EnvdVersion :: string
  sr_Metadata :: "(string, string) gomap"
  sr_EnvdURL :: string
  sr_RuntimeInfo :: runtime_info
  sr_CreatedAt :: time
  sr_EndAt :: time
  sr_State :: string
  sr_CPUCount :: int
  sr_DiskSizeMB :: int
  sr_MemoryMB :: int
  sr_InternetAccessPolicy :: internet_policy
  sr_OnTimeout :: timeout_action

definition InternetAccessPolicyFromBoolPtr :: "bool option \<Rightarrow> internet_policy" where
  "InternetAccessPolicyFromBoolPtr value =
     (case value of
        None \<Rightarrow> InternetAccessUnspecified
      | Some b \<Rightarrow> if b then InternetAccessAllowed else InternetAccessDenied)"

definition BoolPtr :: "internet_policy \<Rightarrow> bool option" where
  "BoolPtr policy =
     (if policy = InternetAccessAllowed then Some True
      else if policy = InternetAccessDenied then Some False
      else None)"

definition SandboxTimeoutActionFromAutoPause :: "bool option \<Rightarrow> timeout_action" where
  "SandboxTimeoutActionFromAutoPause autoPause =
     (if autoPause = Some True then SandboxTimeoutActionPause else SandboxTimeoutActionKill)"

text \<open>
  \<open>%q\<close> quotes a string (\<open>strconv.Quote\<close>): ASCII control characters, the quote and the backslash
  are escaped, every other byte is kept (as Go does for the encodings of printable characters).
\<close>

definition quote_char :: "char \<Rightarrow> string" where
  "quote_char c =
     (let n = (of_char c :: nat); bs = CHR 0x5C
      in if n = 34 \<or> n = 92 then [bs, c]
         else if n = 7 then [bs, CHR ''a''] else if n = 8 then [bs, CHR ''b'']
         else if n = 12 then [bs, CHR ''f''] else if n = 10 then [bs, CHR ''n'']
         else if n = 13 then [bs, CHR ''r''] else if n = 9 then [bs, CHR ''t'']
         else if n = 11 then [bs, CHR ''v'']
         else if n < 32 \<or> n = 127 then [bs, CHR ''x''] @ hex_byte c
         else [c])"

definition quoted :: "string \<Rightarrow> string" where
  "quoted s = CHR 0x22 # concat (map quote_char s) @ [CHR 0x22]"

definition Normalize :: "timeout_action \<Rightarrow> go_error + timeout_action" where
  "Normalize action =
     (if action = SandboxTimeoutActionUnspecified \<or> action = SandboxTimeoutActionKill
      then Inr SandboxTimeoutActionKill
      else if action = SandboxTimeoutActionPause then Inr SandboxTimeoutActionPause
      else Inl (ErrorString (''unsupported sandbox timeout action '' @ quoted action)))"

definition RetainsSandboxAfterTimeout :: "timeout_action \<Rightarrow> bool" where
  "RetainsSandboxAfterTimeout action =
     (case Normalize action of
        Inl err \<Rightarrow> False
      | Inr normalized \<Rightarrow> normalized = SandboxTimeoutActionPause)"

lemma BoolPtr_roundtrip: "BoolPtr (InternetAccessPolicyFromBoolPtr v) = v"
  by (auto simp: BoolPtr_def InternetAccessPolicyFromBoolPtr_def go_constants split: option.splits)

lemma Normalize_normalized: "Normalize a = Inr b \<Longrightarrow> Normalize b = Inr b"
  by (auto simp: Normalize_def go_constants split: if_splits)

lemma Normalize_range: "Normalize a = Inr b \<Longrightarrow> b = SandboxTimeoutActionKill \<or> b = SandboxTimeoutActionPause"
  by (auto simp: Normalize_def split: if_splits)

lemma Normalize_FromAutoPause [simp]:
  "Normalize (SandboxTimeoutActionFromAutoPause p) = Inr (SandboxTimeoutActionFromAutoPause p)"
  by (auto simp: Normalize_def SandboxTimeoutActionFromAutoPause_def go_constants)

section \<open>Timeouts (sandbox_timeout.go)\<close>

definition DefaultSandboxTimeoutSeconds :: "32 word" where
  "DefaultSandboxTimeoutSeconds = 15"

definition requestTimeout :: "32 word option \<Rightarrow> 32 word" where
  "requestTimeout timeout = (case timeout of None \<Rightarrow> DefaultSandboxTimeoutSeconds | Some t \<Rightarrow> t)"

definition defaultSandboxEndAt :: "time \<Rightarrow> time" where
  "defaultSandboxEndAt start = time_Add start (seconds_duration DefaultSandboxTimeoutSeconds)"

lemma defaultSandboxEndAt_eq: "defaultSandboxEndAt t = t + 15000000000"
  by (simp add: defaultSandboxEndAt_def DefaultSandboxTimeoutSeconds_def time_Add_seconds)

section \<open>Small helpers (shared_helpers.go, string_helpers.go)\<close>

definition nonEmptyStrings :: "string list \<Rightarrow> string list" where
  "nonEmptyStrings values = filter (\<lambda>v. v \<noteq> []) (map TrimSpace values)"

text \<open>\<open>copyStringMap\<close> returns nil for an empty map; both are the empty association list.\<close>

definition copyStringMap :: "(string, string) gomap \<Rightarrow> (string, string) gomap" where
  "copyStringMap values = (if values = [] then [] else values)"

text \<open>A missing key reads as the empty string.\<close>

definition map_read :: "(string, string) gomap \<Rightarrow> string \<Rightarrow> string" where
  "map_read m k = (case map_of m k of Some v \<Rightarrow> v | None \<Rightarrow> [])"

definition normalizeVolumeMounts :: "volume_mount list \<Rightarrow> volume_mount list" where
  "normalizeVolumeMounts volumeMounts = map (\<lambda>mount.
     let name = TrimSpace (vm_Name mount);
         path = TrimSpace (vm_Path mount);
         volumeID = TrimSpace (vm_VolumeID mount);
         mountPath = TrimSpace (vm_MountPath mount);
         path' = (if path = [] then mountPath else path);
         volumeID' = (if volumeID = [] then name else volumeID)
     in \<lparr>vm_Name = name, vm_Path = path', vm_VolumeID = volumeID', vm_MountPath = mountPath\<rparr>) volumeMounts"

lemma normalizeVolumeMounts_idem:
  "normalizeVolumeMounts (normalizeVolumeMounts ms) = normalizeVolumeMounts ms"
  by (simp add: normalizeVolumeMounts_def Let_def)

definition shortDockerImageName :: "string \<Rightarrow> string" where
  "shortDockerImageName imageRef =
     (let imageRef = TrimSpace imageRef
      in if imageRef = [] then [] else after_last CHR ''/'' imageRef)"

definition dockerTemplateName :: "string \<Rightarrow> string" where
  "dockerTemplateName imageRef =
     (let name = shortDockerImageName imageRef
      in case index_char CHR ''@'' name of
           Some digestIndex \<Rightarrow> take digestIndex name
         | None \<Rightarrow> (case last_index_char CHR '':'' name of
                      Some tagIndex \<Rightarrow> take tagIndex name
                    | None \<Rightarrow> name))"

definition isDockerImageReference :: "string \<Rightarrow> bool" where
  "isDockerImageReference ref =
     (let ref = TrimSpace ref
      in if ref = [] then False
         else if CHR ''@'' \<in> set ref then True
         else CHR '':'' \<in> set (after_last CHR ''/'' ref))"

lemma shortDockerImageName_no_slash: "CHR ''/'' \<notin> set (shortDockerImageName ref)"
  by (simp add: shortDockerImageName_def Let_def after_last_no_char)

lemma dockerTemplateName_no_slash: "CHR ''/'' \<notin> set (dockerTemplateName ref)"
  using shortDockerImageName_no_slash [of ref]
  by (auto simp: dockerTemplateName_def Let_def split: option.splits dest: in_set_takeD)

section \<open>The runtime interface (runtime.go)\<close>

text \<open>
  The gateway talks to Docker, OrbStack or Apple Container through \<open>SandboxRuntime\<close> and optional
  extra interfaces, found by a type assertion. The runtime is a record of functions over a world
  \<open>'w\<close> (the state of the container engine, the clock and the random source); an optional
  interface is an \<open>option\<close>. Every call may change the world in any way.
\<close>

record create_request =
  cr_SandboxID :: sandbox_id
  cr_TemplateID :: string
  cr_Metadata :: "(string, string) gomap"
  cr_EnvVars :: "(string, string) gomap"
  cr_VolumeMounts :: "volume_mount list"
  cr_CreatedAt :: time
  cr_EndAt :: time
  cr_AllowInternetAccess :: "bool option"
  cr_OnTimeout :: timeout_action

record 'w runtime =
  rt_now :: "'w \<Rightarrow> time \<times> 'w"
  rt_rand12 :: "'w \<Rightarrow> (go_error + string) \<times> 'w"
  rt_present :: bool
  rt_CreateSandbox :: "create_request \<Rightarrow> 'w \<Rightarrow> (go_error + runtime_info) \<times> 'w"
  rt_DeleteSandbox :: "runtime_info \<Rightarrow> 'w \<Rightarrow> go_error option \<times> 'w"
  rt_PauseSandbox :: "runtime_info \<Rightarrow> 'w \<Rightarrow> go_error option \<times> 'w"
  rt_ResumeSandbox :: "runtime_info \<Rightarrow> 'w \<Rightarrow> (go_error + runtime_info) \<times> 'w"
  rt_InspectSandbox :: "(runtime_info \<Rightarrow> 'w \<Rightarrow> (go_error + inspection) \<times> 'w) option"
  rt_RestoreSandboxes :: "('w \<Rightarrow> (go_error + sandbox_record list) \<times> 'w) option"

definition ErrRuntimeCapacity :: go_error where
  "ErrRuntimeCapacity = Sentinel ''runtime capacity exhausted''"

section \<open>Gateway errors (gateway_callbacks.go)\<close>

primrec asGatewayError :: "go_error \<Rightarrow> (nat \<times> string) option" where
  "asGatewayError (GatewayError st msg) = Some (st, msg)"
| "asGatewayError (Sentinel msg) = None"
| "asGatewayError (Wrapf pre e post) = asGatewayError e"
| "asGatewayError (Marked mark e) = asGatewayError e"
| "asGatewayError (CodedError code msg text) = None"
| "asGatewayError (ErrorString msg) = None"

definition gatewayErrorStatus :: "go_error \<Rightarrow> nat \<Rightarrow> nat" where
  "gatewayErrorStatus err fallback =
     (case asGatewayError err of Some (st, msg) \<Rightarrow> st | None \<Rightarrow> fallback)"

definition asNotFoundGatewayError :: "go_error option \<Rightarrow> bool" where
  "asNotFoundGatewayError err =
     (case err of None \<Rightarrow> False
      | Some e \<Rightarrow> (case asGatewayError e of Some (st, msg) \<Rightarrow> st = 404 | None \<Rightarrow> False))"

definition bad_request :: "string \<Rightarrow> go_error" where
  "bad_request msg = GatewayError 400 msg"

definition not_found :: "sandbox_id \<Rightarrow> go_error" where
  "not_found sandboxID = GatewayError 404 (''sandbox '' @ sandboxID @ '' not found'')"

lemma gatewayErrorStatus_simps [simp]:
  "gatewayErrorStatus (GatewayError st msg) fb = st"
  "gatewayErrorStatus (Sentinel msg) fb = fb"
  "gatewayErrorStatus (ErrorString msg) fb = fb"
  "gatewayErrorStatus (Wrapf pre e post) fb = gatewayErrorStatus e fb"
  "gatewayErrorStatus (Marked mark e) fb = gatewayErrorStatus e fb"
  "gatewayErrorStatus (CodedError code msg text) fb = fb"
  by (simp_all add: gatewayErrorStatus_def)

lemma asNotFound_not_found [simp]: "asNotFoundGatewayError (Some (not_found i))"
  by (simp add: asNotFoundGatewayError_def not_found_def)

end
