(* ===== verification/SandboxStore.thy ===== *)
theory SandboxStore
  imports GatewayTypes
begin

text \<open>
  The in-memory sandbox store (\<open>internal/gateway/store.go\<close>): one operation per method, over the
  map from sandbox ids to records. The store mutex makes each method atomic; the per-sandbox
  \<open>lifecycleMu\<close> and \<open>lockSandbox\<close> are modelled in the theory LockProtocol. Values do not alias in
  the model, so \<open>clone\<close> is the identity.
\<close>

type_synonym sandbox_store = "(sandbox_id, sandbox_record) gomap"

section \<open>Identifiers\<close>

definition newSandboxID :: "'w runtime \<Rightarrow> 'w \<Rightarrow> (go_error + sandbox_id) \<times> 'w" where
  "newSandboxID rt w =
     (case rt_rand12 rt w of
        (Inl err, w) \<Rightarrow> (Inl (Wrapf ''generate sandbox id: '' err ''''), w)
      | (Inr bytes, w) \<Rightarrow> (Inr (''sbx'' @ hex_encode bytes), w))"

section \<open>Merging records\<close>

text \<open>The fields of \<open>update\<close> win where they are set; the others are taken from \<open>existing\<close>.\<close>

definition mergeSandboxRuntimeInfo :: "runtime_info \<Rightarrow> runtime_info \<Rightarrow> runtime_info" where
  "mergeSandboxRuntimeInfo existing update = update\<lparr>
     ri_SandboxID := (if ri_SandboxID update = [] then ri_SandboxID existing else ri_SandboxID update),
     ri_EnvdURL := (if ri_EnvdURL update = [] then ri_EnvdURL existing else ri_EnvdURL update),
     ri_ContainerID := (if ri_ContainerID update = [] then ri_ContainerID existing else ri_ContainerID update),
     ri_ContainerName := (if ri_ContainerName update = [] then ri_ContainerName existing else ri_ContainerName update),
     ri_ContainerIP := (if ri_ContainerIP update = [] then ri_ContainerIP existing else ri_ContainerIP update),
     ri_HostPort := (if ri_HostPort update = [] then ri_HostPort existing else ri_HostPort update),
     ri_MachineID := (if ri_MachineID update = [] then ri_MachineID existing else ri_MachineID update),
     ri_VolumeMounts := (if ri_VolumeMounts update = [] then ri_VolumeMounts existing else ri_VolumeMounts update),
     ri_PublishedPorts := (if ri_PublishedPorts update = [] then ri_PublishedPorts existing else ri_PublishedPorts update)\<rparr>"

definition mergeSandboxRecordForCache :: "sandbox_record \<Rightarrow> sandbox_record \<Rightarrow> sandbox_record" where
  "mergeSandboxRecordForCache cached incoming =
     (let envd = (if sr_EnvdURL incoming = [] then sr_EnvdURL cached else sr_EnvdURL incoming);
          info = mergeSandboxRuntimeInfo (sr_RuntimeInfo cached) (sr_RuntimeInfo incoming)
      in incoming\<lparr>
        sr_ID := (if sr_ID incoming = [] then sr_ID cached else sr_ID incoming),
        sr_TemplateID := (if sr_TemplateID incoming = [] then sr_TemplateID cached else sr_TemplateID incoming),
        sr_Alias := (if sr_Alias incoming = [] then sr_Alias cached else sr_Alias incoming),
        sr_ClientID := (if sr_ClientID incoming = [] then sr_ClientID cached else sr_ClientID incoming),
        sr_EnvdVersion := (if sr_EnvdVersion incoming = [] then sr_EnvdVersion cached else sr_EnvdVersion incoming),
        sr_Metadata := (if sr_Metadata incoming = [] then sr_Metadata cached else sr_Metadata incoming),
        sr_EnvdURL := (if envd = [] then ri_EnvdURL info else envd),
        sr_RuntimeInfo := info,
        sr_CreatedAt := (if IsZero (sr_CreatedAt incoming) then sr_CreatedAt cached else sr_CreatedAt incoming),
        sr_EndAt := (if IsZero (sr_EndAt incoming) then sr_EndAt cached else sr_EndAt incoming),
        sr_State := (if sr_State incoming = [] then sr_State cached else sr_State incoming),
        sr_CPUCount := (if sr_CPUCount incoming = 0 then sr_CPUCount cached else sr_CPUCount incoming),
        sr_DiskSizeMB := (if sr_DiskSizeMB incoming = 0 then sr_DiskSizeMB cached else sr_DiskSizeMB incoming),
        sr_MemoryMB := (if sr_MemoryMB incoming = 0 then sr_MemoryMB cached else sr_MemoryMB incoming),
        sr_InternetAccessPolicy := (if sr_InternetAccessPolicy incoming = InternetAccessUnspecified
                                    then sr_InternetAccessPolicy cached else sr_InternetAccessPolicy incoming),
        sr_OnTimeout := (if sr_OnTimeout incoming = SandboxTimeoutActionUnspecified
                         then sr_OnTimeout cached else sr_OnTimeout incoming)\<rparr>)"

lemma mergeSandboxRuntimeInfo_idem:
  "mergeSandboxRuntimeInfo (mergeSandboxRuntimeInfo e u) u = mergeSandboxRuntimeInfo e u"
  by (simp add: mergeSandboxRuntimeInfo_def)

lemma mergeSandboxRuntimeInfo_assoc:
  "mergeSandboxRuntimeInfo a (mergeSandboxRuntimeInfo b c) =
   mergeSandboxRuntimeInfo (mergeSandboxRuntimeInfo a b) c"
  by (simp add: mergeSandboxRuntimeInfo_def)

lemma merge_record_ID [simp]: "sr_ID incoming \<noteq> [] \<Longrightarrow> sr_ID (mergeSandboxRecordForCache c incoming) = sr_ID incoming"
  by (simp add: mergeSandboxRecordForCache_def Let_def)

lemma merge_record_State [simp]:
  "sr_State (mergeSandboxRecordForCache c i) = (if sr_State i = [] then sr_State c else sr_State i)"
  by (simp add: mergeSandboxRecordForCache_def Let_def)

lemma merge_record_OnTimeout [simp]:
  "sr_OnTimeout (mergeSandboxRecordForCache c i) =
     (if sr_OnTimeout i = SandboxTimeoutActionUnspecified then sr_OnTimeout c else sr_OnTimeout i)"
  by (simp add: mergeSandboxRecordForCache_def Let_def)

section \<open>Operations\<close>

definition NewSandboxStore :: sandbox_store where
  "NewSandboxStore = []"

definition now_if_zero :: "'w runtime \<Rightarrow> time \<Rightarrow> 'w \<Rightarrow> time \<times> 'w" where
  "now_if_zero rt t w = (if IsZero t then rt_now rt w else (t, w))"

definition fill_EnvdURL :: "sandbox_record \<Rightarrow> sandbox_record" where
  "fill_EnvdURL record =
     (if sr_EnvdURL record = [] then record\<lparr>sr_EnvdURL := ri_EnvdURL (sr_RuntimeInfo record)\<rparr> else record)"

text \<open>The defaults \<open>Create\<close> and the first \<open>Upsert\<close> of an id fill in, in the code's order.\<close>

definition fill_defaults :: "'w runtime \<Rightarrow> sandbox_record \<Rightarrow> 'w \<Rightarrow> sandbox_record \<times> 'w" where
  "fill_defaults rt record w =
     (case now_if_zero rt (sr_CreatedAt record) w of (createdAt, w) \<Rightarrow>
       (record\<lparr>
          sr_CreatedAt := createdAt,
          sr_EndAt := (if IsZero (sr_EndAt record) then defaultSandboxEndAt createdAt else sr_EndAt record),
          sr_State := (if sr_State record = [] then Running else sr_State record)\<rparr>, w))"

definition Create :: "'w runtime \<Rightarrow> sandbox_record \<Rightarrow> sandbox_store \<Rightarrow> 'w \<Rightarrow>
    (go_error + sandbox_record) \<times> sandbox_store \<times> 'w" where
  "Create rt record m w =
     (case (if sr_ID record = [] then newSandboxID rt w else (Inr (sr_ID record), w)) of
        (Inl err, w) \<Rightarrow> (Inl err, m, w)
      | (Inr id', w) \<Rightarrow>
          (case fill_defaults rt (record\<lparr>sr_ID := id'\<rparr>) w of (record, w) \<Rightarrow>
            (case Normalize (sr_OnTimeout record) of
               Inl err \<Rightarrow> (Inl err, m, w)
             | Inr onTimeout \<Rightarrow>
                 (let record = fill_EnvdURL (record\<lparr>sr_OnTimeout := onTimeout\<rparr>)
                  in case map_of m (sr_ID record) of
                       Some _ \<Rightarrow> (Inl (ErrorString (''sandbox '' @ sr_ID record @ '' already exists'')), m, w)
                     | None \<Rightarrow> (Inr record, AList.update (sr_ID record) record m, w)))))"

definition Upsert :: "'w runtime \<Rightarrow> sandbox_record \<Rightarrow> sandbox_store \<Rightarrow> 'w \<Rightarrow>
    (go_error + sandbox_record) \<times> sandbox_store \<times> 'w" where
  "Upsert rt record m w =
     (if TrimSpace (sr_ID record) = [] then (Inl (ErrorString ''sandbox id is required''), m, w)
      else
        let record = fill_EnvdURL record
        in case (case map_of m (sr_ID record) of
                   Some cached \<Rightarrow> (mergeSandboxRecordForCache cached record, w)
                 | None \<Rightarrow> fill_defaults rt record w) of (record, w) \<Rightarrow>
             (case Normalize (sr_OnTimeout record) of
                Inl err \<Rightarrow> (Inl err, m, w)
              | Inr onTimeout \<Rightarrow>
                  (let record = record\<lparr>sr_OnTimeout := onTimeout\<rparr>
                   in (Inr record, AList.update (sr_ID record) record m, w))))"

text \<open>
  \<open>List\<close> collects the entries in the map's iteration order and sorts them by creation time;
  \<open>sort.Slice\<close> is not stable, which the arbitrary iteration order already covers.
\<close>

definition List_sandboxes :: "sandbox_store \<Rightarrow> sandbox_record list" where
  "List_sandboxes m = sort_key sr_CreatedAt (map snd m)"

definition Get :: "sandbox_id \<Rightarrow> sandbox_store \<Rightarrow> sandbox_record option" where
  "Get k m = map_of m k"

definition Delete :: "sandbox_id \<Rightarrow> sandbox_store \<Rightarrow> (go_error + bool) \<times> sandbox_store" where
  "Delete k m = (case map_of m k of None \<Rightarrow> (Inr False, m) | Some _ \<Rightarrow> (Inr True, AList.delete k m))"

definition SetState :: "string \<Rightarrow> sandbox_id \<Rightarrow> sandbox_store \<Rightarrow> (go_error + sandbox_record option) \<times> sandbox_store" where
  "SetState state k m =
     (case map_of m k of
        None \<Rightarrow> (Inr None, m)
      | Some record \<Rightarrow>
          (let record = record\<lparr>sr_State := state\<rparr> in (Inr (Some record), AList.update k record m)))"

definition SetEndAt :: "time \<Rightarrow> sandbox_id \<Rightarrow> sandbox_store \<Rightarrow> (go_error + sandbox_record option) \<times> sandbox_store" where
  "SetEndAt endAt k m =
     (case map_of m k of
        None \<Rightarrow> (Inr None, m)
      | Some record \<Rightarrow>
          (let record = record\<lparr>sr_EndAt := endAt\<rparr> in (Inr (Some record), AList.update k record m)))"

definition ExtendEndAt :: "time \<Rightarrow> sandbox_id \<Rightarrow> sandbox_store \<Rightarrow> (go_error + sandbox_record option) \<times> sandbox_store" where
  "ExtendEndAt endAt k m =
     (case map_of m k of
        None \<Rightarrow> (Inr None, m)
      | Some record \<Rightarrow>
          (let endAt = (if sr_EndAt record > endAt then sr_EndAt record else endAt);
               record = record\<lparr>sr_EndAt := endAt\<rparr>
           in (Inr (Some record), AList.update k record m)))"

definition SetStateRuntimeInfoAndEndAt :: "string \<Rightarrow> runtime_info \<Rightarrow> time \<Rightarrow> sandbox_id \<Rightarrow> sandbox_store \<Rightarrow>
    (go_error + sandbox_record option) \<times> sandbox_store" where
  "SetStateRuntimeInfoAndEndAt state info endAt k m =
     (case map_of m k of
        None \<Rightarrow> (Inr None, m)
      | Some record \<Rightarrow>
          (let record = record\<lparr>sr_State := state, sr_RuntimeInfo := info, sr_EnvdURL := ri_EnvdURL info\<rparr>;
               record = (if IsZero endAt then record else record\<lparr>sr_EndAt := endAt\<rparr>)
           in (Inr (Some record), AList.update k record m)))"

definition SetStateAndRuntimeInfo :: "string \<Rightarrow> runtime_info \<Rightarrow> sandbox_id \<Rightarrow> sandbox_store \<Rightarrow>
    (go_error + sandbox_record option) \<times> sandbox_store" where
  "SetStateAndRuntimeInfo state info k m = SetStateRuntimeInfoAndEndAt state info 0 k m"

section \<open>The setters update one entry\<close>

interpretation set_state: entry_update "SetState st" "\<lambda>r. r\<lparr>sr_State := st\<rparr>" for st
  by unfold_locales (simp_all add: SetState_def Let_def)

interpretation set_end: entry_update "SetEndAt e" "\<lambda>r. r\<lparr>sr_EndAt := e\<rparr>" for e
  by unfold_locales (simp_all add: SetEndAt_def Let_def)

interpretation extend_end: entry_update "ExtendEndAt e" "\<lambda>r. r\<lparr>sr_EndAt := max (sr_EndAt r) e\<rparr>" for e
  by unfold_locales (simp_all add: ExtendEndAt_def Let_def max_def)

text \<open>What \<open>SetStateRuntimeInfoAndEndAt\<close> makes of the record it finds.\<close>

definition resumed_record :: "string \<Rightarrow> runtime_info \<Rightarrow> time \<Rightarrow> sandbox_record \<Rightarrow> sandbox_record" where
  "resumed_record state info endAt r = r\<lparr>sr_State := state, sr_RuntimeInfo := info,
     sr_EnvdURL := ri_EnvdURL info, sr_EndAt := (if IsZero endAt then sr_EndAt r else endAt)\<rparr>"

interpretation set_resumed: entry_update "SetStateRuntimeInfoAndEndAt st info e" "resumed_record st info e" for st info e
  by unfold_locales (simp_all add: SetStateRuntimeInfoAndEndAt_def resumed_record_def Let_def)

interpretation set_inspected: entry_update "SetStateAndRuntimeInfo st info" "resumed_record st info 0" for st info
  by unfold_locales (simp_all add: SetStateAndRuntimeInfo_def set_resumed.op_missing set_resumed.op_present)

lemma resumed_record_simps [simp]:
  "sr_ID (resumed_record st info e r) = sr_ID r"
  "sr_State (resumed_record st info e r) = st"
  "sr_RuntimeInfo (resumed_record st info e r) = info"
  "sr_EndAt (resumed_record st info e r) = (if e = 0 then sr_EndAt r else e)"
  "sr_OnTimeout (resumed_record st info e r) = sr_OnTimeout r"
  "sr_CreatedAt (resumed_record st info e r) = sr_CreatedAt r"
  "sr_EnvdURL (resumed_record st info e r) = ri_EnvdURL info"
  by (simp_all add: resumed_record_def)

section \<open>The store invariant\<close>

text \<open>
  Every entry is filed under its own non-empty id, and its timeout action is one the expiry code
  knows (\<open>Normalize\<close> has been applied).
\<close>

definition record_ok :: "sandbox_id \<Rightarrow> sandbox_record \<Rightarrow> bool" where
  "record_ok k r \<longleftrightarrow> sr_ID r = k \<and> k \<noteq> [] \<and>
     (sr_OnTimeout r = SandboxTimeoutActionKill \<or> sr_OnTimeout r = SandboxTimeoutActionPause)"

definition store_inv :: "sandbox_store \<Rightarrow> bool" where
  "store_inv m \<longleftrightarrow> wf_map m \<and> (\<forall>k r. map_of m k = Some r \<longrightarrow> record_ok k r)"

lemma store_invD: "store_inv m \<Longrightarrow> map_of m k = Some r \<Longrightarrow> record_ok k r"
  by (simp add: store_inv_def)

lemma store_inv_wf [dest]: "store_inv m \<Longrightarrow> wf_map m"
  by (simp add: store_inv_def)

lemma store_inv_NewSandboxStore [inv_intros]: "store_inv NewSandboxStore"
  by (simp add: store_inv_def NewSandboxStore_def)

lemma store_inv_update [inv_intros]:
  "store_inv m \<Longrightarrow> record_ok k r \<Longrightarrow> store_inv (AList.update k r m)"
  by (auto simp: store_inv_def)

lemma store_inv_delete [inv_intros]: "store_inv m \<Longrightarrow> store_inv (AList.delete k m)"
  by (auto simp: store_inv_def)

lemma store_inv_Delete [inv_intros]: "store_inv m \<Longrightarrow> store_inv (snd (Delete k m))"
  by (auto simp: Delete_def inv_intros split: option.splits)

lemma store_inv_setters [inv_intros]:
  assumes "store_inv m"
  shows "store_inv (snd (SetState st k m))" "store_inv (snd (SetEndAt e k m))"
    "store_inv (snd (ExtendEndAt e k m))" "store_inv (snd (SetStateRuntimeInfoAndEndAt st info e k m))"
    "store_inv (snd (SetStateAndRuntimeInfo st info k m))"
  using assms
  by (cases "map_of m k"; auto dest: store_invD simp: record_ok_def intro!: store_inv_update
      simp: set_state.op_missing set_state.op_present set_end.op_missing set_end.op_present
        extend_end.op_missing extend_end.op_present set_resumed.op_missing set_resumed.op_present
        set_inspected.op_missing set_inspected.op_present)+

lemma fill_defaults_simps [simp]:
  "sr_ID (fst (fill_defaults rt r w)) = sr_ID r"
  "sr_OnTimeout (fst (fill_defaults rt r w)) = sr_OnTimeout r"
  by (simp_all add: fill_defaults_def split: prod.splits)

lemma fill_defaults_ID: "fill_defaults rt r w = (r', w') \<Longrightarrow> sr_ID r' = sr_ID r \<and> sr_OnTimeout r' = sr_OnTimeout r"
  using fill_defaults_simps [of rt r w] by simp

lemma fill_EnvdURL_simps [simp]:
  "sr_ID (fill_EnvdURL r) = sr_ID r"
  "sr_OnTimeout (fill_EnvdURL r) = sr_OnTimeout r"
  "sr_State (fill_EnvdURL r) = sr_State r"
  "sr_EndAt (fill_EnvdURL r) = sr_EndAt r"
  "sr_CreatedAt (fill_EnvdURL r) = sr_CreatedAt r"
  "sr_RuntimeInfo (fill_EnvdURL r) = sr_RuntimeInfo r"
  by (simp_all add: fill_EnvdURL_def)

lemma newSandboxID_nonempty: "newSandboxID rt w = (Inr i, w') \<Longrightarrow> i \<noteq> []"
  by (auto simp: newSandboxID_def split: prod.splits sum.splits)

section \<open>Create and Upsert\<close>

lemma Create_spec:
  assumes run: "Create rt r m w = (res, m', w')"
  shows "case res of
      Inl e \<Rightarrow> m' = m
    | Inr r' \<Rightarrow> map_of m (sr_ID r') = None \<and> m' = AList.update (sr_ID r') r' m \<and> record_ok (sr_ID r') r' \<and>
        (sr_ID r \<noteq> [] \<longrightarrow> sr_ID r' = sr_ID r) \<and>
        Normalize (sr_OnTimeout r) = Inr (sr_OnTimeout r') \<and>
        sr_State r' = (if sr_State r = [] then Running else sr_State r) \<and>
        (sr_CreatedAt r \<noteq> 0 \<longrightarrow> sr_CreatedAt r' = sr_CreatedAt r) \<and>
        sr_EndAt r' = (if sr_EndAt r = 0 then sr_CreatedAt r' + 15000000000 else sr_EndAt r) \<and>
        sr_RuntimeInfo r' = sr_RuntimeInfo r"
proof -
  obtain i w1 where i: "(if sr_ID r = [] then newSandboxID rt w else (Inr (sr_ID r), w)) = (i, w1)"
    by (cases "if sr_ID r = [] then newSandboxID rt w else (Inr (sr_ID r), w)")
  show ?thesis
  proof (cases i)
    case (Inl e)
    with run i show ?thesis by (auto simp: Create_def)
  next
    case (Inr k)
    have k: "k \<noteq> []" "sr_ID r \<noteq> [] \<longrightarrow> k = sr_ID r"
      using i Inr by (auto split: if_splits dest: newSandboxID_nonempty)
    obtain f w2 where f: "fill_defaults rt (r\<lparr>sr_ID := k\<rparr>) w1 = (f, w2)"
      by (cases "fill_defaults rt (r\<lparr>sr_ID := k\<rparr>) w1")
    then have fs: "sr_ID f = k" "sr_OnTimeout f = sr_OnTimeout r"
      "sr_State f = (if sr_State r = [] then Running else sr_State r)"
      "sr_CreatedAt r \<noteq> 0 \<longrightarrow> sr_CreatedAt f = sr_CreatedAt r" "sr_RuntimeInfo f = sr_RuntimeInfo r"
      "sr_EndAt f = (if sr_EndAt r = 0 then sr_CreatedAt f + 15000000000 else sr_EndAt r)"
      by (auto simp: fill_defaults_def now_if_zero_def defaultSandboxEndAt_eq split: prod.splits)
    show ?thesis
    proof (cases "Normalize (sr_OnTimeout f)")
      case (Inl e)
      with run i Inr f show ?thesis by (auto simp: Create_def)
    next
      case (Inr a)
      with fs have a: "Normalize (sr_OnTimeout r) = Inr a" by simp
      have run': "Create rt r m w = (case map_of m k of
          Some _ \<Rightarrow> (Inl (ErrorString (''sandbox '' @ k @ '' already exists'')), m, w2)
        | None \<Rightarrow> (Inr (fill_EnvdURL (f\<lparr>sr_OnTimeout := a\<rparr>)),
            AList.update k (fill_EnvdURL (f\<lparr>sr_OnTimeout := a\<rparr>)) m, w2))"
        using i \<open>i = Inr k\<close> f Inr fs(1) by (simp add: Create_def Let_def split: option.split)
      with run fs k a Normalize_range [OF a] show ?thesis
        by (auto simp: record_ok_def split: option.splits)
    qed
  qed
qed

lemma store_inv_Create [inv_intros]: "store_inv m \<Longrightarrow> store_inv (fst (snd (Create rt r m w)))"
  using Create_spec [of rt r m w "fst (Create rt r m w)" "fst (snd (Create rt r m w))" "snd (snd (Create rt r m w))"]
  by (auto intro: store_inv_update split: sum.splits)

lemma store_inv_Upsert [inv_intros]:
  assumes "store_inv m"
  shows "store_inv (fst (snd (Upsert rt r m w)))"
proof (cases "TrimSpace (sr_ID r) = []")
  case True
  with assms show ?thesis by (simp add: Upsert_def)
next
  case False
  then have id: "sr_ID r \<noteq> []" by auto
  obtain f w1 where f: "(case map_of m (sr_ID (fill_EnvdURL r)) of
        Some cached \<Rightarrow> (mergeSandboxRecordForCache cached (fill_EnvdURL r), w)
      | None \<Rightarrow> fill_defaults rt (fill_EnvdURL r) w) = (f, w1)" by (rule prod.exhaust)
  have "sr_ID f = sr_ID r"
    using f id fill_defaults_ID [of rt "fill_EnvdURL r" w f w1] by (auto split: option.splits)
  with False f assms id show ?thesis
    by (auto simp: Upsert_def Let_def record_ok_def dest!: Normalize_range intro!: store_inv_update split: sum.split)
qed

text \<open>An \<open>Upsert\<close> that brings nothing but the id changes nothing.\<close>

definition blank_info :: runtime_info where
  "blank_info = \<lparr>ri_SandboxID = [], ri_EnvdURL = [], ri_ContainerID = [], ri_ContainerName = [],
     ri_ContainerIP = [], ri_HostPort = [], ri_MachineID = [], ri_VolumeMounts = [], ri_PublishedPorts = []\<rparr>"

definition blank_record :: "sandbox_id \<Rightarrow> sandbox_record" where
  "blank_record k = \<lparr>sr_ID = k, sr_TemplateID = [], sr_Alias = [], sr_ClientID = [], sr_EnvdVersion = [],
     sr_Metadata = [], sr_EnvdURL = [], sr_RuntimeInfo = blank_info, sr_CreatedAt = 0, sr_EndAt = 0,
     sr_State = [], sr_CPUCount = 0, sr_DiskSizeMB = 0, sr_MemoryMB = 0,
     sr_InternetAccessPolicy = [], sr_OnTimeout = []\<rparr>"

lemma merge_blank_info: "mergeSandboxRuntimeInfo e blank_info = e"
  by (simp add: mergeSandboxRuntimeInfo_def blank_info_def)

lemma merge_blank:
  assumes "sr_ID c = k" and "sr_EnvdURL c = [] \<Longrightarrow> ri_EnvdURL (sr_RuntimeInfo c) = []"
  shows "mergeSandboxRecordForCache c (blank_record k) = c"
  using assms
  by (cases c) (auto simp: mergeSandboxRecordForCache_def blank_record_def merge_blank_info Let_def go_constants)

lemma merge_record_idem:
  "mergeSandboxRecordForCache (mergeSandboxRecordForCache c i) i = mergeSandboxRecordForCache c i"
  by (simp add: mergeSandboxRecordForCache_def mergeSandboxRuntimeInfo_idem Let_def)

text \<open>Repeating an \<open>Upsert\<close> changes nothing more.\<close>

lemma merge_normalized_fixed:
  assumes "Normalize (sr_OnTimeout (mergeSandboxRecordForCache c i)) = Inr a"
  shows "mergeSandboxRecordForCache ((mergeSandboxRecordForCache c i)\<lparr>sr_OnTimeout := a\<rparr>) i
    = (mergeSandboxRecordForCache c i)\<lparr>sr_OnTimeout := a\<rparr>"
proof -
  have "sr_OnTimeout i = a" if "sr_OnTimeout i \<noteq> SandboxTimeoutActionUnspecified"
    using assms that by (auto simp: Normalize_def split: if_splits)
  then have "mergeSandboxRecordForCache ((mergeSandboxRecordForCache c i)\<lparr>sr_OnTimeout := a\<rparr>) i
    = (mergeSandboxRecordForCache (mergeSandboxRecordForCache c i) i)\<lparr>sr_OnTimeout := a\<rparr>"
    by (intro sandbox_record.equality) (simp_all add: mergeSandboxRecordForCache_def Let_def)
  then show ?thesis by (simp add: merge_record_idem)
qed

lemma merge_self_info: "mergeSandboxRuntimeInfo i i = i"
  by (simp add: mergeSandboxRuntimeInfo_def)

lemma merge_defaults_fixed:
  assumes f: "fill_defaults rt i w = (f, w1)" and a: "Normalize (sr_OnTimeout f) = Inr a"
    and "sr_EnvdURL i = [] \<Longrightarrow> ri_EnvdURL (sr_RuntimeInfo i) = []"
  shows "mergeSandboxRecordForCache (f\<lparr>sr_OnTimeout := a\<rparr>) i = f\<lparr>sr_OnTimeout := a\<rparr>"
proof -
  let ?t = "fst (now_if_zero rt (sr_CreatedAt i) w)"
  from f have t: "f = i\<lparr>sr_CreatedAt := ?t, sr_EndAt := (if sr_EndAt i = 0 then defaultSandboxEndAt ?t else sr_EndAt i),
      sr_State := (if sr_State i = [] then Running else sr_State i)\<rparr>" "sr_CreatedAt i \<noteq> 0 \<Longrightarrow> ?t = sr_CreatedAt i"
    by (auto simp: fill_defaults_def now_if_zero_def split: prod.splits)
  have "sr_OnTimeout i = a" if "sr_OnTimeout i \<noteq> SandboxTimeoutActionUnspecified"
    using a that t by (auto simp: Normalize_def split: if_splits)
  then show ?thesis using t assms(3)
    by (intro sandbox_record.equality) (auto simp: mergeSandboxRecordForCache_def Let_def merge_self_info)
qed

lemma fill_EnvdURL_fixed: "sr_EnvdURL (fill_EnvdURL r) = [] \<Longrightarrow> ri_EnvdURL (sr_RuntimeInfo (fill_EnvdURL r)) = []"
  by (auto simp: fill_EnvdURL_def split: if_splits)

lemma Upsert_idem:
  assumes "Upsert rt r m w = (Inr x, m', w')"
  shows "map_of m' (sr_ID r) = Some x \<and> Upsert rt r m' w' = (Inr x, m', w')"
proof -
  have id: "TrimSpace (sr_ID r) \<noteq> []" using assms by (auto simp: Upsert_def)
  let ?i = "fill_EnvdURL r"
  obtain f w1 where f: "(case map_of m (sr_ID r) of
        Some cached \<Rightarrow> (mergeSandboxRecordForCache cached ?i, w)
      | None \<Rightarrow> fill_defaults rt ?i w) = (f, w1)" by (rule prod.exhaust)
  from assms id f obtain a where a: "Normalize (sr_OnTimeout f) = Inr a" and x: "x = f\<lparr>sr_OnTimeout := a\<rparr>"
    and m': "m' = AList.update (sr_ID f) x m" and w': "w' = w1"
    by (auto simp: Upsert_def Let_def split: sum.splits)
  have fid: "sr_ID f = sr_ID r"
    using f id fill_defaults_ID [of rt ?i w f w1] by (cases "sr_ID r = []") (auto split: option.splits)
  have fixed: "mergeSandboxRecordForCache x ?i = x"
  proof (cases "map_of m (sr_ID r)")
    case None
    with f a merge_defaults_fixed [of rt ?i w f w1 a] fill_EnvdURL_fixed [of r] show ?thesis by (simp add: x)
  next
    case (Some c)
    with f a merge_normalized_fixed [of c ?i a] show ?thesis by (auto simp: x)
  qed
  have na: "Normalize (sr_OnTimeout x) = Inr a" using Normalize_normalized [OF a] by (simp add: x)
  have "map_of m' (sr_ID r) = Some x" by (simp add: m' fid)
  moreover from this have "AList.update (sr_ID r) x m' = m'" by (rule alist_update_same)
  ultimately show ?thesis using id fixed na fid m' w' by (simp add: Upsert_def Let_def x)
qed
text \<open>The records \<open>List\<close> returns are the map's, in creation order.\<close>

lemma List_sandboxes_mset: "mset (List_sandboxes m) = mset (map snd m)"
  by (simp add: List_sandboxes_def)

lemma List_sandboxes_set: "set (List_sandboxes m) = snd ` set m"
  by (simp add: List_sandboxes_def)

lemma List_sandboxes_ids:
  assumes "store_inv m"
  shows "distinct (map sr_ID (List_sandboxes m)) \<and> set (map sr_ID (List_sandboxes m)) = set (map fst m)"
proof -
  have ids: "map (sr_ID \<circ> snd) m = map fst m"
    using assms by (auto simp: store_inv_def record_ok_def intro!: map_cong)
  have "mset (map sr_ID (List_sandboxes m)) = mset (map fst m)"
    by (simp add: List_sandboxes_mset ids [symmetric] image_mset.compositionality)
  from mset_eq_imp_distinct_iff [OF this] mset_eq_setD [OF this] assms show ?thesis
    by (simp add: store_inv_def)
qed

end
