(* ===== verification/Deadlines.thy ===== *)
theory Deadlines
  imports SandboxStore
begin

text \<open>
  The deadline manager (\<open>sandboxDeadlineManager\<close> in \<open>internal/gateway/sandbox_deadlines.go\<close>): the
  table of deadlines, the \<open>stopped\<close> flag, the \<open>WaitGroup\<close> counter, and the pool of all timers ever
  created with \<open>time.AfterFunc\<close>, so that a timer that has fired and cannot be recalled any more is
  part of the state. Each method that takes the manager's mutex is one atomic operation; a callback
  is three steps (the timer fires, the callback enters under the mutex, the callback returns).
\<close>

section \<open>State\<close>

datatype timer_status = Pending | Fired | InCallback | Finished | Recalled

text \<open>A timer remembers what its closure captured: the sandbox id and the expected \<open>EndAt\<close>.\<close>

record deadline_timer =
  tm_sandbox :: sandbox_id
  tm_expected :: time
  tm_due :: time
  tm_status :: timer_status

record sandbox_deadline =
  dl_timer :: nat
  dl_fireAt :: time

record deadline_manager =
  dm_timers :: "(sandbox_id, sandbox_deadline) gomap"
  dm_stopped :: bool
  dm_wg :: nat
  dm_pool :: "deadline_timer list"

definition newSandboxDeadlineManager :: deadline_manager where
  "newSandboxDeadlineManager = \<lparr>dm_timers = [], dm_stopped = False, dm_wg = 0, dm_pool = []\<rparr>"

section \<open>Operations\<close>

text \<open>\<open>Timer.Stop\<close> prevents a timer that has not fired from firing; otherwise it does nothing.\<close>

definition recall :: "deadline_timer \<Rightarrow> deadline_timer" where
  "recall t = (if tm_status t = Pending then t\<lparr>tm_status := Recalled\<rparr> else t)"

definition timer_Stop :: "nat \<Rightarrow> deadline_manager \<Rightarrow> deadline_manager" where
  "timer_Stop i m = m\<lparr>dm_pool := (dm_pool m)[i := recall (dm_pool m ! i)]\<rparr>"

text \<open>\<open>time.AfterFunc(max(0, fireAt - now), ...)\<close> and the entry for it.\<close>

definition arm :: "sandbox_id \<Rightarrow> time \<Rightarrow> time \<Rightarrow> time \<Rightarrow> deadline_manager \<Rightarrow> deadline_manager" where
  "arm sandboxID fireAt expected now m =
     (let delay = (if fireAt - now < 0 then 0 else fireAt - now);
          timer = \<lparr>tm_sandbox = sandboxID, tm_expected = expected, tm_due = now + delay, tm_status = Pending\<rparr>
      in m\<lparr>dm_pool := dm_pool m @ [timer],
           dm_timers := AList.update sandboxID \<lparr>dl_timer = length (dm_pool m), dl_fireAt = fireAt\<rparr> (dm_timers m)\<rparr>)"

definition schedule :: "sandbox_id \<Rightarrow> time \<Rightarrow> time \<Rightarrow> time \<Rightarrow> deadline_manager \<Rightarrow> deadline_manager" where
  "schedule sandboxID fireAt expected now m =
     (if dm_stopped m then m
      else case map_of (dm_timers m) sandboxID of
             Some deadline \<Rightarrow>
               (if dl_fireAt deadline = fireAt then m
                else arm sandboxID fireAt expected now (timer_Stop (dl_timer deadline) m))
           | None \<Rightarrow> arm sandboxID fireAt expected now m)"

definition cancel :: "sandbox_id \<Rightarrow> deadline_manager \<Rightarrow> deadline_manager" where
  "cancel sandboxID m =
     (case map_of (dm_timers m) sandboxID of
        Some deadline \<Rightarrow>
          (let m = timer_Stop (dl_timer deadline) m
           in m\<lparr>dm_timers := AList.delete sandboxID (dm_timers m)\<rparr>)
      | None \<Rightarrow> m)"

text \<open>
  \<open>shutdown\<close>: the part under the mutex, then the \<open>select\<close>, which returns nil once the
  \<open>WaitGroup\<close> is empty or the context's error once that is done.
\<close>

definition shutdown_close :: "deadline_manager \<Rightarrow> deadline_manager" where
  "shutdown_close m =
     (if dm_stopped m then m
      else (fold (\<lambda>(sandboxID, deadline) m. timer_Stop (dl_timer deadline) m) (dm_timers m) m)
             \<lparr>dm_stopped := True, dm_timers := []\<rparr>)"

definition shutdown_returns :: "go_error option \<Rightarrow> deadline_manager \<Rightarrow> go_error option \<Rightarrow> bool" where
  "shutdown_returns ctxErr m res \<longleftrightarrow> (res = None \<and> dm_wg m = 0) \<or> (ctxErr \<noteq> None \<and> res = ctxErr)"

text \<open>The three steps of the function passed to \<open>time.AfterFunc\<close>.\<close>

definition set_status :: "nat \<Rightarrow> timer_status \<Rightarrow> deadline_manager \<Rightarrow> deadline_manager" where
  "set_status i st m = m\<lparr>dm_pool := (dm_pool m)[i := (dm_pool m ! i)\<lparr>tm_status := st\<rparr>]\<rparr>"

definition callback_enter :: "nat \<Rightarrow> deadline_manager \<Rightarrow> deadline_manager" where
  "callback_enter i m =
     (if dm_stopped m then set_status i Finished m
      else (set_status i InCallback m)\<lparr>dm_wg := dm_wg m + 1\<rparr>)"

definition callback_exit :: "nat \<Rightarrow> deadline_manager \<Rightarrow> deadline_manager" where
  "callback_exit i m = (set_status i Finished m)\<lparr>dm_wg := dm_wg m - 1\<rparr>"

inductive dm_step :: "deadline_manager \<Rightarrow> deadline_manager \<Rightarrow> bool" where
  do_schedule: "dm_step m (schedule k fireAt expected now m)"
| do_cancel: "dm_step m (cancel k m)"
| do_shutdown: "dm_step m (shutdown_close m)"
| timer_fires: "i < length (dm_pool m) \<Longrightarrow> tm_status (dm_pool m ! i) = Pending \<Longrightarrow>
    tm_due (dm_pool m ! i) \<le> now \<Longrightarrow> dm_step m (set_status i Fired m)"
| callback_enters: "i < length (dm_pool m) \<Longrightarrow> tm_status (dm_pool m ! i) = Fired \<Longrightarrow>
    dm_step m (callback_enter i m)"
| callback_exits: "i < length (dm_pool m) \<Longrightarrow> tm_status (dm_pool m ! i) = InCallback \<Longrightarrow>
    dm_step m (callback_exit i m)"

inductive_cases dm_stepE: "dm_step m m'"

section \<open>The invariant\<close>

definition in_callback :: "deadline_timer list \<Rightarrow> nat" where
  "in_callback pool = length (filter (\<lambda>t. tm_status t = InCallback) pool)"

text \<open>The table points to timers of its own sandbox, and every pending timer is in the table.\<close>

definition tracked :: "deadline_manager \<Rightarrow> bool" where
  "tracked m \<longleftrightarrow>
     (\<forall>k d. map_of (dm_timers m) k = Some d \<longrightarrow>
        dl_timer d < length (dm_pool m) \<and> tm_sandbox (dm_pool m ! dl_timer d) = k \<and>
        dl_fireAt d \<le> tm_due (dm_pool m ! dl_timer d)) \<and>
     (\<forall>i < length (dm_pool m). tm_status (dm_pool m ! i) = Pending \<longrightarrow>
        (\<exists>d. map_of (dm_timers m) (tm_sandbox (dm_pool m ! i)) = Some d \<and> dl_timer d = i))"

definition dm_inv :: "deadline_manager \<Rightarrow> bool" where
  "dm_inv m \<longleftrightarrow> dm_wg m = in_callback (dm_pool m) \<and> wf_map (dm_timers m) \<and> tracked m \<and>
     (dm_stopped m \<longrightarrow> dm_timers m = [])"

lemma length_filter_update:
  "i < length xs \<Longrightarrow> length (filter P (xs[i := y])) + (if P (xs ! i) then 1 else 0)
     = length (filter P xs) + (if P y then 1 else 0)"
proof (induction xs arbitrary: i)
  case Nil
  then show ?case by simp
next
  case (Cons x xs)
  then show ?case by (cases i) auto
qed

lemma in_callback_update:
  "i < length pool \<Longrightarrow> in_callback (pool[i := t]) + (if tm_status (pool ! i) = InCallback then 1 else 0)
     = in_callback pool + (if tm_status t = InCallback then 1 else 0)"
  unfolding in_callback_def by (rule length_filter_update)

lemma recall_simps [simp]:
  "tm_sandbox (recall t) = tm_sandbox t" "tm_expected (recall t) = tm_expected t" "tm_due (recall t) = tm_due t"
  "tm_status (recall t) \<noteq> Pending" "tm_status (recall t) = InCallback \<longleftrightarrow> tm_status t = InCallback"
  by (simp_all add: recall_def)

lemma timer_Stop_simps [simp]:
  "dm_timers (timer_Stop i m) = dm_timers m" "dm_stopped (timer_Stop i m) = dm_stopped m"
  "dm_wg (timer_Stop i m) = dm_wg m" "length (dm_pool (timer_Stop i m)) = length (dm_pool m)"
  by (simp_all add: timer_Stop_def)

lemma timer_Stop_pool:
  "j < length (dm_pool m) \<Longrightarrow> dm_pool (timer_Stop i m) ! j = (if i = j then recall (dm_pool m ! j) else dm_pool m ! j)"
  by (auto simp: timer_Stop_def nth_list_update)

lemma in_callback_timer_Stop [simp]: "in_callback (dm_pool (timer_Stop i m)) = in_callback (dm_pool m)"
proof (cases "i < length (dm_pool m)")
  case True
  then show ?thesis using in_callback_update [of i "dm_pool m" "recall (dm_pool m ! i)"]
    by (simp add: timer_Stop_def split: if_splits)
next
  case False
  then show ?thesis by (simp add: timer_Stop_def list_update_beyond)
qed

lemma in_callback_set_status:
  assumes "i < length (dm_pool m)"
  shows "in_callback (dm_pool (set_status i st m)) + (if tm_status (dm_pool m ! i) = InCallback then 1 else 0)
    = in_callback (dm_pool m) + (if st = InCallback then 1 else 0)"
  using in_callback_update [OF assms, of "(dm_pool m ! i)\<lparr>tm_status := st\<rparr>"]
  by (simp add: set_status_def)

lemma set_status_simps [simp]:
  "dm_timers (set_status i st m) = dm_timers m" "dm_stopped (set_status i st m) = dm_stopped m"
  "dm_wg (set_status i st m) = dm_wg m" "length (dm_pool (set_status i st m)) = length (dm_pool m)"
  by (simp_all add: set_status_def)

lemma set_status_pool:
  "j < length (dm_pool m) \<Longrightarrow> dm_pool (set_status i st m) ! j
     = (if i = j then (dm_pool m ! j)\<lparr>tm_status := st\<rparr> else dm_pool m ! j)"
  by (auto simp: set_status_def nth_list_update)

lemma tracked_set_status: "tracked m \<Longrightarrow> st \<noteq> Pending \<Longrightarrow> tracked (set_status i st m)"
  unfolding tracked_def by (auto simp: set_status_pool)

lemma tracked_cong:
  "dm_timers m' = dm_timers m \<Longrightarrow> dm_pool m' = dm_pool m \<Longrightarrow> tracked m' = tracked m"
  by (simp add: tracked_def)

lemma fold_timer_Stop:
  fixes ds m
  defines "m' \<equiv> fold (\<lambda>(sandboxID, deadline) m. timer_Stop (dl_timer deadline) m) ds m"
  shows "dm_timers m' = dm_timers m \<and> dm_stopped m' = dm_stopped m \<and> dm_wg m' = dm_wg m \<and>
    length (dm_pool m') = length (dm_pool m) \<and> in_callback (dm_pool m') = in_callback (dm_pool m) \<and>
    (\<forall>j < length (dm_pool m). tm_sandbox (dm_pool m' ! j) = tm_sandbox (dm_pool m ! j) \<and>
       (tm_status (dm_pool m' ! j) = Pending \<longrightarrow>
          tm_status (dm_pool m ! j) = Pending \<and> j \<notin> dl_timer ` snd ` set ds))"
  unfolding m'_def
proof (induction ds arbitrary: m)
  case Nil
  then show ?case by simp
next
  case (Cons p ds)
  obtain k d where p: "p = (k, d)" by (cases p)
  show ?case using Cons [of "timer_Stop (dl_timer d) m"]
    by (simp add: p timer_Stop_pool) (auto simp: timer_Stop_pool split: if_splits)
qed

section \<open>Every step keeps the invariant\<close>

lemma dm_inv_new [inv_intros]: "dm_inv newSandboxDeadlineManager"
  by (simp add: dm_inv_def newSandboxDeadlineManager_def in_callback_def tracked_def)

lemma tracked_entry:
  "tracked m \<Longrightarrow> map_of (dm_timers m) k = Some d \<Longrightarrow>
     dl_timer d < length (dm_pool m) \<and> tm_sandbox (dm_pool m ! dl_timer d) = k \<and>
     dl_fireAt d \<le> tm_due (dm_pool m ! dl_timer d)"
  by (simp add: tracked_def)

lemma tracked_pending:
  "tracked m \<Longrightarrow> i < length (dm_pool m) \<Longrightarrow> tm_status (dm_pool m ! i) = Pending \<Longrightarrow>
     \<exists>d. map_of (dm_timers m) (tm_sandbox (dm_pool m ! i)) = Some d \<and> dl_timer d = i"
  by (simp add: tracked_def)

lemma tracked_cancel: assumes tr: "tracked m" shows "tracked (cancel k m)"
proof (cases "map_of (dm_timers m) k")
  case None
  with tr show ?thesis by (simp add: cancel_def)
next
  case (Some d)
  let ?m = "timer_Stop (dl_timer d) m"
  have pend: "\<exists>d'. map_of (AList.delete k (dm_timers m)) (tm_sandbox (dm_pool m ! i)) = Some d' \<and> dl_timer d' = i"
    if i: "i < length (dm_pool m)" "tm_status (dm_pool m ! i) = Pending" "i \<noteq> dl_timer d" for i
  proof -
    obtain d' where d': "map_of (dm_timers m) (tm_sandbox (dm_pool m ! i)) = Some d'" "dl_timer d' = i"
      using tracked_pending [OF tr i(1,2)] by blast
    with Some i(3) have "tm_sandbox (dm_pool m ! i) \<noteq> k" by auto
    with d' show ?thesis by simp
  qed
  then show ?thesis using tracked_entry [OF tr]
    unfolding tracked_def cancel_def by (simp add: Some Let_def timer_Stop_pool)
qed

lemma dm_inv_cancel [inv_intros]: assumes "dm_inv m" shows "dm_inv (cancel k m)"
proof -
  from assms have "tracked (cancel k m)" by (simp add: dm_inv_def tracked_cancel)
  with assms show ?thesis by (simp add: dm_inv_def cancel_def Let_def split: option.splits)
qed

lemma tracked_arm:
  assumes tr: "tracked m" and fresh: "map_of (dm_timers m) k = None"
  shows "tracked (arm k fireAt e now m)"
proof -
  have "tm_sandbox (dm_pool m ! i) \<noteq> k" if "i < length (dm_pool m)" "tm_status (dm_pool m ! i) = Pending" for i
    using tracked_pending [OF tr that] fresh by auto
  then show ?thesis using tracked_entry [OF tr] tracked_pending [OF tr]
    unfolding tracked_def arm_def by (auto simp: Let_def nth_append less_Suc_eq)
qed

lemma dm_inv_arm:
  assumes "dm_inv m" "\<not> dm_stopped m" "map_of (dm_timers m) k = None"
  shows "dm_inv (arm k fireAt e now m)"
proof -
  from assms have "tracked (arm k fireAt e now m)" by (simp add: dm_inv_def tracked_arm)
  with assms show ?thesis by (simp add: dm_inv_def arm_def Let_def in_callback_def)
qed

text \<open>Replacing a deadline is cancelling it and arming a fresh one.\<close>

lemma tracked_replace:
  assumes "tracked m" and d: "map_of (dm_timers m) k = Some d"
  shows "tracked (arm k fireAt e now (timer_Stop (dl_timer d) m))"
proof -
  have "tracked (arm k fireAt e now (cancel k m))"
    by (rule tracked_arm [OF tracked_cancel [OF assms(1)]]) (simp add: cancel_def Let_def d)
  moreover have "map_of (dm_timers (arm k fireAt e now (cancel k m)))
      = map_of (dm_timers (arm k fireAt e now (timer_Stop (dl_timer d) m)))"
    by (rule ext) (simp add: arm_def cancel_def Let_def d)
  moreover have "dm_pool (arm k fireAt e now (cancel k m)) = dm_pool (arm k fireAt e now (timer_Stop (dl_timer d) m))"
    by (simp add: arm_def cancel_def Let_def d)
  ultimately show ?thesis by (simp add: tracked_def)
qed

lemma dm_inv_replace:
  assumes "dm_inv m" "\<not> dm_stopped m" "map_of (dm_timers m) k = Some d"
  shows "dm_inv (arm k fireAt e now (timer_Stop (dl_timer d) m))"
proof -
  from assms have "tracked (arm k fireAt e now (timer_Stop (dl_timer d) m))"
    by (simp add: dm_inv_def tracked_replace)
  moreover have "in_callback (dm_pool (arm k fireAt e now (timer_Stop (dl_timer d) m))) = in_callback (dm_pool m)"
    using in_callback_timer_Stop [of "dl_timer d" m] by (simp add: arm_def Let_def in_callback_def)
  ultimately show ?thesis using assms by (simp add: dm_inv_def arm_def Let_def)
qed

lemma dm_inv_schedule [inv_intros]: "dm_inv m \<Longrightarrow> dm_inv (schedule k fireAt e now m)"
  by (simp add: schedule_def dm_inv_arm dm_inv_replace split: option.split)

lemma dm_inv_shutdown_close [inv_intros]:
  assumes "dm_inv m"
  shows "dm_inv (shutdown_close m)"
proof -
  let ?m = "fold (\<lambda>(sandboxID, deadline) m. timer_Stop (dl_timer deadline) m) (dm_timers m) m"
  have "tm_status (dm_pool ?m ! j) \<noteq> Pending" if "j < length (dm_pool m)" for j
  proof
    assume "tm_status (dm_pool ?m ! j) = Pending"
    with that fold_timer_Stop [of "dm_timers m" m]
    have "tm_status (dm_pool m ! j) = Pending" and no: "j \<notin> dl_timer ` snd ` set (dm_timers m)" by auto
    with assms that obtain k d where "map_of (dm_timers m) k = Some d" "dl_timer d = j"
      by (auto simp: dm_inv_def tracked_def)
    then have "(k, d) \<in> set (dm_timers m)" by (blast dest: map_of_SomeD)
    with no \<open>dl_timer d = j\<close> show False by force
  qed
  with assms show ?thesis using fold_timer_Stop [of "dm_timers m" m]
    by (auto simp: shutdown_close_def dm_inv_def tracked_def)
qed

lemma dm_inv_status:
  assumes "dm_inv m" "i < length (dm_pool m)" "tm_status (dm_pool m ! i) \<noteq> InCallback"
    "st \<noteq> Pending" "st \<noteq> InCallback"
  shows "dm_inv (set_status i st m)"
  using assms in_callback_set_status [of i m st] tracked_set_status [of m st i]
  by (auto simp: dm_inv_def)

lemma dm_inv_callback_enter [inv_intros]:
  assumes "dm_inv m" "i < length (dm_pool m)" "tm_status (dm_pool m ! i) = Fired"
  shows "dm_inv (callback_enter i m)"
proof (cases "dm_stopped m")
  case True
  with assms show ?thesis by (simp add: callback_enter_def dm_inv_status)
next
  case False
  with assms in_callback_set_status [of i m InCallback] tracked_set_status [of m InCallback i]
  show ?thesis by (auto simp: callback_enter_def dm_inv_def tracked_def)
qed

lemma dm_inv_callback_exit [inv_intros]:
  assumes "dm_inv m" "i < length (dm_pool m)" "tm_status (dm_pool m ! i) = InCallback"
  shows "dm_inv (callback_exit i m)"
  using assms in_callback_set_status [of i m Finished] tracked_set_status [of m Finished i]
  by (auto simp: callback_exit_def dm_inv_def tracked_def)

lemma dm_step_inv: "dm_step m m' \<Longrightarrow> dm_inv m \<Longrightarrow> dm_inv m'"
  by (induction rule: dm_step.induct) (auto intro: inv_intros dm_inv_status)

lemma shutdown_close_stopped [simp]: "dm_stopped (shutdown_close m)"
  by (simp add: shutdown_close_def)

lemma dm_wg_frame [simp, frame_simps]:
  "dm_wg (schedule k f e now m) = dm_wg m" "dm_wg (cancel k m) = dm_wg m" "dm_wg (shutdown_close m) = dm_wg m"
  using fold_timer_Stop [of "dm_timers m" m]
  by (auto simp: schedule_def cancel_def arm_def shutdown_close_def Let_def split: option.split)

lemma dm_stopped_frame [simp, frame_simps]:
  "dm_stopped (schedule k f e now m) = dm_stopped m" "dm_stopped (cancel k m) = dm_stopped m"
  by (auto simp: schedule_def cancel_def arm_def Let_def split: option.split)

interpretation dm: shutdown_gate "\<lambda>m. m = newSandboxDeadlineManager" dm_step dm_inv dm_stopped dm_wg
proof unfold_locales
  fix m m' :: deadline_manager
  assume "dm_step m m'" and "dm_stopped m"
  then show "dm_stopped m'" by cases (auto simp: callback_enter_def callback_exit_def)
next
  fix m m' :: deadline_manager
  assume "dm_step m m'" and "dm_stopped m"
  then show "dm_wg m' \<le> dm_wg m" by cases (auto simp: callback_enter_def callback_exit_def)
qed (auto intro: dm_step_inv dm_inv_new)

section \<open>The table after an operation\<close>

text \<open>What the rest of the gateway sees of the manager: the time a sandbox's entry fires at.\<close>

definition deadline_of :: "deadline_manager \<Rightarrow> sandbox_id \<Rightarrow> time option" where
  "deadline_of m k = map_option dl_fireAt (map_of (dm_timers m) k)"

lemma deadline_of_schedule [simp, store_simps]:
  "deadline_of (schedule k fireAt e now m) k' =
     (if k' = k \<and> \<not> dm_stopped m then Some fireAt else deadline_of m k')"
  by (auto simp: deadline_of_def schedule_def arm_def Let_def split: option.split)

lemma deadline_of_cancel [simp, store_simps]:
  "deadline_of (cancel k m) k' = (if k' = k then None else deadline_of m k')"
  by (auto simp: deadline_of_def cancel_def Let_def split: option.split)

lemma deadline_of_new [simp]: "deadline_of newSandboxDeadlineManager k = None"
  by (simp add: deadline_of_def newSandboxDeadlineManager_def)

end
