(* ===== verification/Lifecycle.thy ===== *)
theory Lifecycle
  imports Deadlines
begin

text \<open>
  The sandbox lifecycle of the gateway: deletion (\<open>sandbox_deletion.go\<close>), reconciliation with the
  runtime, the request handlers (\<open>gateway_callbacks.go\<close>) and the expiry of sandboxes
  (\<open>sandbox_deadlines.go\<close>). A handler runs with the sandbox's \<open>lifecycleMu\<close> held, so it is one
  function from the application's state to a result and the next state; \<open>lockSandbox\<close> is then
  the test whether the store has the id. Logging is left out.
\<close>

section \<open>The application's state\<close>

record 'w app =
  a_store :: sandbox_store
  a_deadlines :: deadline_manager
  a_world :: 'w

type_synonym ('w, 'a) op = "'w app \<Rightarrow> (go_error + 'a) \<times> 'w app"

definition world_call :: "('w \<Rightarrow> 'a \<times> 'w) \<Rightarrow> 'w app \<Rightarrow> 'a \<times> 'w app" where
  "world_call f s = (case f (a_world s) of (x, w) \<Rightarrow> (x, s\<lparr>a_world := w\<rparr>))"

definition store_call :: "(sandbox_store \<Rightarrow> 'a \<times> sandbox_store) \<Rightarrow> 'w app \<Rightarrow> 'a \<times> 'w app" where
  "store_call f s = (case f (a_store s) of (x, m) \<Rightarrow> (x, s\<lparr>a_store := m\<rparr>))"

definition cancel_deadline :: "sandbox_id \<Rightarrow> 'w app \<Rightarrow> 'w app" where
  "cancel_deadline k s = s\<lparr>a_deadlines := cancel k (a_deadlines s)\<rparr>"

text \<open>\<open>schedule\<close> reads the clock (\<open>time.Until\<close>) only when it creates a timer.\<close>

definition schedule_deadline :: "'w runtime \<Rightarrow> sandbox_id \<Rightarrow> time \<Rightarrow> time \<Rightarrow> 'w app \<Rightarrow> 'w app" where
  "schedule_deadline rt k fireAt expected s =
     (if dm_stopped (a_deadlines s) \<or> deadline_of (a_deadlines s) k = Some fireAt then s
      else case world_call (rt_now rt) s of (t, s) \<Rightarrow>
             s\<lparr>a_deadlines := schedule k fireAt expected t (a_deadlines s)\<rparr>)"

lemma world_call_simps [simp]:
  "a_store (snd (world_call f s)) = a_store s" "a_deadlines (snd (world_call f s)) = a_deadlines s"
  by (simp_all add: world_call_def split: prod.split)

lemma world_callD: "world_call f s = (x, s') \<Longrightarrow> a_store s' = a_store s \<and> a_deadlines s' = a_deadlines s"
  by (auto simp: world_call_def split: prod.splits)

lemma store_callD:
  "store_call f s = (x, s') \<Longrightarrow> f (a_store s) = (x, a_store s') \<and> a_deadlines s' = a_deadlines s \<and> a_world s' = a_world s"
  by (auto simp: store_call_def split: prod.splits)

lemma cancel_deadline_simps [simp]:
  "a_store (cancel_deadline k s) = a_store s" "a_deadlines (cancel_deadline k s) = cancel k (a_deadlines s)"
  by (simp_all add: cancel_deadline_def)

lemma schedule_deadline_store [simp]: "a_store (schedule_deadline rt k f e s) = a_store s"
  by (simp add: schedule_deadline_def world_call_def split: prod.split)

lemma schedule_deadline_stopped [simp]:
  "dm_stopped (a_deadlines (schedule_deadline rt k f e s)) = dm_stopped (a_deadlines s)"
  by (simp add: schedule_deadline_def world_call_def split: prod.split)

lemma schedule_deadline_of [simp]:
  "deadline_of (a_deadlines (schedule_deadline rt k f e s)) k' =
     (if k' = k \<and> \<not> dm_stopped (a_deadlines s) then Some f else deadline_of (a_deadlines s) k')"
  by (auto simp: schedule_deadline_def world_call_def split: prod.split)

lemma schedule_deadline_inv: "dm_inv (a_deadlines s) \<Longrightarrow> dm_inv (a_deadlines (schedule_deadline rt k f e s))"
  by (simp add: schedule_deadline_def world_call_def dm_inv_schedule split: prod.split)

section \<open>Expiry predicates\<close>

definition recordEndAt :: "sandbox_record \<Rightarrow> time" where
  "recordEndAt record =
     (if \<not> IsZero (sr_EndAt record) then sr_EndAt record else defaultSandboxEndAt (sr_CreatedAt record))"

definition sandboxRecordExpired :: "sandbox_record \<Rightarrow> time \<Rightarrow> bool" where
  "sandboxRecordExpired record now =
     (if sr_State record \<noteq> Running then False
      else \<not> IsZero (recordEndAt record) \<and> \<not> now < recordEndAt record)"

definition sandboxRecordTerminallyExpired :: "sandbox_record \<Rightarrow> time \<Rightarrow> bool" where
  "sandboxRecordTerminallyExpired record now =
     (sandboxRecordExpired record now \<and> \<not> RetainsSandboxAfterTimeout (sr_OnTimeout record))"

section \<open>Deadlines of records\<close>

definition syncSandboxDeadline :: "'w runtime \<Rightarrow> sandbox_record \<Rightarrow> 'w app \<Rightarrow> 'w app" where
  "syncSandboxDeadline rt record s =
     (if sr_ID record = [] then s
      else if sr_State record \<noteq> Running \<or> IsZero (sr_EndAt record) then cancel_deadline (sr_ID record) s
      else schedule_deadline rt (sr_ID record) (sr_EndAt record) (sr_EndAt record) s)"

definition sandboxExpiryRetryDelay :: duration where
  "sandboxExpiryRetryDelay = 5 * time_Second"

definition scheduleExpiryRetry :: "'w runtime \<Rightarrow> sandbox_id \<Rightarrow> time \<Rightarrow> 'w app \<Rightarrow> 'w app" where
  "scheduleExpiryRetry rt sandboxID expectedEndAt s =
     (case Get sandboxID (a_store s) of
        None \<Rightarrow> cancel_deadline sandboxID s
      | Some _ \<Rightarrow>
          (case world_call (rt_now rt) s of (t, s) \<Rightarrow>
             schedule_deadline rt sandboxID (time_Add t sandboxExpiryRetryDelay) expectedEndAt s))"

section \<open>Deletion and pausing\<close>

datatype delete_policy = DeleteRequired | DeleteBestEffort

record delete_result =
  dr_Deleted :: bool
  dr_RuntimeError :: "go_error option"

definition deleteSandbox :: "'w runtime \<Rightarrow> sandbox_record \<Rightarrow> delete_policy \<Rightarrow> ('w, delete_result) op" where
  "deleteSandbox rt record policy s =
     (case (if rt_present rt then world_call (rt_DeleteSandbox rt (sr_RuntimeInfo record)) s else (None, s)) of
        (runtimeError, s) \<Rightarrow>
          (if runtimeError \<noteq> None \<and> policy = DeleteRequired then (Inl (the runtimeError), s)
           else case store_call (Delete (sr_ID record)) s of
                  (Inl err, s) \<Rightarrow> (Inl err, s)
                | (Inr deleted, s) \<Rightarrow>
                    (Inr \<lparr>dr_Deleted = deleted, dr_RuntimeError = runtimeError\<rparr>,
                     if deleted then cancel_deadline (sr_ID record) s else s)))"

definition pauseSandboxLocked :: "'w runtime \<Rightarrow> sandbox_record \<Rightarrow> ('w, sandbox_record option) op" where
  "pauseSandboxLocked rt record s =
     (case world_call (rt_PauseSandbox rt (sr_RuntimeInfo record)) s of
        (Some err, s) \<Rightarrow> (Inl err, s)
      | (None, s) \<Rightarrow>
          (case store_call (SetState Paused (sr_ID record)) s of
             (Inl err, s) \<Rightarrow> (Inl err, s)
           | (Inr None, s) \<Rightarrow> (Inr None, s)
           | (Inr (Some paused), s) \<Rightarrow> (Inr (Some paused), syncSandboxDeadline rt paused s)))"

section \<open>Reconciliation with the runtime\<close>

definition reconcileSandboxRecordWithInspector ::
  "'w runtime \<Rightarrow> (runtime_info \<Rightarrow> 'w \<Rightarrow> (go_error + inspection) \<times> 'w) \<Rightarrow> sandbox_record \<Rightarrow>
     ('w, sandbox_record option) op" where
  "reconcileSandboxRecordWithInspector rt inspector record s =
     (case world_call (inspector (sr_RuntimeInfo record)) s of
        (Inl err, s) \<Rightarrow> (Inl err, s)
      | (Inr ins, s) \<Rightarrow>
          (if \<not> in_Exists ins then
             (case deleteSandbox rt record DeleteBestEffort s of
                (Inl err, s) \<Rightarrow> (Inl err, s)
              | (Inr result, s) \<Rightarrow>
                  (if dr_Deleted result then (Inr None, s) else (Inr (Get (sr_ID record) (a_store s)), s)))
           else
             (let state = (if TrimSpace (in_State ins) = [] then sr_State record else TrimSpace (in_State ins));
                  runtimeInfo = mergeSandboxRuntimeInfo (sr_RuntimeInfo record) (in_Info ins)
              in case store_call (SetStateAndRuntimeInfo state runtimeInfo (sr_ID record)) s of
                   (Inl err, s) \<Rightarrow> (Inl err, s)
                 | (Inr None, s) \<Rightarrow> (Inr (Get (sr_ID record) (a_store s)), s)
                 | (Inr (Some updated), s) \<Rightarrow> (Inr (Some updated), syncSandboxDeadline rt updated s))))"

definition reconcileSandboxRecordLocked :: "'w runtime \<Rightarrow> sandbox_id \<Rightarrow> ('w, sandbox_record option) op" where
  "reconcileSandboxRecordLocked rt sandboxID s =
     (case Get sandboxID (a_store s) of
        None \<Rightarrow> (Inr None, s)
      | Some current \<Rightarrow>
          (case world_call (rt_now rt) s of (now, s) \<Rightarrow>
             (if sandboxRecordTerminallyExpired current now
              then (Inr None, syncSandboxDeadline rt current s)
              else case rt_InspectSandbox rt of
                     None \<Rightarrow> (Inr (Some current), s)
                   | Some inspector \<Rightarrow> reconcileSandboxRecordWithInspector rt inspector current s)))"

definition activeSandboxRecordLocked :: "'w runtime \<Rightarrow> sandbox_id \<Rightarrow> ('w, sandbox_record) op" where
  "activeSandboxRecordLocked rt sandboxID s =
     (case reconcileSandboxRecordLocked rt sandboxID s of
        (Inl err, s) \<Rightarrow> (Inl err, s)
      | (Inr None, s) \<Rightarrow> (Inl (not_found sandboxID), s)
      | (Inr (Some record), s) \<Rightarrow> (Inr record, s))"

text \<open>\<open>lockSandbox\<close> as one handler sees it: whether the store has the id.\<close>

definition lockSandbox :: "sandbox_id \<Rightarrow> 'w app \<Rightarrow> bool" where
  "lockSandbox sandboxID s = (Get sandboxID (a_store s) \<noteq> None)"

definition activeSandboxRecord :: "'w runtime \<Rightarrow> sandbox_id \<Rightarrow> ('w, sandbox_record) op" where
  "activeSandboxRecord rt sandboxID s =
     (if \<not> lockSandbox sandboxID s then (Inl (not_found sandboxID), s)
      else activeSandboxRecordLocked rt sandboxID s)"

definition reconcileSandboxRecord :: "'w runtime \<Rightarrow> sandbox_record \<Rightarrow> ('w, sandbox_record option) op" where
  "reconcileSandboxRecord rt record s =
     (if \<not> lockSandbox (sr_ID record) s then (Inr None, s)
      else reconcileSandboxRecordLocked rt (sr_ID record) s)"

fun reconcileSandboxRecords :: "'w runtime \<Rightarrow> sandbox_record list \<Rightarrow> ('w, sandbox_record list) op" where
  "reconcileSandboxRecords rt [] s = (Inr [], s)"
| "reconcileSandboxRecords rt (record # records) s =
     (case reconcileSandboxRecord rt record s of
        (Inl err, s) \<Rightarrow> (Inl err, s)
      | (Inr found, s) \<Rightarrow>
          (case reconcileSandboxRecords rt records s of
             (Inl err, s) \<Rightarrow> (Inl err, s)
           | (Inr rest, s) \<Rightarrow> (Inr (case found of None \<Rightarrow> rest | Some r \<Rightarrow> r # rest), s)))"

end
