(* ===== verification/Handlers.thy ===== *)
theory Handlers
  imports Lifecycle
begin

text \<open>
  The request handlers for sandboxes (\<open>default...Sandbox\<close> in \<open>gateway_callbacks.go\<close>), the expiry
  callback (\<open>sandbox_deadlines.go\<close>) and the start-up code that restores sandboxes
  (\<open>server.go\<close>), each as one state-passing function with every early return as a branch.
\<close>

definition conflict :: "string \<Rightarrow> go_error" where
  "conflict msg = GatewayError 409 msg"

section \<open>Creating a sandbox\<close>

record api_volume_mount =
  av_Name :: string
  av_Path :: string

record new_sandbox =
  ns_TemplateID :: string
  ns_Timeout :: "32 word option"
  ns_AutoPause :: "bool option"
  ns_AutoResume :: "bool option"
  ns_Metadata :: "(string, string) gomap option"
  ns_EnvVars :: "(string, string) gomap option"
  ns_VolumeMounts :: "api_volume_mount list option"
  ns_AllowInternetAccess :: "bool option"

definition sandboxMetadata :: "(string, string) gomap option \<Rightarrow> (string, string) gomap" where
  "sandboxMetadata metadata = (case metadata of None \<Rightarrow> [] | Some m \<Rightarrow> copyStringMap m)"

definition sandboxEnvVars :: "(string, string) gomap option \<Rightarrow> (string, string) gomap" where
  "sandboxEnvVars envVars = (case envVars of None \<Rightarrow> [] | Some m \<Rightarrow> copyStringMap m)"

definition sandboxVolumeMounts :: "api_volume_mount list option \<Rightarrow> volume_mount list" where
  "sandboxVolumeMounts volumeMounts =
     (case volumeMounts of
        None \<Rightarrow> []
      | Some mounts \<Rightarrow>
          map (\<lambda>(name, path). \<lparr>vm_Name = name, vm_Path = path, vm_VolumeID = name, vm_MountPath = path\<rparr>)
            (filter (\<lambda>(name, path). \<not> (name = [] \<and> path = []))
              (map (\<lambda>m. (TrimSpace (av_Name m), TrimSpace (av_Path m))) mounts)))"

text \<open>\<open>validateTemplateID\<close> accepts every id for every runtime type.\<close>

definition validateTemplateID :: "string \<Rightarrow> string \<Rightarrow> go_error option" where
  "validateTemplateID runtimeType templateID = (if runtimeType \<noteq> ''docker'' then None else None)"

text \<open>A zero \<open>SandboxRecord\<close> with the fields the handler sets.\<close>

definition new_record :: "sandbox_id \<Rightarrow> string \<Rightarrow> (string, string) gomap \<Rightarrow> runtime_info \<Rightarrow> time \<Rightarrow> time \<Rightarrow>
    bool option \<Rightarrow> timeout_action \<Rightarrow> sandbox_record" where
  "new_record sandboxID templateID metadata info createdAt endAt allow onTimeout =
     \<lparr>sr_ID = sandboxID, sr_TemplateID = templateID, sr_Alias = [], sr_ClientID = [], sr_EnvdVersion = [],
      sr_Metadata = metadata, sr_EnvdURL = ri_EnvdURL info, sr_RuntimeInfo = info, sr_CreatedAt = createdAt,
      sr_EndAt = endAt, sr_State = Running, sr_CPUCount = 0, sr_DiskSizeMB = 0, sr_MemoryMB = 0,
      sr_InternetAccessPolicy = InternetAccessPolicyFromBoolPtr allow, sr_OnTimeout = onTimeout\<rparr>"

text \<open>\<open>store.Create\<close> on the application's state.\<close>

definition app_Create :: "'w runtime \<Rightarrow> sandbox_record \<Rightarrow> ('w, sandbox_record) op" where
  "app_Create rt record s =
     (case Create rt record (a_store s) (a_world s) of (res, m, w) \<Rightarrow> (res, s\<lparr>a_store := m, a_world := w\<rparr>))"

text \<open>From the runtime call on; the arguments are the values computed before it.\<close>

definition createSandboxInRuntime :: "'w runtime \<Rightarrow> new_sandbox \<Rightarrow> sandbox_id \<Rightarrow> string \<Rightarrow> time \<Rightarrow>
    ('w, sandbox_record) op" where
  "createSandboxInRuntime rt req sandboxID templateID now s =
     (let onTimeout = SandboxTimeoutActionFromAutoPause (ns_AutoPause req);
          metadata = sandboxMetadata (ns_Metadata req);
          endAt = time_Add now (seconds_duration (requestTimeout (ns_Timeout req)));
          creq = \<lparr>cr_SandboxID = sandboxID, cr_TemplateID = templateID, cr_Metadata = metadata,
                  cr_EnvVars = sandboxEnvVars (ns_EnvVars req),
                  cr_VolumeMounts = sandboxVolumeMounts (ns_VolumeMounts req),
                  cr_CreatedAt = now, cr_EndAt = endAt,
                  cr_AllowInternetAccess = ns_AllowInternetAccess req, cr_OnTimeout = onTimeout\<rparr>
      in case world_call (rt_CreateSandbox rt creq) s of
           (Inl err, s) \<Rightarrow>
             (Inl (if errors_Is err ErrRuntimeCapacity then GatewayError 503 (error_text err) else err), s)
         | (Inr info, s) \<Rightarrow>
             (case app_Create rt (new_record sandboxID templateID metadata info now endAt
                      (ns_AllowInternetAccess req) onTimeout) s of
                (Inl err, s) \<Rightarrow>
                  (case world_call (rt_DeleteSandbox rt info) s of (cleanupErr, s) \<Rightarrow> (Inl err, s))
              | (Inr record, s) \<Rightarrow> (Inr record, syncSandboxDeadline rt record s)))"

definition defaultCreateSandbox :: "'w runtime \<Rightarrow> string \<Rightarrow> new_sandbox \<Rightarrow> ('w, sandbox_record) op" where
  "defaultCreateSandbox rt runtimeType req s =
     (let templateID = TrimSpace (ns_TemplateID req)
      in if templateID = [] then (Inl (bad_request ''templateID is required''), s)
         else if (case ns_Timeout req of Some t \<Rightarrow> sint t < 0 | None \<Rightarrow> False)
           then (Inl (bad_request ''timeout must be greater than or equal to 0''), s)
         else if ns_AutoResume req = Some True
           then (Inl (bad_request ''autoResume is not supported; connect the paused sandbox explicitly''), s)
         else case validateTemplateID runtimeType templateID of
                Some err \<Rightarrow> (Inl (bad_request (error_text err)), s)
              | None \<Rightarrow>
                  (case world_call (newSandboxID rt) s of
                     (Inl err, s) \<Rightarrow> (Inl err, s)
                   | (Inr sandboxID, s) \<Rightarrow>
                       (case world_call (rt_now rt) s of (now, s) \<Rightarrow>
                          createSandboxInRuntime rt req sandboxID templateID now s)))"

section \<open>Listing\<close>

record list_request =
  lr_Metadata :: "(string, string) gomap"
  lr_States :: "string list"
  lr_NextToken :: string
  lr_Limit :: int

record list_result =
  ls_Items :: "sandbox_record list"
  ls_NextToken :: string
  ls_TotalRunning :: nat

definition maxSandboxListLimit :: int where
  "maxSandboxListLimit = 100"

definition metadataMatches :: "(string, string) gomap \<Rightarrow> (string, string) gomap \<Rightarrow> bool" where
  "metadataMatches metadata filt =
     (if filt = [] then True else list_all (\<lambda>(key, value). map_read metadata key = value) filt)"

definition matching_records :: "list_request \<Rightarrow> sandbox_record list \<Rightarrow> sandbox_record list" where
  "matching_records req records = filter (\<lambda>r. metadataMatches (sr_Metadata r) (lr_Metadata req)) records"

definition state_filtered :: "list_request \<Rightarrow> sandbox_record list \<Rightarrow> sandbox_record list" where
  "state_filtered req records =
     filter (\<lambda>r. lr_States req = [] \<or> sr_State r \<in> set (lr_States req)) (matching_records req records)"

text \<open>The index after the record whose id is the token; the end when there is none.\<close>

fun token_start :: "string \<Rightarrow> sandbox_record list \<Rightarrow> nat" where
  "token_start token [] = 0"
| "token_start token (r # rs) = (if sr_ID r = token then 1 else Suc (token_start token rs))"

definition page_limit :: "int \<Rightarrow> nat" where
  "page_limit limit =
     nat (if limit \<le> 0 \<or> limit > maxSandboxListLimit then maxSandboxListLimit else limit)"

definition paginate :: "list_request \<Rightarrow> nat \<Rightarrow> sandbox_record list \<Rightarrow> list_result" where
  "paginate req totalRunning filtered =
     (let start = (if lr_NextToken req \<noteq> [] then token_start (lr_NextToken req) filtered else 0);
          end' = start + page_limit (lr_Limit req)
      in if end' < length filtered
         then \<lparr>ls_Items = take (end' - start) (drop start filtered),
               ls_NextToken = sr_ID (filtered ! (end' - 1)), ls_TotalRunning = totalRunning\<rparr>
         else \<lparr>ls_Items = drop start filtered, ls_NextToken = [], ls_TotalRunning = totalRunning\<rparr>)"

definition defaultListSandboxes :: "'w runtime \<Rightarrow> list_request \<Rightarrow> ('w, list_result) op" where
  "defaultListSandboxes rt req s =
     (case reconcileSandboxRecords rt (List_sandboxes (a_store s)) s of
        (Inl err, s) \<Rightarrow> (Inl err, s)
      | (Inr records, s) \<Rightarrow>
          (Inr (paginate req
                 (length (filter (\<lambda>r. sr_State r = Running) (matching_records req records)))
                 (state_filtered req records)), s))"

definition defaultGetSandbox :: "'w runtime \<Rightarrow> sandbox_id \<Rightarrow> ('w, sandbox_record) op" where
  "defaultGetSandbox rt sandboxID = activeSandboxRecord rt sandboxID"

section \<open>Lifecycle requests\<close>

definition defaultKillSandbox :: "'w runtime \<Rightarrow> sandbox_id \<Rightarrow> ('w, unit) op" where
  "defaultKillSandbox rt sandboxID s =
     (if \<not> lockSandbox sandboxID s then (Inl (not_found sandboxID), s)
      else case activeSandboxRecordLocked rt sandboxID s of
             (Inl err, s) \<Rightarrow> (Inl err, s)
           | (Inr record, s) \<Rightarrow>
               (case deleteSandbox rt record DeleteRequired s of
                  (Inl err, s) \<Rightarrow> (Inl err, s)
                | (Inr result, s) \<Rightarrow>
                    (if \<not> dr_Deleted result then (Inl (not_found sandboxID), s) else (Inr (), s))))"

definition defaultPauseSandbox :: "'w runtime \<Rightarrow> sandbox_id \<Rightarrow> ('w, sandbox_record) op" where
  "defaultPauseSandbox rt sandboxID s =
     (if \<not> lockSandbox sandboxID s then (Inl (not_found sandboxID), s)
      else case activeSandboxRecordLocked rt sandboxID s of
             (Inl err, s) \<Rightarrow> (Inl err, s)
           | (Inr record, s) \<Rightarrow>
               (if sr_State record \<noteq> Running
                then (Inl (conflict (''sandbox '' @ sandboxID @ '' is already paused'')), s)
                else case pauseSandboxLocked rt record s of
                       (Inl err, s) \<Rightarrow> (Inl err, s)
                     | (Inr None, s) \<Rightarrow> (Inl (not_found sandboxID), s)
                     | (Inr (Some paused), s) \<Rightarrow> (Inr paused, s)))"

definition defaultResumeSandbox :: "'w runtime \<Rightarrow> sandbox_id \<Rightarrow> 32 word option \<Rightarrow> ('w, sandbox_record) op" where
  "defaultResumeSandbox rt sandboxID timeout s =
     (if (case timeout of Some t \<Rightarrow> sint t < 0 | None \<Rightarrow> False)
      then (Inl (bad_request ''timeout must be greater than or equal to 0''), s)
      else if \<not> lockSandbox sandboxID s then (Inl (not_found sandboxID), s)
      else case activeSandboxRecordLocked rt sandboxID s of
             (Inl err, s) \<Rightarrow> (Inl err, s)
           | (Inr record, s) \<Rightarrow>
               (if sr_State record \<noteq> Paused
                then (Inl (conflict (''sandbox '' @ sandboxID @ '' is already running'')), s)
                else case world_call (rt_ResumeSandbox rt (sr_RuntimeInfo record)) s of
                       (Inl err, s) \<Rightarrow> (Inl err, s)
                     | (Inr info, s) \<Rightarrow>
                         (case world_call (rt_now rt) s of (now, s) \<Rightarrow>
                            (let endAt = time_Add now (seconds_duration (requestTimeout timeout))
                             in case store_call (SetStateRuntimeInfoAndEndAt Running info endAt sandboxID) s of
                                  (Inl err, s) \<Rightarrow> (Inl err, s)
                                | (Inr None, s) \<Rightarrow> (Inl (not_found sandboxID), s)
                                | (Inr (Some record), s) \<Rightarrow> (Inr record, syncSandboxDeadline rt record s)))))"

definition defaultConnectSandbox :: "'w runtime \<Rightarrow> sandbox_id \<Rightarrow> 32 word \<Rightarrow> ('w, sandbox_record \<times> bool) op" where
  "defaultConnectSandbox rt sandboxID timeout s =
     (if sint timeout < 0
      then (Inl (bad_request ''timeout must be greater than or equal to 0''), s)
      else if \<not> lockSandbox sandboxID s then (Inl (not_found sandboxID), s)
      else case activeSandboxRecordLocked rt sandboxID s of
             (Inl err, s) \<Rightarrow> (Inl err, s)
           | (Inr record, s) \<Rightarrow>
               (if sr_State record = Paused then
                  (case world_call (rt_ResumeSandbox rt (sr_RuntimeInfo record)) s of
                     (Inl err, s) \<Rightarrow> (Inl err, s)
                   | (Inr info, s) \<Rightarrow>
                       (case world_call (rt_now rt) s of (now, s) \<Rightarrow>
                          (let endAt = time_Add now (seconds_duration timeout);
                               endAt = (if sr_EndAt record > endAt then sr_EndAt record else endAt)
                           in case store_call (SetStateRuntimeInfoAndEndAt Running info endAt sandboxID) s of
                                (Inl err, s) \<Rightarrow> (Inl err, s)
                              | (Inr None, s) \<Rightarrow> (Inl (not_found sandboxID), s)
                              | (Inr (Some updated), s) \<Rightarrow>
                                  (Inr (updated, True), syncSandboxDeadline rt updated s))))
                else
                  (case world_call (rt_now rt) s of (now, s) \<Rightarrow>
                     (case store_call (ExtendEndAt (time_Add now (seconds_duration timeout)) sandboxID) s of
                        (Inl err, s) \<Rightarrow> (Inl err, s)
                      | (Inr None, s) \<Rightarrow> (Inl (not_found sandboxID), s)
                      | (Inr (Some updated), s) \<Rightarrow> (Inr (updated, False), syncSandboxDeadline rt updated s)))))"

text \<open>The common tail of the timeout and refresh handlers: change \<open>EndAt\<close> with \<open>set\<close>, then sync.\<close>

definition change_EndAt :: "'w runtime \<Rightarrow> sandbox_id \<Rightarrow> duration \<Rightarrow>
    (time \<Rightarrow> sandbox_id \<Rightarrow> sandbox_store \<Rightarrow> (go_error + sandbox_record option) \<times> sandbox_store) \<Rightarrow> ('w, unit) op" where
  "change_EndAt rt sandboxID d set_end s =
     (if \<not> lockSandbox sandboxID s then (Inl (not_found sandboxID), s)
      else case activeSandboxRecordLocked rt sandboxID s of
             (Inl err, s) \<Rightarrow> (Inl err, s)
           | (Inr _, s) \<Rightarrow>
               (case world_call (rt_now rt) s of (now, s) \<Rightarrow>
                  (case store_call (set_end (time_Add now d) sandboxID) s of
                     (Inl err, s) \<Rightarrow> (Inl err, s)
                   | (Inr None, s) \<Rightarrow> (Inl (not_found sandboxID), s)
                   | (Inr (Some record), s) \<Rightarrow> (Inr (), syncSandboxDeadline rt record s))))"

definition defaultSetSandboxTimeout :: "'w runtime \<Rightarrow> sandbox_id \<Rightarrow> 32 word \<Rightarrow> ('w, unit) op" where
  "defaultSetSandboxTimeout rt sandboxID timeout s =
     (if sint timeout < 0
      then (Inl (bad_request ''timeout must be greater than or equal to 0''), s)
      else change_EndAt rt sandboxID (seconds_duration timeout) SetEndAt s)"

text \<open>The duration of a refresh is a Go \<open>int\<close>, 64 bits wide.\<close>

definition defaultRefreshSandbox :: "'w runtime \<Rightarrow> sandbox_id \<Rightarrow> 64 word option \<Rightarrow> ('w, unit) op" where
  "defaultRefreshSandbox rt sandboxID reqDuration s =
     (let dur = (case reqDuration of None \<Rightarrow> 15 | Some d \<Rightarrow> d)
      in if sint dur < 0 then (Inl (bad_request ''duration must be greater than or equal to 0''), s)
         else if sint dur > 3600 then (Inl (bad_request ''duration must be less than or equal to 3600''), s)
         else change_EndAt rt sandboxID (dur * time_Second) ExtendEndAt s)"

section \<open>Killing every sandbox\<close>

record kill_result =
  kr_FailedCount :: nat
  kr_KilledCount :: nat

fun kill_all :: "'w runtime \<Rightarrow> sandbox_record list \<Rightarrow> kill_result \<Rightarrow> 'w app \<Rightarrow> kill_result \<times> 'w app" where
  "kill_all rt [] result s = (result, s)"
| "kill_all rt (record # records) result s =
     (case defaultKillSandbox rt (sr_ID record) s of
        (Inl err, s) \<Rightarrow> kill_all rt records (result\<lparr>kr_FailedCount := kr_FailedCount result + 1\<rparr>) s
      | (Inr _, s) \<Rightarrow> kill_all rt records (result\<lparr>kr_KilledCount := kr_KilledCount result + 1\<rparr>) s)"

definition defaultKillTeamSandboxes :: "'w runtime \<Rightarrow> ('w, kill_result) op" where
  "defaultKillTeamSandboxes rt s =
     (case kill_all rt (List_sandboxes (a_store s)) \<lparr>kr_FailedCount = 0, kr_KilledCount = 0\<rparr> s of
        (result, s) \<Rightarrow> (Inr result, s))"

section \<open>Expiry\<close>

definition expirePause :: "'w runtime \<Rightarrow> sandbox_id \<Rightarrow> time \<Rightarrow> sandbox_record \<Rightarrow> 'w app \<Rightarrow> 'w app" where
  "expirePause rt sandboxID expectedEndAt record s =
     (case pauseSandboxLocked rt record s of
        (Inl err, s) \<Rightarrow>
          (case rt_InspectSandbox rt of
             None \<Rightarrow> scheduleExpiryRetry rt sandboxID expectedEndAt s
           | Some inspector \<Rightarrow>
               (case reconcileSandboxRecordWithInspector rt inspector record s of
                  (Inl err, s) \<Rightarrow> scheduleExpiryRetry rt sandboxID expectedEndAt s
                | (Inr None, s) \<Rightarrow> s
                | (Inr (Some updated), s) \<Rightarrow>
                    (if sr_State updated = Paused then s
                     else scheduleExpiryRetry rt sandboxID expectedEndAt s)))
      | (Inr None, s) \<Rightarrow> cancel_deadline sandboxID s
      | (Inr (Some _), s) \<Rightarrow> s)"

definition expireSandboxLocked :: "'w runtime \<Rightarrow> sandbox_id \<Rightarrow> time \<Rightarrow> 'w app \<Rightarrow> 'w app" where
  "expireSandboxLocked rt sandboxID expectedEndAt s =
     (case Get sandboxID (a_store s) of
        None \<Rightarrow> cancel_deadline sandboxID s
      | Some record \<Rightarrow>
          (if sr_State record \<noteq> Running \<or> sr_EndAt record \<noteq> expectedEndAt then s
           else case world_call (rt_now rt) s of (now, s) \<Rightarrow>
             (if now < sr_EndAt record then s
              else if sr_OnTimeout record = SandboxTimeoutActionPause
                then expirePause rt sandboxID expectedEndAt record s
              else if sr_OnTimeout record = SandboxTimeoutActionKill then
                (case deleteSandbox rt record DeleteRequired s of
                   (Inl err, s) \<Rightarrow> scheduleExpiryRetry rt sandboxID expectedEndAt s
                 | (Inr result, s) \<Rightarrow> s)
              else cancel_deadline sandboxID s)))"

definition expireSandbox :: "'w runtime \<Rightarrow> sandbox_id \<Rightarrow> time \<Rightarrow> 'w app \<Rightarrow> 'w app" where
  "expireSandbox rt sandboxID expectedEndAt s =
     (if \<not> lockSandbox sandboxID s then cancel_deadline sandboxID s
      else expireSandboxLocked rt sandboxID expectedEndAt s)"

definition restoreSandboxDeadlines :: "'w runtime \<Rightarrow> 'w app \<Rightarrow> 'w app" where
  "restoreSandboxDeadlines rt s = fold (syncSandboxDeadline rt) (List_sandboxes (a_store s)) s"

section \<open>Start-up (server.go)\<close>

definition enrichRestoredSandboxRecord :: "'w runtime \<Rightarrow> sandbox_record \<Rightarrow> ('w, sandbox_record) op" where
  "enrichRestoredSandboxRecord rt record s =
     (case world_call (now_if_zero rt (sr_CreatedAt record)) s of (createdAt, s) \<Rightarrow>
       (let record = record\<lparr>sr_CreatedAt := createdAt\<rparr>;
            record = (if IsZero (sr_EndAt record)
                      then record\<lparr>sr_EndAt := defaultSandboxEndAt (sr_CreatedAt record)\<rparr> else record);
            record = (if TrimSpace (sr_State record) = [] then record\<lparr>sr_State := Running\<rparr> else record)
        in case Normalize (sr_OnTimeout record) of
             Inl err \<Rightarrow> (Inl (Wrapf (''restore sandbox '' @ sr_ID record @ '': '') err ''''), s)
           | Inr onTimeout \<Rightarrow> (Inr (record\<lparr>sr_OnTimeout := onTimeout\<rparr>), s)))"

definition restoreOne :: "'w runtime \<Rightarrow> sandbox_record \<Rightarrow> ('w, sandbox_record option) op" where
  "restoreOne rt record s =
     (case enrichRestoredSandboxRecord rt record s of
        (Inl err, s) \<Rightarrow> (Inl err, s)
      | (Inr record, s) \<Rightarrow>
          (case (case Get (sr_ID record) (a_store s) of
                   Some existing \<Rightarrow>
                     (case store_call (SetStateRuntimeInfoAndEndAt (sr_State record)
                             (mergeSandboxRuntimeInfo (sr_RuntimeInfo existing) (sr_RuntimeInfo record))
                             (sr_EndAt record) (sr_ID record)) s of
                        (Inl err, s) \<Rightarrow> (Inl err, s)
                      | (Inr None, s) \<Rightarrow> (Inr record, s)
                      | (Inr (Some updated), s) \<Rightarrow> (Inr updated, s))
                 | None \<Rightarrow> app_Create rt record s) of
             (Inl err, s) \<Rightarrow> (Inl (Wrapf (''restore sandbox '' @ sr_ID record @ '': '') err ''''), s)
           | (Inr created, s) \<Rightarrow> reconcileSandboxRecord rt created s))"

fun restoreAll :: "'w runtime \<Rightarrow> sandbox_record list \<Rightarrow> 'w app \<Rightarrow> go_error option \<times> 'w app" where
  "restoreAll rt [] s = (None, s)"
| "restoreAll rt (record # records) s =
     (case restoreOne rt record s of
        (Inl err, s) \<Rightarrow> (Some err, s)
      | (Inr _, s) \<Rightarrow> restoreAll rt records s)"

definition restoreRuntimeSandboxes :: "'w runtime \<Rightarrow> 'w app \<Rightarrow> go_error option \<times> 'w app" where
  "restoreRuntimeSandboxes rt s =
     (case rt_RestoreSandboxes rt of
        None \<Rightarrow> (None, s)
      | Some restorer \<Rightarrow>
          (case world_call restorer s of
             (Inl err, s) \<Rightarrow> (Some (Wrapf ''restore runtime sandboxes: '' err ''''), s)
           | (Inr records, s) \<Rightarrow> restoreAll rt records s))"

definition reconcileStoredSandboxes :: "'w runtime \<Rightarrow> 'w app \<Rightarrow> go_error option \<times> 'w app" where
  "reconcileStoredSandboxes rt s =
     (if List_sandboxes (a_store s) = [] then (None, s)
      else case reconcileSandboxRecords rt (List_sandboxes (a_store s)) s of
             (Inl err, s) \<Rightarrow> (Some (Wrapf ''reconcile sandbox state: '' err ''''), s)
           | (Inr records, s) \<Rightarrow> (None, s))"

definition newApp :: "'w \<Rightarrow> 'w app" where
  "newApp w = \<lparr>a_store = NewSandboxStore, a_deadlines = newSandboxDeadlineManager, a_world = w\<rparr>"

text \<open>The state the constructor \<open>NewAppWithCallbacks\<close> leaves, or its error.\<close>

definition NewAppWithCallbacks :: "'w runtime \<Rightarrow> 'w \<Rightarrow> go_error + 'w app" where
  "NewAppWithCallbacks rt w =
     (case restoreRuntimeSandboxes rt (newApp w) of
        (Some err, s) \<Rightarrow> Inl err
      | (None, s) \<Rightarrow>
          (case reconcileStoredSandboxes rt s of
             (Some err, s) \<Rightarrow> Inl err
           | (None, s) \<Rightarrow> Inr (restoreSandboxDeadlines rt s)))"

end
