(* ===== verification/AppInvariant.thy ===== *)
theory AppInvariant
  imports Handlers
begin

text \<open>
  The invariant of the sandbox lifecycle and its preservation: the store and the deadline manager
  are well formed, no deadline outlives its sandbox, a running sandbox with an end time always has
  a deadline (until shutdown), and a paused one never has. Every handler keeps it, and touches no
  sandbox but its own.
\<close>

section \<open>Statement\<close>

definition good_entry :: "'w app \<Rightarrow> sandbox_id \<Rightarrow> bool" where
  "good_entry s k =
     (case map_of (a_store s) k of
        None \<Rightarrow> deadline_of (a_deadlines s) k = None
      | Some r \<Rightarrow>
          (\<not> dm_stopped (a_deadlines s) \<and> sr_State r = Running \<and> sr_EndAt r \<noteq> 0
             \<longrightarrow> deadline_of (a_deadlines s) k \<noteq> None) \<and>
          (sr_State r = Paused \<longrightarrow> deadline_of (a_deadlines s) k = None))"

definition app_base :: "'w app \<Rightarrow> bool" where
  "app_base s \<longleftrightarrow> store_inv (a_store s) \<and> dm_inv (a_deadlines s)"

definition app_inv :: "'w app \<Rightarrow> bool" where
  "app_inv s \<longleftrightarrow> app_base s \<and> (\<forall>k. good_entry s k)"

text \<open>Nothing but the sandbox \<open>k\<close> changes.\<close>

definition isolated :: "sandbox_id \<Rightarrow> 'w app \<Rightarrow> 'w app \<Rightarrow> bool" where
  "isolated k s s' \<longleftrightarrow> dm_stopped (a_deadlines s') = dm_stopped (a_deadlines s) \<and>
     (\<forall>k'. k' \<noteq> k \<longrightarrow> map_of (a_store s') k' = map_of (a_store s) k' \<and>
        deadline_of (a_deadlines s') k' = deadline_of (a_deadlines s) k')"

definition app_trans :: "sandbox_id \<Rightarrow> 'w app \<Rightarrow> 'w app \<Rightarrow> bool" where
  "app_trans k s s' \<longleftrightarrow> isolated k s s' \<and> (app_base s \<longrightarrow> app_base s') \<and> (app_inv s \<longrightarrow> app_inv s')"

lemma app_inv_base [dest]: "app_inv s \<Longrightarrow> app_base s"
  by (simp add: app_inv_def)

lemma app_base_record: "app_base s \<Longrightarrow> map_of (a_store s) k = Some r \<Longrightarrow> record_ok k r"
  by (auto simp: app_base_def dest: store_invD)

lemma good_entry_cong:
  "map_of (a_store s') k = map_of (a_store s) k \<Longrightarrow> deadline_of (a_deadlines s') k = deadline_of (a_deadlines s) k
     \<Longrightarrow> dm_stopped (a_deadlines s') = dm_stopped (a_deadlines s) \<Longrightarrow> good_entry s' k = good_entry s k"
  by (simp add: good_entry_def split: option.split)

lemma app_trans_same:
  assumes "a_store s' = a_store s" and "a_deadlines s' = a_deadlines s"
  shows "app_trans k s s'"
  using good_entry_cong [of s' _ s] assms by (simp add: app_trans_def isolated_def app_inv_def app_base_def)

lemma app_trans_refl [simp, intro]: "app_trans k s s"
  by (rule app_trans_same) simp_all

lemma isolated_trans: "isolated k s s' \<Longrightarrow> isolated k s' s'' \<Longrightarrow> isolated k s s''"
  by (simp add: isolated_def)

lemma app_trans_trans [trans]: "app_trans k s s' \<Longrightarrow> app_trans k s' s'' \<Longrightarrow> app_trans k s s''"
  unfolding app_trans_def by (blast intro: isolated_trans)

text \<open>The invariant is kept when the one entry that changed is good afterwards.\<close>

lemma app_transI:
  assumes "isolated k s s'" and "app_base s \<Longrightarrow> app_base s'" and "app_inv s \<Longrightarrow> good_entry s' k"
  shows "app_trans k s s'"
proof -
  have "good_entry s' k'" if "app_inv s" for k'
  proof (cases "k' = k")
    case True
    with assms(3) that show ?thesis by simp
  next
    case False
    with assms(1) have "good_entry s' k' = good_entry s k'"
      by (intro good_entry_cong) (simp_all add: isolated_def)
    with that show ?thesis by (simp add: app_inv_def)
  qed
  with assms show ?thesis by (auto simp: app_trans_def app_inv_def)
qed

section \<open>The building blocks\<close>

lemma sync_store [simp]: "a_store (syncSandboxDeadline rt r s) = a_store s"
  by (simp add: syncSandboxDeadline_def)

lemma sync_stopped [simp]: "dm_stopped (a_deadlines (syncSandboxDeadline rt r s)) = dm_stopped (a_deadlines s)"
  by (simp add: syncSandboxDeadline_def)

lemma sync_deadline_of:
  "deadline_of (a_deadlines (syncSandboxDeadline rt r s)) k =
     (if k = sr_ID r \<and> k \<noteq> [] then
        (if sr_State r \<noteq> Running \<or> sr_EndAt r = 0 then None
         else if dm_stopped (a_deadlines s) then deadline_of (a_deadlines s) k
         else Some (sr_EndAt r))
      else deadline_of (a_deadlines s) k)"
  by (auto simp: syncSandboxDeadline_def)

lemma sync_dm_inv: "dm_inv (a_deadlines s) \<Longrightarrow> dm_inv (a_deadlines (syncSandboxDeadline rt r s))"
  by (simp add: syncSandboxDeadline_def schedule_deadline_inv dm_inv_cancel)

lemma stopped_no_deadline: "dm_inv m \<Longrightarrow> dm_stopped m \<Longrightarrow> deadline_of m k = None"
  by (simp add: dm_inv_def deadline_of_def)

lemma good_entry_sync:
  assumes "map_of (a_store s) k = Some r" "record_ok k r" "dm_inv (a_deadlines s)"
  shows "good_entry (syncSandboxDeadline rt r s) k"
  using assms stopped_no_deadline [of "a_deadlines s" k]
  by (auto simp: good_entry_def sync_deadline_of record_ok_def go_constants)

text \<open>Storing a record and then synchronising its deadline.\<close>

lemma put_sync_trans:
  assumes "a_store s1 = AList.update k r (a_store s)" and "a_deadlines s1 = a_deadlines s"
    and ok: "app_base s \<Longrightarrow> record_ok k r" and id: "sr_ID r = k"
  shows "app_trans k s (syncSandboxDeadline rt r s1)"
proof (rule app_transI)
  show "isolated k s (syncSandboxDeadline rt r s1)"
    using assms by (auto simp: isolated_def sync_deadline_of)
next
  assume "app_base s"
  with assms ok show "app_base (syncSandboxDeadline rt r s1)"
    by (simp add: app_base_def sync_dm_inv store_inv_update)
next
  assume "app_inv s"
  then have "app_base s" ..
  with assms ok show "good_entry (syncSandboxDeadline rt r s1) k"
    by (intro good_entry_sync) (simp_all add: app_base_def)
qed

lemma sync_trans:
  assumes "map_of (a_store s) k = Some r" and "app_base s \<Longrightarrow> record_ok k r" and "sr_ID r = k"
  shows "app_trans k s (syncSandboxDeadline rt r s)"
proof (rule app_transI)
  show "isolated k s (syncSandboxDeadline rt r s)"
    using assms by (auto simp: isolated_def sync_deadline_of)
next
  assume "app_base s"
  then show "app_base (syncSandboxDeadline rt r s)" by (simp add: app_base_def sync_dm_inv)
next
  assume "app_inv s"
  then have "app_base s" ..
  with assms show "good_entry (syncSandboxDeadline rt r s) k"
    by (intro good_entry_sync) (simp_all add: app_base_def)
qed

lemma delete_cancel_trans:
  assumes "a_store s1 = AList.delete k (a_store s)" and "a_deadlines s1 = a_deadlines s"
  shows "app_trans k s (cancel_deadline k s1)"
proof (rule app_transI)
  show "isolated k s (cancel_deadline k s1)" using assms by (auto simp: isolated_def)
next
  assume "app_base s"
  with assms show "app_base (cancel_deadline k s1)"
    by (simp add: app_base_def dm_inv_cancel store_inv_delete)
next
  assume "app_inv s"
  with assms show "good_entry (cancel_deadline k s1) k" by (simp add: good_entry_def)
qed

lemma cancel_missing_trans: "map_of (a_store s) k = None \<Longrightarrow> app_trans k s (cancel_deadline k s)"
  by (rule app_transI) (auto simp: isolated_def app_base_def dm_inv_cancel good_entry_def)

text \<open>A retry keeps the invariant as long as the record is not paused.\<close>

lemma retry_trans:
  assumes "\<And>r. map_of (a_store s) k = Some r \<Longrightarrow> sr_State r \<noteq> Paused"
  shows "app_trans k s (scheduleExpiryRetry rt k e s)"
proof (cases "map_of (a_store s) k")
  case None
  then show ?thesis by (simp add: scheduleExpiryRetry_def Get_def cancel_missing_trans)
next
  case (Some r)
  obtain t s1 where t: "world_call (rt_now rt) s = (t, s1)" by (cases "world_call (rt_now rt) s")
  then have s1: "a_store s1 = a_store s" "a_deadlines s1 = a_deadlines s" by (auto dest: world_callD)
  have eq: "scheduleExpiryRetry rt k e s = schedule_deadline rt k (time_Add t sandboxExpiryRetryDelay) e s1"
    by (simp add: scheduleExpiryRetry_def Get_def Some t)
  show ?thesis unfolding eq
  proof (rule app_transI)
    show "isolated k s (schedule_deadline rt k (time_Add t sandboxExpiryRetryDelay) e s1)"
      by (simp add: isolated_def s1)
  next
    assume "app_base s"
    then show "app_base (schedule_deadline rt k (time_Add t sandboxExpiryRetryDelay) e s1)"
      by (simp add: app_base_def schedule_deadline_inv s1)
  next
    assume "app_inv s"
    with assms [OF Some] Some show "good_entry (schedule_deadline rt k (time_Add t sandboxExpiryRetryDelay) e s1) k"
      by (auto simp: good_entry_def s1)
  qed
qed

section \<open>Deletion, pausing and reconciliation\<close>

lemma deleteSandbox_spec:
  assumes "deleteSandbox rt r pol s = (res, s')"
  shows "app_trans (sr_ID r) s s' \<and>
    (case res of
       Inl e \<Rightarrow> pol = DeleteRequired \<and> a_store s' = a_store s \<and> a_deadlines s' = a_deadlines s
     | Inr d \<Rightarrow> dr_Deleted d = (map_of (a_store s) (sr_ID r) \<noteq> None) \<and>
         map_of (a_store s') (sr_ID r) = None \<and>
         (dr_Deleted d \<longrightarrow> deadline_of (a_deadlines s') (sr_ID r) = None))"
proof -
  obtain e s1 where c: "(if rt_present rt then world_call (rt_DeleteSandbox rt (sr_RuntimeInfo r)) s else (None, s)) = (e, s1)"
    by (cases "if rt_present rt then world_call (rt_DeleteSandbox rt (sr_RuntimeInfo r)) s else (None, s)")
  then have s1: "a_store s1 = a_store s" "a_deadlines s1 = a_deadlines s"
    by (auto dest: world_callD split: if_splits)
  show ?thesis
  proof (cases "e \<noteq> None \<and> pol = DeleteRequired")
    case True
    with assms c have "res = Inl (the e)" "s' = s1" by (auto simp: deleteSandbox_def)
    with True s1 show ?thesis by (simp add: app_trans_same)
  next
    case False
    show ?thesis
    proof (cases "map_of (a_store s) (sr_ID r)")
      case None
      with assms c False s1 have "res = Inr \<lparr>dr_Deleted = False, dr_RuntimeError = e\<rparr>" "s' = s1"
        by (auto simp: deleteSandbox_def store_call_def Delete_def)
      with None s1 show ?thesis by (simp add: app_trans_same)
    next
      case (Some x)
      with assms c False s1 have r: "res = Inr \<lparr>dr_Deleted = True, dr_RuntimeError = e\<rparr>"
        and s': "s' = cancel_deadline (sr_ID r) (s1\<lparr>a_store := AList.delete (sr_ID r) (a_store s)\<rparr>)"
        by (auto simp: deleteSandbox_def store_call_def Delete_def)
      have "app_trans (sr_ID r) s s'" unfolding s' by (rule delete_cancel_trans) (simp_all add: s1)
      with Some r s' show ?thesis by simp
    qed
  qed
qed

text \<open>A setter of the store followed by a synchronisation, as the handlers do it.\<close>

lemma entry_update_sync_trans:
  assumes upd: "entry_update setter u"
    and call: "store_call (setter k) s = (Inr (Some r), s1)"
    and keep: "\<And>v. sr_ID (u v) = sr_ID v" "\<And>v. sr_OnTimeout (u v) = sr_OnTimeout v"
    and ids: "\<And>v. map_of (a_store s) k = Some v \<Longrightarrow> sr_ID v = k"
  shows "app_trans k s (syncSandboxDeadline rt r s1) \<and>
    map_of (a_store (syncSandboxDeadline rt r s1)) k = Some r \<and>
    (\<exists>v. map_of (a_store s) k = Some v \<and> r = u v)"
proof -
  have c: "setter k (a_store s) = (Inr (Some r), a_store s1)" and d: "a_deadlines s1 = a_deadlines s"
    using store_callD [OF call] by auto
  have present: "map_of (a_store s) k \<noteq> None"
    using entry_update.op_missing [OF upd, of "a_store s" k] c by auto
  then obtain v where v: "map_of (a_store s) k = Some v" by blast
  with entry_update.op_present [OF upd v] c have r: "r = u v" and m: "a_store s1 = AList.update k r (a_store s)"
    by auto
  have "app_trans k s (syncSandboxDeadline rt r s1)"
  proof (rule put_sync_trans [OF m d])
    assume "app_base s"
    from app_base_record [OF this v] show "record_ok k r" by (simp add: record_ok_def r keep)
  next
    show "sr_ID r = k" by (simp add: r keep ids [OF v])
  qed
  with v r m show ?thesis by simp
qed

lemmas setter_updates =
  set_state.entry_update_axioms set_end.entry_update_axioms extend_end.entry_update_axioms
  set_resumed.entry_update_axioms set_inspected.entry_update_axioms

lemma setter_no_error: "entry_update setter u \<Longrightarrow> store_call (setter k) s \<noteq> (Inl e, s1)"
  using entry_update.op_result [of setter u k "a_store s"] by (auto dest!: store_callD)

lemma setter_missing:
  "entry_update setter u \<Longrightarrow> store_call (setter k) s = (Inr None, s1) \<Longrightarrow>
     map_of (a_store s) k = None \<and> a_store s1 = a_store s \<and> a_deadlines s1 = a_deadlines s"
  using entry_update.op_missing [of setter u "a_store s" k] entry_update.op_present [of setter u "a_store s" k]
  by (cases "map_of (a_store s) k") (auto dest!: store_callD)

lemma pauseSandboxLocked_spec:
  assumes run: "pauseSandboxLocked rt r s = (res, s')"
    and here: "map_of (a_store s) k = Some r" and id: "sr_ID r = k"
  shows "app_trans k s s' \<and>
    (case res of
       Inl e \<Rightarrow> a_store s' = a_store s \<and> a_deadlines s' = a_deadlines s
     | Inr None \<Rightarrow> False
     | Inr (Some p) \<Rightarrow> p = r\<lparr>sr_State := Paused\<rparr> \<and> map_of (a_store s') k = Some p)"
proof -
  obtain e s1 where e: "world_call (rt_PauseSandbox rt (sr_RuntimeInfo r)) s = (e, s1)"
    by (cases "world_call (rt_PauseSandbox rt (sr_RuntimeInfo r)) s")
  then have s1: "a_store s1 = a_store s" "a_deadlines s1 = a_deadlines s" by (auto dest: world_callD)
  show ?thesis
  proof (cases e)
    case (Some err)
    with run e have "res = Inl err" "s' = s1" by (auto simp: pauseSandboxLocked_def)
    with s1 show ?thesis by (simp add: app_trans_same)
  next
    case None
    let ?p = "r\<lparr>sr_State := Paused\<rparr>"
    have call: "store_call (SetState Paused k) s1 = (Inr (Some ?p), s1\<lparr>a_store := AList.update k ?p (a_store s)\<rparr>)"
      using here by (simp add: store_call_def SetState_def s1 Let_def)
    have ids: "sr_ID v = k" if "map_of (a_store s1) k = Some v" for v using that here id s1 by simp
    have tr: "app_trans k s1 (syncSandboxDeadline rt ?p (s1\<lparr>a_store := AList.update k ?p (a_store s)\<rparr>))"
      using entry_update_sync_trans [OF set_state.entry_update_axioms call _ _ ids] by simp
    from run e None call id have res: "res = Inr (Some ?p)"
      and s': "s' = syncSandboxDeadline rt ?p (s1\<lparr>a_store := AList.update k ?p (a_store s)\<rparr>)"
      by (auto simp: pauseSandboxLocked_def)
    have "app_trans k s s1" by (rule app_trans_same) (simp_all add: s1)
    with tr s' have "app_trans k s s'" by (simp add: app_trans_trans)
    with res s' show ?thesis by simp
  qed
qed

text \<open>
  After a reconciliation, the record returned is the one the store now holds, with the end time and
  timeout action it had; nothing is returned exactly when the store has dropped the sandbox.
\<close>

definition reconciled :: "sandbox_id \<Rightarrow> sandbox_record \<Rightarrow> 'w app \<Rightarrow> sandbox_record option \<Rightarrow> bool" where
  "reconciled k r s' found \<longleftrightarrow> map_of (a_store s') k = found \<and>
     (found = None \<longrightarrow> deadline_of (a_deadlines s') k = None) \<and>
     (\<forall>r'. found = Some r' \<longrightarrow> sr_ID r' = k \<and> sr_EndAt r' = sr_EndAt r \<and> sr_OnTimeout r' = sr_OnTimeout r)"

lemma reconcileInspector_spec:
  assumes run: "reconcileSandboxRecordWithInspector rt insp r s = (res, s')"
    and here: "map_of (a_store s) k = Some r" and id: "sr_ID r = k"
  shows "app_trans k s s' \<and>
    (case res of Inl e \<Rightarrow> a_store s' = a_store s \<and> a_deadlines s' = a_deadlines s
     | Inr found \<Rightarrow> reconciled k r s' found)"
proof -
  obtain i s1 where i: "world_call (insp (sr_RuntimeInfo r)) s = (i, s1)"
    by (cases "world_call (insp (sr_RuntimeInfo r)) s")
  then have s1: "a_store s1 = a_store s" "a_deadlines s1 = a_deadlines s" by (auto dest: world_callD)
  have tr1: "app_trans k s s1" by (rule app_trans_same) (simp_all add: s1)
  show ?thesis
  proof (cases i)
    case (Inl e)
    with run i have "res = Inl e" "s' = s1" by (auto simp: reconcileSandboxRecordWithInspector_def)
    with s1 tr1 show ?thesis by simp
  next
    case (Inr ins)
    show ?thesis
    proof (cases "in_Exists ins")
      case False
      obtain d s2 where d: "deleteSandbox rt r DeleteBestEffort s1 = (d, s2)"
        by (cases "deleteSandbox rt r DeleteBestEffort s1")
      note spec = deleteSandbox_spec [OF d]
      then obtain dr where dr: "d = Inr dr" by (cases d) auto
      with spec here s1 id have "dr_Deleted dr" "map_of (a_store s2) k = None"
        "deadline_of (a_deadlines s2) k = None" by auto
      with run i Inr False d dr have "res = Inr None" "s' = s2"
        by (auto simp: reconcileSandboxRecordWithInspector_def)
      with spec id tr1 \<open>map_of (a_store s2) k = None\<close> \<open>deadline_of (a_deadlines s2) k = None\<close> show ?thesis
        by (auto simp: reconciled_def intro: app_trans_trans)
    next
      case True
      define st where "st = (if TrimSpace (in_State ins) = [] then sr_State r else TrimSpace (in_State ins))"
      define info where "info = mergeSandboxRuntimeInfo (sr_RuntimeInfo r) (in_Info ins)"
      let ?u = "resumed_record st info 0 r"
      have call: "store_call (SetStateAndRuntimeInfo st info k) s1
          = (Inr (Some ?u), s1\<lparr>a_store := AList.update k ?u (a_store s)\<rparr>)"
        using set_inspected.op_present [OF here] by (simp add: store_call_def s1)
      have ids: "sr_ID v = k" if "map_of (a_store s1) k = Some v" for v using that here id s1 by simp
      note tr2 = entry_update_sync_trans [OF set_inspected.entry_update_axioms call _ _ ids]
      have res: "res = Inr (Some ?u)"
        and s': "s' = syncSandboxDeadline rt ?u (s1\<lparr>a_store := AList.update k ?u (a_store s)\<rparr>)"
        using run i Inr True call id by (auto simp: reconcileSandboxRecordWithInspector_def Let_def st_def info_def)
      from tr2 tr1 s' have "app_trans k s s'" by (auto intro: app_trans_trans)
      with res s' id show ?thesis by (simp add: reconciled_def)
    qed
  qed
qed

lemma reconcileLocked_spec:
  assumes run: "reconcileSandboxRecordLocked rt k s = (res, s')"
    and here: "map_of (a_store s) k = Some r" and id: "sr_ID r = k"
  shows "app_trans k s s' \<and>
    (case res of Inl e \<Rightarrow> a_store s' = a_store s \<and> a_deadlines s' = a_deadlines s
     | Inr found \<Rightarrow>
         if sandboxRecordTerminallyExpired r (fst (rt_now rt (a_world s)))
         then found = None \<and> a_store s' = a_store s
         else reconciled k r s' found)"
proof -
  obtain t s1 where t: "world_call (rt_now rt) s = (t, s1)" by (cases "world_call (rt_now rt) s")
  then have s1: "a_store s1 = a_store s" "a_deadlines s1 = a_deadlines s" and now: "t = fst (rt_now rt (a_world s))"
    by (auto simp: world_call_def split: prod.splits)
  have tr1: "app_trans k s s1" by (rule app_trans_same) (simp_all add: s1)
  have here1: "map_of (a_store s1) k = Some r" using here by (simp add: s1)
  show ?thesis
  proof (cases "sandboxRecordTerminallyExpired r t")
    case True
    with run here t have res: "res = Inr None" "s' = syncSandboxDeadline rt r s1"
      by (auto simp: reconcileSandboxRecordLocked_def Get_def)
    have "app_trans k s1 (syncSandboxDeadline rt r s1)"
      by (rule sync_trans [OF here1 _ id]) (blast dest: app_base_record [OF _ here1])
    with tr1 have "app_trans k s (syncSandboxDeadline rt r s1)" by (rule app_trans_trans)
    with res True s1 now show ?thesis by simp
  next
    case False
    show ?thesis
    proof (cases "rt_InspectSandbox rt")
      case None
      with run here t False have "res = Inr (Some r)" "s' = s1"
        by (auto simp: reconcileSandboxRecordLocked_def Get_def)
      with tr1 here1 False now id show ?thesis by (simp add: reconciled_def)
    next
      case (Some insp)
      with run here t False have "reconcileSandboxRecordWithInspector rt insp r s1 = (res, s')"
        by (simp add: reconcileSandboxRecordLocked_def Get_def)
      from reconcileInspector_spec [OF this here1 id] tr1 False now s1 show ?thesis
        by (cases res) (auto intro: app_trans_trans)
    qed
  qed
qed

lemma app_base_id: "app_base s \<Longrightarrow> map_of (a_store s) k = Some r \<Longrightarrow> sr_ID r = k"
  by (drule (1) app_base_record) (simp add: record_ok_def)

lemma activeLocked_spec:
  assumes run: "activeSandboxRecordLocked rt k s = (res, s')"
    and here: "map_of (a_store s) k = Some r" and id: "sr_ID r = k"
  shows "app_trans k s s' \<and>
    (\<forall>r'. res = Inr r' \<longrightarrow> reconciled k r s' (Some r') \<and>
        \<not> sandboxRecordTerminallyExpired r (fst (rt_now rt (a_world s))))"
proof -
  obtain q s1 where q: "reconcileSandboxRecordLocked rt k s = (q, s1)"
    by (cases "reconcileSandboxRecordLocked rt k s")
  note spec = reconcileLocked_spec [OF q here id]
  from run q have s': "s' = s1" by (auto simp: activeSandboxRecordLocked_def split: sum.splits option.splits)
  show ?thesis
  proof (intro conjI allI impI)
    show "app_trans k s s'" using spec s' by simp
  next
    fix r' assume "res = Inr r'"
    with run q have "q = Inr (Some r')" by (auto simp: activeSandboxRecordLocked_def split: sum.splits option.splits)
    with spec s' show "reconciled k r s' (Some r')"
      and "\<not> sandboxRecordTerminallyExpired r (fst (rt_now rt (a_world s)))"
      by (auto split: if_splits)
  qed
qed

end
