(* ===== verification/HandlerProofs.thy ===== *)
theory HandlerProofs
  imports AppInvariant
begin

text \<open>
  What each handler promises, as lemmas over the invariant: it keeps the invariant, touches no
  other sandbox, and what its answer says about the sandbox it is for.
\<close>

section \<open>The lookup every handler starts with\<close>

lemma lockSandbox_iff: "lockSandbox k s \<longleftrightarrow> map_of (a_store s) k \<noteq> None"
  by (simp add: lockSandbox_def Get_def)

lemma app_base_trans: "app_trans k s s' \<Longrightarrow> app_base s \<Longrightarrow> app_base s'"
  by (simp add: app_trans_def)

text \<open>The record the handler goes on with is the one the store now holds.\<close>

lemma active_found:
  assumes "activeSandboxRecordLocked rt k s = (Inr r', s')" and "app_base s" and "lockSandbox k s"
  obtains r where "map_of (a_store s) k = Some r" "app_trans k s s'" "map_of (a_store s') k = Some r'"
    "sr_ID r' = k" "sr_EndAt r' = sr_EndAt r" "sr_OnTimeout r' = sr_OnTimeout r" "app_base s'"
proof -
  from assms(3) obtain r where r: "map_of (a_store s) k = Some r" by (auto simp: lockSandbox_iff)
  from activeLocked_spec [OF assms(1) r app_base_id [OF assms(2) r]] assms(2) r that
  show thesis by (auto simp: reconciled_def dest: app_base_trans)
qed

lemma active_trans:
  assumes "activeSandboxRecordLocked rt k s = (res, s')" and "app_base s" and "lockSandbox k s"
  shows "app_trans k s s'"
proof -
  from assms(3) obtain r where r: "map_of (a_store s) k = Some r" by (auto simp: lockSandbox_iff)
  from activeLocked_spec [OF assms(1) r app_base_id [OF assms(2) r]] show ?thesis by simp
qed

lemma world_call_trans: "world_call f s = (x, s') \<Longrightarrow> app_trans k s s'"
  by (rule app_trans_same) (auto dest: world_callD)

text \<open>A terminally expired sandbox is not found by any of them, and the store is not touched.\<close>

lemma active_expired:
  assumes "map_of (a_store s) k = Some r" and "sandboxRecordTerminallyExpired r (fst (rt_now rt (a_world s)))"
  shows "\<exists>s'. activeSandboxRecordLocked rt k s = (Inl (not_found k), s') \<and> a_store s' = a_store s"
proof -
  obtain t s1 where t: "world_call (rt_now rt) s = (t, s1)" by (cases "world_call (rt_now rt) s")
  then have s1: "a_store s1 = a_store s" "t = fst (rt_now rt (a_world s))"
    by (auto simp: world_call_def split: prod.splits)
  with assms t show ?thesis
    by (simp add: activeSandboxRecordLocked_def reconcileSandboxRecordLocked_def Get_def)
qed

section \<open>Requests\<close>

datatype request =
    GetReq
  | KillReq
  | PauseReq
  | ResumeReq "32 word option"
  | ConnectReq "32 word"
  | TimeoutReq "32 word"
  | RefreshReq "64 word option"

definition err_of :: "(go_error + 'a) \<times> 'w app \<Rightarrow> go_error option \<times> 'w app" where
  "err_of p = (case p of (Inl e, s) \<Rightarrow> (Some e, s) | (Inr _, s) \<Rightarrow> (None, s))"

primrec handle :: "'w runtime \<Rightarrow> sandbox_id \<Rightarrow> request \<Rightarrow> 'w app \<Rightarrow> go_error option \<times> 'w app" where
  "handle rt k GetReq s = err_of (defaultGetSandbox rt k s)"
| "handle rt k KillReq s = err_of (defaultKillSandbox rt k s)"
| "handle rt k PauseReq s = err_of (defaultPauseSandbox rt k s)"
| "handle rt k (ResumeReq t) s = err_of (defaultResumeSandbox rt k t s)"
| "handle rt k (ConnectReq t) s = err_of (defaultConnectSandbox rt k t s)"
| "handle rt k (TimeoutReq t) s = err_of (defaultSetSandboxTimeout rt k t s)"
| "handle rt k (RefreshReq d) s = err_of (defaultRefreshSandbox rt k d s)"

text \<open>The argument checks that precede the lookup.\<close>

primrec valid_request :: "request \<Rightarrow> bool" where
  "valid_request GetReq = True"
| "valid_request KillReq = True"
| "valid_request PauseReq = True"
| "valid_request (ResumeReq t) = (case t of Some t \<Rightarrow> 0 \<le> sint t | None \<Rightarrow> True)"
| "valid_request (ConnectReq t) = (0 \<le> sint t)"
| "valid_request (TimeoutReq t) = (0 \<le> sint t)"
| "valid_request (RefreshReq d) = (case d of Some d \<Rightarrow> 0 \<le> sint d \<and> sint d \<le> 3600 | None \<Rightarrow> True)"

lemmas handler_defs =
  defaultGetSandbox_def activeSandboxRecord_def defaultKillSandbox_def defaultPauseSandbox_def
  defaultResumeSandbox_def defaultConnectSandbox_def defaultSetSandboxTimeout_def
  defaultRefreshSandbox_def change_EndAt_def

lemma handle_invalid:
  "\<not> valid_request q \<Longrightarrow> \<exists>msg. handle rt k q s = (Some (bad_request msg), s)"
  by (cases q) (auto simp: handler_defs err_of_def Let_def not_le split: option.splits)

lemma handle_missing:
  "valid_request q \<Longrightarrow> map_of (a_store s) k = None \<Longrightarrow> handle rt k q s = (Some (not_found k), s)"
  by (cases q) (auto simp: handler_defs err_of_def Let_def lockSandbox_iff split: option.splits)

lemma handle_active_error:
  assumes "valid_request q" and "lockSandbox k s" and "activeSandboxRecordLocked rt k s = (Inl e, s')"
  shows "handle rt k q s = (Some e, s')"
  using assms by (cases q) (auto simp: handler_defs err_of_def Let_def split: option.splits)

lemma handle_expired:
  assumes "valid_request q" and here: "map_of (a_store s) k = Some r"
    and "sandboxRecordTerminallyExpired r (fst (rt_now rt (a_world s)))"
  shows "\<exists>s'. handle rt k q s = (Some (not_found k), s') \<and> a_store s' = a_store s"
proof -
  from here have lock: "lockSandbox k s" by (simp add: lockSandbox_iff)
  from active_expired [OF here assms(3)] handle_active_error [OF assms(1) lock] show ?thesis by blast
qed

section \<open>Every request keeps the invariant and touches only its sandbox\<close>

text \<open>A setter applied to the record the handler has found, then the synchronisation.\<close>

lemma setter_step:
  assumes upd: "entry_update setter u" and here: "map_of (a_store s) k = Some r" and base: "app_base s"
    and keep: "\<And>v. sr_ID (u v) = sr_ID v" "\<And>v. sr_OnTimeout (u v) = sr_OnTimeout v"
    and call: "store_call (setter k) s = (res, s1)"
  shows "res = Inr (Some (u r)) \<and> app_trans k s (syncSandboxDeadline rt (u r) s1) \<and>
    map_of (a_store (syncSandboxDeadline rt (u r) s1)) k = Some (u r)"
proof -
  from entry_update.op_present [OF upd here] call have res: "res = Inr (Some (u r))"
    by (auto simp: store_call_def)
  have ids: "sr_ID v = k" if "map_of (a_store s) k = Some v" for v using base that by (rule app_base_id)
  from entry_update_sync_trans [OF upd call [unfolded res] keep ids] res show ?thesis by blast
qed

lemma Kill_spec:
  assumes run: "defaultKillSandbox rt k s = (res, s')" and base: "app_base s"
  shows "app_trans k s s' \<and>
    (\<forall>x. res = Inr x \<longrightarrow> map_of (a_store s') k = None \<and> deadline_of (a_deadlines s') k = None)"
proof (cases "lockSandbox k s")
  case False
  with run show ?thesis by (auto simp: defaultKillSandbox_def)
next
  case True
  obtain a s1 where a: "activeSandboxRecordLocked rt k s = (a, s1)" by (cases "activeSandboxRecordLocked rt k s")
  note tr = active_trans [OF a base True]
  show ?thesis
  proof (cases a)
    case (Inl e)
    with run True a tr show ?thesis by (auto simp: defaultKillSandbox_def)
  next
    case (Inr r)
    from active_found [OF a [unfolded Inr] base True] have id: "sr_ID r = k" by blast
    obtain d s2 where d: "deleteSandbox rt r DeleteRequired s1 = (d, s2)"
      by (cases "deleteSandbox rt r DeleteRequired s1")
    note sp = deleteSandbox_spec [OF d, unfolded id]
    from run True a Inr d have "s' = s2" "\<forall>x. res = Inr x \<longrightarrow> (\<exists>q. d = Inr q \<and> dr_Deleted q)"
      by (auto simp: defaultKillSandbox_def split: sum.splits if_splits)
    with sp app_trans_trans [OF tr] show ?thesis by auto
  qed
qed

lemma Pause_spec:
  assumes run: "defaultPauseSandbox rt k s = (res, s')" and base: "app_base s"
  shows "app_trans k s s' \<and>
    (\<forall>p. res = Inr p \<longrightarrow> map_of (a_store s') k = Some p \<and> sr_State p = Paused)"
proof (cases "lockSandbox k s")
  case False
  with run show ?thesis by (auto simp: defaultPauseSandbox_def)
next
  case True
  obtain a s1 where a: "activeSandboxRecordLocked rt k s = (a, s1)" by (cases "activeSandboxRecordLocked rt k s")
  note tr = active_trans [OF a base True]
  show ?thesis
  proof (cases "\<exists>r. a = Inr r \<and> sr_State r = Running")
    case False
    with run True a tr show ?thesis by (auto simp: defaultPauseSandbox_def split: sum.splits)
  next
    case run': True
    then obtain r where r: "a = Inr r" "sr_State r = Running" by blast
    from active_found [OF a [unfolded r(1)] base True] have id: "sr_ID r = k" and here: "map_of (a_store s1) k = Some r"
      by blast+
    obtain p s2 where p: "pauseSandboxLocked rt r s1 = (p, s2)" by (cases "pauseSandboxLocked rt r s1")
    note sp = pauseSandboxLocked_spec [OF p here id]
    from run True a r p have "s' = s2" "\<forall>x. res = Inr x \<longrightarrow> p = Inr (Some x)"
      by (auto simp: defaultPauseSandbox_def split: sum.splits option.splits)
    with sp app_trans_trans [OF tr] show ?thesis by auto
  qed
qed

text \<open>The clock reading after which the handler computed an end time.\<close>

lemma world_call_fst: "world_call f s = (t, s') \<Longrightarrow> t = fst (f (a_world s))"
  by (auto simp: world_call_def split: prod.splits)

lemma world_call_clock:
  "world_call (rt_now rt) s = (t, s') \<Longrightarrow> (\<And>w. T \<le> fst (rt_now rt w)) \<Longrightarrow> T \<le> t"
  by (drule world_call_fst) simp

lemma Resume_spec:
  assumes run: "defaultResumeSandbox rt k timeout s = (res, s')" and base: "app_base s"
  shows "app_trans k s s' \<and>
    (\<forall>p. res = Inr p \<longrightarrow> map_of (a_store s') k = Some p \<and> sr_State p = Running \<and>
       ((\<forall>w. 0 < T \<and> T \<le> fst (rt_now rt w)) \<longrightarrow> T + sint (requestTimeout timeout) * 1000000000 \<le> sr_EndAt p))"
proof (cases "(case timeout of Some t \<Rightarrow> sint t < 0 | None \<Rightarrow> False) \<or> \<not> lockSandbox k s")
  case True
  with run show ?thesis by (auto simp: defaultResumeSandbox_def split: if_splits)
next
  case ok: False
  obtain a s1 where a: "activeSandboxRecordLocked rt k s = (a, s1)" by (cases "activeSandboxRecordLocked rt k s")
  from ok have lock: "lockSandbox k s" by simp
  note tr = active_trans [OF a base lock]
  show ?thesis
  proof (cases "\<exists>r. a = Inr r \<and> sr_State r = Paused")
    case False
    with run ok a tr show ?thesis by (auto simp: defaultResumeSandbox_def split: sum.splits)
  next
    case True
    then obtain r where r: "a = Inr r" "sr_State r = Paused" by blast
    from active_found [OF a [unfolded r(1)] base lock] have here: "map_of (a_store s1) k = Some r" and b1: "app_base s1"
      by blast+
    obtain i s2 where i: "world_call (rt_ResumeSandbox rt (sr_RuntimeInfo r)) s1 = (i, s2)"
      by (cases "world_call (rt_ResumeSandbox rt (sr_RuntimeInfo r)) s1")
    note tr2 = app_trans_trans [OF tr world_call_trans [OF i]]
    show ?thesis
    proof (cases i)
      case (Inl e)
      with run ok a r i tr2 show ?thesis by (auto simp: defaultResumeSandbox_def)
    next
      case (Inr info)
      obtain now s3 where now: "world_call (rt_now rt) s2 = (now, s3)" by (cases "world_call (rt_now rt) s2")
      note tr3 = app_trans_trans [OF tr2 world_call_trans [OF now]]
      from here i now have h3: "map_of (a_store s3) k = Some r" by (auto dest!: world_callD)
      let ?e = "time_Add now (seconds_duration (requestTimeout timeout))"
      obtain q s4 where q: "store_call (SetStateRuntimeInfoAndEndAt Running info ?e k) s3 = (q, s4)"
        by (cases "store_call (SetStateRuntimeInfoAndEndAt Running info ?e k) s3")
      note st = setter_step [OF set_resumed.entry_update_axioms h3 app_base_trans [OF tr3 base] _ _ q]
      let ?p = "resumed_record Running info ?e r"
      from st have "q = Inr (Some ?p)" by simp
      with run ok a r i Inr now q have eq: "res = Inr ?p" "s' = syncSandboxDeadline rt ?p s4"
        by (auto simp: defaultResumeSandbox_def Let_def)
      have "T + sint (requestTimeout timeout) * 1000000000 \<le> sr_EndAt ?p"
        if "\<forall>w. 0 < T \<and> T \<le> fst (rt_now rt w)"
      proof -
        have "T \<le> now" using world_call_clock [OF now] that by blast
        moreover have "0 \<le> sint (requestTimeout timeout)"
          using ok by (auto simp: requestTimeout_def DefaultSandboxTimeoutSeconds_def split: option.splits)
        moreover have "0 < T" using that by blast
        ultimately show ?thesis by (auto simp: time_Add_seconds)
      qed
      with st eq app_trans_trans [OF tr3] show ?thesis by auto
    qed
  qed
qed

text \<open>Connecting never brings the end of a sandbox forward.\<close>

lemma Connect_spec:
  assumes run: "defaultConnectSandbox rt k timeout s = (res, s')" and base: "app_base s"
  shows "app_trans k s s' \<and>
    (\<forall>p b. res = Inr (p, b) \<longrightarrow> map_of (a_store s') k = Some p \<and>
       (\<exists>r. map_of (a_store s) k = Some r \<and> sr_OnTimeout p = sr_OnTimeout r \<and>
          (0 \<le> sr_EndAt r \<longrightarrow> sr_EndAt r \<le> sr_EndAt p)) \<and> (b \<longrightarrow> sr_State p = Running) \<and>
       ((\<forall>w. 0 < T \<and> T \<le> fst (rt_now rt w)) \<longrightarrow> T + sint timeout * 1000000000 \<le> sr_EndAt p))"
proof (cases "sint timeout < 0 \<or> \<not> lockSandbox k s")
  case True
  with run show ?thesis by (auto simp: defaultConnectSandbox_def split: if_splits)
next
  case ok: False
  obtain a s1 where a: "activeSandboxRecordLocked rt k s = (a, s1)" by (cases "activeSandboxRecordLocked rt k s")
  from ok have lock: "lockSandbox k s" by simp
  note tr = active_trans [OF a base lock]
  show ?thesis
  proof (cases a)
    case (Inl e)
    with run ok a tr show ?thesis by (auto simp: defaultConnectSandbox_def)
  next
    case (Inr r)
    from active_found [OF a [unfolded Inr] base lock] obtain r0 where r0: "map_of (a_store s) k = Some r0"
      "sr_EndAt r = sr_EndAt r0" "sr_OnTimeout r = sr_OnTimeout r0" and here: "map_of (a_store s1) k = Some r"
      by metis
    show ?thesis
    proof (cases "sr_State r = Paused")
      case True
      obtain i s2 where i: "world_call (rt_ResumeSandbox rt (sr_RuntimeInfo r)) s1 = (i, s2)"
        by (cases "world_call (rt_ResumeSandbox rt (sr_RuntimeInfo r)) s1")
      note tr2 = app_trans_trans [OF tr world_call_trans [OF i]]
      show ?thesis
      proof (cases i)
        case (Inl e)
        with run ok a Inr True i tr2 show ?thesis by (auto simp: defaultConnectSandbox_def)
      next
        case info: (Inr info)
        obtain now s3 where now: "world_call (rt_now rt) s2 = (now, s3)" by (cases "world_call (rt_now rt) s2")
        note tr3 = app_trans_trans [OF tr2 world_call_trans [OF now]]
        from here i now have h3: "map_of (a_store s3) k = Some r" by (auto dest!: world_callD)
        define e where "e = max (sr_EndAt r) (time_Add now (seconds_duration timeout))"
        have e': "e = (if sr_EndAt r > time_Add now (seconds_duration timeout) then sr_EndAt r
            else time_Add now (seconds_duration timeout))" by (simp add: e_def max_def)
        obtain q s4 where q: "store_call (SetStateRuntimeInfoAndEndAt Running info e k) s3 = (q, s4)"
          by (cases "store_call (SetStateRuntimeInfoAndEndAt Running info e k) s3")
        note st = setter_step [OF set_resumed.entry_update_axioms h3 app_base_trans [OF tr3 base] _ _ q]
        let ?p = "resumed_record Running info e r"
        from st have "q = Inr (Some ?p)" by simp
        with run ok a Inr True i info now q have eq: "res = Inr (?p, True)" "s' = syncSandboxDeadline rt ?p s4"
          by (auto simp: defaultConnectSandbox_def Let_def e')
        have "T + sint timeout * 1000000000 \<le> sr_EndAt ?p" if "\<forall>w. 0 < T \<and> T \<le> fst (rt_now rt w)"
        proof -
          have "T \<le> now" using world_call_clock [OF now] that by blast
          with that ok show ?thesis by (simp add: e_def time_Add_seconds le_max_iff_disj) linarith
        qed
        moreover have "0 \<le> sr_EndAt r \<longrightarrow> sr_EndAt r \<le> sr_EndAt ?p" by (simp add: e_def)
        ultimately show ?thesis using st eq r0 app_trans_trans [OF tr3] by auto
      qed
    next
      case False
      obtain now s3 where now: "world_call (rt_now rt) s1 = (now, s3)" by (cases "world_call (rt_now rt) s1")
      note tr3 = app_trans_trans [OF tr world_call_trans [OF now]]
      from here now have h3: "map_of (a_store s3) k = Some r" by (auto dest!: world_callD)
      let ?e = "time_Add now (seconds_duration timeout)"
      obtain q s4 where q: "store_call (ExtendEndAt ?e k) s3 = (q, s4)" by (cases "store_call (ExtendEndAt ?e k) s3")
      note st = setter_step [OF extend_end.entry_update_axioms h3 app_base_trans [OF tr3 base] _ _ q]
      let ?p = "r\<lparr>sr_EndAt := max (sr_EndAt r) ?e\<rparr>"
      from st have "q = Inr (Some ?p)" by simp
      with run ok a Inr False now q have eq: "res = Inr (?p, False)" "s' = syncSandboxDeadline rt ?p s4"
        by (auto simp: defaultConnectSandbox_def)
      have "T + sint timeout * 1000000000 \<le> sr_EndAt ?p" if "\<forall>w. 0 < T \<and> T \<le> fst (rt_now rt w)"
      proof -
        have "T \<le> now" using world_call_clock [OF now] that by blast
        then show ?thesis by (simp add: time_Add_seconds)
      qed
      with st eq r0 app_trans_trans [OF tr3] show ?thesis by auto
    qed
  qed
qed

text \<open>The common tail of the timeout and refresh handlers.\<close>

lemma change_EndAt_spec:
  assumes run: "change_EndAt rt k d set_end s = (res, s')" and base: "app_base s"
    and upd: "\<And>e. entry_update (set_end e) (\<lambda>r. r\<lparr>sr_EndAt := f e (sr_EndAt r)\<rparr>)"
  shows "app_trans k s s' \<and>
    (\<forall>x. res = Inr x \<longrightarrow> (\<exists>r p now. map_of (a_store s) k = Some r \<and> map_of (a_store s') k = Some p \<and>
       sr_EndAt p = f (time_Add now d) (sr_EndAt r) \<and> sr_OnTimeout p = sr_OnTimeout r \<and>
       (\<exists>w. now = fst (rt_now rt w))))"
proof (cases "lockSandbox k s")
  case False
  with run show ?thesis by (auto simp: change_EndAt_def)
next
  case lock: True
  obtain a s1 where a: "activeSandboxRecordLocked rt k s = (a, s1)" by (cases "activeSandboxRecordLocked rt k s")
  note tr = active_trans [OF a base lock]
  show ?thesis
  proof (cases a)
    case (Inl e)
    with run lock a tr show ?thesis by (auto simp: change_EndAt_def)
  next
    case (Inr r)
    from active_found [OF a [unfolded Inr] base lock] obtain r0 where r0: "map_of (a_store s) k = Some r0"
      "sr_EndAt r = sr_EndAt r0" "sr_OnTimeout r = sr_OnTimeout r0" and here: "map_of (a_store s1) k = Some r"
      by metis
    obtain now s3 where now: "world_call (rt_now rt) s1 = (now, s3)" by (cases "world_call (rt_now rt) s1")
    note tr3 = app_trans_trans [OF tr world_call_trans [OF now]]
    from here now have h3: "map_of (a_store s3) k = Some r" by (auto dest!: world_callD)
    let ?e = "time_Add now d"
    obtain q s4 where q: "store_call (set_end ?e k) s3 = (q, s4)" by (cases "store_call (set_end ?e k) s3")
    note st = setter_step [OF upd h3 app_base_trans [OF tr3 base] _ _ q]
    let ?p = "r\<lparr>sr_EndAt := f ?e (sr_EndAt r)\<rparr>"
    from st have "q = Inr (Some ?p)" by simp
    with run lock a Inr now q have eq: "res = Inr ()" "s' = syncSandboxDeadline rt ?p s4"
      by (auto simp: change_EndAt_def)
    have "sr_EndAt ?p = f ?e (sr_EndAt r0) \<and> sr_OnTimeout ?p = sr_OnTimeout r0" using r0 by simp
    moreover have "now = fst (rt_now rt (a_world s1))" using world_call_fst [OF now] .
    ultimately show ?thesis using st eq r0(1) app_trans_trans [OF tr3] by auto
  qed
qed

lemma SetTimeout_spec:
  assumes run: "defaultSetSandboxTimeout rt k timeout s = (res, s')" and base: "app_base s"
  shows "app_trans k s s' \<and>
    (\<forall>x. res = Inr x \<longrightarrow> (\<exists>p w. map_of (a_store s') k = Some p \<and>
       sr_EndAt p = fst (rt_now rt w) + sint timeout * 1000000000))"
proof (cases "sint timeout < 0")
  case True
  with run show ?thesis by (auto simp: defaultSetSandboxTimeout_def)
next
  case False
  with run have "change_EndAt rt k (seconds_duration timeout) SetEndAt s = (res, s')"
    by (simp add: defaultSetSandboxTimeout_def)
  from change_EndAt_spec [OF this base, of "\<lambda>e _. e", OF set_end.entry_update_axioms]
  show ?thesis by (auto simp: time_Add_seconds)
qed

lemma sint_refresh:
  assumes "0 \<le> sint d" and "sint d \<le> 3600"
  shows "sint ((d :: 64 word) * time_Second) = sint d * 1000000000"
proof -
  have "sint (d * time_Second) = signed_take_bit 63 (sint d * 1000000000)"
    by (simp add: time_Second_def Word.sint_word_ariths)
  also have "\<dots> = sint d * 1000000000"
    using assms by (intro signed_take_bit_int_eq_self) simp_all
  finally show ?thesis .
qed

lemma Refresh_spec:
  assumes run: "defaultRefreshSandbox rt k d s = (res, s')" and base: "app_base s"
  shows "app_trans k s s' \<and>
    (\<forall>x. res = Inr x \<longrightarrow> (\<exists>r p w. map_of (a_store s) k = Some r \<and> map_of (a_store s') k = Some p \<and>
       sr_EndAt p = max (sr_EndAt r) (fst (rt_now rt w) + sint (case d of None \<Rightarrow> 15 | Some d \<Rightarrow> d) * 1000000000)))"
proof -
  define n where "n = (case d of None \<Rightarrow> 15 | Some d \<Rightarrow> d)"
  show ?thesis
  proof (cases "sint n < 0 \<or> sint n > 3600")
    case True
    with run show ?thesis by (auto simp: defaultRefreshSandbox_def n_def Let_def split: if_splits)
  next
    case False
    then have "sint (n * time_Second) = sint n * 1000000000" by (simp add: sint_refresh)
    moreover from False run have "change_EndAt rt k (n * time_Second) ExtendEndAt s = (res, s')"
      by (simp add: defaultRefreshSandbox_def n_def Let_def)
    from change_EndAt_spec [OF this base, of "\<lambda>e e0. max e0 e", OF extend_end.entry_update_axioms]
    have "app_trans k s s' \<and> (\<forall>x. res = Inr x \<longrightarrow> (\<exists>r p w. map_of (a_store s) k = Some r \<and>
        map_of (a_store s') k = Some p \<and>
        sr_EndAt p = max (sr_EndAt r) (time_Add (fst (rt_now rt w)) (n * time_Second))))"
      by blast
    ultimately show ?thesis by (simp add: time_Add_def n_def)
  qed
qed

text \<open>All seven requests together.\<close>

lemma handle_trans:
  assumes "handle rt k q s = (e, s')" and "app_base s"
  shows "app_trans k s s'"
proof (cases q)
  case GetReq
  show ?thesis
  proof (cases "lockSandbox k s")
    case True
    with assms GetReq active_trans [OF _ assms(2) True] show ?thesis
      by (auto simp: defaultGetSandbox_def activeSandboxRecord_def err_of_def split: prod.splits sum.splits)
  next
    case False
    with assms GetReq show ?thesis by (auto simp: defaultGetSandbox_def activeSandboxRecord_def err_of_def)
  qed
next
  case KillReq
  with assms Kill_spec [OF _ assms(2)] show ?thesis by (auto simp: err_of_def split: prod.splits sum.splits)
next
  case PauseReq
  with assms Pause_spec [OF _ assms(2)] show ?thesis by (auto simp: err_of_def split: prod.splits sum.splits)
next
  case (ResumeReq t)
  with assms Resume_spec [OF _ assms(2)] show ?thesis by (auto simp: err_of_def split: prod.splits sum.splits)
next
  case (ConnectReq t)
  with assms Connect_spec [OF _ assms(2)] show ?thesis by (fastforce simp: err_of_def split: prod.splits sum.splits)
next
  case (TimeoutReq t)
  with assms SetTimeout_spec [OF _ assms(2)] show ?thesis by (auto simp: err_of_def split: prod.splits sum.splits)
next
  case (RefreshReq d)
  with assms Refresh_spec [OF _ assms(2)] show ?thesis by (auto simp: err_of_def split: prod.splits sum.splits)
qed

text \<open>If the runtime refuses to delete, the record stays.\<close>

lemma Kill_refused:
  assumes run: "defaultKillSandbox rt k s = (res, s')" and rt: "rt_present rt" "rt_InspectSandbox rt = None"
    and refuse: "\<And>i w. fst (rt_DeleteSandbox rt i w) \<noteq> None"
  shows "a_store s' = a_store s \<and> (\<exists>e. res = Inl e)"
proof -
  have d: "\<exists>e s2. deleteSandbox rt r DeleteRequired s1 = (Inl e, s2) \<and> a_store s2 = a_store s1" for r s1
  proof -
    obtain x s2 where x: "world_call (rt_DeleteSandbox rt (sr_RuntimeInfo r)) s1 = (x, s2)"
      by (cases "world_call (rt_DeleteSandbox rt (sr_RuntimeInfo r)) s1")
    with world_call_fst [OF x] refuse obtain e where "x = Some e" by fastforce
    with x rt show ?thesis by (auto simp: deleteSandbox_def dest: world_callD)
  qed
  have a: "a_store (snd (activeSandboxRecordLocked rt k s)) = a_store s"
    using rt by (simp add: activeSandboxRecordLocked_def reconcileSandboxRecordLocked_def split: option.split prod.split sum.split)
      (auto simp: world_call_def split: prod.splits)
  obtain q s1 where q: "activeSandboxRecordLocked rt k s = (q, s1)" by (cases "activeSandboxRecordLocked rt k s")
  show ?thesis
  proof (cases q)
    case (Inl e)
    with run q a show ?thesis by (auto simp: defaultKillSandbox_def split: if_splits)
  next
    case (Inr r)
    with run q a d [of r s1] show ?thesis by (auto simp: defaultKillSandbox_def split: if_splits)
  qed
qed

end
