(* ===== verification/ExpiryProofs.thy ===== *)
theory ExpiryProofs
  imports HandlerProofs
begin

text \<open>
  Creation, expiry, and the operations that walk over every sandbox (listing, killing a team's
  sandboxes, restoring at start-up): preservation of the invariant and their results.
\<close>

section \<open>Creation\<close>

lemma new_record_simps [simp]:
  "sr_ID (new_record k tid md info c e al ot) = k" "sr_State (new_record k tid md info c e al ot) = Running"
  "sr_OnTimeout (new_record k tid md info c e al ot) = ot" "sr_CreatedAt (new_record k tid md info c e al ot) = c"
  "sr_EndAt (new_record k tid md info c e al ot) = e" "sr_RuntimeInfo (new_record k tid md info c e al ot) = info"
  by (simp_all add: new_record_def)

lemma Running_nonempty [simp]: "Running \<noteq> []"
  by (simp add: go_constants)

lemma app_CreateD:
  "app_Create rt r s = (res, s') \<Longrightarrow>
     Create rt r (a_store s) (a_world s) = (res, a_store s', a_world s') \<and> a_deadlines s' = a_deadlines s"
  by (auto simp: app_Create_def split: prod.splits)

lemma createInRuntime_spec:
  assumes run: "createSandboxInRuntime rt req k tid now s = (res, s')" and k: "k \<noteq> []"
  shows "case res of
      Inl e \<Rightarrow> a_store s' = a_store s \<and> a_deadlines s' = a_deadlines s
    | Inr r \<Rightarrow> sr_ID r = k \<and> map_of (a_store s) k = None \<and> map_of (a_store s') k = Some r \<and>
        app_trans k s s' \<and> sr_State r = Running \<and>
        sr_OnTimeout r = SandboxTimeoutActionFromAutoPause (ns_AutoPause req) \<and>
        (now \<noteq> 0 \<longrightarrow> sr_CreatedAt r = now) \<and>
        (time_Add now (seconds_duration (requestTimeout (ns_Timeout req))) \<noteq> 0 \<longrightarrow>
           sr_EndAt r = time_Add now (seconds_duration (requestTimeout (ns_Timeout req))))"
proof -
  let ?fin = "time_Add now (seconds_duration (requestTimeout (ns_Timeout req)))"
  let ?ot = "SandboxTimeoutActionFromAutoPause (ns_AutoPause req)"
  let ?md = "sandboxMetadata (ns_Metadata req)"
  let ?creq = "\<lparr>cr_SandboxID = k, cr_TemplateID = tid, cr_Metadata = ?md,
      cr_EnvVars = sandboxEnvVars (ns_EnvVars req), cr_VolumeMounts = sandboxVolumeMounts (ns_VolumeMounts req),
      cr_CreatedAt = now, cr_EndAt = ?fin, cr_AllowInternetAccess = ns_AllowInternetAccess req, cr_OnTimeout = ?ot\<rparr>"
  obtain c s1 where c: "world_call (rt_CreateSandbox rt ?creq) s = (c, s1)"
    by (cases "world_call (rt_CreateSandbox rt ?creq) s")
  then have s1: "a_store s1 = a_store s" "a_deadlines s1 = a_deadlines s" by (auto dest: world_callD)
  show ?thesis
  proof (cases c)
    case (Inl e)
    with run c s1 show ?thesis by (auto simp: createSandboxInRuntime_def Let_def)
  next
    case (Inr info)
    let ?n = "new_record k tid ?md info now ?fin (ns_AllowInternetAccess req) ?ot"
    obtain a s2 where a: "app_Create rt ?n s1 = (a, s2)" by (cases "app_Create rt ?n s1")
    note ad = app_CreateD [OF a]
    note cs = Create_spec [OF conjunct1 [OF ad]]
    show ?thesis
    proof (cases a)
      case (Inl e)
      with run c Inr a ad cs s1 show ?thesis
        by (auto simp: createSandboxInRuntime_def Let_def split: prod.splits dest!: world_callD)
    next
      case r: (Inr r)
      from run c Inr a r have eq: "res = Inr r" "s' = syncSandboxDeadline rt r s2"
        by (auto simp: createSandboxInRuntime_def Let_def)
      from cs r k have id: "sr_ID r = k" and fresh: "map_of (a_store s1) k = None"
        and upd: "a_store s2 = AList.update k r (a_store s1)" and ok: "record_ok k r"
        and f: "sr_OnTimeout r = ?ot" "sr_State r = Running" "now \<noteq> 0 \<longrightarrow> sr_CreatedAt r = now"
          "?fin \<noteq> 0 \<longrightarrow> sr_EndAt r = ?fin"
        by (auto split: if_splits)
      have tr: "app_trans k s (syncSandboxDeadline rt r s2)"
        by (rule put_sync_trans [OF _ _ ok id]) (simp_all add: upd ad s1)
      with eq id fresh s1 upd f show ?thesis by simp
    qed
  qed
qed

lemma Create_handler_spec:
  assumes run: "defaultCreateSandbox rt ty req s = (res, s')"
  shows "case res of
      Inl e \<Rightarrow> a_store s' = a_store s \<and> a_deadlines s' = a_deadlines s
    | Inr r \<Rightarrow> map_of (a_store s) (sr_ID r) = None \<and> map_of (a_store s') (sr_ID r) = Some r \<and>
        app_trans (sr_ID r) s s' \<and> sr_State r = Running \<and>
        sr_OnTimeout r = SandboxTimeoutActionFromAutoPause (ns_AutoPause req) \<and>
        ((\<forall>w. 0 < fst (rt_now rt w)) \<longrightarrow>
           sr_EndAt r = sr_CreatedAt r + sint (requestTimeout (ns_Timeout req)) * 1000000000)"
proof (cases "TrimSpace (ns_TemplateID req) = [] \<or>
    (case ns_Timeout req of Some t \<Rightarrow> sint t < 0 | None \<Rightarrow> False) \<or> ns_AutoResume req = Some True")
  case True
  with run show ?thesis by (auto simp: defaultCreateSandbox_def Let_def split: if_splits)
next
  case ok: False
  obtain i s1 where i: "world_call (newSandboxID rt) s = (i, s1)" by (cases "world_call (newSandboxID rt) s")
  then have s1: "a_store s1 = a_store s" "a_deadlines s1 = a_deadlines s" by (auto dest: world_callD)
  show ?thesis
  proof (cases i)
    case (Inl e)
    with run ok i s1 show ?thesis by (auto simp: defaultCreateSandbox_def Let_def validateTemplateID_def)
  next
    case (Inr k)
    with i have k: "k \<noteq> []" by (auto simp: world_call_def split: prod.splits dest: newSandboxID_nonempty)
    obtain now s2 where now: "world_call (rt_now rt) s1 = (now, s2)" by (cases "world_call (rt_now rt) s1")
    then have s2: "a_store s2 = a_store s" "a_deadlines s2 = a_deadlines s" by (auto simp: s1 dest: world_callD)
    from run ok i Inr now have run': "createSandboxInRuntime rt req k (TrimSpace (ns_TemplateID req)) now s2 = (res, s')"
      by (simp add: defaultCreateSandbox_def Let_def validateTemplateID_def)
    have tr: "app_trans k s s2" by (rule app_trans_same) (simp_all add: s2)
    have pos: "0 < now" if "\<forall>w. 0 < fst (rt_now rt w)" using that world_call_fst [OF now] by simp
    have nn: "0 \<le> sint (requestTimeout (ns_Timeout req))"
      using ok by (auto simp: requestTimeout_def DefaultSandboxTimeoutSeconds_def split: option.splits)
    have "now + sint (requestTimeout (ns_Timeout req)) * 1000000000 \<noteq> 0" if "0 < now"
      using that nn by linarith
    with createInRuntime_spec [OF run' k] s2 tr pos show ?thesis
      by (cases res) (auto simp: time_Add_seconds intro: app_trans_trans)
  qed
qed

section \<open>Expiry\<close>

lemma expirePause_trans:
  assumes here: "map_of (a_store s) k = Some r" and id: "sr_ID r = k" and run: "sr_State r = Running"
  shows "app_trans k s (expirePause rt k e r s)"
proof -
  obtain p s1 where p: "pauseSandboxLocked rt r s = (p, s1)" by (cases "pauseSandboxLocked rt r s")
  note sp = pauseSandboxLocked_spec [OF p here id]
  have np: "sr_State r \<noteq> Paused" using run by (simp add: go_constants)
  show ?thesis
  proof (cases p)
    case (Inr q)
    with sp p show ?thesis by (cases q) (auto simp: expirePause_def)
  next
    case (Inl err)
    with sp have s1: "a_store s1 = a_store s" "a_deadlines s1 = a_deadlines s" and tr: "app_trans k s s1" by auto
    show ?thesis
    proof (cases "rt_InspectSandbox rt")
      case None
      have "app_trans k s1 (scheduleExpiryRetry rt k e s1)" by (rule retry_trans) (use here np s1 in auto)
      with p Inl None tr show ?thesis by (simp add: expirePause_def app_trans_trans)
    next
      case (Some insp)
      have here1: "map_of (a_store s1) k = Some r" by (simp add: s1 here)
      obtain q s2 where q: "reconcileSandboxRecordWithInspector rt insp r s1 = (q, s2)"
        by (cases "reconcileSandboxRecordWithInspector rt insp r s1")
      note sq = reconcileInspector_spec [OF q here1 id]
      note tr2 = app_trans_trans [OF tr conjunct1 [OF sq]]
      show ?thesis
      proof (cases "\<exists>u. q = Inr u \<and> (u = None \<or> sr_State (the u) = Paused)")
        case True
        with p Inl Some q tr2 show ?thesis by (auto simp: expirePause_def split: option.split)
      next
        case False
        have "sr_State x \<noteq> Paused" if "map_of (a_store s2) k = Some x" for x
          using that sq False here1 np by (cases q) (auto simp: reconciled_def)
        then have "app_trans k s2 (scheduleExpiryRetry rt k e s2)" by (rule retry_trans)
        with tr2 have "app_trans k s (scheduleExpiryRetry rt k e s2)" by (rule app_trans_trans)
        moreover have "expirePause rt k e r s = scheduleExpiryRetry rt k e s2"
          using p Inl Some q False by (auto simp: expirePause_def split: sum.splits option.splits)
        ultimately show ?thesis by simp
      qed
    qed
  qed
qed

lemma expire_trans:
  assumes base: "app_base s"
  shows "app_trans k s (expireSandbox rt k e s)"
proof (cases "map_of (a_store s) k")
  case None
  then show ?thesis by (simp add: expireSandbox_def lockSandbox_iff cancel_missing_trans)
next
  case (Some r)
  note id = app_base_id [OF base Some]
  from app_base_record [OF base Some] have act: "sr_OnTimeout r = SandboxTimeoutActionKill \<or> sr_OnTimeout r = SandboxTimeoutActionPause"
    by (simp add: record_ok_def)
  obtain now s1 where now: "world_call (rt_now rt) s = (now, s1)" by (cases "world_call (rt_now rt) s")
  then have s1: "a_store s1 = a_store s" "a_deadlines s1 = a_deadlines s" by (auto dest: world_callD)
  note tr = world_call_trans [OF now, of k]
  have eq: "expireSandbox rt k e s =
      (if sr_State r \<noteq> Running \<or> sr_EndAt r \<noteq> e then s
       else if now < sr_EndAt r then s1
       else if sr_OnTimeout r = SandboxTimeoutActionPause then expirePause rt k e r s1
       else (case deleteSandbox rt r DeleteRequired s1 of
               (Inl err, s) \<Rightarrow> scheduleExpiryRetry rt k e s | (Inr result, s) \<Rightarrow> s))"
    using Some now act by (auto simp: expireSandbox_def lockSandbox_iff expireSandboxLocked_def Get_def go_constants)
  show ?thesis
  proof (cases "sr_State r \<noteq> Running \<or> sr_EndAt r \<noteq> e \<or> now < sr_EndAt r")
    case True
    with eq tr show ?thesis by auto
  next
    case due: False
    have here: "map_of (a_store s1) k = Some r" by (simp add: s1 Some)
    show ?thesis
    proof (cases "sr_OnTimeout r = SandboxTimeoutActionPause")
      case True
      with due eq expirePause_trans [OF here id, of rt e] tr show ?thesis by (auto intro: app_trans_trans)
    next
      case False
      obtain d s2 where d: "deleteSandbox rt r DeleteRequired s1 = (d, s2)"
        by (cases "deleteSandbox rt r DeleteRequired s1")
      note sd = deleteSandbox_spec [OF d, unfolded id]
      note tr2 = app_trans_trans [OF tr conjunct1 [OF sd]]
      show ?thesis
      proof (cases d)
        case (Inl err)
        have "sr_State r \<noteq> Paused" using due by (simp add: go_constants)
        then have "app_trans k s2 (scheduleExpiryRetry rt k e s2)"
          using sd Inl here by (intro retry_trans) auto
        with tr2 eq due False d Inl show ?thesis by (auto intro: app_trans_trans)
      next
        case (Inr x)
        with tr2 eq due False d show ?thesis by simp
      qed
    qed
  qed
qed

section \<open>What an expiry callback does\<close>

text \<open>
  A callback whose expected end time is no longer the record's, or whose record is not running,
  does nothing; one that comes too early changes neither the store nor a deadline.
\<close>

lemma expire_stale:
  assumes "map_of (a_store s) k = Some r" and "sr_State r \<noteq> Running \<or> sr_EndAt r \<noteq> e"
  shows "expireSandbox rt k e s = s"
  using assms by (auto simp: expireSandbox_def lockSandbox_iff expireSandboxLocked_def Get_def)

lemma expire_early:
  assumes "map_of (a_store s) k = Some r" and "fst (rt_now rt (a_world s)) < sr_EndAt r"
  shows "a_store (expireSandbox rt k e s) = a_store s \<and> a_deadlines (expireSandbox rt k e s) = a_deadlines s"
  using assms by (auto simp: expireSandbox_def lockSandbox_iff expireSandboxLocked_def Get_def world_call_def
      split: prod.split)

text \<open>A record that is due, up to the runtime call.\<close>

definition due :: "'w runtime \<Rightarrow> time \<Rightarrow> sandbox_record \<Rightarrow> 'w app \<Rightarrow> bool" where
  "due rt e r s \<longleftrightarrow> sr_State r = Running \<and> sr_EndAt r = e \<and> \<not> fst (rt_now rt (a_world s)) < e"

lemma expire_due:
  assumes here: "map_of (a_store s) k = Some r" and "due rt e r s"
  obtains s1 where "a_store s1 = a_store s" "a_deadlines s1 = a_deadlines s" "a_world s1 = snd (rt_now rt (a_world s))"
    "sr_OnTimeout r = SandboxTimeoutActionKill \<Longrightarrow> expireSandbox rt k e s =
       (case deleteSandbox rt r DeleteRequired s1 of
          (Inl err, s) \<Rightarrow> scheduleExpiryRetry rt k e s | (Inr result, s) \<Rightarrow> s)"
    "sr_OnTimeout r = SandboxTimeoutActionPause \<Longrightarrow> expireSandbox rt k e s = expirePause rt k e r s1"
proof
  let ?s1 = "snd (world_call (rt_now rt) s)"
  show "a_store ?s1 = a_store s" "a_deadlines ?s1 = a_deadlines s" by simp_all
  show "a_world ?s1 = snd (rt_now rt (a_world s))" by (simp add: world_call_def split: prod.split)
  show "sr_OnTimeout r = SandboxTimeoutActionKill \<Longrightarrow> expireSandbox rt k e s =
       (case deleteSandbox rt r DeleteRequired ?s1 of
          (Inl err, s) \<Rightarrow> scheduleExpiryRetry rt k e s | (Inr result, s) \<Rightarrow> s)"
    "sr_OnTimeout r = SandboxTimeoutActionPause \<Longrightarrow> expireSandbox rt k e s = expirePause rt k e r ?s1"
    using assms by (auto simp: due_def expireSandbox_def lockSandbox_iff expireSandboxLocked_def Get_def world_call_def
        go_constants split: prod.splits)
qed

text \<open>The retry's timer is five seconds after the clock reading that schedules it.\<close>

lemma retry_deadline:
  assumes "map_of (a_store s) k \<noteq> None" and "\<not> dm_stopped (a_deadlines s)"
  shows "\<exists>t. deadline_of (a_deadlines (scheduleExpiryRetry rt k e s)) k = Some (t + 5000000000) \<and>
    t = fst (rt_now rt (a_world s))"
  using assms by (auto simp: scheduleExpiryRetry_def Get_def world_call_def sandboxExpiryRetryDelay_def
      time_Add_def time_Second_def split: prod.splits)

lemma retry_store [simp]: "a_store (scheduleExpiryRetry rt k e s) = a_store s"
  by (auto simp: scheduleExpiryRetry_def world_call_def split: prod.split option.split)

lemma expire_kill:
  assumes base: "app_base s" and here: "map_of (a_store s) k = Some r" and d: "due rt e r s"
    and kill: "sr_OnTimeout r = SandboxTimeoutActionKill" and rt: "rt_present rt"
  shows "if fst (rt_DeleteSandbox rt (sr_RuntimeInfo r) (snd (rt_now rt (a_world s)))) = None
    then map_of (a_store (expireSandbox rt k e s)) k = None \<and> deadline_of (a_deadlines (expireSandbox rt k e s)) k = None
    else a_store (expireSandbox rt k e s) = a_store s \<and>
      (\<not> dm_stopped (a_deadlines s) \<longrightarrow> (\<exists>t. deadline_of (a_deadlines (expireSandbox rt k e s)) k = Some (t + 5000000000) \<and>
        (\<exists>w. t = fst (rt_now rt w))))"
proof -
  note id = app_base_id [OF base here]
  obtain s1 where s1: "a_store s1 = a_store s" "a_deadlines s1 = a_deadlines s"
      "a_world s1 = snd (rt_now rt (a_world s))"
    and eq: "expireSandbox rt k e s = (case deleteSandbox rt r DeleteRequired s1 of
          (Inl err, s) \<Rightarrow> scheduleExpiryRetry rt k e s | (Inr result, s) \<Rightarrow> s)"
    by (rule expire_due [OF here d]) (auto simp: kill)
  obtain x s2 where x: "world_call (rt_DeleteSandbox rt (sr_RuntimeInfo r)) s1 = (x, s2)"
    by (cases "world_call (rt_DeleteSandbox rt (sr_RuntimeInfo r)) s1")
  from x have xe: "x = fst (rt_DeleteSandbox rt (sr_RuntimeInfo r) (snd (rt_now rt (a_world s))))"
    using world_call_fst [OF x] by (simp add: s1)
  from world_callD [OF x] s1 have s2: "a_store s2 = a_store s" "a_deadlines s2 = a_deadlines s" by auto
  show ?thesis
  proof (cases x)
    case (Some err)
    with x rt have "deleteSandbox rt r DeleteRequired s1 = (Inl err, s2)" by (simp add: deleteSandbox_def)
    with eq have "expireSandbox rt k e s = scheduleExpiryRetry rt k e s2" by simp
    with Some xe s2 here retry_deadline [of s2 k rt e] show ?thesis by auto
  next
    case None
    obtain q s3 where q: "deleteSandbox rt r DeleteRequired s1 = (q, s3)" by (cases "deleteSandbox rt r DeleteRequired s1")
    from q None x rt obtain dr where dr: "q = Inr dr"
      by (auto simp: deleteSandbox_def store_call_def Delete_def split: prod.splits if_splits option.splits)
    with deleteSandbox_spec [OF q] eq q None xe s1 here id show ?thesis by auto
  qed
qed

lemma expire_pause:
  assumes base: "app_base s" and here: "map_of (a_store s) k = Some r" and d: "due rt e r s"
    and pause: "sr_OnTimeout r = SandboxTimeoutActionPause"
  shows "if fst (rt_PauseSandbox rt (sr_RuntimeInfo r) (snd (rt_now rt (a_world s)))) = None
    then map_of (a_store (expireSandbox rt k e s)) k = Some (r\<lparr>sr_State := Paused\<rparr>) \<and>
      deadline_of (a_deadlines (expireSandbox rt k e s)) k = None
    else rt_InspectSandbox rt = None \<longrightarrow> a_store (expireSandbox rt k e s) = a_store s \<and>
      (\<not> dm_stopped (a_deadlines s) \<longrightarrow> (\<exists>t. deadline_of (a_deadlines (expireSandbox rt k e s)) k = Some (t + 5000000000) \<and>
        (\<exists>w. t = fst (rt_now rt w))))"
proof -
  note id = app_base_id [OF base here]
  from app_base_record [OF base here] have k: "k \<noteq> []" by (auto simp: record_ok_def)
  obtain s1 where s1: "a_store s1 = a_store s" "a_deadlines s1 = a_deadlines s"
      "a_world s1 = snd (rt_now rt (a_world s))" and eq: "expireSandbox rt k e s = expirePause rt k e r s1"
    by (rule expire_due [OF here d]) (auto simp: pause)
  obtain x s2 where x: "world_call (rt_PauseSandbox rt (sr_RuntimeInfo r)) s1 = (x, s2)"
    by (cases "world_call (rt_PauseSandbox rt (sr_RuntimeInfo r)) s1")
  from x have xe: "x = fst (rt_PauseSandbox rt (sr_RuntimeInfo r) (snd (rt_now rt (a_world s))))"
    using world_call_fst [OF x] by (simp add: s1)
  from world_callD [OF x] s1 have s2: "a_store s2 = a_store s" "a_deadlines s2 = a_deadlines s" by auto
  show ?thesis
  proof (cases x)
    case (Some err)
    with x have "pauseSandboxLocked rt r s1 = (Inl err, s2)" by (simp add: pauseSandboxLocked_def)
    with eq have "rt_InspectSandbox rt = None \<Longrightarrow> expireSandbox rt k e s = scheduleExpiryRetry rt k e s2"
      by (simp add: expirePause_def)
    with Some xe s2 here retry_deadline [of s2 k rt e] show ?thesis by auto
  next
    case None
    with x s2 here have "pauseSandboxLocked rt r s1 =
        (Inr (Some (r\<lparr>sr_State := Paused\<rparr>)), syncSandboxDeadline rt (r\<lparr>sr_State := Paused\<rparr>)
          (s2\<lparr>a_store := AList.update k (r\<lparr>sr_State := Paused\<rparr>) (a_store s2)\<rparr>))"
      using id by (simp add: pauseSandboxLocked_def store_call_def SetState_def Let_def)
    with eq None xe id k show ?thesis by (simp add: expirePause_def sync_deadline_of go_constants)
  qed
qed

end
