(* ===== verification/Walks.thy ===== *)
theory Walks
  imports ExpiryProofs
begin

text \<open>
  The operations that walk over several sandboxes: listing with reconciliation, killing every
  sandbox, and the start-up code of \<open>server.go\<close>; and the pages of a listing.
\<close>

section \<open>Walking over several sandboxes\<close>

text \<open>Only sandboxes of \<open>K\<close> change, and the invariant is kept.\<close>

definition app_walk :: "sandbox_id set \<Rightarrow> 'w app \<Rightarrow> 'w app \<Rightarrow> bool" where
  "app_walk K s s' \<longleftrightarrow> dm_stopped (a_deadlines s') = dm_stopped (a_deadlines s) \<and>
     (\<forall>k. k \<notin> K \<longrightarrow> map_of (a_store s') k = map_of (a_store s) k \<and>
        deadline_of (a_deadlines s') k = deadline_of (a_deadlines s) k) \<and>
     (app_base s \<longrightarrow> app_base s') \<and> (app_inv s \<longrightarrow> app_inv s')"

lemma app_walk_refl [simp, intro]: "app_walk K s s"
  by (simp add: app_walk_def)

lemma app_walk_single: "app_trans k s s' \<Longrightarrow> app_walk {k} s s'"
  by (simp add: app_walk_def app_trans_def isolated_def)

lemma app_walk_trans:
  assumes "app_walk K s s'" and "app_walk L s' s''" and "K \<union> L \<subseteq> M"
  shows "app_walk M s s''"
proof -
  have "map_of (a_store s'') k = map_of (a_store s) k \<and>
      deadline_of (a_deadlines s'') k = deadline_of (a_deadlines s) k" if "k \<notin> M" for k
  proof -
    from that assms(3) have "k \<notin> K" "k \<notin> L" by auto
    with assms(1,2) show ?thesis by (simp add: app_walk_def)
  qed
  with assms(1,2) show ?thesis by (simp add: app_walk_def)
qed

lemma app_walk_base: "app_walk K s s' \<Longrightarrow> app_base s \<Longrightarrow> app_base s'"
  by (simp add: app_walk_def)

lemma app_walk_other: "app_walk K s s' \<Longrightarrow> k \<notin> K \<Longrightarrow> map_of (a_store s') k = map_of (a_store s) k"
  by (simp add: app_walk_def)

section \<open>Listing\<close>

lemma reconcileRecord_spec:
  assumes run: "reconcileSandboxRecord rt r s = (res, s')" and base: "app_base s" and k: "sr_ID r = k"
  shows "app_trans k s s' \<and>
    (\<forall>x. res = Inr (Some x) \<longrightarrow> sr_ID x = k \<and> map_of (a_store s') k = Some x) \<and>
    (map_of (a_store s) k = None \<longrightarrow> s' = s) \<and>
    (map_of (a_store s) k \<noteq> None \<longrightarrow> map_of (a_store s') k = None \<longrightarrow> deadline_of (a_deadlines s') k = None)"
proof (cases "map_of (a_store s) k")
  case None
  with run k show ?thesis
    using app_trans_refl by (auto simp: reconcileSandboxRecord_def lockSandbox_iff)
next
  case (Some c)
  with run k have l: "reconcileSandboxRecordLocked rt k s = (res, s')"
    by (simp add: reconcileSandboxRecord_def lockSandbox_iff)
  note sp = reconcileLocked_spec [OF l Some app_base_id [OF base Some]]
  show ?thesis
  proof (cases res)
    case (Inl e)
    with sp Some show ?thesis by simp
  next
    case (Inr found)
    show ?thesis
    proof (cases "sandboxRecordTerminallyExpired c (fst (rt_now rt (a_world s)))")
      case True
      with sp Some Inr show ?thesis by simp
    next
      case False
      with sp Some Inr show ?thesis unfolding reconciled_def by auto
    qed
  qed
qed

lemma reconcileRecords_spec:
  assumes "reconcileSandboxRecords rt rs s = (res, s')" and "app_base s"
  shows "app_walk (sr_ID ` set rs) s s' \<and>
    (\<forall>out. res = Inr out \<longrightarrow> subseq (map sr_ID out) (map sr_ID rs) \<and>
       (distinct (map sr_ID rs) \<longrightarrow> (\<forall>x \<in> set out. map_of (a_store s') (sr_ID x) = Some x)))"
  using assms
proof (induction rs arbitrary: s res s')
  case Nil
  then show ?case by auto
next
  case (Cons r rs)
  obtain f s1 where f: "reconcileSandboxRecord rt r s = (f, s1)" by (cases "reconcileSandboxRecord rt r s")
  note sp = reconcileRecord_spec [OF f Cons.prems(2) refl]
  then have w1: "app_walk {sr_ID r} s s1" by (auto intro: app_walk_single)
  show ?case
  proof (cases f)
    case (Inl e)
    with Cons.prems f have "res = Inl e" "s' = s1" by auto
    with app_walk_trans [OF w1 app_walk_refl [of "{}"]] show ?thesis by auto
  next
    case (Inr found)
    obtain q s2 where q: "reconcileSandboxRecords rt rs s1 = (q, s2)" by (cases "reconcileSandboxRecords rt rs s1")
    note ih = Cons.IH [OF q app_walk_base [OF w1 Cons.prems(2)]]
    from Cons.prems f Inr q have s': "s' = s2" by (auto split: sum.splits)
    from ih s' have w: "app_walk (sr_ID ` set (r # rs)) s s'" by (intro app_walk_trans [OF w1]) auto
    show ?thesis
    proof (intro conjI allI impI w)
      fix out assume out: "res = Inr out"
      with Cons.prems f Inr q obtain rest where rest: "q = Inr rest"
        and o: "out = (case found of None \<Rightarrow> rest | Some r \<Rightarrow> r # rest)"
        by (auto split: sum.splits)
      from ih rest have sub: "subseq (map sr_ID rest) (map sr_ID rs)" by simp
      have found: "sr_ID x = sr_ID r" "map_of (a_store s1) (sr_ID r) = Some x" if "found = Some x" for x
        using sp Inr that by blast+
      from o sub found show "subseq (map sr_ID out) (map sr_ID (r # rs))" by (cases found) auto
      assume d: "distinct (map sr_ID (r # rs))"
      with ih rest s' have "\<forall>x \<in> set rest. map_of (a_store s') (sr_ID x) = Some x" by auto
      moreover have "map_of (a_store s') (sr_ID x) = Some x" if "found = Some x" for x
      proof -
        from d ih s' have "map_of (a_store s') (sr_ID r) = map_of (a_store s1) (sr_ID r)"
          by (intro app_walk_other) auto
        with found [OF that] show ?thesis by simp
      qed
      ultimately show "\<forall>x \<in> set out. map_of (a_store s') (sr_ID x) = Some x"
        using o by (auto split: option.splits)
    qed
  qed
qed

lemma List_spec:
  assumes run: "defaultListSandboxes rt req s = (res, s')" and base: "app_base s"
  shows "app_walk (set (map fst (a_store s))) s s' \<and>
    (\<forall>x. res = Inr x \<longrightarrow> (\<exists>records tot. subseq (map sr_ID records) (map sr_ID (List_sandboxes (a_store s))) \<and>
       (\<forall>r \<in> set records. map_of (a_store s') (sr_ID r) = Some r) \<and>
       x = paginate req tot (state_filtered req records)))"
proof -
  obtain q s1 where q: "reconcileSandboxRecords rt (List_sandboxes (a_store s)) s = (q, s1)"
    by (cases "reconcileSandboxRecords rt (List_sandboxes (a_store s)) s")
  note sp = reconcileRecords_spec [OF q base]
  from base have inv: "store_inv (a_store s)" by (simp add: app_base_def)
  note ids = List_sandboxes_ids [OF inv]
  from run q have "s' = s1" by (auto simp: defaultListSandboxes_def split: sum.splits)
  moreover have "\<forall>x. res = Inr x \<longrightarrow> (\<exists>records tot. q = Inr records \<and> x = paginate req tot (state_filtered req records))"
    using run q by (auto simp: defaultListSandboxes_def split: sum.splits)
  ultimately show ?thesis using sp ids by (auto 4 4)
qed

section \<open>Pages\<close>

text \<open>The pages a client sees that follows the tokens, each request with the same filter and limit.\<close>

fun all_pages :: "nat \<Rightarrow> list_request \<Rightarrow> nat \<Rightarrow> sandbox_record list \<Rightarrow> sandbox_record list list" where
  "all_pages 0 req tot filtered = []"
| "all_pages (Suc n) req tot filtered =
     (let page = paginate req tot filtered
      in ls_Items page # (if ls_NextToken page = [] then []
                          else all_pages n (req\<lparr>lr_NextToken := ls_NextToken page\<rparr>) tot filtered))"

lemma page_limit_bounds: "1 \<le> page_limit l \<and> page_limit l \<le> 100"
  by (auto simp: page_limit_def maxSandboxListLimit_def)

lemma token_start_nth:
  "distinct (map sr_ID rs) \<Longrightarrow> i < length rs \<Longrightarrow> token_start (sr_ID (rs ! i)) rs = Suc i"
proof (induction rs arbitrary: i)
  case Nil
  then show ?case by simp
next
  case (Cons r rs)
  show ?case
  proof (cases i)
    case 0
    then show ?thesis by simp
  next
    case (Suc j)
    with Cons.prems have "sr_ID (rs ! j) \<in> sr_ID ` set rs" by auto
    with Cons Suc show ?thesis by auto
  qed
qed

lemma token_start_length: "token_start t rs \<le> length rs"
  by (induction rs) auto

lemma paginate_items: "length (ls_Items (paginate req tot rs)) \<le> page_limit (lr_Limit req)"
  by (auto simp: paginate_def Let_def)

lemma all_pages_from:
  assumes "distinct (map sr_ID rs)" and "[] \<notin> sr_ID ` set rs" and "length rs < start + n"
    and "if lr_NextToken req = [] then start = 0 else token_start (lr_NextToken req) rs = start"
  shows "concat (all_pages n req tot rs) = drop start rs"
  using assms(3,4)
proof (induction n arbitrary: req start)
  case 0
  then show ?case by simp
next
  case (Suc n)
  define l where "l = page_limit (lr_Limit req)"
  have l: "1 \<le> l" using page_limit_bounds by (simp add: l_def)
  have st: "(if lr_NextToken req \<noteq> [] then token_start (lr_NextToken req) rs else 0) = start"
    using Suc.prems(2) by (auto split: if_splits)
  show ?case
  proof (cases "start + l < length rs")
    case False
    with st have "paginate req tot rs = \<lparr>ls_Items = drop start rs, ls_NextToken = [], ls_TotalRunning = tot\<rparr>"
      by (simp add: paginate_def Let_def l_def)
    then show ?thesis by simp
  next
    case True
    let ?tok = "sr_ID (rs ! (start + l - 1))"
    from True st have p: "paginate req tot rs = \<lparr>ls_Items = take l (drop start rs), ls_NextToken = ?tok,
        ls_TotalRunning = tot\<rparr>"
      by (simp add: paginate_def Let_def l_def)
    have last: "start + l - 1 < length rs" using True l by simp
    then have ne: "?tok \<noteq> []" using assms(2) nth_mem [OF last] by (metis image_eqI)
    have "token_start ?tok rs = start + l" using token_start_nth [OF assms(1) last] l by simp
    then have "concat (all_pages n (req\<lparr>lr_NextToken := ?tok\<rparr>) tot rs) = drop (start + l) rs"
      using Suc.prems l ne by (intro Suc.IH) auto
    with p ne show ?thesis by (simp add: add.commute flip: drop_drop)
  qed
qed

lemma all_pages_length: "p \<in> set (all_pages n req tot rs) \<Longrightarrow> length p \<le> page_limit (lr_Limit req)"
  by (induction n arbitrary: req)
     (force simp: Let_def intro: paginate_items split: if_splits)+

section \<open>Killing every sandbox\<close>

lemma Kill_missing: "map_of (a_store s) k = None \<Longrightarrow> defaultKillSandbox rt k s = (Inl (not_found k), s)"
  by (simp add: defaultKillSandbox_def lockSandbox_iff)

lemma Kill_no_new:
  assumes run: "defaultKillSandbox rt k s = (res, s')" and base: "app_base s" and "map_of (a_store s) k' = None"
  shows "map_of (a_store s') k' = None"
proof (cases "k' = k")
  case True
  with assms Kill_missing [of s k rt] show ?thesis by simp
next
  case False
  with Kill_spec [OF run base] assms(3) show ?thesis by (simp add: app_trans_def isolated_def)
qed

text \<open>The sandboxes of the list that survive are among the failed ones.\<close>

lemma kill_all_spec:
  assumes "kill_all rt rs c s = (c', s')" and "app_base s"
  shows "app_walk (sr_ID ` set rs) s s' \<and>
    kr_FailedCount c' + kr_KilledCount c' = kr_FailedCount c + kr_KilledCount c + length rs \<and>
    (\<forall>k. map_of (a_store s) k = None \<longrightarrow> map_of (a_store s') k = None) \<and>
    card {k \<in> sr_ID ` set rs. map_of (a_store s') k \<noteq> None} + kr_FailedCount c \<le> kr_FailedCount c'"
  using assms
proof (induction rs arbitrary: s c)
  case Nil
  then show ?case by auto
next
  case (Cons r rs)
  define k where "k = sr_ID r"
  obtain d s1 where d: "defaultKillSandbox rt k s = (d, s1)" by (cases "defaultKillSandbox rt k s")
  note sp = Kill_spec [OF d Cons.prems(2)]
  note w1 = app_walk_single [OF conjunct1 [OF sp]]
  note none = Kill_no_new [OF d Cons.prems(2)]
  define c1 where "c1 = (case d of Inl e \<Rightarrow> c\<lparr>kr_FailedCount := kr_FailedCount c + 1\<rparr>
      | Inr u \<Rightarrow> c\<lparr>kr_KilledCount := kr_KilledCount c + 1\<rparr>)"
  have rest: "kill_all rt rs c1 s1 = (c', s')"
    using Cons.prems(1) d by (simp add: c1_def k_def split: sum.splits)
  note ih = Cons.IH [OF rest app_walk_base [OF w1 Cons.prems(2)]]
  let ?left = "\<lambda>K. {k \<in> K. map_of (a_store s') k \<noteq> None}"
  have fin: "finite (?left (sr_ID ` set rs))" by simp
  have "card (?left (sr_ID ` set (r # rs))) + kr_FailedCount c \<le> kr_FailedCount c'"
  proof (cases d)
    case (Inl e)
    have "?left (sr_ID ` set (r # rs)) \<subseteq> insert k (?left (sr_ID ` set rs))" by (auto simp: k_def)
    from card_mono [OF _ this] card_insert_le_m1 [of 1] card_insert_if [OF fin, of k]
    have "card (?left (sr_ID ` set (r # rs))) \<le> Suc (card (?left (sr_ID ` set rs)))"
      by (auto split: if_splits)
    with ih Inl show ?thesis by (simp add: c1_def)
  next
    case (Inr u)
    with sp ih have "map_of (a_store s') k = None" by auto
    then have "?left (sr_ID ` set (r # rs)) = ?left (sr_ID ` set rs)" by (auto simp: k_def)
    with ih Inr show ?thesis by (simp add: c1_def)
  qed
  moreover have "app_walk (sr_ID ` set (r # rs)) s s'"
    using ih by (intro app_walk_trans [OF w1]) (auto simp: k_def)
  moreover have "kr_FailedCount c1 + kr_KilledCount c1 = Suc (kr_FailedCount c + kr_KilledCount c)"
    by (simp add: c1_def split: sum.split)
  ultimately show ?case using ih none by auto
qed

lemma KillTeam_spec:
  assumes run: "defaultKillTeamSandboxes rt s = (res, s')" and base: "app_base s"
  shows "app_walk (set (map fst (a_store s))) s s' \<and>
    (\<exists>c. res = Inr c \<and> kr_FailedCount c + kr_KilledCount c = length (a_store s) \<and>
       length (a_store s') \<le> kr_FailedCount c \<and> set (map fst (a_store s')) \<subseteq> set (map fst (a_store s)))"
proof -
  let ?c0 = "\<lparr>kr_FailedCount = 0, kr_KilledCount = 0\<rparr>"
  obtain c s1 where c: "kill_all rt (List_sandboxes (a_store s)) ?c0 s = (c, s1)"
    by (cases "kill_all rt (List_sandboxes (a_store s)) ?c0 s")
  with run have eq: "res = Inr c" "s' = s1" by (auto simp: defaultKillTeamSandboxes_def)
  note sp = kill_all_spec [OF c base]
  from base have "store_inv (a_store s)" by (simp add: app_base_def)
  then have ids: "sr_ID ` set (List_sandboxes (a_store s)) = set (map fst (a_store s))"
    using List_sandboxes_ids by fastforce
  have sub: "set (map fst (a_store s1)) \<subseteq> set (map fst (a_store s))"
  proof
    fix k assume "k \<in> set (map fst (a_store s1))"
    then have "map_of (a_store s1) k \<noteq> None" by (auto simp: map_of_eq_None_iff)
    with conjunct1 [OF conjunct2 [OF conjunct2 [OF sp]]] have "map_of (a_store s) k \<noteq> None" by metis
    then show "k \<in> set (map fst (a_store s))" by (auto simp: map_of_eq_None_iff)
  qed
  then have "{k \<in> set (map fst (a_store s)). map_of (a_store s1) k \<noteq> None} = set (map fst (a_store s1))"
    by (auto simp: map_of_eq_None_iff)
  moreover have "app_base s1" by (rule app_walk_base [OF conjunct1 [OF sp] base])
  then have "card (set (map fst (a_store s1))) = length (a_store s1)"
    by (subst distinct_card) (auto simp: app_base_def store_inv_def)
  ultimately have "length (a_store s1) \<le> kr_FailedCount c"
    using sp by (simp add: ids)
  moreover have "length (List_sandboxes (a_store s)) = length (a_store s)" by (simp add: List_sandboxes_def)
  ultimately show ?thesis using sp sub eq by (simp add: ids)
qed

end
