(* ===== verification/Application.thy ===== *)
theory Application
  imports Walks
begin

text \<open>
  The gateway as a transition system over requests, expiry callbacks, timer events, shutdown and
  changes of the outside world; its invariant holds in every reachable state. The start-up code
  establishes it.
\<close>

section \<open>Steps\<close>

text \<open>What happens to the timers between two handlers.\<close>

inductive timer_event :: "deadline_manager \<Rightarrow> deadline_manager \<Rightarrow> bool" where
  fires: "i < length (dm_pool m) \<Longrightarrow> tm_status (dm_pool m ! i) = Pending \<Longrightarrow> tm_due (dm_pool m ! i) \<le> now \<Longrightarrow>
    timer_event m (set_status i Fired m)"
| enters: "i < length (dm_pool m) \<Longrightarrow> tm_status (dm_pool m ! i) = Fired \<Longrightarrow> timer_event m (callback_enter i m)"
| exits: "i < length (dm_pool m) \<Longrightarrow> tm_status (dm_pool m ! i) = InCallback \<Longrightarrow> timer_event m (callback_exit i m)"
| closes: "timer_event m (shutdown_close m)"

inductive_simps timer_event_iff: "timer_event m m'"

text \<open>
  A callback's expiry runs while its timer is \<open>InCallback\<close>, with the sandbox id and the expected
  end time the closure captured.
\<close>

inductive app_step :: "'w runtime \<Rightarrow> 'w app \<Rightarrow> 'w app \<Rightarrow> bool" for rt where
  request: "handle rt k q s = (e, s') \<Longrightarrow> app_step rt s s'"
| create: "defaultCreateSandbox rt ty req s = (res, s') \<Longrightarrow> app_step rt s s'"
| list: "defaultListSandboxes rt lreq s = (lres, s') \<Longrightarrow> app_step rt s s'"
| kill_team: "defaultKillTeamSandboxes rt s = (kres, s') \<Longrightarrow> app_step rt s s'"
| expire: "i < length (dm_pool (a_deadlines s)) \<Longrightarrow> tm_status (dm_pool (a_deadlines s) ! i) = InCallback \<Longrightarrow>
    app_step rt s (expireSandbox rt (tm_sandbox (dm_pool (a_deadlines s) ! i)) (tm_expected (dm_pool (a_deadlines s) ! i)) s)"
| timer: "timer_event (a_deadlines s) m \<Longrightarrow> app_step rt s (s\<lparr>a_deadlines := m\<rparr>)"
| outside: "app_step rt s (s\<lparr>a_world := w\<rparr>)"

inductive_cases app_stepE: "app_step rt s s'"

lemma timer_event_dm: "timer_event m m' \<Longrightarrow> dm_step m m'"
  by (induction rule: timer_event.induct) (auto intro: dm_step.intros)

lemma timer_event_table:
  "timer_event m m' \<Longrightarrow> (dm_stopped m' = dm_stopped m \<and> dm_timers m' = dm_timers m) \<or> (dm_stopped m' \<and> dm_timers m' = [])
     \<or> m' = m"
  by (induction rule: timer_event.induct) (auto simp: callback_enter_def callback_exit_def shutdown_close_def)

lemma timer_event_inv:
  assumes "timer_event (a_deadlines s) m" and "app_inv s"
  shows "app_inv (s\<lparr>a_deadlines := m\<rparr>)"
proof -
  from assms have "dm_inv m" by (auto simp: app_inv_def app_base_def intro: dm_step_inv timer_event_dm)
  moreover have "good_entry (s\<lparr>a_deadlines := m\<rparr>) k" for k
  proof -
    from assms(2) have good: "good_entry s k" by (simp add: app_inv_def)
    from timer_event_table [OF assms(1)] consider
        "dm_stopped m = dm_stopped (a_deadlines s)" "dm_timers m = dm_timers (a_deadlines s)"
      | "dm_stopped m" "dm_timers m = []" | "m = a_deadlines s" by blast
    then show ?thesis
    proof cases
      case 1
      with good good_entry_cong [of "s\<lparr>a_deadlines := m\<rparr>" k s] show ?thesis by (simp add: deadline_of_def)
    next
      case 2
      then show ?thesis by (simp add: good_entry_def deadline_of_def split: option.split)
    next
      case 3
      with good show ?thesis by simp
    qed
  qed
  ultimately show ?thesis using assms(2) by (simp add: app_inv_def app_base_def)
qed

lemma app_walk_inv: "app_walk K s s' \<Longrightarrow> app_inv s \<Longrightarrow> app_inv s'"
  by (simp add: app_walk_def)

lemma app_trans_inv: "app_trans k s s' \<Longrightarrow> app_inv s \<Longrightarrow> app_inv s'"
  by (simp add: app_trans_def)

lemma app_inv_cong: "a_store (s' :: 'w app) = a_store (s :: 'w app) \<Longrightarrow> a_deadlines s' = a_deadlines s \<Longrightarrow> app_inv s' = app_inv s"
  using app_trans_same [of s' s] app_trans_same [of s s'] by (auto simp: app_trans_def)

lemma app_step_inv:
  assumes "app_step rt s s'" and inv: "app_inv s"
  shows "app_inv s'"
  using assms(1)
proof (cases rule: app_step.cases)
  case (request k q e)
  from handle_trans [OF request app_inv_base [OF inv]] inv show ?thesis by (rule app_trans_inv)
next
  case (create ty req res)
  from Create_handler_spec [OF create] inv show ?thesis
    by (cases res) (simp add: app_inv_cong [of s' s], simp add: app_trans_def)
next
  case (list lreq lres)
  from List_spec [OF list app_inv_base [OF inv]] inv show ?thesis by (blast intro: app_walk_inv)
next
  case (kill_team kres)
  from KillTeam_spec [OF kill_team app_inv_base [OF inv]] inv show ?thesis by (blast intro: app_walk_inv)
next
  case (expire i)
  then show ?thesis using app_trans_inv [OF expire_trans [OF app_inv_base [OF inv]] inv] by simp
next
  case (timer m)
  with timer_event_inv inv show ?thesis by blast
next
  case (outside w)
  with inv app_inv_cong [of "s\<lparr>a_world := w\<rparr>" s] show ?thesis by simp
qed

section \<open>Start-up\<close>

text \<open>While sandboxes are restored, deadlines may be missing, but none is without its sandbox.\<close>

definition no_orphans :: "'w app \<Rightarrow> bool" where
  "no_orphans s \<longleftrightarrow> (\<forall>k. map_of (a_store s) k = None \<longrightarrow> deadline_of (a_deadlines s) k = None)"

definition starting :: "'w app \<Rightarrow> bool" where
  "starting s \<longleftrightarrow> app_base s \<and> no_orphans s"

lemma no_orphans_trans:
  assumes "app_trans k s s'" and "no_orphans s"
    and "map_of (a_store s') k = None \<Longrightarrow> deadline_of (a_deadlines s') k = None"
  shows "no_orphans s'"
  unfolding no_orphans_def
proof (intro allI impI)
  fix k' assume "map_of (a_store s') k' = None"
  with assms show "deadline_of (a_deadlines s') k' = None"
    by (cases "k' = k") (simp_all add: no_orphans_def app_trans_def isolated_def)
qed

lemma reconcileRecord_starting:
  assumes run: "reconcileSandboxRecord rt r s = (res, s')" and st: "starting s"
  shows "starting s'"
proof -
  from st have base: "app_base s" and no: "no_orphans s" by (simp_all add: starting_def)
  define k where "k = sr_ID r"
  note sp = reconcileRecord_spec [OF run base k_def [symmetric]]
  then have tr: "app_trans k s s'" by simp
  have "no_orphans s'"
  proof (rule no_orphans_trans [OF tr no])
    assume gone: "map_of (a_store s') k = None"
    show "deadline_of (a_deadlines s') k = None"
    proof (cases "map_of (a_store s) k")
      case None
      with sp have "s' = s" by simp
      with None no show ?thesis by (simp add: no_orphans_def)
    next
      case (Some x)
      with sp gone show ?thesis by simp
    qed
  qed
  with app_base_trans [OF tr base] show ?thesis by (simp add: starting_def)
qed

lemma reconcileRecords_starting:
  "reconcileSandboxRecords rt rs s = (res, s') \<Longrightarrow> starting s \<Longrightarrow> starting s'"
  by (induction rs arbitrary: s res s')
     (fastforce split: prod.splits sum.splits dest: reconcileRecord_starting)+

lemma starting_put:
  assumes "starting s" and "a_store s' = AList.update k r (a_store s)" and "a_deadlines s' = a_deadlines s"
    and "record_ok k r"
  shows "starting s'"
  using assms by (auto simp: starting_def app_base_def no_orphans_def store_inv_update)

lemma starting_cong:
  "starting s \<Longrightarrow> a_store s' = a_store s \<Longrightarrow> a_deadlines s' = a_deadlines s \<Longrightarrow> starting s'"
  by (simp add: starting_def app_base_def no_orphans_def)

lemma enrich_frame:
  "enrichRestoredSandboxRecord rt r s = (res, s') \<Longrightarrow> a_store s' = a_store s \<and> a_deadlines s' = a_deadlines s"
  by (auto simp: enrichRestoredSandboxRecord_def Let_def split: prod.splits sum.splits dest!: world_callD)

lemma restoreOne_starting:
  assumes run: "restoreOne rt r s = (res, s')" and st: "starting s"
  shows "starting s'"
proof -
  obtain en s1 where en: "enrichRestoredSandboxRecord rt r s = (en, s1)" by (cases "enrichRestoredSandboxRecord rt r s")
  from enrich_frame [OF en] st have st1: "starting s1" by (auto intro: starting_cong)
  show ?thesis
  proof (cases en)
    case (Inl e)
    with run en st1 show ?thesis by (auto simp: restoreOne_def)
  next
    case (Inr r1)
    let ?k = "sr_ID r1"
    define put where "put = (case Get ?k (a_store s1) of
        Some existing \<Rightarrow>
          (case store_call (SetStateRuntimeInfoAndEndAt (sr_State r1)
                  (mergeSandboxRuntimeInfo (sr_RuntimeInfo existing) (sr_RuntimeInfo r1)) (sr_EndAt r1) ?k) s1 of
             (Inl err, s) \<Rightarrow> (Inl err, s)
           | (Inr None, s) \<Rightarrow> (Inr r1, s)
           | (Inr (Some updated), s) \<Rightarrow> (Inr updated, s))
      | None \<Rightarrow> app_Create rt r1 s1)"
    obtain c s2 where c: "put = (c, s2)" by (cases put)
    have run': "(case put of (Inl err, s) \<Rightarrow> (Inl (Wrapf (''restore sandbox '' @ sr_ID r1 @ '': '') err ''''), s)
       | (Inr created, s) \<Rightarrow> reconcileSandboxRecord rt created s) = (res, s')"
      using run en Inr by (simp add: restoreOne_def put_def)
    have st2: "starting s2"
    proof (cases "map_of (a_store s1) ?k")
      case None
      with c have cr: "app_Create rt r1 s1 = (c, s2)" by (simp add: put_def Get_def)
      note ad = app_CreateD [OF cr]
      from Create_spec [OF conjunct1 [OF ad]] ad st1 show ?thesis
        by (cases c) (auto intro: starting_cong starting_put)
    next
      case (Some ex)
      from st1 have "app_base s1" by (simp add: starting_def)
      from app_base_record [OF this Some] have "record_ok ?k ex" .
      with Some c st1 show ?thesis
        by (auto simp: put_def Get_def store_call_def set_resumed.op_present record_ok_def
            intro!: starting_put [OF st1, of _ ?k] split: prod.splits)
    qed
    show ?thesis
    proof (cases c)
      case (Inl e)
      with run' c st2 show ?thesis by simp
    next
      case (Inr created)
      with run' c st2 show ?thesis by (auto intro: reconcileRecord_starting)
    qed
  qed
qed

lemma restoreAll_starting: "restoreAll rt rs s = (e, s') \<Longrightarrow> starting s \<Longrightarrow> starting s'"
  by (induction rs arbitrary: s e s') (fastforce split: prod.splits sum.splits dest: restoreOne_starting)+

lemma starting_newApp: "starting (newApp w)"
  by (simp add: starting_def app_base_def no_orphans_def newApp_def inv_intros)

text \<open>Synchronising every record gives each its deadline.\<close>

lemma fold_sync:
  assumes "\<forall>r \<in> set rs. map_of (a_store s) (sr_ID r) = Some r" and "starting s"
  shows "starting (fold (syncSandboxDeadline rt) rs s) \<and> a_store (fold (syncSandboxDeadline rt) rs s) = a_store s \<and>
    (\<forall>k. k \<in> sr_ID ` set rs \<or> good_entry s k \<longrightarrow> good_entry (fold (syncSandboxDeadline rt) rs s) k)"
  using assms
proof (induction rs arbitrary: s)
  case Nil
  then show ?case by simp
next
  case (Cons r rs)
  define k where "k = sr_ID r"
  let ?s = "syncSandboxDeadline rt r s"
  from Cons.prems have here: "map_of (a_store s) k = Some r" and base: "app_base s" by (simp_all add: k_def starting_def)
  note ok = app_base_record [OF base here]
  from here have tr: "app_trans k s ?s" by (rule sync_trans) (use ok in \<open>simp_all add: k_def\<close>)
  from base have good: "good_entry ?s k" by (intro good_entry_sync [OF here ok]) (simp add: app_base_def)
  have "no_orphans ?s"
    by (rule no_orphans_trans [OF tr]) (use Cons.prems here in \<open>auto simp: starting_def\<close>)
  with app_base_trans [OF tr base] have st: "starting ?s" by (simp add: starting_def)
  have keep: "good_entry ?s k'" if "good_entry s k'" for k'
  proof (cases "k' = k")
    case True
    with good show ?thesis by simp
  next
    case False
    with tr that good_entry_cong [of ?s k' s] show ?thesis by (simp add: app_trans_def isolated_def)
  qed
  from Cons.prems(1) have "\<forall>r \<in> set rs. map_of (a_store ?s) (sr_ID r) = Some r" by simp
  note ih = Cons.IH [OF this st]
  have "good_entry (fold (syncSandboxDeadline rt) rs ?s) k'" if "k' \<in> sr_ID ` set (r # rs) \<or> good_entry s k'" for k'
  proof -
    from that have "k' \<in> sr_ID ` set rs \<or> good_entry ?s k'" using good keep by (auto simp: k_def)
    with ih show ?thesis by blast
  qed
  with ih show ?case by simp
qed

lemma restoreDeadlines_inv:
  assumes "starting s"
  shows "app_inv (restoreSandboxDeadlines rt s)"
proof -
  let ?rs = "List_sandboxes (a_store s)"
  from assms have inv: "store_inv (a_store s)" by (simp add: starting_def app_base_def)
  note ids = List_sandboxes_ids [OF inv]
  have "\<forall>r \<in> set ?rs. map_of (a_store s) (sr_ID r) = Some r"
  proof
    fix r assume "r \<in> set ?rs"
    then obtain k where k: "(k, r) \<in> set (a_store s)" by (auto simp: List_sandboxes_set)
    with map_of_in_set [OF store_inv_wf [OF inv]] have here: "map_of (a_store s) k = Some r" by blast
    with store_invD [OF inv here] show "map_of (a_store s) (sr_ID r) = Some r" by (simp add: record_ok_def)
  qed
  note fs = fold_sync [OF this assms, of rt]
  have "good_entry (fold (syncSandboxDeadline rt) ?rs s) k" for k
  proof (cases "map_of (a_store s) k")
    case None
    with assms have "good_entry s k" by (simp add: starting_def no_orphans_def good_entry_def)
    with fs show ?thesis by simp
  next
    case (Some r)
    then have "k \<in> fst ` set (a_store s)" by (force dest: map_of_SomeD)
    with ids have "k \<in> sr_ID ` set ?rs" by simp
    with conjunct2 [OF conjunct2 [OF fs]] show ?thesis by blast
  qed
  with fs show ?thesis by (simp add: app_inv_def restoreSandboxDeadlines_def starting_def)
qed

lemma NewApp_inv:
  assumes "NewAppWithCallbacks rt w = Inr s"
  shows "app_inv s"
proof -
  obtain e s1 where r: "restoreRuntimeSandboxes rt (newApp w) = (e, s1)"
    by (cases "restoreRuntimeSandboxes rt (newApp w)")
  have st1: "starting s1"
    using r starting_newApp [of w] restoreAll_starting [OF _ starting_cong [OF starting_newApp [of w]]]
    by (auto simp: restoreRuntimeSandboxes_def split: option.splits prod.splits sum.splits
        dest!: world_callD intro: starting_cong)
  from assms r have e: "e = None" by (auto simp: NewAppWithCallbacks_def split: option.splits)
  obtain e2 s2 where q: "reconcileStoredSandboxes rt s1 = (e2, s2)" by (cases "reconcileStoredSandboxes rt s1")
  have st2: "starting s2"
    using q st1 by (auto simp: reconcileStoredSandboxes_def split: if_splits prod.splits sum.splits
        dest: reconcileRecords_starting)
  from assms r q e have "s = restoreSandboxDeadlines rt s2"
    by (auto simp: NewAppWithCallbacks_def split: option.splits)
  with restoreDeadlines_inv [OF st2] show ?thesis by simp
qed

section \<open>The gateway as a transition system\<close>

interpretation gateway: transition_system "\<lambda>s. \<exists>w. NewAppWithCallbacks rt w = Inr s" "app_step rt" app_inv for rt
  by unfold_locales (auto intro: NewApp_inv app_step_inv)

end
