(* ===== verification/LockProtocol.thy ===== *)
theory LockProtocol
  imports SandboxStore
begin

text \<open>
  The per-sandbox lock: \<open>lockSandbox\<close> of \<open>internal/gateway/store.go\<close> run by any number of
  goroutines, next to the operations that insert and delete entries. An entry is a pointer (a
  number that is never reused), its \<open>lifecycleMu\<close> has at most one owner, and each critical section
  of the store's own mutex is one step.
\<close>

section \<open>State and steps\<close>

type_synonym entry_ref = nat
type_synonym goroutine = nat

text \<open>
  Where a goroutine is: outside, at the first lookup, waiting for the entry's lock, at the second
  lookup with the lock, returned with the lock, still holding the lock of the entry it has deleted,
  or returned with \<open>nil, false\<close>.
\<close>

datatype lock_pc =
    Idle
  | Looking sandbox_id
  | Waiting sandbox_id entry_ref
  | Checking sandbox_id entry_ref
  | Holding sandbox_id entry_ref
  | Dropped sandbox_id entry_ref
  | Absent sandbox_id

record lock_state =
  lk_sandboxes :: "(sandbox_id, entry_ref) gomap"
  lk_owner :: "entry_ref \<Rightarrow> goroutine option"
  lk_pc :: "goroutine \<Rightarrow> lock_pc"
  lk_next :: entry_ref

definition lock_init :: "lock_state \<Rightarrow> bool" where
  "lock_init s \<longleftrightarrow> lk_sandboxes s = [] \<and> (\<forall>e. lk_owner s e = None) \<and> (\<forall>t. lk_pc s t = Idle)"

definition go_to :: "goroutine \<Rightarrow> lock_pc \<Rightarrow> lock_state \<Rightarrow> lock_state" where
  "go_to t pc s = s\<lparr>lk_pc := (lk_pc s)(t := pc)\<rparr>"

definition Lock :: "goroutine \<Rightarrow> entry_ref \<Rightarrow> lock_state \<Rightarrow> lock_state" where
  "Lock t e s = s\<lparr>lk_owner := (lk_owner s)(e := Some t)\<rparr>"

definition Unlock :: "entry_ref \<Rightarrow> lock_state \<Rightarrow> lock_state" where
  "Unlock e s = s\<lparr>lk_owner := (lk_owner s)(e := None)\<rparr>"

inductive lock_step :: "goroutine \<Rightarrow> lock_state \<Rightarrow> lock_state \<Rightarrow> bool" for t where
  call: "lk_pc s t = Idle \<Longrightarrow> lock_step t s (go_to t (Looking i) s)"
| lookup_missing: "lk_pc s t = Looking i \<Longrightarrow> map_of (lk_sandboxes s) i = None \<Longrightarrow>
    lock_step t s (go_to t (Absent i) s)"
| lookup_found: "lk_pc s t = Looking i \<Longrightarrow> map_of (lk_sandboxes s) i = Some e \<Longrightarrow>
    lock_step t s (go_to t (Waiting i e) s)"
| acquire: "lk_pc s t = Waiting i e \<Longrightarrow> lk_owner s e = None \<Longrightarrow>
    lock_step t s (go_to t (Checking i e) (Lock t e s))"
| check_current: "lk_pc s t = Checking i e \<Longrightarrow> map_of (lk_sandboxes s) i = Some e \<Longrightarrow>
    lock_step t s (go_to t (Holding i e) s)"
| check_stale: "lk_pc s t = Checking i e \<Longrightarrow> map_of (lk_sandboxes s) i \<noteq> Some e \<Longrightarrow>
    lock_step t s (go_to t (Looking i) (Unlock e s))"
| delete_entry: "lk_pc s t = Holding i e \<Longrightarrow>
    lock_step t s (go_to t (Dropped i e) (s\<lparr>lk_sandboxes := AList.delete i (lk_sandboxes s)\<rparr>))"
| release: "lk_pc s t = Holding i e \<or> lk_pc s t = Dropped i e \<Longrightarrow> lock_step t s (go_to t Idle (Unlock e s))"
| give_up: "lk_pc s t = Absent i \<Longrightarrow> lock_step t s (go_to t Idle s)"
| insert_entry: "map_of (lk_sandboxes s) i = None \<Longrightarrow>
    lock_step t s (s\<lparr>lk_sandboxes := AList.update i (lk_next s) (lk_sandboxes s), lk_next := Suc (lk_next s)\<rparr>)"

inductive_cases lock_stepE: "lock_step t s s'"

definition any_lock_step :: "lock_state \<Rightarrow> lock_state \<Rightarrow> bool" where
  "any_lock_step s s' \<longleftrightarrow> (\<exists>t. lock_step t s s')"

section \<open>The invariant\<close>

text \<open>The entry whose lock a goroutine has, and the one it knows a pointer of.\<close>

fun locked_entry :: "lock_pc \<Rightarrow> entry_ref option" where
  "locked_entry (Checking i e) = Some e"
| "locked_entry (Holding i e) = Some e"
| "locked_entry (Dropped i e) = Some e"
| "locked_entry pc = None"

fun known_entry :: "lock_pc \<Rightarrow> (sandbox_id \<times> entry_ref) option" where
  "known_entry (Waiting i e) = Some (i, e)"
| "known_entry (Checking i e) = Some (i, e)"
| "known_entry (Holding i e) = Some (i, e)"
| "known_entry (Dropped i e) = Some (i, e)"
| "known_entry pc = None"

definition lock_inv :: "lock_state \<Rightarrow> bool" where
  "lock_inv s \<longleftrightarrow>
     (\<forall>e t. lk_owner s e = Some t \<longleftrightarrow> locked_entry (lk_pc s t) = Some e) \<and>
     (\<forall>t i e. lk_pc s t = Holding i e \<longrightarrow> map_of (lk_sandboxes s) i = Some e) \<and>
     (\<forall>i e. map_of (lk_sandboxes s) i = Some e \<longrightarrow> e < lk_next s) \<and>
     (\<forall>t i e. known_entry (lk_pc s t) = Some (i, e) \<longrightarrow> e < lk_next s) \<and>
     (\<forall>i j e. map_of (lk_sandboxes s) i = Some e \<longrightarrow> map_of (lk_sandboxes s) j = Some e \<longrightarrow> i = j)"

lemma lock_invD:
  assumes "lock_inv s"
  shows "lk_owner s e = Some t \<longleftrightarrow> locked_entry (lk_pc s t) = Some e"
    and "lk_pc s t = Holding i e \<Longrightarrow> map_of (lk_sandboxes s) i = Some e"
    and "map_of (lk_sandboxes s) i = Some e \<Longrightarrow> e < lk_next s"
    and "known_entry (lk_pc s t) = Some (i, e) \<Longrightarrow> e < lk_next s"
    and "map_of (lk_sandboxes s) i = Some e \<Longrightarrow> map_of (lk_sandboxes s) j = Some e \<Longrightarrow> i = j"
  using assms unfolding lock_inv_def by blast+

lemmas lock_ops = go_to_def Lock_def Unlock_def

lemma lock_init_inv: "lock_init s \<Longrightarrow> lock_inv s"
  by (simp add: lock_init_def lock_inv_def)

lemma locked_unique:
  assumes "lock_inv s" and "locked_entry (lk_pc s t) = Some e" and "locked_entry (lk_pc s u) = Some e"
  shows "u = t"
  using lock_invD(1) [OF assms(1), of e t] lock_invD(1) [OF assms(1), of e u] assms(2,3) by simp

text \<open>A goroutine's step seen by the others: only the entry it holds the lock of can go.\<close>

lemma lock_step_inv:
  assumes "lock_step t s s'" and inv: "lock_inv s"
  shows "lock_inv s'"
  using assms(1)
proof (cases rule: lock_step.cases)
  case (call i)
  with inv show ?thesis unfolding lock_inv_def lock_ops by simp
next
  case (lookup_missing i)
  with inv show ?thesis unfolding lock_inv_def lock_ops by simp
next
  case (lookup_found i e)
  with inv show ?thesis unfolding lock_inv_def lock_ops by simp
next
  case (acquire i e)
  then have "locked_entry (lk_pc s t') \<noteq> Some e" for t' using lock_invD(1) [OF inv, of e t'] by simp
  moreover have "e < lk_next s" using acquire lock_invD(4) [OF inv, of t i e] by simp
  ultimately show ?thesis using acquire inv unfolding lock_inv_def lock_ops by auto
next
  case (check_current i e)
  with inv show ?thesis unfolding lock_inv_def lock_ops by simp
next
  case (check_stale i e)
  then have "locked_entry (lk_pc s t') \<noteq> Some e" if "t' \<noteq> t" for t' using locked_unique [OF inv, of t e t'] that by auto
  with check_stale inv show ?thesis unfolding lock_inv_def lock_ops by auto
next
  case (delete_entry i e)
  have "lk_pc s t' \<noteq> Holding i e'" if "t' \<noteq> t" for t' e'
  proof
    assume h: "lk_pc s t' = Holding i e'"
    from lock_invD(2) [OF inv h] lock_invD(2) [OF inv delete_entry(2)] have "e' = e" by simp
    with h delete_entry have "locked_entry (lk_pc s t') = Some e" "locked_entry (lk_pc s t) = Some e" by simp_all
    from locked_unique [OF inv this(2) this(1)] that show False by simp
  qed
  moreover have "e < lk_next s" using delete_entry lock_invD(4) [OF inv, of t i e] by simp
  ultimately show ?thesis using delete_entry inv unfolding lock_inv_def lock_ops by auto
next
  case (release i e)
  then have "locked_entry (lk_pc s t') \<noteq> Some e" if "t' \<noteq> t" for t' using locked_unique [OF inv, of t e t'] that by auto
  with release inv show ?thesis unfolding lock_inv_def lock_ops by auto
next
  case (give_up i)
  with inv show ?thesis unfolding lock_inv_def lock_ops by simp
next
  case (insert_entry i)
  have "lk_pc s t' \<noteq> Holding i e'" for t' e'
    using insert_entry lock_invD(2) [OF inv, of t' i e'] by auto
  with insert_entry inv show ?thesis
    unfolding lock_inv_def by (auto simp: less_Suc_eq)
qed

interpretation locks: transition_system lock_init any_lock_step lock_inv
  by unfold_locales (auto simp: any_lock_step_def intro: lock_init_inv lock_step_inv)

section \<open>What the protocol gives\<close>

lemma holders_unique:
  assumes "lock_inv s" and "lk_pc s t1 = Holding i e1" and "lk_pc s t2 = Holding i e2"
  shows "t1 = t2"
proof -
  from lock_invD(2) [OF assms(1,2)] lock_invD(2) [OF assms(1,3)] have "e1 = e2" by simp
  with assms(2,3) have "locked_entry (lk_pc s t1) = Some e1" "locked_entry (lk_pc s t2) = Some e1" by simp_all
  from locked_unique [OF assms(1) this(2) this(1)] show ?thesis .
qed

text \<open>While a goroutine holds the lock, no step of another one changes the entry under its id.\<close>

lemma holder_stable:
  assumes "lock_inv s" and "lk_pc s t = Holding i e" and "lock_step u s s'" and "u \<noteq> t"
  shows "lk_pc s' t = Holding i e \<and> map_of (lk_sandboxes s') i = Some e"
proof -
  have "lk_pc s' t = Holding i e"
    using assms(3,2,4) by cases (auto simp: lock_ops)
  moreover have "lock_inv s'" using lock_step_inv [OF assms(3,1)] .
  ultimately show ?thesis using lock_invD(2) by blast
qed

text \<open>Run alone, \<open>lockSandbox\<close> returns the entry under the id, or \<open>nil, false\<close> when there is none.\<close>

lemma lock_alone:
  assumes "lk_pc s t = Looking i"
  shows "case map_of (lk_sandboxes s) i of
      None \<Rightarrow> \<exists>s'. rtranclp (lock_step t) s s' \<and> lk_pc s' t = Absent i
    | Some e \<Rightarrow> lk_owner s e = None \<longrightarrow> (\<exists>s'. rtranclp (lock_step t) s s' \<and> lk_pc s' t = Holding i e)"
proof (cases "map_of (lk_sandboxes s) i")
  case None
  with assms lookup_missing [of s t i] have "lock_step t s (go_to t (Absent i) s)" by simp
  then have "rtranclp (lock_step t) s (go_to t (Absent i) s)" by (rule r_into_rtranclp)
  with None show ?thesis by (auto simp: go_to_def)
next
  case (Some e)
  show ?thesis
  proof (simp add: Some, intro impI)
    assume free: "lk_owner s e = None"
    let ?s1 = "go_to t (Waiting i e) s"
    let ?s2 = "go_to t (Checking i e) (Lock t e ?s1)"
    let ?s3 = "go_to t (Holding i e) ?s2"
    have 1: "lock_step t s ?s1" using assms Some by (rule lookup_found)
    have 2: "lock_step t ?s1 ?s2" using free by (intro acquire) (simp_all add: go_to_def)
    have 3: "lock_step t ?s2 ?s3" using Some by (intro check_current) (simp_all add: lock_ops)
    from 1 2 3 have "rtranclp (lock_step t) s ?s3" by (meson r_into_rtranclp rtranclp_trans)
    then show "\<exists>s'. rtranclp (lock_step t) s s' \<and> lk_pc s' t = Holding i e" by (auto simp: go_to_def)
  qed
qed

end
