(* ===== verification/GoPath.thy ===== *)
theory GoPath
  imports GoBase
begin

text \<open>
  The packages \<open>path\<close> and \<open>path/filepath\<close> as the volume code uses them, on a Unix host (there
  \<open>filepath\<close> is \<open>path\<close> and \<open>FromSlash\<close> is the identity).
\<close>

definition path_IsAbs :: "string \<Rightarrow> bool" where
  "path_IsAbs p = HasPrefix p ''/''"

text \<open>
  \<open>path.Clean\<close> works on the elements between the slashes; the ones kept so far are a stack. An empty
  element or \<open>.\<close> goes, \<open>..\<close> removes the element before it, and a \<open>..\<close> that begins a rooted path goes.
\<close>

definition dot :: string where "dot = ''.''"
definition dotdot :: string where "dotdot = ''..''"

fun clean_parts :: "bool \<Rightarrow> string list \<Rightarrow> string list \<Rightarrow> string list" where
  "clean_parts rooted out [] = rev out"
| "clean_parts rooted out (p # ps) =
     (if p = [] \<or> p = dot then clean_parts rooted out ps
      else if p = dotdot then
        (case out of
           q # out' \<Rightarrow> (if q \<noteq> dotdot then clean_parts rooted out' ps
                        else clean_parts rooted (dotdot # out) ps)
         | [] \<Rightarrow> (if rooted then clean_parts rooted out ps else clean_parts rooted [dotdot] ps))
      else clean_parts rooted (p # out) ps)"

definition path_Clean :: "string \<Rightarrow> string" where
  "path_Clean path =
     (if path = [] then dot
      else let rooted = (hd path = CHR ''/'');
               cleaned = Join CHR ''/'' (clean_parts rooted [] (Split CHR ''/'' path))
           in if rooted then CHR ''/'' # cleaned
              else if cleaned = [] then dot else cleaned)"

text \<open>Cleaning without \<open>..\<close> keeps the elements that are neither empty nor \<open>.\<close>, in order.\<close>

lemma clean_parts_plain:
  "dotdot \<notin> set ps \<Longrightarrow> clean_parts rooted out ps = rev out @ filter (\<lambda>p. p \<noteq> [] \<and> p \<noteq> dot) ps"
  by (induction ps arbitrary: out) auto

lemma Join_eq_Nil: "Join c ps = [] \<longleftrightarrow> ps = [] \<or> ps = [[]]"
  by (induction c ps rule: Join.induct) auto

text \<open>Joined below any directory, a safe name stays below it.\<close>

lemma clean_parts_append:
  assumes "dotdot \<notin> set ps"
  shows "clean_parts rooted out (qs @ ps) = clean_parts rooted out qs @ filter (\<lambda>p. p \<noteq> [] \<and> p \<noteq> dot) ps"
  using assms
proof (induction rooted out qs rule: clean_parts.induct)
  case (1 rooted out)
  then show ?case by (simp add: clean_parts_plain)
next
  case (2 rooted out p qs)
  then show ?case by (auto split: list.split)
qed

definition path_Join :: "string list \<Rightarrow> string" where
  "path_Join elems =
     (let es = filter (\<lambda>e. e \<noteq> []) elems in if es = [] then [] else path_Clean (Join CHR ''/'' es))"

definition path_Base :: "string \<Rightarrow> string" where
  "path_Base p =
     (if p = [] then ''.''
      else let q = rev (dropWhile (\<lambda>c. c = CHR ''/'') (rev p))
           in if q = [] then ''/'' else after_last CHR ''/'' q)"

definition path_Dir :: "string \<Rightarrow> string" where
  "path_Dir p =
     path_Clean (case last_index_char CHR ''/'' p of None \<Rightarrow> [] | Some i \<Rightarrow> take (Suc i) p)"

text \<open>The elements of a cleaned path.\<close>

definition path_elems :: "string \<Rightarrow> string list" where
  "path_elems p = filter (\<lambda>c. c \<noteq> [] \<and> c \<noteq> ''.'') (Split CHR ''/'' p)"

fun drop_common :: "string list \<Rightarrow> string list \<Rightarrow> string list \<times> string list" where
  "drop_common (b # bs) (t # ts) = (if b = t then drop_common bs ts else (b # bs, t # ts))"
| "drop_common bs ts = (bs, ts)"

text \<open>\<open>filepath.Rel\<close>: \<open>None\<close> when it has an error.\<close>

definition filepath_Rel :: "string \<Rightarrow> string \<Rightarrow> string option" where
  "filepath_Rel basepath targpath =
     (let base = path_Clean basepath; targ = path_Clean targpath
      in if targ = base then Some ''.''
         else if path_IsAbs base \<noteq> path_IsAbs targ then None
         else case drop_common (path_elems base) (path_elems targ) of
                (bs, ts) \<Rightarrow>
                  (if bs \<noteq> [] \<and> hd bs = ''..'' then None
                   else Some (Join CHR ''/'' (replicate (length bs) ''..'' @ ts))))"

text \<open>\<open>strings.ReplaceAll\<close> for single characters.\<close>

definition replace_char :: "char \<Rightarrow> char \<Rightarrow> string \<Rightarrow> string" where
  "replace_char a b s = map (\<lambda>c. if c = a then b else c) s"

section \<open>Plain elements\<close>

definition plain_elem :: "string \<Rightarrow> bool" where
  "plain_elem c \<longleftrightarrow> c \<noteq> [] \<and> c \<noteq> ''.'' \<and> c \<noteq> ''..'' \<and> CHR ''/'' \<notin> set c"

lemma plain_filter:
  "list_all plain_elem cs \<Longrightarrow> filter (\<lambda>p. p \<noteq> [] \<and> p \<noteq> dot) cs = cs \<and> dotdot \<notin> set cs"
  by (auto simp: filter_id_conv list_all_iff plain_elem_def dot_def dotdot_def)

lemma clean_plain: "list_all plain_elem cs \<Longrightarrow> clean_parts r out cs = rev out @ cs"
  by (simp add: clean_parts_plain plain_filter)

lemma clean_parts_append_plain:
  "list_all plain_elem cs \<Longrightarrow> clean_parts r out (bs @ cs) = clean_parts r out bs @ cs"
  by (simp add: clean_parts_append plain_filter)

lemma Split_Cons_sep: "Split c (c # s) = [] # Split c s"
  by simp

lemma Split_append_sep: "Split c (s @ c # t) = Split c s @ Split c t"
proof (induction s)
  case Nil
  then show ?case by simp
next
  case (Cons x s)
  obtain p ps where "Split c s = p # ps" by (cases "Split c s") auto
  with Cons show ?case by simp
qed

lemma Split_plain: "list_all plain_elem cs \<Longrightarrow> cs \<noteq> [] \<Longrightarrow> Split CHR ''/'' (Join CHR ''/'' cs) = cs"
  by (intro Split_Join) (auto simp: plain_elem_def list_all_iff)

lemma Split_not_in: "c \<notin> set p \<Longrightarrow> Split c p = [p]"
  by (induction p) auto

lemma Split_plain_elem: "plain_elem c \<Longrightarrow> Split CHR ''/'' c = [c]"
  by (simp add: plain_elem_def Split_not_in)

lemma Join_plain_Nil: "list_all plain_elem cs \<Longrightarrow> Join CHR ''/'' cs = [] \<longleftrightarrow> cs = []"
  by (cases cs rule: remdups_adj.cases) (auto simp: plain_elem_def)

lemma hd_Join_plain: "list_all plain_elem cs \<Longrightarrow> cs \<noteq> [] \<Longrightarrow> Join CHR ''/'' cs \<noteq> [] \<and> hd (Join CHR ''/'' cs) \<noteq> CHR ''/''"
  by (cases cs rule: remdups_adj.cases) (auto simp: plain_elem_def hd_append dest: hd_in_set)

lemma path_Clean_plain: "list_all plain_elem cs \<Longrightarrow> cs \<noteq> [] \<Longrightarrow> path_Clean (Join CHR ''/'' cs) = Join CHR ''/'' cs"
  by (simp add: path_Clean_def hd_Join_plain Split_plain clean_plain Let_def)

lemma path_Clean_abs_plain: "list_all plain_elem cs \<Longrightarrow> path_Clean (CHR ''/'' # Join CHR ''/'' cs) = CHR ''/'' # Join CHR ''/'' cs"
  by (cases "cs = []") (simp_all add: path_Clean_def Split_plain clean_plain Let_def)

lemma path_Join_plain: "list_all plain_elem cs \<Longrightarrow> cs \<noteq> [] \<Longrightarrow> path_Join cs = Join CHR ''/'' cs"
proof -
  assume cs: "list_all plain_elem cs" "cs \<noteq> []"
  then have "filter (\<lambda>e. e \<noteq> []) cs = cs" by (auto simp: filter_id_conv list_all_iff plain_elem_def)
  with cs show ?thesis by (simp add: path_Join_def path_Clean_plain)
qed

text \<open>An absolute path given by its elements.\<close>

definition abs_path :: "string list \<Rightarrow> string" where
  "abs_path cs = CHR ''/'' # Join CHR ''/'' cs"

lemma path_elems_abs: "list_all plain_elem cs \<Longrightarrow> path_elems (abs_path cs) = cs"
proof (cases "cs = []")
  case False
  moreover assume "list_all plain_elem cs"
  moreover from this have "filter (\<lambda>c. c \<noteq> [] \<and> c \<noteq> ''.'') cs = cs"
    by (auto simp: filter_id_conv list_all_iff plain_elem_def)
  ultimately show ?thesis by (simp add: path_elems_def abs_path_def Split_plain)
qed (simp add: path_elems_def abs_path_def)

lemma abs_path_inj: "list_all plain_elem cs \<Longrightarrow> list_all plain_elem ds \<Longrightarrow> abs_path cs = abs_path ds \<longleftrightarrow> cs = ds"
  using path_elems_abs by metis

lemma path_Clean_abs_path [simp]: "list_all plain_elem cs \<Longrightarrow> path_Clean (abs_path cs) = abs_path cs"
  by (simp add: abs_path_def path_Clean_abs_plain)

lemma Join_append: "cs \<noteq> [] \<Longrightarrow> ds \<noteq> [] \<Longrightarrow> Join c (cs @ ds) = Join c cs @ c # Join c ds"
proof (induction c cs rule: Join.induct)
  case (2 c p)
  then show ?case by (cases ds) auto
qed auto

lemma path_Join_abs:
  assumes cs: "list_all plain_elem cs" and c: "list_all plain_elem ds" and "ds \<noteq> []"
  shows "path_Join (abs_path cs # ds) = abs_path (cs @ ds)"
proof -
  have ne: "filter (\<lambda>e. e \<noteq> []) ds = ds" using c by (auto simp: filter_id_conv list_all_iff plain_elem_def)
  have J: "Join CHR ''/'' (abs_path cs # ds) = abs_path cs @ CHR ''/'' # Join CHR ''/'' ds"
    using Join_append [of "[abs_path cs]" ds] \<open>ds \<noteq> []\<close> by simp
  have S: "Split CHR ''/'' (abs_path cs @ CHR ''/'' # Join CHR ''/'' ds) = Split CHR ''/'' (abs_path cs) @ ds"
    using c \<open>ds \<noteq> []\<close> by (simp add: Split_append_sep Split_plain)
  have "clean_parts True [] (Split CHR ''/'' (abs_path cs)) = cs"
    using cs by (cases "cs = []") (simp_all add: abs_path_def Split_plain clean_plain)
  then have "clean_parts True [] (Split CHR ''/'' (abs_path cs) @ ds) = cs @ ds"
    using c by (simp add: clean_parts_append_plain)
  then have "path_Clean (Join CHR ''/'' (abs_path cs # ds)) = abs_path (cs @ ds)"
    unfolding J path_Clean_def S by (simp add: abs_path_def Let_def)
  moreover have "abs_path cs \<noteq> []" by (simp add: abs_path_def)
  ultimately show ?thesis by (simp add: path_Join_def ne)
qed

section \<open>The parent of a path is shorter\<close>

definition path_weight :: "string list \<Rightarrow> nat" where
  "path_weight ps = sum_list (map (\<lambda>p. Suc (length p)) ps)"

lemma path_weight_simps [simp]:
  "path_weight [] = 0" "path_weight (p # ps) = Suc (length p + path_weight ps)"
  "path_weight (ps @ qs) = path_weight ps + path_weight qs" "path_weight (rev ps) = path_weight ps"
  by (simp_all add: path_weight_def rev_map [symmetric] sum_list_rev)

lemma clean_weight:
  "path_weight (clean_parts rooted out ps) \<le> path_weight out + path_weight (filter (\<lambda>p. p \<noteq> []) ps)"
proof (induction rooted out ps rule: clean_parts.induct)
  case (1 rooted out)
  then show ?case by simp
next
  case (2 rooted out p ps)
  show ?case
  proof (cases "p = [] \<or> p = dot")
    case True
    then have "clean_parts rooted out (p # ps) = clean_parts rooted out ps" by simp
    moreover have "path_weight (filter (\<lambda>p. p \<noteq> []) ps) \<le> path_weight (filter (\<lambda>p. p \<noteq> []) (p # ps))" by simp
    ultimately show ?thesis using "2.IH"(1) [OF True] by simp
  next
    case keep: False
    show ?thesis
    proof (cases "p = dotdot")
      case False
      with keep 2 show ?thesis by simp
    next
      case True
      with keep 2 show ?thesis by (cases out) (auto simp: dotdot_def split: if_splits)
    qed
  qed
qed

lemma Split_weight: "path_weight (Split c s) = Suc (length s)"
proof (induction s)
  case (Cons x s)
  obtain p ps where "Split c s = p # ps" by (cases "Split c s") auto
  with Cons show ?case by auto
qed simp

lemma Join_weight: "ps \<noteq> [] \<Longrightarrow> Suc (length (Join c ps)) = path_weight ps"
  by (induction c ps rule: Join.induct) auto

lemma filter_weight: "path_weight ps = path_weight (filter (\<lambda>p. p \<noteq> []) ps) + length (filter (\<lambda>p. p = []) ps)"
  by (induction ps) auto

lemma path_Clean_shorter:
  assumes "last q = CHR ''/''" and "q \<noteq> []"
  shows "length (path_Clean q) < length q \<or> path_Clean q = dot \<or> path_Clean q = ''/''"
proof -
  define ps where "ps = clean_parts (hd q = CHR ''/'') [] (Split CHR ''/'' q)"
  define k where "k = length (filter (\<lambda>p. p = []) (Split CHR ''/'' q))"
  define J where "J = Join CHR ''/'' ps"
  obtain s where q: "q = s @ [CHR ''/'']" using assms by (metis append_butlast_last_id)
  have sp: "Split CHR ''/'' q = Split CHR ''/'' s @ [[]]" using Split_append_sep [of "CHR ''/''" s "[]"] by (simp add: q)
  have k1: "1 \<le> k" by (simp add: k_def sp)
  have k2: "2 \<le> k" if "hd q = CHR ''/''" "length q \<noteq> 1"
  proof -
    from that obtain t where "s = CHR ''/'' # t" by (cases s) (auto simp: q)
    then show "2 \<le> k" by (simp add: k_def sp)
  qed
  have w: "path_weight ps + k \<le> Suc (length q)"
    using clean_weight [of "hd q = CHR ''/''" "[]" "Split CHR ''/'' q"] Split_weight [of "CHR ''/''" q]
      filter_weight [of "Split CHR ''/'' q"] by (simp add: ps_def k_def)
  have clean: "path_Clean q = (if hd q = CHR ''/'' then CHR ''/'' # J else if J = [] then dot else J)"
    using assms by (simp add: path_Clean_def Let_def ps_def J_def)
  show ?thesis
  proof (cases "J = []")
    case True
    then show ?thesis by (simp add: clean)
  next
    case False
    then have "ps \<noteq> []" by (auto simp: J_def)
    then have len: "length J + k \<le> length q" using w Join_weight [of ps "CHR ''/''"] by (simp add: J_def)
    have "0 < length J" using False by simp
    show ?thesis
    proof (cases "hd q = CHR ''/''")
      case True
      have "length q \<noteq> 1" using len k1 \<open>0 < length J\<close> by linarith
      with True k2 len show ?thesis by (simp add: clean)
    next
      case rel: False
      with len k1 \<open>J \<noteq> []\<close> show ?thesis by (simp add: clean)
    qed
  qed
qed

lemma path_Dir_shorter: "length (path_Dir p) < length p \<or> path_Dir p = dot \<or> path_Dir p = ''/''"
proof (cases "last_index_char CHR ''/'' p")
  case None
  then show ?thesis by (simp add: path_Dir_def path_Clean_def)
next
  case (Some i)
  then have i: "i < length p" "p ! i = CHR ''/''" by (auto dest: last_index_char_Some)
  then have "last (take (Suc i) p) = CHR ''/''" "take (Suc i) p \<noteq> []" by (auto simp: take_Suc_conv_app_nth)
  with path_Clean_shorter [of "take (Suc i) p"] i Some show ?thesis by (auto simp: path_Dir_def)
qed


section \<open>The parent and the name of an absolute path\<close>

lemma last_index_char_append: "c \<notin> set t \<Longrightarrow> last_index_char c (s @ c # t) = Some (length s)"
proof (induction s)
  case Nil
  then show ?case using last_index_char_None [of c t] by simp
qed simp

lemma abs_path_snoc: "abs_path (cs @ [c]) = (if cs = [] then [] else abs_path cs) @ CHR ''/'' # c"
  using Join_append [of cs "[c]" "CHR ''/''"] by (auto simp: abs_path_def)

lemma path_Clean_trailing: "list_all plain_elem cs \<Longrightarrow> path_Clean ((if cs = [] then [] else abs_path cs) @ ''/'') = abs_path cs"
proof (cases "cs = []")
  case False
  assume cs: "list_all plain_elem cs"
  with False have "Split CHR ''/'' (abs_path cs @ ''/'') = [] # cs @ [[]]"
    using Split_append_sep [of "CHR ''/''" "abs_path cs" "[]"] by (simp add: abs_path_def Split_plain)
  moreover have "clean_parts True [] (cs @ [[]]) = cs" using cs clean_parts_append [of "[[]]" True "[]" cs]
    by (simp add: dotdot_def clean_plain)
  ultimately show ?thesis using False by (simp add: path_Clean_def abs_path_def Let_def)
qed (simp add: path_Clean_def abs_path_def)

lemma path_Dir_abs: "list_all plain_elem (cs @ [c]) \<Longrightarrow> path_Dir (abs_path (cs @ [c])) = abs_path cs"
proof -
  assume p: "list_all plain_elem (cs @ [c])"
  define s where "s = (if cs = [] then [] else abs_path cs)"
  have "CHR ''/'' \<notin> set c" using p by (simp add: plain_elem_def)
  then have "last_index_char CHR ''/'' (abs_path (cs @ [c])) = Some (length s)"
    unfolding abs_path_snoc s_def by (rule last_index_char_append)
  moreover have "take (Suc (length s)) (abs_path (cs @ [c])) = s @ ''/''"
    unfolding abs_path_snoc s_def [symmetric] by simp
  ultimately show ?thesis using p path_Clean_trailing [of cs] by (simp add: path_Dir_def s_def)
qed

lemma path_Base_abs: "list_all plain_elem (cs @ [c]) \<Longrightarrow> path_Base (abs_path (cs @ [c])) = c"
proof -
  assume p: "list_all plain_elem (cs @ [c])"
  define s where "s = (if cs = [] then [] else abs_path cs)"
  have c: "CHR ''/'' \<notin> set c" "c \<noteq> []" using p by (auto simp: plain_elem_def)
  then obtain c0 x where cx: "c = c0 @ [x]" by (metis append_butlast_last_id)
  with c have "rev (dropWhile (\<lambda>x. x = CHR ''/'') (rev (s @ CHR ''/'' # c))) = s @ CHR ''/'' # c" by auto
  moreover have "after_last CHR ''/'' (s @ CHR ''/'' # c) = c"
    using c last_index_char_append [of "CHR ''/''" c s] by (simp add: after_last_def)
  ultimately show ?thesis unfolding path_Base_def abs_path_snoc s_def [symmetric] by (auto simp: Let_def)
qed

end
