(* ===== verification/TemplateFiles.thy ===== *)
theory TemplateFiles
  imports GatewayTypes GoPath
begin

text \<open>
  Uploaded template files (\<open>internal/gateway/template_files.go\<close>): the names a build context may
  hold, the checks of an uploaded archive, the upload itself and its hash. The tar and gzip
  readers are given by what they deliver: a list of entries that ends with an error or at the end
  of the file.
\<close>

section \<open>Safe names\<close>

definition ReplaceAll_char :: "char \<Rightarrow> char \<Rightarrow> string \<Rightarrow> string" where
  "ReplaceAll_char a b s = map (\<lambda>c. if c = a then b else c) s"

definition SafeTemplateBuildContextTarName :: "string \<Rightarrow> string option" where
  "SafeTemplateBuildContextTarName name =
     (let name = ReplaceAll_char (CHR 0x5C) CHR ''/'' (TrimSpace name)
      in if name = [] \<or> HasPrefix name ''/'' then None
         else if dotdot \<in> set (Split CHR ''/'' name) then None
         else let name = path_Clean name
              in if name = [] \<or> name = dot \<or> name = dotdot \<or> HasPrefix name ''../'' then None
                 else Some name)"

lemma Split_nonempty_parts: "set (Split c s) = {[]} \<longleftrightarrow> set s \<subseteq> {c}"
proof (induction s)
  case Nil
  then show ?case by simp
next
  case (Cons x s)
  obtain p ps where ps: "Split c s = p # ps" by (cases "Split c s") auto
  with Cons show ?case by (cases ps) (auto split: if_splits)
qed

text \<open>A safe name, as its elements: at least one, none of them empty, \<open>.\<close>, \<open>..\<close> or holding a slash.\<close>

definition safe_parts :: "string list \<Rightarrow> bool" where
  "safe_parts ps \<longleftrightarrow> ps \<noteq> [] \<and> (\<forall>p \<in> set ps. p \<noteq> [] \<and> p \<noteq> dot \<and> p \<noteq> dotdot \<and>
     CHR ''/'' \<notin> set p \<and> CHR 0x5C \<notin> set p)"

lemma hd_Split: "s \<noteq> [] \<Longrightarrow> hd s \<noteq> c \<Longrightarrow> hd (Split c s) \<noteq> []"
  by (cases s) (auto split: list.split)

lemma set_ReplaceAll: "a \<noteq> b \<Longrightarrow> a \<notin> set (ReplaceAll_char a b s)"
  by (auto simp: ReplaceAll_char_def)

lemma Split_subset: "p \<in> set (Split c s) \<Longrightarrow> set p \<subseteq> set s"
proof (induction s arbitrary: p)
  case Nil
  then show ?case by simp
next
  case (Cons x s)
  obtain q qs where "Split c s = q # qs" by (cases "Split c s") auto
  with Cons show ?case by (fastforce split: if_splits)
qed

lemma safe_name:
  assumes "SafeTemplateBuildContextTarName name = Some m"
  shows "safe_parts (Split CHR ''/'' m) \<and> hd m \<noteq> CHR ''/''"
proof -
  define n where "n = ReplaceAll_char (CHR 0x5C) CHR ''/'' (TrimSpace name)"
  define ps where "ps = filter (\<lambda>p. p \<noteq> [] \<and> p \<noteq> dot) (Split CHR ''/'' n)"
  from assms have n: "n \<noteq> []" "\<not> HasPrefix n ''/''" "dotdot \<notin> set (Split CHR ''/'' n)"
    and m: "m = path_Clean n" "m \<noteq> dot" "m \<noteq> []"
    by (auto simp: SafeTemplateBuildContextTarName_def Let_def n_def split: if_splits)
  from n(1,2) have rel: "hd n \<noteq> CHR ''/''" by (cases n) (auto simp: HasPrefix_def)
  with n m have mj: "m = Join CHR ''/'' ps"
    by (auto simp: path_Clean_def Let_def clean_parts_plain ps_def split: if_splits)
  with m have ne: "ps \<noteq> []" by auto
  have nobs: "CHR 0x5C \<notin> set n" unfolding n_def by (rule set_ReplaceAll) simp
  have parts: "p \<noteq> [] \<and> p \<noteq> dot \<and> p \<noteq> dotdot \<and> CHR ''/'' \<notin> set p \<and> CHR 0x5C \<notin> set p"
    if "p \<in> set ps" for p
    using that n(3) nobs Split_no_sep [of p "CHR ''/''" n] Split_subset [of p "CHR ''/''" n] by (auto simp: ps_def)
  then have split: "Split CHR ''/'' m = ps" using ne by (simp add: mj Split_Join)
  have "hd m \<noteq> CHR ''/''"
  proof
    assume "hd m = CHR ''/''"
    with m(3) have "hd (Split CHR ''/'' m) = []" by (cases m) auto
    with split ne parts show False by (metis list.set_sel(1))
  qed
  with split ne parts show ?thesis by (simp add: safe_parts_def)
qed

section \<open>Archives\<close>

definition maxTemplateArchiveEntries :: int where
  "maxTemplateArchiveEntries = 10000"

definition maxTemplateArchiveUncompressedBytes :: "64 word" where
  "maxTemplateArchiveUncompressedBytes = push_bit 20 512"

definition maxTemplateFileUploadBytes :: "64 word" where
  "maxTemplateFileUploadBytes = push_bit 20 512"

text \<open>
  What \<open>tarReader.Next\<close> and the copy of the entry's content deliver: a header with the number of
  bytes copied and the error of the copy, if any; or an error. The end of the list is \<open>io.EOF\<close>.
\<close>

record tar_header =
  th_Name :: string
  th_Linkname :: string
  th_Typeflag :: char
  th_Size :: "64 word"

datatype tar_event =
    TarEntry tar_header "64 word" "go_error option"
  | TarError go_error

datatype archive =
    CannotOpen go_error
  | NotGzip go_error
  | TarGz "tar_event list"

definition archive_text :: "string \<Rightarrow> string \<Rightarrow> string" where
  "archive_text hash rest = ''uploaded template file archive '' @ hash @ rest"

definition too_many_bytes :: "string \<Rightarrow> go_error" where
  "too_many_bytes hash = GatewayError 413 (archive_text hash ('' exceeds '' @
     Itoa (sint maxTemplateArchiveUncompressedBytes) @ '' uncompressed bytes''))"

text \<open>The loop, with the entries seen so far and the bytes copied so far (an \<open>int64\<close>).\<close>

fun validate_entries :: "string \<Rightarrow> int \<Rightarrow> 64 word \<Rightarrow> tar_event list \<Rightarrow> go_error option" where
  "validate_entries hash entryCount bytes [] = None"
| "validate_entries hash entryCount bytes (TarError err # rest) =
     Some (GatewayError 400 (''read uploaded template file archive '' @ hash @ '': '' @ error_text err))"
| "validate_entries hash entryCount bytes (TarEntry h n copyErr # rest) =
     (let entryCount = entryCount + 1
      in if entryCount > maxTemplateArchiveEntries
         then Some (GatewayError 413 (archive_text hash ('' contains more than '' @ Itoa maxTemplateArchiveEntries @ '' entries'')))
         else if SafeTemplateBuildContextTarName (th_Name h) = None
         then Some (GatewayError 400 (archive_text hash ('' contains unsafe path '' @ quoted (th_Name h))))
         else if th_Linkname h \<noteq> [] \<and> SafeTemplateBuildContextTarName (th_Linkname h) = None
         then Some (GatewayError 400 (archive_text hash ('' contains unsafe link path '' @ quoted (th_Linkname h))))
         else if th_Typeflag h \<noteq> CHR ''0'' \<and> th_Typeflag h \<noteq> CHR 0x00
         then validate_entries hash entryCount bytes rest
         else if sint (th_Size h) < 0
         then Some (GatewayError 400 (archive_text hash ('' contains invalid size for '' @ quoted (th_Name h))))
         else if sint (th_Size h) > sint (maxTemplateArchiveUncompressedBytes - bytes)
         then Some (too_many_bytes hash)
         else (case copyErr of
                 Some err \<Rightarrow> Some (GatewayError 400 (''read uploaded template file archive '' @ hash @
                   '' entry '' @ quoted (th_Name h) @ '': '' @ error_text err))
               | None \<Rightarrow>
                   (let bytes = bytes + n
                    in if sint bytes > sint maxTemplateArchiveUncompressedBytes
                       then Some (too_many_bytes hash)
                       else validate_entries hash entryCount bytes rest)))"

definition validateTemplateArchive :: "archive \<Rightarrow> string \<Rightarrow> go_error option" where
  "validateTemplateArchive a hash =
     (case a of
        CannotOpen err \<Rightarrow> Some (Wrapf (''open uploaded template file archive '' @ hash @ '': '') err [])
      | NotGzip err \<Rightarrow>
          Some (GatewayError 400 (archive_text hash ('' must be a gzip tar archive: '' @ error_text err)))
      | TarGz evs \<Rightarrow> validate_entries hash 0 0 evs)"

text \<open>A regular file's copy delivers at most the size its header promises (\<open>archive/tar\<close>).\<close>

definition is_regular :: "tar_header \<Rightarrow> bool" where
  "is_regular h \<longleftrightarrow> th_Typeflag h = CHR ''0'' \<or> th_Typeflag h = CHR 0x00"

fun copy_within_size :: "tar_event \<Rightarrow> bool" where
  "copy_within_size (TarEntry h n e) = (0 \<le> sint n \<and> (is_regular h \<longrightarrow> sint n \<le> sint (th_Size h)))"
| "copy_within_size (TarError e) = True"

fun event_safe :: "tar_event \<Rightarrow> bool" where
  "event_safe (TarEntry h n e) \<longleftrightarrow> SafeTemplateBuildContextTarName (th_Name h) \<noteq> None \<and>
     (th_Linkname h = [] \<or> SafeTemplateBuildContextTarName (th_Linkname h) \<noteq> None)"
| "event_safe (TarError e) = False"

fun copied_bytes :: "tar_event \<Rightarrow> int" where
  "copied_bytes (TarEntry h n e) = (if is_regular h then sint n else 0)"
| "copied_bytes (TarError e) = 0"

lemma max_bytes_sint [simp, code_unfold]: "sint maxTemplateArchiveUncompressedBytes = 536870912"
  by (simp add: maxTemplateArchiveUncompressedBytes_def)

lemma sint_add_small:
  fixes a b :: "64 word"
  assumes "0 \<le> sint a" "sint a \<le> 536870912" "0 \<le> sint b" "sint b \<le> 536870912"
  shows "sint (a + b) = sint a + sint b"
  using assms by (simp add: Word.sint_word_ariths) (intro signed_take_bit_int_eq_self; simp)

lemma sint_sub_small:
  fixes b :: "64 word"
  assumes "0 \<le> sint b" "sint b \<le> 536870912"
  shows "sint (maxTemplateArchiveUncompressedBytes - b) = 536870912 - sint b"
proof -
  have "sint (maxTemplateArchiveUncompressedBytes - b)
      = signed_take_bit 63 (sint maxTemplateArchiveUncompressedBytes - sint b)"
    by (simp add: Word.sint_word_ariths)
  also have "\<dots> = 536870912 - sint b"
    using assms by (simp only: max_bytes_sint) (intro signed_take_bit_int_eq_self; simp)
  finally show ?thesis .
qed

lemma validate_entries_sound:
  assumes "validate_entries hash ec bytes evs = None" and "\<forall>e \<in> set evs. copy_within_size e"
    and "0 \<le> sint bytes" and "sint bytes \<le> 536870912" and "ec \<le> 10000"
  shows "ec + int (length evs) \<le> 10000 \<and> (\<forall>e \<in> set evs. event_safe e) \<and>
    sint bytes + sum_list (map copied_bytes evs) \<le> 536870912"
  using assms
proof (induction hash ec bytes evs rule: validate_entries.induct)
  case (1 hash ec bytes)
  then show ?case by simp
next
  case (2 hash ec bytes err rest)
  then show ?case by simp
next
  case (3 hash ec bytes h n copyErr rest)
  note prems = "3.prems"
  from prems have c: "ec + 1 \<le> 10000" and safe: "event_safe (TarEntry h n copyErr)"
    by (auto simp: Let_def maxTemplateArchiveEntries_def split: if_splits)
  show ?case
  proof (cases "is_regular h")
    case False
    with prems c safe "3.IH"(1) show ?thesis
      by (auto simp: Let_def maxTemplateArchiveEntries_def is_regular_def split: if_splits)
  next
    case True
    with prems have sz: "\<not> sint (th_Size h) > sint (maxTemplateArchiveUncompressedBytes - bytes)"
      and ce: "copyErr = None" and b: "sint (bytes + n) \<le> 536870912"
      and rest: "validate_entries hash (ec + 1) (bytes + n) rest = None"
      by (auto simp: Let_def is_regular_def split: if_splits option.splits)
    from prems True have n: "0 \<le> sint n" "sint n \<le> sint (th_Size h)" by auto
    from sz n sint_sub_small [OF prems(3,4)] have n': "sint n \<le> 536870912 - sint bytes" by simp
    with n prems(3,4) have sum: "sint (bytes + n) = sint bytes + sint n" by (intro sint_add_small) auto
    from True have "th_Typeflag h = CHR ''0'' \<or> th_Typeflag h = CHR 0x00" by (simp add: is_regular_def)
    with c safe sz ce b n prems sum rest True "3.IH"(2) [OF refl] show ?thesis
      by (auto simp: Let_def maxTemplateArchiveEntries_def split: if_splits)
  qed
qed

section \<open>Uploads\<close>

text \<open>
  What the request body delivers: data, then the end of the file, or an error, which may be the one
  of \<open>http.MaxBytesReader\<close>. The temporary file's path and errors and the hash function are the
  environment's.
\<close>

datatype read_end = EOF | MaxBytesError | ReadError go_error

record upload_body =
  ub_data :: string
  ub_end :: read_end

record upload_env =
  ue_CreateTemp :: "go_error + string"
  ue_Close :: "go_error option"
  ue_sha256 :: "string \<Rightarrow> string"
  ue_archive :: "string \<Rightarrow> archive"

definition upload_too_large :: go_error where
  "upload_too_large = GatewayError 413 ''template file upload is too large''"

text \<open>\<open>io.Copy\<close> from the reader limited to one byte more than the maximum.\<close>

definition limited_copy :: "upload_body \<Rightarrow> int \<times> read_end" where
  "limited_copy body =
     (let limit = sint maxTemplateFileUploadBytes + 1
      in if int (length (ub_data body)) \<ge> limit then (limit, EOF)
         else (int (length (ub_data body)), ub_end body))"

definition writeTemplateUploadTemp :: "upload_env \<Rightarrow> upload_body \<Rightarrow> go_error + (string \<times> int \<times> string)" where
  "writeTemplateUploadTemp env body =
     (case ue_CreateTemp env of
        Inl err \<Rightarrow> Inl (Wrapf ''create template upload temp file: '' err [])
      | Inr tempPath \<Rightarrow>
          (case limited_copy body of
             (written, MaxBytesError) \<Rightarrow> Inl upload_too_large
           | (written, ReadError err) \<Rightarrow> Inl err
           | (written, EOF) \<Rightarrow>
               (if written > sint maxTemplateFileUploadBytes then Inl upload_too_large
                else if written = 0 then Inl (GatewayError 400 ''template file upload body is required'')
                else case ue_Close env of
                       Some err \<Rightarrow> Inl (Wrapf ''close template upload temp file: '' err [])
                     | None \<Rightarrow> Inr (tempPath, written, hex_encode (ue_sha256 env (ub_data body))))))"

definition expectedTemplateUploadSHA256 :: "string \<Rightarrow> string option" where
  "expectedTemplateUploadSHA256 hash =
     (let hash = TrimPrefix (ToLower (TrimSpace hash)) ''sha256:''
      in if length hash \<noteq> 64 then None
         else if \<not> list_all is_hex_digit hash then None
         else Some hash)"

definition validateTemplateUploadHash :: "string \<Rightarrow> string \<Rightarrow> go_error option" where
  "validateTemplateUploadHash cacheHash actualSHA256 =
     (case expectedTemplateUploadSHA256 cacheHash of
        None \<Rightarrow> None
      | Some expected \<Rightarrow>
          (if \<not> EqualFold expected actualSHA256
           then Some (GatewayError 400 ''template file upload hash mismatch'') else None))"

lemma upload_max_sint [simp]: "sint maxTemplateFileUploadBytes = 536870912"
  by (simp add: maxTemplateFileUploadBytes_def)

lemma writeTemplateUploadTemp_spec:
  "writeTemplateUploadTemp env body = Inr (p, n, h) \<Longrightarrow>
     ue_CreateTemp env = Inr p \<and> n = int (length (ub_data body)) \<and> 0 < n \<and> n \<le> 536870912 \<and>
     ub_end body = EOF \<and> h = hex_encode (ue_sha256 env (ub_data body))"
  by (auto simp: writeTemplateUploadTemp_def limited_copy_def Let_def
      split: sum.splits read_end.splits if_splits option.splits prod.splits)

text \<open>Letters of hexadecimal digests are lower case already.\<close>

lemma ToLower_idem [simp]: "ToLower (ToLower s) = ToLower s"
proof -
  have "lower_char (lower_char c) = lower_char c" for c
    by (simp add: lower_char_def less_eq_char_def)
  then show ?thesis by (simp add: ToLower_def)
qed

end
