(* ===== verification/ManagementStore.thy ===== *)
theory ManagementStore
  imports TemplateFiles
begin

text \<open>
  The management store (\<open>internal/gateway/management_store.go\<close>): managed templates with their tags,
  builds and logs, the tombstones of deleted templates, uploaded template files and the tokens to
  upload them, and the node's status. The store's mutex makes each method atomic, except the
  upload, which gives the mutex up while it reads the body: what other requests do meanwhile is a
  parameter. The UUID package is given by its two functions.
\<close>

section \<open>Data\<close>

text \<open>A UUID is its canonical text; \<open>uuid.Parse\<close> and \<open>uuid.NewSHA1\<close> in the URL name space.\<close>

record uuid_lib =
  ul_Parse :: "string \<Rightarrow> string option"
  ul_NewSHA1 :: "string \<Rightarrow> string"

record gateway_template =
  gt_Aliases :: "string list"
  gt_BuildCount :: int
  gt_BuildID :: string
  gt_BuildStatus :: string
  gt_CpuCount :: int
  gt_CreatedAt :: time
  gt_CreatedBy :: "string option"
  gt_DiskSizeMB :: int
  gt_EnvdVersion :: string
  gt_LastSpawnedAt :: "time option"
  gt_MemoryMB :: int
  gt_Names :: "string list"
  gt_Public :: bool
  gt_SpawnCount :: int
  gt_TemplateID :: string
  gt_UpdatedAt :: time
  gt_ImageRef :: string

record template_tag =
  tg_BuildID :: string
  tg_CreatedAt :: time
  tg_Tag :: string

record build_log_entry =
  bl_Level :: string
  bl_Message :: string
  bl_Step :: "string option"
  bl_Timestamp :: time

record managed_build =
  mb_Template :: gateway_template
  mb_Logs :: "build_log_entry list"

record managed_template =
  mt_Template :: gateway_template
  mt_Tags :: "(string, template_tag) gomap"
  mt_Logs :: "build_log_entry list"
  mt_Builds :: "(string, managed_build) gomap"

record managed_file =
  mf_TemplateID :: string
  mf_Hash :: string
  mf_Path :: string
  mf_Size :: int
  mf_SHA256 :: string
  mf_CreatedAt :: time

record managed_upload =
  mu_TemplateID :: string
  mu_Hash :: string
  mu_Token :: string
  mu_ExpiresAt :: time

record management =
  ms_templates :: "(string, managed_template) gomap"
  ms_templateFiles :: "(string, managed_file) gomap"
  ms_templateUploads :: "(string, managed_upload) gomap"
  ms_deletedTemplates :: "(string, bool) gomap"
  ms_nodeStatuses :: "(string, string) gomap"

definition NewGatewayManagementStore :: management where
  "NewGatewayManagementStore = \<lparr>ms_templates = [], ms_templateFiles = [], ms_templateUploads = [],
     ms_deletedTemplates = [], ms_nodeStatuses = []\<rparr>"

section \<open>Helpers\<close>

text \<open>Nothing is saved to disk: \<open>saveLocked\<close> returns nil. The code's roll-backs are kept.\<close>

definition saveLocked :: "management \<Rightarrow> go_error option" where
  "saveLocked s = None"

text \<open>Undo of an assignment to a map: the previous value, or no entry.\<close>

definition restore_entry :: "'k \<Rightarrow> 'v option \<Rightarrow> ('k, 'v) gomap \<Rightarrow> ('k, 'v) gomap" where
  "restore_entry k previous m = (case previous of Some v \<Rightarrow> AList.update k v m | None \<Rightarrow> AList.delete k m)"

definition stableTemplateBuildUUID :: "uuid_lib \<Rightarrow> string \<Rightarrow> string \<Rightarrow> string" where
  "stableTemplateBuildUUID lib templateID buildID =
     (let value = TrimSpace buildID;
          hashed = (let value = (if value = [] then TrimSpace templateID else value)
                    in ul_NewSHA1 lib (''e2b-local/template-build/'' @ TrimSpace templateID @ ''/'' @ value))
      in if value \<noteq> [] then (case ul_Parse lib value of Some parsed \<Rightarrow> parsed | None \<Rightarrow> hashed) else hashed)"

text \<open>The trimmed strings, without the empty ones and those already seen.\<close>

fun unique_trimmed :: "string list \<Rightarrow> string list \<Rightarrow> string list" where
  "unique_trimmed seen [] = []"
| "unique_trimmed seen (v # vs) =
     (let v = TrimSpace v
      in if v = [] \<or> v \<in> set seen then unique_trimmed seen vs else v # unique_trimmed (v # seen) vs)"

definition normalizedTags :: "string list \<Rightarrow> string list" where
  "normalizedTags tags = sort (unique_trimmed [] tags)"

definition templateFileKey :: "string \<Rightarrow> string \<Rightarrow> string" where
  "templateFileKey templateID hash = TrimSpace templateID @ ''/'' @ TrimSpace hash"

lemma unique_trimmed_props:
  "distinct (unique_trimmed seen vs)" "set (unique_trimmed seen vs) = {v \<in> TrimSpace ` set vs. v \<noteq> []} - set seen"
proof (induction seen vs rule: unique_trimmed.induct)
  case (1 seen)
  { case 1 show ?case by simp next case 2 show ?case by simp }
next
  case (2 seen v vs)
  { case 1
    show ?case
    proof (cases "TrimSpace v = [] \<or> TrimSpace v \<in> set seen")
      case True
      with "2.IH"(1) [OF refl] show ?thesis by (simp add: Let_def)
    next
      case False
      with "2.IH"(3,4) [OF refl] show ?thesis by (simp add: Let_def)
    qed
  next
    case 2
    show ?case
    proof (cases "TrimSpace v = [] \<or> TrimSpace v \<in> set seen")
      case True
      with "2.IH"(2) [OF refl] show ?thesis by (auto simp: Let_def)
    next
      case False
      with "2.IH"(4) [OF refl] show ?thesis by (auto simp: Let_def)
    qed }
qed

lemma unique_trimmed_clean: "v \<in> set (unique_trimmed seen vs) \<Longrightarrow> v \<noteq> [] \<and> TrimSpace v = v"
  by (auto simp: unique_trimmed_props)

lemma normalizedTags_props:
  "sorted (normalizedTags ts)" "distinct (normalizedTags ts)"
  "set (normalizedTags ts) = {t \<in> TrimSpace ` set ts. t \<noteq> []}"
  by (simp_all add: normalizedTags_def unique_trimmed_props)

lemma unique_trimmed_id:
  assumes "distinct vs" and "\<And>v. v \<in> set vs \<Longrightarrow> v \<noteq> [] \<and> TrimSpace v = v \<and> v \<notin> set seen"
  shows "unique_trimmed seen vs = vs"
  using assms
proof (induction vs arbitrary: seen)
  case Nil
  show ?case by simp
next
  case (Cons v vs)
  from Cons.prems(2) [of v] have v: "v \<noteq> []" "TrimSpace v = v" "v \<notin> set seen" by simp_all
  have "unique_trimmed (v # seen) vs = vs"
  proof (rule Cons.IH)
    fix u assume u: "u \<in> set vs"
    with Cons.prems(1) have "u \<noteq> v" by auto
    with Cons.prems(2) [of u] u show "u \<noteq> [] \<and> TrimSpace u = u \<and> u \<notin> set (v # seen)" by simp
  qed (use Cons.prems(1) in simp)
  with v show ?case by simp
qed

lemma normalizedTags_idem: "normalizedTags (normalizedTags ts) = normalizedTags ts"
proof -
  have "unique_trimmed [] (normalizedTags ts) = normalizedTags ts"
    by (rule unique_trimmed_id) (auto simp: normalizedTags_props)
  moreover have "sort (normalizedTags ts) = normalizedTags ts" by (rule sorted_sort_id) (rule normalizedTags_props)
  ultimately show ?thesis by (simp add: normalizedTags_def [of "normalizedTags ts"])
qed

section \<open>Templates\<close>

definition ListManagedTemplates :: "management \<Rightarrow> gateway_template list" where
  "ListManagedTemplates s = sort_key gt_CreatedAt (map (\<lambda>(k, item). mt_Template item) (ms_templates s))"

text \<open>What \<open>existing\<close> is when the map has no entry: the zero value.\<close>

definition no_tags_builds :: "managed_template option \<Rightarrow>
    (string, template_tag) gomap \<times> (string, managed_build) gomap \<times> build_log_entry list" where
  "no_tags_builds existing =
     (case existing of None \<Rightarrow> ([], [], []) | Some e \<Rightarrow> (mt_Tags e, mt_Builds e, mt_Logs e))"

definition assign_tags :: "string \<Rightarrow> time \<Rightarrow> string list \<Rightarrow> (string, template_tag) gomap \<Rightarrow> (string, template_tag) gomap" where
  "assign_tags buildID now tags tagMap =
     fold (\<lambda>tag m. AList.update tag \<lparr>tg_BuildID = buildID, tg_CreatedAt = now, tg_Tag = tag\<rparr> m) tags tagMap"

text \<open>The entry for the template's own build; the template's zero times are filled in.\<close>

definition record_build :: "time \<Rightarrow> build_log_entry list \<Rightarrow> gateway_template \<Rightarrow> (string, managed_build) gomap \<Rightarrow>
    gateway_template \<times> (string, managed_build) gomap" where
  "record_build now logs template builds =
     (if TrimSpace (gt_BuildID template) = [] then (template, builds)
      else
        let build = map_of builds (gt_BuildID template);
            buildLogs = (if logs = [] then (case build of Some b \<Rightarrow> mb_Logs b | None \<Rightarrow> []) else logs);
            buildCreatedAt = (case build of Some b \<Rightarrow> gt_CreatedAt (mb_Template b) | None \<Rightarrow> 0);
            template = (if IsZero (gt_CreatedAt template) \<and> \<not> IsZero buildCreatedAt
                        then template\<lparr>gt_CreatedAt := buildCreatedAt\<rparr> else template);
            template = (if IsZero (gt_UpdatedAt template) then template\<lparr>gt_UpdatedAt := now\<rparr> else template)
        in (template, AList.update (gt_BuildID template) \<lparr>mb_Template = template, mb_Logs = buildLogs\<rparr> builds))"

definition UpsertTemplate :: "uuid_lib \<Rightarrow> time \<Rightarrow> gateway_template \<Rightarrow> string list \<Rightarrow> build_log_entry list \<Rightarrow>
    management \<Rightarrow> (go_error + gateway_template) \<times> management" where
  "UpsertTemplate lib now template tags logs s =
     (let template = template\<lparr>gt_TemplateID := TrimSpace (gt_TemplateID template)\<rparr>;
          k = gt_TemplateID template
      in if k = [] then (Inr template, s)
         else
           let existing = map_of (ms_templates s) k;
               previousDeleted = map_of (ms_deletedTemplates s) k
           in case no_tags_builds existing of (tags0, builds0, logs0) \<Rightarrow>
             (let buildID = stableTemplateBuildUUID lib k (gt_BuildID template);
                  tagMap = assign_tags buildID now (normalizedTags tags) tags0;
                  logs = (if logs = [] then logs0 else logs)
              in case record_build now logs template builds0 of (template, builds) \<Rightarrow>
                (let item = \<lparr>mt_Template = template, mt_Tags = tagMap, mt_Logs = logs, mt_Builds = builds\<rparr>;
                     s' = s\<lparr>ms_templates := AList.update k item (ms_templates s),
                            ms_deletedTemplates := AList.delete k (ms_deletedTemplates s)\<rparr>
                 in case saveLocked s' of
                      Some err \<Rightarrow>
                        (Inl err, s'\<lparr>ms_templates := restore_entry k existing (ms_templates s'),
                           ms_deletedTemplates := restore_entry k previousDeleted (ms_deletedTemplates s')\<rparr>)
                    | None \<Rightarrow> (Inr template, s'))))"

definition GetManagedTemplate :: "string \<Rightarrow> management \<Rightarrow> gateway_template option" where
  "GetManagedTemplate templateID s = map_option mt_Template (map_of (ms_templates s) templateID)"

definition DeleteTemplate :: "string \<Rightarrow> management \<Rightarrow> go_error option \<times> management" where
  "DeleteTemplate templateID s =
     (let previousTemplate = map_of (ms_templates s) templateID;
          previousDeleted = map_of (ms_deletedTemplates s) templateID;
          s' = s\<lparr>ms_templates := AList.delete templateID (ms_templates s),
                 ms_deletedTemplates := AList.update templateID True (ms_deletedTemplates s)\<rparr>
      in case saveLocked s' of
           Some err \<Rightarrow> (Some err, s'\<lparr>ms_templates := restore_entry templateID previousTemplate (ms_templates s'),
             ms_deletedTemplates := restore_entry templateID previousDeleted (ms_deletedTemplates s')\<rparr>)
         | None \<Rightarrow> (None, s'))"

definition DeletedTemplateIDs :: "management \<Rightarrow> (string, bool) gomap" where
  "DeletedTemplateIDs s = ms_deletedTemplates s"

text \<open>A missing key reads as false.\<close>

definition is_deleted :: "management \<Rightarrow> string \<Rightarrow> bool" where
  "is_deleted s templateID = (map_of (DeletedTemplateIDs s) templateID = Some True)"

definition ListTemplateTags :: "string \<Rightarrow> management \<Rightarrow> template_tag list" where
  "ListTemplateTags templateID s =
     (case map_of (ms_templates s) templateID of
        None \<Rightarrow> []
      | Some item \<Rightarrow> sort_key tg_Tag (map snd (mt_Tags item)))"

record assigned_tags =
  at_BuildID :: string
  at_Tags :: "string list"

definition AssignTemplateTags :: "uuid_lib \<Rightarrow> time \<Rightarrow> gateway_template \<Rightarrow> string list \<Rightarrow> management \<Rightarrow>
    (go_error + assigned_tags) \<times> management" where
  "AssignTemplateTags lib now template tags s =
     (case UpsertTemplate lib now template tags [] s of
        (Inl err, s) \<Rightarrow> (Inl err, s)
      | (Inr template, s) \<Rightarrow>
          (Inr \<lparr>at_BuildID = stableTemplateBuildUUID lib (gt_TemplateID template) (gt_BuildID template),
                at_Tags = normalizedTags tags\<rparr>, s))"

definition DeleteTemplateTags :: "string \<Rightarrow> string list \<Rightarrow> management \<Rightarrow> (bool \<times> go_error option) \<times> management" where
  "DeleteTemplateTags templateID tags s =
     (case map_of (ms_templates s) templateID of
        None \<Rightarrow> ((False, None), s)
      | Some existing \<Rightarrow>
          (let item = existing\<lparr>mt_Tags := fold AList.delete (normalizedTags tags) (mt_Tags existing)\<rparr>;
               s' = s\<lparr>ms_templates := AList.update templateID item (ms_templates s)\<rparr>
           in case saveLocked s' of
                Some err \<Rightarrow> ((True, Some err), s'\<lparr>ms_templates := AList.update templateID existing (ms_templates s')\<rparr>)
              | None \<Rightarrow> ((True, None), s')))"

section \<open>Builds\<close>

definition TemplateBuildLogs :: "string \<Rightarrow> management \<Rightarrow> build_log_entry list" where
  "TemplateBuildLogs templateID s =
     (case map_of (ms_templates s) templateID of None \<Rightarrow> [] | Some item \<Rightarrow> mt_Logs item)"

definition managedTemplateBuildByID :: "uuid_lib \<Rightarrow> string \<Rightarrow> (string, managed_build) gomap \<Rightarrow> string \<Rightarrow> managed_build option" where
  "managedTemplateBuildByID lib templateID builds buildID =
     (let buildID = TrimSpace buildID
      in if buildID = [] then None
         else case map_of builds buildID of
                Some build \<Rightarrow> Some build
              | None \<Rightarrow> List.find (\<lambda>build.
                  stableTemplateBuildUUID lib templateID (gt_BuildID (mb_Template build)) = buildID) (map snd builds))"

definition TemplateBuild :: "uuid_lib \<Rightarrow> gateway_template \<Rightarrow> string \<Rightarrow> management \<Rightarrow> managed_build option" where
  "TemplateBuild lib template buildID s =
     (case map_of (ms_templates s) (gt_TemplateID template) of
        None \<Rightarrow> None
      | Some item \<Rightarrow> managedTemplateBuildByID lib (gt_TemplateID template) (mt_Builds item) buildID)"

definition TemplateBuilds :: "string \<Rightarrow> management \<Rightarrow> managed_build list" where
  "TemplateBuilds templateID s =
     (case map_of (ms_templates s) templateID of
        None \<Rightarrow> []
      | Some item \<Rightarrow> sort_key (\<lambda>b. (- gt_UpdatedAt (mb_Template b), gt_BuildID (mb_Template b)))
          (map snd (mt_Builds item)))"

section \<open>Node status\<close>

definition NodeStatusReady :: string where "NodeStatusReady = ''ready''"

definition NodeStatus :: "string \<Rightarrow> management \<Rightarrow> string" where
  "NodeStatus nodeID s =
     (let status = map_read (ms_nodeStatuses s) nodeID in if status \<noteq> [] then status else NodeStatusReady)"

definition SetNodeStatus :: "string \<Rightarrow> string \<Rightarrow> management \<Rightarrow> go_error option \<times> management" where
  "SetNodeStatus nodeID status s =
     (let previous = map_of (ms_nodeStatuses s) nodeID;
          s' = s\<lparr>ms_nodeStatuses := AList.update nodeID status (ms_nodeStatuses s)\<rparr>
      in case saveLocked s' of
           Some err \<Rightarrow> (Some err, s'\<lparr>ms_nodeStatuses := restore_entry nodeID previous (ms_nodeStatuses s')\<rparr>)
         | None \<Rightarrow> (None, s'))"

section \<open>Uploaded files\<close>

definition TemplateFilePresent :: "string \<Rightarrow> string \<Rightarrow> management \<Rightarrow> bool" where
  "TemplateFilePresent templateID hash s = (map_of (ms_templateFiles s) (templateFileKey templateID hash) \<noteq> None)"

text \<open>\<open>newManagementSecret\<close>, from the 24 random bytes or the error of the random source.\<close>

definition newManagementSecret :: "go_error + string \<Rightarrow> string \<Rightarrow> go_error + string" where
  "newManagementSecret bytes pre =
     (case bytes of Inl err \<Rightarrow> Inl err | Inr b \<Rightarrow> Inr (pre @ hex_encode b))"

definition fifteen_minutes :: duration where
  "fifteen_minutes = 15 * (60 * time_Second)"

definition CreateTemplateFileUpload :: "go_error + string \<Rightarrow> time \<Rightarrow> string \<Rightarrow> string \<Rightarrow> management \<Rightarrow>
    (go_error + string) \<times> management" where
  "CreateTemplateFileUpload bytes now templateID hash s =
     (case newManagementSecret bytes ''tfu_'' of
        Inl err \<Rightarrow> (Inl err, s)
      | Inr token \<Rightarrow>
          (let upload = \<lparr>mu_TemplateID = TrimSpace templateID, mu_Hash = TrimSpace hash, mu_Token = token,
                         mu_ExpiresAt = time_Add now fifteen_minutes\<rparr>
           in (Inr token, s\<lparr>ms_templateUploads := AList.update token upload (ms_templateUploads s)\<rparr>)))"

text \<open>The checks of the token, made under the mutex before and again after the body is read.\<close>

definition check_upload :: "string \<Rightarrow> string \<Rightarrow> string \<Rightarrow> time \<Rightarrow> management \<Rightarrow> managed_upload option \<times> management" where
  "check_upload templateID hash token now s =
     (case map_of (ms_templateUploads s) token of
        None \<Rightarrow> (None, s)
      | Some upload \<Rightarrow>
          (if now > mu_ExpiresAt upload
           then (None, s\<lparr>ms_templateUploads := AList.delete (mu_Token upload) (ms_templateUploads s)\<rparr>)
           else if mu_TemplateID upload \<noteq> templateID \<or> mu_Hash upload \<noteq> hash then (None, s)
           else (Some upload, s)))"

record upload_result =
  ur_stored :: bool
  ur_error :: "go_error option"
  ur_tempKept :: bool

definition upload_done :: "bool \<Rightarrow> go_error option \<Rightarrow> upload_result" where
  "upload_done stored err = \<lparr>ur_stored = stored, ur_error = err, ur_tempKept = False\<rparr>"

text \<open>The second critical section, with the upload checked again.\<close>

definition commit_upload :: "string \<Rightarrow> string \<Rightarrow> managed_upload \<Rightarrow> string \<times> int \<times> string \<Rightarrow> time \<Rightarrow> management \<Rightarrow>
    upload_result \<times> management" where
  "commit_upload templateID hash upload file createdAt s =
     (case file of (tempPath, fsize, sha256Sum) \<Rightarrow>
       (let key = templateFileKey templateID hash;
            previousFile = map_of (ms_templateFiles s) key
        in case previousFile of
             Some previous \<Rightarrow>
               (if EqualFold (mf_SHA256 previous) sha256Sum then
                  (let s' = s\<lparr>ms_templateUploads := AList.delete (mu_Token upload) (ms_templateUploads s)\<rparr>
                   in case saveLocked s' of
                        Some err \<Rightarrow> (upload_done True (Some err),
                          s'\<lparr>ms_templateUploads := AList.update (mu_Token upload) upload (ms_templateUploads s')\<rparr>)
                      | None \<Rightarrow> (upload_done True None, s'))
                else (upload_done True (Some (GatewayError 409
                        ''template file upload hash already exists with different content'')), s))
           | None \<Rightarrow>
               (let f = \<lparr>mf_TemplateID = templateID, mf_Hash = hash, mf_Path = tempPath, mf_Size = fsize,
                         mf_SHA256 = sha256Sum, mf_CreatedAt = createdAt\<rparr>;
                    s' = s\<lparr>ms_templateFiles := AList.update key f (ms_templateFiles s),
                           ms_templateUploads := AList.delete (mu_Token upload) (ms_templateUploads s)\<rparr>
                in case saveLocked s' of
                     Some err \<Rightarrow> (upload_done True (Some err),
                       s'\<lparr>ms_templateFiles := restore_entry key previousFile (ms_templateFiles s'),
                          ms_templateUploads := AList.update (mu_Token upload) upload (ms_templateUploads s')\<rparr>)
                   | None \<Rightarrow> ((upload_done True None)\<lparr>ur_tempKept := True\<rparr>, s'))))"

text \<open>
  The whole upload. \<open>others\<close> is what other requests make of the store while the body is read and
  checked; \<open>now1\<close> and \<open>now2\<close> are the clock readings of the two critical sections.
\<close>

definition StoreTemplateFileUploadReader :: "upload_env \<Rightarrow> (management \<Rightarrow> management) \<Rightarrow> time \<Rightarrow> time \<Rightarrow> time \<Rightarrow>
    string \<Rightarrow> string \<Rightarrow> string \<Rightarrow> upload_body \<Rightarrow> management \<Rightarrow> upload_result \<times> management" where
  "StoreTemplateFileUploadReader env others now1 now2 createdAt templateID hash token body s =
     (let templateID = TrimSpace templateID; hash = TrimSpace hash; token = TrimSpace token
      in case check_upload templateID hash token now1 s of
           (None, s) \<Rightarrow> (upload_done False None, s)
         | (Some _, s) \<Rightarrow>
             (let s = others s
              in case writeTemplateUploadTemp env body of
                   Inl err \<Rightarrow> (upload_done True (Some err), s)
                 | Inr (tempPath, fsize, sha256Sum) \<Rightarrow>
                     (case validateTemplateUploadHash hash sha256Sum of
                        Some err \<Rightarrow> (upload_done True (Some err), s)
                      | None \<Rightarrow>
                          (case validateTemplateArchive (ue_archive env (ub_data body)) hash of
                             Some err \<Rightarrow> (upload_done True (Some err), s)
                           | None \<Rightarrow>
                               (case check_upload templateID hash token now2 s of
                                  (None, s) \<Rightarrow> (upload_done False None, s)
                                | (Some upload, s) \<Rightarrow>
                                    commit_upload templateID hash upload (tempPath, fsize, sha256Sum) createdAt s)))))"

definition TemplateFile :: "string \<Rightarrow> string \<Rightarrow> management \<Rightarrow> managed_file option" where
  "TemplateFile templateID hash s = map_of (ms_templateFiles s) (templateFileKey templateID hash)"

section \<open>The invariant\<close>

text \<open>
  A template is filed under its own trimmed id and has no tombstone; its tags and builds are filed
  under their own names, and its current build is among its builds.
\<close>

definition template_ok :: "string \<Rightarrow> managed_template \<Rightarrow> bool" where
  "template_ok k item \<longleftrightarrow> k \<noteq> [] \<and> TrimSpace k = k \<and> gt_TemplateID (mt_Template item) = k \<and>
     wf_map (mt_Tags item) \<and> wf_map (mt_Builds item) \<and>
     (\<forall>t tag. map_of (mt_Tags item) t = Some tag \<longrightarrow> tg_Tag tag = t \<and> t \<noteq> [] \<and> TrimSpace t = t) \<and>
     (\<forall>b build. map_of (mt_Builds item) b = Some build \<longrightarrow>
        gt_BuildID (mb_Template build) = b \<and> gt_TemplateID (mb_Template build) = k \<and> TrimSpace b \<noteq> []) \<and>
     (TrimSpace (gt_BuildID (mt_Template item)) \<noteq> [] \<longrightarrow>
        map_option mb_Template (map_of (mt_Builds item) (gt_BuildID (mt_Template item))) = Some (mt_Template item))"

definition uploads_ok :: "management \<Rightarrow> bool" where
  "uploads_ok s \<longleftrightarrow> wf_map (ms_templateUploads s) \<and> wf_map (ms_templateFiles s) \<and>
     (\<forall>t u. map_of (ms_templateUploads s) t = Some u \<longrightarrow> mu_Token u = t)"

definition management_inv :: "management \<Rightarrow> bool" where
  "management_inv s \<longleftrightarrow> wf_map (ms_templates s) \<and> wf_map (ms_deletedTemplates s) \<and> uploads_ok s \<and>
     (\<forall>k item. map_of (ms_templates s) k = Some item \<longrightarrow>
        template_ok k item \<and> map_of (ms_deletedTemplates s) k = None)"

lemma management_invD:
  "management_inv s \<Longrightarrow> map_of (ms_templates s) k = Some item \<Longrightarrow>
     template_ok k item \<and> map_of (ms_deletedTemplates s) k = None"
  by (simp add: management_inv_def)

lemma management_inv_new [inv_intros]: "management_inv NewGatewayManagementStore"
  by (simp add: management_inv_def NewGatewayManagementStore_def uploads_ok_def)

lemma assign_tags_props:
  "map_of (assign_tags b now tags m) t =
     (if t \<in> set tags then Some \<lparr>tg_BuildID = b, tg_CreatedAt = now, tg_Tag = t\<rparr> else map_of m t)"
  "wf_map m \<Longrightarrow> wf_map (assign_tags b now tags m)"
  unfolding assign_tags_def by (induction tags arbitrary: m) auto

lemma record_build_spec:
  assumes "record_build now logs t builds = (t', builds')"
  shows "gt_TemplateID t' = gt_TemplateID t \<and> gt_BuildID t' = gt_BuildID t \<and> gt_BuildStatus t' = gt_BuildStatus t \<and>
    (if TrimSpace (gt_BuildID t) = [] then t' = t \<and> builds' = builds
     else \<exists>l. builds' = AList.update (gt_BuildID t) \<lparr>mb_Template = t', mb_Logs = l\<rparr> builds \<and>
       l = (if logs = [] then (case map_of builds (gt_BuildID t) of Some b \<Rightarrow> mb_Logs b | None \<Rightarrow> []) else logs))"
  using assms by (auto simp: record_build_def Let_def split: if_splits)

text \<open>An upsert is total, and this is the entry it leaves.\<close>

lemma Upsert_spec:
  assumes run: "UpsertTemplate lib now t tags logs s = (res, s')" and k: "TrimSpace (gt_TemplateID t) = k" "k \<noteq> []"
  shows "\<exists>t' item. res = Inr t' \<and>
    s' = s\<lparr>ms_templates := AList.update k item (ms_templates s), ms_deletedTemplates := AList.delete k (ms_deletedTemplates s)\<rparr> \<and>
    mt_Template item = t' \<and> gt_TemplateID t' = k \<and> gt_BuildID t' = gt_BuildID t \<and> gt_BuildStatus t' = gt_BuildStatus t \<and>
    mt_Tags item = assign_tags (stableTemplateBuildUUID lib k (gt_BuildID t)) now (normalizedTags tags)
      (fst (no_tags_builds (map_of (ms_templates s) k))) \<and>
    (t', mt_Builds item) = record_build now (mt_Logs item) (t\<lparr>gt_TemplateID := k\<rparr>)
      (fst (snd (no_tags_builds (map_of (ms_templates s) k)))) \<and>
    mt_Logs item = (if logs = [] then snd (snd (no_tags_builds (map_of (ms_templates s) k))) else logs)"
proof -
  obtain tags0 builds0 logs0 where nt: "no_tags_builds (map_of (ms_templates s) k) = (tags0, builds0, logs0)"
    by (rule prod_cases3)
  let ?logs = "if logs = [] then logs0 else logs"
  obtain t' builds' where rb: "record_build now ?logs (t\<lparr>gt_TemplateID := k\<rparr>) builds0 = (t', builds')"
    by (cases "record_build now ?logs (t\<lparr>gt_TemplateID := k\<rparr>) builds0")
  let ?item = "\<lparr>mt_Template = t', mt_Tags = assign_tags (stableTemplateBuildUUID lib k (gt_BuildID t)) now
      (normalizedTags tags) tags0, mt_Logs = ?logs, mt_Builds = builds'\<rparr>"
  have "res = Inr t' \<and> s' = s\<lparr>ms_templates := AList.update k ?item (ms_templates s),
      ms_deletedTemplates := AList.delete k (ms_deletedTemplates s)\<rparr>"
    using run k nt rb by (auto simp: UpsertTemplate_def Let_def saveLocked_def)
  with record_build_spec [OF rb] nt rb show ?thesis
    by (intro exI [of _ t'] exI [of _ ?item]) simp
qed

lemma no_tags_builds_ok:
  assumes "management_inv s" and "no_tags_builds (map_of (ms_templates s) k) = (tags0, builds0, logs0)"
  shows "wf_map tags0" "wf_map builds0"
    "map_of tags0 t = Some tag \<Longrightarrow> tg_Tag tag = t \<and> t \<noteq> [] \<and> TrimSpace t = t"
    "map_of builds0 b = Some build \<Longrightarrow>
       gt_BuildID (mb_Template build) = b \<and> gt_TemplateID (mb_Template build) = k \<and> TrimSpace b \<noteq> []"
  using assms management_invD [OF assms(1), of k]
  by (auto simp: no_tags_builds_def template_ok_def split: option.splits)

lemma management_inv_Upsert [inv_intros]:
  assumes inv: "management_inv s" and run: "UpsertTemplate lib now t tags logs s = (res, s')"
  shows "management_inv s'"
proof (cases "TrimSpace (gt_TemplateID t) = []")
  case True
  with run inv show ?thesis by (simp add: UpsertTemplate_def Let_def)
next
  case False
  define k where "k = TrimSpace (gt_TemplateID t)"
  obtain tags0 builds0 logs0 where nt: "no_tags_builds (map_of (ms_templates s) k) = (tags0, builds0, logs0)"
    by (rule prod_cases3)
  from Upsert_spec [OF run k_def [symmetric]] False nt obtain t' item where
    s': "s' = s\<lparr>ms_templates := AList.update k item (ms_templates s), ms_deletedTemplates := AList.delete k (ms_deletedTemplates s)\<rparr>"
    and it: "mt_Template item = t'" "gt_TemplateID t' = k" "gt_BuildID t' = gt_BuildID t"
    and tg: "mt_Tags item = assign_tags (stableTemplateBuildUUID lib k (gt_BuildID t)) now (normalizedTags tags) tags0"
    and rb: "record_build now (mt_Logs item) (t\<lparr>gt_TemplateID := k\<rparr>) builds0 = (t', mt_Builds item)"
    by (auto simp: k_def)
  note ok0 = no_tags_builds_ok [OF inv nt]
  note rs = record_build_spec [OF rb]
  have tags_ok: "tg_Tag tag = x \<and> x \<noteq> [] \<and> TrimSpace x = x" if "map_of (mt_Tags item) x = Some tag" for x tag
    using that ok0(3) [of x tag] by (auto simp: tg assign_tags_props normalizedTags_props split: if_splits)
  have "template_ok k item"
    unfolding template_ok_def
  proof (intro conjI allI impI)
    show "k \<noteq> []" "TrimSpace k = k" using False by (simp_all add: k_def)
    show "wf_map (mt_Tags item)" using ok0(1) by (simp add: tg assign_tags_props)
    show "wf_map (mt_Builds item)" using ok0(2) rs by (auto split: if_splits)
    show "gt_TemplateID (mt_Template item) = k" using it by simp
  next
    fix x tag assume "map_of (mt_Tags item) x = Some tag"
    from tags_ok [OF this] show "tg_Tag tag = x" "x \<noteq> []" "TrimSpace x = x" by simp_all
  next
    fix b build assume "map_of (mt_Builds item) b = Some build"
    with rs ok0(4) [of b build] it show "gt_BuildID (mb_Template build) = b"
      "gt_TemplateID (mb_Template build) = k" "TrimSpace b \<noteq> []"
      by (auto split: if_splits)
  next
    assume "TrimSpace (gt_BuildID (mt_Template item)) \<noteq> []"
    with rs it show "map_option mb_Template (map_of (mt_Builds item) (gt_BuildID (mt_Template item))) = Some (mt_Template item)"
      by (auto split: if_splits)
  qed
  with inv show ?thesis by (auto simp: management_inv_def s' uploads_ok_def)
qed

lemma management_inv_Delete [inv_intros]: "management_inv s \<Longrightarrow> management_inv (snd (DeleteTemplate k s))"
  by (auto simp: management_inv_def DeleteTemplate_def Let_def saveLocked_def uploads_ok_def)

lemma fold_delete_lookup:
  "map_of (fold AList.delete ks m) k = (if k \<in> set ks then None else map_of m k)"
  by (induction ks arbitrary: m) auto

lemma fold_delete_wf: "wf_map m \<Longrightarrow> wf_map (fold AList.delete ks m)"
  by (induction ks arbitrary: m) auto

lemma management_inv_DeleteTags [inv_intros]:
  assumes inv: "management_inv s"
  shows "management_inv (snd (DeleteTemplateTags k tags s))"
proof (cases "map_of (ms_templates s) k")
  case None
  with inv show ?thesis by (simp add: DeleteTemplateTags_def)
next
  case (Some item)
  let ?item = "item\<lparr>mt_Tags := fold AList.delete (normalizedTags tags) (mt_Tags item)\<rparr>"
  from management_invD [OF inv Some] have "template_ok k ?item"
    by (auto simp: template_ok_def fold_delete_lookup fold_delete_wf split: if_splits)
  moreover have "snd (DeleteTemplateTags k tags s) = s\<lparr>ms_templates := AList.update k ?item (ms_templates s)\<rparr>"
    by (simp add: DeleteTemplateTags_def Some Let_def saveLocked_def)
  ultimately show ?thesis using inv management_invD [OF inv Some]
    by (auto simp: management_inv_def uploads_ok_def)
qed

lemma management_inv_SetNodeStatus [inv_intros]: "management_inv s \<Longrightarrow> management_inv (snd (SetNodeStatus n st s))"
  by (auto simp: management_inv_def SetNodeStatus_def Let_def saveLocked_def uploads_ok_def)

lemma management_inv_CreateUpload [inv_intros]:
  "management_inv s \<Longrightarrow> management_inv (snd (CreateTemplateFileUpload bytes now tid h s))"
  by (auto simp: management_inv_def CreateTemplateFileUpload_def Let_def uploads_ok_def
      simp del: map_of_eq_Some_iff split: sum.split)

lemma check_upload_spec:
  assumes "check_upload tid h token now s = (res, s')" and "uploads_ok s"
  shows "uploads_ok s' \<and> ms_templateFiles s' = ms_templateFiles s \<and> ms_templates s' = ms_templates s \<and>
    ms_deletedTemplates s' = ms_deletedTemplates s \<and>
    (case res of
       None \<Rightarrow> True
     | Some u \<Rightarrow> s' = s \<and> map_of (ms_templateUploads s) token = Some u \<and> mu_Token u = token \<and>
         now \<le> mu_ExpiresAt u \<and> mu_TemplateID u = tid \<and> mu_Hash u = h)"
  using assms by (auto simp: check_upload_def uploads_ok_def split: option.splits if_splits)

lemma commit_upload_spec:
  assumes "commit_upload tid h u (p, n, sha) now s = (res, s')" and "uploads_ok s"
  shows "uploads_ok s' \<and> ms_templates s' = ms_templates s \<and> ms_deletedTemplates s' = ms_deletedTemplates s \<and>
    ur_stored res \<and>
    (\<forall>k f. map_of (ms_templateFiles s) k = Some f \<longrightarrow> map_of (ms_templateFiles s') k = Some f) \<and>
    (ur_tempKept res \<longleftrightarrow> map_of (ms_templateFiles s) (templateFileKey tid h) = None) \<and>
    (ur_tempKept res \<longrightarrow> ur_error res = None \<and>
       map_of (ms_templateFiles s') (templateFileKey tid h) = Some \<lparr>mf_TemplateID = tid, mf_Hash = h, mf_Path = p,
         mf_Size = n, mf_SHA256 = sha, mf_CreatedAt = now\<rparr>) \<and>
    (\<not> ur_tempKept res \<longrightarrow> ms_templateFiles s' = ms_templateFiles s) \<and>
    (ur_error res = None \<longrightarrow> map_of (ms_templateUploads s') (mu_Token u) = None \<and>
       (\<exists>f. map_of (ms_templateFiles s') (templateFileKey tid h) = Some f \<and> EqualFold (mf_SHA256 f) sha))"
  using assms
  by (auto simp: commit_upload_def upload_done_def saveLocked_def Let_def uploads_ok_def split: option.splits if_splits)

text \<open>The upload as a whole, with whatever the other requests do in between.\<close>

lemma StoreUpload_spec:
  assumes run: "StoreTemplateFileUploadReader env others now1 now2 c tid h token body s = (res, s')"
    and ok: "uploads_ok s" and others: "\<And>s. uploads_ok s \<Longrightarrow> uploads_ok (others s)"
  shows "uploads_ok s' \<and>
    (ur_stored res \<and> ur_error res = None \<longrightarrow>
       map_of (ms_templateUploads s') (TrimSpace token) = None \<and>
       (\<exists>f p n sha. TemplateFile tid h s' = Some f \<and> EqualFold (mf_SHA256 f) sha \<and>
          writeTemplateUploadTemp env body = Inr (p, n, sha) \<and> validateTemplateUploadHash (TrimSpace h) sha = None \<and>
          validateTemplateArchive (ue_archive env (ub_data body)) (TrimSpace h) = None \<and>
          (ur_tempKept res \<longrightarrow> mf_Path f = p \<and> mf_Size f = n \<and> mf_SHA256 f = sha))) \<and>
    (ur_tempKept res \<longrightarrow> ur_stored res \<and> ur_error res = None)"
proof -
  let ?tid = "TrimSpace tid" and ?h = "TrimSpace h" and ?tok = "TrimSpace token"
  obtain u1 s1 where c1: "check_upload ?tid ?h ?tok now1 s = (u1, s1)" by (cases "check_upload ?tid ?h ?tok now1 s")
  note sp1 = check_upload_spec [OF c1 ok]
  have fail: ?thesis if "res = upload_done st err" "s' = s2" "st = False \<or> err \<noteq> None" "uploads_ok s2" for st err s2
    using that by (auto simp: upload_done_def)
  show ?thesis
  proof (cases u1)
    case None
    with run c1 have "res = upload_done False None" "s' = s1" by (auto simp: StoreTemplateFileUploadReader_def Let_def)
    with sp1 show ?thesis by (intro fail) auto
  next
    case (Some u)
    have ok2: "uploads_ok (others s1)" using sp1 by (intro others) simp
    show ?thesis
    proof (cases "writeTemplateUploadTemp env body")
      case (Inl err)
      with run c1 Some have "res = upload_done True (Some err)" "s' = others s1"
        by (auto simp: StoreTemplateFileUploadReader_def Let_def)
      with ok2 show ?thesis by (intro fail) auto
    next
      case (Inr w)
      obtain p n sha where w: "w = (p, n, sha)" by (rule prod_cases3)
      show ?thesis
      proof (cases "validateTemplateUploadHash ?h sha = None \<and>
          validateTemplateArchive (ue_archive env (ub_data body)) ?h = None")
        case False
        with run c1 Some Inr w obtain err where "res = upload_done True (Some err)" "s' = others s1"
          by (auto simp: StoreTemplateFileUploadReader_def Let_def split: option.splits)
        with ok2 show ?thesis by (intro fail) auto
      next
        case True
        obtain u2 s2 where c2: "check_upload ?tid ?h ?tok now2 (others s1) = (u2, s2)"
          by (cases "check_upload ?tid ?h ?tok now2 (others s1)")
        note sp2 = check_upload_spec [OF c2 ok2]
        show ?thesis
        proof (cases u2)
          case None
          with run c1 Some Inr w True c2 have "res = upload_done False None" "s' = s2"
            by (auto simp: StoreTemplateFileUploadReader_def Let_def)
          with sp2 show ?thesis by (intro fail) auto
        next
          case u: (Some u)
          with run c1 Some Inr w True c2 have cm: "commit_upload ?tid ?h u (p, n, sha) c s2 = (res, s')"
            by (auto simp: StoreTemplateFileUploadReader_def Let_def)
          from sp2 u have tok: "mu_Token u = ?tok" and ok3: "uploads_ok s2" by auto
          have key: "templateFileKey ?tid ?h = templateFileKey tid h" by (simp add: templateFileKey_def)
          from commit_upload_spec [OF cm ok3] True Inr w show ?thesis
            by (auto simp: tok TemplateFile_def key)
        qed
      qed
    qed
  qed
qed

text \<open>A file once stored is never replaced, if the other requests replace none.\<close>

lemma StoreUpload_keeps_files:
  assumes run: "StoreTemplateFileUploadReader env others now1 now2 c tid h token body s = (res, s')"
    and ok: "uploads_ok s" and others: "\<And>s. uploads_ok s \<Longrightarrow> uploads_ok (others s)"
    and keeps: "\<And>s k f. map_of (ms_templateFiles s) k = Some f \<Longrightarrow> map_of (ms_templateFiles (others s)) k = Some f"
    and here: "map_of (ms_templateFiles s) k = Some f"
  shows "map_of (ms_templateFiles s') k = Some f"
proof -
  let ?tid = "TrimSpace tid" and ?h = "TrimSpace h" and ?tok = "TrimSpace token"
  obtain u1 s1 where c1: "check_upload ?tid ?h ?tok now1 s = (u1, s1)" by (cases "check_upload ?tid ?h ?tok now1 s")
  note sp1 = check_upload_spec [OF c1 ok]
  with here have f1: "map_of (ms_templateFiles s1) k = Some f" by simp
  obtain u2 s2 where c2: "check_upload ?tid ?h ?tok now2 (others s1) = (u2, s2)"
    by (cases "check_upload ?tid ?h ?tok now2 (others s1)")
  have ok2: "uploads_ok (others s1)" using sp1 by (intro others) simp
  note sp2 = check_upload_spec [OF c2 ok2]
  with keeps [OF f1] have f2: "map_of (ms_templateFiles s2) k = Some f" by simp
  have "s' = s1 \<or> s' = others s1 \<or> s' = s2 \<or> (\<exists>u w. commit_upload ?tid ?h u w c s2 = (res, s'))"
    using run c1 c2
    by (auto simp: StoreTemplateFileUploadReader_def Let_def split: option.splits sum.splits prod.splits)
  then show ?thesis
  proof (elim disjE exE)
    fix u w assume cm: "commit_upload ?tid ?h u w c s2 = (res, s')"
    obtain p n sha where w: "w = (p, n, sha)" by (rule prod_cases3)
    from commit_upload_spec [OF cm [unfolded w]] sp2 f2 show ?thesis by blast
  qed (use f1 f2 keeps [OF f1] in auto)
qed

section \<open>Tombstones and keys\<close>

lemma Delete_then_Get:
  "is_deleted (snd (DeleteTemplate k s)) k \<and> GetManagedTemplate k (snd (DeleteTemplate k s)) = None"
  by (simp add: is_deleted_def DeletedTemplateIDs_def DeleteTemplate_def Let_def saveLocked_def GetManagedTemplate_def)

lemma Upsert_Get:
  assumes "UpsertTemplate lib now t tags logs s = (res, s')" and "TrimSpace (gt_TemplateID t) = k" "k \<noteq> []"
  shows "\<exists>t'. res = Inr t' \<and> GetManagedTemplate k s' = Some t' \<and> gt_BuildStatus t' = gt_BuildStatus t \<and>
    gt_BuildID t' = gt_BuildID t \<and> \<not> is_deleted s' k"
  using Upsert_spec [OF assms] by (auto simp: GetManagedTemplate_def is_deleted_def DeletedTemplateIDs_def)

text \<open>The key of a file is unambiguous for hashes without a slash.\<close>

lemma after_last_append: "c \<notin> set t \<Longrightarrow> after_last c (s @ c # t) = t"
proof -
  assume t: "c \<notin> set t"
  have "last_index_char c (c # t) = Some 0" using t by (simp add: last_index_char_None [symmetric])
  then have "last_index_char c (s @ c # t) = Some (length s)" by (induction s) simp_all
  then show ?thesis by (simp add: after_last_def)
qed

lemma templateFileKey_inj:
  assumes "templateFileKey t h = templateFileKey t' h'" and "CHR ''/'' \<notin> set h" and "CHR ''/'' \<notin> set h'"
  shows "TrimSpace t = TrimSpace t' \<and> TrimSpace h = TrimSpace h'"
proof -
  have h: "CHR ''/'' \<notin> set (TrimSpace h)" "CHR ''/'' \<notin> set (TrimSpace h')"
    using assms(2,3) set_TrimSpace by blast+
  have "after_last CHR ''/'' (templateFileKey t h) = TrimSpace h"
    "after_last CHR ''/'' (templateFileKey t' h') = TrimSpace h'"
    using h by (simp_all add: templateFileKey_def after_last_append)
  with assms(1) show ?thesis by (simp add: templateFileKey_def)
qed

end
