(* ===== verification/TemplateNames.thy ===== *)
theory TemplateNames
  imports ManagementStore
begin

text \<open>
  The pure helpers of the template callbacks (\<open>gateway_callbacks.go\<close>): names, ids and tags, the
  matching of a template, and the slices of a build's log.
\<close>

section \<open>Names and tags\<close>

definition appendUniqueStrings :: "string list \<Rightarrow> string list \<Rightarrow> string list" where
  "appendUniqueStrings values additions = unique_trimmed [] (values @ additions)"

definition stringPtrValue :: "string option \<Rightarrow> string" where
  "stringPtrValue value = (case value of None \<Rightarrow> [] | Some v \<Rightarrow> TrimSpace v)"

text \<open>
  Ranging over a string decodes UTF-8; a byte that begins no valid sequence is the rune U+FFFD.
\<close>

definition is_cont :: "char \<Rightarrow> bool" where
  "is_cont c = (let n = (of_char c :: nat) in 128 \<le> n \<and> n \<le> 191)"

definition rune2 :: "char \<Rightarrow> char \<Rightarrow> nat" where
  "rune2 a b = (of_char a - 192) * 64 + (of_char b - 128)"

definition rune3 :: "char \<Rightarrow> char \<Rightarrow> char \<Rightarrow> nat" where
  "rune3 a b c = (of_char a - 224) * 4096 + (of_char b - 128) * 64 + (of_char c - 128)"

definition rune4 :: "char \<Rightarrow> char \<Rightarrow> char \<Rightarrow> char \<Rightarrow> nat" where
  "rune4 a b c d = (of_char a - 240) * 262144 + (of_char b - 128) * 4096 + (of_char c - 128) * 64 + (of_char d - 128)"

definition valid2 :: "char \<Rightarrow> char \<Rightarrow> bool" where
  "valid2 a b = (let n = (of_char a :: nat) in 194 \<le> n \<and> n \<le> 223 \<and> is_cont b)"

definition valid3 :: "char \<Rightarrow> char \<Rightarrow> char \<Rightarrow> bool" where
  "valid3 a b c = (let n = (of_char a :: nat); m = (of_char b :: nat)
     in 224 \<le> n \<and> n \<le> 239 \<and> is_cont b \<and> is_cont c \<and> (n = 224 \<longrightarrow> 160 \<le> m) \<and> (n = 237 \<longrightarrow> m \<le> 159))"

definition valid4 :: "char \<Rightarrow> char \<Rightarrow> char \<Rightarrow> char \<Rightarrow> bool" where
  "valid4 a b c d = (let n = (of_char a :: nat); m = (of_char b :: nat)
     in 240 \<le> n \<and> n \<le> 244 \<and> is_cont b \<and> is_cont c \<and> is_cont d \<and> (n = 240 \<longrightarrow> 144 \<le> m) \<and> (n = 244 \<longrightarrow> m \<le> 143))"

definition RuneError :: nat where "RuneError = 65533"

text \<open>The first rune and its width in bytes.\<close>

definition decode_rune :: "string \<Rightarrow> nat \<times> nat" where
  "decode_rune s =
     (case s of
        [] \<Rightarrow> (RuneError, 1)
      | a # s1 \<Rightarrow>
          (if (of_char a :: nat) < 128 then (of_char a, 1)
           else case s1 of
              [] \<Rightarrow> (RuneError, 1)
            | b # s2 \<Rightarrow>
                (if valid2 a b then (rune2 a b, 2)
                 else case s2 of
                    [] \<Rightarrow> (RuneError, 1)
                  | c # s3 \<Rightarrow>
                      (if valid3 a b c then (rune3 a b c, 3)
                       else case s3 of
                          [] \<Rightarrow> (RuneError, 1)
                        | d # s4 \<Rightarrow> (if valid4 a b c d then (rune4 a b c d, 4) else (RuneError, 1))))))"

lemma decode_rune_width: "0 < snd (decode_rune s)"
  by (simp add: decode_rune_def split: list.split)

function runes :: "string \<Rightarrow> nat list" where
  "runes s = (if s = [] then [] else fst (decode_rune s) # runes (drop (snd (decode_rune s)) s))"
  by pat_completeness auto
termination
  using decode_rune_width by (relation "measure length") auto

declare runes.simps [simp del]

text \<open>
  \<open>unicode.ToLower\<close>, as far as it matters here: the letters whose lower case is an ASCII letter. All
  the others stay outside ASCII.
\<close>

definition lower_rune :: "nat \<Rightarrow> nat" where
  "lower_rune r = (if 65 \<le> r \<and> r \<le> 90 then r + 32 else if r = 0x212A then 107 else if r = 0x130 then 105 else r)"

definition template_id_rune :: "nat \<Rightarrow> char" where
  "template_id_rune r =
     (if 97 \<le> r \<and> r \<le> 122 then char_of r
      else if 48 \<le> r \<and> r \<le> 57 then char_of r
      else if r = 45 \<or> r = 95 \<or> r = 46 then char_of r
      else CHR ''-'')"

definition trim_char :: "char \<Rightarrow> string \<Rightarrow> string" where
  "trim_char c s = rev (dropWhile (\<lambda>x. x = c) (rev (dropWhile (\<lambda>x. x = c) s)))"

definition generated_name :: "string \<Rightarrow> string" where
  "generated_name uuid = ''template-'' @ take 8 uuid"

text \<open>The last argument is the UUID drawn when the name gives no id.\<close>

definition localTemplateID :: "string \<Rightarrow> string \<Rightarrow> string" where
  "localTemplateID uuid name =
     (let name = TrimSpace name
      in if name = [] then generated_name uuid
         else let result = trim_char CHR ''-'' (map (\<lambda>r. template_id_rune (lower_rune r)) (runes name))
              in if result = [] then generated_name uuid else result)"

definition splitTemplateNameAndTags :: "string \<Rightarrow> string \<Rightarrow> string list option \<Rightarrow> string \<times> string list" where
  "splitTemplateNameAndTags uuid value requestTags =
     (let value = TrimSpace value;
          split = (case last_index_char CHR '':'' value of
                     Some index \<Rightarrow> index > 0 \<and> index < length value - 1 \<and> CHR ''/'' \<notin> set (drop (Suc index) value)
                   | None \<Rightarrow> False);
          index = the (last_index_char CHR '':'' value);
          tags = (if split then [drop (Suc index) value] else []);
          value = (if split then take index value else value);
          tags = (case requestTags of Some ts \<Rightarrow> tags @ ts | None \<Rightarrow> tags);
          value = (if value = [] then generated_name uuid else value)
      in (value, normalizedTags tags))"

definition dockerImageTag :: "string \<Rightarrow> string" where
  "dockerImageTag imageRef =
     (let imageRef = TrimSpace imageRef
      in if imageRef = [] \<or> CHR ''@'' \<in> set imageRef then []
         else
           let lastSlash = (case last_index_char CHR ''/'' imageRef of Some i \<Rightarrow> int i | None \<Rightarrow> - 1);
               tagIndex = (case last_index_char CHR '':'' imageRef of Some i \<Rightarrow> int i | None \<Rightarrow> - 1)
           in if tagIndex \<le> lastSlash \<or> tagIndex = int (length imageRef) - 1 then []
              else drop (nat (tagIndex + 1)) imageRef)"

definition templateMatchesID :: "gateway_template \<Rightarrow> string \<Rightarrow> bool" where
  "templateMatchesID template i =
     (let i = TrimSpace i
      in if i = [] then False
         else if gt_TemplateID template = i \<or> gt_ImageRef template = i then True
         else if gt_ImageRef template \<noteq> [] \<and>
             (shortDockerImageName (gt_ImageRef template) = i \<or> dockerTemplateName (gt_ImageRef template) = i) then True
         else i \<in> set (gt_Names template) \<or> i \<in> set (gt_Aliases template))"

section \<open>Facts on names\<close>

definition template_id_char :: "char \<Rightarrow> bool" where
  "template_id_char c \<longleftrightarrow> (let n = (of_char c :: nat)
     in (97 \<le> n \<and> n \<le> 122) \<or> (48 \<le> n \<and> n \<le> 57) \<or> n = 45 \<or> n = 95 \<or> n = 46)"

lemma template_id_rune_char: "template_id_char (template_id_rune r)"
  by (auto simp: template_id_char_def template_id_rune_def Let_def of_char_of take_bit_eq_mod)

lemma trim_char_set: "set (trim_char c s) \<subseteq> set s"
proof
  fix x assume "x \<in> set (trim_char c s)"
  then have "x \<in> set (dropWhile (\<lambda>x. x = c) (rev (dropWhile (\<lambda>x. x = c) s)))" by (simp add: trim_char_def)
  then have "x \<in> set (rev (dropWhile (\<lambda>x. x = c) s))" by (blast dest: set_dropWhileD)
  then have "x \<in> set (dropWhile (\<lambda>x. x = c) s)" by simp
  then show "x \<in> set s" by (blast dest: set_dropWhileD)
qed

lemma trim_char_ends: "trim_char c s \<noteq> [] \<Longrightarrow> hd (trim_char c s) \<noteq> c \<and> last (trim_char c s) \<noteq> c"
proof -
  assume ne: "trim_char c s \<noteq> []"
  let ?a = "dropWhile (\<lambda>x. x = c) s"
  let ?b = "dropWhile (\<lambda>x. x = c) (rev ?a)"
  from ne have b: "?b \<noteq> []" by (simp add: trim_char_def)
  have a: "?a \<noteq> []"
  proof
    assume "?a = []"
    then have "?b = []" by (simp only: rev.simps(1) dropWhile.simps(1))
    with b show False by contradiction
  qed
  have "suffix ?b (rev ?a)" by (rule suffix_dropWhile)
  then obtain zs where "rev ?a = zs @ ?b" by (auto simp: suffix_def)
  then have "?a = rev ?b @ rev zs" by (metis rev_append rev_rev_ident)
  then have "hd ?a = hd (rev ?b @ rev zs)" by (rule arg_cong)
  then have same: "hd ?a = hd (rev ?b)" using hd_append2 [of "rev ?b" "rev zs"] b by (simp only: rev_is_Nil_conv not_False_eq_True)
  have "hd ?a \<noteq> c" using hd_dropWhile [OF a] .
  then have "hd (rev ?b) \<noteq> c" unfolding same .
  moreover have "last (rev ?b) \<noteq> c" unfolding last_rev by (rule hd_dropWhile [OF b])
  ultimately show ?thesis unfolding trim_char_def by (rule conjI)
qed

lemma localTemplateID_generated_or_clean:
  "localTemplateID uuid name = generated_name uuid \<or>
   (localTemplateID uuid name \<noteq> [] \<and> list_all template_id_char (localTemplateID uuid name) \<and>
    hd (localTemplateID uuid name) \<noteq> CHR ''-'' \<and> last (localTemplateID uuid name) \<noteq> CHR ''-'')"
proof (cases "localTemplateID uuid name = generated_name uuid")
  case False
  define r where "r = map (\<lambda>r. template_id_rune (lower_rune r)) (runes (TrimSpace name))"
  from False have eq: "localTemplateID uuid name = trim_char CHR ''-'' r" and ne: "trim_char CHR ''-'' r \<noteq> []"
    by (auto simp: localTemplateID_def Let_def r_def split: if_splits)
  have "list_all template_id_char (trim_char CHR ''-'' r)"
    using trim_char_set [of "CHR ''-''" r] by (auto simp: list_all_iff r_def intro: template_id_rune_char)
  with eq ne trim_char_ends [OF ne] show ?thesis by simp
qed simp

text \<open>Splitting off the tag again gives the same name.\<close>

lemma runes_ascii: "\<forall>c \<in> set s. (of_char c :: nat) < 128 \<Longrightarrow> runes s = map of_char s"
proof (induction s)
  case Nil
  show ?case by (simp add: runes.simps)
next
  case (Cons c s)
  then have "decode_rune (c # s) = (of_char c, 1)" by (simp add: decode_rune_def)
  with Cons show ?case by (simp add: runes.simps [of "c # s"])
qed

section \<open>Build logs\<close>

definition LogLevelInfo :: string where "LogLevelInfo = ''info''"
definition LogLevelError :: string where "LogLevelError = ''error''"
definition LogsDirectionBackward :: string where "LogsDirectionBackward = ''backward''"

definition localBuildLogs :: "time \<Rightarrow> string \<Rightarrow> build_log_entry list" where
  "localBuildLogs now message =
     [\<lparr>bl_Level = LogLevelInfo, bl_Message = message, bl_Step = None, bl_Timestamp = now\<rparr>]"

definition localBuildErrorLogs :: "time \<Rightarrow> string \<Rightarrow> build_log_entry list" where
  "localBuildErrorLogs now message =
     [\<lparr>bl_Level = LogLevelError, bl_Message = message, bl_Step = None, bl_Timestamp = now\<rparr>]"

definition appendBuildLogs :: "build_log_entry list list \<Rightarrow> build_log_entry list" where
  "appendBuildLogs groups = concat groups"

definition filterBuildLogs :: "string option \<Rightarrow> build_log_entry list \<Rightarrow> build_log_entry list" where
  "filterBuildLogs level logs =
     (case level of None \<Rightarrow> logs | Some l \<Rightarrow> filter (\<lambda>entry. bl_Level entry = l) logs)"

definition offsetBuildLogs :: "32 word option \<Rightarrow> build_log_entry list \<Rightarrow> build_log_entry list" where
  "offsetBuildLogs offset logs =
     (case offset of
        None \<Rightarrow> logs
      | Some o' \<Rightarrow>
          (if sint o' \<le> 0 then logs
           else if sint o' \<ge> int (length logs) then []
           else drop (nat (sint o')) logs))"

definition cursorBuildLogs :: "64 word option \<Rightarrow> build_log_entry list \<Rightarrow> build_log_entry list" where
  "cursorBuildLogs cursor logs =
     (case cursor of
        None \<Rightarrow> logs
      | Some c \<Rightarrow>
          (if sint c \<le> 0 then logs
           else filter (\<lambda>entry. time_UnixMilli (bl_Timestamp entry) \<ge> sint c) logs))"

definition limitBuildLogs :: "32 word option \<Rightarrow> build_log_entry list \<Rightarrow> build_log_entry list" where
  "limitBuildLogs limit logs =
     (case limit of
        None \<Rightarrow> logs
      | Some l \<Rightarrow>
          (if sint l \<le> 0 \<or> sint l \<ge> int (length logs) then logs else take (nat (sint l)) logs))"

text \<open>The in-place reversal: swap the ends and go inwards.\<close>

function reverse_from :: "nat \<Rightarrow> nat \<Rightarrow> 'a list \<Rightarrow> 'a list" where
  "reverse_from i j logs =
     (if i < j then reverse_from (i + 1) (j - 1) (logs[i := logs ! j, j := logs ! i]) else logs)"
  by pat_completeness auto
termination by (relation "measure (\<lambda>(i, j, logs). j)") auto

declare reverse_from.simps [simp del]

definition reverseBuildLogs :: "build_log_entry list \<Rightarrow> build_log_entry list" where
  "reverseBuildLogs logs = reverse_from 0 (length logs - 1) logs"

definition buildLogMessages :: "build_log_entry list \<Rightarrow> string list" where
  "buildLogMessages logs = map bl_Message logs"

lemma reverse_from_nth:
  assumes "j < length logs" and "k < length logs"
  shows "length (reverse_from i j logs) = length logs \<and>
    reverse_from i j logs ! k = (if i \<le> k \<and> k \<le> j then logs ! (i + j - k) else logs ! k)"
  using assms
proof (induction i j logs rule: reverse_from.induct)
  case (1 i j logs)
  show ?case
  proof (cases "i < j")
    case False
    then have "i \<le> k \<and> k \<le> j \<longrightarrow> i + j - k = k" by linarith
    with False show ?thesis by (auto simp: reverse_from.simps [of i j])
  next
    case True
    let ?l = "logs[i := logs ! j, j := logs ! i]"
    from 1 True have ih: "length (reverse_from (i + 1) (j - 1) ?l) = length ?l \<and>
        reverse_from (i + 1) (j - 1) ?l ! k =
          (if i + 1 \<le> k \<and> k \<le> j - 1 then ?l ! (i + 1 + (j - 1) - k) else ?l ! k)"
      by (intro "1.IH") auto
    have "i + 1 + (j - 1) - k = i + j - k" using True by simp
    with ih True "1.prems" show ?thesis
      by (auto simp: reverse_from.simps [of i j] nth_list_update)
  qed
qed

lemma reverseBuildLogs_rev: "reverseBuildLogs logs = rev logs"
proof (cases "logs = []")
  case True
  then show ?thesis by (simp add: reverseBuildLogs_def reverse_from.simps)
next
  case False
  then have j: "length logs - 1 < length logs" by simp
  show ?thesis
  proof (rule nth_equalityI)
    show "length (reverseBuildLogs logs) = length (rev logs)"
      using reverse_from_nth [OF j, of 0 0] False by (simp add: reverseBuildLogs_def)
  next
    fix k assume "k < length (reverseBuildLogs logs)"
    then have k: "k < length logs"
      using reverse_from_nth [OF j, of 0 0] False by (simp add: reverseBuildLogs_def)
    then show "reverseBuildLogs logs ! k = rev logs ! k"
      using reverse_from_nth [OF j k, of 0] by (simp add: reverseBuildLogs_def rev_nth)
  qed
qed

end
