(* ===== verification/BuildManager.thy ===== *)
theory BuildManager
  imports GatewayTypes
begin

text \<open>
  The template build manager (\<open>internal/gateway/template_build_manager.go\<close>): the table of active
  builds under its mutex, the capacity, the \<open>stopping\<close> flag, the \<open>WaitGroup\<close> counter, and the pool
  of all tasks ever reserved. A pointer to a task is its index in the pool. Each method is atomic:
  it does its work on the table under the mutex.
\<close>

section \<open>State\<close>

record build_key =
  bk_TemplateID :: string
  bk_BuildID :: string

text \<open>\<open>tk_ctx_done\<close>: the task's own context has been cancelled; \<open>tk_returned\<close>: \<open>wg.Done\<close> was called for it.\<close>

record build_task =
  tk_key :: build_key
  tk_cancelled :: bool
  tk_ctx_done :: bool
  tk_returned :: bool

record build_manager =
  bm_maxConcurrent :: int
  bm_active :: "(build_key, nat) gomap"
  bm_stopping :: bool
  bm_ctx_done :: bool
  bm_wg :: nat
  bm_tasks :: "build_task list"

definition defaultTemplateBuildMaxConcurrent :: int where
  "defaultTemplateBuildMaxConcurrent = 2"

definition newTemplateBuildManager :: "int \<Rightarrow> build_manager" where
  "newTemplateBuildManager maxConcurrent =
     \<lparr>bm_maxConcurrent = (if maxConcurrent \<le> 0 then defaultTemplateBuildMaxConcurrent else maxConcurrent),
      bm_active = [], bm_stopping = False, bm_ctx_done = False, bm_wg = 0, bm_tasks = []\<rparr>"

definition errTemplateBuildCapacityExhausted :: go_error where
  "errTemplateBuildCapacityExhausted = Sentinel ''template build capacity exhausted''"

definition errTemplateBuildAlreadyRunning :: go_error where
  "errTemplateBuildAlreadyRunning = Sentinel ''template build is already running''"

definition errTemplateBuildManagerStopped :: go_error where
  "errTemplateBuildManagerStopped = Sentinel ''template build manager is stopped''"

section \<open>Operations\<close>

definition reserve :: "string \<Rightarrow> string \<Rightarrow> build_manager \<Rightarrow> (go_error + nat) \<times> build_manager" where
  "reserve templateID buildID m =
     (let key = \<lparr>bk_TemplateID = templateID, bk_BuildID = buildID\<rparr>;
          task = \<lparr>tk_key = key, tk_cancelled = False, tk_ctx_done = False, tk_returned = False\<rparr>
      in if bm_stopping m then (Inl errTemplateBuildManagerStopped, m)
         else if map_of (bm_active m) key \<noteq> None then (Inl errTemplateBuildAlreadyRunning, m)
         else if int (length (bm_active m)) \<ge> bm_maxConcurrent m
           then (Inl errTemplateBuildCapacityExhausted, m)
         else (Inr (length (bm_tasks m)),
               m\<lparr>bm_active := AList.update key (length (bm_tasks m)) (bm_active m),
                 bm_wg := bm_wg m + 1, bm_tasks := bm_tasks m @ [task]\<rparr>))"

text \<open>\<open>task.cancel()\<close> and \<open>wg.Done()\<close>.\<close>

definition cancel_task :: "nat \<Rightarrow> build_manager \<Rightarrow> build_manager" where
  "cancel_task t m = m\<lparr>bm_tasks := (bm_tasks m)[t := (bm_tasks m ! t)\<lparr>tk_ctx_done := True\<rparr>]\<rparr>"

definition wg_Done :: "nat \<Rightarrow> build_manager \<Rightarrow> build_manager" where
  "wg_Done t m = m\<lparr>bm_wg := bm_wg m - 1, bm_tasks := (bm_tasks m)[t := (bm_tasks m ! t)\<lparr>tk_returned := True\<rparr>]\<rparr>"

definition isCurrent :: "nat \<Rightarrow> build_manager \<Rightarrow> bool" where
  "isCurrent t m = (map_of (bm_active m) (tk_key (bm_tasks m ! t)) = Some t)"

definition complete :: "nat \<Rightarrow> build_manager \<Rightarrow> build_manager" where
  "complete t m =
     (let m = (if map_of (bm_active m) (tk_key (bm_tasks m ! t)) = Some t
               then m\<lparr>bm_active := AList.delete (tk_key (bm_tasks m ! t)) (bm_active m)\<rparr> else m)
      in wg_Done t (cancel_task t m))"

definition release :: "nat \<Rightarrow> build_manager \<Rightarrow> build_manager" where
  "release t m =
     (let m = (if map_of (bm_active m) (tk_key (bm_tasks m ! t)) = Some t
               then m\<lparr>bm_active := AList.delete (tk_key (bm_tasks m ! t)) (bm_active m)\<rparr> else m)
      in wg_Done t (cancel_task t m))"

definition set_cancelled :: "nat \<Rightarrow> build_manager \<Rightarrow> build_manager" where
  "set_cancelled t m = m\<lparr>bm_tasks := (bm_tasks m)[t := (bm_tasks m ! t)\<lparr>tk_cancelled := True\<rparr>]\<rparr>"

definition cancelTeamBuilds :: "string \<Rightarrow> build_manager \<Rightarrow> nat \<times> build_manager" where
  "cancelTeamBuilds teamID m =
     (let tasks = filter (\<lambda>t. \<not> tk_cancelled (bm_tasks m ! t)) (map snd (bm_active m));
          m = fold set_cancelled tasks m;
          m = fold cancel_task tasks m
      in (length tasks, m))"

text \<open>The part of \<open>shutdown\<close> under the mutex; it then waits as the deadline manager does.\<close>

definition builds_close :: "build_manager \<Rightarrow> build_manager" where
  "builds_close m =
     (let m' = (if \<not> bm_stopping m then m\<lparr>bm_stopping := True, bm_ctx_done := True\<rparr> else m)
      in fold (\<lambda>t m. cancel_task t (set_cancelled t m)) (map snd (bm_active m')) m')"

definition builds_shutdown_returns :: "go_error option \<Rightarrow> build_manager \<Rightarrow> go_error option \<Rightarrow> bool" where
  "builds_shutdown_returns ctxErr m res \<longleftrightarrow> (res = None \<and> bm_wg m = 0) \<or> (ctxErr \<noteq> None \<and> res = ctxErr)"

text \<open>A task returns once: through \<open>complete\<close> after it ran, or through \<open>release\<close> when it was not started.\<close>

inductive bm_step :: "build_manager \<Rightarrow> build_manager \<Rightarrow> bool" where
  do_reserve: "bm_step m (snd (reserve templateID buildID m))"
| do_complete: "t < length (bm_tasks m) \<Longrightarrow> \<not> tk_returned (bm_tasks m ! t) \<Longrightarrow> bm_step m (complete t m)"
| do_release: "t < length (bm_tasks m) \<Longrightarrow> \<not> tk_returned (bm_tasks m ! t) \<Longrightarrow> bm_step m (release t m)"
| do_cancel_team: "bm_step m (snd (cancelTeamBuilds teamID m))"
| do_close: "bm_step m (builds_close m)"

inductive_cases bm_stepE: "bm_step m m'"

section \<open>The invariant\<close>

definition running_tasks :: "build_manager \<Rightarrow> nat" where
  "running_tasks m = length (filter (\<lambda>t. \<not> tk_returned t) (bm_tasks m))"

text \<open>The active table is exactly the tasks that have not returned.\<close>

definition bm_inv :: "build_manager \<Rightarrow> bool" where
  "bm_inv m \<longleftrightarrow> 0 < bm_maxConcurrent m \<and> int (length (bm_active m)) \<le> bm_maxConcurrent m \<and>
     wf_map (bm_active m) \<and> bm_wg m = running_tasks m \<and>
     (\<forall>k t. map_of (bm_active m) k = Some t \<longrightarrow>
        t < length (bm_tasks m) \<and> tk_key (bm_tasks m ! t) = k \<and> \<not> tk_returned (bm_tasks m ! t)) \<and>
     (\<forall>t < length (bm_tasks m). \<not> tk_returned (bm_tasks m ! t) \<longrightarrow>
        map_of (bm_active m) (tk_key (bm_tasks m ! t)) = Some t) \<and>
     (\<forall>t < length (bm_tasks m). tk_returned (bm_tasks m ! t) \<longrightarrow> tk_ctx_done (bm_tasks m ! t)) \<and>
     (bm_stopping m \<longrightarrow> bm_ctx_done m \<and> (\<forall>t < length (bm_tasks m). tk_ctx_done (bm_tasks m ! t)))"

lemma bm_invD:
  assumes "bm_inv m"
  shows "map_of (bm_active m) k = Some t \<Longrightarrow>
      t < length (bm_tasks m) \<and> tk_key (bm_tasks m ! t) = k \<and> \<not> tk_returned (bm_tasks m ! t)"
    and "t < length (bm_tasks m) \<Longrightarrow> \<not> tk_returned (bm_tasks m ! t) \<Longrightarrow>
      map_of (bm_active m) (tk_key (bm_tasks m ! t)) = Some t"
    and "bm_stopping m \<Longrightarrow> t < length (bm_tasks m) \<Longrightarrow> tk_ctx_done (bm_tasks m ! t)"
    and "wf_map (bm_active m)" and "int (length (bm_active m)) \<le> bm_maxConcurrent m"
    and "bm_wg m = running_tasks m"
    and "t < length (bm_tasks m) \<Longrightarrow> tk_returned (bm_tasks m ! t) \<Longrightarrow> tk_ctx_done (bm_tasks m ! t)"
  using assms unfolding bm_inv_def by blast+

lemma bm_inv_new [inv_intros]: "bm_inv (newTemplateBuildManager n)"
  by (simp add: bm_inv_def newTemplateBuildManager_def running_tasks_def defaultTemplateBuildMaxConcurrent_def)

lemma bm_inv_reserve [inv_intros]:
  assumes inv: "bm_inv m"
  shows "bm_inv (snd (reserve templateID buildID m))"
proof -
  let ?k = "\<lparr>bk_TemplateID = templateID, bk_BuildID = buildID\<rparr>"
  show ?thesis
  proof (cases "bm_stopping m \<or> map_of (bm_active m) ?k \<noteq> None \<or> int (length (bm_active m)) \<ge> bm_maxConcurrent m")
    case True
    with inv show ?thesis by (auto simp: reserve_def Let_def)
  next
    case False
    then have free: "map_of (bm_active m) ?k = None" and room: "int (length (bm_active m)) < bm_maxConcurrent m"
      and going: "\<not> bm_stopping m" by auto
    have other: "tk_key (bm_tasks m ! t) \<noteq> ?k" if "t < length (bm_tasks m)" "\<not> tk_returned (bm_tasks m ! t)" for t
      using bm_invD(2) [OF inv that] free by auto
    show ?thesis unfolding bm_inv_def
    proof (intro conjI allI impI)
      fix k t assume "map_of (bm_active (snd (reserve templateID buildID m))) k = Some t"
      with False bm_invD(1) [OF inv, of k t]
      show "t < length (bm_tasks (snd (reserve templateID buildID m)))"
        "tk_key (bm_tasks (snd (reserve templateID buildID m)) ! t) = k"
        "\<not> tk_returned (bm_tasks (snd (reserve templateID buildID m)) ! t)"
        by (auto simp: reserve_def Let_def nth_append split: if_splits)
    next
      fix t assume "t < length (bm_tasks (snd (reserve templateID buildID m)))"
        and "tk_returned (bm_tasks (snd (reserve templateID buildID m)) ! t)"
      with False bm_invD(7) [OF inv, of t]
      show "tk_ctx_done (bm_tasks (snd (reserve templateID buildID m)) ! t)"
        by (auto simp: reserve_def Let_def nth_append split: if_splits)
    next
      fix t assume t: "t < length (bm_tasks (snd (reserve templateID buildID m)))"
        and run: "\<not> tk_returned (bm_tasks (snd (reserve templateID buildID m)) ! t)"
      show "map_of (bm_active (snd (reserve templateID buildID m)))
          (tk_key (bm_tasks (snd (reserve templateID buildID m)) ! t)) = Some t"
      proof (cases "t < length (bm_tasks m)")
        case True
        with run False have "\<not> tk_returned (bm_tasks m ! t)" by (simp add: reserve_def Let_def nth_append)
        with bm_invD(2) [OF inv True] other [OF True] False True show ?thesis
          by (simp add: reserve_def Let_def nth_append)
      next
        case old: False
        with t False have "t = length (bm_tasks m)" by (simp add: reserve_def Let_def)
        with False show ?thesis by (simp add: reserve_def Let_def nth_append)
      qed
    qed (use False inv free room in \<open>auto simp: reserve_def Let_def bm_inv_def running_tasks_def
        length_alist_update_new\<close>)
  qed
qed

text \<open>Cancelling contexts and marking tasks leaves the bookkeeping alone.\<close>

definition marks_only :: "build_manager \<Rightarrow> build_manager \<Rightarrow> bool" where
  "marks_only m m' \<longleftrightarrow> bm_maxConcurrent m' = bm_maxConcurrent m \<and> bm_active m' = bm_active m \<and>
     bm_wg m' = bm_wg m \<and> bm_stopping m' = bm_stopping m \<and> bm_ctx_done m' = bm_ctx_done m \<and>
     length (bm_tasks m') = length (bm_tasks m) \<and>
     (\<forall>t < length (bm_tasks m). tk_key (bm_tasks m' ! t) = tk_key (bm_tasks m ! t) \<and>
        tk_returned (bm_tasks m' ! t) = tk_returned (bm_tasks m ! t) \<and>
        (tk_ctx_done (bm_tasks m ! t) \<longrightarrow> tk_ctx_done (bm_tasks m' ! t)) \<and>
        (tk_cancelled (bm_tasks m ! t) \<longrightarrow> tk_cancelled (bm_tasks m' ! t)))"

lemma marks_only_refl [simp]: "marks_only m m"
  by (simp add: marks_only_def)

lemma marks_only_trans [trans]: "marks_only m m' \<Longrightarrow> marks_only m' m'' \<Longrightarrow> marks_only m m''"
  by (simp add: marks_only_def)

lemma marks_only_cancel_task: "marks_only m (cancel_task t m)"
  by (cases "t < length (bm_tasks m)") (auto simp: marks_only_def cancel_task_def nth_list_update)

lemma marks_only_set_cancelled: "marks_only m (set_cancelled t m)"
  by (cases "t < length (bm_tasks m)") (auto simp: marks_only_def set_cancelled_def nth_list_update)

lemma marks_only_fold:
  assumes "\<And>t m. marks_only m (f t m)"
  shows "marks_only m (fold f ts m)"
proof (induction ts arbitrary: m)
  case Nil
  show ?case by simp
next
  case (Cons t ts)
  from assms [of m t] Cons [of "f t m"] show ?case by (simp add: marks_only_trans)
qed

lemma running_tasks_cong:
  assumes "length (bm_tasks m') = length (bm_tasks m)"
    and "\<And>t. t < length (bm_tasks m) \<Longrightarrow> tk_returned (bm_tasks m' ! t) = tk_returned (bm_tasks m ! t)"
  shows "running_tasks m' = running_tasks m"
proof -
  have "map tk_returned (bm_tasks m') = map tk_returned (bm_tasks m)"
    using assms by (simp add: list_eq_iff_nth_eq)
  then have "length (filter Not (map tk_returned (bm_tasks m'))) = length (filter Not (map tk_returned (bm_tasks m)))"
    by simp
  then show ?thesis by (simp add: running_tasks_def filter_map comp_def)
qed

lemma bm_inv_marks:
  assumes "marks_only m m'" and inv: "bm_inv m"
  shows "bm_inv m'"
proof -
  from assms(1) have "running_tasks m' = running_tasks m"
    by (intro running_tasks_cong) (simp_all add: marks_only_def)
  with assms show ?thesis unfolding bm_inv_def marks_only_def by auto
qed

text \<open>Taking a task out when it returns.\<close>

lemma running_tasks_return:
  assumes "t < length (bm_tasks m)" and "\<not> tk_returned (bm_tasks m ! t)"
    and "bm_tasks m' = (bm_tasks m)[t := x]" and "tk_returned x"
  shows "Suc (running_tasks m') = running_tasks m"
  using assms
proof -
  have "Suc (length (filter (\<lambda>t. \<not> tk_returned t) (xs[t := x]))) = length (filter (\<lambda>t. \<not> tk_returned t) xs)"
    if "t < length xs" "\<not> tk_returned (xs ! t)" for xs
    using that
  proof (induction xs arbitrary: t)
    case Nil
    then show ?case by simp
  next
    case (Cons y ys)
    then show ?case using assms(4) by (cases t) auto
  qed
  with assms show ?thesis by (simp add: running_tasks_def)
qed

lemma complete_eq:
  assumes "bm_inv m" and "t < length (bm_tasks m)" and "\<not> tk_returned (bm_tasks m ! t)"
  shows "complete t m = m\<lparr>bm_active := AList.delete (tk_key (bm_tasks m ! t)) (bm_active m), bm_wg := bm_wg m - 1,
    bm_tasks := (bm_tasks m)[t := (bm_tasks m ! t)\<lparr>tk_ctx_done := True, tk_returned := True\<rparr>]\<rparr>"
  using bm_invD(2) [OF assms] assms(2) by (simp add: complete_def wg_Done_def cancel_task_def Let_def)

lemma release_eq: "release = complete"
  by (intro ext) (simp add: complete_def release_def)

lemma bm_inv_complete [inv_intros]:
  assumes inv: "bm_inv m" and t: "t < length (bm_tasks m)" and run: "\<not> tk_returned (bm_tasks m ! t)"
  shows "bm_inv (complete t m)"
proof -
  let ?x = "(bm_tasks m ! t)\<lparr>tk_ctx_done := True, tk_returned := True\<rparr>"
  note eq = complete_eq [OF assms]
  have tasks: "bm_tasks (complete t m) = (bm_tasks m)[t := ?x]" by (simp add: eq)
  have r: "Suc (running_tasks (complete t m)) = running_tasks m"
    by (rule running_tasks_return [OF t run tasks]) simp
  note here = bm_invD(2) [OF inv t run]
  show ?thesis unfolding bm_inv_def
  proof (intro conjI allI impI)
    fix k u assume "map_of (bm_active (complete t m)) k = Some u"
    then have k: "k \<noteq> tk_key (bm_tasks m ! t)" and u: "map_of (bm_active m) k = Some u"
      by (auto simp: eq split: if_splits)
    from bm_invD(1) [OF inv u] k have "u \<noteq> t" by auto
    with bm_invD(1) [OF inv u]
    show "u < length (bm_tasks (complete t m))" "tk_key (bm_tasks (complete t m) ! u) = k"
      "\<not> tk_returned (bm_tasks (complete t m) ! u)"
      by (simp_all add: tasks)
  next
    fix u assume u: "u < length (bm_tasks (complete t m))" and ru: "\<not> tk_returned (bm_tasks (complete t m) ! u)"
    then have "u \<noteq> t" and u': "u < length (bm_tasks m)" using t by (auto simp: tasks)
    with ru have ru': "\<not> tk_returned (bm_tasks m ! u)" by (simp add: tasks)
    note other = bm_invD(2) [OF inv u' ru']
    with here \<open>u \<noteq> t\<close> have "tk_key (bm_tasks m ! u) \<noteq> tk_key (bm_tasks m ! t)" by auto
    with other \<open>u \<noteq> t\<close> show "map_of (bm_active (complete t m)) (tk_key (bm_tasks (complete t m) ! u)) = Some u"
      by (simp add: eq)
  next
    from inv show "0 < bm_maxConcurrent (complete t m)" by (simp add: eq bm_inv_def)
    from bm_invD(4) [OF inv] show "wf_map (bm_active (complete t m))" by (simp add: eq)
    from bm_invD(5) [OF inv] length_alist_delete [of "tk_key (bm_tasks m ! t)" "bm_active m"]
    show "int (length (bm_active (complete t m))) \<le> bm_maxConcurrent (complete t m)" by (simp add: eq)
    from r bm_invD(6) [OF inv] have "bm_wg m - 1 = running_tasks (complete t m)" by simp
    then show "bm_wg (complete t m) = running_tasks (complete t m)" by (simp add: eq)
  next
    fix u assume "u < length (bm_tasks (complete t m))" and "tk_returned (bm_tasks (complete t m) ! u)"
    with bm_invD(7) [OF inv, of u] t show "tk_ctx_done (bm_tasks (complete t m) ! u)"
      by (cases "u = t") (simp_all add: tasks)
  next
    assume "bm_stopping (complete t m)"
    then have stop: "bm_stopping m" by (simp add: eq)
    with inv show "bm_ctx_done (complete t m)" by (simp add: eq bm_inv_def)
    fix u assume "u < length (bm_tasks (complete t m))"
    with bm_invD(3) [OF inv stop, of u] t show "tk_ctx_done (bm_tasks (complete t m) ! u)"
      by (cases "u = t") (simp_all add: tasks)
  qed
qed

section \<open>Cancelling and closing\<close>

lemma fold_marks_nth:
  assumes f: "\<And>t m. f t m = m\<lparr>bm_tasks := (bm_tasks m)[t := g (bm_tasks m ! t)]\<rparr>" and idem: "\<And>x. g (g x) = g x"
    and u: "u < length (bm_tasks m)"
  shows "bm_tasks (fold f ts m) ! u = (if u \<in> set ts then g (bm_tasks m ! u) else bm_tasks m ! u)"
  using u
proof (induction ts arbitrary: m)
  case Nil
  then show ?case by simp
next
  case (Cons t ts)
  have "u < length (bm_tasks (f t m))" using Cons.prems by (simp add: f)
  note ih = Cons.IH [OF this]
  have "bm_tasks (f t m) ! u = (if u = t then g (bm_tasks m ! u) else bm_tasks m ! u)"
    using Cons.prems by (auto simp: f nth_list_update)
  with ih idem show ?case by auto
qed

definition mark :: "build_task \<Rightarrow> build_task" where
  "mark x = x\<lparr>tk_cancelled := True, tk_ctx_done := True\<rparr>"

lemma cancelTeam_marks: "marks_only m (snd (cancelTeamBuilds teamID m))"
  unfolding cancelTeamBuilds_def Let_def
  by (auto intro!: marks_only_trans [OF marks_only_fold marks_only_fold] marks_only_cancel_task marks_only_set_cancelled)

lemma cancelTeam_task:
  assumes "u < length (bm_tasks m)"
  shows "bm_tasks (snd (cancelTeamBuilds teamID m)) ! u =
    (if u \<in> snd ` set (bm_active m) \<and> \<not> tk_cancelled (bm_tasks m ! u) then mark (bm_tasks m ! u) else bm_tasks m ! u)"
proof -
  define ts where "ts = filter (\<lambda>t. \<not> tk_cancelled (bm_tasks m ! t)) (map snd (bm_active m))"
  let ?m1 = "fold set_cancelled ts m"
  have 1: "bm_tasks ?m1 ! u = (if u \<in> set ts then (bm_tasks m ! u)\<lparr>tk_cancelled := True\<rparr> else bm_tasks m ! u)"
    using fold_marks_nth [of set_cancelled "\<lambda>x. x\<lparr>tk_cancelled := True\<rparr>", OF _ _ assms]
    by (simp add: set_cancelled_def)
  have "marks_only m ?m1" by (rule marks_only_fold) (rule marks_only_set_cancelled)
  then have len: "u < length (bm_tasks ?m1)" using assms by (simp add: marks_only_def)
  have 2: "bm_tasks (fold cancel_task ts ?m1) ! u =
      (if u \<in> set ts then (bm_tasks ?m1 ! u)\<lparr>tk_ctx_done := True\<rparr> else bm_tasks ?m1 ! u)"
    using fold_marks_nth [of cancel_task "\<lambda>x. x\<lparr>tk_ctx_done := True\<rparr>", OF _ _ len]
    by (simp add: cancel_task_def)
  have "u \<in> set ts \<longleftrightarrow> u \<in> snd ` set (bm_active m) \<and> \<not> tk_cancelled (bm_tasks m ! u)" by (auto simp: ts_def)
  with 1 2 show ?thesis by (simp add: cancelTeamBuilds_def Let_def ts_def [symmetric] mark_def)
qed

lemma active_entry:
  assumes inv: "bm_inv m" and "t \<in> snd ` set (bm_active m)"
  shows "map_of (bm_active m) (tk_key (bm_tasks m ! t)) = Some t \<and> t < length (bm_tasks m)"
proof -
  from assms(2) obtain k where "(k, t) \<in> set (bm_active m)" by auto
  with map_of_in_set [OF bm_invD(4) [OF inv]] have k: "map_of (bm_active m) k = Some t" by blast
  from bm_invD(1) [OF inv k] k show ?thesis by auto
qed

lemma cancelTeam_spec:
  assumes inv: "bm_inv m"
  shows "bm_inv (snd (cancelTeamBuilds teamID m)) \<and>
    bm_active (snd (cancelTeamBuilds teamID m)) = bm_active m \<and>
    (\<forall>t \<in> snd ` set (bm_active m). tk_cancelled (bm_tasks (snd (cancelTeamBuilds teamID m)) ! t)) \<and>
    fst (cancelTeamBuilds other (snd (cancelTeamBuilds teamID m))) = 0"
proof -
  let ?m = "snd (cancelTeamBuilds teamID m)"
  note marks = cancelTeam_marks [of m teamID]
  have act: "bm_active ?m = bm_active m" using marks by (simp add: marks_only_def)
  have all: "tk_cancelled (bm_tasks ?m ! t)" if "t \<in> snd ` set (bm_active m)" for t
    using active_entry [OF inv that] that by (simp add: cancelTeam_task mark_def)
  then have "filter (\<lambda>t. \<not> tk_cancelled (bm_tasks ?m ! t)) (map snd (bm_active ?m)) = []"
    by (auto simp: act filter_empty_conv)
  then have "fst (cancelTeamBuilds other ?m) = 0" by (simp add: cancelTeamBuilds_def Let_def)
  with all act bm_inv_marks [OF marks inv] show ?thesis by simp
qed

lemma builds_close_eq:
  "builds_close m = fold (\<lambda>t m. m\<lparr>bm_tasks := (bm_tasks m)[t := mark (bm_tasks m ! t)]\<rparr>) (map snd (bm_active m))
     (if \<not> bm_stopping m then m\<lparr>bm_stopping := True, bm_ctx_done := True\<rparr> else m)"
proof -
  have step: "cancel_task t (set_cancelled t n) = n\<lparr>bm_tasks := (bm_tasks n)[t := mark (bm_tasks n ! t)]\<rparr>" for t n
    by (cases "t < length (bm_tasks n)")
       (simp_all add: cancel_task_def set_cancelled_def mark_def list_update_beyond)
  show ?thesis by (simp add: builds_close_def Let_def step)
qed

lemma bm_inv_close [inv_intros]:
  assumes inv: "bm_inv m"
  shows "bm_inv (builds_close m)"
proof -
  define m1 where "m1 = (if \<not> bm_stopping m then m\<lparr>bm_stopping := True, bm_ctx_done := True\<rparr> else m)"
  define m2 where "m2 = m1\<lparr>bm_stopping := bm_stopping m, bm_ctx_done := bm_ctx_done m\<rparr>"
  let ?c = "builds_close m"
  have eq: "?c = fold (\<lambda>t m. m\<lparr>bm_tasks := (bm_tasks m)[t := mark (bm_tasks m ! t)]\<rparr>) (map snd (bm_active m)) m1"
    by (simp add: builds_close_eq m1_def)
  have marks: "marks_only m1 ?c"
    unfolding builds_close_def Let_def m1_def [symmetric]
    by (rule marks_only_fold) (rule marks_only_trans [OF marks_only_set_cancelled marks_only_cancel_task])
  have m1: "bm_active m1 = bm_active m" "bm_tasks m1 = bm_tasks m" "bm_wg m1 = bm_wg m"
    "bm_maxConcurrent m1 = bm_maxConcurrent m" by (simp_all add: m1_def)
  have stop: "bm_stopping m1" "bm_ctx_done m1" using inv by (auto simp: m1_def bm_inv_def)
  have ctxd: "tk_ctx_done (bm_tasks ?c ! t)" if t: "t < length (bm_tasks m)" for t
  proof (cases "tk_returned (bm_tasks m ! t)")
    case True
    with bm_invD(7) [OF inv t] marks t show ?thesis by (simp add: marks_only_def m1)
  next
    case False
    from bm_invD(2) [OF inv t False] have "t \<in> set (map snd (bm_active m))" by (force dest: map_of_SomeD)
    moreover have "bm_tasks ?c ! t = (if t \<in> set (map snd (bm_active m)) then mark (bm_tasks m1 ! t) else bm_tasks m1 ! t)"
      unfolding eq by (rule fold_marks_nth) (simp_all add: mark_def m1 t)
    ultimately show ?thesis by (simp add: mark_def)
  qed
  have run: "running_tasks ?c = running_tasks m"
    using marks by (intro running_tasks_cong) (simp_all add: marks_only_def m1)
  show ?thesis unfolding bm_inv_def
    using marks inv stop ctxd run by (simp add: marks_only_def m1) (simp add: bm_inv_def)
qed

lemma marks_only_frame:
  "marks_only m m' \<Longrightarrow> bm_stopping m' = bm_stopping m \<and> bm_wg m' = bm_wg m \<and> bm_active m' = bm_active m"
  by (simp add: marks_only_def)

lemma builds_close_frame: "bm_stopping (builds_close m) \<and> bm_wg (builds_close m) = bm_wg m"
proof -
  define m1 where "m1 = (if \<not> bm_stopping m then m\<lparr>bm_stopping := True, bm_ctx_done := True\<rparr> else m)"
  have "marks_only m1 (builds_close m)"
    unfolding builds_close_def Let_def m1_def [symmetric]
    by (rule marks_only_fold) (rule marks_only_trans [OF marks_only_set_cancelled marks_only_cancel_task])
  from marks_only_frame [OF this] show ?thesis by (simp add: m1_def)
qed

lemma bm_step_inv: "bm_step m m' \<Longrightarrow> bm_inv m \<Longrightarrow> bm_inv m'"
  by (induction rule: bm_step.induct)
     (auto intro: inv_intros bm_inv_marks [OF cancelTeam_marks] simp: release_eq)

interpretation builds: shutdown_gate "\<lambda>m. \<exists>n. m = newTemplateBuildManager n" bm_step bm_inv bm_stopping bm_wg
proof unfold_locales
  fix m m' assume "bm_inv m" and "bm_step m m'" and stop: "bm_stopping m"
  from this(2) show "bm_stopping m'"
    by cases (use stop marks_only_frame [OF cancelTeam_marks] builds_close_frame in
      \<open>auto simp: reserve_def complete_def release_def wg_Done_def cancel_task_def Let_def\<close>)
next
  fix m m' assume "bm_inv m" and "bm_step m m'" and stop: "bm_stopping m"
  from this(2) show "bm_wg m' \<le> bm_wg m"
    by cases (use stop marks_only_frame [OF cancelTeam_marks] builds_close_frame in
      \<open>auto simp: reserve_def complete_def release_def wg_Done_def cancel_task_def Let_def\<close>)
qed (auto intro: bm_step_inv bm_inv_new)

text \<open>Reservation: the errors, in the code's order, and the new active build.\<close>

lemma reserve_spec:
  assumes "reserve tid bid m = (res, m')" and "bm_inv m"
  shows "case res of
      Inl e \<Rightarrow> m' = m \<and>
        e = (if bm_stopping m then errTemplateBuildManagerStopped
             else if map_of (bm_active m) \<lparr>bk_TemplateID = tid, bk_BuildID = bid\<rparr> \<noteq> None
               then errTemplateBuildAlreadyRunning
             else errTemplateBuildCapacityExhausted)
    | Inr t \<Rightarrow> \<not> bm_stopping m \<and> isCurrent t m' \<and> length (bm_active m') = Suc (length (bm_active m)) \<and>
        int (length (bm_active m')) \<le> bm_maxConcurrent m'"
  using assms
  by (auto simp: reserve_def Let_def isCurrent_def nth_append length_alist_update_new split: if_splits)

lemma isCurrent_iff:
  "bm_inv m \<Longrightarrow> t < length (bm_tasks m) \<Longrightarrow> isCurrent t m \<longleftrightarrow> \<not> tk_returned (bm_tasks m ! t)"
  using bm_invD(1) [of m "tk_key (bm_tasks m ! t)" t] bm_invD(2) [of m t] by (auto simp: isCurrent_def)

end
