(* ===== verification/Templates.thy ===== *)
theory Templates
  imports TemplateNames BuildManager
begin

text \<open>
  The template callbacks of the gateway (\<open>gateway_callbacks.go\<close>): listing and finding templates,
  creating, updating, rebuilding and deleting them, starting builds and finishing them in the
  background, tags, logs and upload tickets. The state is the management store, the build manager
  and the outside world (clock, UUIDs, runtime).
\<close>

section \<open>State and environment\<close>

record 'w tapp =
  tp_management :: management
  tp_builds :: build_manager
  tp_world :: 'w

type_synonym ('w, 'a) top = "'w tapp \<Rightarrow> (go_error + 'a) \<times> 'w tapp"

record runtime_template =
  tr_TemplateID :: string
  tr_Names :: "string list"
  tr_ImageRef :: string
  tr_BuildCount :: int
  tr_BuildID :: string
  tr_BuildStatus :: string
  tr_CPUCount :: int
  tr_DiskSizeMB :: int
  tr_MemoryMB :: int
  tr_Public :: bool
  tr_SpawnCount :: int
  tr_CreatedAt :: time
  tr_UpdatedAt :: time
  tr_LastSpawnedAt :: "time option"

record snapshot_info =
  si_Names :: "string list"
  si_SnapshotID :: string

record build_request =
  br_Alias :: "string option"
  br_CpuCount :: "int option"
  br_Dockerfile :: string
  br_MemoryMB :: "int option"
  br_ReadyCmd :: "string option"
  br_StartCmd :: "string option"

record template_step =
  st_Args :: "string list option"
  st_FilesHash :: "string option"
  st_Type :: string

record build_start =
  bs_Force :: "bool option"
  bs_FromImage :: "string option"
  bs_FromTemplate :: "string option"
  bs_ReadyCmd :: "string option"
  bs_StartCmd :: "string option"
  bs_Steps :: "template_step list option"

text \<open>
  The runtime's template interfaces, the clock, the UUIDs and the random bytes. The background
  build of \<open>StartTemplateBuildV2\<close> runs elsewhere; it is present or not.
\<close>

record 'w template_env =
  te_now :: "'w \<Rightarrow> time \<times> 'w"
  te_uuid :: "'w \<Rightarrow> string \<times> 'w"
  te_rand24 :: "'w \<Rightarrow> (go_error + string) \<times> 'w"
  te_lib :: uuid_lib
  te_ListTemplates :: "'w \<Rightarrow> (go_error + runtime_template list) \<times> 'w"
  te_BuildTemplate :: "(gateway_template \<Rightarrow> build_request \<Rightarrow> 'w \<Rightarrow>
    (go_error + gateway_template \<times> build_log_entry list) \<times> 'w) option"
  te_BuildStarter :: bool

definition tw_call :: "('w \<Rightarrow> 'a \<times> 'w) \<Rightarrow> 'w tapp \<Rightarrow> 'a \<times> 'w tapp" where
  "tw_call f s = (case f (tp_world s) of (x, w) \<Rightarrow> (x, s\<lparr>tp_world := w\<rparr>))"

definition defaultEnvdVersion :: string where "defaultEnvdVersion = ''99.99.99''"
definition BuildStatusReady :: string where "BuildStatusReady = ''ready''"
definition BuildStatusBuilding :: string where "BuildStatusBuilding = ''building''"
definition BuildStatusError :: string where "BuildStatusError = ''error''"

text \<open>\<open>UpsertTemplate\<close> of the management store; it reads the clock for a template with an id.\<close>

definition upsert :: "'w template_env \<Rightarrow> gateway_template \<Rightarrow> string list \<Rightarrow> build_log_entry list \<Rightarrow>
    ('w, gateway_template) top" where
  "upsert env template tags logs s =
     (case (if TrimSpace (gt_TemplateID template) = [] then (0, s) else tw_call (te_now env) s) of (now, s) \<Rightarrow>
       (case UpsertTemplate (te_lib env) now template tags logs (tp_management s) of
          (res, m) \<Rightarrow> (res, s\<lparr>tp_management := m\<rparr>)))"

section \<open>Listing and finding\<close>

definition gatewayTemplate :: "'w template_env \<Rightarrow> runtime_template \<Rightarrow> 'w \<Rightarrow> gateway_template \<times> 'w" where
  "gatewayTemplate env template w =
     (let names = (if tr_Names template = [] \<and> tr_TemplateID template \<noteq> [] then [tr_TemplateID template]
                   else tr_Names template)
      in case (if IsZero (tr_CreatedAt template) then te_now env w else (tr_CreatedAt template, w)) of (createdAt, w) \<Rightarrow>
        (\<lparr>gt_Aliases = [], gt_BuildCount = tr_BuildCount template, gt_BuildID = tr_BuildID template,
          gt_BuildStatus = tr_BuildStatus template, gt_CpuCount = tr_CPUCount template, gt_CreatedAt = createdAt,
          gt_CreatedBy = None, gt_DiskSizeMB = tr_DiskSizeMB template, gt_EnvdVersion = defaultEnvdVersion,
          gt_LastSpawnedAt = tr_LastSpawnedAt template, gt_MemoryMB = tr_MemoryMB template, gt_Names = names,
          gt_Public = tr_Public template, gt_SpawnCount = tr_SpawnCount template,
          gt_TemplateID = tr_TemplateID template,
          gt_UpdatedAt = (if IsZero (tr_UpdatedAt template) then createdAt else tr_UpdatedAt template),
          gt_ImageRef = tr_ImageRef template\<rparr>, w))"

fun gatewayTemplates :: "'w template_env \<Rightarrow> runtime_template list \<Rightarrow> 'w \<Rightarrow> gateway_template list \<times> 'w" where
  "gatewayTemplates env [] w = ([], w)"
| "gatewayTemplates env (t # ts) w =
     (case gatewayTemplate env t w of (g, w) \<Rightarrow> (case gatewayTemplates env ts w of (gs, w) \<Rightarrow> (g # gs, w)))"

text \<open>The index of a template's last occurrence, which is what \<open>indexByID\<close> holds.\<close>

fun last_index_of :: "string \<Rightarrow> gateway_template list \<Rightarrow> nat option" where
  "last_index_of i [] = None"
| "last_index_of i (t # ts) =
     (case last_index_of i ts of Some n \<Rightarrow> Some (Suc n) | None \<Rightarrow> if gt_TemplateID t = i then Some 0 else None)"

definition merge_template :: "management \<Rightarrow> gateway_template \<Rightarrow> gateway_template list \<Rightarrow> gateway_template list" where
  "merge_template m template result =
     (if is_deleted m (gt_TemplateID template) then result
      else case last_index_of (gt_TemplateID template) result of
             Some index \<Rightarrow> result[index := template]
           | None \<Rightarrow> result @ [template])"

definition defaultListTemplates :: "'w template_env \<Rightarrow> ('w, gateway_template list) top" where
  "defaultListTemplates env s =
     (case tw_call (te_ListTemplates env) s of
        (Inl err, s) \<Rightarrow> (Inl err, s)
      | (Inr templates, s) \<Rightarrow>
          (case tw_call (gatewayTemplates env templates) s of (gs, s) \<Rightarrow>
             (let m = tp_management s;
                  result = filter (\<lambda>t. \<not> is_deleted m (gt_TemplateID t)) gs
              in (Inr (fold (merge_template m) (ListManagedTemplates m) result), s))))"

definition template_not_found :: "string \<Rightarrow> go_error" where
  "template_not_found i = GatewayError 404 (''template '' @ i @ '' not found'')"

definition findTemplate :: "'w template_env \<Rightarrow> string \<Rightarrow> ('w, gateway_template) top" where
  "findTemplate env templateID s =
     (let templateID = TrimSpace templateID
      in if templateID = [] then (Inl (GatewayError 404 ''template not found''), s)
         else case defaultListTemplates env s of
                (Inl err, s) \<Rightarrow> (Inl err, s)
              | (Inr templates, s) \<Rightarrow>
                  (case List.find (\<lambda>t. templateMatchesID t templateID) templates of
                     Some template \<Rightarrow> (Inr template, s)
                   | None \<Rightarrow> (Inl (template_not_found templateID), s)))"

text \<open>The name without its tag; a name that is only a tag cannot arise, so no UUID is drawn for it.\<close>

definition findTemplateByTaggedName :: "'w template_env \<Rightarrow> string \<Rightarrow> ('w, gateway_template) top" where
  "findTemplateByTaggedName env value s =
     (case findTemplate env value s of
        (Inr template, s) \<Rightarrow> (Inr template, s)
      | (Inl _, s) \<Rightarrow>
          (case (if TrimSpace value = [] then tw_call (te_uuid env) s else ([], s)) of (uuid, s) \<Rightarrow>
             (let name = fst (splitTemplateNameAndTags uuid value None)
              in if name \<noteq> value then findTemplate env name s
                 else (Inl (template_not_found value), s))))"

section \<open>Creating, updating, rebuilding, deleting\<close>

text \<open>
  The UUIDs are drawn in the code's order: for an empty name, for a name that gives no id, for the
  build. (An id never ends in a dash, so it equals \<open>template-\<close> only when it has to be generated.)
\<close>

definition newManagedTemplate :: "'w template_env \<Rightarrow> string \<Rightarrow> string option \<Rightarrow> string list option \<Rightarrow> int option \<Rightarrow>
    int option \<Rightarrow> 'w tapp \<Rightarrow> (gateway_template \<times> string list) \<times> 'w tapp" where
  "newManagedTemplate env name alias requestTags cpuCount memoryMB s =
     (case (if TrimSpace name = [] then tw_call (te_uuid env) s else ([], s)) of (uuid1, s) \<Rightarrow>
      (case splitTemplateNameAndTags uuid1 name requestTags of (name, tags) \<Rightarrow>
      (case (if localTemplateID [] name = generated_name [] then tw_call (te_uuid env) s else ([], s)) of (uuid2, s) \<Rightarrow>
      (case tw_call (te_now env) s of (now, s) \<Rightarrow>
      (case tw_call (te_uuid env) s of (buildID, s) \<Rightarrow>
        (let cpu = (case cpuCount of Some c \<Rightarrow> if c > 0 then c else 1 | None \<Rightarrow> 1);
             memory = (case memoryMB of Some m \<Rightarrow> if m > 0 then m else 512 | None \<Rightarrow> 512);
             trimmed = stringPtrValue alias;
             aliases = (if trimmed \<noteq> [] then appendUniqueStrings [] [trimmed] else []);
             names = (if trimmed \<noteq> [] then appendUniqueStrings [name] [trimmed] else [name])
         in ((\<lparr>gt_Aliases = aliases, gt_BuildCount = 1, gt_BuildID = buildID, gt_BuildStatus = BuildStatusReady,
               gt_CpuCount = cpu, gt_CreatedAt = now, gt_CreatedBy = None, gt_DiskSizeMB = 0,
               gt_EnvdVersion = defaultEnvdVersion, gt_LastSpawnedAt = None, gt_MemoryMB = memory, gt_Names = names,
               gt_Public = False, gt_SpawnCount = 0, gt_TemplateID = localTemplateID uuid2 name,
               gt_UpdatedAt = now, gt_ImageRef = []\<rparr>, tags), s)))))))"

definition bad_gateway :: "go_error \<Rightarrow> go_error" where
  "bad_gateway err = GatewayError (gatewayErrorStatus err 502) (error_text err)"

text \<open>\<open>localBuildLogs\<close> reads the clock.\<close>

definition logs_now :: "'w template_env \<Rightarrow> string \<Rightarrow> 'w tapp \<Rightarrow> build_log_entry list \<times> 'w tapp" where
  "logs_now env message s = (case tw_call (te_now env) s of (now, s) \<Rightarrow> (localBuildLogs now message, s))"

definition template_dash_uuid :: "'w template_env \<Rightarrow> 'w tapp \<Rightarrow> string \<times> 'w tapp" where
  "template_dash_uuid env s = (case tw_call (te_uuid env) s of (u, s) \<Rightarrow> (generated_name u, s))"

text \<open>The runtime's builder, if there is one, may replace the template and the logs.\<close>

definition run_builder :: "'w template_env \<Rightarrow> gateway_template \<Rightarrow> build_log_entry list \<Rightarrow> build_request \<Rightarrow>
    ('w, gateway_template \<times> build_log_entry list) top" where
  "run_builder env template logs req s =
     (case te_BuildTemplate env of
        None \<Rightarrow> (Inr (template, logs), s)
      | Some builder \<Rightarrow>
          (case tw_call (builder template req) s of
             (Inl err, s) \<Rightarrow> (Inl (bad_gateway err), s)
           | (Inr built, s) \<Rightarrow> (Inr built, s)))"

definition defaultCreateTemplate :: "'w template_env \<Rightarrow> build_request \<Rightarrow> ('w, gateway_template) top" where
  "defaultCreateTemplate env req s =
     (if TrimSpace (br_Dockerfile req) = [] then (Inl (GatewayError 400 ''dockerfile is required''), s)
      else case (if stringPtrValue (br_Alias req) = [] then template_dash_uuid env s
                 else (stringPtrValue (br_Alias req), s)) of (name, s) \<Rightarrow>
        (case newManagedTemplate env name (br_Alias req) None (br_CpuCount req) (br_MemoryMB req) s of
           ((template, tags), s) \<Rightarrow>
             (case logs_now env ''template build accepted by e2b-local'' s of (logs, s) \<Rightarrow>
                (case run_builder env template logs req s of
                   (Inl err, s) \<Rightarrow> (Inl err, s)
                 | (Inr (template, logs), s) \<Rightarrow>
                     (case upsert env template tags logs s of
                        (Inl err, s) \<Rightarrow> (Inl err, s)
                      | (Inr _, s) \<Rightarrow> (Inr template, s))))))"

definition defaultCreateTemplateV2 :: "'w template_env \<Rightarrow> string \<Rightarrow> int option \<Rightarrow> int option \<Rightarrow> ('w, gateway_template) top" where
  "defaultCreateTemplateV2 env alias cpuCount memoryMB s =
     (if TrimSpace alias = [] then (Inl (GatewayError 400 ''alias is required''), s)
      else case newManagedTemplate env alias (Some alias) None cpuCount memoryMB s of ((template, tags), s) \<Rightarrow>
        (case logs_now env ''v2 template build accepted by e2b-local'' s of (logs, s) \<Rightarrow>
           (case upsert env template tags logs s of
              (Inl err, s) \<Rightarrow> (Inl err, s)
            | (Inr _, s) \<Rightarrow> (Inr template, s))))"

definition defaultCreateTemplateV3 :: "'w template_env \<Rightarrow> string option \<Rightarrow> string option \<Rightarrow> string list option \<Rightarrow>
    int option \<Rightarrow> int option \<Rightarrow> ('w, gateway_template \<times> string list) top" where
  "defaultCreateTemplateV3 env name alias tags cpuCount memoryMB s =
     (let name1 = (if stringPtrValue name = [] then stringPtrValue alias else stringPtrValue name)
      in case (if name1 = [] then template_dash_uuid env s else (name1, s)) of (name, s) \<Rightarrow>
        (case newManagedTemplate env name alias tags cpuCount memoryMB s of ((template, tags), s) \<Rightarrow>
           (case logs_now env ''v3 template build accepted by e2b-local'' s of (logs, s) \<Rightarrow>
              (case upsert env template tags logs s of
                 (Inl err, s) \<Rightarrow> (Inl err, s)
               | (Inr _, s) \<Rightarrow> (Inr (template, normalizedTags tags), s)))))"

definition defaultDeleteTemplate :: "'w template_env \<Rightarrow> string \<Rightarrow> ('w, unit) top" where
  "defaultDeleteTemplate env templateID s =
     (case findTemplate env templateID s of
        (Inl err, s) \<Rightarrow> (Inl err, s)
      | (Inr template, s) \<Rightarrow>
          (case DeleteTemplate (gt_TemplateID template) (tp_management s) of
             (Some err, m) \<Rightarrow> (Inl err, s\<lparr>tp_management := m\<rparr>)
           | (None, m) \<Rightarrow> (Inr (), s\<lparr>tp_management := m\<rparr>)))"

definition defaultUpdateTemplateRecord :: "'w template_env \<Rightarrow> string \<Rightarrow> bool option \<Rightarrow> ('w, gateway_template) top" where
  "defaultUpdateTemplateRecord env templateID public s =
     (case findTemplate env templateID s of
        (Inl err, s) \<Rightarrow> (Inl err, s)
      | (Inr template, s) \<Rightarrow>
          (let template = (case public of Some p \<Rightarrow> template\<lparr>gt_Public := p\<rparr> | None \<Rightarrow> template)
           in case tw_call (te_now env) s of (now, s) \<Rightarrow>
                upsert env (template\<lparr>gt_UpdatedAt := now\<rparr>) [] [] s))"

definition defaultUpdateTemplateV2 :: "'w template_env \<Rightarrow> string \<Rightarrow> bool option \<Rightarrow> ('w, string list) top" where
  "defaultUpdateTemplateV2 env templateID public s =
     (case defaultUpdateTemplateRecord env templateID public s of
        (Inl err, s) \<Rightarrow> (Inl err, s)
      | (Inr template, s) \<Rightarrow> (Inr (gt_Names template), s))"

definition defaultRebuildTemplate :: "'w template_env \<Rightarrow> string \<Rightarrow> build_request \<Rightarrow> ('w, gateway_template) top" where
  "defaultRebuildTemplate env templateID req s =
     (if TrimSpace (br_Dockerfile req) = [] then (Inl (GatewayError 400 ''dockerfile is required''), s)
      else case findTemplate env templateID s of
        (Inl err, s) \<Rightarrow> (Inl err, s)
      | (Inr template, s) \<Rightarrow>
          (case tw_call (te_now env) s of (now, s) \<Rightarrow>
          (case tw_call (te_uuid env) s of (buildID, s) \<Rightarrow>
            (let template = template\<lparr>gt_BuildCount := gt_BuildCount template + 1, gt_BuildID := buildID,
                   gt_BuildStatus := BuildStatusReady, gt_UpdatedAt := now\<rparr>;
                 template = (case br_CpuCount req of Some c \<Rightarrow> template\<lparr>gt_CpuCount := c\<rparr> | None \<Rightarrow> template);
                 template = (case br_MemoryMB req of Some m \<Rightarrow> template\<lparr>gt_MemoryMB := m\<rparr> | None \<Rightarrow> template);
                 template = (case br_Alias req of
                     Some a \<Rightarrow> template\<lparr>gt_Aliases := appendUniqueStrings (gt_Aliases template) [a],
                                        gt_Names := appendUniqueStrings (gt_Names template) [a]\<rparr>
                   | None \<Rightarrow> template)
             in case logs_now env ''template rebuild accepted by e2b-local'' s of (logs, s) \<Rightarrow>
                  (case run_builder env template logs req s of
                     (Inl err, s) \<Rightarrow> (Inl err, s)
                   | (Inr (template, logs), s) \<Rightarrow>
                       (case upsert env template [] logs s of
                          (Inl err, s) \<Rightarrow> (Inl err, s)
                        | (Inr _, s) \<Rightarrow> (Inr template, s)))))))"

section \<open>Builds\<close>

definition templateBuildStartError :: "go_error \<Rightarrow> go_error" where
  "templateBuildStartError err =
     (if errors_Is err errTemplateBuildCapacityExhausted
      then GatewayError 429 ''template build capacity exhausted''
      else if errors_Is err errTemplateBuildAlreadyRunning
      then GatewayError 409 ''template build is already running''
      else if errors_Is err errTemplateBuildManagerStopped
      then GatewayError 503 ''template build manager is stopped''
      else err)"

definition templateBuildSteps :: "template_step list option \<Rightarrow> template_step list" where
  "templateBuildSteps steps = (case steps of None \<Rightarrow> [] | Some ss \<Rightarrow> ss)"

fun collect_files :: "management \<Rightarrow> string \<Rightarrow> int \<Rightarrow> string list \<Rightarrow> template_step list \<Rightarrow> go_error + managed_file list" where
  "collect_files m templateID index seen [] = Inr []"
| "collect_files m templateID index seen (step # steps) =
     (if \<not> EqualFold (TrimSpace (st_Type step)) ''COPY'' then collect_files m templateID (index + 1) seen steps
      else let hash = stringPtrValue (st_FilesHash step)
           in if hash = []
              then Inl (GatewayError 400 (''template step '' @ Itoa index @ '': COPY requires filesHash''))
              else if hash \<in> set seen then collect_files m templateID (index + 1) seen steps
              else (case TemplateFile templateID hash m of
                      None \<Rightarrow> Inl (GatewayError 400 (''template step '' @ Itoa index @ '': uploaded file cache '' @
                                hash @ '' not found''))
                    | Some file \<Rightarrow>
                        (case collect_files m templateID (index + 1) (hash # seen) steps of
                           Inl err \<Rightarrow> Inl err
                         | Inr files \<Rightarrow> Inr (file # files))))"

definition templateBuildFiles :: "build_start \<Rightarrow> string \<Rightarrow> management \<Rightarrow> go_error + managed_file list" where
  "templateBuildFiles req templateID m = collect_files m templateID 0 [] (templateBuildSteps (bs_Steps req))"

definition defaultMarkTemplateBuildReady :: "'w template_env \<Rightarrow> string \<Rightarrow> string \<Rightarrow> string \<Rightarrow> ('w, unit) top" where
  "defaultMarkTemplateBuildReady env templateID buildID message s =
     (case findTemplate env templateID s of
        (Inl err, s) \<Rightarrow> (Inl err, s)
      | (Inr template, s) \<Rightarrow>
          (let buildID = TrimSpace buildID
           in if buildID = [] then (Inl (GatewayError 400 ''buildID is required''), s)
              else case tw_call (te_now env) s of (now, s) \<Rightarrow>
                (case logs_now env message s of (logs, s) \<Rightarrow>
                  (case upsert env (template\<lparr>gt_BuildID := buildID, gt_BuildStatus := BuildStatusReady,
                          gt_UpdatedAt := now\<rparr>) [] logs s of
                     (Inl err, s) \<Rightarrow> (Inl err, s)
                   | (Inr _, s) \<Rightarrow> (Inr (), s)))))"

definition defaultStartTemplateBuild :: "'w template_env \<Rightarrow> string \<Rightarrow> string \<Rightarrow> ('w, unit) top" where
  "defaultStartTemplateBuild env templateID buildID =
     defaultMarkTemplateBuildReady env templateID buildID ''template build started by e2b-local''"

text \<open>
  What the background goroutine is started with; its run is \<open>finish_build\<close> below. With no
  build starter in the runtime nothing is started.
\<close>

record build_job =
  bj_task :: nat
  bj_template :: gateway_template
  bj_buildID :: string
  bj_files :: "managed_file list"
  bj_startLogs :: "build_log_entry list"

definition defaultStartTemplateBuildV2 :: "'w template_env \<Rightarrow> string \<Rightarrow> string \<Rightarrow> build_start \<Rightarrow> ('w, build_job option) top" where
  "defaultStartTemplateBuildV2 env templateID buildID req s =
     (case findTemplate env templateID s of
        (Inl err, s) \<Rightarrow> (Inl err, s)
      | (Inr template, s) \<Rightarrow>
          (let buildID = TrimSpace buildID
           in if buildID = [] then (Inl (GatewayError 400 ''buildID is required''), s)
              else case tw_call (te_now env) s of (now, s) \<Rightarrow>
                (let template = template\<lparr>gt_BuildID := buildID, gt_BuildStatus := BuildStatusReady, gt_UpdatedAt := now\<rparr>
                 in case logs_now env ''v2 template build started by e2b-local'' s of (startLogs, s) \<Rightarrow>
                   (if te_BuildStarter env then
                      (case templateBuildFiles req (gt_TemplateID template) (tp_management s) of
                         Inl err \<Rightarrow> (Inl err, s)
                       | Inr files \<Rightarrow>
                           (case reserve (gt_TemplateID template) buildID (tp_builds s) of
                              (Inl err, b) \<Rightarrow> (Inl (templateBuildStartError err), s\<lparr>tp_builds := b\<rparr>)
                            | (Inr task, b) \<Rightarrow>
                                (let s = s\<lparr>tp_builds := b\<rparr>;
                                     template = template\<lparr>gt_BuildStatus := BuildStatusBuilding\<rparr>
                                 in case upsert env template [] startLogs s of
                                      (Inl err, s) \<Rightarrow> (Inl err, s\<lparr>tp_builds := release task (tp_builds s)\<rparr>)
                                    | (Inr _, s) \<Rightarrow>
                                        (Inr (Some \<lparr>bj_task = task, bj_template = template, bj_buildID = buildID,
                                            bj_files = files, bj_startLogs = startLogs\<rparr>), s))))
                    else (case upsert env template [] startLogs s of
                            (Inl err, s) \<Rightarrow> (Inl err, s)
                          | (Inr _, s) \<Rightarrow> (Inr None, s))))))"

definition context_Canceled :: go_error where
  "context_Canceled = Sentinel ''context canceled''"

text \<open>
  The goroutine after the starter has returned a template, logs and maybe an error; then the
  task's completion. A cancelled context turns a success into the context's error.
\<close>

definition record_failure :: "'w template_env \<Rightarrow> build_job \<Rightarrow> build_log_entry list \<Rightarrow> go_error \<Rightarrow> 'w tapp \<Rightarrow> 'w tapp" where
  "record_failure env job logs err s =
     (case tw_call (te_now env) s of (now, s) \<Rightarrow>
       (let failed = (bj_template job)\<lparr>gt_BuildID := bj_buildID job, gt_BuildStatus := BuildStatusError, gt_UpdatedAt := now\<rparr>;
            message = (if errors_Is err context_Canceled then ''v2 template build cancelled by e2b-local''
                       else error_text err)
        in case (if logs = [] then (case tw_call (te_now env) s of (t, s) \<Rightarrow> (localBuildErrorLogs t message, s))
                 else (logs, s)) of (logs, s) \<Rightarrow>
             (if \<not> isCurrent (bj_task job) (tp_builds s) then s
              else snd (upsert env failed [] (appendBuildLogs [bj_startLogs job, logs]) s))))"

definition record_success :: "'w template_env \<Rightarrow> build_job \<Rightarrow> gateway_template \<Rightarrow> build_log_entry list \<Rightarrow> 'w tapp \<Rightarrow> 'w tapp" where
  "record_success env job built logs s =
     (if \<not> isCurrent (bj_task job) (tp_builds s) then s
      else
        let built = (if TrimSpace (gt_TemplateID built) = []
                     then built\<lparr>gt_TemplateID := gt_TemplateID (bj_template job)\<rparr> else built);
            built = (if TrimSpace (gt_BuildID built) = [] then built\<lparr>gt_BuildID := bj_buildID job\<rparr> else built);
            built = (if TrimSpace (gt_BuildStatus built) = [] \<or> gt_BuildStatus built = BuildStatusBuilding
                     then built\<lparr>gt_BuildStatus := BuildStatusReady\<rparr> else built)
        in case tw_call (te_now env) s of (now, s) \<Rightarrow>
             snd (upsert env (built\<lparr>gt_UpdatedAt := now\<rparr>) [] (appendBuildLogs [bj_startLogs job, logs]) s))"

definition finish_build :: "'w template_env \<Rightarrow> build_job \<Rightarrow> gateway_template \<Rightarrow> build_log_entry list \<Rightarrow>
    go_error option \<Rightarrow> 'w tapp \<Rightarrow> 'w tapp" where
  "finish_build env job built logs err s =
     (let err = (if err = None \<and> tk_ctx_done (bm_tasks (tp_builds s) ! bj_task job)
                 then Some context_Canceled else err);
          s = (case err of Some e \<Rightarrow> record_failure env job logs e s
                         | None \<Rightarrow> record_success env job built logs s)
      in s\<lparr>tp_builds := complete (bj_task job) (tp_builds s)\<rparr>)"

definition defaultCancelTeamBuilds :: "string \<Rightarrow> ('w, nat) top" where
  "defaultCancelTeamBuilds teamID s =
     (case cancelTeamBuilds teamID (tp_builds s) of (n, b) \<Rightarrow> (Inr n, s\<lparr>tp_builds := b\<rparr>))"

section \<open>Reading builds and logs\<close>

definition templateBuildStatus :: "gateway_template \<Rightarrow> string" where
  "templateBuildStatus template = (if gt_BuildStatus template = [] then BuildStatusReady else gt_BuildStatus template)"

definition templateBuildMatches :: "uuid_lib \<Rightarrow> gateway_template \<Rightarrow> string \<Rightarrow> bool" where
  "templateBuildMatches lib template buildID =
     (let buildID = TrimSpace buildID
      in if buildID = [] then False
         else buildID = gt_BuildID template \<or>
              buildID = stableTemplateBuildUUID lib (gt_TemplateID template) (gt_BuildID template))"

definition buildIDOrStable :: "uuid_lib \<Rightarrow> gateway_template \<Rightarrow> string \<Rightarrow> string" where
  "buildIDOrStable lib template requestedBuildID =
     (if TrimSpace requestedBuildID \<noteq> [] then requestedBuildID
      else if gt_BuildID template \<noteq> [] then gt_BuildID template
      else stableTemplateBuildUUID lib (gt_TemplateID template) (gt_BuildID template))"

record build_info_request =
  bq_LogsOffset :: "32 word option"
  bq_Limit :: "32 word option"
  bq_Level :: "string option"

record build_info =
  bf_BuildID :: string
  bf_LogEntries :: "build_log_entry list"
  bf_Logs :: "string list"
  bf_Status :: string
  bf_TemplateID :: string

definition no_such_build :: "string \<Rightarrow> go_error" where
  "no_such_build buildID = GatewayError 404 (''template build '' @ buildID @ '' not found'')"

definition info_logs :: "build_info_request \<Rightarrow> build_log_entry list \<Rightarrow> build_log_entry list" where
  "info_logs req logs = limitBuildLogs (bq_Limit req) (offsetBuildLogs (bq_LogsOffset req) (filterBuildLogs (bq_Level req) logs))"

definition defaultGetTemplateBuildInfo :: "'w template_env \<Rightarrow> string \<Rightarrow> string \<Rightarrow> build_info_request \<Rightarrow> ('w, build_info) top" where
  "defaultGetTemplateBuildInfo env templateID buildID req s =
     (case findTemplate env templateID s of
        (Inl err, s) \<Rightarrow> (Inl err, s)
      | (Inr template, s) \<Rightarrow>
          (case TemplateBuild (te_lib env) template buildID (tp_management s) of
             Some build \<Rightarrow>
               (let logs = info_logs req (mb_Logs build)
                in (Inr \<lparr>bf_BuildID = buildIDOrStable (te_lib env) (mb_Template build) buildID, bf_LogEntries = logs,
                      bf_Logs = buildLogMessages logs, bf_Status = templateBuildStatus (mb_Template build),
                      bf_TemplateID = gt_TemplateID template\<rparr>, s))
           | None \<Rightarrow>
               (if \<not> templateBuildMatches (te_lib env) template buildID then (Inl (no_such_build buildID), s)
                else let logs = info_logs req (TemplateBuildLogs (gt_TemplateID template) (tp_management s))
                     in (Inr \<lparr>bf_BuildID = buildIDOrStable (te_lib env) template buildID, bf_LogEntries = logs,
                           bf_Logs = buildLogMessages logs, bf_Status = templateBuildStatus template,
                           bf_TemplateID = gt_TemplateID template\<rparr>, s))))"

record build_logs_request =
  lq_Cursor :: "64 word option"
  lq_Limit :: "32 word option"
  lq_Direction :: "string option"
  lq_Level :: "string option"

definition page_logs :: "build_logs_request \<Rightarrow> build_log_entry list \<Rightarrow> build_log_entry list" where
  "page_logs req logs =
     (let logs = limitBuildLogs (lq_Limit req) (cursorBuildLogs (lq_Cursor req) (filterBuildLogs (lq_Level req) logs))
      in if lq_Direction req = Some LogsDirectionBackward then reverseBuildLogs logs else logs)"

definition defaultGetTemplateBuildLogs :: "'w template_env \<Rightarrow> string \<Rightarrow> string \<Rightarrow> build_logs_request \<Rightarrow>
    ('w, build_log_entry list) top" where
  "defaultGetTemplateBuildLogs env templateID buildID req s =
     (case findTemplate env templateID s of
        (Inl err, s) \<Rightarrow> (Inl err, s)
      | (Inr template, s) \<Rightarrow>
          (case TemplateBuild (te_lib env) template buildID (tp_management s) of
             Some build \<Rightarrow> (Inr (page_logs req (mb_Logs build)), s)
           | None \<Rightarrow>
               (if \<not> templateBuildMatches (te_lib env) template buildID then (Inl (no_such_build buildID), s)
                else (Inr (page_logs req (TemplateBuildLogs (gt_TemplateID template) (tp_management s))), s))))"

section \<open>Uploads and tags\<close>

definition defaultGetTemplateFileUpload :: "'w template_env \<Rightarrow> (string \<Rightarrow> string \<Rightarrow> string \<Rightarrow> go_error + string) \<Rightarrow>
    string \<Rightarrow> string \<Rightarrow> ('w, bool \<times> string) top" where
  "defaultGetTemplateFileUpload env uploadURL templateID hash s =
     (if TrimSpace hash = [] then (Inl (GatewayError 400 ''hash is required''), s)
      else case findTemplate env templateID s of
        (Inl err, s) \<Rightarrow> (Inl err, s)
      | (Inr template, s) \<Rightarrow>
          (case tw_call (te_rand24 env) s of (bytes, s) \<Rightarrow>
          (case tw_call (te_now env) s of (now, s) \<Rightarrow>
          (case CreateTemplateFileUpload bytes now (gt_TemplateID template) hash (tp_management s) of
             (Inl err, m) \<Rightarrow> (Inl err, s\<lparr>tp_management := m\<rparr>)
           | (Inr token, m) \<Rightarrow>
               (let s = s\<lparr>tp_management := m\<rparr>
                in case uploadURL (gt_TemplateID template) hash token of
                     Inl err \<Rightarrow> (Inl err, s)
                   | Inr url \<Rightarrow> (Inr (TemplateFilePresent (gt_TemplateID template) hash (tp_management s), url), s))))))"

definition defaultAssignTemplateTags :: "'w template_env \<Rightarrow> string \<Rightarrow> string list \<Rightarrow> ('w, assigned_tags) top" where
  "defaultAssignTemplateTags env target reqTags s =
     (if TrimSpace target = [] then (Inl (GatewayError 400 ''target is required''), s)
      else let tags = normalizedTags reqTags
           in if tags = [] then (Inl (GatewayError 400 ''tags are required''), s)
              else case findTemplateByTaggedName env target s of
                (Inl err, s) \<Rightarrow> (Inl err, s)
              | (Inr template, s) \<Rightarrow>
                  (case tw_call (te_now env) s of (now, s) \<Rightarrow>
                     (case AssignTemplateTags (te_lib env) now template tags (tp_management s) of
                        (res, m) \<Rightarrow> (res, s\<lparr>tp_management := m\<rparr>))))"

definition defaultDeleteTemplateTags :: "'w template_env \<Rightarrow> string \<Rightarrow> string list \<Rightarrow> ('w, unit) top" where
  "defaultDeleteTemplateTags env name reqTags s =
     (if TrimSpace name = [] then (Inl (GatewayError 400 ''name is required''), s)
      else let tags = normalizedTags reqTags
           in if tags = [] then (Inl (GatewayError 400 ''tags are required''), s)
              else case findTemplateByTaggedName env name s of
                (Inl err, s) \<Rightarrow> (Inl err, s)
              | (Inr template, s) \<Rightarrow>
                  (case upsert env template [] [] s of
                     (Inl err, s) \<Rightarrow> (Inl err, s)
                   | (Inr _, s) \<Rightarrow>
                       (case DeleteTemplateTags (gt_TemplateID template) tags (tp_management s) of
                          ((deleted, Some err), m) \<Rightarrow> (Inl err, s\<lparr>tp_management := m\<rparr>)
                        | ((deleted, None), m) \<Rightarrow>
                            (if \<not> deleted then (Inl (template_not_found name), s\<lparr>tp_management := m\<rparr>)
                             else (Inr (), s\<lparr>tp_management := m\<rparr>)))))"

definition defaultListTemplateTags :: "'w template_env \<Rightarrow> string \<Rightarrow> ('w, template_tag list) top" where
  "defaultListTemplateTags env templateID s =
     (case findTemplate env templateID s of
        (Inl err, s) \<Rightarrow> (Inl err, s)
      | (Inr template, s) \<Rightarrow>
          (let tags = ListTemplateTags (gt_TemplateID template) (tp_management s)
           in if tags \<noteq> [] then (Inr tags, s)
              else let tag = dockerImageTag (gt_ImageRef template)
                   in if tag = [] then (Inr [], s)
                      else (Inr [\<lparr>tg_BuildID = stableTemplateBuildUUID (te_lib env) (gt_TemplateID template)
                                    (gt_BuildID template),
                                  tg_CreatedAt = gt_CreatedAt template, tg_Tag = tag\<rparr>], s)))"

end
