(* ===== verification/TemplateProofs.thy ===== *)
theory TemplateProofs
  imports Templates
begin

text \<open>
  What the template callbacks promise: the invariants of the store and of the build manager, the
  contents of a listing, deletion, and how a background build ends.
\<close>

section \<open>Frames\<close>

definition templates_inv :: "'w tapp \<Rightarrow> bool" where
  "templates_inv s \<longleftrightarrow> management_inv (tp_management s) \<and> bm_inv (tp_builds s)"

text \<open>Only the outside world has changed.\<close>

definition world_only :: "'w tapp \<Rightarrow> 'w tapp \<Rightarrow> bool" where
  "world_only s s' \<longleftrightarrow> tp_management s' = tp_management s \<and> tp_builds s' = tp_builds s"

lemma world_only_refl [simp]: "world_only s s"
  by (simp add: world_only_def)

lemma world_only_trans: "world_only s s' \<Longrightarrow> world_only s' s'' \<Longrightarrow> world_only s s''"
  by (simp add: world_only_def)

lemma world_only_inv: "world_only s s' \<Longrightarrow> templates_inv s \<Longrightarrow> templates_inv s'"
  by (simp add: world_only_def templates_inv_def)

lemma tw_call_world: "tw_call f s = (x, s') \<Longrightarrow> world_only s s'"
  by (auto simp: tw_call_def world_only_def split: prod.splits)

lemma logs_now_world: "logs_now env msg s = (l, s') \<Longrightarrow> world_only s s'"
  by (auto simp: logs_now_def split: prod.splits dest: tw_call_world)

lemma List_world: "defaultListTemplates env s = (res, s') \<Longrightarrow> world_only s s'"
  by (auto simp: defaultListTemplates_def Let_def split: prod.splits sum.splits
      dest!: tw_call_world intro: world_only_trans)

lemma find_world: "findTemplate env i s = (res, s') \<Longrightarrow> world_only s s'"
  by (auto simp: findTemplate_def Let_def split: prod.splits sum.splits option.splits if_splits dest: List_world)

lemma find_tagged_world: "findTemplateByTaggedName env i s = (res, s') \<Longrightarrow> world_only s s'"
  by (auto simp: findTemplateByTaggedName_def Let_def split: prod.splits sum.splits if_splits
      dest!: find_world tw_call_world intro: world_only_trans)

lemma newManaged_world: "newManagedTemplate env n a rt c m s = (x, s') \<Longrightarrow> world_only s s'"
  by (auto simp: newManagedTemplate_def Let_def split: prod.splits if_splits
      dest!: tw_call_world intro: world_only_trans)

lemma run_builder_world: "run_builder env t l req s = (x, s') \<Longrightarrow> world_only s s'"
  by (auto simp: run_builder_def split: prod.splits sum.splits option.splits dest!: tw_call_world)

lemma upsert_inv:
  assumes "upsert env t tags logs s = (res, s')"
  shows "tp_builds s' = tp_builds s \<and> (templates_inv s \<longrightarrow> templates_inv s') \<and>
    (TrimSpace (gt_TemplateID t) \<noteq> [] \<longrightarrow> (\<exists>t'. res = Inr t' \<and>
       GetManagedTemplate (TrimSpace (gt_TemplateID t)) (tp_management s') = Some t' \<and>
       gt_BuildStatus t' = gt_BuildStatus t \<and> gt_BuildID t' = gt_BuildID t \<and>
       \<not> is_deleted (tp_management s') (TrimSpace (gt_TemplateID t))))"
proof -
  obtain now s1 where now: "(if TrimSpace (gt_TemplateID t) = [] then (0, s) else tw_call (te_now env) s) = (now, s1)"
    by (cases "if TrimSpace (gt_TemplateID t) = [] then (0, s) else tw_call (te_now env) s")
  then have w: "world_only s s1" by (auto split: if_splits dest: tw_call_world)
  obtain r m where u: "UpsertTemplate (te_lib env) now t tags logs (tp_management s1) = (r, m)"
    by (cases "UpsertTemplate (te_lib env) now t tags logs (tp_management s1)")
  from assms now u have eq: "res = r" "s' = s1\<lparr>tp_management := m\<rparr>" by (auto simp: upsert_def)
  from management_inv_Upsert [OF _ u] Upsert_Get [OF u refl] w eq show ?thesis
    by (auto simp: templates_inv_def world_only_def)
qed

lemma upsert_never_fails: "upsert env t tags logs s = (res, s') \<Longrightarrow> \<exists>t'. res = Inr t'"
proof (cases "TrimSpace (gt_TemplateID t) = []")
  case True
  assume "upsert env t tags logs s = (res, s')"
  with True show ?thesis by (auto simp: upsert_def UpsertTemplate_def Let_def)
next
  case False
  assume "upsert env t tags logs s = (res, s')"
  from upsert_inv [OF this] False show ?thesis by blast
qed

section \<open>Every callback keeps the invariant\<close>

lemma delete_inv: "defaultDeleteTemplate env i s = (res, s') \<Longrightarrow> templates_inv s \<Longrightarrow> templates_inv s'"
proof -
  assume run: "defaultDeleteTemplate env i s = (res, s')" and inv: "templates_inv s"
  obtain f s1 where f: "findTemplate env i s = (f, s1)" by (cases "findTemplate env i s")
  note inv1 = world_only_inv [OF find_world [OF f] inv]
  show "templates_inv s'"
  proof (cases f)
    case (Inl e)
    with run f inv1 show ?thesis by (auto simp: defaultDeleteTemplate_def)
  next
    case (Inr t)
    obtain e m where d: "DeleteTemplate (gt_TemplateID t) (tp_management s1) = (e, m)"
      by (cases "DeleteTemplate (gt_TemplateID t) (tp_management s1)")
    from inv1 management_inv_Delete [of "tp_management s1" "gt_TemplateID t"] d have "management_inv m"
      by (simp add: templates_inv_def)
    with run f Inr d inv1 show ?thesis
      by (auto simp: defaultDeleteTemplate_def templates_inv_def split: option.splits)
  qed
qed

text \<open>The calls the callbacks are made of, as one bundle of facts.\<close>

lemma world_only_keeps: "world_only s s' \<Longrightarrow> templates_inv s \<longrightarrow> templates_inv s'"
  by (blast intro: world_only_inv)

lemma upsert_keeps: "upsert env t tags logs s = (res, s') \<Longrightarrow> templates_inv s \<longrightarrow> templates_inv s'"
  by (drule upsert_inv) simp

lemmas keeps =
  tw_call_world [THEN world_only_keeps] logs_now_world [THEN world_only_keeps]
  find_world [THEN world_only_keeps] find_tagged_world [THEN world_only_keeps]
  newManaged_world [THEN world_only_keeps] run_builder_world [THEN world_only_keeps] upsert_keeps

lemmas callback_splits = prod.splits sum.splits if_splits

lemma create_inv: "defaultCreateTemplate env req s = (res, s') \<Longrightarrow> templates_inv s \<Longrightarrow> templates_inv s'"
  by (auto simp: defaultCreateTemplate_def template_dash_uuid_def split: callback_splits dest!: keeps)

lemma createV2_inv: "defaultCreateTemplateV2 env a c m s = (res, s') \<Longrightarrow> templates_inv s \<Longrightarrow> templates_inv s'"
  by (auto simp: defaultCreateTemplateV2_def split: callback_splits dest!: keeps)

lemma createV3_inv: "defaultCreateTemplateV3 env n a ts c m s = (res, s') \<Longrightarrow> templates_inv s \<Longrightarrow> templates_inv s'"
  by (auto simp: defaultCreateTemplateV3_def template_dash_uuid_def Let_def split: callback_splits dest!: keeps)

lemma update_inv: "defaultUpdateTemplateRecord env i p s = (res, s') \<Longrightarrow> templates_inv s \<Longrightarrow> templates_inv s'"
  by (auto simp: defaultUpdateTemplateRecord_def Let_def split: callback_splits dest!: keeps)

lemma rebuild_inv: "defaultRebuildTemplate env i req s = (res, s') \<Longrightarrow> templates_inv s \<Longrightarrow> templates_inv s'"
  by (auto simp: defaultRebuildTemplate_def Let_def split: callback_splits dest!: keeps)

lemma start_inv: "defaultStartTemplateBuild env i b s = (res, s') \<Longrightarrow> templates_inv s \<Longrightarrow> templates_inv s'"
  by (auto simp: defaultStartTemplateBuild_def defaultMarkTemplateBuildReady_def Let_def
      split: callback_splits dest!: keeps)

lemma templates_inv_builds: "templates_inv s \<Longrightarrow> bm_inv b \<Longrightarrow> templates_inv (s\<lparr>tp_builds := b\<rparr>)"
  by (simp add: templates_inv_def)

lemma templates_inv_management: "templates_inv s \<Longrightarrow> management_inv m \<Longrightarrow> templates_inv (s\<lparr>tp_management := m\<rparr>)"
  by (simp add: templates_inv_def)

lemma reserve_inv: "reserve i b m = (res, m') \<Longrightarrow> bm_inv m \<Longrightarrow> bm_inv m'"
  using bm_inv_reserve [of m i b] by simp

text \<open>Starting a background build: on success the task is reserved and current.\<close>

lemma startV2_spec:
  assumes run: "defaultStartTemplateBuildV2 env i b req s = (res, s')" and inv: "templates_inv s"
  shows "templates_inv s' \<and>
    (\<forall>job. res = Inr (Some job) \<longrightarrow> isCurrent (bj_task job) (tp_builds s') \<and>
       bj_task job < length (bm_tasks (tp_builds s')) \<and> \<not> bm_stopping (tp_builds s') \<and>
       bj_buildID job = TrimSpace b \<and> bj_buildID job \<noteq> [] \<and>
       (TrimSpace (gt_TemplateID (bj_template job)) \<noteq> [] \<longrightarrow>
          (\<exists>g. GetManagedTemplate (TrimSpace (gt_TemplateID (bj_template job))) (tp_management s') = Some g \<and>
             gt_BuildStatus g = BuildStatusBuilding \<and> gt_BuildID g = bj_buildID job)))"
proof -
  obtain f s1 where f: "findTemplate env i s = (f, s1)" by (cases "findTemplate env i s")
  note inv1 = world_only_inv [OF find_world [OF f] inv]
  show ?thesis
  proof (cases "\<exists>t. f = Inr t \<and> TrimSpace b \<noteq> []")
    case False
    with run f inv1 show ?thesis by (auto simp: defaultStartTemplateBuildV2_def Let_def split: sum.splits)
  next
    case True
    then obtain t where t: "f = Inr t" "TrimSpace b \<noteq> []" by blast
    obtain now s2 where now: "tw_call (te_now env) s1 = (now, s2)" by (cases "tw_call (te_now env) s1")
    obtain logs s3 where logs: "logs_now env ''v2 template build started by e2b-local'' s2 = (logs, s3)"
      by (cases "logs_now env ''v2 template build started by e2b-local'' s2")
    from now logs inv1 have inv3: "templates_inv s3" by (auto dest!: keeps)
    let ?t = "t\<lparr>gt_BuildID := TrimSpace b, gt_BuildStatus := BuildStatusReady, gt_UpdatedAt := now\<rparr>"
    show ?thesis
    proof (cases "te_BuildStarter env")
      case False
      with run f t now logs inv3 show ?thesis
        by (auto simp: defaultStartTemplateBuildV2_def Let_def split: callback_splits dest!: keeps)
    next
      case starter: True
      show ?thesis
      proof (cases "templateBuildFiles req (gt_TemplateID t) (tp_management s3)")
        case (Inl e)
        with run f t now logs starter inv3 show ?thesis by (auto simp: defaultStartTemplateBuildV2_def Let_def)
      next
        case (Inr files)
        obtain r m where r: "reserve (gt_TemplateID t) (TrimSpace b) (tp_builds s3) = (r, m)"
          by (cases "reserve (gt_TemplateID t) (TrimSpace b) (tp_builds s3)")
        from inv3 have bi: "bm_inv (tp_builds s3)" by (simp add: templates_inv_def)
        note rs = reserve_spec [OF r bi] reserve_inv [OF r bi]
        show ?thesis
        proof (cases r)
          case (Inl e)
          with run f t now logs starter Inr r rs inv3 show ?thesis
            by (auto simp: defaultStartTemplateBuildV2_def Let_def templates_inv_builds)
        next
          case task: (Inr task)
          let ?t2 = "?t\<lparr>gt_BuildStatus := BuildStatusBuilding\<rparr>"
          obtain u s4 where u: "upsert env ?t2 [] logs (s3\<lparr>tp_builds := m\<rparr>) = (u, s4)"
            by (cases "upsert env ?t2 [] logs (s3\<lparr>tp_builds := m\<rparr>)")
          obtain t3 where t3: "u = Inr t3" using upsert_never_fails [OF u] by blast
          from upsert_inv [OF u] rs templates_inv_builds [OF inv3] have s4: "templates_inv s4" "tp_builds s4 = m" by auto
          with run f t now logs starter Inr r task u t3 have eq: "res = Inr (Some \<lparr>bj_task = task, bj_template = ?t2,
              bj_buildID = TrimSpace b, bj_files = files, bj_startLogs = logs\<rparr>)" "s' = s4"
            by (auto simp: defaultStartTemplateBuildV2_def Let_def)
          from rs task have cur: "isCurrent task m" "\<not> bm_stopping (tp_builds s3)" by auto
          have "m = snd (reserve (gt_TemplateID t) (TrimSpace b) (tp_builds s3))" "task = length (bm_tasks (tp_builds s3))"
            using r task by (auto simp: reserve_def Let_def split: if_splits)
          then have "task < length (bm_tasks m)" "bm_stopping m = bm_stopping (tp_builds s3)"
            using r task by (auto simp: reserve_def Let_def split: if_splits)
          with eq s4 cur t upsert_inv [OF u] show ?thesis by auto
        qed
      qed
    qed
  qed
qed

text \<open>A start that fails has changed neither the store nor the build manager.\<close>

lemma startV2_error:
  assumes run: "defaultStartTemplateBuildV2 env i b req s = (Inl e, s')" and inv: "templates_inv s"
  shows "tp_management s' = tp_management s \<and> tp_builds s' = tp_builds s"
proof -
  obtain f s1 where f: "findTemplate env i s = (f, s1)" by (cases "findTemplate env i s")
  note w1 = find_world [OF f]
  show ?thesis
  proof (cases "\<exists>t. f = Inr t \<and> TrimSpace b \<noteq> []")
    case False
    with run f w1 show ?thesis by (auto simp: defaultStartTemplateBuildV2_def Let_def world_only_def split: sum.splits)
  next
    case True
    then obtain t where t: "f = Inr t" "TrimSpace b \<noteq> []" by blast
    obtain now s2 where now: "tw_call (te_now env) s1 = (now, s2)" by (cases "tw_call (te_now env) s1")
    obtain logs s3 where logs: "logs_now env ''v2 template build started by e2b-local'' s2 = (logs, s3)"
      by (cases "logs_now env ''v2 template build started by e2b-local'' s2")
    from w1 tw_call_world [OF now] logs_now_world [OF logs] have w3: "world_only s s3"
      by (blast intro: world_only_trans)
    then have bi: "bm_inv (tp_builds s3)" using inv by (simp add: world_only_def templates_inv_def)
    let ?t = "t\<lparr>gt_BuildID := TrimSpace b, gt_BuildStatus := BuildStatusReady, gt_UpdatedAt := now\<rparr>"
    obtain r m where r: "reserve (gt_TemplateID t) (TrimSpace b) (tp_builds s3) = (r, m)"
      by (cases "reserve (gt_TemplateID t) (TrimSpace b) (tp_builds s3)")
    from run f t now logs r w3 reserve_spec [OF r bi] show ?thesis
      by (auto simp: defaultStartTemplateBuildV2_def Let_def world_only_def split: if_splits sum.splits prod.splits
          dest: upsert_never_fails)
  qed
qed
section \<open>How a background build ends\<close>

text \<open>
  The record left by a build that is still current when it ends: its status is final, under the id
  of the template (or the one the starter gave).
\<close>

lemma record_failure_spec:
  assumes "templates_inv s" and cur: "isCurrent (bj_task job) (tp_builds s)"
    and k: "TrimSpace (gt_TemplateID (bj_template job)) = k" "k \<noteq> []"
  shows "templates_inv (record_failure env job logs e s) \<and> tp_builds (record_failure env job logs e s) = tp_builds s \<and>
    (\<exists>t. GetManagedTemplate k (tp_management (record_failure env job logs e s)) = Some t \<and>
       gt_BuildStatus t = BuildStatusError \<and> gt_BuildID t = bj_buildID job)"
proof -
  obtain now s1 where now: "tw_call (te_now env) s = (now, s1)" by (cases "tw_call (te_now env) s")
  define failed where "failed = (bj_template job)\<lparr>gt_BuildID := bj_buildID job, gt_BuildStatus := BuildStatusError,
      gt_UpdatedAt := now\<rparr>"
  define message where "message = (if errors_Is e context_Canceled then ''v2 template build cancelled by e2b-local''
      else error_text e)"
  obtain l s2 where l: "(if logs = [] then (case tw_call (te_now env) s1 of (t, s) \<Rightarrow> (localBuildErrorLogs t message, s))
      else (logs, s1)) = (l, s2)"
    by (cases "if logs = [] then (case tw_call (te_now env) s1 of (t, s) \<Rightarrow> (localBuildErrorLogs t message, s))
      else (logs, s1)")
  have w: "world_only s s2"
    using tw_call_world [OF now] l by (auto split: if_splits prod.splits dest!: tw_call_world intro: world_only_trans)
  obtain r s3 where u: "upsert env failed [] (appendBuildLogs [bj_startLogs job, l]) s2 = (r, s3)"
    by (cases "upsert env failed [] (appendBuildLogs [bj_startLogs job, l]) s2")
  from w cur have "isCurrent (bj_task job) (tp_builds s2)" by (simp add: world_only_def)
  with u have eq: "record_failure env job logs e s = s3"
    unfolding record_failure_def Let_def now prod.case failed_def [symmetric] message_def [symmetric] l by simp
  from upsert_inv [OF u] world_only_inv [OF w assms(1)] w k show ?thesis
    unfolding eq by (auto simp: failed_def world_only_def)
qed

lemma record_success_spec:
  assumes "templates_inv s" and cur: "isCurrent (bj_task job) (tp_builds s)"
    and k: "TrimSpace (gt_TemplateID (if TrimSpace (gt_TemplateID built) = [] then bj_template job else built)) = k" "k \<noteq> []"
  shows "templates_inv (record_success env job built logs s) \<and> tp_builds (record_success env job built logs s) = tp_builds s \<and>
    (\<exists>t. GetManagedTemplate k (tp_management (record_success env job built logs s)) = Some t \<and>
       gt_BuildStatus t \<noteq> BuildStatusBuilding \<and> gt_BuildStatus t \<noteq> [])"
proof -
  define b where "b = (let built = (if TrimSpace (gt_TemplateID built) = []
                     then built\<lparr>gt_TemplateID := gt_TemplateID (bj_template job)\<rparr> else built);
            built = (if TrimSpace (gt_BuildID built) = [] then built\<lparr>gt_BuildID := bj_buildID job\<rparr> else built)
       in (if TrimSpace (gt_BuildStatus built) = [] \<or> gt_BuildStatus built = BuildStatusBuilding
                     then built\<lparr>gt_BuildStatus := BuildStatusReady\<rparr> else built))"
  obtain now s1 where now: "tw_call (te_now env) s = (now, s1)" by (cases "tw_call (te_now env) s")
  obtain r s2 where u: "upsert env (b\<lparr>gt_UpdatedAt := now\<rparr>) [] (appendBuildLogs [bj_startLogs job, logs]) s1 = (r, s2)"
    by (cases "upsert env (b\<lparr>gt_UpdatedAt := now\<rparr>) [] (appendBuildLogs [bj_startLogs job, logs]) s1")
  from cur now u have eq: "record_success env job built logs s = s2"
    by (simp add: record_success_def Let_def b_def)
  have bk: "TrimSpace (gt_TemplateID b) = k" and st: "gt_BuildStatus b \<noteq> BuildStatusBuilding" "gt_BuildStatus b \<noteq> []"
    using k by (auto simp: b_def Let_def BuildStatusReady_def BuildStatusBuilding_def)
  from upsert_inv [OF u] world_only_inv [OF tw_call_world [OF now] assms(1)] tw_call_world [OF now] bk k(2) st
  show ?thesis unfolding eq by (auto simp: world_only_def)
qed

lemma finish_build_spec:
  assumes inv: "templates_inv s" and t: "bj_task job < length (bm_tasks (tp_builds s))"
    and run: "\<not> tk_returned (bm_tasks (tp_builds s) ! bj_task job)"
    and id: "TrimSpace (gt_TemplateID (bj_template job)) = k" "k \<noteq> []"
    and same: "TrimSpace (gt_TemplateID built) = [] \<or> TrimSpace (gt_TemplateID built) = k"
  shows "templates_inv (finish_build env job built logs err s) \<and>
    tk_returned (bm_tasks (tp_builds (finish_build env job built logs err s)) ! bj_task job) \<and>
    bm_wg (tp_builds (finish_build env job built logs err s)) < bm_wg (tp_builds s) \<and>
    (\<exists>g. GetManagedTemplate k (tp_management (finish_build env job built logs err s)) = Some g \<and>
       gt_BuildStatus g \<noteq> BuildStatusBuilding \<and>
       (err \<noteq> None \<or> tk_ctx_done (bm_tasks (tp_builds s) ! bj_task job) \<longrightarrow>
          gt_BuildStatus g = BuildStatusError \<and> gt_BuildID g = bj_buildID job))"
proof -
  define e where "e = (if err = None \<and> tk_ctx_done (bm_tasks (tp_builds s) ! bj_task job) then Some context_Canceled else err)"
  define s1 where "s1 = (case e of Some e \<Rightarrow> record_failure env job logs e s | None \<Rightarrow> record_success env job built logs s)"
  have eq: "finish_build env job built logs err s = s1\<lparr>tp_builds := complete (bj_task job) (tp_builds s1)\<rparr>"
    by (simp add: finish_build_def Let_def e_def s1_def)
  from inv have bi: "bm_inv (tp_builds s)" by (simp add: templates_inv_def)
  have cur: "isCurrent (bj_task job) (tp_builds s)" using isCurrent_iff [OF bi t] run by simp
  have s1: "templates_inv s1 \<and> tp_builds s1 = tp_builds s \<and>
      (\<exists>g. GetManagedTemplate k (tp_management s1) = Some g \<and> gt_BuildStatus g \<noteq> BuildStatusBuilding \<and>
         (e \<noteq> None \<longrightarrow> gt_BuildStatus g = BuildStatusError \<and> gt_BuildID g = bj_buildID job))"
  proof (cases e)
    case None
    have "TrimSpace (gt_TemplateID (if TrimSpace (gt_TemplateID built) = [] then bj_template job else built)) = k"
      using id same by auto
    from record_success_spec [OF inv cur this id(2), of env logs] None show ?thesis by (auto simp: s1_def)
  next
    case (Some x)
    from record_failure_spec [OF inv cur id, of env logs x] Some show ?thesis
      by (auto simp: s1_def BuildStatusBuilding_def BuildStatusError_def)
  qed
  have c: "bm_inv (complete (bj_task job) (tp_builds s))" by (rule bm_inv_complete [OF bi t run])
  have ret: "tk_returned (bm_tasks (complete (bj_task job) (tp_builds s)) ! bj_task job)"
    using t by (simp add: complete_eq [OF bi t run])
  have "0 < running_tasks (tp_builds s)"
    using t run by (auto simp: running_tasks_def length_greater_0_conv [symmetric] filter_empty_conv simp del: length_greater_0_conv)
  then have "bm_wg (complete (bj_task job) (tp_builds s)) < bm_wg (tp_builds s)"
    using bm_invD(6) [OF bi] by (simp add: complete_eq [OF bi t run])
  with s1 c ret show ?thesis unfolding eq by (auto simp: templates_inv_def e_def split: if_splits)
qed

section \<open>Listings\<close>

text \<open>A listing holds no deleted template, and every managed one as the store has it.\<close>

lemma last_index_of_None: "last_index_of i ts = None \<longleftrightarrow> i \<notin> gt_TemplateID ` set ts"
  by (induction ts) (auto split: option.splits)

lemma last_index_of_Some: "last_index_of i ts = Some n \<Longrightarrow> n < length ts \<and> gt_TemplateID (ts ! n) = i"
  by (induction ts arbitrary: n) (auto split: option.splits if_splits)

lemma merge_template_deleted:
  "(\<forall>x \<in> set result. \<not> is_deleted m (gt_TemplateID x)) \<Longrightarrow>
     (\<forall>x \<in> set (merge_template m t result). \<not> is_deleted m (gt_TemplateID x))"
  by (auto simp: merge_template_def split: option.splits dest!: set_update_subset_insert [THEN subsetD])

lemma merge_template_adds: "\<not> is_deleted m (gt_TemplateID t) \<Longrightarrow> t \<in> set (merge_template m t result)"
  by (auto simp: merge_template_def split: option.splits dest: last_index_of_Some intro: set_update_memI)

lemma merge_template_keeps:
  assumes "x \<in> set result" and "gt_TemplateID x \<noteq> gt_TemplateID t"
  shows "x \<in> set (merge_template m t result)"
proof (cases "last_index_of (gt_TemplateID t) result")
  case None
  with assms show ?thesis by (simp add: merge_template_def)
next
  case (Some n)
  from assms(1) obtain j where j: "j < length result" "result ! j = x" by (auto simp: in_set_conv_nth)
  with last_index_of_Some [OF Some] assms(2) have "j \<noteq> n" by auto
  with j have "result[n := t] ! j = x" "j < length (result[n := t])" by auto
  then have "x \<in> set (result[n := t])" by (metis nth_mem)
  with assms(1) Some show ?thesis by (simp add: merge_template_def)
qed

lemma merge_fold:
  assumes "\<forall>x \<in> set result. \<not> is_deleted m (gt_TemplateID x)" and "distinct (map gt_TemplateID ts)"
  shows "(\<forall>x \<in> set (fold (merge_template m) ts result). \<not> is_deleted m (gt_TemplateID x)) \<and>
    (\<forall>t \<in> set ts. \<not> is_deleted m (gt_TemplateID t) \<longrightarrow> t \<in> set (fold (merge_template m) ts result)) \<and>
    (\<forall>x \<in> set result. gt_TemplateID x \<notin> gt_TemplateID ` set ts \<longrightarrow> x \<in> set (fold (merge_template m) ts result))"
  using assms
proof (induction ts arbitrary: result)
  case Nil
  then show ?case by simp
next
  case (Cons t ts)
  from Cons.prems have d: "distinct (map gt_TemplateID ts)" "gt_TemplateID t \<notin> gt_TemplateID ` set ts" by auto
  note ih = Cons.IH [OF merge_template_deleted [OF Cons.prems(1)] d(1), of t]
  from ih d(2) merge_template_adds [of m t result] merge_template_keeps [of _ result t m]
  show ?case by auto
qed

lemma managed_ids_distinct:
  assumes "management_inv m"
  shows "distinct (map gt_TemplateID (ListManagedTemplates m))"
proof -
  have "map gt_TemplateID (map (\<lambda>(k, item). mt_Template item) (ms_templates m)) = map fst (ms_templates m)"
    using assms by (auto simp: management_inv_def template_ok_def)
  then have "mset (map gt_TemplateID (ListManagedTemplates m)) = mset (map fst (ms_templates m))"
    by (metis ListManagedTemplates_def mset_map mset_sort)
  moreover have "distinct (map fst (ms_templates m))" using assms by (simp add: management_inv_def)
  ultimately show ?thesis by (metis mset_eq_imp_distinct_iff)
qed

lemma ListTemplates_spec:
  assumes run: "defaultListTemplates env s = (Inr ts, s')" and inv: "templates_inv s"
  shows "world_only s s' \<and> (\<forall>t \<in> set ts. \<not> is_deleted (tp_management s) (gt_TemplateID t)) \<and>
    (\<forall>k t. GetManagedTemplate k (tp_management s) = Some t \<longrightarrow> t \<in> set ts)"
proof -
  let ?m = "tp_management s"
  from inv have mi: "management_inv ?m" by (simp add: templates_inv_def)
  from run List_world [OF run] obtain gs where ts: "ts = fold (merge_template ?m) (ListManagedTemplates ?m)
      (filter (\<lambda>t. \<not> is_deleted ?m (gt_TemplateID t)) gs)"
    by (auto simp: defaultListTemplates_def Let_def tw_call_def split: prod.splits sum.splits)
  have "t \<in> set (ListManagedTemplates ?m) \<and> \<not> is_deleted ?m (gt_TemplateID t)"
    if "GetManagedTemplate k ?m = Some t" for k t
  proof -
    from that obtain item where item: "map_of (ms_templates ?m) k = Some item" "t = mt_Template item"
      by (auto simp: GetManagedTemplate_def split: option.splits)
    with management_invD [OF mi item(1)] have "gt_TemplateID t = k" "map_of (ms_deletedTemplates ?m) k = None"
      by (auto simp: template_ok_def)
    moreover have "t \<in> set (ListManagedTemplates ?m)"
      using item map_of_SomeD [OF item(1)] by (force simp: ListManagedTemplates_def)
    ultimately show ?thesis by (simp add: is_deleted_def DeletedTemplateIDs_def)
  qed
  moreover have "\<forall>x \<in> set (filter (\<lambda>t. \<not> is_deleted ?m (gt_TemplateID t)) gs). \<not> is_deleted ?m (gt_TemplateID x)" by simp
  note mf = merge_fold [OF this managed_ids_distinct [OF mi], folded ts]
  ultimately have "\<forall>k t. GetManagedTemplate k ?m = Some t \<longrightarrow> t \<in> set ts" using mf by blast
  with mf List_world [OF run] show ?thesis by blast
qed

end
