(* ===== verification/Demo.thy ===== *)
theory Demo
  imports Application LockProtocol TemplateProofs
begin

text \<open>
  A concrete world to apply the properties to: a runtime whose world is the wall clock in
  nanoseconds and whose calls all succeed, the same runtime when the engine refuses everything, a
  sandbox that runs until 100 s after the epoch, and the gateway's state with it.
\<close>

section \<open>Runtimes\<close>

definition demo_info :: runtime_info where
  "demo_info = blank_info\<lparr>ri_SandboxID := ''sbx1'', ri_ContainerID := ''c1''\<rparr>"

definition demo_rt :: "time runtime" where
  "demo_rt = \<lparr>rt_now = (\<lambda>w. (w, w)), rt_rand12 = (\<lambda>w. (Inr (replicate 12 CHR ''a''), w)), rt_present = True,
     rt_CreateSandbox = (\<lambda>req w. (Inr (demo_info\<lparr>ri_SandboxID := cr_SandboxID req\<rparr>), w)),
     rt_DeleteSandbox = (\<lambda>info w. (None, w)), rt_PauseSandbox = (\<lambda>info w. (None, w)),
     rt_ResumeSandbox = (\<lambda>info w. (Inr info, w)), rt_InspectSandbox = None, rt_RestoreSandboxes = None\<rparr>"

definition engine_down :: go_error where
  "engine_down = ErrorString ''engine down''"

definition down_rt :: "time runtime" where
  "down_rt = demo_rt\<lparr>rt_CreateSandbox := (\<lambda>req w. (Inl ErrRuntimeCapacity, w)),
     rt_DeleteSandbox := (\<lambda>info w. (Some engine_down, w)), rt_PauseSandbox := (\<lambda>info w. (Some engine_down, w))\<rparr>"

lemmas demo_rts = demo_rt_def down_rt_def engine_down_def

text \<open>An operation that returns no error.\<close>

definition succeeds :: "('e + 'a) \<times> 's \<Rightarrow> bool" where
  "succeeds p = (case fst p of Inl _ \<Rightarrow> False | Inr _ \<Rightarrow> True)"

lemma succeedsE:
  assumes "succeeds p"
  obtains x s where "p = (Inr x, s)"
  using assms by (cases p) (auto simp: succeeds_def split: sum.splits)

section \<open>A sandbox\<close>

definition demo_record :: sandbox_record where
  "demo_record = (blank_record ''sbx1'')\<lparr>sr_RuntimeInfo := demo_info, sr_CreatedAt := 85000000000,
     sr_EndAt := 100000000000, sr_State := Running, sr_OnTimeout := SandboxTimeoutActionKill\<rparr>"

definition pausing_record :: sandbox_record where
  "pausing_record = demo_record\<lparr>sr_OnTimeout := SandboxTimeoutActionPause\<rparr>"

definition paused_record :: sandbox_record where
  "paused_record = pausing_record\<lparr>sr_State := Paused\<rparr>"

lemma demo_record_simps [simp]:
  "sr_ID demo_record = ''sbx1''" "sr_State demo_record = Running" "sr_EndAt demo_record = 100000000000"
  "sr_OnTimeout demo_record = SandboxTimeoutActionKill" "sr_RuntimeInfo demo_record = demo_info"
  "sr_ID pausing_record = ''sbx1''" "sr_State pausing_record = Running" "sr_EndAt pausing_record = 100000000000"
  "sr_OnTimeout pausing_record = SandboxTimeoutActionPause" "sr_RuntimeInfo pausing_record = demo_info"
  "sr_ID paused_record = ''sbx1''" "sr_State paused_record = Paused" "sr_EndAt paused_record = 100000000000"
  "sr_OnTimeout paused_record = SandboxTimeoutActionPause" "sr_RuntimeInfo paused_record = demo_info"
  by (simp_all add: demo_record_def pausing_record_def paused_record_def blank_record_def)

section \<open>States of the gateway\<close>

text \<open>The state after the store was given the record at clock time \<open>now\<close>.\<close>

definition holding :: "sandbox_record \<Rightarrow> time \<Rightarrow> time app" where
  "holding r now = syncSandboxDeadline demo_rt r ((newApp now)\<lparr>a_store := [(sr_ID r, r)]\<rparr>)"

lemma holding_store [simp]: "a_store (holding r now) = [(sr_ID r, r)]"
  by (simp add: holding_def)

lemma holding_world [simp]: "a_world (holding r now) = now"
  by (simp add: holding_def syncSandboxDeadline_def schedule_deadline_def cancel_deadline_def newApp_def world_call_def
      demo_rt_def split: prod.split)

lemma newApp_inv: "app_inv (newApp w)"
  by (simp add: app_inv_def app_base_def newApp_def good_entry_def NewSandboxStore_def inv_intros
      store_inv_NewSandboxStore [unfolded NewSandboxStore_def])

lemma holding_inv: "record_ok (sr_ID r) r \<Longrightarrow> app_inv (holding r now)"
  using put_sync_trans [of "(newApp now)\<lparr>a_store := [(sr_ID r, r)]\<rparr>" "sr_ID r" r "newApp now" demo_rt] newApp_inv [of now]
  by (simp add: holding_def newApp_def NewSandboxStore_def app_trans_def)

lemma demo_inv [simp]: "app_inv (holding demo_record t)" "app_inv (holding pausing_record t)" "app_inv (holding paused_record t)"
  by (rule holding_inv; simp add: record_ok_def)+

lemma demo_base [simp]: "app_base (holding demo_record t)" "app_base (holding pausing_record t)" "app_base (holding paused_record t)"
  using demo_inv [of t] by blast+

lemma holding_stopped [simp]: "\<not> dm_stopped (a_deadlines (holding r now))"
  by (simp add: holding_def newApp_def newSandboxDeadlineManager_def)

section \<open>A creation\<close>

definition demo_request :: new_sandbox where
  "demo_request = \<lparr>ns_TemplateID = ''base'', ns_Timeout = Some 60, ns_AutoPause = None, ns_AutoResume = None,
     ns_Metadata = None, ns_EnvVars = None, ns_VolumeMounts = None, ns_AllowInternetAccess = None\<rparr>"

definition created :: "(go_error + sandbox_record) \<times> time app" where
  "created = defaultCreateSandbox demo_rt ''docker'' demo_request (newApp 5)"

lemma created_answer: "map_sum (\<lambda>_. ()) (\<lambda>r. (sr_ID r, sr_State r, sr_EndAt r)) (fst created)
    = Inr (''sbx616161616161616161616161'', Running, 60000000005)"
  by code_simp

lemma created_store: "map (\<lambda>(k, r). (k, sr_EndAt r)) (a_store (snd created)) = [(''sbx616161616161616161616161'', 60000000005)]"
  by code_simp

end
