(* ===== verification/SandboxProperties.thy ===== *)
theory SandboxProperties
  imports Demo
begin

text \<open>
  What the gateway guarantees about sandboxes: the properties of the store, the deadline manager,
  the locking protocol, the request handlers and the expiry callbacks, each applied to a concrete
  state after it.
\<close>

section \<open>The whole gateway\<close>

text \<open>In every state the gateway can reach from a start - by requests, creations, listings, team kills,
  expiry callbacks, timer events, shutdown, and any change of the outside world in between - a stored
  record is filed under its own non-empty id, a running sandbox with an end time has an armed deadline
  unless the gateway is shutting down, a paused one has none, and no deadline is left for a sandbox
  that is gone.\<close>

lemma gateway_deadlines_match_records:
  assumes "NewAppWithCallbacks rt w = Inr s0" and "rtranclp (app_step rt) s0 s"
  shows "case map_of (a_store s) k of
      None \<Rightarrow> deadline_of (a_deadlines s) k = None
    | Some r \<Rightarrow> sr_ID r = k \<and> k \<noteq> [] \<and> sr_OnTimeout r \<in> {SandboxTimeoutActionKill, SandboxTimeoutActionPause} \<and>
        (sr_State r = Running \<and> sr_EndAt r \<noteq> 0 \<and> \<not> dm_stopped (a_deadlines s) \<longrightarrow>
           deadline_of (a_deadlines s) k \<noteq> None) \<and>
        (sr_State r = Paused \<longrightarrow> deadline_of (a_deadlines s) k = None)"
proof -
  have inv: "app_inv s" using gateway.reachable_inv [of rt s0 s] assms by blast
  then have "good_entry s k" "app_base s" by (auto simp: app_inv_def)
  then show ?thesis by (auto simp: good_entry_def dest: app_base_record split: option.split) (auto simp: record_ok_def dest: app_base_record)
qed

lemma demo_start: "NewAppWithCallbacks demo_rt w = Inr (newApp w)"
  by (simp add: NewAppWithCallbacks_def restoreRuntimeSandboxes_def reconcileStoredSandboxes_def restoreSandboxDeadlines_def
      demo_rt_def newApp_def NewSandboxStore_def List_sandboxes_def)

lemma gateway_deadlines_match_records_witness:
  "\<exists>s. rtranclp (app_step demo_rt) (newApp 5) s \<and> map_of (a_store s) ''sbx616161616161616161616161'' \<noteq> None \<and>
     (case map_of (a_store s) ''sbx616161616161616161616161'' of None \<Rightarrow> True
      | Some r \<Rightarrow> sr_State r = Paused \<longrightarrow> deadline_of (a_deadlines s) ''sbx616161616161616161616161'' = None)"
proof (intro exI conjI)
  have "app_step demo_rt (newApp 5) (snd created)"
    by (rule app_step.create [of _ "''docker''" demo_request _ "fst created"]) (simp add: created_def)
  then show run: "rtranclp (app_step demo_rt) (newApp 5) (snd created)" by blast
  show "map_of (a_store (snd created)) ''sbx616161616161616161616161'' \<noteq> None"
    using created_store by (auto simp: map_of_eq_None_iff)
  show "case map_of (a_store (snd created)) ''sbx616161616161616161616161'' of None \<Rightarrow> True
      | Some r \<Rightarrow> sr_State r = Paused \<longrightarrow> deadline_of (a_deadlines (snd created)) ''sbx616161616161616161616161'' = None"
    using gateway_deadlines_match_records [OF demo_start run, of "''sbx616161616161616161616161''"]
    by (auto split: option.splits)
qed

text \<open>C18: a request for one sandbox never changes the record or the deadline of another, and never
  breaks the gateway's invariant, whatever the runtime answers.\<close>

theorem requests_are_isolated:
  assumes "handle rt k q s = (e, s')" and "app_inv s"
  shows "app_inv s' \<and> (\<forall>k'. k' \<noteq> k \<longrightarrow> map_of (a_store s') k' = map_of (a_store s) k' \<and>
    deadline_of (a_deadlines s') k' = deadline_of (a_deadlines s) k')"
  using handle_trans [OF assms(1)] assms(2) by (auto simp: app_trans_def isolated_def)

theorem requests_are_isolated_witness:
  "app_inv (snd (handle demo_rt ''other'' KillReq (holding demo_record 0)))"
  using requests_are_isolated [of demo_rt "''other''" KillReq "holding demo_record 0"] by (metis demo_inv(1) prod.collapse)


section \<open>Creating and killing\<close>

text \<open>C23: a successful creation stores a new running record under an id that was free, whose timeout
  action follows autoPause and whose end lies exactly the requested timeout after its creation; every
  failure - bad arguments, no random bytes, the engine's refusal, a store error - leaves store and
  deadlines as they were.\<close>

theorem create_outcome:
  assumes "defaultCreateSandbox rt ty req s = (res, s')" and "\<forall>w. 0 < fst (rt_now rt w)"
  shows "case res of
      Inl e \<Rightarrow> a_store s' = a_store s \<and> a_deadlines s' = a_deadlines s
    | Inr r \<Rightarrow> map_of (a_store s) (sr_ID r) = None \<and> map_of (a_store s') (sr_ID r) = Some r \<and> sr_State r = Running \<and>
        sr_OnTimeout r = SandboxTimeoutActionFromAutoPause (ns_AutoPause req) \<and>
        sr_EndAt r = sr_CreatedAt r + sint (requestTimeout (ns_Timeout req)) * 1000000000 \<and>
        (\<forall>k. k \<noteq> sr_ID r \<longrightarrow> map_of (a_store s') k = map_of (a_store s) k)"
  using Create_handler_spec [OF assms(1)] assms(2) by (auto simp: app_trans_def isolated_def split: sum.split)

theorem create_outcome_witness:
  "\<exists>r. fst (defaultCreateSandbox (demo_rt\<lparr>rt_now := (\<lambda>w. (7, w))\<rparr>) ''docker'' demo_request (newApp 0)) = Inr r \<and>
     sr_EndAt r = sr_CreatedAt r + sint (60 :: 32 word) * 1000000000"
proof -
  let ?rt = "demo_rt\<lparr>rt_now := (\<lambda>w. (7, w))\<rparr>"
  have "succeeds (defaultCreateSandbox ?rt ''docker'' demo_request (newApp 0))" by code_simp
  then obtain r s' where run: "defaultCreateSandbox ?rt ''docker'' demo_request (newApp 0) = (Inr r, s')" by (rule succeedsE) auto
  with create_outcome [OF run] run show ?thesis by (simp add: demo_request_def requestTimeout_def)
qed

text \<open>a kill that succeeds has removed the sandbox's record and its deadline; when the runtime refuses
  to delete, the answer is an error and the record stays, so the sandbox is not lost track of.\<close>

lemma kill_outcome:
  assumes "defaultKillSandbox rt k s = (res, s')" and "app_inv s"
  shows "(\<forall>x. res = Inr x \<longrightarrow> map_of (a_store s') k = None \<and> deadline_of (a_deadlines s') k = None) \<and>
    (rt_present rt \<and> rt_InspectSandbox rt = None \<and> (\<forall>i w. fst (rt_DeleteSandbox rt i w) \<noteq> None) \<longrightarrow>
       a_store s' = a_store s \<and> (\<exists>e. res = Inl e))"
  using Kill_spec [OF assms(1)] Kill_refused [OF assms(1)] assms(2) by auto

theorem kill_outcome_witness:
  "map_of (a_store (snd (defaultKillSandbox demo_rt ''sbx1'' (holding demo_record 50000000000)))) ''sbx1'' = None \<and>
   a_store (snd (defaultKillSandbox down_rt ''sbx1'' (holding demo_record 50000000000))) = [(''sbx1'', demo_record)]"
proof
  have "succeeds (defaultKillSandbox demo_rt ''sbx1'' (holding demo_record 50000000000))" by code_simp
  then obtain x s' where run: "defaultKillSandbox demo_rt ''sbx1'' (holding demo_record 50000000000) = (Inr x, s')" by (rule succeedsE) auto
  with kill_outcome [OF run] run
  show "map_of (a_store (snd (defaultKillSandbox demo_rt ''sbx1'' (holding demo_record 50000000000)))) ''sbx1'' = None" by simp
  obtain res s' where run: "defaultKillSandbox down_rt ''sbx1'' (holding demo_record 50000000000) = (res, s')" by (rule prod.exhaust)
  with kill_outcome [OF run]
  show "a_store (snd (defaultKillSandbox down_rt ''sbx1'' (holding demo_record 50000000000))) = [(''sbx1'', demo_record)]"
    by (simp add: demo_rts)
qed

section \<open>End times\<close>

text \<open>connecting to a sandbox never moves its end earlier (an end time is never negative), and gives it
  at least the requested timeout from any time the clock had already passed; a paused sandbox is resumed
  and its deadline armed for the new end.\<close>

lemma connect_extends:
  assumes "defaultConnectSandbox rt k timeout s = (Inr (p, resumed), s')" and "app_inv s"
    and "0 < T" and "\<forall>w. T \<le> fst (rt_now rt w)"
  shows "map_of (a_store s') k = Some p \<and> T + sint timeout * 1000000000 \<le> sr_EndAt p \<and> (resumed \<longrightarrow> sr_State p = Running) \<and>
    (\<exists>r. map_of (a_store s) k = Some r \<and> sr_OnTimeout p = sr_OnTimeout r \<and> (0 \<le> sr_EndAt r \<longrightarrow> sr_EndAt r \<le> sr_EndAt p)) \<and>
    app_inv s'"
  using Connect_spec [OF assms(1), of T] assms(2-4) by (auto simp: app_trans_def)

theorem connect_extends_witness:
  "\<exists>p. map_of (a_store (snd (defaultConnectSandbox (demo_rt\<lparr>rt_now := (\<lambda>w. (50, w))\<rparr>) ''sbx1'' 30 (holding paused_record 50)))) ''sbx1'' = Some p \<and>
     50 + sint (30 :: 32 word) * 1000000000 \<le> sr_EndAt p"
proof -
  let ?rt = "demo_rt\<lparr>rt_now := (\<lambda>w. (50, w))\<rparr>"
  have "succeeds (defaultConnectSandbox ?rt ''sbx1'' 30 (holding paused_record 50))" by code_simp
  then obtain p b s' where run: "defaultConnectSandbox ?rt ''sbx1'' 30 (holding paused_record 50) = (Inr (p, b), s')" by (rule succeedsE) auto
  with connect_extends [of ?rt "''sbx1''" 30 "holding paused_record 50" p b s' 50] run show ?thesis by auto
qed

text \<open>Setting the timeout puts the end exactly that many seconds after a reading of the clock.\<close>

lemma set_timeout_exact:
  assumes "defaultSetSandboxTimeout rt k timeout s = (Inr x, s')" and "app_inv s"
  shows "\<exists>p w. map_of (a_store s') k = Some p \<and> sr_EndAt p = fst (rt_now rt w) + sint timeout * 1000000000 \<and>
    0 \<le> sint timeout \<and> app_inv s'"
  using SetTimeout_spec [OF assms(1)] assms(2) assms(1)
  by (auto simp: app_trans_def defaultSetSandboxTimeout_def split: if_splits)

lemma set_timeout_exact_witness:
  "\<exists>p w. map_of (a_store (snd (defaultSetSandboxTimeout demo_rt ''sbx1'' 30 (holding demo_record 50)))) ''sbx1'' = Some p \<and>
     sr_EndAt p = fst (rt_now demo_rt w) + 30000000000"
proof -
  have "succeeds (defaultSetSandboxTimeout demo_rt ''sbx1'' 30 (holding demo_record 50))" by code_simp
  then obtain x s' where run: "defaultSetSandboxTimeout demo_rt ''sbx1'' 30 (holding demo_record 50) = (Inr x, s')" by (rule succeedsE) auto
  with set_timeout_exact [of demo_rt "''sbx1''" 30 "holding demo_record 50" x s'] run show ?thesis by auto
qed

text \<open>a refresh never shortens a sandbox's life: the new end is the later of the old end and the
  requested duration (15 s when none is given) from a reading of the clock, without overflow, since the
  duration is checked to lie between 0 and 3600 s.\<close>

lemma refresh_extends:
  assumes "defaultRefreshSandbox rt k d s = (Inr x, s')" and "app_inv s"
  shows "\<exists>r p w. map_of (a_store s) k = Some r \<and> map_of (a_store s') k = Some p \<and>
    sr_EndAt p = max (sr_EndAt r) (fst (rt_now rt w) + sint (case d of None \<Rightarrow> 15 | Some d \<Rightarrow> d) * 1000000000) \<and>
    app_inv s'"
  using Refresh_spec [OF assms(1)] assms(2) by (auto simp: app_trans_def)

theorem refresh_extends_witness:
  "\<exists>p. map_of (a_store (snd (defaultRefreshSandbox demo_rt ''sbx1'' (Some 3600) (holding demo_record 50)))) ''sbx1'' = Some p \<and>
     100000000000 \<le> sr_EndAt p"
proof -
  have "succeeds (defaultRefreshSandbox demo_rt ''sbx1'' (Some 3600) (holding demo_record 50))" by code_simp
  then obtain x s' where run: "defaultRefreshSandbox demo_rt ''sbx1'' (Some 3600) (holding demo_record 50) = (Inr x, s')" by (rule succeedsE) auto
  with refresh_extends [of demo_rt "''sbx1''" "Some 3600" "holding demo_record 50" x s'] run show ?thesis by auto
qed

text \<open>A resume that succeeds leaves the sandbox running, with at least the requested timeout from any
  time the clock had already passed.\<close>

lemma resume_runs:
  assumes "defaultResumeSandbox rt k timeout s = (Inr p, s')" and "app_inv s"
    and "0 < T" and "\<forall>w. T \<le> fst (rt_now rt w)"
  shows "map_of (a_store s') k = Some p \<and> sr_State p = Running \<and>
    T + sint (requestTimeout timeout) * 1000000000 \<le> sr_EndAt p \<and>
    (\<not> dm_stopped (a_deadlines s') \<and> sr_EndAt p \<noteq> 0 \<longrightarrow> deadline_of (a_deadlines s') k \<noteq> None)"
proof -
  note sp = Resume_spec [OF assms(1), of T]
  from assms(2) sp have "good_entry s' k" by (auto simp: app_trans_def app_inv_def)
  with sp assms(2-4) show ?thesis by (auto simp: good_entry_def)
qed

lemma resume_runs_witness:
  "\<exists>p. map_of (a_store (snd (defaultResumeSandbox (demo_rt\<lparr>rt_now := (\<lambda>w. (50, w))\<rparr>) ''sbx1'' None (holding paused_record 50)))) ''sbx1'' = Some p \<and>
     sr_State p = Running \<and> 15000000050 \<le> sr_EndAt p"
proof -
  let ?rt = "demo_rt\<lparr>rt_now := (\<lambda>w. (50, w))\<rparr>"
  have "succeeds (defaultResumeSandbox ?rt ''sbx1'' None (holding paused_record 50))" by code_simp
  then obtain p s' where run: "defaultResumeSandbox ?rt ''sbx1'' None (holding paused_record 50) = (Inr p, s')"
    by (rule succeedsE) auto
  from resume_runs [OF run, of 50] show ?thesis
    by (simp add: run requestTimeout_def DefaultSandboxTimeoutSeconds_def)
qed

text \<open>A pause that succeeds has stored the sandbox as paused and disarmed its deadline, so it cannot
  expire while it is paused.\<close>

lemma pause_disarms:
  assumes "defaultPauseSandbox rt k s = (Inr p, s')" and "app_inv s"
  shows "map_of (a_store s') k = Some p \<and> sr_State p = Paused \<and> deadline_of (a_deadlines s') k = None \<and> app_inv s'"
proof -
  note sp = Pause_spec [OF assms(1)]
  from assms(2) sp have "good_entry s' k" "app_inv s'" by (auto simp: app_trans_def app_inv_def)
  with sp assms(2) show ?thesis by (auto simp: good_entry_def)
qed

lemma pause_disarms_witness:
  "deadline_of (a_deadlines (snd (defaultPauseSandbox demo_rt ''sbx1'' (holding demo_record 50)))) ''sbx1'' = None"
proof -
  have "succeeds (defaultPauseSandbox demo_rt ''sbx1'' (holding demo_record 50))" by code_simp
  then obtain p s' where run: "defaultPauseSandbox demo_rt ''sbx1'' (holding demo_record 50) = (Inr p, s')"
    by (rule succeedsE) auto
  from pause_disarms [OF run] show ?thesis by (simp add: run)
qed

section \<open>Expiry\<close>

text \<open>once a running sandbox with the kill action has reached its end, every request for it that
  passes the argument checks is answered 404 (not found), and the record is left for the expiry callback
  to delete.\<close>

lemma expired_is_not_found:
  assumes "valid_request q" and "map_of (a_store s) k = Some r" and "sr_State r = Running"
    and "sr_OnTimeout r = SandboxTimeoutActionKill" and "sr_EndAt r \<noteq> 0" and "sr_EndAt r \<le> fst (rt_now rt (a_world s))"
  shows "\<exists>s' e. handle rt k q s = (Some e, s') \<and> gatewayErrorStatus e 500 = 404 \<and> a_store s' = a_store s"
proof -
  have "sandboxRecordTerminallyExpired r (fst (rt_now rt (a_world s)))"
    using assms by (simp add: sandboxRecordTerminallyExpired_def sandboxRecordExpired_def recordEndAt_def
        RetainsSandboxAfterTimeout_def Normalize_def go_constants)
  from handle_expired [OF assms(1,2) this] show ?thesis
    by (auto simp: not_found_def gatewayErrorStatus_def)
qed

theorem expired_is_not_found_witness:
  "\<exists>s' e. handle demo_rt ''sbx1'' (ConnectReq 30) (holding demo_record 100000000000) = (Some e, s') \<and>
     gatewayErrorStatus e 500 = 404 \<and> a_store s' = [(''sbx1'', demo_record)]"
  using expired_is_not_found [of "ConnectReq 30" "holding demo_record 100000000000" "''sbx1''" demo_record demo_rt]
  by (simp add: demo_rt_def)

text \<open>an expiry callback acts only on the run it was armed for: if the record is paused, or its end
  was moved since, the callback changes nothing at all; if the clock has not reached the end, it changes
  neither store nor deadlines.\<close>

lemma stale_expiry_is_harmless:
  assumes "map_of (a_store s) k = Some r"
  shows "(sr_State r \<noteq> Running \<or> sr_EndAt r \<noteq> e \<longrightarrow> expireSandbox rt k e s = s) \<and>
    (fst (rt_now rt (a_world s)) < sr_EndAt r \<longrightarrow>
       a_store (expireSandbox rt k e s) = a_store s \<and> a_deadlines (expireSandbox rt k e s) = a_deadlines s)"
  using expire_stale [OF assms] expire_early [OF assms] by blast

theorem stale_expiry_is_harmless_witness:
  "expireSandbox demo_rt ''sbx1'' 90000000000 (holding demo_record 95000000000) = holding demo_record 95000000000"
  using stale_expiry_is_harmless [of "holding demo_record 95000000000" "''sbx1''" demo_record 90000000000 demo_rt] by simp

text \<open>C16: when the callback of a due sandbox with the kill action runs, either the runtime deletes it and
  both record and deadline are gone, or the record stays and the callback is armed again five seconds
  after a reading of the clock (unless the gateway is shutting down): an undeleted sandbox is never
  forgotten.\<close>

theorem expiry_kills_or_retries:
  assumes "app_inv s" and "map_of (a_store s) k = Some r" and "sr_State r = Running"
    and "sr_EndAt r \<le> fst (rt_now rt (a_world s))" and "sr_OnTimeout r = SandboxTimeoutActionKill" and "rt_present rt"
  shows "if fst (rt_DeleteSandbox rt (sr_RuntimeInfo r) (snd (rt_now rt (a_world s)))) = None
    then map_of (a_store (expireSandbox rt k (sr_EndAt r) s)) k = None \<and>
      deadline_of (a_deadlines (expireSandbox rt k (sr_EndAt r) s)) k = None
    else a_store (expireSandbox rt k (sr_EndAt r) s) = a_store s \<and>
      (\<not> dm_stopped (a_deadlines s) \<longrightarrow> (\<exists>t w. t = fst (rt_now rt w) \<and>
         deadline_of (a_deadlines (expireSandbox rt k (sr_EndAt r) s)) k = Some (t + 5000000000)))"
proof -
  have "due rt (sr_EndAt r) r s" using assms by (simp add: due_def)
  from expire_kill [OF app_inv_base [OF assms(1)] assms(2) this assms(5,6)] show ?thesis
    by (auto split: if_splits)
qed

theorem expiry_kills_or_retries_witness:
  "map_of (a_store (expireSandbox demo_rt ''sbx1'' 100000000000 (holding demo_record 100000000000))) ''sbx1'' = None \<and>
   a_store (expireSandbox down_rt ''sbx1'' 100000000000 (holding demo_record 100000000000)) = [(''sbx1'', demo_record)]"
  using expiry_kills_or_retries [of "holding demo_record 100000000000" "''sbx1''" demo_record demo_rt]
    expiry_kills_or_retries [of "holding demo_record 100000000000" "''sbx1''" demo_record down_rt]
  by (simp add: demo_rts)



section \<open>Listing and killing all\<close>

text \<open>a listing answers with sandboxes the store holds at its end, each at most once, at most the page
  limit of them (1 to 100), and only those that match the metadata and state filters.\<close>

lemma list_is_sound:
  assumes "defaultListSandboxes rt req s = (Inr x, s')" and "app_inv s"
  shows "(\<forall>r \<in> set (ls_Items x). map_of (a_store s') (sr_ID r) = Some r \<and> metadataMatches (sr_Metadata r) (lr_Metadata req) \<and>
      (lr_States req = [] \<or> sr_State r \<in> set (lr_States req))) \<and>
    length (ls_Items x) \<le> page_limit (lr_Limit req) \<and> page_limit (lr_Limit req) \<le> 100 \<and> app_inv s'"
proof -
  note sp = List_spec [OF assms(1) app_inv_base [OF assms(2)]]
  then obtain records tot where r: "\<forall>r \<in> set records. map_of (a_store s') (sr_ID r) = Some r"
    "x = paginate req tot (state_filtered req records)" by blast
  have "set (ls_Items x) \<subseteq> set (state_filtered req records)"
    by (auto simp: r(2) paginate_def Let_def dest: in_set_takeD in_set_dropD)
  with r(1) have "\<forall>r \<in> set (ls_Items x). map_of (a_store s') (sr_ID r) = Some r \<and> metadataMatches (sr_Metadata r) (lr_Metadata req) \<and>
      (lr_States req = [] \<or> sr_State r \<in> set (lr_States req))"
    by (auto simp: state_filtered_def matching_records_def)
  moreover have "app_inv s'" using sp assms(2) by (simp add: app_walk_def)
  ultimately show ?thesis using paginate_items r(2) page_limit_bounds by simp
qed

definition demo_list :: list_request where
  "demo_list = \<lparr>lr_Metadata = [], lr_States = [''running''], lr_NextToken = [], lr_Limit = 1\<rparr>"

theorem list_is_sound_witness:
  "\<exists>x. fst (defaultListSandboxes demo_rt demo_list (holding demo_record 50)) = Inr x \<and> length (ls_Items x) \<le> 1"
proof -
  have "succeeds (defaultListSandboxes demo_rt demo_list (holding demo_record 50))" by code_simp
  then obtain x s' where run: "defaultListSandboxes demo_rt demo_list (holding demo_record 50) = (Inr x, s')"
    by (rule succeedsE) auto
  have "page_limit (lr_Limit demo_list) = 1" by (simp add: demo_list_def page_limit_def maxSandboxListLimit_def)
  with list_is_sound [OF run] run show ?thesis by simp
qed

text \<open>A client that follows the next tokens from the first page of an unchanged list sees every
  record exactly once and in order, and no page is longer than the limit.\<close>

lemma pages_enumerate:
  assumes "distinct (map sr_ID rs)" and "[] \<notin> sr_ID ` set rs" and "lr_NextToken req = []" and "length rs < n"
  shows "concat (all_pages n req tot rs) = rs \<and> (\<forall>p \<in> set (all_pages n req tot rs). length p \<le> page_limit (lr_Limit req))"
  using all_pages_from [of rs 0 n req tot] all_pages_length [of _ n req tot rs] assms by auto

lemma pages_enumerate_witness:
  "concat (all_pages 3 demo_list 0 [demo_record, demo_record\<lparr>sr_ID := ''sbx2''\<rparr>]) = [demo_record, demo_record\<lparr>sr_ID := ''sbx2''\<rparr>]"
  using pages_enumerate [of "[demo_record, demo_record\<lparr>sr_ID := ''sbx2''\<rparr>]" demo_list 3 0] by (simp add: demo_list_def)

text \<open>killing all sandboxes of a team reports exactly as many kills and failures as there were
  sandboxes, leaves no more sandboxes than failures, adds none, and keeps the invariant.\<close>

lemma kill_team_counts:
  assumes "defaultKillTeamSandboxes rt s = (res, s')" and "app_inv s"
  shows "\<exists>c. res = Inr c \<and> kr_FailedCount c + kr_KilledCount c = length (a_store s) \<and>
    length (a_store s') \<le> kr_FailedCount c \<and> set (map fst (a_store s')) \<subseteq> set (map fst (a_store s)) \<and> app_inv s'"
  using KillTeam_spec [OF assms(1)] assms(2) by (auto simp: app_walk_def)

theorem kill_team_counts_witness:
  "length (a_store (snd (defaultKillTeamSandboxes demo_rt (holding demo_record 50)))) \<le> 1"
  using kill_team_counts [of demo_rt "holding demo_record 50" "fst (defaultKillTeamSandboxes demo_rt (holding demo_record 50))"
      "snd (defaultKillTeamSandboxes demo_rt (holding demo_record 50))"] by fastforce

section \<open>The store\<close>

text \<open>An upsert that succeeds stores what it returns, and repeating it with the same argument returns
  the same record and leaves the store as it is.\<close>

lemma upsert_is_idempotent:
  assumes "Upsert rt r m w = (Inr x, m', w')"
  shows "map_of m' (sr_ID r) = Some x \<and> Upsert rt r m' w' = (Inr x, m', w')"
  using assms by (rule Upsert_idem)

theorem upsert_is_idempotent_witness:
  "Upsert demo_rt demo_record [] 5 = Upsert demo_rt demo_record (fst (snd (Upsert demo_rt demo_record [] 5))) 5"
proof -
  have "succeeds (Upsert demo_rt demo_record [] 5)" by code_simp
  then obtain x p where run: "Upsert demo_rt demo_record [] 5 = (Inr x, p)" by (rule succeedsE) auto
  have "snd (snd (Upsert demo_rt demo_record [] 5)) = 5" by code_simp
  with run upsert_is_idempotent [of demo_rt demo_record "[]" 5 x "fst p" "snd p"] show ?thesis by simp
qed

text \<open>A listing of the store returns each stored record exactly once, oldest first.\<close>

lemma store_list_sorted:
  assumes "store_inv m"
  shows "mset (List_sandboxes m) = mset (map snd m) \<and> sorted (map sr_CreatedAt (List_sandboxes m)) \<and>
    distinct (map sr_ID (List_sandboxes m)) \<and> set (map sr_ID (List_sandboxes m)) = dom (map_of m)"
  using List_sandboxes_mset List_sandboxes_ids [OF assms] by (auto simp: List_sandboxes_def dom_map_of_conv_image_fst)

theorem store_list_sorted_witness:
  "mset (List_sandboxes [(''sbx1'', demo_record)]) = {#demo_record#}"
  using store_list_sorted [of "[(''sbx1'', demo_record)]"] by (simp add: store_inv_def record_ok_def)

section \<open>The deadline manager\<close>

text \<open>C22: whatever the interleaving of scheduling, cancelling, firing, callbacks and shutdown, a sandbox has
  at most one timer that can still fire, that timer is the one in the table, it is not due before the
  time it was scheduled for, and the wait group counts exactly the callbacks that are running.\<close>

theorem one_timer_per_sandbox:
  assumes "rtranclp dm_step newSandboxDeadlineManager m"
  shows "dm_wg m = in_callback (dm_pool m) \<and>
    (\<forall>i j. i < length (dm_pool m) \<and> j < length (dm_pool m) \<and> tm_status (dm_pool m ! i) = Pending \<and>
       tm_status (dm_pool m ! j) = Pending \<and> tm_sandbox (dm_pool m ! i) = tm_sandbox (dm_pool m ! j) \<longrightarrow>
       i = j \<and> (\<exists>d. map_of (dm_timers m) (tm_sandbox (dm_pool m ! i)) = Some d \<and> dl_timer d = i \<and>
         dl_fireAt d \<le> tm_due (dm_pool m ! i)))"
proof -
  have "dm_inv m" using dm.reachable_inv [of newSandboxDeadlineManager m] assms by simp
  then have wg: "dm_wg m = in_callback (dm_pool m)" and tr: "tracked m" by (simp_all add: dm_inv_def)
  with tracked_pending [OF tr] tracked_entry [OF tr] show ?thesis by (metis option.sel)
qed

definition demo_timers :: deadline_manager where
  "demo_timers = schedule ''sbx1'' 7 7 0 (schedule ''sbx1'' 5 5 0 newSandboxDeadlineManager)"

theorem one_timer_per_sandbox_witness:
  "\<not> (tm_status (dm_pool demo_timers ! 0) = Pending \<and> tm_status (dm_pool demo_timers ! 1) = Pending)"
proof -
  have "rtranclp dm_step newSandboxDeadlineManager demo_timers"
    unfolding demo_timers_def by (meson dm_step.do_schedule r_into_rtranclp rtranclp_trans)
  from one_timer_per_sandbox [OF this] show ?thesis
    by (auto simp: demo_timers_def schedule_def arm_def timer_Stop_def recall_def newSandboxDeadlineManager_def Let_def)
qed

text \<open>C19: once shutdown has returned nil, no expiry callback is running and none will ever run: the table
  stays empty, no timer can fire, and no later step starts a callback.\<close>

theorem shutdown_drains_callbacks:
  assumes "rtranclp dm_step newSandboxDeadlineManager m" and "shutdown_returns ctxErr (shutdown_close m) None"
    and "rtranclp dm_step (shutdown_close m) m'"
  shows "in_callback (dm_pool m') = 0 \<and> dm_timers m' = [] \<and> dm_stopped m' \<and>
    (\<forall>i < length (dm_pool m'). tm_status (dm_pool m' ! i) \<noteq> Pending)"
proof -
  have inv: "dm_inv (shutdown_close m)"
    using dm.reachable_inv [of newSandboxDeadlineManager m] assms(1) by (simp add: dm_inv_shutdown_close)
  have "dm_wg (shutdown_close m) = 0" using assms(2) by (auto simp: shutdown_returns_def)
  with dm.drained_stays_empty [OF assms(3) inv] have "dm_wg m' = 0" by simp
  moreover have "dm_stopped m'" using dm.closed_forever [OF assms(3) inv] by simp
  moreover have "dm_inv m'" using dm.steps_inv [OF assms(3) inv] .
  ultimately show ?thesis by (auto simp: dm_inv_def dest: tracked_pending)
qed

theorem shutdown_drains_callbacks_witness:
  "in_callback (dm_pool (schedule ''sbx2'' 9 9 0 (shutdown_close demo_timers))) = 0"
proof -
  have run: "rtranclp dm_step newSandboxDeadlineManager demo_timers"
    unfolding demo_timers_def by (meson dm_step.do_schedule r_into_rtranclp rtranclp_trans)
  have ret: "shutdown_returns None (shutdown_close demo_timers) None"
    by (simp add: shutdown_returns_def demo_timers_def schedule_def arm_def newSandboxDeadlineManager_def Let_def)
  have "rtranclp dm_step (shutdown_close demo_timers) (schedule ''sbx2'' 9 9 0 (shutdown_close demo_timers))"
    by (rule r_into_rtranclp [of dm_step, OF dm_step.do_schedule])
  from shutdown_drains_callbacks [OF run ret this] show ?thesis by simp
qed

section \<open>Locking one sandbox\<close>

text \<open>C3: at any time at most one goroutine holds the lifecycle lock of a sandbox with the entry the store
  has under its id, and no step of another goroutine - deleting, inserting or looking up entries
  included - takes that entry away: work done under the lock is never on a stale entry.\<close>

theorem lifecycle_lock_excludes:
  assumes "lock_init s0" and "rtranclp any_lock_step s0 s" and "lk_pc s t = Holding i e"
  shows "map_of (lk_sandboxes s) i = Some e \<and> (\<forall>t' e'. lk_pc s t' = Holding i e' \<longrightarrow> t' = t \<and> e' = e) \<and>
    (\<forall>u s'. u \<noteq> t \<and> lock_step u s s' \<longrightarrow> lk_pc s' t = Holding i e \<and> map_of (lk_sandboxes s') i = Some e)"
proof -
  have inv: "lock_inv s" by (rule locks.reachable_inv [OF assms(1,2)])
  have "e' = e" if "lk_pc s t' = Holding i e'" for t' e'
    using lock_invD(2) [OF inv that] lock_invD(2) [OF inv assms(3)] by simp
  with inv assms(3) lock_invD(2) [OF inv assms(3)] holders_unique [OF inv] holder_stable [OF inv assms(3)]
  show ?thesis by metis
qed

definition demo_locks :: lock_state where
  "demo_locks = \<lparr>lk_sandboxes = [], lk_owner = (\<lambda>_. None), lk_pc = (\<lambda>_. Idle), lk_next = 0\<rparr>"

text \<open>Two goroutines look the same new entry up; the first has got its lock.\<close>

definition demo_held :: lock_state where
  "demo_held = \<lparr>lk_sandboxes = [(''sbx1'', 0)], lk_owner = (\<lambda>_. None)(0 := Some 1),
     lk_pc = (\<lambda>_. Idle)(1 := Looking ''sbx1'', 2 := Looking ''sbx1'', 2 := Waiting ''sbx1'' 0, 1 := Waiting ''sbx1'' 0,
       1 := Checking ''sbx1'' 0, 1 := Holding ''sbx1'' 0), lk_next = 1\<rparr>"

lemma demo_held_reachable: "rtranclp any_lock_step demo_locks demo_held"
proof -
  let ?s1 = "demo_locks\<lparr>lk_sandboxes := [(''sbx1'', 0)], lk_next := 1\<rparr>"
  let ?s2 = "go_to 1 (Looking ''sbx1'') ?s1"
  let ?s3 = "go_to 2 (Looking ''sbx1'') ?s2"
  let ?s4 = "go_to 2 (Waiting ''sbx1'' 0) ?s3"
  let ?s5 = "go_to 1 (Waiting ''sbx1'' 0) ?s4"
  let ?s6 = "go_to 1 (Checking ''sbx1'' 0) (Lock 1 0 ?s5)"
  let ?s7 = "go_to 1 (Holding ''sbx1'' 0) ?s6"
  have "lock_step 1 demo_locks ?s1" using lock_step.insert_entry [of demo_locks "''sbx1''" 1] by (simp add: demo_locks_def)
  moreover have "lock_step 1 ?s1 ?s2" by (rule lock_step.call) (simp add: demo_locks_def)
  moreover have "lock_step 2 ?s2 ?s3" by (rule lock_step.call) (simp add: demo_locks_def go_to_def)
  moreover have "lock_step 2 ?s3 ?s4" by (rule lock_step.lookup_found) (simp_all add: demo_locks_def go_to_def)
  moreover have "lock_step 1 ?s4 ?s5" by (rule lock_step.lookup_found) (simp_all add: demo_locks_def go_to_def)
  moreover have "lock_step 1 ?s5 ?s6" by (rule lock_step.acquire) (simp_all add: demo_locks_def go_to_def)
  moreover have "lock_step 1 ?s6 ?s7" by (rule lock_step.check_current) (simp_all add: demo_locks_def go_to_def Lock_def)
  ultimately have "rtranclp any_lock_step demo_locks ?s7"
    by (meson any_lock_step_def r_into_rtranclp rtranclp_trans)
  moreover have "?s7 = demo_held" by (simp add: demo_locks_def demo_held_def go_to_def Lock_def)
  ultimately show ?thesis by simp
qed

theorem lifecycle_lock_excludes_witness:
  "map_of (lk_sandboxes demo_held) ''sbx1'' = Some 0 \<and> (\<forall>e'. lk_pc demo_held 2 \<noteq> Holding ''sbx1'' e')"
  using lifecycle_lock_excludes [OF _ demo_held_reachable, of 1 "''sbx1''" 0]
  by (auto simp: demo_held_def demo_locks_def lock_init_def)



end
