(* ===== verification/TemplateProperties.thy ===== *)
theory TemplateProperties
  imports Demo
begin

text \<open>
  What the gateway guarantees about templates: the build manager, uploaded build contexts, the
  management store and the template callbacks, each applied to a concrete case after it.
\<close>

section \<open>The build manager\<close>


definition demo_builds :: build_manager where
  "demo_builds = snd (reserve ''t'' ''b2'' (snd (reserve ''t'' ''b1'' (newTemplateBuildManager 1))))"

lemma demo_builds_reachable: "rtranclp bm_step (newTemplateBuildManager 1) demo_builds"
  unfolding demo_builds_def by (meson bm_step.do_reserve r_into_rtranclp rtranclp_trans)


text \<open>a reservation fails for exactly one of three reasons, checked in this order - the manager is
  stopping, the same build is running, the capacity is used up - and then changes nothing; otherwise the
  new task is the current one of its key.\<close>

lemma reserve_outcome:
  assumes "reserve tid bid m = (res, m')" and "bm_inv m"
  shows "case res of
      Inl e \<Rightarrow> m' = m \<and>
        e = (if bm_stopping m then errTemplateBuildManagerStopped
             else if map_of (bm_active m) \<lparr>bk_TemplateID = tid, bk_BuildID = bid\<rparr> \<noteq> None
               then errTemplateBuildAlreadyRunning
             else errTemplateBuildCapacityExhausted)
    | Inr t \<Rightarrow> \<not> bm_stopping m \<and> isCurrent t m' \<and> length (bm_active m') = Suc (length (bm_active m)) \<and>
        int (length (bm_active m')) \<le> bm_maxConcurrent m'"
  using assms by (rule reserve_spec)

theorem reserve_outcome_witness:
  "reserve ''t'' ''b3'' demo_builds = (Inl errTemplateBuildCapacityExhausted, demo_builds)"
proof -
  have inv: "bm_inv demo_builds" using builds.reachable_inv [OF _ demo_builds_reachable] by blast
  have f: "map_sum (\<lambda>_. ()) (\<lambda>_. ()) (fst (reserve ''t'' ''b3'' demo_builds)) = Inl ()" by code_simp
  then obtain e m' where run: "reserve ''t'' ''b3'' demo_builds = (Inl e, m')"
    by (cases "reserve ''t'' ''b3'' demo_builds"; cases "fst (reserve ''t'' ''b3'' demo_builds)") auto
  have "\<not> bm_stopping demo_builds \<and> map_of (bm_active demo_builds) \<lparr>bk_TemplateID = ''t'', bk_BuildID = ''b3''\<rparr> = None"
    by code_simp
  with reserve_outcome [OF run inv] run show ?thesis by simp
qed



section \<open>Uploaded build contexts\<close>

text \<open>C31: a name the build context accepts is relative and its elements are all proper names - none is
  empty, \<open>.\<close> or \<open>..\<close>, none holds a slash or a backslash - so that cleaned below any directory it stays
  below that directory.\<close>

theorem safe_names_stay_inside:
  assumes "SafeTemplateBuildContextTarName name = Some m"
  shows "safe_parts (Split CHR ''/'' m) \<and> hd m \<noteq> CHR ''/'' \<and>
    (\<forall>rooted dir. clean_parts rooted [] (dir @ Split CHR ''/'' m) = clean_parts rooted [] dir @ Split CHR ''/'' m)"
proof -
  note safe = safe_name [OF assms]
  then have "dotdot \<notin> set (Split CHR ''/'' m)" "filter (\<lambda>p. p \<noteq> [] \<and> p \<noteq> dot) (Split CHR ''/'' m) = Split CHR ''/'' m"
    by (auto simp: safe_parts_def filter_id_conv)
  with clean_parts_append safe show ?thesis by metis
qed

theorem safe_names_stay_inside_witness:
  "SafeTemplateBuildContextTarName '' ./src//app.go '' = Some ''src/app.go'' \<and>
   safe_parts (Split CHR ''/'' ''src/app.go'') \<and> SafeTemplateBuildContextTarName ''src/../../etc/passwd'' = None"
proof -
  have v: "SafeTemplateBuildContextTarName '' ./src//app.go '' = Some ''src/app.go''"
    "SafeTemplateBuildContextTarName ''src/../../etc/passwd'' = None" by code_simp+
  with safe_names_stay_inside [OF v(1)] show ?thesis by simp
qed

text \<open>C33: an archive that passes validation has at most 10000 entries, every entry and link name is safe,
  and its regular files hold at most 512 MiB together; the running total never wraps around (each copy
  delivers at most the size its header gives, as \<open>archive/tar\<close> does).\<close>

theorem valid_archives_are_bounded:
  assumes "validateTemplateArchive (TarGz evs) hash = None" and "\<forall>e \<in> set evs. copy_within_size e"
  shows "length evs \<le> 10000 \<and> (\<forall>e \<in> set evs. event_safe e) \<and> sum_list (map copied_bytes evs) \<le> 536870912"
  using validate_entries_sound [of hash 0 0 evs] assms by (simp add: validateTemplateArchive_def)

definition demo_entry :: tar_event where
  "demo_entry = TarEntry \<lparr>th_Name = ''app/main.go'', th_Linkname = [], th_Typeflag = CHR ''0'', th_Size = 42\<rparr> 42 None"

theorem valid_archives_are_bounded_witness:
  "validateTemplateArchive (TarGz [demo_entry, demo_entry]) ''h'' = None \<and> event_safe demo_entry"
proof
  show v: "validateTemplateArchive (TarGz [demo_entry, demo_entry]) ''h'' = None" by code_simp
  have "\<forall>e \<in> set [demo_entry, demo_entry]. copy_within_size e" by (simp add: demo_entry_def)
  from valid_archives_are_bounded [OF v this] show "event_safe demo_entry" by simp
qed


definition demo_upload_env :: upload_env where
  "demo_upload_env = \<lparr>ue_CreateTemp = Inr ''/tmp/e2b-1.tar.gz'', ue_Close = None, ue_sha256 = (\<lambda>_. ''digest''),
     ue_archive = (\<lambda>_. TarGz [demo_entry])\<rparr>"

definition demo_management :: management where
  "demo_management = snd (CreateTemplateFileUpload (Inr ''abcdefghijklmnopqrstuvwx'') 0 ''t'' ''h1'' NewGatewayManagementStore)"

definition demo_token :: string where
  "demo_token = (case fst (CreateTemplateFileUpload (Inr ''abcdefghijklmnopqrstuvwx'') 0 ''t'' ''h1'' NewGatewayManagementStore) of
     Inr t \<Rightarrow> t | Inl _ \<Rightarrow> [])"

definition demo_upload :: "upload_result \<times> management" where
  "demo_upload = StoreTemplateFileUploadReader demo_upload_env (\<lambda>s. s) 1 2 3 ''t'' ''h1'' demo_token
     \<lparr>ub_data = ''body'', ub_end = EOF\<rparr> demo_management"

lemma demo_uploads_ok: "uploads_ok demo_management"
  by (simp add: demo_management_def CreateTemplateFileUpload_def newManagementSecret_def Let_def uploads_ok_def
      NewGatewayManagementStore_def split: option.split)


text \<open>A stored file is never replaced or removed by an upload, for whatever key the upload is, as
  long as the requests in between keep files too.\<close>

lemma stored_files_are_final:
  assumes "StoreTemplateFileUploadReader env others now1 now2 c tid h token body s = (res, s')"
    and "uploads_ok s" and "\<And>s. uploads_ok s \<Longrightarrow> uploads_ok (others s)"
    and "\<And>s k f. map_of (ms_templateFiles s) k = Some f \<Longrightarrow> map_of (ms_templateFiles (others s)) k = Some f"
    and "map_of (ms_templateFiles s) k = Some f"
  shows "map_of (ms_templateFiles s') k = Some f"
  using assms by (rule StoreUpload_keeps_files)

text \<open>A second upload of the same key with other content.\<close>

definition demo_conflict :: "upload_result \<times> management" where
  "demo_conflict = (let s = snd (CreateTemplateFileUpload (Inr ''abcdefghijklmnopqrstuvwx'') 4 ''t'' ''h1'' (snd demo_upload))
     in StoreTemplateFileUploadReader (demo_upload_env\<lparr>ue_sha256 := (\<lambda>_. ''other'')\<rparr>) (\<lambda>s. s) 5 6 7 ''t'' ''h1'' demo_token
          \<lparr>ub_data = ''other body'', ub_end = EOF\<rparr> s)"

lemma demo_upload_ok: "uploads_ok (snd demo_upload)"
  using StoreUpload_spec [of demo_upload_env "\<lambda>s. s" 1 2 3 "''t''" "''h1''" demo_token
      "\<lparr>ub_data = ''body'', ub_end = EOF\<rparr>" demo_management "fst demo_upload" "snd demo_upload"] demo_uploads_ok
  by (simp add: demo_upload_def)

lemma stored_files_are_final_witness:
  "ur_error (fst demo_conflict) = Some (GatewayError 409 ''template file upload hash already exists with different content'') \<and>
   map_of (ms_templateFiles (snd demo_conflict)) ''t/h1'' = map_of (ms_templateFiles (snd demo_upload)) ''t/h1'' \<and>
   map_of (ms_templateFiles (snd demo_upload)) ''t/h1'' \<noteq> None"
proof (intro conjI)
  show "ur_error (fst demo_conflict) = Some (GatewayError 409 ''template file upload hash already exists with different content'')"
    by code_simp
  have "map_option mf_Path (map_of (ms_templateFiles (snd demo_upload)) ''t/h1'') = Some ''/tmp/e2b-1.tar.gz''" by code_simp
  then obtain f where f: "map_of (ms_templateFiles (snd demo_upload)) ''t/h1'' = Some f" by auto
  then show "map_of (ms_templateFiles (snd demo_upload)) ''t/h1'' \<noteq> None" by simp
  let ?s = "snd (CreateTemplateFileUpload (Inr ''abcdefghijklmnopqrstuvwx'') 4 ''t'' ''h1'' (snd demo_upload))"
  have s: "uploads_ok ?s" "ms_templateFiles ?s = ms_templateFiles (snd demo_upload)"
    using demo_upload_ok by (auto simp: CreateTemplateFileUpload_def newManagementSecret_def Let_def uploads_ok_def split: sum.split option.split)
  with stored_files_are_final [of "demo_upload_env\<lparr>ue_sha256 := (\<lambda>_. ''other'')\<rparr>" "\<lambda>s. s" 5 6 7 "''t''" "''h1''" demo_token
      "\<lparr>ub_data = ''other body'', ub_end = EOF\<rparr>" ?s "fst demo_conflict" "snd demo_conflict" "''t/h1''" f] f
  show "map_of (ms_templateFiles (snd demo_conflict)) ''t/h1'' = map_of (ms_templateFiles (snd demo_upload)) ''t/h1''"
    by (simp add: demo_conflict_def Let_def)
qed

text \<open>Two uploads share a store key only if their trimmed template ids and hashes agree, provided the
  hashes hold no slash.\<close>

lemma file_keys_are_unambiguous:
  assumes "templateFileKey t h = templateFileKey t' h'" and "CHR ''/'' \<notin> set h" and "CHR ''/'' \<notin> set h'"
  shows "TrimSpace t = TrimSpace t' \<and> TrimSpace h = TrimSpace h'"
  using assms by (rule templateFileKey_inj)

theorem file_keys_are_unambiguous_witness:
  "TrimSpace ''org/t'' = TrimSpace '' org/t'' \<and> TrimSpace ''h1'' = TrimSpace ''h1 ''"
proof (rule file_keys_are_unambiguous)
  show "templateFileKey ''org/t'' ''h1'' = templateFileKey '' org/t'' ''h1 ''" by code_simp
qed simp_all

section \<open>Templates\<close>

text \<open>an upserted template can be read back under its trimmed id with its build id and status, and is
  not deleted; a deleted one cannot be read and is remembered as deleted; both keep the store's
  invariant.\<close>

lemma upsert_and_delete_templates:
  assumes "management_inv s" and "UpsertTemplate lib now t tags logs s = (res, s')" and "TrimSpace (gt_TemplateID t) \<noteq> []"
  shows "(\<exists>t'. res = Inr t' \<and> GetManagedTemplate (TrimSpace (gt_TemplateID t)) s' = Some t' \<and>
      gt_BuildStatus t' = gt_BuildStatus t \<and> gt_BuildID t' = gt_BuildID t) \<and>
    \<not> is_deleted s' (TrimSpace (gt_TemplateID t)) \<and> management_inv s' \<and>
    GetManagedTemplate k (snd (DeleteTemplate k s')) = None \<and> is_deleted (snd (DeleteTemplate k s')) k \<and>
    management_inv (snd (DeleteTemplate k s'))"
  using Upsert_Get [OF assms(2) refl assms(3)] management_inv_Upsert [OF assms(1,2)] Delete_then_Get
  by (auto intro: management_inv_Delete)

definition demo_template :: gateway_template where
  "demo_template = \<lparr>gt_Aliases = [], gt_BuildCount = 1, gt_BuildID = ''b0'', gt_BuildStatus = BuildStatusReady, gt_CpuCount = 1,
     gt_CreatedAt = 1, gt_CreatedBy = None, gt_DiskSizeMB = 0, gt_EnvdVersion = defaultEnvdVersion, gt_LastSpawnedAt = None,
     gt_MemoryMB = 512, gt_Names = [''base''], gt_Public = False, gt_SpawnCount = 0, gt_TemplateID = ''t'', gt_UpdatedAt = 1,
     gt_ImageRef = []\<rparr>"

definition demo_lib :: uuid_lib where
  "demo_lib = \<lparr>ul_Parse = (\<lambda>_. None), ul_NewSHA1 = (\<lambda>s. s)\<rparr>"

definition demo_stored :: management where
  "demo_stored = snd (UpsertTemplate demo_lib 5 demo_template [''v1''] [] NewGatewayManagementStore)"

theorem upsert_and_delete_templates_witness:
  "management_inv demo_stored \<and> GetManagedTemplate ''t'' (snd (DeleteTemplate ''t'' demo_stored)) = None"
proof -
  have id: "TrimSpace (gt_TemplateID demo_template) \<noteq> []" by code_simp
  from upsert_and_delete_templates [OF management_inv_new surjective_pairing id, of demo_lib 5 "[''v1'']" "[]" "''t''",
      folded demo_stored_def]
  show ?thesis by blast
qed

definition demo_env :: "time template_env" where
  "demo_env = \<lparr>te_now = (\<lambda>w. (w, w)), te_uuid = (\<lambda>w. (''0a1b2c3d-0000'', w)), te_rand24 = (\<lambda>w. (Inr [], w)),
     te_lib = demo_lib, te_ListTemplates = (\<lambda>w. (Inr [], w)), te_BuildTemplate = None, te_BuildStarter = True\<rparr>"

definition demo_tapp :: "time tapp" where
  "demo_tapp = \<lparr>tp_management = demo_stored, tp_builds = newTemplateBuildManager 1, tp_world = 7\<rparr>"

lemma demo_tapp_inv [simp]: "templates_inv demo_tapp"
  using management_inv_Upsert [OF management_inv_new, of demo_lib 5 demo_template "[''v1'']" "[]" _ demo_stored]
  by (simp add: demo_tapp_def templates_inv_def bm_inv_new demo_stored_def prod_eq_iff)

definition demo_steps :: build_start where
  "demo_steps = \<lparr>bs_Force = None, bs_FromImage = Some ''alpine'', bs_FromTemplate = None, bs_ReadyCmd = None,
     bs_StartCmd = None, bs_Steps = None\<rparr>"

text \<open>a listing shows no deleted template and every managed one exactly as the store has it, and changes
  neither store nor builds.\<close>

lemma listing_is_complete:
  assumes "defaultListTemplates env s = (Inr ts, s')" and "templates_inv s"
  shows "(\<forall>t \<in> set ts. \<not> is_deleted (tp_management s) (gt_TemplateID t)) \<and>
    (\<forall>k t. GetManagedTemplate k (tp_management s) = Some t \<longrightarrow> t \<in> set ts) \<and>
    tp_management s' = tp_management s \<and> tp_builds s' = tp_builds s"
  using ListTemplates_spec [OF assms] by (simp add: world_only_def)

theorem listing_is_complete_witness:
  "\<exists>ts. fst (defaultListTemplates demo_env demo_tapp) = Inr ts \<and>
     (\<forall>t \<in> set ts. \<not> is_deleted (tp_management demo_tapp) (gt_TemplateID t))"
proof -
  have "succeeds (defaultListTemplates demo_env demo_tapp)" by code_simp
  then obtain ts s' where run: "defaultListTemplates demo_env demo_tapp = (Inr ts, s')" by (rule succeedsE) auto
  from listing_is_complete [OF run demo_tapp_inv] run show ?thesis by simp
qed


definition demo_started :: "(go_error + build_job option) \<times> time tapp" where
  "demo_started = defaultStartTemplateBuildV2 demo_env ''t'' ''b1'' demo_steps demo_tapp"


text \<open>C30: the end of a background build always frees its slot and leaves the template in a final state,
  never building: a build that failed, or that was cancelled although it succeeded, is recorded as an
  error under its build id.\<close>

theorem finished_builds_are_final:
  assumes "templates_inv s" and "bj_task job < length (bm_tasks (tp_builds s))"
    and "\<not> tk_returned (bm_tasks (tp_builds s) ! bj_task job)"
    and "TrimSpace (gt_TemplateID (bj_template job)) = k" and "k \<noteq> []"
    and "TrimSpace (gt_TemplateID built) = [] \<or> TrimSpace (gt_TemplateID built) = k"
  shows "templates_inv (finish_build env job built logs err s) \<and>
    tk_returned (bm_tasks (tp_builds (finish_build env job built logs err s)) ! bj_task job) \<and>
    bm_wg (tp_builds (finish_build env job built logs err s)) < bm_wg (tp_builds s) \<and>
    (\<exists>g. GetManagedTemplate k (tp_management (finish_build env job built logs err s)) = Some g \<and>
       gt_BuildStatus g \<noteq> BuildStatusBuilding \<and>
       (err \<noteq> None \<or> tk_ctx_done (bm_tasks (tp_builds s) ! bj_task job) \<longrightarrow>
          gt_BuildStatus g = BuildStatusError \<and> gt_BuildID g = bj_buildID job))"
  using assms by (rule finish_build_spec)

definition demo_job :: build_job where
  "demo_job = (case fst demo_started of Inr (Some job) \<Rightarrow> job
     | _ \<Rightarrow> \<lparr>bj_task = 9, bj_template = demo_template, bj_buildID = [], bj_files = [], bj_startLogs = []\<rparr>)"

theorem finished_builds_are_final_witness:
  "\<exists>g. GetManagedTemplate ''t'' (tp_management (finish_build demo_env demo_job demo_template [] (Some engine_down) (snd demo_started))) = Some g \<and>
     gt_BuildStatus g = BuildStatusError"
proof -
  have inv: "templates_inv (snd demo_started)"
    using startV2_spec [of demo_env "''t''" "''b1''" demo_steps demo_tapp "fst demo_started" "snd demo_started"]
    by (simp add: demo_started_def)
  have t: "bj_task demo_job < length (bm_tasks (tp_builds (snd demo_started)))"
    "\<not> tk_returned (bm_tasks (tp_builds (snd demo_started)) ! bj_task demo_job)"
    "TrimSpace (gt_TemplateID (bj_template demo_job)) = ''t''" "TrimSpace (gt_TemplateID demo_template) = ''t''"
    by code_simp+
  from finished_builds_are_final [OF inv t(1,2,3), of demo_template demo_env "[]" "Some engine_down"] t(4) show ?thesis by auto
qed

text \<open>the id made for a template from its name is either generated from a UUID, or is not empty, holds
  only lower-case letters, digits, \<open>-\<close>, \<open>_\<close> and \<open>.\<close>, and neither begins nor ends with a dash.\<close>

lemma template_ids_are_clean:
  "localTemplateID uuid name = generated_name uuid \<or>
   (localTemplateID uuid name \<noteq> [] \<and> list_all template_id_char (localTemplateID uuid name) \<and>
    hd (localTemplateID uuid name) \<noteq> CHR ''-'' \<and> last (localTemplateID uuid name) \<noteq> CHR ''-'')"
  by (rule localTemplateID_generated_or_clean)

text \<open>Normalising tags yields exactly the trimmed non-empty ones, each once and in order, and doing it
  again changes nothing.\<close>

lemma tags_are_normalized:
  "sorted (normalizedTags ts) \<and> distinct (normalizedTags ts) \<and>
   set (normalizedTags ts) = {t \<in> TrimSpace ` set ts. t \<noteq> []} \<and> normalizedTags (normalizedTags ts) = normalizedTags ts"
  using normalizedTags_props [of ts] normalizedTags_idem [of ts] by blast

text \<open>The in-place loop that turns a page of build logs around reverses it.\<close>

lemma log_reversal_is_rev: "reverseBuildLogs logs = rev logs"
  by (rule reverseBuildLogs_rev)

end
