(* ===== verification/Http.thy ===== *)
theory Http
  imports TemplateFiles
begin

text \<open>
  The parts of \<open>net/http\<close>, gin and \<open>strconv\<close> the handlers use: responses, the size limit of a request
  body, JSON binding (the decoder itself is a parameter), query parameters, and the parsing of
  integers and booleans.
\<close>

section \<open>Responses\<close>

text \<open>
  A handler writes at most one response. Its body is an error, the JSON encoding of a value of the
  handler's own type \<open>'b\<close>, a text, or the bytes of a file.
\<close>

datatype 'b body =
    NoBody
  | ErrorResponse nat string
  | Json 'b
  | Text string
  | FileBytes string

record 'b response =
  rp_status :: nat
  rp_headers :: "(string, string) gomap"
  rp_body :: "'b body"

definition c_JSON :: "nat \<Rightarrow> 'b \<Rightarrow> 'b response" where
  "c_JSON status v = \<lparr>rp_status = status, rp_headers = [], rp_body = Json v\<rparr>"

definition c_String :: "nat \<Rightarrow> string \<Rightarrow> 'b response" where
  "c_String status t = \<lparr>rp_status = status, rp_headers = [], rp_body = Text t\<rparr>"

definition c_Status :: "nat \<Rightarrow> 'b response" where
  "c_Status status = \<lparr>rp_status = status, rp_headers = [], rp_body = NoBody\<rparr>"

definition writeError :: "nat \<Rightarrow> string \<Rightarrow> 'b response" where
  "writeError status message = \<lparr>rp_status = status, rp_headers = [], rp_body = ErrorResponse status message\<rparr>"

definition writeGatewayError :: "go_error \<Rightarrow> nat \<Rightarrow> 'b response" where
  "writeGatewayError err fb = writeError (gatewayErrorStatus err fb) (error_text err)"

lemmas response_defs = c_JSON_def c_String_def c_Status_def writeError_def writeGatewayError_def

section \<open>Request bodies\<close>

text \<open>
  \<open>http.MaxBytesReader\<close> delivers at most the limit and then its error; the error's type is known by
  its text.
\<close>

definition http_MaxBytesError :: go_error where
  "http_MaxBytesError = Sentinel ''http: request body too large''"

definition MaxBytesReader :: "int \<Rightarrow> upload_body \<Rightarrow> upload_body" where
  "MaxBytesReader limit body =
     (if int (length (ub_data body)) > limit
      then \<lparr>ub_data = take (nat limit) (ub_data body), ub_end = MaxBytesError\<rparr> else body)"

definition maxRequestBodyBytes :: int where
  "maxRequestBodyBytes = 1048576"

definition io_EOF :: go_error where
  "io_EOF = Sentinel ''EOF''"

text \<open>The decoder reads a body and gives the value or an error.\<close>

definition bindJSON :: "(upload_body \<Rightarrow> go_error + 'r) \<Rightarrow> upload_body \<Rightarrow> go_error + 'r" where
  "bindJSON decode body = decode (MaxBytesReader maxRequestBodyBytes body)"

text \<open>\<open>None\<close> is a nil body; the second component is \<open>ContentLength\<close>, -1 if it is not known.\<close>

definition bindOptionalJSON :: "(upload_body \<Rightarrow> go_error + 'r) \<Rightarrow> 'r \<Rightarrow> (upload_body \<times> int) option \<Rightarrow> go_error + 'r" where
  "bindOptionalJSON decode zero body =
     (case body of
        None \<Rightarrow> Inr zero
      | Some (b, contentLength) \<Rightarrow>
          (if contentLength = 0 then Inr zero
           else case bindJSON decode b of
                  Inl err \<Rightarrow> (if errors_Is err io_EOF then Inr zero else Inl err)
                | Inr v \<Rightarrow> Inr v))"

lemma MaxBytesReader_bound: "0 \<le> limit \<Longrightarrow> int (length (ub_data (MaxBytesReader limit body))) \<le> limit"
  by (simp add: MaxBytesReader_def)

section \<open>Numbers and booleans\<close>

text \<open>
  \<open>strconv.ParseInt(s, base, 0)\<close> for a base of at most 10 on a 64-bit machine: an optional sign, then
  digits of the base, at least one; a value out of the range of \<open>int64\<close> is an error.
\<close>

fun parse_digits :: "int \<Rightarrow> int \<Rightarrow> string \<Rightarrow> int option" where
  "parse_digits base acc [] = Some acc"
| "parse_digits base acc (c # cs) =
     (let d = of_char c - 48 in if 0 \<le> d \<and> d < base then parse_digits base (acc * base + d) cs else None)"

definition ParseInt :: "string \<Rightarrow> int \<Rightarrow> int option" where
  "ParseInt s base =
     (let neg = (s \<noteq> [] \<and> hd s = CHR ''-'');
          rest = (if s \<noteq> [] \<and> (hd s = CHR ''+'' \<or> hd s = CHR ''-'') then tl s else s)
      in if rest = [] then None
         else case parse_digits base 0 rest of
                None \<Rightarrow> None
              | Some n \<Rightarrow>
                  (if neg then (if n > 2 ^ 63 then None else Some (- n))
                   else if n \<ge> 2 ^ 63 then None else Some n))"

definition Atoi :: "string \<Rightarrow> int option" where
  "Atoi s = ParseInt s 10"

definition ParseBool :: "string \<Rightarrow> bool option" where
  "ParseBool s =
     (if s \<in> {''1'', ''t'', ''T'', ''TRUE'', ''true'', ''True''} then Some True
      else if s \<in> {''0'', ''f'', ''F'', ''FALSE'', ''false'', ''False''} then Some False
      else None)"

text \<open>Reading back printed digits, in any base up to 10.\<close>

fun digits_base :: "nat \<Rightarrow> nat \<Rightarrow> string" where
  "digits_base b n = (if b < 2 \<or> n < b then [char_of (48 + n)] else digits_base b (n div b) @ [char_of (48 + n mod b)])"

declare digits_base.simps [simp del]

lemma digits_base_10: "digits_base 10 n = nat_digits n"
  by (induction n rule: nat_digits.induct) (simp add: nat_digits.simps [of n for n] digits_base.simps [of 10])

lemma parse_digits_append:
  "parse_digits b acc (xs @ ys) = (case parse_digits b acc xs of None \<Rightarrow> None | Some a \<Rightarrow> parse_digits b a ys)"
  by (induction b acc xs rule: parse_digits.induct) (auto simp: Let_def)

lemma of_char_digit: "d < 10 \<Longrightarrow> of_char (char_of (48 + d :: nat)) - (48 :: int) = int d"
proof -
  assume "d < 10"
  then have "of_char (char_of (48 + d :: nat) :: char) = (int (48 + d)) mod 256"
    by (simp add: of_char_of of_nat_of_char [symmetric, where 'a = int] take_bit_eq_mod of_nat_mod)
  with \<open>d < 10\<close> show ?thesis by simp
qed

lemma parse_digits_print:
  assumes "2 \<le> b" and "b \<le> 10"
  shows "parse_digits (int b) 0 (digits_base b n) = Some (int n)"
proof (induction n rule: less_induct)
  case (less n)
  show ?case
  proof (cases "n < b")
    case True
    with assms of_char_digit [of n] show ?thesis by (subst digits_base.simps) (simp add: Let_def)
  next
    case False
    have d: "n mod b < 10" "n mod b < b" using assms by (auto intro: less_le_trans [OF mod_less_divisor])
    have "n div b < n" using False assms by (intro div_less_dividend) auto
    with False assms less of_char_digit [OF d(1)] d(2) show ?thesis
      by (subst digits_base.simps) (simp add: parse_digits_append Let_def flip: of_nat_mult of_nat_add)
  qed
qed

lemma digits_base_digits:
  assumes "2 \<le> b" and "b \<le> 10"
  shows "digits_base b n \<noteq> [] \<and> set (digits_base b n) \<subseteq> set ''0123456789''"
proof (induction n rule: less_induct)
  case (less n)
  have digit: "char_of (48 + d) \<in> set ''0123456789''" if "d < (10 :: nat)" for d
  proof -
    have "\<forall>d \<in> {0..<10 :: nat}. char_of (48 + d) \<in> set ''0123456789''" by code_simp
    with that show ?thesis by simp
  qed
  show ?case
  proof (cases "n < b")
    case True
    with assms digit [of n] show ?thesis by (subst (1 2) digits_base.simps) simp
  next
    case False
    have "n mod b < 10" using assms by (auto intro: less_le_trans [OF mod_less_divisor])
    moreover have "n div b < n" using False assms by (intro div_less_dividend) auto
    ultimately show ?thesis using False assms less digit [of "n mod b"]
      by (subst (1 2) digits_base.simps) auto
  qed
qed

lemma ParseInt_print:
  assumes "2 \<le> b" and "b \<le> 10" and "n < 2 ^ 63"
  shows "ParseInt (digits_base b n) (int b) = Some (int n)"
proof -
  note dg = digits_base_digits [OF assms(1,2), of n]
  then have "hd (digits_base b n) \<in> set ''0123456789''" by (auto intro: subsetD [OF _ hd_in_set])
  then have "hd (digits_base b n) \<noteq> CHR ''+''" "hd (digits_base b n) \<noteq> CHR ''-''" by auto
  moreover have "int n < 2 ^ 63" using assms(3) by (metis of_nat_less_iff of_nat_numeral of_nat_power)
  ultimately show ?thesis using dg assms by (simp add: ParseInt_def Let_def parse_digits_print)
qed

end
