(* ===== verification/Observability.thy ===== *)
theory Observability
  imports Walks Templates
begin

text \<open>
  Metrics, logs, snapshots, nodes and teams (\<open>gateway_callbacks.go\<close>). The optional interfaces of the
  runtime are option parameters. Seconds are \<open>int64\<close> values; a request's bounds are checked to be
  non-negative before they are used, so the window arithmetic does not wrap and is done on \<open>int\<close>.
  A \<open>float32\<close> quotient is kept as its two operands.
\<close>

section \<open>Sandbox metrics\<close>

definition localTeamID :: string where
  "localTeamID = ''00000000-0000-0000-0000-000000000001''"

definition localNodeID :: string where
  "localNodeID = ''local''"

record metrics_request =
  mq_Start :: "int option"
  mq_End :: "int option"

record sandbox_metric =
  sm_CpuCount :: int
  sm_CpuUsedPct :: int
  sm_DiskTotal :: int
  sm_DiskUsed :: int
  sm_MemCache :: int
  sm_MemTotal :: int
  sm_MemUsed :: int
  sm_Timestamp :: time
  sm_TimestampUnix :: int

definition sandboxCPUCount :: "sandbox_record \<Rightarrow> int" where
  "sandboxCPUCount record = (if sr_CPUCount record > 0 then sr_CPUCount record else 1)"

definition sandboxDiskSizeMB :: "sandbox_record \<Rightarrow> int" where
  "sandboxDiskSizeMB record = (if sr_DiskSizeMB record > 0 then sr_DiskSizeMB record else 0)"

definition sandboxMemoryMB :: "sandbox_record \<Rightarrow> int" where
  "sandboxMemoryMB record = (if sr_MemoryMB record > 0 then sr_MemoryMB record else 512)"

definition validateMetricsRequest :: "metrics_request \<Rightarrow> go_error option" where
  "validateMetricsRequest req =
     (if (case mq_Start req of Some a \<Rightarrow> a < 0 | None \<Rightarrow> False)
        then Some (bad_request ''start must be greater than or equal to 0'')
      else if (case mq_End req of Some b \<Rightarrow> b < 0 | None \<Rightarrow> False)
        then Some (bad_request ''end must be greater than or equal to 0'')
      else (case (mq_Start req, mq_End req) of
              (Some a, Some b) \<Rightarrow>
                (if a > b then Some (bad_request ''start must be less than or equal to end'') else None)
            | _ \<Rightarrow> None))"

text \<open>The team request has the same fields and checks.\<close>

definition validateTeamMetricsRequest :: "metrics_request \<Rightarrow> go_error option" where
  "validateTeamMetricsRequest req =
     (if (case mq_Start req of Some a \<Rightarrow> a < 0 | None \<Rightarrow> False)
        then Some (bad_request ''start must be greater than or equal to 0'')
      else if (case mq_End req of Some b \<Rightarrow> b < 0 | None \<Rightarrow> False)
        then Some (bad_request ''end must be greater than or equal to 0'')
      else (case (mq_Start req, mq_End req) of
              (Some a, Some b) \<Rightarrow>
                (if a > b then Some (bad_request ''start must be less than or equal to end'') else None)
            | _ \<Rightarrow> None))"

definition sandboxMetricFromRecord :: "sandbox_record \<Rightarrow> time \<Rightarrow> sandbox_metric" where
  "sandboxMetricFromRecord record timestamp =
     \<lparr>sm_CpuCount = sandboxCPUCount record, sm_CpuUsedPct = 0,
      sm_DiskTotal = sandboxDiskSizeMB record * 1024 * 1024, sm_DiskUsed = 0, sm_MemCache = 0,
      sm_MemTotal = sandboxMemoryMB record * 1024 * 1024, sm_MemUsed = 0,
      sm_Timestamp = timestamp, sm_TimestampUnix = time_Unix timestamp\<rparr>"

definition metricMatchesRange :: "sandbox_metric \<Rightarrow> metrics_request \<Rightarrow> bool" where
  "metricMatchesRange metric req =
     (if (case mq_Start req of Some a \<Rightarrow> sm_TimestampUnix metric < a | None \<Rightarrow> False) then False
      else if (case mq_End req of Some b \<Rightarrow> sm_TimestampUnix metric > b | None \<Rightarrow> False) then False
      else True)"

type_synonym 'w metrics_runtime =
  "(sandbox_record \<Rightarrow> metrics_request \<Rightarrow> 'w \<Rightarrow> (go_error + sandbox_metric list) \<times> 'w) option"

definition defaultGetSandboxMetrics :: "'w runtime \<Rightarrow> 'w metrics_runtime \<Rightarrow> sandbox_id \<Rightarrow> metrics_request \<Rightarrow>
    ('w, sandbox_metric list) op" where
  "defaultGetSandboxMetrics rt metricsRuntime sandboxID req s =
     (case validateMetricsRequest req of
        Some err \<Rightarrow> (Inl err, s)
      | None \<Rightarrow>
          (case activeSandboxRecord rt sandboxID s of
             (Inl err, s) \<Rightarrow> (Inl err, s)
           | (Inr record, s) \<Rightarrow>
               (case metricsRuntime of
                  Some get \<Rightarrow> world_call (get record req) s
                | None \<Rightarrow>
                    (case world_call (rt_now rt) s of (now, s) \<Rightarrow>
                      (let metric = sandboxMetricFromRecord record now
                       in (Inr (if \<not> metricMatchesRange metric req then [] else [metric]), s))))))"

definition apiSandboxState :: "string \<Rightarrow> string" where
  "apiSandboxState state = (if ToLower state = Paused then Paused else Running)"

text \<open>The loop over the requested ids, with the ids seen so far and the result so far.\<close>

fun collect_metrics :: "'w runtime \<Rightarrow> 'w metrics_runtime \<Rightarrow> string list \<Rightarrow> string list \<Rightarrow>
    (string, sandbox_metric) gomap \<Rightarrow> ('w, (string, sandbox_metric) gomap) op" where
  "collect_metrics rt metricsRuntime seen [] result s = (Inr result, s)"
| "collect_metrics rt metricsRuntime seen (i # ids) result s =
     (let sandboxID = TrimSpace i
      in if sandboxID = [] then (Inl (bad_request ''sandbox_ids must not contain empty values''), s)
         else if sandboxID \<in> set seen then collect_metrics rt metricsRuntime seen ids result s
         else
           (case activeSandboxRecord rt sandboxID s of
              (Inl err, s) \<Rightarrow>
                (if asNotFoundGatewayError (Some err)
                 then collect_metrics rt metricsRuntime (sandboxID # seen) ids result s else (Inl err, s))
            | (Inr record, s) \<Rightarrow>
                (if apiSandboxState (sr_State record) \<noteq> Running
                 then collect_metrics rt metricsRuntime (sandboxID # seen) ids result s
                 else case defaultGetSandboxMetrics rt metricsRuntime sandboxID \<lparr>mq_Start = None, mq_End = None\<rparr> s of
                        (Inl err, s) \<Rightarrow> (Inl err, s)
                      | (Inr metrics, s) \<Rightarrow>
                          collect_metrics rt metricsRuntime (sandboxID # seen) ids
                            (if length metrics > 0 then AList.update sandboxID (metrics ! (length metrics - 1)) result
                             else result) s)))"

definition defaultListSandboxMetrics :: "'w runtime \<Rightarrow> 'w metrics_runtime \<Rightarrow> string list \<Rightarrow>
    ('w, (string, sandbox_metric) gomap) op" where
  "defaultListSandboxMetrics rt metricsRuntime sandboxIDs s =
     (if length sandboxIDs = 0 then (Inl (bad_request ''sandbox_ids is required''), s)
      else if length sandboxIDs > 100 then (Inl (bad_request ''sandbox_ids must contain at most 100 items''), s)
      else collect_metrics rt metricsRuntime [] sandboxIDs [] s)"

section \<open>Snapshots and logs\<close>

text \<open>\<open>'r\<close> is the snapshot request's body, \<open>'i\<close> the snapshot's description: the code passes both on.\<close>

record ('w, 'r, 'i) snapshotter =
  sn_Create :: "sandbox_record \<Rightarrow> 'r \<Rightarrow> 'w \<Rightarrow> (go_error + 'i) \<times> 'w"
  sn_List :: "string \<Rightarrow> string \<Rightarrow> int \<Rightarrow> 'w \<Rightarrow> (go_error + 'i list) \<times> 'w"

definition no_snapshots :: go_error where
  "no_snapshots = GatewayError 501 ''snapshots are not supported by this runtime''"

definition defaultCreateSandboxSnapshot :: "'w runtime \<Rightarrow> ('w, 'r, 'i) snapshotter option \<Rightarrow> sandbox_id \<Rightarrow> 'r \<Rightarrow>
    ('w, 'i) op" where
  "defaultCreateSandboxSnapshot rt snapshotter sandboxID req s =
     (case activeSandboxRecord rt sandboxID s of
        (Inl err, s) \<Rightarrow> (Inl err, s)
      | (Inr record, s) \<Rightarrow>
          (case snapshotter of
             None \<Rightarrow> (Inl no_snapshots, s)
           | Some sn \<Rightarrow> world_call (sn_Create sn record req) s))"

record snapshot_list_request =
  sl_SandboxID :: string
  sl_NextToken :: string
  sl_Limit :: int

definition defaultListSnapshots :: "('w, 'r, 'i) snapshotter option \<Rightarrow> snapshot_list_request \<Rightarrow> ('w, 'i list) op" where
  "defaultListSnapshots snapshotter req s =
     (case snapshotter of
        None \<Rightarrow> (Inl no_snapshots, s)
      | Some sn \<Rightarrow> world_call (sn_List sn (sl_SandboxID req) (sl_NextToken req) (sl_Limit req)) s)"

record logs_request =
  lq_Cursor :: "int option"
  lq_Start :: "int option"
  lq_Limit :: "32 word"
  lq_Direction :: "string option"
  lq_Level :: "string option"
  lq_Search :: "string option"

record runtime_log_entry =
  le_Timestamp :: time
  le_Level :: string
  le_Message :: string
  le_Fields :: "(string, string) gomap"

definition defaultGetSandboxLogs :: "'w runtime \<Rightarrow>
    (runtime_info \<Rightarrow> logs_request \<Rightarrow> 'w \<Rightarrow> (go_error + runtime_log_entry list) \<times> 'w) option \<Rightarrow>
    sandbox_id \<Rightarrow> logs_request \<Rightarrow> ('w, runtime_log_entry list) op" where
  "defaultGetSandboxLogs rt logRuntime sandboxID req s =
     (case activeSandboxRecord rt sandboxID s of
        (Inl err, s) \<Rightarrow> (Inl err, s)
      | (Inr record, s) \<Rightarrow>
          (case logRuntime of
             None \<Rightarrow> (Inr [], s)
           | Some get \<Rightarrow> world_call (get (sr_RuntimeInfo record) req) s))"

section \<open>Team metrics\<close>

record team_metric =
  tm_ConcurrentSandboxes :: "32 word"
  tm_SandboxStartRate :: "int \<times> int"  \<comment> \<open>sandboxes started over seconds\<close>
  tm_Timestamp :: time
  tm_TimestampUnix :: int

definition count_running :: "sandbox_record list \<Rightarrow> 32 word" where
  "count_running records = fold (\<lambda>r n. if apiSandboxState (sr_State r) = Running then n + 1 else n) records 0"

definition teamMetricSnapshot :: "sandbox_store \<Rightarrow> time \<Rightarrow> metrics_request \<Rightarrow> team_metric" where
  "teamMetricSnapshot m timestamp req =
     (let windowEnd = (case mq_End req of Some b \<Rightarrow> b | None \<Rightarrow> time_Unix timestamp);
          windowStart = (case mq_Start req of Some a \<Rightarrow> a | None \<Rightarrow> windowEnd - 60);
          windowStart = (if windowStart > windowEnd then windowEnd else windowStart);
          started = fold (\<lambda>r n. let createdAt = time_Unix (sr_CreatedAt r)
                                in if createdAt \<ge> windowStart \<and> createdAt \<le> windowEnd then n + 1 else n)
                      (List_sandboxes m) 0;
          duration = windowEnd - windowStart;
          duration = (if duration \<le> 0 then 1 else duration)
      in \<lparr>tm_ConcurrentSandboxes = count_running (List_sandboxes m), tm_SandboxStartRate = (started, duration),
          tm_Timestamp = timestamp, tm_TimestampUnix = time_Unix timestamp\<rparr>)"

definition teamMetricMatchesRange :: "team_metric \<Rightarrow> metrics_request \<Rightarrow> bool" where
  "teamMetricMatchesRange metric req =
     (if (case mq_Start req of Some a \<Rightarrow> tm_TimestampUnix metric < a | None \<Rightarrow> False) then False
      else if (case mq_End req of Some b \<Rightarrow> tm_TimestampUnix metric > b | None \<Rightarrow> False) then False
      else True)"

definition defaultGetTeamMetrics :: "'w runtime \<Rightarrow> metrics_request \<Rightarrow> ('w, team_metric list) op" where
  "defaultGetTeamMetrics rt req s =
     (case validateTeamMetricsRequest req of
        Some err \<Rightarrow> (Inl err, s)
      | None \<Rightarrow>
          (case world_call (rt_now rt) s of (now, s) \<Rightarrow>
            (let metric = teamMetricSnapshot (a_store s) now req
             in (Inr (if \<not> teamMetricMatchesRange metric req then [] else [metric]), s))))"

text \<open>The value is a quotient: the running sandboxes over one, or the start rate.\<close>

definition defaultGetTeamMetricMax :: "'w runtime \<Rightarrow> metrics_request \<Rightarrow> string \<Rightarrow> ('w, time \<times> int \<times> int \<times> int) op" where
  "defaultGetTeamMetricMax rt req metricName s =
     (case validateTeamMetricsRequest req of
        Some err \<Rightarrow> (Inl err, s)
      | None \<Rightarrow>
          (case world_call (rt_now rt) s of (now, s) \<Rightarrow>
            (let metric = teamMetricSnapshot (a_store s) now req
             in if metricName = ''concurrent_sandboxes''
                then (Inr (tm_Timestamp metric, tm_TimestampUnix metric, sint (tm_ConcurrentSandboxes metric), 1), s)
                else if metricName = ''sandbox_start_rate''
                then (Inr (tm_Timestamp metric, tm_TimestampUnix metric, fst (tm_SandboxStartRate metric),
                        snd (tm_SandboxStartRate metric)), s)
                else (Inl (bad_request (''unsupported team metric '' @ quoted metricName)), s))))"

section \<open>Nodes and teams\<close>

text \<open>What \<open>runtime.NumCPU\<close>, \<open>GOARCH\<close> and \<open>GOOS\<close> give.\<close>

record host_info =
  hi_NumCPU :: "32 word"
  hi_GOARCH :: string
  hi_GOOS :: string

record machine_info =
  mi_CpuArchitecture :: string
  mi_CpuFamily :: string
  mi_CpuModel :: string
  mi_CpuModelName :: string

record node_metrics =
  nm_AllocatedCPU :: "32 word"
  nm_AllocatedMemoryBytes :: "64 word"
  nm_CpuCount :: "32 word"
  nm_CpuPercent :: "32 word"
  nm_MemoryTotalBytes :: "64 word"
  nm_MemoryUsedBytes :: "64 word"

record node =
  no_ClusterID :: string
  no_Commit :: string
  no_CreateFails :: "64 word"
  no_CreateSuccesses :: "64 word"
  no_Id :: string
  no_MachineInfo :: machine_info
  no_Metrics :: node_metrics
  no_SandboxCount :: "32 word"
  no_ServiceInstanceID :: string
  no_Status :: string
  no_Version :: string

definition localMachineInfo :: "host_info \<Rightarrow> machine_info" where
  "localMachineInfo h = \<lparr>mi_CpuArchitecture = hi_GOARCH h, mi_CpuFamily = hi_GOOS h, mi_CpuModel = ''local'',
     mi_CpuModelName = ''local''\<rparr>"

definition localNodeMetrics :: "32 word \<Rightarrow> 32 word \<Rightarrow> node_metrics" where
  "localNodeMetrics cpuCount running =
     \<lparr>nm_AllocatedCPU = running, nm_AllocatedMemoryBytes = ucast running * (512 * 1024 * 1024), nm_CpuCount = cpuCount,
      nm_CpuPercent = 0, nm_MemoryTotalBytes = 0, nm_MemoryUsedBytes = 0\<rparr>"

definition localNode :: "host_info \<Rightarrow> sandbox_store \<Rightarrow> management \<Rightarrow> node" where
  "localNode h m mgmt =
     (let records = List_sandboxes m; running = count_running records
      in \<lparr>no_ClusterID = localTeamID, no_Commit = ''local'', no_CreateFails = 0,
          no_CreateSuccesses = of_nat (length records), no_Id = localNodeID, no_MachineInfo = localMachineInfo h,
          no_Metrics = localNodeMetrics (hi_NumCPU h) running, no_SandboxCount = running,
          no_ServiceInstanceID = ''e2b-local'', no_Status = NodeStatus localNodeID mgmt, no_Version = defaultEnvdVersion\<rparr>)"

definition defaultListNodes :: "host_info \<Rightarrow> sandbox_store \<Rightarrow> management \<Rightarrow> node list" where
  "defaultListNodes h m mgmt = [localNode h m mgmt]"

definition node_not_found :: "string \<Rightarrow> go_error" where
  "node_not_found nodeID = GatewayError 404 (''node '' @ nodeID @ '' not found'')"

text \<open>The node's detail is the node and the builds of its templates; a listing that fails gives none.\<close>

definition cached_builds :: "gateway_template list \<Rightarrow> string list" where
  "cached_builds templates =
     fold (\<lambda>t cached. if gt_BuildID t \<noteq> [] then appendUniqueStrings cached [gt_BuildID t] else cached) templates []"

definition defaultGetNode :: "'w template_env \<Rightarrow> host_info \<Rightarrow> sandbox_store \<Rightarrow> string \<Rightarrow> ('w, string list \<times> node) top" where
  "defaultGetNode env h m nodeID s =
     (if TrimSpace nodeID \<noteq> localNodeID then (Inl (node_not_found nodeID), s)
      else let nd = localNode h m (tp_management s)
           in case defaultListTemplates env s of
                (Inl err, s) \<Rightarrow> (Inr ([], nd), s)
              | (Inr templates, s) \<Rightarrow> (Inr (cached_builds templates, nd), s))"

definition validNodeStatus :: "string \<Rightarrow> bool" where
  "validNodeStatus status \<longleftrightarrow>
     status \<in> {''connecting'', ''draining'', ''ready'', ''standby'', ''unhealthy''}"

definition defaultSetNodeStatus :: "string \<Rightarrow> string \<Rightarrow> management \<Rightarrow> go_error option \<times> management" where
  "defaultSetNodeStatus nodeID status mgmt =
     (if TrimSpace nodeID \<noteq> localNodeID then (Some (node_not_found nodeID), mgmt)
      else if \<not> validNodeStatus status then (Some (bad_request (''unsupported node status '' @ quoted status)), mgmt)
      else SetNodeStatus localNodeID status mgmt)"

record team =
  lt_ApiKey :: string
  lt_IsDefault :: bool
  lt_Name :: string
  lt_TeamID :: string

definition defaultListTeams :: "team list" where
  "defaultListTeams = [\<lparr>lt_ApiKey = ''local'', lt_IsDefault = True, lt_Name = ''local'', lt_TeamID = localTeamID\<rparr>]"

section \<open>What the listings and snapshots hold\<close>

lemma activeSandboxRecord_walk:
  assumes "activeSandboxRecord rt k s = (res, s')" and "app_base s"
  shows "app_trans k s s'"
  using assms active_trans [of rt k s res s'] by (cases "lockSandbox k s") (auto simp: activeSandboxRecord_def)

lemma getMetrics_trans:
  assumes "defaultGetSandboxMetrics rt mr k req s = (res, s')" and "app_base s"
  shows "app_trans k s s'"
  using assms
  by (auto simp: defaultGetSandboxMetrics_def Let_def split: option.splits prod.splits sum.splits
      dest!: activeSandboxRecord_walk world_call_trans [where k = k] intro: app_trans_trans)

lemma app_walk_mono: "app_walk K s s' \<Longrightarrow> K \<subseteq> L \<Longrightarrow> app_walk L s s'"
  by (auto simp: app_walk_def)

lemma app_walk_step:
  assumes "app_trans k s s1" and "app_walk K s1 s'" and "k \<in> M" and "K \<subseteq> M"
  shows "app_walk M s s'"
  using app_walk_trans [OF app_walk_single [OF assms(1)] assms(2)] assms(3,4) by simp

text \<open>Only requested sandboxes are touched, and only their metrics are returned.\<close>

lemma collect_metrics_spec:
  assumes "collect_metrics rt mr seen ids result s = (res, s')" and "app_base s"
  shows "app_walk (TrimSpace ` set ids) s s' \<and>
    (\<forall>out. res = Inr out \<longrightarrow> (wf_map result \<longrightarrow> wf_map out) \<and>
       fst ` set out \<subseteq> fst ` set result \<union> TrimSpace ` set ids \<and> [] \<notin> TrimSpace ` set ids)"
  using assms
proof (induction rt mr seen ids result s arbitrary: res s' rule: collect_metrics.induct)
  case (1 rt mr seen result s)
  then show ?case by auto
next
  case (2 rt mr seen i ids result s)
  let ?k = "TrimSpace i"
  show ?case
  proof (cases "?k = []")
    case True
    with "2.prems" show ?thesis by auto
  next
    case ne: False
    show ?thesis
    proof (cases "?k \<in> set seen")
      case True
      with "2.prems"(1) ne have "collect_metrics rt mr seen ids result s = (res, s')" by simp
      note ih = "2.IH"(1) [OF refl ne True this "2.prems"(2)]
      from ih have "app_walk (TrimSpace ` set (i # ids)) s s'" by (auto intro: app_walk_mono)
      with ih ne show ?thesis by (simp add: subset_insertI2 le_supI2)
    next
      case new: False
      obtain a s1 where a: "activeSandboxRecord rt ?k s = (a, s1)" by (cases "activeSandboxRecord rt ?k s")
      note tr = activeSandboxRecord_walk [OF a "2.prems"(2)]
      note b1 = app_base_trans [OF tr "2.prems"(2)]
      show ?thesis
      proof (cases a)
        case (Inl e)
        show ?thesis
        proof (cases "asNotFoundGatewayError (Some e)")
          case True
          with "2.prems"(1) ne new a Inl have run: "collect_metrics rt mr (?k # seen) ids result s1 = (res, s')"
            by (simp add: Let_def)
          from "2.IH"(2) [OF refl ne new a [symmetric] Inl True run b1] tr ne show ?thesis
            by (auto intro: app_walk_step)
        next
          case False
          with "2.prems"(1) ne new a Inl tr show ?thesis by (auto simp: Let_def intro: app_walk_step)
        qed
      next
        case (Inr r)
        show ?thesis
        proof (cases "apiSandboxState (sr_State r) \<noteq> Running")
          case True
          with "2.prems"(1) ne new a Inr have run: "collect_metrics rt mr (?k # seen) ids result s1 = (res, s')"
            by (simp add: Let_def)
          from "2.IH"(3) [OF refl ne new a [symmetric] Inr True run b1] tr ne show ?thesis
            by (auto intro: app_walk_step)
        next
          case False
          let ?q = "\<lparr>mq_Start = None, mq_End = None\<rparr>"
          obtain m s2 where m: "defaultGetSandboxMetrics rt mr ?k ?q s1 = (m, s2)"
            by (cases "defaultGetSandboxMetrics rt mr ?k ?q s1")
          note tr2 = app_trans_trans [OF tr getMetrics_trans [OF m b1]]
          note b2 = app_base_trans [OF tr2 "2.prems"(2)]
          show ?thesis
          proof (cases m)
            case (Inl e)
            with "2.prems"(1) ne new a Inr False m tr2 show ?thesis by (auto simp: Let_def intro: app_walk_step)
          next
            case ms: (Inr ms)
            let ?res = "if length ms > 0 then AList.update ?k (ms ! (length ms - 1)) result else result"
            from "2.prems"(1) ne new a Inr False m ms have run: "collect_metrics rt mr (?k # seen) ids ?res s2 = (res, s')"
              by (simp add: Let_def)
            from "2.IH"(4) [OF refl ne new a [symmetric] Inr _ m [symmetric] ms run b2] False tr2 ne show ?thesis
              by (auto intro: app_walk_step simp: AList.dom_update split: if_splits)
          qed
        qed
      qed
    qed
  qed
qed

lemma fold_count: "fold (\<lambda>r n. if P r then n + 1 else n) rs (c :: 'a :: comm_semiring_1) = c + of_nat (length (filter P rs))"
  by (induction rs arbitrary: c) (simp_all add: algebra_simps)

lemma count_running_eq: "count_running rs = of_nat (length (filter (\<lambda>r. apiSandboxState (sr_State r) = Running) rs))"
  using fold_count [of "\<lambda>r. apiSandboxState (sr_State r) = Running" rs 0] by (simp add: count_running_def)

text \<open>The start rate's operands: at most all sandboxes, over at least one second.\<close>

lemma team_rate_bounds:
  "0 \<le> fst (tm_SandboxStartRate (teamMetricSnapshot m t req)) \<and>
   fst (tm_SandboxStartRate (teamMetricSnapshot m t req)) \<le> int (length m) \<and>
   1 \<le> snd (tm_SandboxStartRate (teamMetricSnapshot m t req))"
proof -
  have "fold (\<lambda>r n. let createdAt = time_Unix (sr_CreatedAt r) in if createdAt \<ge> a \<and> createdAt \<le> b then n + 1 else n)
      (List_sandboxes m) (0 :: int)
    = int (length (filter (\<lambda>r. time_Unix (sr_CreatedAt r) \<ge> a \<and> time_Unix (sr_CreatedAt r) \<le> b) (List_sandboxes m)))" for a b
    using fold_count [of "\<lambda>r. time_Unix (sr_CreatedAt r) \<ge> a \<and> time_Unix (sr_CreatedAt r) \<le> b" "List_sandboxes m" "0 :: int"]
    by (simp add: Let_def)
  moreover have "length (filter P (List_sandboxes m)) \<le> length m" for P
    by (rule order_trans [OF length_filter_le]) (simp add: List_sandboxes_def)
  ultimately show ?thesis by (simp add: teamMetricSnapshot_def Let_def)
qed

text \<open>The memory figure of a node does not wrap around.\<close>

lemma allocated_memory_exact:
  "unat (nm_AllocatedMemoryBytes (localNodeMetrics c running)) = unat running * 536870912"
proof -
  have r: "unat running < 2 ^ 32" using unsigned_less [of running] by simp
  have "unat (ucast running * (536870912 :: 64 word)) = unat running * 536870912 mod 2 ^ 64"
    by (simp add: unat_word_ariths unsigned_ucast_eq take_bit_eq_mod mod_mult_left_eq)
  also have "\<dots> = unat running * 536870912" using r by (intro mod_less) simp
  finally show ?thesis by (simp add: localNodeMetrics_def)
qed

text \<open>A node's status is always one of the five known ones.\<close>

definition node_statuses_ok :: "management \<Rightarrow> bool" where
  "node_statuses_ok mgmt \<longleftrightarrow> (\<forall>n st. map_of (ms_nodeStatuses mgmt) n = Some st \<longrightarrow> validNodeStatus st)"

lemma set_status_ok: "node_statuses_ok mgmt \<Longrightarrow> node_statuses_ok (snd (defaultSetNodeStatus n st mgmt))"
  by (auto simp: node_statuses_ok_def defaultSetNodeStatus_def SetNodeStatus_def saveLocked_def Let_def
      simp del: map_of_eq_Some_iff)

lemma node_status_valid: "node_statuses_ok mgmt \<Longrightarrow> validNodeStatus (NodeStatus n mgmt)"
  by (auto simp: node_statuses_ok_def NodeStatus_def map_read_def Let_def validNodeStatus_def NodeStatusReady_def
      simp del: map_of_eq_Some_iff split: option.splits)

end
