(* ===== verification/GoEffects.thy ===== *)
theory GoEffects
  imports GoBase
begin

text \<open>
  Sequences of fallible calls over a state: what a Go function body with its \<open>if err != nil\<close>
  returns is. A call takes the state and gives an error or a value, and the next state; a deferred
  call runs whatever came before it. The rules show, call by call, that a body only makes changes
  of a given kind; the kind is a reflexive and transitive relation on states.
\<close>

type_synonym ('s, 'a) call = "'s \<Rightarrow> (go_error + 'a) \<times> 's"

definition ret :: "'a \<Rightarrow> ('s, 'a) call" where
  "ret x s = (Inr x, s)"

definition fail :: "go_error \<Rightarrow> ('s, 'a) call" where
  "fail e s = (Inl e, s)"

text \<open>\<open>x, err := m; if err != nil { g err } else { f x }\<close>\<close>

definition caseE :: "('s, 'a) call \<Rightarrow> (go_error \<Rightarrow> ('s, 'b) call) \<Rightarrow> ('a \<Rightarrow> ('s, 'b) call) \<Rightarrow> ('s, 'b) call" where
  "caseE m g f s = (case m s of (Inl e, t) \<Rightarrow> g e t | (Inr x, t) \<Rightarrow> f x t)"

text \<open>The same when the error is returned as it is, or through \<open>w\<close>.\<close>

definition bindE :: "('s, 'a) call \<Rightarrow> ('a \<Rightarrow> ('s, 'b) call) \<Rightarrow> ('s, 'b) call" where
  "bindE m f = caseE m fail f"

definition mapErr :: "(go_error \<Rightarrow> go_error) \<Rightarrow> ('s, 'a) call \<Rightarrow> ('s, 'a) call" where
  "mapErr w m = caseE m (\<lambda>e. fail (w e)) ret"

text \<open>A deferred call \<open>c\<close>, whose own error is dropped, and a call whose result is dropped.\<close>

definition finallyE :: "('s, 'a) call \<Rightarrow> ('s, unit) call \<Rightarrow> ('s, 'a) call" where
  "finallyE m c s = (case m s of (r, t) \<Rightarrow> (r, snd (c t)))"

definition ignoreE :: "('s, 'a) call \<Rightarrow> ('s, unit) call" where
  "ignoreE m s = (Inr (), snd (m s))"

text \<open>A value that is already known to be an error or a result.\<close>

definition liftE :: "go_error + 'a \<Rightarrow> ('s, 'a) call" where
  "liftE r s = (r, s)"

definition wrap :: "string \<Rightarrow> go_error \<Rightarrow> go_error" where
  "wrap text e = Wrapf text e []"

lemma ret_apply [simp]: "ret x s = (Inr x, s)" and fail_apply [simp]: "fail e s = (Inl e, s)"
  and liftE_apply [simp]: "liftE r s = (r, s)"
  by (simp_all add: ret_def fail_def liftE_def)

lemma caseE_ok: "m s = (Inr x, t) \<Longrightarrow> caseE m g f s = f x t"
  and caseE_err: "m s = (Inl e, t) \<Longrightarrow> caseE m g f s = g e t"
  by (simp_all add: caseE_def)

lemma bindE_ok: "m s = (Inr x, t) \<Longrightarrow> bindE m f s = f x t"
  and bindE_err: "m s = (Inl e, t) \<Longrightarrow> bindE m f s = (Inl e, t)"
  by (simp_all add: bindE_def caseE_def)

lemma mapErr_ok: "m s = (Inr x, t) \<Longrightarrow> mapErr w m s = (Inr x, t)"
  and mapErr_err: "m s = (Inl e, t) \<Longrightarrow> mapErr w m s = (Inl (w e), t)"
  by (simp_all add: mapErr_def caseE_def)

lemmas call_ok = caseE_ok bindE_ok mapErr_ok
lemmas call_err = caseE_err bindE_err mapErr_err
lemmas call_defs = caseE_def bindE_def mapErr_def finallyE_def ignoreE_def

lemma bindE_Inr:
  "bindE m f s = (Inr y, u) \<longleftrightarrow> (\<exists>x t. m s = (Inr x, t) \<and> f x t = (Inr y, u))"
  by (auto simp: bindE_def caseE_def split: sum.splits prod.splits)

lemma mapErr_Inr: "mapErr w m s = (Inr y, u) \<longleftrightarrow> m s = (Inr y, u)"
  by (auto simp: mapErr_def caseE_def split: sum.splits prod.splits)

lemma snd_mapErr [simp]: "snd (mapErr w m s) = snd (m s)"
  by (auto simp: mapErr_def caseE_def split: sum.splits prod.splits)

lemma snd_ignoreE [simp]: "snd (ignoreE m s) = snd (m s)"
  by (simp add: ignoreE_def)

section \<open>What a body may change\<close>

definition within :: "('s \<Rightarrow> 's \<Rightarrow> bool) \<Rightarrow> ('s, 'a) call \<Rightarrow> bool" where
  "within R m \<longleftrightarrow> (\<forall>s. R s (snd (m s)))"

lemma withinD: "within R m \<Longrightarrow> m s = (r, t) \<Longrightarrow> R s t"
  unfolding within_def by (metis snd_conv)

lemma withinI: "(\<And>s. R s (snd (m s))) \<Longrightarrow> within R m"
  by (simp add: within_def)

lemma within_weaken: "within R m \<Longrightarrow> (\<And>s t. R s t \<Longrightarrow> R' s t) \<Longrightarrow> within R' m"
  by (simp add: within_def)

text \<open>
  The same in states with \<open>P\<close>, which stays true, for a call whose values satisfy \<open>Q\<close>.
\<close>

definition keeps :: "('s \<Rightarrow> bool) \<Rightarrow> ('s \<Rightarrow> 's \<Rightarrow> bool) \<Rightarrow> ('a \<Rightarrow> bool) \<Rightarrow> ('s, 'a) call \<Rightarrow> bool" where
  "keeps P R Q m \<longleftrightarrow>
     (\<forall>s. P s \<longrightarrow> P (snd (m s)) \<and> R s (snd (m s)) \<and> (\<forall>x. fst (m s) = Inr x \<longrightarrow> Q x))"

abbreviation anything :: "'a \<Rightarrow> bool" where
  "anything \<equiv> \<lambda>x. True"

lemma keepsI: "(\<And>s. P s \<Longrightarrow> P (snd (m s)) \<and> R s (snd (m s)) \<and> (\<forall>x. fst (m s) = Inr x \<longrightarrow> Q x)) \<Longrightarrow> keeps P R Q m"
  by (simp add: keeps_def)

lemma keepsD: "keeps P R Q m \<Longrightarrow> P s \<Longrightarrow> m s = (r, t) \<Longrightarrow> P t \<and> R s t \<and> (\<forall>x. r = Inr x \<longrightarrow> Q x)"
  unfolding keeps_def by (metis fst_conv snd_conv)

lemma keeps_weaken: "keeps P R Q m \<Longrightarrow> (\<And>x. Q x \<Longrightarrow> Q' x) \<Longrightarrow> keeps P R Q' m"
  by (simp add: keeps_def)

lemma keeps_anything: "keeps P R Q m \<Longrightarrow> keeps P R anything m"
  by (simp add: keeps_def)

lemma within_keeps: "within R m \<Longrightarrow> (\<And>s t. P s \<Longrightarrow> R s t \<Longrightarrow> P t) \<Longrightarrow> keeps P R anything m"
  unfolding within_def keeps_def by blast

locale change_kind =
  fixes R :: "'s \<Rightarrow> 's \<Rightarrow> bool"
  assumes same: "R s s" and steps: "R s t \<Longrightarrow> R t u \<Longrightarrow> R s u"
begin

lemma ret_in: "within R (ret x)" and fail_in: "within R (fail e)" and lift_in: "within R (liftE r)"
  by (simp_all add: within_def same)

lemma case_in:
  assumes "within R m" and "\<And>e. within R (g e)" and "\<And>x. within R (f x)"
  shows "within R (caseE m g f)"
proof (rule withinI)
  fix s
  obtain r t where m: "m s = (r, t)" by (cases "m s")
  then have "R s t" by (rule withinD [OF assms(1)])
  moreover have "R t (snd (caseE m g f s))"
    using assms(2,3) by (cases r) (auto simp: caseE_def m within_def)
  ultimately show "R s (snd (caseE m g f s))" by (rule steps)
qed

lemma bind_in: "within R m \<Longrightarrow> (\<And>x. within R (f x)) \<Longrightarrow> within R (bindE m f)"
  unfolding bindE_def by (intro case_in fail_in)

lemma mapErr_in: "within R m \<Longrightarrow> within R (mapErr w m)"
  by (simp add: within_def)

lemma finally_in:
  assumes "within R m" and "within R c" shows "within R (finallyE m c)"
proof (rule withinI)
  fix s
  obtain r t where m: "m s = (r, t)" by (cases "m s")
  then have "R s t" by (rule withinD [OF assms(1)])
  moreover have "R t (snd (c t))" using assms(2) by (simp add: within_def)
  ultimately show "R s (snd (finallyE m c s))" by (auto simp: finallyE_def m intro: steps)
qed

lemma ignore_in: "within R m \<Longrightarrow> within R (ignoreE m)"
  by (simp add: within_def)

lemma if_in: "(b \<Longrightarrow> within R m) \<Longrightarrow> (\<not> b \<Longrightarrow> within R n) \<Longrightarrow> within R (if b then m else n)"
  by simp

lemma keeps_ret: "Q x \<Longrightarrow> keeps P R Q (ret x)" and keeps_fail: "keeps P R Q (fail e)"
  and keeps_lift: "(\<And>x. r = Inr x \<Longrightarrow> Q x) \<Longrightarrow> keeps P R Q (liftE r)"
  by (simp_all add: keeps_def same)

lemma keeps_case:
  assumes "keeps P R Q m" and "\<And>e. keeps P R Q' (g e)" and "\<And>x. Q x \<Longrightarrow> keeps P R Q' (f x)"
  shows "keeps P R Q' (caseE m g f)"
proof (rule keepsI)
  fix s
  assume "P s"
  obtain r t where m: "m s = (r, t)" by (cases "m s")
  with assms(1) \<open>P s\<close> have t: "P t" "R s t" "\<forall>x. r = Inr x \<longrightarrow> Q x" by (auto dest: keepsD)
  show "P (snd (caseE m g f s)) \<and> R s (snd (caseE m g f s)) \<and> (\<forall>x. fst (caseE m g f s) = Inr x \<longrightarrow> Q' x)"
  proof (cases r)
    case (Inl e)
    with t assms(2) [of e] show ?thesis by (auto simp: caseE_def m keeps_def intro: steps)
  next
    case (Inr x)
    with t assms(3) [of x] show ?thesis by (auto simp: caseE_def m keeps_def intro: steps)
  qed
qed

lemma keeps_bind: "keeps P R Q m \<Longrightarrow> (\<And>x. Q x \<Longrightarrow> keeps P R Q' (f x)) \<Longrightarrow> keeps P R Q' (bindE m f)"
  unfolding bindE_def by (intro keeps_case keeps_fail)

lemma keeps_mapErr: "keeps P R Q m \<Longrightarrow> keeps P R Q (mapErr w m)"
  unfolding mapErr_def by (intro keeps_case keeps_fail keeps_ret)

lemma keeps_ignore: "keeps P R Q m \<Longrightarrow> keeps P R anything (ignoreE m)"
  by (simp add: keeps_def)

lemma keeps_finally:
  assumes "keeps P R Q m" and "keeps P R Q' c" shows "keeps P R Q (finallyE m c)"
proof (rule keepsI)
  fix s
  assume "P s"
  obtain r t where m: "m s = (r, t)" by (cases "m s")
  with assms(1) \<open>P s\<close> have t: "P t" "R s t" "\<forall>x. r = Inr x \<longrightarrow> Q x" by (auto dest: keepsD)
  with assms(2) have "P (snd (c t))" "R t (snd (c t))" by (auto simp: keeps_def)
  with t show "P (snd (finallyE m c s)) \<and> R s (snd (finallyE m c s)) \<and> (\<forall>x. fst (finallyE m c s) = Inr x \<longrightarrow> Q x)"
    by (auto simp: finallyE_def m intro: steps)
qed

lemma keeps_if: "(b \<Longrightarrow> keeps P R Q m) \<Longrightarrow> (\<not> b \<Longrightarrow> keeps P R Q n) \<Longrightarrow> keeps P R Q (if b then m else n)"
  by simp

lemmas keeps_rules = keeps_ret keeps_fail keeps_lift keeps_case keeps_bind keeps_mapErr keeps_finally keeps_ignore keeps_if

lemmas call_in = ret_in fail_in lift_in case_in bind_in mapErr_in finally_in ignore_in if_in

end

end
