(* ===== verification/HostFs.thy ===== *)
theory HostFs
  imports GoEffects GoPath
begin

text \<open>
  The host's file system as the packages \<open>os\<close> and \<open>os.Root\<close> show it: directories, files and
  symbolic links, found by the elements of a path. A call resolves its path element by element and
  follows symbolic links; a call through an \<open>os.Root\<close> fails when the resolution would leave the
  root. A hard link is a second entry with the same content, which is exact for files that are not
  written after they were linked, as here.

  Every call may fail: the state holds the faults to come, one for each call; a failing call has no
  effect, but for a write, which leaves a part of its data, a \<open>RemoveAll\<close>, which removes a part of
  the tree, and a \<open>MkdirAll\<close>, which creates some of the directories. Permissions are recorded and
  not enforced: a refused access is a fault.
\<close>

section \<open>The state\<close>

datatype fs_node = Dir | File string | Symlink string

record inode =
  i_node :: fs_node
  i_mode :: int
  i_uid :: int
  i_gid :: int
  i_atime :: time
  i_mtime :: time
  i_ctime :: time

type_synonym fs = "(string list, inode) gomap"

text \<open>
  Faults to come, the numbers the random source will give (a random name is the text of one), the clock, and the state of whatever else
  the program talks to (the container engine).
\<close>

record 'e host =
  h_fs :: fs
  h_faults :: "nat option list"
  h_names :: "nat list"
  h_now :: time
  h_engine :: 'e

definition new_inode :: "fs_node \<Rightarrow> int \<Rightarrow> time \<Rightarrow> inode" where
  "new_inode n mode t =
     \<lparr>i_node = n, i_mode = mode, i_uid = 0, i_gid = 0, i_atime = t, i_mtime = t, i_ctime = t\<rparr>"

definition fs_get :: "fs \<Rightarrow> string list \<Rightarrow> inode option" where
  "fs_get m p = (if p = [] then Some (new_inode Dir 493 0) else map_of m p)"

definition node_at :: "fs \<Rightarrow> string list \<Rightarrow> fs_node option" where
  "node_at m p = map_option i_node (fs_get m p)"

definition fs_put :: "string list \<Rightarrow> inode \<Rightarrow> 'e host \<Rightarrow> 'e host" where
  "fs_put p i h = h\<lparr>h_fs := AList.update p i (h_fs h)\<rparr>"

definition fs_del :: "string list \<Rightarrow> 'e host \<Rightarrow> 'e host" where
  "fs_del p h = h\<lparr>h_fs := AList.delete p (h_fs h)\<rparr>"

lemma fs_get_put [simp]: "p \<noteq> [] \<Longrightarrow> fs_get (h_fs (fs_put p i h)) q = (if q = p then Some i else fs_get (h_fs h) q)"
  by (auto simp: fs_get_def fs_put_def)

lemma fs_get_del [simp]: "p \<noteq> [] \<Longrightarrow> fs_get (h_fs (fs_del p h)) q = (if q = p then None else fs_get (h_fs h) q)"
  by (auto simp: fs_get_def fs_del_def)

lemma fs_get_root [simp]: "fs_get m [] = Some (new_inode Dir 493 0)"
  by (simp add: fs_get_def)

lemma node_at_root [simp]: "node_at m [] = Some Dir"
  by (simp add: node_at_def new_inode_def)

section \<open>Errors\<close>

definition ENOENT :: go_error where "ENOENT = Sentinel ''no such file or directory''"
definition EEXIST :: go_error where "EEXIST = Sentinel ''file exists''"
definition ENOTDIR :: go_error where "ENOTDIR = Sentinel ''not a directory''"
definition EISDIR :: go_error where "EISDIR = Sentinel ''is a directory''"
definition ELOOP :: go_error where "ELOOP = Sentinel ''too many levels of symbolic links''"
definition ENOTEMPTY :: go_error where "ENOTEMPTY = Sentinel ''directory not empty''"
definition EIO :: go_error where "EIO = Sentinel ''input/output error''"
definition errPathEscapes :: go_error where "errPathEscapes = Sentinel ''path escapes from parent''"

definition os_IsNotExist :: "go_error \<Rightarrow> bool" where
  "os_IsNotExist e = (e = ENOENT)"

definition os_IsExist :: "go_error \<Rightarrow> bool" where
  "os_IsExist e = (e = EEXIST \<or> e = ENOTEMPTY)"

lemmas errnos = ENOENT_def EEXIST_def ENOTDIR_def EISDIR_def ELOOP_def ENOTEMPTY_def EIO_def
  errPathEscapes_def os_IsNotExist_def os_IsExist_def

section \<open>Resolving a path\<close>

text \<open>
  \<open>walk\<close> gives the place a path names, whether or not there is an entry. \<open>root\<close> is where the walk
  starts; a \<open>confined\<close> walk does not leave it. \<open>cur\<close> is the directory reached so far, below the
  root. At most \<open>fuel\<close> symbolic links are followed (255, the limit of the package).
\<close>

fun walk :: "nat \<Rightarrow> fs \<Rightarrow> bool \<Rightarrow> string list \<Rightarrow> bool \<Rightarrow> string list \<Rightarrow> string list \<Rightarrow> go_error + string list" where
  "walk fuel m confined root follow cur [] = Inr (root @ cur)"
| "walk fuel m confined root follow cur (c # rest) =
     (if c = ''..'' then
        (if cur = [] \<and> confined then Inl errPathEscapes
         else walk fuel m confined root follow (butlast cur) rest)
      else case node_at m (root @ cur @ [c]) of
        None \<Rightarrow> (if rest = [] then Inr (root @ cur @ [c]) else Inl ENOENT)
      | Some Dir \<Rightarrow> walk fuel m confined root follow (cur @ [c]) rest
      | Some (File data) \<Rightarrow> (if rest = [] then Inr (root @ cur @ [c]) else Inl ENOTDIR)
      | Some (Symlink target) \<Rightarrow>
          (if rest = [] \<and> \<not> follow then Inr (root @ cur @ [c])
           else if path_IsAbs target \<and> confined then Inl errPathEscapes
           else case fuel of
             0 \<Rightarrow> Inl ELOOP
           | Suc n \<Rightarrow> walk n m confined root follow (if path_IsAbs target then [] else cur) (path_elems target @ rest)))"

definition max_links :: nat where
  "max_links = 255"

text \<open>The place of an absolute path of the host, and of a path below an open root.\<close>

definition host_path :: "fs \<Rightarrow> bool \<Rightarrow> string \<Rightarrow> go_error + string list" where
  "host_path m follow p = walk max_links m False [] follow [] (path_elems p)"

definition root_path :: "fs \<Rightarrow> string list \<Rightarrow> bool \<Rightarrow> string \<Rightarrow> go_error + string list" where
  "root_path m root follow p =
     (if path_IsAbs p then Inl errPathEscapes else walk max_links m True root follow [] (path_elems p))"

lemma walk_inside: "walk fuel m True root follow cur cs = Inr p \<Longrightarrow> prefix root p"
  by (induction fuel m True root follow cur cs rule: walk.induct)
    (auto split: if_splits option.splits fs_node.splits nat.splits)

lemma root_path_inside: "root_path m root follow p = Inr q \<Longrightarrow> prefix root q"
  by (auto simp: root_path_def split: if_splits dest: walk_inside)

section \<open>Calls\<close>

type_synonym ('e, 'a) host_op = "('e host, 'a) call"

definition syscall :: "('e, 'a) host_op \<Rightarrow> (nat \<Rightarrow> 'e host \<Rightarrow> 'e host) \<Rightarrow> ('e, 'a) host_op" where
  "syscall f partial h =
     (case h_faults h of
        [] \<Rightarrow> f h
      | None # fs \<Rightarrow> f (h\<lparr>h_faults := fs\<rparr>)
      | Some k # fs \<Rightarrow> (Inl EIO, partial k (h\<lparr>h_faults := fs\<rparr>)))"

abbreviation unchanged :: "nat \<Rightarrow> 'e host \<Rightarrow> 'e host" where
  "unchanged \<equiv> \<lambda>k h. h"

text \<open>A call on the entry a path names; \<open>look\<close> finds the place.\<close>

definition at_path :: "(fs \<Rightarrow> go_error + string list) \<Rightarrow> (string list \<Rightarrow> ('e, 'a) host_op) \<Rightarrow> ('e, 'a) host_op" where
  "at_path look f h = (case look (h_fs h) of Inl e \<Rightarrow> (Inl e, h) | Inr p \<Rightarrow> f p h)"

definition get_inode :: "string list \<Rightarrow> ('e, inode) host_op" where
  "get_inode p h = (case fs_get (h_fs h) p of None \<Rightarrow> (Inl ENOENT, h) | Some i \<Rightarrow> (Inr i, h))"

definition do_stat :: "(fs \<Rightarrow> go_error + string list) \<Rightarrow> ('e, inode) host_op" where
  "do_stat look = syscall (at_path look get_inode) unchanged"

definition os_Lstat :: "string \<Rightarrow> ('e, inode) host_op" where
  "os_Lstat p = do_stat (\<lambda>m. host_path m False p)"

definition os_Stat :: "string \<Rightarrow> ('e, inode) host_op" where
  "os_Stat p = do_stat (\<lambda>m. host_path m True p)"

definition root_Lstat :: "string list \<Rightarrow> string \<Rightarrow> ('e, inode) host_op" where
  "root_Lstat root p = do_stat (\<lambda>m. root_path m root False p)"

definition root_Stat :: "string list \<Rightarrow> string \<Rightarrow> ('e, inode) host_op" where
  "root_Stat root p = do_stat (\<lambda>m. root_path m root True p)"

text \<open>Opening: the result stands for the open directory or file, found by its place from then on.\<close>

definition do_open :: "(fs \<Rightarrow> go_error + string list) \<Rightarrow> ('e, string list) host_op" where
  "do_open look = syscall (at_path look (\<lambda>p h.
     case fs_get (h_fs h) p of None \<Rightarrow> (Inl ENOENT, h) | Some i \<Rightarrow> (Inr p, h))) unchanged"

definition do_open_dir :: "(fs \<Rightarrow> go_error + string list) \<Rightarrow> ('e, string list) host_op" where
  "do_open_dir look = syscall (at_path look (\<lambda>p h.
     case node_at (h_fs h) p of
       None \<Rightarrow> (Inl ENOENT, h) | Some Dir \<Rightarrow> (Inr p, h) | Some (File d) \<Rightarrow> (Inl ENOTDIR, h)
     | Some (Symlink t) \<Rightarrow> (Inl ENOTDIR, h))) unchanged"

definition os_OpenRoot :: "string \<Rightarrow> ('e, string list) host_op" where
  "os_OpenRoot p = do_open_dir (\<lambda>m. host_path m True p)"

definition root_OpenRoot :: "string list \<Rightarrow> string \<Rightarrow> ('e, string list) host_op" where
  "root_OpenRoot root p = do_open_dir (\<lambda>m. root_path m root True p)"

definition root_Open :: "string list \<Rightarrow> string \<Rightarrow> ('e, string list) host_op" where
  "root_Open root p = do_open (\<lambda>m. root_path m root True p)"

definition file_Stat :: "string list \<Rightarrow> ('e, inode) host_op" where
  "file_Stat p = syscall (get_inode p) unchanged"

definition root_Readlink :: "string list \<Rightarrow> string \<Rightarrow> ('e, string) host_op" where
  "root_Readlink root p = syscall (at_path (\<lambda>m. root_path m root False p) (\<lambda>q h.
     case node_at (h_fs h) q of
       Some (Symlink t) \<Rightarrow> (Inr t, h) | None \<Rightarrow> (Inl ENOENT, h) | Some n \<Rightarrow> (Inl (Sentinel ''invalid argument''), h))) unchanged"

definition os_ReadFile :: "string \<Rightarrow> ('e, string) host_op" where
  "os_ReadFile p = syscall (at_path (\<lambda>m. host_path m True p) (\<lambda>q h.
     case node_at (h_fs h) q of
       None \<Rightarrow> (Inl ENOENT, h) | Some (File d) \<Rightarrow> (Inr d, h) | Some n \<Rightarrow> (Inl EISDIR, h))) unchanged"

text \<open>The entries of a directory: their names and inodes, in the order of the directory.\<close>

definition entries_of :: "fs \<Rightarrow> string list \<Rightarrow> (string \<times> inode) list" where
  "entries_of m d = map (\<lambda>(p, i). (last p, i)) (filter (\<lambda>(p, i). p \<noteq> [] \<and> butlast p = d) m)"

definition dir_ReadDir :: "string list \<Rightarrow> ('e, (string \<times> inode) list) host_op" where
  "dir_ReadDir p = syscall (\<lambda>h. (Inr (entries_of (h_fs h) p), h)) unchanged"

definition os_ReadDir :: "string \<Rightarrow> ('e, (string \<times> inode) list) host_op" where
  "os_ReadDir p = syscall (at_path (\<lambda>m. host_path m True p) (\<lambda>q h.
     case node_at (h_fs h) q of
       Some Dir \<Rightarrow> (Inr (sort_key fst (entries_of (h_fs h) q)), h)
     | None \<Rightarrow> (Inl ENOENT, h) | Some n \<Rightarrow> (Inl ENOTDIR, h))) unchanged"

subsection \<open>Calls that change the file system\<close>

text \<open>
  \<open>MkdirAll\<close> walks down and creates what is missing. With a budget, the call fails after it has
  created that many directories. Through a root, a symbolic link on the way is followed and its
  target created; \<open>os.MkdirAll\<close> wants it to lead to a directory.
\<close>

fun mkdirs :: "nat \<Rightarrow> bool \<Rightarrow> string list \<Rightarrow> int \<Rightarrow> nat option \<Rightarrow> string list \<Rightarrow> string list \<Rightarrow> ('e, unit) host_op" where
  "mkdirs fuel confined root mode budget cur [] h = (Inr (), h)"
| "mkdirs fuel confined root mode budget cur (c # rest) h =
     (if c = ''..'' then
        (if cur = [] \<and> confined then (Inl errPathEscapes, h)
         else mkdirs fuel confined root mode budget (butlast cur) rest h)
      else case node_at (h_fs h) (root @ cur @ [c]) of
        None \<Rightarrow>
          (case budget of
             Some 0 \<Rightarrow> (Inl EIO, h)
           | _ \<Rightarrow> mkdirs fuel confined root mode (map_option (\<lambda>k. k - 1) budget) (cur @ [c]) rest
                    (fs_put (root @ cur @ [c]) (new_inode Dir mode (h_now h)) h))
      | Some Dir \<Rightarrow> mkdirs fuel confined root mode budget (cur @ [c]) rest h
      | Some (File data) \<Rightarrow> (Inl (if rest = [] \<and> confined then EEXIST else ENOTDIR), h)
      | Some (Symlink target) \<Rightarrow>
          (if rest = [] \<or> \<not> confined then
             (case walk fuel (h_fs h) confined root True cur [c] of
                Inl e \<Rightarrow> (Inl (if confined then EEXIST else e), h)
              | Inr p \<Rightarrow>
                  (if node_at (h_fs h) p = Some Dir
                   then mkdirs fuel confined root mode budget (drop (length root) p) rest h
                   else (Inl EEXIST, h)))
           else if path_IsAbs target then (Inl errPathEscapes, h)
           else case fuel of
             0 \<Rightarrow> (Inl ELOOP, h)
           | Suc n \<Rightarrow> mkdirs n confined root mode budget cur (path_elems target @ rest) h))"

definition os_MkdirAll :: "string \<Rightarrow> int \<Rightarrow> ('e, unit) host_op" where
  "os_MkdirAll p mode =
     syscall (mkdirs max_links False [] mode None [] (path_elems p))
       (\<lambda>k h. snd (mkdirs max_links False [] mode (Some k) [] (path_elems p) h))"

definition root_MkdirAll :: "string list \<Rightarrow> string \<Rightarrow> int \<Rightarrow> ('e, unit) host_op" where
  "root_MkdirAll root p mode =
     (if path_IsAbs p then syscall (fail errPathEscapes) unchanged
      else syscall (mkdirs max_links True root mode None [] (path_elems p))
             (\<lambda>k h. snd (mkdirs max_links True root mode (Some k) [] (path_elems p) h)))"

text \<open>\<open>OpenFile\<close> with \<open>O_CREATE | O_EXCL\<close>, and \<open>os.CreateTemp\<close>, whose name comes from the random source.\<close>

definition create_excl :: "int \<Rightarrow> string list \<Rightarrow> ('e, string list) host_op" where
  "create_excl mode p h =
     (case node_at (h_fs h) p of
        Some n \<Rightarrow> (Inl EEXIST, h)
      | None \<Rightarrow> (Inr p, fs_put p (new_inode (File []) mode (h_now h)) h))"

definition root_CreateExcl :: "string list \<Rightarrow> string \<Rightarrow> int \<Rightarrow> ('e, string list) host_op" where
  "root_CreateExcl root p mode = syscall (at_path (\<lambda>m. root_path m root False p) (create_excl mode)) unchanged"

definition random_name :: "('e, string) host_op" where
  "random_name h = (case h_names h of [] \<Rightarrow> (Inr (nat_digits 0), h) | n # ns \<Rightarrow> (Inr (nat_digits n), h\<lparr>h_names := ns\<rparr>))"

definition os_CreateTemp :: "string \<Rightarrow> string \<Rightarrow> ('e, string list) host_op" where
  "os_CreateTemp dir pat = bindE random_name (\<lambda>r.
     syscall (at_path (\<lambda>m. host_path m False (path_Join [dir, pat @ r])) (create_excl 384)) unchanged)"

text \<open>Calls on an open file, found by its place.\<close>

definition on_inode :: "string list \<Rightarrow> (inode \<Rightarrow> inode) \<Rightarrow> 'e host \<Rightarrow> 'e host" where
  "on_inode p f h = (case fs_get (h_fs h) p of None \<Rightarrow> h | Some i \<Rightarrow> fs_put p (f i) h)"

definition file_Write :: "string list \<Rightarrow> string \<Rightarrow> ('e, unit) host_op" where
  "file_Write p data =
     syscall (\<lambda>h. (Inr (), on_inode p (\<lambda>i. i\<lparr>i_node := File data\<rparr>) h))
       (\<lambda>k. on_inode p (\<lambda>i. i\<lparr>i_node := File (take k data)\<rparr>))"

definition file_Chmod :: "string list \<Rightarrow> int \<Rightarrow> ('e, unit) host_op" where
  "file_Chmod p mode = syscall (\<lambda>h. (Inr (), on_inode p (\<lambda>i. i\<lparr>i_mode := mode\<rparr>) h)) unchanged"

text \<open>An id of -1 leaves the owner or the group as it is.\<close>

definition file_Chown :: "string list \<Rightarrow> int \<Rightarrow> int \<Rightarrow> ('e, unit) host_op" where
  "file_Chown p uid gid = syscall (\<lambda>h. (Inr (), on_inode p (\<lambda>i.
     i\<lparr>i_uid := (if uid = -1 then i_uid i else uid), i_gid := (if gid = -1 then i_gid i else gid)\<rparr>) h)) unchanged"

definition file_Sync :: "string list \<Rightarrow> ('e, unit) host_op" where
  "file_Sync p = syscall (\<lambda>h. (Inr (), h)) unchanged"

definition file_Close :: "string list \<Rightarrow> ('e, unit) host_op" where
  "file_Close p = syscall (\<lambda>h. (Inr (), h)) unchanged"

definition remove_at :: "string list \<Rightarrow> ('e, unit) host_op" where
  "remove_at p h =
     (case node_at (h_fs h) p of
        None \<Rightarrow> (Inl ENOENT, h)
      | Some n \<Rightarrow> (if p = [] \<or> n = Dir \<and> entries_of (h_fs h) p \<noteq> [] then (Inl ENOTEMPTY, h) else (Inr (), fs_del p h)))"

definition os_Remove :: "string \<Rightarrow> ('e, unit) host_op" where
  "os_Remove p = syscall (at_path (\<lambda>m. host_path m False p) remove_at) unchanged"

definition root_Remove :: "string list \<Rightarrow> string \<Rightarrow> ('e, unit) host_op" where
  "root_Remove root p = syscall (at_path (\<lambda>m. root_path m root False p) remove_at) unchanged"

text \<open>\<open>os.RemoveAll\<close> removes the deepest entries first; a missing path is no error.\<close>

definition tree_below :: "fs \<Rightarrow> string list \<Rightarrow> string list list" where
  "tree_below m p = rev (sort_key length (filter (\<lambda>q. prefix p q) (map fst m)))"

definition remove_entries :: "string list list \<Rightarrow> 'e host \<Rightarrow> 'e host" where
  "remove_entries qs h = h\<lparr>h_fs := filter (\<lambda>(q, i). q \<notin> set qs) (h_fs h)\<rparr>"

definition remove_tree :: "nat option \<Rightarrow> string list \<Rightarrow> ('e, unit) host_op" where
  "remove_tree budget p h =
     (let qs = tree_below (h_fs h) p
      in (Inr (), remove_entries (case budget of None \<Rightarrow> qs | Some k \<Rightarrow> take k qs) h))"

definition os_RemoveAll :: "string \<Rightarrow> ('e, unit) host_op" where
  "os_RemoveAll p =
     (let run = \<lambda>budget h. (case host_path (h_fs h) False p of
                              Inl e \<Rightarrow> (if os_IsNotExist e then (Inr (), h) else (Inl e, h))
                            | Inr q \<Rightarrow> remove_tree budget q h)
      in syscall (run None) (\<lambda>k h. snd (run (Some k) h)))"

text \<open>Renaming a file over another, and linking it under a new name.\<close>

definition rename_to :: "string list \<Rightarrow> string list \<Rightarrow> ('e, unit) host_op" where
  "rename_to p q h =
     (case fs_get (h_fs h) p of
        None \<Rightarrow> (Inl ENOENT, h)
      | Some i \<Rightarrow>
          (if node_at (h_fs h) q = Some Dir then (Inl EEXIST, h)
           else (Inr (), fs_put q i (fs_del p h))))"

definition link_to :: "string list \<Rightarrow> string list \<Rightarrow> ('e, unit) host_op" where
  "link_to p q h =
     (case fs_get (h_fs h) p of
        None \<Rightarrow> (Inl ENOENT, h)
      | Some i \<Rightarrow> (if node_at (h_fs h) q \<noteq> None then (Inl EEXIST, h) else (Inr (), fs_put q i h)))"

definition root_Rename :: "string list \<Rightarrow> string \<Rightarrow> string \<Rightarrow> ('e, unit) host_op" where
  "root_Rename root p q = syscall (at_path (\<lambda>m. root_path m root False p) (\<lambda>p'.
     at_path (\<lambda>m. root_path m root False q) (\<lambda>q'. rename_to p' q'))) unchanged"

definition root_Link :: "string list \<Rightarrow> string \<Rightarrow> string \<Rightarrow> ('e, unit) host_op" where
  "root_Link root p q = syscall (at_path (\<lambda>m. root_path m root False p) (\<lambda>p'.
     at_path (\<lambda>m. root_path m root False q) (\<lambda>q'. link_to p' q'))) unchanged"

text \<open>\<open>os.Rename\<close> of an open temporary file, given by its place.\<close>

definition os_RenameTo :: "string list \<Rightarrow> string \<Rightarrow> ('e, unit) host_op" where
  "os_RenameTo p q = syscall (at_path (\<lambda>m. host_path m False q) (\<lambda>q'. rename_to p q')) unchanged"

definition os_RemoveFile :: "string list \<Rightarrow> ('e, unit) host_op" where
  "os_RemoveFile p = syscall (remove_at p) unchanged"

section \<open>The clock and contexts\<close>

definition time_Now :: "('e, time) host_op" where
  "time_Now h = (Inr (h_now h), h)"

text \<open>A context is the error a call finds in it, if it is done, which may depend on the time.\<close>

type_synonym 'e ctx = "'e host \<Rightarrow> go_error option"

section \<open>More calls on directories and files\<close>

text \<open>\<open>os.Mkdir\<close>, \<open>os.Chmod\<close> and \<open>os.WriteFile\<close>, which creates the file or writes over it.\<close>

definition os_Mkdir :: "string \<Rightarrow> int \<Rightarrow> ('e, unit) host_op" where
  "os_Mkdir p mode = syscall (at_path (\<lambda>m. host_path m False p) (\<lambda>q h.
     case node_at (h_fs h) q of
       Some n \<Rightarrow> (Inl EEXIST, h) | None \<Rightarrow> (Inr (), fs_put q (new_inode Dir mode (h_now h)) h))) unchanged"

definition os_Chmod :: "string \<Rightarrow> int \<Rightarrow> ('e, unit) host_op" where
  "os_Chmod p mode = syscall (at_path (\<lambda>m. host_path m True p) (\<lambda>q h.
     case fs_get (h_fs h) q of
       None \<Rightarrow> (Inl ENOENT, h) | Some i \<Rightarrow> (Inr (), on_inode q (\<lambda>i. i\<lparr>i_mode := mode\<rparr>) h))) unchanged"

definition put_file :: "string \<Rightarrow> int \<Rightarrow> string list \<Rightarrow> ('e, unit) host_op" where
  "put_file data mode q h =
     (case node_at (h_fs h) q of
        None \<Rightarrow> (Inr (), fs_put q (new_inode (File data) mode (h_now h)) h)
      | Some (File old) \<Rightarrow> (Inr (), on_inode q (\<lambda>i. i\<lparr>i_node := File data\<rparr>) h)
      | Some n \<Rightarrow> (Inl EISDIR, h))"

text \<open>With a fault, a part of the data is written.\<close>

definition os_WriteFile :: "string \<Rightarrow> string \<Rightarrow> int \<Rightarrow> ('e, unit) host_op" where
  "os_WriteFile p data mode =
     syscall (at_path (\<lambda>m. host_path m True p) (put_file data mode))
       (\<lambda>k h. snd (at_path (\<lambda>m. host_path m True p) (put_file (take k data) mode) h))"

text \<open>\<open>os.Rename\<close> of a file or a directory with all that is in it; an empty directory is replaced.\<close>

definition move_tree :: "string list \<Rightarrow> string list \<Rightarrow> 'e host \<Rightarrow> 'e host" where
  "move_tree p q h = h\<lparr>h_fs := map (\<lambda>(k, i). (if prefix p k then q @ drop (length p) k else k, i)) (filter (\<lambda>(k, i). k \<noteq> q) (h_fs h))\<rparr>"

definition rename_dir :: "string list \<Rightarrow> string list \<Rightarrow> ('e, unit) host_op" where
  "rename_dir p q h =
     (case node_at (h_fs h) p of
        None \<Rightarrow> (Inl ENOENT, h)
      | Some n \<Rightarrow>
          (if p = q then (Inr (), h)
           else if prefix p q then (Inl (Sentinel ''invalid argument''), h)
           else case node_at (h_fs h) q of
             None \<Rightarrow> (Inr (), move_tree p q h)
           | Some Dir \<Rightarrow> (if n \<noteq> Dir then (Inl EEXIST, h)
                          else if entries_of (h_fs h) q \<noteq> [] then (Inl ENOTEMPTY, h)
                          else (Inr (), move_tree p q h))
           | Some m \<Rightarrow> (if n = Dir then (Inl ENOTDIR, h) else (Inr (), move_tree p q h))))"

definition os_Rename :: "string \<Rightarrow> string \<Rightarrow> ('e, unit) host_op" where
  "os_Rename p q = syscall (at_path (\<lambda>m. host_path m False p) (\<lambda>p'.
     at_path (\<lambda>m. host_path m False q) (\<lambda>q'. rename_dir p' q'))) unchanged"

end
