(* ===== verification/DockerClient.thy ===== *)
theory DockerClient
  imports HostFs Http
begin

text \<open>
  What the Docker backend is built on: its configuration, the Docker daemon, and the standard
  library's codecs. The daemon is a record of functions over a state \<open>'e\<close> of which nothing is
  known; a call gives any answer and any next state. The client library's error classes
  (\<open>errdefs\<close>) are parameters too; \<open>errdefs_laws\<close> says what the code relies on.
\<close>

section \<open>Configuration\<close>

record docker_config =
  dc_Host :: string
  dc_Platform :: string
  dc_ContainerNamePrefix :: string
  dc_EnvdBinary :: string
  dc_EnableFUSE :: bool
  dc_PublishedPorts :: "int list"
  dc_PublishedHostIP :: string
  dc_HealthTimeoutSeconds :: int
  dc_VolumeHostPath :: string

section \<open>What the daemon reports\<close>

text \<open>The types of a mount; the daemon has others.\<close>

definition TypeBind :: string where "TypeBind = ''bind''"
definition TypeVolume :: string where "TypeVolume = ''volume''"

record mount_spec =
  mt_Type :: string
  mt_Source :: string
  mt_Target :: string
  mt_ReadOnly :: bool

record mount_point =
  mp_Type :: string
  mp_Name :: string
  mp_Source :: string
  mp_Destination :: string

record port_binding =
  pb_HostIP :: string
  pb_HostPort :: string

type_synonym port_map = "(string, port_binding list) gomap"

record container_summary =
  cs_ID :: string
  cs_Names :: "string list"
  cs_Image :: string
  cs_Labels :: "(string, string) gomap"
  cs_Mounts :: "mount_point list"

record container_state =
  st_Paused :: bool
  st_Running :: bool

record network_settings =
  ns_Ports :: port_map
  ns_IPAddress :: string
  ns_Networks :: "(string, string option) gomap"

record container_json =
  cj_ID :: string
  cj_Name :: string
  cj_Created :: string
  cj_State :: "container_state option"
  cj_Labels :: "(string, string) gomap option"
  cj_Mounts :: "mount_point list"
  cj_NetworkSettings :: network_settings

record image_summary =
  im_ID :: string
  im_RepoTags :: "string list"
  im_Labels :: "(string, string) gomap"
  im_Created :: int
  im_Size :: int
  im_Containers :: int

record image_inspect =
  ii_ID :: string
  ii_Os :: string
  ii_Architecture :: string
  ii_Variant :: string
  ii_Labels :: "(string, string) gomap option"
  ii_ExposedPorts :: "string list option"
  ii_Created :: string
  ii_Size :: int

record platform =
  pl_OS :: string
  pl_Architecture :: string
  pl_Variant :: string

record container_spec =
  sp_Image :: string
  sp_User :: string
  sp_Env :: "string list"
  sp_Entrypoint :: "string list"
  sp_Cmd :: "string list"
  sp_ExposedPorts :: "string list"
  sp_Labels :: "(string, string) gomap"
  sp_Init :: bool
  sp_PortBindings :: port_map
  sp_Mounts :: "mount_spec list"
  sp_CapAdd :: "string list"
  sp_Devices :: "string list"
  sp_Platform :: "platform option"
  sp_Name :: string

record log_options =
  lo_Tail :: string
  lo_Since :: string
  lo_Timestamps :: bool

text \<open>The counters are unsigned 64-bit words; the CPU percentage, a floating point number, is the daemon's.\<close>

record stats_response =
  ss_Read :: time
  ss_Usage :: "64 word"
  ss_Limit :: "64 word"
  ss_Stats :: "(string, 64 word) gomap"

record commit_options =
  co_Reference :: string
  co_Comment :: string
  co_Author :: string
  co_Changes :: "string list"

record build_options =
  bo_Labels :: "(string, string) gomap"
  bo_NoCache :: bool
  bo_Platform :: string
  bo_Tags :: "string list"

text \<open>
  An entry of the build context: the Dockerfile with its text, or an entry of an uploaded archive
  with the bytes copied.
\<close>

datatype context_entry = ContextText string string | ContextFile tar_header "64 word"

text \<open>A message of the build output stream, or a decoding error; the stream may end early.\<close>

record build_message =
  bg_Stream :: string
  bg_Status :: string
  bg_Progress :: string
  bg_Error :: string
  bg_ErrorDetail :: "string option"

section \<open>The daemon\<close>

text \<open>
  \<open>ContainerLogs\<close> gives the demultiplexed standard output and error, or the error of the
  demultiplexing; \<open>RawLogs\<close> gives the same stream as it comes. \<open>ContainerExec\<close> stands for the three
  calls that run a command (create, attach, inspect) and gives its output and exit code; \<open>HealthGet\<close>
  is the status of an HTTP request to the sandbox, unless the request cannot be made
  (\<open>RequestError\<close>). \<open>Elapsed\<close> is the time the last call took, in nanoseconds.
\<close>

record 'e docker_client =
  dk_ContainerCreate :: "container_spec \<Rightarrow> 'e \<Rightarrow> (go_error + string) \<times> 'e"
  dk_ContainerStart :: "string \<Rightarrow> 'e \<Rightarrow> (go_error + unit) \<times> 'e"
  dk_ContainerRemove :: "string \<Rightarrow> 'e \<Rightarrow> (go_error + unit) \<times> 'e"
  dk_ContainerPause :: "string \<Rightarrow> 'e \<Rightarrow> (go_error + unit) \<times> 'e"
  dk_ContainerUnpause :: "string \<Rightarrow> 'e \<Rightarrow> (go_error + unit) \<times> 'e"
  dk_ContainerInspect :: "string \<Rightarrow> 'e \<Rightarrow> (go_error + container_json) \<times> 'e"
  dk_ContainerList :: "string list \<Rightarrow> 'e \<Rightarrow> (go_error + container_summary list) \<times> 'e"
  dk_ContainerLogs :: "string \<Rightarrow> log_options \<Rightarrow> 'e \<Rightarrow> (go_error + (go_error + string \<times> string)) \<times> 'e"
  dk_RawLogs :: "string \<Rightarrow> log_options \<Rightarrow> 'e \<Rightarrow> (go_error + string) \<times> 'e"
  dk_ContainerStats :: "string \<Rightarrow> 'e \<Rightarrow> (go_error + stats_response) \<times> 'e"
  dk_ContainerCommit :: "string \<Rightarrow> commit_options \<Rightarrow> 'e \<Rightarrow> (go_error + unit) \<times> 'e"
  dk_ContainerExec :: "string \<Rightarrow> string list \<Rightarrow> 'e \<Rightarrow> (go_error + (string \<times> string) \<times> int) \<times> 'e"
  dk_ImageList :: "bool \<Rightarrow> string list \<Rightarrow> 'e \<Rightarrow> (go_error + image_summary list) \<times> 'e"
  dk_ImageInspect :: "string \<Rightarrow> 'e \<Rightarrow> (go_error + image_inspect) \<times> 'e"
  dk_ImageBuild :: "context_entry list \<times> go_error option \<Rightarrow> build_options \<Rightarrow> 'e \<Rightarrow> (go_error + (go_error + build_message) list) \<times> 'e"
  dk_HealthGet :: "string \<Rightarrow> 'e \<Rightarrow> (go_error + int) \<times> 'e"
  dk_RequestError :: "string \<Rightarrow> go_error option"
  dk_CPUUsedPct :: "stats_response \<Rightarrow> int"
  dk_Elapsed :: "'e \<Rightarrow> nat"
  dk_NotFound :: "go_error \<Rightarrow> go_error"
  dk_IsNotFound :: "go_error \<Rightarrow> bool"
  dk_IsConflict :: "go_error \<Rightarrow> bool"

text \<open>A call of the daemon: the clock moves on by the time it took.\<close>

definition engine_call :: "'e docker_client \<Rightarrow> ('e \<Rightarrow> (go_error + 'a) \<times> 'e) \<Rightarrow> ('e, 'a) host_op" where
  "engine_call dk f h =
     (case f (h_engine h) of
        (r, e) \<Rightarrow> (r, h\<lparr>h_engine := e, h_now := h_now h + int (dk_Elapsed dk e)\<rparr>))"

lemma engine_call_fs [simp]: "h_fs (snd (engine_call dk f h)) = h_fs h"
  and engine_call_clock: "h_now h \<le> h_now (snd (engine_call dk f h))"
  by (auto simp: engine_call_def split: prod.split)

text \<open>
  What the code relies on of \<open>errdefs\<close>: a marked error is recognised and keeps its text and the
  gateway error inside it, and the errors of the operating system and of the gateway are not marked.
\<close>

definition errdefs_laws :: "'e docker_client \<Rightarrow> bool" where
  "errdefs_laws dk \<longleftrightarrow>
     (\<forall>e. dk_IsNotFound dk (dk_NotFound dk e)) \<and>
     (\<forall>e. error_text (dk_NotFound dk e) = error_text e) \<and>
     (\<forall>e. asGatewayError (dk_NotFound dk e) = asGatewayError e) \<and>
     (\<forall>t. \<not> dk_IsNotFound dk (Sentinel t)) \<and> (\<forall>t. \<not> dk_IsNotFound dk (ErrorString t)) \<and>
     (\<forall>st t. \<not> dk_IsNotFound dk (GatewayError st t)) \<and>
     (\<forall>p e q. dk_IsNotFound dk (Wrapf p e q) = dk_IsNotFound dk e)"

section \<open>Codecs\<close>

text \<open>
  The JSON encodings of the labels and of a volume's metadata, and the RFC 3339 form of a time, as
  the standard library writes and reads them.
\<close>

record volume_metadata =
  md_VolumeID :: string
  md_Name :: string
  md_Managed :: bool
  md_CreatedAt :: time

record codecs =
  cd_metadata :: "volume_metadata \<Rightarrow> string"
  cd_read_metadata :: "string \<Rightarrow> go_error + volume_metadata"
  cd_map :: "(string, string) gomap \<Rightarrow> string"
  cd_read_map :: "string \<Rightarrow> go_error + (string, string) gomap"
  cd_mounts :: "volume_mount list \<Rightarrow> string"
  cd_read_mounts :: "string \<Rightarrow> go_error + volume_mount list"
  cd_time :: "time \<Rightarrow> string"
  cd_read_time :: "string \<Rightarrow> go_error + time"

text \<open>Reading what was written, also with white space around it, gives the value back.\<close>

definition codec_laws :: "codecs \<Rightarrow> bool" where
  "codec_laws cd \<longleftrightarrow>
     (\<forall>v. cd_read_metadata cd (cd_metadata cd v @ [CHR 0x0A]) = Inr v) \<and>
     (\<forall>m. cd_read_map cd (TrimSpace (cd_map cd m)) = Inr m \<and> TrimSpace (cd_map cd m) \<noteq> []) \<and>
     (\<forall>ms. cd_read_mounts cd (TrimSpace (cd_mounts cd ms)) = Inr ms \<and> TrimSpace (cd_mounts cd ms) \<noteq> []) \<and>
     (\<forall>t. cd_read_time cd (TrimSpace (cd_time cd t)) = Inr t \<and> TrimSpace (cd_time cd t) \<noteq> [])"

section \<open>The runtime\<close>

record 'e docker_runtime =
  dr_cfg :: docker_config
  dr_client :: "'e docker_client"
  dr_codecs :: codecs
  dr_goos :: string

end
