(* ===== verification/DockerVolumes.thy ===== *)
theory DockerVolumes
  imports DockerClient
begin

text \<open>
  The volumes of the Docker backend (\<open>docker/volumes.go\<close>): a volume is a directory below the
  configured root, with its metadata in a separate directory, and its content is served through an
  \<open>os.Root\<close>. One definition per function, on the host's file system.
\<close>

section \<open>Names and paths\<close>

definition maxDockerVolumeListDepth :: int where "maxDockerVolumeListDepth = 10"
definition maxDockerVolumeIDLength :: nat where "maxDockerVolumeIDLength = 128"
definition dockerLocalVolumeMetadataDir :: string where "dockerLocalVolumeMetadataDir = ''.metadata''"
definition dockerLocalVolumeMetadataSuffix :: string where "dockerLocalVolumeMetadataSuffix = ''.json''"
definition dockerLocalVolumeMetadataFile :: string where "dockerLocalVolumeMetadataFile = ''.e2b-local-volume.json''"

record runtime_volume =
  rv_VolumeID :: string
  rv_Name :: string

record volume_write_options =
  wo_Force :: bool
  wo_Mode :: "int option"
  wo_UID :: "int option"
  wo_GID :: "int option"

record volume_entry_stat =
  es_Atime :: time
  es_Mtime :: time
  es_Ctime :: time
  es_Type :: string
  es_Name :: string
  es_Path :: string
  es_Size :: int
  es_UID :: int
  es_GID :: int
  es_Mode :: int
  es_Target :: string

text \<open>
  \<open>strings.EqualFold\<close> with a name in ASCII: besides the other case, the long s (\<open>U+017F\<close>) folds to
  \<open>s\<close> and the Kelvin sign (\<open>U+212A\<close>) to \<open>k\<close>.
\<close>

fun fold_ascii :: "string \<Rightarrow> string" where
  "fold_ascii [] = []"
| "fold_ascii (c # s) =
     (if take 1 s = [CHR 0xBF] \<and> c = CHR 0xC5 then CHR ''s'' # fold_ascii (drop 1 s)
      else if take 2 s = [CHR 0x84, CHR 0xAA] \<and> c = CHR 0xE2 then CHR ''k'' # fold_ascii (drop 2 s)
      else lower_char c # fold_ascii s)"

definition EqualFoldName :: "string \<Rightarrow> string \<Rightarrow> bool" where
  "EqualFoldName name ascii = (fold_ascii name = ToLower ascii)"

definition isDockerLocalVolumeReservedName :: "string \<Rightarrow> bool" where
  "isDockerLocalVolumeReservedName name \<longleftrightarrow>
     EqualFoldName name dockerLocalVolumeMetadataDir \<or> EqualFoldName name dockerLocalVolumeMetadataFile"

definition volume_id_char :: "char \<Rightarrow> bool" where
  "volume_id_char c \<longleftrightarrow>
     (CHR ''a'' \<le> c \<and> c \<le> CHR ''z'') \<or> (CHR ''A'' \<le> c \<and> c \<le> CHR ''Z'') \<or>
     (CHR ''0'' \<le> c \<and> c \<le> CHR ''9'') \<or> c = CHR ''.'' \<or> c = CHR ''_'' \<or> c = CHR ''-''"

definition dockerLocalVolumeDirName :: "string \<Rightarrow> go_error + string" where
  "dockerLocalVolumeDirName volumeID =
     (let volumeID = TrimSpace volumeID
      in if volumeID = [] then Inl (ErrorString ''volume id is required'')
         else if length volumeID > maxDockerVolumeIDLength then Inl (bad_request ''volume id is too long'')
         else if CHR 0x00 \<in> set volumeID \<or> CHR ''/'' \<in> set volumeID \<or> CHR 0x5C \<in> set volumeID \<or>
                 volumeID = ''.'' \<or> volumeID = ''..'' \<or> isDockerLocalVolumeReservedName volumeID
              then Inl (bad_request ''invalid volume id'')
         else if list_all volume_id_char volumeID then Inr volumeID
         else Inl (bad_request ''invalid volume id''))"

definition ensurePathLexicallyWithinRoot :: "string \<Rightarrow> string \<Rightarrow> go_error + unit" where
  "ensurePathLexicallyWithinRoot root target =
     (let root = path_Clean root; target = path_Clean target
      in case filepath_Rel root target of
           None \<Rightarrow> Inl (ErrorString (''Rel: can't make '' @ target @ '' relative to '' @ root))
         | Some rel \<Rightarrow>
             (if rel = ''.'' \<or> (rel \<noteq> ''..'' \<and> \<not> HasPrefix rel ''../'') then Inr ()
              else Inl (bad_request ''path escapes volume root'')))"

text \<open>\<open>cleanVolumeContentPath\<close>: the parts of a raw path, none of them empty, \<open>.\<close> or \<open>..\<close>.\<close>

fun clean_content_parts :: "string list \<Rightarrow> go_error + string list" where
  "clean_content_parts [] = Inr []"
| "clean_content_parts (part # parts) =
     (if part = [] \<or> part = ''.'' then clean_content_parts parts
      else if part = ''..'' then Inl (bad_request ''path must not contain ..'')
      else case clean_content_parts parts of Inl e \<Rightarrow> Inl e | Inr ps \<Rightarrow> Inr (part # ps))"

definition cleanVolumeContentPath :: "string \<Rightarrow> bool \<Rightarrow> go_error + string" where
  "cleanVolumeContentPath rawPath allowRoot =
     (if rawPath = [] then (if allowRoot then Inr [] else Inl (bad_request ''path is required''))
      else if CHR 0x00 \<in> set rawPath then Inl (bad_request ''path contains NUL'')
      else let rawPath = replace_char CHR 0x5C CHR ''/'' rawPath
           in case clean_content_parts (Split CHR ''/'' rawPath) of
                Inl e \<Rightarrow> Inl e
              | Inr cleaned \<Rightarrow>
                  (let rel = path_Join cleaned; rel = (if rel = ''.'' then [] else rel)
                   in if rel = [] \<and> \<not> allowRoot then Inl (bad_request ''path is required'') else Inr rel))"

definition ensureVolumeContentPathAllowed :: "string \<Rightarrow> go_error + unit" where
  "ensureVolumeContentPathAllowed rel =
     (if rel = [] then Inr ()
      else let reserved = ToLower dockerLocalVolumeMetadataFile; normalized = ToLower rel
           in if normalized = reserved \<or> HasPrefix normalized (reserved @ ''/'')
              then Inl (bad_request ''path is reserved'') else Inr ())"

definition volumeRootPath :: "string \<Rightarrow> string" where
  "volumeRootPath rel = (if rel = [] then ''.'' else rel)"

definition resolveVolumeContentPath :: "string \<Rightarrow> bool \<Rightarrow> go_error + string \<times> string" where
  "resolveVolumeContentPath rawPath allowRoot =
     (case cleanVolumeContentPath rawPath allowRoot of
        Inl e \<Rightarrow> Inl e
      | Inr rel \<Rightarrow> (case ensureVolumeContentPathAllowed rel of Inl e \<Rightarrow> Inl e | Inr u \<Rightarrow> Inr (rel, volumeRootPath rel)))"

definition isVolumeContentPathEscape :: "go_error \<Rightarrow> bool" where
  "isVolumeContentPathEscape e = (e = errPathEscapes)"

definition wrapVolumeContentPathError :: "string \<Rightarrow> go_error \<Rightarrow> go_error" where
  "wrapVolumeContentPathError action e =
     (if isVolumeContentPathEscape e then bad_request ''path escapes volume root''
      else wrap (action @ '': '') e)"

text \<open>The target of a symbolic link is shown only when it stays inside the volume.\<close>

definition volumeSymlinkTargetWithinRoot :: "string \<Rightarrow> string \<Rightarrow> bool" where
  "volumeSymlinkTargetWithinRoot rel target =
     (if path_IsAbs target then False
      else let normalized = replace_char CHR 0x5C CHR ''/'' target
           in if path_IsAbs normalized then False
              else let resolved = path_Clean (path_Join [path_Dir rel, normalized])
                   in resolved \<noteq> ''..'' \<and> \<not> HasPrefix resolved ''../'')"

section \<open>Metadata files\<close>

text \<open>
  \<open>writeFileAtomic\<close>: a temporary file in the same directory, then a rename; the temporary file is
  removed unless the rename succeeded.
\<close>

definition cleanup_unless_ok :: "('e, 'a) host_op \<Rightarrow> ('e, unit) host_op \<Rightarrow> ('e, 'a) host_op" where
  "cleanup_unless_ok m c h =
     (case m h of (Inl e, t) \<Rightarrow> (Inl e, snd (c t)) | (Inr x, t) \<Rightarrow> (Inr x, t))"

definition after_close :: "string list \<Rightarrow> ('e, 'a) host_op \<Rightarrow> ('e, 'a) host_op" where
  "after_close file m = caseE m (\<lambda>e. bindE (ignoreE (file_Close file)) (\<lambda>u. fail e)) ret"

definition writeFileAtomic :: "string \<Rightarrow> string \<Rightarrow> int \<Rightarrow> ('e, unit) host_op" where
  "writeFileAtomic path data mode =
     (let dir = path_Dir path
      in bindE (mapErr (wrap ''create parent directory: '') (os_MkdirAll dir 493)) (\<lambda>u.
         bindE (mapErr (wrap ''create temporary file: '')
                  (os_CreateTemp dir (''.'' @ path_Base path @ ''.tmp-''))) (\<lambda>file.
         cleanup_unless_ok
           (bindE (after_close file (mapErr (wrap ''write temporary file: '') (file_Write file data))) (\<lambda>u.
            bindE (after_close file (mapErr (wrap ''chmod temporary file: '') (file_Chmod file mode))) (\<lambda>u.
            bindE (after_close file (mapErr (wrap ''sync temporary file: '') (file_Sync file))) (\<lambda>u.
            bindE (mapErr (wrap ''close temporary file: '') (file_Close file)) (\<lambda>u.
            mapErr (wrap ''replace file: '') (os_RenameTo file path))))))
           (ignoreE (os_RemoveFile file)))))"

definition writeDockerLocalVolumeMetadata :: "codecs \<Rightarrow> string \<Rightarrow> volume_metadata \<Rightarrow> ('e, unit) host_op" where
  "writeDockerLocalVolumeMetadata cd metadataPath metadata =
     mapErr (wrap ''write docker local volume metadata: '')
       (writeFileAtomic metadataPath (cd_metadata cd metadata @ [CHR 0x0A]) 420)"

definition readDockerLocalVolumeMetadataFile :: "codecs \<Rightarrow> string \<Rightarrow> ('e, volume_metadata) host_op" where
  "readDockerLocalVolumeMetadataFile cd path =
     bindE (os_ReadFile path) (\<lambda>data.
       mapErr (wrap ''decode docker local volume metadata: '') (liftE (cd_read_metadata cd data)))"

definition runtimeVolumeFromDockerLocalMetadata :: "volume_metadata \<Rightarrow> go_error + runtime_volume" where
  "runtimeVolumeFromDockerLocalMetadata metadata =
     (if \<not> md_Managed metadata \<or> TrimSpace (md_VolumeID metadata) = [] \<or> TrimSpace (md_Name metadata) = []
      then Inl (ErrorString ''invalid docker local volume metadata'')
      else Inr \<lparr>rv_VolumeID = TrimSpace (md_VolumeID metadata), rv_Name = TrimSpace (md_Name metadata)\<rparr>)"

text \<open>Older volumes keep their metadata in the content directory; it is moved on first use.\<close>

definition readDockerLocalVolumeMetadata :: "codecs \<Rightarrow> string \<Rightarrow> string \<Rightarrow> ('e, runtime_volume) host_op" where
  "readDockerLocalVolumeMetadata cd dir metadataPath =
     caseE (readDockerLocalVolumeMetadataFile cd metadataPath)
       (\<lambda>err. if \<not> os_IsNotExist err then fail err
              else let legacyPath = path_Join [dir, dockerLocalVolumeMetadataFile]
                   in bindE (readDockerLocalVolumeMetadataFile cd legacyPath) (\<lambda>metadata.
                      bindE (mapErr (wrap ''migrate docker local volume metadata: '')
                               (writeDockerLocalVolumeMetadata cd metadataPath metadata)) (\<lambda>u.
                      bindE (ignoreE (os_Remove legacyPath)) (\<lambda>u.
                      liftE (runtimeVolumeFromDockerLocalMetadata metadata)))))
       (\<lambda>metadata. liftE (runtimeVolumeFromDockerLocalMetadata metadata))"

section \<open>Volumes\<close>

definition ensureLocalVolumeRoot :: "'e docker_runtime \<Rightarrow> ('e, string) host_op" where
  "ensureLocalVolumeRoot r =
     (let root = TrimSpace (dc_VolumeHostPath (dr_cfg r))
      in if root = [] then fail (ErrorString ''docker.volume_host_path is required'')
         else let root = path_Clean root
              in if \<not> path_IsAbs root then fail (ErrorString ''docker.volume_host_path must be an absolute path'')
                 else bindE (mapErr (wrap ''create docker local volume root: '') (os_MkdirAll root 493)) (\<lambda>u. ret root))"

definition localVolumePaths :: "'e docker_runtime \<Rightarrow> string \<Rightarrow> ('e, string \<times> string \<times> string \<times> string) host_op" where
  "localVolumePaths r volumeID =
     bindE (ensureLocalVolumeRoot r) (\<lambda>root.
     bindE (liftE (dockerLocalVolumeDirName volumeID)) (\<lambda>name.
       let dir = path_Join [root, name];
           metadataPath = path_Join [root, dockerLocalVolumeMetadataDir, name @ dockerLocalVolumeMetadataSuffix]
       in bindE (liftE (ensurePathLexicallyWithinRoot root dir)) (\<lambda>u.
          bindE (liftE (ensurePathLexicallyWithinRoot root metadataPath)) (\<lambda>u.
          ret (root, name, dir, metadataPath)))))"

definition localVolumeHostDir :: "'e docker_runtime \<Rightarrow> string \<Rightarrow> ('e, string) host_op" where
  "localVolumeHostDir r volumeID =
     bindE (localVolumePaths r volumeID) (\<lambda>(root, name, dir, metadataPath). ret dir)"

definition localVolumeMetadataPath :: "'e docker_runtime \<Rightarrow> string \<Rightarrow> ('e, string) host_op" where
  "localVolumeMetadataPath r volumeID =
     bindE (localVolumePaths r volumeID) (\<lambda>(root, name, dir, metadataPath). ret metadataPath)"

definition volume_not_found :: "'e docker_runtime \<Rightarrow> string \<Rightarrow> go_error" where
  "volume_not_found r volumeID =
     dk_NotFound (dr_client r) (ErrorString (''volume '' @ volumeID @ '' not found''))"

definition localVolume :: "'e docker_runtime \<Rightarrow> string \<Rightarrow> ('e, runtime_volume \<times> string) host_op" where
  "localVolume r volumeID =
     bindE (localVolumePaths r volumeID) (\<lambda>(root, name, dir, metadataPath).
     caseE (os_Lstat dir)
       (\<lambda>err. fail (if os_IsNotExist err then volume_not_found r volumeID
                    else wrap (''stat docker local volume '' @ volumeID @ '': '') err))
       (\<lambda>info. if i_node info \<noteq> Dir then fail (volume_not_found r volumeID)
               else caseE (readDockerLocalVolumeMetadata (dr_codecs r) dir metadataPath)
                      (\<lambda>err. fail (if os_IsNotExist err then volume_not_found r volumeID else err))
                      (\<lambda>volume. if rv_VolumeID volume \<noteq> TrimSpace volumeID then fail (volume_not_found r volumeID)
                                else ret (volume, dir))))"

text \<open>\<open>CreateVolume\<close> makes a directory that is not there, or takes one it made before.\<close>

definition new_volume :: "'e docker_runtime \<Rightarrow> string \<Rightarrow> string \<Rightarrow> string \<Rightarrow> string \<Rightarrow> ('e, runtime_volume) host_op" where
  "new_volume r name volumeName dir metadataPath =
     bindE (mapErr (wrap (''create docker local volume '' @ name @ '': '')) (os_MkdirAll dir 493)) (\<lambda>u.
     bindE time_Now (\<lambda>now.
     let metadata = \<lparr>md_VolumeID = volumeName, md_Name = volumeName, md_Managed = True, md_CreatedAt = now\<rparr>
     in caseE (writeDockerLocalVolumeMetadata (dr_codecs r) metadataPath metadata)
          (\<lambda>err. bindE (ignoreE (os_RemoveAll dir)) (\<lambda>u. fail err))
          (\<lambda>u. ret \<lparr>rv_VolumeID = volumeName, rv_Name = volumeName\<rparr>)))"

definition existing_volume :: "'e docker_runtime \<Rightarrow> string \<Rightarrow> string \<Rightarrow> string \<Rightarrow> string \<Rightarrow> ('e, runtime_volume) host_op" where
  "existing_volume r name volumeName dir metadataPath =
     caseE (readDockerLocalVolumeMetadata (dr_codecs r) dir metadataPath)
       (\<lambda>err. fail (ErrorString (''refusing to use unmanaged docker local volume directory '' @ dir)))
       (\<lambda>volume. if rv_VolumeID volume \<noteq> volumeName
                 then fail (ErrorString (''docker local volume metadata mismatch for '' @ name))
                 else ret volume)"

definition CreateVolume :: "'e docker_runtime \<Rightarrow> string \<Rightarrow> ('e, runtime_volume) host_op" where
  "CreateVolume r name =
     (let name = TrimSpace name
      in if name = [] then fail (ErrorString ''volume name is required'')
         else bindE (localVolumePaths r name) (\<lambda>(root, volumeName, dir, metadataPath).
              caseE (os_Lstat dir)
                (\<lambda>err. if \<not> os_IsNotExist err then fail (wrap (''stat docker local volume '' @ dir @ '': '') err)
                       else new_volume r name volumeName dir metadataPath)
                (\<lambda>info. if i_node info \<noteq> Dir
                        then fail (ErrorString (''docker local volume path '' @ dir @ '' is not a directory''))
                        else existing_volume r name volumeName dir metadataPath)))"

fun list_volumes :: "codecs \<Rightarrow> string \<Rightarrow> (string \<times> inode) list \<Rightarrow> ('e, runtime_volume list) host_op" where
  "list_volumes cd base [] = ret []"
| "list_volumes cd base (entry # entries) =
     (let name = fst entry
      in if i_node (snd entry) \<noteq> Dir \<or> isDockerLocalVolumeReservedName name then list_volumes cd base entries
         else let metadataPath = path_Join [base, dockerLocalVolumeMetadataDir, name @ dockerLocalVolumeMetadataSuffix]
              in caseE (readDockerLocalVolumeMetadata cd (path_Join [base, name]) metadataPath)
                   (\<lambda>err. list_volumes cd base entries)
                   (\<lambda>volume. bindE (list_volumes cd base entries) (\<lambda>rest.
                      ret (if rv_VolumeID volume \<noteq> name then rest else volume # rest))))"

definition ListVolumes :: "'e docker_runtime \<Rightarrow> ('e, runtime_volume list) host_op" where
  "ListVolumes r =
     bindE (ensureLocalVolumeRoot r) (\<lambda>base.
     bindE (mapErr (wrap ''list docker local volumes: '') (os_ReadDir base)) (\<lambda>entries.
     bindE (list_volumes (dr_codecs r) base entries) (\<lambda>result.
     ret (sort_key rv_Name result))))"

definition GetVolume :: "'e docker_runtime \<Rightarrow> string \<Rightarrow> ('e, runtime_volume) host_op" where
  "GetVolume r volumeID = bindE (localVolume r volumeID) (\<lambda>(volume, dir). ret volume)"

definition dockerBindMountSourceMatches :: "string \<Rightarrow> string \<Rightarrow> string \<Rightarrow> bool" where
  "dockerBindMountSourceMatches goos source dir =
     (let source = path_Clean (TrimSpace source); dir = path_Clean (TrimSpace dir)
      in if source = dir then True
         else if goos = ''darwin'' \<or> goos = ''windows'' then EqualFold source dir
         else False)"

definition dockerLocalVolumeInUse :: "'e docker_runtime \<Rightarrow> string \<Rightarrow> ('e, bool) host_op" where
  "dockerLocalVolumeInUse r dir =
     bindE (mapErr (wrap ''list docker containers: '')
              (engine_call (dr_client r) (dk_ContainerList (dr_client r) []))) (\<lambda>containers.
     ret (\<exists>c \<in> set containers. \<exists>m \<in> set (cs_Mounts c).
            mp_Type m = TypeBind \<and> dockerBindMountSourceMatches (dr_goos r) (mp_Source m) dir))"

definition DeleteVolume :: "'e docker_runtime \<Rightarrow> string \<Rightarrow> ('e, bool) host_op" where
  "DeleteVolume r volumeID =
     caseE (localVolume r volumeID)
       (\<lambda>err. if dk_IsNotFound (dr_client r) err then ret False else fail err)
       (\<lambda>(volume, dir).
          bindE (mapErr (wrap (''check docker local volume '' @ volumeID @ '' usage: '')) (dockerLocalVolumeInUse r dir)) (\<lambda>inUse.
          if inUse then fail (GatewayError 409 (''volume '' @ volumeID @ '' is in use''))
          else bindE (mapErr (wrap (''remove docker local volume '' @ volumeID @ '': '')) (os_RemoveAll dir)) (\<lambda>u.
               caseE (localVolumeMetadataPath r volumeID)
                 (\<lambda>err. ret True)
                 (\<lambda>metadataPath.
                    caseE (os_Remove metadataPath)
                      (\<lambda>err. if \<not> os_IsNotExist err
                             then fail (wrap (''remove docker local volume metadata '' @ volumeID @ '': '') err)
                             else ret True)
                      (\<lambda>u. ret True)))))"

definition ensureLocalVolume :: "'e docker_runtime \<Rightarrow> string \<Rightarrow> ('e, runtime_volume \<times> string) host_op" where
  "ensureLocalVolume r volumeID =
     caseE (localVolume r volumeID)
       (\<lambda>err. if \<not> dk_IsNotFound (dr_client r) err then fail err
              else bindE (CreateVolume r volumeID) (\<lambda>volume.
                   bindE (localVolumeHostDir r (rv_VolumeID volume)) (\<lambda>dir.
                   ret (volume, dir))))
       ret"

section \<open>Content\<close>

definition openVolumeContentRoot :: "'e docker_runtime \<Rightarrow> string \<Rightarrow> ('e, string list) host_op" where
  "openVolumeContentRoot r dir =
     mapErr (\<lambda>err. if os_IsNotExist err then dk_NotFound (dr_client r) (ErrorString ''volume not found'')
                   else wrap ''open volume root: '' err) (os_OpenRoot dir)"

definition node_size :: "fs_node \<Rightarrow> int" where
  "node_size n = (case n of Dir \<Rightarrow> 4096 | File d \<Rightarrow> int (length d) | Symlink t \<Rightarrow> int (length t))"

definition populateVolumeEntryPlatformStat :: "string \<Rightarrow> inode \<Rightarrow> volume_entry_stat \<Rightarrow> volume_entry_stat" where
  "populateVolumeEntryPlatformStat goos info stat =
     (if goos = ''linux'' \<or> goos = ''darwin''
      then stat\<lparr>es_UID := i_uid info, es_GID := i_gid info, es_Atime := i_atime info, es_Ctime := i_ctime info\<rparr>
      else stat)"

definition volume_path_not_found :: "'e docker_runtime \<Rightarrow> go_error" where
  "volume_path_not_found r = dk_NotFound (dr_client r) (ErrorString ''volume path not found'')"

definition basic_stat :: "string \<Rightarrow> string \<Rightarrow> inode \<Rightarrow> volume_entry_stat" where
  "basic_stat goos rel info =
     (let stat = populateVolumeEntryPlatformStat goos info
            \<lparr>es_Atime = i_mtime info, es_Mtime = i_mtime info, es_Ctime = i_mtime info, es_Type = ''unknown'',
             es_Name = path_Base rel, es_Path = ''/'' @ rel, es_Size = node_size (i_node info),
             es_UID = 0, es_GID = 0, es_Mode = i_mode info mod 512, es_Target = []\<rparr>
      in if rel = [] then stat\<lparr>es_Name := ''/'', es_Path := ''/''\<rparr> else stat)"

definition volumeEntryStatFromInfo :: "'e docker_runtime \<Rightarrow> string list \<Rightarrow> string \<Rightarrow> string \<Rightarrow> inode \<Rightarrow> ('e, volume_entry_stat) host_op" where
  "volumeEntryStatFromInfo r root rootPath rel info =
     (let stat = basic_stat (dr_goos r) rel info
      in case i_node info of
           Symlink t \<Rightarrow>
             caseE (root_Stat root rootPath)
               (\<lambda>err. fail (if os_IsNotExist err then volume_path_not_found r
                            else wrapVolumeContentPathError ''resolve volume symbolic link'' err))
               (\<lambda>i. caseE (root_Readlink root rootPath)
                      (\<lambda>err. ret (stat\<lparr>es_Type := ''symlink''\<rparr>))
                      (\<lambda>target. ret (if volumeSymlinkTargetWithinRoot rel target
                                     then stat\<lparr>es_Type := ''symlink'', es_Target := target\<rparr>
                                     else stat\<lparr>es_Type := ''symlink''\<rparr>)))
         | Dir \<Rightarrow> ret (stat\<lparr>es_Type := ''directory''\<rparr>)
         | File d \<Rightarrow> ret (stat\<lparr>es_Type := ''file''\<rparr>))"

definition volumeEntryStat :: "'e docker_runtime \<Rightarrow> string list \<Rightarrow> string \<Rightarrow> string \<Rightarrow> ('e, volume_entry_stat) host_op" where
  "volumeEntryStat r root rootPath rel =
     caseE (root_Lstat root rootPath)
       (\<lambda>err. fail (if os_IsNotExist err then volume_path_not_found r
                    else wrapVolumeContentPathError ''stat volume path'' err))
       (\<lambda>info. volumeEntryStatFromInfo r root rootPath rel info)"

definition GetVolumePathInfo :: "'e docker_runtime \<Rightarrow> string \<Rightarrow> string \<Rightarrow> ('e, volume_entry_stat) host_op" where
  "GetVolumePathInfo r volumeID path =
     bindE (localVolume r volumeID) (\<lambda>(volume, dir).
     bindE (liftE (resolveVolumeContentPath path True)) (\<lambda>(rel, rootPath).
     bindE (openVolumeContentRoot r dir) (\<lambda>root.
     volumeEntryStat r root rootPath rel)))"

text \<open>The open file stands for its content, which the caller reads.\<close>

definition ReadVolumeFile :: "'e docker_runtime \<Rightarrow> string \<Rightarrow> string \<Rightarrow> ('e, string) host_op" where
  "ReadVolumeFile r volumeID path =
     bindE (localVolume r volumeID) (\<lambda>(volume, dir).
     bindE (liftE (resolveVolumeContentPath path False)) (\<lambda>(rel, rootPath).
     bindE (openVolumeContentRoot r dir) (\<lambda>root.
     bindE (mapErr (\<lambda>err. if os_IsNotExist err then dk_NotFound (dr_client r) (ErrorString ''volume file not found'')
                          else wrapVolumeContentPathError ''read volume file'' err) (root_Open root rootPath)) (\<lambda>file.
     caseE (file_Stat file)
       (\<lambda>err. bindE (ignoreE (file_Close file)) (\<lambda>u. fail (wrap ''stat volume file: '' err)))
       (\<lambda>info. case i_node info of
          Dir \<Rightarrow> bindE (ignoreE (file_Close file)) (\<lambda>u. fail (bad_request ''path is a directory''))
        | File d \<Rightarrow> ret d
        | Symlink t \<Rightarrow> ret t)))))"

definition applyVolumeOwnership :: "string \<Rightarrow> string list \<Rightarrow> volume_write_options \<Rightarrow> string \<Rightarrow> ('e, unit) host_op" where
  "applyVolumeOwnership goos file opts label =
     (if wo_UID opts = None \<and> wo_GID opts = None then ret ()
      else if goos = ''windows'' then ret ()
      else let uid = (case wo_UID opts of None \<Rightarrow> -1 | Some u \<Rightarrow> u);
               gid = (case wo_GID opts of None \<Rightarrow> -1 | Some g \<Rightarrow> g)
           in mapErr (wrap (''chown '' @ label @ '': '')) (file_Chown file uid gid))"

text \<open>At most ten names are tried for the temporary file.\<close>

fun open_temp :: "nat \<Rightarrow> string list \<Rightarrow> ('e, string \<times> string list) host_op" where
  "open_temp 0 root = fail (ErrorString ''create temporary volume file: name collision'')"
| "open_temp (Suc n) root =
     bindE random_name (\<lambda>u.
       let tmpName = ''.e2b-write-'' @ u
       in caseE (root_CreateExcl root tmpName 384)
            (\<lambda>err. if \<not> os_IsExist err then fail (wrap ''create temporary volume file: '' err) else open_temp n root)
            (\<lambda>file. ret (tmpName, file)))"

text \<open>What copying the request body into a file gives: everything, or the reader's error.\<close>

definition io_Copy :: "string list \<Rightarrow> upload_body \<Rightarrow> ('e, unit) host_op" where
  "io_Copy file body =
     bindE (file_Write file (ub_data body)) (\<lambda>u.
       case ub_end body of EOF \<Rightarrow> ret () | MaxBytesError \<Rightarrow> fail http_MaxBytesError | ReadError e \<Rightarrow> fail e)"

definition writeVolumeTempFile :: "string \<Rightarrow> string list \<Rightarrow> upload_body \<Rightarrow> int \<Rightarrow> volume_write_options \<Rightarrow> ('e, string) host_op" where
  "writeVolumeTempFile goos root body mode opts =
     bindE (open_temp 10 root) (\<lambda>(tmpName, file).
     cleanup_unless_ok
       (bindE (after_close file (mapErr (wrap ''write volume file: '') (io_Copy file body))) (\<lambda>u.
        bindE (after_close file (mapErr (wrap ''chmod volume file: '') (file_Chmod file mode))) (\<lambda>u.
        bindE (after_close file (applyVolumeOwnership goos file opts ''volume file'')) (\<lambda>u.
        bindE (after_close file (mapErr (wrap ''sync volume file: '') (file_Sync file))) (\<lambda>u.
        bindE (mapErr (wrap ''close volume file: '') (file_Close file)) (\<lambda>u.
        ret tmpName))))))
       (ignoreE (root_Remove root tmpName)))"

definition check_target :: "string list \<Rightarrow> string \<Rightarrow> bool \<Rightarrow> ('e, unit) host_op" where
  "check_target parentRoot targetName force =
     caseE (root_Lstat parentRoot targetName)
       (\<lambda>err. if os_IsNotExist err then ret () else fail (wrapVolumeContentPathError ''stat volume file'' err))
       (\<lambda>info. case i_node info of
          Dir \<Rightarrow> fail (bad_request ''path is a directory'')
        | Symlink t \<Rightarrow> fail (bad_request ''path is a symbolic link'')
        | File d \<Rightarrow> if force then ret () else fail (GatewayError 409 ''path already exists''))"

definition publish_file :: "string list \<Rightarrow> string \<Rightarrow> string \<Rightarrow> bool \<Rightarrow> ('e, unit) host_op" where
  "publish_file parentRoot tmpName targetName force =
     (if force then mapErr (wrap ''replace volume file: '') (root_Rename parentRoot tmpName targetName)
      else mapErr (\<lambda>err. if os_IsExist err then GatewayError 409 ''path already exists''
                         else wrap ''create volume file: '' err) (root_Link parentRoot tmpName targetName))"

text \<open>The parent directory stays open while the file is written and published in it.\<close>

definition write_in_parent :: "'e docker_runtime \<Rightarrow> upload_body \<Rightarrow> volume_write_options \<Rightarrow> string \<Rightarrow> string list \<Rightarrow> ('e, volume_entry_stat) host_op" where
  "write_in_parent r body opts rel parentRoot =
     (let targetName = path_Base rel
      in bindE (check_target parentRoot targetName (wo_Force opts)) (\<lambda>u.
         let mode = (case wo_Mode opts of None \<Rightarrow> 420 | Some m \<Rightarrow> m)
         in bindE (writeVolumeTempFile (dr_goos r) parentRoot body mode opts) (\<lambda>tmpName.
            finallyE
              (bindE (publish_file parentRoot tmpName targetName (wo_Force opts)) (\<lambda>u.
               volumeEntryStat r parentRoot targetName rel))
              (ignoreE (root_Remove parentRoot tmpName)))))"

definition WriteVolumeFile :: "'e docker_runtime \<Rightarrow> string \<Rightarrow> string \<Rightarrow> upload_body \<Rightarrow> volume_write_options \<Rightarrow> ('e, volume_entry_stat) host_op" where
  "WriteVolumeFile r volumeID path body opts =
     bindE (localVolume r volumeID) (\<lambda>(volume, dir).
     bindE (liftE (resolveVolumeContentPath path False)) (\<lambda>(rel, rootPath).
     bindE (openVolumeContentRoot r dir) (\<lambda>root.
       let parentPath = volumeRootPath (path_Dir rel)
       in bindE (mapErr (\<lambda>err. if os_IsExist err then bad_request ''path parent is not a directory''
                               else wrapVolumeContentPathError ''create volume file parent'' err)
                   (root_MkdirAll root parentPath 493)) (\<lambda>u.
          bindE (mapErr (wrapVolumeContentPathError ''open volume file parent'') (root_OpenRoot root parentPath))
            (write_in_parent r body opts rel)))))"

text \<open>
  \<open>collectVolumeDirEntries\<close>: \<open>child\<close> lists a subdirectory, and is missing at the last level.
\<close>

fun visit_entries :: "'e docker_runtime \<Rightarrow> (string list \<Rightarrow> string \<Rightarrow> ('e, volume_entry_stat list) host_op) option \<Rightarrow>
    string list \<Rightarrow> string \<Rightarrow> (string \<times> inode) list \<Rightarrow> ('e, volume_entry_stat list) host_op" where
  "visit_entries r child root rel [] = ret []"
| "visit_entries r child root rel (entry # entries) =
     (let name = fst entry
      in if EqualFoldName name dockerLocalVolumeMetadataFile then visit_entries r child root rel entries
         else let entryRel = path_Join [rel, name]
              in bindE (volumeEntryStat r root name entryRel) (\<lambda>stat.
                 bindE (case child of
                          None \<Rightarrow> ret []
                        | Some list_child \<Rightarrow>
                            (if i_node (snd entry) \<noteq> Dir then ret []
                             else bindE (mapErr (wrapVolumeContentPathError ''open volume directory'') (root_OpenRoot root name)) (\<lambda>childRoot.
                                  list_child childRoot entryRel))) (\<lambda>below.
                 bindE (visit_entries r child root rel entries) (\<lambda>rest.
                 ret (stat # below @ rest)))))"

fun collectVolumeDirEntries :: "'e docker_runtime \<Rightarrow> nat \<Rightarrow> string list \<Rightarrow> string \<Rightarrow> ('e, volume_entry_stat list) host_op" where
  "collectVolumeDirEntries r depth root rel =
     bindE (mapErr (wrapVolumeContentPathError ''open volume directory'') (root_Open root ''.'')) (\<lambda>dir.
     caseE (dir_ReadDir dir)
       (\<lambda>err. bindE (ignoreE (file_Close dir)) (\<lambda>u. fail (wrap ''read volume directory: '' err)))
       (\<lambda>entries.
          bindE (mapErr (wrap ''close volume directory: '') (file_Close dir)) (\<lambda>u.
          visit_entries r (if depth > 1 then Some (collectVolumeDirEntries r (depth - 1)) else None) root rel entries)))"

definition ListVolumeDir :: "'e docker_runtime \<Rightarrow> string \<Rightarrow> string \<Rightarrow> int \<Rightarrow> ('e, volume_entry_stat list) host_op" where
  "ListVolumeDir r volumeID path depth =
     bindE (localVolume r volumeID) (\<lambda>(volume, dir).
     bindE (liftE (resolveVolumeContentPath path True)) (\<lambda>(rel, rootPath).
     bindE (openVolumeContentRoot r dir) (\<lambda>root.
     bindE (mapErr (\<lambda>err. if os_IsNotExist err then dk_NotFound (dr_client r) (ErrorString ''volume directory not found'')
                          else wrapVolumeContentPathError ''stat volume directory'' err) (root_Stat root rootPath)) (\<lambda>info.
     if i_node info \<noteq> Dir then fail (bad_request ''path is not a directory'')
     else let depth = (if depth \<le> 0 then 1 else depth)
          in if depth > maxDockerVolumeListDepth
             then fail (bad_request (''volume directory depth must be less than or equal to '' @ Itoa maxDockerVolumeListDepth))
             else bindE (mapErr (wrapVolumeContentPathError ''open volume directory'') (root_OpenRoot root rootPath)) (\<lambda>dirRoot.
                  bindE (collectVolumeDirEntries r (nat depth) dirRoot rel) (\<lambda>result.
                  ret (sort_key es_Path result)))))))"

definition check_dir :: "string list \<Rightarrow> string \<Rightarrow> ('e, unit) host_op" where
  "check_dir root rootPath =
     caseE (root_Lstat root rootPath)
       (\<lambda>err. if os_IsNotExist err then ret () else fail (wrapVolumeContentPathError ''stat volume directory'' err))
       (\<lambda>info. case i_node info of
          Symlink t \<Rightarrow> fail (bad_request ''path is a symbolic link'')
        | File d \<Rightarrow> fail (bad_request ''path is not a directory'')
        | Dir \<Rightarrow> ret ())"

definition finish_dir :: "'e docker_runtime \<Rightarrow> volume_write_options \<Rightarrow> int \<Rightarrow> string list \<Rightarrow> string \<Rightarrow> string \<Rightarrow> string list \<Rightarrow> ('e, volume_entry_stat) host_op" where
  "finish_dir r opts mode root rootPath rel dirFile =
     bindE (if wo_Mode opts = None then ret ()
            else mapErr (wrap ''chmod volume directory: '') (file_Chmod dirFile mode)) (\<lambda>u.
     bindE (applyVolumeOwnership (dr_goos r) dirFile opts ''volume directory'') (\<lambda>u.
     bindE (mapErr (wrap ''stat volume directory: '') (file_Stat dirFile)) (\<lambda>info.
     volumeEntryStatFromInfo r root rootPath rel info)))"

definition CreateVolumeDir :: "'e docker_runtime \<Rightarrow> string \<Rightarrow> string \<Rightarrow> volume_write_options \<Rightarrow> ('e, volume_entry_stat) host_op" where
  "CreateVolumeDir r volumeID path opts =
     bindE (localVolume r volumeID) (\<lambda>(volume, dir).
     bindE (liftE (resolveVolumeContentPath path True)) (\<lambda>(rel, rootPath).
     bindE (openVolumeContentRoot r dir) (\<lambda>root.
       let mode = (case wo_Mode opts of None \<Rightarrow> 493 | Some m \<Rightarrow> m)
       in bindE (check_dir root rootPath) (\<lambda>u.
          bindE (mapErr (\<lambda>err. if os_IsExist err then bad_request ''path parent is not a directory''
                               else wrapVolumeContentPathError ''create volume directory'' err)
                   (root_MkdirAll root rootPath mode)) (\<lambda>u.
          bindE (mapErr (wrapVolumeContentPathError ''open volume directory'') (root_Open root rootPath))
            (finish_dir r opts mode root rootPath rel))))))"

end
