(* ===== verification/DockerImages.thy ===== *)
theory DockerImages
  imports DockerClient Observability
begin

text \<open>
  The parts of the Docker backend (\<open>docker/runtime.go\<close>) that compute: image references and names,
  the Dockerfile of a template, the build context, labels, ports, logs and platforms. What asks
  the daemon is in DockerRuntime.
\<close>

section \<open>Constants\<close>

definition dockerEnvdPath :: string where "dockerEnvdPath = ''/usr/local/bin/envd''"
definition dockerEnvdPort :: int where "dockerEnvdPort = 49983"
definition dockerEnvdHostIP :: string where "dockerEnvdHostIP = ''127.0.0.1''"
definition dockerPublishedHostIP :: string where "dockerPublishedHostIP = ''0.0.0.0''"
definition dockerEnvdBinaryAMD64 :: string where "dockerEnvdBinaryAMD64 = ''envd-bin/envd-linux-amd64''"
definition dockerEnvdBinaryARM64 :: string where "dockerEnvdBinaryARM64 = ''envd-bin/envd-linux-arm64''"
definition dockerPacketCaptureCapability :: string where "dockerPacketCaptureCapability = ''NET_RAW''"
definition dockerFUSECapability :: string where "dockerFUSECapability = ''SYS_ADMIN''"
definition dockerFUSEDevicePath :: string where "dockerFUSEDevicePath = ''/dev/fuse''"

definition dockerLocalManagedLabel :: string where "dockerLocalManagedLabel = ''e2b.local.managed''"
definition dockerLocalSnapshotLabel :: string where "dockerLocalSnapshotLabel = ''e2b.local.snapshot''"
definition dockerLocalSnapshotSourceSandboxLabel :: string where
  "dockerLocalSnapshotSourceSandboxLabel = ''e2b.local.snapshot.source_sandbox_id''"
definition dockerLocalSnapshotNameLabel :: string where "dockerLocalSnapshotNameLabel = ''e2b.local.snapshot.name''"
definition dockerLocalSnapshotRefLabel :: string where "dockerLocalSnapshotRefLabel = ''e2b.local.snapshot.ref''"
definition dockerLocalSnapshotCreatedAtLabel :: string where
  "dockerLocalSnapshotCreatedAtLabel = ''e2b.local.snapshot.created_at''"
definition dockerLocalImageLabel :: string where "dockerLocalImageLabel = ''e2b.local.image''"
definition dockerLocalSandboxIDLabel :: string where "dockerLocalSandboxIDLabel = ''e2b.local.sandbox_id''"
definition dockerLocalSandboxTemplateIDLabel :: string where
  "dockerLocalSandboxTemplateIDLabel = ''e2b.local.template_id''"
definition dockerLocalSandboxCreatedAtLabel :: string where
  "dockerLocalSandboxCreatedAtLabel = ''e2b.local.sandbox.created_at''"
definition dockerLocalSandboxEndAtLabel :: string where "dockerLocalSandboxEndAtLabel = ''e2b.local.sandbox.end_at''"
definition dockerLocalSandboxMetadataLabel :: string where
  "dockerLocalSandboxMetadataLabel = ''e2b.local.sandbox.metadata''"
definition dockerLocalSandboxAllowInternetLabel :: string where
  "dockerLocalSandboxAllowInternetLabel = ''e2b.local.sandbox.allow_internet_access''"
definition dockerLocalSandboxOnTimeoutLabel :: string where
  "dockerLocalSandboxOnTimeoutLabel = ''e2b.local.sandbox.on_timeout''"
definition dockerLocalSandboxAutoPauseLabel :: string where
  "dockerLocalSandboxAutoPauseLabel = ''e2b.local.sandbox.auto_pause''"
definition dockerLocalSandboxVolumeMountsLabel :: string where
  "dockerLocalSandboxVolumeMountsLabel = ''e2b.local.sandbox.volume_mounts''"
definition dockerLocalTemplateLabel :: string where "dockerLocalTemplateLabel = ''e2b.local.template''"
definition dockerLocalTemplateIDLabel :: string where "dockerLocalTemplateIDLabel = ''e2b.local.template_id''"
definition dockerLocalTemplateNamesLabel :: string where "dockerLocalTemplateNamesLabel = ''e2b.local.template.names''"
definition dockerLocalTemplateBuildIDLabel :: string where
  "dockerLocalTemplateBuildIDLabel = ''e2b.local.template.build_id''"
definition dockerLocalTemplateCPUCountLabel :: string where
  "dockerLocalTemplateCPUCountLabel = ''e2b.local.template.cpu_count''"
definition dockerLocalTemplateMemoryMBLabel :: string where
  "dockerLocalTemplateMemoryMBLabel = ''e2b.local.template.memory_mb''"
definition dockerLocalTemplateStartCmdLabel :: string where
  "dockerLocalTemplateStartCmdLabel = ''e2b.local.template.start_cmd''"
definition dockerLocalTemplateReadyCmdLabel :: string where
  "dockerLocalTemplateReadyCmdLabel = ''e2b.local.template.ready_cmd''"

lemmas sandbox_label_defs = dockerLocalManagedLabel_def dockerLocalImageLabel_def dockerLocalSandboxIDLabel_def
  dockerLocalSandboxTemplateIDLabel_def dockerLocalSandboxCreatedAtLabel_def dockerLocalSandboxEndAtLabel_def
  dockerLocalSandboxMetadataLabel_def dockerLocalSandboxAllowInternetLabel_def dockerLocalSandboxOnTimeoutLabel_def
  dockerLocalSandboxAutoPauseLabel_def dockerLocalSandboxVolumeMountsLabel_def

section \<open>Image references\<close>

text \<open>
  Lower and upper case of a string: the letters of ASCII, and the characters outside ASCII whose
  other case is an ASCII letter (the dotted capital I and the Kelvin sign; the dotless i and the
  long s). Other characters outside ASCII are kept, which makes no difference where the result is
  reduced to or compared with ASCII.
\<close>

fun lower_utf8 :: "string \<Rightarrow> string" where
  "lower_utf8 [] = []"
| "lower_utf8 (c # s) =
     (if c = CHR 0xC4 \<and> take 1 s = [CHR 0xB0] then CHR ''i'' # lower_utf8 (drop 1 s)
      else if c = CHR 0xE2 \<and> take 2 s = [CHR 0x84, CHR 0xAA] then CHR ''k'' # lower_utf8 (drop 2 s)
      else lower_char c # lower_utf8 s)"

definition upper_char :: "char \<Rightarrow> char" where
  "upper_char c = (if CHR ''a'' \<le> c \<and> c \<le> CHR ''z'' then char_of (of_char c - 32 :: nat) else c)"

fun upper_utf8 :: "string \<Rightarrow> string" where
  "upper_utf8 [] = []"
| "upper_utf8 (c # s) =
     (if c = CHR 0xC4 \<and> take 1 s = [CHR 0xB1] then CHR ''I'' # upper_utf8 (drop 1 s)
      else if c = CHR 0xC5 \<and> take 1 s = [CHR 0xBF] then CHR ''S'' # upper_utf8 (drop 1 s)
      else upper_char c # upper_utf8 s)"

definition image_char :: "char \<Rightarrow> bool" where
  "image_char c \<longleftrightarrow> (CHR ''a'' \<le> c \<and> c \<le> CHR ''z'') \<or> (CHR ''0'' \<le> c \<and> c \<le> CHR ''9'')"

text \<open>The loop of \<open>dockerSafeImageComponent\<close>: what is written so far, last character first.\<close>

fun safe_component_loop :: "string \<Rightarrow> bool \<Rightarrow> string \<Rightarrow> string" where
  "safe_component_loop b lastDash [] = rev b"
| "safe_component_loop b lastDash (c # s) =
     (if image_char c then safe_component_loop (c # b) False s
      else if b = [] \<or> lastDash then safe_component_loop b lastDash s
      else safe_component_loop (CHR ''-'' # b) True s)"

definition trim_char :: "char \<Rightarrow> string \<Rightarrow> string" where
  "trim_char c s = rev (dropWhile (\<lambda>x. x = c) (rev (dropWhile (\<lambda>x. x = c) s)))"

definition dockerSafeImageComponent :: "string \<Rightarrow> string" where
  "dockerSafeImageComponent value =
     (let value = lower_utf8 (TrimSpace value)
      in if value = [] then []
         else let result = trim_char CHR ''-'' (safe_component_loop [] False value)
              in if length result > 96 then trim_char CHR ''-'' (take 96 result) else result)"

definition snapshotRequestName :: "string option \<Rightarrow> string" where
  "snapshotRequestName name = (case name of None \<Rightarrow> [] | Some n \<Rightarrow> dockerSafeImageComponent n)"

definition dockerSnapshotReference :: "string \<Rightarrow> string \<Rightarrow> time \<Rightarrow> string" where
  "dockerSnapshotReference sandboxID name createdAt =
     (let component = dockerSafeImageComponent name;
          component = (if component = [] then dockerSafeImageComponent (sandboxID @ ''-'' @ Itoa (time_Unix createdAt)) else component);
          component = (if component = [] then ''snapshot-'' @ Itoa (time_Unix createdAt) else component)
      in ''e2b-local/snapshots/'' @ component @ '':default'')"

definition dockerTemplateReference :: "gateway_template \<Rightarrow> string" where
  "dockerTemplateReference template =
     (let component = dockerSafeImageComponent (gt_TemplateID template);
          component = (if component = [] then dockerSafeImageComponent (Join CHR ''-'' (gt_Names template)) else component);
          component = (if component = [] then ''template'' else component)
      in ''e2b-local/templates/'' @ component @ '':latest'')"

definition taggedImageRefs :: "string list \<Rightarrow> string list" where
  "taggedImageRefs repoTags =
     sort (filter (\<lambda>tag. tag \<noteq> [] \<and> tag \<noteq> ''<none>:<none>'' \<and> isDockerImageReference tag) (map TrimSpace repoTags))"

definition shortDockerImageID :: "string \<Rightarrow> string" where
  "shortDockerImageID i = take 12 (TrimPrefix i ''sha256:'')"

text \<open>A size in bytes as mebibytes, rounded up; the sum is a 64-bit one and the division truncates.\<close>

definition bytesToMB :: "int \<Rightarrow> int" where
  "bytesToMB bytes =
     (if bytes \<le> 0 then 0
      else let n = signed_take_bit 63 (bytes + 1024 * 1024 - 1) in sgn n * (\<bar>n\<bar> div (1024 * 1024)))"

section \<open>The Dockerfile of a template\<close>

definition templateStepArgs :: "template_step \<Rightarrow> string list" where
  "templateStepArgs step = (case st_Args step of None \<Rightarrow> [] | Some args \<Rightarrow> args)"

fun env_pairs :: "string list \<Rightarrow> go_error + string list" where
  "env_pairs (k # v # rest) =
     (let key = TrimSpace k
      in if key = [] then Inl (ErrorString ''ENV key cannot be empty'')
         else case env_pairs rest of Inl e \<Rightarrow> Inl e | Inr ps \<Rightarrow> Inr ((key @ ''='' @ quoted v) # ps))"
| "env_pairs args = Inr []"

text \<open>The argument with an index, trimmed, and empty if there is none.\<close>

definition trimmed_arg :: "string list \<Rightarrow> nat \<Rightarrow> string" where
  "trimmed_arg args i = (if i < length args then TrimSpace (args ! i) else [])"

definition dockerfileInstructionFromTemplateStep :: "template_step \<Rightarrow> go_error + string" where
  "dockerfileInstructionFromTemplateStep step =
     (let stepType = upper_utf8 (TrimSpace (st_Type step)); args = templateStepArgs step
      in if stepType = [] then Inl (ErrorString ''type is required'')
         else if stepType = ''RUN'' then
           (if trimmed_arg args 0 = [] then Inl (ErrorString ''RUN requires command argument'')
            else if trimmed_arg args 1 \<noteq> []
            then Inr (''USER '' @ trimmed_arg args 1 @ [CHR 0x0A] @ ''RUN '' @ args ! 0)
            else Inr (''RUN '' @ args ! 0))
         else if stepType = ''COPY'' then
           (if trimmed_arg args 0 = [] \<or> trimmed_arg args 1 = []
            then Inl (ErrorString ''COPY requires local path and container path arguments'')
            else if TrimSpace (stringPtrValue (st_FilesHash step)) = [] then Inl (ErrorString ''COPY requires filesHash'')
            else let options = (if trimmed_arg args 2 \<noteq> [] then [''--chown='' @ trimmed_arg args 2] else []) @
                               (if trimmed_arg args 3 \<noteq> [] then [''--chmod='' @ trimmed_arg args 3] else [])
                 in Inr (Join CHR '' '' (''COPY'' # options @ [args ! 0, args ! 1])))
         else if stepType = ''ENV'' then
           (if args = [] then Inl (ErrorString ''ENV requires key/value arguments'')
            else if length args mod 2 \<noteq> 0 then Inl (ErrorString ''ENV requires both key and value arguments'')
            else case env_pairs args of Inl e \<Rightarrow> Inl e | Inr pairs \<Rightarrow> Inr (''ENV '' @ Join CHR '' '' pairs))
         else if stepType = ''WORKDIR'' then
           (if trimmed_arg args 0 = [] then Inl (ErrorString ''WORKDIR requires path argument'')
            else Inr (''WORKDIR '' @ args ! 0))
         else if stepType = ''USER'' then
           (if trimmed_arg args 0 = [] then Inl (ErrorString ''USER requires username argument'')
            else Inr (''USER '' @ trimmed_arg args 0))
         else if args = [] then Inl (ErrorString (stepType @ '' requires arguments''))
         else Inr (stepType @ '' '' @ Join CHR '' '' args))"

text \<open>The lines of the steps; the index counts from the first step.\<close>

fun dockerfile_steps :: "nat \<Rightarrow> template_step list \<Rightarrow> go_error + string" where
  "dockerfile_steps index [] = Inr []"
| "dockerfile_steps index (step # steps) =
     (case dockerfileInstructionFromTemplateStep step of
        Inl err \<Rightarrow> Inl (GatewayError (gatewayErrorStatus err 400)
                     (''template step '' @ Itoa (int index) @ '': '' @ error_text err))
      | Inr line \<Rightarrow>
          (case dockerfile_steps (Suc index) steps of
             Inl err \<Rightarrow> Inl err
           | Inr rest \<Rightarrow> Inr (if line = [] then rest else line @ [CHR 0x0A] @ rest)))"

section \<open>The build context\<close>

text \<open>
  The entries an uploaded archive adds to the build context, and the error that ends the stream,
  if any. The checks are those of the upload, made again on the way to the daemon.
\<close>

fun context_files :: "string \<Rightarrow> int \<Rightarrow> 64 word \<Rightarrow> tar_event list \<Rightarrow> context_entry list \<times> go_error option" where
  "context_files hash entryCount bytes [] = ([], None)"
| "context_files hash entryCount bytes (TarError err # rest) =
     ([], Some (Wrapf (''read uploaded template file archive '' @ hash @ '': '') err []))"
| "context_files hash entryCount bytes (TarEntry h n copyErr # rest) =
     (let entryCount = entryCount + 1
      in if entryCount > maxTemplateArchiveEntries
         then ([], Some (ErrorString (archive_text hash ('' contains more than '' @ Itoa maxTemplateArchiveEntries @ '' entries''))))
         else case SafeTemplateBuildContextTarName (th_Name h) of
           None \<Rightarrow> ([], Some (ErrorString (archive_text hash ('' contains unsafe path '' @ quoted (th_Name h)))))
         | Some name \<Rightarrow>
             (case (if th_Linkname h = [] then Some [] else SafeTemplateBuildContextTarName (th_Linkname h)) of
                None \<Rightarrow> ([], Some (ErrorString (archive_text hash ('' contains unsafe link path '' @ quoted (th_Linkname h)))))
              | Some link \<Rightarrow>
                  (let copied = h\<lparr>th_Name := name, th_Linkname := link\<rparr>
                   in if \<not> is_regular h
                      then (case context_files hash entryCount bytes rest of
                              (es, err) \<Rightarrow> (ContextFile copied 0 # es, err))
                      else if sint (th_Size h) < 0
                      then ([], Some (ErrorString (archive_text hash ('' contains invalid size for '' @ quoted name))))
                      else if sint (th_Size h) > sint (maxTemplateArchiveUncompressedBytes - bytes)
                      then ([], Some (ErrorString (archive_text hash ('' exceeds '' @
                             Itoa (sint maxTemplateArchiveUncompressedBytes) @ '' uncompressed bytes''))))
                      else (case copyErr of
                              Some err \<Rightarrow> ([ContextFile copied n],
                                Some (Wrapf (''copy uploaded template file '' @ name @ '' to build context: '') err []))
                            | None \<Rightarrow>
                                (let bytes = bytes + n
                                 in if sint bytes > sint maxTemplateArchiveUncompressedBytes
                                    then ([ContextFile copied n], Some (ErrorString (archive_text hash ('' exceeds '' @
                                           Itoa (sint maxTemplateArchiveUncompressedBytes) @ '' uncompressed bytes''))))
                                    else (case context_files hash entryCount bytes rest of
                                            (es, err) \<Rightarrow> (ContextFile copied n # es, err))))))) "

definition appendTemplateFileToDockerBuildContext :: "string \<times> archive \<Rightarrow> context_entry list \<times> go_error option" where
  "appendTemplateFileToDockerBuildContext file =
     (case file of (hash, a) \<Rightarrow>
        (case a of
           CannotOpen err \<Rightarrow> ([], Some (Wrapf (''open uploaded template file archive '' @ hash @ '': '') err []))
         | NotGzip err \<Rightarrow> ([], Some (Wrapf (''open uploaded template file archive '' @ hash @ '': '') err []))
         | TarGz evs \<Rightarrow> context_files hash 0 0 evs))"

fun append_files :: "(string \<times> archive) list \<Rightarrow> context_entry list \<times> go_error option" where
  "append_files [] = ([], None)"
| "append_files (file # files) =
     (case appendTemplateFileToDockerBuildContext file of
        (es, Some err) \<Rightarrow> (es, Some err)
      | (es, None) \<Rightarrow> (case append_files files of (fs, err) \<Rightarrow> (es @ fs, err)))"

definition writeDockerBuildContext :: "string \<Rightarrow> (string \<times> archive) list \<Rightarrow> context_entry list \<times> go_error option" where
  "writeDockerBuildContext dockerfile files =
     (case append_files files of (es, err) \<Rightarrow> (ContextText ''Dockerfile'' dockerfile # es, err))"

section \<open>Labels\<close>

definition drop_blank_labels :: "(string, string) gomap \<Rightarrow> (string, string) gomap" where
  "drop_blank_labels labels = filter (\<lambda>(k, v). TrimSpace v \<noteq> []) labels"

definition dockerTemplateLabels :: "gateway_template \<Rightarrow> (string, string) gomap" where
  "dockerTemplateLabels template = drop_blank_labels
     [(dockerLocalManagedLabel, ''true''),
      (dockerLocalTemplateLabel, ''true''),
      (dockerLocalTemplateIDLabel, gt_TemplateID template),
      (dockerLocalTemplateNamesLabel, Join CHR '','' (appendUniqueStrings (gt_Names template) [gt_TemplateID template])),
      (dockerLocalTemplateBuildIDLabel, gt_BuildID template),
      (dockerLocalTemplateCPUCountLabel, Itoa (gt_CpuCount template)),
      (dockerLocalTemplateMemoryMBLabel, Itoa (gt_MemoryMB template))]"

definition FormatBool :: "bool \<Rightarrow> string" where
  "FormatBool b = (if b then ''true'' else ''false'')"

definition optional_label :: "bool \<Rightarrow> string \<Rightarrow> string \<Rightarrow> (string, string) gomap \<Rightarrow> (string, string) gomap" where
  "optional_label b k v labels = (if b then AList.update k v labels else labels)"

definition dockerSandboxLabels :: "codecs \<Rightarrow> create_request \<Rightarrow> string \<Rightarrow> string \<Rightarrow> (string, string) gomap" where
  "dockerSandboxLabels cd req templateID imageRef =
     (let labels = [(dockerLocalManagedLabel, ''true''), (dockerLocalImageLabel, imageRef),
                    (dockerLocalSandboxIDLabel, cr_SandboxID req), (dockerLocalSandboxTemplateIDLabel, templateID)];
          labels = optional_label (\<not> IsZero (cr_CreatedAt req)) dockerLocalSandboxCreatedAtLabel (cd_time cd (cr_CreatedAt req)) labels;
          labels = optional_label (\<not> IsZero (cr_EndAt req)) dockerLocalSandboxEndAtLabel (cd_time cd (cr_EndAt req)) labels;
          labels = optional_label (cr_Metadata req \<noteq> []) dockerLocalSandboxMetadataLabel (cd_map cd (cr_Metadata req)) labels;
          labels = optional_label (cr_VolumeMounts req \<noteq> []) dockerLocalSandboxVolumeMountsLabel (cd_mounts cd (cr_VolumeMounts req)) labels;
          labels = (case cr_AllowInternetAccess req of None \<Rightarrow> labels
                    | Some b \<Rightarrow> AList.update dockerLocalSandboxAllowInternetLabel (FormatBool b) labels);
          labels = (case Normalize (cr_OnTimeout req) of Inl e \<Rightarrow> labels
                    | Inr onTimeout \<Rightarrow> AList.update dockerLocalSandboxOnTimeoutLabel onTimeout labels)
      in drop_blank_labels labels)"

text \<open>Labels of the container override those of the summary.\<close>

definition dockerContainerLabels :: "(string, string) gomap \<Rightarrow> (string, string) gomap option \<Rightarrow> (string, string) gomap" where
  "dockerContainerLabels summaryLabels config =
     fold (\<lambda>(k, v) m. AList.update k v m) (summaryLabels @ (case config of None \<Rightarrow> [] | Some ls \<Rightarrow> ls)) []"

definition dockerTimeLabel :: "codecs \<Rightarrow> string \<Rightarrow> time \<Rightarrow> time" where
  "dockerTimeLabel cd value fb =
     (let value = TrimSpace value
      in if value = [] then fb else case cd_read_time cd value of Inl e \<Rightarrow> fb | Inr t \<Rightarrow> t)"

definition dockerImageCreatedAt :: "codecs \<Rightarrow> string \<Rightarrow> time \<Rightarrow> time" where
  "dockerImageCreatedAt cd value fb =
     (let value = TrimSpace value
      in if value = [] then fb else case cd_read_time cd value of Inl e \<Rightarrow> fb | Inr t \<Rightarrow> t)"

definition dockerStringMapLabel :: "codecs \<Rightarrow> string \<Rightarrow> (string, string) gomap" where
  "dockerStringMapLabel cd value =
     (let value = TrimSpace value
      in if value = [] then [] else case cd_read_map cd value of Inl e \<Rightarrow> [] | Inr m \<Rightarrow> copyStringMap m)"

definition dockerBoolPtrLabel :: "string \<Rightarrow> bool option" where
  "dockerBoolPtrLabel value = (let value = TrimSpace value in if value = [] then None else ParseBool value)"

definition dockerSandboxTimeoutAction :: "(string, string) gomap \<Rightarrow> go_error + timeout_action" where
  "dockerSandboxTimeoutAction labels =
     (let action = TrimSpace (map_read labels dockerLocalSandboxOnTimeoutLabel);
          action = (if action = SandboxTimeoutActionUnspecified
                    then SandboxTimeoutActionFromAutoPause (dockerBoolPtrLabel (map_read labels dockerLocalSandboxAutoPauseLabel))
                    else action)
      in Normalize action)"

definition splitDockerLabelList :: "string \<Rightarrow> string list" where
  "splitDockerLabelList value = filter (\<lambda>p. p \<noteq> []) (map TrimSpace (Split CHR '','' value))"

definition dockerLabelInt :: "string \<Rightarrow> int \<Rightarrow> int" where
  "dockerLabelInt value fb =
     (let value = TrimSpace value
      in if value = [] then fb else case Atoi value of None \<Rightarrow> fb | Some n \<Rightarrow> if n \<le> 0 then fb else n)"

section \<open>Volume mounts\<close>

text \<open>The backend's own \<open>normalizeVolumeMounts\<close>: it fills each of the two names and paths from the other.\<close>

definition normalize_mount :: "volume_mount \<Rightarrow> volume_mount" where
  "normalize_mount mount =
     (let name = TrimSpace (vm_Name mount); volumeID = TrimSpace (vm_VolumeID mount);
          pathValue = TrimSpace (vm_Path mount); mountPath = TrimSpace (vm_MountPath mount);
          volumeID = (if volumeID = [] then name else volumeID);
          name = (if name = [] then volumeID else name);
          pathValue = (if pathValue = [] then mountPath else pathValue);
          mountPath = (if mountPath = [] then pathValue else mountPath)
      in \<lparr>vm_Name = name, vm_Path = pathValue, vm_VolumeID = volumeID, vm_MountPath = mountPath\<rparr>)"

definition dockerNormalizeVolumeMounts :: "volume_mount list \<Rightarrow> volume_mount list" where
  "dockerNormalizeVolumeMounts volumeMounts =
     filter (\<lambda>m. \<not> (vm_VolumeID m = [] \<and> vm_Path m = [])) (map normalize_mount volumeMounts)"

definition dockerVolumeMountsFromLabels :: "codecs \<Rightarrow> (string, string) gomap \<Rightarrow> volume_mount list" where
  "dockerVolumeMountsFromLabels cd labels =
     (let value = TrimSpace (map_read labels dockerLocalSandboxVolumeMountsLabel)
      in if value = [] then []
         else case cd_read_mounts cd value of Inl e \<Rightarrow> [] | Inr ms \<Rightarrow> dockerNormalizeVolumeMounts ms)"

definition mount_point_name :: "string \<Rightarrow> mount_point \<Rightarrow> string option" where
  "mount_point_name volumeRoot m =
     (if mp_Type m = TypeVolume then Some (TrimSpace (mp_Name m))
      else if mp_Type m = TypeBind then
        (let source = path_Clean (TrimSpace (mp_Source m))
         in if volumeRoot = [] then None
            else case filepath_Rel volumeRoot source of
                   None \<Rightarrow> None
                 | Some rel \<Rightarrow>
                     (if rel = ''.'' \<or> HasPrefix rel ''../'' \<or> rel = ''..'' \<or> CHR ''/'' \<in> set rel then None
                      else Some (path_Base source)))
      else None)"

definition dockerVolumeMountsFromMountPoints :: "'e docker_runtime \<Rightarrow> mount_point list \<Rightarrow> volume_mount list" where
  "dockerVolumeMountsFromMountPoints r mounts =
     (let volumeRoot = path_Clean (TrimSpace (dc_VolumeHostPath (dr_cfg r)))
      in concat (map (\<lambda>m.
           let path = TrimSpace (mp_Destination m)
           in if path = [] then []
              else case mount_point_name volumeRoot m of
                     None \<Rightarrow> []
                   | Some name \<Rightarrow>
                       (if name = [] then []
                        else [\<lparr>vm_Name = name, vm_Path = path, vm_VolumeID = name, vm_MountPath = path\<rparr>])) mounts))"

definition firstDockerContainerName :: "string list \<Rightarrow> string" where
  "firstDockerContainerName names =
     (case List.find (\<lambda>n. n \<noteq> []) (map (\<lambda>n. trim_char CHR ''/'' (TrimSpace n)) names) of
        None \<Rightarrow> [] | Some n \<Rightarrow> n)"

definition dockerSandboxState :: "container_state option \<Rightarrow> string" where
  "dockerSandboxState state =
     (case state of
        None \<Rightarrow> []
      | Some st \<Rightarrow> (if st_Paused st then Paused else if st_Running st then Running else []))"

end
