(* ===== verification/DockerReports.thy ===== *)
theory DockerReports
  imports DockerImages
begin

text \<open>
  What the Docker backend makes of the daemon's reports (\<open>docker/runtime.go\<close>): templates and
  snapshots from images, ports and addresses from a container's network settings, platforms, log
  lines, build output and counters.
\<close>

section \<open>Templates and snapshots\<close>

definition snapshotInfoFromDockerImage :: "image_summary \<Rightarrow> snapshot_info" where
  "snapshotInfoFromDockerImage img =
     (let names = taggedImageRefs (im_RepoTags img);
          snapshotID = TrimSpace (map_read (im_Labels img) dockerLocalSnapshotRefLabel);
          snapshotID = (if snapshotID = [] \<and> names \<noteq> [] then hd names else snapshotID);
          snapshotID = (if snapshotID = [] then shortDockerImageID (im_ID img) else snapshotID);
          names = (if names = [] \<and> snapshotID \<noteq> [] then [snapshotID] else names)
      in \<lparr>si_Names = names, si_SnapshotID = snapshotID\<rparr>)"

definition time_of_unix :: "int \<Rightarrow> time" where
  "time_of_unix seconds = unix_epoch + seconds * 1000000000"

definition templateFromDockerImage :: "time \<Rightarrow> string \<Rightarrow> string \<Rightarrow> image_summary \<Rightarrow> runtime_template" where
  "templateFromDockerImage now templateID imageRef img =
     (let createdAt = (if im_Created img > 0 then time_of_unix (im_Created img) else now);
          containers = (if im_Containers img < 0 then 0 else im_Containers img);
          labels = im_Labels img;
          labelTemplateID = TrimSpace (map_read labels dockerLocalTemplateIDLabel);
          templateID = (if labelTemplateID \<noteq> [] then labelTemplateID else templateID);
          names = appendUniqueStrings [templateID] (splitDockerLabelList (map_read labels dockerLocalTemplateNamesLabel));
          labelBuildID = TrimSpace (map_read labels dockerLocalTemplateBuildIDLabel);
          buildID = (if labelBuildID \<noteq> [] then labelBuildID else shortDockerImageID (im_ID img))
      in \<lparr>tr_TemplateID = templateID, tr_Names = names, tr_ImageRef = imageRef, tr_BuildCount = 1,
          tr_BuildID = buildID, tr_BuildStatus = ''ready'',
          tr_CPUCount = dockerLabelInt (map_read labels dockerLocalTemplateCPUCountLabel) 1,
          tr_DiskSizeMB = bytesToMB (im_Size img),
          tr_MemoryMB = dockerLabelInt (map_read labels dockerLocalTemplateMemoryMBLabel) 512,
          tr_Public = False, tr_SpawnCount = containers, tr_CreatedAt = createdAt, tr_UpdatedAt = createdAt,
          tr_LastSpawnedAt = None\<rparr>)"

text \<open>
  \<open>listDockerTemplates\<close>: the tagged images by reference (a later image wins), in the order of the
  references; a name that several references share is replaced by the name with its tag, and of
  references that still share an id the first is kept.
\<close>

definition image_refs :: "image_summary list \<Rightarrow> (string, image_summary) gomap" where
  "image_refs images =
     fold (\<lambda>img m. if map_read (im_Labels img) dockerLocalSnapshotLabel = ''true'' then m
                   else fold (\<lambda>ref m. AList.update ref img m) (taggedImageRefs (im_RepoTags img)) m) images []"

definition template_key :: "(string \<times> image_summary) list \<Rightarrow> string \<Rightarrow> string" where
  "template_key refs imageRef =
     (let templateID = dockerTemplateName imageRef
      in if length (filter (\<lambda>(ref, img). dockerTemplateName ref = templateID) refs) > 1
         then shortDockerImageName imageRef else templateID)"

definition templates_by_id :: "time \<Rightarrow> image_summary list \<Rightarrow> (string, runtime_template) gomap" where
  "templates_by_id now images =
     (let refs = sort_key fst (image_refs images)
      in fold (\<lambda>(ref, img) m.
           let templateID = template_key refs ref
           in if map_of m templateID \<noteq> None then m
              else AList.update templateID (templateFromDockerImage now templateID ref img) m) refs [])"

definition template_image_refs :: "(string, runtime_template) gomap \<Rightarrow> (string, string) gomap" where
  "template_image_refs templates =
     fold (\<lambda>(k, t) m. if tr_ImageRef t = [] then m
           else AList.update (shortDockerImageName (tr_ImageRef t)) (tr_ImageRef t)
                  (AList.update (tr_ImageRef t) (tr_ImageRef t)
                    (AList.update (tr_TemplateID t) (tr_ImageRef t) m))) templates []"

text \<open>\<open>ListSnapshots\<close>: the newest image of each snapshot, newest first, then one page of them.\<close>

definition snapshots_by_id :: "image_summary list \<Rightarrow> (string, image_summary) gomap" where
  "snapshots_by_id images =
     fold (\<lambda>img m.
       let i = si_SnapshotID (snapshotInfoFromDockerImage img)
       in if i = [] then m
          else case map_of m i of
                 None \<Rightarrow> AList.update i img m
               | Some existing \<Rightarrow> (if im_Created img > im_Created existing then AList.update i img m else m)) images []"

definition sorted_snapshots :: "image_summary list \<Rightarrow> image_summary list" where
  "sorted_snapshots images =
     sort_key (\<lambda>img. (- im_Created img, si_SnapshotID (snapshotInfoFromDockerImage img)))
       (map snd (snapshots_by_id images))"

fun after_token :: "string \<Rightarrow> image_summary list \<Rightarrow> image_summary list" where
  "after_token token [] = []"
| "after_token token (img # imgs) =
     (if si_SnapshotID (snapshotInfoFromDockerImage img) = token then imgs else after_token token imgs)"

definition snapshot_page :: "string \<Rightarrow> int \<Rightarrow> image_summary list \<Rightarrow> snapshot_info list" where
  "snapshot_page nextToken limit summaries =
     (let nextToken = TrimSpace nextToken;
          rest = (if nextToken \<noteq> [] then after_token nextToken summaries else summaries);
          limit = (if limit \<le> 0 \<or> limit > maxSandboxListLimit then maxSandboxListLimit else limit)
      in map snapshotInfoFromDockerImage (take (nat limit) rest))"

section \<open>Platforms\<close>

definition normalizeImageArchitecture :: "string \<Rightarrow> string" where
  "normalizeImageArchitecture architecture =
     (let a = TrimSpace architecture
      in if a = ''x86_64'' then ''amd64'' else if a = ''aarch64'' then ''arm64'' else a)"

definition dockerImagePlatform :: "image_inspect \<Rightarrow> platform" where
  "dockerImagePlatform inspect =
     \<lparr>pl_OS = TrimSpace (ii_Os inspect), pl_Architecture = normalizeImageArchitecture (ii_Architecture inspect),
      pl_Variant = TrimSpace (ii_Variant inspect)\<rparr>"

definition parsePlatform :: "string \<Rightarrow> platform option" where
  "parsePlatform value =
     (if value = [] then None
      else case Split CHR ''/'' value of
             os # arch # rest \<Rightarrow> Some \<lparr>pl_OS = os, pl_Architecture = arch,
                                      pl_Variant = (case rest of [] \<Rightarrow> [] | v # vs \<Rightarrow> v)\<rparr>
           | _ \<Rightarrow> None)"

definition selectedPlatform :: "'e docker_runtime \<Rightarrow> platform \<Rightarrow> platform" where
  "selectedPlatform r imagePlatform =
     (case parsePlatform (dc_Platform (dr_cfg r)) of Some configured \<Rightarrow> configured | None \<Rightarrow> imagePlatform)"

definition containerCreatePlatform :: "platform \<Rightarrow> platform option" where
  "containerCreatePlatform imagePlatform =
     (if TrimSpace (pl_OS imagePlatform) = [] \<or> TrimSpace (pl_Architecture imagePlatform) = [] then None
      else Some imagePlatform)"

section \<open>Ports and addresses\<close>

fun dedupe_ports :: "int list \<Rightarrow> int list \<Rightarrow> int list" where
  "dedupe_ports seen [] = []"
| "dedupe_ports seen (port # ports) =
     (if port \<le> 0 \<or> port > 65535 \<or> port = dockerEnvdPort \<or> port \<in> set seen then dedupe_ports seen ports
      else port # dedupe_ports (port # seen) ports)"

definition normalizeDockerPublishedPorts :: "int list \<Rightarrow> int list" where
  "normalizeDockerPublishedPorts ports = sort (dedupe_ports [] ports)"

definition parseDockerNatPort :: "string \<Rightarrow> (int \<times> string) option" where
  "parseDockerNatPort port =
     (case index_char CHR ''/'' port of
        None \<Rightarrow> None
      | Some i \<Rightarrow>
          (case Atoi (take i port) of
             None \<Rightarrow> None
           | Some containerPort \<Rightarrow>
               (if containerPort \<le> 0 \<or> containerPort > 65535 then None
                else let protocol = lower_utf8 (TrimSpace (drop (Suc i) port))
                     in if protocol = [] then None else Some (containerPort, protocol))))"

definition dockerTCPPortsFromSet :: "string list \<Rightarrow> int list" where
  "dockerTCPPortsFromSet portSet =
     concat (map (\<lambda>port. case parseDockerNatPort port of
                           Some (p, protocol) \<Rightarrow> (if protocol = ''tcp'' then [p] else [])
                         | None \<Rightarrow> []) portSet)"

definition dockerTCPNatPort :: "int \<Rightarrow> string" where
  "dockerTCPNatPort port = Itoa port @ ''/tcp''"

definition dockerEnvdNatPort :: string where
  "dockerEnvdNatPort = Itoa dockerEnvdPort @ ''/tcp''"

definition dockerExposedPorts :: "string \<Rightarrow> int list \<Rightarrow> string list" where
  "dockerExposedPorts envdPort publishedPorts =
     fold (\<lambda>p ports. List.insert (dockerTCPNatPort p) ports) publishedPorts [envdPort]"

definition dockerPortBindings :: "string \<Rightarrow> int list \<Rightarrow> string \<Rightarrow> port_map" where
  "dockerPortBindings envdPort publishedPorts publishedHostIP =
     (let hostIP = TrimSpace publishedHostIP; hostIP = (if hostIP = [] then dockerPublishedHostIP else hostIP)
      in fold (\<lambda>p m. AList.update (dockerTCPNatPort p) [\<lparr>pb_HostIP = hostIP, pb_HostPort = []\<rparr>] m) publishedPorts
           [(envdPort, [\<lparr>pb_HostIP = dockerEnvdHostIP, pb_HostPort = []\<rparr>])])"

definition dockerPublishedPortsFromBindings :: "port_map \<Rightarrow> port_mapping list" where
  "dockerPublishedPortsFromBindings ports =
     sort_key (\<lambda>m. (pm_ContainerPort m, pm_Protocol m, pm_HostPort m))
       (concat (map (\<lambda>(port, bindings).
          case parseDockerNatPort port of
            None \<Rightarrow> []
          | Some (containerPort, protocol) \<Rightarrow>
              (if containerPort = dockerEnvdPort then []
               else concat (map (\<lambda>b.
                      case Atoi (TrimSpace (pb_HostPort b)) of
                        None \<Rightarrow> []
                      | Some hostPort \<Rightarrow>
                          (if hostPort \<le> 0 then []
                           else [\<lparr>pm_ContainerPort = containerPort, pm_HostIP = TrimSpace (pb_HostIP b),
                                  pm_HostPort = hostPort, pm_Protocol = protocol\<rparr>])) bindings))) ports))"

definition dockerEnvdHost :: "port_binding \<Rightarrow> string" where
  "dockerEnvdHost binding =
     (let hostIP = TrimSpace (pb_HostIP binding)
      in if hostIP = [] \<or> hostIP = ''0.0.0.0'' \<or> hostIP = ''::'' then dockerEnvdHostIP else hostIP)"

definition dockerContainerIP :: "network_settings option \<Rightarrow> string" where
  "dockerContainerIP settings =
     (case settings of
        None \<Rightarrow> []
      | Some ns \<Rightarrow>
          (if TrimSpace (ns_IPAddress ns) \<noteq> [] then TrimSpace (ns_IPAddress ns)
           else case List.find (\<lambda>ip. ip \<noteq> [])
                       (map (\<lambda>name. case map_of (ns_Networks ns) name of Some (Some ip) \<Rightarrow> TrimSpace ip | _ \<Rightarrow> [])
                          (sort (map fst (ns_Networks ns)))) of
                  Some ip \<Rightarrow> ip
                | None \<Rightarrow> []))"

section \<open>Commands and environment\<close>

definition dockerSandboxPermissions :: "bool \<Rightarrow> string list \<times> string list" where
  "dockerSandboxPermissions fuseEnabled =
     (if \<not> fuseEnabled then ([dockerPacketCaptureCapability], [])
      else ([dockerPacketCaptureCapability, dockerFUSECapability], [dockerFUSEDevicePath]))"

definition containerCommand :: "string \<Rightarrow> string list" where
  "containerCommand startCmd =
     [''-isnotfc'', ''-port'', Itoa dockerEnvdPort] @
     (if TrimSpace startCmd \<noteq> [] then [''-cmd'', TrimSpace startCmd] else [])"

definition dockerReadyCommand :: "string \<Rightarrow> string list" where
  "dockerReadyCommand readyCmd = [''/bin/sh'', ''-lc'', TrimSpace readyCmd]"

definition readyCommandFailure :: "int \<Rightarrow> string \<Rightarrow> string" where
  "readyCommandFailure exitCode out =
     (let out = TrimSpace out
      in if out = [] then ''exit code '' @ Itoa exitCode else ''exit code '' @ Itoa exitCode @ '': '' @ out)"

definition envVars :: "(string, string) gomap \<Rightarrow> string list" where
  "envVars values = map (\<lambda>k. k @ ''='' @ map_read values k) (sort (map fst values))"

section \<open>Log lines\<close>

definition logLevelRank :: "string \<Rightarrow> int" where
  "logLevelRank level =
     (if level = ''debug'' then 1 else if level = ''info'' then 2 else if level = ''warn'' then 3
      else if level = ''error'' then 4 else 0)"

definition dockerLogTail :: "logs_request \<Rightarrow> int" where
  "dockerLogTail req =
     (if sint (lq_Limit req) \<le> 0 then 0
      else if (case lq_Start req of Some a \<Rightarrow> a > 0 | None \<Rightarrow> False) then 0
      else if (case lq_Cursor req of Some a \<Rightarrow> a > 0 | None \<Rightarrow> False) then 0
      else let tail = sint (lq_Limit req);
               tail = (if lq_Search req \<noteq> None \<or> lq_Level req \<noteq> None then tail * 10 else tail)
           in if tail > 5000 then 5000 else tail)"

text \<open>A line without a time stamp gets the time \<open>now\<close>.\<close>

definition parseDockerLogLine :: "codecs \<Rightarrow> time \<Rightarrow> string \<Rightarrow> time \<times> string" where
  "parseDockerLogLine cd now line =
     (case index_char CHR '' '' line of
        None \<Rightarrow> (now, line)
      | Some separator \<Rightarrow>
          (if separator = 0 then (now, line)
           else case cd_read_time cd (take separator line) of
                  Inl e \<Rightarrow> (now, line)
                | Inr t \<Rightarrow> (t, drop (Suc separator) line)))"

definition logEntryMatchesCursor :: "time \<Rightarrow> logs_request \<Rightarrow> bool" where
  "logEntryMatchesCursor timestamp req =
     (let timestampMS = time_UnixMilli timestamp
      in if (case lq_Start req of Some a \<Rightarrow> a > 0 \<and> timestampMS < a | None \<Rightarrow> False) then False
         else if (case lq_Cursor req of Some a \<Rightarrow> a > 0 \<and> timestampMS < a | None \<Rightarrow> False) then False
         else True)"

text \<open>
  The scanner's lines: without the carriage returns at their ends, up to the first line that does
  not fit its buffer of one mebibyte.
\<close>

definition max_log_line :: nat where
  "max_log_line = 1048576"

definition scanned_lines :: "string \<Rightarrow> string list" where
  "scanned_lines text =
     (let lines = Split CHR 0x0A text; lines = (if last lines = [] then butlast lines else lines)
      in map (\<lambda>l. rev (dropWhile (\<lambda>c. c = CHR 0x0D) (rev l))) (takeWhile (\<lambda>l. length l < max_log_line) lines))"

definition log_entry :: "codecs \<Rightarrow> time \<Rightarrow> string \<Rightarrow> logs_request \<Rightarrow> string \<Rightarrow> runtime_log_entry list" where
  "log_entry cd now level req line =
     (if line = [] then []
      else case parseDockerLogLine cd now line of
             (timestamp, message) \<Rightarrow>
               (if \<not> logEntryMatchesCursor timestamp req then []
                else if (case lq_Search req of Some s \<Rightarrow> \<not> str_contains message s | None \<Rightarrow> False) then []
                else if (case lq_Level req of Some l \<Rightarrow> logLevelRank level < logLevelRank l | None \<Rightarrow> False) then []
                else [\<lparr>le_Timestamp = timestamp, le_Level = level, le_Message = message,
                       le_Fields = [(''source'', ''docker'')]\<rparr>]))"

definition dockerLogEntries :: "codecs \<Rightarrow> time \<Rightarrow> string \<Rightarrow> string \<Rightarrow> logs_request \<Rightarrow> runtime_log_entry list" where
  "dockerLogEntries cd now text level req = concat (map (log_entry cd now level req) (scanned_lines text))"

definition limitDockerLogEntries :: "runtime_log_entry list \<Rightarrow> 32 word \<Rightarrow> runtime_log_entry list" where
  "limitDockerLogEntries entries limit =
     (if sint limit \<le> 0 \<or> sint limit \<ge> int (length entries) then entries else take (nat (sint limit)) entries)"

text \<open>The page of a request: both streams, by time, backward if asked for, up to the limit.\<close>

definition log_page :: "codecs \<Rightarrow> time \<Rightarrow> string \<Rightarrow> string \<Rightarrow> logs_request \<Rightarrow> runtime_log_entry list" where
  "log_page cd now stdout stderr req =
     (let entries = dockerLogEntries cd now stdout LogLevelInfo req @ dockerLogEntries cd now stderr LogLevelError req;
          entries = sort_key le_Timestamp entries;
          entries = (if lq_Direction req = Some ''backward'' then rev entries else entries)
      in limitDockerLogEntries entries (lq_Limit req))"

section \<open>Build output\<close>

fun replace_crlf :: "string \<Rightarrow> string" where
  "replace_crlf [] = []"
| "replace_crlf (c # s) =
     (if c = CHR 0x0D \<and> take 1 s = [CHR 0x0A] then CHR 0x0A # replace_crlf (drop 1 s) else c # replace_crlf s)"

definition dockerBuildErrorMessage :: "build_message \<Rightarrow> string" where
  "dockerBuildErrorMessage message =
     (case bg_ErrorDetail message of
        Some detail \<Rightarrow> (if TrimSpace detail \<noteq> [] then TrimSpace detail else TrimSpace (bg_Error message))
      | None \<Rightarrow> TrimSpace (bg_Error message))"

definition dockerBuildMessageLines :: "build_message \<Rightarrow> string list" where
  "dockerBuildMessageLines message =
     (let text = (if bg_Stream message = []
                  then bg_Status message @ (if bg_Progress message \<noteq> [] then '' '' @ bg_Progress message else [])
                  else bg_Stream message)
      in filter (\<lambda>l. l \<noteq> []) (map TrimSpace (Split CHR 0x0A (replace_crlf text))))"

definition dockerBuildLogEntry :: "time \<Rightarrow> string \<Rightarrow> string \<Rightarrow> build_log_entry" where
  "dockerBuildLogEntry now level message =
     \<lparr>bl_Level = level, bl_Message = message, bl_Step = None, bl_Timestamp = now\<rparr>"

text \<open>The entries, and the error that ended the stream, if any; \<open>now\<close> is the clock's reading.\<close>

fun dockerBuildLogEntries :: "time \<Rightarrow> (go_error + build_message) list \<Rightarrow> build_log_entry list \<times> go_error option" where
  "dockerBuildLogEntries now [] = ([], None)"
| "dockerBuildLogEntries now (Inl err # rest) =
     (if errors_Is err io_EOF then ([], None) else ([], Some (Wrapf ''decode docker build output: '' err [])))"
| "dockerBuildLogEntries now (Inr message # rest) =
     (let errMessage = dockerBuildErrorMessage message
      in if errMessage \<noteq> []
         then ([dockerBuildLogEntry now LogLevelError errMessage],
               Some (ErrorString (''docker template build failed: '' @ errMessage)))
         else case dockerBuildLogEntries now rest of
                (logs, err) \<Rightarrow> (map (dockerBuildLogEntry now LogLevelInfo) (dockerBuildMessageLines message) @ logs, err))"

section \<open>Counters\<close>

definition dockerMemoryCache :: "stats_response \<Rightarrow> 64 word" where
  "dockerMemoryCache stats =
     (case map_of (ss_Stats stats) ''cache'' of
        Some value \<Rightarrow> value
      | None \<Rightarrow> (case map_of (ss_Stats stats) ''total_inactive_file'' of Some value \<Rightarrow> value | None \<Rightarrow> 0))"

definition uint64ToInt64 :: "64 word \<Rightarrow> 64 word" where
  "uint64ToInt64 value = (let maxInt64 = push_bit 63 1 - 1 in if value > maxInt64 then maxInt64 else value)"

end
