(* ===== verification/DockerRuntime.thy ===== *)
theory DockerRuntime
  imports DockerVolumes DockerReports
begin

unbundle bit_operations_syntax

text \<open>
  The Docker backend (\<open>docker/runtime.go\<close>): its operations on the daemon and the host, and the
  backend as the gateway's runtime.
\<close>

section \<open>Images\<close>

definition listDockerTemplates :: "'e docker_runtime \<Rightarrow> ('e, (string, runtime_template) gomap) host_op" where
  "listDockerTemplates r =
     bindE (mapErr (wrap ''list docker images: '') (engine_call (dr_client r) (dk_ImageList (dr_client r) False []))) (\<lambda>images.
     bindE time_Now (\<lambda>now. ret (templates_by_id now images)))"

definition docker_ListTemplates :: "'e docker_runtime \<Rightarrow> ('e, runtime_template list) host_op" where
  "docker_ListTemplates r =
     bindE (listDockerTemplates r) (\<lambda>templatesByID. ret (sort_key tr_TemplateID (map snd templatesByID)))"

definition templateImageRefs :: "'e docker_runtime \<Rightarrow> ('e, (string, string) gomap) host_op" where
  "templateImageRefs r = bindE (listDockerTemplates r) (\<lambda>templatesByID. ret (template_image_refs templatesByID))"

definition inspect_image :: "'e docker_runtime \<Rightarrow> string \<Rightarrow> ('e, image_inspect) host_op" where
  "inspect_image r ref = engine_call (dr_client r) (dk_ImageInspect (dr_client r) ref)"

definition resolveTemplateImage :: "'e docker_runtime \<Rightarrow> string \<Rightarrow> ('e, string) host_op" where
  "resolveTemplateImage r templateID =
     bindE (templateImageRefs r) (\<lambda>imageRefs.
       case map_of imageRefs templateID of
         Some imageRef \<Rightarrow> ret imageRef
       | None \<Rightarrow>
           (if isDockerImageReference templateID
            then caseE (inspect_image r templateID)
                   (\<lambda>err. if dk_IsNotFound (dr_client r) err
                          then fail (ErrorString (''docker image '' @ quoted templateID @
                                 '' is not available locally; pull or build it before creating a sandbox''))
                          else fail (wrap (''inspect docker image '' @ quoted templateID @ '': '') err))
                   (\<lambda>i. ret templateID)
            else fail (ErrorString (''templateID must be a listed docker template or locally available '' @
                   ''docker image reference with tag or digest''))))"

definition imagePlatform :: "'e docker_runtime \<Rightarrow> string \<Rightarrow> ('e, platform) host_op" where
  "imagePlatform r imageRef =
     bindE (mapErr (wrap ''inspect docker image platform: '') (inspect_image r imageRef)) (\<lambda>inspect.
     ret (dockerImagePlatform inspect))"

definition imageLabels :: "'e docker_runtime \<Rightarrow> string \<Rightarrow> ('e, (string, string) gomap) host_op" where
  "imageLabels r imageRef =
     caseE (inspect_image r imageRef) (\<lambda>err. ret [])
       (\<lambda>inspect. ret (case ii_Labels inspect of None \<Rightarrow> [] | Some labels \<Rightarrow> labels))"

definition publishedContainerPorts :: "'e docker_runtime \<Rightarrow> string \<Rightarrow> ('e, int list) host_op" where
  "publishedContainerPorts r imageRef =
     bindE (mapErr (wrap ''inspect docker image exposed ports: '') (inspect_image r imageRef)) (\<lambda>inspect.
     ret (normalizeDockerPublishedPorts (dc_PublishedPorts (dr_cfg r) @
            (case ii_ExposedPorts inspect of None \<Rightarrow> [] | Some ports \<Rightarrow> dockerTCPPortsFromSet ports))))"

section \<open>The binary that runs in a sandbox\<close>

text \<open>The bundled file is looked for from the working directory and the program's upward.\<close>

function search_up :: "string list \<Rightarrow> string \<Rightarrow> string \<Rightarrow> 'e host \<Rightarrow> (string option \<times> string list) \<times> 'e host" where
  "search_up seen dir relPath h =
     (if dir = dot \<or> dir = ''/'' \<or> dir \<in> set seen then ((None, seen), h)
      else let path = path_Join [dir, relPath]
           in case os_Stat path h of
                (Inr i, h) \<Rightarrow> ((Some path, dir # seen), h)
              | (Inl e, h) \<Rightarrow>
                  (let next_dir = path_Dir dir
                   in if next_dir = dir then ((None, dir # seen), h)
                      else search_up (dir # seen) next_dir relPath h))"
  by pat_completeness auto
termination
proof (relation "measure (\<lambda>(seen, dir, relPath, h). if dir = dot \<or> dir = ''/'' then 0 else Suc (length dir))", goal_cases)
  case (2 seen dir relPath h path p e h' next_dir)
  then show ?case using path_Dir_shorter [of dir] by auto
qed simp

declare search_up.simps [simp del]

text \<open>\<open>cwd\<close> and \<open>exe\<close> are what the operating system tells of the process, if it does.\<close>

fun search_candidates :: "string list \<Rightarrow> string list \<Rightarrow> string \<Rightarrow> 'e host \<Rightarrow> string \<times> 'e host" where
  "search_candidates seen [] relPath h = (relPath, h)"
| "search_candidates seen (c # cs) relPath h =
     (case search_up seen (path_Clean c) relPath h of
        ((Some path, seen), h) \<Rightarrow> (path, h)
      | ((None, seen), h) \<Rightarrow> search_candidates seen cs relPath h)"

definition bundledDockerEnvdBinaryPath :: "string option \<Rightarrow> string option \<Rightarrow> string \<Rightarrow> 'e host \<Rightarrow> string \<times> 'e host" where
  "bundledDockerEnvdBinaryPath cwd exe relPath h =
     (let relPath = path_Clean (TrimSpace relPath)
      in if relPath = dot \<or> relPath = [] \<or> path_IsAbs relPath then (relPath, h)
         else search_candidates []
                ((case cwd of Some d \<Rightarrow> if d = [] then [] else [d] | None \<Rightarrow> []) @
                 (case exe of Some e \<Rightarrow> if e = [] then [] else [path_Dir e] | None \<Rightarrow> [])) relPath h)"

definition envdBinaryForPlatform :: "'e docker_runtime \<Rightarrow> string option \<Rightarrow> string option \<Rightarrow> platform \<Rightarrow> ('e, string) host_op" where
  "envdBinaryForPlatform r cwd exe platform h =
     (let override = TrimSpace (dc_EnvdBinary (dr_cfg r));
          arch = normalizeImageArchitecture (pl_Architecture platform);
          bundled = \<lambda>p. case bundledDockerEnvdBinaryPath cwd exe p h of (path, h) \<Rightarrow> (Inr path, h)
      in if override \<noteq> [] then (Inr override, h)
         else if pl_OS platform \<noteq> [] \<and> pl_OS platform \<noteq> ''linux''
         then (Inl (ErrorString (''docker image OS '' @ quoted (pl_OS platform) @
                 '' is not supported; envd binaries are Linux-only'')), h)
         else if arch = ''amd64'' then bundled dockerEnvdBinaryAMD64
         else if arch = ''arm64'' then bundled dockerEnvdBinaryARM64
         else if arch = []
         then (Inl (ErrorString ''docker image architecture is unknown; set docker.envd_binary explicitly''), h)
         else (Inl (ErrorString (''docker image architecture '' @ quoted (pl_Architecture platform) @
                 '' is not supported; set docker.envd_binary explicitly'')), h))"

definition validateHostFile :: "string \<Rightarrow> ('e, unit) host_op" where
  "validateHostFile envdBinary =
     bindE (mapErr (wrap ''docker.envd_binary is not accessible: '') (os_Stat envdBinary)) (\<lambda>stat.
     if i_node stat = Dir then fail (ErrorString (''docker.envd_binary is a directory: '' @ envdBinary))
     else if i_mode stat AND 73 = 0 then fail (ErrorString (''docker.envd_binary is not executable: '' @ envdBinary))
     else ret ())"

section \<open>Containers\<close>

definition removeContainer :: "'e docker_runtime \<Rightarrow> string \<Rightarrow> ('e, unit) host_op" where
  "removeContainer r containerID =
     caseE (engine_call (dr_client r) (dk_ContainerRemove (dr_client r) containerID))
       (\<lambda>err. if dk_IsNotFound (dr_client r) err then ret () else fail (wrap ''remove docker container: '' err)) ret"

definition inspect_container :: "'e docker_runtime \<Rightarrow> string \<Rightarrow> ('e, container_json) host_op" where
  "inspect_container r containerID = engine_call (dr_client r) (dk_ContainerInspect (dr_client r) containerID)"

definition info_from_inspect :: "runtime_info \<Rightarrow> container_json \<Rightarrow> go_error + runtime_info" where
  "info_from_inspect info inspect =
     (let ns = cj_NetworkSettings inspect
      in case (case map_of (ns_Ports ns) dockerEnvdNatPort of None \<Rightarrow> [] | Some bs \<Rightarrow> bs) of
           [] \<Rightarrow> Inl (ErrorString (''docker container has no host binding for '' @ dockerEnvdNatPort))
         | binding # bs \<Rightarrow>
             Inr (info\<lparr>ri_HostPort := pb_HostPort binding,
                       ri_EnvdURL := ''http://'' @ dockerEnvdHost binding @ '':'' @ pb_HostPort binding,
                       ri_ContainerIP := dockerContainerIP (Some ns),
                       ri_PublishedPorts := dockerPublishedPortsFromBindings (ns_Ports ns),
                       ri_ContainerName := (if ri_ContainerName info = [] then TrimPrefix (cj_Name inspect) ''/''
                                            else ri_ContainerName info)\<rparr>))"

definition inspectRuntimeInfo :: "'e docker_runtime \<Rightarrow> runtime_info \<Rightarrow> ('e, runtime_info) host_op" where
  "inspectRuntimeInfo r info =
     bindE (mapErr (wrap ''inspect docker container: '') (inspect_container r (ri_ContainerID info))) (\<lambda>inspect.
     liftE (info_from_inspect info inspect))"

text \<open>One second of waiting, cut short when the context is done.\<close>

definition wait_second :: "'e ctx \<Rightarrow> ('e, unit) host_op" where
  "wait_second ctx h =
     (case ctx h of
        Some e \<Rightarrow> (Inl e, h)
      | None \<Rightarrow> (let h = h\<lparr>h_now := h_now h + 1000000000\<rparr>
                 in case ctx h of Some e \<Rightarrow> (Inl e, h) | None \<Rightarrow> (Inr (), h)))"

lemma wait_second_clock: "wait_second ctx h = (Inr u, h') \<Longrightarrow> h_now h' = h_now h + 1000000000"
  by (auto simp: wait_second_def Let_def split: option.splits)

lemma engine_call_now: "engine_call dk f h = (x, h') \<Longrightarrow> h_now h \<le> h_now h'"
  using engine_call_clock [of h dk f] by simp

definition health_deadline :: "'e docker_runtime \<Rightarrow> time \<Rightarrow> time" where
  "health_deadline r now = time_Add now (word_of_int (dc_HealthTimeoutSeconds (dr_cfg r)) * time_Second)"

function wait_healthy :: "'e ctx \<Rightarrow> 'e docker_runtime \<Rightarrow> string \<Rightarrow> time \<Rightarrow> 'e host \<Rightarrow> (go_error + unit) \<times> 'e host" where
  "wait_healthy ctx r healthURL deadline h =
     (case dk_RequestError (dr_client r) healthURL of
        Some e \<Rightarrow> (Inl (wrap ''create envd health request: '' e), h)
      | None \<Rightarrow>
          (case engine_call (dr_client r) (dk_HealthGet (dr_client r) healthURL) h of
             (res, h) \<Rightarrow>
               (if (case res of Inr status \<Rightarrow> status \<ge> 200 \<and> status < 300 | Inl e \<Rightarrow> False) then (Inr (), h)
                else if h_now h > deadline
                then (Inl (ErrorString (''envd did not become healthy at '' @ healthURL @ '' within '' @
                        Itoa (dc_HealthTimeoutSeconds (dr_cfg r)) @ ''s'')), h)
                else case wait_second ctx h of
                       (Inl e, h) \<Rightarrow> (Inl e, h)
                     | (Inr u, h) \<Rightarrow> wait_healthy ctx r healthURL deadline h)))"
  by pat_completeness auto
termination
proof (relation "measure (\<lambda>(ctx, r, url, deadline, h). nat (deadline + 1000000001 - h_now h))", goal_cases)
  case (2 ctx r url deadline h res h1 w h2 u)
  from 2 have "h_now h \<le> h_now h1" by (auto dest: engine_call_now [OF sym])
  moreover from 2 have "h_now h2 = h_now h1 + 1000000000" by (auto dest: wait_second_clock [OF sym])
  moreover from 2 have "h_now h1 \<le> deadline" by simp
  ultimately show ?case by simp
qed simp

declare wait_healthy.simps [simp del]

definition TrimRight :: "char \<Rightarrow> string \<Rightarrow> string" where
  "TrimRight c s = rev (dropWhile (\<lambda>x. x = c) (rev s))"

definition waitHealthy :: "'e ctx \<Rightarrow> 'e docker_runtime \<Rightarrow> string \<Rightarrow> ('e, unit) host_op" where
  "waitHealthy ctx r envdURL =
     bindE time_Now (\<lambda>now. wait_healthy ctx r (TrimRight CHR ''/'' envdURL @ ''/health'') (health_deadline r now))"

definition runContainerReadyCommand :: "'e docker_runtime \<Rightarrow> string \<Rightarrow> string \<Rightarrow> ('e, string \<times> int) host_op" where
  "runContainerReadyCommand r containerID readyCmd =
     bindE (engine_call (dr_client r) (dk_ContainerExec (dr_client r) containerID (dockerReadyCommand readyCmd)))
       (\<lambda>((stdout, stderr), exitCode).
          ret (TrimSpace (Join CHR 0x0A (nonEmptyStrings [stdout, stderr])), exitCode))"

lemma runContainerReadyCommand_clock:
  "runContainerReadyCommand r c cmd h = (x, h') \<Longrightarrow> h_now h \<le> h_now h'"
  by (auto simp: runContainerReadyCommand_def call_defs split: sum.splits prod.splits dest!: engine_call_now)

function wait_ready :: "'e ctx \<Rightarrow> 'e docker_runtime \<Rightarrow> string \<Rightarrow> string \<Rightarrow> time \<Rightarrow> 'e host \<Rightarrow> (go_error + unit) \<times> 'e host" where
  "wait_ready ctx r containerID readyCmd deadline h =
     (case runContainerReadyCommand r containerID readyCmd h of
        (res, h) \<Rightarrow>
          (let lastError = (case res of Inl err \<Rightarrow> error_text err | Inr (out, exitCode) \<Rightarrow> readyCommandFailure exitCode out)
           in if (case res of Inl err \<Rightarrow> False | Inr (out, exitCode) \<Rightarrow> exitCode = 0) then (Inr (), h)
              else if h_now h > deadline
              then (Inl (ErrorString (''template ready command did not succeed within '' @
                      Itoa (dc_HealthTimeoutSeconds (dr_cfg r)) @ ''s: '' @ lastError)), h)
              else case wait_second ctx h of
                     (Inl e, h) \<Rightarrow> (Inl e, h)
                   | (Inr u, h) \<Rightarrow> wait_ready ctx r containerID readyCmd deadline h))"
  by pat_completeness auto
termination
proof (relation "measure (\<lambda>(ctx, r, c, cmd, deadline, h). nat (deadline + 1000000001 - h_now h))", goal_cases)
  case (2 ctx r c cmd deadline h res h1 l w h2 u)
  from 2 have "h_now h \<le> h_now h1" by (auto dest: runContainerReadyCommand_clock [OF sym])
  moreover from 2 have "h_now h2 = h_now h1 + 1000000000" by (auto dest: wait_second_clock [OF sym])
  moreover from 2 have "h_now h1 \<le> deadline" by simp
  ultimately show ?case by simp
qed simp

declare wait_ready.simps [simp del]

definition waitReadyCommand :: "'e ctx \<Rightarrow> 'e docker_runtime \<Rightarrow> string \<Rightarrow> string \<Rightarrow> ('e, unit) host_op" where
  "waitReadyCommand ctx r containerID readyCmd =
     (let readyCmd = TrimSpace readyCmd
      in if readyCmd = [] then ret ()
         else bindE time_Now (\<lambda>now. wait_ready ctx r containerID readyCmd (health_deadline r now)))"

definition containerLogs :: "'e docker_runtime \<Rightarrow> string \<Rightarrow> ('e, string) host_op" where
  "containerLogs r containerID =
     caseE (engine_call (dr_client r) (dk_RawLogs (dr_client r) containerID
              \<lparr>lo_Tail = ''80'', lo_Since = [], lo_Timestamps = False\<rparr>))
       (\<lambda>err. ret []) (\<lambda>data. ret (TrimSpace data))"

section \<open>Sandboxes\<close>

fun resolve_mounts :: "'e docker_runtime \<Rightarrow> volume_mount list \<Rightarrow> ('e, (volume_mount \<times> mount_spec) list) host_op" where
  "resolve_mounts r [] = ret []"
| "resolve_mounts r (m # ms) =
     (if vm_VolumeID m = [] then fail (ErrorString (''volume mount name is required for path '' @ vm_Path m))
      else if vm_Path m = [] then fail (ErrorString (''volume mount path is required for volume '' @ vm_VolumeID m))
      else if \<not> HasPrefix (vm_Path m) ''/'' then fail (ErrorString (''volume mount path must be absolute: '' @ vm_Path m))
      else bindE (ensureLocalVolume r (vm_VolumeID m)) (\<lambda>(resolved, hostDir).
           bindE (resolve_mounts r ms) (\<lambda>rest.
           ret ((m\<lparr>vm_VolumeID := rv_VolumeID resolved, vm_Name := rv_Name resolved\<rparr>,
                 \<lparr>mt_Type = TypeBind, mt_Source = hostDir, mt_Target = vm_Path m, mt_ReadOnly = False\<rparr>) # rest))))"

definition mounts :: "'e docker_runtime \<Rightarrow> volume_mount list \<Rightarrow> string \<Rightarrow> ('e, volume_mount list \<times> mount_spec list) host_op" where
  "mounts r volumeMounts envdBinary =
     bindE (resolve_mounts r (dockerNormalizeVolumeMounts volumeMounts)) (\<lambda>resolved.
     ret (map fst resolved,
          \<lparr>mt_Type = TypeBind, mt_Source = envdBinary, mt_Target = dockerEnvdPath, mt_ReadOnly = True\<rparr> # map snd resolved))"

text \<open>A failing step after the container exists: its logs are read for the message, then it is removed.\<close>

definition or_remove :: "'e docker_runtime \<Rightarrow> string \<Rightarrow> ('e, 'a) host_op \<Rightarrow> ('e, 'a) host_op" where
  "or_remove r containerID m =
     caseE m (\<lambda>err. bindE (ignoreE (removeContainer r containerID)) (\<lambda>u. fail err)) ret"

definition or_remove_with_logs :: "'e docker_runtime \<Rightarrow> string \<Rightarrow> ('e, 'a) host_op \<Rightarrow> ('e, 'a) host_op" where
  "or_remove_with_logs r containerID m =
     caseE m
       (\<lambda>err. bindE (containerLogs r containerID) (\<lambda>logs.
              bindE (ignoreE (removeContainer r containerID)) (\<lambda>u.
              fail (if logs \<noteq> [] then Wrapf [] err (''; container logs:'' @ [CHR 0x0A] @ logs) else err)))) ret"

text \<open>The container of a request, and what is known of the sandbox before it runs.\<close>

definition sandbox_spec :: "'e docker_runtime \<Rightarrow> create_request \<Rightarrow> string \<Rightarrow> string \<Rightarrow> platform \<Rightarrow> (string, string) gomap \<Rightarrow>
    int list \<Rightarrow> volume_mount list \<Rightarrow> mount_spec list \<Rightarrow> container_spec" where
  "sandbox_spec r req templateID imageRef selected labels publishedPorts volumeMounts specs =
     \<lparr>sp_Image = imageRef, sp_User = ''root'', sp_Env = envVars (cr_EnvVars req), sp_Entrypoint = [dockerEnvdPath],
      sp_Cmd = containerCommand (map_read labels dockerLocalTemplateStartCmdLabel),
      sp_ExposedPorts = dockerExposedPorts dockerEnvdNatPort publishedPorts,
      sp_Labels = dockerSandboxLabels (dr_codecs r) (req\<lparr>cr_VolumeMounts := volumeMounts\<rparr>) templateID imageRef,
      sp_Init = True,
      sp_PortBindings = dockerPortBindings dockerEnvdNatPort publishedPorts (dc_PublishedHostIP (dr_cfg r)),
      sp_Mounts = specs, sp_CapAdd = fst (dockerSandboxPermissions (dc_EnableFUSE (dr_cfg r))),
      sp_Devices = snd (dockerSandboxPermissions (dc_EnableFUSE (dr_cfg r))),
      sp_Platform = containerCreatePlatform selected,
      sp_Name = dc_ContainerNamePrefix (dr_cfg r) @ cr_SandboxID req\<rparr>"

definition new_info :: "'e docker_runtime \<Rightarrow> create_request \<Rightarrow> string \<Rightarrow> volume_mount list \<Rightarrow> runtime_info" where
  "new_info r req containerID volumeMounts =
     \<lparr>ri_SandboxID = cr_SandboxID req, ri_EnvdURL = [], ri_ContainerID = containerID,
      ri_ContainerName = dc_ContainerNamePrefix (dr_cfg r) @ cr_SandboxID req, ri_ContainerIP = [], ri_HostPort = [],
      ri_MachineID = [], ri_VolumeMounts = volumeMounts, ri_PublishedPorts = []\<rparr>"

text \<open>From the start of the container to the ready sandbox.\<close>

definition start_sandbox :: "'e ctx \<Rightarrow> 'e docker_runtime \<Rightarrow> runtime_info \<Rightarrow> (string, string) gomap \<Rightarrow> ('e, runtime_info) host_op" where
  "start_sandbox ctx r info labels =
     (let c = ri_ContainerID info
      in bindE (or_remove r c (mapErr (wrap ''start docker container: '')
                  (engine_call (dr_client r) (dk_ContainerStart (dr_client r) c)))) (\<lambda>u.
         bindE (or_remove r c (inspectRuntimeInfo r info)) (\<lambda>info.
         bindE (or_remove_with_logs r c (waitHealthy ctx r (ri_EnvdURL info))) (\<lambda>u.
         bindE (or_remove_with_logs r c (waitReadyCommand ctx r c (map_read labels dockerLocalTemplateReadyCmdLabel))) (\<lambda>u.
         ret info)))))"

definition docker_CreateSandbox :: "'e ctx \<Rightarrow> string option \<Rightarrow> string option \<Rightarrow> 'e docker_runtime \<Rightarrow> create_request \<Rightarrow> ('e, runtime_info) host_op" where
  "docker_CreateSandbox ctx cwd exe r req =
     bindE (liftE (Normalize (cr_OnTimeout req))) (\<lambda>onTimeout.
       let req = req\<lparr>cr_OnTimeout := onTimeout\<rparr>; templateID = TrimSpace (cr_TemplateID req)
       in if templateID = [] then fail (ErrorString ''templateID is required'')
          else bindE (resolveTemplateImage r templateID) (\<lambda>imageRef.
               bindE (imagePlatform r imageRef) (\<lambda>platform.
                 let selected = selectedPlatform r platform
                 in bindE (envdBinaryForPlatform r cwd exe selected) (\<lambda>envdBinary.
                    bindE (validateHostFile envdBinary) (\<lambda>u.
                    bindE (imageLabels r imageRef) (\<lambda>labels.
                    bindE (publishedContainerPorts r imageRef) (\<lambda>publishedPorts.
                    bindE (mounts r (cr_VolumeMounts req) envdBinary) (\<lambda>(volumeMounts, specs).
                    bindE (mapErr (wrap ''create docker container: '')
                             (engine_call (dr_client r) (dk_ContainerCreate (dr_client r)
                                (sandbox_spec r req templateID imageRef selected labels publishedPorts volumeMounts specs)))) (\<lambda>containerID.
                    start_sandbox ctx r (new_info r req containerID volumeMounts) labels)))))))))"

definition docker_DeleteSandbox :: "'e docker_runtime \<Rightarrow> runtime_info \<Rightarrow> ('e, unit) host_op" where
  "docker_DeleteSandbox r info = (if ri_ContainerID info = [] then ret () else removeContainer r (ri_ContainerID info))"

definition docker_PauseSandbox :: "'e docker_runtime \<Rightarrow> runtime_info \<Rightarrow> ('e, unit) host_op" where
  "docker_PauseSandbox r info =
     (if ri_ContainerID info = [] then ret ()
      else caseE (engine_call (dr_client r) (dk_ContainerPause (dr_client r) (ri_ContainerID info)))
             (\<lambda>err. if dk_IsConflict (dr_client r) err then ret () else fail (wrap ''pause docker container: '' err)) ret)"

definition docker_ResumeSandbox :: "'e docker_runtime \<Rightarrow> runtime_info \<Rightarrow> ('e, runtime_info) host_op" where
  "docker_ResumeSandbox r info =
     (if ri_ContainerID info = [] then ret info
      else caseE (engine_call (dr_client r) (dk_ContainerUnpause (dr_client r) (ri_ContainerID info)))
             (\<lambda>err. if \<not> dk_IsConflict (dr_client r) err then fail (wrap ''unpause docker container: '' err)
                    else inspectRuntimeInfo r info)
             (\<lambda>u. inspectRuntimeInfo r info))"

definition docker_InspectSandbox :: "'e docker_runtime \<Rightarrow> runtime_info \<Rightarrow> ('e, inspection) host_op" where
  "docker_InspectSandbox r info =
     (let containerID = TrimSpace (ri_ContainerID info);
          containerID = (if containerID = [] then TrimSpace (ri_ContainerName info) else containerID)
      in if containerID = [] then ret \<lparr>in_Info = info, in_State = [], in_Exists = True\<rparr>
         else caseE (inspect_container r containerID)
                (\<lambda>err. if dk_IsNotFound (dr_client r) err
                       then ret \<lparr>in_Info = \<lparr>ri_SandboxID = [], ri_EnvdURL = [], ri_ContainerID = [], ri_ContainerName = [],
                              ri_ContainerIP = [], ri_HostPort = [], ri_MachineID = [], ri_VolumeMounts = [],
                              ri_PublishedPorts = []\<rparr>, in_State = [], in_Exists = False\<rparr>
                       else fail (wrap ''inspect docker container: '' err))
                (\<lambda>inspect.
                   let info = (if cj_ID inspect \<noteq> [] then info\<lparr>ri_ContainerID := cj_ID inspect\<rparr> else info);
                       info = (if cj_Name inspect \<noteq> [] then info\<lparr>ri_ContainerName := TrimPrefix (cj_Name inspect) ''/''\<rparr> else info)
                   in bindE (caseE (inspectRuntimeInfo r info) (\<lambda>err. ret info) ret) (\<lambda>info.
                        let state = dockerSandboxState (cj_State inspect)
                        in ret \<lparr>in_Info = info, in_State = state, in_Exists = (state \<noteq> [])\<rparr>)))"

text \<open>Restoring after a restart: one container, then all of them, the oldest first.\<close>

definition record_from_labels :: "codecs \<Rightarrow> container_summary \<Rightarrow> container_json \<Rightarrow> time \<Rightarrow> (string, string) gomap \<Rightarrow>
    runtime_info \<Rightarrow> timeout_action \<Rightarrow> sandbox_record" where
  "record_from_labels cd summary inspect now labels info onTimeout =
     (let createdAt = dockerTimeLabel cd (map_read labels dockerLocalSandboxCreatedAtLabel)
                        (dockerImageCreatedAt cd (cj_Created inspect) now);
          endAt = dockerTimeLabel cd (map_read labels dockerLocalSandboxEndAtLabel) (defaultSandboxEndAt createdAt);
          templateID = TrimSpace (map_read labels dockerLocalSandboxTemplateIDLabel);
          templateID = (if templateID = [] then dockerTemplateName (cs_Image summary) else templateID)
      in \<lparr>sr_ID = ri_SandboxID info, sr_TemplateID = templateID, sr_Alias = [], sr_ClientID = [], sr_EnvdVersion = [],
          sr_Metadata = dockerStringMapLabel cd (map_read labels dockerLocalSandboxMetadataLabel),
          sr_EnvdURL = ri_EnvdURL info, sr_RuntimeInfo = info, sr_CreatedAt = createdAt, sr_EndAt = endAt,
          sr_State = dockerSandboxState (cj_State inspect), sr_CPUCount = 0, sr_DiskSizeMB = 0, sr_MemoryMB = 0,
          sr_InternetAccessPolicy =
            InternetAccessPolicyFromBoolPtr (dockerBoolPtrLabel (map_read labels dockerLocalSandboxAllowInternetLabel)),
          sr_OnTimeout = onTimeout\<rparr>)"

definition restored_info :: "'e docker_runtime \<Rightarrow> container_summary \<Rightarrow> container_json \<Rightarrow> (string, string) gomap \<Rightarrow> string \<Rightarrow> runtime_info" where
  "restored_info r summary inspect labels sandboxID =
     (let name = TrimPrefix (cj_Name inspect) ''/'';
          volumeMounts = dockerVolumeMountsFromLabels (dr_codecs r) labels
      in \<lparr>ri_SandboxID = sandboxID, ri_EnvdURL = [],
          ri_ContainerID = (if cj_ID inspect = [] then cs_ID summary else cj_ID inspect),
          ri_ContainerName = (if name = [] then firstDockerContainerName (cs_Names summary) else name),
          ri_ContainerIP = [], ri_HostPort = [], ri_MachineID = [],
          ri_VolumeMounts = (if volumeMounts = [] then dockerVolumeMountsFromMountPoints r (cj_Mounts inspect) else volumeMounts),
          ri_PublishedPorts = []\<rparr>)"

definition restoreSandboxRecord :: "'e docker_runtime \<Rightarrow> container_summary \<Rightarrow> time \<Rightarrow> ('e, sandbox_record option) host_op" where
  "restoreSandboxRecord r summary now =
     caseE (inspect_container r (cs_ID summary))
       (\<lambda>err. if dk_IsNotFound (dr_client r) err then ret None
              else fail (wrap (''inspect docker sandbox '' @ cs_ID summary @ '': '') err))
       (\<lambda>inspect.
          let labels = dockerContainerLabels (cs_Labels summary) (cj_Labels inspect);
              sandboxID = TrimSpace (map_read labels dockerLocalSandboxIDLabel)
          in if sandboxID = [] \<or> dockerSandboxState (cj_State inspect) = [] then ret None
             else bindE (inspectRuntimeInfo r (restored_info r summary inspect labels sandboxID)) (\<lambda>info.
                  bindE (mapErr (wrap (''restore docker sandbox '' @ sandboxID @ '': '')) (liftE (dockerSandboxTimeoutAction labels))) (\<lambda>onTimeout.
                  ret (Some (record_from_labels (dr_codecs r) summary inspect now labels info onTimeout)))))"

fun restore_records :: "'e docker_runtime \<Rightarrow> time \<Rightarrow> container_summary list \<Rightarrow> ('e, sandbox_record list) host_op" where
  "restore_records r now [] = ret []"
| "restore_records r now (c # cs) =
     bindE (restoreSandboxRecord r c now) (\<lambda>rec.
     bindE (restore_records r now cs) (\<lambda>rest.
     ret (case rec of None \<Rightarrow> rest | Some record \<Rightarrow> record # rest)))"

definition docker_RestoreSandboxes :: "'e docker_runtime \<Rightarrow> ('e, sandbox_record list) host_op" where
  "docker_RestoreSandboxes r =
     bindE (mapErr (wrap ''list docker sandboxes: '') (engine_call (dr_client r)
              (dk_ContainerList (dr_client r) [dockerLocalManagedLabel @ ''=true'', dockerLocalSandboxIDLabel]))) (\<lambda>containers.
     bindE time_Now (\<lambda>now.
     bindE (restore_records r now containers) (\<lambda>records. ret (sort_key sr_CreatedAt records))))"

section \<open>Logs, metrics and snapshots\<close>

definition log_since :: "logs_request \<Rightarrow> string" where
  "log_since req =
     (let since = (case lq_Start req of Some a \<Rightarrow> if a > 0 then Itoa (a div 1000) else [] | None \<Rightarrow> [])
      in case lq_Cursor req of Some a \<Rightarrow> if a > 0 then Itoa (a div 1000) else since | None \<Rightarrow> since)"

definition docker_GetSandboxLogs :: "'e docker_runtime \<Rightarrow> runtime_info \<Rightarrow> logs_request \<Rightarrow> ('e, runtime_log_entry list) host_op" where
  "docker_GetSandboxLogs r info req =
     (if ri_ContainerID info = [] then ret []
      else let tail = dockerLogTail req
           in bindE (mapErr (wrap ''read docker logs: '') (engine_call (dr_client r) (dk_ContainerLogs (dr_client r) (ri_ContainerID info)
                       \<lparr>lo_Tail = (if tail > 0 then Itoa tail else []), lo_Since = log_since req, lo_Timestamps = True\<rparr>))) (\<lambda>stream.
              bindE (mapErr (wrap ''decode docker logs: '') (liftE stream)) (\<lambda>(stdout, stderr).
              bindE time_Now (\<lambda>now. ret (log_page (dr_codecs r) now stdout stderr req)))))"

definition docker_GetSandboxMetrics :: "'e docker_runtime \<Rightarrow> sandbox_record \<Rightarrow> metrics_request \<Rightarrow> ('e, sandbox_metric list) host_op" where
  "docker_GetSandboxMetrics r record req =
     (if ri_ContainerID (sr_RuntimeInfo record) = []
      then bindE time_Now (\<lambda>now.
             let metric = sandboxMetricFromRecord record now
             in ret (if metricMatchesRange metric req then [metric] else []))
      else bindE (mapErr (wrap ''read docker stats: '') (engine_call (dr_client r)
                    (dk_ContainerStats (dr_client r) (ri_ContainerID (sr_RuntimeInfo record))))) (\<lambda>stats.
           bindE time_Now (\<lambda>now.
             let timestamp = (if IsZero (ss_Read stats) then now else ss_Read stats);
                 memTotal = sint (uint64ToInt64 (ss_Limit stats));
                 metric = (sandboxMetricFromRecord record timestamp)
                   \<lparr>sm_CpuUsedPct := dk_CPUUsedPct (dr_client r) stats,
                    sm_MemUsed := sint (uint64ToInt64 (ss_Usage stats)),
                    sm_MemTotal := (if memTotal = 0 then sandboxMemoryMB record * 1024 * 1024 else memTotal),
                    sm_MemCache := sint (uint64ToInt64 (dockerMemoryCache stats))\<rparr>
             in ret (if metricMatchesRange metric req then [metric] else []))))"

definition docker_CreateSandboxSnapshot :: "'e docker_runtime \<Rightarrow> sandbox_record \<Rightarrow> string option \<Rightarrow> ('e, snapshot_info) host_op" where
  "docker_CreateSandboxSnapshot r record reqName =
     (if ri_ContainerID (sr_RuntimeInfo record) = []
      then fail (ErrorString (''sandbox '' @ sr_ID record @ '' has no docker container''))
      else let name = snapshotRequestName reqName
           in bindE time_Now (\<lambda>createdAt.
                let ref = dockerSnapshotReference (sr_ID record) name createdAt;
                    changes = [''LABEL '' @ dockerLocalManagedLabel @ ''=true'',
                               ''LABEL '' @ dockerLocalSnapshotLabel @ ''=true'',
                               ''LABEL '' @ dockerLocalSnapshotSourceSandboxLabel @ ''='' @ sr_ID record,
                               ''LABEL '' @ dockerLocalSnapshotRefLabel @ ''='' @ ref,
                               ''LABEL '' @ dockerLocalSnapshotCreatedAtLabel @ ''='' @ Itoa (time_Unix createdAt)] @
                              (if name \<noteq> [] then [''LABEL '' @ dockerLocalSnapshotNameLabel @ ''='' @ name] else [])
                in bindE (mapErr (wrap ''commit docker snapshot: '') (engine_call (dr_client r)
                            (dk_ContainerCommit (dr_client r) (ri_ContainerID (sr_RuntimeInfo record))
                               \<lparr>co_Reference = ref, co_Comment = ''e2b-local snapshot for sandbox '' @ sr_ID record,
                                co_Author = ''e2b-local'', co_Changes = changes\<rparr>))) (\<lambda>u.
                   ret \<lparr>si_Names = [ref], si_SnapshotID = ref\<rparr>)))"

definition docker_ListSnapshots :: "'e docker_runtime \<Rightarrow> string \<Rightarrow> string \<Rightarrow> int \<Rightarrow> ('e, snapshot_info list) host_op" where
  "docker_ListSnapshots r sandboxID nextToken limit =
     bindE (mapErr (wrap ''list docker snapshots: '') (engine_call (dr_client r) (dk_ImageList (dr_client r) True
              ((dockerLocalSnapshotLabel @ ''=true'') #
               (if TrimSpace sandboxID \<noteq> [] then [dockerLocalSnapshotSourceSandboxLabel @ ''='' @ TrimSpace sandboxID] else []))))) (\<lambda>images.
     ret (snapshot_page nextToken limit (sorted_snapshots images)))"

section \<open>Template builds\<close>

record build_opts =
  op_Dockerfile :: string
  op_Files :: "(string \<times> archive) list"
  op_NoCache :: bool
  op_StartCmd :: string
  op_ReadyCmd :: string

definition dockerfileFromTemplateBuildStart :: "'e docker_runtime \<Rightarrow> build_start \<Rightarrow> ('e, string) host_op" where
  "dockerfileFromTemplateBuildStart r req =
     (let fromImage = stringPtrValue (bs_FromImage req); fromTemplate = stringPtrValue (bs_FromTemplate req)
      in if fromImage \<noteq> [] \<and> fromTemplate \<noteq> [] then fail (GatewayError 400 ''cannot specify both fromImage and fromTemplate'')
         else bindE (if fromTemplate \<noteq> []
                     then mapErr (\<lambda>err. GatewayError 400 (''base template '' @ fromTemplate @ '' not found: '' @ error_text err))
                            (resolveTemplateImage r fromTemplate)
                     else ret fromImage) (\<lambda>fromImage.
              if fromImage = [] then fail (GatewayError 400 ''must specify either fromImage or fromTemplate'')
              else bindE (liftE (dockerfile_steps 0 (templateBuildSteps (bs_Steps req)))) (\<lambda>steps.
                   ret (''FROM '' @ fromImage @ [CHR 0x0A] @ steps))))"

definition build_labels :: "gateway_template \<Rightarrow> build_opts \<Rightarrow> (string, string) gomap" where
  "build_labels template opts =
     (let labels = dockerTemplateLabels template;
          labels = optional_label (TrimSpace (op_StartCmd opts) \<noteq> []) dockerLocalTemplateStartCmdLabel (TrimSpace (op_StartCmd opts)) labels
      in optional_label (TrimSpace (op_ReadyCmd opts) \<noteq> []) dockerLocalTemplateReadyCmdLabel (TrimSpace (op_ReadyCmd opts)) labels)"

definition built_template :: "codecs \<Rightarrow> gateway_template \<Rightarrow> string \<Rightarrow> image_inspect \<Rightarrow> time \<Rightarrow> gateway_template" where
  "built_template cd template imageRef inspect now =
     template\<lparr>gt_ImageRef := imageRef, gt_BuildStatus := BuildStatusReady,
       gt_DiskSizeMB := signed_take_bit 31 (bytesToMB (ii_Size inspect)), gt_UpdatedAt := now,
       gt_BuildID := (if gt_BuildID template = [] then shortDockerImageID (ii_ID inspect) else gt_BuildID template),
       gt_CreatedAt := (if IsZero (gt_CreatedAt template) then dockerImageCreatedAt cd (ii_Created inspect) now else gt_CreatedAt template),
       gt_Names := (if gt_Names template = [] then [gt_TemplateID template] else gt_Names template)\<rparr>"

text \<open>The result comes with the build's log entries, also when it is an error.\<close>

definition buildTemplateFromDockerfile :: "'e docker_runtime \<Rightarrow> gateway_template \<Rightarrow> build_opts \<Rightarrow> 'e host \<Rightarrow>
    ((go_error + gateway_template) \<times> build_log_entry list) \<times> 'e host" where
  "buildTemplateFromDockerfile r template opts h =
     (let imageRef = dockerTemplateReference template
      in case engine_call (dr_client r) (dk_ImageBuild (dr_client r) (writeDockerBuildContext (op_Dockerfile opts) (op_Files opts))
                \<lparr>bo_Labels = build_labels template opts, bo_NoCache = op_NoCache opts,
                 bo_Platform = dc_Platform (dr_cfg r), bo_Tags = [imageRef]\<rparr>) h of
           (Inl err, h) \<Rightarrow> ((Inl (wrap ''build docker template image: '' err), []), h)
         | (Inr stream, h) \<Rightarrow>
             (case dockerBuildLogEntries (h_now h) stream of
                (logs, Some err) \<Rightarrow> ((Inl err, logs), h)
              | (logs, None) \<Rightarrow>
                  (case inspect_image r imageRef h of
                     (Inl err, h) \<Rightarrow> ((Inl (wrap ''inspect docker template image: '' err), logs), h)
                   | (Inr inspect, h) \<Rightarrow>
                       ((Inr (built_template (dr_codecs r) template imageRef inspect (h_now h)),
                         (if logs = [] then [dockerBuildLogEntry (h_now h) LogLevelInfo (''docker image build completed: '' @ imageRef)]
                          else logs)), h))))"

definition docker_BuildTemplate :: "'e docker_runtime \<Rightarrow> gateway_template \<Rightarrow> build_request \<Rightarrow> 'e host \<Rightarrow>
    ((go_error + gateway_template) \<times> build_log_entry list) \<times> 'e host" where
  "docker_BuildTemplate r template req h =
     (let dockerfile = TrimSpace (br_Dockerfile req)
      in if dockerfile = [] then ((Inl (ErrorString ''dockerfile is required''), []), h)
         else buildTemplateFromDockerfile r template
                \<lparr>op_Dockerfile = dockerfile, op_Files = [], op_NoCache = False,
                 op_StartCmd = stringPtrValue (br_StartCmd req), op_ReadyCmd = stringPtrValue (br_ReadyCmd req)\<rparr> h)"

definition docker_StartTemplateBuildV2 :: "'e docker_runtime \<Rightarrow> gateway_template \<Rightarrow> string \<Rightarrow> build_start \<Rightarrow>
    (string \<times> archive) list \<Rightarrow> 'e host \<Rightarrow> ((go_error + gateway_template) \<times> build_log_entry list) \<times> 'e host" where
  "docker_StartTemplateBuildV2 r template buildID req files h =
     (case dockerfileFromTemplateBuildStart r req h of
        (Inl err, h) \<Rightarrow> ((Inl err, []), h)
      | (Inr dockerfile, h) \<Rightarrow>
          buildTemplateFromDockerfile r (template\<lparr>gt_BuildID := TrimSpace buildID\<rparr>)
            \<lparr>op_Dockerfile = dockerfile, op_Files = files, op_NoCache = (bs_Force req = Some True),
             op_StartCmd = stringPtrValue (bs_StartCmd req), op_ReadyCmd = stringPtrValue (bs_ReadyCmd req)\<rparr> h)"

section \<open>The gateway's runtime\<close>

definition as_error :: "(go_error + 'a) \<times> 's \<Rightarrow> go_error option \<times> 's" where
  "as_error p = (case p of (Inl e, s) \<Rightarrow> (Some e, s) | (Inr x, s) \<Rightarrow> (None, s))"

definition docker_as_runtime :: "('e host \<Rightarrow> (go_error + string) \<times> 'e host) \<Rightarrow> 'e ctx \<Rightarrow> string option \<Rightarrow> string option \<Rightarrow> 'e docker_runtime \<Rightarrow> 'e host runtime" where
  "docker_as_runtime rand12 ctx cwd exe r =
     \<lparr>rt_now = (\<lambda>h. (h_now h, h)),
      rt_rand12 = rand12,
      rt_present = True,
      rt_CreateSandbox = docker_CreateSandbox ctx cwd exe r,
      rt_DeleteSandbox = (\<lambda>info h. as_error (docker_DeleteSandbox r info h)),
      rt_PauseSandbox = (\<lambda>info h. as_error (docker_PauseSandbox r info h)),
      rt_ResumeSandbox = docker_ResumeSandbox r,
      rt_InspectSandbox = Some (docker_InspectSandbox r),
      rt_RestoreSandboxes = Some (docker_RestoreSandboxes r)\<rparr>"

end
