(* ===== verification/VolumeProofs.thy ===== *)
theory VolumeProofs
  imports DockerRuntime
begin

text \<open>
  What the volume operations change. The calls of the host's file system first: a call through an
  open root changes only what lies below the root, and a call on a path of real directories
  changes only what it names. Then the operations, for any content of the volumes, symbolic links
  included, and any faults.
\<close>

section \<open>Changes to a part of the tree\<close>

definition only :: "string list set \<Rightarrow> 'e host \<Rightarrow> 'e host \<Rightarrow> bool" where
  "only S h h' \<longleftrightarrow> (\<forall>p. p \<notin> S \<longrightarrow> fs_get (h_fs h') p = fs_get (h_fs h) p)"

interpretation only: change_kind "only S" for S :: "string list set"
  by unfold_locales (auto simp: only_def)

lemma only_mono: "only S h h' \<Longrightarrow> S \<subseteq> T \<Longrightarrow> only T h h'"
  by (auto simp: only_def)

lemma only_same: "h_fs h' = h_fs h \<Longrightarrow> only S h h'"
  by (simp add: only_def)

lemma only_put: "p \<in> S \<Longrightarrow> p \<noteq> [] \<Longrightarrow> only S h (fs_put p i h)"
  and only_del: "p \<in> S \<Longrightarrow> p \<noteq> [] \<Longrightarrow> only S h (fs_del p h)"
  by (auto simp: only_def)

lemma only_node_at: "only S h h' \<Longrightarrow> p \<notin> S \<Longrightarrow> node_at (h_fs h') p = node_at (h_fs h) p"
  by (simp add: only_def node_at_def)

text \<open>A call that reads leaves the file system as it is.\<close>

definition reads :: "('e, 'a) host_op \<Rightarrow> bool" where
  "reads m \<longleftrightarrow> (\<forall>h. h_fs (snd (m h)) = h_fs h)"

lemma reads_only: "reads m \<Longrightarrow> within (only S) m"
  by (auto simp: reads_def within_def only_def)

lemma reads_fs: "reads m \<Longrightarrow> m h = (r, h') \<Longrightarrow> h_fs h' = h_fs h"
  unfolding reads_def by (metis snd_conv)

lemma reads_syscall: "(\<And>h. h_fs (snd (f h)) = h_fs h) \<Longrightarrow> reads (syscall f unchanged)"
  by (auto simp: reads_def syscall_def split: list.splits option.splits)

lemma reads_at_path: "(\<And>p h. h_fs (snd (f p h)) = h_fs h) \<Longrightarrow> h_fs (snd (at_path look f h)) = h_fs h"
  by (auto simp: at_path_def split: sum.splits)

lemma reading_calls [simp, intro]:
  "reads (os_Lstat p)" "reads (os_Stat p)" "reads (root_Lstat root p)" "reads (root_Stat root p)"
  "reads (os_OpenRoot p)" "reads (root_OpenRoot root p)" "reads (root_Open root p)" "reads (file_Stat q)"
  "reads (root_Readlink root p)" "reads (os_ReadFile p)" "reads (os_ReadDir p)" "reads (dir_ReadDir q)"
  "reads (file_Sync q)" "reads (file_Close q)"
  by (auto simp: os_Lstat_def os_Stat_def root_Lstat_def root_Stat_def do_stat_def os_OpenRoot_def root_OpenRoot_def
      root_Open_def do_open_def do_open_dir_def file_Stat_def root_Readlink_def os_ReadFile_def os_ReadDir_def
      dir_ReadDir_def file_Sync_def file_Close_def get_inode_def
      intro!: reads_syscall reads_at_path split: option.splits fs_node.splits)

lemma reads_random_name [simp, intro]: "reads random_name"
  by (auto simp: reads_def random_name_def split: list.splits)

lemma reads_engine_call [simp, intro]: "reads (engine_call dk f)" and reads_time_Now [simp, intro]: "reads time_Now"
  by (simp_all add: reads_def time_Now_def)

section \<open>Calls through an open root\<close>

definition below :: "string list \<Rightarrow> string list set" where
  "below root = {p. prefix root p}"

lemma within_syscall:
  assumes "within (only S) f" and "\<And>k h. only S h (partial k h)"
  shows "within (only S) (syscall f partial)"
proof (rule withinI)
  fix h
  show "only S h (snd (syscall f partial h))"
  proof (cases "h_faults h")
    case Nil
    then show ?thesis using assms(1) by (simp add: syscall_def within_def)
  next
    case (Cons x fs)
    let ?h = "h\<lparr>h_faults := fs\<rparr>"
    have "only S h ?h" by (simp add: only_same)
    moreover have "only S ?h (snd (f ?h))" "only S ?h (partial k ?h)" for k
      using assms by (auto simp: within_def)
    ultimately show ?thesis using Cons by (cases x) (auto simp: syscall_def intro: only.steps)
  qed
qed

lemma only_on_inode: "p \<in> S \<Longrightarrow> p \<noteq> [] \<or> (\<forall>i. f i = i) \<Longrightarrow> only S h (on_inode p f h)"
  by (auto simp: on_inode_def only_def fs_get_def fs_put_def split: option.splits)

lemma only_unchanged: "only S h (unchanged k h)"
  by (simp add: only_same)

lemma only_on_inode': "p \<in> S \<Longrightarrow> only S h (on_inode p f h)"
  by (cases "p = []") (auto simp: on_inode_def only_def fs_get_def fs_put_def split: option.splits)

lemma file_calls_only:
  assumes "p \<in> S"
  shows "within (only S) (file_Write p data)" and "within (only S) (file_Chmod p mode)"
    and "within (only S) (file_Chown p uid gid)"
  unfolding file_Write_def file_Chmod_def file_Chown_def
  by (rule within_syscall; simp add: within_def only_on_inode' [OF assms] only.same)+

lemma at_path_only:
  assumes "\<And>m p. look m = Inr p \<Longrightarrow> p \<in> S" and "\<And>p. p \<in> S \<Longrightarrow> within (only S) (f p)"
  shows "within (only S) (at_path look f)"
  using assms by (auto simp: within_def at_path_def only.same split: sum.splits)

lemma root_path_below: "root_path m root follow p = Inr q \<Longrightarrow> q \<in> below root"
  by (simp add: below_def root_path_inside)

lemma create_excl_only: "p \<in> S \<Longrightarrow> within (only S) (create_excl mode p)"
proof (rule withinI)
  fix h
  assume "p \<in> S"
  then show "only S h (snd (create_excl mode p h))"
    by (cases "p = []") (auto simp: create_excl_def only.same intro: only_put split: option.splits)
qed

lemma remove_at_only: "p \<in> S \<Longrightarrow> within (only S) (remove_at p)"
proof (rule withinI)
  fix h
  assume "p \<in> S"
  then show "only S h (snd (remove_at p h))"
    by (auto simp: remove_at_def only.same intro: only_del split: option.splits)
qed

lemma rename_to_only: "p \<in> S \<Longrightarrow> q \<in> S \<Longrightarrow> p \<noteq> [] \<Longrightarrow> within (only S) (rename_to p q)"
proof (rule withinI)
  fix h
  assume pq: "p \<in> S" "q \<in> S" "p \<noteq> []"
  show "only S h (snd (rename_to p q h))"
  proof (cases "fs_get (h_fs h) p")
    case None
    then show ?thesis by (simp add: rename_to_def only.same)
  next
    case (Some i)
    have "only S (fs_del p h) (fs_put q i (fs_del p h))" if "q \<noteq> []" using pq that by (intro only_put)
    moreover have "only S h (fs_del p h)" using pq by (intro only_del)
    ultimately have "only S h (fs_put q i (fs_del p h))" if "q \<noteq> []" using that by (blast intro: only.steps)
    then show ?thesis by (cases "q = []") (auto simp: rename_to_def Some only.same)
  qed
qed

lemma link_to_only: "p \<in> S \<Longrightarrow> q \<in> S \<Longrightarrow> within (only S) (link_to p q)"
proof (rule withinI)
  fix h
  assume "q \<in> S"
  then show "only S h (snd (link_to p q h))"
    by (cases "q = []") (auto simp: link_to_def only.same intro: only_put split: option.splits)
qed

text \<open>\<open>MkdirAll\<close> only makes directories below the place it starts from.\<close>

lemma mkdirs_change:
  assumes "change_kind R" and put: "\<And>cs h. cs \<noteq> [] \<Longrightarrow> R h (fs_put (root @ cs) (new_inode Dir mode (h_now h)) h)"
  shows "R h (snd (mkdirs fuel confined root mode budget cur cs h))"
  using put
proof (induction fuel confined root mode budget cur cs h rule: mkdirs.induct)
  case (1 fuel confined root mode budget cur h)
  show ?case by (simp add: change_kind.same [OF assms(1)])
next
  case (2 fuel confined root mode budget cur c rest h)
  note same = change_kind.same [OF assms(1)] and steps = change_kind.steps [OF assms(1)]
  let ?p = "root @ cur @ [c]"
  have put: "R h (fs_put ?p (new_inode Dir mode (h_now h)) h)" using "2.prems" [of "cur @ [c]"] by simp
  show ?case
  proof (cases "c = ''..''")
    case True
    with "2.IH"(1) "2.prems" show ?thesis by (simp add: same)
  next
    case name: False
    show ?thesis
    proof (cases "node_at (h_fs h) ?p")
      case None
      with name "2.IH"(2,3) "2.prems" put show ?thesis
        by (cases budget) (auto simp: same split: nat.split intro: steps [OF put])
    next
      case (Some n)
      show ?thesis
      proof (cases n)
        case Dir
        with Some name "2.IH"(4) "2.prems" show ?thesis by simp
      next
        case (File data)
        with Some name show ?thesis by (simp add: same)
      next
        case (Symlink target)
        show ?thesis
        proof (cases "rest = [] \<or> \<not> confined")
          case True
          show ?thesis
          proof (cases "walk fuel (h_fs h) confined root True cur [c]")
            case (Inr p)
            with Some name Symlink True "2.IH"(5) [OF name Some Symlink True Inr] "2.prems" show ?thesis
              by (simp add: same del: walk.simps)
          qed (use Some name Symlink True in \<open>simp add: same del: walk.simps\<close>)
        next
          case False
          with Some name Symlink "2.IH"(6) [OF name Some Symlink False] "2.prems" show ?thesis
            by (simp add: same split: nat.split)
        qed
      qed
    qed
  qed
qed

lemma mkdirs_only: "only (below root) h (snd (mkdirs fuel True root mode budget cur cs h))"
  by (rule mkdirs_change) (auto intro!: only_put simp: below_def only.change_kind_axioms)

lemma root_calls_only:
  "within (only (below root)) (root_MkdirAll root p mode)"
  "within (only (below root)) (root_CreateExcl root p mode)"
  "within (only (below root)) (root_Remove root p)"
  "within (only (below root)) (root_Link root p q)"
proof -
  show "within (only (below root)) (root_MkdirAll root p mode)"
    unfolding root_MkdirAll_def
    by (intro only.if_in within_syscall) (simp_all add: within_def mkdirs_only only.same)
  show "within (only (below root)) (root_CreateExcl root p mode)"
    unfolding root_CreateExcl_def
    by (auto intro!: within_syscall at_path_only create_excl_only only.same dest: root_path_below)
  show "within (only (below root)) (root_Remove root p)"
    unfolding root_Remove_def
    by (auto intro!: within_syscall at_path_only remove_at_only only.same dest: root_path_below)
  show "within (only (below root)) (root_Link root p q)"
    unfolding root_Link_def
    by (auto intro!: within_syscall at_path_only link_to_only only.same dest: root_path_below)
qed

lemma root_Rename_only:
  assumes "root \<noteq> []" shows "within (only (below root)) (root_Rename root p q)"
proof -
  have "x \<noteq> []" if "x \<in> below root" for x using that assms by (auto simp: below_def)
  then show ?thesis unfolding root_Rename_def
    by (auto intro!: within_syscall at_path_only rename_to_only only.same dest: root_path_below)
qed

section \<open>Paths of real directories\<close>

definition real_dir :: "fs \<Rightarrow> string list \<Rightarrow> bool" where
  "real_dir m d \<longleftrightarrow> list_all plain_elem d \<and> (\<forall>n \<le> length d. node_at m (take n d) = Some Dir)"

lemma real_dir_snoc: "real_dir m (d @ [c]) \<longleftrightarrow> real_dir m d \<and> plain_elem c \<and> node_at m (d @ [c]) = Some Dir"
proof -
  have "(\<forall>n \<le> Suc (length d). P n) \<longleftrightarrow> (\<forall>n \<le> length d. P n) \<and> P (Suc (length d))" for P
    by (auto simp: le_Suc_eq)
  then show ?thesis by (auto simp: real_dir_def)
qed

lemma real_dir_Nil: "real_dir m []"
  by (simp add: real_dir_def)

lemma plain_not_dotdot: "plain_elem c \<Longrightarrow> c \<noteq> ''..''"
  by (simp add: plain_elem_def)

lemma walk_real: "real_dir m d \<Longrightarrow> walk fuel m confined [] follow [] (d @ rest) = walk fuel m confined [] follow d rest"
proof (induction d arbitrary: rest rule: rev_induct)
  case (snoc c d)
  then have d: "real_dir m d" "plain_elem c" "node_at m (d @ [c]) = Some Dir" by (auto simp: real_dir_snoc)
  have "walk fuel m confined [] follow [] (d @ c # rest) = walk fuel m confined [] follow d (c # rest)"
    using snoc.IH [OF d(1), of "c # rest"] by simp
  also have "\<dots> = walk fuel m confined [] follow (d @ [c]) rest" using d(2,3) plain_not_dotdot by simp
  finally show ?case by simp
qed simp

lemma mkdirs_real: "real_dir (h_fs h) d \<Longrightarrow>
    mkdirs fuel confined [] mode budget [] (d @ rest) h = mkdirs fuel confined [] mode budget d rest h"
proof (induction d arbitrary: rest rule: rev_induct)
  case (snoc c d)
  then have d: "real_dir (h_fs h) d" "plain_elem c" "node_at (h_fs h) (d @ [c]) = Some Dir" by (auto simp: real_dir_snoc)
  have "mkdirs fuel confined [] mode budget [] (d @ c # rest) h = mkdirs fuel confined [] mode budget d (c # rest) h"
    using snoc.IH [OF d(1), of "c # rest"] by simp
  also have "\<dots> = mkdirs fuel confined [] mode budget (d @ [c]) rest h" using d(2,3) plain_not_dotdot by simp
  finally show ?case by simp
qed simp

lemma host_path_real: "real_dir m d \<Longrightarrow> list_all plain_elem rest \<Longrightarrow>
    host_path m follow (abs_path (d @ rest)) = walk max_links m False [] follow d rest"
  by (simp add: host_path_def path_elems_abs real_dir_def walk_real)

lemma host_path_child: "real_dir m d \<Longrightarrow> plain_elem c \<Longrightarrow> host_path m False (abs_path (d @ [c])) = Inr (d @ [c])"
  using host_path_real [of m d "[c]" False] plain_not_dotdot [of c]
  by (auto split: option.splits fs_node.splits)

lemma host_path_self: "real_dir m d \<Longrightarrow> host_path m follow (abs_path d) = Inr d"
  using host_path_real [of m d "[]" follow] by simp

text \<open>Below a name that is missing or a directory.\<close>

lemma host_path_grandchild:
  assumes "real_dir m d" and "plain_elem c" and "plain_elem x" and "node_at m (d @ [c]) \<in> {None, Some Dir}"
  shows "host_path m False (abs_path (d @ [c, x])) = Inr (d @ [c, x]) \<or> host_path m False (abs_path (d @ [c, x])) = Inl ENOENT"
proof (cases "node_at m (d @ [c]) = Some Dir")
  case True
  with assms have "real_dir m (d @ [c])" by (simp add: real_dir_snoc)
  with host_path_child [of m "d @ [c]" x] assms(3) show ?thesis by simp
next
  case False
  with assms host_path_real [of m d "[c, x]" False] plain_not_dotdot show ?thesis by auto
qed

lemma path_elems_real: "real_dir m d \<Longrightarrow> path_elems (abs_path d) = d"
  by (simp add: path_elems_abs real_dir_def)

lemma mkdirs_self: "real_dir (h_fs h) d \<Longrightarrow> mkdirs fuel confined [] mode budget [] d h = (Inr (), h)"
  using mkdirs_real [of h d fuel confined mode budget "[]"] by simp

lemma os_MkdirAll_real: "real_dir (h_fs h) d \<Longrightarrow> h_fs (snd (os_MkdirAll (abs_path d) mode h)) = h_fs h"
  by (auto simp: os_MkdirAll_def syscall_def path_elems_real mkdirs_self split: list.split option.split)

lemma mkdirs_child:
  assumes "real_dir (h_fs h) d" and "plain_elem c"
  shows "only {d @ [c]} h (snd (mkdirs max_links False [] mode budget [] (d @ [c]) h)) \<and>
    (node_at (h_fs h) (d @ [c]) = None \<longrightarrow>
       node_at (h_fs (snd (mkdirs max_links False [] mode budget [] (d @ [c]) h))) (d @ [c]) \<in> {None, Some Dir})"
proof -
  have "mkdirs max_links False [] mode budget [] (d @ [c]) h = mkdirs max_links False [] mode budget d [c] h"
    using mkdirs_real [OF assms(1), of max_links False mode budget "[c]"] by simp
  with assms(2) plain_not_dotdot [of c] show ?thesis
    by (auto simp: only.same node_at_def new_inode_def intro: only_put split: option.split fs_node.split sum.split nat.split)
qed

lemma os_MkdirAll_child:
  assumes "real_dir (h_fs h) d" and "plain_elem c"
  shows "only {d @ [c]} h (snd (os_MkdirAll (abs_path (d @ [c])) mode h)) \<and>
    (node_at (h_fs h) (d @ [c]) \<in> {None, Some Dir} \<longrightarrow>
       node_at (h_fs (snd (os_MkdirAll (abs_path (d @ [c])) mode h))) (d @ [c]) \<in> {None, Some Dir})"
proof (cases "node_at (h_fs h) (d @ [c]) = Some Dir")
  case True
  with assms have "real_dir (h_fs h) (d @ [c])" by (simp add: real_dir_snoc)
  then have "h_fs (snd (os_MkdirAll (abs_path (d @ [c])) mode h)) = h_fs h" by (rule os_MkdirAll_real)
  then show ?thesis by (simp add: only_same)
next
  case False
  have pe: "path_elems (abs_path (d @ [c])) = d @ [c]" using assms by (simp add: path_elems_abs real_dir_def)
  let ?h = "\<lambda>fs. h\<lparr>h_faults := fs\<rparr>"
  have r: "real_dir (h_fs (?h fs)) d" for fs using assms(1) by simp
  have o: "only {d @ [c]} (?h fs) x \<longleftrightarrow> only {d @ [c]} h x" for fs x by (simp add: only_def)
  show ?thesis
    using mkdirs_child [OF assms(1) assms(2), of mode None] mkdirs_child [OF r assms(2), of _ mode] False
    by (auto simp: os_MkdirAll_def syscall_def pe o split: list.split option.split)
qed

end
