(* ===== verification/VolumeSafety.thy ===== *)
theory VolumeSafety
  imports VolumeProofs
begin

text \<open>
  A volume operation changes the directory of its volume and the two kinds of metadata files that
  belong to it, and nothing else on the host: for any content of the volume, any symbolic links in
  it, and any faults.
\<close>

section \<open>The part of the tree a volume owns\<close>

text \<open>\<open>d\<close> is the root of the volumes and \<open>n\<close> the name of a volume's directory.\<close>

definition meta_file :: "string list \<Rightarrow> string \<Rightarrow> string list" where
  "meta_file d n = d @ [dockerLocalVolumeMetadataDir, n @ dockerLocalVolumeMetadataSuffix]"

definition meta_temp :: "string list \<Rightarrow> string \<Rightarrow> nat \<Rightarrow> string list" where
  "meta_temp d n k = d @ [dockerLocalVolumeMetadataDir, ''.'' @ (n @ dockerLocalVolumeMetadataSuffix) @ ''.tmp-'' @ nat_digits k]"

definition meta_files :: "string list \<Rightarrow> string \<Rightarrow> string list set" where
  "meta_files d n = insert (meta_file d n) (range (meta_temp d n))"

definition owned :: "string list \<Rightarrow> string \<Rightarrow> string list set" where
  "owned d n = below (d @ [n]) \<union> insert (d @ [dockerLocalVolumeMetadataDir]) (meta_files d n)"

text \<open>The root is a real directory, and so is the metadata directory once it exists.\<close>

definition home :: "string list \<Rightarrow> 'e host \<Rightarrow> bool" where
  "home d h \<longleftrightarrow> real_dir (h_fs h) d \<and> node_at (h_fs h) (d @ [dockerLocalVolumeMetadataDir]) \<in> {None, Some Dir}"

lemma metadata_dir_plain [simp]: "plain_elem dockerLocalVolumeMetadataDir"
  by (simp add: plain_elem_def dockerLocalVolumeMetadataDir_def)

lemma nat_digits_chars: "set (nat_digits k) \<subseteq> set ''0123456789''"
  using digits_base_digits [of 10 k] by (simp add: digits_base_10)

lemma no_slash_digits: "CHR ''/'' \<notin> set (nat_digits k)"
  using nat_digits_chars [of k] by auto

lemma plain_long: "length c > 2 \<Longrightarrow> CHR ''/'' \<notin> set c \<Longrightarrow> plain_elem c"
  by (auto simp: plain_elem_def)

lemma meta_names_plain:
  assumes "plain_elem n"
  shows "plain_elem (n @ dockerLocalVolumeMetadataSuffix)"
    and "plain_elem (''.'' @ (n @ dockerLocalVolumeMetadataSuffix) @ ''.tmp-'' @ nat_digits k)"
  using assms no_slash_digits [of k]
  by (auto simp: plain_elem_def dockerLocalVolumeMetadataSuffix_def intro!: plain_long)

lemma dir_name_plain: "dockerLocalVolumeDirName v = Inr n \<Longrightarrow> plain_elem n"
  by (auto simp: dockerLocalVolumeDirName_def Let_def plain_elem_def split: if_splits)

lemma dir_name_not_metadata: "dockerLocalVolumeDirName v = Inr n \<Longrightarrow> n \<noteq> dockerLocalVolumeMetadataDir"
  by (auto simp: dockerLocalVolumeDirName_def Let_def isDockerLocalVolumeReservedName_def EqualFoldName_def
      dockerLocalVolumeMetadataDir_def lower_char_def ToLower_def split: if_splits)

lemma home_only:
  assumes "only S h h'" and "home d h" and "\<And>x. x \<in> S \<Longrightarrow> length x > length d \<and> x \<noteq> d @ [dockerLocalVolumeMetadataDir]"
  shows "home d h'"
proof -
  have "node_at (h_fs h') (take k d) = node_at (h_fs h) (take k d)" for k
    using assms(3) [of "take k d"] by (intro only_node_at [OF assms(1)]) auto
  moreover have "node_at (h_fs h') (d @ [dockerLocalVolumeMetadataDir]) = node_at (h_fs h) (d @ [dockerLocalVolumeMetadataDir])"
    using assms(3) by (intro only_node_at [OF assms(1)]) blast
  ultimately show ?thesis using assms(2) by (simp add: home_def real_dir_def)
qed

lemma home_same: "h_fs h' = h_fs h \<Longrightarrow> home d h \<Longrightarrow> home d h'"
  by (simp add: home_def)

lemma reads_keeps: "reads m \<Longrightarrow> keeps (home d) (only S) anything m"
  by (auto simp: keeps_def reads_def home_def only_def)

text \<open>A temporary file ends in a digit and a metadata file in the suffix.\<close>

lemma meta_temp_not_file: "meta_temp d n k \<noteq> meta_file d m"
proof
  assume "meta_temp d n k = meta_file d m"
  then have "m @ dockerLocalVolumeMetadataSuffix = ''.'' @ (n @ dockerLocalVolumeMetadataSuffix) @ ''.tmp-'' @ nat_digits k"
    by (simp add: meta_file_def meta_temp_def)
  then have "last (m @ dockerLocalVolumeMetadataSuffix) = last (''.'' @ (n @ dockerLocalVolumeMetadataSuffix) @ ''.tmp-'' @ nat_digits k)"
    by (rule arg_cong)
  moreover have "last (m @ dockerLocalVolumeMetadataSuffix) = CHR ''n''" by (simp add: dockerLocalVolumeMetadataSuffix_def)
  moreover have "nat_digits k \<noteq> []" by (subst nat_digits.simps) simp
  moreover from this have "last (nat_digits k) \<in> set ''0123456789''" using nat_digits_chars [of k] by (meson last_in_set subsetD)
  ultimately show False by auto
qed

section \<open>Calls in the metadata directory\<close>

definition deep :: "string list \<Rightarrow> string list set \<Rightarrow> bool" where
  "deep d S \<longleftrightarrow> (\<forall>x \<in> S. length x > length d \<and> x \<noteq> d @ [dockerLocalVolumeMetadataDir])"

lemma deep_meta_files [simp]: "deep d (meta_files d n)"
  by (auto simp: deep_def meta_files_def meta_file_def meta_temp_def)

lemma deep_below: "n \<noteq> dockerLocalVolumeMetadataDir \<Longrightarrow> deep d (below (d @ [n]))"
  by (auto simp: deep_def below_def prefix_def)

lemma within_keeps_home: "within (only S) m \<Longrightarrow> deep d S \<Longrightarrow> keeps (home d) (only S) anything m"
  by (rule within_keeps) (auto simp: deep_def intro: home_only)

lemma keeps_only_mono: "keeps P (only S) Q m \<Longrightarrow> S \<subseteq> T \<Longrightarrow> keeps P (only T) Q m"
  by (auto simp: keeps_def intro: only_mono)

text \<open>A condition on the file system only.\<close>

definition fs_pred :: "('e host \<Rightarrow> bool) \<Rightarrow> bool" where
  "fs_pred P \<longleftrightarrow> (\<forall>h h'. h_fs h = h_fs h' \<longrightarrow> P h = P h')"

lemma fs_predD: "fs_pred P \<Longrightarrow> h_fs h = h_fs h' \<Longrightarrow> P h = P h'"
  unfolding fs_pred_def by blast

lemma reads_keeps_pred:
  assumes "reads m" and "fs_pred P" shows "keeps P (only S) anything m"
proof (rule keepsI)
  fix h
  have "h_fs (snd (m h)) = h_fs h" using assms(1) by (simp add: reads_def)
  moreover assume "P h"
  ultimately show "P (snd (m h)) \<and> only S h (snd (m h)) \<and> (\<forall>x. fst (m h) = Inr x \<longrightarrow> True)"
    using fs_predD [OF assms(2)] by (metis only_same)
qed

lemma fs_pred_home [simp, intro]: "fs_pred (home d)"
  unfolding fs_pred_def home_def by metis

lemma keeps_syscall:
  fixes f :: "('e, 'a) host_op"
  assumes P: "fs_pred P" and f: "keeps P (only S) Q f"
    and partial: "\<And>k h. P h \<Longrightarrow> P (partial k h) \<and> only S h (partial k h)"
  shows "keeps P (only S) Q (syscall f partial)"
proof (rule keepsI)
  fix h :: "'e host"
  assume h: "P h"
  show "P (snd (syscall f partial h)) \<and> only S h (snd (syscall f partial h)) \<and> (\<forall>x. fst (syscall f partial h) = Inr x \<longrightarrow> Q x)"
  proof (cases "h_faults h")
    case Nil
    with f h show ?thesis by (simp add: syscall_def keeps_def)
  next
    case (Cons x fs)
    let ?h = "h\<lparr>h_faults := fs\<rparr>"
    have "P ?h" "only S h ?h" using h fs_predD [OF P, of h ?h] by (simp_all add: only_same)
    moreover from this f partial [of ?h] have "P (snd (f ?h)) \<and> only S ?h (snd (f ?h)) \<and> (\<forall>x. fst (f ?h) = Inr x \<longrightarrow> Q x)"
      "\<And>k. P (partial k ?h) \<and> only S ?h (partial k ?h)" by (auto simp: keeps_def)
    ultimately show ?thesis using Cons by (cases x) (auto simp: syscall_def intro: only.steps)
  qed
qed

lemma keeps_at_path:
  fixes f :: "string list \<Rightarrow> ('e, 'a) host_op"
  assumes "\<And>(h :: 'e host) p. P h \<Longrightarrow> look (h_fs h) = Inr p \<Longrightarrow> p \<in> T" and "\<And>p. p \<in> T \<Longrightarrow> keeps P (only S) Q (f p)"
  shows "keeps P (only S) Q (at_path look f)"
proof (rule keepsI)
  fix h :: "'e host"
  assume h: "P h"
  show "P (snd (at_path look f h)) \<and> only S h (snd (at_path look f h)) \<and> (\<forall>x. fst (at_path look f h) = Inr x \<longrightarrow> Q x)"
  proof (cases "look (h_fs h)")
    case (Inl e)
    with h show ?thesis by (simp add: at_path_def only.same)
  next
    case (Inr p)
    with assms h have "keeps P (only S) Q (f p)" by blast
    with h Inr show ?thesis by (simp add: at_path_def keeps_def)
  qed
qed

lemma meta_place:
  assumes "home d h" and "plain_elem x"
    and "host_path (h_fs h) False (abs_path (d @ [dockerLocalVolumeMetadataDir, x])) = Inr p"
  shows "p = d @ [dockerLocalVolumeMetadataDir, x]"
  using host_path_grandchild [of "h_fs h" d dockerLocalVolumeMetadataDir x] assms by (auto simp: home_def)

lemma keeps_MkdirAll: "keeps (home d) (only {d @ [dockerLocalVolumeMetadataDir]}) anything
    (os_MkdirAll (abs_path (d @ [dockerLocalVolumeMetadataDir])) mode)"
proof (rule keepsI)
  fix h :: "'e host"
  let ?h = "snd (os_MkdirAll (abs_path (d @ [dockerLocalVolumeMetadataDir])) mode h)"
  assume "home d h"
  then have h: "real_dir (h_fs h) d" "node_at (h_fs h) (d @ [dockerLocalVolumeMetadataDir]) \<in> {None, Some Dir}"
    by (simp_all add: home_def)
  from os_MkdirAll_child [OF h(1) metadata_dir_plain, of mode] h(2)
  have o: "only {d @ [dockerLocalVolumeMetadataDir]} h ?h" and n: "node_at (h_fs ?h) (d @ [dockerLocalVolumeMetadataDir]) \<in> {None, Some Dir}"
    by blast+
  have "node_at (h_fs ?h) (take k d) = node_at (h_fs h) (take k d)" for k
  proof (rule only_node_at [OF o])
    show "take k d \<notin> {d @ [dockerLocalVolumeMetadataDir]}" by (auto dest: arg_cong [of _ _ length])
  qed
  with h(1) n o show "home d ?h \<and> only {d @ [dockerLocalVolumeMetadataDir]} h ?h \<and> (\<forall>x. fst (os_MkdirAll (abs_path (d @ [dockerLocalVolumeMetadataDir])) mode h) = Inr x \<longrightarrow> True)"
    by (simp add: home_def real_dir_def)
qed

lemma home_plain: "home d h \<Longrightarrow> list_all plain_elem d"
  by (simp add: home_def real_dir_def)

lemma keeps_assume: "(list_all plain_elem d \<Longrightarrow> keeps (home d) R Q m) \<Longrightarrow> keeps (home d) R Q m"
  unfolding keeps_def using home_plain by blast

lemma random_name_digits: "keeps (home d) (only S) (\<lambda>r. \<exists>k. r = nat_digits k) random_name"
  by (auto simp: keeps_def random_name_def home_def only_def split: list.splits)

lemma keeps_CreateTemp:
  assumes n: "plain_elem n"
  shows "keeps (home d) (only (meta_files d n)) (\<lambda>f. f \<in> range (meta_temp d n))
    (os_CreateTemp (abs_path (d @ [dockerLocalVolumeMetadataDir])) (''.'' @ (n @ dockerLocalVolumeMetadataSuffix) @ ''.tmp-''))"
proof (rule keeps_assume)
  assume d: "list_all plain_elem d"
  have step: "keeps (home d) (only (meta_files d n)) (\<lambda>f. f \<in> range (meta_temp d n))
      (syscall (at_path (\<lambda>m. host_path m False (path_Join [abs_path (d @ [dockerLocalVolumeMetadataDir]),
        (''.'' @ (n @ dockerLocalVolumeMetadataSuffix) @ ''.tmp-'') @ nat_digits k])) (create_excl 384)) unchanged)" for k
  proof (intro keeps_syscall fs_pred_home keeps_at_path [where T = "{meta_temp d n k}"])
    let ?x = "''.'' @ (n @ dockerLocalVolumeMetadataSuffix) @ ''.tmp-'' @ nat_digits k"
    fix h p
    assume h: "home d h" "host_path (h_fs h) False (path_Join [abs_path (d @ [dockerLocalVolumeMetadataDir]),
        (''.'' @ (n @ dockerLocalVolumeMetadataSuffix) @ ''.tmp-'') @ nat_digits k]) = Inr p"
    have x: "plain_elem ?x" by (rule meta_names_plain [OF n])
    have "path_Join [abs_path (d @ [dockerLocalVolumeMetadataDir]), ?x] = abs_path (d @ [dockerLocalVolumeMetadataDir, ?x])"
      using path_Join_abs [of "d @ [dockerLocalVolumeMetadataDir]" "[?x]"] d x by simp
    with h meta_place [OF h(1) x] show "p \<in> {meta_temp d n k}" by (simp add: meta_temp_def)
  next
    fix p
    assume p: "p \<in> {meta_temp d n k}"
    then have "p \<in> meta_files d n" by (simp add: meta_files_def)
    then have "keeps (home d) (only (meta_files d n)) anything (create_excl 384 p)"
      by (intro within_keeps_home create_excl_only) simp_all
    moreover have "fst (create_excl 384 p h) = Inr f \<Longrightarrow> f = p" for h f
      by (auto simp: create_excl_def split: option.splits)
    ultimately show "keeps (home d) (only (meta_files d n)) (\<lambda>f. f \<in> range (meta_temp d n)) (create_excl 384 p)"
      using p by (auto simp: keeps_def)
  qed (auto simp: only.same)
  then show "keeps (home d) (only (meta_files d n)) (\<lambda>f. f \<in> range (meta_temp d n))
    (os_CreateTemp (abs_path (d @ [dockerLocalVolumeMetadataDir])) (''.'' @ (n @ dockerLocalVolumeMetadataSuffix) @ ''.tmp-''))"
    unfolding os_CreateTemp_def by (intro only.keeps_bind [OF random_name_digits]) auto
qed

lemma keeps_RenameTo:
  assumes n: "plain_elem n" and f: "f \<in> range (meta_temp d n)"
  shows "keeps (home d) (only (meta_files d n)) anything (os_RenameTo f (abs_path (meta_file d n)))"
  unfolding os_RenameTo_def
proof (intro keeps_syscall fs_pred_home keeps_at_path [where T = "{meta_file d n}"])
  fix h :: "'e host" and p
  assume "home d h" "host_path (h_fs h) False (abs_path (meta_file d n)) = Inr p"
  with meta_place [of d h "n @ dockerLocalVolumeMetadataSuffix" p] meta_names_plain(1) [OF n]
  show "p \<in> {meta_file d n}" by (simp add: meta_file_def)
next
  fix p
  assume "p \<in> {meta_file d n}"
  with f have "f \<in> meta_files d n" "p \<in> meta_files d n" "f \<noteq> []" by (auto simp: meta_files_def meta_temp_def)
  then show "keeps (home d) (only (meta_files d n)) anything (rename_to f p)"
    by (intro within_keeps_home rename_to_only) simp_all
qed (auto simp: only.same)

lemma keeps_remove:
  assumes "f \<in> S" and "deep d S"
  shows "keeps (home d) (only S) anything (os_RemoveFile f)"
  unfolding os_RemoveFile_def
  using assms by (intro keeps_syscall fs_pred_home within_keeps_home remove_at_only) (auto simp: only.same)

lemma keeps_file_calls:
  assumes "f \<in> S" and "deep d S"
  shows "keeps (home d) (only S) anything (file_Write f data)"
    and "keeps (home d) (only S) anything (file_Chmod f mode)"
    and "keeps (home d) (only S) anything (file_Sync f)"
    and "keeps (home d) (only S) anything (file_Close f)"
  using assms(2)
  by (rule within_keeps_home [rotated], intro file_calls_only [OF assms(1)] reads_only reading_calls)+

lemma keeps_cleanup_unless_ok:
  assumes "keeps (home d) (only S) Q m" and "keeps (home d) (only S) Q' c"
  shows "keeps (home d) (only S) Q (cleanup_unless_ok m c)"
proof (rule keepsI)
  fix h :: "'a host"
  assume h: "home d h"
  obtain r t where m: "m h = (r, t)" by (cases "m h")
  with assms(1) h have t: "home d t" "only S h t" "\<forall>x. r = Inr x \<longrightarrow> Q x" by (auto dest: keepsD)
  with assms(2) have "home d (snd (c t))" "only S t (snd (c t))" by (auto simp: keeps_def)
  with t show "home d (snd (cleanup_unless_ok m c h)) \<and> only S h (snd (cleanup_unless_ok m c h)) \<and>
      (\<forall>x. fst (cleanup_unless_ok m c h) = Inr x \<longrightarrow> Q x)"
    by (cases r) (auto simp: cleanup_unless_ok_def m intro: only.steps)
qed

definition metadata_part :: "string list \<Rightarrow> string \<Rightarrow> string list set" where
  "metadata_part d n = insert (d @ [dockerLocalVolumeMetadataDir]) (meta_files d n)"

lemma keeps_after_close:
  "keeps (home d) (only S) Q m \<Longrightarrow> f \<in> S \<Longrightarrow> deep d S \<Longrightarrow> keeps (home d) (only S) Q (after_close f m)"
  unfolding after_close_def
  by (rule only.keeps_case, assumption)
    (intro only.keeps_bind [OF only.keeps_ignore [OF keeps_file_calls(4)]] only.keeps_fail only.keeps_ret; assumption)+

lemma keeps_writeFileAtomic:
  assumes n: "plain_elem n"
  shows "keeps (home d) (only (metadata_part d n)) anything (writeFileAtomic (abs_path (meta_file d n)) data mode)"
proof (rule keeps_assume)
  assume d: "list_all plain_elem d"
  have pl: "list_all plain_elem ((d @ [dockerLocalVolumeMetadataDir]) @ [n @ dockerLocalVolumeMetadataSuffix])"
    using d meta_names_plain(1) [OF n] by simp
  have dir: "path_Dir (abs_path (meta_file d n)) = abs_path (d @ [dockerLocalVolumeMetadataDir])"
    and base: "path_Base (abs_path (meta_file d n)) = n @ dockerLocalVolumeMetadataSuffix"
    using path_Dir_abs [OF pl] path_Base_abs [OF pl] by (simp_all add: meta_file_def)
  let ?M = "meta_files d n"
  let ?body = "\<lambda>f. bindE (after_close f (mapErr (wrap ''write temporary file: '') (file_Write f data))) (\<lambda>u.
       bindE (after_close f (mapErr (wrap ''chmod temporary file: '') (file_Chmod f mode))) (\<lambda>u.
       bindE (after_close f (mapErr (wrap ''sync temporary file: '') (file_Sync f))) (\<lambda>u.
       bindE (mapErr (wrap ''close temporary file: '') (file_Close f)) (\<lambda>u.
       mapErr (wrap ''replace file: '') (os_RenameTo f (abs_path (meta_file d n)))))))"
  have body: "keeps (home d) (only ?M) anything (cleanup_unless_ok (?body f) (ignoreE (os_RemoveFile f)))"
    if f: "f \<in> range (meta_temp d n)" for f
  proof -
    have m: "f \<in> ?M" using f by (auto simp: meta_files_def)
    have "keeps (home d) (only ?M) anything (?body f)"
      by (intro only.keeps_bind [where Q = anything] keeps_after_close only.keeps_mapErr [where Q = anything]
          keeps_file_calls keeps_RenameTo [OF n f] m deep_meta_files)
    then show ?thesis
      by (rule keeps_cleanup_unless_ok [OF _ only.keeps_ignore [OF keeps_remove [OF m deep_meta_files]]])
  qed
  have tmp: "keeps (home d) (only ?M) anything
      (bindE (mapErr (wrap ''create temporary file: '')
               (os_CreateTemp (abs_path (d @ [dockerLocalVolumeMetadataDir])) (''.'' @ (n @ dockerLocalVolumeMetadataSuffix) @ ''.tmp-'')))
         (\<lambda>f. cleanup_unless_ok (?body f) (ignoreE (os_RemoveFile f))))"
    by (rule only.keeps_bind [OF only.keeps_mapErr [OF keeps_CreateTemp [OF n]]]) (rule body)
  show "keeps (home d) (only (metadata_part d n)) anything (writeFileAtomic (abs_path (meta_file d n)) data mode)"
    unfolding writeFileAtomic_def Let_def dir base
  proof (rule only.keeps_bind [where Q = anything, OF only.keeps_mapErr])
    show "keeps (home d) (only (metadata_part d n)) anything (os_MkdirAll (abs_path (d @ [dockerLocalVolumeMetadataDir])) 493)"
      by (rule keeps_only_mono [OF keeps_MkdirAll]) (simp add: metadata_part_def)
  qed (rule keeps_only_mono [OF tmp], auto simp: metadata_part_def)
qed

section \<open>Finding a volume\<close>

definition volumes_at :: "string list \<Rightarrow> 'e docker_runtime \<Rightarrow> bool" where
  "volumes_at d r \<longleftrightarrow> list_all plain_elem d \<and> TrimSpace (dc_VolumeHostPath (dr_cfg r)) = abs_path d"

lemma abs_path_IsAbs [simp]: "path_IsAbs (abs_path d)" and abs_path_not_Nil [simp]: "abs_path d \<noteq> []"
  by (simp_all add: abs_path_def path_IsAbs_def HasPrefix_def)

lemma ensureLocalVolumeRoot_keeps:
  assumes "volumes_at d r"
  shows "keeps (home d) (only S) (\<lambda>root. root = abs_path d) (ensureLocalVolumeRoot r)"
proof -
  have "keeps (home d) (only S) anything (os_MkdirAll (abs_path d) mode)" for mode
    by (auto simp: keeps_def home_def os_MkdirAll_real only_same)
  then have "keeps (home d) (only S) (\<lambda>root. root = abs_path d)
      (bindE (mapErr (wrap ''create docker local volume root: '') (os_MkdirAll (abs_path d) 493)) (\<lambda>u. ret (abs_path d)))"
    by (intro only.keeps_bind [where Q = anything] only.keeps_mapErr only.keeps_ret) auto
  with assms show ?thesis
    by (simp add: ensureLocalVolumeRoot_def volumes_at_def Let_def)
qed

definition paths_of :: "string list \<Rightarrow> string \<Rightarrow> string \<times> string \<times> string \<times> string \<Rightarrow> bool" where
  "paths_of d v p \<longleftrightarrow> (\<exists>n. dockerLocalVolumeDirName v = Inr n \<and>
     p = (abs_path d, n, abs_path (d @ [n]), abs_path (meta_file d n)))"

lemma localVolumePaths_keeps:
  assumes "volumes_at d r"
  shows "keeps (home d) (only S) (paths_of d v) (localVolumePaths r v)"
  unfolding localVolumePaths_def Let_def
proof (rule only.keeps_bind [OF ensureLocalVolumeRoot_keeps [OF assms]])
  fix root
  assume root: "root = abs_path d"
  have d: "list_all plain_elem d" using assms by (simp add: volumes_at_def)
  show "keeps (home d) (only S) (paths_of d v)
      (bindE (liftE (dockerLocalVolumeDirName v)) (\<lambda>name.
       bindE (liftE (ensurePathLexicallyWithinRoot root (path_Join [root, name]))) (\<lambda>u.
       bindE (liftE (ensurePathLexicallyWithinRoot root
         (path_Join [root, dockerLocalVolumeMetadataDir, name @ dockerLocalVolumeMetadataSuffix]))) (\<lambda>u.
       ret (root, name, path_Join [root, name],
         path_Join [root, dockerLocalVolumeMetadataDir, name @ dockerLocalVolumeMetadataSuffix])))))"
  proof (rule only.keeps_bind [where Q = "\<lambda>n. dockerLocalVolumeDirName v = Inr n"])
    fix n
    assume n: "dockerLocalVolumeDirName v = Inr n"
    have p: "paths_of d v (root, n, path_Join [root, n],
        path_Join [root, dockerLocalVolumeMetadataDir, n @ dockerLocalVolumeMetadataSuffix])"
      using path_Join_abs [OF d, of "[n]"] path_Join_abs [OF d, of "[dockerLocalVolumeMetadataDir, n @ dockerLocalVolumeMetadataSuffix]"]
        dir_name_plain [OF n] meta_names_plain(1) [OF dir_name_plain [OF n]] n
      by (simp add: root paths_of_def meta_file_def)
    show "keeps (home d) (only S) (paths_of d v)
      (bindE (liftE (ensurePathLexicallyWithinRoot root (path_Join [root, n]))) (\<lambda>u.
       bindE (liftE (ensurePathLexicallyWithinRoot root
         (path_Join [root, dockerLocalVolumeMetadataDir, n @ dockerLocalVolumeMetadataSuffix]))) (\<lambda>u.
       ret (root, n, path_Join [root, n],
         path_Join [root, dockerLocalVolumeMetadataDir, n @ dockerLocalVolumeMetadataSuffix]))))"
      by (rule only.keeps_bind [where Q = anything] only.keeps_lift only.keeps_ret p TrueI)+
  qed (auto intro: only.keeps_lift)
qed

text \<open>Once the volume's directory is known to be one, a legacy metadata file in it can be moved.\<close>

definition dir_home :: "string list \<Rightarrow> string \<Rightarrow> 'e host \<Rightarrow> bool" where
  "dir_home d n h \<longleftrightarrow> home d h \<and> node_at (h_fs h) (d @ [n]) = Some Dir"

lemma fs_pred_dir_home [simp, intro]: "fs_pred (dir_home d n)"
  unfolding fs_pred_def dir_home_def home_def by metis

lemma keeps_dir_home:
  "keeps (home d) (only S) Q m \<Longrightarrow> d @ [n] \<notin> S \<Longrightarrow> keeps (dir_home d n) (only S) Q m"
  by (auto simp: keeps_def dir_home_def only_node_at)

lemma within_keeps_dir_home:
  "within (only S) m \<Longrightarrow> deep d S \<Longrightarrow> d @ [n] \<notin> S \<Longrightarrow> keeps (dir_home d n) (only S) anything m"
  by (intro keeps_dir_home within_keeps_home)

lemma owned_meta: "metadata_part d n \<subseteq> owned d n"
  by (auto simp: metadata_part_def owned_def)

lemma not_in_metadata_part: "n \<noteq> dockerLocalVolumeMetadataDir \<Longrightarrow> d @ [n] \<notin> metadata_part d n"
  by (auto simp: metadata_part_def meta_files_def meta_file_def meta_temp_def)

lemma readMetadata_keeps:
  assumes d: "list_all plain_elem d" and n: "plain_elem n" "n \<noteq> dockerLocalVolumeMetadataDir"
  shows "keeps (dir_home d n) (only (owned d n)) anything
    (readDockerLocalVolumeMetadata cd (abs_path (d @ [n])) (abs_path (meta_file d n)))"
proof -
  let ?x = dockerLocalVolumeMetadataFile
  have x: "plain_elem ?x" by (simp add: plain_elem_def dockerLocalVolumeMetadataFile_def)
  have legacy: "path_Join [abs_path (d @ [n]), ?x] = abs_path ((d @ [n]) @ [?x])"
    using path_Join_abs [of "d @ [n]" "[?x]"] d n x by simp
  have "reads (readDockerLocalVolumeMetadataFile cd p)" for p
    by (auto simp: reads_def readDockerLocalVolumeMetadataFile_def bindE_def caseE_def
        intro: reads_fs [OF reading_calls(10)] split: sum.splits prod.splits)
  then have r: "keeps (dir_home d n) (only (owned d n)) anything (readDockerLocalVolumeMetadataFile cd p)" for p
    by (intro reads_keeps_pred fs_pred_dir_home)
  have w: "keeps (dir_home d n) (only (owned d n)) anything (writeDockerLocalVolumeMetadata cd (abs_path (meta_file d n)) m)" for m
    unfolding writeDockerLocalVolumeMetadata_def
    by (intro only.keeps_mapErr keeps_only_mono [OF keeps_dir_home [OF keeps_writeFileAtomic [OF n(1)] not_in_metadata_part [OF n(2)]] owned_meta])
  have rm: "keeps (dir_home d n) (only (owned d n)) anything (os_Remove (abs_path ((d @ [n]) @ [?x])))"
    unfolding os_Remove_def
  proof (intro keeps_syscall keeps_at_path [where T = "{(d @ [n]) @ [?x]}"] fs_pred_dir_home)
    fix h :: "'b host" and p
    assume h: "dir_home d n h" "host_path (h_fs h) False (abs_path ((d @ [n]) @ [?x])) = Inr p"
    then have "real_dir (h_fs h) (d @ [n])" using n by (simp add: dir_home_def home_def real_dir_snoc)
    from host_path_child [OF this x] h show "p \<in> {(d @ [n]) @ [?x]}" by simp
  next
    fix p
    assume p: "p \<in> {(d @ [n]) @ [?x]}"
    then have "keeps (dir_home d n) (only {p}) anything (remove_at p)"
      by (intro within_keeps_dir_home remove_at_only) (auto simp: deep_def)
    then show "keeps (dir_home d n) (only (owned d n)) anything (remove_at p)"
      by (rule keeps_only_mono) (use p in \<open>auto simp: owned_def below_def\<close>)
  qed (auto simp: only.same)
  show ?thesis
    unfolding readDockerLocalVolumeMetadata_def Let_def legacy
    by (rule only.keeps_case [where Q = anything] r only.keeps_if only.keeps_fail only.keeps_bind [where Q = anything]
        only.keeps_mapErr [where Q = anything] w only.keeps_ignore [where Q = anything] rm only.keeps_lift TrueI)+
qed

lemma os_Lstat_child:
  assumes "real_dir (h_fs h) d" and "plain_elem c" and "os_Lstat (abs_path (d @ [c])) h = (Inr i, h')"
  shows "fs_get (h_fs h) (d @ [c]) = Some i"
  using assms(3) host_path_child [OF assms(1,2)]
  by (auto simp: os_Lstat_def do_stat_def syscall_def at_path_def get_inode_def split: list.splits option.splits)

text \<open>A volume that is found has a real directory.\<close>

definition found :: "string list \<Rightarrow> string \<Rightarrow> runtime_volume \<times> string \<Rightarrow> 'e host \<Rightarrow> bool" where
  "found d n p h \<longleftrightarrow> snd p = abs_path (d @ [n]) \<and> dir_home d n h"

lemma localVolume_finds:
  assumes r: "volumes_at d r" and n: "dockerLocalVolumeDirName v = Inr n" and h: "home d h"
    and l: "localVolume r v h = (res, h')"
  shows "only (owned d n) h h'" and "home d h'" and "\<And>p. res = Inr p \<Longrightarrow> found d n p h'"
proof -
  let ?dir = "abs_path (d @ [n])" and ?meta = "abs_path (meta_file d n)"
  have pl: "plain_elem n" "n \<noteq> dockerLocalVolumeMetadataDir" "list_all plain_elem d"
    using n dir_name_plain dir_name_not_metadata r by (auto simp: volumes_at_def)
  obtain res1 h1 where p: "localVolumePaths r v h = (res1, h1)" by (cases "localVolumePaths r v h")
  from keepsD [OF localVolumePaths_keeps [OF r, of "{}" v] h p]
  have h1: "home d h1" "only (owned d n) h h1" and res1: "\<And>x. res1 = Inr x \<Longrightarrow> paths_of d v x"
    by (auto intro: only_mono)
  have goal: "only (owned d n) h h' \<and> home d h' \<and> (\<forall>p. res = Inr p \<longrightarrow> found d n p h')"
  proof (cases res1)
    case (Inl e)
    with l p h1 show ?thesis by (auto simp: localVolume_def bindE_def caseE_def)
  next
    case (Inr x)
    with res1 n have x: "x = (abs_path d, n, ?dir, ?meta)" by (auto simp: paths_of_def)
    obtain res2 h2 where s: "os_Lstat ?dir h1 = (res2, h2)" by (cases "os_Lstat ?dir h1")
    then have same: "h_fs h2 = h_fs h1" by (rule reads_fs [OF reading_calls(1)])
    have h2: "home d h2" "only (owned d n) h h2"
      by (rule home_same [OF same h1(1)]) (rule only.steps [OF h1(2) only_same [OF same]])
    show ?thesis
    proof (cases res2)
      case (Inl e)
      with l p s Inr x h2 show ?thesis by (auto simp: localVolume_def bindE_def caseE_def)
    next
      case (Inr i)
      show ?thesis
      proof (cases "i_node i = Dir")
        case False
        with l p s Inr x h2 \<open>res1 = Inr x\<close> show ?thesis by (auto simp: localVolume_def bindE_def caseE_def)
      next
        case True
        from h1(1) have "real_dir (h_fs h1) d" by (simp add: home_def)
        with os_Lstat_child [of h1 d n i h2] s Inr pl True same h2 have dh: "dir_home d n h2"
          by (simp add: dir_home_def node_at_def)
        let ?rest = "caseE (readDockerLocalVolumeMetadata (dr_codecs r) ?dir ?meta)
          (\<lambda>err. fail (if os_IsNotExist err then volume_not_found r v else err))
          (\<lambda>volume. if rv_VolumeID volume \<noteq> TrimSpace v then fail (volume_not_found r v) else ret (volume, ?dir))"
        have "keeps (dir_home d n) (only (owned d n)) (\<lambda>p. snd p = ?dir) ?rest"
          by (rule only.keeps_case [OF readMetadata_keeps [OF pl(3,1,2)]] only.keeps_if only.keeps_fail only.keeps_ret | simp)+
        moreover have "?rest h2 = (res, h')"
          using l p s Inr x True \<open>res1 = Inr x\<close> by (simp add: localVolume_def bindE_def caseE_def)
        ultimately have "dir_home d n h' \<and> only (owned d n) h2 h' \<and> (\<forall>p. res = Inr p \<longrightarrow> snd p = ?dir)"
          using dh keepsD [of "dir_home d n" "only (owned d n)" "\<lambda>p. snd p = ?dir" ?rest h2 res h'] by blast
        moreover from this have "only (owned d n) h h'" by (blast intro: only.steps [OF h2(2)])
        ultimately show ?thesis by (simp add: found_def dir_home_def)
      qed
    qed
  qed
  then show "only (owned d n) h h'" and "home d h'" and "\<And>p. res = Inr p \<Longrightarrow> found d n p h'" by blast+
qed

text \<open>An invalid id changes nothing.\<close>

lemma localVolume_invalid:
  assumes r: "volumes_at d r" and n: "dockerLocalVolumeDirName v = Inl e" and h: "home d h"
  shows "only {} h (snd (localVolume r v h))"
proof -
  obtain res1 h1 where p: "localVolumePaths r v h = (res1, h1)" by (cases "localVolumePaths r v h")
  from keepsD [OF localVolumePaths_keeps [OF r, of "{}" v] h p] n
  have "only {} h h1" "\<nexists>x. res1 = Inr x" by (auto simp: paths_of_def)
  with p show ?thesis by (cases res1) (auto simp: localVolume_def bindE_def caseE_def)
qed

end
