(* ===== verification/VolumeContentSafety.thy ===== *)
theory VolumeContentSafety
  imports VolumeSafety
begin

text \<open>
  The operations on the content of a volume: they go through a root opened on the volume's
  directory, so whatever the content holds they stay below it; the listing and reading ones change
  nothing there. The properties about the place of an operation's effects follow.
\<close>

section \<open>Reading\<close>

definition same_fs :: "'e host \<Rightarrow> 'e host \<Rightarrow> bool" where
  "same_fs h h' \<longleftrightarrow> h_fs h' = h_fs h"

interpretation same: change_kind same_fs
  by unfold_locales (simp_all add: same_fs_def)

lemma reads_same: "reads m \<longleftrightarrow> within same_fs m"
  by (simp add: reads_def within_def same_fs_def)

lemmas reads_rules = same.call_in [folded reads_same]

lemma reads_volumeEntryStat [simp, intro]: "reads (volumeEntryStat r root p rel)"
proof -
  have "reads (volumeEntryStatFromInfo r root p rel i)" for i
    unfolding volumeEntryStatFromInfo_def Let_def by (cases "i_node i") (auto intro!: reads_rules)
  then show ?thesis unfolding volumeEntryStat_def by (intro reads_rules reading_calls)
qed

lemma reads_visit_entries:
  assumes "\<And>f root rel. child = Some f \<Longrightarrow> reads (f root rel)"
  shows "reads (visit_entries r child root rel entries)"
proof (induction entries)
  case Nil
  show ?case by (simp add: reads_def ret_def)
next
  case (Cons entry entries)
  show ?case
    using Cons.IH assms by (auto simp: Let_def intro!: reads_rules split: option.splits)
qed

lemma reads_collectVolumeDirEntries: "reads (collectVolumeDirEntries r depth root rel)"
proof (induction r depth root rel rule: collectVolumeDirEntries.induct)
  case (1 r depth root rel)
  have "reads (visit_entries r (if depth > 1 then Some (collectVolumeDirEntries r (depth - 1)) else None) root rel entries)" for entries
    using "1.IH" by (intro reads_visit_entries) (auto split: if_splits)
  then show ?case by (auto intro!: reads_rules)
qed

section \<open>Writing\<close>

abbreviation inside :: "string list \<Rightarrow> ('a \<Rightarrow> bool) \<Rightarrow> ('e, 'a) host_op \<Rightarrow> bool" where
  "inside root \<equiv> keeps (\<lambda>h. True) (only (below root))"

lemma inside_within: "inside root anything m \<longleftrightarrow> within (only (below root)) m"
  by (simp add: keeps_def within_def)

lemma below_mono: "p \<in> below root \<Longrightarrow> below p \<subseteq> below root"
  by (auto simp: below_def)

lemma below_self [simp]: "root \<in> below root"
  by (simp add: below_def)

lemma inside_reads: "reads m \<Longrightarrow> inside root anything m"
  by (simp add: inside_within reads_only)

lemma inside_calls:
  assumes "sub \<in> below root"
  shows "inside root anything (root_MkdirAll sub p mode)" and "inside root anything (root_Remove sub p)"
    and "inside root anything (root_Link sub p q)"
  using root_calls_only [of sub] below_mono [OF assms]
  by (simp_all add: inside_within) (blast intro: within_weaken only_mono)+

lemma inside_Rename: "sub \<in> below root \<Longrightarrow> root \<noteq> [] \<Longrightarrow> inside root anything (root_Rename sub p q)"
  unfolding inside_within
  by (rule within_weaken [OF root_Rename_only]) (auto simp: below_def prefix_def elim: only_mono)

lemma inside_file:
  assumes "f \<in> below root"
  shows "inside root anything (file_Write f data)" and "inside root anything (file_Chmod f mode)"
    and "inside root anything (file_Chown f uid gid)" and "inside root anything (file_Sync f)" and "inside root anything (file_Close f)"
  using file_calls_only [OF assms] by (simp_all add: inside_within reads_only)

lemma syscall_result:
  "fst (syscall f partial h) = Inr x \<Longrightarrow> (\<And>h. fst (f h) = Inr x \<Longrightarrow> Q) \<Longrightarrow> Q"
  by (auto simp: syscall_def split: list.splits option.splits)

lemma opened_below:
  assumes "sub \<in> below root"
  shows "inside root (\<lambda>q. q \<in> below root) (root_OpenRoot sub p)" and "inside root (\<lambda>q. q \<in> below root) (root_Open sub p)"
    and "inside root (\<lambda>q. q \<in> below root) (root_CreateExcl sub p mode)"
proof -
  have b: "root_path m sub follow p = Inr q \<Longrightarrow> q \<in> below root" for m follow q
    using root_path_below [of m sub follow p q] below_mono [OF assms] by blast
  have "fst (root_OpenRoot sub p h) = Inr q \<Longrightarrow> q \<in> below root" for h :: "'x host" and q
    unfolding root_OpenRoot_def do_open_dir_def
    by (erule syscall_result) (auto simp: at_path_def dest: b split: sum.splits option.splits fs_node.splits)
  then show "inside root (\<lambda>q. q \<in> below root) (root_OpenRoot sub p)"
    using inside_reads [OF reading_calls(6), of root sub p] unfolding keeps_def by blast
  have "fst (root_Open sub p h) = Inr q \<Longrightarrow> q \<in> below root" for h :: "'y host" and q
    unfolding root_Open_def do_open_def
    by (erule syscall_result) (auto simp: at_path_def dest: b split: sum.splits option.splits)
  then show "inside root (\<lambda>q. q \<in> below root) (root_Open sub p)"
    using inside_reads [OF reading_calls(7), of root sub p] unfolding keeps_def by blast
  have "fst (root_CreateExcl sub p mode h) = Inr q \<Longrightarrow> q \<in> below root" for h :: "'z host" and q
    unfolding root_CreateExcl_def
    by (erule syscall_result) (auto simp: at_path_def create_excl_def dest: b split: sum.splits option.splits)
  moreover have "within (only (below root)) (root_CreateExcl sub p mode)"
    by (rule within_weaken [OF root_calls_only(2)]) (rule only_mono [OF _ below_mono [OF assms]])
  ultimately show "inside root (\<lambda>q. q \<in> below root) (root_CreateExcl sub p mode)"
    unfolding keeps_def within_def by blast
qed

lemma inside_open_temp: "sub \<in> below root \<Longrightarrow> inside root (\<lambda>(name, f). f \<in> below root) (open_temp n sub)"
proof (induction n)
  case (Suc n)
  show ?case
    unfolding open_temp.simps Let_def
    by (rule only.keeps_bind [where Q = anything] inside_reads reads_random_name only.keeps_case [OF opened_below(3) [OF Suc.prems]]
        only.keeps_if only.keeps_fail Suc.IH [OF Suc.prems] only.keeps_ret | simp)+
qed (simp add: keeps_def fail_def only.same)

lemma inside_cleanup:
  assumes "inside root Q m" and "inside root anything c" shows "inside root Q (cleanup_unless_ok m c)"
proof (rule keepsI)
  fix h :: "'a host"
  obtain q t where m: "m h = (q, t)" by (cases "m h")
  with assms(1) have t: "only (below root) h t" "\<forall>x. q = Inr x \<longrightarrow> Q x" by (auto dest: keepsD)
  with assms(2) have "only (below root) t (snd (c t))" by (auto simp: keeps_def)
  with t show "True \<and> only (below root) h (snd (cleanup_unless_ok m c h)) \<and> (\<forall>x. fst (cleanup_unless_ok m c h) = Inr x \<longrightarrow> Q x)"
    by (cases q) (auto simp: cleanup_unless_ok_def m intro: only.steps)
qed

lemma inside_after_close: "inside root Q m \<Longrightarrow> f \<in> below root \<Longrightarrow> inside root Q (after_close f m)"
  unfolding after_close_def
  by (rule only.keeps_case, assumption)
    (intro only.keeps_bind [OF only.keeps_ignore [OF inside_file(5)]] only.keeps_fail only.keeps_ret; assumption)+

lemma inside_ownership: "f \<in> below root \<Longrightarrow> inside root anything (applyVolumeOwnership goos f opts label)"
  unfolding applyVolumeOwnership_def Let_def
  by (rule only.keeps_if only.keeps_ret TrueI only.keeps_mapErr inside_file | assumption)+

lemma inside_io_Copy: "f \<in> below root \<Longrightarrow> inside root anything (io_Copy f body)"
  unfolding io_Copy_def
  by (rule only.keeps_bind [where Q = anything], rule inside_file, assumption)
    (auto intro: only.keeps_ret only.keeps_fail split: read_end.splits)

lemma inside_writeVolumeTempFile:
  assumes sub: "sub \<in> below root"
  shows "inside root anything (writeVolumeTempFile goos sub body mode opts)"
  unfolding writeVolumeTempFile_def
proof (rule only.keeps_bind [OF inside_open_temp [OF sub]])
  fix x :: "string \<times> string list"
  assume "case x of (name, f) \<Rightarrow> f \<in> below root"
  then obtain name f where x: "x = (name, f)" and f: "f \<in> below root" by (cases x) auto
  have rm: "inside root anything (ignoreE (root_Remove sub name))"
    by (rule only.keeps_ignore [OF inside_calls(2) [OF sub]])
  show "inside root anything (case x of (tmpName, file) \<Rightarrow> cleanup_unless_ok
      (bindE (after_close file (mapErr (wrap ''write volume file: '') (io_Copy file body))) (\<lambda>u.
       bindE (after_close file (mapErr (wrap ''chmod volume file: '') (file_Chmod file mode))) (\<lambda>u.
       bindE (after_close file (applyVolumeOwnership goos file opts ''volume file'')) (\<lambda>u.
       bindE (after_close file (mapErr (wrap ''sync volume file: '') (file_Sync file))) (\<lambda>u.
       bindE (mapErr (wrap ''close volume file: '') (file_Close file)) (\<lambda>u. ret tmpName))))))
      (ignoreE (root_Remove sub tmpName)))"
    unfolding x prod.case
    by (rule inside_cleanup rm only.keeps_bind [where Q = anything] inside_after_close only.keeps_mapErr [where Q = anything]
        inside_io_Copy inside_file inside_ownership only.keeps_ret f TrueI)+
qed

lemma inside_check_target: "inside root anything (check_target sub name force)"
  unfolding check_target_def
  by (rule only.keeps_case [where Q = anything], rule inside_reads [OF reading_calls(3)])
    (auto intro: only.keeps_ret only.keeps_fail split: fs_node.splits)

lemma inside_publish: "sub \<in> below root \<Longrightarrow> root \<noteq> [] \<Longrightarrow> inside root anything (publish_file sub tmp target force)"
  unfolding publish_file_def
  by (rule only.keeps_if only.keeps_mapErr inside_Rename inside_calls | assumption)+

section \<open>Operations\<close>

lemma reads_openVolumeContentRoot: "reads (openVolumeContentRoot r dir)"
  unfolding openVolumeContentRoot_def by (intro reads_rules reading_calls)

lemma opened_root:
  assumes "dir_home d n h" and "plain_elem n" and "openVolumeContentRoot r (abs_path (d @ [n])) h = (Inr root, h')"
  shows "root = d @ [n]"
proof -
  from assms(1,2) have "real_dir (h_fs h) (d @ [n])" by (simp add: dir_home_def home_def real_dir_snoc)
  from host_path_self [OF this] assms(3) show ?thesis
    by (auto simp: openVolumeContentRoot_def mapErr_Inr os_OpenRoot_def do_open_dir_def syscall_def at_path_def
        split: list.splits option.splits fs_node.splits)
qed

text \<open>The part of the tree an operation on a volume may change; none for an invalid id.\<close>

definition touched :: "string list \<Rightarrow> string \<Rightarrow> string list set" where
  "touched d v = (case dockerLocalVolumeDirName v of Inl e \<Rightarrow> {} | Inr n \<Rightarrow> owned d n)"

abbreviation contained :: "string list \<Rightarrow> string \<Rightarrow> ('e, 'a) host_op \<Rightarrow> bool" where
  "contained d v \<equiv> keeps (home d) (only (touched d v)) anything"

lemma containedI:
  "(\<And>h. home d h \<Longrightarrow> home d (snd (m h)) \<and> only (touched d v) h (snd (m h))) \<Longrightarrow> contained d v m"
  by (simp add: keeps_def)

lemma localVolume_contained:
  assumes "volumes_at d r" shows "contained d v (localVolume r v)"
proof (cases "dockerLocalVolumeDirName v")
  case (Inl e)
  have "keeps (home d) (only {}) anything (localVolume r v)"
    unfolding localVolume_def
    by (rule only.keeps_bind [OF localVolumePaths_keeps [OF assms]]) (simp add: paths_of_def Inl)
  with Inl show ?thesis by (simp add: touched_def)
next
  case (Inr n)
  show ?thesis
  proof (rule containedI)
    fix h :: "'a host"
    assume "home d h"
    with localVolume_finds [OF assms Inr, of h] Inr
    show "home d (snd (localVolume r v h)) \<and> only (touched d v) h (snd (localVolume r v h))"
      by (cases "localVolume r v h") (auto simp: touched_def)
  qed
qed

lemma on_found:
  assumes r: "volumes_at d r"
    and f: "\<And>n vol h. dockerLocalVolumeDirName v = Inr n \<Longrightarrow> dir_home d n h \<Longrightarrow>
      home d (snd (f (vol, abs_path (d @ [n])) h)) \<and> only (owned d n) h (snd (f (vol, abs_path (d @ [n])) h))"
  shows "contained d v (bindE (localVolume r v) f)"
proof (rule containedI)
  fix h :: "'a host"
  assume h: "home d h"
  obtain res h1 where l: "localVolume r v h = (res, h1)" by (cases "localVolume r v h")
  with keepsD [OF localVolume_contained [OF r] h] have h1: "home d h1" "only (touched d v) h h1" by blast+
  show "home d (snd (bindE (localVolume r v) f h)) \<and> only (touched d v) h (snd (bindE (localVolume r v) f h))"
  proof (cases res)
    case (Inl e)
    with l h1 show ?thesis by (simp add: bindE_def caseE_def)
  next
    case (Inr p)
    then have "\<exists>n. dockerLocalVolumeDirName v = Inr n"
      using keepsD [OF localVolumePaths_keeps [OF r, of "{}" v] h] l
      by (cases "localVolumePaths r v h") (auto simp: paths_of_def localVolume_def bindE_def caseE_def split: sum.splits)
    then obtain n where n: "dockerLocalVolumeDirName v = Inr n" ..
    from localVolume_finds(3) [OF r n h l Inr] have "snd p = abs_path (d @ [n])" "dir_home d n h1" by (auto simp: found_def)
    with f [OF n, of h1 "fst p"] have "home d (snd (f p h1)) \<and> only (owned d n) h1 (snd (f p h1))"
      by (cases p) auto
    moreover have "bindE (localVolume r v) f h = f p h1" using l Inr by (simp add: bindE_def caseE_def)
    ultimately show ?thesis using only.steps [OF h1(2)] n by (simp add: touched_def)
  qed
qed

lemma on_volume:
  assumes r: "volumes_at d r"
    and K: "\<And>n a b. dockerLocalVolumeDirName v = Inr n \<Longrightarrow> inside (d @ [n]) anything (K a b (d @ [n]))"
  shows "contained d v (bindE (localVolume r v) (\<lambda>(volume, dir). bindE (liftE X) (\<lambda>(a, b).
    bindE (openVolumeContentRoot r dir) (K a b))))"
proof (rule on_found [OF r])
  fix n vol and h :: "'a host"
  assume n: "dockerLocalVolumeDirName v = Inr n" and h: "dir_home d n h"
  let ?dir = "abs_path (d @ [n])"
  let ?h = "snd (bindE (liftE X) (\<lambda>(a, b). bindE (openVolumeContentRoot r ?dir) (K a b)) h)"
  have o: "only (below (d @ [n])) h ?h"
  proof (cases X)
    case (Inr y)
    obtain a b where y: "y = (a, b)" by (cases y)
    obtain ro h2 where o: "openVolumeContentRoot r ?dir h = (ro, h2)" by (cases "openVolumeContentRoot r ?dir h")
    then have "h_fs h2 = h_fs h" by (rule reads_fs [OF reads_openVolumeContentRoot])
    then have h2: "only (below (d @ [n])) h h2" by (rule only_same)
    show ?thesis
    proof (cases ro)
      case ro: (Inr root)
      with opened_root [OF h dir_name_plain [OF n]] o have root: "root = d @ [n]" by blast
      have "only (below (d @ [n])) h2 (snd (K a b (d @ [n]) h2))"
        using K [OF n, of a b] by (simp add: keeps_def)
      with Inr y o ro root only.steps [OF h2] show ?thesis by (simp add: bindE_def caseE_def)
    qed (use Inr y o h2 in \<open>simp add: bindE_def caseE_def\<close>)
  qed (simp add: bindE_def caseE_def only.same)
  have "home d ?h"
    by (rule home_only [OF o])
      (use h deep_below [OF dir_name_not_metadata [OF n], of d] in \<open>auto simp: deep_def dir_home_def\<close>)
  with o show "home d (snd ((case (vol, ?dir) of (volume, dir) \<Rightarrow> bindE (liftE X) (\<lambda>(a, b).
      bindE (openVolumeContentRoot r dir) (K a b))) h)) \<and>
    only (owned d n) h (snd ((case (vol, ?dir) of (volume, dir) \<Rightarrow> bindE (liftE X) (\<lambda>(a, b).
      bindE (openVolumeContentRoot r dir) (K a b))) h))"
    using only_mono [OF o, of "owned d n"] by (simp add: owned_def subset_insertI2)
qed

lemma inside_write_in_parent:
  assumes p: "p \<in> below root" and root: "root \<noteq> []"
  shows "inside root anything (write_in_parent r body opts rel p)"
  unfolding write_in_parent_def Let_def
  by (rule only.keeps_bind [where Q = anything] inside_check_target inside_writeVolumeTempFile [OF p]
      only.keeps_finally [where Q' = anything] inside_publish [OF p root] inside_reads reads_volumeEntryStat
      only.keeps_ignore [where Q = anything] inside_calls(2) [OF p])+

lemma WriteVolumeFile_touches:
  assumes "volumes_at d r" shows "contained d v (WriteVolumeFile r v path body opts)"
  unfolding WriteVolumeFile_def Let_def
  by (rule on_volume [OF assms] only.keeps_bind [where Q = anything, OF only.keeps_mapErr [OF inside_calls(1) [OF below_self]]]
      only.keeps_bind [OF only.keeps_mapErr [OF opened_below(1) [OF below_self]]] inside_write_in_parent | simp)+

lemma inside_finish_dir:
  assumes f: "f \<in> below root" shows "inside root anything (finish_dir r opts mode root rootPath rel f)"
proof -
  have "inside root anything (volumeEntryStatFromInfo r root rootPath rel info)" for info
    by (rule inside_reads) (cases "i_node info"; simp add: volumeEntryStatFromInfo_def Let_def; auto intro!: reads_rules)
  then show ?thesis
    unfolding finish_dir_def
    by (intro only.keeps_bind [where Q = anything] only.keeps_if only.keeps_ret TrueI only.keeps_mapErr [where Q = anything]
          inside_file(2) [OF f] inside_ownership [OF f] inside_reads [OF reading_calls(8)])
qed

lemma inside_check_dir: "inside root anything (check_dir root rootPath)"
  unfolding check_dir_def
  by (rule only.keeps_case [where Q = anything], rule inside_reads [OF reading_calls(3)])
    (auto intro: only.keeps_ret only.keeps_fail split: fs_node.splits)

lemma CreateVolumeDir_touches:
  assumes "volumes_at d r" shows "contained d v (CreateVolumeDir r v path opts)"
  unfolding CreateVolumeDir_def Let_def
  by (rule on_volume [OF assms] only.keeps_bind [where Q = anything, OF inside_check_dir]
      only.keeps_bind [where Q = anything, OF only.keeps_mapErr [OF inside_calls(1) [OF below_self]]]
      only.keeps_bind [OF only.keeps_mapErr [OF opened_below(2) [OF below_self]]] inside_finish_dir)+

lemma reading_op:
  assumes "volumes_at d r" and "\<And>a b root. reads (K a b root)"
  shows "contained d v (bindE (localVolume r v) (\<lambda>(volume, dir). bindE (liftE X) (\<lambda>(a, b).
    bindE (openVolumeContentRoot r dir) (K a b))))"
  by (rule on_volume [OF assms(1)]) (rule inside_reads [OF assms(2)])

lemma GetVolumePathInfo_touches: "volumes_at d r \<Longrightarrow> contained d v (GetVolumePathInfo r v path)"
  unfolding GetVolumePathInfo_def by (rule reading_op) (auto intro: reads_volumeEntryStat)

lemma ReadVolumeFile_touches: "volumes_at d r \<Longrightarrow> contained d v (ReadVolumeFile r v path)"
  unfolding ReadVolumeFile_def
proof (rule reading_op)
  fix rel rootPath root
  have "reads (case i_node info of
      Dir \<Rightarrow> bindE (ignoreE (file_Close f)) (\<lambda>u. fail (bad_request ''path is a directory''))
    | File d \<Rightarrow> ret d | Symlink t \<Rightarrow> ret t)" for info f
    by (cases "i_node info") (auto intro!: reads_rules)
  then show "reads (bindE (mapErr (\<lambda>err. if os_IsNotExist err then dk_NotFound (dr_client r) (ErrorString ''volume file not found'')
                          else wrapVolumeContentPathError ''read volume file'' err) (root_Open root rootPath)) (\<lambda>file.
     caseE (file_Stat file)
       (\<lambda>err. bindE (ignoreE (file_Close file)) (\<lambda>u. fail (wrap ''stat volume file: '' err)))
       (\<lambda>info. case i_node info of
          Dir \<Rightarrow> bindE (ignoreE (file_Close file)) (\<lambda>u. fail (bad_request ''path is a directory''))
        | File d \<Rightarrow> ret d
        | Symlink t \<Rightarrow> ret t)))"
    by (intro reads_rules reading_calls)
qed

lemma ListVolumeDir_touches:
  "volumes_at d r \<Longrightarrow> contained d v (ListVolumeDir r v path depth)"
  unfolding ListVolumeDir_def Let_def
  by (rule reading_op) (auto intro!: reads_rules reads_collectVolumeDirEntries simp: Let_def)

lemma keeps_mkdir_volume:
  assumes n: "plain_elem n" "n \<noteq> dockerLocalVolumeMetadataDir"
  shows "keeps (home d) (only (owned d n)) anything (os_MkdirAll (abs_path (d @ [n])) mode)"
proof (rule keepsI)
  fix h :: "'a host"
  assume h: "home d h"
  have "only {d @ [n]} h (snd (os_MkdirAll (abs_path (d @ [n])) mode h))"
    using os_MkdirAll_child [of h d n mode] h n by (simp add: home_def)
  moreover from this have "home d (snd (os_MkdirAll (abs_path (d @ [n])) mode h))"
    by (rule home_only [OF _ h]) (use n in auto)
  ultimately show "home d (snd (os_MkdirAll (abs_path (d @ [n])) mode h)) \<and>
      only (owned d n) h (snd (os_MkdirAll (abs_path (d @ [n])) mode h)) \<and>
      (\<forall>x. fst (os_MkdirAll (abs_path (d @ [n])) mode h) = Inr x \<longrightarrow> True)"
    by (auto elim: only_mono simp: owned_def)
qed

lemma map_of_filter_not: "p \<notin> A \<Longrightarrow> map_of (filter (\<lambda>(q, i). q \<notin> A) m) p = map_of m p"
  by (induction m) auto

lemma remove_tree_only: "only (below p) h (snd (remove_tree budget p h))"
proof -
  have "set (case budget of None \<Rightarrow> tree_below (h_fs h) p | Some k \<Rightarrow> take k (tree_below (h_fs h) p)) \<subseteq> below p"
    by (auto simp: tree_below_def below_def split: option.splits dest: in_set_takeD)
  then show ?thesis
    by (auto simp: remove_tree_def remove_entries_def only_def fs_get_def Let_def intro!: map_of_filter_not)
qed

lemma keeps_RemoveAll:
  assumes n: "plain_elem n" "n \<noteq> dockerLocalVolumeMetadataDir"
  shows "keeps (home d) (only (owned d n)) anything (os_RemoveAll (abs_path (d @ [n])))"
proof -
  let ?run = "\<lambda>budget h. case host_path (h_fs h) False (abs_path (d @ [n])) of
      Inl e \<Rightarrow> if os_IsNotExist e then (Inr (), h) else (Inl e, h) | Inr q \<Rightarrow> remove_tree budget q h"
  have run: "home d (snd (?run budget h)) \<and> only (owned d n) h (snd (?run budget h))" if h: "home d h" for budget and h :: "'a host"
  proof -
    have "host_path (h_fs h) False (abs_path (d @ [n])) = Inr (d @ [n])"
      using h n by (intro host_path_child) (simp_all add: home_def)
    moreover have "home d (snd (remove_tree budget (d @ [n]) h))"
      using deep_below [OF n(2), of d] by (intro home_only [OF remove_tree_only h]) (auto simp: deep_def)
    ultimately show ?thesis using remove_tree_only [of "d @ [n]" h budget] by (auto elim: only_mono simp: owned_def)
  qed
  show ?thesis
    unfolding os_RemoveAll_def Let_def
    by (rule keeps_syscall [OF fs_pred_home keepsI]) (use run in blast)+
qed

lemma keeps_Lstat_dir:
  assumes n: "plain_elem n" and g: "\<And>e. keeps (home d) (only S) Q (g e)"
    and dir: "\<And>i. i_node i = Dir \<Longrightarrow> keeps (dir_home d n) (only S) Q (f i)"
    and other: "\<And>i. i_node i \<noteq> Dir \<Longrightarrow> keeps (home d) (only S) Q (f i)"
  shows "keeps (home d) (only S) Q (caseE (os_Lstat (abs_path (d @ [n]))) g f)"
proof (rule keepsI)
  fix h :: "'a host"
  assume h: "home d h"
  let ?c = "caseE (os_Lstat (abs_path (d @ [n]))) g f"
  obtain res h1 where l: "os_Lstat (abs_path (d @ [n])) h = (res, h1)" by (cases "os_Lstat (abs_path (d @ [n])) h")
  then have same: "h_fs h1 = h_fs h" by (rule reads_fs [OF reading_calls(1)])
  have h1: "home d h1" and o: "only S h h1" by (rule home_same [OF same h]) (rule only_same [OF same])
  have "home d (snd (?c h)) \<and> only S h1 (snd (?c h)) \<and> (\<forall>x. fst (?c h) = Inr x \<longrightarrow> Q x)"
  proof (cases res)
    case (Inl e)
    with g [of e] h1 l show ?thesis by (simp add: caseE_def keeps_def)
  next
    case (Inr i)
    show ?thesis
    proof (cases "i_node i = Dir")
      case True
      have "fs_get (h_fs h) (d @ [n]) = Some i"
        using os_Lstat_child [of h d n i h1] l Inr n h by (simp add: home_def)
      with True h1 same have "dir_home d n h1" by (simp add: dir_home_def node_at_def)
      with dir [OF True] l Inr show ?thesis by (simp add: caseE_def keeps_def dir_home_def)
    next
      case False
      with other [OF False] h1 l Inr show ?thesis by (simp add: caseE_def keeps_def)
    qed
  qed
  with o show "home d (snd (?c h)) \<and> only S h (snd (?c h)) \<and> (\<forall>x. fst (?c h) = Inr x \<longrightarrow> Q x)"
    by (blast intro: only.steps)
qed

lemma reads_time_keeps: "keeps (home d) (only S) anything time_Now"
  by (intro reads_keeps reads_time_Now)

lemma new_volume_keeps:
  assumes pl: "plain_elem n" "n \<noteq> dockerLocalVolumeMetadataDir"
  shows "keeps (home d) (only (owned d n)) anything (new_volume r v n (abs_path (d @ [n])) (abs_path (meta_file d n)))"
proof -
  have w: "keeps (home d) (only (owned d n)) anything (writeDockerLocalVolumeMetadata cd (abs_path (meta_file d n)) m)" for cd m
    unfolding writeDockerLocalVolumeMetadata_def
    by (intro only.keeps_mapErr keeps_only_mono [OF keeps_writeFileAtomic [OF pl(1)] owned_meta])
  show ?thesis
    unfolding new_volume_def Let_def
    by (rule only.keeps_bind [where Q = anything] only.keeps_mapErr [where Q = anything] keeps_mkdir_volume [OF pl] reads_time_keeps
        only.keeps_case [where Q = anything] w only.keeps_ignore [where Q = anything] keeps_RemoveAll [OF pl]
        only.keeps_fail only.keeps_ret TrueI)+
qed

lemma existing_volume_keeps:
  assumes d: "list_all plain_elem d" and pl: "plain_elem n" "n \<noteq> dockerLocalVolumeMetadataDir"
  shows "keeps (dir_home d n) (only (owned d n)) anything (existing_volume r v n (abs_path (d @ [n])) (abs_path (meta_file d n)))"
  unfolding existing_volume_def
  by (rule only.keeps_if only.keeps_fail only.keeps_case [where Q = anything] readMetadata_keeps [OF d pl] only.keeps_ret TrueI)+

lemma CreateVolume_keeps:
  assumes r: "volumes_at d r" and n: "dockerLocalVolumeDirName (TrimSpace v) = Inr n"
  shows "keeps (home d) (only (owned d n)) anything (CreateVolume r v)"
proof -
  have pl: "plain_elem n" "n \<noteq> dockerLocalVolumeMetadataDir" "list_all plain_elem d"
    using n dir_name_plain dir_name_not_metadata r by (auto simp: volumes_at_def)
  have x: "x = (abs_path d, n, abs_path (d @ [n]), abs_path (meta_file d n))" if "paths_of d (TrimSpace v) x" for x
    using that n by (auto simp: paths_of_def)
  show ?thesis
    unfolding CreateVolume_def Let_def
    by (rule only.keeps_if only.keeps_fail only.keeps_bind [OF localVolumePaths_keeps [OF r]])+
      (drule x, simp, rule keeps_Lstat_dir [OF pl(1)],
        simp_all add: only.keeps_fail new_volume_keeps [OF pl(1,2)] existing_volume_keeps [OF pl(3,1,2)])
qed

lemma dir_name_trim [simp]: "dockerLocalVolumeDirName (TrimSpace v) = dockerLocalVolumeDirName v"
  by (simp add: dockerLocalVolumeDirName_def)

lemma CreateVolume_touches:
  assumes "volumes_at d r" shows "contained d v (CreateVolume r v)"
proof (cases "dockerLocalVolumeDirName v")
  case (Inl e)
  have "keeps (home d) (only {}) anything (CreateVolume r v)"
    unfolding CreateVolume_def Let_def
    by (rule only.keeps_if only.keeps_fail only.keeps_bind [OF localVolumePaths_keeps [OF assms]])+ (simp add: paths_of_def Inl)
  with Inl show ?thesis by (simp add: touched_def)
next
  case (Inr n)
  with CreateVolume_keeps [OF assms, of v n] show ?thesis by (simp add: touched_def)
qed

lemma GetVolume_touches: "volumes_at d r \<Longrightarrow> contained d v (GetVolume r v)"
  unfolding GetVolume_def
  by (rule on_found) (auto simp: dir_home_def only.same)

lemma keeps_remove_meta:
  assumes n: "plain_elem n"
  shows "keeps (home d) (only (meta_files d n)) anything (os_Remove (abs_path (meta_file d n)))"
  unfolding os_Remove_def
proof (intro keeps_syscall fs_pred_home keeps_at_path [where T = "{meta_file d n}"])
  fix h :: "'a host" and p
  assume "home d h" "host_path (h_fs h) False (abs_path (meta_file d n)) = Inr p"
  with meta_place [of d h "n @ dockerLocalVolumeMetadataSuffix" p] meta_names_plain(1) [OF n]
  show "p \<in> {meta_file d n}" by (simp add: meta_file_def)
next
  fix p
  assume "p \<in> {meta_file d n}"
  then have "p \<in> meta_files d n" by (simp add: meta_files_def)
  then show "keeps (home d) (only (meta_files d n)) anything (remove_at p)"
    by (intro within_keeps_home remove_at_only deep_meta_files)
qed (auto simp: only.same)

lemma localVolumeMetadataPath_keeps:
  assumes "volumes_at d r" and n: "dockerLocalVolumeDirName v = Inr n"
  shows "keeps (home d) (only S) (\<lambda>p. p = abs_path (meta_file d n)) (localVolumeMetadataPath r v)"
  unfolding localVolumeMetadataPath_def
  by (rule only.keeps_bind [OF localVolumePaths_keeps [OF assms(1)]])
    (auto simp: paths_of_def n intro: only.keeps_ret)

text \<open>\<open>DeleteVolume\<close> tells a missing volume from other errors; \<open>on_found\<close> is about the rest.\<close>

lemma contained_caseE:
  assumes "contained d v m" and "\<And>e. contained d v (g e)" and "contained d v (bindE m f)"
  shows "contained d v (caseE m g f)"
proof (rule containedI)
  fix h :: "'a host"
  assume h: "home d h"
  obtain res h1 where m: "m h = (res, h1)" by (cases "m h")
  with keepsD [OF assms(1) h] have h1: "home d h1" "only (touched d v) h h1" by blast+
  show "home d (snd (caseE m g f h)) \<and> only (touched d v) h (snd (caseE m g f h))"
  proof (cases res)
    case (Inl e)
    have "home d (snd (g e h1)) \<and> only (touched d v) h1 (snd (g e h1))" using assms(2) [of e] h1(1) by (simp add: keeps_def)
    with m Inl only.steps [OF h1(2)] show ?thesis by (simp add: caseE_def)
  next
    case (Inr x)
    have "home d (snd (bindE m f h)) \<and> only (touched d v) h (snd (bindE m f h))" using assms(3) h unfolding keeps_def by blast
    with m Inr show ?thesis by (simp add: bindE_def caseE_def)
  qed
qed

lemma DeleteVolume_touches:
  assumes r: "volumes_at d r" shows "contained d v (DeleteVolume r v)"
proof -
  let ?delete = "\<lambda>(volume, dir).
      bindE (mapErr (wrap (''check docker local volume '' @ v @ '' usage: '')) (dockerLocalVolumeInUse r dir)) (\<lambda>inUse.
      if inUse then fail (GatewayError 409 (''volume '' @ v @ '' is in use''))
      else bindE (mapErr (wrap (''remove docker local volume '' @ v @ '': '')) (os_RemoveAll dir)) (\<lambda>u.
           caseE (localVolumeMetadataPath r v) (\<lambda>err. ret True)
             (\<lambda>metadataPath. caseE (os_Remove metadataPath)
                (\<lambda>err. if \<not> os_IsNotExist err
                       then fail (wrap (''remove docker local volume metadata '' @ v @ '': '') err) else ret True)
                (\<lambda>u. ret True))))"
  have "contained d v (bindE (localVolume r v) ?delete)"
  proof (rule on_found [OF r])
    fix n vol and h :: "'a host"
    assume n: "dockerLocalVolumeDirName v = Inr n" and h: "dir_home d n h"
    have pl: "plain_elem n" "n \<noteq> dockerLocalVolumeMetadataDir" using n dir_name_plain dir_name_not_metadata by auto
    have rm: "keeps (home d) (only (owned d n)) anything (os_Remove (abs_path (meta_file d n)))"
      by (rule keeps_only_mono [OF keeps_remove_meta [OF pl(1)]]) (auto simp: owned_def)
    have use: "keeps (home d) (only (owned d n)) anything (dockerLocalVolumeInUse r dir)" for dir
      unfolding dockerLocalVolumeInUse_def by (intro reads_keeps reads_rules reads_engine_call)
    have "keeps (home d) (only (owned d n)) anything (?delete (vol, abs_path (d @ [n])))"
      unfolding prod.case
      by (rule only.keeps_bind [where Q = anything] only.keeps_mapErr [where Q = anything] use only.keeps_if only.keeps_fail
          keeps_RemoveAll [OF pl] only.keeps_case [OF localVolumeMetadataPath_keeps [OF r n]] only.keeps_ret TrueI
          only.keeps_case [where Q = anything] rm | simp only:)+
    with h show "home d (snd (?delete (vol, abs_path (d @ [n])) h)) \<and>
        only (owned d n) h (snd (?delete (vol, abs_path (d @ [n])) h))"
      unfolding keeps_def dir_home_def by blast
  qed
  then show ?thesis
    unfolding DeleteVolume_def
    by (intro contained_caseE localVolume_contained [OF r]) (auto intro: only.keeps_if only.keeps_ret only.keeps_fail)
qed

end
