(* ===== verification/VolumeRefinement.thy ===== *)
theory VolumeRefinement
  imports VolumeContentSafety
begin

text \<open>
  What the volumes are for their users: a set of names. On a file system without faults, creating,
  finding, deleting and listing volumes implement the four operations on that set.
\<close>

section \<open>Calls without faults\<close>

lemma syscall_clean: "h_faults h = [] \<Longrightarrow> syscall f partial h = f h"
  by (simp add: syscall_def)

lemma drop_common_append: "drop_common cs (cs @ ds) = ([], ds)"
  by (induction cs) auto

lemma within_root:
  assumes d: "list_all plain_elem (cs @ ds)" and "ds \<noteq> []"
  shows "ensurePathLexicallyWithinRoot (abs_path cs) (abs_path (cs @ ds)) = Inr ()"
proof -
  have p: "list_all plain_elem cs" "list_all plain_elem ds" using d by auto
  let ?rel = "Join CHR ''/'' ds"
  have ne: "abs_path (cs @ ds) \<noteq> abs_path cs" using abs_path_inj [of "cs @ ds" cs] d p(1) \<open>ds \<noteq> []\<close> by simp
  have rel: "filepath_Rel (abs_path cs) (abs_path (cs @ ds)) = Some ?rel"
    using ne p d by (simp add: filepath_Rel_def path_elems_abs drop_common_append)
  have S: "Split CHR ''/'' ?rel = ds" by (rule Split_plain [OF p(2) \<open>ds \<noteq> []\<close>])
  have dd: "''..'' \<notin> set ds" using p(2) by (auto simp: list_all_iff plain_elem_def)
  have "?rel \<noteq> ''..''"
  proof
    assume "?rel = ''..''"
    with S have "ds = [''..'']" by simp
    with dd show False by simp
  qed
  moreover have "\<not> HasPrefix ?rel ''../''"
  proof
    assume "HasPrefix ?rel ''../''"
    then have "take 3 ?rel = ''../''" by (simp add: HasPrefix_def numeral_3_eq_3)
    with append_take_drop_id [of 3 ?rel] have "''..'' @ CHR ''/'' # drop 3 ?rel = ?rel" by simp
    then obtain x where "?rel = ''..'' @ CHR ''/'' # x" by metis
    with S Split_append_sep [of "CHR ''/''" "''..''" x] have "ds = ''..'' # Split CHR ''/'' x" by simp
    with dd show False by simp
  qed
  ultimately show ?thesis using p d rel by (simp add: ensurePathLexicallyWithinRoot_def Let_def)
qed

lemma MkdirAll_there: "h_faults h = [] \<Longrightarrow> real_dir (h_fs h) d \<Longrightarrow> os_MkdirAll (abs_path d) mode h = (Inr (), h)"
  by (simp add: os_MkdirAll_def syscall_clean path_elems_real mkdirs_self)

lemma MkdirAll_new:
  assumes "h_faults h = []" and "real_dir (h_fs h) d" and "plain_elem c" and "fs_get (h_fs h) (d @ [c]) = None"
  shows "os_MkdirAll (abs_path (d @ [c])) mode h = (Inr (), fs_put (d @ [c]) (new_inode Dir mode (h_now h)) h)"
proof -
  have "path_elems (abs_path (d @ [c])) = d @ [c]" using assms by (simp add: path_elems_abs real_dir_def)
  moreover have "mkdirs max_links False [] mode None [] (d @ [c]) h = mkdirs max_links False [] mode None d [c] h"
    using mkdirs_real [OF assms(2), of max_links False mode None "[c]"] by simp
  ultimately show ?thesis
    using assms plain_not_dotdot by (simp add: os_MkdirAll_def syscall_clean node_at_def)
qed

lemma Lstat_child:
  assumes "h_faults h = []" and "real_dir (h_fs h) d" and "plain_elem c"
  shows "os_Lstat (abs_path (d @ [c])) h = (case fs_get (h_fs h) (d @ [c]) of None \<Rightarrow> Inl ENOENT | Some i \<Rightarrow> Inr i, h)"
  using host_path_child [OF assms(2,3)] assms(1)
  by (simp add: os_Lstat_def do_stat_def syscall_clean at_path_def get_inode_def split: option.split)

lemma ReadFile_child:
  assumes "h_faults h = []" and "real_dir (h_fs h) d" and "plain_elem c" and "node_at (h_fs h) (d @ [c]) = Some (File data)"
  shows "os_ReadFile (abs_path (d @ [c])) h = (Inr data, h)"
proof -
  have "host_path (h_fs h) True (abs_path (d @ [c])) = Inr (d @ [c])"
    using host_path_real [OF assms(2), of "[c]" True] assms(3,4) plain_not_dotdot by simp
  with assms show ?thesis by (simp add: os_ReadFile_def syscall_clean at_path_def)
qed

lemma Remove_child:
  assumes "h_faults h = []" and "real_dir (h_fs h) d" and "plain_elem c" and "node_at (h_fs h) (d @ [c]) = Some (File data)"
  shows "os_Remove (abs_path (d @ [c])) h = (Inr (), fs_del (d @ [c]) h)"
  using host_path_child [OF assms(2,3)] assms
  by (simp add: os_Remove_def syscall_clean at_path_def remove_at_def)

lemma RemoveAll_child:
  assumes "h_faults h = []" and "real_dir (h_fs h) d" and "plain_elem c"
  shows "os_RemoveAll (abs_path (d @ [c])) h = (Inr (), remove_entries (tree_below (h_fs h) (d @ [c])) h)"
  using host_path_child [OF assms(2,3)] assms(1)
  by (simp add: os_RemoveAll_def syscall_clean remove_tree_def Let_def)

lemma fs_get_remove_entries:
  "fs_get (h_fs (remove_entries (tree_below (h_fs h) q) h)) p =
    (if p \<noteq> [] \<and> prefix q p then None else fs_get (h_fs h) p)"
proof -
  have t: "set (tree_below (h_fs h) q) = {p. prefix q p \<and> p \<in> fst ` set (h_fs h)}" by (auto simp: tree_below_def)
  have "map_of (filter (\<lambda>(k, v). k \<notin> S) m) p = (if p \<in> S then None else map_of m p)" for S and m :: fs
    by (induction m) auto
  then have "map_of (h_fs (remove_entries (tree_below (h_fs h) q) h)) p =
      (if p \<in> set (tree_below (h_fs h) q) then None else map_of (h_fs h) p)"
    by (simp add: remove_entries_def)
  moreover have "map_of (h_fs h) p = None" if "p \<notin> fst ` set (h_fs h)" using that by (simp add: map_of_eq_None_iff)
  ultimately show ?thesis by (auto simp: fs_get_def t)
qed

lemma wf_fs_changes [simp]:
  "wf_map (h_fs h) \<Longrightarrow> wf_map (h_fs (fs_put p i h))" "wf_map (h_fs h) \<Longrightarrow> wf_map (h_fs (fs_del p h))"
  "wf_map (h_fs h) \<Longrightarrow> wf_map (h_fs (remove_entries qs h))"
  by (simp_all add: fs_put_def fs_del_def remove_entries_def distinct_map_filter)

lemma host_fields [simp]:
  "h_faults (fs_put p i h) = h_faults h" "h_faults (fs_del p h) = h_faults h" "h_faults (remove_entries qs h) = h_faults h"
  "h_engine (fs_put p i h) = h_engine h" "h_engine (fs_del p h) = h_engine h" "h_engine (remove_entries qs h) = h_engine h"
  "h_now (fs_put p i h) = h_now h" "h_now (fs_del p h) = h_now h"
  by (simp_all add: fs_put_def fs_del_def remove_entries_def)

section \<open>Writing a metadata file\<close>

lemma random_name_clean:
  obtains k h1 where "random_name h = (Inr (nat_digits k), h1)" "h_fs h1 = h_fs h" "h_faults h1 = h_faults h"
    "h_engine h1 = h_engine h" "h_now h1 = h_now h"
  by (cases "h_names h") (auto simp: random_name_def)

lemma file_calls_clean:
  assumes "h_faults h = []" and "fs_get (h_fs h) p = Some i"
  shows "file_Write p data h = (Inr (), fs_put p (i\<lparr>i_node := File data\<rparr>) h)"
    and "file_Chmod p mode h = (Inr (), fs_put p (i\<lparr>i_mode := mode\<rparr>) h)"
    and "file_Sync p h = (Inr (), h)" and "file_Close p h = (Inr (), h)"
  using assms by (simp_all add: file_Write_def file_Chmod_def file_Sync_def file_Close_def syscall_clean on_inode_def)

text \<open>What a metadata file becomes: \<open>data\<close>, whatever it was; nothing else changes but that its directory exists.\<close>

definition put_metadata :: "string list \<Rightarrow> string \<Rightarrow> string \<Rightarrow> 'e host \<Rightarrow> 'e host \<Rightarrow> bool" where
  "put_metadata d n data h h' \<longleftrightarrow>
     h_faults h' = h_faults h \<and> h_engine h' = h_engine h \<and> (wf_map (h_fs h) \<longrightarrow> wf_map (h_fs h')) \<and>
     (\<forall>p. node_at (h_fs h') p =
        (if p = meta_file d n then Some (File data)
         else if p = d @ [dockerLocalVolumeMetadataDir] then Some Dir else node_at (h_fs h) p))"

lemma after_close_ok: "m h = (Inr x, t) \<Longrightarrow> after_close f m h = (Inr x, t)"
  by (simp add: after_close_def caseE_def)

lemma cleanup_ok: "m h = (Inr x, t) \<Longrightarrow> cleanup_unless_ok m c h = (Inr x, t)"
  by (simp add: cleanup_unless_ok_def)

lemma writeFileAtomic_clean:
  assumes "h_faults h = []" and home: "home d h" and n: "plain_elem n"
    and temps: "\<And>k. fs_get (h_fs h) (meta_temp d n k) = None" and meta: "node_at (h_fs h) (meta_file d n) \<noteq> Some Dir"
  obtains h' where "writeFileAtomic (abs_path (meta_file d n)) data mode h = (Inr (), h')" "put_metadata d n data h h'"
proof -
  let ?M = "d @ [dockerLocalVolumeMetadataDir]" and ?f = "n @ dockerLocalVolumeMetadataSuffix"
  have r: "real_dir (h_fs h) d" using home by (simp add: home_def)
  then have d: "list_all plain_elem d" by (simp add: real_dir_def)
  have pl: "list_all plain_elem (?M @ [?f])" using d meta_names_plain(1) [OF n] by simp
  have dir: "path_Dir (abs_path (meta_file d n)) = abs_path ?M" and base: "path_Base (abs_path (meta_file d n)) = ?f"
    using path_Dir_abs [OF pl] path_Base_abs [OF pl] by (simp_all add: meta_file_def)
  obtain h1 where mk: "os_MkdirAll (abs_path ?M) 493 h = (Inr (), h1)"
    and h1: "h_faults h1 = []" "h_engine h1 = h_engine h" "wf_map (h_fs h) \<longrightarrow> wf_map (h_fs h1)"
      "\<And>p. p \<noteq> ?M \<Longrightarrow> fs_get (h_fs h1) p = fs_get (h_fs h) p" "node_at (h_fs h1) ?M = Some Dir"
  proof (cases "node_at (h_fs h) ?M")
    case None
    with MkdirAll_new [OF assms(1) r metadata_dir_plain, of 493] assms(1) that show ?thesis
      by (auto simp: node_at_def new_inode_def)
  next
    case (Some x)
    with home have "real_dir (h_fs h) ?M" "x = Dir" by (auto simp: home_def real_dir_snoc)
    with MkdirAll_there [OF assms(1) this(1), of 493] Some that assms(1) show ?thesis by auto
  qed
  obtain k h2 where rn: "random_name h1 = (Inr (nat_digits k), h2)" and h2: "h_fs h2 = h_fs h1" "h_faults h2 = []" "h_engine h2 = h_engine h1"
    using h1(1) by (metis random_name_clean)
  let ?t = "meta_temp d n k" and ?x = "''.'' @ (n @ dockerLocalVolumeMetadataSuffix) @ ''.tmp-'' @ nat_digits k"
  let ?i = "new_inode (File []) 384 (h_now h2)"
  have x: "plain_elem ?x" by (rule meta_names_plain [OF n])
  have t: "?t = ?M @ [?x]" by (simp add: meta_temp_def)
  have ne: "?t \<noteq> ?M" "?t \<noteq> meta_file d n" "meta_file d n \<noteq> ?M" "?t \<noteq> []" "meta_file d n \<noteq> []"
    by (auto simp: meta_temp_def meta_file_def dockerLocalVolumeMetadataSuffix_def dest: arg_cong [of _ _ length])
  have "node_at (h_fs h1) (take m d) = node_at (h_fs h) (take m d)" for m
  proof -
    have "length (take m d) < length ?M" by simp
    then have "take m d \<noteq> ?M" by (metis less_irrefl)
    then show ?thesis by (simp add: node_at_def h1(4))
  qed
  then have "real_dir (h_fs h1) d" using r by (simp add: real_dir_def)
  then have rM: "real_dir (h_fs h1) ?M" using h1(5) by (simp add: real_dir_snoc)
  have free: "node_at (h_fs h1) ?t = None" using temps [of k] h1(4) [of ?t] ne by (simp add: node_at_def)
  have place: "host_path (h_fs h2) False (path_Join [abs_path ?M, (''.'' @ ?f @ ''.tmp-'') @ nat_digits k]) = Inr ?t"
    using path_Join_abs [of ?M "[?x]"] pl x host_path_child [OF rM x] h2(1) by (simp add: t)
  let ?h3 = "fs_put ?t ?i h2" and ?j = "?i\<lparr>i_node := File data, i_mode := mode\<rparr>"
  let ?h5 = "fs_put ?t ?j (fs_put ?t (?i\<lparr>i_node := File data\<rparr>) ?h3)"
  have create: "os_CreateTemp (abs_path ?M) (''.'' @ ?f @ ''.tmp-'') h1 = (Inr ?t, ?h3)"
    using place free h2(1,2) by (simp add: os_CreateTemp_def bindE_def caseE_def rn syscall_clean at_path_def create_excl_def)
  have g3: "fs_get (h_fs ?h3) ?t = Some ?i" "h_faults ?h3 = []" using ne h2 by simp_all
  note w = file_calls_clean(1) [OF g3(2,1), of data]
  have g4: "h_faults (fs_put ?t (?i\<lparr>i_node := File data\<rparr>) ?h3) = []"
    "fs_get (h_fs (fs_put ?t (?i\<lparr>i_node := File data\<rparr>) ?h3)) ?t = Some (?i\<lparr>i_node := File data\<rparr>)"
    using ne h2 by simp_all
  note c = file_calls_clean(2) [OF g4, of mode]
  have g5: "h_faults ?h5 = []" "fs_get (h_fs ?h5) ?t = Some ?j" using ne h2 by simp_all
  have rM5: "real_dir (h_fs ?h5) ?M"
  proof -
    have "node_at (h_fs ?h5) (take m ?M) = node_at (h_fs h1) (take m ?M)" for m
    proof -
      have "length (take m ?M) < length ?t" by (simp add: t)
      then have "take m ?M \<noteq> ?t" by (metis less_irrefl)
      then show ?thesis using ne h2(1) by (simp add: node_at_def)
    qed
    with rM show ?thesis by (simp add: real_dir_def)
  qed
  have "node_at (h_fs ?h5) (meta_file d n) = node_at (h_fs h) (meta_file d n)"
    using ne h2(1) h1(4) [of "meta_file d n"] by (simp add: node_at_def)
  then have "os_RenameTo ?t (abs_path (meta_file d n)) ?h5 = (Inr (), fs_put (meta_file d n) ?j (fs_del ?t ?h5))"
    using host_path_child [OF rM5 meta_names_plain(1) [OF n]] g5 meta
    by (simp add: os_RenameTo_def syscall_clean at_path_def rename_to_def meta_file_def)
  note rename = this
  have run: "writeFileAtomic (abs_path (meta_file d n)) data mode h = (Inr (), fs_put (meta_file d n) ?j (fs_del ?t ?h5))"
    unfolding writeFileAtomic_def Let_def dir base
    by (rule trans [OF bindE_ok] mapErr_ok after_close_ok cleanup_ok mk create w c file_calls_clean(3,4) [OF g5] rename)+
  have "put_metadata d n data h (fs_put (meta_file d n) ?j (fs_del ?t ?h5))"
    using ne h2 h1 temps [of k] assms(1) by (auto simp: put_metadata_def node_at_def new_inode_def)
  with run that show ?thesis by blast
qed

section \<open>The volumes of a host\<close>

definition volume_names :: "string list \<Rightarrow> 'e host \<Rightarrow> string set" where
  "volume_names d h = {n. n \<noteq> dockerLocalVolumeMetadataDir \<and> node_at (h_fs h) (d @ [n]) \<noteq> None}"

definition own_metadata :: "string \<Rightarrow> time \<Rightarrow> volume_metadata" where
  "own_metadata n t = \<lparr>md_VolumeID = n, md_Name = n, md_Managed = True, md_CreatedAt = t\<rparr>"

definition is_volume :: "codecs \<Rightarrow> string list \<Rightarrow> 'e host \<Rightarrow> string \<Rightarrow> bool" where
  "is_volume cd d h n \<longleftrightarrow>
     dockerLocalVolumeDirName n = Inr n \<and> node_at (h_fs h) (d @ [n]) = Some Dir \<and>
     node_at (h_fs h) (d @ [dockerLocalVolumeMetadataDir]) = Some Dir \<and>
     (\<exists>t. node_at (h_fs h) (meta_file d n) = Some (File (cd_metadata cd (own_metadata n t) @ [CHR 0x0A])))"

text \<open>
  The state between requests, for a daemon in state \<open>e\<close> that lists its containers without changing
  them: what is below the root is a volume with its metadata, or nothing.
\<close>

definition volume_store :: "string list \<Rightarrow> 'e docker_runtime \<Rightarrow> 'e \<Rightarrow> 'e host \<Rightarrow> bool" where
  "volume_store d r e h \<longleftrightarrow>
     volumes_at d r \<and> codec_laws (dr_codecs r) \<and> errdefs_laws (dr_client r) \<and>
     (\<exists>cs. dk_ContainerList (dr_client r) [] e = (Inr cs, e)) \<and>
     home d h \<and> h_faults h = [] \<and> h_engine h = e \<and> wf_map (h_fs h) \<and>
     (\<forall>n \<in> volume_names d h. is_volume (dr_codecs r) d h n) \<and>
     (\<forall>n. n \<notin> volume_names d h \<longrightarrow> node_at (h_fs h) (meta_file d n) = None) \<and>
     (\<forall>n k. node_at (h_fs h) (meta_temp d n k) = None)"

text \<open>The volumes that are bound into a container.\<close>

definition busy :: "string list \<Rightarrow> 'e docker_runtime \<Rightarrow> 'e \<Rightarrow> string \<Rightarrow> bool" where
  "busy d r e n \<longleftrightarrow>
     (\<exists>cs. fst (dk_ContainerList (dr_client r) [] e) = Inr cs \<and>
       (\<exists>c \<in> set cs. \<exists>m \<in> set (cs_Mounts c).
          mp_Type m = TypeBind \<and> dockerBindMountSourceMatches (dr_goos r) (mp_Source m) (abs_path (d @ [n]))))"

section \<open>The requests and their abstract meaning\<close>

datatype volume_call = CallCreate string | CallGet string | CallDelete string | CallList
datatype volume_answer = Volume string | Volumes "string list" | Removed bool | Missing | InUse | Refused

fun run_call :: "'e docker_runtime \<Rightarrow> volume_call \<Rightarrow> 'e host \<Rightarrow> volume_answer \<times> 'e host" where
  "run_call r (CallCreate v) h =
     (case CreateVolume r v h of (Inr x, h) \<Rightarrow> (Volume (rv_VolumeID x), h) | (Inl e, h) \<Rightarrow> (Refused, h))"
| "run_call r (CallGet v) h =
     (case GetVolume r v h of
        (Inr x, h) \<Rightarrow> (Volume (rv_VolumeID x), h)
      | (Inl e, h) \<Rightarrow> (if dk_IsNotFound (dr_client r) e then Missing else Refused, h))"
| "run_call r (CallDelete v) h =
     (case DeleteVolume r v h of
        (Inr b, h) \<Rightarrow> (Removed b, h)
      | (Inl e, h) \<Rightarrow> (if gatewayErrorStatus e 500 = 409 then InUse else Refused, h))"
| "run_call r CallList h =
     (case ListVolumes r h of (Inr xs, h) \<Rightarrow> (Volumes (map rv_VolumeID xs), h) | (Inl e, h) \<Rightarrow> (Refused, h))"

fun spec_call :: "(string \<Rightarrow> bool) \<Rightarrow> volume_call \<Rightarrow> string set \<Rightarrow> volume_answer \<times> string set" where
  "spec_call used (CallCreate v) V =
     (case dockerLocalVolumeDirName v of Inr n \<Rightarrow> (Volume n, insert n V) | Inl e \<Rightarrow> (Refused, V))"
| "spec_call used (CallGet v) V =
     (case dockerLocalVolumeDirName v of Inr n \<Rightarrow> (if n \<in> V then Volume n else Missing, V) | Inl e \<Rightarrow> (Refused, V))"
| "spec_call used (CallDelete v) V =
     (case dockerLocalVolumeDirName v of
        Inr n \<Rightarrow> (if n \<notin> V then (Removed False, V) else if used n then (InUse, V) else (Removed True, V - {n}))
      | Inl e \<Rightarrow> (Refused, V))"
| "spec_call used CallList V = (Volumes (sorted_list_of_set V), V)"

section \<open>Each request\<close>

lemma dir_name_of_name:
  assumes "dockerLocalVolumeDirName v = Inr n"
  shows "n = TrimSpace v" and "dockerLocalVolumeDirName n = Inr n" and "n \<noteq> []" and "plain_elem n" and "n \<noteq> dockerLocalVolumeMetadataDir"
proof -
  show n: "n = TrimSpace v" and "n \<noteq> []" using assms by (auto simp: dockerLocalVolumeDirName_def Let_def split: if_splits)
  show "dockerLocalVolumeDirName n = Inr n" using assms by (simp add: n dockerLocalVolumeDirName_def)
  show "plain_elem n" "n \<noteq> dockerLocalVolumeMetadataDir" using assms dir_name_plain dir_name_not_metadata by blast+
qed

lemma meta_places [simp]:
  "d @ [n] \<noteq> meta_file d m" "meta_file d m \<noteq> d @ [n]" "d @ [n] \<noteq> meta_temp d m k" "meta_temp d m k \<noteq> d @ [n]" "meta_file d m \<noteq> []"
  "meta_file d n = meta_file d m \<longleftrightarrow> n = m"
  by (auto simp: meta_file_def meta_temp_def)

lemma paths_clean:
  assumes r: "volumes_at d r" and h: "h_faults h = []" "real_dir (h_fs h) d" and n: "dockerLocalVolumeDirName v = Inr n"
  shows "localVolumePaths r v h = (Inr (abs_path d, n, abs_path (d @ [n]), abs_path (meta_file d n)), h)"
proof -
  have d: "list_all plain_elem d" using r by (simp add: volumes_at_def)
  note p = dir_name_of_name(4) [OF n] and m = meta_names_plain(1) [OF dir_name_of_name(4) [OF n]]
  have "path_Join [abs_path d, n] = abs_path (d @ [n])"
    "path_Join [abs_path d, dockerLocalVolumeMetadataDir, n @ dockerLocalVolumeMetadataSuffix] = abs_path (meta_file d n)"
    using path_Join_abs [OF d, of "[n]"] path_Join_abs [OF d, of "[dockerLocalVolumeMetadataDir, n @ dockerLocalVolumeMetadataSuffix]"] p m
    by (simp_all add: meta_file_def)
  moreover have "ensurePathLexicallyWithinRoot (abs_path d) (abs_path (d @ [n])) = Inr ()"
    "ensurePathLexicallyWithinRoot (abs_path d) (abs_path (meta_file d n)) = Inr ()"
    using within_root [of d "[n]"] within_root [of d "[dockerLocalVolumeMetadataDir, n @ dockerLocalVolumeMetadataSuffix]"] d p m
    by (simp_all add: meta_file_def)
  ultimately show ?thesis
    using r d n MkdirAll_there [OF h, of 493]
    by (simp add: localVolumePaths_def ensureLocalVolumeRoot_def volumes_at_def Let_def bindE_def caseE_def mapErr_def)
qed

lemma store_fields:
  assumes "volume_store d r e h"
  shows "volumes_at d r" "h_faults h = []" "real_dir (h_fs h) d" "list_all plain_elem d" "h_engine h = e"
    "wf_map (h_fs h)" "home d h" "codec_laws (dr_codecs r)" "errdefs_laws (dr_client r)"
  using assms by (auto simp: volume_store_def home_def volumes_at_def)

lemmas store_paths = paths_clean [OF store_fields(1-3)]

lemma store_paths_invalid:
  assumes "volume_store d r e h" and "dockerLocalVolumeDirName v = Inl err"
  shows "localVolumePaths r v h = (Inl err, h)"
  using assms(2) store_fields [OF assms(1)] MkdirAll_there [of h d 493]
  by (simp add: localVolumePaths_def ensureLocalVolumeRoot_def volumes_at_def Let_def bindE_def caseE_def mapErr_def)

lemma store_metadata:
  assumes s: "volume_store d r e h" and n: "n \<in> volume_names d h"
  shows "readDockerLocalVolumeMetadata (dr_codecs r) dir (abs_path (meta_file d n)) h =
    (Inr \<lparr>rv_VolumeID = n, rv_Name = n\<rparr>, h)"
proof -
  have v: "is_volume (dr_codecs r) d h n" and h: "h_faults h = []" "home d h" and cd: "codec_laws (dr_codecs r)"
    using s n by (auto simp: volume_store_def)
  then obtain t where "node_at (h_fs h) (meta_file d n) = Some (File (cd_metadata (dr_codecs r) (own_metadata n t) @ [CHR 0x0A]))"
    and dn: "dockerLocalVolumeDirName n = Inr n" and M: "real_dir (h_fs h) (d @ [dockerLocalVolumeMetadataDir])"
    by (auto simp: is_volume_def home_def real_dir_snoc)
  with ReadFile_child [OF h(1) M meta_names_plain(1) [OF dir_name_plain [OF dn]]]
  have "os_ReadFile (abs_path (meta_file d n)) h = (Inr (cd_metadata (dr_codecs r) (own_metadata n t) @ [CHR 0x0A]), h)"
    by (simp add: meta_file_def)
  moreover have "TrimSpace n = n" "n \<noteq> []" using dir_name_of_name(1,3) [OF dn] by simp_all
  ultimately show ?thesis
    using cd by (simp add: readDockerLocalVolumeMetadata_def readDockerLocalVolumeMetadataFile_def bindE_def caseE_def mapErr_def
        codec_laws_def runtimeVolumeFromDockerLocalMetadata_def own_metadata_def)
qed

lemma store_localVolume:
  assumes s: "volume_store d r e h" and n: "dockerLocalVolumeDirName v = Inr n"
  shows "localVolume r v h =
    (if n \<in> volume_names d h then Inr (\<lparr>rv_VolumeID = n, rv_Name = n\<rparr>, abs_path (d @ [n])) else Inl (volume_not_found r v), h)"
proof -
  have h: "h_faults h = []" "real_dir (h_fs h) d" using s by (auto simp: volume_store_def home_def)
  note L = Lstat_child [OF h dir_name_of_name(4) [OF n]]
  show ?thesis
  proof (cases "n \<in> volume_names d h")
    case True
    with s obtain i where "fs_get (h_fs h) (d @ [n]) = Some i" "i_node i = Dir"
      by (auto simp: volume_store_def is_volume_def node_at_def)
    with True L store_metadata [OF s True] dir_name_of_name(1) [OF n] show ?thesis
      by (simp add: localVolume_def bindE_def caseE_def store_paths [OF s s s n])
  next
    case False
    then have "fs_get (h_fs h) (d @ [n]) = None" using dir_name_of_name(5) [OF n] by (simp add: volume_names_def node_at_def)
    with False L show ?thesis
      by (simp add: localVolume_def bindE_def caseE_def store_paths [OF s s s n] os_IsNotExist_def)
  qed
qed

lemma store_localVolume_invalid:
  "volume_store d r e h \<Longrightarrow> dockerLocalVolumeDirName v = Inl err \<Longrightarrow> localVolume r v h = (Inl err, h)"
  by (simp add: localVolume_def bindE_def caseE_def store_paths_invalid)

lemma dir_name_error:
  assumes "dockerLocalVolumeDirName v = Inl err" and "errdefs_laws dk"
  shows "\<not> dk_IsNotFound dk err" and "gatewayErrorStatus err 500 \<noteq> 409"
  using assms by (auto simp: dockerLocalVolumeDirName_def Let_def bad_request_def errdefs_laws_def split: if_splits)

lemma sim_get:
  assumes s: "volume_store d r e h"
  shows "run_call r (CallGet v) h = (fst (spec_call (busy d r e) (CallGet v) (volume_names d h)), h)"
proof (cases "dockerLocalVolumeDirName v")
  case (Inl err)
  have "errdefs_laws (dr_client r)" using s by (simp add: volume_store_def)
  with s Inl show ?thesis
    by (simp add: GetVolume_def bindE_def caseE_def store_localVolume_invalid [OF s Inl] dir_name_error)
next
  case (Inr n)
  have "dk_IsNotFound (dr_client r) (volume_not_found r v)" using s by (simp add: volume_store_def volume_not_found_def errdefs_laws_def)
  with Inr show ?thesis by (simp add: GetVolume_def bindE_def caseE_def store_localVolume [OF s Inr])
qed

text \<open>What a creation and a deletion do to the store.\<close>

lemma volume_not_metadata: "is_volume cd d h n \<Longrightarrow> n \<noteq> dockerLocalVolumeMetadataDir"
  by (auto simp: is_volume_def dest: dir_name_not_metadata)

lemma store_add:
  assumes s: "volume_store d r e h" and n: "dockerLocalVolumeDirName n = Inr n"
    and h': "h_faults h' = []" "h_engine h' = e" "wf_map (h_fs h')"
    and nodes: "\<And>p. node_at (h_fs h') p =
      (if p = meta_file d n then Some (File (cd_metadata (dr_codecs r) (own_metadata n t) @ [CHR 0x0A]))
       else if p = d @ [dockerLocalVolumeMetadataDir] \<or> p = d @ [n] then Some Dir else node_at (h_fs h) p)"
  shows "volume_store d r e h'" and "volume_names d h' = insert n (volume_names d h)"
proof -
  have nM: "n \<noteq> dockerLocalVolumeMetadataDir" by (rule dir_name_of_name(5) [OF n])
  show names: "volume_names d h' = insert n (volume_names d h)"
    using nM by (auto simp: volume_names_def nodes)
  have "take k d \<noteq> meta_file d n" "take k d \<noteq> d @ [x]" for k x
    by (auto simp: meta_file_def dest: arg_cong [of _ _ length])
  then have "node_at (h_fs h') (take k d) = node_at (h_fs h) (take k d)" for k by (simp add: nodes)
  moreover have "node_at (h_fs h') (d @ [dockerLocalVolumeMetadataDir]) = Some Dir" by (simp add: nodes)
  ultimately have home: "home d h'" using store_fields(7) [OF s] by (simp add: home_def real_dir_def)
  have vol: "is_volume (dr_codecs r) d h' m" if "m \<in> volume_names d h'" for m
  proof (cases "m = n")
    case True
    with n show ?thesis by (auto simp: is_volume_def nodes)
  next
    case False
    with that have "is_volume (dr_codecs r) d h m" using s by (simp add: names volume_store_def)
    with False show ?thesis by (auto simp: is_volume_def nodes)
  qed
  have "node_at (h_fs h') (meta_file d m) = None" if "m \<notin> volume_names d h'" for m
    using that s by (auto simp: names nodes volume_store_def meta_file_def)
  moreover have "node_at (h_fs h') (meta_temp d m k) = None" for m k
    using s by (auto simp: nodes meta_temp_not_file volume_store_def)
  ultimately show "volume_store d r e h'" using s h' home vol by (simp add: volume_store_def)
qed

lemma store_remove:
  assumes s: "volume_store d r e h" and n: "n \<in> volume_names d h"
    and h': "h_faults h' = []" "h_engine h' = e" "wf_map (h_fs h')"
    and nodes: "\<And>p. node_at (h_fs h') p = (if prefix (d @ [n]) p \<or> p = meta_file d n then None else node_at (h_fs h) p)"
  shows "volume_store d r e h'" and "volume_names d h' = volume_names d h - {n}"
proof -
  have v: "is_volume (dr_codecs r) d h n" using s n by (simp add: volume_store_def)
  note nM = volume_not_metadata [OF v]
  show names: "volume_names d h' = volume_names d h - {n}" by (auto simp: volume_names_def nodes)
  have "\<not> prefix (d @ [n]) (take k d)" "take k d \<noteq> meta_file d n" for k
    by (auto simp: meta_file_def dest: prefix_length_le arg_cong [of _ _ length])
  then have "node_at (h_fs h') (take k d) = node_at (h_fs h) (take k d)" for k by (simp add: nodes)
  moreover have M: "node_at (h_fs h') (d @ [dockerLocalVolumeMetadataDir]) = node_at (h_fs h) (d @ [dockerLocalVolumeMetadataDir])"
    using nM by (simp add: nodes)
  ultimately have home: "home d h'" using store_fields(7) [OF s] by (simp add: home_def real_dir_def)
  have np: "\<not> prefix (d @ [n]) (meta_file d m)" "\<not> prefix (d @ [n]) (meta_temp d m k)" for m k
    using nM by (simp_all add: meta_file_def meta_temp_def)
  have vol: "is_volume (dr_codecs r) d h' m" if "m \<in> volume_names d h'" for m
  proof -
    from that s have "is_volume (dr_codecs r) d h m" and "m \<noteq> n" by (simp_all add: names volume_store_def)
    then show ?thesis using np nM by (auto simp: is_volume_def nodes M)
  qed
  have "node_at (h_fs h') (meta_file d m) = None" if "m \<notin> volume_names d h'" for m
    using that s np by (auto simp: names nodes volume_store_def)
  moreover have "node_at (h_fs h') (meta_temp d m k) = None" for m k
    using s np by (simp add: nodes volume_store_def)
  ultimately show "volume_store d r e h'" using s h' home vol by (simp add: volume_store_def)
qed

text \<open>The clock and the random source do not matter.\<close>

lemma store_same_fs:
  assumes "volume_store d r e h" and "h_fs h' = h_fs h" and "h_faults h' = []" and "h_engine h' = e"
  shows "volume_store d r e h'" and "volume_names d h' = volume_names d h"
  using assms by (auto simp: volume_store_def volume_names_def is_volume_def home_def)

lemma sim_create:
  assumes s: "volume_store d r e h"
  obtains h' where "run_call r (CallCreate v) h = (fst (spec_call (busy d r e) (CallCreate v) (volume_names d h)), h')"
    "volume_store d r e h'" "volume_names d h' = snd (spec_call (busy d r e) (CallCreate v) (volume_names d h))"
proof (cases "dockerLocalVolumeDirName v")
  case (Inl err)
  then have "dockerLocalVolumeDirName (TrimSpace v) = Inl err" by (simp add: dockerLocalVolumeDirName_def)
  with s Inl that show thesis
    by (cases "TrimSpace v = []") (simp_all add: CreateVolume_def Let_def bindE_def caseE_def store_paths_invalid)
next
  case (Inr n)
  have n: "dockerLocalVolumeDirName (TrimSpace v) = Inr n" "TrimSpace v = n"
    using Inr dir_name_of_name(1) [OF Inr] by (simp_all add: dockerLocalVolumeDirName_def)
  note f = store_fields [OF s] and nn = dir_name_of_name [OF n(1)]
  note L = Lstat_child [OF f(2,3) nn(4)]
  let ?new = "new_volume r n n (abs_path (d @ [n])) (abs_path (meta_file d n))"
  show thesis
  proof (cases "n \<in> volume_names d h")
    case True
    with s obtain i where "fs_get (h_fs h) (d @ [n]) = Some i" "i_node i = Dir"
      by (auto simp: volume_store_def is_volume_def node_at_def)
    then have "CreateVolume r v h = (Inr \<lparr>rv_VolumeID = n, rv_Name = n\<rparr>, h)"
      using L nn(3) n store_metadata [OF s True]
      by (simp add: CreateVolume_def Let_def bindE_def caseE_def store_paths [OF s s s nn(2)] existing_volume_def)
    with True Inr s that [of h] show thesis by (auto simp: insert_absorb)
  next
    case False
    then have free: "fs_get (h_fs h) (d @ [n]) = None" using nn(5) by (simp add: volume_names_def node_at_def)
    let ?h1 = "fs_put (d @ [n]) (new_inode Dir 493 (h_now h)) h"
    have nM: "d @ [n] \<noteq> d @ [dockerLocalVolumeMetadataDir]" using nn(5) by simp
    have "take k d \<noteq> d @ [n]" for k by (auto dest: arg_cong [of _ _ length])
    then have "node_at (h_fs ?h1) (take k d) = node_at (h_fs h) (take k d)" for k by (simp add: node_at_def)
    then have home: "home d ?h1" using f(7) nM by (simp add: home_def real_dir_def node_at_def)
    have temps: "fs_get (h_fs ?h1) (meta_temp d n k) = None" for k
      using s by (auto simp: volume_store_def node_at_def)
    have meta: "node_at (h_fs ?h1) (meta_file d n) \<noteq> Some Dir"
      using s False by (auto simp: volume_store_def node_at_def)
    obtain h' where w: "writeFileAtomic (abs_path (meta_file d n))
        (cd_metadata (dr_codecs r) (own_metadata n (h_now h)) @ [CHR 0x0A]) 420 ?h1 = (Inr (), h')"
      and put: "put_metadata d n (cd_metadata (dr_codecs r) (own_metadata n (h_now h)) @ [CHR 0x0A]) ?h1 h'"
      using writeFileAtomic_clean [OF _ home nn(4) temps meta] f(2) by (metis host_fields(1))
    have "?new h = (Inr \<lparr>rv_VolumeID = n, rv_Name = n\<rparr>, h')"
      using MkdirAll_new [OF f(2,3) nn(4) free, of 493] w
      by (simp add: new_volume_def Let_def bindE_def caseE_def mapErr_def time_Now_def writeDockerLocalVolumeMetadata_def own_metadata_def)
    then have run: "CreateVolume r v h = (Inr \<lparr>rv_VolumeID = n, rv_Name = n\<rparr>, h')"
      using L free nn(3) n
      by (simp add: CreateVolume_def Let_def bindE_def caseE_def store_paths [OF s s s nn(2)] os_IsNotExist_def)
    have h': "h_faults h' = []" "h_engine h' = e" "wf_map (h_fs h')"
      using put f by (simp_all add: put_metadata_def)
    have nodes: "node_at (h_fs h') p =
      (if p = meta_file d n then Some (File (cd_metadata (dr_codecs r) (own_metadata n (h_now h)) @ [CHR 0x0A]))
       else if p = d @ [dockerLocalVolumeMetadataDir] \<or> p = d @ [n] then Some Dir else node_at (h_fs h) p)" for p
      using put by (simp add: put_metadata_def node_at_def new_inode_def)
    from run Inr that store_add [OF s nn(2) h' nodes] show thesis by simp
  qed
qed

lemma store_delete:
  assumes s: "volume_store d r e h" and v: "dockerLocalVolumeDirName v = Inr n" and n: "n \<in> volume_names d h"
  obtains h' where "bindE (os_RemoveAll (abs_path (d @ [n]))) (\<lambda>u.
      caseE (localVolumeMetadataPath r v) (\<lambda>err. ret True) (\<lambda>metadataPath.
        caseE (os_Remove metadataPath) (\<lambda>err. if \<not> os_IsNotExist err then fail (wrap text err) else ret True) (\<lambda>u. ret True))) h =
      (Inr True, h')"
    "volume_store d r e h'" "volume_names d h' = volume_names d h - {n}"
proof -
  note f = store_fields [OF s] and nn = dir_name_of_name [OF v]
  let ?h1 = "remove_entries (tree_below (h_fs h) (d @ [n])) h"
  have nodes1: "node_at (h_fs ?h1) p = (if prefix (d @ [n]) p then None else node_at (h_fs h) p)" for p
    by (auto simp: node_at_def fs_get_remove_entries)
  have "\<not> prefix (d @ [n]) (take k d)" for k by (auto dest: prefix_length_le)
  then have "node_at (h_fs ?h1) (take k d) = node_at (h_fs h) (take k d)" for k by (simp add: nodes1)
  then have r1: "real_dir (h_fs ?h1) d" using f(3) by (simp add: real_dir_def)
  have v1: "is_volume (dr_codecs r) d h n" using s n by (simp add: volume_store_def)
  then have "real_dir (h_fs ?h1) (d @ [dockerLocalVolumeMetadataDir])"
    using r1 nn(5) by (auto simp: real_dir_snoc nodes1 is_volume_def)
  moreover have "\<not> prefix (d @ [n]) (meta_file d n)" using nn(5) by (simp add: meta_file_def)
  then obtain data where "node_at (h_fs ?h1) (meta_file d n) = Some (File data)"
    using v1 by (auto simp: is_volume_def nodes1)
  ultimately have rm: "os_Remove (abs_path (meta_file d n)) ?h1 = (Inr (), fs_del (meta_file d n) ?h1)"
    using Remove_child [of ?h1 "d @ [dockerLocalVolumeMetadataDir]" "n @ dockerLocalVolumeMetadataSuffix" data] f(2)
      meta_names_plain(1) [OF nn(4)] by (simp add: meta_file_def)
  let ?h' = "fs_del (meta_file d n) ?h1"
  have "h_faults ?h' = []" "h_engine ?h' = e" "wf_map (h_fs ?h')" using f by simp_all
  moreover have "node_at (h_fs ?h') p = (if prefix (d @ [n]) p \<or> p = meta_file d n then None else node_at (h_fs h) p)" for p
    using nodes1 [of p] by (auto simp: node_at_def)
  ultimately have "volume_store d r e ?h'" "volume_names d ?h' = volume_names d h - {n}"
    using store_remove [OF s n] by blast+
  moreover have "localVolumeMetadataPath r v ?h1 = (Inr (abs_path (meta_file d n)), ?h1)"
    using paths_clean [OF f(1) _ r1 v] f(2) by (simp add: localVolumeMetadataPath_def bindE_def caseE_def)
  ultimately show thesis
    using that rm RemoveAll_child [OF f(2,3) nn(4)] by (simp add: bindE_def caseE_def)
qed

lemma sim_delete:
  assumes s: "volume_store d r e h"
  obtains h' where "run_call r (CallDelete v) h = (fst (spec_call (busy d r e) (CallDelete v) (volume_names d h)), h')"
    "volume_store d r e h'" "volume_names d h' = snd (spec_call (busy d r e) (CallDelete v) (volume_names d h))"
proof (cases "dockerLocalVolumeDirName v")
  case (Inl err)
  from dir_name_error [OF Inl store_fields(9) [OF s]] Inl s that [of h] show thesis
    by (simp add: DeleteVolume_def caseE_def store_localVolume_invalid [OF s Inl])
next
  case (Inr n)
  note f = store_fields [OF s]
  show thesis
  proof (cases "n \<in> volume_names d h")
    case False
    have "dk_IsNotFound (dr_client r) (volume_not_found r v)" using f(9) by (simp add: volume_not_found_def errdefs_laws_def)
    with False Inr s that [of h] show thesis by (simp add: DeleteVolume_def caseE_def store_localVolume [OF s Inr])
  next
    case True
    obtain cs where cs: "dk_ContainerList (dr_client r) [] e = (Inr cs, e)" using s by (auto simp: volume_store_def)
    let ?h1 = "h\<lparr>h_engine := e, h_now := h_now h + int (dk_Elapsed (dr_client r) e)\<rparr>"
    have s1: "volume_store d r e ?h1" and n1: "volume_names d ?h1 = volume_names d h"
      by (rule store_same_fs [OF s]; simp add: f)+
    have use: "dockerLocalVolumeInUse r (abs_path (d @ [n])) h = (Inr (busy d r e n), ?h1)"
      using cs f(5) by (simp add: dockerLocalVolumeInUse_def bindE_def caseE_def mapErr_def engine_call_def busy_def)
    have del: "DeleteVolume r v h =
        (if busy d r e n then (Inl (GatewayError 409 (''volume '' @ v @ '' is in use'')), ?h1)
         else bindE (mapErr (wrap (''remove docker local volume '' @ v @ '': '')) (os_RemoveAll (abs_path (d @ [n])))) (\<lambda>u.
               caseE (localVolumeMetadataPath r v) (\<lambda>err. ret True) (\<lambda>metadataPath.
                 caseE (os_Remove metadataPath)
                   (\<lambda>err. if \<not> os_IsNotExist err then fail (wrap (''remove docker local volume metadata '' @ v @ '': '') err) else ret True)
                   (\<lambda>u. ret True))) ?h1)"
      using True by (simp add: DeleteVolume_def caseE_def bindE_def mapErr_def store_localVolume [OF s Inr] use)
    have nm: "n \<in> volume_names d ?h1" using True n1 by simp
    show thesis
    proof (cases "busy d r e n")
      case True
      with del Inr \<open>n \<in> volume_names d h\<close> that [OF _ s1] n1 show thesis by simp
    next
      case False
      obtain h' where "bindE (os_RemoveAll (abs_path (d @ [n]))) (\<lambda>u.
          caseE (localVolumeMetadataPath r v) (\<lambda>err. ret True) (\<lambda>metadataPath.
            caseE (os_Remove metadataPath)
              (\<lambda>err. if \<not> os_IsNotExist err then fail (wrap (''remove docker local volume metadata '' @ v @ '': '') err) else ret True)
              (\<lambda>u. ret True))) ?h1 = (Inr True, h')"
        and h': "volume_store d r e h'" "volume_names d h' = volume_names d ?h1 - {n}"
        by (rule store_delete [OF s1 Inr nm])
      moreover obtain h2 where "os_RemoveAll (abs_path (d @ [n])) ?h1 = (Inr (), h2)"
        using RemoveAll_child [of ?h1 d n] f(2,3) dir_name_of_name(4) [OF Inr] by simp
      ultimately have "DeleteVolume r v h = (Inr True, h')"
        using del False by (simp add: bindE_def caseE_def mapErr_def)
      with that [OF _ h'(1)] h'(2) n1 Inr True False show thesis by simp
    qed
  qed
qed

lemma entries_of_children:
  assumes "wf_map m"
  shows "distinct (map fst (entries_of m d))" and "(n, i) \<in> set (entries_of m d) \<longleftrightarrow> map_of m (d @ [n]) = Some i"
proof -
  let ?F = "filter (\<lambda>(p, i). p \<noteq> [] \<and> butlast p = d) m"
  have f: "map fst (entries_of m d) = map last (map fst ?F)" by (auto simp: entries_of_def)
  have "distinct (map fst ?F)" using assms by (simp add: distinct_map_filter)
  moreover have "inj_on last (set (map fst ?F))"
    by (rule inj_onI) (auto, metis append_butlast_last_id)
  ultimately show "distinct (map fst (entries_of m d))" unfolding f by (simp only: distinct_map [of last] simp_thms)
  have "(n, i) \<in> set (entries_of m d) \<longleftrightarrow> (d @ [n], i) \<in> set m"
  proof
    assume "(n, i) \<in> set (entries_of m d)"
    then obtain p where "(p, i) \<in> set m" "p \<noteq> []" "butlast p = d" "last p = n" by (auto simp: entries_of_def)
    then show "(d @ [n], i) \<in> set m" using append_butlast_last_id [of p] by simp
  next
    assume "(d @ [n], i) \<in> set m"
    then have "(d @ [n], i) \<in> set ?F" by simp
    then show "(n, i) \<in> set (entries_of m d)" unfolding entries_of_def set_map by (rule rev_image_eqI) simp
  qed
  then show "(n, i) \<in> set (entries_of m d) \<longleftrightarrow> map_of m (d @ [n]) = Some i" using map_of_in_set [OF assms] by metis
qed

lemma valid_name_not_reserved: "dockerLocalVolumeDirName n = Inr n \<Longrightarrow> \<not> isDockerLocalVolumeReservedName n"
  by (auto simp: dockerLocalVolumeDirName_def Let_def split: if_splits)

lemma metadata_dir_reserved: "isDockerLocalVolumeReservedName dockerLocalVolumeMetadataDir"
  by code_simp

lemma list_volumes_clean:
  assumes s: "volume_store d r e h"
    and es: "\<forall>(n, i) \<in> set es. fs_get (h_fs h) (d @ [n]) = Some i"
  shows "list_volumes (dr_codecs r) (abs_path d) es h =
    (Inr (map (\<lambda>n. \<lparr>rv_VolumeID = n, rv_Name = n\<rparr>) (filter (\<lambda>n. n \<noteq> dockerLocalVolumeMetadataDir) (map fst es))), h)"
  using es
proof (induction es)
  case (Cons x es)
  obtain n i where x: "x = (n, i)" by (cases x)
  have n: "fs_get (h_fs h) (d @ [n]) = Some i" using Cons.prems x by simp
  show ?case
  proof (cases "n = dockerLocalVolumeMetadataDir")
    case True
    with Cons metadata_dir_reserved x show ?thesis by simp
  next
    case False
    then have m: "n \<in> volume_names d h" using n by (simp add: volume_names_def node_at_def)
    then have v: "is_volume (dr_codecs r) d h n" using s by (simp add: volume_store_def)
    then have dn: "dockerLocalVolumeDirName n = Inr n" and "i_node i = Dir" using n by (auto simp: is_volume_def node_at_def)
    have "path_Join [abs_path d, dockerLocalVolumeMetadataDir, n @ dockerLocalVolumeMetadataSuffix] = abs_path (meta_file d n)"
      using path_Join_abs [OF store_fields(4) [OF s], of "[dockerLocalVolumeMetadataDir, n @ dockerLocalVolumeMetadataSuffix]"]
        meta_names_plain(1) [OF dir_name_plain [OF dn]] by (simp add: meta_file_def)
    with Cons valid_name_not_reserved [OF dn] x \<open>i_node i = Dir\<close> False store_metadata [OF s m] show ?thesis
      by (simp add: Let_def caseE_def bindE_def)
  qed
qed simp

lemma sim_list:
  assumes s: "volume_store d r e h"
  shows "run_call r CallList h = (fst (spec_call (busy d r e) CallList (volume_names d h)), h)"
proof -
  note f = store_fields [OF s]
  have root: "ensureLocalVolumeRoot r h = (Inr (abs_path d), h)"
    using f MkdirAll_there [OF f(2,3), of 493]
    by (simp add: ensureLocalVolumeRoot_def volumes_at_def Let_def bindE_def caseE_def mapErr_def)
  let ?es = "sort_key fst (entries_of (h_fs h) d)"
  have "node_at (h_fs h) d = Some Dir" using f(3) by (auto simp: real_dir_def dest: spec [of _ "length d"])
  then have dir: "os_ReadDir (abs_path d) h = (Inr ?es, h)"
    using host_path_self [OF f(3), of True] f(2) by (simp add: os_ReadDir_def syscall_clean at_path_def)
  note E = entries_of_children(1) [OF f(6), of d] entries_of_children(2) [OF f(6), where d = d]
  have es: "\<forall>(n, i) \<in> set ?es. fs_get (h_fs h) (d @ [n]) = Some i" by (auto simp: E(2) fs_get_def)
  let ?ns = "filter (\<lambda>n. n \<noteq> dockerLocalVolumeMetadataDir) (map fst ?es)"
  let ?vs = "map (\<lambda>n. \<lparr>rv_VolumeID = n, rv_Name = n\<rparr>) ?ns"
  have run: "ListVolumes r h = (Inr (sort_key rv_Name ?vs), h)"
    by (simp add: ListVolumes_def bindE_def caseE_def mapErr_def root dir list_volumes_clean [OF s es])
  have "mset (map fst ?es) = mset (map fst (entries_of (h_fs h) d))" by simp
  then have "distinct (map fst ?es)" using E(1) mset_eq_imp_distinct_iff by blast
  then have d: "distinct ?ns" by (rule distinct_filter)
  have set: "set ?ns = volume_names d h"
    using E(2) by (force simp: volume_names_def node_at_def fs_get_def)
  have "map rv_VolumeID (sort_key rv_Name ?vs) = sort ?ns"
  proof (rule properties_for_sort [symmetric])
    show "mset (map rv_VolumeID (sort_key rv_Name ?vs)) = mset ?ns" by (simp add: image_mset.compositionality comp_def)
    have "\<forall>v \<in> set (sort_key rv_Name ?vs). rv_VolumeID v = rv_Name v" by auto
    then have "map rv_VolumeID (sort_key rv_Name ?vs) = map rv_Name (sort_key rv_Name ?vs)" by simp
    then show "sorted (map rv_VolumeID (sort_key rv_Name ?vs))" by (simp only: sorted_sort_key)
  qed
  also have "\<dots> = sorted_list_of_set (volume_names d h)"
    using d set sorted_list_of_set_sort_remdups [of ?ns] by (simp add: distinct_remdups_id)
  finally show ?thesis by (simp add: run)
qed

section \<open>The refinement\<close>

interpretation volumes: simulation "run_call r" "spec_call (busy d r e)" "volume_names d" "volume_store d r e"
  for r :: "'e docker_runtime" and d e
proof
  fix h h' :: "'e host" and q a
  assume s: "volume_store d r e h" and run: "run_call r q h = (a, h')"
  have "volume_store d r e h' \<and> fst (spec_call (busy d r e) q (volume_names d h)) = a \<and>
    snd (spec_call (busy d r e) q (volume_names d h)) = volume_names d h'"
  proof (cases q)
    case (CallCreate v)
    obtain h1 where "run_call r (CallCreate v) h = (fst (spec_call (busy d r e) (CallCreate v) (volume_names d h)), h1)"
      "volume_store d r e h1" "volume_names d h1 = snd (spec_call (busy d r e) (CallCreate v) (volume_names d h))"
      by (rule sim_create [OF s])
    with run CallCreate show ?thesis by simp
  next
    case (CallGet v)
    with sim_get [OF s, of v] run s show ?thesis by (cases "dockerLocalVolumeDirName v") auto
  next
    case (CallDelete v)
    obtain h1 where "run_call r (CallDelete v) h = (fst (spec_call (busy d r e) (CallDelete v) (volume_names d h)), h1)"
      "volume_store d r e h1" "volume_names d h1 = snd (spec_call (busy d r e) (CallDelete v) (volume_names d h))"
      by (rule sim_delete [OF s])
    with run CallDelete show ?thesis by simp
  next
    case CallList
    with sim_list [OF s] run s show ?thesis by auto
  qed
  then show "volume_store d r e h' \<and> spec_call (busy d r e) q (volume_names d h) = (a, volume_names d h')"
    by (metis prod.collapse)
qed

end
