(* ===== verification/DockerDemo.thy ===== *)
theory DockerDemo
  imports DockerRuntime
begin

text \<open>
  A concrete Docker daemon and codecs for the properties to be applied to. The daemon keeps the ids
  of its containers; whether a container starts and is healthy is a parameter. The codecs write every
  character behind a dot and end a field with a bar.
\<close>

section \<open>Codecs\<close>

fun enc_string :: "string \<Rightarrow> string" where
  "enc_string [] = ''|''"
| "enc_string (c # s) = CHR ''.'' # c # enc_string s"

fun dec_string :: "string \<Rightarrow> string \<times> string" where
  "dec_string (x # c # s) = (if x = CHR ''.'' then (case dec_string s of (t, r) \<Rightarrow> (c # t, r)) else ([], c # s))"
| "dec_string s = ([], drop 1 s)"

lemma dec_enc_string [simp]: "dec_string (enc_string s @ r) = (s, r)"
  by (induction s) (cases r; simp)+

fun enc_nat :: "nat \<Rightarrow> string" where
  "enc_nat 0 = ''|''"
| "enc_nat (Suc n) = CHR ''1'' # enc_nat n"

fun dec_nat :: "string \<Rightarrow> nat \<times> string" where
  "dec_nat (c # s) = (if c = CHR ''1'' then (case dec_nat s of (n, r) \<Rightarrow> (Suc n, r)) else (0, s))"
| "dec_nat [] = (0, [])"

lemma dec_enc_nat [simp]: "dec_nat (enc_nat n @ r) = (n, r)"
  by (induction n) simp_all

definition enc_int :: "int \<Rightarrow> string" where
  "enc_int i = (if i < 0 then ''-'' else ''+'') @ enc_nat (nat \<bar>i\<bar>)"

definition dec_int :: "string \<Rightarrow> int \<times> string" where
  "dec_int s = (case dec_nat (drop 1 s) of (n, r) \<Rightarrow> (if take 1 s = ''-'' then - int n else int n, r))"

lemma dec_enc_int [simp]: "dec_int (enc_int i @ r) = (i, r)"
  by (auto simp: dec_int_def enc_int_def)

fun enc_strings :: "string list \<Rightarrow> string" where
  "enc_strings [] = ''|''"
| "enc_strings (s # ss) = CHR '','' # enc_string s @ enc_strings ss"

fun dec_strings :: "nat \<Rightarrow> string \<Rightarrow> string list" where
  "dec_strings 0 s = []"
| "dec_strings (Suc n) s =
     (if take 1 s = '','' then (case dec_string (drop 1 s) of (t, r) \<Rightarrow> t # dec_strings n r) else [])"

lemma dec_enc_strings: "length ss \<le> n \<Longrightarrow> dec_strings n (enc_strings ss @ r) = ss"
  by (induction ss arbitrary: n) (case_tac n; simp)+

lemma enc_strings_long: "length ss \<le> length (enc_strings ss)"
  by (induction ss) simp_all

text \<open>A text between angle brackets has no white space around it.\<close>

definition bracketed :: "string \<Rightarrow> string" where
  "bracketed s = CHR ''<'' # s @ ''>''"

definition unbracketed :: "string \<Rightarrow> string" where
  "unbracketed s = butlast (tl s)"

lemma unbracketed [simp]: "unbracketed (bracketed s) = s"
  by (simp add: unbracketed_def bracketed_def)

lemma TrimSpace_bracketed [simp]: "TrimSpace (bracketed s) = bracketed s"
  by (rule TrimSpace_id) (simp_all add: bracketed_def space_words_def)

lemma bracketed_not_Nil [simp]: "bracketed s \<noteq> []"
  by (simp add: bracketed_def)

fun pairs_of :: "string list \<Rightarrow> (string \<times> string) list" where
  "pairs_of (k # v # r) = (k, v) # pairs_of r"
| "pairs_of s = []"

fun mounts_of :: "string list \<Rightarrow> volume_mount list" where
  "mounts_of (a # b # c # d # r) = \<lparr>vm_Name = a, vm_Path = b, vm_VolumeID = c, vm_MountPath = d\<rparr> # mounts_of r"
| "mounts_of s = []"

definition demo_codecs :: codecs where
  "demo_codecs =
     \<lparr>cd_metadata = (\<lambda>v. enc_string (md_VolumeID v) @ enc_string (md_Name v) @ (if md_Managed v then ''t'' else ''f'') @ enc_int (md_CreatedAt v)),
      cd_read_metadata = (\<lambda>s. case dec_string s of (i, s) \<Rightarrow> case dec_string s of (n, s) \<Rightarrow>
        (case dec_int (drop 1 s) of (t, r) \<Rightarrow>
           if r = [CHR 0x0A] then Inr \<lparr>md_VolumeID = i, md_Name = n, md_Managed = (take 1 s = ''t''), md_CreatedAt = t\<rparr>
           else Inl (ErrorString ''invalid metadata''))),
      cd_map = (\<lambda>m. bracketed (enc_strings (concat (map (\<lambda>(k, v). [k, v]) m)))),
      cd_read_map = (\<lambda>s. Inr (pairs_of (dec_strings (length s) (unbracketed s)))),
      cd_mounts = (\<lambda>ms. bracketed (enc_strings (concat (map (\<lambda>m. [vm_Name m, vm_Path m, vm_VolumeID m, vm_MountPath m]) ms)))),
      cd_read_mounts = (\<lambda>s. Inr (mounts_of (dec_strings (length s) (unbracketed s)))),
      cd_time = (\<lambda>t. bracketed (enc_int t)),
      cd_read_time = (\<lambda>s. Inr (fst (dec_int (unbracketed s))))\<rparr>"

lemma pairs_of_concat: "pairs_of (concat (map (\<lambda>(k, v). [k, v]) m)) = m"
  by (induction m) auto

lemma mounts_of_concat: "mounts_of (concat (map (\<lambda>m. [vm_Name m, vm_Path m, vm_VolumeID m, vm_MountPath m]) ms)) = ms"
  by (induction ms) auto

lemma dec_bracketed_strings: "dec_strings (length (bracketed (enc_strings ss))) (enc_strings ss) = ss"
  using dec_enc_strings [of ss "length (bracketed (enc_strings ss))" "[]"] enc_strings_long [of ss]
  by (simp add: bracketed_def)

lemma demo_codec_laws: "codec_laws demo_codecs"
  using dec_enc_int [of _ "[]"] dec_enc_int [of _ "[CHR 0x0A]"]
  by (auto simp: codec_laws_def demo_codecs_def dec_bracketed_strings pairs_of_concat mounts_of_concat)

section \<open>The daemon\<close>

primrec demo_IsNotFound :: "go_error \<Rightarrow> bool" where
  "demo_IsNotFound (GatewayError st msg) = False"
| "demo_IsNotFound (Sentinel msg) = False"
| "demo_IsNotFound (Wrapf pre e post) = demo_IsNotFound e"
| "demo_IsNotFound (Marked kind e) = (kind = ''NotFound'' \<or> demo_IsNotFound e)"
| "demo_IsNotFound (CodedError code msg text) = False"
| "demo_IsNotFound (ErrorString msg) = False"

definition demo_image :: image_inspect where
  "demo_image = \<lparr>ii_ID = ''sha256:0123456789abcdef'', ii_Os = ''linux'', ii_Architecture = ''amd64'', ii_Variant = [],
     ii_Labels = None, ii_ExposedPorts = Some [''8080/tcp''], ii_Created = [], ii_Size = 1048576\<rparr>"

definition demo_container :: "string \<Rightarrow> (string, string) gomap \<Rightarrow> container_json" where
  "demo_container c labels =
     \<lparr>cj_ID = c, cj_Name = ''/e2b-'' @ c, cj_Created = [], cj_State = Some \<lparr>st_Paused = False, st_Running = True\<rparr>,
      cj_Labels = Some labels, cj_Mounts = [],
      cj_NetworkSettings = \<lparr>ns_Ports = [(dockerEnvdNatPort, [\<lparr>pb_HostIP = ''127.0.0.1'', pb_HostPort = ''32768''\<rparr>])],
        ns_IPAddress = ''172.17.0.2'', ns_Networks = []\<rparr>\<rparr>"

type_synonym demo_engine = "(string \<times> (string, string) gomap) list"

definition demo_client :: "bool \<Rightarrow> bool \<Rightarrow> demo_engine docker_client" where
  "demo_client starts healthy =
     \<lparr>dk_ContainerCreate = (\<lambda>spec e. if ''c1'' \<in> set (map fst e) then (Inl (Marked ''Conflict'' (ErrorString ''name in use'')), e)
                                     else (Inr ''c1'', (''c1'', sp_Labels spec) # e)),
      dk_ContainerStart = (\<lambda>c e. (if starts then Inr () else Inl (ErrorString ''no space''), e)),
      dk_ContainerRemove = (\<lambda>c e. (Inr (), filter (\<lambda>x. fst x \<noteq> c) e)),
      dk_ContainerPause = (\<lambda>c e. (Inr (), e)),
      dk_ContainerUnpause = (\<lambda>c e. (Inr (), e)),
      dk_ContainerInspect = (\<lambda>c e. (case map_of e c of None \<Rightarrow> Inl (Marked ''NotFound'' (ErrorString ''no such container''))
                                     | Some labels \<Rightarrow> Inr (demo_container c labels), e)),
      dk_ContainerList = (\<lambda>f e. (Inr (map (\<lambda>(c, labels). \<lparr>cs_ID = c, cs_Names = [''/e2b-'' @ c], cs_Image = ''base:latest'',
                                    cs_Labels = labels, cs_Mounts = []\<rparr>) e), e)),
      dk_ContainerLogs = (\<lambda>c opts e. (Inr (Inr ([], [])), e)),
      dk_RawLogs = (\<lambda>c opts e. (Inr ''envd: exit'', e)),
      dk_ContainerStats = (\<lambda>c e. (Inl (ErrorString ''no stats''), e)),
      dk_ContainerCommit = (\<lambda>c opts e. (Inr (), e)),
      dk_ContainerExec = (\<lambda>c cmd e. (Inr (([], []), 0), e)),
      dk_ImageList = (\<lambda>all f e. (Inr [\<lparr>im_ID = ''sha256:0123456789abcdef'', im_RepoTags = [''base:latest''], im_Labels = [],
                                  im_Created = 0, im_Size = 1048576, im_Containers = 0\<rparr>], e)),
      dk_ImageInspect = (\<lambda>ref e. (Inr demo_image, e)),
      dk_ImageBuild = (\<lambda>ctx opts e. (Inr [], e)),
      dk_HealthGet = (\<lambda>url e. (Inr (if healthy then 204 else 503), e)),
      dk_RequestError = (\<lambda>url. None),
      dk_CPUUsedPct = (\<lambda>s. 0),
      dk_Elapsed = (\<lambda>e. 0),
      dk_NotFound = Marked ''NotFound'',
      dk_IsNotFound = demo_IsNotFound,
      dk_IsConflict = (\<lambda>e. False)\<rparr>"

lemma demo_errdefs_laws: "errdefs_laws (demo_client starts healthy)"
  by (simp add: errdefs_laws_def demo_client_def)

definition demo_cfg :: docker_config where
  "demo_cfg = \<lparr>dc_Host = [], dc_Platform = [], dc_ContainerNamePrefix = ''e2b-'', dc_EnvdBinary = ''/envd'',
     dc_EnableFUSE = False, dc_PublishedPorts = [3000], dc_PublishedHostIP = [], dc_HealthTimeoutSeconds = 2,
     dc_VolumeHostPath = ''/vol''\<rparr>"

definition demo_docker :: "bool \<Rightarrow> bool \<Rightarrow> demo_engine docker_runtime" where
  "demo_docker starts healthy =
     \<lparr>dr_cfg = demo_cfg, dr_client = demo_client starts healthy, dr_codecs = demo_codecs, dr_goos = ''linux''\<rparr>"

definition demo_host :: "demo_engine host" where
  "demo_host = \<lparr>h_fs = [([''vol''], new_inode Dir 493 0), ([''envd''], new_inode (File ''ELF'') 493 0)],
     h_faults = [], h_names = [], h_now = unix_epoch, h_engine = []\<rparr>"

lemmas demo_docker_defs = demo_docker_def demo_client_def demo_cfg_def demo_host_def demo_image_def demo_container_def

end
