(* ===== verification/DockerProofs.thy ===== *)
theory DockerProofs
  imports DockerDemo VolumeSafety
begin

text \<open>
  Lemmas on the pure parts of the Docker backend: image names, ports, build contexts and labels.
\<close>

section \<open>Image names\<close>

text \<open>A component of an image reference: letters and digits in groups separated by single dashes.\<close>

definition clean_component :: "string \<Rightarrow> bool" where
  "clean_component s \<longleftrightarrow> list_all (\<lambda>c. image_char c \<or> c = CHR ''-'') s \<and>
     (s \<noteq> [] \<longrightarrow> image_char (hd s) \<and> image_char (last s)) \<and> (\<nexists>a b. s = a @ ''--'' @ b)"

definition no_double :: "string \<Rightarrow> bool" where
  "no_double s \<longleftrightarrow> (\<forall>i. Suc i < length s \<longrightarrow> \<not> (s ! i = CHR ''-'' \<and> s ! Suc i = CHR ''-''))"

lemma dash_not_image [simp]: "\<not> image_char CHR ''-''"
  by (simp add: image_char_def)

lemma no_double_iff: "no_double s \<longleftrightarrow> (\<nexists>a b. s = a @ ''--'' @ b)"
proof
  assume n: "no_double s"
  show "\<nexists>a b. s = a @ ''--'' @ b"
  proof
    assume "\<exists>a b. s = a @ ''--'' @ b"
    then obtain a b where "s = a @ ''--'' @ b" by blast
    with n [unfolded no_double_def, rule_format, of "length a"] show False by (simp add: nth_append)
  qed
next
  assume a: "\<nexists>a b. s = a @ ''--'' @ b"
  show "no_double s"
    unfolding no_double_def
  proof (intro allI impI notI)
    fix i
    assume "Suc i < length s" "s ! i = CHR ''-'' \<and> s ! Suc i = CHR ''-''"
    then have "s = take i s @ ''--'' @ drop (Suc (Suc i)) s"
      by (metis Cons_nth_drop_Suc Suc_lessD append_Cons append_Nil append_take_drop_id)
    with a show False by blast
  qed
qed

lemma no_double_Nil: "no_double []"
  by (simp add: no_double_def)

lemma no_double_Cons: "no_double (c # s) \<longleftrightarrow> no_double s \<and> \<not> (c = CHR ''-'' \<and> s \<noteq> [] \<and> hd s = CHR ''-'')"
  by (cases s) (auto simp: no_double_def nth_Cons split: nat.splits)

lemma no_double_append: "no_double (s @ t) \<Longrightarrow> no_double s \<and> no_double t"
  by (auto simp: no_double_iff) (metis append.assoc)+

text \<open>The loop, with what it has written so far kept in reverse.\<close>

lemma safe_component_loop_ok:
  assumes "list_all (\<lambda>c. image_char c \<or> c = CHR ''-'') b" and "no_double b"
    and "b \<noteq> [] \<Longrightarrow> image_char (last b)" and "b \<noteq> [] \<Longrightarrow> lastDash \<longleftrightarrow> hd b = CHR ''-''"
  shows "list_all (\<lambda>c. image_char c \<or> c = CHR ''-'') (safe_component_loop b lastDash s) \<and>
    no_double (rev (safe_component_loop b lastDash s)) \<and>
    (safe_component_loop b lastDash s \<noteq> [] \<longrightarrow> image_char (hd (safe_component_loop b lastDash s)))"
  using assms
proof (induction b lastDash s rule: safe_component_loop.induct)
  case (1 b lastDash)
  then show ?case by (auto simp: list_all_iff hd_rev)
next
  case (2 b lastDash c s)
  consider (char) "image_char c" | (skip) "\<not> image_char c" "b = [] \<or> lastDash" | (dash) "\<not> image_char c" "b \<noteq> []" "\<not> lastDash"
    by blast
  then show ?case
  proof cases
    case char
    then have "c \<noteq> CHR ''-''" by auto
    with char "2.prems" "2.IH"(1) [OF char] show ?thesis by (simp add: no_double_Cons)
  next
    case skip
    with "2.prems" "2.IH"(2) show ?thesis by simp
  next
    case dash
    with "2.prems" "2.IH"(3) show ?thesis by (simp add: no_double_Cons)
  qed
qed

lemma no_double_rev: "no_double (rev s) \<longleftrightarrow> no_double s"
proof -
  have "no_double s \<Longrightarrow> no_double (rev s)" for s
    unfolding no_double_iff
  proof (rule notI, elim exE)
    fix a b
    assume n: "\<nexists>a b. s = a @ ''--'' @ b" and "rev s = a @ ''--'' @ b"
    from arg_cong [OF this(2), of rev] have "s = rev b @ ''--'' @ rev a" by simp
    with n show False by blast
  qed
  from this [of s] this [of "rev s"] show ?thesis by auto
qed

lemma hd_of_append: "m = t @ z \<Longrightarrow> t \<noteq> [] \<Longrightarrow> hd m = hd t"
  by simp

lemma trim_dash_ok:
  assumes "list_all (\<lambda>c. image_char c \<or> c = CHR ''-'') s" and "no_double s"
  shows "clean_component (trim_char CHR ''-'' s)"
proof -
  let ?p = "\<lambda>x. x = CHR ''-''"
  let ?m = "dropWhile ?p s" and ?t = "trim_char CHR ''-'' s"
  have "s = takeWhile ?p s @ ?m" by simp
  moreover have mt: "?m = ?t @ rev (takeWhile ?p (rev ?m))"
    unfolding trim_char_def by (metis rev_append rev_rev_ident takeWhile_dropWhile_id)
  ultimately obtain a b where ab: "s = a @ ?t @ b" by metis
  then have all: "list_all (\<lambda>c. image_char c \<or> c = CHR ''-'') ?t" using assms(1) by (metis list_all_append)
  have "no_double ?t" using ab assms(2) no_double_append by metis
  moreover have "?t \<noteq> [] \<Longrightarrow> last ?t \<noteq> CHR ''-''"
    using hd_dropWhile [of ?p "rev ?m"] by (auto simp: trim_char_def last_rev)
  moreover have "hd ?t \<noteq> CHR ''-''" if ne: "?t \<noteq> []"
  proof -
    have "hd ?m = hd ?t" using mt ne by (rule hd_of_append)
    moreover have "?m \<noteq> []" using ne unfolding trim_char_def by (metis dropWhile.simps(1) rev.simps(1))
    then have "hd ?m \<noteq> CHR ''-''" by (rule hd_dropWhile)
    ultimately show ?thesis by simp
  qed
  ultimately show ?thesis
    unfolding clean_component_def no_double_iff list_all_iff
    using all [unfolded list_all_iff] hd_in_set [of ?t] last_in_set [of ?t] by blast
qed

lemma safe_component_clean: "clean_component (dockerSafeImageComponent v) \<and> length (dockerSafeImageComponent v) \<le> 96"
proof -
  let ?l = "safe_component_loop [] False (lower_utf8 (TrimSpace v))"
  have l: "list_all (\<lambda>c. image_char c \<or> c = CHR ''-'') ?l" "no_double ?l"
    using safe_component_loop_ok [of "[]" False "lower_utf8 (TrimSpace v)"] no_double_Nil by (simp_all add: no_double_rev)
  let ?r = "trim_char CHR ''-'' ?l"
  have r: "clean_component ?r" by (rule trim_dash_ok [OF l])
  have rt: "clean_component (trim_char CHR ''-'' (take 96 ?r))"
  proof (intro trim_dash_ok)
    show "no_double (take 96 ?r)"
      using no_double_append [of "take 96 ?r" "drop 96 ?r"] r by (simp add: clean_component_def no_double_iff)
  qed (use r in \<open>auto simp: clean_component_def list_all_iff dest: in_set_takeD\<close>)
  have "length (trim_char c s) \<le> length s" for c s
    using length_dropWhile_le [of "\<lambda>x. x = c" "rev (dropWhile (\<lambda>x. x = c) s)"] length_dropWhile_le [of "\<lambda>x. x = c" s]
    by (simp add: trim_char_def)
  from this [of "CHR ''-''" "take 96 ?r"] have "length (trim_char CHR ''-'' (take 96 ?r)) \<le> 96" by simp
  with r rt show ?thesis
    by (auto simp: dockerSafeImageComponent_def Let_def clean_component_def)
qed

text \<open>A clean component is left as it is.\<close>

lemma strip_word_heads: "list_all (\<lambda>w. w = [] \<or> \<not> P (hd w)) ws \<Longrightarrow> P c \<Longrightarrow> strip_word ws (c # s) = None"
proof (induction ws)
  case (Cons w ws)
  then show ?case by (cases w) auto
qed simp

lemma strip_word_image: "image_char c \<Longrightarrow> strip_word space_words (c # s) = None"
  by (rule strip_word_heads [of image_char]) code_simp

lemma strip_word_image_rev: "image_char c \<Longrightarrow> strip_word (map rev space_words) (c # s) = None"
  by (rule strip_word_heads [of image_char]) code_simp

lemma TrimSpace_clean:
  assumes "clean_component s" shows "TrimSpace s = s"
proof (cases "s = []")
  case False
  with assms have i: "image_char (hd s)" "image_char (last s)" by (simp_all add: clean_component_def)
  have "s = hd s # tl s" and "rev s = last s # tl (rev s)"
    using False by simp (metis False hd_rev list.collapse rev_is_Nil_conv)
  with i strip_word_image strip_word_image_rev show ?thesis by (intro TrimSpace_id) metis+
qed simp

lemma lower_char_image: "image_char c \<Longrightarrow> lower_char c = c"
  by (auto simp: image_char_def lower_char_def less_eq_char_def)

lemma lower_utf8_clean: "list_all (\<lambda>c. image_char c \<or> c = CHR ''-'') s \<Longrightarrow> lower_utf8 s = s"
proof (induction s rule: lower_utf8.induct)
  case (2 c s)
  then have "c \<noteq> CHR 0xC4" "c \<noteq> CHR 0xE2" by (auto simp: image_char_def)
  moreover have "lower_char c = c" using "2.prems" by (auto simp: lower_char_image) (simp add: lower_char_def)
  ultimately show ?case using "2.IH"(3) "2.prems" by simp
qed simp

lemma safe_component_loop_id:
  assumes "list_all (\<lambda>c. image_char c \<or> c = CHR ''-'') s" and "no_double s"
    and "b = [] \<Longrightarrow> s \<noteq> [] \<Longrightarrow> hd s \<noteq> CHR ''-''" and "lastDash \<Longrightarrow> s \<noteq> [] \<Longrightarrow> hd s \<noteq> CHR ''-''"
  shows "safe_component_loop b lastDash s = rev b @ s"
  using assms
proof (induction b lastDash s rule: safe_component_loop.induct)
  case (2 b lastDash c s)
  show ?case
  proof (cases "image_char c")
    case True
    with 2 show ?thesis by (auto simp: no_double_Cons)
  next
    case False
    with "2.prems" have "c = CHR ''-''" "b \<noteq> []" "\<not> lastDash" by auto
    with False "2.IH"(3) "2.prems" show ?thesis by (auto simp: no_double_Cons)
  qed
qed simp

lemma trim_char_id: "s = [] \<or> hd s \<noteq> c \<and> last s \<noteq> c \<Longrightarrow> trim_char c s = s"
proof -
  assume s: "s = [] \<or> hd s \<noteq> c \<and> last s \<noteq> c"
  then have "dropWhile (\<lambda>x. x = c) s = s" by (cases s) auto
  moreover have "dropWhile (\<lambda>x. x = c) (rev s) = rev s" using s by (cases s rule: rev_cases) auto
  ultimately show ?thesis by (simp add: trim_char_def)
qed

lemma safe_component_fixed:
  assumes "clean_component s" and "length s \<le> 96" shows "dockerSafeImageComponent s = s"
proof -
  have l: "list_all (\<lambda>c. image_char c \<or> c = CHR ''-'') s" "no_double s"
    and e: "s \<noteq> [] \<Longrightarrow> hd s \<noteq> CHR ''-'' \<and> last s \<noteq> CHR ''-''"
    using assms(1) dash_not_image by (auto simp: clean_component_def no_double_iff)
  then have "safe_component_loop [] False s = s" by (subst safe_component_loop_id) auto
  with e assms trim_char_id [of s "CHR ''-''"] show ?thesis
    by (auto simp: dockerSafeImageComponent_def TrimSpace_clean lower_utf8_clean [OF l(1)] Let_def)
qed

section \<open>Ports\<close>

definition published_port :: "int \<Rightarrow> bool" where
  "published_port p \<longleftrightarrow> 0 < p \<and> p \<le> 65535 \<and> p \<noteq> dockerEnvdPort"

lemma dedupe_ports_Cons:
  "dedupe_ports seen (p # ps) =
    (if published_port p \<and> p \<notin> set seen then p # dedupe_ports (p # seen) ps else dedupe_ports seen ps)"
  by (auto simp: published_port_def)

lemma dedupe_ports_set:
  "set (dedupe_ports seen ports) = {p \<in> set ports. published_port p} - set seen \<and> distinct (dedupe_ports seen ports)"
proof (induction ports arbitrary: seen)
  case (Cons p ps)
  from Cons.IH [of seen] Cons.IH [of "p # seen"] show ?case
    unfolding dedupe_ports_Cons by auto
qed simp

lemma normalized_ports:
  "normalizeDockerPublishedPorts ports = sorted_list_of_set {p \<in> set ports. published_port p}"
proof -
  have "sorted_list_of_set (set (dedupe_ports [] ports)) = sort (remdups (dedupe_ports [] ports))"
    by (rule sorted_list_of_set_sort_remdups)
  with dedupe_ports_set [of "[]" ports] show ?thesis
    by (simp add: normalizeDockerPublishedPorts_def distinct_remdups_id)
qed

lemma index_char_append: "c \<notin> set s \<Longrightarrow> index_char c (s @ c # t) = Some (length s)"
  by (induction s) auto

lemma parse_nat_port:
  assumes "0 < p" and "p \<le> 65535"
  shows "parseDockerNatPort (dockerTCPNatPort p) = Some (p, ''tcp'')"
proof -
  let ?d = "nat_digits (nat p)"
  have d: "Itoa p = ?d" using assms by (simp add: Itoa_def)
  have "CHR ''/'' \<notin> set ?d" using nat_digits_chars [of "nat p"] by auto
  then have i: "index_char CHR ''/'' (?d @ ''/tcp'') = Some (length ?d)"
    by (simp add: index_char_append)
  have a: "Atoi ?d = Some p"
    using ParseInt_print [of 10 "nat p"] assms by (simp add: Atoi_def digits_base_10)
  have "lower_utf8 (TrimSpace ''tcp'') = ''tcp''" by code_simp
  with i a assms show ?thesis by (simp add: parseDockerNatPort_def dockerTCPNatPort_def d Let_def)
qed

lemma tcp_ports_roundtrip:
  "\<forall>p \<in> set ps. 0 < p \<and> p \<le> 65535 \<Longrightarrow> dockerTCPPortsFromSet (map dockerTCPNatPort ps) = ps"
  by (induction ps) (auto simp: dockerTCPPortsFromSet_def parse_nat_port)

section \<open>The build context\<close>

fun entry_safe :: "context_entry \<Rightarrow> bool" where
  "entry_safe (ContextText name text) \<longleftrightarrow> name = ''Dockerfile''"
| "entry_safe (ContextFile h n) \<longleftrightarrow> safe_parts (Split CHR ''/'' (th_Name h)) \<and> hd (th_Name h) \<noteq> CHR ''/'' \<and>
     (th_Linkname h = [] \<or> safe_parts (Split CHR ''/'' (th_Linkname h)) \<and> hd (th_Linkname h) \<noteq> CHR ''/'')"

lemma context_files_safe: "context_files hash ec bytes evs = (es, err) \<Longrightarrow> list_all entry_safe es"
proof (induction evs arbitrary: ec bytes es err)
  case (Cons ev evs)
  show ?case
  proof (cases ev)
    case (TarEntry h n copyErr)
    with Cons.prems show ?thesis
      by (auto simp: Let_def split: option.splits if_splits prod.splits dest: Cons.IH dest!: safe_name)
  next
    case (TarError e)
    with Cons.prems show ?thesis by simp
  qed
qed simp

text \<open>The stream ends without an error exactly when the upload's check has none.\<close>

lemma context_files_valid: "snd (context_files hash ec bytes evs) = None \<longleftrightarrow> validate_entries hash ec bytes evs = None"
proof (induction evs arbitrary: ec bytes)
  case (Cons ev evs)
  then show ?case
    by (cases ev) (auto simp add: Let_def is_regular_def case_prod_beta split: option.split)
qed simp

lemma append_file_safe: "appendTemplateFileToDockerBuildContext f = (es, err) \<Longrightarrow> list_all entry_safe es"
  by (auto simp: appendTemplateFileToDockerBuildContext_def split: prod.splits archive.splits dest: context_files_safe)

lemma append_files_safe: "append_files fs = (es, err) \<Longrightarrow> list_all entry_safe es"
proof (induction fs arbitrary: es err)
  case (Cons f fs)
  then show ?case by (auto split: prod.splits option.splits dest: append_file_safe)
qed simp

lemma append_file_valid:
  "snd (appendTemplateFileToDockerBuildContext (hash, a)) = None \<longleftrightarrow> validateTemplateArchive a hash = None"
  by (auto simp: appendTemplateFileToDockerBuildContext_def validateTemplateArchive_def context_files_valid split: archive.splits)

lemma append_files_valid:
  "snd (append_files fs) = None \<longleftrightarrow> (\<forall>(hash, a) \<in> set fs. validateTemplateArchive a hash = None)"
proof (induction fs)
  case (Cons f fs)
  obtain hash a where f: "f = (hash, a)" by (cases f)
  show ?case
    using append_file_valid [of hash a] Cons.IH f
    by (cases "appendTemplateFileToDockerBuildContext f") (auto split: prod.splits option.splits)
qed simp

end
