(* ===== verification/LabelProofs.thy ===== *)
theory LabelProofs
  imports DockerProofs
begin

text \<open>
  The labels of a container carry the sandbox's record over a restart of the gateway.
\<close>

section \<open>Reading labels\<close>

lemma drop_blank_read:
  assumes "distinct (map fst ls)"
  shows "map_of (drop_blank_labels ls) k = (case map_of ls k of None \<Rightarrow> None | Some v \<Rightarrow> if TrimSpace v = [] then None else Some v)"
  using assms
proof (induction ls)
  case (Cons l ls)
  obtain k' v where l: "l = (k', v)" by (cases l)
  have "map_of (drop_blank_labels ls) k' = None"
    using Cons.prems l by (auto simp: drop_blank_labels_def map_of_eq_None_iff)
  then show ?case using Cons.IH Cons.prems l by (auto simp: drop_blank_labels_def)
qed (simp add: drop_blank_labels_def)

lemma fold_update_read:
  "map_of (fold (\<lambda>(k, v) m. AList.update k v m) xs m) = map_of m ++ map_of (rev xs)"
  by (induction xs arbitrary: m) (auto simp: update_conv' fun_eq_iff map_add_def split: option.split)

lemma drop_blank_distinct: "distinct (map fst ls) \<Longrightarrow> distinct (map fst (drop_blank_labels ls))"
  by (simp add: drop_blank_labels_def distinct_map_filter)

lemma map_of_rev_distinct: "distinct (map fst ls) \<Longrightarrow> map_of (rev ls) = map_of ls"
proof (induction ls)
  case (Cons l ls)
  then have "map_of ls (fst l) = None" by (simp add: map_of_eq_None_iff)
  with Cons show ?case by (cases l) (auto simp: fun_eq_iff map_add_def split: option.split)
qed simp

lemma container_labels_read:
  assumes "distinct (map fst ls)"
  shows "map_of (dockerContainerLabels ls (Some ls)) = map_of ls"
proof -
  have "map_of (rev (ls @ ls)) = map_of ls"
    using map_of_rev_distinct [OF assms] by (auto simp: fun_eq_iff map_add_def split: option.split)
  then show ?thesis by (simp add: dockerContainerLabels_def fold_update_read)
qed

lemmas label_defs = dockerLocalManagedLabel_def dockerLocalImageLabel_def dockerLocalSandboxIDLabel_def
  dockerLocalSandboxTemplateIDLabel_def dockerLocalSandboxCreatedAtLabel_def dockerLocalSandboxEndAtLabel_def
  dockerLocalSandboxMetadataLabel_def dockerLocalSandboxVolumeMountsLabel_def dockerLocalSandboxAllowInternetLabel_def
  dockerLocalSandboxOnTimeoutLabel_def

text \<open>The labels of a request: those that are always there, then the optional ones.\<close>

definition put_label :: "string \<times> string option \<Rightarrow> (string, string) gomap \<Rightarrow> (string, string) gomap" where
  "put_label l m = (case snd l of None \<Rightarrow> m | Some v \<Rightarrow> AList.update (fst l) v m)"

definition fixed_labels :: "create_request \<Rightarrow> string \<Rightarrow> string \<Rightarrow> (string, string) gomap" where
  "fixed_labels req templateID imageRef =
     [(dockerLocalManagedLabel, ''true''), (dockerLocalImageLabel, imageRef),
      (dockerLocalSandboxIDLabel, cr_SandboxID req), (dockerLocalSandboxTemplateIDLabel, templateID)]"

definition more_labels :: "codecs \<Rightarrow> create_request \<Rightarrow> (string \<times> string option) list" where
  "more_labels cd req =
     [(dockerLocalSandboxCreatedAtLabel, if IsZero (cr_CreatedAt req) then None else Some (cd_time cd (cr_CreatedAt req))),
      (dockerLocalSandboxEndAtLabel, if IsZero (cr_EndAt req) then None else Some (cd_time cd (cr_EndAt req))),
      (dockerLocalSandboxMetadataLabel, if cr_Metadata req = [] then None else Some (cd_map cd (cr_Metadata req))),
      (dockerLocalSandboxVolumeMountsLabel, if cr_VolumeMounts req = [] then None else Some (cd_mounts cd (cr_VolumeMounts req))),
      (dockerLocalSandboxAllowInternetLabel, map_option FormatBool (cr_AllowInternetAccess req)),
      (dockerLocalSandboxOnTimeoutLabel, case Normalize (cr_OnTimeout req) of Inl e \<Rightarrow> None | Inr a \<Rightarrow> Some a)]"

definition raw_labels :: "codecs \<Rightarrow> create_request \<Rightarrow> string \<Rightarrow> string \<Rightarrow> (string, string) gomap" where
  "raw_labels cd req t i = fold put_label (more_labels cd req) (fixed_labels req t i)"

lemma sandbox_labels_raw: "dockerSandboxLabels cd req t i = drop_blank_labels (raw_labels cd req t i)"
  by (cases "cr_AllowInternetAccess req"; cases "Normalize (cr_OnTimeout req)")
    (simp_all add: dockerSandboxLabels_def raw_labels_def more_labels_def fixed_labels_def put_label_def optional_label_def Let_def)

lemma put_labels_distinct: "distinct (map fst m) \<Longrightarrow> distinct (map fst (fold put_label us m))"
  by (induction us arbitrary: m) (simp_all add: put_label_def distinct_update split: option.split)

lemma put_labels_read:
  "distinct (map fst us) \<Longrightarrow> map_of (fold put_label us m) k =
    (case map_of us k of Some (Some v) \<Rightarrow> Some v | Some None \<Rightarrow> map_of m k | None \<Rightarrow> map_of m k)"
proof (induction us arbitrary: m)
  case (Cons u us)
  obtain k' v where u: "u = (k', v)" by (cases u)
  have "map_of us k' = None" using Cons.prems u by (simp add: map_of_eq_None_iff)
  then show ?case
    using Cons u by (cases v) (auto simp: put_label_def update_conv' split: option.split)
qed simp

lemma more_labels_distinct: "distinct (map fst (more_labels cd req))"
  by (simp add: more_labels_def label_defs)

lemma raw_labels_distinct: "distinct (map fst (raw_labels cd req t i))"
  unfolding raw_labels_def by (rule put_labels_distinct) (simp add: fixed_labels_def label_defs)

lemma raw_labels_read:
  "map_of (raw_labels cd req t i) k = (case map_of (more_labels cd req) k of Some (Some v) \<Rightarrow> Some v
     | Some None \<Rightarrow> map_of (fixed_labels req t i) k | None \<Rightarrow> map_of (fixed_labels req t i) k)"
  unfolding raw_labels_def by (rule put_labels_read [OF more_labels_distinct])

text \<open>What a label of the container reads as.\<close>

definition read_label :: "codecs \<Rightarrow> create_request \<Rightarrow> string \<Rightarrow> string \<Rightarrow> string \<Rightarrow> string" where
  "read_label cd req t i k =
     (case map_of (raw_labels cd req t i) k of None \<Rightarrow> [] | Some v \<Rightarrow> if TrimSpace v = [] then [] else v)"

lemma read_label:
  assumes "ls = dockerSandboxLabels cd req t i"
  shows "map_read (dockerContainerLabels ls (Some ls)) k = read_label cd req t i k"
  using drop_blank_read [OF raw_labels_distinct, of cd req t i k]
  by (auto simp: assms sandbox_labels_raw container_labels_read drop_blank_distinct raw_labels_distinct map_read_def read_label_def
      split: option.splits)

lemma read_labels:
  "read_label cd req t i dockerLocalSandboxIDLabel = (if TrimSpace (cr_SandboxID req) = [] then [] else cr_SandboxID req)"
  "read_label cd req t i dockerLocalSandboxTemplateIDLabel = (if TrimSpace t = [] then [] else t)"
  by (simp_all add: read_label_def raw_labels_read fixed_labels_def more_labels_def label_defs)

lemma read_more_labels:
  assumes "map_of (more_labels cd req) k = Some v" and "map_of (fixed_labels req t i) k = None"
  shows "read_label cd req t i k = (case v of None \<Rightarrow> [] | Some x \<Rightarrow> if TrimSpace x = [] then [] else x)"
  using assms by (simp add: read_label_def raw_labels_read split: option.split)

section \<open>The record that comes back\<close>

lemma time_label:
  assumes "codec_laws cd" shows "dockerTimeLabel cd (if TrimSpace (cd_time cd x) = [] then [] else cd_time cd x) fb = x"
  using assms by (simp add: codec_laws_def dockerTimeLabel_def)

lemma map_label:
  assumes "codec_laws cd"
  shows "dockerStringMapLabel cd (if TrimSpace (cd_map cd m) = [] then [] else cd_map cd m) = m"
  using assms by (simp add: codec_laws_def dockerStringMapLabel_def copyStringMap_def)

lemma mounts_label:
  assumes "codec_laws cd" and "map_read ls dockerLocalSandboxVolumeMountsLabel = cd_mounts cd ms"
  shows "dockerVolumeMountsFromLabels cd ls = dockerNormalizeVolumeMounts ms"
  using assms by (simp add: codec_laws_def dockerVolumeMountsFromLabels_def)

lemma bool_label: "dockerBoolPtrLabel (FormatBool b) = Some b" and FormatBool_not_blank: "TrimSpace (FormatBool b) \<noteq> []"
proof -
  have t: "dockerBoolPtrLabel (FormatBool True) = Some True" "dockerBoolPtrLabel (FormatBool False) = Some False"
    "TrimSpace (FormatBool True) \<noteq> []" "TrimSpace (FormatBool False) \<noteq> []"
    by code_simp+
  then show "dockerBoolPtrLabel (FormatBool b) = Some b" and "TrimSpace (FormatBool b) \<noteq> []" by (cases b; simp)+
qed

lemma timeout_actions:
  "TrimSpace SandboxTimeoutActionKill = SandboxTimeoutActionKill" "TrimSpace SandboxTimeoutActionPause = SandboxTimeoutActionPause"
  "SandboxTimeoutActionKill \<noteq> []" "SandboxTimeoutActionPause \<noteq> []"
  "SandboxTimeoutActionKill \<noteq> SandboxTimeoutActionUnspecified" "SandboxTimeoutActionPause \<noteq> SandboxTimeoutActionUnspecified"
  by code_simp+

lemma timeout_label:
  assumes "Normalize a = Inr a'" and "map_read ls dockerLocalSandboxOnTimeoutLabel = a'"
  shows "dockerSandboxTimeoutAction ls = Inr a'"
  using Normalize_range [OF assms(1)] Normalize_normalized [OF assms(1)] assms(2) timeout_actions
  by (auto simp: dockerSandboxTimeoutAction_def)

text \<open>
  The request that made the container: its ids have no white space around them, its times are set,
  and its mounts are those the backend has resolved.
\<close>

definition restorable :: "create_request \<Rightarrow> string \<Rightarrow> bool" where
  "restorable req templateID \<longleftrightarrow>
     cr_SandboxID req \<noteq> [] \<and> TrimSpace (cr_SandboxID req) = cr_SandboxID req \<and>
     templateID \<noteq> [] \<and> TrimSpace templateID = templateID \<and>
     \<not> IsZero (cr_CreatedAt req) \<and> \<not> IsZero (cr_EndAt req) \<and>
     cr_VolumeMounts req \<noteq> [] \<and> dockerNormalizeVolumeMounts (cr_VolumeMounts req) = cr_VolumeMounts req"

definition restored_as :: "create_request \<Rightarrow> string \<Rightarrow> timeout_action \<Rightarrow> sandbox_record \<Rightarrow> bool" where
  "restored_as req templateID onTimeout record \<longleftrightarrow>
     sr_ID record = cr_SandboxID req \<and> sr_TemplateID record = templateID \<and>
     sr_Metadata record = cr_Metadata req \<and> sr_CreatedAt record = cr_CreatedAt req \<and> sr_EndAt record = cr_EndAt req \<and>
     sr_OnTimeout record = onTimeout \<and>
     sr_InternetAccessPolicy record = InternetAccessPolicyFromBoolPtr (cr_AllowInternetAccess req) \<and>
     ri_SandboxID (sr_RuntimeInfo record) = cr_SandboxID req \<and>
     ri_VolumeMounts (sr_RuntimeInfo record) = cr_VolumeMounts req"

lemma record_of_labels:
  assumes cd: "codec_laws cd" and req: "restorable req t" and a: "Normalize (cr_OnTimeout req) = Inr a"
    and ls: "ls = dockerSandboxLabels cd req t i" and info: "ri_SandboxID info = cr_SandboxID req" "ri_VolumeMounts info = cr_VolumeMounts req"
  shows "restored_as req t a (record_from_labels cd summary inspect now (dockerContainerLabels ls (Some ls)) info a)"
proof -
  note L = read_label [OF ls]
  have c: "map_read (dockerContainerLabels ls (Some ls)) dockerLocalSandboxCreatedAtLabel =
      (if TrimSpace (cd_time cd (cr_CreatedAt req)) = [] then [] else cd_time cd (cr_CreatedAt req))"
    using req by (simp add: L read_label_def raw_labels_read more_labels_def restorable_def label_defs)
  have e: "map_read (dockerContainerLabels ls (Some ls)) dockerLocalSandboxEndAtLabel =
      (if TrimSpace (cd_time cd (cr_EndAt req)) = [] then [] else cd_time cd (cr_EndAt req))"
    using req by (simp add: L read_label_def raw_labels_read more_labels_def restorable_def label_defs)
  have t: "map_read (dockerContainerLabels ls (Some ls)) dockerLocalSandboxTemplateIDLabel = t"
    using req by (simp add: L read_labels restorable_def)
  have m: "dockerStringMapLabel cd (map_read (dockerContainerLabels ls (Some ls)) dockerLocalSandboxMetadataLabel) = cr_Metadata req"
    using map_label [OF cd, of "cr_Metadata req"]
    by (simp add: L read_label_def raw_labels_read more_labels_def fixed_labels_def label_defs dockerStringMapLabel_def)
  have b: "dockerBoolPtrLabel (map_read (dockerContainerLabels ls (Some ls)) dockerLocalSandboxAllowInternetLabel) = cr_AllowInternetAccess req"
  proof (cases "cr_AllowInternetAccess req")
    case None
    then show ?thesis
      by (simp add: L read_label_def raw_labels_read more_labels_def fixed_labels_def label_defs dockerBoolPtrLabel_def)
  next
    case (Some v)
    then show ?thesis
      using bool_label [of v] FormatBool_not_blank [of v] by (simp add: L read_label_def raw_labels_read more_labels_def label_defs)
  qed
  show ?thesis
    unfolding restored_as_def record_from_labels_def Let_def c e t m b
    using req info by (simp add: time_label [OF cd] restorable_def)
qed

lemma restore_roundtrip:
  assumes cd: "codec_laws (dr_codecs r)" and req: "restorable req t" and a: "Normalize (cr_OnTimeout req) = Inr a"
    and ls: "cs_Labels summary = dockerSandboxLabels (dr_codecs r) req t i" "cj_Labels inspect = Some (cs_Labels summary)"
    and inspect: "dk_ContainerInspect (dr_client r) (cs_ID summary) (h_engine h) = (Inr inspect, h_engine h)" "cj_ID inspect = cs_ID summary"
    and state: "dockerSandboxState (cj_State inspect) \<noteq> []"
    and port: "map_of (ns_Ports (cj_NetworkSettings inspect)) dockerEnvdNatPort = Some (p # ps)"
  shows "\<exists>record h'. restoreSandboxRecord r summary now h = (Inr (Some record), h') \<and> restored_as req t a record \<and>
    sr_State record = dockerSandboxState (cj_State inspect)"
proof -
  let ?ls = "dockerContainerLabels (cs_Labels summary) (cj_Labels inspect)"
  note L = read_label [OF ls(1), folded ls(2)]
  have id: "map_read ?ls dockerLocalSandboxIDLabel = cr_SandboxID req"
    using req by (simp add: L read_labels restorable_def)
  have "TrimSpace a = a" "a \<noteq> []"
    using Normalize_range [OF a] timeout_actions by auto
  then have "map_read ?ls dockerLocalSandboxOnTimeoutLabel = a"
    using a by (simp add: L read_label_def raw_labels_read more_labels_def label_defs)
  then have act: "dockerSandboxTimeoutAction ?ls = Inr a" by (rule timeout_label [OF a])
  have "TrimSpace (cd_mounts (dr_codecs r) (cr_VolumeMounts req)) \<noteq> []" using cd by (simp add: codec_laws_def)
  then have "map_read ?ls dockerLocalSandboxVolumeMountsLabel = cd_mounts (dr_codecs r) (cr_VolumeMounts req)"
    using req by (simp add: L read_label_def raw_labels_read more_labels_def label_defs restorable_def)
  then have vm: "dockerVolumeMountsFromLabels (dr_codecs r) ?ls = cr_VolumeMounts req"
    using mounts_label [OF cd] req by (simp add: restorable_def)
  define info where "info = restored_info r summary inspect ?ls (cr_SandboxID req)"
  have i: "ri_SandboxID info = cr_SandboxID req" "ri_VolumeMounts info = cr_VolumeMounts req" "ri_ContainerID info = cs_ID summary"
    using vm req inspect(2) by (simp_all add: info_def restored_info_def Let_def restorable_def)
  then obtain info' where info': "info_from_inspect info inspect = Inr info'"
    "ri_SandboxID info' = cr_SandboxID req" "ri_VolumeMounts info' = cr_VolumeMounts req"
    using port by (simp add: info_from_inspect_def Let_def)
  let ?rec = "record_from_labels (dr_codecs r) summary inspect now ?ls info' a"
  have "\<exists>h'. restoreSandboxRecord r summary now h = (Inr (Some ?rec), h')"
    using req id act i(3) info'(1) state inspect
    by (simp add: restoreSandboxRecord_def inspect_container_def engine_call_def call_defs inspectRuntimeInfo_def restorable_def
        info_def [symmetric])
  moreover have "restored_as req t a ?rec"
    using record_of_labels [OF cd req a ls(1) info'(2,3)] ls(2) by simp
  ultimately show ?thesis by (auto simp: record_from_labels_def Let_def)
qed

end
