(* ===== verification/DockerSandboxProofs.thy ===== *)
theory DockerSandboxProofs
  imports LabelProofs
begin

text \<open>
  Creating a sandbox: the two waits end in time, and a creation that fails after the container was
  made removes it.
\<close>

section \<open>Waiting\<close>

text \<open>Every call of the daemon returns within \<open>B\<close> nanoseconds.\<close>

definition answers_within :: "int \<Rightarrow> 'e docker_runtime \<Rightarrow> bool" where
  "answers_within B r \<longleftrightarrow> (\<forall>e. int (dk_Elapsed (dr_client r) e) \<le> B)"

lemma engine_call_within:
  "answers_within B r \<Longrightarrow> engine_call (dr_client r) f h = (x, h') \<Longrightarrow> h_now h \<le> h_now h' \<and> h_now h' \<le> h_now h + B"
  by (auto simp: engine_call_def answers_within_def split: prod.splits)

lemma wait_second_cases:
  assumes "wait_second ctx h = (w, h')"
  shows "h_now h \<le> h_now h' \<and> h_now h' \<le> h_now h + 1000000000" and "w = Inl e \<Longrightarrow> \<exists>x. ctx x = Some e"
  using assms by (auto simp: wait_second_def Let_def split: option.splits)

text \<open>
  Both waits probe, stop at the first good answer, give up at the first bad one after the deadline,
  and sleep a second otherwise. What they share is the contract of a polling loop.
\<close>

definition ends_in_time :: "int \<Rightarrow> time \<Rightarrow> 'e host \<Rightarrow> 'e host \<Rightarrow> bool" where
  "ends_in_time B deadline h h' \<longleftrightarrow> h_now h \<le> h_now h' \<and> h_now h' \<le> max (h_now h) (deadline + 1000000000) + B"

locale polling =
  fixes loop :: "'k \<Rightarrow> 'e host \<Rightarrow> (go_error + unit) \<times> 'e host"
    and probe :: "'k \<Rightarrow> 'e host \<Rightarrow> 'p \<times> 'e host"
    and good :: "'p \<Rightarrow> bool" and late :: "'k \<Rightarrow> 'p \<Rightarrow> go_error"
    and ctx :: "'k \<Rightarrow> 'e ctx" and deadline :: "'k \<Rightarrow> time" and ready :: "'k \<Rightarrow> bool"
  assumes loop_step: "ready k \<Longrightarrow> loop k h =
      (case probe k h of
         (res, h) \<Rightarrow>
           (if good res then (Inr (), h)
            else if h_now h > deadline k then (Inl (late k res), h)
            else case wait_second (ctx k) h of (Inl e, h) \<Rightarrow> (Inl e, h) | (Inr u, h) \<Rightarrow> loop k h))"
    and probe_clock: "probe k h = (x, h') \<Longrightarrow> h_now h \<le> h_now h'"
begin

lemma loop_spec:
  assumes "ready k" and quick: "\<And>h x h'. probe k h = (x, h') \<Longrightarrow> h_now h' \<le> h_now h + B"
    and "loop k h = (res, h')"
  shows "ends_in_time B (deadline k) h h' \<and>
    (res = Inr () \<longrightarrow> (\<exists>h0 x. probe k h0 = (x, h') \<and> good x)) \<and>
    (res \<noteq> Inr () \<longrightarrow> (\<forall>x. ctx k x = None) \<longrightarrow> deadline k < h_now h')"
  using assms(3)
proof (induction "nat (deadline k + 1000000001 - h_now h)" arbitrary: h rule: less_induct)
  case less
  obtain x h1 where p: "probe k h = (x, h1)" by (cases "probe k h")
  note t1 = probe_clock [OF p] quick [OF p]
  consider (ok) "good x" | (late) "\<not> good x" "h_now h1 > deadline k" | (wait) "\<not> good x" "\<not> h_now h1 > deadline k" by blast
  then show ?case
  proof cases
    case ok
    with less.prems p t1 show ?thesis by (auto simp: loop_step [OF assms(1)] ends_in_time_def)
  next
    case late
    with less.prems p t1 show ?thesis by (auto simp: loop_step [OF assms(1)] ends_in_time_def)
  next
    case wait
    obtain y h2 where w: "wait_second (ctx k) h1 = (y, h2)" by (cases "wait_second (ctx k) h1")
    note t2 = wait_second_cases(1) [OF w]
    show ?thesis
    proof (cases y)
      case (Inl e)
      with less.prems p wait w have "res = Inl e" "h' = h2" by (simp_all add: loop_step [OF assms(1)])
      with t1 t2 wait wait_second_cases(2) [OF w Inl] show ?thesis by (auto simp: ends_in_time_def)
    next
      case (Inr u)
      with less.prems p wait w have rest: "loop k h2 = (res, h')" by (simp add: loop_step [OF assms(1)])
      have "h_now h2 = h_now h1 + 1000000000" using w Inr by (auto dest: wait_second_clock)
      with t1 wait have "nat (deadline k + 1000000001 - h_now h2) < nat (deadline k + 1000000001 - h_now h)" by simp
      from less.hyps [OF this rest] t1 t2 wait show ?thesis by (auto simp: ends_in_time_def)
    qed
  qed
qed

end

text \<open>A health answer of the class 2xx, and an exit code of zero.\<close>

definition good_status :: "go_error + int \<Rightarrow> bool" where
  "good_status res = (case res of Inr status \<Rightarrow> 200 \<le> status \<and> status < 300 | Inl e \<Rightarrow> False)"

definition good_exit :: "go_error + string \<times> int \<Rightarrow> bool" where
  "good_exit res = (case res of Inr (out, exitCode) \<Rightarrow> exitCode = 0 | Inl e \<Rightarrow> False)"

lemma good_status_iff: "good_status x \<longleftrightarrow> (\<exists>status. x = Inr status \<and> 200 \<le> status \<and> status < 300)"
  and good_exit_iff: "good_exit y \<longleftrightarrow> (\<exists>out. y = Inr (out, 0))"
  by (auto simp: good_status_def good_exit_def split: sum.splits)

interpretation health: polling
  "\<lambda>(ctx, r, url, deadline). wait_healthy ctx r url deadline"
  "\<lambda>(ctx, r, url, deadline). engine_call (dr_client r) (dk_HealthGet (dr_client r) url)"
  good_status
  "\<lambda>(ctx, r, url, deadline) x. ErrorString (''envd did not become healthy at '' @ url @ '' within '' @
     Itoa (dc_HealthTimeoutSeconds (dr_cfg r)) @ ''s'')"
  "\<lambda>(ctx, r, url, deadline). ctx" "\<lambda>(ctx, r, url, deadline). deadline"
  "\<lambda>(ctx, r, url, deadline). dk_RequestError (dr_client r) url = None"
proof (unfold_locales, goal_cases)
  case (1 k h)
  then show ?case by (cases k) (hypsubst, unfold prod.case, subst wait_healthy.simps, simp add: good_status_def)
next
  case (2 k h x h')
  then show ?case by (cases k) (auto dest: engine_call_now)
qed

interpretation readiness: polling
  "\<lambda>(ctx, r, c, cmd, deadline). wait_ready ctx r c cmd deadline"
  "\<lambda>(ctx, r, c, cmd, deadline). runContainerReadyCommand r c cmd"
  good_exit
  "\<lambda>(ctx, r, c, cmd, deadline) x. ErrorString (''template ready command did not succeed within '' @
     Itoa (dc_HealthTimeoutSeconds (dr_cfg r)) @ ''s: '' @
     (case x of Inl err \<Rightarrow> error_text err | Inr (out, exitCode) \<Rightarrow> readyCommandFailure exitCode out))"
  "\<lambda>(ctx, r, c, cmd, deadline). ctx" "\<lambda>(ctx, r, c, cmd, deadline). deadline" "\<lambda>k. True"
proof (unfold_locales, goal_cases)
  case (1 k h)
  then show ?case by (cases k) (hypsubst, unfold prod.case, subst wait_ready.simps, simp add: good_exit_def Let_def)
next
  case (2 k h x h')
  then show ?case by (cases k) (auto dest: runContainerReadyCommand_clock)
qed

text \<open>The probes take one call of the daemon each.\<close>

lemma ready_command_within:
  "answers_within B r \<Longrightarrow> runContainerReadyCommand r c cmd h = (x, h') \<Longrightarrow> h_now h' \<le> h_now h + B"
  by (auto simp: runContainerReadyCommand_def call_defs split: sum.splits prod.splits dest!: engine_call_within)

lemma wait_healthy_spec:
  assumes "answers_within B r" and "dk_RequestError (dr_client r) url = None" and "wait_healthy ctx r url deadline h = (res, h')"
  shows "ends_in_time B deadline h h' \<and>
    (res = Inr () \<longrightarrow> (\<exists>h0 status. engine_call (dr_client r) (dk_HealthGet (dr_client r) url) h0 = (Inr status, h') \<and>
       200 \<le> status \<and> status < 300)) \<and>
    (res \<noteq> Inr () \<longrightarrow> (\<forall>x. ctx x = None) \<longrightarrow> deadline < h_now h')"
proof -
  have "h_now g' \<le> h_now g + B" if "engine_call (dr_client r) (dk_HealthGet (dr_client r) url) g = (x, g')" for g x g'
    using engine_call_within [OF assms(1) that] by simp
  with health.loop_spec [of "(ctx, r, url, deadline)" B h res h'] assms(2,3)
  show ?thesis by (auto simp: good_status_iff)
qed

lemma wait_ready_spec:
  assumes "answers_within B r" and "wait_ready ctx r c cmd deadline h = (res, h')"
  shows "ends_in_time B deadline h h' \<and>
    (res = Inr () \<longrightarrow> (\<exists>h0 out. runContainerReadyCommand r c cmd h0 = (Inr (out, 0), h'))) \<and>
    (res \<noteq> Inr () \<longrightarrow> (\<forall>x. ctx x = None) \<longrightarrow> deadline < h_now h')"
  using readiness.loop_spec [of "(ctx, r, c, cmd, deadline)" B h res h'] assms(2) ready_command_within [OF assms(1)]
  by (auto simp: good_exit_iff)

section \<open>Calls that leave the engine alone\<close>

definition same_engine :: "'e host \<Rightarrow> 'e host \<Rightarrow> bool" where
  "same_engine h h' \<longleftrightarrow> h_engine h' = h_engine h"

interpretation eng: change_kind same_engine
  by unfold_locales (auto simp: same_engine_def)

lemma engine_syscall:
  assumes "\<And>h. h_engine (snd (f h)) = h_engine h" and "\<And>k h. h_engine (partial k h) = h_engine h"
  shows "within same_engine (syscall f partial)"
  using assms by (auto simp: within_def same_engine_def syscall_def split: list.splits option.splits)

lemma engine_at_path: "(\<And>p. h_engine (snd (f p h)) = h_engine h) \<Longrightarrow> h_engine (snd (at_path look f h)) = h_engine h"
  by (auto simp: at_path_def split: sum.splits)

lemma engine_changes [simp]:
  "h_engine (fs_put p i h) = h_engine h" "h_engine (fs_del p h) = h_engine h"
  "h_engine (on_inode p g h) = h_engine h" "h_engine (remove_entries qs h) = h_engine h"
  by (simp_all add: fs_put_def fs_del_def on_inode_def remove_entries_def split: option.split)

lemma engine_mkdirs [simp]: "h_engine (snd (mkdirs fuel confined root mode budget cur cs h)) = h_engine h"
  using mkdirs_change [of same_engine root mode h fuel confined budget cur cs] eng.change_kind_axioms
  by (simp add: same_engine_def)

lemma engine_calls [simp, intro]:
  "within same_engine (os_Lstat p)" "within same_engine (os_Stat p)" "within same_engine (os_ReadFile p)"
  "within same_engine (os_MkdirAll p mode)" "within same_engine (os_CreateTemp dir pat)"
  "within same_engine (file_Write q data)" "within same_engine (file_Chmod q mode)"
  "within same_engine (file_Sync q)" "within same_engine (file_Close q)"
  "within same_engine (os_Remove p)" "within same_engine (os_RemoveAll p)"
  "within same_engine (os_RenameTo q p)" "within same_engine (os_RemoveFile q)" "within same_engine time_Now"
proof -
  show "within same_engine (os_Lstat p)" "within same_engine (os_Stat p)"
    by (auto simp: os_Lstat_def os_Stat_def do_stat_def get_inode_def intro!: engine_syscall engine_at_path split: option.split)
  show "within same_engine (os_ReadFile p)"
    by (auto simp: os_ReadFile_def intro!: engine_syscall engine_at_path split: option.split fs_node.split)
  show "within same_engine (os_MkdirAll p mode)" by (auto simp: os_MkdirAll_def intro!: engine_syscall)
  show "within same_engine (os_CreateTemp dir pat)"
    unfolding os_CreateTemp_def
    by (rule eng.bind_in)
      (auto simp: within_def same_engine_def random_name_def syscall_def at_path_def create_excl_def
        split: list.split option.split sum.split)
  show "within same_engine (file_Write q data)" "within same_engine (file_Chmod q mode)"
    "within same_engine (file_Sync q)" "within same_engine (file_Close q)"
    by (auto simp: file_Write_def file_Chmod_def file_Sync_def file_Close_def intro!: engine_syscall)
  show "within same_engine (os_Remove p)" "within same_engine (os_RemoveFile q)"
    by (auto simp: os_Remove_def os_RemoveFile_def remove_at_def intro!: engine_syscall engine_at_path split: option.split)
  show "within same_engine (os_RemoveAll p)"
    by (auto simp: os_RemoveAll_def remove_tree_def Let_def intro!: engine_syscall split: sum.split option.split)
  show "within same_engine (os_RenameTo q p)"
    by (auto simp: os_RenameTo_def rename_to_def intro!: engine_syscall engine_at_path split: option.split)
  show "within same_engine time_Now" by (simp add: within_def same_engine_def time_Now_def)
qed

lemma engine_cleanup:
  "within same_engine m \<Longrightarrow> within same_engine c \<Longrightarrow> within same_engine (cleanup_unless_ok m c)"
  by (simp add: within_def same_engine_def cleanup_unless_ok_def split: sum.split prod.split) (metis snd_conv)

lemma engine_after_close: "within same_engine m \<Longrightarrow> within same_engine (after_close q m)"
  unfolding after_close_def by (intro eng.call_in engine_calls)

lemma engine_write_metadata: "within same_engine (writeDockerLocalVolumeMetadata cd p md)"
  unfolding writeDockerLocalVolumeMetadata_def writeFileAtomic_def Let_def
  by (intro eng.call_in engine_calls engine_cleanup engine_after_close)

lemma engine_read_metadata: "within same_engine (readDockerLocalVolumeMetadata cd dir p)"
  unfolding readDockerLocalVolumeMetadata_def readDockerLocalVolumeMetadataFile_def Let_def
  by (intro eng.call_in engine_calls engine_write_metadata)

lemma engine_paths: "within same_engine (localVolumePaths r v)"
  unfolding localVolumePaths_def ensureLocalVolumeRoot_def Let_def by (intro eng.call_in engine_calls)

lemma engine_localVolume: "within same_engine (localVolume r v)"
  unfolding localVolume_def by (rule eng.bind_in [OF engine_paths])
    (simp only: case_prod_beta, intro eng.call_in engine_calls engine_read_metadata)

lemma engine_CreateVolume: "within same_engine (CreateVolume r v)"
proof -
  have "within same_engine (new_volume r a b c d)" for a b c d
    unfolding new_volume_def Let_def by (intro eng.call_in engine_calls engine_write_metadata)
  moreover have "within same_engine (existing_volume r a b c d)" for a b c d
    unfolding existing_volume_def by (intro eng.call_in engine_read_metadata)
  ultimately show ?thesis
    unfolding CreateVolume_def Let_def case_prod_beta by (intro eng.call_in engine_calls engine_paths)
qed

lemma engine_ensureLocalVolume: "within same_engine (ensureLocalVolume r v)"
  unfolding ensureLocalVolume_def localVolumeHostDir_def case_prod_beta
  by (intro eng.call_in engine_localVolume engine_CreateVolume engine_paths)

lemma engine_resolve_mounts: "within same_engine (resolve_mounts r ms)"
proof (induction ms)
  case Nil
  show ?case unfolding resolve_mounts.simps by (rule eng.ret_in)
next
  case (Cons m ms)
  then show ?case by (auto simp: case_prod_beta intro!: eng.call_in engine_ensureLocalVolume)
qed

lemma engine_mounts: "within same_engine (mounts r ms b)"
  unfolding mounts_def by (intro eng.call_in engine_resolve_mounts)

lemma engine_validateHostFile: "within same_engine (validateHostFile b)"
  unfolding validateHostFile_def by (intro eng.call_in engine_calls)

lemma engine_search_up: "h_engine (snd (search_up seen dir p h)) = h_engine h"
proof (induction seen dir p h rule: search_up.induct)
  case (1 seen dir p h)
  obtain x h1 where x: "os_Stat (path_Join [dir, p]) h = (x, h1)" by (cases "os_Stat (path_Join [dir, p]) h")
  have e: "h_engine h1 = h_engine h" using withinD [OF engine_calls(2) x] by (simp add: same_engine_def)
  show ?case
  proof (cases "dir = dot \<or> dir = ''/'' \<or> dir \<in> set seen")
    case True
    then show ?thesis by (subst search_up.simps) (simp only: if_True snd_conv)
  next
    case False
    with "1.IH" [OF False refl x [symmetric]] x e show ?thesis
      by (subst search_up.simps, cases x) (simp_all add: Let_def)
  qed
qed

lemma engine_search_candidates: "h_engine (snd (search_candidates seen cs p h)) = h_engine h"
proof (induction cs arbitrary: seen h)
  case (Cons c cs)
  then show ?case using engine_search_up [of seen "path_Clean c" p h]
    by (auto split: prod.splits option.splits)
qed simp

lemma engine_bundled: "h_engine (snd (bundledDockerEnvdBinaryPath cwd exe q h)) = h_engine h"
  by (simp add: bundledDockerEnvdBinaryPath_def Let_def engine_search_candidates)

lemma engine_envdBinary: "within same_engine (envdBinaryForPlatform r cwd exe p)"
proof -
  have "h_engine h' = h_engine h" if "bundledDockerEnvdBinaryPath cwd exe q h = (x, h')" for q x and h h' :: "'a host"
    using engine_bundled [of cwd exe q h] that by simp
  then show ?thesis
    by (auto simp: within_def same_engine_def envdBinaryForPlatform_def Let_def split: prod.splits)
qed

section \<open>The containers of the daemon\<close>

text \<open>
  What the documentation of the Docker API says of the set \<open>alive\<close> of existing containers: a
  creation that succeeds adds the id it returns, a new one, a removal that succeeds takes it away, a removal
  that finds nothing leaves the set without it, and no other call changes the set.
\<close>

definition daemon_laws :: "'e docker_client \<Rightarrow> ('e \<Rightarrow> string set) \<Rightarrow> bool" where
  "daemon_laws dk alive \<longleftrightarrow>
     (\<forall>spec e. alive (snd (dk_ContainerCreate dk spec e)) =
        (case fst (dk_ContainerCreate dk spec e) of Inl err \<Rightarrow> alive e | Inr c \<Rightarrow> insert c (alive e))) \<and>
     (\<forall>spec e c. fst (dk_ContainerCreate dk spec e) = Inr c \<longrightarrow> c \<notin> alive e) \<and>
     (\<forall>c e. alive (snd (dk_ContainerRemove dk c e)) =
        (case fst (dk_ContainerRemove dk c e) of Inl err \<Rightarrow> alive e | Inr u \<Rightarrow> alive e - {c})) \<and>
     (\<forall>c e. alive (snd (dk_ContainerStart dk c e)) = alive e) \<and>
     (\<forall>c e. alive (snd (dk_ContainerInspect dk c e)) = alive e) \<and>
     (\<forall>f e. alive (snd (dk_ContainerList dk f e)) = alive e) \<and>
     (\<forall>c opts e. alive (snd (dk_RawLogs dk c opts e)) = alive e) \<and>
     (\<forall>c cmd e. alive (snd (dk_ContainerExec dk c cmd e)) = alive e) \<and>
     (\<forall>every f e. alive (snd (dk_ImageList dk every f e)) = alive e) \<and>
     (\<forall>ref e. alive (snd (dk_ImageInspect dk ref e)) = alive e) \<and>
     (\<forall>url e. alive (snd (dk_HealthGet dk url e)) = alive e)"

definition same_alive :: "('e \<Rightarrow> string set) \<Rightarrow> 'e host \<Rightarrow> 'e host \<Rightarrow> bool" where
  "same_alive alive h h' \<longleftrightarrow> alive (h_engine h') = alive (h_engine h)"

interpretation pop: change_kind "same_alive alive" for alive
  by unfold_locales (auto simp: same_alive_def)

lemma pop_engine: "within same_engine m \<Longrightarrow> within (same_alive alive) m"
  by (simp add: within_def same_engine_def same_alive_def)

lemma engine_call_engine: "h_engine (snd (engine_call dk f h)) = snd (f (h_engine h))"
  and engine_call_result: "fst (engine_call dk f h) = fst (f (h_engine h))"
  by (simp_all add: engine_call_def split: prod.split)

lemma pop_calls:
  assumes "daemon_laws (dr_client r) alive"
  shows "within (same_alive alive) (engine_call (dr_client r) (dk_ContainerStart (dr_client r) c))"
    and "within (same_alive alive) (inspect_container r c)"
    and "within (same_alive alive) (engine_call (dr_client r) (dk_RawLogs (dr_client r) c opts))"
    and "within (same_alive alive) (engine_call (dr_client r) (dk_ContainerExec (dr_client r) c cmd))"
    and "within (same_alive alive) (engine_call (dr_client r) (dk_ImageList (dr_client r) every f))"
    and "within (same_alive alive) (inspect_image r ref)"
    and "within (same_alive alive) (engine_call (dr_client r) (dk_HealthGet (dr_client r) url))"
    and "within (same_alive alive) time_Now"
  using assms
  by (simp_all add: within_def same_alive_def daemon_laws_def engine_call_engine inspect_container_def inspect_image_def time_Now_def)

lemma pop_wait_second: "same_alive alive h (snd (wait_second ctx h))"
  by (simp add: wait_second_def same_alive_def Let_def split: option.split)

context polling
begin

lemma loop_change:
  assumes "ready k" and "change_kind R" and probe: "\<And>h. R h (snd (probe k h))" and sleep: "\<And>h. R h (snd (wait_second (ctx k) h))"
  shows "R h (snd (loop k h))"
proof (induction "nat (deadline k + 1000000001 - h_now h)" arbitrary: h rule: less_induct)
  case less
  note steps = change_kind.steps [OF assms(2)]
  obtain x h1 where p: "probe k h = (x, h1)" by (cases "probe k h")
  obtain y h2 where w: "wait_second (ctx k) h1 = (y, h2)" by (cases "wait_second (ctx k) h1")
  have r1: "R h h1" and r2: "R h1 h2" using probe [of h] p sleep [of h1] w by simp_all
  have "R h2 (snd (loop k h2))" if "y = Inr u" and "h_now h1 \<le> deadline k" for u
  proof (rule less.hyps)
    have "h_now h2 = h_now h1 + 1000000000" using w that by (auto dest: wait_second_clock)
    then show "nat (deadline k + 1000000001 - h_now h2) < nat (deadline k + 1000000001 - h_now h)"
      using probe_clock [OF p] that(2) by simp
  qed
  then show ?case using p w r1 steps [OF r1 r2]
    by (auto simp: loop_step [OF assms(1)] intro: steps [OF steps [OF r1 r2]] split: sum.split)
qed

end

lemma pop_wait_healthy:
  assumes "daemon_laws (dr_client r) alive"
  shows "within (same_alive alive) (wait_healthy ctx r url deadline)"
proof (cases "dk_RequestError (dr_client r) url")
  case None
  then show ?thesis
    using health.loop_change [of "(ctx, r, url, deadline)" "same_alive alive"] pop_calls(7) [OF assms]
    by (simp add: within_def pop.change_kind_axioms pop_wait_second)
next
  case (Some e)
  then show ?thesis by (simp add: within_def wait_healthy.simps [of ctx r url deadline] pop.same)
qed

lemma pop_ready_command:
  "daemon_laws (dr_client r) alive \<Longrightarrow> within (same_alive alive) (runContainerReadyCommand r c cmd)"
  unfolding runContainerReadyCommand_def case_prod_beta by (intro pop.call_in pop_calls)

lemma pop_wait_ready:
  "daemon_laws (dr_client r) alive \<Longrightarrow> within (same_alive alive) (wait_ready ctx r c cmd deadline)"
  using readiness.loop_change [of "same_alive alive" "(ctx, r, c, cmd, deadline)"] pop_ready_command [of r alive c cmd]
  by (simp add: within_def pop.change_kind_axioms pop_wait_second)

lemma pop_waits:
  assumes "daemon_laws (dr_client r) alive"
  shows "within (same_alive alive) (waitHealthy ctx r url)" and "within (same_alive alive) (waitReadyCommand ctx r c cmd)"
  unfolding waitHealthy_def waitReadyCommand_def Let_def
  by (intro pop.call_in pop_calls [OF assms] pop_wait_healthy [OF assms] pop_wait_ready [OF assms])+

section \<open>Creating a sandbox\<close>

text \<open>Before the container is created, the set of containers does not change.\<close>

lemma pop_resolveTemplateImage:
  assumes "daemon_laws (dr_client r) alive" shows "within (same_alive alive) (resolveTemplateImage r t)"
proof -
  have "within (same_alive alive) (templateImageRefs r)"
    unfolding templateImageRefs_def listDockerTemplates_def by (intro pop.call_in pop_calls [OF assms])
  then show ?thesis
    unfolding resolveTemplateImage_def
    by (intro pop.call_in) (auto intro!: pop.call_in pop_calls [OF assms] split: option.split)
qed

lemma pop_image_reads:
  assumes "daemon_laws (dr_client r) alive"
  shows "within (same_alive alive) (imagePlatform r ref)" "within (same_alive alive) (imageLabels r ref)"
    "within (same_alive alive) (publishedContainerPorts r ref)"
  unfolding imagePlatform_def imageLabels_def publishedContainerPorts_def
  by (intro pop.call_in pop_calls [OF assms])+

text \<open>After it exists, a step that fails removes it, when the daemon can remove containers.\<close>

definition can_remove :: "'e docker_client \<Rightarrow> bool" where
  "can_remove dk \<longleftrightarrow> (\<forall>c e. fst (dk_ContainerRemove dk c e) = Inr ())"

definition gone_on_error :: "('e \<Rightarrow> string set) \<Rightarrow> string \<Rightarrow> ('e, 'a) host_op \<Rightarrow> bool" where
  "gone_on_error alive c m \<longleftrightarrow>
     (\<forall>h. alive (h_engine (snd (m h))) =
        (case fst (m h) of Inl err \<Rightarrow> alive (h_engine h) - {c} | Inr x \<Rightarrow> alive (h_engine h)))"

lemma gone_ret: "gone_on_error alive c (ret x)"
  by (simp add: gone_on_error_def)

lemma gone_bind:
  assumes "gone_on_error alive c m" and "\<And>x. gone_on_error alive c (f x)"
  shows "gone_on_error alive c (bindE m f)"
proof -
  have "alive (h_engine (snd (bindE m f h))) =
    (case fst (bindE m f h) of Inl err \<Rightarrow> alive (h_engine h) - {c} | Inr x \<Rightarrow> alive (h_engine h))" for h
  proof (cases "m h")
    case (Pair x t)
    with assms(1) have t: "alive (h_engine t) = (case x of Inl err \<Rightarrow> alive (h_engine h) - {c} | Inr x \<Rightarrow> alive (h_engine h))"
      by (auto simp: gone_on_error_def dest: spec [of _ h])
    show ?thesis
    proof (cases x)
      case (Inl err)
      with Pair t show ?thesis by (simp add: bindE_err)
    next
      case (Inr y)
      with Pair t assms(2) [of y] show ?thesis by (simp add: bindE_ok gone_on_error_def split: sum.splits)
    qed
  qed
  then show ?thesis by (simp add: gone_on_error_def)
qed

lemma remove_removes:
  assumes "daemon_laws (dr_client r) alive" and "can_remove (dr_client r)"
  shows "alive (h_engine (snd (removeContainer r c h))) = alive (h_engine h) - {c}"
proof -
  obtain t where t: "engine_call (dr_client r) (dk_ContainerRemove (dr_client r) c) h = (Inr (), t)"
    using assms(2) engine_call_result [of "dr_client r" "dk_ContainerRemove (dr_client r) c" h]
    by (cases "engine_call (dr_client r) (dk_ContainerRemove (dr_client r) c) h") (simp add: can_remove_def)
  have "alive (h_engine (snd (engine_call (dr_client r) (dk_ContainerRemove (dr_client r) c) h))) = alive (h_engine h) - {c}"
    using assms by (simp add: daemon_laws_def can_remove_def engine_call_engine)
  with t show ?thesis by (simp add: removeContainer_def caseE_ok)
qed

lemma gone_or_remove:
  assumes "daemon_laws (dr_client r) alive" and "can_remove (dr_client r)" and "within (same_alive alive) m"
  shows "gone_on_error alive c (or_remove r c m)" and "gone_on_error alive c (or_remove_with_logs r c m)"
proof -
  have w: "within (same_alive alive) (containerLogs r c)"
    unfolding containerLogs_def by (intro pop.call_in pop_calls [OF assms(1)])
  have logs: "alive (h_engine t) = alive (h_engine h)" if "containerLogs r c h = (l, t)" for l h t
    using withinD [OF w that] by (simp add: same_alive_def)
  note gone = remove_removes [OF assms(1,2), of c]
  have m: "alive (h_engine t) = alive (h_engine h)" if "m h = (x, t)" for x h t
    using withinD [OF assms(3) that] by (simp add: same_alive_def)
  have "alive (h_engine (snd (or_remove r c m h))) =
      (case fst (or_remove r c m h) of Inl err \<Rightarrow> alive (h_engine h) - {c} | Inr x \<Rightarrow> alive (h_engine h))" for h
    using m [of h] gone by (cases "m h"; cases "fst (m h)") (simp_all add: or_remove_def call_defs)
  then show "gone_on_error alive c (or_remove r c m)" by (simp add: gone_on_error_def)
  have total_logs: "\<exists>l t. containerLogs r c h = (Inr l, t)" for h
    by (cases "engine_call (dr_client r) (dk_RawLogs (dr_client r) c \<lparr>lo_Tail = ''80'', lo_Since = [], lo_Timestamps = False\<rparr>) h")
      (auto simp: containerLogs_def caseE_def split: sum.split)
  have "alive (h_engine (snd (or_remove_with_logs r c m h))) =
      (case fst (or_remove_with_logs r c m h) of Inl err \<Rightarrow> alive (h_engine h) - {c} | Inr x \<Rightarrow> alive (h_engine h))" for h
  proof (cases "m h")
    case (Pair x t)
    obtain l u where l: "containerLogs r c t = (Inr l, u)" using total_logs by blast
    from Pair m [OF Pair] l logs [OF l] gone show ?thesis
      by (cases x) (simp_all add: or_remove_with_logs_def call_defs)
  qed
  then show "gone_on_error alive c (or_remove_with_logs r c m)" by (simp add: gone_on_error_def)
qed

lemma gone_start_sandbox:
  assumes "daemon_laws (dr_client r) alive" and "can_remove (dr_client r)"
  shows "gone_on_error alive (ri_ContainerID info) (start_sandbox ctx r info labels)"
proof -
  have "within (same_alive alive) (inspectRuntimeInfo r i)" for i
    unfolding inspectRuntimeInfo_def by (intro pop.call_in pop_calls [OF assms(1)])
  then show ?thesis
    unfolding start_sandbox_def Let_def
    by (intro gone_bind gone_ret gone_or_remove [OF assms] pop.call_in pop_calls [OF assms(1)] pop_waits [OF assms(1)])
qed

lemma info_from_inspect_id: "info_from_inspect info inspect = Inr i \<Longrightarrow> ri_ContainerID i = ri_ContainerID info"
  by (cases i) (auto simp: info_from_inspect_def Let_def split: list.splits dest: arg_cong [where f = ri_ContainerID])

lemma start_sandbox_id:
  assumes "start_sandbox ctx r info labels h = (Inr info', h')"
  shows "ri_ContainerID info' = ri_ContainerID info"
proof -
  have "ri_ContainerID i = ri_ContainerID info" if "inspectRuntimeInfo r info g = (Inr i, g')" for i g g'
    using that by (auto simp: inspectRuntimeInfo_def bindE_Inr mapErr_Inr dest: info_from_inspect_id)
  with assms show ?thesis
    by (auto simp: start_sandbox_def Let_def bindE_Inr or_remove_def caseE_def call_defs split: sum.splits prod.splits)
qed

definition creates :: "('e \<Rightarrow> string set) \<Rightarrow> ('e, runtime_info) host_op \<Rightarrow> bool" where
  "creates alive m \<longleftrightarrow>
     (\<forall>h. case fst (m h) of
            Inl err \<Rightarrow> alive (h_engine (snd (m h))) = alive (h_engine h)
          | Inr info \<Rightarrow> ri_ContainerID info \<notin> alive (h_engine h) \<and>
                       alive (h_engine (snd (m h))) = insert (ri_ContainerID info) (alive (h_engine h)))"

lemma creates_bind:
  assumes "within (same_alive alive) m" and "\<And>x. creates alive (f x)" shows "creates alive (bindE m f)"
proof -
  have "case fst (bindE m f h) of
      Inl err \<Rightarrow> alive (h_engine (snd (bindE m f h))) = alive (h_engine h)
    | Inr info \<Rightarrow> ri_ContainerID info \<notin> alive (h_engine h) \<and>
        alive (h_engine (snd (bindE m f h))) = insert (ri_ContainerID info) (alive (h_engine h))" for h
  proof (cases "m h")
    case (Pair x t)
    with withinD [OF assms(1) Pair] have t: "alive (h_engine t) = alive (h_engine h)" by (simp add: same_alive_def)
    show ?thesis
    proof (cases x)
      case (Inl err)
      with Pair t show ?thesis by (simp add: bindE_err)
    next
      case (Inr y)
      with Pair t assms(2) [of y, unfolded creates_def, rule_format, of t] show ?thesis
        by (simp add: bindE_ok split: sum.splits)
    qed
  qed
  then show ?thesis by (simp add: creates_def)
qed

lemma creates_fail: "creates alive (fail e)"
  by (simp add: creates_def)

lemma creates_container:
  assumes "daemon_laws (dr_client r) alive" and "can_remove (dr_client r)"
  shows "creates alive (bindE (mapErr (wrap text) (engine_call (dr_client r) (dk_ContainerCreate (dr_client r) spec)))
    (\<lambda>c. start_sandbox ctx r (new_info r req c vms) labels))"
proof -
  have "case fst (bindE (mapErr (wrap text) (engine_call (dr_client r) (dk_ContainerCreate (dr_client r) spec)))
      (\<lambda>c. start_sandbox ctx r (new_info r req c vms) labels) h) of
      Inl err \<Rightarrow> alive (h_engine (snd (bindE (mapErr (wrap text) (engine_call (dr_client r) (dk_ContainerCreate (dr_client r) spec)))
        (\<lambda>c. start_sandbox ctx r (new_info r req c vms) labels) h))) = alive (h_engine h)
    | Inr info \<Rightarrow> ri_ContainerID info \<notin> alive (h_engine h) \<and>
        alive (h_engine (snd (bindE (mapErr (wrap text) (engine_call (dr_client r) (dk_ContainerCreate (dr_client r) spec)))
        (\<lambda>c. start_sandbox ctx r (new_info r req c vms) labels) h))) = insert (ri_ContainerID info) (alive (h_engine h))" for h
  proof (cases "engine_call (dr_client r) (dk_ContainerCreate (dr_client r) spec) h")
    case (Pair x t)
    let ?made = "dk_ContainerCreate (dr_client r) spec (h_engine h)"
    from Pair have x: "x = fst ?made" and t: "h_engine t = snd ?made"
      using engine_call_result [of "dr_client r" "dk_ContainerCreate (dr_client r) spec" h]
        engine_call_engine [of "dr_client r" "dk_ContainerCreate (dr_client r) spec" h] by simp_all
    have alive: "alive (h_engine t) = (case x of Inl err \<Rightarrow> alive (h_engine h) | Inr c \<Rightarrow> insert c (alive (h_engine h)))"
      and fresh: "x = Inr c \<Longrightarrow> c \<notin> alive (h_engine h)" for c
      using assms(1) x t by (simp_all add: daemon_laws_def)
    show ?thesis
    proof (cases x)
      case (Inl err)
      with Pair alive show ?thesis by (simp add: bindE_err mapErr_err)
    next
      case (Inr c)
      let ?start = "start_sandbox ctx r (new_info r req c vms) labels"
      have run: "bindE (mapErr (wrap text) (engine_call (dr_client r) (dk_ContainerCreate (dr_client r) spec)))
          (\<lambda>c. start_sandbox ctx r (new_info r req c vms) labels) h = ?start t"
        using Pair Inr by (simp add: bindE_ok mapErr_ok)
      have id: "ri_ContainerID (new_info r req c vms) = c" by (simp add: new_info_def)
      with gone_start_sandbox [OF assms, where info = "new_info r req c vms" and ctx = ctx and labels = labels]
      have g: "alive (h_engine (snd (?start t))) =
        (case fst (?start t) of Inl err \<Rightarrow> alive (h_engine t) - {c} | Inr x \<Rightarrow> alive (h_engine t))"
        by (simp add: gone_on_error_def)
      show ?thesis
      proof (cases "fst (?start t)")
        case Inl': (Inl err)
        with g run alive fresh [OF Inr] Inr show ?thesis by simp
      next
        case Inr': (Inr info)
        then have "?start t = (Inr info, snd (?start t))" by (metis prod.collapse)
        from start_sandbox_id [OF this] id g run alive fresh [OF Inr] Inr Inr' show ?thesis by simp
      qed
    qed
  qed
  then show ?thesis by (simp add: creates_def)
qed

lemma create_containers:
  assumes "daemon_laws (dr_client r) alive" and "can_remove (dr_client r)"
  shows "creates alive (docker_CreateSandbox ctx cwd exe r req)"
proof -
  note before = pop_resolveTemplateImage [OF assms(1)] pop_image_reads [OF assms(1)]
    pop_engine [OF engine_envdBinary] pop_engine [OF engine_validateHostFile] pop_engine [OF engine_mounts]
  have 1: "creates alive (bindE (mapErr (wrap ''create docker container: '') (engine_call (dr_client r) (dk_ContainerCreate (dr_client r) spec)))
    (\<lambda>c. start_sandbox ctx r (new_info r req c vms) labels))" for spec req vms labels
    by (rule creates_container [OF assms])
  show ?thesis
    unfolding docker_CreateSandbox_def Let_def case_prod_beta
    by (intro creates_bind before pop.lift_in) (auto intro!: creates_fail creates_bind before 1)
qed

section \<open>The waits of a sandbox\<close>

lemma health_deadline_exact:
  assumes "0 \<le> dc_HealthTimeoutSeconds (dr_cfg r)" and "dc_HealthTimeoutSeconds (dr_cfg r) \<le> 9000000000"
  shows "health_deadline r now = now + dc_HealthTimeoutSeconds (dr_cfg r) * 1000000000"
proof -
  let ?n = "dc_HealthTimeoutSeconds (dr_cfg r) * 1000000000"
  have w: "(word_of_int (dc_HealthTimeoutSeconds (dr_cfg r)) * time_Second :: 64 word) = word_of_int ?n"
    by (simp add: time_Second_def)
  have "signed_take_bit 63 ?n = ?n" using assms by (simp add: signed_take_bit_int_eq_self)
  then have "sint (word_of_int ?n :: 64 word) = ?n" by (simp only: sint_sbintrunc') simp
  then show ?thesis by (simp only: health_deadline_def time_Add_def w)
qed

end
