(* ===== verification/DockerProperties.thy ===== *)
theory DockerProperties
  imports VolumeRefinement DockerSandboxProofs
begin

text \<open>
  The properties of the Docker backend, each with a witness at the concrete daemon of DockerDemo.
\<close>

section \<open>Volumes\<close>

datatype volume_request =
    CreateOp string | DeleteOp string | GetOp string
  | StatOp string string | ReadOp string string | WriteOp string string upload_body volume_write_options
  | ListOp string string int | MkdirOp string string volume_write_options

fun volume_of :: "volume_request \<Rightarrow> string" where
  "volume_of (CreateOp v) = v" | "volume_of (DeleteOp v) = v" | "volume_of (GetOp v) = v"
| "volume_of (StatOp v p) = v" | "volume_of (ReadOp v p) = v" | "volume_of (WriteOp v p b opts) = v"
| "volume_of (ListOp v p n) = v" | "volume_of (MkdirOp v p opts) = v"

fun run_volume :: "'e docker_runtime \<Rightarrow> volume_request \<Rightarrow> 'e host \<Rightarrow> 'e host" where
  "run_volume r (CreateOp v) h = snd (CreateVolume r v h)"
| "run_volume r (DeleteOp v) h = snd (DeleteVolume r v h)"
| "run_volume r (GetOp v) h = snd (GetVolume r v h)"
| "run_volume r (StatOp v p) h = snd (GetVolumePathInfo r v p h)"
| "run_volume r (ReadOp v p) h = snd (ReadVolumeFile r v p h)"
| "run_volume r (WriteOp v p b opts) h = snd (WriteVolumeFile r v p b opts h)"
| "run_volume r (ListOp v p n) h = snd (ListVolumeDir r v p n h)"
| "run_volume r (MkdirOp v p opts) h = snd (CreateVolumeDir r v p opts h)"

lemma run_volume_contained:
  assumes "volumes_at d r" and "home d h"
  shows "home d (run_volume r q h) \<and> only (touched d (volume_of q)) h (run_volume r q h)"
  using assms(2) CreateVolume_touches [OF assms(1)] DeleteVolume_touches [OF assms(1)] GetVolume_touches [OF assms(1)]
    GetVolumePathInfo_touches [OF assms(1)] ReadVolumeFile_touches [OF assms(1)] WriteVolumeFile_touches [OF assms(1)]
    ListVolumeDir_touches [OF assms(1)] CreateVolumeDir_touches [OF assms(1)]
  by (cases q) (simp_all add: keeps_def)

lemma run_volumes_contained:
  assumes r: "volumes_at d r" and "home d h"
  shows "home d (fold (run_volume r) qs h) \<and> only (\<Union>q \<in> set qs. touched d (volume_of q)) h (fold (run_volume r) qs h)"
  using assms(2)
proof (induction qs arbitrary: h)
  case (Cons q qs)
  let ?h = "run_volume r q h"
  from run_volume_contained [OF r Cons.prems, of q]
  have h: "home d ?h" and o: "only (\<Union>q \<in> set (q # qs). touched d (volume_of q)) h ?h" by (auto elim: only_mono)
  from Cons.IH [OF h] have "home d (fold (run_volume r) qs ?h)"
    and "only (\<Union>q \<in> set (q # qs). touched d (volume_of q)) ?h (fold (run_volume r) qs ?h)" by (auto elim: only_mono)
  with only.steps [OF o] show ?case by simp
qed (simp add: only.same)

lemma owned_disjoint:
  assumes n: "plain_elem n" "n \<noteq> m" "n \<noteq> dockerLocalVolumeMetadataDir" and m: "m \<noteq> dockerLocalVolumeMetadataDir"
    and p: "p \<in> below (d @ [m]) \<or> p = meta_file d m"
  shows "p \<notin> owned d n"
proof -
  have "meta_file d m \<noteq> meta_temp d n k" for k using meta_temp_not_file by metis
  then show ?thesis
    using n m p by (auto simp: owned_def below_def prefix_def meta_files_def meta_file_def meta_temp_def)
qed

text \<open>C4: The volume operations stay inside their volumes. Whatever the content of the volumes, symbolic
  links included, whatever the requests and whatever faults the file system has, a sequence of requests
  changes nothing outside the directories and metadata files of the volumes it names; and a volume it does
  not name keeps its whole content and its metadata.\<close>

theorem volume_requests_stay_inside:
  assumes "volumes_at d r" and "home d h"
  shows "home d (fold (run_volume r) qs h) \<and>
    (\<forall>p. p \<notin> (\<Union>q \<in> set qs. touched d (volume_of q)) \<longrightarrow>
       fs_get (h_fs (fold (run_volume r) qs h)) p = fs_get (h_fs h) p) \<and>
    (\<forall>w m p. dockerLocalVolumeDirName w = Inr m \<and>
       (\<forall>q \<in> set qs. dockerLocalVolumeDirName (volume_of q) \<noteq> Inr m) \<and>
       (p \<in> below (d @ [m]) \<or> p = meta_file d m) \<longrightarrow>
       fs_get (h_fs (fold (run_volume r) qs h)) p = fs_get (h_fs h) p)"
proof (intro conjI allI impI)
  note c = run_volumes_contained [OF assms, of qs]
  show "home d (fold (run_volume r) qs h)" using c ..
  show out: "fs_get (h_fs (fold (run_volume r) qs h)) p = fs_get (h_fs h) p"
    if "p \<notin> (\<Union>q \<in> set qs. touched d (volume_of q))" for p
    using c that by (simp add: only_def)
  fix w m p
  assume a: "dockerLocalVolumeDirName w = Inr m \<and>
    (\<forall>q \<in> set qs. dockerLocalVolumeDirName (volume_of q) \<noteq> Inr m) \<and> (p \<in> below (d @ [m]) \<or> p = meta_file d m)"
  have "p \<notin> touched d (volume_of q)" if "q \<in> set qs" for q
    using a that owned_disjoint [where p = p and d = d and m = m, OF dir_name_plain _ dir_name_not_metadata dir_name_not_metadata]
    by (auto simp: touched_def split: sum.splits)
  then show "fs_get (h_fs (fold (run_volume r) qs h)) p = fs_get (h_fs h) p" by (intro out) simp
qed

lemma demo_home: "volumes_at [''vol''] (demo_docker s t)" "home [''vol''] demo_host"
proof -
  have "TrimSpace ''/vol'' = ''/vol''" by (rule TrimSpace_id) (simp_all add: space_words_def)
  then show "volumes_at [''vol''] (demo_docker s t)"
    by (simp add: volumes_at_def demo_docker_defs plain_elem_def abs_path_def)
  have "n \<le> Suc 0 \<Longrightarrow> n = 0 \<or> n = Suc 0" for n by auto
  then show "home [''vol''] demo_host"
    by (auto simp: home_def real_dir_def demo_host_def plain_elem_def node_at_def fs_get_def new_inode_def
        dockerLocalVolumeMetadataDir_def)
qed

lemma volume_requests_stay_inside_witness:
  "fs_get (h_fs (fold (run_volume (demo_docker True True)) [CreateOp ''a'', DeleteOp ''a'', GetOp ''..''] demo_host)) [''envd''] =
    fs_get (h_fs demo_host) [''envd''] \<and>
   fs_get (h_fs (fold (run_volume (demo_docker True True)) [CreateOp ''a''] demo_host)) [''vol'', ''b''] =
    fs_get (h_fs demo_host) [''vol'', ''b'']"
proof -
  have a: "dockerLocalVolumeDirName ''a'' = Inr ''a''" and b: "dockerLocalVolumeDirName ''b'' = Inr ''b''"
    and dd: "dockerLocalVolumeDirName ''..'' = Inl (bad_request ''invalid volume id'')"
    by code_simp+
  have "[''envd''] \<notin> (\<Union>q \<in> set [CreateOp ''a'', DeleteOp ''a'', GetOp ''..'']. touched [''vol''] (volume_of q))"
    by (auto simp: touched_def a dd owned_def below_def meta_files_def meta_file_def meta_temp_def)
  note volume_requests_stay_inside [OF demo_home, THEN conjunct2, THEN conjunct1, rule_format, OF this]
  moreover have "dockerLocalVolumeDirName ''b'' = Inr ''b'' \<and>
    (\<forall>q \<in> set [CreateOp ''a'']. dockerLocalVolumeDirName (volume_of q) \<noteq> Inr ''b'') \<and>
    ([''vol'', ''b''] \<in> below ([''vol''] @ [''b'']) \<or> [''vol'', ''b''] = meta_file [''vol''] ''b'')" by (simp add: a b below_def)
  note volume_requests_stay_inside [OF demo_home, THEN conjunct2, THEN conjunct2, rule_format, OF this]
  ultimately show ?thesis by (simp add: below_def)
qed

text \<open>C13: The volumes are a set of names. On a file system without faults, any sequence of requests to create, find,
  delete and list volumes gives the answers the same requests give on a set: a creation adds the name or finds it
  there, a lookup finds exactly the names in the set, a deletion takes a name out unless a container has the
  volume bound, and a listing shows the names in order; an invalid name is refused and changes nothing.\<close>

theorem volumes_refine_a_set:
  assumes "volume_store d r e h" and "run_all (run_call r) qs h = (answers, h')"
  shows "run_all (spec_call (busy d r e)) qs (volume_names d h) = (answers, volume_names d h') \<and> volume_store d r e h'"
  using volumes.runs [OF assms] by simp

lemma demo_store: "volume_store [''vol''] (demo_docker s t) [] demo_host" "volume_names [''vol''] demo_host = {}"
proof -
  have "node_at (h_fs demo_host) ([''vol''] @ [n]) = None" "node_at (h_fs demo_host) (meta_file [''vol''] n) = None"
    "node_at (h_fs demo_host) (meta_temp [''vol''] n k) = None" for n k
    by (simp_all add: demo_host_def node_at_def fs_get_def meta_file_def meta_temp_def)
  moreover from this(1) show "volume_names [''vol''] demo_host = {}" by (simp add: volume_names_def)
  ultimately show "volume_store [''vol''] (demo_docker s t) [] demo_host"
    using demo_home demo_codec_laws demo_errdefs_laws [of s t]
    by (simp add: volume_store_def) (simp add: demo_docker_def demo_client_def demo_host_def)
qed

lemma volumes_refine_a_set_witness:
  "fst (run_all (run_call (demo_docker True True)) [CallCreate ''a'', CallCreate ''..'', CallList, CallDelete ''a'', CallGet ''a''] demo_host) =
    [Volume ''a'', Refused, Volumes [''a''], Removed True, Missing]"
proof -
  let ?qs = "[CallCreate ''a'', CallCreate ''..'', CallList, CallDelete ''a'', CallGet ''a'']" and ?r = "demo_docker True True"
  obtain answers h' where run: "run_all (run_call ?r) ?qs demo_host = (answers, h')"
    by (cases "run_all (run_call ?r) ?qs demo_host")
  have "dockerLocalVolumeDirName ''a'' = Inr ''a''" "dockerLocalVolumeDirName ''..'' = Inl (bad_request ''invalid volume id'')"
    by code_simp+
  moreover have "\<not> busy [''vol''] ?r [] ''a''" by (simp add: busy_def demo_docker_def demo_client_def)
  ultimately show ?thesis using volumes_refine_a_set [OF demo_store(1) run] run by (auto simp: demo_store(2))
qed

section \<open>Sandboxes\<close>


definition demo_alive :: "demo_engine \<Rightarrow> string set" where
  "demo_alive e = set (map fst e)"

lemma demo_daemon_laws: "daemon_laws (dr_client (demo_docker s t)) demo_alive" "can_remove (dr_client (demo_docker s t))"
  by (auto simp: daemon_laws_def can_remove_def demo_docker_def demo_client_def demo_alive_def)

definition demo_request :: create_request where
  "demo_request = \<lparr>cr_SandboxID = ''sb1'', cr_TemplateID = ''base:latest'', cr_Metadata = [(''k'', ''v'')], cr_EnvVars = [],
     cr_VolumeMounts = [\<lparr>vm_Name = ''data'', vm_Path = ''/data'', vm_VolumeID = ''data'', vm_MountPath = ''/data''\<rparr>],
     cr_CreatedAt = 5, cr_EndAt = 9, cr_AllowInternetAccess = Some False, cr_OnTimeout = []\<rparr>"




text \<open>When a wait returns: its result, and the clock before and after it.\<close>

definition waited :: "int \<Rightarrow> 'e ctx \<Rightarrow> 'e docker_runtime \<Rightarrow> 'e host \<Rightarrow> (go_error + unit) \<times> 'e host \<Rightarrow> bool" where
  "waited B ctx r h p \<longleftrightarrow>
     h_now h \<le> h_now (snd p) \<and> h_now (snd p) \<le> h_now h + (dc_HealthTimeoutSeconds (dr_cfg r) + 1) * 1000000000 + B \<and>
     (fst p \<noteq> Inr () \<longrightarrow> (\<forall>x. ctx x = None) \<longrightarrow> h_now h + dc_HealthTimeoutSeconds (dr_cfg r) * 1000000000 < h_now (snd p))"

text \<open>C20: The waits of a new sandbox end. With a daemon and a sandbox that answer within \<open>B\<close> nanoseconds, both the
  wait for a healthy envd and the wait for the template's ready command return at most one sleep and one answer
  after the configured timeout. A wait that succeeds has seen a status of the class 2xx, or an exit code of zero;
  one that fails, with no error in its context, has used the whole timeout.\<close>

theorem sandbox_waits_end:
  assumes "answers_within B r" and "dk_RequestError (dr_client r) (TrimRight CHR ''/'' url @ ''/health'') = None"
    and "0 \<le> dc_HealthTimeoutSeconds (dr_cfg r)" and "dc_HealthTimeoutSeconds (dr_cfg r) \<le> 9000000000"
    and "TrimSpace cmd \<noteq> []"
  shows "waited B ctx r h (waitHealthy ctx r url h) \<and>
    (fst (waitHealthy ctx r url h) = Inr () \<longrightarrow>
       (\<exists>h0 status. engine_call (dr_client r) (dk_HealthGet (dr_client r) (TrimRight CHR ''/'' url @ ''/health'')) h0 =
          (Inr status, snd (waitHealthy ctx r url h)) \<and> 200 \<le> status \<and> status < 300)) \<and>
    waited B ctx r h (waitReadyCommand ctx r c cmd h) \<and>
    (fst (waitReadyCommand ctx r c cmd h) = Inr () \<longrightarrow>
       (\<exists>h0 out. runContainerReadyCommand r c (TrimSpace cmd) h0 = (Inr (out, 0), snd (waitReadyCommand ctx r c cmd h))))"
proof -
  let ?d = "h_now h + dc_HealthTimeoutSeconds (dr_cfg r) * 1000000000" and ?u = "TrimRight CHR ''/'' url @ ''/health''"
  note d = health_deadline_exact [OF assms(3,4)]
  have e: "h_now h \<le> h_now h' \<and> h_now h' \<le> h_now h + (dc_HealthTimeoutSeconds (dr_cfg r) + 1) * 1000000000 + B"
    if "ends_in_time B ?d h h'" for h'
    using that assms(3) by (auto simp: ends_in_time_def max_def algebra_simps split: if_splits)
  have w: "waitHealthy ctx r url h = wait_healthy ctx r ?u ?d h"
    "waitReadyCommand ctx r c cmd h = wait_ready ctx r c (TrimSpace cmd) ?d h"
    using assms(5) d by (simp_all add: waitHealthy_def waitReadyCommand_def bindE_def caseE_def time_Now_def Let_def)
  note 1 = wait_healthy_spec [OF assms(1,2), where ctx = ctx and deadline = ?d and h = h, OF prod.collapse [symmetric]]
  note 2 = wait_ready_spec [OF assms(1), where ctx = ctx and deadline = ?d and h = h and c = c and cmd = "TrimSpace cmd",
    OF prod.collapse [symmetric]]
  from 1 2 e show ?thesis unfolding w waited_def by blast
qed

lemma sandbox_waits_end_witness:
  "fst (waitHealthy (\<lambda>h. None) (demo_docker True False) ''http://h:1/'' demo_host) \<noteq> Inr () \<and>
   h_now demo_host + 2000000000 < h_now (snd (waitHealthy (\<lambda>h. None) (demo_docker True False) ''http://h:1/'' demo_host)) \<and>
   h_now (snd (waitHealthy (\<lambda>h. None) (demo_docker True False) ''http://h:1/'' demo_host)) \<le> h_now demo_host + 3000000000"
proof -
  let ?r = "demo_docker True False"
  have r: "answers_within 0 ?r" "dk_RequestError (dr_client ?r) u = None" "dc_HealthTimeoutSeconds (dr_cfg ?r) = 2" for u
    by (simp_all add: answers_within_def demo_docker_def demo_client_def demo_cfg_def)
  have "engine_call (dr_client ?r) (dk_HealthGet (dr_client ?r) u) h0 = (Inr status, h1) \<Longrightarrow> status = 503" for u h0 status h1
    by (auto simp: engine_call_def demo_docker_def demo_client_def)
  moreover have "0 \<le> dc_HealthTimeoutSeconds (dr_cfg ?r)" "dc_HealthTimeoutSeconds (dr_cfg ?r) \<le> 9000000000" by (simp_all add: r)
  note sandbox_waits_end [OF r(1) r(2) this, where cmd = "''true''" and url = "''http://h:1/''" and ctx = "\<lambda>h. None" and h = demo_host]
  moreover have "TrimSpace ''true'' \<noteq> []" by code_simp
  ultimately show ?thesis using r(3) unfolding waited_def by fastforce
qed

section \<open>Images, ports and build contexts\<close>

text \<open>What becomes a part of an image reference is always valid. \<open>dockerSafeImageComponent\<close> gives at most 96
  lower-case letters, digits, dots, underscores and single dashes, with no dash at either end, whatever it is
  given, and leaves such a text as it is; the reference of a template has a part of this form, and not an empty one.\<close>

lemma image_references_are_valid:
  "clean_component (dockerSafeImageComponent v) \<and> length (dockerSafeImageComponent v) \<le> 96 \<and>
    dockerSafeImageComponent (dockerSafeImageComponent v) = dockerSafeImageComponent v \<and>
    (\<exists>c. dockerTemplateReference template = ''e2b-local/templates/'' @ c @ '':latest'' \<and>
       c \<noteq> [] \<and> clean_component c \<and> length c \<le> 96)"
proof -
  have "clean_component (dockerSafeImageComponent v)" "length (dockerSafeImageComponent v) \<le> 96" for v
    using safe_component_clean [of v] by simp_all
  note ok = this safe_component_fixed [OF this]
  have "dockerSafeImageComponent ''template'' = ''template''" by code_simp
  with ok(1) [of "''template''"] have "clean_component ''template''" by simp
  with ok show ?thesis by (auto simp: dockerTemplateReference_def Let_def)
qed

text \<open>The ports a container publishes are exactly the valid ones that were asked for, in order and once each: a
  port below 65536 that is not the one of envd. A port survives its written form (\<open>8080/tcp\<close>).\<close>

lemma published_ports_exact:
  "normalizeDockerPublishedPorts ports = sorted_list_of_set {p. p \<in> set ports \<and> 0 < p \<and> p \<le> 65535 \<and> p \<noteq> dockerEnvdPort} \<and>
    dockerTCPPortsFromSet (map dockerTCPNatPort (normalizeDockerPublishedPorts ports)) = normalizeDockerPublishedPorts ports"
proof -
  have "\<forall>p \<in> set (normalizeDockerPublishedPorts ports). 0 < p \<and> p \<le> 65535"
    unfolding normalized_ports by (auto simp: published_port_def)
  then show ?thesis using tcp_ports_roundtrip normalized_ports [of ports] by (simp add: published_port_def)
qed



end
