(* ===== verification/GatewayConfig.thy ===== *)
theory GatewayConfig
  imports DockerRuntime
begin

text \<open>
  The configuration of the gateway (\<open>gateway/config.go\<close>, \<open>config_route_linux.go\<close>,
  \<open>config_route_other.go\<close>): the defaults, the file, local paths, validation, and finding out which
  address of the host to advertise. The process's environment and the network are parameters; so
  are the YAML decoder, the parsers of IP addresses and request URIs, and the routing table.
\<close>

section \<open>The configuration\<close>

record server_config =
  sc_Addr :: string

record traffic_config =
  tc_AdvertisedHost :: string
  tc_Interface :: string
  tc_AdvertisedProbeAddr :: string

record runtime_config =
  rc_Type :: string

record template_build_config =
  bc_MaxConcurrent :: int

record orb_template_config =
  ot_Memory :: string
  ot_CPUs :: string
  ot_Disk :: string
  ot_StartCmd :: string
  ot_BaseMachine :: string

record orb_config =
  oc_MachineNamePrefix :: string
  oc_DefaultMemory :: string
  oc_DefaultCPUs :: string
  oc_DefaultDisk :: string
  oc_Isolated :: bool
  oc_EnvdBinary :: string
  oc_EnvdPort :: int
  oc_HealthTimeoutSeconds :: int
  oc_VolumeHostPath :: string
  oc_Templates :: "(string, orb_template_config) gomap"

record apple_template_config =
  at_Image :: string
  at_CPUs :: int
  at_MemoryMB :: int
  at_StartCmd :: string
  at_PrebakedEnvdPath :: string

record apple_config =
  ac_ContainerNamePrefix :: string
  ac_EnvdBinary :: string
  ac_EnvdPort :: int
  ac_HealthTimeoutSeconds :: int
  ac_DefaultCPUs :: int
  ac_DefaultMemoryMB :: int
  ac_Templates :: "(string, apple_template_config) gomap"

record config =
  cf_Server :: server_config
  cf_Traffic :: traffic_config
  cf_Runtime :: runtime_config
  cf_Docker :: docker_config
  cf_Orbstack :: orb_config
  cf_AppleContainer :: apple_config
  cf_TemplateBuilds :: template_build_config

definition defaultServerAddr :: string where "defaultServerAddr = ''127.0.0.1:3000''"
definition defaultRuntimeType :: string where "defaultRuntimeType = ''docker''"
definition defaultDockerContainerNamePrefix :: string where "defaultDockerContainerNamePrefix = ''e2b-envd-''"
definition defaultDockerPublishedHostIP :: string where "defaultDockerPublishedHostIP = ''0.0.0.0''"
definition defaultDockerHealthTimeoutSeconds :: int where "defaultDockerHealthTimeoutSeconds = 30"
definition defaultOrbstackMachineNamePrefix :: string where "defaultOrbstackMachineNamePrefix = ''e2b-sandbox-''"
definition defaultOrbstackDefaultMemory :: string where "defaultOrbstackDefaultMemory = ''2G''"
definition defaultOrbstackDefaultCPUs :: string where "defaultOrbstackDefaultCPUs = ''2''"
definition defaultOrbstackDefaultDisk :: string where "defaultOrbstackDefaultDisk = ''16G''"
definition defaultOrbstackEnvdBinary :: string where "defaultOrbstackEnvdBinary = ''envd-bin/envd-linux-arm64''"
definition defaultOrbstackEnvdPort :: int where "defaultOrbstackEnvdPort = 49983"
definition defaultOrbstackHealthTimeout :: int where "defaultOrbstackHealthTimeout = 60"
definition defaultAppleContainerNamePrefix :: string where "defaultAppleContainerNamePrefix = ''e2b-sandbox-''"
definition defaultAppleContainerEnvdBinary :: string where "defaultAppleContainerEnvdBinary = ''envd-bin/envd-linux-arm64''"
definition defaultAppleContainerEnvdPort :: int where "defaultAppleContainerEnvdPort = 49983"
definition defaultAppleContainerHealthTimeout :: int where "defaultAppleContainerHealthTimeout = 60"
definition defaultAppleContainerCPUs :: int where "defaultAppleContainerCPUs = 4"
definition defaultAppleContainerMemoryMB :: int where "defaultAppleContainerMemoryMB = 1024"
definition defaultTrafficProbeAddr :: string where "defaultTrafficProbeAddr = ''8.8.8.8:80''"

lemmas default_constants = defaultServerAddr_def defaultRuntimeType_def defaultDockerContainerNamePrefix_def
  defaultDockerPublishedHostIP_def defaultDockerHealthTimeoutSeconds_def defaultOrbstackMachineNamePrefix_def
  defaultOrbstackDefaultMemory_def defaultOrbstackDefaultCPUs_def defaultOrbstackDefaultDisk_def
  defaultOrbstackEnvdBinary_def defaultOrbstackEnvdPort_def defaultOrbstackHealthTimeout_def
  defaultAppleContainerNamePrefix_def defaultAppleContainerEnvdBinary_def defaultAppleContainerEnvdPort_def
  defaultAppleContainerHealthTimeout_def defaultAppleContainerCPUs_def defaultAppleContainerMemoryMB_def
  defaultTemplateBuildMaxConcurrent_def defaultTrafficProbeAddr_def

section \<open>Defaults\<close>

text \<open>What the operating system tells the process about itself.\<close>

record environ =
  en_Getenv :: "string \<Rightarrow> string"
  en_UserHomeDir :: "go_error + string"
  en_TempDir :: string
  en_Getwd :: "go_error + string"
  en_Executable :: "go_error + string"

definition filepath_Abs :: "environ \<Rightarrow> string \<Rightarrow> go_error + string" where
  "filepath_Abs en p =
     (if path_IsAbs p then Inr (path_Clean p)
      else case en_Getwd en of Inl e \<Rightarrow> Inl e | Inr wd \<Rightarrow> Inr (path_Join [wd, p]))"

definition known_home :: "environ \<Rightarrow> string option" where
  "known_home en =
     (case en_UserHomeDir en of
        Inl e \<Rightarrow> None | Inr home \<Rightarrow> (if TrimSpace home = [] then None else Some home))"

definition defaultDockerHost :: "environ \<Rightarrow> 'e host \<Rightarrow> string \<times> 'e host" where
  "defaultDockerHost en h =
     (let value = TrimSpace (en_Getenv en ''DOCKER_HOST'')
      in if value \<noteq> [] then (value, h)
         else case known_home en of
                None \<Rightarrow> (''unix:///var/run/docker.sock'', h)
              | Some home \<Rightarrow>
                  (let socket = path_Join [home, ''.orbstack'', ''run'', ''docker.sock'']
                   in case os_Stat socket h of
                        (Inr i, h) \<Rightarrow> (''unix://'' @ socket, h)
                      | (Inl e, h) \<Rightarrow> (''unix:///var/run/docker.sock'', h)))"

definition defaultVolumeHostPath :: "environ \<Rightarrow> string" where
  "defaultVolumeHostPath en =
     (case known_home en of
        Some home \<Rightarrow> path_Join [home, ''.e2b-local'', ''volumes'']
      | None \<Rightarrow>
          (case filepath_Abs en (path_Join [en_TempDir en, ''e2b-local'', ''volumes'']) of
             Inr p \<Rightarrow> p
           | Inl e \<Rightarrow> path_Join [en_TempDir en, ''e2b-local'', ''volumes'']))"

definition defaultBundledPath :: "environ \<Rightarrow> string \<Rightarrow> 'e host \<Rightarrow> string \<times> 'e host" where
  "defaultBundledPath en relPath h =
     (let relPath = path_Clean (TrimSpace relPath);
          cwd = (case en_Getwd en of Inr d \<Rightarrow> if d = [] then [] else [d] | Inl e \<Rightarrow> []);
          exe = (case en_Executable en of Inr x \<Rightarrow> if x = [] then [] else [path_Dir x] | Inl e \<Rightarrow> [])
      in if relPath = dot \<or> relPath = [] \<or> path_IsAbs relPath then (relPath, h)
         else search_candidates [] (cwd @ exe) relPath h)"

definition DefaultConfig :: "environ \<Rightarrow> 'e host \<Rightarrow> config \<times> 'e host" where
  "DefaultConfig en h =
     (case defaultDockerHost en h of (dockerHost, h) \<Rightarrow>
      case defaultBundledPath en defaultOrbstackEnvdBinary h of (orbEnvd, h) \<Rightarrow>
      case defaultBundledPath en defaultAppleContainerEnvdBinary h of (appleEnvd, h) \<Rightarrow>
      (\<lparr>cf_Server = \<lparr>sc_Addr = defaultServerAddr\<rparr>,
        cf_Traffic = \<lparr>tc_AdvertisedHost = [], tc_Interface = [], tc_AdvertisedProbeAddr = defaultTrafficProbeAddr\<rparr>,
        cf_Runtime = \<lparr>rc_Type = defaultRuntimeType\<rparr>,
        cf_Docker = \<lparr>dc_Host = dockerHost, dc_Platform = [], dc_ContainerNamePrefix = defaultDockerContainerNamePrefix,
          dc_EnvdBinary = [], dc_EnableFUSE = True, dc_PublishedPorts = [],
          dc_PublishedHostIP = defaultDockerPublishedHostIP,
          dc_HealthTimeoutSeconds = defaultDockerHealthTimeoutSeconds,
          dc_VolumeHostPath = defaultVolumeHostPath en\<rparr>,
        cf_Orbstack = \<lparr>oc_MachineNamePrefix = defaultOrbstackMachineNamePrefix,
          oc_DefaultMemory = defaultOrbstackDefaultMemory, oc_DefaultCPUs = defaultOrbstackDefaultCPUs,
          oc_DefaultDisk = defaultOrbstackDefaultDisk, oc_Isolated = False, oc_EnvdBinary = orbEnvd,
          oc_EnvdPort = defaultOrbstackEnvdPort, oc_HealthTimeoutSeconds = defaultOrbstackHealthTimeout,
          oc_VolumeHostPath = defaultVolumeHostPath en, oc_Templates = []\<rparr>,
        cf_AppleContainer = \<lparr>ac_ContainerNamePrefix = defaultAppleContainerNamePrefix, ac_EnvdBinary = appleEnvd,
          ac_EnvdPort = defaultAppleContainerEnvdPort, ac_HealthTimeoutSeconds = defaultAppleContainerHealthTimeout,
          ac_DefaultCPUs = defaultAppleContainerCPUs, ac_DefaultMemoryMB = defaultAppleContainerMemoryMB,
          ac_Templates = []\<rparr>,
        cf_TemplateBuilds = \<lparr>bc_MaxConcurrent = defaultTemplateBuildMaxConcurrent\<rparr>\<rparr>, h))"

section \<open>Local paths\<close>

definition expandHomePath :: "environ \<Rightarrow> string \<Rightarrow> string" where
  "expandHomePath en value =
     (if value \<noteq> ''~'' \<and> \<not> HasPrefix value ''~/'' then []
      else case known_home en of
             None \<Rightarrow> []
           | Some home \<Rightarrow> (if value = ''~'' then home else path_Join [home, TrimPrefix value ''~/'']))"

definition resolveLocalPath :: "environ \<Rightarrow> string \<Rightarrow> string \<Rightarrow> string" where
  "resolveLocalPath en baseDir value =
     (let value = TrimSpace value
      in if value = [] then value
         else let expanded = expandHomePath en value;
                  value = (if expanded \<noteq> [] then expanded else value)
              in if path_IsAbs value then path_Clean value
                 else let baseDir = (if baseDir = []
                                     then (case en_Getwd en of Inr cwd \<Rightarrow> cwd | Inl e \<Rightarrow> []) else baseDir)
                      in if baseDir = [] then path_Clean value
                         else path_Clean (path_Join [baseDir, value]))"

definition ResolveLocalPaths :: "environ \<Rightarrow> string \<Rightarrow> config \<Rightarrow> config" where
  "ResolveLocalPaths en baseDir c =
     c\<lparr>cf_Docker := (cf_Docker c)\<lparr>dc_EnvdBinary := resolveLocalPath en baseDir (dc_EnvdBinary (cf_Docker c)),
                                   dc_VolumeHostPath := resolveLocalPath en baseDir (dc_VolumeHostPath (cf_Docker c))\<rparr>,
       cf_Orbstack := (cf_Orbstack c)\<lparr>oc_EnvdBinary := resolveLocalPath en baseDir (oc_EnvdBinary (cf_Orbstack c)),
                                   oc_VolumeHostPath := resolveLocalPath en baseDir (oc_VolumeHostPath (cf_Orbstack c))\<rparr>,
       cf_AppleContainer := (cf_AppleContainer c)\<lparr>ac_EnvdBinary := resolveLocalPath en baseDir (ac_EnvdBinary (cf_AppleContainer c))\<rparr>\<rparr>"

definition absPathOrClean :: "environ \<Rightarrow> string \<Rightarrow> string" where
  "absPathOrClean en path = (case filepath_Abs en path of Inr p \<Rightarrow> p | Inl e \<Rightarrow> path_Clean path)"

section \<open>Host and port\<close>

text \<open>\<open>net.SplitHostPort\<close> and \<open>net.JoinHostPort\<close>.\<close>

definition addr_error :: "string \<Rightarrow> string \<Rightarrow> go_error" where
  "addr_error addr why = ErrorString (if addr = [] then why else ''address '' @ addr @ '': '' @ why)"

definition split_unbracketed :: "string \<Rightarrow> nat \<Rightarrow> go_error + string \<times> nat \<times> nat" where
  "split_unbracketed hostport i =
     (if CHR '':'' \<in> set (take i hostport) then Inl (addr_error hostport ''too many colons in address'')
      else Inr (take i hostport, 0, 0))"

definition split_bracketed :: "string \<Rightarrow> nat \<Rightarrow> go_error + string \<times> nat \<times> nat" where
  "split_bracketed hostport i =
     (case index_char CHR '']'' hostport of
        None \<Rightarrow> Inl (addr_error hostport ''missing ']' in address'')
      | Some e \<Rightarrow>
          (if e + 1 = length hostport then Inl (addr_error hostport ''missing port in address'')
           else if e + 1 = i then Inr (take (e - 1) (drop 1 hostport), 1, e + 1)
           else if hostport ! (e + 1) = CHR '':'' then Inl (addr_error hostport ''too many colons in address'')
           else Inl (addr_error hostport ''missing port in address'')))"

definition SplitHostPort :: "string \<Rightarrow> go_error + string \<times> string" where
  "SplitHostPort hostport =
     (case last_index_char CHR '':'' hostport of
        None \<Rightarrow> Inl (addr_error hostport ''missing port in address'')
      | Some i \<Rightarrow>
          (case (if hd hostport = CHR ''['' then split_bracketed hostport i else split_unbracketed hostport i) of
             Inl e \<Rightarrow> Inl e
           | Inr (host, j, k) \<Rightarrow>
               (if CHR ''['' \<in> set (drop j hostport) then Inl (addr_error hostport ''unexpected '[' in address'')
                else if CHR '']'' \<in> set (drop k hostport) then Inl (addr_error hostport ''unexpected ']' in address'')
                else Inr (host, drop (i + 1) hostport))))"

definition JoinHostPort :: "string \<Rightarrow> string \<Rightarrow> string" where
  "JoinHostPort host port =
     (if CHR '':'' \<in> set host then ''['' @ host @ '']:'' @ port else host @ '':'' @ port)"


section \<open>Addresses of the host\<close>

text \<open>A \<open>net.IP\<close> is its bytes; nil is the empty list.\<close>

type_synonym ip = "8 word list"

datatype net_addr = IPNet ip | IPAddr ip | UDPAddr ip | OtherAddr

record net_interface =
  ni_Up :: bool
  ni_Loopback :: bool
  ni_Addrs :: "go_error + net_addr list"

record net_route =
  nr_Src :: ip
  nr_LinkIndex :: int

text \<open>
  The network as the process sees it: the interfaces, the name service, the local address of a
  connected UDP socket, the routing table (\<open>netlink\<close>, on Linux only), and the parsers of the
  standard library; \<open>nt_IPString\<close> prints addresses that are not IPv4.
\<close>

record network =
  nt_Linux :: bool
  nt_ParseIP :: "string \<Rightarrow> ip"
  nt_IPString :: "ip \<Rightarrow> string"
  nt_ParseRequestURI :: "string \<Rightarrow> go_error option"
  nt_InterfaceByName :: "string \<Rightarrow> go_error + net_interface"
  nt_DialUDP :: "string \<Rightarrow> go_error + net_addr"
  nt_LookupIP :: "string \<Rightarrow> go_error + ip list"
  nt_RouteGet :: "ip \<Rightarrow> go_error + net_route list"
  nt_LinkByIndex :: "int \<Rightarrow> go_error + string"

definition v4_in_v6 :: ip where
  "v4_in_v6 = replicate 10 0 @ [255, 255]"

definition To4 :: "ip \<Rightarrow> ip" where
  "To4 a = (if length a = 4 then a else if length a = 16 \<and> take 12 a = v4_in_v6 then drop 12 a else [])"

definition dotted :: "ip \<Rightarrow> string" where
  "dotted a = Join CHR ''.'' (map (\<lambda>b. Itoa (uint b)) a)"

definition ip_String :: "network \<Rightarrow> ip \<Rightarrow> string" where
  "ip_String nt a = (if To4 a \<noteq> [] then dotted (To4 a) else nt_IPString nt a)"

definition ip_IsUnspecified :: "ip \<Rightarrow> bool" where
  "ip_IsUnspecified a = (To4 a = [0, 0, 0, 0] \<or> a = replicate 16 0)"

definition ip_IsLoopback :: "ip \<Rightarrow> bool" where
  "ip_IsLoopback a = (if To4 a \<noteq> [] then To4 a ! 0 = 127 else a = replicate 15 0 @ [1])"

definition ip_IsMulticast :: "ip \<Rightarrow> bool" where
  "ip_IsMulticast a = (if To4 a \<noteq> [] then To4 a ! 0 AND 240 = 224 else length a = 16 \<and> a ! 0 = 255)"

definition ip_IsLinkLocalUnicast :: "ip \<Rightarrow> bool" where
  "ip_IsLinkLocalUnicast a =
     (if To4 a \<noteq> [] then To4 a ! 0 = 169 \<and> To4 a ! 1 = 254
      else length a = 16 \<and> a ! 0 = 254 \<and> a ! 1 AND 192 = 128)"

definition isUsableAdvertisedIP :: "ip \<Rightarrow> bool" where
  "isUsableAdvertisedIP a =
     (if a = [] \<or> To4 a = [] then False
      else \<not> ip_IsUnspecified a \<and> \<not> ip_IsLoopback a \<and> \<not> ip_IsMulticast a \<and> \<not> ip_IsLinkLocalUnicast a)"

definition ipFromAddr :: "net_addr \<Rightarrow> ip" where
  "ipFromAddr addr = (case addr of IPNet a \<Rightarrow> a | IPAddr a \<Rightarrow> a | UDPAddr a \<Rightarrow> [] | OtherAddr \<Rightarrow> [])"

fun first_usable :: "net_addr list \<Rightarrow> string option" where
  "first_usable [] = None"
| "first_usable (addr # addrs) =
     (if isUsableAdvertisedIP (ipFromAddr addr) then Some (dotted (To4 (ipFromAddr addr))) else first_usable addrs)"

definition DetectInterfaceHost :: "network \<Rightarrow> string \<Rightarrow> go_error + string" where
  "DetectInterfaceHost nt name =
     (let name = TrimSpace name
      in if name = [] then Inl (ErrorString ''interface name is required'')
         else case nt_InterfaceByName nt name of
           Inl e \<Rightarrow> Inl e
         | Inr iface \<Rightarrow>
             (if \<not> ni_Up iface then Inl (ErrorString ''interface is not up'')
              else if ni_Loopback iface
              then Inl (ErrorString ''loopback interface is not a valid advertised interface'')
              else case ni_Addrs iface of
                Inl e \<Rightarrow> Inl e
              | Inr addrs \<Rightarrow>
                  (case first_usable addrs of
                     Some host \<Rightarrow> Inr host
                   | None \<Rightarrow> Inl (ErrorString ''interface has no usable IPv4 address''))))"

definition probe_required :: go_error where
  "probe_required = ErrorString ''traffic.advertised_probe_addr is required when traffic.advertised_host is empty''"

definition detectUDPOutboundHost :: "network \<Rightarrow> string \<Rightarrow> go_error + string" where
  "detectUDPOutboundHost nt probeAddr =
     (let probeAddr = TrimSpace probeAddr; pre = ''detect outbound host using '' @ probeAddr
      in if probeAddr = [] then Inl probe_required
         else case nt_DialUDP nt probeAddr of
           Inl e \<Rightarrow> Inl (wrap (pre @ '': '') e)
         | Inr addr \<Rightarrow>
             (case addr of
                UDPAddr a \<Rightarrow>
                  (if a = [] then Inl (ErrorString (pre @ '': local address is not UDP''))
                   else if \<not> isUsableAdvertisedIP a
                   then Inl (ErrorString (pre @ '' returned non-routable address '' @ ip_String nt a @
                          ''; set traffic.advertised_host explicitly''))
                   else Inr (dotted (To4 a)))
              | _ \<Rightarrow> Inl (ErrorString (pre @ '': local address is not UDP''))))"

definition errRouteDetectionUnsupported :: go_error where
  "errRouteDetectionUnsupported = Sentinel ''route table detection is unsupported on this platform''"

definition routeProbeIP :: "network \<Rightarrow> string \<Rightarrow> go_error + ip" where
  "routeProbeIP nt probeAddr =
     (let probeAddr = TrimSpace probeAddr
      in if probeAddr = [] then Inl probe_required
         else case SplitHostPort probeAddr of
           Inl e \<Rightarrow> Inl (wrap ''traffic.advertised_probe_addr must be host:port: '' e)
         | Inr (host, port) \<Rightarrow>
             (if nt_ParseIP nt host \<noteq> [] then Inr (nt_ParseIP nt host)
              else let pre = ''resolve traffic.advertised_probe_addr host '' @ quoted host
                   in case nt_LookupIP nt host of
                        Inl e \<Rightarrow> Inl (wrap (pre @ '': '') e)
                      | Inr ips \<Rightarrow>
                          (case filter (\<lambda>a. To4 a \<noteq> []) ips of
                             a # as \<Rightarrow> Inr a
                           | [] \<Rightarrow> Inl (ErrorString (pre @ '': no IPv4 address'')))))"

fun first_route :: "network \<Rightarrow> net_route list \<Rightarrow> string option" where
  "first_route nt [] = None"
| "first_route nt (route # routes) =
     (if isUsableAdvertisedIP (nr_Src route) then Some (dotted (To4 (nr_Src route)))
      else if nr_LinkIndex route \<le> 0 then first_route nt routes
      else case nt_LinkByIndex nt (nr_LinkIndex route) of
        Inl e \<Rightarrow> first_route nt routes
      | Inr name \<Rightarrow>
          (case DetectInterfaceHost nt name of Inr host \<Rightarrow> Some host | Inl e \<Rightarrow> first_route nt routes))"

definition detectRouteOutboundHost :: "network \<Rightarrow> string \<Rightarrow> go_error + string" where
  "detectRouteOutboundHost nt probeAddr =
     (if \<not> nt_Linux nt then Inl errRouteDetectionUnsupported
      else case routeProbeIP nt probeAddr of
        Inl e \<Rightarrow> Inl e
      | Inr targetIP \<Rightarrow>
          (case nt_RouteGet nt targetIP of
             Inl e \<Rightarrow> Inl (wrap (''netlink route get '' @ ip_String nt targetIP @ '': '') e)
           | Inr routes \<Rightarrow>
               (case first_route nt routes of
                  Some host \<Rightarrow> Inr host
                | None \<Rightarrow> Inl (ErrorString (''netlink route get '' @ ip_String nt targetIP @
                            '' did not return a usable IPv4 source address'')))))"

definition DetectTrafficAdvertisedHost :: "network \<Rightarrow> traffic_config \<Rightarrow> go_error + string" where
  "DetectTrafficAdvertisedHost nt cfg =
     (let iface = TrimSpace (tc_Interface cfg)
      in if iface \<noteq> []
         then (case DetectInterfaceHost nt iface of
                 Inl e \<Rightarrow> Inl (wrap (''detect advertised host using traffic.interface '' @ quoted iface @ '': '') e)
               | Inr host \<Rightarrow> Inr host)
         else case detectRouteOutboundHost nt (tc_AdvertisedProbeAddr cfg) of
           Inr host \<Rightarrow> Inr host
         | Inl routeErr \<Rightarrow>
             (case detectUDPOutboundHost nt (tc_AdvertisedProbeAddr cfg) of
                Inr host \<Rightarrow> Inr host
              | Inl e \<Rightarrow>
                  (if \<not> errors_Is routeErr errRouteDetectionUnsupported
                   then Inl (Wrapf [] e (''; route table detection also failed: '' @ error_text routeErr))
                   else Inl e)))"

definition DetectOutboundHost :: "network \<Rightarrow> string \<Rightarrow> go_error + string" where
  "DetectOutboundHost nt probeAddr =
     DetectTrafficAdvertisedHost nt \<lparr>tc_AdvertisedHost = [], tc_Interface = [], tc_AdvertisedProbeAddr = probeAddr\<rparr>"

definition ResolveTrafficAdvertisedHost :: "network \<Rightarrow> config \<Rightarrow> go_error + config" where
  "ResolveTrafficAdvertisedHost nt c =
     (if TrimSpace (tc_AdvertisedHost (cf_Traffic c)) \<noteq> [] then Inr c
      else case DetectTrafficAdvertisedHost nt (cf_Traffic c) of
        Inl e \<Rightarrow> Inl e
      | Inr host \<Rightarrow> Inr (c\<lparr>cf_Traffic := (cf_Traffic c)\<lparr>tc_AdvertisedHost := host\<rparr>\<rparr>))"

section \<open>Validation\<close>

definition validateInterfaceName :: "string \<Rightarrow> go_error option" where
  "validateInterfaceName name =
     (let name = TrimSpace name
      in if name = [] then None
         else if \<exists>c \<in> set name. c \<in> set [CHR '' '', CHR 0x09, CHR 0x0D, CHR 0x0A]
         then Some (ErrorString ''traffic.interface must be a single interface name'')
         else None)"

definition validateAdvertisedHost :: "string \<Rightarrow> go_error option" where
  "validateAdvertisedHost host =
     (let host = TrimSpace host
      in if host = [] then None
         else if str_contains host ''://''
         then Some (ErrorString ''traffic.advertised_host must be a host or IP without scheme'')
         else if CHR ''/'' \<in> set host
         then Some (ErrorString ''traffic.advertised_host must be a host or IP without path'')
         else case SplitHostPort host of
           Inr hp \<Rightarrow> Some (ErrorString ''traffic.advertised_host must not include a port'')
         | Inl e \<Rightarrow> None)"

definition validate_traffic :: "traffic_config \<Rightarrow> go_error option" where
  "validate_traffic c =
     (case validateAdvertisedHost (tc_AdvertisedHost c) of
        Some e \<Rightarrow> Some e
      | None \<Rightarrow>
          (case validateInterfaceName (tc_Interface c) of
             Some e \<Rightarrow> Some e
           | None \<Rightarrow>
               (if TrimSpace (tc_AdvertisedProbeAddr c) = []
                then Some (ErrorString ''traffic.advertised_probe_addr is required'')
                else case SplitHostPort (tc_AdvertisedProbeAddr c) of
                  Inl e \<Rightarrow> Some (wrap ''traffic.advertised_probe_addr must be host:port: '' e)
                | Inr hp \<Rightarrow> None)))"

definition validate_docker :: "network \<Rightarrow> docker_config \<Rightarrow> go_error option" where
  "validate_docker nt c =
     (if dc_Host c = [] then Some (ErrorString ''docker.host is required'')
      else if dc_ContainerNamePrefix c = [] then Some (ErrorString ''docker.container_name_prefix is required'')
      else if dc_EnvdBinary c \<noteq> [] \<and> \<not> path_IsAbs (dc_EnvdBinary c)
      then Some (ErrorString ''docker.envd_binary must be an absolute path'')
      else if dc_HealthTimeoutSeconds c \<le> 0 then Some (ErrorString ''docker.health_timeout_seconds must be positive'')
      else if TrimSpace (dc_VolumeHostPath c) = [] then Some (ErrorString ''docker.volume_host_path is required'')
      else if \<not> path_IsAbs (dc_VolumeHostPath c)
      then Some (ErrorString ''docker.volume_host_path must be an absolute path'')
      else if TrimSpace (dc_PublishedHostIP c) = [] then Some (ErrorString ''docker.published_host_ip is required'')
      else if nt_ParseIP nt (TrimSpace (dc_PublishedHostIP c)) = []
      then Some (ErrorString ''docker.published_host_ip must be an IP address'')
      else if \<exists>port \<in> set (dc_PublishedPorts c). port \<le> 0 \<or> port > 65535
      then Some (ErrorString ''docker.published_ports values must be between 1 and 65535'')
      else case nt_ParseRequestURI nt (dc_Host c) of
        Some e \<Rightarrow> Some (wrap ''docker.host is invalid: '' e)
      | None \<Rightarrow> None)"

fun validate_orb_templates :: "(string, orb_template_config) gomap \<Rightarrow> go_error option" where
  "validate_orb_templates [] = None"
| "validate_orb_templates ((templateID, t) # ts) =
     (if TrimSpace templateID = [] then Some (ErrorString ''orbstack.templates keys must not be empty'')
      else if TrimSpace (ot_BaseMachine t) \<noteq> [] \<and> CHR 0x0A \<in> set (TrimSpace (ot_BaseMachine t))
      then Some (ErrorString (''orbstack.templates.'' @ templateID @ ''.base_machine must be a single machine name''))
      else validate_orb_templates ts)"

definition validate_orb :: "orb_config \<Rightarrow> go_error option" where
  "validate_orb c =
     (if TrimSpace (oc_MachineNamePrefix c) = [] then Some (ErrorString ''orbstack.machine_name_prefix is required'')
      else if TrimSpace (oc_DefaultMemory c) = [] then Some (ErrorString ''orbstack.default_memory is required'')
      else if TrimSpace (oc_DefaultCPUs c) = [] then Some (ErrorString ''orbstack.default_cpus is required'')
      else if TrimSpace (oc_DefaultDisk c) = [] then Some (ErrorString ''orbstack.default_disk is required'')
      else if TrimSpace (oc_EnvdBinary c) = [] then Some (ErrorString ''orbstack.envd_binary is required'')
      else if \<not> path_IsAbs (oc_EnvdBinary c) then Some (ErrorString ''orbstack.envd_binary must be an absolute path'')
      else if oc_EnvdPort c \<le> 0 then Some (ErrorString ''orbstack.envd_port must be positive'')
      else if oc_HealthTimeoutSeconds c \<le> 0
      then Some (ErrorString ''orbstack.health_timeout_seconds must be positive'')
      else if TrimSpace (oc_VolumeHostPath c) = [] then Some (ErrorString ''orbstack.volume_host_path is required'')
      else if \<not> path_IsAbs (oc_VolumeHostPath c)
      then Some (ErrorString ''orbstack.volume_host_path must be an absolute path'')
      else validate_orb_templates (oc_Templates c))"

text \<open>The loop over the templates also says whether one of them needs the binary of the host.\<close>

fun validate_apple_templates :: "(string, apple_template_config) gomap \<Rightarrow> go_error + bool" where
  "validate_apple_templates [] = Inr False"
| "validate_apple_templates ((templateID, t) # ts) =
     (let pre = ''applecontainer.templates.'' @ templateID; prebakedEnvdPath = TrimSpace (at_PrebakedEnvdPath t)
      in if TrimSpace templateID = [] then Inl (ErrorString ''applecontainer.templates keys must not be empty'')
         else if TrimSpace (at_Image t) = [] then Inl (ErrorString (pre @ ''.image is required''))
         else if at_CPUs t < 0 then Inl (ErrorString (pre @ ''.cpus must not be negative''))
         else if at_MemoryMB t < 0 then Inl (ErrorString (pre @ ''.memory_mb must not be negative''))
         else if prebakedEnvdPath \<noteq> [] \<and> \<not> path_IsAbs prebakedEnvdPath
         then Inl (ErrorString (pre @ ''.prebaked_envd_path must be absolute''))
         else case validate_apple_templates ts of
           Inl e \<Rightarrow> Inl e
         | Inr requires \<Rightarrow> Inr (prebakedEnvdPath = [] \<or> requires))"

definition validate_apple :: "apple_config \<Rightarrow> go_error option" where
  "validate_apple c =
     (if TrimSpace (ac_ContainerNamePrefix c) = []
      then Some (ErrorString ''applecontainer.container_name_prefix is required'')
      else if TrimSpace (ac_EnvdBinary c) \<noteq> [] \<and> \<not> path_IsAbs (ac_EnvdBinary c)
      then Some (ErrorString ''applecontainer.envd_binary must be an absolute path'')
      else if ac_EnvdPort c \<le> 0 \<or> ac_EnvdPort c > 65535
      then Some (ErrorString ''applecontainer.envd_port must be between 1 and 65535'')
      else if ac_HealthTimeoutSeconds c \<le> 0
      then Some (ErrorString ''applecontainer.health_timeout_seconds must be positive'')
      else if ac_DefaultCPUs c \<le> 0 then Some (ErrorString ''applecontainer.default_cpus must be positive'')
      else if ac_DefaultMemoryMB c \<le> 0 then Some (ErrorString ''applecontainer.default_memory_mb must be positive'')
      else if ac_Templates c = [] then Some (ErrorString ''applecontainer.templates is required'')
      else case validate_apple_templates (ac_Templates c) of
        Inl e \<Rightarrow> Some e
      | Inr requiresHostEnvdBinary \<Rightarrow>
          (if requiresHostEnvdBinary \<and> TrimSpace (ac_EnvdBinary c) = []
           then Some (ErrorString ''applecontainer.envd_binary is required unless every template sets prebaked_envd_path'')
           else None))"

definition validate_config :: "network \<Rightarrow> config \<Rightarrow> go_error option" where
  "validate_config nt c =
     (let t = rc_Type (cf_Runtime c)
      in if sc_Addr (cf_Server c) = [] then Some (ErrorString ''server.addr is required'')
         else case validate_traffic (cf_Traffic c) of
           Some e \<Rightarrow> Some e
         | None \<Rightarrow>
             (if t = [] then Some (ErrorString ''runtime.type is required'')
              else if bc_MaxConcurrent (cf_TemplateBuilds c) \<le> 0
              then Some (ErrorString ''template_builds.max_concurrent must be greater than 0'')
              else if t = ''docker'' then validate_docker nt (cf_Docker c)
              else if t = ''orbstack'' then validate_orb (cf_Orbstack c)
              else if t = ''applecontainer'' then validate_apple (cf_AppleContainer c)
              else Some (ErrorString ''runtime.type must be docker, orbstack, or applecontainer'')))"

section \<open>Loading\<close>

text \<open>
  \<open>yaml\<close> decodes the file over the defaults. A configuration that is not valid is returned with the
  error in the code, and only the error is looked at.
\<close>

definition checked :: "network \<Rightarrow> config \<Rightarrow> go_error + config" where
  "checked nt c = (case validate_config nt c of Some e \<Rightarrow> Inl e | None \<Rightarrow> Inr c)"

definition LoadConfig :: "environ \<Rightarrow> network \<Rightarrow> (string \<Rightarrow> config \<Rightarrow> go_error + config) \<Rightarrow> string \<Rightarrow> ('e, config) host_op" where
  "LoadConfig en nt yaml path h =
     (case DefaultConfig en h of
        (cfg, h) \<Rightarrow>
          (if path = [] then (checked nt (ResolveLocalPaths en [] cfg), h)
           else case os_ReadFile path h of
             (Inl e, h) \<Rightarrow> (Inl e, h)
           | (Inr data, h) \<Rightarrow>
               (case yaml data cfg of
                  Inl e \<Rightarrow> (Inl e, h)
                | Inr cfg \<Rightarrow> (checked nt (ResolveLocalPaths en (path_Dir (absPathOrClean en path)) cfg), h))))"


section \<open>What a valid configuration gives\<close>

lemma clean_parts_rooted:
  assumes "\<forall>p \<in> set ps. CHR ''/'' \<notin> set p" and "list_all plain_elem out"
  shows "list_all plain_elem (clean_parts True out ps)"
  using assms
proof (induction True out ps rule: clean_parts.induct)
  case (2 out p ps)
  then show ?case by (auto simp: plain_elem_def dot_def dotdot_def split: list.splits)
qed simp

lemma clean_parts_set: "set (clean_parts r out ps) \<subseteq> insert dotdot (set out \<union> {p \<in> set ps. p \<noteq> []})"
proof (induction ps arbitrary: out)
  case (Cons p ps)
  show ?case
  proof (cases "p = [] \<or> p = dot")
    case True
    then show ?thesis using Cons.IH [of out] by auto
  next
    case False
    show ?thesis
    proof (cases "p = dotdot")
      case True
      show ?thesis
      proof (cases out)
        case Nil
        then show ?thesis using False True Cons.IH [of "[]"] Cons.IH [of "[dotdot]"] by (cases r) auto
      next
        case (Cons q out')
        then show ?thesis using False True Cons.IH [of "out'"] Cons.IH [of "dotdot # out"] by (cases "q = dotdot") auto
      qed
    next
      case nd: False
      then show ?thesis using False Cons.IH [of "p # out"] by auto
    qed
  qed
qed auto
lemma clean_parts_relative:
  assumes "\<forall>p \<in> set ps. CHR ''/'' \<notin> set p"
  shows "\<forall>p \<in> set (clean_parts r [] ps). p \<noteq> [] \<and> CHR ''/'' \<notin> set p"
  using assms clean_parts_set [of r "[]" ps] by (auto simp: dotdot_def)

lemma path_Clean_abs:
  assumes "path_IsAbs p" shows "\<exists>cs. list_all plain_elem cs \<and> path_Clean p = abs_path cs"
proof -
  from assms have p: "p \<noteq> []" "hd p = CHR ''/''" by (cases p; simp add: path_IsAbs_def HasPrefix_def)+
  have "list_all plain_elem (clean_parts True [] (Split CHR ''/'' p))"
    by (rule clean_parts_rooted) (simp_all add: Split_no_sep)
  with p show ?thesis by (auto simp: path_Clean_def abs_path_def Let_def)
qed

lemma path_IsAbs_Clean: "path_IsAbs (path_Clean p) \<Longrightarrow> path_IsAbs p"
proof (rule ccontr)
  assume a: "path_IsAbs (path_Clean p)" and n: "\<not> path_IsAbs p"
  define ps where "ps = clean_parts False [] (Split CHR ''/'' p)"
  have ps: "\<forall>q \<in> set ps. q \<noteq> [] \<and> CHR ''/'' \<notin> set q"
    unfolding ps_def by (rule clean_parts_relative) (simp_all add: Split_no_sep)
  have "\<not> path_IsAbs (Join CHR ''/'' ps)"
  proof (cases ps rule: remdups_adj.cases)
    case 1
    then show ?thesis by (simp add: path_IsAbs_def HasPrefix_def)
  next
    case (2 q)
    with ps show ?thesis by (cases q) (auto simp: path_IsAbs_def HasPrefix_def)
  next
    case (3 q r qs)
    with ps show ?thesis by (cases q) (auto simp: path_IsAbs_def HasPrefix_def)
  qed
  moreover have "\<not> path_IsAbs dot" by (simp add: path_IsAbs_def HasPrefix_def dot_def)
  moreover have "p = [] \<or> hd p \<noteq> CHR ''/''" using n by (cases p) (auto simp: path_IsAbs_def HasPrefix_def)
  ultimately show False using a by (auto simp: path_Clean_def Let_def ps_def split: if_splits)
qed

lemma resolveLocalPath_abs:
  assumes "path_IsAbs (resolveLocalPath en b v)"
  shows "\<exists>cs. list_all plain_elem cs \<and> resolveLocalPath en b v = abs_path cs"
proof -
  have "resolveLocalPath en b v = [] \<or> (\<exists>x. resolveLocalPath en b v = path_Clean x)"
    by (auto simp: resolveLocalPath_def Let_def)
  moreover have "\<not> path_IsAbs []" by (simp add: path_IsAbs_def HasPrefix_def)
  ultimately obtain x where "resolveLocalPath en b v = path_Clean x" using assms by auto
  with assms path_Clean_abs [OF path_IsAbs_Clean [of x]] show ?thesis by simp
qed

lemma LoadConfig_valid:
  assumes "LoadConfig en nt yaml path h = (Inr c, h')"
  shows "validate_config nt c = None \<and> (\<exists>b c'. c = ResolveLocalPaths en b c')"
  using assms by (auto simp: LoadConfig_def checked_def split: prod.splits sum.splits if_splits option.splits)

text \<open>What the three backends rely on.\<close>

definition docker_ready :: "docker_config \<Rightarrow> bool" where
  "docker_ready c \<longleftrightarrow>
     (\<exists>d. list_all plain_elem d \<and> dc_VolumeHostPath c = abs_path d) \<and>
     (dc_EnvdBinary c = [] \<or> path_IsAbs (dc_EnvdBinary c)) \<and> 0 < dc_HealthTimeoutSeconds c \<and>
     (\<forall>p \<in> set (dc_PublishedPorts c). 0 < p \<and> p \<le> 65535)"

definition orb_ready :: "orb_config \<Rightarrow> bool" where
  "orb_ready c \<longleftrightarrow>
     TrimSpace (oc_MachineNamePrefix c) \<noteq> [] \<and> path_IsAbs (oc_EnvdBinary c) \<and>
     0 < oc_EnvdPort c \<and> 0 < oc_HealthTimeoutSeconds c \<and>
     (\<exists>d. list_all plain_elem d \<and> oc_VolumeHostPath c = abs_path d)"

definition apple_ready :: "apple_config \<Rightarrow> bool" where
  "apple_ready c \<longleftrightarrow>
     0 < ac_EnvdPort c \<and> ac_EnvdPort c \<le> 65535 \<and> 0 < ac_HealthTimeoutSeconds c \<and>
     ac_Templates c \<noteq> [] \<and>
     (\<forall>(i, t) \<in> set (ac_Templates c). TrimSpace i \<noteq> [] \<and> TrimSpace (at_Image t) \<noteq> [] \<and>
        0 \<le> at_CPUs t \<and> 0 \<le> at_MemoryMB t \<and>
        (path_IsAbs (TrimSpace (at_PrebakedEnvdPath t)) \<or>
         TrimSpace (at_PrebakedEnvdPath t) = [] \<and> path_IsAbs (ac_EnvdBinary c)))"

lemma validate_docker_ready:
  assumes "validate_docker nt c = None" and "path_IsAbs (dc_VolumeHostPath c) \<Longrightarrow> \<exists>d. list_all plain_elem d \<and> dc_VolumeHostPath c = abs_path d"
  shows "docker_ready c"
  using assms by (auto simp: validate_docker_def docker_ready_def not_le split: if_splits option.splits)

lemma validate_orb_ready:
  assumes "validate_orb c = None" and "path_IsAbs (oc_VolumeHostPath c) \<Longrightarrow> \<exists>d. list_all plain_elem d \<and> oc_VolumeHostPath c = abs_path d"
  shows "orb_ready c"
  using assms by (auto simp: validate_orb_def orb_ready_def not_le split: if_splits)

lemma validate_apple_templates_ok:
  "validate_apple_templates ts = Inr b \<Longrightarrow>
     (\<forall>(i, t) \<in> set ts. TrimSpace i \<noteq> [] \<and> TrimSpace (at_Image t) \<noteq> [] \<and> 0 \<le> at_CPUs t \<and> 0 \<le> at_MemoryMB t \<and>
        (path_IsAbs (TrimSpace (at_PrebakedEnvdPath t)) \<or> TrimSpace (at_PrebakedEnvdPath t) = [] \<and> b))"
proof (induction ts arbitrary: b rule: validate_apple_templates.induct)
  case (2 i t ts)
  from "2.prems" obtain b' where b': "validate_apple_templates ts = Inr b'" "b' \<longrightarrow> b"
    by (auto simp: Let_def split: if_splits sum.splits)
  from "2.prems" have h: "TrimSpace i \<noteq> [] \<and> TrimSpace (at_Image t) \<noteq> [] \<and> 0 \<le> at_CPUs t \<and> 0 \<le> at_MemoryMB t \<and>
      (path_IsAbs (TrimSpace (at_PrebakedEnvdPath t)) \<or> TrimSpace (at_PrebakedEnvdPath t) = [] \<and> b)"
    by (auto simp: Let_def not_less split: if_splits sum.splits)
  have "\<forall>(j, u) \<in> set ts. TrimSpace j \<noteq> [] \<and> TrimSpace (at_Image u) \<noteq> [] \<and> 0 \<le> at_CPUs u \<and> 0 \<le> at_MemoryMB u \<and>
      (path_IsAbs (TrimSpace (at_PrebakedEnvdPath u)) \<or> TrimSpace (at_PrebakedEnvdPath u) = [] \<and> b')"
    using "2.prems" by (intro "2.IH" [OF refl refl]) (auto simp: Let_def b' split: if_splits)
  with h b'(2) show ?case by auto
qed simp

lemma validate_apple_ready:
  assumes "validate_apple c = None" shows "apple_ready c"
proof -
  from assms obtain b where b: "validate_apple_templates (ac_Templates c) = Inr b"
    by (auto simp: validate_apple_def split: if_splits sum.splits)
  have "path_IsAbs (ac_EnvdBinary c)" if b
    using assms b that by (auto simp: validate_apple_def split: if_splits)
  with validate_apple_templates_ok [OF b] have "\<forall>(i, t) \<in> set (ac_Templates c). TrimSpace i \<noteq> [] \<and> TrimSpace (at_Image t) \<noteq> [] \<and>
        0 \<le> at_CPUs t \<and> 0 \<le> at_MemoryMB t \<and>
        (path_IsAbs (TrimSpace (at_PrebakedEnvdPath t)) \<or>
         TrimSpace (at_PrebakedEnvdPath t) = [] \<and> path_IsAbs (ac_EnvdBinary c))" by auto
  then show ?thesis using assms by (auto simp: validate_apple_def apple_ready_def not_le split: if_splits)
qed

lemma first_usable_usable: "first_usable addrs = Some host \<Longrightarrow> \<exists>a. isUsableAdvertisedIP a \<and> host = dotted (To4 a)"
  by (induction addrs) (auto split: if_splits)

lemma DetectInterfaceHost_usable:
  "DetectInterfaceHost nt name = Inr host \<Longrightarrow> \<exists>a. isUsableAdvertisedIP a \<and> host = dotted (To4 a)"
  by (auto simp: DetectInterfaceHost_def Let_def split: if_splits sum.splits option.splits dest: first_usable_usable)

lemma first_route_usable: "first_route nt rs = Some host \<Longrightarrow> \<exists>a. isUsableAdvertisedIP a \<and> host = dotted (To4 a)"
  by (induction rs) (auto split: if_splits sum.splits dest: DetectInterfaceHost_usable)

lemma DetectTraffic_usable:
  "DetectTrafficAdvertisedHost nt cfg = Inr host \<Longrightarrow> \<exists>a. isUsableAdvertisedIP a \<and> host = dotted (To4 a)"
  by (auto simp: DetectTrafficAdvertisedHost_def detectRouteOutboundHost_def detectUDPOutboundHost_def Let_def
      split: if_splits sum.splits option.splits net_addr.splits
      dest: DetectInterfaceHost_usable first_route_usable)


lemma usable_bytes:
  assumes "isUsableAdvertisedIP x"
  shows "\<exists>a b c d. To4 x = [a, b, c, d] \<and> [a, b, c, d] \<noteq> [0, 0, 0, 0] \<and> a \<noteq> 127 \<and> a AND 240 \<noteq> 224 \<and> (a, b) \<noteq> (169, 254)"
proof -
  from assms have n: "To4 x \<noteq> []" by (auto simp: isUsableAdvertisedIP_def)
  then have "length (To4 x) = 4" by (auto simp: To4_def split: if_splits)
  then obtain a b c d where "To4 x = [a, b, c, d]" by (auto simp: numeral_eq_Suc length_Suc_conv)
  with assms n show ?thesis
    by (auto simp: isUsableAdvertisedIP_def ip_IsUnspecified_def ip_IsLoopback_def ip_IsMulticast_def
        ip_IsLinkLocalUnicast_def split: if_splits)
qed

section \<open>Properties\<close>

definition demo_environ :: environ where
  "demo_environ = \<lparr>en_Getenv = (\<lambda>k. []), en_UserHomeDir = Inr ''/home/me'', en_TempDir = ''/tmp'',
     en_Getwd = Inr ''/srv/e2b'', en_Executable = Inr ''/srv/e2b/e2b-local''\<rparr>"

definition demo_network :: network where
  "demo_network = \<lparr>nt_Linux = True, nt_ParseIP = (\<lambda>s. [8, 8, 8, 8]), nt_IPString = (\<lambda>a. ''?''),
     nt_ParseRequestURI = (\<lambda>s. None), nt_InterfaceByName = (\<lambda>n. Inl (ErrorString ''no such network interface'')),
     nt_DialUDP = (\<lambda>a. Inr (UDPAddr [192, 168, 1, 20])), nt_LookupIP = (\<lambda>n. Inr []),
     nt_RouteGet = (\<lambda>a. Inr [\<lparr>nr_Src = [], nr_LinkIndex = 0\<rparr>, \<lparr>nr_Src = replicate 10 0 @ [255, 255, 10, 0, 0, 7], nr_LinkIndex = 2\<rparr>]),
     nt_LinkByIndex = (\<lambda>i. Inl (ErrorString ''no link''))\<rparr>"

definition bare_host :: "unit host" where
  "bare_host = \<lparr>h_fs = [], h_faults = [], h_names = [], h_now = 0, h_engine = ()\<rparr>"

definition demo_config :: config where
  "demo_config = (case LoadConfig demo_environ demo_network (\<lambda>d c. Inr c) [] bare_host of
     (Inr c, h) \<Rightarrow> c | (Inl e, h) \<Rightarrow> fst (DefaultConfig demo_environ bare_host))"

lemma demo_loaded:
  "case LoadConfig demo_environ demo_network (\<lambda>d c. Inr c) [] bare_host of
     (Inr c, h) \<Rightarrow> rc_Type (cf_Runtime c) = ''docker'' \<and>
       dc_VolumeHostPath (cf_Docker c) = ''/home/me/.e2b-local/volumes'' \<and>
       cf_Traffic c = \<lparr>tc_AdvertisedHost = [], tc_Interface = [], tc_AdvertisedProbeAddr = ''8.8.8.8:80''\<rparr>
   | (Inl e, h) \<Rightarrow> False"
  by code_simp

lemma demo_config:
  obtains h' where "LoadConfig demo_environ demo_network (\<lambda>d c. Inr c) [] bare_host = (Inr demo_config, h')"
    and "rc_Type (cf_Runtime demo_config) = ''docker''"
    and "dc_VolumeHostPath (cf_Docker demo_config) = ''/home/me/.e2b-local/volumes''"
    and "cf_Traffic demo_config = \<lparr>tc_AdvertisedHost = [], tc_Interface = [], tc_AdvertisedProbeAddr = ''8.8.8.8:80''\<rparr>"
  using demo_loaded by (auto simp: demo_config_def split: prod.splits sum.splits)



lemma demo_host_detected:
  "DetectTrafficAdvertisedHost demo_network \<lparr>tc_AdvertisedHost = [], tc_Interface = [], tc_AdvertisedProbeAddr = ''8.8.8.8:80''\<rparr> =
     Inr ''10.0.0.7''"
proof -
  let ?src = "replicate 10 0 @ [255, 255, 10, 0, 0, 7] :: ip"
  have a: "routeProbeIP demo_network ''8.8.8.8:80'' = Inr [8, 8, 8, 8]" and b: "dotted [10, 0, 0, 7] = ''10.0.0.7''"
    by code_simp+
  have r: "nt_RouteGet demo_network ip = Inr [\<lparr>nr_Src = [], nr_LinkIndex = 0\<rparr>, \<lparr>nr_Src = ?src, nr_LinkIndex = 2\<rparr>]"
    "nt_Linux demo_network" for ip
    by (simp_all add: demo_network_def)
  have c: "To4 ?src = [10, 0, 0, 7]" by (simp add: To4_def v4_in_v6_def)
  have "?src \<noteq> replicate 16 0"
  proof
    assume "?src = replicate 16 0"
    from arg_cong [OF this, of "\<lambda>a. a ! 10"] show False by (simp add: nth_append)
  qed
  then have d: "isUsableAdvertisedIP ?src" "\<not> isUsableAdvertisedIP []"
    by (simp_all add: isUsableAdvertisedIP_def c ip_IsUnspecified_def ip_IsLoopback_def ip_IsMulticast_def
        ip_IsLinkLocalUnicast_def)
  show ?thesis by (simp add: DetectTrafficAdvertisedHost_def detectRouteOutboundHost_def a r b c d)
qed

text \<open>C26: The address the gateway advertises when none is configured is one that other hosts can reach: the four
  bytes of an IPv4 address that is not the unspecified one, not a loopback, not a multicast and not a
  link-local address, whether it comes from the interface, the routing table or a UDP socket. A configured
  host is kept as it is.\<close>

theorem advertised_host_is_routable:
  assumes "ResolveTrafficAdvertisedHost nt c = Inr c'"
  shows "(if TrimSpace (tc_AdvertisedHost (cf_Traffic c)) \<noteq> [] then c' = c
    else \<exists>a b d e. tc_AdvertisedHost (cf_Traffic c') = dotted [a, b, d, e] \<and> [a, b, d, e] \<noteq> [0, 0, 0, 0] \<and>
      a \<noteq> 127 \<and> a AND 240 \<noteq> 224 \<and> (a, b) \<noteq> (169, 254))"
proof (cases "TrimSpace (tc_AdvertisedHost (cf_Traffic c)) = []")
  case True
  with assms obtain host where host: "DetectTrafficAdvertisedHost nt (cf_Traffic c) = Inr host"
    and c': "tc_AdvertisedHost (cf_Traffic c') = host"
    by (auto simp: ResolveTrafficAdvertisedHost_def split: sum.splits)
  from DetectTraffic_usable [OF host] obtain x where x: "isUsableAdvertisedIP x" "host = dotted (To4 x)" by blast
  from usable_bytes [OF x(1)] obtain a b d e where "To4 x = [a, b, d, e]" and u: "[a, b, d, e] \<noteq> [0, 0, 0, 0]"
    "a \<noteq> 127" "a AND 240 \<noteq> 224" "(a, b) \<noteq> (169, 254)" by blast
  with x c' have "tc_AdvertisedHost (cf_Traffic c') = dotted [a, b, d, e]" by simp
  with u True show ?thesis by auto
next
  case False
  with assms show ?thesis by (simp add: ResolveTrafficAdvertisedHost_def)
qed

theorem advertised_host_is_routable_witness:
  "\<exists>c'. ResolveTrafficAdvertisedHost demo_network demo_config = Inr c' \<and>
     tc_AdvertisedHost (cf_Traffic c') = ''10.0.0.7'' \<and>
     (\<exists>a b d e. tc_AdvertisedHost (cf_Traffic c') = dotted [a, b, d, e] \<and> a \<noteq> 127)"
proof (rule demo_config)
  fix h'
  assume t: "cf_Traffic demo_config = \<lparr>tc_AdvertisedHost = [], tc_Interface = [], tc_AdvertisedProbeAddr = ''8.8.8.8:80''\<rparr>"
  from demo_host_detected obtain c' where r: "ResolveTrafficAdvertisedHost demo_network demo_config = Inr c'"
    and h: "tc_AdvertisedHost (cf_Traffic c') = ''10.0.0.7''"
    by (auto simp: ResolveTrafficAdvertisedHost_def t)
  from advertised_host_is_routable [OF r] have "\<exists>a b d e. tc_AdvertisedHost (cf_Traffic c') = dotted [a, b, d, e] \<and> a \<noteq> 127"
    by (auto simp: t)
  with r h show ?thesis by blast
qed

end
