(* ===== verification/OrbConfig.thy ===== *)
theory OrbConfig
  imports GatewayConfig
begin

text \<open>
  The pure part of the OrbStack backend (\<open>orbstack/config.go\<close>, \<open>cloud_init.go\<close>): the names of the
  machines of sandboxes and snapshots, the machines that serve as templates, the addresses of a
  machine, and the texts a machine is set up with (the systemd unit, the shell commands).
\<close>

section \<open>Machines\<close>

record vm_image =
  vg_Distro :: string
  vg_Version :: string
  vg_Arch :: string
  vg_Variant :: string

record vm_config =
  vc_Isolated :: bool
  vc_ForwardSSHAgent :: bool
  vc_IsolateNetwork :: bool
  vc_DefaultUsername :: string
  vc_HTTPPort :: int
  vc_HTTPSPort :: int

record vm_info =
  vi_ID :: string
  vi_Name :: string
  vi_State :: string
  vi_Image :: vm_image
  vi_Config :: vm_config
  vi_Builtin :: bool
  vi_DiskSize :: int
  vi_IP4 :: string
  vi_IP6 :: string

definition no_vm :: vm_info where
  "no_vm = \<lparr>vi_ID = [], vi_Name = [], vi_State = [],
     vi_Image = \<lparr>vg_Distro = [], vg_Version = [], vg_Arch = [], vg_Variant = []\<rparr>,
     vi_Config = \<lparr>vc_Isolated = False, vc_ForwardSSHAgent = False, vc_IsolateNetwork = False,
       vc_DefaultUsername = [], vc_HTTPPort = 0, vc_HTTPSPort = 0\<rparr>,
     vi_Builtin = False, vi_DiskSize = 0, vi_IP4 = [], vi_IP6 = []\<rparr>"

section \<open>Templates (config.go)\<close>

definition no_template :: orb_template_config where
  "no_template = \<lparr>ot_Memory = [], ot_CPUs = [], ot_Disk = [], ot_StartCmd = [], ot_BaseMachine = []\<rparr>"

definition templateOverrides :: "orb_config \<Rightarrow> string \<Rightarrow> orb_template_config" where
  "templateOverrides cfg templateID =
     (let templateID = TrimSpace templateID
      in if templateID = [] then no_template
         else case map_of (oc_Templates cfg) templateID of None \<Rightarrow> no_template | Some t \<Rightarrow> t)"

definition isTemplateSourceMachine :: "orb_config \<Rightarrow> string \<Rightarrow> bool" where
  "isTemplateSourceMachine cfg machineName =
     (let machineName = TrimSpace machineName; pre = TrimSpace (oc_MachineNamePrefix cfg)
      in if machineName = [] then False else pre = [] \<or> \<not> HasPrefix machineName pre)"

fun template_vms :: "orb_config \<Rightarrow> string list \<Rightarrow> vm_info list \<Rightarrow> vm_info list" where
  "template_vms cfg seen [] = []"
| "template_vms cfg seen (info # vms) =
     (let name = TrimSpace (vi_Name info)
      in if \<not> isTemplateSourceMachine cfg name \<or> name \<in> set seen then template_vms cfg seen vms
         else info # template_vms cfg (name # seen) vms)"

definition listTemplateSourceVMs :: "vm_info list \<Rightarrow> orb_config \<Rightarrow> vm_info list" where
  "listTemplateSourceVMs vms cfg = sort_key vi_Name (template_vms cfg [] vms)"

definition templateBuildIDFromVM :: "vm_info \<Rightarrow> string" where
  "templateBuildIDFromVM info =
     (let value = TrimSpace (vi_ID info) in if value \<noteq> [] then value else TrimSpace (vi_Name info))"

definition templateValue :: "string \<Rightarrow> string \<Rightarrow> string" where
  "templateValue value fallback =
     (let value = TrimSpace value in if value \<noteq> [] then value else TrimSpace fallback)"

definition intOrDefault :: "string \<Rightarrow> int \<Rightarrow> int" where
  "intOrDefault value fallback =
     (let value = TrimSpace value
      in if value = [] then fallback
         else case Atoi value of None \<Rightarrow> fallback | Some parsed \<Rightarrow> if parsed \<le> 0 then fallback else parsed)"

text \<open>
  \<open>units.RAMInBytes\<close>, of another package, is a parameter. The sum is a 64-bit one.
\<close>

definition sizeMBOrDefault :: "(string \<Rightarrow> go_error + int) \<Rightarrow> string \<Rightarrow> int \<Rightarrow> int" where
  "sizeMBOrDefault ramInBytes value fallback =
     (let value = TrimSpace value
      in if value = [] then fallback
         else case ramInBytes value of
           Inl e \<Rightarrow> fallback
         | Inr parsed \<Rightarrow>
             (if parsed \<le> 0 then fallback
              else let n = signed_take_bit 63 (parsed + 1024 * 1024 - 1) in sgn n * (\<bar>n\<bar> div (1024 * 1024))))"

definition orb_bytesToMB :: "int \<Rightarrow> int" where
  "orb_bytesToMB value =
     (if value \<le> 0 then 0
      else let n = signed_take_bit 63 (value + 1024 * 1024 - 1) in sgn n * (\<bar>n\<bar> div (1024 * 1024)))"

definition runtimeTemplateFromVM :: "(string \<Rightarrow> go_error + int) \<Rightarrow> time \<Rightarrow> orb_config \<Rightarrow> vm_info \<Rightarrow> runtime_template" where
  "runtimeTemplateFromVM ramInBytes now cfg info =
     (let templateID = TrimSpace (vi_Name info);
          t = templateOverrides cfg templateID;
          memory = templateValue (ot_Memory t) (oc_DefaultMemory cfg);
          disk = templateValue (ot_Disk t) (oc_DefaultDisk cfg);
          cpus = templateValue (ot_CPUs t) (oc_DefaultCPUs cfg);
          diskSizeMB = (if vi_DiskSize info > 0 then orb_bytesToMB (vi_DiskSize info)
                        else sizeMBOrDefault ramInBytes disk 0)
      in \<lparr>tr_TemplateID = templateID, tr_Names = [templateID], tr_ImageRef = templateID, tr_BuildCount = 1,
          tr_BuildID = templateBuildIDFromVM info, tr_BuildStatus = ''ready'', tr_CPUCount = intOrDefault cpus 1,
          tr_DiskSizeMB = diskSizeMB, tr_MemoryMB = sizeMBOrDefault ramInBytes memory 512, tr_Public = False,
          tr_SpawnCount = 0, tr_CreatedAt = now, tr_UpdatedAt = now, tr_LastSpawnedAt = None\<rparr>)"

section \<open>Addresses\<close>

definition preferredVMHost :: "vm_info \<Rightarrow> string" where
  "preferredVMHost info =
     (let value = TrimSpace (vi_IP4 info) in if value \<noteq> [] then value else TrimSpace (vi_IP6 info))"

definition envdURLForHost :: "string \<Rightarrow> int \<Rightarrow> string" where
  "envdURLForHost host port =
     (let host = TrimSpace host in if host = [] then [] else ''http://'' @ JoinHostPort host (Itoa port))"

definition machineEnvdURL :: "string \<Rightarrow> int \<Rightarrow> string" where
  "machineEnvdURL name port =
     (let name = TrimSpace name in if name = [] then [] else envdURLForHost (name @ ''.orb.local'') port)"

definition vmEnvdURL :: "vm_info \<Rightarrow> int \<Rightarrow> string" where
  "vmEnvdURL info port =
     (let host = preferredVMHost info
      in if host \<noteq> [] then envdURLForHost host port else machineEnvdURL (vi_Name info) port)"

section \<open>Names of machines\<close>

definition sandboxMachineName :: "orb_config \<Rightarrow> string \<Rightarrow> string" where
  "sandboxMachineName cfg sandboxID = TrimSpace (oc_MachineNamePrefix cfg) @ TrimSpace sandboxID"

definition snapshotMachinePrefix :: "orb_config \<Rightarrow> string" where
  "snapshotMachinePrefix cfg = TrimRight CHR ''-'' (TrimSpace (oc_MachineNamePrefix cfg)) @ ''-snapshot-''"

text \<open>
  The loop over the runes of the name: what is neither a lower-case letter nor a digit becomes one
  dash (each byte of a longer character is such a one).
\<close>

fun machine_name_loop :: "bool \<Rightarrow> string \<Rightarrow> string" where
  "machine_name_loop lastDash [] = []"
| "machine_name_loop lastDash (r # rs) =
     (if image_char r then r # machine_name_loop False rs
      else if lastDash then machine_name_loop True rs
      else CHR ''-'' # machine_name_loop True rs)"

definition safeMachineNameComponent :: "string \<Rightarrow> string" where
  "safeMachineNameComponent value =
     (let result = trim_char CHR ''-'' (machine_name_loop False (lower_utf8 (TrimSpace value)))
      in if length result > 48 then trim_char CHR ''-'' (take 48 result) else result)"

definition snapshotMachineName :: "orb_config \<Rightarrow> string \<Rightarrow> string \<Rightarrow> time \<Rightarrow> string" where
  "snapshotMachineName cfg sandboxID name createdAt =
     (let component = safeMachineNameComponent name;
          component = (if component = [] then safeMachineNameComponent (Itoa (time_Unix createdAt)) else component);
          component = (if component = [] then ''snapshot'' else component)
      in snapshotMachinePrefix cfg @ TrimSpace sandboxID @ ''-'' @ component)"

definition sandboxIDFromMachineName :: "orb_config \<Rightarrow> string \<Rightarrow> string" where
  "sandboxIDFromMachineName cfg machineName =
     TrimPrefix (TrimSpace machineName) (TrimSpace (oc_MachineNamePrefix cfg))"

section \<open>Volumes in a machine\<close>

definition isolatedVolumeMountRoot :: string where
  "isolatedVolumeMountRoot = ''/mnt/e2b-local/volumes''"

definition macSharedPath :: "string \<Rightarrow> string" where
  "macSharedPath hostPath =
     (let hostPath = path_Clean (TrimSpace hostPath)
      in if hostPath = dot \<or> hostPath = [] then []
         else path_Join [''/mnt/mac'', if HasPrefix hostPath ''/'' then hostPath else ''/'' @ hostPath])"

definition isolatedVolumeSourcePath :: "string \<Rightarrow> string" where
  "isolatedVolumeSourcePath volumeID =
     (let volumeID = TrimSpace volumeID
      in if volumeID = [] then isolatedVolumeMountRoot else path_Join [isolatedVolumeMountRoot, volumeID])"

definition sandboxVolumeSourcePath :: "orb_config \<Rightarrow> string \<Rightarrow> string \<Rightarrow> string" where
  "sandboxVolumeSourcePath cfg volumeID hostDir = isolatedVolumeSourcePath volumeID"

definition orb_normalizeVolumeMounts :: "volume_mount list \<Rightarrow> volume_mount list" where
  "orb_normalizeVolumeMounts volumeMounts =
     filter (\<lambda>m. \<not> (vm_VolumeID m = [] \<and> vm_Path m = [])) (map normalize_mount volumeMounts)"

fun dedupe_mounts :: "string list \<Rightarrow> volume_mount list \<Rightarrow> volume_mount list" where
  "dedupe_mounts seen [] = []"
| "dedupe_mounts seen (mount # ms) =
     (let volumeID = TrimSpace (vm_VolumeID mount)
      in if volumeID = [] \<or> volumeID \<in> set seen then dedupe_mounts seen ms
         else mount # dedupe_mounts (volumeID # seen) ms)"

definition dedupeVolumeMountsByVolumeID :: "volume_mount list \<Rightarrow> volume_mount list" where
  "dedupeVolumeMountsByVolumeID volumeMounts =
     (let normalized = orb_normalizeVolumeMounts volumeMounts
      in if length normalized < 2 then normalized else dedupe_mounts [] normalized)"

section \<open>Texts (cloud_init.go)\<close>

record provision_spec =
  ps_StartCmd :: string
  ps_EnvVars :: "(string, string) gomap"
  ps_VolumeMounts :: "volume_mount list"
  ps_VolumeHostDirs :: "(string, string) gomap"

text \<open>
  The replacer tries its three old strings, two backslashes, a quote and a newline, in this order at
  every position (the string literals of the first pair are raw: two backslashes become four).
\<close>

fun systemdQuote :: "string \<Rightarrow> string" where
  "systemdQuote [] = []"
| "systemdQuote (c # s) =
     (if c = CHR 0x5C \<and> take 1 s = [CHR 0x5C] then replicate 4 CHR 0x5C @ systemdQuote (drop 1 s)
      else if c = CHR 0x22 then [CHR 0x5C, CHR 0x22] @ systemdQuote s
      else if c = CHR 0x0A then [CHR 0x5C, CHR ''n''] @ systemdQuote s
      else c # systemdQuote s)"

text \<open>A quote of the value becomes a closing quote, a quote in double quotes, and an opening one.\<close>

definition shQuote :: "string \<Rightarrow> string" where
  "shQuote value =
     (if value = [] then [CHR 0x27, CHR 0x27]
      else CHR 0x27 # concat (map (\<lambda>c. if c = CHR 0x27 then [CHR 0x27, CHR 0x22, CHR 0x27, CHR 0x22, CHR 0x27] else [c]) value) @ [CHR 0x27])"

definition yamlSingleQuoted :: "string \<Rightarrow> string" where
  "yamlSingleQuoted value =
     CHR 0x27 # concat (map (\<lambda>c. if c = CHR 0x27 then [CHR 0x27, CHR 0x27] else [c]) value) @ [CHR 0x27]"

definition parentDir :: "string \<Rightarrow> string" where
  "parentDir value =
     (let value = TrimSpace value
      in if value = [] \<or> value = ''/'' then ''/''
         else case last_index_char CHR ''/'' value of
           None \<Rightarrow> ''/''
         | Some i \<Rightarrow> (if i = 0 then ''/'' else take i value))"

text \<open>A line of the unit file, and its parts.\<close>

definition text_line :: "string \<Rightarrow> string" where
  "text_line s = s @ [CHR 0x0A]"

definition env_line :: "(string, string) gomap \<Rightarrow> string \<Rightarrow> string" where
  "env_line env key =
     text_line (''Environment='' @ [CHR 0x22] @ systemdQuote key @ ''='' @ systemdQuote (map_read env key) @ [CHR 0x22])"

definition renderEnvdService :: "orb_config \<Rightarrow> string \<Rightarrow> (string, string) gomap \<Rightarrow> string" where
  "renderEnvdService cfg startCmd env =
     (let startCmd = TrimSpace startCmd;
          keys = sort (filter (\<lambda>k. k \<noteq> []) (map (\<lambda>kv. TrimSpace (fst kv)) env))
      in text_line ''[Unit]'' @ text_line ''Description=E2B Environment Daemon'' @ text_line ''After=network-online.target'' @
         text_line ''Wants=network-online.target'' @ text_line [] @
         text_line ''[Service]'' @ text_line ''Type=simple'' @ text_line ''Restart=always'' @ text_line ''RestartSec=1'' @
         concat (map (env_line env) keys) @
         ''ExecStart=/usr/local/bin/envd -isnotfc -port '' @ Itoa (oc_EnvdPort cfg) @
         (if startCmd \<noteq> [] then '' -cmd '' @ [CHR 0x22] @ systemdQuote startCmd @ [CHR 0x22] else []) @
         text_line [] @ text_line [] @ text_line ''[Install]'' @ text_line ''WantedBy=multi-user.target'')"

definition mount_commands :: "orb_config \<Rightarrow> (string, string) gomap \<Rightarrow> volume_mount \<Rightarrow> string list" where
  "mount_commands cfg volumeHostDirs mount =
     (let target = TrimSpace (vm_Path mount); volumeID = TrimSpace (vm_VolumeID mount);
          source = sandboxVolumeSourcePath cfg volumeID (map_read volumeHostDirs volumeID)
      in if target = [] \<or> volumeID = [] then []
         else [''mkdir -p '' @ shQuote (parentDir target), ''rm -rf '' @ shQuote target,
               ''ln -sfn '' @ shQuote source @ '' '' @ shQuote target])"

definition renderVolumeMountCommands :: "orb_config \<Rightarrow> volume_mount list \<Rightarrow> (string, string) gomap \<Rightarrow> string list" where
  "renderVolumeMountCommands cfg volumeMounts volumeHostDirs =
     concat (map (mount_commands cfg volumeHostDirs) (orb_normalizeVolumeMounts volumeMounts))"

end
