(* ===== verification/OrbControl.thy ===== *)
theory OrbControl
  imports HostFs Http
begin

text \<open>
  The client of OrbStack's control socket (\<open>internal/orbctl/client.go\<close>, \<open>types.go\<close>): JSON-RPC calls
  over HTTP on a Unix socket. The socket and the JSON codec are parameters: a call hands the encoded
  request over and gets an error, or a status and what can be read of the body. Requests are
  numbered; the number of the last one is a part of the state.
\<close>

section \<open>Types\<close>

record machine_mount =
  mm_Source :: string
  mm_Destination :: string

record container_image =
  ci_Distro :: string
  ci_Version :: string
  ci_Arch :: string
  ci_Variant :: string

record container_config =
  cc_Isolated :: bool
  cc_ForwardSSHAgent :: bool
  cc_IsolateNetwork :: bool
  cc_DefaultUsername :: string
  cc_HTTPPort :: int
  cc_HTTPSPort :: int
  cc_Mounts :: "machine_mount list"

record container_record =
  ct_ID :: string
  ct_Name :: string
  ct_Image :: container_image
  ct_Config :: container_config
  ct_Builtin :: bool
  ct_State :: string

record container_info =
  co_Record :: container_record
  co_DiskSize :: "int option"
  co_IP4 :: string
  co_IP6 :: string

text \<open>The parameters of the calls are names and configurations; \<open>None\<close> is nil.\<close>

datatype rpc_param = NameParam string | ConfigParam container_config

record rpc_request =
  rq_JSONRPC :: string
  rq_ID :: "64 word"
  rq_Method :: string
  rq_Params :: "rpc_param list option"

record rpc_error =
  re_Code :: int
  re_Message :: string
  re_Data :: string

record rpc_response =
  rs_JSONRPC :: string
  rs_ID :: "64 word"
  rs_Result :: string
  rs_Error :: "rpc_error option"

definition rpc_error_text :: "rpc_error \<Rightarrow> string" where
  "rpc_error_text e =
     (if re_Message e = [] then ''jsonrpc error '' @ Itoa (re_Code e)
      else ''jsonrpc error '' @ Itoa (re_Code e) @ '': '' @ re_Message e)"

definition ErrContainerNotFound :: go_error where
  "ErrContainerNotFound = Sentinel ''orbstack container not found''"

section \<open>The socket\<close>

text \<open>
  The body of a response is what can be read of it and the error the reading ends with, if any.
  \<open>rp_Elapsed\<close> is the time the last call took, in nanoseconds.
\<close>

record 'w rpc_transport =
  rp_Encode :: "rpc_request \<Rightarrow> go_error + string"
  rp_Do :: "string \<Rightarrow> 'w \<Rightarrow> (go_error + int \<times> string \<times> go_error option) \<times> 'w"
  rp_Decode :: "string \<Rightarrow> go_error + rpc_response"
  rp_DecodeList :: "string \<Rightarrow> go_error + container_info list"
  rp_Elapsed :: "'w \<Rightarrow> nat"

record 'w orb_world =
  ow_NextID :: "64 word"
  ow_World :: 'w

type_synonym ('w, 'a) orb_op = "('w orb_world, 'a) host_op"

text \<open>A call of the world outside: the clock moves on by the time it took.\<close>

definition socket_call :: "('w \<Rightarrow> nat) \<Rightarrow> ('w \<Rightarrow> (go_error + 'a) \<times> 'w) \<Rightarrow> ('w, 'a) orb_op" where
  "socket_call elapsed f h =
     (case f (ow_World (h_engine h)) of
        (r, w) \<Rightarrow> (r, h\<lparr>h_engine := (h_engine h)\<lparr>ow_World := w\<rparr>, h_now := h_now h + int (elapsed w)\<rparr>))"

lemma socket_call_clock: "socket_call el f h = (r, h') \<Longrightarrow> h_now h \<le> h_now h'"
  by (auto simp: socket_call_def split: prod.splits)

definition next_id :: "('w, 64 word) orb_op" where
  "next_id h =
     (let i = ow_NextID (h_engine h) + 1 in (Inr i, h\<lparr>h_engine := (h_engine h)\<lparr>ow_NextID := i\<rparr>\<rparr>))"

text \<open>\<open>io.ReadAll(io.LimitReader(body, n))\<close>.\<close>

definition read_limited :: "nat \<Rightarrow> string \<times> go_error option \<Rightarrow> go_error + string" where
  "read_limited n body =
     (case body of (data, err) \<Rightarrow>
        (if length data \<ge> n then Inr (take n data)
         else case err of None \<Rightarrow> Inr data | Some e \<Rightarrow> Inl e))"

definition maxResponseBytes :: nat where
  "maxResponseBytes = 16 * 2 ^ 20"

definition check_response :: "'w rpc_transport \<Rightarrow> string \<Rightarrow> 64 word \<Rightarrow> int \<times> string \<times> go_error option \<Rightarrow> go_error + string" where
  "check_response tr method i resp =
     (case resp of (status, body) \<Rightarrow>
      case read_limited maxResponseBytes body of
        Inl e \<Rightarrow> Inl (wrap (''read '' @ method @ '' response: '') e)
      | Inr respBody \<Rightarrow>
          (if status < 200 \<or> status \<ge> 300
           then Inl (ErrorString (''call '' @ method @ '': unexpected HTTP status '' @ Itoa status @ '': '' @ respBody))
           else case rp_Decode tr respBody of
             Inl e \<Rightarrow> Inl (wrap (''decode '' @ method @ '' jsonrpc response: '') e)
           | Inr r \<Rightarrow>
               (if rs_JSONRPC r \<noteq> ''2.0''
                then Inl (ErrorString (''decode '' @ method @ '' jsonrpc response: unexpected jsonrpc version '' @ quoted (rs_JSONRPC r)))
                else if rs_ID r \<noteq> i
                then Inl (ErrorString (''decode '' @ method @ '' jsonrpc response: unexpected id '' @ Itoa (sint (rs_ID r))))
                else case rs_Error r of
                  Some e \<Rightarrow> Inl (ErrorString (rpc_error_text e))
                | None \<Rightarrow> Inr (rs_Result r))))"

text \<open>\<open>decode\<close> stores the result; \<open>None\<close> is a nil result, for calls that return nothing.\<close>

definition rpc_call :: "'w rpc_transport \<Rightarrow> string \<Rightarrow> rpc_param list option \<Rightarrow> (string \<Rightarrow> go_error + 'a) option \<Rightarrow> 'a \<Rightarrow> ('w, 'a) orb_op" where
  "rpc_call tr method params decode none =
     bindE next_id (\<lambda>i.
     bindE (mapErr (wrap ''encode jsonrpc request: '')
       (liftE (rp_Encode tr \<lparr>rq_JSONRPC = ''2.0'', rq_ID = i, rq_Method = method, rq_Params = params\<rparr>))) (\<lambda>body.
     bindE (mapErr (wrap (''call '' @ method @ '': '')) (socket_call (rp_Elapsed tr) (rp_Do tr body))) (\<lambda>resp.
     bindE (liftE (check_response tr method i resp)) (\<lambda>result.
     case decode of
       None \<Rightarrow> ret none
     | Some f \<Rightarrow>
         (if result = [] then fail (ErrorString (''decode '' @ method @ '' jsonrpc response: missing result''))
          else mapErr (wrap (''decode '' @ method @ '' result: '')) (liftE (f result)))))))"

section \<open>The operations\<close>

definition name_required :: go_error where
  "name_required = ErrorString ''name is required''"

definition ListContainers :: "'w rpc_transport \<Rightarrow> ('w, container_info list) orb_op" where
  "ListContainers tr = rpc_call tr ''ListContainers'' None (Some (rp_DecodeList tr)) []"

definition ListMachines :: "'w rpc_transport \<Rightarrow> ('w, container_record list) orb_op" where
  "ListMachines tr =
     bindE (ListContainers tr) (\<lambda>containers. ret (filter (\<lambda>c. \<not> ct_Builtin c) (map co_Record containers)))"

definition orb_Info :: "'w rpc_transport \<Rightarrow> string \<Rightarrow> ('w, container_info) orb_op" where
  "orb_Info tr name =
     (let name = TrimSpace name
      in if name = [] then fail name_required
         else bindE (ListContainers tr) (\<lambda>containers.
           case find (\<lambda>c. ct_Name (co_Record c) = name \<or> ct_ID (co_Record c) = name) containers of
             Some c \<Rightarrow> ret c
           | None \<Rightarrow> fail (Wrapf [] ErrContainerNotFound ('': '' @ name))))"

text \<open>The calls that take the name of a machine and return nothing.\<close>

definition name_call :: "'w rpc_transport \<Rightarrow> string \<Rightarrow> string \<Rightarrow> ('w, unit) orb_op" where
  "name_call tr method name =
     (let name = TrimSpace name
      in if name = [] then fail name_required else rpc_call tr method (Some [NameParam name]) None ())"

definition orb_Start :: "'w rpc_transport \<Rightarrow> string \<Rightarrow> ('w, unit) orb_op" where
  "orb_Start tr name = name_call tr ''ContainerStart'' name"

definition orb_Stop :: "'w rpc_transport \<Rightarrow> string \<Rightarrow> ('w, unit) orb_op" where
  "orb_Stop tr name = name_call tr ''ContainerStop'' name"

definition orb_Delete :: "'w rpc_transport \<Rightarrow> string \<Rightarrow> ('w, unit) orb_op" where
  "orb_Delete tr name = name_call tr ''ContainerDelete'' name"

definition orb_Clone :: "'w rpc_transport \<Rightarrow> string \<Rightarrow> string \<Rightarrow> ('w, unit) orb_op" where
  "orb_Clone tr source dest =
     (let source = TrimSpace source; dest = TrimSpace dest
      in if source = [] \<or> dest = [] then fail (ErrorString ''source and dest are required'')
         else rpc_call tr ''ContainerClone'' (Some [NameParam source, NameParam dest]) None ())"

definition orb_SetConfig :: "'w rpc_transport \<Rightarrow> string \<Rightarrow> container_config \<Rightarrow> ('w, unit) orb_op" where
  "orb_SetConfig tr name config =
     (let name = TrimSpace name
      in if name = [] then fail name_required
         else rpc_call tr ''ContainerSetConfig'' (Some [NameParam name, ConfigParam config]) None ())"

definition orb_SetIsolated :: "'w rpc_transport \<Rightarrow> string \<Rightarrow> bool \<Rightarrow> ('w, unit) orb_op" where
  "orb_SetIsolated tr name isolated =
     bindE (orb_Info tr name) (\<lambda>info.
     orb_SetConfig tr (ct_Name (co_Record info)) ((ct_Config (co_Record info))\<lparr>cc_Isolated := isolated\<rparr>))"

definition orb_AddMount :: "'w rpc_transport \<Rightarrow> string \<Rightarrow> string \<Rightarrow> string \<Rightarrow> ('w, unit) orb_op" where
  "orb_AddMount tr name source dest =
     (let source = TrimSpace source; dest = TrimSpace dest
      in if source = [] then fail (ErrorString ''source is required'')
         else bindE (orb_Info tr name) (\<lambda>info.
           let config = ct_Config (co_Record info)
           in orb_SetConfig tr (ct_Name (co_Record info))
                (config\<lparr>cc_Mounts := cc_Mounts config @ [\<lparr>mm_Source = source, mm_Destination = dest\<rparr>]\<rparr>)))"

end
