(* ===== verification/OrbVm.thy ===== *)
theory OrbVm
  imports OrbConfig OrbControl
begin

unbundle bit_operations_syntax

text \<open>
  The client that drives OrbStack's machines (\<open>orbstack/vm_client.go\<close>): their lifecycle through the
  control socket, and files and commands in them through a shell over SSH. The SSH library is a
  parameter; a connection and a session are numbers that it gives.
\<close>

section \<open>The environment of the client\<close>

datatype wait_result = WaitDone go_error | Exited "go_error option" string string

text \<open>
  \<open>sh_Wait\<close> waits until the command has ended, with its output, or the context is done.
  \<open>sh_Close\<close> is the effect of the deferred calls that close a session or a connection.
\<close>

record 'w ssh_library =
  sh_ParsePrivateKey :: "string \<Rightarrow> go_error + string"
  sh_Dial :: "string \<Rightarrow> 'w \<Rightarrow> (go_error + nat) \<times> 'w"
  sh_NewClientConn :: "nat \<Rightarrow> string \<Rightarrow> string \<Rightarrow> 'w \<Rightarrow> (go_error + nat) \<times> 'w"
  sh_NewSession :: "nat \<Rightarrow> 'w \<Rightarrow> (go_error + nat) \<times> 'w"
  sh_Start :: "nat \<Rightarrow> string option \<Rightarrow> string \<Rightarrow> 'w \<Rightarrow> (go_error + unit) \<times> 'w"
  sh_Wait :: "nat \<Rightarrow> 'w \<Rightarrow> (go_error + wait_result) \<times> 'w"
  sh_Close :: "nat \<Rightarrow> 'w \<Rightarrow> (go_error + unit) \<times> 'w"

type_synonym 'w orb_ctx = "'w orb_world ctx"

record 'w vm_client =
  vc_Transport :: "'w rpc_transport"
  vc_SSH :: "'w ssh_library"
  vc_Environ :: environ
  vc_orbRoot :: string
  vc_sshSocketPath :: string
  vc_sshKeyPath :: string
  vc_sshRunner :: "(string \<Rightarrow> string option \<Rightarrow> string \<Rightarrow> ('w, string) orb_op) option"

definition os_Home :: "environ \<Rightarrow> string" where
  "os_Home en =
     (let v = en_Getenv en ''HOME''
      in if v \<noteq> [] then v else case en_UserHomeDir en of Inr value \<Rightarrow> value | Inl e \<Rightarrow> [])"

definition defaultOrbStackRoot :: "environ \<Rightarrow> string" where
  "defaultOrbStackRoot en =
     (let value = TrimSpace (en_Getenv en ''ORBSTACK_ROOT''); v = os_Home en
      in if value \<noteq> [] then value else if v = [] then ''OrbStack'' else path_Join [v, ''OrbStack''])"

definition defaultSconSSHSocketPath :: "environ \<Rightarrow> string" where
  "defaultSconSSHSocketPath en =
     (let v = os_Home en
      in path_Join ((if v = [] then [] else [v]) @ [''.orbstack'', ''run'', ''sconssh.sock'']))"

definition defaultOrbStackSSHKeyPath :: "environ \<Rightarrow> string" where
  "defaultOrbStackSSHKeyPath en =
     (let v = os_Home en
      in path_Join ((if v = [] then [] else [v]) @ [''.orbstack'', ''ssh'', ''id_ed25519'']))"

definition DefaultSconRPCSocketPath :: "environ \<Rightarrow> string" where
  "DefaultSconRPCSocketPath en =
     (let v = os_Home en
      in path_Join ((if v = [] then [] else [v]) @ [''.orbstack'', ''run'', ''sconrpc.sock'']))"

definition NewVMClient :: "'w rpc_transport \<Rightarrow> 'w ssh_library \<Rightarrow> environ \<Rightarrow> 'w vm_client" where
  "NewVMClient tr sh en =
     \<lparr>vc_Transport = tr, vc_SSH = sh, vc_Environ = en, vc_orbRoot = defaultOrbStackRoot en,
      vc_sshSocketPath = defaultSconSSHSocketPath en, vc_sshKeyPath = defaultOrbStackSSHKeyPath en,
      vc_sshRunner = None\<rparr>"

section \<open>Errors\<close>

definition ErrVMNotFound :: go_error where
  "ErrVMNotFound = Sentinel ''orbstack vm not found''"

definition isVMNotFoundOutput :: "string \<Rightarrow> bool" where
  "isVMNotFoundOutput output =
     (let output = lower_utf8 (TrimSpace output)
      in if output = [] then False
         else \<exists>pat \<in> set [''not found'', ''no machine'', ''unknown machine'', ''does not exist'']. str_contains output pat)"

definition isVMNotFoundError :: "go_error \<Rightarrow> bool" where
  "isVMNotFoundError err \<longleftrightarrow> errors_Is err ErrContainerNotFound \<or> isVMNotFoundOutput (error_text err)"

definition mapOrbVMError :: "string \<Rightarrow> string \<Rightarrow> go_error \<Rightarrow> go_error" where
  "mapOrbVMError operation machine err =
     (if isVMNotFoundError err then Wrapf [] ErrVMNotFound ('': '' @ machine)
      else wrap (operation @ '' orbstack vm '' @ machine @ '': '') err)"

definition machine_required :: go_error where
  "machine_required = ErrorString ''machine is required''"

section \<open>The lifecycle of machines\<close>

definition vmInfoFromContainerRecord :: "container_record \<Rightarrow> vm_info" where
  "vmInfoFromContainerRecord r =
     \<lparr>vi_ID = ct_ID r, vi_Name = ct_Name r, vi_State = ct_State r,
      vi_Image = \<lparr>vg_Distro = ci_Distro (ct_Image r), vg_Version = ci_Version (ct_Image r),
                  vg_Arch = ci_Arch (ct_Image r), vg_Variant = ci_Variant (ct_Image r)\<rparr>,
      vi_Config = \<lparr>vc_Isolated = cc_Isolated (ct_Config r), vc_ForwardSSHAgent = cc_ForwardSSHAgent (ct_Config r),
                   vc_IsolateNetwork = cc_IsolateNetwork (ct_Config r),
                   vc_DefaultUsername = cc_DefaultUsername (ct_Config r),
                   vc_HTTPPort = cc_HTTPPort (ct_Config r), vc_HTTPSPort = cc_HTTPSPort (ct_Config r)\<rparr>,
      vi_Builtin = ct_Builtin r, vi_DiskSize = 0, vi_IP4 = [], vi_IP6 = []\<rparr>"

definition vmInfoFromContainerInfo :: "container_info \<Rightarrow> vm_info" where
  "vmInfoFromContainerInfo info =
     (vmInfoFromContainerRecord (co_Record info))
       \<lparr>vi_DiskSize := (case co_DiskSize info of Some n \<Rightarrow> n | None \<Rightarrow> 0),
        vi_IP4 := TrimSpace (co_IP4 info), vi_IP6 := TrimSpace (co_IP6 info)\<rparr>"

definition vm_CreateVM :: "('w, unit) orb_op" where
  "vm_CreateVM =
     fail (ErrorString ''orbstack socket client does not support create; clone an existing template machine'')"

definition vm_DeleteVM :: "'w vm_client \<Rightarrow> string \<Rightarrow> ('w, unit) orb_op" where
  "vm_DeleteVM c name =
     (let name = TrimSpace name
      in if name = [] then fail name_required
         else caseE (orb_Delete (vc_Transport c) name)
                (\<lambda>err. if isVMNotFoundError err then ret ()
                       else fail (wrap (''delete orbstack vm '' @ name @ '': '') err)) ret)"

definition vm_StartVM :: "'w vm_client \<Rightarrow> string \<Rightarrow> ('w, unit) orb_op" where
  "vm_StartVM c name =
     (let name = TrimSpace name
      in if name = [] then fail name_required
         else mapErr (mapOrbVMError ''start'' name) (orb_Start (vc_Transport c) name))"

definition vm_StopVM :: "'w vm_client \<Rightarrow> string \<Rightarrow> ('w, unit) orb_op" where
  "vm_StopVM c name =
     (let name = TrimSpace name
      in if name = [] then fail name_required
         else mapErr (mapOrbVMError ''stop'' name) (orb_Stop (vc_Transport c) name))"

definition vm_GetVMInfo :: "'w vm_client \<Rightarrow> string \<Rightarrow> ('w, vm_info) orb_op" where
  "vm_GetVMInfo c name =
     (let name = TrimSpace name
      in if name = [] then fail name_required
         else bindE (mapErr (mapOrbVMError ''info'' name) (orb_Info (vc_Transport c) name)) (\<lambda>info.
           ret (vmInfoFromContainerInfo info)))"

definition vm_ListVMs :: "'w vm_client \<Rightarrow> ('w, vm_info list) orb_op" where
  "vm_ListVMs c =
     bindE (mapErr (wrap ''list orbstack vms: '') (ListMachines (vc_Transport c))) (\<lambda>records.
     ret (map vmInfoFromContainerRecord records))"

definition vm_CloneVM :: "'w vm_client \<Rightarrow> string \<Rightarrow> string \<Rightarrow> ('w, unit) orb_op" where
  "vm_CloneVM c source dest =
     (let source = TrimSpace source; dest = TrimSpace dest
      in if source = [] \<or> dest = [] then fail (ErrorString ''source and dest are required'')
         else mapErr (mapOrbVMError ''clone'' dest) (orb_Clone (vc_Transport c) source dest))"

definition vm_AddMachineMount :: "'w vm_client \<Rightarrow> string \<Rightarrow> string \<Rightarrow> string \<Rightarrow> ('w, unit) orb_op" where
  "vm_AddMachineMount c machine source dest =
     (let machine = TrimSpace machine; source = TrimSpace source; dest = TrimSpace dest
      in if machine = [] then fail machine_required
         else if source = [] then fail (ErrorString ''source is required'')
         else mapErr (mapOrbVMError ''config add mount'' machine) (orb_AddMount (vc_Transport c) machine source dest))"

definition vm_SetMachineOption :: "'w vm_client \<Rightarrow> string \<Rightarrow> string \<Rightarrow> string \<Rightarrow> ('w, unit) orb_op" where
  "vm_SetMachineOption c machine opt value =
     (let machine = TrimSpace machine; opt = TrimSpace opt
      in if machine = [] then fail machine_required
         else if opt = [] then fail (ErrorString ''option is required'')
         else if opt = ''isolated'' then
           (case ParseBool (TrimSpace value) of
              None \<Rightarrow> fail (ErrorString (''invalid isolated value '' @ quoted value))
            | Some parsed \<Rightarrow>
                mapErr (mapOrbVMError ''config set isolated'' machine) (orb_SetIsolated (vc_Transport c) machine parsed))
         else fail (ErrorString (''unsupported orbstack machine option '' @ quoted opt)))"

section \<open>Paths in a machine\<close>

definition path_required :: go_error where
  "path_required = ErrorString ''path is required''"

definition cleanVMPath :: "string \<Rightarrow> go_error + string" where
  "cleanVMPath vmPath =
     (let vmPath = TrimSpace vmPath
      in if vmPath = [] then Inl path_required else Inr (path_Clean (''/'' @ TrimPrefix vmPath ''/'')))"

definition machineRoot :: "'w vm_client \<Rightarrow> string \<Rightarrow> string" where
  "machineRoot c machine =
     path_Join [if TrimSpace (vc_orbRoot c) \<noteq> [] then vc_orbRoot c else defaultOrbStackRoot (vc_Environ c),
                TrimSpace machine]"

definition machineFilePath :: "'w vm_client \<Rightarrow> string \<Rightarrow> string \<Rightarrow> go_error + string" where
  "machineFilePath c machine vmPath =
     (let machine = TrimSpace machine; vmPath = TrimSpace vmPath
      in if machine = [] then Inl machine_required
         else if vmPath = [] then Inl path_required
         else let cleaned = path_Clean (''/'' @ TrimPrefix vmPath ''/''); root = machineRoot c machine
              in if cleaned = ''/'' then Inr root
                 else let target = path_Join [root, TrimPrefix cleaned ''/''];
                          cleanRoot = path_Clean root; cleanTarget = path_Clean target
                      in if cleanTarget \<noteq> cleanRoot \<and> \<not> HasPrefix cleanTarget (cleanRoot @ ''/'')
                         then Inl (ErrorString (''path escapes orbstack vm root: '' @ vmPath))
                         else Inr cleanTarget)"

section \<open>Commands over SSH\<close>

definition machineSSHReadyTimeout :: duration where "machineSSHReadyTimeout = 30 * time_Second"
definition machineSSHRetryDelay :: int where "machineSSHRetryDelay = 500000000"

definition ssh_call :: "'w vm_client \<Rightarrow> ('w \<Rightarrow> (go_error + 'a) \<times> 'w) \<Rightarrow> ('w, 'a) orb_op" where
  "ssh_call c f = socket_call (rp_Elapsed (vc_Transport c)) f"

definition machineSSHUser :: "'w vm_client \<Rightarrow> string \<Rightarrow> ('w, string) orb_op" where
  "machineSSHUser c machine =
     caseE (vm_GetVMInfo c machine)
       (\<lambda>err. if \<not> errors_Is err ErrVMNotFound then fail err else ret (TrimSpace machine))
       (\<lambda>info. let user = TrimSpace (vc_DefaultUsername (vi_Config info))
               in if user = [] then ret (TrimSpace machine) else ret (user @ ''@'' @ TrimSpace machine))"

definition run_session :: "'w vm_client \<Rightarrow> string \<Rightarrow> string option \<Rightarrow> string \<Rightarrow> nat \<Rightarrow> ('w, string) orb_op" where
  "run_session c machine stdin script session =
     bindE (mapErr (wrap (''start orbstack ssh command for '' @ machine @ '': ''))
       (ssh_call c (sh_Start (vc_SSH c) session stdin (''/bin/sh -lc '' @ shQuote script)))) (\<lambda>u.
     bindE (ssh_call c (sh_Wait (vc_SSH c) session)) (\<lambda>res.
     case res of
       WaitDone e \<Rightarrow> fail e
     | Exited None stdout stderr \<Rightarrow> ret stdout
     | Exited (Some err) stdout stderr \<Rightarrow>
         (let message = TrimSpace stderr
          in fail (ErrorString (''orbstack ssh command failed for '' @ machine @ '': '' @
                     (if message = [] then error_text err else message))))))"

definition runMachineSSH :: "'w vm_client \<Rightarrow> string \<Rightarrow> string option \<Rightarrow> string \<Rightarrow> ('w, string) orb_op" where
  "runMachineSSH c machine stdin script =
     (let socketPath = (if TrimSpace (vc_sshSocketPath c) \<noteq> [] then vc_sshSocketPath c else defaultSconSSHSocketPath (vc_Environ c));
          keyPath = (if TrimSpace (vc_sshKeyPath c) \<noteq> [] then vc_sshKeyPath c else defaultOrbStackSSHKeyPath (vc_Environ c));
          closing = (\<lambda>n. ssh_call c (sh_Close (vc_SSH c) n))
      in bindE (mapErr (wrap (''read orbstack ssh key '' @ keyPath @ '': '')) (os_ReadFile keyPath)) (\<lambda>key.
         bindE (mapErr (wrap (''parse orbstack ssh key '' @ keyPath @ '': '')) (liftE (sh_ParsePrivateKey (vc_SSH c) key))) (\<lambda>signer.
         bindE (mapErr (wrap (''dial orbstack ssh socket '' @ socketPath @ '': '')) (ssh_call c (sh_Dial (vc_SSH c) socketPath))) (\<lambda>conn.
         finallyE
           (bindE (machineSSHUser c machine) (\<lambda>sshUser.
            bindE (mapErr (wrap (''open orbstack ssh session for '' @ machine @ '': ''))
              (ssh_call c (sh_NewClientConn (vc_SSH c) conn sshUser signer))) (\<lambda>client.
            finallyE
              (bindE (mapErr (wrap (''create orbstack ssh session for '' @ machine @ '': ''))
                 (ssh_call c (sh_NewSession (vc_SSH c) client))) (\<lambda>session.
               finallyE (run_session c machine stdin script session) (closing session)))
              (closing client))))
           (closing conn)))))"

definition isRetryableMachineSSHError :: "go_error \<Rightarrow> bool" where
  "isRetryableMachineSSHError err =
     (let message = lower_utf8 (error_text err)
      in \<exists>pat \<in> set [''dial orbstack ssh socket'', ''open orbstack ssh session'', ''create orbstack ssh session'',
           ''start orbstack ssh command'', ''connection refused'', ''connection reset'', ''connection lost'',
           ''handshake failed'', ''unexpected packet'', ''eof'']. str_contains message pat)"

text \<open>The clock never goes back.\<close>

abbreviation later :: "'e host \<Rightarrow> 'e host \<Rightarrow> bool" where
  "later h h' \<equiv> h_now h \<le> h_now h'"

interpretation clock: change_kind "later :: 'e host \<Rightarrow> 'e host \<Rightarrow> bool"
  by unfold_locales simp_all

lemma socket_call_later: "within later (socket_call el f)"
  by (auto simp: within_def socket_call_def split: prod.split)

lemma ssh_call_later: "within later (ssh_call c f)"
  by (simp add: ssh_call_def socket_call_later)

lemma next_id_later: "within later next_id"
  by (simp add: within_def next_id_def Let_def)

lemma os_ReadFile_later: "within later (os_ReadFile p)"
  by (auto simp: within_def os_ReadFile_def syscall_def at_path_def split: list.split option.split sum.split fs_node.split)

lemma rpc_call_later: "within later (rpc_call tr m ps d n)"
  unfolding rpc_call_def
  by (intro clock.call_in next_id_later socket_call_later) (auto split: option.split intro: clock.call_in)

lemma ListContainers_later: "within later (ListContainers tr)"
  by (simp add: ListContainers_def rpc_call_later)

lemma orb_Info_later: "within later (orb_Info tr name)"
  unfolding orb_Info_def Let_def
  by (intro clock.call_in ListContainers_later) (auto split: option.split intro: clock.call_in)

lemma vm_GetVMInfo_later: "within later (vm_GetVMInfo c name)"
  unfolding vm_GetVMInfo_def Let_def by (intro clock.call_in orb_Info_later)

lemma runMachineSSH_later: "within later (runMachineSSH c machine stdin script)"
proof -
  have "within later (machineSSHUser c machine)"
    unfolding machineSSHUser_def Let_def by (intro clock.call_in vm_GetVMInfo_later)
  moreover have "within later (run_session c machine stdin script session)" for session
    unfolding run_session_def by (intro clock.call_in ssh_call_later)
      (auto split: wait_result.split option.split intro: clock.call_in simp: Let_def)
  ultimately show ?thesis
    unfolding runMachineSSH_def Let_def by (intro clock.call_in ssh_call_later os_ReadFile_later)
qed

text \<open>Half a second of waiting, cut short when the context is done.\<close>

definition wait_retry :: "'e ctx \<Rightarrow> ('e, unit) host_op" where
  "wait_retry ctx h =
     (case ctx h of
        Some e \<Rightarrow> (Inl e, h)
      | None \<Rightarrow> (let h = h\<lparr>h_now := h_now h + machineSSHRetryDelay\<rparr>
                 in case ctx h of Some e \<Rightarrow> (Inl e, h) | None \<Rightarrow> (Inr (), h)))"

lemma wait_retry_clock: "wait_retry ctx h = (Inr u, h') \<Longrightarrow> h_now h' = h_now h + machineSSHRetryDelay"
  by (auto simp: wait_retry_def Let_def split: option.splits)

function run_shell_loop :: "'w orb_ctx \<Rightarrow> 'w vm_client \<Rightarrow> string \<Rightarrow> string option \<Rightarrow> string \<Rightarrow> time \<Rightarrow>
    'w orb_world host \<Rightarrow> (go_error + string) \<times> 'w orb_world host" where
  "run_shell_loop ctx c machine stdin script deadline h =
     (case runMachineSSH c machine stdin script h of
        (Inr output, h) \<Rightarrow> (Inr output, h)
      | (Inl err, h) \<Rightarrow>
          (if \<not> isRetryableMachineSSHError err \<or> ctx h \<noteq> None \<or> h_now h > deadline then (Inl err, h)
           else case wait_retry ctx h of
             (Inl e, h) \<Rightarrow> (Inl e, h)
           | (Inr u, h) \<Rightarrow>
               (if h_now h > deadline then (Inl err, h)
                else run_shell_loop ctx c machine stdin script deadline h)))"
  by pat_completeness auto
termination
proof (relation "measure (\<lambda>(ctx, c, machine, stdin, script, deadline, h). nat (deadline + 1 - h_now h))", goal_cases)
  case (2 ctx c machine stdin script deadline h r h1 err w h2 u)
  from 2 have "h_now h \<le> h_now h1" by (auto dest: withinD [OF runMachineSSH_later, OF sym])
  moreover from 2 have "h_now h2 = h_now h1 + machineSSHRetryDelay" by (auto dest: wait_retry_clock [OF sym])
  moreover from 2 have "h_now h2 \<le> deadline" by simp
  ultimately show ?case by (simp add: machineSSHRetryDelay_def)
qed simp

declare run_shell_loop.simps [simp del]

definition check_ctx :: "'e ctx \<Rightarrow> ('e, unit) host_op" where
  "check_ctx ctx h = (case ctx h of Some e \<Rightarrow> (Inl e, h) | None \<Rightarrow> (Inr (), h))"

definition runMachineShell :: "'w orb_ctx \<Rightarrow> 'w vm_client \<Rightarrow> string \<Rightarrow> string option \<Rightarrow> string \<Rightarrow> ('w, string) orb_op" where
  "runMachineShell ctx c machine stdin script =
     (let machine = TrimSpace machine
      in if machine = [] then fail machine_required
         else if TrimSpace script = [] then fail (ErrorString ''script is required'')
         else bindE (check_ctx ctx) (\<lambda>u.
           case vc_sshRunner c of
             Some run \<Rightarrow> run machine stdin script
           | None \<Rightarrow>
               bindE time_Now (\<lambda>now. run_shell_loop ctx c machine stdin script (time_Add now machineSSHReadyTimeout))))"

section \<open>Files and commands in a machine\<close>

text \<open>\<open>%04o\<close> of the permission bits of a mode.\<close>

definition perm_octal :: "int \<Rightarrow> string" where
  "perm_octal mode = (let d = digits_base 8 (nat (mode AND 511)) in replicate (4 - length d) CHR ''0'' @ d)"

definition mkdir_script :: "string \<Rightarrow> int \<Rightarrow> string" where
  "mkdir_script vmPath mode =
     text_line ''set -eu'' @ text_line (''sudo mkdir -p -- '' @ shQuote vmPath) @
     text_line (''sudo chmod '' @ perm_octal mode @ '' -- '' @ shQuote vmPath)"

definition vm_MkdirAll :: "'w orb_ctx \<Rightarrow> 'w vm_client \<Rightarrow> string \<Rightarrow> string \<Rightarrow> int \<Rightarrow> ('w, unit) orb_op" where
  "vm_MkdirAll ctx c machine vmPath mode =
     bindE (check_ctx ctx) (\<lambda>u.
     bindE (liftE (cleanVMPath vmPath)) (\<lambda>vmPath.
     let mode = (if mode = 0 then 493 else mode)
     in bindE (mapErr (wrap (''mkdir '' @ vmPath @ '' in orbstack vm '' @ machine @ '': ''))
          (runMachineShell ctx c machine None (mkdir_script vmPath mode))) (\<lambda>output. ret ())))"

definition remove_script :: "string \<Rightarrow> string" where
  "remove_script vmPath = text_line ''set -eu'' @ text_line (''sudo rm -rf -- '' @ shQuote vmPath)"

definition vm_RemoveAll :: "'w orb_ctx \<Rightarrow> 'w vm_client \<Rightarrow> string \<Rightarrow> string \<Rightarrow> ('w, unit) orb_op" where
  "vm_RemoveAll ctx c machine vmPath =
     bindE (check_ctx ctx) (\<lambda>u.
     bindE (liftE (cleanVMPath vmPath)) (\<lambda>vmPath.
     if vmPath = ''/'' then fail (ErrorString (''refusing to remove vm root for machine '' @ machine))
     else bindE (mapErr (wrap (''remove '' @ vmPath @ '' in orbstack vm '' @ machine @ '': ''))
            (runMachineShell ctx c machine None (remove_script vmPath))) (\<lambda>output. ret ())))"

definition cat_script :: "string \<Rightarrow> string" where
  "cat_script vmPath = text_line (''sudo cat -- '' @ shQuote (path_Clean (''/'' @ TrimPrefix vmPath ''/'')))"

definition vm_ReadFile :: "'w orb_ctx \<Rightarrow> 'w vm_client \<Rightarrow> string \<Rightarrow> string \<Rightarrow> ('w, string) orb_op" where
  "vm_ReadFile ctx c machine vmPath =
     bindE (check_ctx ctx) (\<lambda>u.
     bindE (liftE (machineFilePath c machine vmPath)) (\<lambda>hostPath.
     caseE (os_ReadFile hostPath)
       (\<lambda>err. caseE (runMachineShell ctx c machine None (cat_script vmPath))
          (\<lambda>sshErr. fail (wrap (''read '' @ vmPath @ '' in orbstack vm '' @ machine @ '': '') err)) ret)
       ret))"

text \<open>The first lines keep the input in a temporary file; the last two put it in its place.\<close>

definition install_preamble :: string where
  "install_preamble =
     text_line ''set -eu'' @ text_line ''tmp=$(mktemp /tmp/e2b-local.XXXXXX)'' @
     text_line (''cleanup() { rm -f '' @ [CHR 0x22] @ ''$tmp'' @ [CHR 0x22] @ ''; }'') @
     text_line ''trap cleanup EXIT'' @ text_line (''cat > '' @ [CHR 0x22] @ ''$tmp'' @ [CHR 0x22])"

definition install_commands :: "string \<Rightarrow> int \<Rightarrow> string" where
  "install_commands vmPath mode =
     text_line (''sudo mkdir -p -- '' @ shQuote (path_Dir vmPath)) @
     text_line (''sudo install -m '' @ perm_octal mode @ '' '' @ [CHR 0x22] @ ''$tmp'' @ [CHR 0x22] @ '' '' @ shQuote vmPath)"

definition vm_WriteFile :: "'w orb_ctx \<Rightarrow> 'w vm_client \<Rightarrow> string \<Rightarrow> string \<Rightarrow> string \<Rightarrow> int \<Rightarrow> ('w, unit) orb_op" where
  "vm_WriteFile ctx c machine vmPath data mode =
     bindE (check_ctx ctx) (\<lambda>u.
     let mode = (if mode = 0 then 420 else mode)
     in bindE (liftE (cleanVMPath vmPath)) (\<lambda>vmPath.
        bindE (mapErr (wrap (''install '' @ vmPath @ '' in orbstack vm '' @ machine @ '': ''))
          (runMachineShell ctx c machine (Some data) (install_preamble @ install_commands vmPath mode))) (\<lambda>output. ret ())))"

definition symlink_script :: "string \<Rightarrow> string \<Rightarrow> string" where
  "symlink_script oldname newname =
     text_line ''set -eu'' @ text_line (''sudo mkdir -p -- '' @ shQuote (path_Dir newname)) @
     text_line (''sudo rm -rf -- '' @ shQuote newname) @
     text_line (''sudo ln -s -- '' @ shQuote oldname @ '' '' @ shQuote newname)"

definition vm_Symlink :: "'w orb_ctx \<Rightarrow> 'w vm_client \<Rightarrow> string \<Rightarrow> string \<Rightarrow> string \<Rightarrow> ('w, unit) orb_op" where
  "vm_Symlink ctx c machine oldname newname =
     bindE (check_ctx ctx) (\<lambda>u.
     let oldname = TrimSpace oldname
     in if oldname = [] then fail (ErrorString ''symlink target is required'')
        else bindE (liftE (cleanVMPath newname)) (\<lambda>newname.
          if newname = ''/'' then fail (ErrorString (''refusing to replace vm root symlink for machine '' @ machine))
          else bindE (mapErr (wrap (''create symlink '' @ newname @ '' -> '' @ oldname @ '' in orbstack vm '' @ machine @ '': ''))
                 (runMachineShell ctx c machine None (symlink_script oldname newname))) (\<lambda>output. ret ())))"

definition vm_RunShell :: "'w orb_ctx \<Rightarrow> 'w vm_client \<Rightarrow> string \<Rightarrow> string \<Rightarrow> ('w, string) orb_op" where
  "vm_RunShell ctx c machine script = runMachineShell ctx c machine None script"

end
