(* ===== verification/OrbVolumes.thy ===== *)
theory OrbVolumes
  imports OrbVm
begin

text \<open>
  The OrbStack backend's runtime (its parts and its interface to the machines) and its volumes
  (\<open>orbstack/runtime.go\<close>, \<open>volume_metadata_darwin.go\<close>, \<open>volume_metadata_other.go\<close>): directories of
  the host named after the volume, with the id and the name in an extended attribute (on macOS) or
  in a file. Extended attributes are calls of another package and parameters.
\<close>

section \<open>The runtime\<close>

text \<open>The interface \<open>machineClient\<close>.\<close>

record 'e machine_client =
  mc_DeleteVM :: "string \<Rightarrow> ('e, unit) host_op"
  mc_StartVM :: "string \<Rightarrow> ('e, unit) host_op"
  mc_StopVM :: "string \<Rightarrow> ('e, unit) host_op"
  mc_GetVMInfo :: "string \<Rightarrow> ('e, vm_info) host_op"
  mc_ListVMs :: "('e, vm_info list) host_op"
  mc_CloneVM :: "string \<Rightarrow> string \<Rightarrow> ('e, unit) host_op"
  mc_AddMachineMount :: "string \<Rightarrow> string \<Rightarrow> string \<Rightarrow> ('e, unit) host_op"
  mc_SetMachineOption :: "string \<Rightarrow> string \<Rightarrow> string \<Rightarrow> ('e, unit) host_op"
  mc_MkdirAll :: "'e ctx \<Rightarrow> string \<Rightarrow> string \<Rightarrow> int \<Rightarrow> ('e, unit) host_op"
  mc_RemoveAll :: "'e ctx \<Rightarrow> string \<Rightarrow> string \<Rightarrow> ('e, unit) host_op"
  mc_ReadFile :: "'e ctx \<Rightarrow> string \<Rightarrow> string \<Rightarrow> ('e, string) host_op"
  mc_WriteFile :: "'e ctx \<Rightarrow> string \<Rightarrow> string \<Rightarrow> string \<Rightarrow> int \<Rightarrow> ('e, unit) host_op"
  mc_Symlink :: "'e ctx \<Rightarrow> string \<Rightarrow> string \<Rightarrow> string \<Rightarrow> ('e, unit) host_op"
  mc_RunShell :: "'e ctx \<Rightarrow> string \<Rightarrow> string \<Rightarrow> ('e, string) host_op"

text \<open>The methods of \<open>VMClient\<close> that make it one.\<close>

definition vm_machine_client :: "'w vm_client \<Rightarrow> 'w orb_world machine_client" where
  "vm_machine_client c =
     \<lparr>mc_DeleteVM = vm_DeleteVM c, mc_StartVM = vm_StartVM c, mc_StopVM = vm_StopVM c,
      mc_GetVMInfo = vm_GetVMInfo c, mc_ListVMs = vm_ListVMs c, mc_CloneVM = vm_CloneVM c,
      mc_AddMachineMount = vm_AddMachineMount c, mc_SetMachineOption = vm_SetMachineOption c,
      mc_MkdirAll = (\<lambda>ctx. vm_MkdirAll ctx c), mc_RemoveAll = (\<lambda>ctx. vm_RemoveAll ctx c),
      mc_ReadFile = (\<lambda>ctx. vm_ReadFile ctx c), mc_WriteFile = (\<lambda>ctx. vm_WriteFile ctx c),
      mc_Symlink = (\<lambda>ctx. vm_Symlink ctx c), mc_RunShell = (\<lambda>ctx. vm_RunShell ctx c)\<rparr>"

text \<open>Extended attributes, on macOS; \<open>xa_Missing\<close> recognises the error for one that is not there.\<close>

record 'e xattr_calls =
  xa_Setxattr :: "string \<Rightarrow> string \<Rightarrow> string \<Rightarrow> ('e, unit) host_op"
  xa_Removexattr :: "string \<Rightarrow> string \<Rightarrow> ('e, unit) host_op"
  xa_Size :: "string \<Rightarrow> string \<Rightarrow> ('e, nat) host_op"
  xa_Getxattr :: "string \<Rightarrow> string \<Rightarrow> nat \<Rightarrow> ('e, string) host_op"
  xa_Missing :: "go_error \<Rightarrow> bool"

record sandbox_metadata =
  sm_SandboxID :: string
  sm_TemplateID :: string
  sm_Metadata :: "(string, string) gomap"
  sm_CreatedAt :: time
  sm_EndAt :: time
  sm_AllowInternetAccess :: "bool option"
  sm_OnTimeout :: timeout_action
  sm_AutoPause :: "bool option"
  sm_VolumeMounts :: "volume_mount list"

definition no_metadata :: sandbox_metadata where
  "no_metadata = \<lparr>sm_SandboxID = [], sm_TemplateID = [], sm_Metadata = [], sm_CreatedAt = 0, sm_EndAt = 0,
     sm_AllowInternetAccess = None, sm_OnTimeout = [], sm_AutoPause = None, sm_VolumeMounts = []\<rparr>"

text \<open>The JSON forms of a sandbox's metadata and of a volume's (its id and its name).\<close>

record orb_codecs =
  oj_metadata :: "sandbox_metadata \<Rightarrow> string"
  oj_read_metadata :: "string \<Rightarrow> go_error + sandbox_metadata"
  oj_volume :: "runtime_volume \<Rightarrow> string"
  oj_read_volume :: "string \<Rightarrow> go_error + runtime_volume"

text \<open>
  \<open>or_Fold\<close> maps a string to one representative of its Unicode case variants; \<open>or_NotFound\<close> is the
  error class of another package.
\<close>

record 'e orb_runtime =
  or_cfg :: orb_config
  or_vmClient :: "'e machine_client"
  or_checkHealthy :: "'e ctx \<Rightarrow> string \<Rightarrow> ('e, unit) host_op"
  or_newID :: "('e, string) host_op"
  or_codecs :: orb_codecs
  or_xattrs :: "'e xattr_calls option"
  or_RAMInBytes :: "string \<Rightarrow> go_error + int"
  or_NotFound :: "go_error \<Rightarrow> go_error"
  or_Fold :: "string \<Rightarrow> string"

record resolved_volume =
  vl_Volume :: runtime_volume
  vl_HostDir :: string

section \<open>Metadata of volumes\<close>

definition volumeMetadataName :: string where "volumeMetadataName = ''.e2b-meta.json''"
definition volumeMetadataXAttrName :: string where "volumeMetadataXAttrName = ''com.e2b.local.volume-meta''"
definition previousVolumeMetadataXAttrName :: string where "previousVolumeMetadataXAttrName = ''com.e2b.volume-meta''"

definition volumeHostMetadataPath :: "string \<Rightarrow> string" where
  "volumeHostMetadataPath hostDir = path_Join [TrimSpace hostDir, volumeMetadataName]"

definition encodeVolumeMetadata :: "orb_codecs \<Rightarrow> runtime_volume \<Rightarrow> string" where
  "encodeVolumeMetadata cd volume =
     oj_volume cd \<lparr>rv_VolumeID = TrimSpace (rv_VolumeID volume), rv_Name = TrimSpace (rv_Name volume)\<rparr>"

definition decodeVolumeMetadata :: "orb_codecs \<Rightarrow> string \<Rightarrow> string \<Rightarrow> go_error + runtime_volume" where
  "decodeVolumeMetadata cd volumeID data =
     (case oj_read_volume cd data of
        Inl e \<Rightarrow> Inl (wrap (''decode volume metadata '' @ volumeID @ '': '') e)
      | Inr p \<Rightarrow> Inr \<lparr>rv_VolumeID = TrimSpace (rv_VolumeID p), rv_Name = TrimSpace (rv_Name p)\<rparr>)"

definition readLegacyVolumeMetadataFile :: "orb_codecs \<Rightarrow> string \<Rightarrow> ('e, runtime_volume) host_op" where
  "readLegacyVolumeMetadataFile cd hostDir =
     bindE (os_ReadFile (volumeHostMetadataPath hostDir)) (\<lambda>data.
     liftE (decodeVolumeMetadata cd (path_Base hostDir) data))"

text \<open>With extended attributes; older places of the metadata are removed, and read when need be.\<close>

definition write_metadata_xattr :: "'e xattr_calls \<Rightarrow> orb_codecs \<Rightarrow> string \<Rightarrow> runtime_volume \<Rightarrow> ('e, unit) host_op" where
  "write_metadata_xattr xa cd hostDir volume =
     bindE (mapErr (wrap (''set volume metadata xattr '' @ rv_VolumeID volume @ '': ''))
       (xa_Setxattr xa hostDir volumeMetadataXAttrName (encodeVolumeMetadata cd volume))) (\<lambda>u.
     bindE (caseE (xa_Removexattr xa hostDir previousVolumeMetadataXAttrName)
       (\<lambda>err. if xa_Missing xa err then ret ()
              else fail (wrap (''remove legacy volume metadata xattr '' @ rv_VolumeID volume @ '': '') err)) ret) (\<lambda>u.
     caseE (os_Remove (volumeHostMetadataPath hostDir))
       (\<lambda>err. if os_IsNotExist err then ret ()
              else fail (wrap (''remove legacy volume metadata '' @ rv_VolumeID volume @ '': '') err)) ret))"

definition readVolumeMetadataXAttr :: "'e xattr_calls \<Rightarrow> string \<Rightarrow> string \<Rightarrow> ('e, string) host_op" where
  "readVolumeMetadataXAttr xa path attr =
     bindE (xa_Size xa path attr) (\<lambda>n. if n = 0 then ret [] else xa_Getxattr xa path attr n)"

definition read_metadata_xattr :: "'e xattr_calls \<Rightarrow> orb_codecs \<Rightarrow> string \<Rightarrow> ('e, runtime_volume) host_op" where
  "read_metadata_xattr xa cd hostDir =
     caseE (readVolumeMetadataXAttr xa hostDir volumeMetadataXAttrName)
       (\<lambda>err. if \<not> xa_Missing xa err then fail err
          else caseE (readVolumeMetadataXAttr xa hostDir previousVolumeMetadataXAttrName)
            (\<lambda>err. if \<not> xa_Missing xa err then fail err
               else bindE (readLegacyVolumeMetadataFile cd hostDir) (\<lambda>volume.
                    bindE (mapErr (\<lambda>e. Wrapf (''migrate volume metadata '' @ path_Base hostDir @ '' to xattr: '') e [])
                      (write_metadata_xattr xa cd hostDir volume)) (\<lambda>u. ret volume)))
            (\<lambda>data. bindE (liftE (decodeVolumeMetadata cd (path_Base hostDir) data)) (\<lambda>volume.
               bindE (mapErr (wrap (''migrate legacy volume metadata xattr '' @ path_Base hostDir @ '': ''))
                 (write_metadata_xattr xa cd hostDir volume)) (\<lambda>u. ret volume))))
       (\<lambda>data. liftE (decodeVolumeMetadata cd (path_Base hostDir) data))"

definition write_metadata_file :: "orb_codecs \<Rightarrow> string \<Rightarrow> runtime_volume \<Rightarrow> ('e, unit) host_op" where
  "write_metadata_file cd hostDir volume =
     os_WriteFile (volumeHostMetadataPath hostDir) (encodeVolumeMetadata cd volume) 420"

definition orb_writeVolumeMetadata :: "'e orb_runtime \<Rightarrow> string \<Rightarrow> runtime_volume \<Rightarrow> ('e, unit) host_op" where
  "orb_writeVolumeMetadata r =
     (case or_xattrs r of Some xa \<Rightarrow> write_metadata_xattr xa (or_codecs r) | None \<Rightarrow> write_metadata_file (or_codecs r))"

definition orb_readVolumeMetadata :: "'e orb_runtime \<Rightarrow> string \<Rightarrow> ('e, runtime_volume) host_op" where
  "orb_readVolumeMetadata r =
     (case or_xattrs r of Some xa \<Rightarrow> read_metadata_xattr xa (or_codecs r)
      | None \<Rightarrow> readLegacyVolumeMetadataFile (or_codecs r))"

section \<open>Directories of volumes\<close>

definition ensureVolumeStoreReady :: "'e orb_runtime \<Rightarrow> ('e, unit) host_op" where
  "ensureVolumeStoreReady r =
     (let base = TrimSpace (oc_VolumeHostPath (or_cfg r))
      in if base = [] then fail (ErrorString ''orbstack.volume_host_path is required'')
         else mapErr (wrap (''create volume host path '' @ base @ '': '')) (os_MkdirAll base 493))"

definition volumeBaseDir :: "orb_config \<Rightarrow> string \<Rightarrow> string" where
  "volumeBaseDir cfg dirName = path_Join [TrimSpace (oc_VolumeHostPath cfg), TrimSpace dirName]"

definition volumeHostDirBaseName :: "string \<Rightarrow> string" where
  "volumeHostDirBaseName name =
     (let name = TrimSpace (map (\<lambda>c. if c = CHR ''/'' then CHR ''-'' else c) (filter (\<lambda>c. c \<noteq> CHR 0x00) (TrimSpace name)))
      in if name = [] \<or> name = dot \<or> name = dotdot then ''volume'' else name)"

definition indexed_name :: "string \<Rightarrow> nat \<Rightarrow> string" where
  "indexed_name baseName index = (if index > 1 then baseName @ ''-'' @ nat_digits index else baseName)"

text \<open>
  The loops that look for a free name have no end in the code. They are given fuel here, one unit
  for every entry of the file system and one more; \<open>loop_bound\<close> is what running out of it gives.
\<close>

definition loop_bound :: go_error where
  "loop_bound = Sentinel ''no free name found''"

fun create_dir_loop :: "nat \<Rightarrow> orb_config \<Rightarrow> string \<Rightarrow> nat \<Rightarrow> ('e, string) host_op" where
  "create_dir_loop 0 cfg baseName index = fail loop_bound"
| "create_dir_loop (Suc fuel) cfg baseName index =
     (let dir = volumeBaseDir cfg (indexed_name baseName index)
      in caseE (os_Mkdir dir 511)
           (\<lambda>err. if os_IsExist err then create_dir_loop fuel cfg baseName (index + 1)
                  else fail (wrap ''create volume dir: '' err))
           (\<lambda>u. caseE (os_Chmod dir 511)
              (\<lambda>err. bindE (ignoreE (os_RemoveAll dir)) (\<lambda>u. fail (wrap ''chmod volume dir: '' err)))
              (\<lambda>u. ret dir)))"

definition createVolumeHostDir :: "orb_config \<Rightarrow> string \<Rightarrow> ('e, string) host_op" where
  "createVolumeHostDir cfg volumeName h =
     create_dir_loop (Suc (length (h_fs h))) cfg (volumeHostDirBaseName volumeName) 1 h"

fun next_dir_loop :: "nat \<Rightarrow> orb_config \<Rightarrow> string \<Rightarrow> nat \<Rightarrow> ('e, string) host_op" where
  "next_dir_loop 0 cfg baseName index = fail loop_bound"
| "next_dir_loop (Suc fuel) cfg baseName index =
     (let dir = volumeBaseDir cfg (indexed_name baseName index)
      in caseE (os_Stat dir)
           (\<lambda>err. if os_IsNotExist err then ret dir else fail (wrap (''stat volume dir '' @ dir @ '': '') err))
           (\<lambda>i. next_dir_loop fuel cfg baseName (index + 1)))"

definition nextAvailableVolumeHostDir :: "orb_config \<Rightarrow> string \<Rightarrow> ('e, string) host_op" where
  "nextAvailableVolumeHostDir cfg volumeName h =
     next_dir_loop (Suc (length (h_fs h))) cfg (volumeHostDirBaseName volumeName) 1 h"

definition migrateLegacyVolumeDir :: "orb_config \<Rightarrow> string \<Rightarrow> runtime_volume \<Rightarrow> ('e, string) host_op" where
  "migrateLegacyVolumeDir cfg hostDir volume =
     (if path_Base hostDir \<noteq> TrimSpace (rv_VolumeID volume) then ret hostDir
      else bindE (nextAvailableVolumeHostDir cfg (rv_Name volume)) (\<lambda>target.
        if path_Clean target = path_Clean hostDir then ret hostDir
        else bindE (mapErr (wrap (''rename volume dir '' @ hostDir @ '' to '' @ target @ '': '')) (os_Rename hostDir target))
               (\<lambda>u. ret target)))"

definition resolveVolumeDir :: "'e orb_runtime \<Rightarrow> string \<Rightarrow> ('e, resolved_volume) host_op" where
  "resolveVolumeDir r hostDir =
     bindE (orb_readVolumeMetadata r hostDir) (\<lambda>volume.
     let volume = \<lparr>rv_VolumeID = TrimSpace (rv_VolumeID volume), rv_Name = TrimSpace (rv_Name volume)\<rparr>
     in if rv_VolumeID volume = []
        then fail (ErrorString (''volume dir '' @ hostDir @ '' has empty volumeID metadata''))
        else let volume = (if rv_Name volume = [] then volume\<lparr>rv_Name := volumeHostDirBaseName (path_Base hostDir)\<rparr> else volume)
             in bindE (migrateLegacyVolumeDir (or_cfg r) hostDir volume) (\<lambda>migratedDir.
                ret \<lparr>vl_Volume = volume, vl_HostDir = migratedDir\<rparr>))"

definition volumeMatches :: "'e orb_runtime \<Rightarrow> runtime_volume \<Rightarrow> string \<Rightarrow> bool" where
  "volumeMatches r volume value =
     (let value = TrimSpace value
      in if value = [] then False
         else or_Fold r (TrimSpace (rv_VolumeID volume)) = or_Fold r value \<or>
              or_Fold r (TrimSpace (rv_Name volume)) = or_Fold r value)"

fun find_in_dirs :: "'e orb_runtime \<Rightarrow> string \<Rightarrow> (string \<times> inode) list \<Rightarrow> ('e, resolved_volume) host_op" where
  "find_in_dirs r volumeID [] = fail ENOENT"
| "find_in_dirs r volumeID ((name, i) # entries) =
     (if i_node i \<noteq> Dir then find_in_dirs r volumeID entries
      else caseE (resolveVolumeDir r (path_Join [TrimSpace (oc_VolumeHostPath (or_cfg r)), name]))
             (\<lambda>err. if os_IsNotExist err then find_in_dirs r volumeID entries else fail err)
             (\<lambda>resolved. if volumeMatches r (vl_Volume resolved) volumeID then ret resolved
                         else find_in_dirs r volumeID entries))"

definition find_by_listing :: "'e orb_runtime \<Rightarrow> string \<Rightarrow> ('e, resolved_volume) host_op" where
  "find_by_listing r volumeID =
     caseE (os_ReadDir (TrimSpace (oc_VolumeHostPath (or_cfg r))))
       (\<lambda>err. if os_IsNotExist err then fail ENOENT else fail (wrap ''read volume base path: '' err))
       (\<lambda>entries. find_in_dirs r volumeID entries)"

definition findVolumeByID :: "'e orb_runtime \<Rightarrow> string \<Rightarrow> ('e, resolved_volume) host_op" where
  "findVolumeByID r volumeID =
     (let volumeID = TrimSpace volumeID; legacyDir = volumeBaseDir (or_cfg r) volumeID
      in if volumeID = [] then fail ENOENT
         else caseE (os_Stat legacyDir) (\<lambda>e. find_by_listing r volumeID)
           (\<lambda>info. if i_node info \<noteq> Dir then find_by_listing r volumeID
              else caseE (resolveVolumeDir r legacyDir)
                (\<lambda>err. if os_IsNotExist err then find_by_listing r volumeID else fail err)
                (\<lambda>resolved. if volumeMatches r (vl_Volume resolved) volumeID then ret resolved
                            else find_by_listing r volumeID)))"

section \<open>The volume operations\<close>

definition orb_CreateVolume :: "'e orb_runtime \<Rightarrow> string \<Rightarrow> ('e, runtime_volume) host_op" where
  "orb_CreateVolume r name =
     bindE (ensureVolumeStoreReady r) (\<lambda>u.
     bindE (or_newID r) (\<lambda>newID.
     let volume = \<lparr>rv_VolumeID = newID, rv_Name = TrimSpace name\<rparr>
     in if rv_Name volume = [] then fail name_required
        else bindE (createVolumeHostDir (or_cfg r) (rv_Name volume)) (\<lambda>dir.
          caseE (orb_writeVolumeMetadata r dir volume)
            (\<lambda>err. bindE (ignoreE (os_RemoveAll dir)) (\<lambda>u. fail err)) (\<lambda>u. ret volume))))"

fun list_dirs :: "'e orb_runtime \<Rightarrow> (string \<times> inode) list \<Rightarrow> ('e, runtime_volume list) host_op" where
  "list_dirs r [] = ret []"
| "list_dirs r ((name, i) # entries) =
     (if i_node i \<noteq> Dir then list_dirs r entries
      else caseE (resolveVolumeDir r (path_Join [TrimSpace (oc_VolumeHostPath (or_cfg r)), name]))
             (\<lambda>err. if os_IsNotExist err then list_dirs r entries else fail err)
             (\<lambda>resolved. bindE (list_dirs r entries) (\<lambda>volumes. ret (vl_Volume resolved # volumes))))"

definition orb_ListVolumes :: "'e orb_runtime \<Rightarrow> ('e, runtime_volume list) host_op" where
  "orb_ListVolumes r =
     bindE (ensureVolumeStoreReady r) (\<lambda>u.
     caseE (os_ReadDir (TrimSpace (oc_VolumeHostPath (or_cfg r))))
       (\<lambda>err. if os_IsNotExist err then ret [] else fail (wrap ''read volume base path: '' err))
       (\<lambda>entries. bindE (list_dirs r entries) (\<lambda>volumes. ret (sort_key rv_VolumeID volumes))))"

definition orb_GetVolume :: "'e orb_runtime \<Rightarrow> string \<Rightarrow> ('e, runtime_volume) host_op" where
  "orb_GetVolume r volumeID =
     bindE (ensureVolumeStoreReady r) (\<lambda>u.
     let volumeID = TrimSpace volumeID
     in if volumeID = [] then fail (or_NotFound r (ErrorString ''volume not found''))
        else caseE (findVolumeByID r volumeID)
               (\<lambda>err. if os_IsNotExist err
                      then fail (or_NotFound r (ErrorString (''volume '' @ volumeID @ '' not found''))) else fail err)
               (\<lambda>resolved. ret (vl_Volume resolved)))"

definition orb_DeleteVolume :: "'e orb_runtime \<Rightarrow> string \<Rightarrow> ('e, bool) host_op" where
  "orb_DeleteVolume r volumeID =
     bindE (ensureVolumeStoreReady r) (\<lambda>u.
     let volumeID = TrimSpace volumeID
     in if volumeID = [] then ret False
        else caseE (findVolumeByID r volumeID)
               (\<lambda>err. if os_IsNotExist err then ret False else fail err)
               (\<lambda>resolved.
                  let dir = vl_HostDir resolved
                  in caseE (os_Stat dir)
                       (\<lambda>err. if os_IsNotExist err then ret False else fail (wrap ''stat volume dir: '' err))
                       (\<lambda>i. bindE (mapErr (wrap ''remove volume dir: '') (os_RemoveAll dir)) (\<lambda>u. ret True))))"

end
