(* ===== verification/OrbRuntime.thy ===== *)
theory OrbRuntime
  imports OrbVolumes
begin

unbundle bit_operations_syntax

text \<open>
  The OrbStack backend (\<open>orbstack/runtime.go\<close>): a sandbox is a clone of a template machine, set up
  through files and a shell, paused by stopping it, and found again after a restart by its name and
  a metadata file in it; and the backend as the gateway's runtime.
\<close>

section \<open>Constants and small functions\<close>

definition envdServicePath :: string where "envdServicePath = ''/etc/systemd/system/envd.service''"
definition envdBinaryPath :: string where "envdBinaryPath = ''/usr/local/bin/envd''"
definition envdServiceWantsPath :: string where
  "envdServiceWantsPath = ''/etc/systemd/system/multi-user.target.wants/envd.service''"
definition sandboxMetadataPath :: string where "sandboxMetadataPath = ''/var/lib/e2b-local/sandbox.json''"
definition minimumProvisionWait :: duration where "minimumProvisionWait = 300 * time_Second"

definition timeoutAction :: "sandbox_metadata \<Rightarrow> go_error + timeout_action" where
  "timeoutAction m =
     Normalize (if sm_OnTimeout m = SandboxTimeoutActionUnspecified
                then SandboxTimeoutActionFromAutoPause (sm_AutoPause m) else sm_OnTimeout m)"

definition machineNameFromRuntimeInfo :: "runtime_info \<Rightarrow> string" where
  "machineNameFromRuntimeInfo info =
     (if TrimSpace (ri_MachineID info) \<noteq> [] then TrimSpace (ri_MachineID info)
      else if TrimSpace (ri_ContainerName info) \<noteq> [] then TrimSpace (ri_ContainerName info)
      else TrimSpace (ri_ContainerID info))"

definition sandboxStateFromVMState :: "string \<Rightarrow> string" where
  "sandboxStateFromVMState state = (if lower_utf8 (TrimSpace state) = ''stopped'' then Paused else Running)"

definition isRemoteFileNotFound :: "go_error \<Rightarrow> bool" where
  "isRemoteFileNotFound err =
     (\<exists>pat \<in> set [''no such file'', ''not found'', ''cannot open'']. str_contains (lower_utf8 (error_text err)) pat)"

definition provisionWaitTimeout :: "orb_config \<Rightarrow> duration" where
  "provisionWaitTimeout cfg =
     (let timeout = word_of_int (oc_HealthTimeoutSeconds cfg) * time_Second
      in if sint timeout < sint minimumProvisionWait then minimumProvisionWait else timeout)"

definition orb_runtimeInfo :: "'e orb_runtime \<Rightarrow> string \<Rightarrow> vm_info \<Rightarrow> volume_mount list \<Rightarrow> runtime_info" where
  "orb_runtimeInfo r sandboxID info volumeMounts =
     \<lparr>ri_SandboxID = sandboxID, ri_EnvdURL = vmEnvdURL info (oc_EnvdPort (or_cfg r)),
      ri_ContainerID = vi_ID info, ri_ContainerName = vi_Name info, ri_ContainerIP = preferredVMHost info,
      ri_HostPort = [], ri_MachineID = vi_Name info,
      ri_VolumeMounts = orb_normalizeVolumeMounts volumeMounts, ri_PublishedPorts = []\<rparr>"

section \<open>Waiting\<close>

text \<open>
  The clock of the process never goes back, whatever a call does, and \<open>time.Sleep\<close> of one second
  lets one second pass.
\<close>

definition timed :: "('e, 'a) host_op \<Rightarrow> ('e, 'a) host_op" where
  "timed f h = (case f h of (r, h') \<Rightarrow> (r, h'\<lparr>h_now := max (h_now h) (h_now h')\<rparr>))"

definition sleep_second :: "'e host \<Rightarrow> 'e host" where
  "sleep_second h = h\<lparr>h_now := h_now h + 1000000000\<rparr>"

lemma timed_clock: "timed f h = (r, h') \<Longrightarrow> h_now h \<le> h_now h'"
  by (auto simp: timed_def split: prod.splits)

lemma timed_later: "f h = (r, h') \<Longrightarrow> h_now h \<le> h_now h' \<Longrightarrow> timed f h = (r, h')"
  by (simp add: timed_def max_def)

definition state_poll :: "string \<Rightarrow> go_error + vm_info \<Rightarrow> (go_error + vm_info) option" where
  "state_poll state res =
     (case res of
        Inr info \<Rightarrow> (if EqualFold (TrimSpace (vi_State info)) (TrimSpace state) then Some (Inr info) else None)
      | Inl err \<Rightarrow> (if \<not> errors_Is err ErrVMNotFound then Some (Inl err) else None))"

definition state_timeout :: "string \<Rightarrow> string \<Rightarrow> go_error + vm_info \<Rightarrow> go_error" where
  "state_timeout machine state res =
     (let pre = ''wait for machine '' @ machine @ '' state '' @ state
      in case res of Inl err \<Rightarrow> wrap (pre @ '': '') err | Inr info \<Rightarrow> ErrorString (pre @ '' timed out''))"

function wait_state :: "'e ctx \<Rightarrow> 'e orb_runtime \<Rightarrow> string \<Rightarrow> string \<Rightarrow> time \<Rightarrow> 'e host \<Rightarrow> (go_error + vm_info) \<times> 'e host" where
  "wait_state ctx r machine state deadline h =
     (case timed (mc_GetVMInfo (or_vmClient r) machine) h of
        (res, h) \<Rightarrow>
          (case state_poll state res of
             Some result \<Rightarrow> (result, h)
           | None \<Rightarrow>
               (case ctx h of
                  Some e \<Rightarrow> (Inl e, h)
                | None \<Rightarrow>
                    (if h_now h > deadline then (Inl (state_timeout machine state res), h)
                     else wait_state ctx r machine state deadline (sleep_second h)))))"
  by pat_completeness auto
termination
proof (relation "measure (\<lambda>(ctx, r, machine, state, deadline, h). nat (deadline + 1000000001 - h_now h))", goal_cases)
  case (2 ctx r machine state deadline h res h1)
  then have "h_now h \<le> h_now h1" by (auto dest: timed_clock [OF sym])
  with 2 show ?case by (simp add: sleep_second_def)
qed simp

declare wait_state.simps [simp del]

definition waitForMachineState :: "'e ctx \<Rightarrow> 'e orb_runtime \<Rightarrow> string \<Rightarrow> string \<Rightarrow> ('e, vm_info) host_op" where
  "waitForMachineState ctx r machine state =
     bindE time_Now (\<lambda>now. wait_state ctx r machine state (time_Add now (provisionWaitTimeout (or_cfg r))))"

text \<open>Here the last information and the last error are kept from one round to the next.\<close>

function wait_address :: "'e ctx \<Rightarrow> 'e orb_runtime \<Rightarrow> string \<Rightarrow> time \<Rightarrow> vm_info \<Rightarrow> go_error option \<Rightarrow> 'e host \<Rightarrow>
    (go_error + vm_info) \<times> 'e host" where
  "wait_address ctx r machine deadline lastInfo lastErr h =
     (case timed (mc_GetVMInfo (or_vmClient r) machine) h of
        (res, h) \<Rightarrow>
          (let lastInfo = (case res of Inr info \<Rightarrow> info | Inl err \<Rightarrow> lastInfo);
               lastErr = (case res of Inr info \<Rightarrow> lastErr | Inl err \<Rightarrow> Some err);
               pre = ''wait for machine '' @ machine @ '' address''
           in if (case res of Inr info \<Rightarrow> EqualFold (TrimSpace (vi_State info)) ''running'' \<and> preferredVMHost info \<noteq> []
                  | Inl err \<Rightarrow> \<not> errors_Is err ErrVMNotFound)
              then (res, h)
              else case ctx h of
                Some e \<Rightarrow> (Inl e, h)
              | None \<Rightarrow>
                  (if h_now h > deadline
                   then (Inl (case lastErr of
                                Some e \<Rightarrow> wrap (pre @ '': '') e
                              | None \<Rightarrow> ErrorString (if vi_Name lastInfo \<noteq> [] then pre @ '' timed out'' else pre @ '' failed'')), h)
                   else wait_address ctx r machine deadline lastInfo lastErr (sleep_second h))))"
  by pat_completeness auto
termination
proof (relation "measure (\<lambda>(ctx, r, machine, deadline, i, e, h). nat (deadline + 1000000001 - h_now h))", goal_cases)
  case (2 ctx r machine deadline i e h res h1)
  then have "h_now h \<le> h_now h1" by (auto dest: timed_clock [OF sym])
  with 2 show ?case by (simp add: sleep_second_def)
qed simp

declare wait_address.simps [simp del]

definition waitForMachineAddress :: "'e ctx \<Rightarrow> 'e orb_runtime \<Rightarrow> string \<Rightarrow> ('e, vm_info) host_op" where
  "waitForMachineAddress ctx r machine =
     bindE time_Now (\<lambda>now.
       wait_address ctx r machine (time_Add now (provisionWaitTimeout (or_cfg r))) no_vm None)"

text \<open>The HTTP client of the health check: building a request, and the status of the response.\<close>

record 'e health_client =
  hc_RequestError :: "string \<Rightarrow> go_error option"
  hc_Get :: "string \<Rightarrow> ('e, int) host_op"

function poll_health :: "'e ctx \<Rightarrow> 'e health_client \<Rightarrow> string \<Rightarrow> string \<Rightarrow> time \<Rightarrow> 'e host \<Rightarrow> (go_error + unit) \<times> 'e host" where
  "poll_health ctx hc envdURL healthURL deadline h =
     (case hc_RequestError hc healthURL of
        Some e \<Rightarrow> (Inl (wrap ''build envd health request: '' e), h)
      | None \<Rightarrow>
          (case timed (hc_Get hc healthURL) h of
             (res, h) \<Rightarrow>
               (if (case res of Inr status \<Rightarrow> status \<ge> 200 \<and> status < 300 | Inl e \<Rightarrow> False) then (Inr (), h)
                else case ctx h of
                  Some e \<Rightarrow> (Inl e, h)
                | None \<Rightarrow>
                    (if h_now h > deadline
                     then (Inl (case res of
                                  Inl err \<Rightarrow> wrap (''wait for envd health '' @ envdURL @ '': '') err
                                | Inr status \<Rightarrow> ErrorString (''wait for envd health '' @ envdURL @
                                    '': unexpected status '' @ Itoa status)), h)
                     else poll_health ctx hc envdURL healthURL deadline (sleep_second h)))))"
  by pat_completeness auto
termination
proof (relation "measure (\<lambda>(ctx, hc, u, v, deadline, h). nat (deadline + 1000000001 - h_now h))", goal_cases)
  case (2 ctx hc u v deadline h res h1)
  then have "h_now h \<le> h_now h1" by (auto dest: timed_clock [OF sym])
  with 2 show ?case by (simp add: sleep_second_def)
qed simp

declare poll_health.simps [simp del]

definition defaultHealthCheck :: "orb_config \<Rightarrow> 'e health_client \<Rightarrow> 'e ctx \<Rightarrow> string \<Rightarrow> ('e, unit) host_op" where
  "defaultHealthCheck cfg hc ctx envdURL =
     bindE time_Now (\<lambda>now.
       poll_health ctx hc envdURL (TrimRight CHR ''/'' (TrimSpace envdURL) @ ''/health'')
         (time_Add now (word_of_int (oc_HealthTimeoutSeconds cfg) * time_Second)))"

section \<open>Setting a machine up\<close>

fun add_mounts :: "'e orb_runtime \<Rightarrow> string \<Rightarrow> provision_spec \<Rightarrow> volume_mount list \<Rightarrow> ('e, unit) host_op" where
  "add_mounts r machineName spec [] = ret ()"
| "add_mounts r machineName spec (mount # ms) =
     (let source = TrimSpace (map_read (ps_VolumeHostDirs spec) (vm_VolumeID mount))
      in if source = [] then fail (ErrorString (''resolved host dir is missing for volume '' @ vm_VolumeID mount))
         else bindE (mc_AddMachineMount (or_vmClient r) machineName source (isolatedVolumeSourcePath (vm_VolumeID mount)))
                (\<lambda>u. add_mounts r machineName spec ms))"

definition prepareMachine :: "'e orb_runtime \<Rightarrow> string \<Rightarrow> provision_spec \<Rightarrow> ('e, unit) host_op" where
  "prepareMachine r machineName spec =
     (let ms = dedupeVolumeMountsByVolumeID (ps_VolumeMounts spec)
      in bindE (if oc_Isolated (or_cfg r) \<or> length ms > 0
                then mc_SetMachineOption (or_vmClient r) machineName ''isolated'' ''true'' else ret ())
           (\<lambda>u. add_mounts r machineName spec ms))"

fun mount_files :: "'e ctx \<Rightarrow> 'e orb_runtime \<Rightarrow> string \<Rightarrow> provision_spec \<Rightarrow> volume_mount list \<Rightarrow> ('e, unit) host_op" where
  "mount_files ctx r machineName spec [] = ret ()"
| "mount_files ctx r machineName spec (mount # ms) =
     (let target = TrimSpace (vm_Path mount); volumeID = TrimSpace (vm_VolumeID mount);
          source = sandboxVolumeSourcePath (or_cfg r) volumeID (map_read (ps_VolumeHostDirs spec) volumeID)
      in if target = [] \<or> volumeID = [] then mount_files ctx r machineName spec ms
         else bindE (mc_MkdirAll (or_vmClient r) ctx machineName (parentDir target) 493) (\<lambda>u.
              bindE (mc_Symlink (or_vmClient r) ctx machineName source target) (\<lambda>u.
              mount_files ctx r machineName spec ms)))"

definition configureVolumeMountFiles :: "'e ctx \<Rightarrow> 'e orb_runtime \<Rightarrow> string \<Rightarrow> provision_spec \<Rightarrow> ('e, unit) host_op" where
  "configureVolumeMountFiles ctx r machineName spec =
     mount_files ctx r machineName spec (orb_normalizeVolumeMounts (ps_VolumeMounts spec))"

fun make_dirs :: "'e ctx \<Rightarrow> 'e orb_runtime \<Rightarrow> string \<Rightarrow> string list \<Rightarrow> ('e, unit) host_op" where
  "make_dirs ctx r machineName [] = ret ()"
| "make_dirs ctx r machineName (dir # dirs) =
     bindE (mc_MkdirAll (or_vmClient r) ctx machineName dir 493) (\<lambda>u. make_dirs ctx r machineName dirs)"

definition configureMachine :: "'e ctx \<Rightarrow> 'e orb_runtime \<Rightarrow> string \<Rightarrow> provision_spec \<Rightarrow> sandbox_metadata \<Rightarrow> ('e, unit) host_op" where
  "configureMachine ctx r machineName spec metadata =
     (let vm = or_vmClient r; cfg = or_cfg r
      in bindE (mapErr (wrap (''read envd binary '' @ oc_EnvdBinary cfg @ '': '')) (os_ReadFile (oc_EnvdBinary cfg))) (\<lambda>envdBinary.
         let service = renderEnvdService cfg (ps_StartCmd spec) (ps_EnvVars spec);
             metadataJSON = oj_metadata (or_codecs r) metadata
         in bindE (make_dirs ctx r machineName
                     [parentDir envdBinaryPath, parentDir envdServicePath, parentDir envdServiceWantsPath, parentDir sandboxMetadataPath]) (\<lambda>u.
            bindE (mc_WriteFile vm ctx machineName envdBinaryPath envdBinary 493) (\<lambda>u.
            bindE (mc_WriteFile vm ctx machineName envdServicePath service 420) (\<lambda>u.
            bindE (mc_WriteFile vm ctx machineName sandboxMetadataPath metadataJSON 420) (\<lambda>u.
            bindE (configureVolumeMountFiles ctx r machineName spec) (\<lambda>u.
            bindE (mc_Symlink vm ctx machineName ''../envd.service'' envdServiceWantsPath) (\<lambda>u.
            bindE (mc_RunShell vm ctx machineName
                     (Join CHR 0x0A [''set -eu'', ''sudo systemctl daemon-reload'', ''sudo systemctl enable envd'',
                                     ''sudo systemctl restart envd''])) (\<lambda>output. ret ())))))))))"

definition readSandboxMetadata :: "'e ctx \<Rightarrow> 'e orb_runtime \<Rightarrow> string \<Rightarrow> ('e, sandbox_metadata) host_op" where
  "readSandboxMetadata ctx r machineName =
     caseE (mc_ReadFile (or_vmClient r) ctx machineName sandboxMetadataPath)
       (\<lambda>err. if os_IsNotExist err \<or> isRemoteFileNotFound err then ret no_metadata else fail err)
       (\<lambda>output. mapErr (wrap ''decode sandbox metadata: '') (liftE (oj_read_metadata (or_codecs r) output)))"

section \<open>Templates and volume mounts of a request\<close>

definition resolveTemplate :: "'e orb_runtime \<Rightarrow> string \<Rightarrow> ('e, vm_info \<times> orb_template_config) host_op" where
  "resolveTemplate r templateID =
     (let templateID = TrimSpace templateID; missing = ErrorString (''template '' @ templateID @ '' not found'')
      in if templateID = [] then fail (ErrorString ''templateID is required'')
         else caseE (mc_GetVMInfo (or_vmClient r) templateID)
                (\<lambda>err. if errors_Is err ErrVMNotFound then fail missing else fail err)
                (\<lambda>info. if \<not> isTemplateSourceMachine (or_cfg r) (vi_Name info) then fail missing
                        else ret (info, templateOverrides (or_cfg r) (vi_Name info))))"

definition check_mount :: "nat \<Rightarrow> volume_mount \<Rightarrow> go_error option" where
  "check_mount index mount =
     (if TrimSpace (vm_VolumeID mount) = []
      then Some (ErrorString (''volume mount '' @ nat_digits index @ '' requires volumeID''))
      else if TrimSpace (vm_Path mount) = []
      then Some (ErrorString (''volume mount '' @ vm_VolumeID mount @ '' requires path''))
      else if \<not> HasPrefix (TrimSpace (vm_Path mount)) ''/''
      then Some (ErrorString (''volume mount path must be absolute: '' @ vm_Path mount))
      else None)"

text \<open>The volumes found so far, under the id asked for and under their own, and their directories.\<close>

fun orb_resolve_mounts :: "'e orb_runtime \<Rightarrow> nat \<Rightarrow> (string, resolved_volume) gomap \<Rightarrow> (string, string) gomap \<Rightarrow>
    volume_mount list \<Rightarrow> ('e, volume_mount list \<times> (string, string) gomap) host_op" where
  "orb_resolve_mounts r index resolvedByID hostDirs [] = ret ([], hostDirs)"
| "orb_resolve_mounts r index resolvedByID hostDirs (mount # ms) =
     (case check_mount index mount of
        Some e \<Rightarrow> fail e
      | None \<Rightarrow>
          (let volumeID = TrimSpace (vm_VolumeID mount)
           in bindE (case map_of resolvedByID volumeID of
                  Some resolved \<Rightarrow> ret (resolved, resolvedByID, hostDirs)
                | None \<Rightarrow>
                    caseE (findVolumeByID r volumeID)
                      (\<lambda>err. if os_IsNotExist err then fail (ErrorString (''volume '' @ volumeID @ '' not found'')) else fail err)
                      (\<lambda>resolved. let ownID = rv_VolumeID (vl_Volume resolved)
                         in ret (resolved, AList.update ownID resolved (AList.update volumeID resolved resolvedByID),
                                 AList.update ownID (vl_HostDir resolved) hostDirs)))
                (\<lambda>(resolved, resolvedByID, hostDirs).
                   bindE (orb_resolve_mounts r (index + 1) resolvedByID hostDirs ms) (\<lambda>(rest, hostDirs).
                   ret (mount\<lparr>vm_VolumeID := rv_VolumeID (vl_Volume resolved), vm_Name := rv_Name (vl_Volume resolved)\<rparr> # rest,
                        hostDirs)))))"

definition resolveVolumeMounts :: "'e orb_runtime \<Rightarrow> volume_mount list \<Rightarrow> ('e, volume_mount list \<times> (string, string) gomap) host_op" where
  "resolveVolumeMounts r ms = orb_resolve_mounts r 0 [] [] (orb_normalizeVolumeMounts ms)"

section \<open>The operations of the runtime\<close>

text \<open>The machine is deleted again when something fails after it was cloned; an error of that is logged.\<close>

definition cleanup_machine :: "'e orb_runtime \<Rightarrow> string \<Rightarrow> ('e, 'a) host_op \<Rightarrow> ('e, 'a) host_op" where
  "cleanup_machine r machineName m =
     caseE m (\<lambda>err. bindE (ignoreE (mc_DeleteVM (or_vmClient r) machineName)) (\<lambda>u. fail err)) ret"

definition provision_machine :: "'e ctx \<Rightarrow> 'e orb_runtime \<Rightarrow> create_request \<Rightarrow> string \<Rightarrow> provision_spec \<Rightarrow> sandbox_metadata \<Rightarrow>
    ('e, runtime_info) host_op" where
  "provision_machine ctx r req machineName spec metadata =
     bindE (prepareMachine r machineName spec) (\<lambda>u.
     bindE (mc_StartVM (or_vmClient r) machineName) (\<lambda>u.
     bindE (waitForMachineState ctx r machineName ''running'') (\<lambda>info.
     bindE (configureMachine ctx r machineName spec metadata) (\<lambda>u.
     bindE (waitForMachineAddress ctx r (vi_Name info)) (\<lambda>info.
     bindE (or_checkHealthy r ctx (vmEnvdURL info (oc_EnvdPort (or_cfg r)))) (\<lambda>u.
     ret (orb_runtimeInfo r (cr_SandboxID req) info (ps_VolumeMounts spec))))))))"

definition sandbox_metadata_of :: "create_request \<Rightarrow> volume_mount list \<Rightarrow> sandbox_metadata" where
  "sandbox_metadata_of req volumeMounts =
     \<lparr>sm_SandboxID = cr_SandboxID req, sm_TemplateID = cr_TemplateID req,
      sm_Metadata = copyStringMap (cr_Metadata req), sm_CreatedAt = cr_CreatedAt req, sm_EndAt = cr_EndAt req,
      sm_AllowInternetAccess = cr_AllowInternetAccess req, sm_OnTimeout = cr_OnTimeout req, sm_AutoPause = None,
      sm_VolumeMounts = volumeMounts\<rparr>"

definition orb_CreateSandbox :: "'e ctx \<Rightarrow> 'e orb_runtime \<Rightarrow> create_request \<Rightarrow> ('e, runtime_info) host_op" where
  "orb_CreateSandbox ctx r req =
     bindE (liftE (Normalize (cr_OnTimeout req))) (\<lambda>onTimeout.
     let req = req\<lparr>cr_OnTimeout := onTimeout\<rparr>
     in bindE (resolveTemplate r (cr_TemplateID req)) (\<lambda>(templateVM, t).
        bindE (resolveVolumeMounts r (cr_VolumeMounts req)) (\<lambda>(volumeMounts, volumeHostDirs).
        let machineName = sandboxMachineName (or_cfg r) (cr_SandboxID req);
            spec = \<lparr>ps_StartCmd = TrimSpace (ot_StartCmd t), ps_EnvVars = copyStringMap (cr_EnvVars req),
                     ps_VolumeMounts = volumeMounts, ps_VolumeHostDirs = volumeHostDirs\<rparr>
        in bindE (mc_CloneVM (or_vmClient r) (vi_Name templateVM) machineName) (\<lambda>u.
           cleanup_machine r machineName
             (provision_machine ctx r req machineName spec (sandbox_metadata_of req volumeMounts))))))"

definition orb_DeleteSandbox :: "'e orb_runtime \<Rightarrow> runtime_info \<Rightarrow> ('e, unit) host_op" where
  "orb_DeleteSandbox r info =
     (let name = machineNameFromRuntimeInfo info
      in if name = [] then fail machine_required else mc_DeleteVM (or_vmClient r) name)"

definition orb_InspectSandbox :: "'e orb_runtime \<Rightarrow> runtime_info \<Rightarrow> ('e, inspection) host_op" where
  "orb_InspectSandbox r info =
     (let name = machineNameFromRuntimeInfo info; gone = \<lparr>in_Info = info, in_State = [], in_Exists = False\<rparr>
      in if name = [] then ret gone
         else caseE (mc_GetVMInfo (or_vmClient r) name)
                (\<lambda>err. if errors_Is err ErrVMNotFound then ret gone else fail err)
                (\<lambda>vmInfo. ret \<lparr>in_Info = orb_runtimeInfo r (ri_SandboxID info) vmInfo (ri_VolumeMounts info),
                                in_State = sandboxStateFromVMState (vi_State vmInfo), in_Exists = True\<rparr>))"

definition orb_PauseSandbox :: "'e orb_runtime \<Rightarrow> runtime_info \<Rightarrow> ('e, unit) host_op" where
  "orb_PauseSandbox r info =
     (let name = machineNameFromRuntimeInfo info
      in if name = [] then fail machine_required
         else bindE (orb_InspectSandbox r info) (\<lambda>inspection.
           if \<not> in_Exists inspection then fail (Wrapf [] ErrVMNotFound ('': '' @ name))
           else if in_State inspection = Paused then ret ()
           else caseE (mc_StopVM (or_vmClient r) name)
                  (\<lambda>err. caseE (orb_InspectSandbox r info) (\<lambda>inspectErr. fail err)
                     (\<lambda>current. if in_Exists current \<and> in_State current = Paused then ret () else fail err))
                  ret))"

definition orb_ResumeSandbox :: "'e ctx \<Rightarrow> 'e orb_runtime \<Rightarrow> runtime_info \<Rightarrow> ('e, runtime_info) host_op" where
  "orb_ResumeSandbox ctx r info =
     (let name = machineNameFromRuntimeInfo info
      in if name = [] then fail machine_required
         else bindE (mc_StartVM (or_vmClient r) name) (\<lambda>u.
              bindE (waitForMachineState ctx r name ''running'') (\<lambda>vmInfo.
              bindE (waitForMachineAddress ctx r (vi_Name vmInfo)) (\<lambda>vmInfo.
              bindE (or_checkHealthy r ctx (vmEnvdURL vmInfo (oc_EnvdPort (or_cfg r)))) (\<lambda>u.
              ret (orb_runtimeInfo r (ri_SandboxID info) vmInfo (ri_VolumeMounts info)))))))"

fun templates_of :: "'e orb_runtime \<Rightarrow> vm_info list \<Rightarrow> ('e, runtime_template list) host_op" where
  "templates_of r [] = ret []"
| "templates_of r (vmInfo # vms) =
     caseE (mc_GetVMInfo (or_vmClient r) (vi_Name vmInfo))
       (\<lambda>err. if errors_Is err ErrVMNotFound then templates_of r vms else fail err)
       (\<lambda>fullInfo. bindE time_Now (\<lambda>now.
          bindE (templates_of r vms) (\<lambda>ts. ret (runtimeTemplateFromVM (or_RAMInBytes r) now (or_cfg r) fullInfo # ts))))"

definition orb_ListTemplates :: "'e orb_runtime \<Rightarrow> ('e, runtime_template list) host_op" where
  "orb_ListTemplates r =
     bindE (mc_ListVMs (or_vmClient r)) (\<lambda>vms. templates_of r (listTemplateSourceVMs vms (or_cfg r)))"

definition restored_record :: "'e orb_runtime \<Rightarrow> time \<Rightarrow> vm_info \<Rightarrow> sandbox_metadata \<Rightarrow> go_error + sandbox_record" where
  "restored_record r now vmInfo metadata =
     (let sandboxID = (if TrimSpace (sm_SandboxID metadata) = [] then sandboxIDFromMachineName (or_cfg r) (vi_Name vmInfo)
                       else TrimSpace (sm_SandboxID metadata));
          createdAt = (if IsZero (sm_CreatedAt metadata) then now else sm_CreatedAt metadata);
          endAt = (if IsZero (sm_EndAt metadata) then defaultSandboxEndAt createdAt else sm_EndAt metadata);
          runtimeInfo = orb_runtimeInfo r sandboxID vmInfo (orb_normalizeVolumeMounts (sm_VolumeMounts metadata))
      in case timeoutAction metadata of
           Inl err \<Rightarrow> Inl (wrap (''restore orbstack sandbox '' @ sandboxID @ '': '') err)
         | Inr onTimeout \<Rightarrow>
             Inr \<lparr>sr_ID = sandboxID, sr_TemplateID = TrimSpace (sm_TemplateID metadata), sr_Alias = [], sr_ClientID = [],
                  sr_EnvdVersion = [], sr_Metadata = copyStringMap (sm_Metadata metadata),
                  sr_EnvdURL = ri_EnvdURL runtimeInfo, sr_RuntimeInfo = runtimeInfo, sr_CreatedAt = createdAt,
                  sr_EndAt = endAt, sr_State = sandboxStateFromVMState (vi_State vmInfo), sr_CPUCount = 0,
                  sr_DiskSizeMB = 0, sr_MemoryMB = 0,
                  sr_InternetAccessPolicy = InternetAccessPolicyFromBoolPtr (sm_AllowInternetAccess metadata),
                  sr_OnTimeout = onTimeout\<rparr>)"

text \<open>A machine of a sandbox has the prefix of the sandboxes and not the one of the snapshots.\<close>

definition is_sandbox_machine :: "orb_config \<Rightarrow> string \<Rightarrow> bool" where
  "is_sandbox_machine cfg name \<longleftrightarrow>
     HasPrefix name (TrimSpace (oc_MachineNamePrefix cfg)) \<and> \<not> HasPrefix name (snapshotMachinePrefix cfg)"

fun orb_restore_records :: "'e ctx \<Rightarrow> 'e orb_runtime \<Rightarrow> vm_info list \<Rightarrow> ('e, sandbox_record list) host_op" where
  "orb_restore_records ctx r [] = ret []"
| "orb_restore_records ctx r (vmInfo # vms) =
     (if \<not> is_sandbox_machine (or_cfg r) (vi_Name vmInfo) then orb_restore_records ctx r vms
      else caseE (mc_GetVMInfo (or_vmClient r) (vi_Name vmInfo))
             (\<lambda>err. if errors_Is err ErrVMNotFound then orb_restore_records ctx r vms else fail err)
             (\<lambda>fullInfo.
                bindE (readSandboxMetadata ctx r (vi_Name fullInfo)) (\<lambda>metadata.
                bindE time_Now (\<lambda>now.
                bindE (liftE (restored_record r now fullInfo metadata)) (\<lambda>x.
                bindE (orb_restore_records ctx r vms) (\<lambda>xs. ret (x # xs)))))))"

definition orb_RestoreSandboxes :: "'e ctx \<Rightarrow> 'e orb_runtime \<Rightarrow> ('e, sandbox_record list) host_op" where
  "orb_RestoreSandboxes ctx r =
     bindE (mc_ListVMs (or_vmClient r)) (\<lambda>vms. orb_restore_records ctx r (sort_key vi_Name vms))"

section \<open>Snapshots\<close>

definition orb_CreateSandboxSnapshot :: "'e orb_runtime \<Rightarrow> sandbox_record \<Rightarrow> string option \<Rightarrow> ('e, snapshot_info) host_op" where
  "orb_CreateSandboxSnapshot r record reqName =
     (let source = machineNameFromRuntimeInfo (sr_RuntimeInfo record);
          name = (case reqName of Some n \<Rightarrow> n | None \<Rightarrow> [])
      in if source = [] then fail (ErrorString (''sandbox '' @ sr_ID record @ '' has no machine''))
         else bindE time_Now (\<lambda>createdAt.
           let snapshotID = snapshotMachineName (or_cfg r) (sr_ID record) name createdAt
           in bindE (if TrimSpace name \<noteq> [] then ignoreE (mc_DeleteVM (or_vmClient r) snapshotID) else ret ()) (\<lambda>u.
              bindE (mc_CloneVM (or_vmClient r) source snapshotID) (\<lambda>u.
              ret \<lparr>si_Names = [snapshotID], si_SnapshotID = snapshotID\<rparr>))))"

definition snapshots_with :: "string \<Rightarrow> vm_info list \<Rightarrow> snapshot_info list" where
  "snapshots_with pre vms =
     sort_key si_SnapshotID (map (\<lambda>vmInfo. \<lparr>si_Names = [vi_Name vmInfo], si_SnapshotID = vi_Name vmInfo\<rparr>)
       (filter (\<lambda>vmInfo. HasPrefix (vi_Name vmInfo) pre) vms))"

fun after_snapshot :: "string \<Rightarrow> snapshot_info list \<Rightarrow> snapshot_info list" where
  "after_snapshot token [] = []"
| "after_snapshot token (s # ss) = (if si_SnapshotID s = token then ss else after_snapshot token ss)"

definition orb_ListSnapshots :: "'e orb_runtime \<Rightarrow> string \<Rightarrow> int \<Rightarrow> string \<Rightarrow> ('e, snapshot_info list) host_op" where
  "orb_ListSnapshots r reqSandboxID limit reqNextToken =
     bindE (mc_ListVMs (or_vmClient r)) (\<lambda>vms.
     let sandboxID = TrimSpace reqSandboxID;
         pre = snapshotMachinePrefix (or_cfg r) @ (if sandboxID \<noteq> [] then sandboxID @ ''-'' else []);
         snapshots = snapshots_with pre vms;
         nextToken = TrimSpace reqNextToken;
         rest = (if nextToken \<noteq> [] then after_snapshot nextToken snapshots else snapshots);
         limit = (if limit \<le> 0 \<or> limit > maxSandboxListLimit then maxSandboxListLimit else limit)
     in ret (take (nat limit) rest))"

section \<open>The gateway's runtime\<close>

definition NewOrbstackRuntime :: "orb_config \<Rightarrow> 'e machine_client \<Rightarrow> 'e health_client \<Rightarrow> ('e, string) host_op \<Rightarrow>
    orb_codecs \<Rightarrow> 'e xattr_calls option \<Rightarrow> (string \<Rightarrow> go_error + int) \<Rightarrow> (go_error \<Rightarrow> go_error) \<Rightarrow> (string \<Rightarrow> string) \<Rightarrow>
    go_error + 'e orb_runtime" where
  "NewOrbstackRuntime cfg vm hc newID codecs xattrs ramInBytes notFound folded =
     (case validate_orb cfg of
        Some e \<Rightarrow> Inl e
      | None \<Rightarrow> Inr \<lparr>or_cfg = cfg, or_vmClient = vm, or_checkHealthy = defaultHealthCheck cfg hc,
                     or_newID = newID, or_codecs = codecs, or_xattrs = xattrs, or_RAMInBytes = ramInBytes,
                     or_NotFound = notFound, or_Fold = folded\<rparr>)"

definition orb_as_runtime :: "('e host \<Rightarrow> (go_error + string) \<times> 'e host) \<Rightarrow> 'e ctx \<Rightarrow> 'e orb_runtime \<Rightarrow> 'e host runtime" where
  "orb_as_runtime rand12 ctx r =
     \<lparr>rt_now = (\<lambda>h. (h_now h, h)),
      rt_rand12 = rand12,
      rt_present = True,
      rt_CreateSandbox = orb_CreateSandbox ctx r,
      rt_DeleteSandbox = (\<lambda>info h. as_error (orb_DeleteSandbox r info h)),
      rt_PauseSandbox = (\<lambda>info h. as_error (orb_PauseSandbox r info h)),
      rt_ResumeSandbox = orb_ResumeSandbox ctx r,
      rt_InspectSandbox = Some (orb_InspectSandbox r),
      rt_RestoreSandboxes = Some (orb_RestoreSandboxes ctx r)\<rparr>"

end
