(* ===== verification/OrbSandboxProofs.thy ===== *)
theory OrbSandboxProofs
  imports OrbRuntime DockerSandboxProofs
begin

text \<open>
  What the OrbStack backend does to the set of machines. The backend relies on the interface
  \<open>machineClient\<close>, whose contract is the locale \<open>machines\<close>; the client that talks to OrbStack's control
  socket keeps the contract when the socket does what its calls are named for (\<open>control_socket\<close>).
\<close>

section \<open>Calls of the host\<close>

lemma engine_put_file [simp]: "h_engine (snd (put_file d mode p h)) = h_engine h"
  by (auto simp: put_file_def split: option.split fs_node.split)

lemma engine_rename_dir [simp]: "h_engine (snd (rename_dir p q h)) = h_engine h"
  by (auto simp: rename_dir_def move_tree_def split: option.split fs_node.split)

lemma engine_orb_calls:
  "within same_engine (os_ReadDir p)" "within same_engine (os_Mkdir p mode)" "within same_engine (os_Chmod p mode)"
  "within same_engine (os_WriteFile p data mode)" "within same_engine (os_Rename p q)"
proof -
  show "within same_engine (os_ReadDir p)" "within same_engine (os_Mkdir p mode)" "within same_engine (os_Chmod p mode)"
    by (auto simp: os_ReadDir_def os_Mkdir_def os_Chmod_def intro!: engine_syscall engine_at_path split: option.split fs_node.split)
  show "within same_engine (os_WriteFile p data mode)" "within same_engine (os_Rename p q)"
    unfolding os_WriteFile_def os_Rename_def
    by (intro engine_syscall engine_at_path engine_put_file engine_rename_dir refl)+
qed

lemmas alive_calls = engine_calls [THEN pop_engine] engine_orb_calls [THEN pop_engine]

definition xattrs_keep :: "'e orb_runtime \<Rightarrow> ('e \<Rightarrow> string set) \<Rightarrow> bool" where
  "xattrs_keep r live \<longleftrightarrow>
     (\<forall>xa. or_xattrs r = Some xa \<longrightarrow>
        (\<forall>p a d. within (same_alive live) (xa_Setxattr xa p a d)) \<and> (\<forall>p a. within (same_alive live) (xa_Removexattr xa p a)) \<and>
        (\<forall>p a. within (same_alive live) (xa_Size xa p a)) \<and> (\<forall>p a n. within (same_alive live) (xa_Getxattr xa p a n)))"

lemma write_metadata_keeps:
  assumes "xattrs_keep r live" shows "within (same_alive live) (orb_writeVolumeMetadata r dir v)"
proof (cases "or_xattrs r")
  case None
  then show ?thesis by (simp add: orb_writeVolumeMetadata_def write_metadata_file_def pop_engine engine_orb_calls)
next
  case (Some xa)
  with assms show ?thesis unfolding orb_writeVolumeMetadata_def
    by (simp add: write_metadata_xattr_def) (intro pop.call_in alive_calls; simp add: xattrs_keep_def)
qed

lemma legacy_metadata_keeps: "within (same_alive live) (readLegacyVolumeMetadataFile cd dir)"
  unfolding readLegacyVolumeMetadataFile_def by (intro pop.call_in alive_calls)

lemma read_metadata_keeps:
  assumes "xattrs_keep r live" shows "within (same_alive live) (orb_readVolumeMetadata r dir)"
proof (cases "or_xattrs r")
  case None
  then show ?thesis by (simp add: orb_readVolumeMetadata_def legacy_metadata_keeps)
next
  case (Some xa)
  have x: "within (same_alive live) (readVolumeMetadataXAttr xa p a)" for p a
    unfolding readVolumeMetadataXAttr_def using assms Some by (intro pop.call_in) (simp_all add: xattrs_keep_def)
  have w: "within (same_alive live) (write_metadata_xattr xa (or_codecs r) dir v)" for v
    using write_metadata_keeps [OF assms, of dir v] Some by (simp add: orb_writeVolumeMetadata_def)
  show ?thesis unfolding orb_readVolumeMetadata_def
    by (simp add: Some read_metadata_xattr_def) (intro pop.call_in x w legacy_metadata_keeps)
qed

lemma next_dir_keeps: "within (same_alive live) (next_dir_loop fuel cfg b i)"
proof (induction fuel arbitrary: i)
  case 0
  then show ?case by (simp only: next_dir_loop.simps pop.fail_in)
next
  case (Suc fuel)
  show ?case unfolding next_dir_loop.simps Let_def by (intro pop.call_in alive_calls Suc.IH)
qed

lemma resolveVolumeDir_keeps: "xattrs_keep r live \<Longrightarrow> within (same_alive live) (resolveVolumeDir r dir)"
proof -
  assume x: "xattrs_keep r live"
  have n: "within (same_alive live) (nextAvailableVolumeHostDir cfg n)" for cfg n
    unfolding nextAvailableVolumeHostDir_def using next_dir_keeps unfolding within_def by blast
  show ?thesis unfolding resolveVolumeDir_def migrateLegacyVolumeDir_def Let_def
    by (intro pop.call_in alive_calls read_metadata_keeps x n)
qed

lemma findVolumeByID_keeps: "xattrs_keep r live \<Longrightarrow> within (same_alive live) (findVolumeByID r v)"
proof -
  assume x: "xattrs_keep r live"
  have f: "within (same_alive live) (find_in_dirs r v es)" for v es
  proof (induction es)
    case (Cons e es)
    show ?case by (cases e) (simp only: find_in_dirs.simps, intro pop.call_in resolveVolumeDir_keeps x Cons.IH)
  qed (simp only: find_in_dirs.simps pop.fail_in)
  have "within (same_alive live) (find_by_listing r v)" for v
    unfolding find_by_listing_def by (intro pop.call_in alive_calls f)
  then show ?thesis unfolding findVolumeByID_def Let_def
    by (intro pop.call_in alive_calls resolveVolumeDir_keeps x)
qed

section \<open>The contract of the machine client\<close>

text \<open>
  \<open>live\<close> gives the names of the machines. A clone that succeeds adds the new name and one that fails
  adds nothing; a deletion that succeeds leaves no machine of that name; nothing else changes the set.
\<close>

definition clone_law :: "('e \<Rightarrow> string set) \<Rightarrow> string \<Rightarrow> ('e, unit) host_op \<Rightarrow> bool" where
  "clone_law live dest m \<longleftrightarrow>
     (\<forall>h. case m h of
        (Inl e, h') \<Rightarrow> live (h_engine h') = live (h_engine h)
      | (Inr u, h') \<Rightarrow> TrimSpace dest \<notin> live (h_engine h) \<and> live (h_engine h') = insert (TrimSpace dest) (live (h_engine h)))"

definition delete_law :: "('e \<Rightarrow> string set) \<Rightarrow> string \<Rightarrow> ('e, unit) host_op \<Rightarrow> bool" where
  "delete_law live name m \<longleftrightarrow>
     (\<forall>h. case m h of
        (Inl e, h') \<Rightarrow> live (h_engine h') = live (h_engine h)
      | (Inr u, h') \<Rightarrow> live (h_engine h') = live (h_engine h) - {TrimSpace name})"

text \<open>A call that adds exactly one machine or none.\<close>

definition adds_machine :: "('e \<Rightarrow> string set) \<Rightarrow> string \<Rightarrow> ('e, 'a) host_op \<Rightarrow> bool" where
  "adds_machine live name m \<longleftrightarrow>
     (\<forall>h. case m h of
        (Inl e, h') \<Rightarrow> live (h_engine h') = live (h_engine h)
      | (Inr x, h') \<Rightarrow> name \<notin> live (h_engine h) \<and> live (h_engine h') = insert name (live (h_engine h)))"

lemma adds_after:
  assumes "within (same_alive live) m" and "\<And>x. adds_machine live name (f x)"
  shows "adds_machine live name (bindE m f)"
  unfolding adds_machine_def
proof
  fix h
  obtain r t where m: "m h = (r, t)" by fastforce
  then have k: "live (h_engine t) = live (h_engine h)" using withinD [OF assms(1) m] by (simp add: same_alive_def)
  show "case bindE m f h of
      (Inl e, h') \<Rightarrow> live (h_engine h') = live (h_engine h)
    | (Inr x, h') \<Rightarrow> name \<notin> live (h_engine h) \<and> live (h_engine h') = insert name (live (h_engine h))"
  proof (cases r)
    case (Inl e)
    with m k show ?thesis by (simp add: bindE_err)
  next
    case (Inr x)
    obtain q u where "f x t = (q, u)" by fastforce
    with Inr m k assms(2) [of x, unfolded adds_machine_def, rule_format, of t] show ?thesis
      by (cases q) (simp_all add: bindE_ok)
  qed
qed

lemma adds_lift: "(\<And>x. adds_machine live name (f x)) \<Longrightarrow> adds_machine live name (bindE (liftE v) f)"
  by (rule adds_after [OF pop.lift_in])

locale machines =
  fixes vm :: "'e machine_client" and live :: "'e \<Rightarrow> string set"
  assumes clone: "clone_law live dest (mc_CloneVM vm source dest)"
    and delete: "delete_law live name (mc_DeleteVM vm name)"
    and start: "within (same_alive live) (mc_StartVM vm name)"
    and stop: "within (same_alive live) (mc_StopVM vm name)"
    and info: "within (same_alive live) (mc_GetVMInfo vm name)"
    and listing: "within (same_alive live) (mc_ListVMs vm)"
    and add_mount: "within (same_alive live) (mc_AddMachineMount vm name source dest)"
    and set_option: "within (same_alive live) (mc_SetMachineOption vm name opt val)"
    and mkdir: "within (same_alive live) (mc_MkdirAll vm ctx name p mode)"
    and read: "within (same_alive live) (mc_ReadFile vm ctx name p)"
    and write_file: "within (same_alive live) (mc_WriteFile vm ctx name p data mode)"
    and symlink: "within (same_alive live) (mc_Symlink vm ctx name old new)"
    and shell: "within (same_alive live) (mc_RunShell vm ctx name script)"
begin

lemma timed_keeps:
  assumes "within (same_alive live) f" shows "within (same_alive live) (timed f)"
proof (rule withinI)
  fix s
  obtain x t where "f s = (x, t)" by fastforce
  with withinD [OF assms this] show "same_alive live s (snd (timed f s))" by (simp add: timed_def same_alive_def)
qed

lemma wait_state_keeps: "or_vmClient r = vm \<Longrightarrow> same_alive live h (snd (wait_state ctx r m st deadline h))"
proof (induction ctx r m st deadline h rule: wait_state.induct)
  case (1 ctx r m st deadline h)
  obtain res h1 where p: "timed (mc_GetVMInfo (or_vmClient r) m) h = (res, h1)" by fastforce
  with timed_keeps [OF info] "1.prems" have k: "same_alive live h h1" by (auto dest: withinD)
  have "same_alive live h1 (sleep_second h1)" by (simp add: same_alive_def sleep_second_def)
  moreover have "same_alive live (sleep_second h1) (snd (wait_state ctx r m st deadline (sleep_second h1)))"
    if "state_poll st res = None" "ctx h1 = None" "\<not> deadline < h_now h1"
    using "1.IH" [OF p [symmetric] that "1.prems"] .
  ultimately show ?case using k
    by (subst wait_state.simps) (auto simp: p same_alive_def split: option.split)
qed

lemma wait_address_keeps:
  "or_vmClient r = vm \<Longrightarrow> same_alive live h (snd (wait_address ctx r m deadline i e h))"
proof (induction ctx r m deadline i e h rule: wait_address.induct)
  case (1 ctx r m deadline i e h)
  obtain res h1 where p: "timed (mc_GetVMInfo (or_vmClient r) m) h = (res, h1)" by fastforce
  with timed_keeps [OF info] "1.prems" have k: "same_alive live h h1" by (auto dest: withinD)
  have "same_alive live h1 (sleep_second h1)" by (simp add: same_alive_def sleep_second_def)
  moreover note IH = "1.IH" [OF p [symmetric] refl refl refl _ _ _ "1.prems"]
  ultimately show ?case using k
    by (subst wait_address.simps) (auto simp: p same_alive_def Let_def split: option.split)
qed

lemma waits_keep:
  assumes "or_vmClient r = vm"
  shows "within (same_alive live) (waitForMachineState ctx r m st)" "within (same_alive live) (waitForMachineAddress ctx r m)"
  unfolding waitForMachineState_def waitForMachineAddress_def
  by (intro pop.bind_in alive_calls withinI wait_state_keeps wait_address_keeps assms)+

lemma add_mounts_keeps: "or_vmClient r = vm \<Longrightarrow> within (same_alive live) (add_mounts r m spec ms)"
proof (induction ms)
  case (Cons a ms)
  then show ?case unfolding add_mounts.simps Let_def
    by (intro pop.call_in) (simp_all add: add_mount)
qed (simp only: add_mounts.simps pop.ret_in)

lemma mount_files_keeps: "or_vmClient r = vm \<Longrightarrow> within (same_alive live) (mount_files ctx r m spec ms)"
proof (induction ms)
  case (Cons a ms)
  then show ?case unfolding mount_files.simps Let_def
    by (intro pop.call_in) (simp_all add: mkdir symlink)
qed (simp only: mount_files.simps pop.ret_in)

lemma make_dirs_keeps: "or_vmClient r = vm \<Longrightarrow> within (same_alive live) (make_dirs ctx r m ds)"
proof (induction ds)
  case (Cons a ds)
  then show ?case unfolding make_dirs.simps by (intro pop.call_in) (simp_all add: mkdir)
qed (simp only: make_dirs.simps pop.ret_in)

lemma configure_keeps:
  assumes "or_vmClient r = vm" shows "within (same_alive live) (configureMachine ctx r m spec md)"
  unfolding configureMachine_def configureVolumeMountFiles_def Let_def assms
  by (intro pop.call_in alive_calls make_dirs_keeps mount_files_keeps write_file symlink shell assms)

lemma provision_keeps:
  assumes "or_vmClient r = vm" and "\<And>ctx u. within (same_alive live) (or_checkHealthy r ctx u)"
  shows "within (same_alive live) (provision_machine ctx r req m spec md)"
  unfolding provision_machine_def prepareMachine_def Let_def assms(1)
  by (intro pop.call_in add_mounts_keeps waits_keep configure_keeps set_option start assms)

lemma resolve_keeps:
  assumes "or_vmClient r = vm" and "xattrs_keep r live"
  shows "within (same_alive live) (resolveTemplate r t)" "within (same_alive live) (resolveVolumeMounts r ms)"
proof -
  show "within (same_alive live) (resolveTemplate r t)"
    unfolding resolveTemplate_def Let_def assms(1) by (intro pop.call_in info)
  have "within (same_alive live) (orb_resolve_mounts r i by_id dirs ms)" for i by_id dirs ms
  proof (induction ms arbitrary: i by_id dirs)
    case (Cons m ms)
    show ?case unfolding orb_resolve_mounts.simps Let_def
      by (auto split: option.split prod.split intro!: pop.call_in findVolumeByID_keeps assms Cons.IH)
  qed (simp only: orb_resolve_mounts.simps pop.ret_in)
  then show "within (same_alive live) (resolveVolumeMounts r ms)" by (simp add: resolveVolumeMounts_def)
qed

lemma clone_or_clean:
  assumes "or_vmClient r = vm" and can: "\<And>h. \<exists>h'. mc_DeleteVM vm name h = (Inr (), h')"
    and "within (same_alive live) body"
  shows "adds_machine live (TrimSpace name) (bindE (mc_CloneVM vm source name) (\<lambda>u. cleanup_machine r name body))"
  unfolding adds_machine_def
proof
  fix h
  obtain c t where c: "mc_CloneVM vm source name h = (c, t)" by fastforce
  note cl = clone [of name source, unfolded clone_law_def, rule_format, of h]
  show "case bindE (mc_CloneVM vm source name) (\<lambda>u. cleanup_machine r name body) h of
      (Inl e, h') \<Rightarrow> live (h_engine h') = live (h_engine h)
    | (Inr x, h') \<Rightarrow> TrimSpace name \<notin> live (h_engine h) \<and> live (h_engine h') = insert (TrimSpace name) (live (h_engine h))"
  proof (cases c)
    case (Inl e)
    with c cl show ?thesis by (simp add: bindE_err)
  next
    case (Inr u)
    with c cl have n: "TrimSpace name \<notin> live (h_engine h)" "live (h_engine t) = insert (TrimSpace name) (live (h_engine h))" by auto
    obtain b t2 where b: "body t = (b, t2)" by fastforce
    then have k: "live (h_engine t2) = live (h_engine t)" using withinD [OF assms(3) b] by (simp add: same_alive_def)
    obtain t3 where d: "mc_DeleteVM vm name t2 = (Inr (), t3)" using can by blast
    with delete [of name, unfolded delete_law_def, rule_format, of t2]
    have d3: "live (h_engine t3) = live (h_engine t2) - {TrimSpace name}" by simp
    show ?thesis
    proof (cases b)
      case Inl: (Inl e)
      have "bindE (mc_CloneVM vm source name) (\<lambda>u. cleanup_machine r name body) h = (Inl e, t3)"
        using c b d Inr Inl assms(1) by (simp add: bindE_ok cleanup_machine_def caseE_err ignoreE_def bindE_def caseE_def)
      with n k d3 show ?thesis by simp
    next
      case r: (Inr x)
      have "bindE (mc_CloneVM vm source name) (\<lambda>u. cleanup_machine r name body) h = (Inr x, t2)"
        using c b Inr r by (simp add: bindE_ok cleanup_machine_def caseE_ok)
      with n k show ?thesis by simp
    qed
  qed
qed

lemma create_adds:
  assumes "or_vmClient r = vm"
    and "\<And>h. \<exists>h'. mc_DeleteVM vm (sandboxMachineName (or_cfg r) (cr_SandboxID req)) h = (Inr (), h')"
    and "xattrs_keep r live" and "\<And>ctx u. within (same_alive live) (or_checkHealthy r ctx u)"
  shows "adds_machine live (TrimSpace (sandboxMachineName (or_cfg r) (cr_SandboxID req))) (orb_CreateSandbox ctx r req)"
  unfolding orb_CreateSandbox_def Let_def case_prod_unfold
  by (rule adds_lift, rule adds_after [OF resolve_keeps(1) [OF assms(1,3)]],
      rule adds_after [OF resolve_keeps(2) [OF assms(1,3)]], simp add: assms(1),
      rule clone_or_clean [OF assms(1,2)], rule provision_keeps [OF assms(1,4)])

end

section \<open>The client keeps the contract\<close>

definition rpc_outcome :: "'w rpc_transport \<Rightarrow> string \<Rightarrow> 64 word \<Rightarrow> go_error + int \<times> string \<times> go_error option \<Rightarrow> go_error + string" where
  "rpc_outcome tr method i resp =
     (case resp of Inl e \<Rightarrow> Inl (wrap (''call '' @ method @ '': '') e) | Inr p \<Rightarrow> check_response tr method i p)"

text \<open>
  What the control socket does: a call has its effect exactly when it is answered with success, a
  clone needs a new name, and a deletion is refused with a text that means a missing machine only if
  there is none of that name. Commands over SSH do not change the set of machines.
\<close>

locale control_socket =
  fixes c :: "'w vm_client" and live :: "'w \<Rightarrow> string set"
  assumes encodes: "\<exists>body. rp_Encode (vc_Transport c) rq = Inr body"
    and clones: "rp_Encode (vc_Transport c) rq = Inr body \<Longrightarrow> rq_Method rq = ''ContainerClone'' \<Longrightarrow>
      rq_Params rq = Some [NameParam s, NameParam d] \<Longrightarrow> rp_Do (vc_Transport c) body w = (resp, w') \<Longrightarrow>
      (case rpc_outcome (vc_Transport c) ''ContainerClone'' (rq_ID rq) resp of
         Inl e \<Rightarrow> live w' = live w | Inr x \<Rightarrow> d \<notin> live w \<and> live w' = insert d (live w))"
    and deletes: "rp_Encode (vc_Transport c) rq = Inr body \<Longrightarrow> rq_Method rq = ''ContainerDelete'' \<Longrightarrow>
      rq_Params rq = Some [NameParam n] \<Longrightarrow> rp_Do (vc_Transport c) body w = (resp, w') \<Longrightarrow>
      (case rpc_outcome (vc_Transport c) ''ContainerDelete'' (rq_ID rq) resp of
         Inl e \<Rightarrow> live w' = live w \<and> (isVMNotFoundError e \<longrightarrow> n \<notin> live w) | Inr x \<Rightarrow> live w' = live w - {n})"
    and others: "rp_Encode (vc_Transport c) rq = Inr body \<Longrightarrow>
      rq_Method rq \<notin> {''ContainerClone'', ''ContainerDelete''} \<Longrightarrow> live (snd (rp_Do (vc_Transport c) body w)) = live w"
    and ssh: "live (snd (sh_Dial (vc_SSH c) p w)) = live w" "live (snd (sh_NewClientConn (vc_SSH c) k u key w)) = live w"
      "live (snd (sh_NewSession (vc_SSH c) k w)) = live w" "live (snd (sh_Start (vc_SSH c) k i cmd w)) = live w"
      "live (snd (sh_Wait (vc_SSH c) k w)) = live w" "live (snd (sh_Close (vc_SSH c) k w)) = live w"
    and no_runner: "vc_sshRunner c = None"
begin

abbreviation machine_names :: "'w orb_world \<Rightarrow> string set" where
  "machine_names e \<equiv> live (ow_World e)"

lemma rpc_run:
  "\<exists>body rq resp w' h'. rp_Encode (vc_Transport c) rq = Inr body \<and> rq_Method rq = m \<and> rq_Params rq = ps \<and>
     rp_Do (vc_Transport c) body (ow_World (h_engine h)) = (resp, w') \<and> ow_World (h_engine h') = w' \<and>
     rpc_call (vc_Transport c) m ps None x h =
       (case rpc_outcome (vc_Transport c) m (rq_ID rq) resp of Inl e \<Rightarrow> Inl e | Inr y \<Rightarrow> Inr x, h')"
proof -
  define i where "i = ow_NextID (h_engine h) + 1"
  define rq where "rq = \<lparr>rq_JSONRPC = ''2.0'', rq_ID = i, rq_Method = m, rq_Params = ps\<rparr>"
  define h0 where "h0 = h\<lparr>h_engine := (h_engine h)\<lparr>ow_NextID := i\<rparr>\<rparr>"
  obtain body where b: "rp_Encode (vc_Transport c) rq = Inr body" using encodes by blast
  obtain resp w' where w: "rp_Do (vc_Transport c) body (ow_World (h_engine h)) = (resp, w')" by fastforce
  define h' where "h' = h0\<lparr>h_engine := (h_engine h0)\<lparr>ow_World := w'\<rparr>, h_now := h_now h0 + int (rp_Elapsed (vc_Transport c) w')\<rparr>"
  have n: "next_id h = (Inr i, h0)" by (simp add: next_id_def Let_def i_def h0_def)
  have s: "socket_call (rp_Elapsed (vc_Transport c)) (rp_Do (vc_Transport c) body) h0 = (resp, h')"
    by (simp add: socket_call_def h0_def h'_def w)
  have "rpc_call (vc_Transport c) m ps None x h =
      (case rpc_outcome (vc_Transport c) m i resp of Inl e \<Rightarrow> Inl e | Inr y \<Rightarrow> Inr x, h')"
    using n s b by (simp add: rpc_call_def rq_def rpc_outcome_def call_defs split: sum.split)
  moreover have "ow_World (h_engine h') = w'" by (simp add: h'_def)
  moreover have "rq_Method rq = m" "rq_Params rq = ps" "rq_ID rq = i" by (simp_all add: rq_def)
  ultimately show ?thesis using b w by metis
qed

lemma rpc_keeps:
  assumes "m \<notin> {''ContainerClone'', ''ContainerDelete''}"
  shows "within (same_alive machine_names) (rpc_call (vc_Transport c) m ps d x)"
proof -
  have n: "within (same_alive machine_names) next_id" by (simp add: within_def same_alive_def next_id_def Let_def)
  have step: "within (same_alive machine_names) (bindE (mapErr w (liftE (rp_Encode (vc_Transport c)
      \<lparr>rq_JSONRPC = ''2.0'', rq_ID = i, rq_Method = m, rq_Params = ps\<rparr>))) (\<lambda>body.
      bindE (mapErr v (socket_call el (rp_Do (vc_Transport c) body))) f))"
    if f: "\<And>y. within (same_alive machine_names) (f y)" for i w v el and f :: "_ \<Rightarrow> ('w, 'y) orb_op"
  proof -
    obtain body where b: "rp_Encode (vc_Transport c) \<lparr>rq_JSONRPC = ''2.0'', rq_ID = i, rq_Method = m, rq_Params = ps\<rparr> = Inr body"
      using encodes by blast
    then have "within (same_alive machine_names) (socket_call el (rp_Do (vc_Transport c) body))"
      using others [OF b] assms by (auto simp: within_def same_alive_def socket_call_def split: prod.split) (metis snd_conv)+
    then have "within (same_alive machine_names) (bindE (mapErr v (socket_call el (rp_Do (vc_Transport c) body))) f)"
      by (intro pop.call_in f)
    then show ?thesis by (simp add: b within_def call_defs split: prod.split)
  qed
  show ?thesis unfolding rpc_call_def
    by (intro pop.bind_in [OF n] step pop.lift_in) (auto split: option.split intro!: pop.call_in)
qed

lemma ssh_keeps:
  "within (same_alive machine_names) (ssh_call c (sh_Dial (vc_SSH c) p))"
  "within (same_alive machine_names) (ssh_call c (sh_NewClientConn (vc_SSH c) k u key))"
  "within (same_alive machine_names) (ssh_call c (sh_NewSession (vc_SSH c) k))"
  "within (same_alive machine_names) (ssh_call c (sh_Start (vc_SSH c) k i cmd))"
  "within (same_alive machine_names) (ssh_call c (sh_Wait (vc_SSH c) k))"
  "within (same_alive machine_names) (ssh_call c (sh_Close (vc_SSH c) k))"
  using ssh by (auto simp: within_def same_alive_def ssh_call_def socket_call_def split: prod.split) (metis snd_conv)+

lemma list_keeps: "within (same_alive machine_names) (ListContainers (vc_Transport c))"
  unfolding ListContainers_def by (rule rpc_keeps) simp

lemma info_keeps: "within (same_alive machine_names) (orb_Info (vc_Transport c) name)"
  unfolding orb_Info_def Let_def by (intro pop.call_in list_keeps) (auto split: option.split intro: pop.call_in)

lemma set_config_keeps: "within (same_alive machine_names) (orb_SetConfig (vc_Transport c) name cfg)"
  unfolding orb_SetConfig_def Let_def by (intro pop.call_in rpc_keeps) simp

lemma get_info_keeps: "within (same_alive machine_names) (vm_GetVMInfo c name)"
  unfolding vm_GetVMInfo_def Let_def by (intro pop.call_in info_keeps)

lemma run_ssh_keeps: "within (same_alive machine_names) (runMachineSSH c m stdin script)"
proof -
  have "within (same_alive machine_names) (machineSSHUser c m)"
    unfolding machineSSHUser_def Let_def by (intro pop.call_in get_info_keeps)
  moreover have "within (same_alive machine_names) (run_session c m stdin script k)" for k
    unfolding run_session_def
    by (intro pop.call_in ssh_keeps) (auto split: wait_result.split option.split intro: pop.call_in simp: Let_def)
  ultimately show ?thesis unfolding runMachineSSH_def Let_def by (intro pop.call_in ssh_keeps alive_calls)
qed

lemma wait_retry_keeps: "within (same_alive machine_names) (wait_retry ctx)"
  by (auto simp: within_def same_alive_def wait_retry_def Let_def split: option.split)

lemma check_ctx_keeps: "within (same_alive machine_names) (check_ctx ctx)"
  by (auto simp: within_def same_alive_def check_ctx_def split: option.split)

lemma shell_loop_keeps: "cl = c \<Longrightarrow> same_alive machine_names h (snd (run_shell_loop ctx cl m stdin script deadline h))"
proof (induction ctx cl m stdin script deadline h rule: run_shell_loop.induct)
  case (1 ctx cl m stdin script deadline h)
  obtain r h1 where r: "runMachineSSH cl m stdin script h = (r, h1)" by fastforce
  then have k: "same_alive machine_names h h1" using "1.prems" run_ssh_keeps by (auto dest: withinD)
  show ?case
  proof (cases r)
    case (Inr out)
    with r k show ?thesis by (subst run_shell_loop.simps) simp
  next
    case (Inl err)
    obtain w h2 where w: "wait_retry ctx h1 = (w, h2)" by fastforce
    then have k2: "same_alive machine_names h1 h2" by (rule withinD [OF wait_retry_keeps])
    show ?thesis
    proof (cases w)
      case l: (Inl e)
      from k k2 have "same_alive machine_names h h2" by (rule pop.steps)
      with r w k Inl l show ?thesis by (subst run_shell_loop.simps) simp
    next
      case (Inr u)
      from k k2 have "same_alive machine_names h h2" by (rule pop.steps)
      moreover note IH = "1.IH" [OF r [symmetric] Inl _ w [symmetric] Inr _ "1.prems"]
      ultimately show ?thesis using r w k Inl Inr
        by (subst run_shell_loop.simps) (auto intro: pop.steps)
    qed
  qed
qed

lemma shell_keeps: "within (same_alive machine_names) (runMachineShell ctx c m stdin script)"
proof -
  have "within (same_alive machine_names) (run_shell_loop ctx c m stdin script deadline)" for m stdin deadline
    by (rule withinI) (simp add: shell_loop_keeps)
  then show ?thesis unfolding runMachineShell_def Let_def no_runner option.case
    by (intro pop.call_in check_ctx_keeps alive_calls)
qed

lemmas call_keeps = shell_keeps check_ctx_keeps get_info_keeps info_keeps list_keeps set_config_keeps alive_calls

lemma clone_keeps: "clone_law machine_names dest (vm_CloneVM c source dest)"
  unfolding clone_law_def
proof
  fix h
  define s d where "s = TrimSpace source" and "d = TrimSpace dest"
  obtain body rq resp w' h' where b: "rp_Encode (vc_Transport c) rq = Inr body" "rq_Method rq = ''ContainerClone''"
      "rq_Params rq = Some [NameParam s, NameParam d]" "rp_Do (vc_Transport c) body (ow_World (h_engine h)) = (resp, w')"
      "ow_World (h_engine h') = w'"
    and run: "rpc_call (vc_Transport c) ''ContainerClone'' (Some [NameParam s, NameParam d]) None () h =
       (case rpc_outcome (vc_Transport c) ''ContainerClone'' (rq_ID rq) resp of Inl e \<Rightarrow> Inl e | Inr y \<Rightarrow> Inr (), h')"
    using rpc_run [of "''ContainerClone''" "Some [NameParam s, NameParam d]" h "()"] by blast
  from clones [OF b(1-4)] b(5) run show "case vm_CloneVM c source dest h of
      (Inl e, h') \<Rightarrow> machine_names (h_engine h') = machine_names (h_engine h)
    | (Inr u, h') \<Rightarrow> TrimSpace dest \<notin> machine_names (h_engine h) \<and>
        machine_names (h_engine h') = insert (TrimSpace dest) (machine_names (h_engine h))"
    by (auto simp: vm_CloneVM_def orb_Clone_def Let_def s_def d_def call_defs split: sum.splits)
qed

lemma delete_keeps: "delete_law machine_names name (vm_DeleteVM c name)"
  unfolding delete_law_def
proof
  fix h
  define n where "n = TrimSpace name"
  obtain body rq resp w' h' where b: "rp_Encode (vc_Transport c) rq = Inr body" "rq_Method rq = ''ContainerDelete''"
      "rq_Params rq = Some [NameParam n]" "rp_Do (vc_Transport c) body (ow_World (h_engine h)) = (resp, w')"
      "ow_World (h_engine h') = w'"
    and run: "rpc_call (vc_Transport c) ''ContainerDelete'' (Some [NameParam n]) None () h =
       (case rpc_outcome (vc_Transport c) ''ContainerDelete'' (rq_ID rq) resp of Inl e \<Rightarrow> Inl e | Inr y \<Rightarrow> Inr (), h')"
    using rpc_run [of "''ContainerDelete''" "Some [NameParam n]" h "()"] by blast
  from deletes [OF b(1-4)] b(5) run show "case vm_DeleteVM c name h of
      (Inl e, h') \<Rightarrow> machine_names (h_engine h') = machine_names (h_engine h)
    | (Inr u, h') \<Rightarrow> machine_names (h_engine h') = machine_names (h_engine h) - {TrimSpace name}"
    by (auto simp: vm_DeleteVM_def orb_Delete_def name_call_def Let_def n_def call_defs split: sum.splits)
qed

end

sublocale control_socket \<subseteq> client: machines "vm_machine_client c" machine_names
proof (unfold_locales, goal_cases)
  case 1 show ?case by (simp add: vm_machine_client_def clone_keeps)
next
  case 2 show ?case by (simp add: vm_machine_client_def delete_keeps)
next
  case 3 show ?case
    unfolding vm_machine_client_def machine_client.simps vm_StartVM_def orb_Start_def name_call_def Let_def by (intro pop.call_in rpc_keeps; simp)
next
  case 4 show ?case
    unfolding vm_machine_client_def machine_client.simps vm_StopVM_def orb_Stop_def name_call_def Let_def by (intro pop.call_in rpc_keeps; simp)
next
  case 5 show ?case by (simp add: vm_machine_client_def get_info_keeps)
next
  case 6 show ?case
    unfolding vm_machine_client_def machine_client.simps vm_ListVMs_def ListMachines_def by (intro pop.call_in list_keeps)
next
  case 7 show ?case
    unfolding vm_machine_client_def machine_client.simps vm_AddMachineMount_def orb_AddMount_def Let_def by (intro pop.call_in call_keeps)
next
  case (8 name opt val)
  have "within (same_alive machine_names) (orb_SetIsolated (vc_Transport c) m b)" for m b
    unfolding orb_SetIsolated_def by (intro pop.call_in call_keeps)
  then show ?case
    by (auto simp: vm_machine_client_def vm_SetMachineOption_def Let_def split: option.split intro!: pop.call_in)
next
  case 9 show ?case unfolding vm_machine_client_def machine_client.simps vm_MkdirAll_def Let_def by (intro pop.call_in call_keeps)
next
  case 10 show ?case unfolding vm_machine_client_def machine_client.simps vm_ReadFile_def Let_def by (intro pop.call_in call_keeps)
next
  case 11 show ?case unfolding vm_machine_client_def machine_client.simps vm_WriteFile_def Let_def by (intro pop.call_in call_keeps)
next
  case 12 show ?case unfolding vm_machine_client_def machine_client.simps vm_Symlink_def Let_def by (intro pop.call_in call_keeps)
next
  case 13 show ?case by (simp add: vm_machine_client_def vm_RunShell_def) (rule shell_keeps)
qed

text \<open>So creating a sandbox adds its machine or leaves the set of machines as it was.\<close>

context control_socket
begin

lemma create_adds:
  assumes "or_vmClient r = vm_machine_client c"
    and "\<And>h. \<exists>h'. vm_DeleteVM c (sandboxMachineName (or_cfg r) (cr_SandboxID req)) h = (Inr (), h')"
    and "xattrs_keep r machine_names" and "\<And>ctx u. within (same_alive machine_names) (or_checkHealthy r ctx u)"
  shows "adds_machine machine_names (TrimSpace (sandboxMachineName (or_cfg r) (cr_SandboxID req))) (orb_CreateSandbox ctx r req)"
  by (rule client.create_adds [OF assms(1) _ assms(3,4)]) (simp add: vm_machine_client_def assms(2))

end

end
