(* ===== verification/OrbDemo.thy ===== *)
theory OrbDemo
  imports OrbSandboxProofs DockerDemo
begin

text \<open>
  A concrete OrbStack for the properties to be applied to: a control socket that keeps a list of
  machines, and an SSH library whose commands succeed. The client on it keeps the contract of the
  machine client.
\<close>

section \<open>The control socket\<close>

record demo_machines =
  dm_Machines :: "(string \<times> string) list"

definition machine_named :: "string \<times> string \<Rightarrow> container_info" where
  "machine_named m =
     \<lparr>co_Record = \<lparr>ct_ID = fst m, ct_Name = fst m, ct_Image = \<lparr>ci_Distro = [], ci_Version = [], ci_Arch = [], ci_Variant = []\<rparr>,
        ct_Config = \<lparr>cc_Isolated = False, cc_ForwardSSHAgent = False, cc_IsolateNetwork = False, cc_DefaultUsername = [],
          cc_HTTPPort = 0, cc_HTTPSPort = 0, cc_Mounts = []\<rparr>, ct_Builtin = False, ct_State = snd m\<rparr>,
      co_DiskSize = None, co_IP4 = ''10.0.0.2'', co_IP6 = []\<rparr>"

primrec demo_param :: "rpc_param \<Rightarrow> string" where
  "demo_param (NameParam n) = n"
| "demo_param (ConfigParam cfg) = []"

definition demo_name :: "rpc_request \<Rightarrow> nat \<Rightarrow> string" where
  "demo_name rq i = (case rq_Params rq of None \<Rightarrow> [] | Some ps \<Rightarrow> (if i < length ps then demo_param (ps ! i) else []))"

definition demo_request_body :: "rpc_request \<Rightarrow> string" where
  "demo_request_body rq =
     enc_string (digits_base 10 (unat (rq_ID rq))) @ enc_string (rq_Method rq) @
     enc_string (demo_name rq 0) @ enc_string (demo_name rq 1)"

definition demo_call :: "string \<Rightarrow> string \<Rightarrow> string \<Rightarrow> demo_machines \<Rightarrow> string \<times> string \<times> demo_machines" where
  "demo_call m a b w =
     (let ms = dm_Machines w; unknown = (''no machine'', [], w)
      in if m = ''ListContainers'' then ([], enc_strings (concat (map (\<lambda>(n, s). [n, s]) ms)), w)
         else if m = ''ContainerClone'' then
           (if b \<in> fst ` set ms then (''name in use'', [], w)
            else if a \<notin> fst ` set ms then unknown else ([], [], w\<lparr>dm_Machines := ms @ [(b, ''stopped'')]\<rparr>))
         else if a \<notin> fst ` set ms then unknown
         else if m = ''ContainerDelete'' then ([], [], w\<lparr>dm_Machines := filter (\<lambda>x. fst x \<noteq> a) ms\<rparr>)
         else if m = ''ContainerStart'' then ([], [], w\<lparr>dm_Machines := map (\<lambda>x. (fst x, if fst x = a then ''running'' else snd x)) ms\<rparr>)
         else if m = ''ContainerStop'' then ([], [], w\<lparr>dm_Machines := map (\<lambda>x. (fst x, if fst x = a then ''stopped'' else snd x)) ms\<rparr>)
         else ([], [], w))"

definition demo_Do :: "string \<Rightarrow> demo_machines \<Rightarrow> (go_error + int \<times> string \<times> go_error option) \<times> demo_machines" where
  "demo_Do body w =
     (case dec_string body of (i, s) \<Rightarrow> case dec_string s of (m, s) \<Rightarrow> case dec_string s of (a, s) \<Rightarrow>
      case dec_string s of (b, s) \<Rightarrow> case demo_call m a b w of (err, result, w') \<Rightarrow>
        (Inr (200, enc_string i @ enc_string err @ result, None), w'))"

definition demo_response :: "string \<Rightarrow> go_error + rpc_response" where
  "demo_response body =
     (case dec_string body of (i, s) \<Rightarrow> case dec_string s of (err, result) \<Rightarrow>
        Inr \<lparr>rs_JSONRPC = ''2.0'', rs_ID = word_of_int (case parse_digits 10 0 i of None \<Rightarrow> 0 | Some n \<Rightarrow> n), rs_Result = result,
             rs_Error = (if err = [] then None else Some \<lparr>re_Code = 1, re_Message = err, re_Data = []\<rparr>)\<rparr>)"

definition demo_transport :: "demo_machines rpc_transport" where
  "demo_transport =
     \<lparr>rp_Encode = (\<lambda>rq. Inr (demo_request_body rq)), rp_Do = demo_Do, rp_Decode = demo_response,
      rp_DecodeList = (\<lambda>s. Inr (map machine_named (pairs_of (dec_strings (length s) s)))), rp_Elapsed = (\<lambda>w. 0)\<rparr>"

definition demo_ssh :: "demo_machines ssh_library" where
  "demo_ssh =
     \<lparr>sh_ParsePrivateKey = (\<lambda>s. Inr s), sh_Dial = (\<lambda>p w. (Inr 1, w)), sh_NewClientConn = (\<lambda>k u key w. (Inr 2, w)),
      sh_NewSession = (\<lambda>k w. (Inr 3, w)), sh_Start = (\<lambda>k i cmd w. (Inr (), w)),
      sh_Wait = (\<lambda>k w. (Inr (Exited None [] []), w)), sh_Close = (\<lambda>k w. (Inr (), w))\<rparr>"

definition demo_orb_client :: "demo_machines vm_client" where
  "demo_orb_client = NewVMClient demo_transport demo_ssh
     \<lparr>en_Getenv = (\<lambda>n. if n = ''HOME'' then ''/home/u'' else []), en_UserHomeDir = Inr ''/home/u'', en_TempDir = ''/tmp'', en_Getwd = Inr ''/'', en_Executable = Inr ''/bin/gateway''\<rparr>"

definition demo_live :: "demo_machines \<Rightarrow> string set" where
  "demo_live w = fst ` set (dm_Machines w)"

section \<open>It keeps the contract\<close>

text \<open>The answer to a call that lists nothing fits into the limit.\<close>

lemma digits_short: "0 < k \<Longrightarrow> n < 10 ^ k \<Longrightarrow> length (nat_digits n) \<le> k"
proof (induction n arbitrary: k rule: nat_digits.induct)
  case (1 n)
  show ?case
  proof (cases "n < 10")
    case False
    with 1 have "1 < k" by (cases "k = 1") auto
    then obtain j where k: "k = Suc j" "0 < j" by (cases k) auto
    with 1 False have "length (nat_digits (n div 10)) \<le> j" by (intro "1.IH") auto
    with k False show ?thesis by (subst nat_digits.simps) simp
  qed (use 1 in \<open>simp add: nat_digits.simps [of n]\<close>)
qed

lemma length_enc_string: "length (enc_string s) = 2 * length s + 1"
  by (induction s) simp_all

lemma demo_outcome:
  assumes b: "rp_Encode demo_transport rq = Inr body" and d: "rp_Do demo_transport body w = (resp, w')"
    and c: "demo_call (rq_Method rq) (demo_name rq 0) (demo_name rq 1) w = (err, [], w2)" and short: "length err \<le> 100"
  shows "w' = w2"
    and "rpc_outcome demo_transport m (rq_ID rq) resp =
      (if err = [] then Inr [] else Inl (ErrorString (rpc_error_text \<lparr>re_Code = 1, re_Message = err, re_Data = []\<rparr>)))"
proof -
  define i where "i = nat_digits (unat (rq_ID rq))"
  have "unat (rq_ID rq) < 10 ^ 20" using unsigned_less [of "rq_ID rq", where 'a = nat] by simp
  then have len: "length i \<le> 20" by (simp add: i_def digits_short)
  have a: "parse_digits 10 0 i = Some (int (unat (rq_ID rq)))"
    using parse_digits_print [of 10 "unat (rq_ID rq)"] by (simp add: i_def digits_base_10)
  have dec: "dec_string (enc_string s) = (s, [])" for s using dec_enc_string [of s "[]"] by simp
  have body: "body = enc_string i @ enc_string (rq_Method rq) @ enc_string (demo_name rq 0) @ enc_string (demo_name rq 1)"
    using b by (simp add: demo_transport_def demo_request_body_def i_def digits_base_10)
  have do: "w' = w2" "resp = Inr (200, enc_string i @ enc_string err, None)"
    using d c by (simp_all add: body demo_transport_def demo_Do_def dec)
  then show "w' = w2" by simp
  have "length (enc_string i @ enc_string err) \<le> 1000" using len short by (simp add: length_enc_string)
  then have fits: "\<not> maxResponseBytes \<le> length (enc_string i @ enc_string err)" by (simp add: maxResponseBytes_def)
  have "read_limited maxResponseBytes (enc_string i @ enc_string err, None) = Inr (enc_string i @ enc_string err)"
    using fits by (simp only: read_limited_def prod.case if_False option.case)
  then show "rpc_outcome demo_transport m (rq_ID rq) resp =
      (if err = [] then Inr [] else Inl (ErrorString (rpc_error_text \<lparr>re_Code = 1, re_Message = err, re_Data = []\<rparr>)))"
    using do a by (simp add: rpc_outcome_def check_response_def demo_transport_def demo_response_def dec)
qed

lemma demo_names: "rq_Params rq = Some [NameParam s, NameParam d] \<Longrightarrow> demo_name rq 0 = s \<and> demo_name rq 1 = d"
  "rq_Params rq = Some [NameParam s] \<Longrightarrow> demo_name rq 0 = s"
  by (simp_all add: demo_name_def)

lemma demo_clone:
  obtains err w2 where "demo_call ''ContainerClone'' s d w = (err, [], w2)" and "length err \<le> 100"
    and "if err = [] then d \<notin> demo_live w \<and> demo_live w2 = insert d (demo_live w) else w2 = w"
proof (cases "d \<in> demo_live w \<or> s \<notin> demo_live w")
  case True
  then show ?thesis
    by (intro that [of "if d \<in> demo_live w then ''name in use'' else ''no machine''" w])
      (auto simp: demo_call_def demo_live_def Let_def)
next
  case False
  then show ?thesis
    by (intro that [of "[]" "w\<lparr>dm_Machines := dm_Machines w @ [(d, ''stopped'')]\<rparr>"])
      (auto simp: demo_call_def demo_live_def Let_def)
qed

lemma demo_delete:
  obtains err w2 where "demo_call ''ContainerDelete'' n b w = (err, [], w2)" and "length err \<le> 100"
    and "if err = [] then demo_live w2 = demo_live w - {n} else w2 = w \<and> n \<notin> demo_live w"
proof (cases "n \<in> demo_live w")
  case True
  then show ?thesis
    by (intro that [of "[]" "w\<lparr>dm_Machines := filter (\<lambda>x. fst x \<noteq> n) (dm_Machines w)\<rparr>"])
      (auto simp: demo_call_def demo_live_def Let_def)
next
  case False
  then show ?thesis
    by (intro that [of "''no machine''" w]) (auto simp: demo_call_def demo_live_def Let_def)
qed

interpretation demo_control: control_socket demo_orb_client demo_live
proof (unfold_locales, goal_cases)
  case (1 rq)
  show ?case by (simp add: demo_orb_client_def NewVMClient_def demo_transport_def)
next
  case (2 rq body s d w resp w')
  have tr: "vc_Transport demo_orb_client = demo_transport" by (simp add: demo_orb_client_def NewVMClient_def)
  from demo_clone obtain err w2 where c: "demo_call ''ContainerClone'' s d w = (err, [], w2)" "length err \<le> 100"
    "if err = [] then d \<notin> demo_live w \<and> demo_live w2 = insert d (demo_live w) else w2 = w" .
  from c(1) demo_names(1) [OF 2(3)] have "demo_call (rq_Method rq) (demo_name rq 0) (demo_name rq 1) w = (err, [], w2)"
    by (simp add: 2(2))
  from demo_outcome [OF 2(1,4) [unfolded tr] this c(2)] c(3) show ?case by (auto simp: tr split: if_splits)
next
  case (3 rq body n w resp w')
  have tr: "vc_Transport demo_orb_client = demo_transport" by (simp add: demo_orb_client_def NewVMClient_def)
  from demo_delete obtain err w2 where c: "demo_call ''ContainerDelete'' n (demo_name rq 1) w = (err, [], w2)" "length err \<le> 100"
    "if err = [] then demo_live w2 = demo_live w - {n} else w2 = w \<and> n \<notin> demo_live w" .
  from c(1) demo_names(2) [OF 3(3)] have "demo_call (rq_Method rq) (demo_name rq 0) (demo_name rq 1) w = (err, [], w2)"
    by (simp add: 3(2))
  from demo_outcome [OF 3(1,4) [unfolded tr] this c(2)] c(3) show ?case by (auto simp: tr split: if_splits)
next
  case (4 rq body w)
  have "fst ` set (map (\<lambda>x. (fst x, f x)) ms) = fst ` set ms" for f :: "_ \<Rightarrow> string" and ms :: "(string \<times> string) list"
    by (simp add: image_image)
  then have "demo_live (snd (snd (demo_call m a b w))) = demo_live w" if "m \<notin> {''ContainerClone'', ''ContainerDelete''}" for m a b
    using that by (simp add: demo_call_def demo_live_def Let_def del: set_map)
  with 4 show ?case
    by (auto simp: demo_orb_client_def NewVMClient_def demo_transport_def demo_Do_def demo_request_body_def
      split: prod.split) (metis snd_conv)+
qed (simp_all add: demo_orb_client_def NewVMClient_def demo_ssh_def)

end
