(* ===== verification/OrbScripts.thy ===== *)
theory OrbScripts
  imports OrbRuntime
begin

text \<open>
  What the texts the OrbStack backend writes mean to those who read them: a reference for the words a
  POSIX shell takes from a script, and one for the values systemd takes from a unit file. The
  commands have exactly the words intended, whatever the paths are; the values of the unit file come
  back when they have no backslash and no percent sign, and are broken by a backslash.
\<close>

section \<open>Words of a shell script\<close>

datatype sh_mode = Plain | InSingle | InDouble | InParam string

datatype sh_token = Word string | Newline

definition the_word :: "string option \<Rightarrow> string" where
  "the_word w = (case w of None \<Rightarrow> [] | Some x \<Rightarrow> x)"

definition word_end :: "string option \<Rightarrow> sh_token list" where
  "word_end w = (case w of None \<Rightarrow> [] | Some x \<Rightarrow> [Word x])"

text \<open>
  The characters the shell gives a meaning to outside of quotes, or may give one. A script that uses
  one of them there is outside of this reference (\<open>None\<close>).
\<close>

definition sh_special :: string where
  "sh_special = ''|&;<>()$*?[]#~=%!{}^`'' @ [CHR 0x5C, CHR 0x0D]"

definition name_char :: "char \<Rightarrow> bool" where
  "name_char c \<longleftrightarrow> image_char c \<or> c = CHR ''_''"

text \<open>
  Single quotes keep every character; double quotes keep all but the dollar, which begins the name of
  a parameter here, the backquote and the backslash. The value of a parameter in double quotes is
  not split. \<open>env\<close> gives the values.
\<close>

fun sh_scan :: "(string \<Rightarrow> string) \<Rightarrow> sh_mode \<Rightarrow> string option \<Rightarrow> string \<Rightarrow> sh_token list option" where
  "sh_scan env m w [] = (if m = Plain then Some (word_end w) else None)"
| "sh_scan env Plain w (c # s) =
     (if c = CHR '' '' \<or> c = CHR 0x09 then map_option (\<lambda>ts. word_end w @ ts) (sh_scan env Plain None s)
      else if c = CHR 0x0A then map_option (\<lambda>ts. word_end w @ Newline # ts) (sh_scan env Plain None s)
      else if c = CHR 0x27 then sh_scan env InSingle (Some (the_word w)) s
      else if c = CHR 0x22 then sh_scan env InDouble (Some (the_word w)) s
      else if c \<in> set sh_special then None
      else sh_scan env Plain (Some (the_word w @ [c])) s)"
| "sh_scan env InSingle w (c # s) =
     (if c = CHR 0x27 then sh_scan env Plain w s else sh_scan env InSingle (Some (the_word w @ [c])) s)"
| "sh_scan env InDouble w (c # s) =
     (if c = CHR 0x22 then sh_scan env Plain w s
      else if c = CHR ''$'' then sh_scan env (InParam []) w s
      else if c = CHR ''`'' \<or> c = CHR 0x5C then None
      else sh_scan env InDouble (Some (the_word w @ [c])) s)"
| "sh_scan env (InParam n) w (c # s) =
     (if name_char c then sh_scan env (InParam (n @ [c])) w s
      else if n = [] then None
      else if c = CHR 0x22 then sh_scan env Plain (Some (the_word w @ env n)) s
      else if c = CHR ''$'' then sh_scan env (InParam []) (Some (the_word w @ env n)) s
      else if c = CHR ''`'' \<or> c = CHR 0x5C then None
      else sh_scan env InDouble (Some (the_word w @ env n @ [c])) s)"

text \<open>The simple commands of a script: the words of every line.\<close>

fun sh_lines :: "string list \<Rightarrow> sh_token list \<Rightarrow> string list list" where
  "sh_lines ws [] = (if ws = [] then [] else [ws])"
| "sh_lines ws (Word x # ts) = sh_lines (ws @ [x]) ts"
| "sh_lines ws (Newline # ts) = (if ws = [] then sh_lines [] ts else ws # sh_lines [] ts)"

definition sh_commands :: "(string \<Rightarrow> string) \<Rightarrow> string \<Rightarrow> string list list option" where
  "sh_commands env script = map_option (sh_lines []) (sh_scan env Plain None script)"

text \<open>A quoted text is read as that text, wherever it stands outside of quotes.\<close>

lemma scan_single:
  "sh_scan env InSingle (Some x)
     (concat (map (\<lambda>c. if c = CHR 0x27 then [CHR 0x27, CHR 0x22, CHR 0x27, CHR 0x22, CHR 0x27] else [c]) v) @ CHR 0x27 # r) =
   sh_scan env Plain (Some (x @ v)) r"
  by (induction v arbitrary: x) (simp_all add: the_word_def)

lemma scan_quoted: "sh_scan env Plain w (shQuote v @ r) = sh_scan env Plain (Some (the_word w @ v)) r"
  by (simp add: shQuote_def scan_single the_word_def)

lemma scan_plain:
  "list_all name_char t \<Longrightarrow> t \<noteq> [] \<Longrightarrow> sh_scan env Plain w (t @ r) = sh_scan env Plain (Some (the_word w @ t)) r"
proof (induction t arbitrary: w)
  case (Cons c t)
  then have "c \<notin> set sh_special" "c \<noteq> CHR '' ''" "c \<noteq> CHR 0x09" "c \<noteq> CHR 0x0A" "c \<noteq> CHR 0x27" "c \<noteq> CHR 0x22"
    by (auto simp: sh_special_def name_char_def image_char_def)
  with Cons show ?case by (cases "t = []") (simp_all add: the_word_def)
qed simp

lemma perm_octal_plain: "list_all name_char (perm_octal m)" "perm_octal m \<noteq> []"
proof -
  define d where "d = digits_base 8 (nat (m AND 511))"
  have "d \<noteq> [] \<and> set d \<subseteq> set ''0123456789''" unfolding d_def by (rule digits_base_digits) simp_all
  moreover have "\<forall>c \<in> set ''0123456789''. name_char c" by code_simp
  ultimately show "list_all name_char (perm_octal m)" "perm_octal m \<noteq> []"
    by (auto simp: perm_octal_def d_def [symmetric] Let_def list_all_iff)
qed

lemmas scan_octal = scan_plain [OF perm_octal_plain]

lemmas scan_simps = sh_commands_def scan_quoted scan_octal the_word_def word_end_def sh_special_def name_char_def image_char_def

lemma mkdir_commands:
  "sh_commands env (mkdir_script p m) =
     Some [[''set'', ''-eu''], [''sudo'', ''mkdir'', ''-p'', ''--'', p], [''sudo'', ''chmod'', perm_octal m, ''--'', p]]"
  by (simp add: mkdir_script_def text_line_def scan_simps)

lemma remove_commands:
  "sh_commands env (remove_script p) = Some [[''set'', ''-eu''], [''sudo'', ''rm'', ''-rf'', ''--'', p]]"
  by (simp add: remove_script_def text_line_def scan_simps)

lemma symlink_commands:
  "sh_commands env (symlink_script old p) =
     Some [[''set'', ''-eu''], [''sudo'', ''mkdir'', ''-p'', ''--'', path_Dir p], [''sudo'', ''rm'', ''-rf'', ''--'', p],
           [''sudo'', ''ln'', ''-s'', ''--'', old, p]]"
  by (simp add: symlink_script_def text_line_def scan_simps)

lemma cat_commands:
  "sh_commands env (cat_script p) = Some [[''sudo'', ''cat'', ''--'', path_Clean (''/'' @ TrimPrefix p ''/'')]]"
  by (simp add: cat_script_def text_line_def scan_simps)

lemma install_commands_words:
  "sh_commands env (install_commands p m) =
     Some [[''sudo'', ''mkdir'', ''-p'', ''--'', path_Dir p],
           [''sudo'', ''install'', ''-m'', perm_octal m, env ''tmp'', p]]"
  by (simp add: install_commands_def text_line_def scan_simps)

lemma shell_command: "sh_commands env (''/bin/sh -lc '' @ shQuote script) = Some [[''/bin/sh'', ''-lc'', script]]"
  using scan_quoted [of env None script "[]"] by (simp add: scan_simps)


text \<open>The paths the scripts name are absolute and clean, so they are never taken for an option.\<close>

lemma cleanVMPath_abs: "cleanVMPath v = Inr p \<Longrightarrow> \<exists>cs. list_all plain_elem cs \<and> p = abs_path cs"
  using path_Clean_abs [of "''/'' @ TrimPrefix (TrimSpace v) ''/''"]
  by (auto simp: cleanVMPath_def Let_def path_IsAbs_def HasPrefix_def split: if_splits)

section \<open>Values of a unit file\<close>

text \<open>
  What follows the opening quote of an item: its value and what is behind the closing quote. Numeric
  escapes are outside of this reference, unknown ones are errors of systemd.
\<close>

definition unit_escape :: "char \<Rightarrow> char option" where
  "unit_escape c = map_of [(CHR ''a'', CHR 0x07), (CHR ''b'', CHR 0x08), (CHR ''f'', CHR 0x0C), (CHR ''n'', CHR 0x0A),
     (CHR ''r'', CHR 0x0D), (CHR ''t'', CHR 0x09), (CHR ''v'', CHR 0x0B), (CHR ''s'', CHR '' ''),
     (CHR 0x5C, CHR 0x5C), (CHR 0x22, CHR 0x22), (CHR 0x27, CHR 0x27)] c"

fun unit_unquote :: "string \<Rightarrow> (string \<times> string) option" where
  "unit_unquote [] = None"
| "unit_unquote [c] = (if c = CHR 0x22 then Some ([], []) else None)"
| "unit_unquote (c # d # s) =
     (if c = CHR 0x22 then Some ([], d # s)
      else if c = CHR 0x0A then None
      else if c = CHR 0x5C then
        (case unit_escape d of None \<Rightarrow> None | Some e \<Rightarrow> map_option (\<lambda>(v, r). (e # v, r)) (unit_unquote s))
      else map_option (\<lambda>(v, r). (c # v, r)) (unit_unquote (d # s)))"

text \<open>A percent sign begins a specifier; two stand for one. The others depend on the unit.\<close>

fun unit_specifiers :: "string \<Rightarrow> string option" where
  "unit_specifiers [] = Some []"
| "unit_specifiers (c # s) =
     (if c = CHR ''%'' then
        (if take 1 s = ''%'' then map_option (Cons c) (unit_specifiers (drop 1 s)) else None)
      else map_option (Cons c) (unit_specifiers s))"

definition unit_environment :: "string \<Rightarrow> string option" where
  "unit_environment line =
     (if HasPrefix line (''Environment='' @ [CHR 0x22]) then
        (case unit_unquote (drop 13 line) of
           None \<Rightarrow> None
         | Some (v, r) \<Rightarrow> (if r = [CHR 0x0A] then unit_specifiers v else None))
      else None)"

lemma unquote_step:
  assumes "c \<noteq> CHR 0x22" and "c \<noteq> CHR 0x0A" and "c \<noteq> CHR 0x5C"
  shows "unit_unquote (c # s) = map_option (\<lambda>(v, r). (c # v, r)) (unit_unquote s)"
  using assms by (cases s) simp_all

lemma unquote_quoted:
  "CHR 0x5C \<notin> set v \<Longrightarrow> unit_unquote (systemdQuote v @ r) = map_option (\<lambda>(w, r'). (v @ w, r')) (unit_unquote r)"
proof (induction v)
  case Nil
  then show ?case by (cases "unit_unquote r") auto
next
  case (Cons c v)
  consider (quote) "c = CHR 0x22" | (newline) "c = CHR 0x0A" | (other) "c \<noteq> CHR 0x22" "c \<noteq> CHR 0x0A" "c \<noteq> CHR 0x5C"
    using Cons.prems by auto
  then show ?case
  proof cases
    case other
    with Cons show ?thesis
      by (simp add: unquote_step option.map_comp comp_def case_prod_unfold)
  qed (use Cons in \<open>simp_all add: unit_escape_def option.map_comp comp_def case_prod_unfold\<close>)
qed

lemma specifiers_none: "CHR ''%'' \<notin> set v \<Longrightarrow> unit_specifiers v = Some v"
  by (induction v) auto

lemma environment_value:
  assumes "CHR 0x5C \<notin> set key \<union> set (map_read env key)" and "CHR ''%'' \<notin> set key \<union> set (map_read env key)"
  shows "unit_environment (env_line env key) = Some (key @ ''='' @ map_read env key)"
proof -
  define v where "v = map_read env key"
  have "unit_unquote (CHR 0x22 # s) = Some ([], s)" for s by (cases s) simp_all
  moreover have "unit_unquote (CHR ''='' # s) = map_option (\<lambda>(v, r). (CHR ''='' # v, r)) (unit_unquote s)" for s
    by (rule unquote_step) simp_all
  ultimately have "unit_unquote (systemdQuote key @ CHR ''='' # systemdQuote v @ [CHR 0x22, CHR 0x0A]) = Some (key @ ''='' @ v, [CHR 0x0A])"
    using assms(1) by (simp add: unquote_quoted v_def)
  then show ?thesis
    using assms(2) by (simp add: unit_environment_def env_line_def text_line_def HasPrefix_def specifiers_none v_def)
qed

text \<open>
  One backslash changes a value: it is not escaped, as the replacement looks for two. So
  \<open>C:\temp\<close> loses its backslash to a tab, and a backslash before a quote ends the value.
\<close>

lemma backslash_is_not_escaped:
  "unit_environment (env_line [(''P'', ''C:'' @ [CHR 0x5C] @ ''temp'')] ''P'') = Some (''P=C:'' @ [CHR 0x09] @ ''emp'')"
  by code_simp

lemma backslash_ends_the_value:
  "unit_unquote (systemdQuote ([CHR 0x5C, CHR 0x22] @ '' X=1'') @ [CHR 0x22]) = Some ([CHR 0x5C], '' X=1'' @ [CHR 0x22])"
  by code_simp

text \<open>A key with white space around it is looked up without it and has no value.\<close>

lemma untrimmed_key_loses_its_value:
  "renderEnvdService cfg [] [('' K'', ''v'')] = renderEnvdService cfg [] [(''K'', [])]"
proof -
  have "TrimSpace '' K'' = ''K''" "TrimSpace ''K'' = ''K''" by code_simp+
  then show ?thesis by (simp add: renderEnvdService_def map_read_def env_line_def)
qed

end
