(* ===== verification/OrbVolumeProofs.thy ===== *)
theory OrbVolumeProofs
  imports OrbVolumes VolumeSafety
begin

text \<open>
  The loops that look for a free directory name end, and what they give: a plain name directly below
  the volume directory that had no entry.
\<close>

section \<open>Names\<close>

lemma trimmed_ends: "strip_word space_words (TrimSpace s) = None" "strip_word (map rev space_words) (rev (TrimSpace s)) = None"
proof -
  obtain ys where ys: "trim_left space_words s = TrimSpace s @ ys" using TrimSpace_prefix by blast
  show "strip_word space_words (TrimSpace s) = None"
    by (rule strip_word_prefix [OF _ strip_trim_left [of space_words s]]) (simp add: ys)
  show "strip_word (map rev space_words) (rev (TrimSpace s)) = None"
    by (simp add: TrimSpace_def strip_trim_left)
qed

lemma strip_word_append:
  assumes "strip_word ws s = None" and "\<forall>w \<in> set ws. c \<notin> set w"
  shows "strip_word ws (s @ c # t) = None"
  using assms
proof (induction ws)
  case (Cons w ws)
  have "\<not> (w \<noteq> [] \<and> take (length w) (s @ c # t) = w)"
  proof
    assume a: "w \<noteq> [] \<and> take (length w) (s @ c # t) = w"
    show False
    proof (cases "length w \<le> length s")
      case True
      with a have "take (length w) s = w" by simp
      with a Cons.prems(1) show False by (simp split: if_splits)
    next
      case False
      then have "c \<in> set (take (length w) (s @ c # t))" by (cases "length w - length s") auto
      with a Cons.prems(2) show False by simp
    qed
  qed
  with Cons show ?case by (simp split: if_splits)
qed simp

lemma base_name_trimmed: "TrimSpace (volumeHostDirBaseName n) = volumeHostDirBaseName n"
proof -
  have "TrimSpace ''volume'' = ''volume''" by code_simp
  then show ?thesis by (simp add: volumeHostDirBaseName_def Let_def)
qed

lemma base_name_plain: "plain_elem (volumeHostDirBaseName n)"
proof -
  define s where "s = map (\<lambda>c. if c = CHR ''/'' then CHR ''-'' else c) (filter (\<lambda>c. c \<noteq> CHR 0x00) (TrimSpace n))"
  have "CHR ''/'' \<notin> set s" by (auto simp: s_def)
  then have "CHR ''/'' \<notin> set (TrimSpace s)" using set_TrimSpace by blast
  moreover have "plain_elem ''volume''" by (simp add: plain_elem_def)
  ultimately show ?thesis
    by (auto simp: volumeHostDirBaseName_def Let_def s_def [symmetric] plain_elem_def dot_def dotdot_def)
qed

lemma nat_digits_last: "\<exists>xs d. nat_digits k = xs @ [char_of (48 + d)] \<and> d < (10 :: nat)"
proof (cases "k < 10")
  case True
  then show ?thesis by (subst nat_digits.simps) (auto intro: exI [of _ k])
next
  case False
  then show ?thesis by (subst nat_digits.simps) (auto intro: exI [of _ "k mod 10"])
qed

lemma nat_digits_inj: "nat_digits m = nat_digits n \<Longrightarrow> m = n"
  using parse_digits_print [of 10 m] parse_digits_print [of 10 n] by (simp add: digits_base_10)

lemma TrimSpace_digits_end: "TrimSpace (TrimSpace s @ ''-'' @ nat_digits k) = TrimSpace s @ ''-'' @ nat_digits k"
proof (rule TrimSpace_id)
  have "\<forall>w \<in> set space_words. CHR ''-'' \<notin> set w" by code_simp
  then have "strip_word space_words (TrimSpace s @ CHR ''-'' # nat_digits k) = None"
    by (rule strip_word_append [OF trimmed_ends(1)])
  then show "strip_word space_words (TrimSpace s @ ''-'' @ nat_digits k) = None"
    by (simp only: append_Cons append_Nil)
  obtain xs d where x: "nat_digits k = xs @ [char_of (48 + d)]" "d < (10 :: nat)" using nat_digits_last by blast
  have "\<forall>d \<in> {0..<10 :: nat}. char_of (48 + d) \<in> set ''0123456789''" by code_simp
  then have "char_of (48 + d) \<in> set ''0123456789''" by (rule bspec) (use x(2) in simp)
  moreover have "\<forall>c \<in> set ''0123456789''. \<forall>w \<in> set (map rev space_words). c \<notin> set w" by (simp add: space_words_def)
  ultimately have "\<forall>w \<in> set (map rev space_words). char_of (48 + d) \<notin> set w" by (rule bspec [rotated])
  moreover have "strip_word (map rev space_words) [] = None" by (simp add: space_words_def)
  ultimately have "strip_word (map rev space_words) ([] @ char_of (48 + d) # (rev xs @ rev (TrimSpace s @ ''-''))) = None"
    by (intro strip_word_append)
  then show "strip_word (map rev space_words) (rev (TrimSpace s @ ''-'' @ nat_digits k)) = None"
    by (simp only: x(1) rev_append rev.simps append_Nil append_Cons append_assoc)
qed

lemma indexed_trimmed: "TrimSpace b = b \<Longrightarrow> TrimSpace (indexed_name b i) = indexed_name b i"
  using TrimSpace_digits_end [of b i] by (simp add: indexed_name_def)

lemma indexed_plain: "plain_elem b \<Longrightarrow> plain_elem (indexed_name b i)"
proof -
  assume b: "plain_elem b"
  have "plain_elem (b @ ''-'' @ ds)" if "CHR ''/'' \<notin> set ds" for ds
  proof -
    have "CHR ''-'' \<in> set (b @ ''-'' @ ds)" by simp
    then have "b @ ''-'' @ ds \<noteq> ''.''" "b @ ''-'' @ ds \<noteq> ''..''" by (auto dest: arg_cong [of _ _ set])
    with b that show ?thesis by (simp add: plain_elem_def)
  qed
  moreover have "CHR ''/'' \<notin> set (nat_digits i)" using nat_digits_chars [of i] by auto
  ultimately show ?thesis using b by (simp add: indexed_name_def)
qed

lemma indexed_inj: "1 \<le> i \<Longrightarrow> 1 \<le> j \<Longrightarrow> indexed_name b i = indexed_name b j \<Longrightarrow> i = j"
  by (auto simp: indexed_name_def dest: nat_digits_inj split: if_splits)

section \<open>The loops\<close>

definition orb_volumes_at :: "string list \<Rightarrow> orb_config \<Rightarrow> bool" where
  "orb_volumes_at d cfg \<longleftrightarrow> list_all plain_elem d \<and> TrimSpace (oc_VolumeHostPath cfg) = abs_path d"

lemma base_dir: "orb_volumes_at d cfg \<Longrightarrow> plain_elem c \<Longrightarrow> TrimSpace c = c \<Longrightarrow> volumeBaseDir cfg c = abs_path (d @ [c])"
  using path_Join_abs [of d "[c]"] by (simp add: orb_volumes_at_def volumeBaseDir_def)

lemma sentinel_eqs: "EIO \<noteq> EEXIST" "EIO \<noteq> ENOTEMPTY" "\<not> os_IsExist EIO" "\<not> os_IsNotExist EIO"
  by (simp_all add: errnos)

lemma mkdir_exists:
  assumes "real_dir (h_fs h) d" and "plain_elem c" and "os_Mkdir (abs_path (d @ [c])) mode h = (Inl e, h1)" and "os_IsExist e"
  shows "node_at (h_fs h) (d @ [c]) \<noteq> None \<and> h_fs h1 = h_fs h"
  using assms(3,4) sentinel_eqs
  by (auto simp: os_Mkdir_def syscall_def at_path_def host_path_child [OF assms(1,2)]
      split: list.splits option.splits)

lemma mkdir_new:
  assumes "real_dir (h_fs h) d" and "plain_elem c" and "os_Mkdir (abs_path (d @ [c])) mode h = (Inr u, h1)"
  shows "node_at (h_fs h) (d @ [c]) = None \<and> node_at (h_fs h1) (d @ [c]) = Some Dir \<and>
    (\<forall>p. p \<noteq> d @ [c] \<longrightarrow> fs_get (h_fs h1) p = fs_get (h_fs h) p)"
  using assms(3)
  by (auto simp: os_Mkdir_def syscall_def at_path_def host_path_child [OF assms(1,2)] node_at_def new_inode_def
      split: list.splits option.splits)

lemma stat_exists:
  assumes "real_dir (h_fs h) d" and "plain_elem c" and "os_Stat (abs_path (d @ [c])) h = (Inr i, h1)"
  shows "node_at (h_fs h) (d @ [c]) \<noteq> None \<and> h_fs h1 = h_fs h"
proof -
  have "node_at (h_fs h) (d @ [c]) \<noteq> None"
  proof
    assume n: "node_at (h_fs h) (d @ [c]) = None"
    then have "host_path (h_fs h) True (abs_path (d @ [c])) = Inr (d @ [c])"
      using assms(1,2) by (simp add: host_path_real plain_elem_def)
    with n assms(3) show False
      by (auto simp: os_Stat_def do_stat_def syscall_def at_path_def get_inode_def node_at_def split: list.splits option.splits)
  qed
  moreover have "h_fs h1 = h_fs h" using assms(3)
    by (auto simp: os_Stat_def do_stat_def syscall_def at_path_def get_inode_def split: list.splits option.splits sum.splits)
  ultimately show ?thesis by simp
qed

lemma call_faults:
  "real_dir (h_fs h) d \<Longrightarrow> h_fs h1 = h_fs h \<Longrightarrow> real_dir (h_fs h1) d"
  by simp

lemma base_dir_indexed:
  assumes "orb_volumes_at d cfg" and "plain_elem b" and "TrimSpace b = b"
  shows "volumeBaseDir cfg (indexed_name b i) = abs_path (d @ [indexed_name b i])"
  using assms by (intro base_dir indexed_plain indexed_trimmed)

text \<open>A loop runs out of fuel only when every name it tried has an entry.\<close>

lemma create_loop_tried:
  assumes at: "orb_volumes_at d cfg" and b: "plain_elem b" "TrimSpace b = b" and "real_dir (h_fs h) d"
    and "fst (create_dir_loop fuel cfg b i h) = Inl loop_bound"
  shows "\<forall>j. i \<le> j \<and> j < i + fuel \<longrightarrow> node_at (h_fs h) (d @ [indexed_name b j]) \<noteq> None"
  using assms(4,5)
proof (induction fuel arbitrary: i h)
  case (Suc fuel)
  define c where "c = indexed_name b i"
  have c: "plain_elem c" "volumeBaseDir cfg c = abs_path (d @ [c])"
    using base_dir_indexed [OF at b] indexed_plain [OF b(1)] by (simp_all add: c_def)
  obtain r h1 where r: "os_Mkdir (abs_path (d @ [c])) 511 h = (r, h1)" by (cases "os_Mkdir (abs_path (d @ [c])) 511 h")
  have "\<exists>e. r = Inl e \<and> os_IsExist e \<and> fst (create_dir_loop fuel cfg b (i + 1) h1) = Inl loop_bound"
  proof (cases r)
    case (Inl e)
    with Suc.prems(2) r c show ?thesis
      by (auto simp: c_def [symmetric] Let_def caseE_err wrap_def loop_bound_def split: if_splits)
  next
    case (Inr u)
    with r c have "fst (create_dir_loop (Suc fuel) cfg b i h) \<noteq> Inl loop_bound"
      by (auto simp: c_def [symmetric] Let_def caseE_ok call_defs loop_bound_def wrap_def split: sum.splits prod.splits)
    with Suc.prems(2) show ?thesis by simp
  qed
  then obtain e where e: "r = Inl e" "os_IsExist e" "fst (create_dir_loop fuel cfg b (i + 1) h1) = Inl loop_bound" by blast
  with mkdir_exists [OF Suc.prems(1) c(1)] r have x: "node_at (h_fs h) (d @ [c]) \<noteq> None" "h_fs h1 = h_fs h" by auto
  from Suc.IH [of h1 "i + 1"] Suc.prems(1) e x have y: "\<forall>j. i + 1 \<le> j \<and> j < i + 1 + fuel \<longrightarrow> node_at (h_fs h) (d @ [indexed_name b j]) \<noteq> None"
    by simp
  show ?case
  proof (intro allI impI)
    fix j assume "i \<le> j \<and> j < i + Suc fuel"
    with x(1) y show "node_at (h_fs h) (d @ [indexed_name b j]) \<noteq> None" by (cases "j = i") (simp_all add: c_def)
  qed
qed auto

lemma next_loop_tried:
  assumes at: "orb_volumes_at d cfg" and b: "plain_elem b" "TrimSpace b = b" and "real_dir (h_fs h) d"
    and "fst (next_dir_loop fuel cfg b i h) = Inl loop_bound"
  shows "\<forall>j. i \<le> j \<and> j < i + fuel \<longrightarrow> node_at (h_fs h) (d @ [indexed_name b j]) \<noteq> None"
  using assms(4,5)
proof (induction fuel arbitrary: i h)
  case (Suc fuel)
  define c where "c = indexed_name b i"
  have c: "plain_elem c" "volumeBaseDir cfg c = abs_path (d @ [c])"
    using base_dir_indexed [OF at b] indexed_plain [OF b(1)] by (simp_all add: c_def)
  obtain r h1 where r: "os_Stat (abs_path (d @ [c])) h = (r, h1)" by (cases "os_Stat (abs_path (d @ [c])) h")
  have "\<exists>x. r = Inr x \<and> fst (next_dir_loop fuel cfg b (i + 1) h1) = Inl loop_bound"
  proof (cases r)
    case (Inl e)
    with Suc.prems(2) r c show ?thesis
      by (auto simp: c_def [symmetric] Let_def caseE_err wrap_def loop_bound_def split: if_splits)
  next
    case (Inr u)
    with Suc.prems(2) r c show ?thesis by (auto simp: c_def [symmetric] Let_def caseE_ok)
  qed
  then obtain u where e: "r = Inr u" "fst (next_dir_loop fuel cfg b (i + 1) h1) = Inl loop_bound" by blast
  with stat_exists [OF Suc.prems(1) c(1)] r have x: "node_at (h_fs h) (d @ [c]) \<noteq> None" "h_fs h1 = h_fs h" by auto
  from Suc.IH [of h1 "i + 1"] Suc.prems(1) e x have y: "\<forall>j. i + 1 \<le> j \<and> j < i + 1 + fuel \<longrightarrow> node_at (h_fs h) (d @ [indexed_name b j]) \<noteq> None"
    by simp
  show ?case
  proof (intro allI impI)
    fix j assume "i \<le> j \<and> j < i + Suc fuel"
    with x(1) y show "node_at (h_fs h) (d @ [indexed_name b j]) \<noteq> None" by (cases "j = i") (simp_all add: c_def)
  qed
qed auto

text \<open>So the fuel is enough: there are fewer entries than names.\<close>

lemma too_many_names:
  assumes "plain_elem b" and "\<forall>j. 1 \<le> j \<and> j < 1 + Suc (length m) \<longrightarrow> node_at m (d @ [indexed_name b j]) \<noteq> None"
  shows False
proof -
  define f where "f = (\<lambda>j. d @ [indexed_name b j])"
  have "inj_on f {1..Suc (length m)}" by (intro inj_onI) (auto simp: f_def intro: indexed_inj [of _ _ b])
  then have "card (f ` {1..Suc (length m)}) = Suc (length m)" by (simp add: card_image)
  moreover have "f ` {1..Suc (length m)} \<subseteq> fst ` set m"
  proof (clarify)
    fix j assume "j \<in> {1..Suc (length m)}"
    with assms(2) have "node_at m (f j) \<noteq> None" by (simp add: f_def)
    then have "map_of m (f j) \<noteq> None" by (simp add: f_def node_at_def fs_get_def)
    then show "f j \<in> fst ` set m" by (simp add: in_keys_iff)
  qed
  then have "card (f ` {1..Suc (length m)}) \<le> card (fst ` set m)" by (intro card_mono) simp_all
  moreover have "card (fst ` set m) \<le> length m"
    by (metis card_length length_map list.set_map)
  ultimately show False by simp
qed


lemma create_dir_bound:
  assumes "orb_volumes_at d cfg" and "real_dir (h_fs h) d"
  shows "fst (createVolumeHostDir cfg n h) \<noteq> Inl loop_bound"
proof
  assume "fst (createVolumeHostDir cfg n h) = Inl loop_bound"
  from create_loop_tried [OF assms(1) base_name_plain base_name_trimmed assms(2) this [unfolded createVolumeHostDir_def]]
  show False by (intro too_many_names [OF base_name_plain, of "h_fs h" d])
qed

lemma next_dir_bound:
  assumes "orb_volumes_at d cfg" and "real_dir (h_fs h) d"
  shows "fst (nextAvailableVolumeHostDir cfg n h) \<noteq> Inl loop_bound"
proof
  assume "fst (nextAvailableVolumeHostDir cfg n h) = Inl loop_bound"
  from next_loop_tried [OF assms(1) base_name_plain base_name_trimmed assms(2) this [unfolded nextAvailableVolumeHostDir_def]]
  show False by (intro too_many_names [OF base_name_plain, of "h_fs h" d])
qed

text \<open>A directory the loop returns is new, directly below the volume directory, and all it changed.\<close>

lemma chmod_same: "node_at (h_fs (snd (os_Chmod p mode h))) q = node_at (h_fs h) q"
proof -
  have "node_at (h_fs (on_inode r (\<lambda>i. i\<lparr>i_mode := mode\<rparr>) g)) q = node_at (h_fs g) q" for r and g :: "'x host"
    by (cases "r = []") (auto simp: on_inode_def node_at_def fs_put_def fs_get_def split: option.splits)
  then show ?thesis
    by (auto simp: os_Chmod_def syscall_def at_path_def split: list.split option.split sum.split)
qed

lemma create_loop_new:
  assumes at: "orb_volumes_at d cfg" and b: "plain_elem b" "TrimSpace b = b" and "real_dir (h_fs h) d"
    and "create_dir_loop fuel cfg b i h = (Inr dir, h')"
  shows "\<exists>c. plain_elem c \<and> dir = abs_path (d @ [c]) \<and> node_at (h_fs h) (d @ [c]) = None \<and>
    node_at (h_fs h') (d @ [c]) = Some Dir \<and> (\<forall>p. p \<noteq> d @ [c] \<longrightarrow> node_at (h_fs h') p = node_at (h_fs h) p)"
  using assms(4,5)
proof (induction fuel arbitrary: i h)
  case (Suc fuel)
  define c where "c = indexed_name b i"
  have c: "plain_elem c" "volumeBaseDir cfg c = abs_path (d @ [c])"
    using base_dir_indexed [OF at b] indexed_plain [OF b(1)] by (simp_all add: c_def)
  obtain r h1 where r: "os_Mkdir (abs_path (d @ [c])) 511 h = (r, h1)" by (cases "os_Mkdir (abs_path (d @ [c])) 511 h")
  show ?case
  proof (cases r)
    case (Inl e)
    with Suc.prems(2) r c have e: "os_IsExist e" "create_dir_loop fuel cfg b (i + 1) h1 = (Inr dir, h')"
      by (auto simp: c_def [symmetric] Let_def caseE_err split: if_splits)
    with mkdir_exists [OF Suc.prems(1) c(1)] r Inl have "h_fs h1 = h_fs h" by auto
    with Suc.IH [of h1 "i + 1"] Suc.prems(1) e(2) show ?thesis by simp
  next
    case (Inr u)
    obtain q h2 where q: "os_Chmod (abs_path (d @ [c])) 511 h1 = (q, h2)" by (cases "os_Chmod (abs_path (d @ [c])) 511 h1")
    with Suc.prems(2) r c Inr have "q = Inr ()" "h' = h2" "dir = abs_path (d @ [c])"
      by (auto simp: c_def [symmetric] Let_def caseE_ok call_defs split: sum.splits prod.splits)
    moreover from mkdir_new [OF Suc.prems(1) c(1)] r Inr have "node_at (h_fs h) (d @ [c]) = None"
      "node_at (h_fs h1) (d @ [c]) = Some Dir" "\<forall>p. p \<noteq> d @ [c] \<longrightarrow> node_at (h_fs h1) p = node_at (h_fs h) p"
      by (auto simp: node_at_def)
    moreover have "node_at (h_fs h2) p = node_at (h_fs h1) p" for p
      using chmod_same [of "abs_path (d @ [c])" 511 h1 p] q by simp
    ultimately show ?thesis using c(1) by auto
  qed
qed simp

lemma create_dir_new:
  assumes "orb_volumes_at d cfg" and "real_dir (h_fs h) d" and "createVolumeHostDir cfg n h = (Inr dir, h')"
  shows "\<exists>c. plain_elem c \<and> dir = abs_path (d @ [c]) \<and> node_at (h_fs h) (d @ [c]) = None \<and>
    node_at (h_fs h') (d @ [c]) = Some Dir \<and> (\<forall>p. p \<noteq> d @ [c] \<longrightarrow> node_at (h_fs h') p = node_at (h_fs h) p)"
  by (rule create_loop_new [OF assms(1) base_name_plain base_name_trimmed assms(2) assms(3) [unfolded createVolumeHostDir_def]])

end
