(* ===== verification/OrbProperties.thy ===== *)
theory OrbProperties
  imports OrbDemo OrbScripts OrbVolumeProofs
begin

text \<open>
  The properties of the OrbStack backend, each with a witness on a concrete OrbStack.
\<close>

section \<open>Machines\<close>


text \<open>A demonstration: one template machine, and the host with the files the gateway reads.\<close>

definition enc_choice :: "bool option \<Rightarrow> string" where
  "enc_choice b = (case b of None \<Rightarrow> ''n'' | Some v \<Rightarrow> (if v then ''t'' else ''f''))"

definition dec_choice :: "string \<Rightarrow> bool option \<times> string" where
  "dec_choice s = (if take 1 s = ''n'' then None else Some (take 1 s = ''t''), drop 1 s)"

lemma dec_enc_choice [simp]: "dec_choice (enc_choice b @ r) = (b, r)"
  by (auto simp: dec_choice_def enc_choice_def split: option.split)

definition demo_orb_codecs :: orb_codecs where
  "demo_orb_codecs =
     \<lparr>oj_metadata = (\<lambda>m. enc_string (sm_SandboxID m) @ enc_string (sm_TemplateID m) @
        enc_string (enc_strings (concat (map (\<lambda>(k, v). [k, v]) (sm_Metadata m)))) @ enc_int (sm_CreatedAt m) @ enc_int (sm_EndAt m) @
        enc_choice (sm_AllowInternetAccess m) @ enc_string (sm_OnTimeout m) @ enc_choice (sm_AutoPause m) @
        enc_string (enc_strings (concat (map (\<lambda>m. [vm_Name m, vm_Path m, vm_VolumeID m, vm_MountPath m]) (sm_VolumeMounts m))))),
      oj_read_metadata = (\<lambda>s.
        case dec_string s of (i, s) \<Rightarrow> case dec_string s of (t, s) \<Rightarrow> case dec_string s of (md, s) \<Rightarrow>
        case dec_int s of (c, s) \<Rightarrow> case dec_int s of (e, s) \<Rightarrow> case dec_choice s of (a, s) \<Rightarrow>
        case dec_string s of (ot, s) \<Rightarrow> case dec_choice s of (ap, s) \<Rightarrow> case dec_string s of (ms, s) \<Rightarrow>
        Inr \<lparr>sm_SandboxID = i, sm_TemplateID = t, sm_Metadata = pairs_of (dec_strings (length md) md), sm_CreatedAt = c, sm_EndAt = e,
             sm_AllowInternetAccess = a, sm_OnTimeout = ot, sm_AutoPause = ap, sm_VolumeMounts = mounts_of (dec_strings (length ms) ms)\<rparr>),
      oj_volume = (\<lambda>v. enc_string (rv_VolumeID v) @ enc_string (rv_Name v)),
      oj_read_volume = (\<lambda>s. case dec_string s of (i, t) \<Rightarrow> Inr \<lparr>rv_VolumeID = i, rv_Name = fst (dec_string t)\<rparr>)\<rparr>"

lemma demo_orb_metadata: "oj_read_metadata demo_orb_codecs (oj_metadata demo_orb_codecs m) = Inr m"
proof -
  have d: "dec_strings (length (enc_strings ss)) (enc_strings ss) = ss" for ss
    using dec_enc_strings [of ss _ "[]"] enc_strings_long [of ss] by simp
  have e: "dec_string (enc_string s) = (s, [])" for s using dec_enc_string [of s "[]"] by simp
  show ?thesis by (simp add: demo_orb_codecs_def d e pairs_of_concat mounts_of_concat)
qed

definition demo_orb_config :: orb_config where
  "demo_orb_config =
     \<lparr>oc_MachineNamePrefix = ''e2b-sandbox-'', oc_DefaultMemory = ''2G'', oc_DefaultCPUs = ''2'', oc_DefaultDisk = ''16G'',
      oc_Isolated = False, oc_EnvdBinary = ''/envd'', oc_EnvdPort = 49983, oc_HealthTimeoutSeconds = 60,
      oc_VolumeHostPath = ''/vol'', oc_Templates = []\<rparr>"

definition demo_orb :: "bool \<Rightarrow> demo_machines orb_world orb_runtime" where
  "demo_orb healthy =
     \<lparr>or_cfg = demo_orb_config, or_vmClient = vm_machine_client demo_orb_client,
      or_checkHealthy = (\<lambda>ctx u. if healthy then ret () else fail (ErrorString ''not healthy'')), or_newID = random_name,
      or_codecs = demo_orb_codecs, or_xattrs = None, or_RAMInBytes = (\<lambda>s. Inr 1), or_NotFound = (\<lambda>e. e), or_Fold = ToLower\<rparr>"

definition demo_orb_host :: "demo_machines orb_world host" where
  "demo_orb_host =
     \<lparr>h_fs = [([''vol''], new_inode Dir 493 0), ([''envd''], new_inode (File ''ELF'') 493 0),
        ([''home''], new_inode Dir 493 0), ([''home'', ''u''], new_inode Dir 493 0),
        ([''home'', ''u'', ''.orbstack''], new_inode Dir 493 0),
        ([''home'', ''u'', ''.orbstack'', ''ssh''], new_inode Dir 493 0),
        ([''home'', ''u'', ''.orbstack'', ''ssh'', ''id_ed25519''], new_inode (File ''key'') 384 0)],
      h_faults = [], h_names = [7, 9], h_now = 0,
      h_engine = \<lparr>ow_NextID = 0, ow_World = \<lparr>dm_Machines = [(''base'', ''stopped'')]\<rparr>\<rparr>\<rparr>"

definition demo_orb_request :: create_request where
  "demo_orb_request =
     \<lparr>cr_SandboxID = ''sb1'', cr_TemplateID = ''base'', cr_Metadata = [], cr_EnvVars = [(''A'', ''1'')], cr_VolumeMounts = [],
      cr_CreatedAt = 3, cr_EndAt = 9, cr_AllowInternetAccess = None, cr_OnTimeout = []\<rparr>"

lemma demo_machine_deleted:
  "\<exists>h'. vm_DeleteVM demo_orb_client ''e2b-sandbox-sb1'' h = (Inr (), h')"
proof -
  let ?n = "''e2b-sandbox-sb1''"
  have n: "TrimSpace ?n = ?n" by code_simp
  have tr: "vc_Transport demo_orb_client = demo_transport" by (simp add: demo_orb_client_def NewVMClient_def)
  obtain body rq resp w' h' where b: "rp_Encode demo_transport rq = Inr body" "rq_Method rq = ''ContainerDelete''"
      "rq_Params rq = Some [NameParam ?n]" "rp_Do demo_transport body (ow_World (h_engine h)) = (resp, w')"
    and run: "rpc_call demo_transport ''ContainerDelete'' (Some [NameParam ?n]) None () h =
       (case rpc_outcome demo_transport ''ContainerDelete'' (rq_ID rq) resp of Inl e \<Rightarrow> Inl e | Inr y \<Rightarrow> Inr (), h')"
    using demo_control.rpc_run [of "''ContainerDelete''" "Some [NameParam ?n]" h "()"] tr by auto
  have c: "demo_call (rq_Method rq) (demo_name rq 0) (demo_name rq 1) (ow_World (h_engine h)) =
      (if ?n \<in> demo_live (ow_World (h_engine h)) then [] else ''no machine'', [],
       snd (snd (demo_call ''ContainerDelete'' ?n (demo_name rq 1) (ow_World (h_engine h)))))"
    using demo_names(2) [OF b(3)] b(2) by (simp add: demo_call_def demo_live_def Let_def)
  have short: "length (if ?n \<in> demo_live (ow_World (h_engine h)) then [] else ''no machine'') \<le> 100" by simp
  have missing: "isVMNotFoundError (ErrorString (rpc_error_text \<lparr>re_Code = 1, re_Message = ''no machine'', re_Data = []\<rparr>))"
    by code_simp
  show ?thesis
    using run demo_outcome(2) [OF b(1,4) c short, of "''ContainerDelete''"] missing n
    by (auto simp: vm_DeleteVM_def orb_Delete_def name_call_def Let_def tr call_defs split: if_splits)
qed


section \<open>Texts\<close>

text \<open>C14: What the machine runs is what was meant, whatever the paths are. The command line handed to SSH has exactly
  the words \<open>/bin/sh\<close>, \<open>-lc\<close> and the script; in the scripts for making a directory, removing a tree, linking and
  reading every command has the words intended, with each path one word behind the end of the options; so do the
  commands that install a file; and the paths are absolute.\<close>

theorem machine_scripts_are_exact:
  "sh_commands env (''/bin/sh -lc '' @ shQuote script) = Some [[''/bin/sh'', ''-lc'', script]] \<and>
   sh_commands env (mkdir_script p m) =
     Some [[''set'', ''-eu''], [''sudo'', ''mkdir'', ''-p'', ''--'', p], [''sudo'', ''chmod'', perm_octal m, ''--'', p]] \<and>
   sh_commands env (remove_script p) = Some [[''set'', ''-eu''], [''sudo'', ''rm'', ''-rf'', ''--'', p]] \<and>
   sh_commands env (symlink_script old p) =
     Some [[''set'', ''-eu''], [''sudo'', ''mkdir'', ''-p'', ''--'', path_Dir p], [''sudo'', ''rm'', ''-rf'', ''--'', p],
           [''sudo'', ''ln'', ''-s'', ''--'', old, p]] \<and>
   sh_commands env (cat_script p) = Some [[''sudo'', ''cat'', ''--'', path_Clean (''/'' @ TrimPrefix p ''/'')]] \<and>
   sh_commands env (install_commands p m) =
     Some [[''sudo'', ''mkdir'', ''-p'', ''--'', path_Dir p], [''sudo'', ''install'', ''-m'', perm_octal m, env ''tmp'', p]] \<and>
   cleanVMPath v \<in> Inl ` {path_required} \<union> Inr ` abs_path ` {cs. list_all plain_elem cs}"
proof (intro conjI)
  show "cleanVMPath v \<in> Inl ` {path_required} \<union> Inr ` abs_path ` {cs. list_all plain_elem cs}"
    using cleanVMPath_abs [of v] by (cases "cleanVMPath v") (auto simp: cleanVMPath_def Let_def split: if_splits)
qed (rule shell_command mkdir_commands remove_commands symlink_commands cat_commands install_commands_words)+



section \<open>Volumes\<close>

text \<open>C25: The searches for a free directory name end. In a directory of volumes on a file system of \<open>n\<close> entries neither
  the loop that makes a volume's directory nor the one that looks for a name to move one to runs more than \<open>n + 1\<close>
  rounds; a directory that is made is a new one directly below the directory of volumes, and nothing else changes.\<close>

theorem free_name_loops_end:
  assumes "orb_volumes_at d cfg" and "real_dir (h_fs h) d" and "createVolumeHostDir cfg n h = (res, h')"
  shows "res \<noteq> Inl loop_bound \<and> fst (nextAvailableVolumeHostDir cfg n h) \<noteq> Inl loop_bound \<and>
    (\<forall>dir. res = Inr dir \<longrightarrow>
      (\<exists>c. plain_elem c \<and> dir = abs_path (d @ [c]) \<and> node_at (h_fs h) (d @ [c]) = None \<and>
        node_at (h_fs h') (d @ [c]) = Some Dir \<and> (\<forall>p. p \<noteq> d @ [c] \<longrightarrow> node_at (h_fs h') p = node_at (h_fs h) p)))"
  using create_dir_bound [OF assms(1,2), of n] next_dir_bound [OF assms(1,2), of n] assms(3)
    create_dir_new [OF assms(1,2), of n] by (metis fst_conv)

lemma free_name_loops_end_witness:
  "fst (createVolumeHostDir demo_orb_config ''data'' demo_orb_host) \<noteq> Inl loop_bound"
proof -
  have "n \<le> Suc 0 \<Longrightarrow> n = 0 \<or> n = Suc 0" for n by auto
  then have 1: "real_dir (h_fs demo_orb_host) [''vol'']"
    by (auto simp: real_dir_def demo_orb_host_def plain_elem_def node_at_def fs_get_def new_inode_def)
  have 2: "orb_volumes_at [''vol''] demo_orb_config"
    by (simp add: orb_volumes_at_def demo_orb_config_def plain_elem_def) code_simp
  obtain res h' where "createVolumeHostDir demo_orb_config ''data'' demo_orb_host = (res, h')" by fastforce
  with free_name_loops_end [OF 2 1 this] show ?thesis by simp
qed

section \<open>Restart\<close>

definition orb_restored_as :: "create_request \<Rightarrow> volume_mount list \<Rightarrow> vm_info \<Rightarrow> sandbox_record \<Rightarrow> bool" where
  "orb_restored_as req ms info x \<longleftrightarrow>
     sr_ID x = TrimSpace (cr_SandboxID req) \<and> sr_TemplateID x = TrimSpace (cr_TemplateID req) \<and>
     sr_Metadata x = cr_Metadata req \<and> sr_CreatedAt x = cr_CreatedAt req \<and> sr_EndAt x = cr_EndAt req \<and>
     sr_OnTimeout x = cr_OnTimeout req \<and> sr_InternetAccessPolicy x = InternetAccessPolicyFromBoolPtr (cr_AllowInternetAccess req) \<and>
     ri_VolumeMounts (sr_RuntimeInfo x) = orb_normalizeVolumeMounts ms \<and> sr_State x = sandboxStateFromVMState (vi_State info)"

lemma timeoutAction_of:
  "Normalize t = Inr (cr_OnTimeout req) \<Longrightarrow> timeoutAction (sandbox_metadata_of req ms) = Inr (cr_OnTimeout req)"
  by (auto simp: timeoutAction_def sandbox_metadata_of_def Normalize_def SandboxTimeoutActionUnspecified_def
      SandboxTimeoutActionKill_def SandboxTimeoutActionPause_def split: if_splits)

lemma normalize_mounts_twice: "orb_normalizeVolumeMounts (orb_normalizeVolumeMounts ms) = orb_normalizeVolumeMounts ms"
proof -
  have n: "normalize_mount (normalize_mount m) = normalize_mount m" for m by (simp add: normalize_mount_def Let_def)
  show ?thesis by (induction ms) (simp_all add: orb_normalizeVolumeMounts_def n)
qed

lemma restored_record_of:
  assumes "Normalize t = Inr (cr_OnTimeout req)" and "TrimSpace (cr_SandboxID req) \<noteq> []"
    and "\<not> IsZero (cr_CreatedAt req)" and "\<not> IsZero (cr_EndAt req)"
  shows "\<exists>x. restored_record r now info (sandbox_metadata_of req ms) = Inr x \<and> orb_restored_as req ms info x"
  using timeoutAction_of [OF assms(1), of ms] assms(2-4)
  by (simp add: restored_record_def Let_def orb_restored_as_def)
    (simp add: sandbox_metadata_of_def orb_runtimeInfo_def copyStringMap_def normalize_mounts_twice)

text \<open>Restoring one machine of a sandbox, by what reading its metadata gives.\<close>

lemma restore_one:
  assumes "mc_ListVMs (or_vmClient r) h = (Inr [v], h1)" and "is_sandbox_machine (or_cfg r) (vi_Name v)"
    and "mc_GetVMInfo (or_vmClient r) (vi_Name v) h1 = (Inr info, h2)"
    and "readSandboxMetadata ctx r (vi_Name info) h2 = (Inr md, h3)"
    and "restored_record r (h_now h3) info md = Inr x"
  shows "orb_RestoreSandboxes ctx r h = (Inr [x], h3)"
proof -
  have "orb_RestoreSandboxes ctx r h = orb_restore_records ctx r [v] h1"
    unfolding orb_RestoreSandboxes_def using assms(1) by (simp add: bindE_ok)
  also have "\<dots> = (Inr [x], h3)"
    using assms(2-5) by (simp add: caseE_ok bindE_ok time_Now_def call_defs)
  finally show ?thesis .
qed

text \<open>C8: The metadata file of a machine carries the sandbox. When OrbStack has one machine of a sandbox, with the file
  \<open>CreateSandbox\<close> put there and readable, a restarted gateway restores exactly one sandbox, with the request's id,
  template, metadata, times, timeout action and internet access and the volumes mounted, in the machine's state.\<close>

theorem orb_restart_restores_sandbox:
  assumes "\<And>m. oj_read_metadata (or_codecs r) (oj_metadata (or_codecs r) m) = Inr m"
    and "Normalize t = Inr (cr_OnTimeout req)" and "TrimSpace (cr_SandboxID req) \<noteq> []"
    and "\<not> IsZero (cr_CreatedAt req)" and "\<not> IsZero (cr_EndAt req)"
    and "mc_ListVMs (or_vmClient r) h = (Inr [v], h1)" and "is_sandbox_machine (or_cfg r) (vi_Name v)"
    and "mc_GetVMInfo (or_vmClient r) (vi_Name v) h1 = (Inr info, h2)"
    and "mc_ReadFile (or_vmClient r) ctx (vi_Name info) sandboxMetadataPath h2 =
      (Inr (oj_metadata (or_codecs r) (sandbox_metadata_of req ms)), h3)"
  shows "\<exists>x. orb_RestoreSandboxes ctx r h = (Inr [x], h3) \<and> orb_restored_as req ms info x"
proof -
  have "readSandboxMetadata ctx r (vi_Name info) h2 = (Inr (sandbox_metadata_of req ms), h3)"
    using assms(1,9) by (simp add: readSandboxMetadata_def caseE_ok call_defs)
  with restored_record_of [OF assms(2-5)] restore_one [OF assms(6-8)] show ?thesis by blast
qed

lemma orb_restart_restores_sandbox_witness:
  "\<exists>r x. orb_RestoreSandboxes (\<lambda>h. None) (r :: demo_machines orb_world orb_runtime) demo_orb_host = (Inr [x], demo_orb_host) \<and>
     sr_ID x = ''sb1'' \<and> sr_EndAt x = 9 \<and> sr_OnTimeout x = ''pause''"
proof -
  let ?q = "demo_orb_request\<lparr>cr_OnTimeout := ''pause''\<rparr>"
  let ?v = "no_vm\<lparr>vi_Name := ''e2b-sandbox-sb1'', vi_State := ''stopped''\<rparr>"
  let ?vm = "(vm_machine_client demo_orb_client)\<lparr>mc_ListVMs := ret [?v], mc_GetVMInfo := (\<lambda>n. ret ?v),
     mc_ReadFile := (\<lambda>ctx n p. ret (oj_metadata demo_orb_codecs (sandbox_metadata_of ?q [])))\<rparr>"
  let ?r = "(demo_orb True)\<lparr>or_vmClient := ?vm\<rparr>"
  have 1: "oj_read_metadata (or_codecs ?r) (oj_metadata (or_codecs ?r) m) = Inr m" for m
    using demo_orb_metadata by (simp add: demo_orb_def)
  have 2: "Normalize ''pause'' = Inr (cr_OnTimeout ?q)" by (simp add: Normalize_def) code_simp
  have t: "TrimSpace ''sb1'' = ''sb1''" by code_simp
  have 3: "TrimSpace (cr_SandboxID ?q) \<noteq> []" "\<not> IsZero (cr_CreatedAt ?q)" "\<not> IsZero (cr_EndAt ?q)"
    by (simp_all add: demo_orb_request_def t)
  have 4: "is_sandbox_machine (or_cfg ?r) (vi_Name ?v)" by (simp add: demo_orb_def) code_simp
  have 5: "mc_ListVMs (or_vmClient ?r) demo_orb_host = (Inr [?v], demo_orb_host)"
    "mc_GetVMInfo (or_vmClient ?r) (vi_Name ?v) demo_orb_host = (Inr ?v, demo_orb_host)"
    "mc_ReadFile (or_vmClient ?r) (\<lambda>h. None) (vi_Name ?v) sandboxMetadataPath demo_orb_host =
       (Inr (oj_metadata (or_codecs ?r) (sandbox_metadata_of ?q [])), demo_orb_host)"
    by (simp_all add: demo_orb_def ret_def)
  from orb_restart_restores_sandbox [OF 1 2 3 5(1) 4 5(2,3)] obtain x
    where "orb_RestoreSandboxes (\<lambda>h. None) ?r demo_orb_host = (Inr [x], demo_orb_host)" "orb_restored_as ?q [] ?v x" by blast
  then show ?thesis by (intro exI [of _ ?r] exI [of _ x]) (simp add: orb_restored_as_def demo_orb_request_def t)
qed

text \<open>
  When the file is not there the sandbox is restored too, by the name of its machine, but it is
  killed when the default timeout has passed from the restart, even if it was to be paused.
\<close>

lemma missing_metadata_restores_as_kill:
  assumes "mc_ListVMs (or_vmClient r) h = (Inr [v], h1)" and "is_sandbox_machine (or_cfg r) (vi_Name v)"
    and "mc_GetVMInfo (or_vmClient r) (vi_Name v) h1 = (Inr info, h2)"
    and "mc_ReadFile (or_vmClient r) ctx (vi_Name info) sandboxMetadataPath h2 = (Inl err, h3)" and "isRemoteFileNotFound err"
  shows "\<exists>x. orb_RestoreSandboxes ctx r h = (Inr [x], h3) \<and> sr_OnTimeout x = SandboxTimeoutActionKill \<and>
    sr_ID x = sandboxIDFromMachineName (or_cfg r) (vi_Name info) \<and> sr_CreatedAt x = h_now h3 \<and>
    sr_EndAt x = defaultSandboxEndAt (h_now h3)"
proof -
  have md: "readSandboxMetadata ctx r (vi_Name info) h2 = (Inr no_metadata, h3)"
    using assms(4,5) by (simp add: readSandboxMetadata_def caseE_err ret_def)
  have "timeoutAction no_metadata = Inr SandboxTimeoutActionKill" "TrimSpace [] = []"
    by (simp_all add: timeoutAction_def no_metadata_def Normalize_def SandboxTimeoutActionUnspecified_def
        SandboxTimeoutActionFromAutoPause_def)
  then show ?thesis using restore_one [OF assms(1-3) md] by (simp add: restored_record_def Let_def) (simp add: no_metadata_def)
qed

section \<open>Names\<close>

lemma HasPrefix_append: "HasPrefix (p @ x) p"
  by (simp add: HasPrefix_def)

lemma prefix_of_TrimRight:
  assumes "\<not> HasPrefix (rev p) ''--''" shows "HasPrefix (TrimRight CHR ''-'' p @ CHR ''-'' # x) p"
proof (cases "rev p")
  case Nil
  then show ?thesis by (simp add: HasPrefix_def)
next
  case (Cons c q)
  show ?thesis
  proof (cases "c = CHR ''-''")
    case True
    with Cons assms have "q = [] \<or> hd q \<noteq> CHR ''-''" by (cases q) (auto simp: HasPrefix_def)
    then have "dropWhile (\<lambda>d. d = CHR ''-'') q = q" by (cases q) auto
    moreover from Cons True have "p = rev q @ ''-''" by (metis rev.simps(2) rev_rev_ident)
    ultimately show ?thesis using HasPrefix_append [of p x] by (simp add: TrimRight_def)
  next
    case False
    with Cons have "TrimRight CHR ''-'' p = p" by (simp add: TrimRight_def)
    then show ?thesis by (simp add: HasPrefix_append)
  qed
qed

text \<open>The names of machines tell them apart. With a prefix that is not blank and does not end in two dashes, and an
  id that does not itself begin like a snapshot, the machine of a sandbox is restored as a sandbox, under its own id,
  and is never a template; the machine of a snapshot is neither a sandbox nor a template.\<close>

lemma machine_names_partition:
  assumes "TrimSpace (oc_MachineNamePrefix cfg) \<noteq> []" and "\<not> HasPrefix (rev (TrimSpace (oc_MachineNamePrefix cfg))) ''--''"
    and "\<not> HasPrefix (sandboxMachineName cfg i) (snapshotMachinePrefix cfg)"
    and "TrimSpace (sandboxMachineName cfg i) = sandboxMachineName cfg i"
    and "TrimSpace (snapshotMachineName cfg j name t) = snapshotMachineName cfg j name t"
  shows "is_sandbox_machine cfg (sandboxMachineName cfg i) \<and> \<not> isTemplateSourceMachine cfg (sandboxMachineName cfg i) \<and>
    sandboxIDFromMachineName cfg (sandboxMachineName cfg i) = TrimSpace i \<and>
    \<not> is_sandbox_machine cfg (snapshotMachineName cfg j name t) \<and> \<not> isTemplateSourceMachine cfg (snapshotMachineName cfg j name t)"
proof -
  define p where "p = TrimSpace (oc_MachineNamePrefix cfg)"
  obtain x where x: "snapshotMachineName cfg j name t = snapshotMachinePrefix cfg @ x"
    by (auto simp: snapshotMachineName_def Let_def)
  have "HasPrefix (snapshotMachineName cfg j name t) p"
    using prefix_of_TrimRight [OF assms(2), of "''snapshot-'' @ x"] by (simp add: x snapshotMachinePrefix_def p_def)
  moreover have "HasPrefix (sandboxMachineName cfg i) p" by (simp add: sandboxMachineName_def p_def HasPrefix_append)
  ultimately show ?thesis using assms
    by (simp add: is_sandbox_machine_def isTemplateSourceMachine_def sandboxIDFromMachineName_def p_def [symmetric] Let_def
        TrimPrefix_def x HasPrefix_append) (simp add: sandboxMachineName_def p_def)
qed

lemma machine_names_partition_witness:
  "is_sandbox_machine demo_orb_config ''e2b-sandbox-sb1'' \<and> \<not> isTemplateSourceMachine demo_orb_config ''e2b-sandbox-snapshot-sb1-a''"
proof -
  have n: "sandboxMachineName demo_orb_config ''sb1'' = ''e2b-sandbox-sb1''"
    "snapshotMachineName demo_orb_config ''sb1'' ''A!'' 0 = ''e2b-sandbox-snapshot-sb1-a''"
    "TrimSpace (oc_MachineNamePrefix demo_orb_config) = ''e2b-sandbox-''" "snapshotMachinePrefix demo_orb_config = ''e2b-sandbox-snapshot-''"
    "TrimSpace ''e2b-sandbox-sb1'' = ''e2b-sandbox-sb1''" "TrimSpace ''e2b-sandbox-snapshot-sb1-a'' = ''e2b-sandbox-snapshot-sb1-a''"
    by code_simp+
  show ?thesis
    using machine_names_partition [of demo_orb_config "''sb1''" "''sb1''" "''A!''" 0, unfolded n] by (simp add: HasPrefix_def)
qed

text \<open>The condition on the prefix is needed: with two dashes at its end a snapshot counts as a template.\<close>

lemma snapshot_listed_as_template:
  "isTemplateSourceMachine (demo_orb_config\<lparr>oc_MachineNamePrefix := ''sb--''\<rparr>)
     (snapshotMachineName (demo_orb_config\<lparr>oc_MachineNamePrefix := ''sb--''\<rparr>) ''x'' ''a'' 0)"
  by code_simp

section \<open>Volumes that hide each other\<close>

text \<open>
  A volume is found by its id or its name, and the directory that has the name asked for is looked at
  first. So a new volume whose name is the id of another one takes its place: the first one is not
  found by its id any more, and deleting it by its id deletes the other.
\<close>

definition shadowing :: "(go_error + runtime_volume) list" where
  "shadowing =
     (case orb_CreateVolume (demo_orb True) ''data'' (demo_orb_host\<lparr>h_fs := [([''vol''], new_inode Dir 493 0)]\<rparr>) of (a, h) \<Rightarrow>
      case orb_CreateVolume (demo_orb True) ''7'' h of (b, h) \<Rightarrow>
      case orb_GetVolume (demo_orb True) ''7'' h of (c, h) \<Rightarrow> [a, b, c])"

lemma volume_name_hides_id:
  "shadowing = [Inr \<lparr>rv_VolumeID = ''7'', rv_Name = ''data''\<rparr>, Inr \<lparr>rv_VolumeID = ''9'', rv_Name = ''7''\<rparr>,
     Inr \<lparr>rv_VolumeID = ''9'', rv_Name = ''7''\<rparr>]"
  by code_simp

end
