(* ===== verification/ApiTypes.thy ===== *)
theory ApiTypes
  imports Observability Http DockerVolumes
begin

text \<open>
  What the HTTP handlers of the gateway read and answer (\<open>gateway_api.go\<close>, \<open>shared_helpers.go\<close>,
  \<open>types.go\<close>, the conversions of \<open>gateway_callbacks.go\<close>): the request with the context the
  callbacks get, the values of the responses, and the functions that make them from the gateway's
  records. Fields of the generated response types that no function sets are left out: they stay nil.
\<close>

section \<open>The request and the callbacks' context\<close>

text \<open>
  The parts of \<open>gin.Context\<close> the handlers use. \<open>Header.Get\<close> and \<open>c.Query\<close> give the empty string for a
  missing key; a server's request always has a body and a URL.
\<close>

record http_request =
  hr_Method :: string
  hr_Header :: "(string, string) gomap"
  hr_URL_Scheme :: string
  hr_TLS :: bool
  hr_Host :: string
  hr_Query :: "(string, string) gomap"
  hr_Body :: upload_body
  hr_ContentLength :: int

record inbound_base =
  ib_Scheme :: string
  ib_Host :: string

record callback_ctx =
  cx_Headers :: "(string, string) gomap option"
  cx_Base :: "inbound_base option"

definition context_Background :: callback_ctx where
  "context_Background = \<lparr>cx_Headers = None, cx_Base = None\<rparr>"

definition contextWithInboundHeaders :: "callback_ctx \<Rightarrow> (string, string) gomap \<Rightarrow> callback_ctx" where
  "contextWithInboundHeaders ctx headers = ctx\<lparr>cx_Headers := Some headers\<rparr>"

definition contextWithInboundRequest :: "callback_ctx \<Rightarrow> http_request \<Rightarrow> callback_ctx" where
  "contextWithInboundRequest ctx req =
     (let scheme = TrimSpace (map_read (hr_Header req) ''X-Forwarded-Proto'');
          scheme = (if scheme = [] then
                      (if hr_URL_Scheme req \<noteq> [] then hr_URL_Scheme req
                       else if hr_TLS req then ''https'' else ''http'')
                    else scheme);
          host = TrimSpace (map_read (hr_Header req) ''X-Forwarded-Host'');
          host = (if host = [] then hr_Host req else host)
      in ctx\<lparr>cx_Base := Some \<lparr>ib_Scheme = scheme, ib_Host = host\<rparr>\<rparr>)"

definition inboundHeaders :: "callback_ctx \<Rightarrow> (string, string) gomap" where
  "inboundHeaders ctx = (case cx_Headers ctx of None \<Rightarrow> [] | Some headers \<Rightarrow> headers)"

definition inboundRequestBaseURL :: "callback_ctx \<Rightarrow> string option" where
  "inboundRequestBaseURL ctx =
     (case cx_Base ctx of
        None \<Rightarrow> None
      | Some b \<Rightarrow>
          (if TrimSpace (ib_Scheme b) = [] \<or> TrimSpace (ib_Host b) = [] then None
           else Some (ib_Scheme b @ ''://'' @ ib_Host b)))"

definition callbackContext :: "http_request \<Rightarrow> callback_ctx" where
  "callbackContext c =
     contextWithInboundRequest (contextWithInboundHeaders context_Background (hr_Header c)) c"

section \<open>Request parameters\<close>

definition paginationLimit :: "32 word option \<Rightarrow> go_error + int" where
  "paginationLimit limit =
     (case limit of
        None \<Rightarrow> Inr maxSandboxListLimit
      | Some l \<Rightarrow>
          (if sint l \<le> 0 then Inl (bad_request ''limit must be positive'')
           else if sint l > maxSandboxListLimit then Inr maxSandboxListLimit
           else Inr (sint l)))"

definition logLimit :: "32 word option \<Rightarrow> 32 word" where
  "logLimit limit =
     (case limit of
        None \<Rightarrow> 1000
      | Some l \<Rightarrow> (if sint l \<le> 0 then 1000 else if sint l > 1000 then 1000 else l))"

definition intHeader :: "nat \<Rightarrow> string" where
  "intHeader n = Itoa (int n)"

text \<open>
  \<open>url.ParseQuery\<close> is the parameter \<open>parse\<close>: it gives the keys with their values, in some order of
  the keys, or an error. A key the query repeats keeps its last value.
\<close>

type_synonym query_parser = "string \<Rightarrow> go_error + (string, string list) gomap"

definition parseMetadataFilter :: "query_parser \<Rightarrow> string option \<Rightarrow> go_error + (string, string) gomap" where
  "parseMetadataFilter parse value =
     (case value of
        None \<Rightarrow> Inr []
      | Some v \<Rightarrow>
          (if TrimSpace v = [] then Inr []
           else case parse v of
                  Inl err \<Rightarrow> Inl (bad_request (''invalid metadata filter: '' @ error_text err))
                | Inr values \<Rightarrow>
                    Inr (fold (\<lambda>(key, items) filt.
                           if key = [] then filt
                           else if items = [] then AList.update key [] filt
                           else AList.update key (last items) filt) values [])))"

section \<open>Sandboxes\<close>

definition optionalString :: "string \<Rightarrow> string option" where
  "optionalString value = (if value = [] then None else Some value)"

definition sandboxClientID :: "sandbox_record \<Rightarrow> string" where
  "sandboxClientID record = (if sr_ClientID record \<noteq> [] then sr_ClientID record else ''e2b-local'')"

definition sandboxEnvdVersion :: "sandbox_record \<Rightarrow> string" where
  "sandboxEnvdVersion record = (if sr_EnvdVersion record \<noteq> [] then sr_EnvdVersion record else defaultEnvdVersion)"

definition sandboxDomainForResponse :: "sandbox_record \<Rightarrow> string option" where
  "sandboxDomainForResponse record = None"

definition apiSandboxMetadata :: "(string, string) gomap \<Rightarrow> (string, string) gomap option" where
  "apiSandboxMetadata metadata = (if metadata = [] then None else Some (copyStringMap metadata))"

definition apiSandboxVolumeMounts :: "volume_mount list \<Rightarrow> api_volume_mount list option" where
  "apiSandboxVolumeMounts volumeMounts =
     (let normalized = normalizeVolumeMounts volumeMounts
      in if normalized = [] then None
         else Some (map (\<lambda>m. \<lparr>av_Name = vm_Name m, av_Path = vm_Path m\<rparr>) normalized))"

record sandbox_api_response =
  sa_Alias :: "string option"
  sa_ClientID :: string
  sa_Domain :: "string option"
  sa_EnvdVersion :: string
  sa_SandboxID :: string
  sa_TemplateID :: string
  sa_EnvdURL :: string
  sa_VolumeMounts :: "volume_mount list"

definition apiSandboxResponse :: "sandbox_record \<Rightarrow> sandbox_api_response" where
  "apiSandboxResponse record =
     \<lparr>sa_Alias = optionalString (sr_Alias record), sa_ClientID = sandboxClientID record,
      sa_Domain = sandboxDomainForResponse record, sa_EnvdVersion = sandboxEnvdVersion record,
      sa_SandboxID = sr_ID record, sa_TemplateID = sr_TemplateID record, sa_EnvdURL = sr_EnvdURL record,
      sa_VolumeMounts = ri_VolumeMounts (sr_RuntimeInfo record)\<rparr>"

record sandbox_detail =
  sd_Alias :: "string option"
  sd_AllowInternetAccess :: "bool option"
  sd_ClientID :: string
  sd_CpuCount :: int
  sd_DiskSizeMB :: int
  sd_Domain :: "string option"
  sd_EndAt :: time
  sd_EnvdVersion :: string
  sd_AutoResume :: bool
  sd_OnTimeout :: string
  sd_MemoryMB :: int
  sd_Metadata :: "(string, string) gomap option"
  sd_SandboxID :: string
  sd_StartedAt :: time
  sd_State :: string
  sd_TemplateID :: string
  sd_VolumeMounts :: "api_volume_mount list option"

definition apiSandboxDetailResponse :: "sandbox_record \<Rightarrow> sandbox_detail" where
  "apiSandboxDetailResponse record =
     (let endAt = (if IsZero (sr_EndAt record) then defaultSandboxEndAt (sr_CreatedAt record) else sr_EndAt record);
          onTimeout = (case Normalize (sr_OnTimeout record) of Inl err \<Rightarrow> ''kill'' | Inr normalized \<Rightarrow> normalized)
      in \<lparr>sd_Alias = optionalString (sr_Alias record),
          sd_AllowInternetAccess = BoolPtr (sr_InternetAccessPolicy record),
          sd_ClientID = sandboxClientID record, sd_CpuCount = sandboxCPUCount record,
          sd_DiskSizeMB = sandboxDiskSizeMB record, sd_Domain = sandboxDomainForResponse record, sd_EndAt = endAt,
          sd_EnvdVersion = sandboxEnvdVersion record, sd_AutoResume = False, sd_OnTimeout = onTimeout,
          sd_MemoryMB = sandboxMemoryMB record, sd_Metadata = apiSandboxMetadata (sr_Metadata record),
          sd_SandboxID = sr_ID record, sd_StartedAt = sr_CreatedAt record,
          sd_State = apiSandboxState (sr_State record), sd_TemplateID = sr_TemplateID record,
          sd_VolumeMounts = apiSandboxVolumeMounts (ri_VolumeMounts (sr_RuntimeInfo record))\<rparr>)"

record listed_sandbox =
  lx_Alias :: "string option"
  lx_ClientID :: string
  lx_CpuCount :: int
  lx_DiskSizeMB :: int
  lx_EndAt :: time
  lx_EnvdVersion :: string
  lx_MemoryMB :: int
  lx_Metadata :: "(string, string) gomap option"
  lx_SandboxID :: string
  lx_StartedAt :: time
  lx_State :: string
  lx_TemplateID :: string
  lx_VolumeMounts :: "api_volume_mount list option"
  lx_EnvdURL :: string

definition apiListedSandboxes :: "sandbox_record list \<Rightarrow> listed_sandbox list" where
  "apiListedSandboxes records = map (\<lambda>record.
     \<lparr>lx_Alias = optionalString (sr_Alias record), lx_ClientID = sandboxClientID record,
      lx_CpuCount = sandboxCPUCount record, lx_DiskSizeMB = sandboxDiskSizeMB record, lx_EndAt = recordEndAt record,
      lx_EnvdVersion = sandboxEnvdVersion record, lx_MemoryMB = sandboxMemoryMB record,
      lx_Metadata = apiSandboxMetadata (sr_Metadata record), lx_SandboxID = sr_ID record,
      lx_StartedAt = sr_CreatedAt record, lx_State = apiSandboxState (sr_State record),
      lx_TemplateID = sr_TemplateID record,
      lx_VolumeMounts = apiSandboxVolumeMounts (ri_VolumeMounts (sr_RuntimeInfo record)),
      lx_EnvdURL = sr_EnvdURL record\<rparr>) records"

section \<open>Logs\<close>

text \<open>A zero timestamp is replaced by the clock's.\<close>

definition clock_if_zero :: "('s \<Rightarrow> time \<times> 's) \<Rightarrow> time \<Rightarrow> 's \<Rightarrow> time \<times> 's" where
  "clock_if_zero now t s = (if IsZero t then now s else (t, s))"

record sandbox_log =
  sg_Line :: string
  sg_Timestamp :: time

fun apiSandboxLogEntries :: "('s \<Rightarrow> time \<times> 's) \<Rightarrow> runtime_log_entry list \<Rightarrow> 's \<Rightarrow> runtime_log_entry list \<times> 's" where
  "apiSandboxLogEntries now [] s = ([], s)"
| "apiSandboxLogEntries now (entry # entries) s =
     (let level = (if le_Level entry = [] then LogLevelInfo else le_Level entry)
      in case clock_if_zero now (le_Timestamp entry) s of (timestamp, s) \<Rightarrow>
         (case apiSandboxLogEntries now entries s of (rest, s) \<Rightarrow>
            (\<lparr>le_Timestamp = timestamp, le_Level = level, le_Message = le_Message entry,
              le_Fields = copyStringMap (le_Fields entry)\<rparr> # rest, s)))"

fun apiSandboxLogs :: "('s \<Rightarrow> time \<times> 's) \<Rightarrow> runtime_log_entry list \<Rightarrow> 's \<Rightarrow> sandbox_log list \<times> 's" where
  "apiSandboxLogs now [] s = ([], s)"
| "apiSandboxLogs now (entry # entries) s =
     (case clock_if_zero now (le_Timestamp entry) s of (timestamp, s) \<Rightarrow>
      (case apiSandboxLogs now entries s of (rest, s) \<Rightarrow>
         (\<lparr>sg_Line = le_Message entry, sg_Timestamp = timestamp\<rparr> # rest, s)))"

section \<open>Templates\<close>

record template_build =
  tb_BuildID :: string
  tb_CpuCount :: int
  tb_CreatedAt :: time
  tb_DiskSizeMB :: int
  tb_EnvdVersion :: string
  tb_FinishedAt :: time
  tb_MemoryMB :: int
  tb_Status :: string
  tb_UpdatedAt :: time

record template_with_builds =
  tw_Aliases :: "string list"
  tw_Builds :: "template_build list"
  tw_CreatedAt :: time
  tw_LastSpawnedAt :: "time option"
  tw_Names :: "string list"
  tw_Public :: bool
  tw_SpawnCount :: int
  tw_TemplateID :: string
  tw_UpdatedAt :: time

record template_legacy =
  tl_Aliases :: "string list"
  tl_BuildCount :: int
  tl_BuildID :: string
  tl_CpuCount :: int
  tl_CreatedAt :: time
  tl_CreatedBy :: "string option"
  tl_DiskSizeMB :: int
  tl_EnvdVersion :: string
  tl_LastSpawnedAt :: "time option"
  tl_MemoryMB :: int
  tl_Public :: bool
  tl_SpawnCount :: int
  tl_TemplateID :: string
  tl_UpdatedAt :: time

record template_response_v3 =
  tv_Aliases :: "string list"
  tv_BuildID :: string
  tv_Names :: "string list"
  tv_Public :: bool
  tv_Tags :: "string list"
  tv_TemplateID :: string

definition templateBuild :: "uuid_lib \<Rightarrow> ('s \<Rightarrow> time \<times> 's) \<Rightarrow> gateway_template \<Rightarrow> 's \<Rightarrow> template_build \<times> 's" where
  "templateBuild lib now template s =
     (case clock_if_zero now (gt_CreatedAt template) s of (createdAt, s) \<Rightarrow>
        (let updatedAt = (if IsZero (gt_UpdatedAt template) then createdAt else gt_UpdatedAt template)
         in (\<lparr>tb_BuildID = stableTemplateBuildUUID lib (gt_TemplateID template) (gt_BuildID template),
              tb_CpuCount = gt_CpuCount template, tb_CreatedAt = createdAt, tb_DiskSizeMB = gt_DiskSizeMB template,
              tb_EnvdVersion = gt_EnvdVersion template, tb_FinishedAt = updatedAt, tb_MemoryMB = gt_MemoryMB template,
              tb_Status = templateBuildStatus template, tb_UpdatedAt = updatedAt\<rparr>, s)))"

definition templateWithBuilds :: "uuid_lib \<Rightarrow> ('s \<Rightarrow> time \<times> 's) \<Rightarrow> gateway_template \<Rightarrow> 's \<Rightarrow> template_with_builds \<times> 's" where
  "templateWithBuilds lib now template s =
     (case clock_if_zero now (gt_CreatedAt template) s of (createdAt, s) \<Rightarrow>
        (let updatedAt = (if IsZero (gt_UpdatedAt template) then createdAt else gt_UpdatedAt template)
         in case templateBuild lib now template s of (build, s) \<Rightarrow>
            (\<lparr>tw_Aliases = gt_Aliases template, tw_Builds = [build], tw_CreatedAt = createdAt,
              tw_LastSpawnedAt = gt_LastSpawnedAt template, tw_Names = gt_Names template, tw_Public = gt_Public template,
              tw_SpawnCount = gt_SpawnCount template, tw_TemplateID = gt_TemplateID template,
              tw_UpdatedAt = updatedAt\<rparr>, s)))"

fun templateBuildRecords :: "uuid_lib \<Rightarrow> ('s \<Rightarrow> time \<times> 's) \<Rightarrow> managed_build list \<Rightarrow> 's \<Rightarrow> template_build list \<times> 's" where
  "templateBuildRecords lib now [] s = ([], s)"
| "templateBuildRecords lib now (record # records) s =
     (case templateBuild lib now (mb_Template record) s of (build, s) \<Rightarrow>
      (case templateBuildRecords lib now records s of (builds, s) \<Rightarrow> (build # builds, s)))"

definition templateLegacy :: "('s \<Rightarrow> time \<times> 's) \<Rightarrow> gateway_template \<Rightarrow> 's \<Rightarrow> template_legacy \<times> 's" where
  "templateLegacy now template s =
     (case clock_if_zero now (gt_CreatedAt template) s of (createdAt, s) \<Rightarrow>
        (let updatedAt = (if IsZero (gt_UpdatedAt template) then createdAt else gt_UpdatedAt template)
         in (\<lparr>tl_Aliases = gt_Aliases template, tl_BuildCount = gt_BuildCount template, tl_BuildID = gt_BuildID template,
              tl_CpuCount = gt_CpuCount template, tl_CreatedAt = createdAt, tl_CreatedBy = gt_CreatedBy template,
              tl_DiskSizeMB = gt_DiskSizeMB template, tl_EnvdVersion = gt_EnvdVersion template,
              tl_LastSpawnedAt = gt_LastSpawnedAt template, tl_MemoryMB = gt_MemoryMB template,
              tl_Public = gt_Public template, tl_SpawnCount = gt_SpawnCount template,
              tl_TemplateID = gt_TemplateID template, tl_UpdatedAt = updatedAt\<rparr>, s)))"

definition templateRequestResponseV3 :: "gateway_template \<Rightarrow> string list \<Rightarrow> template_response_v3" where
  "templateRequestResponseV3 template tags =
     \<lparr>tv_Aliases = gt_Aliases template, tv_BuildID = gt_BuildID template, tv_Names = gt_Names template,
      tv_Public = gt_Public template, tv_Tags = normalizedTags tags, tv_TemplateID = gt_TemplateID template\<rparr>"

section \<open>Volumes and ports\<close>

record volume_and_token =
  vt_VolumeID :: string
  vt_Name :: string
  vt_Token :: string

definition apiVolume :: "runtime_volume \<Rightarrow> runtime_volume" where
  "apiVolume volume = \<lparr>rv_VolumeID = rv_VolumeID volume, rv_Name = rv_Name volume\<rparr>"

definition apiCompatibleVolumeToken :: "runtime_volume \<Rightarrow> string" where
  "apiCompatibleVolumeToken volume =
     (let volumeID = TrimSpace (rv_VolumeID volume)
      in if volumeID \<noteq> [] then ''compat-volume-token-'' @ volumeID else [])"

definition apiVolumeAndToken :: "runtime_volume \<Rightarrow> volume_and_token" where
  "apiVolumeAndToken volume =
     \<lparr>vt_VolumeID = rv_VolumeID volume, vt_Name = rv_Name volume, vt_Token = apiCompatibleVolumeToken volume\<rparr>"

record port_response =
  pr_ContainerPort :: int
  pr_Host :: string
  pr_HostPort :: int
  pr_URL :: string
  pr_WSURL :: string
  pr_Protocol :: string

section \<open>The values of the responses\<close>

datatype api_value =
    V_Status string
  | V_Nodes "node list"
  | V_NodeDetail "string list" node
  | V_Sandbox sandbox_api_response
  | V_SandboxDetail sandbox_detail
  | V_ListedSandboxes "listed_sandbox list"
  | V_SandboxMetrics "sandbox_metric list"
  | V_SandboxesWithMetrics "(string, sandbox_metric) gomap"
  | V_Snapshot snapshot_info
  | V_Snapshots "snapshot_info list"
  | V_SandboxLogs "runtime_log_entry list" "sandbox_log list"
  | V_SandboxLogsV2 "runtime_log_entry list"
  | V_Templates "gateway_template list"
  | V_TemplateWithBuilds template_with_builds
  | V_TemplateAlias bool string
  | V_TemplateLegacy template_legacy
  | V_TemplateV3 template_response_v3
  | V_TemplateUpdate "string list"
  | V_TemplateBuildInfo build_info
  | V_TemplateBuildLogs "build_log_entry list"
  | V_TemplateFileUpload bool string
  | V_AssignedTags assigned_tags
  | V_TemplateTags "template_tag list"
  | V_Teams "team list"
  | V_TeamMetrics "team_metric list"
  | V_MaxTeamMetric "time \<times> int \<times> int \<times> int"
  | V_KillResult kill_result
  | V_CancelResult nat nat
  | V_Volumes "runtime_volume list"
  | V_Volume volume_and_token
  | V_Port port_response
  | V_VolumeEntry volume_entry_stat
  | V_VolumeEntries "volume_entry_stat list"

type_synonym api_response = "api_value response"

end
