(* ===== verification/ApiHandlers.thy ===== *)
theory ApiHandlers
  imports ApiTypes
begin

text \<open>
  The handlers of the API's routes (\<open>gateway_api.go\<close>), over a record of callbacks
  (\<open>GatewayCallbacks\<close>) and a state \<open>'s\<close>. A handler takes the request and gives its response and the
  next state. The JSON decoders and the query parser are parameters (\<open>api_lib\<close>). A callback field may
  be nil, and calling it then panics: \<open>the\<close> stands for the call, and \<open>WithDefaults\<close> leaves no nil
  callback (lemma \<open>WithDefaults_complete\<close>).
\<close>

section \<open>Request bodies\<close>

record resumed_sandbox =
  rs_AutoPause :: "bool option"
  rs_Timeout :: "32 word option"

record build_request_v2 =
  b2_Alias :: string
  b2_CpuCount :: "int option"
  b2_MemoryMB :: "int option"

record build_request_v3 =
  b3_Alias :: "string option"
  b3_CpuCount :: "int option"
  b3_MemoryMB :: "int option"
  b3_Name :: "string option"
  b3_Tags :: "string list option"

text \<open>The bodies of the tag requests: the target or name, and the tags.\<close>

record tags_request =
  tq_Name :: string
  tq_Tags :: "string list"

record page_params =
  pp_NextToken :: "string option"
  pp_Limit :: "32 word option"

text \<open>One decoder per type of body; \<open>url.ParseQuery\<close>.\<close>

type_synonym 'r decoder = "upload_body \<Rightarrow> go_error + 'r"

record api_lib =
  al_NodeStatus :: "string decoder"
  al_NewSandbox :: "new_sandbox decoder"
  al_ResumedSandbox :: "resumed_sandbox decoder"
  al_ConnectTimeout :: "32 word option decoder"
  al_Timeout :: "32 word decoder"
  al_Duration :: "64 word option decoder"
  al_SnapshotName :: "string option decoder"
  al_TemplateBuildRequest :: "build_request decoder"
  al_TemplateBuildRequestV2 :: "build_request_v2 decoder"
  al_TemplateBuildRequestV3 :: "build_request_v3 decoder"
  al_TemplateUpdate :: "bool option decoder"
  al_TemplateBuildStartV2 :: "build_start decoder"
  al_Tags :: "tags_request decoder"
  al_NewVolume :: "string decoder"
  al_ParseQuery :: query_parser

section \<open>Callbacks\<close>

record 's gateway_callbacks =
  cb_Health :: "(callback_ctx \<Rightarrow> ('s, unit) call) option"
  cb_CreateSandbox :: "(callback_ctx \<Rightarrow> new_sandbox \<Rightarrow> ('s, sandbox_record) call) option"
  cb_ListSandboxes :: "(callback_ctx \<Rightarrow> list_request \<Rightarrow> ('s, list_result) call) option"
  cb_GetSandbox :: "(callback_ctx \<Rightarrow> string \<Rightarrow> ('s, sandbox_record) call) option"
  cb_KillSandbox :: "(callback_ctx \<Rightarrow> string \<Rightarrow> ('s, unit) call) option"
  cb_PauseSandbox :: "(callback_ctx \<Rightarrow> string \<Rightarrow> ('s, sandbox_record) call) option"
  cb_ResumeSandbox :: "(callback_ctx \<Rightarrow> string \<Rightarrow> resumed_sandbox \<Rightarrow> ('s, sandbox_record) call) option"
  cb_ConnectSandbox :: "(callback_ctx \<Rightarrow> string \<Rightarrow> 32 word \<Rightarrow> ('s, sandbox_record \<times> bool) call) option"
  cb_SetSandboxTimeout :: "(callback_ctx \<Rightarrow> string \<Rightarrow> 32 word \<Rightarrow> ('s, unit) call) option"
  cb_RefreshSandbox :: "(callback_ctx \<Rightarrow> string \<Rightarrow> 64 word option \<Rightarrow> ('s, unit) call) option"
  cb_GetSandboxMetrics :: "(callback_ctx \<Rightarrow> string \<Rightarrow> metrics_request \<Rightarrow> ('s, sandbox_metric list) call) option"
  cb_ListSandboxMetrics :: "(callback_ctx \<Rightarrow> string list \<Rightarrow> ('s, (string, sandbox_metric) gomap) call) option"
  cb_CreateSandboxSnapshot :: "(callback_ctx \<Rightarrow> string \<Rightarrow> string option \<Rightarrow> ('s, snapshot_info) call) option"
  cb_ListSnapshots :: "(callback_ctx \<Rightarrow> snapshot_list_request \<Rightarrow> ('s, snapshot_info list) call) option"
  cb_GetSandboxLogs :: "(callback_ctx \<Rightarrow> string \<Rightarrow> logs_request \<Rightarrow> ('s, runtime_log_entry list) call) option"
  cb_GetSandboxLogsV2 :: "(callback_ctx \<Rightarrow> string \<Rightarrow> logs_request \<Rightarrow> ('s, runtime_log_entry list) call) option"
  cb_ListTemplates :: "(callback_ctx \<Rightarrow> string option \<Rightarrow> ('s, gateway_template list) call) option"
  cb_GetTemplate :: "(callback_ctx \<Rightarrow> string \<Rightarrow> page_params \<Rightarrow> ('s, template_with_builds) call) option"
  cb_GetTemplateAlias :: "(callback_ctx \<Rightarrow> string \<Rightarrow> ('s, bool \<times> string) call) option"
  cb_CreateTemplate :: "(callback_ctx \<Rightarrow> build_request \<Rightarrow> ('s, template_legacy) call) option"
  cb_CreateTemplateV2 :: "(callback_ctx \<Rightarrow> build_request_v2 \<Rightarrow> ('s, template_legacy) call) option"
  cb_CreateTemplateV3 :: "(callback_ctx \<Rightarrow> build_request_v3 \<Rightarrow> ('s, template_response_v3) call) option"
  cb_DeleteTemplate :: "(callback_ctx \<Rightarrow> string \<Rightarrow> ('s, unit) call) option"
  cb_UpdateTemplate :: "(callback_ctx \<Rightarrow> string \<Rightarrow> bool option \<Rightarrow> ('s, unit) call) option"
  cb_UpdateTemplateV2 :: "(callback_ctx \<Rightarrow> string \<Rightarrow> bool option \<Rightarrow> ('s, string list) call) option"
  cb_RebuildTemplate :: "(callback_ctx \<Rightarrow> string \<Rightarrow> build_request \<Rightarrow> ('s, template_legacy) call) option"
  cb_StartTemplateBuild :: "(callback_ctx \<Rightarrow> string \<Rightarrow> string \<Rightarrow> ('s, unit) call) option"
  cb_StartTemplateBuildV2 :: "(callback_ctx \<Rightarrow> string \<Rightarrow> string \<Rightarrow> build_start \<Rightarrow> ('s, unit) call) option"
  cb_GetTemplateBuildInfo :: "(callback_ctx \<Rightarrow> string \<Rightarrow> string \<Rightarrow> build_info_request \<Rightarrow> ('s, build_info) call) option"
  cb_GetTemplateBuildLogs :: "(callback_ctx \<Rightarrow> string \<Rightarrow> string \<Rightarrow> build_logs_request \<Rightarrow> ('s, build_log_entry list) call) option"
  cb_GetTemplateFileUpload :: "(callback_ctx \<Rightarrow> string \<Rightarrow> string \<Rightarrow> ('s, bool \<times> string) call) option"
  cb_AssignTemplateTags :: "(callback_ctx \<Rightarrow> tags_request \<Rightarrow> ('s, assigned_tags) call) option"
  cb_DeleteTemplateTags :: "(callback_ctx \<Rightarrow> tags_request \<Rightarrow> ('s, unit) call) option"
  cb_ListTemplateTags :: "(callback_ctx \<Rightarrow> string \<Rightarrow> ('s, template_tag list) call) option"
  cb_ListNodes :: "(callback_ctx \<Rightarrow> ('s, node list) call) option"
  cb_GetNode :: "(callback_ctx \<Rightarrow> string \<Rightarrow> string option \<Rightarrow> ('s, string list \<times> node) call) option"
  cb_SetNodeStatus :: "(callback_ctx \<Rightarrow> string \<Rightarrow> string \<Rightarrow> ('s, unit) call) option"
  cb_ListTeams :: "(callback_ctx \<Rightarrow> ('s, team list) call) option"
  cb_GetTeamMetrics :: "(callback_ctx \<Rightarrow> string \<Rightarrow> metrics_request \<Rightarrow> ('s, team_metric list) call) option"
  cb_GetTeamMetricMax :: "(callback_ctx \<Rightarrow> string \<Rightarrow> metrics_request \<Rightarrow> string \<Rightarrow> ('s, time \<times> int \<times> int \<times> int) call) option"
  cb_KillTeamSandboxes :: "(callback_ctx \<Rightarrow> string \<Rightarrow> ('s, kill_result) call) option"
  cb_CancelTeamBuilds :: "(callback_ctx \<Rightarrow> string \<Rightarrow> ('s, nat \<times> nat) call) option"
  cb_ListVolumes :: "(callback_ctx \<Rightarrow> ('s, runtime_volume list) call) option"
  cb_CreateVolume :: "(callback_ctx \<Rightarrow> string \<Rightarrow> ('s, volume_and_token) call) option"
  cb_GetVolume :: "(callback_ctx \<Rightarrow> string \<Rightarrow> ('s, volume_and_token) call) option"
  cb_DeleteVolume :: "(callback_ctx \<Rightarrow> string \<Rightarrow> ('s, unit) call) option"

text \<open>\<open>if callbacks.X == nil { callbacks.X = defaults.X }\<close>\<close>

definition or_default :: "'a option \<Rightarrow> 'a option \<Rightarrow> 'a option" where
  "or_default given def = (case given of None \<Rightarrow> def | Some f \<Rightarrow> Some f)"

definition WithDefaults :: "'s gateway_callbacks \<Rightarrow> 's gateway_callbacks \<Rightarrow> 's gateway_callbacks" where
  "WithDefaults callbacks defaults =
     \<lparr>cb_Health = or_default (cb_Health callbacks) (cb_Health defaults),
      cb_CreateSandbox = or_default (cb_CreateSandbox callbacks) (cb_CreateSandbox defaults),
      cb_ListSandboxes = or_default (cb_ListSandboxes callbacks) (cb_ListSandboxes defaults),
      cb_GetSandbox = or_default (cb_GetSandbox callbacks) (cb_GetSandbox defaults),
      cb_KillSandbox = or_default (cb_KillSandbox callbacks) (cb_KillSandbox defaults),
      cb_PauseSandbox = or_default (cb_PauseSandbox callbacks) (cb_PauseSandbox defaults),
      cb_ResumeSandbox = or_default (cb_ResumeSandbox callbacks) (cb_ResumeSandbox defaults),
      cb_ConnectSandbox = or_default (cb_ConnectSandbox callbacks) (cb_ConnectSandbox defaults),
      cb_SetSandboxTimeout = or_default (cb_SetSandboxTimeout callbacks) (cb_SetSandboxTimeout defaults),
      cb_RefreshSandbox = or_default (cb_RefreshSandbox callbacks) (cb_RefreshSandbox defaults),
      cb_GetSandboxMetrics = or_default (cb_GetSandboxMetrics callbacks) (cb_GetSandboxMetrics defaults),
      cb_ListSandboxMetrics = or_default (cb_ListSandboxMetrics callbacks) (cb_ListSandboxMetrics defaults),
      cb_CreateSandboxSnapshot = or_default (cb_CreateSandboxSnapshot callbacks) (cb_CreateSandboxSnapshot defaults),
      cb_ListSnapshots = or_default (cb_ListSnapshots callbacks) (cb_ListSnapshots defaults),
      cb_GetSandboxLogs = or_default (cb_GetSandboxLogs callbacks) (cb_GetSandboxLogs defaults),
      cb_GetSandboxLogsV2 = or_default (cb_GetSandboxLogsV2 callbacks) (cb_GetSandboxLogsV2 defaults),
      cb_ListTemplates = or_default (cb_ListTemplates callbacks) (cb_ListTemplates defaults),
      cb_GetTemplate = or_default (cb_GetTemplate callbacks) (cb_GetTemplate defaults),
      cb_GetTemplateAlias = or_default (cb_GetTemplateAlias callbacks) (cb_GetTemplateAlias defaults),
      cb_CreateTemplate = or_default (cb_CreateTemplate callbacks) (cb_CreateTemplate defaults),
      cb_CreateTemplateV2 = or_default (cb_CreateTemplateV2 callbacks) (cb_CreateTemplateV2 defaults),
      cb_CreateTemplateV3 = or_default (cb_CreateTemplateV3 callbacks) (cb_CreateTemplateV3 defaults),
      cb_DeleteTemplate = or_default (cb_DeleteTemplate callbacks) (cb_DeleteTemplate defaults),
      cb_UpdateTemplate = or_default (cb_UpdateTemplate callbacks) (cb_UpdateTemplate defaults),
      cb_UpdateTemplateV2 = or_default (cb_UpdateTemplateV2 callbacks) (cb_UpdateTemplateV2 defaults),
      cb_RebuildTemplate = or_default (cb_RebuildTemplate callbacks) (cb_RebuildTemplate defaults),
      cb_StartTemplateBuild = or_default (cb_StartTemplateBuild callbacks) (cb_StartTemplateBuild defaults),
      cb_StartTemplateBuildV2 = or_default (cb_StartTemplateBuildV2 callbacks) (cb_StartTemplateBuildV2 defaults),
      cb_GetTemplateBuildInfo = or_default (cb_GetTemplateBuildInfo callbacks) (cb_GetTemplateBuildInfo defaults),
      cb_GetTemplateBuildLogs = or_default (cb_GetTemplateBuildLogs callbacks) (cb_GetTemplateBuildLogs defaults),
      cb_GetTemplateFileUpload = or_default (cb_GetTemplateFileUpload callbacks) (cb_GetTemplateFileUpload defaults),
      cb_AssignTemplateTags = or_default (cb_AssignTemplateTags callbacks) (cb_AssignTemplateTags defaults),
      cb_DeleteTemplateTags = or_default (cb_DeleteTemplateTags callbacks) (cb_DeleteTemplateTags defaults),
      cb_ListTemplateTags = or_default (cb_ListTemplateTags callbacks) (cb_ListTemplateTags defaults),
      cb_ListNodes = or_default (cb_ListNodes callbacks) (cb_ListNodes defaults),
      cb_GetNode = or_default (cb_GetNode callbacks) (cb_GetNode defaults),
      cb_SetNodeStatus = or_default (cb_SetNodeStatus callbacks) (cb_SetNodeStatus defaults),
      cb_ListTeams = or_default (cb_ListTeams callbacks) (cb_ListTeams defaults),
      cb_GetTeamMetrics = or_default (cb_GetTeamMetrics callbacks) (cb_GetTeamMetrics defaults),
      cb_GetTeamMetricMax = or_default (cb_GetTeamMetricMax callbacks) (cb_GetTeamMetricMax defaults),
      cb_KillTeamSandboxes = or_default (cb_KillTeamSandboxes callbacks) (cb_KillTeamSandboxes defaults),
      cb_CancelTeamBuilds = or_default (cb_CancelTeamBuilds callbacks) (cb_CancelTeamBuilds defaults),
      cb_ListVolumes = or_default (cb_ListVolumes callbacks) (cb_ListVolumes defaults),
      cb_CreateVolume = or_default (cb_CreateVolume callbacks) (cb_CreateVolume defaults),
      cb_GetVolume = or_default (cb_GetVolume callbacks) (cb_GetVolume defaults),
      cb_DeleteVolume = or_default (cb_DeleteVolume callbacks) (cb_DeleteVolume defaults)\<rparr>"

definition no_nil_callback :: "'s gateway_callbacks \<Rightarrow> bool" where
  "no_nil_callback callbacks \<longleftrightarrow>
     cb_Health callbacks \<noteq> None \<and>
     cb_CreateSandbox callbacks \<noteq> None \<and>
     cb_ListSandboxes callbacks \<noteq> None \<and>
     cb_GetSandbox callbacks \<noteq> None \<and>
     cb_KillSandbox callbacks \<noteq> None \<and>
     cb_PauseSandbox callbacks \<noteq> None \<and>
     cb_ResumeSandbox callbacks \<noteq> None \<and>
     cb_ConnectSandbox callbacks \<noteq> None \<and>
     cb_SetSandboxTimeout callbacks \<noteq> None \<and>
     cb_RefreshSandbox callbacks \<noteq> None \<and>
     cb_GetSandboxMetrics callbacks \<noteq> None \<and>
     cb_ListSandboxMetrics callbacks \<noteq> None \<and>
     cb_CreateSandboxSnapshot callbacks \<noteq> None \<and>
     cb_ListSnapshots callbacks \<noteq> None \<and>
     cb_GetSandboxLogs callbacks \<noteq> None \<and>
     cb_GetSandboxLogsV2 callbacks \<noteq> None \<and>
     cb_ListTemplates callbacks \<noteq> None \<and>
     cb_GetTemplate callbacks \<noteq> None \<and>
     cb_GetTemplateAlias callbacks \<noteq> None \<and>
     cb_CreateTemplate callbacks \<noteq> None \<and>
     cb_CreateTemplateV2 callbacks \<noteq> None \<and>
     cb_CreateTemplateV3 callbacks \<noteq> None \<and>
     cb_DeleteTemplate callbacks \<noteq> None \<and>
     cb_UpdateTemplate callbacks \<noteq> None \<and>
     cb_UpdateTemplateV2 callbacks \<noteq> None \<and>
     cb_RebuildTemplate callbacks \<noteq> None \<and>
     cb_StartTemplateBuild callbacks \<noteq> None \<and>
     cb_StartTemplateBuildV2 callbacks \<noteq> None \<and>
     cb_GetTemplateBuildInfo callbacks \<noteq> None \<and>
     cb_GetTemplateBuildLogs callbacks \<noteq> None \<and>
     cb_GetTemplateFileUpload callbacks \<noteq> None \<and>
     cb_AssignTemplateTags callbacks \<noteq> None \<and>
     cb_DeleteTemplateTags callbacks \<noteq> None \<and>
     cb_ListTemplateTags callbacks \<noteq> None \<and>
     cb_ListNodes callbacks \<noteq> None \<and>
     cb_GetNode callbacks \<noteq> None \<and>
     cb_SetNodeStatus callbacks \<noteq> None \<and>
     cb_ListTeams callbacks \<noteq> None \<and>
     cb_GetTeamMetrics callbacks \<noteq> None \<and>
     cb_GetTeamMetricMax callbacks \<noteq> None \<and>
     cb_KillTeamSandboxes callbacks \<noteq> None \<and>
     cb_CancelTeamBuilds callbacks \<noteq> None \<and>
     cb_ListVolumes callbacks \<noteq> None \<and>
     cb_CreateVolume callbacks \<noteq> None \<and>
     cb_GetVolume callbacks \<noteq> None \<and>
     cb_DeleteVolume callbacks \<noteq> None"

lemma or_default_set: "def \<noteq> None \<Longrightarrow> or_default given def \<noteq> None"
  by (cases given) (simp_all add: or_default_def)

lemma WithDefaults_complete: "no_nil_callback defaults \<Longrightarrow> no_nil_callback (WithDefaults callbacks defaults)"
  unfolding no_nil_callback_def WithDefaults_def gateway_callbacks.simps
  by (intro conjI or_default_set) simp_all

section \<open>Handlers\<close>

type_synonym 's handler = "'s \<Rightarrow> api_response \<times> 's"

text \<open>\<open>x, err := call; if err != nil { writeGatewayError(c, err, fb); return }\<close>, then the response for \<open>x\<close>.\<close>

definition answer :: "('s, 'a) call \<Rightarrow> nat \<Rightarrow> ('a \<Rightarrow> 's handler) \<Rightarrow> 's handler" where
  "answer m fb ok s =
     (case m s of
        (Inl err, s) \<Rightarrow> (writeGatewayError err fb, s)
      | (Inr x, s) \<Rightarrow> ok x s)"

definition respond :: "api_response \<Rightarrow> 's handler" where
  "respond r s = (r, s)"

text \<open>\<open>if err := bindJSON(c, &req); err != nil { writeError(c, 400, err.Error()); return }\<close>\<close>

definition with_body :: "go_error + 'r \<Rightarrow> ('r \<Rightarrow> 's handler) \<Rightarrow> 's handler" where
  "with_body decoded run s =
     (case decoded of
        Inl err \<Rightarrow> (writeError 400 (error_text err), s)
      | Inr req \<Rightarrow> run req s)"

text \<open>The same for a parameter, whose error may carry its own status.\<close>

definition with_param :: "go_error + 'r \<Rightarrow> ('r \<Rightarrow> 's handler) \<Rightarrow> 's handler" where
  "with_param parsed run s =
     (case parsed of
        Inl err \<Rightarrow> (writeGatewayError err 400, s)
      | Inr v \<Rightarrow> run v s)"

definition json_body :: "'r decoder \<Rightarrow> http_request \<Rightarrow> go_error + 'r" where
  "json_body decode c = bindJSON decode (hr_Body c)"

definition optional_body :: "'r decoder \<Rightarrow> 'r \<Rightarrow> http_request \<Rightarrow> go_error + 'r" where
  "optional_body decode zero c = bindOptionalJSON decode zero (Some (hr_Body c, hr_ContentLength c))"

lemmas handler_simps = answer_def respond_def with_body_def with_param_def

section \<open>Health, nodes and teams\<close>

definition GetHealth :: "'s gateway_callbacks \<Rightarrow> http_request \<Rightarrow> 's handler" where
  "GetHealth cbs c =
     answer (the (cb_Health cbs) (callbackContext c)) 500 (\<lambda>u. respond (c_String 200 ''Health check successful''))"

definition GetNodes :: "'s gateway_callbacks \<Rightarrow> http_request \<Rightarrow> 's handler" where
  "GetNodes cbs c =
     answer (the (cb_ListNodes cbs) (callbackContext c)) 500 (\<lambda>nodes. respond (c_JSON 200 (V_Nodes nodes)))"

definition GetNodesNodeID :: "'s gateway_callbacks \<Rightarrow> string \<Rightarrow> string option \<Rightarrow> http_request \<Rightarrow> 's handler" where
  "GetNodesNodeID cbs nodeID clusterID c =
     answer (the (cb_GetNode cbs) (callbackContext c) nodeID clusterID) 500
       (\<lambda>(cachedBuilds, node). respond (c_JSON 200 (V_NodeDetail cachedBuilds node)))"

definition PostNodesNodeID :: "api_lib \<Rightarrow> 's gateway_callbacks \<Rightarrow> string \<Rightarrow> http_request \<Rightarrow> 's handler" where
  "PostNodesNodeID lib cbs nodeID c =
     with_body (optional_body (al_NodeStatus lib) [] c) (\<lambda>req.
       answer (the (cb_SetNodeStatus cbs) (callbackContext c) nodeID req) 500 (\<lambda>u. respond (c_Status 204)))"

definition GetTeams :: "'s gateway_callbacks \<Rightarrow> http_request \<Rightarrow> 's handler" where
  "GetTeams cbs c =
     answer (the (cb_ListTeams cbs) (callbackContext c)) 500 (\<lambda>teams. respond (c_JSON 200 (V_Teams teams)))"

definition GetTeamsTeamIDMetrics :: "'s gateway_callbacks \<Rightarrow> string \<Rightarrow> metrics_request \<Rightarrow> http_request \<Rightarrow> 's handler" where
  "GetTeamsTeamIDMetrics cbs teamID params c =
     answer (the (cb_GetTeamMetrics cbs) (callbackContext c) teamID
              \<lparr>mq_Start = mq_Start params, mq_End = mq_End params\<rparr>) 500
       (\<lambda>metrics. respond (c_JSON 200 (V_TeamMetrics metrics)))"

definition GetTeamsTeamIDMetricsMax :: "'s gateway_callbacks \<Rightarrow> string \<Rightarrow> metrics_request \<Rightarrow> string \<Rightarrow> http_request \<Rightarrow> 's handler" where
  "GetTeamsTeamIDMetricsMax cbs teamID params metric c =
     answer (the (cb_GetTeamMetricMax cbs) (callbackContext c) teamID
              \<lparr>mq_Start = mq_Start params, mq_End = mq_End params\<rparr> metric) 500
       (\<lambda>m. respond (c_JSON 200 (V_MaxTeamMetric m)))"

definition PostAdminTeamsTeamIDSandboxesKill :: "'s gateway_callbacks \<Rightarrow> string \<Rightarrow> http_request \<Rightarrow> 's handler" where
  "PostAdminTeamsTeamIDSandboxesKill cbs teamID c =
     answer (the (cb_KillTeamSandboxes cbs) (callbackContext c) teamID) 500
       (\<lambda>result. respond (c_JSON 200 (V_KillResult result)))"

definition PostAdminTeamsTeamIDBuildsCancel :: "'s gateway_callbacks \<Rightarrow> string \<Rightarrow> http_request \<Rightarrow> 's handler" where
  "PostAdminTeamsTeamIDBuildsCancel cbs teamID c =
     answer (the (cb_CancelTeamBuilds cbs) (callbackContext c) teamID) 500
       (\<lambda>(cancelled, failed). respond (c_JSON 200 (V_CancelResult cancelled failed)))"

section \<open>Sandboxes\<close>

definition PostSandboxes :: "api_lib \<Rightarrow> 's gateway_callbacks \<Rightarrow> http_request \<Rightarrow> 's handler" where
  "PostSandboxes lib cbs c =
     with_body (json_body (al_NewSandbox lib) c) (\<lambda>req.
       answer (the (cb_CreateSandbox cbs) (callbackContext c) req) 500
         (\<lambda>record. respond (c_JSON 201 (V_Sandbox (apiSandboxResponse record)))))"

definition GetSandboxes :: "api_lib \<Rightarrow> 's gateway_callbacks \<Rightarrow> string option \<Rightarrow> http_request \<Rightarrow> 's handler" where
  "GetSandboxes lib cbs metadata c =
     with_param (parseMetadataFilter (al_ParseQuery lib) metadata) (\<lambda>filt.
       answer (the (cb_ListSandboxes cbs) (callbackContext c)
                 \<lparr>lr_Metadata = filt, lr_States = [Running], lr_NextToken = [], lr_Limit = maxSandboxListLimit\<rparr>) 500
         (\<lambda>result. respond (c_JSON 200 (V_ListedSandboxes (apiListedSandboxes (ls_Items result))))))"

record v2_list_params =
  lp_Metadata :: "string option"
  lp_State :: "string list option"
  lp_NextToken :: "string option"
  lp_Limit :: "32 word option"

definition v2_list_headers :: "list_result \<Rightarrow> (string, string) gomap" where
  "v2_list_headers result =
     (if ls_NextToken result \<noteq> [] then [(''X-Next-Token'', ls_NextToken result)] else []) @
     [(''X-Total-Running'', intHeader (ls_TotalRunning result))]"

definition GetV2Sandboxes :: "api_lib \<Rightarrow> 's gateway_callbacks \<Rightarrow> v2_list_params \<Rightarrow> http_request \<Rightarrow> 's handler" where
  "GetV2Sandboxes lib cbs params c =
     with_param (parseMetadataFilter (al_ParseQuery lib) (lp_Metadata params)) (\<lambda>filt.
       let states = (case lp_State params of None \<Rightarrow> [Running, Paused] | Some states \<Rightarrow> states)
       in with_param (paginationLimit (lp_Limit params)) (\<lambda>limit.
            let nextToken = (case lp_NextToken params of None \<Rightarrow> [] | Some token \<Rightarrow> token)
            in answer (the (cb_ListSandboxes cbs) (callbackContext c)
                        \<lparr>lr_Metadata = filt, lr_States = states, lr_NextToken = nextToken, lr_Limit = limit\<rparr>) 500
                 (\<lambda>result. respond ((c_JSON 200 (V_ListedSandboxes (apiListedSandboxes (ls_Items result))))
                                     \<lparr>rp_headers := v2_list_headers result\<rparr>))))"

definition GetSandboxesMetrics :: "'s gateway_callbacks \<Rightarrow> string list \<Rightarrow> http_request \<Rightarrow> 's handler" where
  "GetSandboxesMetrics cbs sandboxIds c =
     answer (the (cb_ListSandboxMetrics cbs) (callbackContext c) sandboxIds) 500
       (\<lambda>result. respond (c_JSON 200 (V_SandboxesWithMetrics result)))"

definition GetSandboxesSandboxID :: "'s gateway_callbacks \<Rightarrow> string \<Rightarrow> http_request \<Rightarrow> 's handler" where
  "GetSandboxesSandboxID cbs sandboxID c =
     answer (the (cb_GetSandbox cbs) (callbackContext c) sandboxID) 404
       (\<lambda>record. respond (c_JSON 200 (V_SandboxDetail (apiSandboxDetailResponse record))))"

definition GetSandboxesSandboxIDMetrics :: "'s gateway_callbacks \<Rightarrow> string \<Rightarrow> metrics_request \<Rightarrow> http_request \<Rightarrow> 's handler" where
  "GetSandboxesSandboxIDMetrics cbs sandboxID params c =
     answer (the (cb_GetSandboxMetrics cbs) (callbackContext c) sandboxID
              \<lparr>mq_Start = mq_Start params, mq_End = mq_End params\<rparr>) 500
       (\<lambda>metrics. respond (c_JSON 200 (V_SandboxMetrics metrics)))"

definition DeleteSandboxesSandboxID :: "'s gateway_callbacks \<Rightarrow> string \<Rightarrow> http_request \<Rightarrow> 's handler" where
  "DeleteSandboxesSandboxID cbs sandboxID c =
     answer (the (cb_KillSandbox cbs) (callbackContext c) sandboxID) 500 (\<lambda>u. respond (c_Status 204))"

definition PostSandboxesSandboxIDPause :: "'s gateway_callbacks \<Rightarrow> string \<Rightarrow> http_request \<Rightarrow> 's handler" where
  "PostSandboxesSandboxIDPause cbs sandboxID c =
     answer (the (cb_PauseSandbox cbs) (callbackContext c) sandboxID) 500 (\<lambda>record. respond (c_Status 204))"

definition PostSandboxesSandboxIDResume :: "api_lib \<Rightarrow> 's gateway_callbacks \<Rightarrow> string \<Rightarrow> http_request \<Rightarrow> 's handler" where
  "PostSandboxesSandboxIDResume lib cbs sandboxID c =
     with_body (optional_body (al_ResumedSandbox lib) \<lparr>rs_AutoPause = None, rs_Timeout = None\<rparr> c) (\<lambda>req.
       answer (the (cb_ResumeSandbox cbs) (callbackContext c) sandboxID req) 500
         (\<lambda>record. respond (c_JSON 201 (V_Sandbox (apiSandboxResponse record)))))"

definition PostSandboxesSandboxIDConnect :: "api_lib \<Rightarrow> 's gateway_callbacks \<Rightarrow> string \<Rightarrow> http_request \<Rightarrow> 's handler" where
  "PostSandboxesSandboxIDConnect lib cbs sandboxID c =
     with_body (json_body (al_ConnectTimeout lib) c) (\<lambda>body.
       case body of
         None \<Rightarrow> respond (writeError 400 ''timeout is required'')
       | Some timeout \<Rightarrow>
           answer (the (cb_ConnectSandbox cbs) (callbackContext c) sandboxID timeout) 500
             (\<lambda>(record, resumed).
                let status = (if resumed then 201 else 200)
                in respond (c_JSON status (V_Sandbox (apiSandboxResponse record)))))"

definition PostSandboxesSandboxIDTimeout :: "api_lib \<Rightarrow> 's gateway_callbacks \<Rightarrow> string \<Rightarrow> http_request \<Rightarrow> 's handler" where
  "PostSandboxesSandboxIDTimeout lib cbs sandboxID c =
     with_body (json_body (al_Timeout lib) c) (\<lambda>req.
       answer (the (cb_SetSandboxTimeout cbs) (callbackContext c) sandboxID req) 500 (\<lambda>u. respond (c_Status 204)))"

definition PostSandboxesSandboxIDRefreshes :: "api_lib \<Rightarrow> 's gateway_callbacks \<Rightarrow> string \<Rightarrow> http_request \<Rightarrow> 's handler" where
  "PostSandboxesSandboxIDRefreshes lib cbs sandboxID c =
     with_body (optional_body (al_Duration lib) None c) (\<lambda>req.
       answer (the (cb_RefreshSandbox cbs) (callbackContext c) sandboxID req) 500 (\<lambda>u. respond (c_Status 204)))"

definition PostSandboxesSandboxIDSnapshots :: "api_lib \<Rightarrow> 's gateway_callbacks \<Rightarrow> string \<Rightarrow> http_request \<Rightarrow> 's handler" where
  "PostSandboxesSandboxIDSnapshots lib cbs sandboxID c =
     with_body (json_body (al_SnapshotName lib) c) (\<lambda>req.
       answer (the (cb_CreateSandboxSnapshot cbs) (callbackContext c) sandboxID req) 500
         (\<lambda>snapshot. respond (c_JSON 201 (V_Snapshot snapshot))))"

definition GetSnapshots :: "'s gateway_callbacks \<Rightarrow> string option \<Rightarrow> page_params \<Rightarrow> http_request \<Rightarrow> 's handler" where
  "GetSnapshots cbs sandboxID params c =
     with_param (paginationLimit (pp_Limit params)) (\<lambda>limit.
       let req = \<lparr>sl_SandboxID = (case sandboxID of None \<Rightarrow> [] | Some i \<Rightarrow> i),
                  sl_NextToken = (case pp_NextToken params of None \<Rightarrow> [] | Some t \<Rightarrow> t), sl_Limit = limit\<rparr>
       in answer (the (cb_ListSnapshots cbs) (callbackContext c) req) 500
            (\<lambda>snapshots. respond (c_JSON 200 (V_Snapshots snapshots))))"

record log_params =
  gp_Cursor :: "int option"
  gp_Limit :: "32 word option"
  gp_Direction :: "string option"
  gp_Level :: "string option"
  gp_Search :: "string option"

definition GetSandboxesSandboxIDLogs :: "('s \<Rightarrow> time \<times> 's) \<Rightarrow> 's gateway_callbacks \<Rightarrow> string \<Rightarrow> int option \<Rightarrow>
    32 word option \<Rightarrow> http_request \<Rightarrow> 's handler" where
  "GetSandboxesSandboxIDLogs now cbs sandboxID start limit c =
     answer (the (cb_GetSandboxLogs cbs) (callbackContext c) sandboxID
              \<lparr>lq_Cursor = None, lq_Start = start, lq_Limit = logLimit limit, lq_Direction = None, lq_Level = None,
               lq_Search = None\<rparr>) 500
       (\<lambda>entries s.
          case apiSandboxLogs now entries s of (logs, s) \<Rightarrow>
          (case apiSandboxLogEntries now entries s of (logEntries, s) \<Rightarrow>
             respond (c_JSON 200 (V_SandboxLogs logEntries logs)) s))"

definition GetV2SandboxesSandboxIDLogs :: "('s \<Rightarrow> time \<times> 's) \<Rightarrow> 's gateway_callbacks \<Rightarrow> string \<Rightarrow> log_params \<Rightarrow>
    http_request \<Rightarrow> 's handler" where
  "GetV2SandboxesSandboxIDLogs now cbs sandboxID params c =
     answer (the (cb_GetSandboxLogsV2 cbs) (callbackContext c) sandboxID
              \<lparr>lq_Cursor = gp_Cursor params, lq_Start = None, lq_Limit = logLimit (gp_Limit params),
               lq_Direction = gp_Direction params, lq_Level = gp_Level params, lq_Search = gp_Search params\<rparr>) 500
       (\<lambda>entries s.
          case apiSandboxLogEntries now entries s of (logEntries, s) \<Rightarrow>
            respond (c_JSON 200 (V_SandboxLogsV2 logEntries)) s)"

section \<open>Templates\<close>

definition GetTemplates :: "'s gateway_callbacks \<Rightarrow> string option \<Rightarrow> http_request \<Rightarrow> 's handler" where
  "GetTemplates cbs teamID c =
     answer (the (cb_ListTemplates cbs) (callbackContext c) teamID) 500
       (\<lambda>templates. respond (c_JSON 200 (V_Templates templates)))"

definition GetTemplatesTemplateID :: "'s gateway_callbacks \<Rightarrow> string \<Rightarrow> page_params \<Rightarrow> http_request \<Rightarrow> 's handler" where
  "GetTemplatesTemplateID cbs templateID params c =
     answer (the (cb_GetTemplate cbs) (callbackContext c) templateID params) 500
       (\<lambda>template. respond (c_JSON 200 (V_TemplateWithBuilds template)))"

definition GetTemplatesAliasesAlias :: "'s gateway_callbacks \<Rightarrow> string \<Rightarrow> http_request \<Rightarrow> 's handler" where
  "GetTemplatesAliasesAlias cbs alias c =
     answer (the (cb_GetTemplateAlias cbs) (callbackContext c) alias) 500
       (\<lambda>(public, templateID). respond (c_JSON 200 (V_TemplateAlias public templateID)))"

definition PostTemplates :: "api_lib \<Rightarrow> 's gateway_callbacks \<Rightarrow> http_request \<Rightarrow> 's handler" where
  "PostTemplates lib cbs c =
     with_body (json_body (al_TemplateBuildRequest lib) c) (\<lambda>req.
       answer (the (cb_CreateTemplate cbs) (callbackContext c) req) 500
         (\<lambda>template. respond (c_JSON 202 (V_TemplateLegacy template))))"

definition PostV2Templates :: "api_lib \<Rightarrow> 's gateway_callbacks \<Rightarrow> http_request \<Rightarrow> 's handler" where
  "PostV2Templates lib cbs c =
     with_body (json_body (al_TemplateBuildRequestV2 lib) c) (\<lambda>req.
       answer (the (cb_CreateTemplateV2 cbs) (callbackContext c) req) 500
         (\<lambda>template. respond (c_JSON 202 (V_TemplateLegacy template))))"

definition PostV3Templates :: "api_lib \<Rightarrow> 's gateway_callbacks \<Rightarrow> http_request \<Rightarrow> 's handler" where
  "PostV3Templates lib cbs c =
     with_body (json_body (al_TemplateBuildRequestV3 lib) c) (\<lambda>req.
       answer (the (cb_CreateTemplateV3 cbs) (callbackContext c) req) 500
         (\<lambda>template. respond (c_JSON 202 (V_TemplateV3 template))))"

definition DeleteTemplatesTemplateID :: "'s gateway_callbacks \<Rightarrow> string \<Rightarrow> http_request \<Rightarrow> 's handler" where
  "DeleteTemplatesTemplateID cbs templateID c =
     answer (the (cb_DeleteTemplate cbs) (callbackContext c) templateID) 500 (\<lambda>u. respond (c_Status 204))"

definition PatchTemplatesTemplateID :: "api_lib \<Rightarrow> 's gateway_callbacks \<Rightarrow> string \<Rightarrow> http_request \<Rightarrow> 's handler" where
  "PatchTemplatesTemplateID lib cbs templateID c =
     with_body (json_body (al_TemplateUpdate lib) c) (\<lambda>req.
       answer (the (cb_UpdateTemplate cbs) (callbackContext c) templateID req) 500 (\<lambda>u. respond (c_Status 200)))"

definition PatchV2TemplatesTemplateID :: "api_lib \<Rightarrow> 's gateway_callbacks \<Rightarrow> string \<Rightarrow> http_request \<Rightarrow> 's handler" where
  "PatchV2TemplatesTemplateID lib cbs templateID c =
     with_body (json_body (al_TemplateUpdate lib) c) (\<lambda>req.
       answer (the (cb_UpdateTemplateV2 cbs) (callbackContext c) templateID req) 500
         (\<lambda>names. respond (c_JSON 200 (V_TemplateUpdate names))))"

definition PostTemplatesTemplateID :: "api_lib \<Rightarrow> 's gateway_callbacks \<Rightarrow> string \<Rightarrow> http_request \<Rightarrow> 's handler" where
  "PostTemplatesTemplateID lib cbs templateID c =
     with_body (json_body (al_TemplateBuildRequest lib) c) (\<lambda>req.
       answer (the (cb_RebuildTemplate cbs) (callbackContext c) templateID req) 500
         (\<lambda>template. respond (c_JSON 202 (V_TemplateLegacy template))))"

definition PostTemplatesTemplateIDBuildsBuildID :: "'s gateway_callbacks \<Rightarrow> string \<Rightarrow> string \<Rightarrow> http_request \<Rightarrow> 's handler" where
  "PostTemplatesTemplateIDBuildsBuildID cbs templateID buildID c =
     answer (the (cb_StartTemplateBuild cbs) (callbackContext c) templateID buildID) 500 (\<lambda>u. respond (c_Status 202))"

definition PostV2TemplatesTemplateIDBuildsBuildID :: "api_lib \<Rightarrow> 's gateway_callbacks \<Rightarrow> string \<Rightarrow> string \<Rightarrow>
    http_request \<Rightarrow> 's handler" where
  "PostV2TemplatesTemplateIDBuildsBuildID lib cbs templateID buildID c =
     with_body (json_body (al_TemplateBuildStartV2 lib) c) (\<lambda>req.
       answer (the (cb_StartTemplateBuildV2 cbs) (callbackContext c) templateID buildID req) 500
         (\<lambda>u. respond (c_Status 202)))"

definition GetTemplatesTemplateIDBuildsBuildIDStatus :: "'s gateway_callbacks \<Rightarrow> string \<Rightarrow> string \<Rightarrow> build_info_request \<Rightarrow>
    http_request \<Rightarrow> 's handler" where
  "GetTemplatesTemplateIDBuildsBuildIDStatus cbs templateID buildID params c =
     answer (the (cb_GetTemplateBuildInfo cbs) (callbackContext c) templateID buildID
              \<lparr>bq_LogsOffset = bq_LogsOffset params, bq_Limit = bq_Limit params, bq_Level = bq_Level params\<rparr>) 500
       (\<lambda>info. respond (c_JSON 200 (V_TemplateBuildInfo info)))"

text \<open>The request's \<open>Source\<close> is passed on and read by no callback of the program; it is left out.\<close>

definition GetTemplatesTemplateIDBuildsBuildIDLogs :: "'s gateway_callbacks \<Rightarrow> string \<Rightarrow> string \<Rightarrow> build_logs_request \<Rightarrow>
    http_request \<Rightarrow> 's handler" where
  "GetTemplatesTemplateIDBuildsBuildIDLogs cbs templateID buildID params c =
     answer (the (cb_GetTemplateBuildLogs cbs) (callbackContext c) templateID buildID params) 500
       (\<lambda>logs. respond (c_JSON 200 (V_TemplateBuildLogs logs)))"

definition GetTemplatesTemplateIDFilesHash :: "'s gateway_callbacks \<Rightarrow> string \<Rightarrow> string \<Rightarrow> http_request \<Rightarrow> 's handler" where
  "GetTemplatesTemplateIDFilesHash cbs templateID hash c =
     answer (the (cb_GetTemplateFileUpload cbs) (callbackContext c) templateID hash) 500
       (\<lambda>(present, url). respond (c_JSON 201 (V_TemplateFileUpload present url)))"

definition PostTemplatesTags :: "api_lib \<Rightarrow> 's gateway_callbacks \<Rightarrow> http_request \<Rightarrow> 's handler" where
  "PostTemplatesTags lib cbs c =
     with_body (json_body (al_Tags lib) c) (\<lambda>req.
       answer (the (cb_AssignTemplateTags cbs) (callbackContext c) req) 500
         (\<lambda>tags. respond (c_JSON 201 (V_AssignedTags tags))))"

definition DeleteTemplatesTags :: "api_lib \<Rightarrow> 's gateway_callbacks \<Rightarrow> http_request \<Rightarrow> 's handler" where
  "DeleteTemplatesTags lib cbs c =
     with_body (json_body (al_Tags lib) c) (\<lambda>req.
       answer (the (cb_DeleteTemplateTags cbs) (callbackContext c) req) 500 (\<lambda>u. respond (c_Status 204)))"

definition GetTemplatesTemplateIDTags :: "'s gateway_callbacks \<Rightarrow> string \<Rightarrow> http_request \<Rightarrow> 's handler" where
  "GetTemplatesTemplateIDTags cbs templateID c =
     answer (the (cb_ListTemplateTags cbs) (callbackContext c) templateID) 500
       (\<lambda>tags. respond (c_JSON 200 (V_TemplateTags tags)))"

section \<open>Volumes\<close>

definition GetVolumes :: "'s gateway_callbacks \<Rightarrow> http_request \<Rightarrow> 's handler" where
  "GetVolumes cbs c =
     answer (the (cb_ListVolumes cbs) (callbackContext c)) 500 (\<lambda>volumes. respond (c_JSON 200 (V_Volumes volumes)))"

definition PostVolumes :: "api_lib \<Rightarrow> 's gateway_callbacks \<Rightarrow> http_request \<Rightarrow> 's handler" where
  "PostVolumes lib cbs c =
     with_body (json_body (al_NewVolume lib) c) (\<lambda>req.
       answer (the (cb_CreateVolume cbs) (callbackContext c) req) 500
         (\<lambda>volume. respond (c_JSON 201 (V_Volume volume))))"

definition GetVolumesVolumeID :: "'s gateway_callbacks \<Rightarrow> string \<Rightarrow> http_request \<Rightarrow> 's handler" where
  "GetVolumesVolumeID cbs volumeID c =
     answer (the (cb_GetVolume cbs) (callbackContext c) volumeID) 404
       (\<lambda>volume. respond (c_JSON 200 (V_Volume volume)))"

definition DeleteVolumesVolumeID :: "'s gateway_callbacks \<Rightarrow> string \<Rightarrow> http_request \<Rightarrow> 's handler" where
  "DeleteVolumesVolumeID cbs volumeID c =
     answer (the (cb_DeleteVolume cbs) (callbackContext c) volumeID) 500 (\<lambda>u. respond (c_Status 204))"

section \<open>Routes that are registered and not implemented\<close>

text \<open>
  \<open>App\<close> embeds \<open>unimplementedGatewayAPI\<close>, whose method for every route of the API calls the fallback
  \<open>handleUnimplementedGatewayRoute\<close>. \<open>App\<close> declares the methods above itself; these are the others.
\<close>

datatype embedded_method =
    PostAccessTokens
  | DeleteAccessTokensAccessTokenID string
  | GetApiKeys
  | PostApiKeys
  | DeleteApiKeysApiKeyID string
  | PatchApiKeysApiKeyID string
  | PutSandboxesSandboxIDNetwork string

definition writeNotImplemented :: "'s handler" where
  "writeNotImplemented = respond (writeError 501 ''route is registered but not implemented by e2b-local'')"

definition unimplementedGatewayAPI :: "'s handler option \<Rightarrow> embedded_method \<Rightarrow> 's handler" where
  "unimplementedGatewayAPI fallback m = (case fallback of Some h \<Rightarrow> h | None \<Rightarrow> writeNotImplemented)"

definition handleUnimplementedGatewayRoute :: "'s handler" where
  "handleUnimplementedGatewayRoute = writeNotImplemented"

end
