(* ===== verification/ServerUrls.thy ===== *)
theory ServerUrls
  imports ApiTypes
begin

text \<open>
  The URLs the gateway hands out and the routes it matches: \<open>url.PathEscape\<close> and
  \<open>url.Values.Encode\<close>, the upload URL of a template file (\<open>gateway_callbacks.go\<close>), and the routes of
  \<open>server.go\<close> with gin's matching of a path against a pattern. The lemmas show that a request for an
  upload URL reaches the upload handler with the template, hash and token it was made for.
\<close>

section \<open>Escaping\<close>

definition is_alnum :: "char \<Rightarrow> bool" where
  "is_alnum c \<longleftrightarrow> (CHR ''a'' \<le> c \<and> c \<le> CHR ''z'') \<or> (CHR ''A'' \<le> c \<and> c \<le> CHR ''Z'') \<or> (CHR ''0'' \<le> c \<and> c \<le> CHR ''9'')"

text \<open>The characters that stand for themselves in a segment of a path, and in a query.\<close>

definition path_plain :: "char \<Rightarrow> bool" where
  "path_plain c \<longleftrightarrow> is_alnum c \<or> c \<in> set ''-_.~$&+:=@''"

definition query_plain :: "char \<Rightarrow> bool" where
  "query_plain c \<longleftrightarrow> is_alnum c \<or> c \<in> set ''-_.~''"

definition upper_hex :: "nat \<Rightarrow> char" where
  "upper_hex n = (if n < 10 then char_of (48 + n) else char_of (55 + n))"

definition percent :: "char \<Rightarrow> string" where
  "percent c = [CHR ''%'', upper_hex (of_char c div 16), upper_hex (of_char c mod 16)]"

definition url_PathEscape :: "string \<Rightarrow> string" where
  "url_PathEscape s = concat (map (\<lambda>c. if path_plain c then [c] else percent c) s)"

definition url_QueryEscape :: "string \<Rightarrow> string" where
  "url_QueryEscape s =
     concat (map (\<lambda>c. if c = CHR '' '' then ''+'' else if query_plain c then [c] else percent c) s)"

text \<open>What a server makes of the path of a request: \<open>None\<close> for a percent sign without two digits.\<close>

definition unhex :: "char \<Rightarrow> nat option" where
  "unhex c =
     (let n = of_char c :: nat
      in if 48 \<le> n \<and> n \<le> 57 then Some (n - 48)
         else if 97 \<le> n \<and> n \<le> 102 then Some (n - 87)
         else if 65 \<le> n \<and> n \<le> 70 then Some (n - 55)
         else None)"

fun unescape :: "bool \<Rightarrow> string \<Rightarrow> string option" where
  "unescape query [] = Some []"
| "unescape query (c # s) =
     (if c = CHR ''%'' then
        (case s of
           a # b # r \<Rightarrow>
             (case (unhex a, unhex b) of
                (Some x, Some y) \<Rightarrow> map_option ((#) (char_of (16 * x + y))) (unescape query r)
              | _ \<Rightarrow> None)
         | _ \<Rightarrow> None)
      else map_option ((#) (if query \<and> c = CHR ''+'' then CHR '' '' else c)) (unescape query s))"

lemma of_char_upper: "n < 16 \<Longrightarrow> of_char (upper_hex n) = (if n < 10 then 48 + n else 55 + n)"
  by (simp add: upper_hex_def of_char_of)

lemma unhex_upper: "n < 16 \<Longrightarrow> unhex (upper_hex n) = Some n"
  by (auto simp: unhex_def of_char_upper)

lemma char_halves: "(of_char c :: nat) div 16 < 16" "(of_char c :: nat) mod 16 < 16"
  using nat_of_char_less_256 [of c] by (simp_all add: less_mult_imp_div_less)

lemma unescape_percent: "unescape query (percent c @ s) = map_option ((#) c) (unescape query s)"
proof -
  have "unescape query (percent c @ s) = map_option ((#) (char_of (16 * (of_char c div 16) + of_char c mod 16 :: nat))) (unescape query s)"
    using char_halves [of c] by (simp add: percent_def unhex_upper)
  then show ?thesis by simp
qed

lemma unescape_char:
  assumes "c \<noteq> CHR ''%''" and "query \<Longrightarrow> c \<noteq> CHR ''+''"
  shows "unescape query (c # s) = map_option ((#) c) (unescape query s)"
  using assms by (cases query) simp_all

lemma unescape_PathEscape: "unescape False (url_PathEscape s @ r) = map_option ((@) s) (unescape False r)"
proof (induction s)
  case Nil
  show ?case by (cases "unescape False r") (simp_all add: url_PathEscape_def)
next
  case (Cons c s)
  have "c \<noteq> CHR ''%''" if "path_plain c" using that by (auto simp: path_plain_def is_alnum_def)
  with Cons show ?case
    by (cases "path_plain c"; cases "unescape False r")
       (simp_all add: url_PathEscape_def unescape_percent del: unescape.simps(2) add: unescape_char)
qed

lemma unescape_QueryEscape: "unescape True (url_QueryEscape s) = Some s"
proof (induction s)
  case Nil
  show ?case by (simp add: url_QueryEscape_def)
next
  case (Cons c s)
  have plain: "c \<noteq> CHR ''%'' \<and> c \<noteq> CHR ''+''" if "query_plain c" using that by (auto simp: query_plain_def is_alnum_def)
  show ?case
  proof (cases "c = CHR '' ''")
    case True
    with Cons show ?thesis by (simp add: url_QueryEscape_def)
  next
    case False
    with Cons plain show ?thesis
      by (cases "query_plain c") (simp_all add: url_QueryEscape_def unescape_percent del: unescape.simps(2) add: unescape_char)
  qed
qed

lemma upper_hex_alnum: "n < 16 \<Longrightarrow> is_alnum (upper_hex n)"
  by (auto simp: is_alnum_def less_eq_char_def of_char_upper)

lemma percent_chars: "set (percent c) \<subseteq> insert CHR ''%'' (Collect is_alnum)"
  using char_halves [of c] by (auto simp: percent_def intro!: upper_hex_alnum)

lemma PathEscape_chars: "set (url_PathEscape s) \<subseteq> insert CHR ''%'' (Collect path_plain)"
  using percent_chars by (fastforce simp: url_PathEscape_def path_plain_def split: if_splits)

section \<open>Routes (server.go)\<close>

text \<open>
  A pattern's segment is a text or a parameter, which matches any segment that is not empty. gin
  matches the path with its escapes undone.
\<close>

datatype segment = Lit string | Param string

definition path_segments :: "string \<Rightarrow> string list" where
  "path_segments p = Split CHR ''/'' (TrimPrefix p ''/'')"

fun match_segments :: "segment list \<Rightarrow> string list \<Rightarrow> (string, string) gomap option" where
  "match_segments [] [] = Some []"
| "match_segments (Lit t # ps) (s # ss) = (if s = t then match_segments ps ss else None)"
| "match_segments (Param n # ps) (s # ss) =
     (if s = [] then None else map_option ((#) (n, s)) (match_segments ps ss))"
| "match_segments ps ss = None"

datatype server_route =
    R_Healthz
  | R_V2Templates
  | R_SandboxPort
  | R_VolumePathGet
  | R_VolumeFileGet
  | R_VolumeFilePut
  | R_VolumeDirGet
  | R_VolumeDirPost
  | R_TemplateFileUpload

text \<open>The routes \<open>NewAppWithCallbacks\<close> adds to those of the generated API.\<close>

definition server_routes :: "(string \<times> segment list \<times> server_route) list" where
  "server_routes =
     [(''GET'', [Lit ''healthz''], R_Healthz),
      (''GET'', [Lit ''v2'', Lit ''templates''], R_V2Templates),
      (''GET'', [Lit ''sandboxes'', Param ''sandboxID'', Lit ''ports'', Param ''port''], R_SandboxPort),
      (''GET'', [Lit ''volumecontent'', Param ''volumeID'', Lit ''path''], R_VolumePathGet),
      (''GET'', [Lit ''volumecontent'', Param ''volumeID'', Lit ''file''], R_VolumeFileGet),
      (''PUT'', [Lit ''volumecontent'', Param ''volumeID'', Lit ''file''], R_VolumeFilePut),
      (''GET'', [Lit ''volumecontent'', Param ''volumeID'', Lit ''dir''], R_VolumeDirGet),
      (''POST'', [Lit ''volumecontent'', Param ''volumeID'', Lit ''dir''], R_VolumeDirPost),
      (''PUT'', [Lit ''_e2b'', Lit ''template-files'', Param ''templateID'', Param ''hash''], R_TemplateFileUpload)]"

fun find_route :: "string \<Rightarrow> string list \<Rightarrow> (string \<times> segment list \<times> server_route) list \<Rightarrow>
    (server_route \<times> (string, string) gomap) option" where
  "find_route meth segs [] = None"
| "find_route meth segs ((m, pattern, r) # routes) =
     (case (if m = meth then match_segments pattern segs else None) of
        Some params \<Rightarrow> Some (r, params)
      | None \<Rightarrow> find_route meth segs routes)"

section \<open>The URL of an upload\<close>

definition templateFileUploadURL :: "callback_ctx \<Rightarrow> string \<Rightarrow> string \<Rightarrow> string \<Rightarrow> go_error + string" where
  "templateFileUploadURL ctx templateID hash token =
     (case inboundRequestBaseURL ctx of
        None \<Rightarrow> Inl (GatewayError 500 ''cannot determine gateway upload URL'')
      | Some base \<Rightarrow>
          Inr (base @ ''/_e2b/template-files/'' @ url_PathEscape templateID @ ''/'' @ url_PathEscape hash @ ''?'' @
               (''token='' @ url_QueryEscape token)))"

text \<open>
  What a server finds in the part of a URL behind its host: the path up to the first question mark
  and the value of a single query parameter.
\<close>

definition split_query :: "string \<Rightarrow> string \<times> string" where
  "split_query u = (case index_char CHR ''?'' u of None \<Rightarrow> (u, []) | Some i \<Rightarrow> (take i u, drop (Suc i) u))"

definition requested :: "string \<Rightarrow> string \<Rightarrow> ((server_route \<times> (string, string) gomap) \<times> string) option" where
  "requested meth u =
     (case split_query u of (p, q) \<Rightarrow>
        (case unescape False p of
           None \<Rightarrow> None
         | Some p \<Rightarrow>
             (case find_route meth (path_segments p) server_routes of
                None \<Rightarrow> None
              | Some route \<Rightarrow> map_option (Pair route) (unescape True (TrimPrefix q ''token='')))))"

lemma index_char_first: "c \<notin> set a \<Longrightarrow> index_char c (a @ c # b) = Some (length a)"
  by (induction a) auto

lemma Split_append: "c \<notin> set a \<Longrightarrow> Split c (a @ c # b) = a # Split c b"
  by (induction a) auto

lemma Split_single: "c \<notin> set a \<Longrightarrow> Split c a = [a]"
  by (induction a) auto

lemma upload_url_requested:
  assumes "t \<noteq> []" "CHR ''/'' \<notin> set t" and "h \<noteq> []" "CHR ''/'' \<notin> set h"
  shows "requested ''PUT'' (''/_e2b/template-files/'' @ url_PathEscape t @ ''/'' @ url_PathEscape h @ ''?'' @ ''token='' @ url_QueryEscape k)
    = Some ((R_TemplateFileUpload, [(''templateID'', t), (''hash'', h)]), k)"
proof -
  let ?p = "''/_e2b/template-files/'' @ url_PathEscape t @ ''/'' @ url_PathEscape h" and ?q = "''token='' @ url_QueryEscape k"
  have plain: "CHR ''?'' \<notin> set (url_PathEscape s)" for s
    using PathEscape_chars [of s] by (auto simp: path_plain_def is_alnum_def)
  have "CHR ''?'' \<notin> set ?p" using plain [of t] plain [of h] by simp
  from index_char_first [OF this, of ?q] have q: "split_query (?p @ ''?'' @ ?q) = (?p, ?q)" by (simp add: split_query_def)
  have "unescape False ?p = Some (''/_e2b/template-files/'' @ t @ ''/'' @ h)"
    using unescape_PathEscape [of h "[]"] unescape_PathEscape [of t "''/'' @ url_PathEscape h"] by simp
  moreover have "path_segments (''/_e2b/template-files/'' @ t @ ''/'' @ h) = [''_e2b'', ''template-files'', t, h]"
    using assms(2,4) by (simp add: path_segments_def TrimPrefix_def HasPrefix_def Split_append Split_single)
  moreover have "find_route ''PUT'' [''_e2b'', ''template-files'', t, h] server_routes =
      Some (R_TemplateFileUpload, [(''templateID'', t), (''hash'', h)])"
    using assms(1,3) by (simp add: server_routes_def)
  moreover have "TrimPrefix ?q ''token='' = url_QueryEscape k" by (simp add: TrimPrefix_def HasPrefix_def)
  ultimately show ?thesis using q by (simp add: requested_def unescape_QueryEscape)
qed

end
