(* ===== verification/DefaultCallbacks.thy ===== *)
theory DefaultCallbacks
  imports ApiHandlers ServerUrls GatewayConfig
begin

text \<open>
  The whole application as one state (\<open>App\<close> in \<open>server.go\<close>): sandboxes, templates and builds over one
  world; and \<open>DefaultGatewayCallbacks\<close>, which makes the callbacks of the handlers of
  Handlers, Templates and Observability, with the callbacks for volumes and for single templates.
\<close>

section \<open>The state of the application\<close>

text \<open>\<open>gw_jobs\<close> are the background builds that have been started and have not finished.\<close>

record 'w gateway =
  gw_store :: sandbox_store
  gw_deadlines :: deadline_manager
  gw_management :: management
  gw_builds :: build_manager
  gw_jobs :: "build_job list"
  gw_world :: 'w

definition app_of :: "'w gateway \<Rightarrow> 'w app" where
  "app_of g = \<lparr>a_store = gw_store g, a_deadlines = gw_deadlines g, a_world = gw_world g\<rparr>"

definition with_app :: "'w gateway \<Rightarrow> 'w app \<Rightarrow> 'w gateway" where
  "with_app g s = g\<lparr>gw_store := a_store s, gw_deadlines := a_deadlines s, gw_world := a_world s\<rparr>"

definition templates_of :: "'w gateway \<Rightarrow> 'w tapp" where
  "templates_of g = \<lparr>tp_management = gw_management g, tp_builds = gw_builds g, tp_world = gw_world g\<rparr>"

definition with_templates :: "'w gateway \<Rightarrow> 'w tapp \<Rightarrow> 'w gateway" where
  "with_templates g s = g\<lparr>gw_management := tp_management s, gw_builds := tp_builds s, gw_world := tp_world s\<rparr>"

definition on_app :: "('w, 'a) op \<Rightarrow> ('w gateway, 'a) call" where
  "on_app f g = (case f (app_of g) of (r, s) \<Rightarrow> (r, with_app g s))"

definition on_templates :: "('w, 'a) top \<Rightarrow> ('w gateway, 'a) call" where
  "on_templates f g = (case f (templates_of g) of (r, s) \<Rightarrow> (r, with_templates g s))"

definition on_world :: "('w \<Rightarrow> 'a \<times> 'w) \<Rightarrow> 'w gateway \<Rightarrow> 'a \<times> 'w gateway" where
  "on_world f g = (case f (gw_world g) of (x, w) \<Rightarrow> (x, g\<lparr>gw_world := w\<rparr>))"

section \<open>The environment of the application\<close>

text \<open>
  The configuration, the runtime with its optional interfaces, and what the code calls outside of
  the repository. The reader \<open>ReadVolumeFile\<close> gives stands for what reading it delivers.
\<close>

record 'w volume_runtime =
  vr_CreateVolume :: "string \<Rightarrow> 'w \<Rightarrow> (go_error + runtime_volume) \<times> 'w"
  vr_ListVolumes :: "'w \<Rightarrow> (go_error + runtime_volume list) \<times> 'w"
  vr_GetVolume :: "string \<Rightarrow> 'w \<Rightarrow> (go_error + runtime_volume) \<times> 'w"
  vr_DeleteVolume :: "string \<Rightarrow> 'w \<Rightarrow> (go_error + bool) \<times> 'w"

record 'w volume_content_runtime =
  vc_GetVolumePathInfo :: "string \<Rightarrow> string \<Rightarrow> 'w \<Rightarrow> (go_error + volume_entry_stat) \<times> 'w"
  vc_ReadVolumeFile :: "string \<Rightarrow> string \<Rightarrow> 'w \<Rightarrow> (go_error + upload_body) \<times> 'w"
  vc_WriteVolumeFile :: "string \<Rightarrow> string \<Rightarrow> upload_body \<Rightarrow> volume_write_options \<Rightarrow> 'w \<Rightarrow> (go_error + volume_entry_stat) \<times> 'w"
  vc_ListVolumeDir :: "string \<Rightarrow> string \<Rightarrow> int \<Rightarrow> 'w \<Rightarrow> (go_error + volume_entry_stat list) \<times> 'w"
  vc_CreateVolumeDir :: "string \<Rightarrow> string \<Rightarrow> volume_write_options \<Rightarrow> 'w \<Rightarrow> (go_error + volume_entry_stat) \<times> 'w"

record errdefs_lib =
  ed_IsNotFound :: "go_error \<Rightarrow> bool"
  ed_IsConflict :: "go_error \<Rightarrow> bool"

record 'w gateway_env =
  ge_cfg :: config
  ge_network :: network
  ge_host :: host_info
  ge_runtime :: "'w runtime"
  ge_metrics :: "'w metrics_runtime"
  ge_logs :: "(runtime_info \<Rightarrow> logs_request \<Rightarrow> 'w \<Rightarrow> (go_error + runtime_log_entry list) \<times> 'w) option"
  ge_snapshots :: "('w, string option, snapshot_info) snapshotter option"
  ge_volumes :: "'w volume_runtime option"
  ge_content :: "'w volume_content_runtime option"
  ge_templates :: "'w template_env"
  ge_upload :: upload_env
  ge_errdefs :: errdefs_lib
  ge_api :: api_lib

definition gw_now :: "'w gateway_env \<Rightarrow> 'w gateway \<Rightarrow> time \<times> 'w gateway" where
  "gw_now env = on_world (rt_now (ge_runtime env))"

section \<open>Single templates\<close>

definition defaultGetTemplate :: "'w template_env \<Rightarrow> string \<Rightarrow> page_params \<Rightarrow> ('w, template_with_builds) top" where
  "defaultGetTemplate env templateID params s =
     (case paginationLimit (pp_Limit params) of
        Inl err \<Rightarrow> (Inl err, s)
      | Inr limit \<Rightarrow>
          (case findTemplate env templateID s of
             (Inl err, s) \<Rightarrow> (Inl err, s)
           | (Inr template, s) \<Rightarrow>
               (case templateWithBuilds (te_lib env) (tw_call (te_now env)) template s of (result, s) \<Rightarrow>
                  (let managedBuilds = TemplateBuilds (gt_TemplateID template) (tp_management s)
                   in case (if length managedBuilds > 0
                            then templateBuildRecords (te_lib env) (tw_call (te_now env)) managedBuilds s
                            else (tw_Builds result, s)) of (builds, s) \<Rightarrow>
                      (if (case pp_NextToken params of Some token \<Rightarrow> TrimSpace token \<noteq> [] | None \<Rightarrow> False)
                       then (Inr (result\<lparr>tw_Builds := []\<rparr>), s)
                       else if limit < int (length builds)
                       then (Inr (result\<lparr>tw_Builds := take (nat limit) builds\<rparr>), s)
                       else (Inr (result\<lparr>tw_Builds := builds\<rparr>), s))))))"

definition defaultGetTemplateAlias :: "'w template_env \<Rightarrow> string \<Rightarrow> ('w, bool \<times> string) top" where
  "defaultGetTemplateAlias env alias s =
     (case findTemplate env alias s of
        (Inl err, s) \<Rightarrow> (Inl err, s)
      | (Inr template, s) \<Rightarrow> (Inr (gt_Public template, gt_TemplateID template), s))"

definition defaultUpdateTemplate :: "'w template_env \<Rightarrow> string \<Rightarrow> bool option \<Rightarrow> ('w, unit) top" where
  "defaultUpdateTemplate env templateID public s =
     (case defaultUpdateTemplateRecord env templateID public s of
        (Inl err, s) \<Rightarrow> (Inl err, s)
      | (Inr template, s) \<Rightarrow> (Inr (), s))"

text \<open>
  The creations and the rebuild end with the conversion of the template to its response. For the third
  version Templates normalizes the tags already; doing it again changes nothing (\<open>normalizedTags_idem\<close>).
\<close>

definition legacy_response :: "'w template_env \<Rightarrow> ('w, gateway_template) top \<Rightarrow> ('w, template_legacy) top" where
  "legacy_response env m s =
     (case m s of
        (Inl err, s) \<Rightarrow> (Inl err, s)
      | (Inr template, s) \<Rightarrow>
          (case templateLegacy (tw_call (te_now env)) template s of (result, s) \<Rightarrow> (Inr result, s)))"

definition v3_response :: "('w, gateway_template \<times> string list) top \<Rightarrow> ('w, template_response_v3) top" where
  "v3_response m s =
     (case m s of
        (Inl err, s) \<Rightarrow> (Inl err, s)
      | (Inr (template, tags), s) \<Rightarrow> (Inr (templateRequestResponseV3 template tags), s))"

text \<open>A build that is started joins the background builds.\<close>

definition start_build_v2 :: "'w template_env \<Rightarrow> string \<Rightarrow> string \<Rightarrow> build_start \<Rightarrow> ('w gateway, unit) call" where
  "start_build_v2 env templateID buildID req g =
     (case on_templates (defaultStartTemplateBuildV2 env templateID buildID req) g of
        (Inl err, g) \<Rightarrow> (Inl err, g)
      | (Inr None, g) \<Rightarrow> (Inr (), g)
      | (Inr (Some job), g) \<Rightarrow> (Inr (), g\<lparr>gw_jobs := gw_jobs g @ [job]\<rparr>))"

section \<open>Volumes\<close>

definition volumeErrorStatus :: "errdefs_lib \<Rightarrow> go_error \<Rightarrow> nat" where
  "volumeErrorStatus lib err =
     (if gatewayErrorStatus err 0 \<noteq> 0 then gatewayErrorStatus err 0
      else if ed_IsNotFound lib err then 404
      else if ed_IsConflict lib err then 409
      else 500)"

definition defaultVolumeRuntime :: "'w gateway_env \<Rightarrow> go_error + 'w volume_runtime" where
  "defaultVolumeRuntime env =
     (case ge_volumes env of
        None \<Rightarrow> Inl (GatewayError 501 ''volumes are not supported by this runtime'')
      | Some runtime \<Rightarrow> Inr runtime)"

definition volume_error :: "errdefs_lib \<Rightarrow> go_error \<Rightarrow> go_error" where
  "volume_error lib err = GatewayError (volumeErrorStatus lib err) (error_text err)"

definition defaultListVolumes :: "'w gateway_env \<Rightarrow> ('w gateway, runtime_volume list) call" where
  "defaultListVolumes env =
     bindE (liftE (defaultVolumeRuntime env)) (\<lambda>volumeRuntime.
     bindE (on_world (vr_ListVolumes volumeRuntime)) (\<lambda>volumes.
     ret (map apiVolume volumes)))"

definition defaultCreateVolume :: "'w gateway_env \<Rightarrow> string \<Rightarrow> ('w gateway, volume_and_token) call" where
  "defaultCreateVolume env reqName =
     bindE (liftE (defaultVolumeRuntime env)) (\<lambda>volumeRuntime.
       let name = TrimSpace reqName
       in if name = [] then fail (bad_request ''name is required'')
          else bindE (on_world (vr_CreateVolume volumeRuntime name)) (\<lambda>volume.
               ret (apiVolumeAndToken volume)))"

definition defaultGetVolume :: "'w gateway_env \<Rightarrow> string \<Rightarrow> ('w gateway, volume_and_token) call" where
  "defaultGetVolume env volumeID =
     bindE (liftE (defaultVolumeRuntime env)) (\<lambda>volumeRuntime.
       let volumeID = TrimSpace volumeID
       in if volumeID = [] then fail (GatewayError 404 ''volume not found'')
          else bindE (mapErr (volume_error (ge_errdefs env)) (on_world (vr_GetVolume volumeRuntime volumeID))) (\<lambda>volume.
               ret (apiVolumeAndToken volume)))"

definition defaultDeleteVolume :: "'w gateway_env \<Rightarrow> string \<Rightarrow> ('w gateway, unit) call" where
  "defaultDeleteVolume env volumeID =
     bindE (liftE (defaultVolumeRuntime env)) (\<lambda>volumeRuntime.
       let volumeID = TrimSpace volumeID
       in if volumeID = [] then fail (GatewayError 404 ''volume not found'')
          else bindE (mapErr (volume_error (ge_errdefs env)) (on_world (vr_DeleteVolume volumeRuntime volumeID))) (\<lambda>deleted.
               if \<not> deleted then fail (GatewayError 404 (''volume '' @ volumeID @ '' not found''))
               else ret ()))"

section \<open>Nodes and builds\<close>

definition defaultHealth :: "('s, unit) call" where
  "defaultHealth = ret ()"

definition get_node :: "'w gateway_env \<Rightarrow> string \<Rightarrow> ('w gateway, string list \<times> node) call" where
  "get_node env nodeID g = on_templates (defaultGetNode (ge_templates env) (ge_host env) (gw_store g) nodeID) g"

definition set_node_status :: "string \<Rightarrow> string \<Rightarrow> ('w gateway, unit) call" where
  "set_node_status nodeID status g =
     (case defaultSetNodeStatus nodeID status (gw_management g) of
        (Some err, m) \<Rightarrow> (Inl err, g\<lparr>gw_management := m\<rparr>)
      | (None, m) \<Rightarrow> (Inr (), g\<lparr>gw_management := m\<rparr>))"

definition cancel_team_builds :: "string \<Rightarrow> ('w gateway, nat \<times> nat) call" where
  "cancel_team_builds teamID =
     bindE (on_templates (defaultCancelTeamBuilds teamID)) (\<lambda>cancelled. ret (cancelled, 0))"

section \<open>All callbacks\<close>

definition DefaultGatewayCallbacks :: "'w gateway_env \<Rightarrow> 'w gateway gateway_callbacks" where
  "DefaultGatewayCallbacks env =
     (let rt = ge_runtime env; tmpl = ge_templates env
      in \<lparr>cb_Health = Some (\<lambda>ctx. defaultHealth),
          cb_CreateSandbox = Some (\<lambda>ctx req. on_app (defaultCreateSandbox rt (rc_Type (cf_Runtime (ge_cfg env))) req)),
          cb_ListSandboxes = Some (\<lambda>ctx req. on_app (defaultListSandboxes rt req)),
          cb_GetSandbox = Some (\<lambda>ctx sandboxID. on_app (defaultGetSandbox rt sandboxID)),
          cb_KillSandbox = Some (\<lambda>ctx sandboxID. on_app (defaultKillSandbox rt sandboxID)),
          cb_PauseSandbox = Some (\<lambda>ctx sandboxID. on_app (defaultPauseSandbox rt sandboxID)),
          cb_ResumeSandbox = Some (\<lambda>ctx sandboxID req. on_app (defaultResumeSandbox rt sandboxID (rs_Timeout req))),
          cb_ConnectSandbox = Some (\<lambda>ctx sandboxID timeout. on_app (defaultConnectSandbox rt sandboxID timeout)),
          cb_SetSandboxTimeout = Some (\<lambda>ctx sandboxID timeout. on_app (defaultSetSandboxTimeout rt sandboxID timeout)),
          cb_RefreshSandbox = Some (\<lambda>ctx sandboxID dur. on_app (defaultRefreshSandbox rt sandboxID dur)),
          cb_GetSandboxMetrics = Some (\<lambda>ctx sandboxID req. on_app (defaultGetSandboxMetrics rt (ge_metrics env) sandboxID req)),
          cb_ListSandboxMetrics = Some (\<lambda>ctx ids. on_app (defaultListSandboxMetrics rt (ge_metrics env) ids)),
          cb_CreateSandboxSnapshot = Some (\<lambda>ctx sandboxID req.
            on_app (defaultCreateSandboxSnapshot rt (ge_snapshots env) sandboxID req)),
          cb_ListSnapshots = Some (\<lambda>ctx req. on_app (defaultListSnapshots (ge_snapshots env) req)),
          cb_GetSandboxLogs = Some (\<lambda>ctx sandboxID req. on_app (defaultGetSandboxLogs rt (ge_logs env) sandboxID req)),
          cb_GetSandboxLogsV2 = Some (\<lambda>ctx sandboxID req. on_app (defaultGetSandboxLogs rt (ge_logs env) sandboxID req)),
          cb_ListTemplates = Some (\<lambda>ctx teamID. on_templates (defaultListTemplates tmpl)),
          cb_GetTemplate = Some (\<lambda>ctx templateID params. on_templates (defaultGetTemplate tmpl templateID params)),
          cb_GetTemplateAlias = Some (\<lambda>ctx alias. on_templates (defaultGetTemplateAlias tmpl alias)),
          cb_CreateTemplate = Some (\<lambda>ctx req. on_templates (legacy_response tmpl (defaultCreateTemplate tmpl req))),
          cb_CreateTemplateV2 = Some (\<lambda>ctx req. on_templates (legacy_response tmpl
            (defaultCreateTemplateV2 tmpl (b2_Alias req) (b2_CpuCount req) (b2_MemoryMB req)))),
          cb_CreateTemplateV3 = Some (\<lambda>ctx req. on_templates (v3_response
            (defaultCreateTemplateV3 tmpl (b3_Name req) (b3_Alias req) (b3_Tags req) (b3_CpuCount req) (b3_MemoryMB req)))),
          cb_DeleteTemplate = Some (\<lambda>ctx templateID. on_templates (defaultDeleteTemplate tmpl templateID)),
          cb_UpdateTemplate = Some (\<lambda>ctx templateID public. on_templates (defaultUpdateTemplate tmpl templateID public)),
          cb_UpdateTemplateV2 = Some (\<lambda>ctx templateID public. on_templates (defaultUpdateTemplateV2 tmpl templateID public)),
          cb_RebuildTemplate = Some (\<lambda>ctx templateID req.
            on_templates (legacy_response tmpl (defaultRebuildTemplate tmpl templateID req))),
          cb_StartTemplateBuild = Some (\<lambda>ctx templateID buildID. on_templates (defaultStartTemplateBuild tmpl templateID buildID)),
          cb_StartTemplateBuildV2 = Some (\<lambda>ctx templateID buildID req. start_build_v2 tmpl templateID buildID req),
          cb_GetTemplateBuildInfo = Some (\<lambda>ctx templateID buildID req.
            on_templates (defaultGetTemplateBuildInfo tmpl templateID buildID req)),
          cb_GetTemplateBuildLogs = Some (\<lambda>ctx templateID buildID req.
            on_templates (defaultGetTemplateBuildLogs tmpl templateID buildID req)),
          cb_GetTemplateFileUpload = Some (\<lambda>ctx templateID hash.
            on_templates (defaultGetTemplateFileUpload tmpl (templateFileUploadURL ctx) templateID hash)),
          cb_AssignTemplateTags = Some (\<lambda>ctx req. on_templates (defaultAssignTemplateTags tmpl (tq_Name req) (tq_Tags req))),
          cb_DeleteTemplateTags = Some (\<lambda>ctx req. on_templates (defaultDeleteTemplateTags tmpl (tq_Name req) (tq_Tags req))),
          cb_ListTemplateTags = Some (\<lambda>ctx templateID. on_templates (defaultListTemplateTags tmpl templateID)),
          cb_ListNodes = Some (\<lambda>ctx g. (Inr (defaultListNodes (ge_host env) (gw_store g) (gw_management g)), g)),
          cb_GetNode = Some (\<lambda>ctx nodeID clusterID. get_node env nodeID),
          cb_SetNodeStatus = Some (\<lambda>ctx nodeID status. set_node_status nodeID status),
          cb_ListTeams = Some (\<lambda>ctx. ret defaultListTeams),
          cb_GetTeamMetrics = Some (\<lambda>ctx teamID req. on_app (defaultGetTeamMetrics rt req)),
          cb_GetTeamMetricMax = Some (\<lambda>ctx teamID req metric. on_app (defaultGetTeamMetricMax rt req metric)),
          cb_KillTeamSandboxes = Some (\<lambda>ctx teamID. on_app (defaultKillTeamSandboxes rt)),
          cb_CancelTeamBuilds = Some (\<lambda>ctx teamID. cancel_team_builds teamID),
          cb_ListVolumes = Some (\<lambda>ctx. defaultListVolumes env),
          cb_CreateVolume = Some (\<lambda>ctx name. defaultCreateVolume env name),
          cb_GetVolume = Some (\<lambda>ctx volumeID. defaultGetVolume env volumeID),
          cb_DeleteVolume = Some (\<lambda>ctx volumeID. defaultDeleteVolume env volumeID)\<rparr>)"

lemma DefaultGatewayCallbacks_complete: "no_nil_callback (DefaultGatewayCallbacks env)"
  unfolding no_nil_callback_def DefaultGatewayCallbacks_def Let_def gateway_callbacks.simps
  by (intro conjI option.distinct)

lemma app_of_with_app [simp]: "app_of (with_app g s) = s"
  by (simp add: app_of_def with_app_def)

lemma templates_of_with_templates [simp]: "templates_of (with_templates g s) = s"
  by (simp add: templates_of_def with_templates_def)

end
