(* ===== verification/Server.thy ===== *)
theory Server
  imports DefaultCallbacks
begin

text \<open>
  The server (\<open>server.go\<close>, \<open>volume_content.go\<close>): the handlers of the routes outside the generated API,
  the middleware, the dispatch of a request to its handler, construction and shutdown. gin and the
  generated wrapper, which turn a path and a query into the handler's arguments, are not modelled
  for the API's routes: a call of the API is a value of \<open>api_call\<close>, one constructor per handler.
\<close>

section \<open>Published ports\<close>

fun sandboxPortMapping :: "port_mapping list \<Rightarrow> int \<Rightarrow> port_mapping option" where
  "sandboxPortMapping [] containerPort = None"
| "sandboxPortMapping (mapping # mappings) containerPort =
     (if pm_ContainerPort mapping \<noteq> containerPort then sandboxPortMapping mappings containerPort
      else if pm_HostPort mapping \<le> 0 then sandboxPortMapping mappings containerPort
      else let protocol = ToLower (TrimSpace (pm_Protocol mapping))
           in if protocol \<noteq> [] \<and> protocol \<noteq> ''tcp'' then sandboxPortMapping mappings containerPort
              else Some (if TrimSpace (pm_Protocol mapping) = [] then mapping\<lparr>pm_Protocol := ''tcp''\<rparr> else mapping))"

definition sandboxPortResponse :: "port_mapping \<Rightarrow> string \<Rightarrow> port_response" where
  "sandboxPortResponse mapping host =
     (let host = TrimSpace host;
          hostPort = JoinHostPort host (Itoa (pm_HostPort mapping));
          protocol = ToLower (TrimSpace (pm_Protocol mapping));
          protocol = (if protocol = [] then ''tcp'' else protocol)
      in \<lparr>pr_ContainerPort = pm_ContainerPort mapping, pr_Host = host, pr_HostPort = pm_HostPort mapping,
          pr_URL = ''http://'' @ hostPort, pr_WSURL = ''ws://'' @ hostPort, pr_Protocol = protocol\<rparr>)"

definition advertisedTrafficHost :: "'w gateway_env \<Rightarrow> go_error + string" where
  "advertisedTrafficHost env =
     (let host = TrimSpace (tc_AdvertisedHost (cf_Traffic (ge_cfg env)))
      in if host \<noteq> [] then Inr host else DetectTrafficAdvertisedHost (ge_network env) (cf_Traffic (ge_cfg env)))"

definition handleGetSandboxPort :: "'w gateway_env \<Rightarrow> 'w gateway gateway_callbacks \<Rightarrow> string \<Rightarrow> string \<Rightarrow> http_request \<Rightarrow>
    'w gateway handler" where
  "handleGetSandboxPort env cbs sandboxIDParam portParam c =
     (let sandboxID = TrimSpace sandboxIDParam
      in if sandboxID = [] then respond (writeError 404 ''sandbox not found'')
         else case Atoi (TrimSpace portParam) of
                None \<Rightarrow> respond (writeError 400 ''port must be between 1 and 65535'')
              | Some containerPort \<Rightarrow>
                  (if containerPort \<le> 0 \<or> containerPort > 65535
                   then respond (writeError 400 ''port must be between 1 and 65535'')
                   else answer (the (cb_GetSandbox cbs) (callbackContext c) sandboxID) 404 (\<lambda>record.
                     case sandboxPortMapping (ri_PublishedPorts (sr_RuntimeInfo record)) containerPort of
                       None \<Rightarrow> respond (writeError 404 (''sandbox '' @ sandboxID @ '' port '' @ Itoa containerPort @
                         '' is not published; configure docker.published_ports or Dockerfile EXPOSE''))
                     | Some mapping \<Rightarrow>
                         (case advertisedTrafficHost env of
                            Inl err \<Rightarrow> respond (writeError 500 (error_text err))
                          | Inr host \<Rightarrow> respond (c_JSON 200 (V_Port (sandboxPortResponse mapping host)))))))"

section \<open>Uploads of template files\<close>

text \<open>
  The clock is read for each check of the token and for the file's time; \<open>others\<close> is what other
  requests make of the store while the body is read.
\<close>

definition handleTemplateFileUpload :: "'w gateway_env \<Rightarrow> (management \<Rightarrow> management) \<Rightarrow> string \<Rightarrow> string \<Rightarrow> http_request \<Rightarrow>
    'w gateway handler" where
  "handleTemplateFileUpload env others templateIDParam hashParam c g =
     (let templateID = TrimSpace templateIDParam; hash = TrimSpace hashParam;
          token = TrimSpace (map_read (hr_Query c) ''token'')
      in if templateID = [] \<or> hash = [] \<or> token = []
         then respond (writeError 400 ''templateID, hash, and token are required'') g
         else case gw_now env g of (now1, g) \<Rightarrow> (case gw_now env g of (now2, g) \<Rightarrow> (case gw_now env g of (createdAt, g) \<Rightarrow>
           (case StoreTemplateFileUploadReader (ge_upload env) others now1 now2 createdAt templateID hash token
                  (MaxBytesReader (sint maxTemplateFileUploadBytes) (hr_Body c)) (gw_management g) of (result, m) \<Rightarrow>
              (let g = g\<lparr>gw_management := m\<rparr>
               in case ur_error result of
                    Some err \<Rightarrow> respond (writeGatewayError err 500) g
                  | None \<Rightarrow>
                      (if \<not> ur_stored result
                       then respond (writeError 401 ''invalid or expired template file upload token'') g
                       else respond (c_Status 200) g))))))"

section \<open>Volume content (volume\_content.go)\<close>

definition maxVolumeFileUploadBytes :: int where
  "maxVolumeFileUploadBytes = 536870912"

definition volumeContentRuntime :: "'w gateway_env \<Rightarrow> go_error + 'w volume_content_runtime" where
  "volumeContentRuntime env =
     (case ge_content env of
        None \<Rightarrow> Inl (GatewayError 501 ''volume content is not supported by this runtime'')
      | Some runtime \<Rightarrow> Inr runtime)"

text \<open>The common start of the handlers.\<close>

definition with_content :: "'w gateway_env \<Rightarrow> ('w volume_content_runtime \<Rightarrow> 'w gateway handler) \<Rightarrow> 'w gateway handler" where
  "with_content env run g =
     (case volumeContentRuntime env of
        Inl err \<Rightarrow> (writeGatewayError err 501, g)
      | Inr runtime \<Rightarrow> run runtime g)"

text \<open>A call of the runtime whose error is written with \<open>volumeErrorStatus\<close>.\<close>

definition content_answer :: "'w gateway_env \<Rightarrow> ('w \<Rightarrow> (go_error + 'a) \<times> 'w) \<Rightarrow> ('a \<Rightarrow> api_response) \<Rightarrow> 'w gateway handler" where
  "content_answer env m ok g =
     (case on_world m g of
        (Inl err, g) \<Rightarrow> (writeGatewayError err (volumeErrorStatus (ge_errdefs env) err), g)
      | (Inr x, g) \<Rightarrow> (ok x, g))"

definition query :: "http_request \<Rightarrow> string \<Rightarrow> string" where
  "query c key = map_read (hr_Query c) key"

definition bad_mode :: go_error where
  "bad_mode = bad_request ''mode must be a decimal integer or an octal integer prefixed with 0 or 0o''"

definition parseVolumeMode :: "string \<Rightarrow> go_error + int" where
  "parseVolumeMode value =
     (let value = TrimSpace value
      in if value = [] then Inl bad_mode
         else case (if HasPrefix value ''0o'' \<or> HasPrefix value ''0O'' then (8, drop 2 value)
                    else if HasPrefix value ''0'' \<and> length value > 1 then (8, value)
                    else (10, value)) of (base, parseValue) \<Rightarrow>
           (case ParseInt parseValue base of
              None \<Rightarrow> Inl bad_mode
            | Some parsed \<Rightarrow>
                (if parsed < 0 then Inl bad_mode
                 else if parsed \<le> 511 then Inr parsed
                 else Inl (bad_request ''mode must be between 0 and 0777''))))"

definition owner_id :: "http_request \<Rightarrow> string \<Rightarrow> go_error + int option" where
  "owner_id c name =
     (let value = TrimSpace (query c name)
      in if value = [] then Inr None
         else case Atoi value of
                None \<Rightarrow> Inl (bad_request (name @ '' must be a non-negative integer''))
              | Some parsed \<Rightarrow>
                  (if parsed < 0 then Inl (bad_request (name @ '' must be a non-negative integer''))
                   else Inr (Some parsed)))"

definition volumeWriteOptionsFromQuery :: "http_request \<Rightarrow> go_error + volume_write_options" where
  "volumeWriteOptionsFromQuery c =
     (case (let value = TrimSpace (query c ''force'')
            in if value = [] then Inr False
               else case ParseBool value of
                      None \<Rightarrow> Inl (bad_request ''force must be a boolean'')
                    | Some b \<Rightarrow> Inr b) of
        Inl err \<Rightarrow> Inl err
      | Inr force \<Rightarrow>
          (case (let value = TrimSpace (query c ''mode'')
                 in if value = [] then Inr None
                    else case parseVolumeMode value of Inl err \<Rightarrow> Inl err | Inr m \<Rightarrow> Inr (Some m)) of
             Inl err \<Rightarrow> Inl err
           | Inr mode \<Rightarrow>
               (case owner_id c ''uid'' of
                  Inl err \<Rightarrow> Inl err
                | Inr uid \<Rightarrow>
                    (case owner_id c ''gid'' of
                       Inl err \<Rightarrow> Inl err
                     | Inr gid \<Rightarrow> Inr \<lparr>wo_Force = force, wo_Mode = mode, wo_UID = uid, wo_GID = gid\<rparr>))))"

text \<open>\<open>errors.As\<close> for \<open>*http.MaxBytesError\<close>.\<close>

definition writeVolumeContentError :: "go_error \<Rightarrow> nat \<Rightarrow> api_response" where
  "writeVolumeContentError err fb =
     (if errors_Is err http_MaxBytesError
      then writeGatewayError (GatewayError 413 ''volume file upload is too large'') 413
      else writeGatewayError err fb)"

definition handleVolumeContentPathGet :: "'w gateway_env \<Rightarrow> string \<Rightarrow> http_request \<Rightarrow> 'w gateway handler" where
  "handleVolumeContentPathGet env volumeID c =
     with_content env (\<lambda>runtime.
       content_answer env (vc_GetVolumePathInfo runtime volumeID (query c ''path'')) (\<lambda>stat. c_JSON 200 (V_VolumeEntry stat)))"

text \<open>
  The download: the status is 200 as soon as a byte has been sent, whatever the reader does then; the
  header is set before the copy and stays when the error is written.
\<close>

definition send_file :: "upload_body \<Rightarrow> api_response" where
  "send_file body =
     (let headers = [(''Content-Type'', ''application/octet-stream'')]
      in case ub_end body of
           EOF \<Rightarrow> \<lparr>rp_status = 200, rp_headers = headers, rp_body = FileBytes (ub_data body)\<rparr>
         | MaxBytesError \<Rightarrow>
             (if ub_data body \<noteq> [] then \<lparr>rp_status = 200, rp_headers = headers, rp_body = FileBytes (ub_data body)\<rparr>
              else (writeGatewayError http_MaxBytesError 500)\<lparr>rp_headers := headers\<rparr>)
         | ReadError err \<Rightarrow>
             (if ub_data body \<noteq> [] then \<lparr>rp_status = 200, rp_headers = headers, rp_body = FileBytes (ub_data body)\<rparr>
              else (writeGatewayError err 500)\<lparr>rp_headers := headers\<rparr>))"

definition handleVolumeContentFileGet :: "'w gateway_env \<Rightarrow> string \<Rightarrow> http_request \<Rightarrow> 'w gateway handler" where
  "handleVolumeContentFileGet env volumeID c =
     with_content env (\<lambda>runtime. content_answer env (vc_ReadVolumeFile runtime volumeID (query c ''path'')) send_file)"

definition handleVolumeContentFilePut :: "'w gateway_env \<Rightarrow> string \<Rightarrow> http_request \<Rightarrow> 'w gateway handler" where
  "handleVolumeContentFilePut env volumeID c =
     with_content env (\<lambda>runtime.
       with_param (volumeWriteOptionsFromQuery c) (\<lambda>opts g.
         let body = MaxBytesReader maxVolumeFileUploadBytes (hr_Body c)
         in case on_world (vc_WriteVolumeFile runtime volumeID (query c ''path'') body opts) g of
              (Inl err, g) \<Rightarrow> (writeVolumeContentError err (volumeErrorStatus (ge_errdefs env) err), g)
            | (Inr stat, g) \<Rightarrow> (c_JSON 200 (V_VolumeEntry stat), g)))"

definition list_depth :: "http_request \<Rightarrow> go_error + int" where
  "list_depth c =
     (let value = TrimSpace (query c ''depth'')
      in if value = [] then Inr 1
         else case Atoi value of
                None \<Rightarrow> Inl (bad_request ''depth must be a non-negative integer'')
              | Some parsed \<Rightarrow>
                  (if parsed < 0 then Inl (bad_request ''depth must be a non-negative integer'') else Inr parsed))"

definition handleVolumeContentDirGet :: "'w gateway_env \<Rightarrow> string \<Rightarrow> http_request \<Rightarrow> 'w gateway handler" where
  "handleVolumeContentDirGet env volumeID c =
     with_content env (\<lambda>runtime.
       with_param (list_depth c) (\<lambda>depth.
         content_answer env (vc_ListVolumeDir runtime volumeID (query c ''path'') depth) (\<lambda>entries. c_JSON 200 (V_VolumeEntries entries))))"

definition handleVolumeContentDirPost :: "'w gateway_env \<Rightarrow> string \<Rightarrow> http_request \<Rightarrow> 'w gateway handler" where
  "handleVolumeContentDirPost env volumeID c =
     with_content env (\<lambda>runtime.
       with_param (volumeWriteOptionsFromQuery c) (\<lambda>opts.
         content_answer env (vc_CreateVolumeDir runtime volumeID (query c ''path'') opts) (\<lambda>stat. c_JSON 200 (V_VolumeEntry stat))))"

section \<open>Calls and their dispatch\<close>

datatype sandbox_call =
    PostSandboxesCall
  | GetSandboxesCall "string option"
  | GetV2SandboxesCall v2_list_params
  | GetSandboxesMetricsCall "string list"
  | GetSandboxCall string
  | GetSandboxMetricsCall string metrics_request
  | DeleteSandboxCall string
  | PauseCall string
  | ResumeCall string
  | ConnectCall string
  | TimeoutCall string
  | RefreshCall string
  | PostSnapshotsCall string
  | GetSnapshotsCall "string option" page_params
  | GetLogsCall string "int option" "32 word option"
  | GetV2LogsCall string log_params
  | PortCall string string

datatype template_call =
    GetTemplatesCall "string option"
  | GetTemplateCall string page_params
  | GetAliasCall string
  | PostTemplatesCall
  | PostV2TemplatesCall
  | PostV3TemplatesCall
  | DeleteTemplateCall string
  | PatchTemplateCall string
  | PatchV2TemplateCall string
  | RebuildCall string
  | StartBuildCall string string
  | StartBuildV2Call string string
  | BuildStatusCall string string build_info_request
  | BuildLogsCall string string build_logs_request
  | FilesCall string string
  | PostTagsCall
  | DeleteTagsCall
  | GetTagsCall string
  | UploadCall string string "management \<Rightarrow> management"

datatype admin_call =
    HealthCall
  | HealthzCall
  | NodesCall
  | NodeCall string "string option"
  | PostNodeCall string
  | TeamsCall
  | TeamMetricsCall string metrics_request
  | TeamMetricsMaxCall string metrics_request string
  | KillTeamCall string
  | CancelTeamCall string
  | EmbeddedCall embedded_method
  | NoRouteCall

datatype volume_api_call =
    GetVolumesCall
  | PostVolumesCall
  | GetVolumeCall string
  | DeleteVolumeCall string
  | PathGetCall string
  | FileGetCall string
  | FilePutCall string
  | DirGetCall string
  | DirPostCall string

datatype api_call =
    SandboxCall sandbox_call
  | TemplateCall template_call
  | AdminCall admin_call
  | VolumeCall volume_api_call

fun serve_sandbox :: "'w gateway_env \<Rightarrow> 'w gateway gateway_callbacks \<Rightarrow> sandbox_call \<Rightarrow> http_request \<Rightarrow> 'w gateway handler" where
  "serve_sandbox env cbs PostSandboxesCall c = PostSandboxes (ge_api env) cbs c"
| "serve_sandbox env cbs (GetSandboxesCall metadata) c = GetSandboxes (ge_api env) cbs metadata c"
| "serve_sandbox env cbs (GetV2SandboxesCall params) c = GetV2Sandboxes (ge_api env) cbs params c"
| "serve_sandbox env cbs (GetSandboxesMetricsCall ids) c = GetSandboxesMetrics cbs ids c"
| "serve_sandbox env cbs (GetSandboxCall i) c = GetSandboxesSandboxID cbs i c"
| "serve_sandbox env cbs (GetSandboxMetricsCall i params) c = GetSandboxesSandboxIDMetrics cbs i params c"
| "serve_sandbox env cbs (DeleteSandboxCall i) c = DeleteSandboxesSandboxID cbs i c"
| "serve_sandbox env cbs (PauseCall i) c = PostSandboxesSandboxIDPause cbs i c"
| "serve_sandbox env cbs (ResumeCall i) c = PostSandboxesSandboxIDResume (ge_api env) cbs i c"
| "serve_sandbox env cbs (ConnectCall i) c = PostSandboxesSandboxIDConnect (ge_api env) cbs i c"
| "serve_sandbox env cbs (TimeoutCall i) c = PostSandboxesSandboxIDTimeout (ge_api env) cbs i c"
| "serve_sandbox env cbs (RefreshCall i) c = PostSandboxesSandboxIDRefreshes (ge_api env) cbs i c"
| "serve_sandbox env cbs (PostSnapshotsCall i) c = PostSandboxesSandboxIDSnapshots (ge_api env) cbs i c"
| "serve_sandbox env cbs (GetSnapshotsCall i params) c = GetSnapshots cbs i params c"
| "serve_sandbox env cbs (GetLogsCall i start limit) c = GetSandboxesSandboxIDLogs (gw_now env) cbs i start limit c"
| "serve_sandbox env cbs (GetV2LogsCall i params) c = GetV2SandboxesSandboxIDLogs (gw_now env) cbs i params c"
| "serve_sandbox env cbs (PortCall i port) c = handleGetSandboxPort env cbs i port c"

fun serve_template :: "'w gateway_env \<Rightarrow> 'w gateway gateway_callbacks \<Rightarrow> template_call \<Rightarrow> http_request \<Rightarrow> 'w gateway handler" where
  "serve_template env cbs (GetTemplatesCall teamID) c = GetTemplates cbs teamID c"
| "serve_template env cbs (GetTemplateCall i params) c = GetTemplatesTemplateID cbs i params c"
| "serve_template env cbs (GetAliasCall alias) c = GetTemplatesAliasesAlias cbs alias c"
| "serve_template env cbs PostTemplatesCall c = PostTemplates (ge_api env) cbs c"
| "serve_template env cbs PostV2TemplatesCall c = PostV2Templates (ge_api env) cbs c"
| "serve_template env cbs PostV3TemplatesCall c = PostV3Templates (ge_api env) cbs c"
| "serve_template env cbs (DeleteTemplateCall i) c = DeleteTemplatesTemplateID cbs i c"
| "serve_template env cbs (PatchTemplateCall i) c = PatchTemplatesTemplateID (ge_api env) cbs i c"
| "serve_template env cbs (PatchV2TemplateCall i) c = PatchV2TemplatesTemplateID (ge_api env) cbs i c"
| "serve_template env cbs (RebuildCall i) c = PostTemplatesTemplateID (ge_api env) cbs i c"
| "serve_template env cbs (StartBuildCall i b) c = PostTemplatesTemplateIDBuildsBuildID cbs i b c"
| "serve_template env cbs (StartBuildV2Call i b) c = PostV2TemplatesTemplateIDBuildsBuildID (ge_api env) cbs i b c"
| "serve_template env cbs (BuildStatusCall i b params) c = GetTemplatesTemplateIDBuildsBuildIDStatus cbs i b params c"
| "serve_template env cbs (BuildLogsCall i b params) c = GetTemplatesTemplateIDBuildsBuildIDLogs cbs i b params c"
| "serve_template env cbs (FilesCall i hash) c = GetTemplatesTemplateIDFilesHash cbs i hash c"
| "serve_template env cbs PostTagsCall c = PostTemplatesTags (ge_api env) cbs c"
| "serve_template env cbs DeleteTagsCall c = DeleteTemplatesTags (ge_api env) cbs c"
| "serve_template env cbs (GetTagsCall i) c = GetTemplatesTemplateIDTags cbs i c"
| "serve_template env cbs (UploadCall i hash others) c = handleTemplateFileUpload env others i hash c"

definition handleNoRoute :: "'s handler" where
  "handleNoRoute = respond (writeError 404 ''route not found'')"

definition handleHealth :: "'s handler" where
  "handleHealth = respond (c_JSON 200 (V_Status ''ok''))"

fun serve_admin :: "'w gateway_env \<Rightarrow> 'w gateway gateway_callbacks \<Rightarrow> admin_call \<Rightarrow> http_request \<Rightarrow> 'w gateway handler" where
  "serve_admin env cbs HealthCall c = GetHealth cbs c"
| "serve_admin env cbs HealthzCall c = handleHealth"
| "serve_admin env cbs NodesCall c = GetNodes cbs c"
| "serve_admin env cbs (NodeCall i clusterID) c = GetNodesNodeID cbs i clusterID c"
| "serve_admin env cbs (PostNodeCall i) c = PostNodesNodeID (ge_api env) cbs i c"
| "serve_admin env cbs TeamsCall c = GetTeams cbs c"
| "serve_admin env cbs (TeamMetricsCall i params) c = GetTeamsTeamIDMetrics cbs i params c"
| "serve_admin env cbs (TeamMetricsMaxCall i params metric) c = GetTeamsTeamIDMetricsMax cbs i params metric c"
| "serve_admin env cbs (KillTeamCall i) c = PostAdminTeamsTeamIDSandboxesKill cbs i c"
| "serve_admin env cbs (CancelTeamCall i) c = PostAdminTeamsTeamIDBuildsCancel cbs i c"
| "serve_admin env cbs (EmbeddedCall m) c = unimplementedGatewayAPI (Some handleUnimplementedGatewayRoute) m"
| "serve_admin env cbs NoRouteCall c = handleNoRoute"

fun serve_volume :: "'w gateway_env \<Rightarrow> 'w gateway gateway_callbacks \<Rightarrow> volume_api_call \<Rightarrow> http_request \<Rightarrow> 'w gateway handler" where
  "serve_volume env cbs GetVolumesCall c = GetVolumes cbs c"
| "serve_volume env cbs PostVolumesCall c = PostVolumes (ge_api env) cbs c"
| "serve_volume env cbs (GetVolumeCall i) c = GetVolumesVolumeID cbs i c"
| "serve_volume env cbs (DeleteVolumeCall i) c = DeleteVolumesVolumeID cbs i c"
| "serve_volume env cbs (PathGetCall i) c = handleVolumeContentPathGet env i c"
| "serve_volume env cbs (FileGetCall i) c = handleVolumeContentFileGet env i c"
| "serve_volume env cbs (FilePutCall i) c = handleVolumeContentFilePut env i c"
| "serve_volume env cbs (DirGetCall i) c = handleVolumeContentDirGet env i c"
| "serve_volume env cbs (DirPostCall i) c = handleVolumeContentDirPost env i c"

fun serve_call :: "'w gateway_env \<Rightarrow> 'w gateway gateway_callbacks \<Rightarrow> api_call \<Rightarrow> http_request \<Rightarrow> 'w gateway handler" where
  "serve_call env cbs (SandboxCall q) c = serve_sandbox env cbs q c"
| "serve_call env cbs (TemplateCall q) c = serve_template env cbs q c"
| "serve_call env cbs (AdminCall q) c = serve_admin env cbs q c"
| "serve_call env cbs (VolumeCall q) c = serve_volume env cbs q c"

section \<open>Middleware\<close>

definition cors_headers :: "(string, string) gomap" where
  "cors_headers =
     [(''Access-Control-Allow-Origin'', ''*''),
      (''Access-Control-Allow-Methods'', ''GET,POST,PUT,PATCH,DELETE,OPTIONS''),
      (''Access-Control-Allow-Headers'', ''*''), (''Vary'', ''Origin'')]"

definition corsMiddleware :: "http_request \<Rightarrow> 's handler \<Rightarrow> 's handler" where
  "corsMiddleware c next_handler s =
     (if hr_Method c = ''OPTIONS'' then ((c_Status 204)\<lparr>rp_headers := cors_headers\<rparr>, s)
      else case next_handler s of (r, s) \<Rightarrow> (r\<lparr>rp_headers := cors_headers @ rp_headers r\<rparr>, s))"

definition ServeHTTP :: "'w gateway_env \<Rightarrow> 'w gateway gateway_callbacks \<Rightarrow> api_call \<Rightarrow> http_request \<Rightarrow> 'w gateway handler" where
  "ServeHTTP env cbs q c = corsMiddleware c (serve_call env cbs q c)"

section \<open>Construction and shutdown\<close>

definition gateway_callbacks_of :: "'w gateway_env \<Rightarrow> 'w gateway gateway_callbacks \<Rightarrow> 'w gateway gateway_callbacks" where
  "gateway_callbacks_of env given = WithDefaults given (DefaultGatewayCallbacks env)"

definition new_gateway :: "'w gateway_env \<Rightarrow> 'w \<Rightarrow> go_error + 'w gateway" where
  "new_gateway env w =
     (case NewAppWithCallbacks (ge_runtime env) w of
        Inl err \<Rightarrow> Inl err
      | Inr s \<Rightarrow>
          Inr \<lparr>gw_store = a_store s, gw_deadlines = a_deadlines s, gw_management = NewGatewayManagementStore,
               gw_builds = newTemplateBuildManager (bc_MaxConcurrent (cf_TemplateBuilds (ge_cfg env))),
               gw_jobs = [], gw_world = a_world s\<rparr>)"

text \<open>
  \<open>Shutdown\<close>: the timers are closed; the builds are closed too if every callback has finished before
  the context ends, which is \<open>deadlines_err\<close>.
\<close>

definition Shutdown :: "go_error option \<Rightarrow> go_error option \<Rightarrow> 'w gateway \<Rightarrow> go_error option \<times> 'w gateway" where
  "Shutdown deadlines_err builds_err g =
     (let g = g\<lparr>gw_deadlines := shutdown_close (gw_deadlines g)\<rparr>
      in case deadlines_err of
           Some err \<Rightarrow> (Some err, g)
         | None \<Rightarrow> (builds_err, g\<lparr>gw_builds := builds_close (gw_builds g)\<rparr>))"

end
