(* ===== verification/ServerProofs.thy ===== *)
theory ServerProofs
  imports Server TemplateProofs Application
begin

text \<open>
  What a request to the server may change. A locale per group of callbacks says that each callback
  stays within a relation of states; the handlers of the group then do, whatever the request holds.
  The default callbacks provide each contract: requests about sandboxes leave templates and builds
  alone, requests about templates leave sandboxes alone, requests about volumes leave both alone, and
  each keeps the invariant of its own part.
\<close>

section \<open>Handlers\<close>

definition handles :: "('s \<Rightarrow> 's \<Rightarrow> bool) \<Rightarrow> 's handler \<Rightarrow> bool" where
  "handles R h \<longleftrightarrow> (\<forall>s. R s (snd (h s)))"

lemma handlesD: "handles R h \<Longrightarrow> h s = (r, t) \<Longrightarrow> R s t"
  unfolding handles_def by (metis snd_conv)

lemma handles_weaken: "handles R h \<Longrightarrow> (\<And>s t. R s t \<Longrightarrow> R' s t) \<Longrightarrow> handles R' h"
  by (simp add: handles_def)

text \<open>A reading of the state, like that of the clock, and a handler that goes on from there.\<close>

definition reads_within :: "('s \<Rightarrow> 's \<Rightarrow> bool) \<Rightarrow> ('s \<Rightarrow> 'a \<times> 's) \<Rightarrow> bool" where
  "reads_within R f \<longleftrightarrow> (\<forall>s. R s (snd (f s)))"

context change_kind
begin

lemma respond_in: "handles R (respond r)"
  by (simp add: handles_def respond_def same)

lemma answer_in:
  assumes "within R m" and "\<And>x. handles R (ok x)"
  shows "handles R (answer m fb ok)"
  unfolding handles_def
proof
  fix s
  obtain r t where m: "m s = (r, t)" by (cases "m s")
  then have "R s t" by (rule withinD [OF assms(1)])
  moreover have "R t (snd (answer m fb ok s))"
    using assms(2) same by (cases r) (auto simp: answer_def m handles_def)
  ultimately show "R s (snd (answer m fb ok s))" by (rule steps)
qed

lemma with_body_in: "(\<And>x. handles R (run x)) \<Longrightarrow> handles R (with_body d run)"
  by (auto simp: handles_def with_body_def same split: sum.split)

lemma with_param_in: "(\<And>x. handles R (run x)) \<Longrightarrow> handles R (with_param d run)"
  by (auto simp: handles_def with_param_def same split: sum.split)

lemma read_then:
  assumes "reads_within R f" and "\<And>x. handles R (h x)"
  shows "handles R (\<lambda>s. case f s of (x, s) \<Rightarrow> h x s)"
  unfolding handles_def
proof
  fix s
  obtain x t where f: "f s = (x, t)" by (cases "f s")
  with assms(1) have "R s t" unfolding reads_within_def by (metis snd_conv)
  moreover from assms(2) have "R t (snd (h x t))" by (simp add: handles_def)
  ultimately show "R s (snd (case f s of (x, s) \<Rightarrow> h x s))" by (auto simp: f intro: steps)
qed

lemma clock_if_zero_in: "reads_within R now \<Longrightarrow> reads_within R (clock_if_zero now t)"
  by (auto simp: reads_within_def clock_if_zero_def same)

lemma read_more:
  assumes "reads_within R f" and "\<And>x. reads_within R (g x)"
  shows "reads_within R (\<lambda>s. case f s of (x, s) \<Rightarrow> g x s)"
  unfolding reads_within_def
proof
  fix s
  obtain x t where f: "f s = (x, t)" by (cases "f s")
  with assms(1) have "R s t" unfolding reads_within_def by (metis snd_conv)
  moreover from assms(2) have "R t (snd (g x t))" by (simp add: reads_within_def)
  ultimately show "R s (snd (case f s of (x, s) \<Rightarrow> g x s))" by (auto simp: f intro: steps)
qed

lemma read_pure: "reads_within R (Pair x)"
  by (simp add: reads_within_def same)

lemma reads_step: "reads_within R f \<Longrightarrow> f s = (x, t) \<Longrightarrow> R s t"
  unfolding reads_within_def by (metis snd_conv)

lemma log_entries_in:
  assumes "reads_within R now" shows "reads_within R (apiSandboxLogEntries now es)"
proof (induction es)
  case Nil
  show ?case by (simp add: reads_within_def same)
next
  case (Cons e es)
  then show ?case unfolding reads_within_def
    by (auto split: prod.split intro: steps dest: reads_step [OF clock_if_zero_in [OF assms]] reads_step [OF Cons])
qed

lemma logs_in:
  assumes "reads_within R now" shows "reads_within R (apiSandboxLogs now es)"
proof (induction es)
  case Nil
  show ?case by (simp add: reads_within_def same)
next
  case (Cons e es)
  then show ?case unfolding reads_within_def
    by (auto split: prod.split intro: steps dest: reads_step [OF clock_if_zero_in [OF assms]] reads_step [OF Cons])
qed

lemma template_values_in:
  assumes "reads_within R now"
  shows build_in: "reads_within R (templateBuild lib now x)" and legacy_in: "reads_within R (templateLegacy now x)"
    and builds_in: "reads_within R (templateBuildRecords lib now xs)"
    and with_builds_in: "reads_within R (templateWithBuilds lib now x)"
proof -
  note clock = reads_step [OF clock_if_zero_in [OF assms]]
  show build: "reads_within R (templateBuild lib now x)" for x
    by (auto simp: reads_within_def templateBuild_def Let_def split: prod.split dest: clock)
  show "reads_within R (templateLegacy now x)"
    by (auto simp: reads_within_def templateLegacy_def Let_def split: prod.split dest: clock)
  show "reads_within R (templateBuildRecords lib now xs)"
  proof (induction xs)
    case Nil
    show ?case by (simp add: reads_within_def same)
  next
    case (Cons y ys)
    then show ?case unfolding reads_within_def
      by (auto split: prod.split intro: steps dest: reads_step [OF build] reads_step [OF Cons])
  qed
  show "reads_within R (templateWithBuilds lib now x)" unfolding reads_within_def
    by (auto simp: templateWithBuilds_def Let_def split: prod.split intro: steps dest: clock reads_step [OF build])
qed

end

section \<open>Changes of the gateway\<close>

text \<open>A relation that allows the outside world any change.\<close>

locale gateway_change = change_kind R for R :: "'w gateway \<Rightarrow> 'w gateway \<Rightarrow> bool" +
  assumes outside: "R g (g\<lparr>gw_world := w\<rparr>)"
begin

lemma on_world_in: "reads_within R (on_world f)"
  by (auto simp: reads_within_def on_world_def outside split: prod.split)

lemma on_world_call_in: "within R (on_world m)"
  using on_world_in [of m] by (simp add: reads_within_def within_def)

lemma clock_in: "reads_within R (gw_now env)"
  by (simp add: gw_now_def on_world_in)

end

locale sandbox_callbacks = gateway_change R for R :: "'w gateway \<Rightarrow> 'w gateway \<Rightarrow> bool" +
  fixes cbs :: "'w gateway gateway_callbacks"
  assumes CreateSandbox_cb: "\<And>ctx a. within R (the (cb_CreateSandbox cbs) ctx a)"
    and ListSandboxes_cb: "\<And>ctx a. within R (the (cb_ListSandboxes cbs) ctx a)"
    and GetSandbox_cb: "\<And>ctx a. within R (the (cb_GetSandbox cbs) ctx a)"
    and KillSandbox_cb: "\<And>ctx a. within R (the (cb_KillSandbox cbs) ctx a)"
    and PauseSandbox_cb: "\<And>ctx a. within R (the (cb_PauseSandbox cbs) ctx a)"
    and ResumeSandbox_cb: "\<And>ctx a b. within R (the (cb_ResumeSandbox cbs) ctx a b)"
    and ConnectSandbox_cb: "\<And>ctx a b. within R (the (cb_ConnectSandbox cbs) ctx a b)"
    and SetSandboxTimeout_cb: "\<And>ctx a b. within R (the (cb_SetSandboxTimeout cbs) ctx a b)"
    and RefreshSandbox_cb: "\<And>ctx a b. within R (the (cb_RefreshSandbox cbs) ctx a b)"
    and GetSandboxMetrics_cb: "\<And>ctx a b. within R (the (cb_GetSandboxMetrics cbs) ctx a b)"
    and ListSandboxMetrics_cb: "\<And>ctx a. within R (the (cb_ListSandboxMetrics cbs) ctx a)"
    and CreateSandboxSnapshot_cb: "\<And>ctx a b. within R (the (cb_CreateSandboxSnapshot cbs) ctx a b)"
    and ListSnapshots_cb: "\<And>ctx a. within R (the (cb_ListSnapshots cbs) ctx a)"
    and GetSandboxLogs_cb: "\<And>ctx a b. within R (the (cb_GetSandboxLogs cbs) ctx a b)"
    and GetSandboxLogsV2_cb: "\<And>ctx a b. within R (the (cb_GetSandboxLogsV2 cbs) ctx a b)"
begin

lemmas sandbox_cbs =
    CreateSandbox_cb ListSandboxes_cb GetSandbox_cb KillSandbox_cb PauseSandbox_cb ResumeSandbox_cb
    ConnectSandbox_cb SetSandboxTimeout_cb RefreshSandbox_cb GetSandboxMetrics_cb ListSandboxMetrics_cb
    CreateSandboxSnapshot_cb ListSnapshots_cb GetSandboxLogs_cb GetSandboxLogsV2_cb

lemmas sandbox_handler_defs =
    PostSandboxes_def GetSandboxes_def GetV2Sandboxes_def GetSandboxesMetrics_def GetSandboxesSandboxID_def
    GetSandboxesSandboxIDMetrics_def DeleteSandboxesSandboxID_def PostSandboxesSandboxIDPause_def
    PostSandboxesSandboxIDResume_def PostSandboxesSandboxIDConnect_def PostSandboxesSandboxIDTimeout_def
    PostSandboxesSandboxIDRefreshes_def PostSandboxesSandboxIDSnapshots_def GetSnapshots_def

lemma port_in: "handles R (handleGetSandboxPort env cbs i port c)"
  unfolding handleGetSandboxPort_def Let_def
  by (auto intro!: respond_in answer_in GetSandbox_cb split: option.split sum.split)

lemma logs_handler_in: "handles R (GetSandboxesSandboxIDLogs (gw_now env) cbs i start limit c)"
  unfolding GetSandboxesSandboxIDLogs_def
  by (intro answer_in GetSandboxLogs_cb read_then logs_in log_entries_in clock_in respond_in)

lemma logs_v2_handler_in: "handles R (GetV2SandboxesSandboxIDLogs (gw_now env) cbs i params c)"
  unfolding GetV2SandboxesSandboxIDLogs_def
  by (intro answer_in GetSandboxLogsV2_cb read_then log_entries_in clock_in respond_in)

lemma sandbox_served: "handles R (serve_sandbox env cbs q c)"
  by (cases q) (auto simp: sandbox_handler_defs Let_def port_in logs_handler_in logs_v2_handler_in
      intro!: respond_in answer_in with_body_in with_param_in sandbox_cbs split: option.split prod.split)

end

locale template_callbacks = gateway_change R for R :: "'w gateway \<Rightarrow> 'w gateway \<Rightarrow> bool" +
  fixes cbs :: "'w gateway gateway_callbacks"
  assumes ListTemplates_cb: "\<And>ctx a. within R (the (cb_ListTemplates cbs) ctx a)"
    and GetTemplate_cb: "\<And>ctx a b. within R (the (cb_GetTemplate cbs) ctx a b)"
    and GetTemplateAlias_cb: "\<And>ctx a. within R (the (cb_GetTemplateAlias cbs) ctx a)"
    and CreateTemplate_cb: "\<And>ctx a. within R (the (cb_CreateTemplate cbs) ctx a)"
    and CreateTemplateV2_cb: "\<And>ctx a. within R (the (cb_CreateTemplateV2 cbs) ctx a)"
    and CreateTemplateV3_cb: "\<And>ctx a. within R (the (cb_CreateTemplateV3 cbs) ctx a)"
    and DeleteTemplate_cb: "\<And>ctx a. within R (the (cb_DeleteTemplate cbs) ctx a)"
    and UpdateTemplate_cb: "\<And>ctx a b. within R (the (cb_UpdateTemplate cbs) ctx a b)"
    and UpdateTemplateV2_cb: "\<And>ctx a b. within R (the (cb_UpdateTemplateV2 cbs) ctx a b)"
    and RebuildTemplate_cb: "\<And>ctx a b. within R (the (cb_RebuildTemplate cbs) ctx a b)"
    and StartTemplateBuild_cb: "\<And>ctx a b. within R (the (cb_StartTemplateBuild cbs) ctx a b)"
    and StartTemplateBuildV2_cb: "\<And>ctx a b c. within R (the (cb_StartTemplateBuildV2 cbs) ctx a b c)"
    and GetTemplateBuildInfo_cb: "\<And>ctx a b c. within R (the (cb_GetTemplateBuildInfo cbs) ctx a b c)"
    and GetTemplateBuildLogs_cb: "\<And>ctx a b c. within R (the (cb_GetTemplateBuildLogs cbs) ctx a b c)"
    and GetTemplateFileUpload_cb: "\<And>ctx a b. within R (the (cb_GetTemplateFileUpload cbs) ctx a b)"
    and AssignTemplateTags_cb: "\<And>ctx a. within R (the (cb_AssignTemplateTags cbs) ctx a)"
    and DeleteTemplateTags_cb: "\<And>ctx a. within R (the (cb_DeleteTemplateTags cbs) ctx a)"
    and ListTemplateTags_cb: "\<And>ctx a. within R (the (cb_ListTemplateTags cbs) ctx a)"
begin

lemmas template_cbs =
    ListTemplates_cb GetTemplate_cb GetTemplateAlias_cb CreateTemplate_cb CreateTemplateV2_cb
    CreateTemplateV3_cb DeleteTemplate_cb UpdateTemplate_cb UpdateTemplateV2_cb RebuildTemplate_cb
    StartTemplateBuild_cb StartTemplateBuildV2_cb GetTemplateBuildInfo_cb GetTemplateBuildLogs_cb
    GetTemplateFileUpload_cb AssignTemplateTags_cb DeleteTemplateTags_cb ListTemplateTags_cb

lemmas template_handler_defs =
    GetTemplates_def GetTemplatesTemplateID_def GetTemplatesAliasesAlias_def PostTemplates_def
    PostV2Templates_def PostV3Templates_def DeleteTemplatesTemplateID_def PatchTemplatesTemplateID_def
    PatchV2TemplatesTemplateID_def PostTemplatesTemplateID_def PostTemplatesTemplateIDBuildsBuildID_def
    PostV2TemplatesTemplateIDBuildsBuildID_def GetTemplatesTemplateIDBuildsBuildIDStatus_def
    GetTemplatesTemplateIDBuildsBuildIDLogs_def GetTemplatesTemplateIDFilesHash_def PostTemplatesTags_def
    DeleteTemplatesTags_def GetTemplatesTemplateIDTags_def

text \<open>The upload's handler is no callback: it works on the store itself.\<close>

lemma template_served:
  assumes "\<And>i h others. q = UploadCall i h others \<Longrightarrow> handles R (handleTemplateFileUpload env others i h c)"
  shows "handles R (serve_template env cbs q c)"
  using assms by (cases q) (auto simp: template_handler_defs
      intro!: respond_in answer_in with_body_in template_cbs split: prod.split)

end

locale admin_callbacks = gateway_change R for R :: "'w gateway \<Rightarrow> 'w gateway \<Rightarrow> bool" +
  fixes cbs :: "'w gateway gateway_callbacks"
  assumes Health_cb: "\<And>ctx. within R (the (cb_Health cbs) ctx)"
    and ListNodes_cb: "\<And>ctx. within R (the (cb_ListNodes cbs) ctx)"
    and GetNode_cb: "\<And>ctx a b. within R (the (cb_GetNode cbs) ctx a b)"
    and SetNodeStatus_cb: "\<And>ctx a b. within R (the (cb_SetNodeStatus cbs) ctx a b)"
    and ListTeams_cb: "\<And>ctx. within R (the (cb_ListTeams cbs) ctx)"
    and GetTeamMetrics_cb: "\<And>ctx a b. within R (the (cb_GetTeamMetrics cbs) ctx a b)"
    and GetTeamMetricMax_cb: "\<And>ctx a b c. within R (the (cb_GetTeamMetricMax cbs) ctx a b c)"
    and KillTeamSandboxes_cb: "\<And>ctx a. within R (the (cb_KillTeamSandboxes cbs) ctx a)"
    and CancelTeamBuilds_cb: "\<And>ctx a. within R (the (cb_CancelTeamBuilds cbs) ctx a)"
begin

lemmas admin_cbs =
    Health_cb ListNodes_cb GetNode_cb SetNodeStatus_cb ListTeams_cb GetTeamMetrics_cb GetTeamMetricMax_cb
    KillTeamSandboxes_cb CancelTeamBuilds_cb

lemmas admin_handler_defs =
    GetHealth_def GetNodes_def GetNodesNodeID_def PostNodesNodeID_def GetTeams_def GetTeamsTeamIDMetrics_def
    GetTeamsTeamIDMetricsMax_def PostAdminTeamsTeamIDSandboxesKill_def PostAdminTeamsTeamIDBuildsCancel_def

lemma admin_served: "handles R (serve_admin env cbs q c)"
  by (cases q) (auto simp: admin_handler_defs unimplementedGatewayAPI_def handleUnimplementedGatewayRoute_def
      writeNotImplemented_def handleNoRoute_def handleHealth_def
      intro!: respond_in answer_in with_body_in admin_cbs split: prod.split)

end

locale volume_callbacks = gateway_change R for R :: "'w gateway \<Rightarrow> 'w gateway \<Rightarrow> bool" +
  fixes cbs :: "'w gateway gateway_callbacks"
  assumes ListVolumes_cb: "\<And>ctx. within R (the (cb_ListVolumes cbs) ctx)"
    and CreateVolume_cb: "\<And>ctx a. within R (the (cb_CreateVolume cbs) ctx a)"
    and GetVolume_cb: "\<And>ctx a. within R (the (cb_GetVolume cbs) ctx a)"
    and DeleteVolume_cb: "\<And>ctx a. within R (the (cb_DeleteVolume cbs) ctx a)"
begin

lemmas volume_cbs =
    ListVolumes_cb CreateVolume_cb GetVolume_cb DeleteVolume_cb

lemmas volume_handler_defs =
    GetVolumes_def PostVolumes_def GetVolumesVolumeID_def DeleteVolumesVolumeID_def

lemmas volume_content_defs =
    handleVolumeContentPathGet_def handleVolumeContentFileGet_def handleVolumeContentFilePut_def
    handleVolumeContentDirGet_def handleVolumeContentDirPost_def

lemma with_content_in: "(\<And>rt. handles R (run rt)) \<Longrightarrow> handles R (with_content env run)"
  by (auto simp: handles_def with_content_def same split: sum.split)

lemma content_answer_in: "handles R (content_answer env m ok)"
  using on_world_in [of m]
  by (auto simp: handles_def content_answer_def reads_within_def split: prod.split sum.split) (metis snd_conv)+

lemma put_answer_in: "handles R (\<lambda>g. case on_world m g of (Inl err, g) \<Rightarrow> (f err, g) | (Inr x, g) \<Rightarrow> (ok x, g))"
  using on_world_in [of m]
  by (auto simp: handles_def reads_within_def split: prod.split sum.split) (metis snd_conv)+

lemma volume_served: "handles R (serve_volume env cbs q c)"
  by (cases q) (auto simp: volume_handler_defs volume_content_defs Let_def
      intro!: respond_in answer_in with_body_in with_param_in with_content_in content_answer_in put_answer_in volume_cbs)

end

section \<open>Requests about sandboxes\<close>

definition same_sandboxes :: "'w gateway \<Rightarrow> 'w gateway \<Rightarrow> bool" where
  "same_sandboxes g g' \<longleftrightarrow> gw_store g' = gw_store g \<and> gw_deadlines g' = gw_deadlines g"

definition same_templates :: "'w gateway \<Rightarrow> 'w gateway \<Rightarrow> bool" where
  "same_templates g g' \<longleftrightarrow> gw_management g' = gw_management g \<and> gw_builds g' = gw_builds g \<and> gw_jobs g' = gw_jobs g"

definition sandbox_change :: "'w gateway \<Rightarrow> 'w gateway \<Rightarrow> bool" where
  "sandbox_change g g' \<longleftrightarrow> same_templates g g' \<and> (app_inv (app_of g) \<longrightarrow> app_inv (app_of g'))"

interpretation sandbox_kind: gateway_change sandbox_change
  by unfold_locales (auto simp: sandbox_change_def same_templates_def app_of_def
      elim!: app_inv_cong [THEN iffD1, rotated -1])

lemma on_app_in:
  assumes "\<And>s r t. f s = (r, t) \<Longrightarrow> app_inv s \<Longrightarrow> app_inv t"
  shows "within sandbox_change (on_app f)"
  unfolding within_def
proof
  fix g
  obtain r t where f: "f (app_of g) = (r, t)" by (cases "f (app_of g)")
  then show "sandbox_change g (snd (on_app f g))"
    using assms [OF f] by (simp add: on_app_def sandbox_change_def same_templates_def) (simp add: with_app_def)
qed

lemma snd_err_of [simp]: "snd (err_of p) = snd p"
  by (cases p) (auto simp: err_of_def split: sum.split)

lemma request_in: "(\<And>s. handle rt k q s = err_of (f s)) \<Longrightarrow> within sandbox_change (on_app f)"
  by (rule on_app_in) (metis app_step.request app_step_inv prod.collapse snd_conv snd_err_of)

lemma active_inv: "activeSandboxRecord rt k s = (res, t) \<Longrightarrow> app_inv s \<Longrightarrow> app_inv t"
  by (blast intro: app_trans_inv dest: activeSandboxRecord_walk)

lemma world_inv: "world_call f s = (x, t) \<Longrightarrow> app_inv s \<Longrightarrow> app_inv t"
  by (blast intro: app_trans_inv dest: world_call_trans)

lemma metrics_inv: "defaultGetSandboxMetrics rt mr k req s = (res, t) \<Longrightarrow> app_inv s \<Longrightarrow> app_inv t"
  by (blast intro: app_trans_inv dest: getMetrics_trans)

lemma list_metrics_inv: "defaultListSandboxMetrics rt mr ids s = (res, t) \<Longrightarrow> app_inv s \<Longrightarrow> app_inv t"
  by (auto simp: defaultListSandboxMetrics_def split: if_splits intro: app_walk_inv dest: collect_metrics_spec)

lemma snapshot_inv: "defaultCreateSandboxSnapshot rt sn k req s = (res, t) \<Longrightarrow> app_inv s \<Longrightarrow> app_inv t"
  by (auto simp: defaultCreateSandboxSnapshot_def split: prod.splits sum.splits option.splits dest: active_inv world_inv)

lemma snapshots_inv: "defaultListSnapshots sn req s = (res, t) \<Longrightarrow> app_inv s \<Longrightarrow> app_inv t"
  by (auto simp: defaultListSnapshots_def split: option.splits dest: world_inv)

lemma sandbox_logs_inv: "defaultGetSandboxLogs rt lg k req s = (res, t) \<Longrightarrow> app_inv s \<Longrightarrow> app_inv t"
  by (auto simp: defaultGetSandboxLogs_def split: prod.splits sum.splits option.splits dest: active_inv world_inv)

lemma team_metrics_inv: "defaultGetTeamMetrics rt req s = (res, t) \<Longrightarrow> app_inv s \<Longrightarrow> app_inv t"
  and team_max_inv: "defaultGetTeamMetricMax rt req m s = (res', t) \<Longrightarrow> app_inv s \<Longrightarrow> app_inv t"
  by (auto simp: defaultGetTeamMetrics_def defaultGetTeamMetricMax_def Let_def split: option.splits prod.splits if_splits
      dest: world_inv)

lemma create_in: "within sandbox_change (on_app (defaultCreateSandbox rt ty req))"
  and list_in: "within sandbox_change (on_app (defaultListSandboxes rt lreq))"
  and kill_team_in: "within sandbox_change (on_app (defaultKillTeamSandboxes rt))"
  by (rule on_app_in, erule (1) app_step_inv [OF app_step.create] app_step_inv [OF app_step.list]
      app_step_inv [OF app_step.kill_team])+

lemmas sandbox_op_in =
  create_in list_in kill_team_in
  request_in [OF handle.simps(1)] request_in [OF handle.simps(2)] request_in [OF handle.simps(3)]
  request_in [OF handle.simps(4)] request_in [OF handle.simps(5)] request_in [OF handle.simps(6)]
  request_in [OF handle.simps(7)]
  on_app_in [OF metrics_inv] on_app_in [OF list_metrics_inv] on_app_in [OF snapshot_inv] on_app_in [OF snapshots_inv]
  on_app_in [OF sandbox_logs_inv] on_app_in [OF team_metrics_inv] on_app_in [OF team_max_inv]

interpretation sandbox_requests: sandbox_callbacks sandbox_change "DefaultGatewayCallbacks env" for env
  by unfold_locales (simp_all add: DefaultGatewayCallbacks_def Let_def sandbox_op_in)

section \<open>Requests about templates\<close>

text \<open>The background builds are the tasks that have not returned, each once.\<close>

definition jobs_ok :: "build_manager \<Rightarrow> build_job list \<Rightarrow> bool" where
  "jobs_ok b jobs \<longleftrightarrow> distinct (map bj_task jobs) \<and>
     set (map bj_task jobs) = {t. t < length (bm_tasks b) \<and> \<not> tk_returned (bm_tasks b ! t)}"

definition templates_ok :: "'w gateway \<Rightarrow> bool" where
  "templates_ok g \<longleftrightarrow> templates_inv (templates_of g) \<and> jobs_ok (gw_builds g) (gw_jobs g)"

definition template_change :: "'w gateway \<Rightarrow> 'w gateway \<Rightarrow> bool" where
  "template_change g g' \<longleftrightarrow> same_sandboxes g g' \<and> (templates_ok g \<longrightarrow> templates_ok g')"

lemma jobs_counted: "jobs_ok b jobs \<Longrightarrow> bm_inv b \<Longrightarrow> bm_wg b = length jobs"
proof -
  assume ok: "jobs_ok b jobs" and inv: "bm_inv b"
  then have "length jobs = card {t. t < length (bm_tasks b) \<and> \<not> tk_returned (bm_tasks b ! t)}"
    unfolding jobs_ok_def by (metis distinct_card length_map)
  with bm_invD(6) [OF inv] show ?thesis by (simp add: running_tasks_def length_filter_conv_card)
qed

lemma jobs_ok_marks:
  assumes "jobs_ok b jobs" and "length (bm_tasks b') = length (bm_tasks b)"
    and "\<And>t. t < length (bm_tasks b) \<Longrightarrow> tk_returned (bm_tasks b' ! t) = tk_returned (bm_tasks b ! t)"
  shows "jobs_ok b' jobs"
  using assms by (auto simp: jobs_ok_def)

interpretation template_kind: gateway_change template_change
  by unfold_locales (auto simp: template_change_def same_sandboxes_def templates_ok_def templates_inv_def templates_of_def)

text \<open>A callback that leaves the build manager alone and keeps the invariant.\<close>

definition tstep :: "'w tapp \<Rightarrow> 'w tapp \<Rightarrow> bool" where
  "tstep s t \<longleftrightarrow> tp_builds t = tp_builds s \<and> (templates_inv s \<longrightarrow> templates_inv t)"

lemma world_tstep: "world_only s t \<Longrightarrow> tstep s t"
  by (auto simp: tstep_def world_only_def intro: world_only_inv [unfolded world_only_def])

lemma upsert_tstep: "upsert env x tags logs s = (res, t) \<Longrightarrow> tstep s t"
  by (drule upsert_inv) (simp add: tstep_def)

lemma tstep_refl [simp]: "tstep s s" and tstep_trans: "tstep s t \<Longrightarrow> tstep t u \<Longrightarrow> tstep s u"
  by (simp_all add: tstep_def)

lemma on_templates_in:
  assumes "\<And>s r t. f s = (r, t) \<Longrightarrow> tstep s t"
  shows "within template_change (on_templates f)"
  unfolding within_def
proof
  fix g
  obtain r t where f: "f (templates_of g) = (r, t)" by (cases "f (templates_of g)")
  have "tp_builds t = gw_builds g" "templates_inv (templates_of g) \<longrightarrow> templates_inv t"
    using assms [OF f] by (simp_all add: tstep_def templates_of_def)
  with f show "template_change g (snd (on_templates f g))"
    by (simp add: on_templates_def template_change_def same_sandboxes_def templates_ok_def)
      (simp add: with_templates_def)
qed

lemmas tsteps =
  tw_call_world [THEN world_tstep] logs_now_world [THEN world_tstep] List_world [THEN world_tstep]
  find_world [THEN world_tstep] find_tagged_world [THEN world_tstep] newManaged_world [THEN world_tstep]
  run_builder_world [THEN world_tstep] upsert_tstep

lemma management_tstep: "management_inv (tp_management s) \<Longrightarrow> management_inv m \<Longrightarrow> tstep s (s\<lparr>tp_management := m\<rparr>)"
  by (simp add: tstep_def templates_inv_def)

lemmas tfacts = tsteps [unfolded tstep_def]

interpretation tkind: change_kind tstep
  by unfold_locales (auto simp: tstep_def)

lemma tw_reads: "reads_within tstep (tw_call f)"
  unfolding reads_within_def by (metis prod.collapse tw_call_world world_tstep)

lemma with_builds_tstep: "templateWithBuilds lib (tw_call f) x s = (y, t) \<Longrightarrow> tstep s t"
  and builds_tstep: "templateBuildRecords lib (tw_call f) xs s = (ys, t) \<Longrightarrow> tstep s t"
  and legacy_tstep: "templateLegacy (tw_call f) x s = (z, t) \<Longrightarrow> tstep s t"
  by (rule tkind.reads_step [OF tkind.with_builds_in [OF tw_reads]], assumption)
    (rule tkind.reads_step [OF tkind.builds_in [OF tw_reads]], assumption,
     rule tkind.reads_step [OF tkind.legacy_in [OF tw_reads]], assumption)

lemmas tfacts_more = tfacts with_builds_tstep [unfolded tstep_def] builds_tstep [unfolded tstep_def]

lemma get_template_tstep: "defaultGetTemplate env i params s = (res, t) \<Longrightarrow> tstep s t"
  unfolding tstep_def
  by (auto simp: defaultGetTemplate_def Let_def split: callback_splits dest!: tfacts_more)

lemma find_alias_tstep: "defaultGetTemplateAlias env a s = (res, t) \<Longrightarrow> tstep s t"
  unfolding tstep_def by (auto simp: defaultGetTemplateAlias_def split: callback_splits dest!: tfacts)

lemma create_tstep: "defaultCreateTemplate env req s = (res, t) \<Longrightarrow> tstep s t"
  unfolding tstep_def
  by (auto simp: defaultCreateTemplate_def template_dash_uuid_def split: callback_splits dest!: tfacts)

lemma createV2_tstep: "defaultCreateTemplateV2 env a c m s = (res, t) \<Longrightarrow> tstep s t"
  unfolding tstep_def by (auto simp: defaultCreateTemplateV2_def split: callback_splits dest!: tfacts)

lemma createV3_tstep: "defaultCreateTemplateV3 env n a ts c m s = (res, t) \<Longrightarrow> tstep s t"
  unfolding tstep_def
  by (auto simp: defaultCreateTemplateV3_def template_dash_uuid_def Let_def split: callback_splits dest!: tfacts)

lemma rebuild_tstep: "defaultRebuildTemplate env i req s = (res, t) \<Longrightarrow> tstep s t"
  unfolding tstep_def by (auto simp: defaultRebuildTemplate_def Let_def split: callback_splits dest!: tfacts)

lemma update_tstep: "defaultUpdateTemplateRecord env i p s = (res, t) \<Longrightarrow> tstep s t"
  unfolding tstep_def by (auto simp: defaultUpdateTemplateRecord_def Let_def split: callback_splits dest!: tfacts)

lemma start_tstep: "defaultStartTemplateBuild env i b s = (res, t) \<Longrightarrow> tstep s t"
  unfolding tstep_def
  by (auto simp: defaultStartTemplateBuild_def defaultMarkTemplateBuildReady_def Let_def split: callback_splits dest!: tfacts)

lemma delete_tstep: "defaultDeleteTemplate env i s = (res, t) \<Longrightarrow> tstep s t"
  unfolding tstep_def
  by (auto intro: delete_inv) (auto simp: defaultDeleteTemplate_def split: callback_splits option.splits dest!: tfacts)

lemma build_info_tstep: "defaultGetTemplateBuildInfo env i b req s = (res, t) \<Longrightarrow> tstep s t"
  unfolding tstep_def
  by (auto simp: defaultGetTemplateBuildInfo_def Let_def split: callback_splits option.splits dest!: tfacts)

lemma build_logs_tstep: "defaultGetTemplateBuildLogs env i b req s = (res, t) \<Longrightarrow> tstep s t"
  unfolding tstep_def
  by (auto simp: defaultGetTemplateBuildLogs_def Let_def split: callback_splits option.splits dest!: tfacts)

lemma list_tags_tstep: "defaultListTemplateTags env i s = (res, t) \<Longrightarrow> tstep s t"
  unfolding tstep_def by (auto simp: defaultListTemplateTags_def Let_def split: callback_splits dest!: tfacts)

lemma store_step:
  assumes "tstep s t" and "\<And>m. management_inv m \<Longrightarrow> tp_management t = m \<Longrightarrow> management_inv m'"
  shows "tstep s (t\<lparr>tp_management := m'\<rparr>)"
  using assms by (auto simp: tstep_def templates_inv_def)

lemma upload_ticket_tstep: "defaultGetTemplateFileUpload env f i h s = (res, t) \<Longrightarrow> tstep s t"
proof -
  assume run: "defaultGetTemplateFileUpload env f i h s = (res, t)"
  obtain x s1 where x: "findTemplate env i s = (x, s1)" by (cases "findTemplate env i s")
  obtain bytes s2 where bytes: "tw_call (te_rand24 env) s1 = (bytes, s2)" by (cases "tw_call (te_rand24 env) s1")
  obtain now s3 where now: "tw_call (te_now env) s2 = (now, s3)" by (cases "tw_call (te_now env) s2")
  from x bytes now have t: "tstep s s1" "tstep s s3" by (blast intro: tsteps tstep_trans)+
  have "tstep s (s3\<lparr>tp_management := snd (CreateTemplateFileUpload bytes now k h (tp_management s3))\<rparr>)" for k
    by (rule store_step [OF t(2)]) (simp add: management_inv_CreateUpload)
  with run x bytes now t show ?thesis
    by (auto simp: defaultGetTemplateFileUpload_def Let_def split: callback_splits) (metis snd_conv)+
qed

lemma assign_tags_tstep: "defaultAssignTemplateTags env a ts s = (res, t) \<Longrightarrow> tstep s t"
proof -
  assume run: "defaultAssignTemplateTags env a ts s = (res, t)"
  obtain x s1 where x: "findTemplateByTaggedName env a s = (x, s1)" by (cases "findTemplateByTaggedName env a s")
  obtain now s2 where now: "tw_call (te_now env) s1 = (now, s2)" by (cases "tw_call (te_now env) s1")
  from x now have t: "tstep s s1" "tstep s s2" by (blast intro: tsteps tstep_trans)+
  have "tstep s (s2\<lparr>tp_management := snd (AssignTemplateTags (te_lib env) now x' tags (tp_management s2))\<rparr>)" for x' tags
    by (rule store_step [OF t(2)])
       (auto simp: AssignTemplateTags_def split: prod.split sum.split dest: management_inv_Upsert)
  with run x now t show ?thesis
    by (auto simp: defaultAssignTemplateTags_def Let_def split: callback_splits) (metis snd_conv)+
qed

lemma delete_tags_tstep: "defaultDeleteTemplateTags env a ts s = (res, t) \<Longrightarrow> tstep s t"
proof -
  assume run: "defaultDeleteTemplateTags env a ts s = (res, t)"
  obtain x s1 where x: "findTemplateByTaggedName env a s = (x, s1)" by (cases "findTemplateByTaggedName env a s")
  note t = find_tagged_world [OF x, THEN world_tstep]
  show ?thesis
  proof (cases x)
    case (Inl e)
    with run x t show ?thesis by (auto simp: defaultDeleteTemplateTags_def Let_def split: if_splits)
  next
    case (Inr y)
    obtain u s2 where u: "upsert env y [] [] s1 = (u, s2)" by (cases "upsert env y [] [] s1")
    note t2 = tstep_trans [OF t upsert_tstep [OF u]]
    have "tstep s (s2\<lparr>tp_management := snd (DeleteTemplateTags (gt_TemplateID y) tags (tp_management s2))\<rparr>)" for tags
      by (rule store_step [OF t2]) (simp add: management_inv_DeleteTags)
    with run x Inr u t2 t show ?thesis
      by (auto simp: defaultDeleteTemplateTags_def Let_def split: callback_splits option.splits) (metis snd_conv)+
  qed
qed

lemma legacy_response_tstep:
  assumes "\<And>s r t. f s = (r, t) \<Longrightarrow> tstep s t" shows "legacy_response env f s = (res, t) \<Longrightarrow> tstep s t"
  using assms by (auto simp: legacy_response_def split: callback_splits intro: tstep_trans dest!: legacy_tstep)

lemma v3_response_tstep:
  assumes "\<And>s r t. f s = (r, t) \<Longrightarrow> tstep s t" shows "v3_response f s = (res, t) \<Longrightarrow> tstep s t"
  using assms by (auto simp: v3_response_def split: callback_splits)

lemma update_unit_tstep: "defaultUpdateTemplate env i p s = (res, t) \<Longrightarrow> tstep s t"
  and updateV2_tstep: "defaultUpdateTemplateV2 env i p s = (res', t) \<Longrightarrow> tstep s t"
  by (auto simp: defaultUpdateTemplate_def defaultUpdateTemplateV2_def split: callback_splits dest: update_tstep)

lemma get_node_tstep: "defaultGetNode env h st n s = (res, t) \<Longrightarrow> tstep s t"
  by (auto simp: defaultGetNode_def Let_def split: callback_splits dest!: List_world [THEN world_tstep])

lemma templates_of_jobs [simp]: "templates_of (g\<lparr>gw_jobs := js\<rparr>) = templates_of g"
  by (simp add: templates_of_def)

text \<open>Starting a build adds the job of its task; cancelling and the node's status touch no task's return.\<close>

lemma startV2_tasks:
  assumes run: "defaultStartTemplateBuildV2 env i b req s = (res, t)" and inv: "templates_inv s"
  shows "case res of
      Inr (Some job) \<Rightarrow> bj_task job = length (bm_tasks (tp_builds s)) \<and>
        (\<exists>x. bm_tasks (tp_builds t) = bm_tasks (tp_builds s) @ [x] \<and> \<not> tk_returned x)
    | _ \<Rightarrow> tp_builds t = tp_builds s"
proof (cases res)
  case (Inl e)
  with startV2_error [OF run [unfolded Inl] inv] show ?thesis by simp
next
  case (Inr r)
  with run show ?thesis
    by (auto simp: defaultStartTemplateBuildV2_def reserve_def Let_def split: callback_splits dest!: tfacts)
qed

lemma jobs_ok_add:
  assumes "jobs_ok b jobs" and "bm_tasks b' = bm_tasks b @ [x]" and "\<not> tk_returned x" and "bj_task job = length (bm_tasks b)"
  shows "jobs_ok b' (jobs @ [job])"
proof -
  have "bj_task j < length (bm_tasks b)" if "j \<in> set jobs" for j
    using assms(1) that unfolding jobs_ok_def by (metis (no_types, lifting) imageI list.set_map mem_Collect_eq)
  with assms show ?thesis by (auto simp: jobs_ok_def nth_append less_Suc_eq)
qed

lemma start_v2_in: "within template_change (start_build_v2 (env :: 'w template_env) i b req)"
  unfolding within_def
proof
  fix g :: "'w gateway"
  let ?s = "templates_of g"
  obtain r t where f: "defaultStartTemplateBuildV2 env i b req ?s = (r, t)"
    by (cases "defaultStartTemplateBuildV2 env i b req ?s")
  note sp = conjunct1 [OF startV2_spec [OF f]] startV2_tasks [OF f]
  have b: "tp_builds ?s = gw_builds g" by (simp add: templates_of_def)
  show "template_change g (snd (start_build_v2 env i b req g))"
  proof (cases "\<exists>job. r = Inr (Some job)")
    case True
    then obtain job where r: "r = Inr (Some job)" by blast
    then have eq: "snd (start_build_v2 env i b req g) = (with_templates g t)\<lparr>gw_jobs := gw_jobs g @ [job]\<rparr>"
      using f by (simp add: start_build_v2_def on_templates_def) (simp add: with_templates_def)
    from r sp b have "templates_inv ?s \<longrightarrow> templates_inv t"
      and "templates_inv ?s \<Longrightarrow> jobs_ok (gw_builds g) (gw_jobs g) \<longrightarrow> jobs_ok (tp_builds t) (gw_jobs g @ [job])"
      by (auto intro: jobs_ok_add)
    then show ?thesis unfolding eq
      by (auto simp: template_change_def same_sandboxes_def templates_ok_def) (simp_all add: with_templates_def)
  next
    case False
    then have eq: "snd (start_build_v2 env i b req g) = with_templates g t"
      using f by (auto simp: start_build_v2_def on_templates_def split: sum.split option.split)
    from False sp b have "templates_inv ?s \<longrightarrow> templates_inv t \<and> tp_builds t = gw_builds g"
      by (auto split: sum.splits option.splits)
    then show ?thesis unfolding eq
      by (simp add: template_change_def same_sandboxes_def templates_ok_def) (simp add: with_templates_def)
  qed
qed

lemma cancel_builds_in: "within template_change (cancel_team_builds teamID :: ('w gateway, nat \<times> nat) call)"
  unfolding within_def
proof
  fix g :: "'w gateway"
  obtain n b where c: "cancelTeamBuilds teamID (gw_builds g) = (n, b)" by (cases "cancelTeamBuilds teamID (gw_builds g)")
  with cancelTeam_marks [of "gw_builds g" teamID] have m: "marks_only (gw_builds g) b" by simp
  have "snd (cancel_team_builds teamID g) = g\<lparr>gw_builds := b\<rparr>"
    by (simp add: cancel_team_builds_def call_defs on_templates_def defaultCancelTeamBuilds_def templates_of_def c
        with_templates_def ret_def)
  with m show "template_change g (snd (cancel_team_builds teamID g))"
    by (auto simp: template_change_def same_sandboxes_def templates_ok_def templates_inv_def templates_of_def
        intro: bm_inv_marks jobs_ok_marks simp: marks_only_def)
qed

lemma node_status_in: "within template_change (set_node_status nodeID status)"
  using management_inv_SetNodeStatus
  by (auto simp: within_def set_node_status_def defaultSetNodeStatus_def template_change_def same_sandboxes_def
      templates_ok_def templates_inv_def templates_of_def split: prod.split option.split) (metis snd_conv)+

lemmas template_op_in =
  on_templates_in [OF get_template_tstep] on_templates_in [OF find_alias_tstep]
  on_templates_in [OF List_world [THEN world_tstep]]
  on_templates_in [OF legacy_response_tstep [OF create_tstep]] on_templates_in [OF legacy_response_tstep [OF createV2_tstep]]
  on_templates_in [OF v3_response_tstep [OF createV3_tstep]] on_templates_in [OF delete_tstep]
  on_templates_in [OF update_unit_tstep] on_templates_in [OF updateV2_tstep]
  on_templates_in [OF legacy_response_tstep [OF rebuild_tstep]] on_templates_in [OF start_tstep] start_v2_in
  on_templates_in [OF build_info_tstep] on_templates_in [OF build_logs_tstep]
  on_templates_in [OF upload_ticket_tstep] on_templates_in [OF assign_tags_tstep]
  on_templates_in [OF delete_tags_tstep] on_templates_in [OF list_tags_tstep]

interpretation template_requests: template_callbacks template_change "DefaultGatewayCallbacks env" for env
  by unfold_locales (simp_all add: DefaultGatewayCallbacks_def Let_def template_op_in)

text \<open>An upload, with what the other requests make of the store while its body is read.\<close>

lemma management_inv_frame:
  "management_inv s \<Longrightarrow> uploads_ok t \<Longrightarrow> ms_templates t = ms_templates s \<Longrightarrow> ms_deletedTemplates t = ms_deletedTemplates s
     \<Longrightarrow> management_inv t"
  by (simp add: management_inv_def)

lemma check_upload_inv: "check_upload tid h token now s = (res, t) \<Longrightarrow> management_inv s \<Longrightarrow> management_inv t"
  using check_upload_spec [of tid h token now s res t] management_inv_frame [of s t] by (auto simp: management_inv_def)

lemma commit_upload_inv: "commit_upload tid h u w now s = (res, t) \<Longrightarrow> management_inv s \<Longrightarrow> management_inv t"
  using commit_upload_spec [of tid h u "fst w" "fst (snd w)" "snd (snd w)" now s res t] management_inv_frame [of s t]
  by (auto simp: management_inv_def)

lemma StoreUpload_inv:
  assumes run: "StoreTemplateFileUploadReader env others now1 now2 c tid h token body s = (res, t)"
    and inv: "management_inv s" and others: "\<And>s. management_inv s \<Longrightarrow> management_inv (others s)"
  shows "management_inv t"
proof -
  let ?tid = "TrimSpace tid" and ?h = "TrimSpace h" and ?tok = "TrimSpace token"
  obtain u1 s1 where c1: "check_upload ?tid ?h ?tok now1 s = (u1, s1)" by (cases "check_upload ?tid ?h ?tok now1 s")
  obtain u2 s2 where c2: "check_upload ?tid ?h ?tok now2 (others s1) = (u2, s2)"
    by (cases "check_upload ?tid ?h ?tok now2 (others s1)")
  note inv1 = check_upload_inv [OF c1 inv]
  note inv2 = check_upload_inv [OF c2 others [OF inv1]]
  have "t = s1 \<or> t = others s1 \<or> t = s2 \<or> (\<exists>u w. commit_upload ?tid ?h u w c s2 = (res, t))"
    using run c1 c2
    by (auto simp: StoreTemplateFileUploadReader_def Let_def split: option.splits sum.splits prod.splits)
  with inv1 inv2 others show ?thesis by (auto intro: commit_upload_inv)
qed

definition keeps_store :: "(management \<Rightarrow> management) \<Rightarrow> bool" where
  "keeps_store others \<longleftrightarrow> (\<forall>m. management_inv m \<longrightarrow> management_inv (others m))"

lemma management_in:
  "(management_inv (gw_management g) \<Longrightarrow> management_inv m) \<Longrightarrow> template_change g (g\<lparr>gw_management := m\<rparr>)"
  by (auto simp: template_change_def same_sandboxes_def templates_ok_def templates_inv_def templates_of_def)

lemma upload_in:
  assumes "keeps_store others"
  shows "handles template_change (handleTemplateFileUpload env others i h c)"
  unfolding handles_def
proof
  fix g
  let ?r = "handleTemplateFileUpload env others i h c g"
  obtain t1 g1 where 1: "gw_now env g = (t1, g1)" by (cases "gw_now env g")
  obtain t2 g2 where 2: "gw_now env g1 = (t2, g2)" by (cases "gw_now env g1")
  obtain t3 g3 where 3: "gw_now env g2 = (t3, g3)" by (cases "gw_now env g2")
  note clock = template_kind.reads_step [OF template_kind.clock_in]
  have g3: "template_change g g3" by (blast intro: template_kind.steps clock 1 2 3)
  obtain r m where st: "StoreTemplateFileUploadReader (ge_upload env) others t1 t2 t3 (TrimSpace i) (TrimSpace h)
      (TrimSpace (map_read (hr_Query c) ''token'')) (MaxBytesReader (sint maxTemplateFileUploadBytes) (hr_Body c))
      (gw_management g3) = (r, m)" by (rule prod.exhaust)
  have "management_inv (gw_management g3) \<Longrightarrow> management_inv m"
    using StoreUpload_inv [OF st] assms by (auto simp: keeps_store_def)
  from template_kind.steps [OF g3 management_in [OF this]] have "template_change g (g3\<lparr>gw_management := m\<rparr>)" .
  moreover have "snd ?r = g \<or> snd ?r = g3\<lparr>gw_management := m\<rparr>"
    using st by (auto simp: handleTemplateFileUpload_def respond_def Let_def 1 2 3 split: option.split)
  ultimately show "template_change g (snd ?r)" using template_kind.same by metis
qed

section \<open>Nodes, teams and volumes\<close>

definition gateway_ok :: "'w gateway \<Rightarrow> bool" where
  "gateway_ok g \<longleftrightarrow> app_inv (app_of g) \<and> templates_ok g"

definition gateway_kept :: "'w gateway \<Rightarrow> 'w gateway \<Rightarrow> bool" where
  "gateway_kept g g' \<longleftrightarrow> (gateway_ok g \<longrightarrow> gateway_ok g')"

definition world_change :: "'w gateway \<Rightarrow> 'w gateway \<Rightarrow> bool" where
  "world_change g g' \<longleftrightarrow> same_sandboxes g g' \<and> same_templates g g'"

lemma sandbox_change_kept: "sandbox_change g g' \<Longrightarrow> gateway_kept g g'"
  by (auto simp: sandbox_change_def same_templates_def gateway_kept_def gateway_ok_def templates_ok_def
      templates_inv_def templates_of_def)

lemma template_change_kept: "template_change g g' \<Longrightarrow> gateway_kept g g'"
  by (auto simp: template_change_def same_sandboxes_def gateway_kept_def gateway_ok_def app_of_def
      elim!: app_inv_cong [THEN iffD1, rotated -1])

lemma world_change_kept: "world_change g g' \<Longrightarrow> gateway_kept g g'"
  by (intro template_change_kept) (auto simp: world_change_def same_templates_def template_change_def templates_ok_def
      templates_inv_def templates_of_def)

interpretation world_kind: gateway_change world_change
  by unfold_locales (auto simp: world_change_def same_sandboxes_def same_templates_def)

interpretation kept_kind: gateway_change gateway_kept
proof unfold_locales
  show "gateway_kept g (g\<lparr>gw_world := w\<rparr>)" for g :: "'w gateway" and w
    by (rule world_change_kept) (rule world_kind.outside)
qed (auto simp: gateway_kept_def)

lemma sandbox_within_kept: "within sandbox_change m \<Longrightarrow> within gateway_kept m"
  by (erule within_weaken) (rule sandbox_change_kept)

lemma template_within_kept: "within template_change m \<Longrightarrow> within gateway_kept m"
  by (erule within_weaken) (rule template_change_kept)

lemma get_node_in: "within template_change (on_templates (defaultGetNode env h st n))"
  by (rule on_templates_in) (rule get_node_tstep)

interpretation admin_requests: admin_callbacks gateway_kept "DefaultGatewayCallbacks env" for env
proof unfold_locales
  show "within gateway_kept (the (cb_Health (DefaultGatewayCallbacks env)) ctx)"
    "within gateway_kept (the (cb_ListTeams (DefaultGatewayCallbacks env)) ctx)" for ctx
    by (simp_all add: DefaultGatewayCallbacks_def Let_def defaultHealth_def kept_kind.ret_in)
  show "within gateway_kept (the (cb_ListNodes (DefaultGatewayCallbacks env)) ctx)" for ctx
    by (simp add: DefaultGatewayCallbacks_def Let_def within_def kept_kind.same)
  show "within gateway_kept (the (cb_GetNode (DefaultGatewayCallbacks env)) ctx a b)" for ctx a b
    by (simp add: DefaultGatewayCallbacks_def Let_def get_node_def [abs_def] within_def)
       (blast intro: template_change_kept get_node_in [unfolded within_def, rule_format])
  show "within gateway_kept (the (cb_SetNodeStatus (DefaultGatewayCallbacks env)) ctx a b)"
    "within gateway_kept (the (cb_CancelTeamBuilds (DefaultGatewayCallbacks env)) ctx a)" for ctx a b
    by (simp_all add: DefaultGatewayCallbacks_def Let_def template_within_kept node_status_in cancel_builds_in)
  show "within gateway_kept (the (cb_GetTeamMetrics (DefaultGatewayCallbacks env)) ctx a b)"
    "within gateway_kept (the (cb_GetTeamMetricMax (DefaultGatewayCallbacks env)) ctx a b c)"
    "within gateway_kept (the (cb_KillTeamSandboxes (DefaultGatewayCallbacks env)) ctx a)" for ctx a b c
    by (simp_all add: DefaultGatewayCallbacks_def Let_def sandbox_within_kept sandbox_op_in)
qed

lemma volume_callback_in:
  "within world_change (defaultListVolumes env)" "within world_change (defaultCreateVolume env name)"
  "within world_change (defaultGetVolume env i)" "within world_change (defaultDeleteVolume env i)"
  unfolding defaultListVolumes_def defaultCreateVolume_def defaultGetVolume_def defaultDeleteVolume_def Let_def
  by (intro world_kind.bind_in world_kind.lift_in world_kind.mapErr_in world_kind.on_world_call_in world_kind.if_in
      world_kind.ret_in world_kind.fail_in)+

interpretation volume_requests: volume_callbacks world_change "DefaultGatewayCallbacks env" for env
  by unfold_locales (simp_all add: DefaultGatewayCallbacks_def Let_def volume_callback_in)

end
