(* ===== verification/ServerSystem.thy ===== *)
theory ServerSystem
  imports ServerProofs
begin

text \<open>
  The server as a transition system: requests of every route, expiry callbacks, timer events, builds
  that end, shutdown, and changes of the outside world. Its invariant holds in every reachable state.
\<close>

section \<open>Requests\<close>

text \<open>The program passes no callbacks of its own (\<open>NewAppWithRuntime\<close>), so the default ones serve.\<close>

definition no_callbacks :: "'s gateway_callbacks" where
  "no_callbacks =
     \<lparr>cb_Health = None, cb_CreateSandbox = None, cb_ListSandboxes = None, cb_GetSandbox = None, cb_KillSandbox = None,
      cb_PauseSandbox = None, cb_ResumeSandbox = None, cb_ConnectSandbox = None, cb_SetSandboxTimeout = None,
      cb_RefreshSandbox = None, cb_GetSandboxMetrics = None, cb_ListSandboxMetrics = None,
      cb_CreateSandboxSnapshot = None, cb_ListSnapshots = None, cb_GetSandboxLogs = None, cb_GetSandboxLogsV2 = None,
      cb_ListTemplates = None, cb_GetTemplate = None, cb_GetTemplateAlias = None, cb_CreateTemplate = None,
      cb_CreateTemplateV2 = None, cb_CreateTemplateV3 = None, cb_DeleteTemplate = None, cb_UpdateTemplate = None,
      cb_UpdateTemplateV2 = None, cb_RebuildTemplate = None, cb_StartTemplateBuild = None,
      cb_StartTemplateBuildV2 = None, cb_GetTemplateBuildInfo = None, cb_GetTemplateBuildLogs = None,
      cb_GetTemplateFileUpload = None, cb_AssignTemplateTags = None, cb_DeleteTemplateTags = None,
      cb_ListTemplateTags = None, cb_ListNodes = None, cb_GetNode = None, cb_SetNodeStatus = None,
      cb_ListTeams = None, cb_GetTeamMetrics = None, cb_GetTeamMetricMax = None, cb_KillTeamSandboxes = None,
      cb_CancelTeamBuilds = None, cb_ListVolumes = None, cb_CreateVolume = None, cb_GetVolume = None,
      cb_DeleteVolume = None\<rparr>"

lemma WithDefaults_none: "WithDefaults no_callbacks d = d"
  by (simp add: WithDefaults_def no_callbacks_def or_default_def)

definition served :: "'w gateway_env \<Rightarrow> api_call \<Rightarrow> http_request \<Rightarrow> 'w gateway handler" where
  "served env q c = ServeHTTP env (gateway_callbacks_of env no_callbacks) q c"

text \<open>An upload reads its body while other requests go on; what they do keeps the store's invariant.\<close>

fun fair_call :: "api_call \<Rightarrow> bool" where
  "fair_call (TemplateCall (UploadCall i h others)) \<longleftrightarrow> keeps_store others"
| "fair_call _ \<longleftrightarrow> True"

text \<open>What a request may change.\<close>

fun change_of :: "api_call \<Rightarrow> 'w gateway \<Rightarrow> 'w gateway \<Rightarrow> bool" where
  "change_of (SandboxCall q) = sandbox_change"
| "change_of (TemplateCall q) = template_change"
| "change_of (AdminCall q) = gateway_kept"
| "change_of (VolumeCall q) = world_change"

lemma cors_in: "handles R h \<Longrightarrow> (\<And>s. R s s) \<Longrightarrow> handles R (corsMiddleware c h)"
  by (auto simp: handles_def corsMiddleware_def split: prod.split) (metis snd_conv)

lemma serve_call_in:
  assumes "fair_call q"
  shows "handles (change_of q) (serve_call env (DefaultGatewayCallbacks env) q c)"
  using assms by (cases q)
   (auto simp: sandbox_requests.sandbox_served admin_requests.admin_served volume_requests.volume_served
     intro!: template_requests.template_served upload_in)

lemma served_in: "fair_call q \<Longrightarrow> handles (change_of q) (served env q c)"
  unfolding served_def ServeHTTP_def gateway_callbacks_of_def WithDefaults_none
  by (rule cors_in [OF serve_call_in], assumption)
    (cases q; simp add: sandbox_kind.same template_kind.same kept_kind.same world_kind.same)

lemma change_kept: "change_of q g g' \<Longrightarrow> gateway_kept g g'"
  by (cases q) (auto intro: sandbox_change_kept template_change_kept world_change_kept)

section \<open>Builds that end\<close>

lemma record_tstep: "tstep s (record_failure env job logs e s)" "tstep s (record_success env job built logs s)"
  unfolding tstep_def
  by (auto simp: record_failure_def record_success_def Let_def split: prod.split dest!: tfacts)
     (auto simp: snd_def split: prod.splits dest!: tfacts)

lemma finish_build_inv:
  assumes inv: "templates_inv s" and t: "bj_task job < length (bm_tasks (tp_builds s))"
    and run: "\<not> tk_returned (bm_tasks (tp_builds s) ! bj_task job)"
  shows "templates_inv (finish_build env job built logs err s) \<and>
    tp_builds (finish_build env job built logs err s) = complete (bj_task job) (tp_builds s)"
proof -
  define e where "e = (if err = None \<and> tk_ctx_done (bm_tasks (tp_builds s) ! bj_task job) then Some context_Canceled else err)"
  define s1 where "s1 = (case e of Some e \<Rightarrow> record_failure env job logs e s | None \<Rightarrow> record_success env job built logs s)"
  have eq: "finish_build env job built logs err s = s1\<lparr>tp_builds := complete (bj_task job) (tp_builds s1)\<rparr>"
    by (simp add: finish_build_def Let_def e_def s1_def)
  have step: "tstep s s1" by (simp add: s1_def record_tstep split: option.split)
  from step inv have b: "tp_builds s1 = tp_builds s" "templates_inv s1" by (simp_all add: tstep_def)
  from inv have "bm_inv (tp_builds s)" by (simp add: templates_inv_def)
  from bm_inv_complete [OF this t run] b show ?thesis by (simp add: eq templates_inv_def)
qed

lemma jobs_ok_complete:
  assumes ok: "jobs_ok b jobs" and inv: "bm_inv b" and i: "i < length jobs"
  shows "jobs_ok (complete (bj_task (jobs ! i)) b) (take i jobs @ drop (Suc i) jobs)"
proof -
  let ?t = "bj_task (jobs ! i)"
  from i have split: "jobs = take i jobs @ jobs ! i # drop (Suc i) jobs" by (rule id_take_nth_drop)
  have "?t \<in> set (map bj_task jobs)" using i by simp
  with ok have t: "?t < length (bm_tasks b)" "\<not> tk_returned (bm_tasks b ! ?t)" by (auto simp: jobs_ok_def)
  from ok have d: "distinct (map bj_task jobs)"
    and s: "set (map bj_task jobs) = {t. t < length (bm_tasks b) \<and> \<not> tk_returned (bm_tasks b ! t)}"
    by (simp_all add: jobs_ok_def)
  from d have d': "distinct (map bj_task (take i jobs @ jobs ! i # drop (Suc i) jobs))" using split by simp
  have "set (map bj_task (take i jobs @ drop (Suc i) jobs)) = set (map bj_task (take i jobs @ jobs ! i # drop (Suc i) jobs)) - {?t}"
    using d' by auto
  also have "\<dots> = set (map bj_task jobs) - {?t}" using split by simp
  also have "\<dots> = {t. t < length (bm_tasks (complete ?t b)) \<and> \<not> tk_returned (bm_tasks (complete ?t b) ! t)}"
    unfolding s using t by (auto simp: complete_eq [OF inv t] nth_list_update)
  finally show ?thesis using d' by (simp add: jobs_ok_def)
qed

section \<open>Steps\<close>

inductive gateway_step :: "'w gateway_env \<Rightarrow> 'w gateway \<Rightarrow> 'w gateway \<Rightarrow> bool" for env where
  serves: "served env q c g = (r, g') \<Longrightarrow> fair_call q \<Longrightarrow> gateway_step env g g'"
| expires: "i < length (dm_pool (gw_deadlines g)) \<Longrightarrow> tm_status (dm_pool (gw_deadlines g) ! i) = InCallback \<Longrightarrow>
    gateway_step env g (with_app g (expireSandbox (ge_runtime env) (tm_sandbox (dm_pool (gw_deadlines g) ! i))
      (tm_expected (dm_pool (gw_deadlines g) ! i)) (app_of g)))"
| timer: "timer_event (gw_deadlines g) m \<Longrightarrow> gateway_step env g (g\<lparr>gw_deadlines := m\<rparr>)"
| build_ends: "i < length (gw_jobs g) \<Longrightarrow>
    gateway_step env g ((with_templates g (finish_build (ge_templates env) (gw_jobs g ! i) built logs err (templates_of g)))
      \<lparr>gw_jobs := take i (gw_jobs g) @ drop (Suc i) (gw_jobs g)\<rparr>)"
| shuts_down: "Shutdown derr berr g = (e, g') \<Longrightarrow> gateway_step env g g'"
| outside: "gateway_step env g (g\<lparr>gw_world := w\<rparr>)"

inductive_cases gateway_stepE: "gateway_step env g g'"

text \<open>A change of the sandboxes' part alone.\<close>

lemma app_part_ok:
  assumes "gateway_ok g" and "app_inv s"
  shows "gateway_ok (with_app g s)"
proof -
  have "templates_ok (with_app g s) = templates_ok g"
    by (simp add: templates_ok_def templates_inv_def templates_of_def with_app_def)
  with assms show ?thesis by (simp add: gateway_ok_def)
qed

lemma timer_ok:
  assumes "timer_event (gw_deadlines g) m" and ok: "gateway_ok g"
  shows "gateway_ok (g\<lparr>gw_deadlines := m\<rparr>)"
proof -
  have "g\<lparr>gw_deadlines := m\<rparr> = with_app g ((app_of g)\<lparr>a_deadlines := m\<rparr>)" by (simp add: with_app_def app_of_def)
  moreover from ok have "app_inv (app_of g)" by (simp add: gateway_ok_def)
  ultimately show ?thesis using assms(1) timer_event_inv [of "app_of g" m] app_part_ok [OF ok] by (simp add: app_of_def)
qed

lemma close_ok:
  assumes "gateway_ok g" shows "gateway_ok (g\<lparr>gw_builds := builds_close (gw_builds g)\<rparr>)"
proof -
  define m1 where "m1 = (if \<not> bm_stopping (gw_builds g) then (gw_builds g)\<lparr>bm_stopping := True, bm_ctx_done := True\<rparr>
    else gw_builds g)"
  have "marks_only m1 (builds_close (gw_builds g))"
    unfolding builds_close_def Let_def m1_def [symmetric]
    by (rule marks_only_fold) (rule marks_only_trans [OF marks_only_set_cancelled marks_only_cancel_task])
  then have "jobs_ok (builds_close (gw_builds g)) (gw_jobs g)" if "jobs_ok (gw_builds g) (gw_jobs g)"
    by (intro jobs_ok_marks [OF that]) (auto simp: marks_only_def m1_def split: if_splits)
  with assms show ?thesis
    by (auto simp: gateway_ok_def templates_ok_def templates_inv_def templates_of_def app_of_def intro: bm_inv_close)
qed

lemma gateway_step_ok:
  assumes "gateway_step env g g'" and ok: "gateway_ok g"
  shows "gateway_ok g'"
  using assms(1)
proof (cases rule: gateway_step.cases)
  case (serves q c r)
  from handlesD [OF served_in [OF serves(2)] serves(1)] have "gateway_kept g g'" by (rule change_kept)
  with ok show ?thesis by (simp add: gateway_kept_def)
next
  case (expires i)
  from ok have inv: "app_inv (app_of g)" by (simp add: gateway_ok_def)
  from expires(1) show ?thesis
    by (auto intro: app_part_ok [OF ok] app_trans_inv [OF expire_trans [OF app_inv_base [OF inv]] inv])
next
  case (timer m)
  with timer_ok ok show ?thesis by simp
next
  case (build_ends i built logs err)
  let ?job = "gw_jobs g ! i"
  from ok have t: "templates_inv (templates_of g)" and j: "jobs_ok (gw_builds g) (gw_jobs g)"
    by (simp_all add: gateway_ok_def templates_ok_def)
  have b: "tp_builds (templates_of g) = gw_builds g" by (simp add: templates_of_def)
  have "bj_task ?job \<in> set (map bj_task (gw_jobs g))" using build_ends(2) by simp
  with j have task: "bj_task ?job < length (bm_tasks (gw_builds g))" "\<not> tk_returned (bm_tasks (gw_builds g) ! bj_task ?job)"
    by (auto simp: jobs_ok_def)
  from t b have bi: "bm_inv (gw_builds g)" by (simp add: templates_inv_def)
  let ?s = "finish_build (ge_templates env) ?job built logs err (templates_of g)"
  have "app_inv (app_of g')"
    using ok app_inv_cong [of "app_of g'" "app_of g"] by (simp add: gateway_ok_def build_ends(1) app_of_def with_templates_def)
  moreover have "templates_of g' = ?s" "gw_builds g' = tp_builds ?s"
    "gw_jobs g' = take i (gw_jobs g) @ drop (Suc i) (gw_jobs g)"
    by (simp_all add: build_ends(1)) (simp_all add: with_templates_def)
  ultimately show ?thesis
    using finish_build_inv [OF t, unfolded b, OF task] jobs_ok_complete [OF j bi build_ends(2)]
    by (simp add: gateway_ok_def templates_ok_def)
next
  case (shuts_down derr berr e)
  note 1 = timer_ok [OF timer_event.closes ok]
  from shuts_down close_ok [OF 1] 1 show ?thesis by (auto simp: Shutdown_def Let_def split: option.splits)
next
  case (outside w)
  with ok kept_kind.outside [of g w] show ?thesis by (simp add: gateway_kept_def)
qed

lemma new_gateway_ok: "new_gateway env w = Inr g \<Longrightarrow> gateway_ok g"
proof -
  assume run: "new_gateway env w = Inr g"
  then obtain s where s: "NewAppWithCallbacks (ge_runtime env) w = Inr s" by (auto simp: new_gateway_def split: sum.splits)
  with run have g: "app_of g = s" "gw_management g = NewGatewayManagementStore" "gw_jobs g = []"
    "gw_builds g = newTemplateBuildManager (bc_MaxConcurrent (cf_TemplateBuilds (ge_cfg env)))"
    by (auto simp: new_gateway_def app_of_def)
  have "jobs_ok (newTemplateBuildManager n) []" for n by (simp add: jobs_ok_def newTemplateBuildManager_def)
  with NewApp_inv [OF s] g show ?thesis
    by (simp add: gateway_ok_def templates_ok_def templates_inv_def templates_of_def inv_intros)
qed

interpretation server: transition_system "\<lambda>g. \<exists>w. new_gateway env w = Inr g" "gateway_step env" gateway_ok for env
  by unfold_locales (auto intro: new_gateway_ok gateway_step_ok)

end
