(* ===== verification/ServerProperties.thy ===== *)
theory ServerProperties
  imports ServerSystem SandboxProperties TemplateProperties
begin

text \<open>
  What the server guarantees to its clients, each applied to a concrete server after it.
\<close>

section \<open>A server\<close>

definition demo_api :: api_lib where
  "demo_api = \<lparr>al_NodeStatus = (\<lambda>b. Inr ''draining''), al_NewSandbox = (\<lambda>b. if ub_data b = [] then Inl io_EOF else Inr demo_request),
     al_ResumedSandbox = (\<lambda>b. Inr \<lparr>rs_AutoPause = None, rs_Timeout = None\<rparr>), al_ConnectTimeout = (\<lambda>b. Inr (Some 60)),
     al_Timeout = (\<lambda>b. Inr 60), al_Duration = (\<lambda>b. Inr None), al_SnapshotName = (\<lambda>b. Inr None),
     al_TemplateBuildRequest = (\<lambda>b. Inl io_EOF), al_TemplateBuildRequestV2 = (\<lambda>b. Inl io_EOF),
     al_TemplateBuildRequestV3 = (\<lambda>b. Inl io_EOF), al_TemplateUpdate = (\<lambda>b. Inr None),
     al_TemplateBuildStartV2 = (\<lambda>b. Inl io_EOF), al_Tags = (\<lambda>b. Inl io_EOF), al_NewVolume = (\<lambda>b. Inr (ub_data b)),
     al_ParseQuery = (\<lambda>q. Inr [])\<rparr>"

definition demo_gateway_env :: "time gateway_env" where
  "demo_gateway_env = \<lparr>ge_cfg = demo_config, ge_network = demo_network,
     ge_host = \<lparr>hi_NumCPU = 8, hi_GOARCH = ''arm64'', hi_GOOS = ''linux''\<rparr>, ge_runtime = demo_rt, ge_metrics = None,
     ge_logs = None, ge_snapshots = None, ge_volumes = None, ge_content = None, ge_templates = demo_env,
     ge_upload = demo_upload_env, ge_errdefs = \<lparr>ed_IsNotFound = (\<lambda>e. False), ed_IsConflict = (\<lambda>e. False)\<rparr>,
     ge_api = demo_api\<rparr>"

definition demo_http :: "string \<Rightarrow> string \<Rightarrow> http_request" where
  "demo_http meth data = \<lparr>hr_Method = meth, hr_Header = [], hr_URL_Scheme = [], hr_TLS = False, hr_Host = ''box:3000'',
     hr_Query = [], hr_Body = \<lparr>ub_data = data, ub_end = EOF\<rparr>, hr_ContentLength = int (length data)\<rparr>"

text \<open>The server as it starts, and with a sandbox.\<close>

definition demo_gateway :: "time gateway" where
  "demo_gateway = \<lparr>gw_store = NewSandboxStore, gw_deadlines = newSandboxDeadlineManager,
     gw_management = NewGatewayManagementStore,
     gw_builds = newTemplateBuildManager (bc_MaxConcurrent (cf_TemplateBuilds demo_config)), gw_jobs = [], gw_world = 5\<rparr>"

lemma demo_gateway_new: "new_gateway demo_gateway_env 5 = Inr demo_gateway"
  by (simp add: new_gateway_def demo_gateway_env_def demo_start newApp_def demo_gateway_def)

lemma demo_config_type: "rc_Type (cf_Runtime demo_config) = ''docker''"
  by code_simp

definition demo_call :: api_call where
  "demo_call = SandboxCall PostSandboxesCall"

lemma demo_created:
  "snd (served demo_gateway_env demo_call (demo_http ''POST'' ''{}'') demo_gateway) = with_app demo_gateway (snd created)"
proof -
  have "app_of demo_gateway = newApp 5" by (simp add: app_of_def demo_gateway_def newApp_def)
  moreover obtain r where "fst created = Inr r" using created_answer by (cases "fst created") auto
  ultimately have "on_app (defaultCreateSandbox demo_rt ty demo_request) demo_gateway = (Inr r, with_app demo_gateway (snd created))"
    if "ty = ''docker''" for ty
    using that by (simp add: on_app_def created_def prod_eq_iff split_beta)
  then show ?thesis
    using demo_config_type
    by (simp add: served_def gateway_callbacks_of_def WithDefaults_none ServeHTTP_def corsMiddleware_def demo_call_def
        PostSandboxes_def demo_http_def json_body_def bindJSON_def MaxBytesReader_def maxRequestBodyBytes_def
        demo_gateway_env_def demo_api_def DefaultGatewayCallbacks_def handler_simps)
qed

section \<open>The whole server\<close>

lemma jobs_bounded:
  assumes ok: "jobs_ok b jobs" and inv: "bm_inv b"
  shows "int (length jobs) \<le> bm_maxConcurrent b"
proof -
  have "set (map bj_task jobs) \<subseteq> snd ` set (bm_active b)"
  proof
    fix t assume "t \<in> set (map bj_task jobs)"
    with ok have "t < length (bm_tasks b)" "\<not> tk_returned (bm_tasks b ! t)" by (auto simp: jobs_ok_def)
    from bm_invD(2) [OF inv this] have "(tk_key (bm_tasks b ! t), t) \<in> set (bm_active b)" by (rule map_of_SomeD)
    then show "t \<in> snd ` set (bm_active b)" by force
  qed
  then have "card (set (map bj_task jobs)) \<le> card (snd ` set (bm_active b))" by (intro card_mono) auto
  also have "\<dots> \<le> length (bm_active b)" by (metis card_length length_map list.set_map)
  finally have "length jobs \<le> length (bm_active b)" using ok distinct_card [of "map bj_task jobs"] by (simp only: jobs_ok_def length_map)
  with bm_invD(5) [OF inv] show ?thesis by simp
qed



text \<open>C2: a request about sandboxes leaves templates, files, builds and jobs as they are; one about templates
  leaves the sandboxes and their deadlines as they are; one about volumes leaves both as they are; a
  preflight request changes nothing at all; and no request of any kind breaks the invariant of either part,
  whatever the runtime answers.\<close>

theorem requests_touch_their_part:
  assumes "served env q c g = (r, g')" and "fair_call q"
  shows "(case q of
      SandboxCall x \<Rightarrow> gw_management g' = gw_management g \<and> gw_builds g' = gw_builds g \<and> gw_jobs g' = gw_jobs g
    | TemplateCall x \<Rightarrow> gw_store g' = gw_store g \<and> gw_deadlines g' = gw_deadlines g
    | VolumeCall x \<Rightarrow> gw_store g' = gw_store g \<and> gw_deadlines g' = gw_deadlines g \<and>
        gw_management g' = gw_management g \<and> gw_builds g' = gw_builds g \<and> gw_jobs g' = gw_jobs g
    | AdminCall x \<Rightarrow> True) \<and>
    (hr_Method c = ''OPTIONS'' \<longrightarrow> g' = g \<and> rp_status r = 204) \<and>
    (app_inv (app_of g) \<and> templates_ok g \<longrightarrow> app_inv (app_of g') \<and> templates_ok g')"
proof -
  have ch: "change_of q g g'" by (rule handlesD [OF served_in [OF assms(2)] assms(1)])
  then have "case q of
      SandboxCall x \<Rightarrow> gw_management g' = gw_management g \<and> gw_builds g' = gw_builds g \<and> gw_jobs g' = gw_jobs g
    | TemplateCall x \<Rightarrow> gw_store g' = gw_store g \<and> gw_deadlines g' = gw_deadlines g
    | VolumeCall x \<Rightarrow> gw_store g' = gw_store g \<and> gw_deadlines g' = gw_deadlines g \<and>
        gw_management g' = gw_management g \<and> gw_builds g' = gw_builds g \<and> gw_jobs g' = gw_jobs g
    | AdminCall x \<Rightarrow> True"
    by (cases q) (simp_all add: sandbox_change_def template_change_def world_change_def same_sandboxes_def same_templates_def)
  moreover have "hr_Method c = ''OPTIONS'' \<longrightarrow> g' = g \<and> rp_status r = 204"
    using assms(1) by (auto simp: served_def ServeHTTP_def corsMiddleware_def c_Status_def)
  moreover from change_kept [OF ch] have "app_inv (app_of g) \<and> templates_ok g \<longrightarrow> app_inv (app_of g') \<and> templates_ok g'"
    by (simp add: gateway_kept_def gateway_ok_def)
  ultimately show ?thesis by blast
qed

theorem requests_touch_their_part_witness:
  "gw_management (with_app demo_gateway (snd created)) = NewGatewayManagementStore"
  using requests_touch_their_part [of demo_gateway_env demo_call "demo_http ''POST'' ''{}''" demo_gateway
      "fst (served demo_gateway_env demo_call (demo_http ''POST'' ''{}'') demo_gateway)"
      "with_app demo_gateway (snd created)"]
  by (simp add: prod_eq_iff demo_created) (simp add: demo_call_def demo_gateway_def)

section \<open>Undecodable requests\<close>

text \<open>The error the body of a request has, for the calls that read one.\<close>

definition failed :: "go_error + 'a \<Rightarrow> go_error option" where
  "failed r = (case r of Inl e \<Rightarrow> Some e | Inr _ \<Rightarrow> None)"

fun sandbox_body_error :: "api_lib \<Rightarrow> sandbox_call \<Rightarrow> http_request \<Rightarrow> go_error option" where
  "sandbox_body_error lib PostSandboxesCall c = failed (json_body (al_NewSandbox lib) c)"
| "sandbox_body_error lib (ResumeCall i) c = failed (optional_body (al_ResumedSandbox lib) \<lparr>rs_AutoPause = None, rs_Timeout = None\<rparr> c)"
| "sandbox_body_error lib (ConnectCall i) c = failed (json_body (al_ConnectTimeout lib) c)"
| "sandbox_body_error lib (TimeoutCall i) c = failed (json_body (al_Timeout lib) c)"
| "sandbox_body_error lib (RefreshCall i) c = failed (optional_body (al_Duration lib) None c)"
| "sandbox_body_error lib (PostSnapshotsCall i) c = failed (json_body (al_SnapshotName lib) c)"
| "sandbox_body_error lib _ c = None"

fun template_body_error :: "api_lib \<Rightarrow> template_call \<Rightarrow> http_request \<Rightarrow> go_error option" where
  "template_body_error lib PostTemplatesCall c = failed (json_body (al_TemplateBuildRequest lib) c)"
| "template_body_error lib PostV2TemplatesCall c = failed (json_body (al_TemplateBuildRequestV2 lib) c)"
| "template_body_error lib PostV3TemplatesCall c = failed (json_body (al_TemplateBuildRequestV3 lib) c)"
| "template_body_error lib (PatchTemplateCall i) c = failed (json_body (al_TemplateUpdate lib) c)"
| "template_body_error lib (PatchV2TemplateCall i) c = failed (json_body (al_TemplateUpdate lib) c)"
| "template_body_error lib (RebuildCall i) c = failed (json_body (al_TemplateBuildRequest lib) c)"
| "template_body_error lib (StartBuildV2Call i b) c = failed (json_body (al_TemplateBuildStartV2 lib) c)"
| "template_body_error lib PostTagsCall c = failed (json_body (al_Tags lib) c)"
| "template_body_error lib DeleteTagsCall c = failed (json_body (al_Tags lib) c)"
| "template_body_error lib _ c = None"

fun body_error :: "api_lib \<Rightarrow> api_call \<Rightarrow> http_request \<Rightarrow> go_error option" where
  "body_error lib (SandboxCall q) c = sandbox_body_error lib q c"
| "body_error lib (TemplateCall q) c = template_body_error lib q c"
| "body_error lib (AdminCall (PostNodeCall i)) c = failed (optional_body (al_NodeStatus lib) [] c)"
| "body_error lib (VolumeCall PostVolumesCall) c = failed (json_body (al_NewVolume lib) c)"
| "body_error lib _ c = None"

lemma with_body_failed: "failed d = Some e \<Longrightarrow> with_body d run s = (writeError 400 (error_text e), s)"
  by (simp add: failed_def with_body_def split: sum.splits)

lemma sandbox_body_failed:
  "sandbox_body_error (ge_api env) q c = Some e \<Longrightarrow> serve_sandbox env cbs q c g = (writeError 400 (error_text e), g)"
  by (cases q) (simp_all add: sandbox_requests.sandbox_handler_defs with_body_failed)

lemma template_body_failed:
  "template_body_error (ge_api env) q c = Some e \<Longrightarrow> serve_template env cbs q c g = (writeError 400 (error_text e), g)"
  by (cases q) (simp_all add: template_requests.template_handler_defs with_body_failed)

lemma body_failed: "body_error (ge_api env) q c = Some e \<Longrightarrow> serve_call env cbs q c g = (writeError 400 (error_text e), g)"
  by (cases "(ge_api env, q, c)" rule: body_error.cases)
     (auto simp: sandbox_body_failed template_body_failed PostNodesNodeID_def PostVolumes_def with_body_failed)

text \<open>C38: a request whose JSON body cannot be decoded - on any route that reads one, the body being optional
  or not - is answered with status 400 and the decoder's message, the CORS headers included, and changes
  nothing: no callback is called.\<close>

theorem undecodable_requests_change_nothing:
  assumes "body_error (ge_api env) q c = Some e" and "hr_Method c \<noteq> ''OPTIONS''"
  shows "served env q c g =
    (\<lparr>rp_status = 400, rp_headers = cors_headers, rp_body = ErrorResponse 400 (error_text e)\<rparr>, g)"
  using body_failed [OF assms(1)] assms(2)
  by (simp add: served_def ServeHTTP_def corsMiddleware_def writeError_def)

theorem undecodable_requests_change_nothing_witness:
  "rp_status (fst (served demo_gateway_env demo_call (demo_http ''POST'' []) demo_gateway)) = 400"
  using undecodable_requests_change_nothing [of demo_gateway_env demo_call "demo_http ''POST'' []" io_EOF demo_gateway]
  by (simp add: demo_call_def demo_gateway_env_def demo_api_def demo_http_def json_body_def bindJSON_def failed_def
      MaxBytesReader_def maxRequestBodyBytes_def)

section \<open>Published ports\<close>

lemma port_mapping_found:
  "sandboxPortMapping ms n = Some m \<Longrightarrow> \<exists>x \<in> set ms. pm_ContainerPort x = n \<and> 0 < pm_HostPort x \<and>
     ToLower (TrimSpace (pm_Protocol x)) \<in> {[], ''tcp''} \<and>
     m = (if TrimSpace (pm_Protocol x) = [] then x\<lparr>pm_Protocol := ''tcp''\<rparr> else x)"
  by (induction ms n rule: sandboxPortMapping.induct) (auto simp: Let_def split: if_splits)

lemma port_mapping_first:
  "sandboxPortMapping ms n = None \<longleftrightarrow> (\<forall>x \<in> set ms. pm_ContainerPort x = n \<and> 0 < pm_HostPort x \<longrightarrow>
     ToLower (TrimSpace (pm_Protocol x)) \<notin> {[], ''tcp''})"
  by (induction ms n rule: sandboxPortMapping.induct) (auto simp: Let_def)

text \<open>A mapping that makes the container's port reachable over TCP.\<close>

definition published_as :: "sandbox_record \<Rightarrow> int \<Rightarrow> port_mapping \<Rightarrow> bool" where
  "published_as record n x \<longleftrightarrow> x \<in> set (ri_PublishedPorts (sr_RuntimeInfo record)) \<and> pm_ContainerPort x = n \<and>
     0 < pm_HostPort x \<and> ToLower (TrimSpace (pm_Protocol x)) \<in> {[], ''tcp''}"

lemma port_mapping_published:
  "sandboxPortMapping (ri_PublishedPorts (sr_RuntimeInfo record)) n = Some m \<Longrightarrow> \<exists>x. published_as record n x \<and>
     m = (if TrimSpace (pm_Protocol x) = [] then x\<lparr>pm_Protocol := ''tcp''\<rparr> else x)"
  "sandboxPortMapping (ri_PublishedPorts (sr_RuntimeInfo record)) n = None \<longleftrightarrow> (\<forall>x. \<not> published_as record n x)"
  using port_mapping_found [of "ri_PublishedPorts (sr_RuntimeInfo record)" n m]
    port_mapping_first [of "ri_PublishedPorts (sr_RuntimeInfo record)" n]
  by (auto simp: published_as_def)

lemma port_response:
  "published_as record n x \<Longrightarrow>
     sandboxPortResponse (if TrimSpace (pm_Protocol x) = [] then x\<lparr>pm_Protocol := ''tcp''\<rparr> else x) host =
     \<lparr>pr_ContainerPort = n, pr_Host = TrimSpace host, pr_HostPort = pm_HostPort x,
      pr_URL = ''http://'' @ JoinHostPort (TrimSpace host) (Itoa (pm_HostPort x)),
      pr_WSURL = ''ws://'' @ JoinHostPort (TrimSpace host) (Itoa (pm_HostPort x)), pr_Protocol = ''tcp''\<rparr>"
proof -
  have "ToLower (TrimSpace ''tcp'') = ''tcp''" by code_simp
  moreover assume "published_as record n x"
  ultimately show ?thesis by (auto simp: sandboxPortResponse_def published_as_def Let_def)
qed

text \<open>C37: the address of a sandbox's port is given exactly when the sandbox is found, the port is a number
  from 1 to 65535, a TCP mapping with a positive host port is published for it, and the advertised host is
  known; it is then the address of such a mapping, with an HTTP and a WebSocket URL of the same host and
  port.\<close>

theorem port_answers_are_published:
  assumes "handleGetSandboxPort env cbs i p c g = (r, g')"
  shows "((\<exists>v. r = c_JSON 200 v) \<longleftrightarrow>
      (\<exists>record n x host g1. TrimSpace i \<noteq> [] \<and> Atoi (TrimSpace p) = Some n \<and> 1 \<le> n \<and> n \<le> 65535 \<and>
         the (cb_GetSandbox cbs) (callbackContext c) (TrimSpace i) g = (Inr record, g1) \<and>
         published_as record n x \<and> advertisedTrafficHost env = Inr host)) \<and>
    (\<forall>v. r = c_JSON 200 v \<longrightarrow>
      (\<exists>record n x host. the (cb_GetSandbox cbs) (callbackContext c) (TrimSpace i) g = (Inr record, g') \<and>
         published_as record n x \<and> advertisedTrafficHost env = Inr host \<and>
         v = V_Port \<lparr>pr_ContainerPort = n, pr_Host = TrimSpace host, pr_HostPort = pm_HostPort x,
           pr_URL = ''http://'' @ JoinHostPort (TrimSpace host) (Itoa (pm_HostPort x)),
           pr_WSURL = ''ws://'' @ JoinHostPort (TrimSpace host) (Itoa (pm_HostPort x)), pr_Protocol = ''tcp''\<rparr>))"
proof (cases "\<exists>n record g1. TrimSpace i \<noteq> [] \<and> Atoi (TrimSpace p) = Some n \<and> 1 \<le> n \<and> n \<le> 65535 \<and>
    the (cb_GetSandbox cbs) (callbackContext c) (TrimSpace i) g = (Inr record, g1)")
  case False
  with assms have "\<not> (\<exists>v. r = c_JSON 200 v)"
    by (auto simp: handleGetSandboxPort_def handler_simps response_defs Let_def split: if_splits option.splits sum.splits prod.splits)
  with False show ?thesis by blast
next
  case True
  then obtain n sandbox g1 where h: "TrimSpace i \<noteq> []" "Atoi (TrimSpace p) = Some n" "1 \<le> n" "n \<le> 65535"
    "the (cb_GetSandbox cbs) (callbackContext c) (TrimSpace i) g = (Inr sandbox, g1)" by blast
  show ?thesis
  proof (cases "sandboxPortMapping (ri_PublishedPorts (sr_RuntimeInfo sandbox)) n")
    case None
    with assms h have "\<not> (\<exists>v. r = c_JSON 200 v)"
      by (auto simp: handleGetSandboxPort_def handler_simps response_defs Let_def)
    with h None port_mapping_published(2) [of sandbox n] show ?thesis by auto
  next
    case (Some m)
    from port_mapping_published(1) [OF Some] obtain x where x: "published_as sandbox n x"
      "m = (if TrimSpace (pm_Protocol x) = [] then x\<lparr>pm_Protocol := ''tcp''\<rparr> else x)" by blast
    show ?thesis
    proof (cases "advertisedTrafficHost env")
      case (Inl e)
      with assms h Some have "\<not> (\<exists>v. r = c_JSON 200 v)"
        by (auto simp: handleGetSandboxPort_def handler_simps response_defs Let_def)
      with Inl show ?thesis by auto
    next
      case (Inr host)
      with assms h Some have "r = c_JSON 200 (V_Port (sandboxPortResponse m host))" "g' = g1"
        by (simp_all add: handleGetSandboxPort_def handler_simps Let_def)
      with h Inr x port_response [OF x(1), of host] show ?thesis by (auto simp: c_JSON_def)
    qed
  qed
qed

definition demo_ported :: "time gateway" where
  "demo_ported = demo_gateway\<lparr>gw_store := [(''sbx1'', demo_record\<lparr>sr_EndAt := 0, sr_State := Paused,
     sr_RuntimeInfo := (sr_RuntimeInfo demo_record)\<lparr>ri_PublishedPorts :=
       [\<lparr>pm_ContainerPort = 8080, pm_HostIP = [], pm_HostPort = 49160, pm_Protocol = []\<rparr>]\<rparr>\<rparr>)]\<rparr>"

theorem port_answers_are_published_witness:
  "\<exists>v. fst (handleGetSandboxPort demo_gateway_env (DefaultGatewayCallbacks demo_gateway_env) ''sbx1'' ''8080''
     (demo_http ''GET'' []) demo_ported) = c_JSON 200 v"
proof -
  let ?env = demo_gateway_env and ?c = "demo_http ''GET'' []" and ?rec = "the (map_of (gw_store demo_ported) ''sbx1'')"
    and ?m = "\<lparr>pm_ContainerPort = 8080, pm_HostIP = [], pm_HostPort = 49160, pm_Protocol = []\<rparr>"
  have "TrimSpace ''sbx1'' = ''sbx1'' \<and> Atoi (TrimSpace ''8080'') = Some 8080" by code_simp
  moreover have "fst (defaultGetSandbox demo_rt ''sbx1'' (app_of demo_ported)) = Inr ?rec" by code_simp
  then have "\<exists>g1. the (cb_GetSandbox (DefaultGatewayCallbacks ?env)) (callbackContext ?c) ''sbx1'' demo_ported = (Inr ?rec, g1)"
    by (cases "defaultGetSandbox demo_rt ''sbx1'' (app_of demo_ported)")
       (auto simp: DefaultGatewayCallbacks_def demo_gateway_env_def on_app_def)
  moreover have "published_as ?rec 8080 ?m"
  proof -
    have "ToLower (TrimSpace []) = []" by code_simp
    then show ?thesis by (simp add: published_as_def demo_ported_def)
  qed
  moreover have "\<exists>host. advertisedTrafficHost ?env = Inr host"
  proof -
    have "(case advertisedTrafficHost ?env of Inr _ \<Rightarrow> True | Inl _ \<Rightarrow> False)" by code_simp
    then show ?thesis by (simp split: sum.splits)
  qed
  ultimately show ?thesis
    using port_answers_are_published [OF prod.collapse [symmetric], of ?env "DefaultGatewayCallbacks ?env" "''sbx1''" "''8080''"
        ?c demo_ported, THEN conjunct1] by fastforce
qed

section \<open>File modes\<close>

lemma strip_word_disjoint:
  assumes "\<forall>w \<in> set ws. w \<noteq> [] \<and> set w \<inter> A = {}" and "set s \<subseteq> A"
  shows "strip_word ws s = None"
  using assms(1)
proof (induction ws)
  case (Cons w ws)
  have "take (length w) s \<noteq> w"
  proof
    assume "take (length w) s = w"
    then have "set w \<subseteq> A" using assms(2) by (metis order_trans set_take_subset)
    with Cons.prems show False by (cases w) auto
  qed
  with Cons show ?case by simp
qed simp

lemma TrimSpace_mode: "set s \<subseteq> set ''0123456789oO'' \<Longrightarrow> TrimSpace s = s"
proof (rule TrimSpace_id)
  have w: "\<forall>w \<in> set space_words. w \<noteq> [] \<and> set w \<inter> set ''0123456789oO'' = {}" by (simp add: space_words_def)
  then have w': "\<forall>w \<in> set (map rev space_words). w \<noteq> [] \<and> set w \<inter> set ''0123456789oO'' = {}" by simp
  assume s: "set s \<subseteq> set ''0123456789oO''"
  show "strip_word space_words s = None" by (rule strip_word_disjoint [OF w s])
  show "strip_word (map rev space_words) (rev s) = None" by (rule strip_word_disjoint [OF w']) (use s in simp)
qed

lemma digits_base_hd: "2 \<le> b \<Longrightarrow> b \<le> 10 \<Longrightarrow> 0 < n \<Longrightarrow> hd (digits_base b n) \<noteq> CHR ''0''"
proof (induction n rule: less_induct)
  case (less n)
  show ?case
  proof (cases "n < b")
    case True
    then have "of_char (char_of (48 + n) :: char) - (48 :: int) = int n" using less.prems by (intro of_char_digit) simp
    then have "char_of (48 + n) \<noteq> CHR ''0''" using less.prems by auto
    with True show ?thesis by (subst digits_base.simps) simp
  next
    case False
    then have "0 < n div b" "n div b < n" using less.prems by (auto simp: div_greater_zero_iff)
    with less False digits_base_digits [of b "n div b"] show ?thesis by (subst digits_base.simps) (simp add: hd_append)
  qed
qed

lemma digit_chars: "set ''0123456789'' \<subseteq> set ''0123456789oO''"
  by simp

lemma no_zero_prefix: "s \<noteq> [] \<Longrightarrow> hd s \<noteq> CHR ''0'' \<Longrightarrow> \<not> HasPrefix s (CHR ''0'' # t)"
  by (cases s) (auto simp: HasPrefix_def)

text \<open>C39: a file mode is read as a number between 0 and 0777: decimal when it is printed in decimal, octal
  when it is printed in octal behind 0 or 0o; each of the 512 modes is read back from each of its three
  spellings, and whatever is read is in range.\<close>

theorem file_modes_roundtrip:
  "(\<forall>v m. parseVolumeMode v = Inr m \<longrightarrow> 0 \<le> m \<and> m \<le> 511) \<and>
   (n \<le> 511 \<longrightarrow> parseVolumeMode (digits_base 10 n) = Inr (int n) \<and>
      parseVolumeMode (CHR ''0'' # digits_base 8 n) = Inr (int n) \<and>
      parseVolumeMode (''0o'' @ digits_base 8 n) = Inr (int n) \<and>
      parseVolumeMode (''0O'' @ digits_base 8 n) = Inr (int n))"
proof (intro conjI allI impI)
  show "0 \<le> m" "m \<le> 511" if "parseVolumeMode v = Inr m" for v m
    using that by (auto simp: parseVolumeMode_def Let_def split: if_splits option.splits prod.splits)
  assume n: "n \<le> 511"
  have d8: "digits_base 8 n \<noteq> []" "set (digits_base 8 n) \<subseteq> set ''0123456789''"
    and d10: "digits_base 10 n \<noteq> []" "set (digits_base 10 n) \<subseteq> set ''0123456789''"
    using digits_base_digits [of 8 n] digits_base_digits [of 10 n] by simp_all
  have p8: "ParseInt (digits_base 8 n) 8 = Some (int n)" and p10: "ParseInt (digits_base 10 n) 10 = Some (int n)"
    using ParseInt_print [of 8 n] ParseInt_print [of 10 n] n by simp_all
  have zero: "digits_base 10 0 = ''0''" by code_simp
  show "parseVolumeMode (digits_base 10 n) = Inr (int n)"
  proof (cases "n = 0")
    case True
    with p10 show ?thesis by (simp add: parseVolumeMode_def zero HasPrefix_def TrimSpace_mode)
  next
    case False
    with digits_base_hd [of 10 n] d10 have "\<not> HasPrefix (digits_base 10 n) (CHR ''0'' # t)" for t
      by (simp add: no_zero_prefix)
    moreover have "TrimSpace (digits_base 10 n) = digits_base 10 n" by (rule TrimSpace_mode [OF order_trans [OF d10(2) digit_chars]])
    ultimately show ?thesis using p10 d10 n by (simp add: parseVolumeMode_def)
  qed
  have "parse_digits 8 0 (CHR ''0'' # digits_base 8 n) = Some (int n)"
    using parse_digits_print [of 8 n] by simp
  with n have "ParseInt (CHR ''0'' # digits_base 8 n) 8 = Some (int n)" by (simp add: ParseInt_def)
  moreover have "\<not> HasPrefix (CHR ''0'' # digits_base 8 n) ''0o''" "\<not> HasPrefix (CHR ''0'' # digits_base 8 n) ''0O''"
    using d8 by (cases "digits_base 8 n"; auto simp: HasPrefix_def)+
  moreover have "TrimSpace (CHR ''0'' # digits_base 8 n) = CHR ''0'' # digits_base 8 n"
    using order_trans [OF d8(2) digit_chars] by (intro TrimSpace_mode) simp
  ultimately show "parseVolumeMode (CHR ''0'' # digits_base 8 n) = Inr (int n)"
    using d8 n by (simp add: parseVolumeMode_def HasPrefix_def)
  show "parseVolumeMode (''0o'' @ digits_base 8 n) = Inr (int n)" "parseVolumeMode (''0O'' @ digits_base 8 n) = Inr (int n)"
    using p8 d8(1) n TrimSpace_mode [of "''0o'' @ digits_base 8 n"] TrimSpace_mode [of "''0O'' @ digits_base 8 n"]
      order_trans [OF d8(2) digit_chars]
    by (simp_all add: parseVolumeMode_def HasPrefix_def)
qed

theorem file_modes_roundtrip_witness:
  "parseVolumeMode ''0644'' = Inr 420 \<and> parseVolumeMode ''420'' = Inr 420 \<and> parseVolumeMode ''0o644'' = Inr 420"
proof -
  have d: "digits_base 8 420 = ''644''" "digits_base 10 420 = ''420''" by code_simp+
  with file_modes_roundtrip [of 420] show ?thesis by simp
qed

section \<open>Listing over HTTP\<close>

text \<open>A client of \<open>GET /v2/sandboxes\<close> that follows the next tokens the headers carry, at most \<open>n\<close> times.\<close>

fun listing_pages :: "nat \<Rightarrow> 'w gateway_env \<Rightarrow> v2_list_params \<Rightarrow> http_request \<Rightarrow> 'w gateway \<Rightarrow>
    listed_sandbox list list \<times> 'w gateway" where
  "listing_pages 0 env params c g = ([], g)"
| "listing_pages (Suc n) env params c g =
     (case served env (SandboxCall (GetV2SandboxesCall params)) c g of (r, g) \<Rightarrow>
        (case rp_body r of
           Json (V_ListedSandboxes items) \<Rightarrow>
             (case map_of (rp_headers r) ''X-Next-Token'' of
                None \<Rightarrow> ([items], g)
              | Some token \<Rightarrow>
                  (case listing_pages n env (params\<lparr>lp_NextToken := Some token\<rparr>) c g of (pages, g) \<Rightarrow> (items # pages, g)))
         | _ \<Rightarrow> ([], g)))"

text \<open>No sandbox expires, at whatever time it is, and the runtime cannot be asked about any.\<close>

definition nothing_expires :: "'w runtime \<Rightarrow> sandbox_store \<Rightarrow> bool" where
  "nothing_expires rt m \<longleftrightarrow> rt_InspectSandbox rt = None \<and>
     (\<forall>k r w. map_of m k = Some r \<longrightarrow> \<not> sandboxRecordTerminallyExpired r (fst (rt_now rt w)))"

lemma reconcile_quiet:
  assumes "nothing_expires rt (a_store s)" and "\<forall>r \<in> set rs. map_of (a_store s) (sr_ID r) = Some r"
  shows "\<exists>w. reconcileSandboxRecords rt rs s = (Inr rs, s\<lparr>a_world := w\<rparr>)"
  using assms
proof (induction rs arbitrary: s)
  case Nil
  have "s = s\<lparr>a_world := a_world s\<rparr>" by simp
  then show ?case by (metis reconcileSandboxRecords.simps(1))
next
  case (Cons r rs)
  obtain t w where t: "rt_now rt (a_world s) = (t, w)" by (cases "rt_now rt (a_world s)")
  from Cons.prems have here: "map_of (a_store s) (sr_ID r) = Some r" "rt_InspectSandbox rt = None"
    "\<not> sandboxRecordTerminallyExpired r t"
    using t by (auto simp: nothing_expires_def) (metis fst_conv)
  then have 1: "reconcileSandboxRecord rt r s = (Inr (Some r), s\<lparr>a_world := w\<rparr>)"
    by (simp add: reconcileSandboxRecord_def reconcileSandboxRecordLocked_def lockSandbox_def Get_def world_call_def t)
  from Cons.IH [of "s\<lparr>a_world := w\<rparr>"] Cons.prems obtain w2
    where "reconcileSandboxRecords rt rs (s\<lparr>a_world := w\<rparr>) = (Inr rs, s\<lparr>a_world := w2\<rparr>)" by auto
  with 1 show ?case by auto
qed

lemma stored_records:
  assumes "store_inv m" and "r \<in> set (List_sandboxes m)"
  shows "map_of m (sr_ID r) = Some r"
proof -
  from assms(2) obtain k where k: "(k, r) \<in> set m" by (auto simp: List_sandboxes_set)
  with map_of_in_set [OF store_inv_wf [OF assms(1)]] have here: "map_of m k = Some r" by blast
  with store_invD [OF assms(1) here] show ?thesis by (simp add: record_ok_def)
qed

definition v2_request :: "(string, string) gomap \<Rightarrow> int \<Rightarrow> v2_list_params \<Rightarrow> list_request" where
  "v2_request filt limit params =
     \<lparr>lr_Metadata = filt, lr_States = (case lp_State params of None \<Rightarrow> [Running, Paused] | Some states \<Rightarrow> states),
      lr_NextToken = (case lp_NextToken params of None \<Rightarrow> [] | Some token \<Rightarrow> token), lr_Limit = limit\<rparr>"

lemma listing_page:
  assumes inv: "store_inv (gw_store g)" and quiet: "nothing_expires (ge_runtime env) (gw_store g)"
    and c: "hr_Method c \<noteq> ''OPTIONS''" "parseMetadataFilter (al_ParseQuery (ge_api env)) (lp_Metadata params) = Inr filt"
    "paginationLimit (lp_Limit params) = Inr limit"
  shows "\<exists>w. served env (SandboxCall (GetV2SandboxesCall params)) c g =
    ((case paginate (v2_request filt limit params)
        (length (filter (\<lambda>r. sr_State r = Running) (matching_records (v2_request filt limit params) (List_sandboxes (gw_store g)))))
        (state_filtered (v2_request filt limit params) (List_sandboxes (gw_store g))) of
      result \<Rightarrow> \<lparr>rp_status = 200, rp_headers = cors_headers @ v2_list_headers result,
        rp_body = Json (V_ListedSandboxes (apiListedSandboxes (ls_Items result)))\<rparr>), g\<lparr>gw_world := w\<rparr>)"
proof -
  let ?req = "v2_request filt limit params" and ?rs = "List_sandboxes (gw_store g)"
  obtain w where w: "reconcileSandboxRecords (ge_runtime env) ?rs (app_of g) = (Inr ?rs, (app_of g)\<lparr>a_world := w\<rparr>)"
    using reconcile_quiet [of "ge_runtime env" "app_of g" ?rs] quiet stored_records [OF inv] by (auto simp: app_of_def)
  then have "on_app (defaultListSandboxes (ge_runtime env) ?req) g =
      (Inr (paginate ?req (length (filter (\<lambda>r. sr_State r = Running) (matching_records ?req ?rs))) (state_filtered ?req ?rs)),
       g\<lparr>gw_world := w\<rparr>)"
    by (simp add: on_app_def defaultListSandboxes_def) (simp add: app_of_def with_app_def)
  with c show ?thesis
    by (auto simp: served_def gateway_callbacks_of_def WithDefaults_none ServeHTTP_def corsMiddleware_def GetV2Sandboxes_def
        handler_simps c_JSON_def DefaultGatewayCallbacks_def v2_request_def Let_def)
qed

lemma next_token_header: "map_of (cors_headers @ v2_list_headers result) ''X-Next-Token'' =
    (if ls_NextToken result = [] then None else Some (ls_NextToken result))"
  by (simp add: cors_headers_def v2_list_headers_def)

lemma listing_pages_all:
  assumes "store_inv (gw_store g)" and "nothing_expires (ge_runtime env) (gw_store g)"
    and "hr_Method c \<noteq> ''OPTIONS''" "parseMetadataFilter (al_ParseQuery (ge_api env)) (lp_Metadata params) = Inr filt"
    "paginationLimit (lp_Limit params) = Inr limit"
  shows "\<exists>w. listing_pages n env params c g =
    (map apiListedSandboxes (all_pages n (v2_request filt limit params)
       (length (filter (\<lambda>r. sr_State r = Running) (matching_records (v2_request filt limit params) (List_sandboxes (gw_store g)))))
       (state_filtered (v2_request filt limit params) (List_sandboxes (gw_store g)))), g\<lparr>gw_world := w\<rparr>)"
  using assms
proof (induction n arbitrary: params g)
  case 0
  have "g = g\<lparr>gw_world := gw_world g\<rparr>" by simp
  then show ?case by (metis all_pages.simps(1) list.map(1) listing_pages.simps(1))
next
  case (Suc n)
  let ?req = "v2_request filt limit params" and ?rs = "List_sandboxes (gw_store g)"
  let ?tot = "length (filter (\<lambda>r. sr_State r = Running) (matching_records ?req ?rs))"
  define result where "result = paginate ?req ?tot (state_filtered ?req ?rs)"
  obtain w where page: "served env (SandboxCall (GetV2SandboxesCall params)) c g =
      (\<lparr>rp_status = 200, rp_headers = cors_headers @ v2_list_headers result,
        rp_body = Json (V_ListedSandboxes (apiListedSandboxes (ls_Items result)))\<rparr>, g\<lparr>gw_world := w\<rparr>)"
    using listing_page [OF Suc.prems] by (auto simp: result_def)
  let ?params = "params\<lparr>lp_NextToken := Some (ls_NextToken result)\<rparr>"
  have req: "v2_request filt limit ?params = ?req\<lparr>lr_NextToken := ls_NextToken result\<rparr>" by (simp add: v2_request_def)
  have same: "matching_records (?req\<lparr>lr_NextToken := t\<rparr>) rs = matching_records ?req rs"
    "state_filtered (?req\<lparr>lr_NextToken := t\<rparr>) rs = state_filtered ?req rs" for t rs
    by (simp_all add: state_filtered_def matching_records_def)
  from Suc.IH [of "g\<lparr>gw_world := w\<rparr>" ?params] Suc.prems obtain w2 where rest:
    "listing_pages n env ?params c (g\<lparr>gw_world := w\<rparr>) =
      (map apiListedSandboxes (all_pages n (?req\<lparr>lr_NextToken := ls_NextToken result\<rparr>) ?tot (state_filtered ?req ?rs)),
       g\<lparr>gw_world := w2\<rparr>)"
    by (auto simp: req same)
  show ?case
  proof (cases "ls_NextToken result = []")
    case True
    with page show ?thesis by (auto simp: next_token_header result_def [symmetric] Let_def simp del: map_of_append)
  next
    case False
    with page rest show ?thesis by (auto simp: next_token_header result_def [symmetric] Let_def simp del: map_of_append)
  qed
qed


definition demo_holding :: "time gateway" where
  "demo_holding = demo_gateway\<lparr>gw_store := [(''sbx1'', demo_record\<lparr>sr_EndAt := 0, sr_State := Paused\<rparr>),
     (''sbx2'', demo_record\<lparr>sr_ID := ''sbx2'', sr_EndAt := 0, sr_State := Paused\<rparr>)]\<rparr>"


section \<open>Upload tickets\<close>

lemma hex_digits: "set (hex_encode bs) \<subseteq> set ''0123456789abcdef''"
proof -
  have "\<forall>n \<in> set [0..15]. hex_digit n \<in> set ''0123456789abcdef''" by code_simp
  moreover have "set [0..15] = {0..15 :: int}" by (rule set_upto)
  ultimately have digit: "\<forall>n \<in> {0..15}. hex_digit n \<in> set ''0123456789abcdef''" by (simp only:)
  have "set (hex_byte c) \<subseteq> set ''0123456789abcdef''" for c
  proof -
    have "0 \<le> (of_char c :: int)" "(of_char c :: int) < 256"
      unfolding of_nat_of_char [of c, where 'a = int, symmetric] using nat_of_char_less_256 [of c] by simp_all
    then have "of_char c div 16 \<in> {0..15 :: int}" "of_char c mod 16 \<in> {0..15 :: int}" by auto
    then have "hex_digit (of_char c div 16) \<in> set ''0123456789abcdef''" "hex_digit (of_char c mod 16) \<in> set ''0123456789abcdef''"
      using digit by blast+
    then show ?thesis unfolding hex_byte_def by (simp only: set_simps insert_subset empty_subsetI simp_thms)
  qed
  then show ?thesis unfolding hex_encode_def by (simp only: set_concat set_map) blast
qed

lemma token_trimmed: "TrimSpace (''tfu_'' @ hex_encode bs) = ''tfu_'' @ hex_encode bs"
proof (rule TrimSpace_id)
  let ?A = "set ''0123456789abcdeftu_''"
  have w: "\<forall>w \<in> set space_words. w \<noteq> [] \<and> set w \<inter> ?A = {}" by (simp add: space_words_def)
  then have w': "\<forall>w \<in> set (map rev space_words). w \<noteq> [] \<and> set w \<inter> ?A = {}" by simp
  have "set ''0123456789abcdef'' \<subseteq> ?A" "set ''tfu_'' \<subseteq> ?A" by simp_all
  then have s: "set (''tfu_'' @ hex_encode bs) \<subseteq> ?A"
    unfolding set_append using hex_digits [of bs] by (intro Un_least) (assumption, rule order_trans)
  then have s': "set (rev (''tfu_'' @ hex_encode bs)) \<subseteq> ?A" by (simp only: set_rev)
  show "strip_word space_words (''tfu_'' @ hex_encode bs) = None" by (rule strip_word_disjoint [OF w s])
  show "strip_word (map rev space_words) (rev (''tfu_'' @ hex_encode bs)) = None" by (rule strip_word_disjoint [OF w' s'])
qed

text \<open>A request whose body is an archive with the content the hash names.\<close>

definition good_upload :: "upload_env \<Rightarrow> string \<Rightarrow> upload_body \<Rightarrow> bool" where
  "good_upload env h body \<longleftrightarrow>
     (let body = MaxBytesReader (sint maxTemplateFileUploadBytes) body
      in case writeTemplateUploadTemp env body of
           Inl e \<Rightarrow> False
         | Inr (p, n, sha) \<Rightarrow> validateTemplateUploadHash (TrimSpace h) sha = None \<and>
             validateTemplateArchive (ue_archive env (ub_data body)) (TrimSpace h) = None)"

lemma good_upload_trim: "good_upload env (TrimSpace h) body = good_upload env h body"
  unfolding good_upload_def TrimSpace_idem by (rule refl)

text \<open>What the other requests do leaves the ticket and the place of the file alone.\<close>

definition undisturbed :: "string \<Rightarrow> string \<Rightarrow> management \<Rightarrow> management \<Rightarrow> bool" where
  "undisturbed key tok m m' \<longleftrightarrow> map_of (ms_templateUploads m') tok = map_of (ms_templateUploads m) tok \<and>
     map_of (ms_templateFiles m') key = map_of (ms_templateFiles m) key"

lemma StoreUpload_stores:
  assumes tok: "map_of (ms_templateUploads s) tok = Some u" "TrimSpace tok = tok"
    and u: "mu_TemplateID u = TrimSpace t" "mu_Hash u = TrimSpace h" "now1 \<le> mu_ExpiresAt u" "now2 \<le> mu_ExpiresAt u"
    and body: "good_upload env h body" and free: "map_of (ms_templateFiles s) (templateFileKey t h) = None"
    and others: "undisturbed (templateFileKey t h) tok s (others s)"
  shows "\<exists>s'. StoreTemplateFileUploadReader env others now1 now2 c t h tok
      (MaxBytesReader (sint maxTemplateFileUploadBytes) body) s = ((upload_done True None)\<lparr>ur_tempKept := True\<rparr>, s') \<and>
    TemplateFilePresent t h s'"
proof -
  have key: "templateFileKey (TrimSpace t) (TrimSpace h) = templateFileKey t h" by (simp add: templateFileKey_def)
  from body others tok u free show ?thesis
    by (auto simp: StoreTemplateFileUploadReader_def good_upload_def undisturbed_def check_upload_def commit_upload_def
        TemplateFilePresent_def saveLocked_def key Let_def split: sum.splits prod.splits)
qed

text \<open>The ticket the store has after a request for an upload, and its URL.\<close>

lemma ticket_issued:
  assumes "defaultGetTemplateFileUpload env f i h s = (Inr (present, url), s')"
  shows "\<exists>x bs now. fst (findTemplate env i s) = Inr x \<and> f (gt_TemplateID x) h (''tfu_'' @ hex_encode bs) = Inr url \<and>
    map_of (ms_templateUploads (tp_management s')) (''tfu_'' @ hex_encode bs) =
      Some \<lparr>mu_TemplateID = TrimSpace (gt_TemplateID x), mu_Hash = TrimSpace h, mu_Token = ''tfu_'' @ hex_encode bs,
        mu_ExpiresAt = time_Add now fifteen_minutes\<rparr>"
proof -
  obtain r a where 1: "findTemplate env i s = (r, a)" by (cases "findTemplate env i s")
  obtain bytes b where 2: "tw_call (te_rand24 env) a = (bytes, b)" by (cases "tw_call (te_rand24 env) a")
  obtain now d where 3: "tw_call (te_now env) b = (now, d)" by (cases "tw_call (te_now env) b")
  note run = assms [unfolded defaultGetTemplateFileUpload_def Let_def]
  from run 1 obtain x where x: "r = Inr x" by (cases r) (simp_all split: if_splits)
  with run 1 2 3 obtain bs where bs: "bytes = Inr bs"
    by (cases bytes) (simp_all add: CreateTemplateFileUpload_def newManagementSecret_def split: if_splits)
  let ?tok = "''tfu_'' @ hex_encode bs"
  let ?m = "snd (CreateTemplateFileUpload (Inr bs) now (gt_TemplateID x) h (tp_management d))"
  have "f (gt_TemplateID x) h ?tok = Inr url \<and> s' = d\<lparr>tp_management := ?m\<rparr>"
    using run 1 2 3 x bs
    by (simp add: CreateTemplateFileUpload_def newManagementSecret_def Let_def split: if_splits sum.splits)
  then have "f (gt_TemplateID x) h ?tok = Inr url \<and> map_of (ms_templateUploads (tp_management s')) ?tok =
      Some \<lparr>mu_TemplateID = TrimSpace (gt_TemplateID x), mu_Hash = TrimSpace h, mu_Token = ?tok,
        mu_ExpiresAt = time_Add now fifteen_minutes\<rparr>"
    by (simp add: CreateTemplateFileUpload_def newManagementSecret_def Let_def update_conv')
  moreover have "fst (findTemplate env i s) = Inr x" using 1 x by simp
  ultimately show ?thesis by blast
qed

text \<open>C35: the URL answered for the upload of a file leads, when a client puts the file there, back to the
  server's upload route with the template's id, the hash and a token (for ids and hashes without a slash,
  as a path's parameters have none); the store holds a ticket for that token that expires; and until then, in
  any later state that still has the ticket and no such file yet, putting a body that is an archive with the hash's
  content, under that token, is answered with 200 and the file is then present.\<close>

theorem upload_tickets_work:
  assumes "GetTemplatesTemplateIDFilesHash (DefaultGatewayCallbacks env) i h c g = (c_JSON 201 (V_TemplateFileUpload present url), g1)"
  shows "\<exists>x base u tok ticket. fst (findTemplate (ge_templates env) i (templates_of g)) = Inr x \<and>
    inboundRequestBaseURL (callbackContext c) = Some base \<and> url = base @ u \<and> (let t = gt_TemplateID x in
    (t \<noteq> [] \<and> h \<noteq> [] \<and> CHR ''/'' \<notin> set t \<union> set h \<longrightarrow>
       requested ''PUT'' u = Some ((R_TemplateFileUpload, [(''templateID'', t), (''hash'', h)]), tok)) \<and>
    map_of (ms_templateUploads (gw_management g1)) tok = Some ticket \<and>
    (\<forall>c2 g2 others. TrimSpace t \<noteq> [] \<and> map_read (hr_Query c2) ''token'' = tok \<and>
       map_of (ms_templateUploads (gw_management g2)) tok = Some ticket \<and> \<not> TemplateFilePresent t h (gw_management g2) \<and>
       undisturbed (templateFileKey t h) tok (gw_management g2) (others (gw_management g2)) \<and>
       fst (gw_now env g2) \<le> mu_ExpiresAt ticket \<and> fst (gw_now env (snd (gw_now env g2))) \<le> mu_ExpiresAt ticket \<and>
       good_upload (ge_upload env) h (hr_Body c2) \<longrightarrow>
         (\<exists>g3. handleTemplateFileUpload env others t h c2 g2 = (c_Status 200, g3) \<and>
            TemplateFilePresent t h (gw_management g3))))"
proof -
  obtain s' where run: "defaultGetTemplateFileUpload (ge_templates env) (templateFileUploadURL (callbackContext c)) i h (templates_of g) =
      (Inr (present, url), s')" and g1: "g1 = with_templates g s'"
    using assms
    by (auto simp: GetTemplatesTemplateIDFilesHash_def DefaultGatewayCallbacks_def Let_def handler_simps on_templates_def
        response_defs split: prod.splits sum.splits)
  from ticket_issued [OF run] obtain x bs now where template: "fst (findTemplate (ge_templates env) i (templates_of g)) = Inr x"
    and url: "templateFileUploadURL (callbackContext c) (gt_TemplateID x) h
      (''tfu_'' @ hex_encode bs) = Inr url"
    and ticket: "map_of (ms_templateUploads (tp_management s')) (''tfu_'' @ hex_encode bs) =
      Some \<lparr>mu_TemplateID = TrimSpace (gt_TemplateID x), mu_Hash = TrimSpace h, mu_Token = ''tfu_'' @ hex_encode bs,
        mu_ExpiresAt = time_Add now fifteen_minutes\<rparr>" by blast
  let ?t = "gt_TemplateID x" and ?tok = "''tfu_'' @ hex_encode bs"
  let ?ticket = "\<lparr>mu_TemplateID = TrimSpace ?t, mu_Hash = TrimSpace h, mu_Token = ?tok,
        mu_ExpiresAt = time_Add now fifteen_minutes\<rparr>"
  let ?u = "''/_e2b/template-files/'' @ url_PathEscape ?t @ ''/'' @ url_PathEscape h @ ''?'' @ ''token='' @ url_QueryEscape ?tok"
  have hash: "TrimSpace h \<noteq> []" using run by (auto simp: defaultGetTemplateFileUpload_def)
  from url obtain base where base: "inboundRequestBaseURL (callbackContext c) = Some base" "url = base @ ?u"
    by (auto simp: templateFileUploadURL_def split: option.splits)
  have stored: "\<exists>g3. handleTemplateFileUpload env others ?t h c2 g2 = (c_Status 200, g3) \<and> TemplateFilePresent ?t h (gw_management g3)"
    if c2: "TrimSpace ?t \<noteq> []" "map_read (hr_Query c2) ''token'' = ?tok"
      "map_of (ms_templateUploads (gw_management g2)) ?tok = Some ?ticket" "\<not> TemplateFilePresent ?t h (gw_management g2)"
      "undisturbed (templateFileKey ?t h) ?tok (gw_management g2) (others (gw_management g2))"
      "fst (gw_now env g2) \<le> mu_ExpiresAt ?ticket" "fst (gw_now env (snd (gw_now env g2))) \<le> mu_ExpiresAt ?ticket"
      "good_upload (ge_upload env) h (hr_Body c2)" for c2 g2 others
  proof -
    obtain t1 a where 1: "gw_now env g2 = (t1, a)" by (cases "gw_now env g2")
    obtain t2 b where 2: "gw_now env a = (t2, b)" by (cases "gw_now env a")
    obtain t3 d where 3: "gw_now env b = (t3, d)" by (cases "gw_now env b")
    have m: "gw_management d = gw_management g2"
      using 1 2 3 by (auto simp: gw_now_def on_world_def split: prod.splits)
    have key: "templateFileKey (TrimSpace ?t) (TrimSpace h) = templateFileKey ?t h" by (simp add: templateFileKey_def)
    have "\<exists>m3. StoreTemplateFileUploadReader (ge_upload env) others t1 t2 t3 (TrimSpace ?t) (TrimSpace h) ?tok
        (MaxBytesReader (sint maxTemplateFileUploadBytes) (hr_Body c2)) (gw_management g2) =
          ((upload_done True None)\<lparr>ur_tempKept := True\<rparr>, m3) \<and> TemplateFilePresent (TrimSpace ?t) (TrimSpace h) m3"
      by (rule StoreUpload_stores [OF c2(3) token_trimmed])
        (use c2 1 2 in \<open>simp_all add: key TemplateFilePresent_def good_upload_trim\<close>)
    then obtain m3 where m3: "StoreTemplateFileUploadReader (ge_upload env) others t1 t2 t3 (TrimSpace ?t) (TrimSpace h) ?tok
        (MaxBytesReader (sint maxTemplateFileUploadBytes) (hr_Body c2)) (gw_management d) =
          ((upload_done True None)\<lparr>ur_tempKept := True\<rparr>, m3)" and p: "TemplateFilePresent ?t h m3"
      by (auto simp: m TemplateFilePresent_def key)
    have "handleTemplateFileUpload env others ?t h c2 g2 = (c_Status 200, d\<lparr>gw_management := m3\<rparr>)"
      using m3 hash c2(1,2) token_trimmed [of bs]
      by (simp add: handleTemplateFileUpload_def Let_def 1 2 3 respond_def upload_done_def)
    with p show ?thesis by auto
  qed
  have route: "requested ''PUT'' ?u = Some ((R_TemplateFileUpload, [(''templateID'', ?t), (''hash'', h)]), ?tok)"
    if "?t \<noteq> [] \<and> h \<noteq> [] \<and> CHR ''/'' \<notin> set ?t \<union> set h"
    using that by (intro upload_url_requested) auto
  show ?thesis
    unfolding Let_def
  proof (intro exI conjI)
    show "fst (findTemplate (ge_templates env) i (templates_of g)) = Inr x" by (rule template)
    show "inboundRequestBaseURL (callbackContext c) = Some base" "url = base @ ?u" by (rule base)+
    show "map_of (ms_templateUploads (gw_management g1)) ?tok = Some ?ticket"
      using ticket by (simp add: g1 with_templates_def)
  qed (use route stored in blast)+
qed

definition demo_templates :: "time gateway" where
  "demo_templates = demo_gateway\<lparr>gw_management := demo_stored\<rparr>"

definition demo_ticket_issued :: "api_value response \<times> time gateway" where
  "demo_ticket_issued = GetTemplatesTemplateIDFilesHash (DefaultGatewayCallbacks demo_gateway_env) ''t'' ''h1''
     (demo_http ''GET'' []) demo_templates"

definition demo_put :: http_request where
  "demo_put = (demo_http ''PUT'' ''body'')\<lparr>hr_Query := [(''token'', ''tfu_'')]\<rparr>"

theorem upload_tickets_work_witness:
  "\<exists>g3. handleTemplateFileUpload demo_gateway_env (\<lambda>m. m) ''t'' ''h1'' demo_put (snd demo_ticket_issued) = (c_Status 200, g3) \<and>
     TemplateFilePresent ''t'' ''h1'' (gw_management g3)"
proof -
  let ?url = "''http://box:3000/_e2b/template-files/t/h1?token=tfu_''" and ?g = "snd demo_ticket_issued"
  have "fst demo_ticket_issued = c_JSON 201 (V_TemplateFileUpload False ?url)" by code_simp
  then have run: "GetTemplatesTemplateIDFilesHash (DefaultGatewayCallbacks demo_gateway_env) ''t'' ''h1''
     (demo_http ''GET'' []) demo_templates = (c_JSON 201 (V_TemplateFileUpload False ?url), ?g)"
    unfolding demo_ticket_issued_def by (metis prod.collapse)
  have tmpl: "(case fst (findTemplate (ge_templates demo_gateway_env) ''t'' (templates_of demo_templates)) of
      Inr x \<Rightarrow> gt_TemplateID x = ''t'' | Inl _ \<Rightarrow> False)" by code_simp
  have base: "inboundRequestBaseURL (callbackContext (demo_http ''GET'' [])) = Some ''http://box:3000''" by code_simp
  have req: "requested ''PUT'' ''/_e2b/template-files/t/h1?token=tfu_'' =
      Some ((R_TemplateFileUpload, [(''templateID'', ''t''), (''hash'', ''h1'')]), ''tfu_'')" by code_simp
  have ticket: "map_option mu_ExpiresAt (map_of (ms_templateUploads (gw_management ?g)) ''tfu_'') = Some 900000000005" by code_simp
  have now: "fst (gw_now demo_gateway_env ?g) \<le> 900000000005 \<and>
      fst (gw_now demo_gateway_env (snd (gw_now demo_gateway_env ?g))) \<le> 900000000005" by code_simp
  have ok: "TrimSpace ''t'' \<noteq> [] \<and> map_read (hr_Query demo_put) ''token'' = ''tfu_'' \<and>
      \<not> TemplateFilePresent ''t'' ''h1'' (gw_management ?g) \<and> good_upload (ge_upload demo_gateway_env) ''h1'' (hr_Body demo_put)"
    by code_simp
  have u: "u = ''/_e2b/template-files/t/h1?token=tfu_''" if "?url = ''http://box:3000'' @ u" for u
    using that by simp
  show ?thesis
    using upload_tickets_work [OF run] tmpl base req ticket now ok
    by (auto simp: Let_def undisturbed_def dest!: u)
qed

end
