(* ===== verification/AppleClient.thy ===== *)
theory AppleClient
  imports DockerImages
begin

text \<open>
  The client of Apple's container service (\<open>applecontainer/types.go\<close>, \<open>errors.go\<close>,
  \<open>xpc_client_darwin.go\<close>): the values exchanged, the errors of the protocol, and one definition per
  method of \<open>XPCClient\<close>. The bridge to XPC (C code that calls the system's library), the JSON codecs
  and the null device are parameters: a call hands a message over and gets an error or a reply.
  \<open>json.Marshal\<close> never fails on the types used here, so an encoder is a plain function.

  The bridge's messages and replies are memory the client has to release, and the null device is
  opened as three files: the state counts what is held.
\<close>

section \<open>Values (types.go)\<close>

text \<open>A value of type \<open>any\<close>, as \<open>encoding/json\<close> sees it.\<close>

datatype json = JNull | JBool bool | JNumber int | JString string | JList "json list" | JObject "(string \<times> json) list"

record oci_platform =
  op_Architecture :: string
  op_OS :: string
  op_OSVersion :: string
  op_OSFeatures :: "string list"
  op_Variant :: string

record descriptor =
  de_MediaType :: string
  de_Digest :: string
  de_Size :: int
  de_URLs :: "string list"
  de_Annotations :: "(string, string) gomap"
  de_Platform :: "oci_platform option"

record image_description =
  id_Reference :: string
  id_Descriptor :: descriptor

record system_platform =
  sy_Architecture :: string
  sy_OS :: string

record process_configuration =
  pc_Executable :: string
  pc_Arguments :: "string list"
  pc_Environment :: "string list"
  pc_WorkingDirectory :: string
  pc_Terminal :: bool
  pc_User :: json
  pc_SupplementalGroups :: "32 word list"
  pc_Rlimits :: "json list"

record publish_port =
  pp_HostAddress :: string
  pp_HostPort :: "16 word"
  pp_ContainerPort :: "16 word"
  pp_Proto :: string
  pp_Count :: "16 word"

record dns_configuration =
  dn_Nameservers :: "string list"
  dn_Domain :: string
  dn_SearchDomains :: "string list"
  dn_Options :: "string list"

record apple_resources =
  ar_CPUs :: int
  ar_MemoryBytes :: "64 word"
  ar_Storage :: "64 word"
  ar_CPUOverhead :: int

record attachment_options =
  ao_Hostname :: string
  ao_MACAddress :: json
  ao_MTU :: "32 word"

record attachment_config =
  an_Network :: string
  an_Options :: attachment_options

record apple_filesystem =
  fy_Type :: "(string \<times> json) list"
  fy_Source :: string
  fy_Destination :: string
  fy_Options :: "string list"

text \<open>An \<open>AppleDate\<close> is the time it stands for; its JSON form is a part of the codecs.\<close>

record container_configuration =
  cg_ID :: string
  cg_Image :: image_description
  cg_Mounts :: "apple_filesystem list"
  cg_PublishedPorts :: "publish_port list"
  cg_PublishedSockets :: "json list"
  cg_Labels :: "(string, string) gomap"
  cg_Sysctls :: "(string, string) gomap"
  cg_Networks :: "attachment_config list"
  cg_DNS :: "dns_configuration option"
  cg_Rosetta :: bool
  cg_InitProcess :: process_configuration
  cg_Platform :: "oci_platform option"
  cg_Resources :: apple_resources
  cg_RuntimeHandler :: string
  cg_Virtualization :: bool
  cg_SSH :: bool
  cg_ReadOnly :: bool
  cg_UseInit :: bool
  cg_CapAdd :: "string list"
  cg_CapDrop :: "string list"
  cg_ShmSize :: "64 word option"
  cg_StopSignal :: "string option"
  cg_CreationDate :: "time option"

record container_snapshot =
  cn_Configuration :: container_configuration
  cn_Status :: string
  cn_Networks :: "json list"
  cn_StartedDate :: "time option"

record container_list_filters =
  fl_IDs :: "string list"
  fl_Status :: string
  fl_Labels :: "(string, string) gomap"

record volume_config =
  vg_Name :: string
  vg_Driver :: string
  vg_Format :: string
  vg_Source :: string
  vg_CreationDate :: time
  vg_Labels :: "(string, string) gomap"
  vg_Options :: "(string, string) gomap"
  vg_SizeInBytes :: "64 word option"

record network_configuration =
  nc_Name :: string
  nc_Labels :: "(string, string) gomap"

record network_resource =
  nr_Configuration :: network_configuration
  nr_Status :: json

definition ProcessUserRoot :: json where
  "ProcessUserRoot = JObject [(''id'', JObject [(''uid'', JNumber 0), (''gid'', JNumber 0)])]"

definition enumNoValue :: "string \<Rightarrow> json" where
  "enumNoValue name = JObject [(name, JObject [])]"

definition VolumeFilesystem :: "string \<Rightarrow> string \<Rightarrow> string \<Rightarrow> string \<Rightarrow> bool \<Rightarrow> apple_filesystem" where
  "VolumeFilesystem name format source destination readOnly =
     \<lparr>fy_Type = [(''volume'', JObject [(''name'', JString name), (''format'', JString format),
                                       (''cache'', enumNoValue ''on''), (''sync'', enumNoValue ''fsync'')])],
      fy_Source = source, fy_Destination = destination, fy_Options = (if readOnly then [''ro''] else [])\<rparr>"

section \<open>Errors (errors.go)\<close>

definition ErrVolumeNotFound :: go_error where "ErrVolumeNotFound = Sentinel ''volume not found''"
definition xpcProtocolErrorKey :: string where "xpcProtocolErrorKey = ''com.apple.container.xpc.error''"
definition appleErrorCodeInternalError :: string where "appleErrorCodeInternalError = ''internal_error''"
definition appleErrorCodeInvalidArg :: string where "appleErrorCodeInvalidArg = ''invalid_argument''"
definition appleErrorCodeInvalidState :: string where "appleErrorCodeInvalidState = ''invalid_state''"
definition appleErrorCodeNotFound :: string where "appleErrorCodeNotFound = ''not_found''"

lemmas apple_error_codes = appleErrorCodeInternalError_def appleErrorCodeInvalidArg_def
  appleErrorCodeInvalidState_def appleErrorCodeNotFound_def

text \<open>An \<open>xpcProtocolError\<close> with its text.\<close>

definition protocol_error_text :: "string \<Rightarrow> string \<Rightarrow> string" where
  "protocol_error_text code message =
     (let code = TrimSpace code; message = TrimSpace message
      in if code \<noteq> [] \<and> message \<noteq> [] then ''apple container XPC error '' @ code @ '': '' @ message
         else if code \<noteq> [] then ''apple container XPC error '' @ code
         else if message \<noteq> [] then ''apple container XPC error: '' @ message
         else ''apple container XPC error'')"

definition protocol_error :: "string \<Rightarrow> string \<Rightarrow> go_error" where
  "protocol_error code message = CodedError code message (protocol_error_text code message)"

definition decodeXPCProtocolError :: "(string \<Rightarrow> go_error + string \<times> string) \<Rightarrow> string \<Rightarrow> go_error" where
  "decodeXPCProtocolError decode data =
     (case decode data of
        Inl err \<Rightarrow> wrap ''decode apple container XPC error: '' err
      | Inr (code, message) \<Rightarrow>
          (if TrimSpace code = [] \<and> TrimSpace message = []
           then ErrorString ''decode apple container XPC error: empty error payload''
           else protocol_error code message))"

text \<open>\<open>strings.Trim\<close> with a set of characters.\<close>

definition trim_set :: "char set \<Rightarrow> string \<Rightarrow> string" where
  "trim_set A s = rev (dropWhile (\<lambda>c. c \<in> A) (rev (dropWhile (\<lambda>c. c \<in> A) s)))"

definition normalizeAppleErrorCode :: "string \<Rightarrow> string" where
  "normalizeAppleErrorCode code =
     (let code = trim_set {CHR ''.'', CHR '' ''} (lower_utf8 (TrimSpace code));
          code = map (\<lambda>c. if c = CHR ''-'' \<or> c = CHR '' '' then CHR ''_'' else c) code
      in if code = ''internalerror'' then appleErrorCodeInternalError
         else if code = ''invalidargument'' then appleErrorCodeInvalidArg
         else if code = ''invalidstate'' then appleErrorCodeInvalidState
         else if code = ''notfound'' then appleErrorCodeNotFound
         else code)"

text \<open>\<open>errors.As\<close> for a protocol error: its code and message.\<close>

primrec as_protocol_error :: "go_error \<Rightarrow> (string \<times> string) option" where
  "as_protocol_error (GatewayError st msg) = None"
| "as_protocol_error (Sentinel msg) = None"
| "as_protocol_error (Wrapf pre e post) = as_protocol_error e"
| "as_protocol_error (Marked kind e) = as_protocol_error e"
| "as_protocol_error (CodedError code msg text) = Some (code, msg)"
| "as_protocol_error (ErrorString msg) = None"

definition appleErrorHasCode :: "go_error \<Rightarrow> string list \<Rightarrow> bool" where
  "appleErrorHasCode err codes =
     (case as_protocol_error err of
        None \<Rightarrow> False
      | Some (code, message) \<Rightarrow> (\<exists>c \<in> set codes. normalizeAppleErrorCode code = normalizeAppleErrorCode c))"

definition isAppleNotFound :: "go_error \<Rightarrow> bool" where
  "isAppleNotFound err =
     (if appleErrorHasCode err [appleErrorCodeNotFound] then True
      else case as_protocol_error err of
        None \<Rightarrow> False
      | Some (code, message) \<Rightarrow>
          (let code = normalizeAppleErrorCode code; message = lower_utf8 message
           in (code = [] \<or> code = appleErrorCodeInternalError \<or> code = appleErrorCodeInvalidArg) \<and>
              str_contains message ''not found'' \<and> (str_contains message ''container'' \<or> str_contains message ''volume'')))"

definition isAppleAlreadyStopped :: "go_error \<Rightarrow> bool" where
  "isAppleAlreadyStopped err =
     (if \<not> appleErrorHasCode err [appleErrorCodeInvalidState, appleErrorCodeInternalError] then False
      else case as_protocol_error err of
        None \<Rightarrow> False
      | Some (code, message) \<Rightarrow>
          (let message = lower_utf8 message
           in str_contains message ''container'' \<and>
              (str_contains message ''not running'' \<or> str_contains message ''already stopped'' \<or> str_contains message ''is stopped'')))"

section \<open>Contexts\<close>

text \<open>A context with its deadline, if it has one; \<open>Background\<close> is never done.\<close>

record 'e deadline_ctx =
  cx_Err :: "'e ctx"
  cx_Deadline :: "time option"

definition Background :: "'e deadline_ctx" where
  "Background = \<lparr>cx_Err = (\<lambda>h. None), cx_Deadline = None\<rparr>"

text \<open>Waiting for \<open>d\<close> nanoseconds, cut short when the context is done.\<close>

definition wait_for :: "'e ctx \<Rightarrow> nat \<Rightarrow> ('e, unit) host_op" where
  "wait_for ctx d h =
     (case ctx h of
        Some e \<Rightarrow> (Inl e, h)
      | None \<Rightarrow> (let h = h\<lparr>h_now := h_now h + int d\<rparr> in case ctx h of Some e \<Rightarrow> (Inl e, h) | None \<Rightarrow> (Inr (), h)))"

section \<open>Messages\<close>

text \<open>
  A message has a route and values by key. A string goes through a C string, which ends at the
  first zero byte. \<open>XFD\<close> is an open null device.
\<close>

datatype xpc_value = XString string | XBool bool | XUint64 "64 word" | XData string | XFD

record xpc_message =
  xm_Route :: string
  xm_Values :: "(string, xpc_value) gomap"

datatype xpc_service = xpcAPIService | xpcImageService

definition c_string :: "string \<Rightarrow> string" where
  "c_string s = takeWhile (\<lambda>c. c \<noteq> CHR 0x00) s"

definition set_value :: "string \<Rightarrow> xpc_value \<Rightarrow> xpc_message \<Rightarrow> xpc_message" where
  "set_value key v msg = msg\<lparr>xm_Values := AList.update key v (xm_Values msg)\<rparr>"

definition setString :: "string \<Rightarrow> string \<Rightarrow> xpc_message \<Rightarrow> xpc_message" where
  "setString key v = set_value key (XString (c_string v))"

definition setBool :: "string \<Rightarrow> bool \<Rightarrow> xpc_message \<Rightarrow> xpc_message" where
  "setBool key v = set_value key (XBool v)"

definition setUint64 :: "string \<Rightarrow> 64 word \<Rightarrow> xpc_message \<Rightarrow> xpc_message" where
  "setUint64 key v = set_value key (XUint64 v)"

definition setData :: "string \<Rightarrow> string \<Rightarrow> xpc_message \<Rightarrow> xpc_message" where
  "setData key v = set_value key (XData v)"

definition setFD :: "string \<Rightarrow> xpc_message \<Rightarrow> xpc_message" where
  "setFD key = set_value key XFD"

text \<open>A reply: the data it has under a key, empty if there is none, and the error it stands for, if any.\<close>

record xpc_reply =
  xr_Data :: "string \<Rightarrow> string"
  xr_Error :: "string option"

text \<open>A missing key is an error of a type of its own.\<close>

definition missingXPCDataError :: "string \<Rightarrow> go_error" where
  "missingXPCDataError key = Marked ''missingXPCDataError'' (ErrorString (''missing XPC data key '' @ key))"

definition errorsIsMissingXPCData :: "go_error \<Rightarrow> bool" where
  "errorsIsMissingXPCData err = (case err of Marked m e \<Rightarrow> m = ''missingXPCDataError'' | _ \<Rightarrow> False)"

definition replyData :: "xpc_reply \<Rightarrow> string \<Rightarrow> go_error + string" where
  "replyData reply key = (if xr_Data reply key = [] then Inl (missingXPCDataError key) else Inr (xr_Data reply key))"

section \<open>The bridge\<close>

text \<open>
  Connecting to a service, allocating a message for a route, sending a message with a timeout in
  milliseconds, opening the null device; any of them may fail. \<open>xb_Elapsed\<close> is the time the last call
  took, in nanoseconds.
\<close>

record 'w xpc_bridge =
  xb_Connect :: "string \<Rightarrow> 'w \<Rightarrow> bool \<times> 'w"
  xb_Create :: "string \<Rightarrow> 'w \<Rightarrow> bool \<times> 'w"
  xb_Send :: "xpc_service \<Rightarrow> xpc_message \<Rightarrow> 64 word \<Rightarrow> 'w \<Rightarrow> (string + xpc_reply option) \<times> 'w"
  xb_DevNull :: "'w \<Rightarrow> go_error option \<times> 'w"
  xb_Elapsed :: "'w \<Rightarrow> nat"

text \<open>
  The state of the client: which of its connections are open, whether it is closed, the kernel it
  has cached, and how many messages, replies and files it holds; then the services behind the bridge.
\<close>

record 'w xpc_world =
  xw_apiConn :: bool
  xw_imageConn :: bool
  xw_closed :: bool
  xw_kernelData :: string
  xw_held :: int
  xw_files :: int
  xw_World :: 'w

type_synonym ('w, 'a) xpc_op = "('w xpc_world, 'a) host_op"
type_synonym 'w xpc_ctx = "'w xpc_world deadline_ctx"

definition bridge_call :: "'w xpc_bridge \<Rightarrow> ('w \<Rightarrow> 'a \<times> 'w) \<Rightarrow> ('w, 'a) xpc_op" where
  "bridge_call br f h =
     (case f (xw_World (h_engine h)) of
        (x, w) \<Rightarrow> (Inr x, h\<lparr>h_engine := (h_engine h)\<lparr>xw_World := w\<rparr>, h_now := h_now h + int (xb_Elapsed br w)\<rparr>))"

definition on_client :: "('w xpc_world \<Rightarrow> 'w xpc_world) \<Rightarrow> ('w, unit) xpc_op" where
  "on_client f h = (Inr (), h\<lparr>h_engine := f (h_engine h)\<rparr>)"

definition hold :: "('w, unit) xpc_op" where
  "hold = on_client (\<lambda>c. c\<lparr>xw_held := xw_held c + 1\<rparr>)"

definition release_msg :: "('w, unit) xpc_op" where
  "release_msg = on_client (\<lambda>c. c\<lparr>xw_held := xw_held c - 1\<rparr>)"

definition newXPCMessage :: "'w xpc_bridge \<Rightarrow> string \<Rightarrow> ('w, xpc_message) xpc_op" where
  "newXPCMessage br route =
     bindE (bridge_call br (xb_Create br route)) (\<lambda>ok.
     if \<not> ok then fail (ErrorString (''create XPC message for route '' @ route))
     else bindE hold (\<lambda>u. ret \<lparr>xm_Route = route, xm_Values = []\<rparr>))"

definition closeFiles :: "nat \<Rightarrow> ('w, unit) xpc_op" where
  "closeFiles n = on_client (\<lambda>c. c\<lparr>xw_files := xw_files c - int n\<rparr>)"

text \<open>The null device as standard input, output and error; the result has the number of open files.\<close>

fun open_stdio :: "'w xpc_bridge \<Rightarrow> string list \<Rightarrow> nat \<Rightarrow> xpc_message \<Rightarrow> ('w, xpc_message \<times> nat) xpc_op" where
  "open_stdio br [] n msg = ret (msg, n)"
| "open_stdio br (key # keys) n msg =
     bindE (bridge_call br (xb_DevNull br)) (\<lambda>e.
     case e of
       Some err \<Rightarrow> bindE (closeFiles n) (\<lambda>u. fail (wrap ''open /dev/null for stdio: '' err))
     | None \<Rightarrow> bindE (on_client (\<lambda>c. c\<lparr>xw_files := xw_files c + 1\<rparr>)) (\<lambda>u. open_stdio br keys (n + 1) (setFD key msg)))"

definition setDevNullStdio :: "'w xpc_bridge \<Rightarrow> xpc_message \<Rightarrow> ('w, xpc_message \<times> nat) xpc_op" where
  "setDevNullStdio br msg = open_stdio br [''stdin'', ''stdout'', ''stderr''] 0 msg"

section \<open>Sending\<close>

definition xpcTimeoutDefault :: duration where "xpcTimeoutDefault = 120 * time_Second"
definition xpcTimeoutList :: duration where "xpcTimeoutList = 30 * time_Second"
definition xpcTimeoutCopy :: duration where "xpcTimeoutCopy = 300 * time_Second"

text \<open>\<open>time.Until\<close> saturates at the bounds of a 64-bit duration.\<close>

definition time_Until :: "time \<Rightarrow> time \<Rightarrow> int" where
  "time_Until deadline now = max (- (2 ^ 63)) (min (2 ^ 63 - 1) (deadline - now))"

definition timeoutMilliseconds :: "time option \<Rightarrow> duration \<Rightarrow> time \<Rightarrow> 64 word" where
  "timeoutMilliseconds deadline fallback now =
     (let fallback = (if sint fallback \<le> 0 then sint xpcTimeoutDefault else sint fallback);
          timeout = (case deadline of None \<Rightarrow> fallback | Some d \<Rightarrow> min (time_Until d now) fallback)
      in if timeout \<le> 0 then 1
         else let timeoutMS = timeout div 1000000 in if timeoutMS \<le> 0 then 1 else word_of_int timeoutMS)"

definition replyProtocolError :: "(string \<Rightarrow> go_error + string \<times> string) \<Rightarrow> xpc_reply \<Rightarrow> go_error option" where
  "replyProtocolError decode reply =
     (case replyData reply xpcProtocolErrorKey of
        Inl err \<Rightarrow> (if errorsIsMissingXPCData err then None else Some err)
      | Inr data \<Rightarrow> Some (decodeXPCProtocolError decode data))"

definition checkReply :: "(string \<Rightarrow> go_error + string \<times> string) \<Rightarrow> xpc_reply \<Rightarrow> go_error option" where
  "checkReply decode reply =
     (case replyProtocolError decode reply of
        Some err \<Rightarrow> Some err
      | None \<Rightarrow> (case xr_Error reply of
                   None \<Rightarrow> None
                 | Some text \<Rightarrow> Some (ErrorString (''apple container XPC error: '' @ TrimSpace text))))"

text \<open>The JSON forms of the values sent and received.\<close>

record apple_json =
  aj_Configuration :: "container_configuration \<Rightarrow> string"
  aj_Process :: "process_configuration \<Rightarrow> string"
  aj_CreateOptions :: "bool \<Rightarrow> string"
  aj_StopOptions :: "32 word \<Rightarrow> string"
  aj_Filters :: "container_list_filters \<Rightarrow> string"
  aj_Map :: "(string, string) gomap \<Rightarrow> string"
  aj_Platform :: "system_platform \<Rightarrow> string"
  aj_ReadError :: "string \<Rightarrow> go_error + string \<times> string"
  aj_ReadImages :: "string \<Rightarrow> go_error + image_description list"
  aj_ReadContainers :: "string \<Rightarrow> go_error + container_snapshot list"
  aj_ReadVolume :: "string \<Rightarrow> go_error + volume_config"
  aj_ReadVolumes :: "string \<Rightarrow> go_error + volume_config list"
  aj_ReadNetworks :: "string \<Rightarrow> go_error + network_resource list"

record 'w xpc_client =
  xc_bridge :: "'w xpc_bridge"
  xc_json :: apple_json
  xc_GOARCH :: string

definition connection_open :: "xpc_service \<Rightarrow> 'w xpc_world \<Rightarrow> bool" where
  "connection_open service c = (case service of xpcImageService \<Rightarrow> xw_imageConn c | xpcAPIService \<Rightarrow> xw_apiConn c)"

definition service_name :: "xpc_service \<Rightarrow> string" where
  "service_name service =
     (case service of xpcImageService \<Rightarrow> ''com.apple.container.core.container-core-images''
                    | xpcAPIService \<Rightarrow> ''com.apple.container.apiserver'')"

text \<open>A reply is held by the caller; the message is released in any case.\<close>

definition checked_reply :: "'w xpc_client \<Rightarrow> 'w xpc_ctx \<Rightarrow> string + xpc_reply option \<Rightarrow> ('w, xpc_reply) xpc_op" where
  "checked_reply c ctx sent h =
     (case sent of
        Inl text \<Rightarrow> (case cx_Err ctx h of Some e \<Rightarrow> (Inl e, h) | None \<Rightarrow> (Inl (ErrorString (''xpc send: '' @ TrimSpace text)), h))
      | Inr None \<Rightarrow> (Inl (ErrorString ''xpc reply is nil''), h)
      | Inr (Some reply) \<Rightarrow>
          bindE hold (\<lambda>u. case checkReply (aj_ReadError (xc_json c)) reply of
            Some err \<Rightarrow> bindE release_msg (\<lambda>u. fail err) | None \<Rightarrow> ret reply) h)"

definition xpc_send :: "'w xpc_client \<Rightarrow> 'w xpc_ctx \<Rightarrow> xpc_service \<Rightarrow> xpc_message \<Rightarrow> duration \<Rightarrow> ('w, xpc_reply) xpc_op" where
  "xpc_send c ctx service msg timeout =
     finallyE (\<lambda>h.
       case cx_Err ctx h of
         Some e \<Rightarrow> (Inl e, h)
       | None \<Rightarrow>
           (let timeoutMS = timeoutMilliseconds (cx_Deadline ctx) timeout (h_now h)
            in if xw_closed (h_engine h) then (Inl (ErrorString ''apple container XPC client is closed''), h)
               else if \<not> connection_open service (h_engine h)
               then (Inl (ErrorString (''apple container XPC '' @ service_name service @ '' connection is closed'')), h)
               else bindE (bridge_call (xc_bridge c) (xb_Send (xc_bridge c) service msg timeoutMS)) (checked_reply c ctx) h))
       release_msg"

definition sendAPI :: "'w xpc_client \<Rightarrow> 'w xpc_ctx \<Rightarrow> xpc_message \<Rightarrow> duration \<Rightarrow> ('w, xpc_reply) xpc_op" where
  "sendAPI c ctx msg timeout = xpc_send c ctx xpcAPIService msg timeout"

definition sendImage :: "'w xpc_client \<Rightarrow> 'w xpc_ctx \<Rightarrow> xpc_message \<Rightarrow> duration \<Rightarrow> ('w, xpc_reply) xpc_op" where
  "sendImage c ctx msg timeout = xpc_send c ctx xpcImageService msg timeout"

definition sendNoBodyAPI :: "'w xpc_client \<Rightarrow> 'w xpc_ctx \<Rightarrow> xpc_message \<Rightarrow> duration \<Rightarrow> ('w, unit) xpc_op" where
  "sendNoBodyAPI c ctx msg timeout = bindE (xpc_send c ctx xpcAPIService msg timeout) (\<lambda>reply. release_msg)"

section \<open>The methods of the client (xpc_client_darwin.go)\<close>

definition xpcConnect :: "'w xpc_bridge \<Rightarrow> string \<Rightarrow> ('w, unit) xpc_op" where
  "xpcConnect br serviceName =
     bindE (bridge_call br (xb_Connect br serviceName)) (\<lambda>ok.
     if ok then ret () else fail (ErrorString (''connect to XPC service '' @ serviceName)))"

text \<open>The connection to the first service is closed again when the second cannot be reached.\<close>

definition NewXPCClient :: "'w xpc_client \<Rightarrow> ('w, unit) xpc_op" where
  "NewXPCClient c =
     bindE (xpcConnect (xc_bridge c) (service_name xpcAPIService)) (\<lambda>u.
     bindE (on_client (\<lambda>w. w\<lparr>xw_apiConn := True\<rparr>)) (\<lambda>u.
     caseE (xpcConnect (xc_bridge c) (service_name xpcImageService))
       (\<lambda>err. bindE (on_client (\<lambda>w. w\<lparr>xw_apiConn := False\<rparr>)) (\<lambda>u. fail err))
       (\<lambda>u. on_client (\<lambda>w. w\<lparr>xw_imageConn := True, xw_closed := False, xw_kernelData := []\<rparr>))))"

definition xpc_Close :: "('w, unit) xpc_op" where
  "xpc_Close = on_client (\<lambda>w. if xw_closed w then w else w\<lparr>xw_closed := True, xw_apiConn := False, xw_imageConn := False\<rparr>)"

definition xpc_Ping :: "'w xpc_client \<Rightarrow> 'w xpc_ctx \<Rightarrow> ('w, unit) xpc_op" where
  "xpc_Ping c ctx =
     bindE (newXPCMessage (xc_bridge c) ''ping'') (\<lambda>msg.
     bindE (sendAPI c ctx msg xpcTimeoutDefault) (\<lambda>reply. release_msg))"

definition imageReferenceHasTagOrDigest :: "string \<Rightarrow> bool" where
  "imageReferenceHasTagOrDigest ref = (CHR ''@'' \<in> set ref \<or> CHR '':'' \<in> set (after_last CHR ''/'' ref))"

definition shortImageReference :: "string \<Rightarrow> string" where
  "shortImageReference ref =
     (case find (HasPrefix ref) [''registry-1.docker.io/library/'', ''docker.io/library/'', ''registry-1.docker.io/'', ''docker.io/''] of
        None \<Rightarrow> [] | Some pre \<Rightarrow> TrimPrefix ref pre)"

text \<open>The keys of the map of candidates.\<close>

definition imageReferenceCandidates :: "string \<Rightarrow> string list" where
  "imageReferenceCandidates ref =
     (let ref = TrimSpace ref; short = shortImageReference ref; head = hd (Split CHR ''/'' ref)
      in if ref = [] then []
         else [ref] @ (if short \<noteq> [] then [short] else []) @
           (if \<not> imageReferenceHasTagOrDigest ref
            then [ref @ '':latest''] @ (if short \<noteq> [] then [short @ '':latest''] else []) else []) @
           (if CHR ''.'' \<notin> set head \<and> CHR '':'' \<notin> set head
            then let name = (if CHR ''/'' \<notin> set ref then ''library/'' @ ref else ref)
                 in [''docker.io/'' @ name, ''registry-1.docker.io/'' @ name] @
                    (if \<not> imageReferenceHasTagOrDigest name
                     then [''docker.io/'' @ name @ '':latest'', ''registry-1.docker.io/'' @ name @ '':latest''] else [])
            else []))"

definition imageReferenceMatches :: "string \<Rightarrow> string \<Rightarrow> bool" where
  "imageReferenceMatches want got \<longleftrightarrow>
     (\<exists>candidate \<in> set (imageReferenceCandidates want). candidate \<in> set (imageReferenceCandidates got))"

text \<open>What the methods with a reply share: its data is read, and it is released in any case.\<close>

definition with_reply :: "('w, xpc_reply) xpc_op \<Rightarrow> (xpc_reply \<Rightarrow> go_error + 'a) \<Rightarrow> ('w, 'a) xpc_op" where
  "with_reply sent read = bindE sent (\<lambda>reply. finallyE (liftE (read reply)) release_msg)"

definition decoded :: "string \<Rightarrow> (string \<Rightarrow> go_error + 'a) \<Rightarrow> string \<Rightarrow> go_error + 'a" where
  "decoded what decode data =
     (case decode data of Inl err \<Rightarrow> Inl (wrap (''decode '' @ what @ '': '') err) | Inr x \<Rightarrow> Inr x)"

definition reply_value :: "string \<Rightarrow> (string \<Rightarrow> go_error + 'a) \<Rightarrow> xpc_reply \<Rightarrow> go_error + 'a" where
  "reply_value key decode reply =
     (case replyData reply key of Inl err \<Rightarrow> Inl err | Inr data \<Rightarrow> decoded key decode data)"

text \<open>For the listings, a reply without data is an empty list.\<close>

definition reply_list :: "string \<Rightarrow> (string \<Rightarrow> go_error + 'a list) \<Rightarrow> xpc_reply \<Rightarrow> go_error + 'a list" where
  "reply_list key decode reply =
     (case replyData reply key of
        Inl err \<Rightarrow> (if errorsIsMissingXPCData err then Inr [] else Inl err)
      | Inr data \<Rightarrow> decoded key decode data)"

definition xpc_ResolveImage :: "'w xpc_client \<Rightarrow> 'w xpc_ctx \<Rightarrow> string \<Rightarrow> ('w, image_description) xpc_op" where
  "xpc_ResolveImage c ctx ref =
     (let ref = TrimSpace ref
      in if ref = [] then fail (ErrorString ''image reference is required'')
         else bindE (newXPCMessage (xc_bridge c) ''imageList'') (\<lambda>msg.
           with_reply (sendImage c ctx msg xpcTimeoutList) (\<lambda>reply.
             case reply_value ''imageDescriptions'' (aj_ReadImages (xc_json c)) reply of
               Inl err \<Rightarrow> Inl err
             | Inr images \<Rightarrow>
                 (case find (\<lambda>i. imageReferenceMatches ref (id_Reference i)) images of
                    Some i \<Rightarrow> Inr i
                  | None \<Rightarrow> Inl (ErrorString (''apple container image '' @ quoted ref @
                      '' is not available locally; pull it with container image pull first''))))))"

definition defaultSystemPlatform :: "string \<Rightarrow> system_platform" where
  "defaultSystemPlatform architecture = \<lparr>sy_Architecture = architecture, sy_OS = ''linux''\<rparr>"

text \<open>The default kernel, asked for once and then cached.\<close>

definition defaultKernelData :: "'w xpc_client \<Rightarrow> 'w xpc_ctx \<Rightarrow> ('w, string) xpc_op" where
  "defaultKernelData c ctx h =
     (if xw_kernelData (h_engine h) \<noteq> [] then (Inr (xw_kernelData (h_engine h)), h)
      else bindE (newXPCMessage (xc_bridge c) ''getDefaultKernel'') (\<lambda>msg.
        let msg = setData ''systemPlatform'' (aj_Platform (xc_json c) (defaultSystemPlatform (xc_GOARCH c))) msg
        in bindE (mapErr (wrap (''get default apple container kernel; run '' @ [CHR 0x27] @ ''container system kernel set --recommended'' @
                            [CHR 0x27] @ '' if no default kernel is configured: ''))
                    (sendAPI c ctx msg xpcTimeoutDefault)) (\<lambda>reply.
           finallyE (bindE (liftE (replyData reply ''kernel'')) (\<lambda>kernelData.
                       bindE (on_client (\<lambda>w. if xw_closed w then w else w\<lparr>xw_kernelData := kernelData\<rparr>)) (\<lambda>u. ret kernelData)))
             release_msg)) h)"

definition xpc_ContainerCreate :: "'w xpc_client \<Rightarrow> 'w xpc_ctx \<Rightarrow> container_configuration \<Rightarrow> ('w, unit) xpc_op" where
  "xpc_ContainerCreate c ctx config =
     bindE (defaultKernelData c ctx) (\<lambda>kernelData.
     bindE (newXPCMessage (xc_bridge c) ''containerCreate'') (\<lambda>msg.
     let msg = setData ''containerConfig'' (aj_Configuration (xc_json c) config) msg;
         msg = setData ''kernel'' kernelData msg;
         msg = setData ''containerOptions'' (aj_CreateOptions (xc_json c) False) msg
     in sendNoBodyAPI c ctx msg xpcTimeoutDefault))"

text \<open>The message is released here when the null device cannot be opened; sending releases it otherwise.\<close>

definition send_with_stdio :: "'w xpc_client \<Rightarrow> 'w xpc_ctx \<Rightarrow> xpc_message \<Rightarrow> ('w, unit) xpc_op" where
  "send_with_stdio c ctx msg =
     caseE (setDevNullStdio (xc_bridge c) msg)
       (\<lambda>err. bindE release_msg (\<lambda>u. fail err))
       (\<lambda>(msg, n). finallyE (sendNoBodyAPI c ctx msg xpcTimeoutDefault) (closeFiles n))"

definition xpc_ContainerBootstrap :: "'w xpc_client \<Rightarrow> 'w xpc_ctx \<Rightarrow> string \<Rightarrow> ('w, unit) xpc_op" where
  "xpc_ContainerBootstrap c ctx containerID =
     bindE (newXPCMessage (xc_bridge c) ''containerBootstrap'') (\<lambda>msg.
     let msg = setString ''id'' containerID msg;
         msg = setData ''dynamicEnv'' (aj_Map (xc_json c) []) msg
     in send_with_stdio c ctx msg)"

definition xpc_ContainerStartProcess :: "'w xpc_client \<Rightarrow> 'w xpc_ctx \<Rightarrow> string \<Rightarrow> string \<Rightarrow> ('w, unit) xpc_op" where
  "xpc_ContainerStartProcess c ctx containerID processID =
     bindE (newXPCMessage (xc_bridge c) ''containerStartProcess'') (\<lambda>msg.
     let msg = setString ''id'' containerID msg; msg = setString ''processIdentifier'' processID msg
     in sendNoBodyAPI c ctx msg xpcTimeoutDefault)"

definition xpc_ContainerCopyIn :: "'w xpc_client \<Rightarrow> 'w xpc_ctx \<Rightarrow> string \<Rightarrow> string \<Rightarrow> string \<Rightarrow> 32 word \<Rightarrow> ('w, unit) xpc_op" where
  "xpc_ContainerCopyIn c ctx containerID srcPath dstPath mode =
     bindE (newXPCMessage (xc_bridge c) ''containerCopyIn'') (\<lambda>msg.
     let msg = setString ''id'' containerID msg; msg = setString ''sourcePath'' srcPath msg;
         msg = setString ''destinationPath'' dstPath msg; msg = setUint64 ''fileMode'' (ucast mode) msg;
         msg = setBool ''createParents'' True msg
     in sendNoBodyAPI c ctx msg xpcTimeoutCopy)"

definition xpc_ContainerCreateProcess :: "'w xpc_client \<Rightarrow> 'w xpc_ctx \<Rightarrow> string \<Rightarrow> string \<Rightarrow> process_configuration \<Rightarrow> ('w, unit) xpc_op" where
  "xpc_ContainerCreateProcess c ctx containerID processID config =
     bindE (newXPCMessage (xc_bridge c) ''containerCreateProcess'') (\<lambda>msg.
     let msg = setString ''id'' containerID msg; msg = setString ''processIdentifier'' processID msg;
         msg = setData ''processConfig'' (aj_Process (xc_json c) config) msg
     in send_with_stdio c ctx msg)"

definition xpc_ContainerStop :: "'w xpc_client \<Rightarrow> 'w xpc_ctx \<Rightarrow> string \<Rightarrow> ('w, unit) xpc_op" where
  "xpc_ContainerStop c ctx containerID =
     bindE (newXPCMessage (xc_bridge c) ''containerStop'') (\<lambda>msg.
     let msg = setString ''id'' containerID msg; msg = setData ''stopOptions'' (aj_StopOptions (xc_json c) 5) msg
     in sendNoBodyAPI c ctx msg xpcTimeoutDefault)"

definition xpc_ContainerDelete :: "'w xpc_client \<Rightarrow> 'w xpc_ctx \<Rightarrow> string \<Rightarrow> bool \<Rightarrow> ('w, unit) xpc_op" where
  "xpc_ContainerDelete c ctx containerID force =
     bindE (newXPCMessage (xc_bridge c) ''containerDelete'') (\<lambda>msg.
     let msg = setString ''id'' containerID msg; msg = setBool ''forceDelete'' force msg
     in sendNoBodyAPI c ctx msg xpcTimeoutDefault)"

definition xpc_ContainerList :: "'w xpc_client \<Rightarrow> 'w xpc_ctx \<Rightarrow> container_list_filters \<Rightarrow> ('w, container_snapshot list) xpc_op" where
  "xpc_ContainerList c ctx filters =
     bindE (newXPCMessage (xc_bridge c) ''containerList'') (\<lambda>msg.
     let msg = setData ''listFilters'' (aj_Filters (xc_json c) filters) msg
     in with_reply (sendAPI c ctx msg xpcTimeoutList) (reply_list ''containers'' (aj_ReadContainers (xc_json c))))"

definition xpc_VolumeCreate :: "'w xpc_client \<Rightarrow> 'w xpc_ctx \<Rightarrow> string \<Rightarrow> (string, string) gomap \<Rightarrow> ('w, unit) xpc_op" where
  "xpc_VolumeCreate c ctx name labels =
     bindE (newXPCMessage (xc_bridge c) ''volumeCreate'') (\<lambda>msg.
     let msg = setString ''volumeName'' name msg; msg = setString ''volumeDriver'' ''local'' msg;
         msg = setData ''volumeDriverOpts'' (aj_Map (xc_json c) []) msg;
         msg = setData ''volumeLabels'' (aj_Map (xc_json c) labels) msg
     in sendNoBodyAPI c ctx msg xpcTimeoutDefault)"

definition xpc_VolumeInspect :: "'w xpc_client \<Rightarrow> 'w xpc_ctx \<Rightarrow> string \<Rightarrow> ('w, volume_config) xpc_op" where
  "xpc_VolumeInspect c ctx name =
     bindE (newXPCMessage (xc_bridge c) ''volumeInspect'') (\<lambda>msg.
     let msg = setString ''volumeName'' name msg
     in with_reply (sendAPI c ctx msg xpcTimeoutDefault) (reply_value ''volume'' (aj_ReadVolume (xc_json c))))"

definition xpc_VolumeList :: "'w xpc_client \<Rightarrow> 'w xpc_ctx \<Rightarrow> ('w, volume_config list) xpc_op" where
  "xpc_VolumeList c ctx =
     bindE (newXPCMessage (xc_bridge c) ''volumeList'') (\<lambda>msg.
     with_reply (sendAPI c ctx msg xpcTimeoutDefault) (reply_list ''volumes'' (aj_ReadVolumes (xc_json c))))"

definition xpc_VolumeDelete :: "'w xpc_client \<Rightarrow> 'w xpc_ctx \<Rightarrow> string \<Rightarrow> ('w, unit) xpc_op" where
  "xpc_VolumeDelete c ctx name =
     bindE (newXPCMessage (xc_bridge c) ''volumeDelete'') (\<lambda>msg.
     sendNoBodyAPI c ctx (setString ''volumeName'' name msg) xpcTimeoutDefault)"

definition appleResourceRoleLabel :: string where "appleResourceRoleLabel = ''com.apple.container.resource.role''"
definition appleResourceRoleBuiltin :: string where "appleResourceRoleBuiltin = ''builtin''"

definition defaultNetworkAttachment :: "string \<Rightarrow> string \<Rightarrow> attachment_config" where
  "defaultNetworkAttachment networkName containerID =
     \<lparr>an_Network = networkName,
      an_Options = \<lparr>ao_Hostname = TrimSpace containerID, ao_MACAddress = JNull, ao_MTU = 1280\<rparr>\<rparr>"

definition pick_network :: "network_resource list \<Rightarrow> string option" where
  "pick_network networks =
     (let conf = map nr_Configuration networks
      in case find (\<lambda>n. map_read (nc_Labels n) appleResourceRoleLabel = appleResourceRoleBuiltin) conf of
           Some n \<Rightarrow> Some (nc_Name n)
         | None \<Rightarrow> map_option nc_Name (find (\<lambda>n. nc_Name n = ''default'') conf))"

definition xpc_DefaultNetworkAttachment :: "'w xpc_client \<Rightarrow> 'w xpc_ctx \<Rightarrow> string \<Rightarrow> ('w, attachment_config list) xpc_op" where
  "xpc_DefaultNetworkAttachment c ctx containerID =
     bindE (newXPCMessage (xc_bridge c) ''networkList'') (\<lambda>msg.
     with_reply (sendAPI c ctx msg xpcTimeoutList) (\<lambda>reply.
       case reply_value ''networkResources'' (aj_ReadNetworks (xc_json c)) reply of
         Inl err \<Rightarrow> Inl err
       | Inr networks \<Rightarrow>
           (case pick_network networks of
              Some name \<Rightarrow> Inr [defaultNetworkAttachment name containerID]
            | None \<Rightarrow> Inl (ErrorString ''apple container builtin network is not available''))))"

section \<open>The interface of the runtime (\<open>appleContainerClient\<close>)\<close>

record 'e apple_client =
  ak_Ping :: "'e deadline_ctx \<Rightarrow> ('e, unit) host_op"
  ak_ResolveImage :: "'e deadline_ctx \<Rightarrow> string \<Rightarrow> ('e, image_description) host_op"
  ak_ContainerCreate :: "'e deadline_ctx \<Rightarrow> container_configuration \<Rightarrow> ('e, unit) host_op"
  ak_ContainerBootstrap :: "'e deadline_ctx \<Rightarrow> string \<Rightarrow> ('e, unit) host_op"
  ak_ContainerStartProcess :: "'e deadline_ctx \<Rightarrow> string \<Rightarrow> string \<Rightarrow> ('e, unit) host_op"
  ak_ContainerCopyIn :: "'e deadline_ctx \<Rightarrow> string \<Rightarrow> string \<Rightarrow> string \<Rightarrow> 32 word \<Rightarrow> ('e, unit) host_op"
  ak_ContainerCreateProcess :: "'e deadline_ctx \<Rightarrow> string \<Rightarrow> string \<Rightarrow> process_configuration \<Rightarrow> ('e, unit) host_op"
  ak_ContainerStop :: "'e deadline_ctx \<Rightarrow> string \<Rightarrow> ('e, unit) host_op"
  ak_ContainerDelete :: "'e deadline_ctx \<Rightarrow> string \<Rightarrow> bool \<Rightarrow> ('e, unit) host_op"
  ak_ContainerList :: "'e deadline_ctx \<Rightarrow> container_list_filters \<Rightarrow> ('e, container_snapshot list) host_op"
  ak_VolumeCreate :: "'e deadline_ctx \<Rightarrow> string \<Rightarrow> (string, string) gomap \<Rightarrow> ('e, unit) host_op"
  ak_VolumeInspect :: "'e deadline_ctx \<Rightarrow> string \<Rightarrow> ('e, volume_config) host_op"
  ak_VolumeList :: "'e deadline_ctx \<Rightarrow> ('e, volume_config list) host_op"
  ak_VolumeDelete :: "'e deadline_ctx \<Rightarrow> string \<Rightarrow> ('e, unit) host_op"
  ak_DefaultNetworkAttachment :: "'e deadline_ctx \<Rightarrow> string \<Rightarrow> ('e, attachment_config list) host_op"

definition xpc_as_client :: "'w xpc_client \<Rightarrow> 'w xpc_world apple_client" where
  "xpc_as_client c =
     \<lparr>ak_Ping = xpc_Ping c, ak_ResolveImage = xpc_ResolveImage c, ak_ContainerCreate = xpc_ContainerCreate c,
      ak_ContainerBootstrap = xpc_ContainerBootstrap c, ak_ContainerStartProcess = xpc_ContainerStartProcess c,
      ak_ContainerCopyIn = xpc_ContainerCopyIn c, ak_ContainerCreateProcess = xpc_ContainerCreateProcess c,
      ak_ContainerStop = xpc_ContainerStop c, ak_ContainerDelete = xpc_ContainerDelete c,
      ak_ContainerList = xpc_ContainerList c, ak_VolumeCreate = xpc_VolumeCreate c,
      ak_VolumeInspect = xpc_VolumeInspect c, ak_VolumeList = xpc_VolumeList c,
      ak_VolumeDelete = xpc_VolumeDelete c, ak_DefaultNetworkAttachment = xpc_DefaultNetworkAttachment c\<rparr>"

end
