(* ===== verification/AppleRuntime.thy ===== *)
theory AppleRuntime
  imports OrbRuntime AppleClient
begin

unbundle bit_operations_syntax

text \<open>
  The Apple container backend (\<open>applecontainer/runtime_darwin.go\<close>): a sandbox is a container made
  from a local image, in which the daemon \<open>envd\<close> is started as a process; it is paused by stopping the
  container and found again after a restart by its labels. One definition per function, and the
  backend as the gateway's runtime.
\<close>

section \<open>The runtime\<close>

text \<open>
  Listening on a free port, the random ids, the HTTP client, the error classes of another package
  and the file lock are parameters. \<open>ap_Flock\<close> gives how often the lock is found taken by another
  process before the first other answer, which is an error or, as \<open>None\<close>, the lock.
\<close>

record 'e apple_runtime =
  ap_cfg :: apple_config
  ap_client :: "'e apple_client"
  ap_checkHealthy :: "('e deadline_ctx \<Rightarrow> string \<Rightarrow> ('e, unit) host_op) option"
  ap_findFreePort :: "('e, int) host_op"
  ap_newID :: "('e, string) host_op"
  ap_NewString :: "('e, string) host_op"
  ap_http :: "'e health_client"
  ap_codecs :: codecs
  ap_TempDir :: string
  ap_Flock :: "('e, nat \<times> go_error option) host_op"
  ap_Unlock :: "('e, unit) host_op"
  ap_NotFound :: "go_error \<Rightarrow> go_error"
  ap_IsNotFound :: "go_error \<Rightarrow> bool"

definition appleEnvdPath :: string where "appleEnvdPath = ''/usr/local/bin/envd''"
definition appleEnvdProcessID :: string where "appleEnvdProcessID = ''envd''"
definition appleEnvdHost :: string where "appleEnvdHost = ''127.0.0.1''"
definition appleInitSleepTime :: string where "appleInitSleepTime = ''2147483647''"
definition defaultAppleContainerRuntimeHandler :: string where
  "defaultAppleContainerRuntimeHandler = ''container-runtime-linux''"
definition defaultAppleContainerVolumeNamePrefix :: string where "defaultAppleContainerVolumeNamePrefix = ''e2b-vol-''"
definition maxAppleEnvdPortAttempts :: nat where "maxAppleEnvdPortAttempts = 3"
definition appleTransientNotFoundRetryAttempts :: nat where "appleTransientNotFoundRetryAttempts = 20"
definition appleTransientNotFoundInitialDelay :: nat where "appleTransientNotFoundInitialDelay = 50000000"
definition appleTransientNotFoundMaxDelay :: nat where "appleTransientNotFoundMaxDelay = 500000000"
definition appleContainerOperationLockPoll :: nat where "appleContainerOperationLockPoll = 100000000"
definition appleContainerInspectRetryAttempts :: nat where "appleContainerInspectRetryAttempts = 10"
definition appleContainerInspectRetryDelay :: nat where "appleContainerInspectRetryDelay = 100000000"

definition appleLocalManagedLabel :: string where "appleLocalManagedLabel = ''e2b.local.managed''"
definition appleLocalImageLabel :: string where "appleLocalImageLabel = ''e2b.local.image''"
definition appleLocalSandboxIDLabel :: string where "appleLocalSandboxIDLabel = ''e2b.local.sandbox_id''"
definition appleLocalSandboxTemplateIDLabel :: string where "appleLocalSandboxTemplateIDLabel = ''e2b.local.template_id''"
definition appleLocalSandboxCreatedAtLabel :: string where "appleLocalSandboxCreatedAtLabel = ''e2b.local.created_at''"
definition appleLocalSandboxEndAtLabel :: string where "appleLocalSandboxEndAtLabel = ''e2b.local.end_at''"
definition appleLocalSandboxMetadataLabel :: string where "appleLocalSandboxMetadataLabel = ''e2b.local.metadata''"
definition appleLocalSandboxAllowInternetLabel :: string where
  "appleLocalSandboxAllowInternetLabel = ''e2b.local.allow_internet_access''"
definition appleLocalSandboxOnTimeoutLabel :: string where "appleLocalSandboxOnTimeoutLabel = ''e2b.local.on_timeout''"
definition appleLocalSandboxAutoPauseLabel :: string where "appleLocalSandboxAutoPauseLabel = ''e2b.local.auto_pause''"
definition appleLocalSandboxVolumeMountsLabel :: string where "appleLocalSandboxVolumeMountsLabel = ''e2b.local.volume_mounts''"
definition appleLocalSandboxEnvVarsLabel :: string where "appleLocalSandboxEnvVarsLabel = ''e2b.local.env_vars''"
definition appleLocalVolumeIDLabel :: string where "appleLocalVolumeIDLabel = ''e2b.local.volume_id''"
definition appleLocalVolumeNameLabel :: string where "appleLocalVolumeNameLabel = ''e2b.local.name''"

lemmas apple_labels = appleLocalManagedLabel_def appleLocalImageLabel_def appleLocalSandboxIDLabel_def
  appleLocalSandboxTemplateIDLabel_def appleLocalSandboxCreatedAtLabel_def appleLocalSandboxEndAtLabel_def
  appleLocalSandboxMetadataLabel_def appleLocalSandboxAllowInternetLabel_def appleLocalSandboxOnTimeoutLabel_def
  appleLocalSandboxAutoPauseLabel_def appleLocalSandboxVolumeMountsLabel_def appleLocalSandboxEnvVarsLabel_def
  appleLocalVolumeIDLabel_def appleLocalVolumeNameLabel_def

section \<open>Small functions\<close>

definition apple_firstNonEmpty :: "string list \<Rightarrow> string" where
  "apple_firstNonEmpty values = (case find (\<lambda>v. TrimSpace v \<noteq> []) values of None \<Rightarrow> [] | Some v \<Rightarrow> TrimSpace v)"

definition appleSandboxContainerID :: "apple_config \<Rightarrow> string \<Rightarrow> string" where
  "appleSandboxContainerID cfg sandboxID = TrimSpace (ac_ContainerNamePrefix cfg) @ TrimSpace sandboxID"

definition appleContainerIDFromRuntimeInfo :: "runtime_info \<Rightarrow> string" where
  "appleContainerIDFromRuntimeInfo info =
     (if TrimSpace (ri_ContainerID info) \<noteq> [] then TrimSpace (ri_ContainerID info)
      else if TrimSpace (ri_ContainerName info) \<noteq> [] then TrimSpace (ri_ContainerName info)
      else TrimSpace (ri_MachineID info))"

definition dnsConfiguration :: "bool option \<Rightarrow> dns_configuration option" where
  "dnsConfiguration allowInternet =
     (if allowInternet = Some False then None
      else Some \<lparr>dn_Nameservers = [''1.1.1.1''], dn_Domain = [], dn_SearchDomains = [], dn_Options = []\<rparr>)"

definition isPortAllocationError :: "go_error \<Rightarrow> bool" where
  "isPortAllocationError err \<longleftrightarrow>
     (let message = lower_utf8 (error_text err)
      in \<exists>signal \<in> set [''address already in use'', ''bind: address'', ''host port'', ''port already allocated'',
            ''port is already allocated'', ''port is already in use'', ''port is unavailable'']. str_contains message signal)"

definition envdArguments :: "int \<Rightarrow> string \<Rightarrow> string list" where
  "envdArguments port startCmd =
     [''-isnotfc'', ''-port'', Itoa port] @ (if TrimSpace startCmd \<noteq> [] then [''-cmd'', TrimSpace startCmd] else [])"

text \<open>
  The values are taken in the order of the list; two keys that differ in white space around them
  only are taken in any order in Go.
\<close>

definition process_env_map :: "(string, string) gomap \<Rightarrow> (string, string) gomap" where
  "process_env_map values =
     fold (\<lambda>(key, v) env. if TrimSpace key = [] then env else AList.update (TrimSpace key) v env) values
       [(''HOME'', ''/root''), (''PATH'', ''/usr/local/sbin:/usr/local/bin:/usr/sbin:/usr/bin:/sbin:/bin'')]"

definition processEnvironment :: "(string, string) gomap \<Rightarrow> string list" where
  "processEnvironment values =
     (let env = process_env_map values in map (\<lambda>key. key @ ''='' @ map_read env key) (sort (map fst env)))"

definition appleVolumeName :: "string \<Rightarrow> string" where
  "appleVolumeName volumeID =
     (let volumeID = TrimSpace volumeID
      in if volumeID = [] then [] else if HasPrefix volumeID defaultAppleContainerVolumeNamePrefix then volumeID
         else defaultAppleContainerVolumeNamePrefix @ volumeID)"

definition runtimeVolumeFromAppleVolume :: "volume_config \<Rightarrow> runtime_volume" where
  "runtimeVolumeFromAppleVolume volume =
     (let volumeID = TrimSpace (map_read (vg_Labels volume) appleLocalVolumeIDLabel);
          volumeID = (if volumeID = [] then TrimPrefix (TrimSpace (vg_Name volume)) defaultAppleContainerVolumeNamePrefix else volumeID);
          name = TrimSpace (map_read (vg_Labels volume) appleLocalVolumeNameLabel)
      in \<lparr>rv_VolumeID = volumeID, rv_Name = (if name = [] then volumeID else name)\<rparr>)"

definition apple_volumeMatches :: "runtime_volume \<Rightarrow> string \<Rightarrow> bool" where
  "apple_volumeMatches volume v =
     (let v = TrimSpace v in v \<noteq> [] \<and> (v = TrimSpace (rv_VolumeID volume) \<or> v = TrimSpace (rv_Name volume)))"

text \<open>The backend's own \<open>normalizeVolumeMounts\<close>, which is the one of the Docker backend but for what it drops.\<close>

definition apple_normalizeVolumeMounts :: "volume_mount list \<Rightarrow> volume_mount list" where
  "apple_normalizeVolumeMounts volumeMounts =
     filter (\<lambda>m. \<not> (vm_VolumeID m = [] \<and> vm_MountPath m = [])) (map normalize_mount volumeMounts)"

definition envdHostPort :: "publish_port list \<Rightarrow> int \<Rightarrow> string" where
  "envdHostPort ports envdPort =
     (case find (\<lambda>p. uint (pp_ContainerPort p) = envdPort \<and> EqualFoldName (TrimSpace (pp_Proto p)) ''tcp'') ports of
        None \<Rightarrow> [] | Some p \<Rightarrow> Itoa (uint (pp_HostPort p)))"

definition appleEnvdURL :: "string \<Rightarrow> string" where
  "appleEnvdURL hostPort =
     (let hostPort = TrimSpace hostPort in if hostPort = [] then [] else ''http://'' @ JoinHostPort appleEnvdHost hostPort)"

definition e2bStateFromAppleStatus :: "string \<Rightarrow> string" where
  "e2bStateFromAppleStatus status =
     (let s = lower_utf8 (TrimSpace status) in if s = ''running'' then Running else if s = ''stopped'' then Paused else [])"

definition stringMapFromLabel :: "codecs \<Rightarrow> string \<Rightarrow> (string, string) gomap" where
  "stringMapFromLabel cd v =
     (let v = TrimSpace v in if v = [] then [] else case cd_read_map cd v of Inl e \<Rightarrow> [] | Inr m \<Rightarrow> m)"

definition appleVolumeMountsFromLabels :: "codecs \<Rightarrow> (string, string) gomap \<Rightarrow> volume_mount list" where
  "appleVolumeMountsFromLabels cd labels =
     (let v = TrimSpace (map_read labels appleLocalSandboxVolumeMountsLabel)
      in if v = [] then [] else case cd_read_mounts cd v of Inl e \<Rightarrow> [] | Inr ms \<Rightarrow> apple_normalizeVolumeMounts ms)"

definition timeFromLabel :: "codecs \<Rightarrow> string \<Rightarrow> time" where
  "timeFromLabel cd v =
     (let v = TrimSpace v in if v = [] then 0 else case cd_read_time cd v of Inl e \<Rightarrow> 0 | Inr t \<Rightarrow> t)"

definition boolPtrFromLabel :: "string \<Rightarrow> bool option" where
  "boolPtrFromLabel v = (let v = TrimSpace v in if v = [] then None else ParseBool v)"

definition appleSandboxTimeoutAction :: "(string, string) gomap \<Rightarrow> go_error + timeout_action" where
  "appleSandboxTimeoutAction labels =
     (let action = TrimSpace (map_read labels appleLocalSandboxOnTimeoutLabel)
      in Normalize (if action = SandboxTimeoutActionUnspecified
           then SandboxTimeoutActionFromAutoPause (boolPtrFromLabel (map_read labels appleLocalSandboxAutoPauseLabel))
           else action))"

definition appleSandboxLabels :: "codecs \<Rightarrow> create_request \<Rightarrow> string \<Rightarrow> string \<Rightarrow> volume_mount list \<Rightarrow>
    go_error + (string, string) gomap" where
  "appleSandboxLabels cd req templateID imageRef volumeMounts =
     (let labels = [(appleLocalManagedLabel, ''true''), (appleLocalImageLabel, imageRef),
                    (appleLocalSandboxIDLabel, TrimSpace (cr_SandboxID req)),
                    (appleLocalSandboxTemplateIDLabel, TrimSpace templateID)];
          labels = optional_label (\<not> IsZero (cr_CreatedAt req)) appleLocalSandboxCreatedAtLabel (cd_time cd (cr_CreatedAt req)) labels;
          labels = optional_label (\<not> IsZero (cr_EndAt req)) appleLocalSandboxEndAtLabel (cd_time cd (cr_EndAt req)) labels;
          labels = optional_label (cr_Metadata req \<noteq> []) appleLocalSandboxMetadataLabel (cd_map cd (cr_Metadata req)) labels;
          labels = (case cr_AllowInternetAccess req of None \<Rightarrow> labels
                    | Some b \<Rightarrow> AList.update appleLocalSandboxAllowInternetLabel (FormatBool b) labels)
      in case Normalize (cr_OnTimeout req) of
           Inl e \<Rightarrow> Inl e
         | Inr onTimeout \<Rightarrow>
             (let labels = AList.update appleLocalSandboxOnTimeoutLabel onTimeout labels;
                  labels = optional_label (volumeMounts \<noteq> []) appleLocalSandboxVolumeMountsLabel (cd_mounts cd volumeMounts) labels;
                  labels = optional_label (cr_EnvVars req \<noteq> []) appleLocalSandboxEnvVarsLabel (cd_map cd (cr_EnvVars req)) labels
              in Inr (drop_blank_labels labels)))"

definition runtimeInfoFromSnapshot :: "'e apple_runtime \<Rightarrow> container_snapshot \<Rightarrow> runtime_info \<Rightarrow> runtime_info" where
  "runtimeInfoFromSnapshot r snapshot info =
     (let conf = cn_Configuration snapshot; labels = cg_Labels conf;
          hostPort = (if ri_HostPort info = [] then envdHostPort (cg_PublishedPorts conf) (ac_EnvdPort (ap_cfg r)) else ri_HostPort info)
      in info\<lparr>ri_SandboxID := (if ri_SandboxID info = [] then TrimSpace (map_read labels appleLocalSandboxIDLabel) else ri_SandboxID info),
              ri_ContainerID := (if ri_ContainerID info = [] then cg_ID conf else ri_ContainerID info),
              ri_ContainerName := (if ri_ContainerName info = [] then cg_ID conf else ri_ContainerName info),
              ri_MachineID := (if ri_MachineID info = [] then cg_ID conf else ri_MachineID info),
              ri_HostPort := hostPort,
              ri_EnvdURL := (if ri_EnvdURL info = [] \<and> hostPort \<noteq> [] then appleEnvdURL hostPort else ri_EnvdURL info),
              ri_VolumeMounts := (if ri_VolumeMounts info = [] then appleVolumeMountsFromLabels (ap_codecs r) labels
                                  else ri_VolumeMounts info)\<rparr>)"

definition templateForSnapshot :: "'e apple_runtime \<Rightarrow> container_snapshot \<Rightarrow> apple_template_config" where
  "templateForSnapshot r snapshot =
     (let blank = \<lparr>at_Image = [], at_CPUs = 0, at_MemoryMB = 0, at_StartCmd = [], at_PrebakedEnvdPath = []\<rparr>;
          templateID = TrimSpace (map_read (cg_Labels (cn_Configuration snapshot)) appleLocalSandboxTemplateIDLabel)
      in if templateID = [] then blank
         else case map_of (ac_Templates (ap_cfg r)) templateID of None \<Rightarrow> blank | Some t \<Rightarrow> t)"

section \<open>Waiting\<close>

definition os_OpenOrCreate :: "string \<Rightarrow> int \<Rightarrow> ('e, unit) host_op" where
  "os_OpenOrCreate p mode = syscall (at_path (\<lambda>m. host_path m True p) (\<lambda>q h.
     case node_at (h_fs h) q of
       None \<Rightarrow> (Inr (), fs_put q (new_inode (File []) mode (h_now h)) h)
     | Some (File d) \<Rightarrow> (Inr (), h)
     | Some n \<Rightarrow> (Inl EISDIR, h))) unchanged"

text \<open>The lock between processes: it is asked for every 100 milliseconds.\<close>

fun lock_polls :: "'e ctx \<Rightarrow> nat \<Rightarrow> go_error option \<Rightarrow> ('e, unit) host_op" where
  "lock_polls ctx 0 answer = (case answer of None \<Rightarrow> ret () | Some err \<Rightarrow> fail err)"
| "lock_polls ctx (Suc n) answer =
     bindE (wait_for ctx appleContainerOperationLockPoll) (\<lambda>u. lock_polls ctx n answer)"

definition acquireAppleContainerOperationLock :: "'e apple_runtime \<Rightarrow> 'e deadline_ctx \<Rightarrow> ('e, unit) host_op" where
  "acquireAppleContainerOperationLock r ctx =
     bindE (os_OpenOrCreate (path_Join [ap_TempDir r, ''e2b-applecontainer-operation.lock'']) 384) (\<lambda>u.
     bindE (ap_Flock r) (\<lambda>(n, answer). lock_polls (cx_Err ctx) n answer))"

definition with_operation_lock :: "'e apple_runtime \<Rightarrow> 'e deadline_ctx \<Rightarrow> ('e, 'a) host_op \<Rightarrow> ('e, 'a) host_op" where
  "with_operation_lock r ctx m =
     bindE (mapErr (wrap ''acquire apple container operation lock: '') (acquireAppleContainerOperationLock r ctx))
       (\<lambda>u. finallyE m (ap_Unlock r))"

text \<open>\<open>n\<close> attempts are left after this one.\<close>

fun transient_retry :: "'e ctx \<Rightarrow> ('e, unit) host_op \<Rightarrow> nat \<Rightarrow> nat \<Rightarrow> ('e, unit) host_op" where
  "transient_retry ctx execute 0 delay = execute"
| "transient_retry ctx execute (Suc n) delay =
     caseE execute
       (\<lambda>err. if \<not> isAppleNotFound err then fail err
              else bindE (wait_for ctx delay) (\<lambda>u.
                transient_retry ctx execute n (min (2 * delay) appleTransientNotFoundMaxDelay)))
       ret"

definition withAppleTransientNotFoundRetry :: "'e deadline_ctx \<Rightarrow> ('e, unit) host_op \<Rightarrow> ('e, unit) host_op" where
  "withAppleTransientNotFoundRetry ctx execute =
     transient_retry (cx_Err ctx) execute (appleTransientNotFoundRetryAttempts - 1) appleTransientNotFoundInitialDelay"

text \<open>A request of the health check has no more time than the deadline leaves.\<close>

function apple_poll_health :: "'e ctx \<Rightarrow> 'e health_client \<Rightarrow> string \<Rightarrow> string \<Rightarrow> time \<Rightarrow> 'e host \<Rightarrow> (go_error + unit) \<times> 'e host" where
  "apple_poll_health ctx hc envdURL healthURL deadline h =
     (if time_Until deadline (h_now h) \<le> 0 then (Inl (ErrorString (''wait for envd health '' @ envdURL @ '' timed out'')), h)
      else case hc_RequestError hc healthURL of
        Some e \<Rightarrow> (Inl (wrap ''build envd health request: '' e), h)
      | None \<Rightarrow>
          (case timed (hc_Get hc healthURL) h of
             (res, h) \<Rightarrow>
               (if (case res of Inr status \<Rightarrow> status \<ge> 200 \<and> status < 300 | Inl e \<Rightarrow> False) then (Inr (), h)
                else case ctx h of
                  Some e \<Rightarrow> (Inl e, h)
                | None \<Rightarrow>
                    (if h_now h > deadline
                     then (Inl (case res of
                                  Inl err \<Rightarrow> wrap (''wait for envd health '' @ envdURL @ '': '') err
                                | Inr status \<Rightarrow> ErrorString (''wait for envd health '' @ envdURL @
                                    '': unexpected status '' @ Itoa status)), h)
                     else case wait_for ctx 500000000 h of
                            (Inl e, h) \<Rightarrow> (Inl e, h)
                          | (Inr u, h) \<Rightarrow> apple_poll_health ctx hc envdURL healthURL deadline h))))"
  by pat_completeness auto
termination
proof (relation "measure (\<lambda>(ctx, hc, u, v, deadline, h). nat (deadline + 500000001 - h_now h))", goal_cases)
  case (2 ctx hc u v deadline h res h1 w h2 x)
  from 2 have "h_now h \<le> h_now h1" by (auto dest: timed_clock [OF sym])
  moreover from 2 have "h_now h2 = h_now h1 + 500000000" by (auto simp: wait_for_def Let_def split: option.splits)
  moreover from 2 have "h_now h1 \<le> deadline" by simp
  ultimately show ?case by simp
qed simp

declare apple_poll_health.simps [simp del]

definition apple_defaultHealthCheck :: "'e apple_runtime \<Rightarrow> 'e deadline_ctx \<Rightarrow> string \<Rightarrow> ('e, unit) host_op" where
  "apple_defaultHealthCheck r ctx envdURL =
     bindE time_Now (\<lambda>now.
       apple_poll_health (cx_Err ctx) (ap_http r) envdURL (TrimRight CHR ''/'' (TrimSpace envdURL) @ ''/health'')
         (time_Add now (word_of_int (ac_HealthTimeoutSeconds (ap_cfg r)) * time_Second)))"

definition apple_healthCheck :: "'e apple_runtime \<Rightarrow> 'e deadline_ctx \<Rightarrow> string \<Rightarrow> ('e, unit) host_op" where
  "apple_healthCheck r ctx envdURL =
     (case ap_checkHealthy r of
        Some f \<Rightarrow> f ctx envdURL
      | None \<Rightarrow> apple_defaultHealthCheck r ctx envdURL)"

section \<open>Containers\<close>

definition cleanupContainer :: "'e apple_runtime \<Rightarrow> string \<Rightarrow> ('e, unit) host_op" where
  "cleanupContainer r containerID = ignoreE (ak_ContainerDelete (ap_client r) Background containerID True)"

text \<open>\<open>os.Stat\<close> of the binary, which has to be a file that can be executed.\<close>

definition validateAppleEnvdBinary :: "string \<Rightarrow> ('e, unit) host_op" where
  "validateAppleEnvdBinary path =
     bindE (mapErr (wrap ''applecontainer.envd_binary is not accessible: '') (os_Stat (TrimSpace path))) (\<lambda>stat.
     if i_node stat = Dir then fail (ErrorString (''applecontainer.envd_binary is a directory: '' @ path))
     else if i_mode stat AND 73 = 0 then fail (ErrorString (''applecontainer.envd_binary is not executable: '' @ path))
     else ret ())"

text \<open>\<open>net.Listen\<close> on a port of the system's choice is the parameter \<open>listen\<close>; the listener is closed again.\<close>

definition findFreePort :: "(string \<Rightarrow> ('e, int) host_op) \<Rightarrow> ('e, int) host_op" where
  "findFreePort listen = listen (JoinHostPort appleEnvdHost ''0'')"

definition nextEnvdHostPort :: "'e apple_runtime \<Rightarrow> ('e, int) host_op" where
  "nextEnvdHostPort r =
     bindE (ap_findFreePort r) (\<lambda>hostPort.
     if hostPort \<le> 0 \<or> hostPort > 65535 then fail (ErrorString (''invalid envd host port '' @ Itoa hostPort)) else ret hostPort)"

definition networkAttachments :: "'e apple_runtime \<Rightarrow> 'e deadline_ctx \<Rightarrow> string \<Rightarrow> bool option \<Rightarrow> ('e, attachment_config list) host_op" where
  "networkAttachments r ctx containerID allowInternet =
     (if allowInternet = Some False then ret []
      else mapErr (wrap ''resolve apple container default network: '')
             (ak_DefaultNetworkAttachment (ap_client r) ctx containerID))"

definition root_process :: "string \<Rightarrow> string list \<Rightarrow> string list \<Rightarrow> process_configuration" where
  "root_process executable arguments environment =
     \<lparr>pc_Executable = executable, pc_Arguments = arguments, pc_Environment = environment, pc_WorkingDirectory = ''/'',
      pc_Terminal = False, pc_User = ProcessUserRoot, pc_SupplementalGroups = [], pc_Rlimits = []\<rparr>"

definition startEnvd :: "'e apple_runtime \<Rightarrow> 'e deadline_ctx \<Rightarrow> string \<Rightarrow> (string, string) gomap \<Rightarrow> apple_template_config \<Rightarrow>
    ('e, unit) host_op" where
  "startEnvd r ctx containerID env t =
     (let client = ap_client r; retry = withAppleTransientNotFoundRetry ctx;
          prebaked = TrimSpace (at_PrebakedEnvdPath t);
          executable = (if prebaked = [] then appleEnvdPath else prebaked);
          config = root_process executable (envdArguments (ac_EnvdPort (ap_cfg r)) (at_StartCmd t)) (processEnvironment env)
      in bindE (mapErr (wrap ''start apple container init process: '')
                  (retry (ak_ContainerStartProcess client ctx containerID containerID))) (\<lambda>u.
         bindE (if prebaked \<noteq> [] then ret ()
                else mapErr (wrap ''copy envd binary: '')
                       (retry (ak_ContainerCopyIn client ctx containerID (ac_EnvdBinary (ap_cfg r)) appleEnvdPath 493))) (\<lambda>u.
         bindE (mapErr (wrap ''create envd process: '')
                  (retry (ak_ContainerCreateProcess client ctx containerID appleEnvdProcessID config))) (\<lambda>u.
         mapErr (wrap ''start envd process: '')
           (retry (ak_ContainerStartProcess client ctx containerID appleEnvdProcessID))))))"

section \<open>Volumes\<close>

definition no_filter :: container_list_filters where
  "no_filter = \<lparr>fl_IDs = [], fl_Status = [], fl_Labels = []\<rparr>"

definition apple_CreateVolume :: "'e apple_runtime \<Rightarrow> 'e deadline_ctx \<Rightarrow> string \<Rightarrow> ('e, runtime_volume) host_op" where
  "apple_CreateVolume r ctx name =
     (let name = TrimSpace name
      in if name = [] then fail (ErrorString ''volume name is required'')
         else bindE (ap_newID r) (\<lambda>newID.
           let volumeID = TrimSpace newID
           in bindE (if volumeID = [] then ap_NewString r else ret volumeID) (\<lambda>volumeID.
              bindE (mapErr (wrap (''create apple container volume '' @ name @ '': ''))
                (ak_VolumeCreate (ap_client r) ctx (appleVolumeName volumeID)
                  [(appleLocalManagedLabel, ''true''), (appleLocalVolumeIDLabel, volumeID), (appleLocalVolumeNameLabel, name)])) (\<lambda>u.
              ret \<lparr>rv_VolumeID = volumeID, rv_Name = name\<rparr>))))"

definition managed_volume :: "volume_config \<Rightarrow> bool" where
  "managed_volume volume \<longleftrightarrow> map_read (vg_Labels volume) appleLocalManagedLabel = ''true''"

text \<open>By name, and by id for equal names.\<close>

definition listed_volumes :: "volume_config list \<Rightarrow> runtime_volume list" where
  "listed_volumes volumes =
     sort_key rv_Name (sort_key rv_VolumeID
       (filter (\<lambda>v. rv_VolumeID v \<noteq> []) (map runtimeVolumeFromAppleVolume (filter managed_volume volumes))))"

definition apple_ListVolumes :: "'e apple_runtime \<Rightarrow> 'e deadline_ctx \<Rightarrow> ('e, runtime_volume list) host_op" where
  "apple_ListVolumes r ctx =
     bindE (mapErr (wrap ''list apple container volumes: '') (ak_VolumeList (ap_client r) ctx)) (\<lambda>volumes.
     ret (listed_volumes volumes))"

definition findRuntimeVolume :: "'e apple_runtime \<Rightarrow> 'e deadline_ctx \<Rightarrow> string \<Rightarrow> ('e, runtime_volume option) host_op" where
  "findRuntimeVolume r ctx v =
     (let v = TrimSpace v
      in if v = [] then ret None
         else bindE (apple_ListVolumes r ctx) (\<lambda>volumes. ret (find (\<lambda>volume. apple_volumeMatches volume v) volumes)))"

definition apple_GetVolume :: "'e apple_runtime \<Rightarrow> 'e deadline_ctx \<Rightarrow> string \<Rightarrow> ('e, runtime_volume) host_op" where
  "apple_GetVolume r ctx volumeID =
     bindE (findRuntimeVolume r ctx volumeID) (\<lambda>volume.
     case volume of
       None \<Rightarrow> fail (ap_NotFound r (ErrorString (''volume '' @ TrimSpace volumeID @ '' not found'')))
     | Some v \<Rightarrow> ret v)"

definition apple_DeleteVolume :: "'e apple_runtime \<Rightarrow> 'e deadline_ctx \<Rightarrow> string \<Rightarrow> ('e, bool) host_op" where
  "apple_DeleteVolume r ctx volumeID =
     bindE (findRuntimeVolume r ctx volumeID) (\<lambda>volume.
     case volume of
       None \<Rightarrow> ret False
     | Some v \<Rightarrow>
         caseE (ak_VolumeDelete (ap_client r) ctx (appleVolumeName (rv_VolumeID v)))
           (\<lambda>err. if isAppleNotFound err then ret False
                  else fail (wrap (''delete apple container volume '' @ rv_VolumeID v @ '': '') err))
           (\<lambda>u. ret True))"

text \<open>The first of the candidates that names a volume of the service.\<close>

fun inspect_candidates :: "'e apple_runtime \<Rightarrow> 'e deadline_ctx \<Rightarrow> string list \<Rightarrow> ('e, volume_config option) host_op" where
  "inspect_candidates r ctx [] = ret None"
| "inspect_candidates r ctx (candidate # cs) =
     (if candidate = [] then inspect_candidates r ctx cs
      else caseE (ak_VolumeInspect (ap_client r) ctx (appleVolumeName candidate))
        (\<lambda>err. if ap_IsNotFound r err \<or> isAppleNotFound err then inspect_candidates r ctx cs
               else fail (wrap (''inspect apple container volume '' @ appleVolumeName candidate @ '': '') err))
        (\<lambda>volume. if vg_Name volume \<noteq> [] then ret (Some volume) else inspect_candidates r ctx cs))"

definition resolveVolumeForMount :: "'e apple_runtime \<Rightarrow> 'e deadline_ctx \<Rightarrow> volume_mount \<Rightarrow> ('e, volume_config) host_op" where
  "resolveVolumeForMount r ctx mount =
     (let candidates = [TrimSpace (vm_VolumeID mount), TrimSpace (vm_Name mount)]
      in bindE (inspect_candidates r ctx candidates) (\<lambda>inspected.
         case inspected of
           Some volume \<Rightarrow> ret volume
         | None \<Rightarrow>
             bindE (mapErr (wrap ''list apple container volumes: '') (ak_VolumeList (ap_client r) ctx)) (\<lambda>volumes.
             case find (\<lambda>volume. managed_volume volume \<and>
                    (\<exists>candidate \<in> set candidates. apple_volumeMatches (runtimeVolumeFromAppleVolume volume) candidate)) volumes of
               Some volume \<Rightarrow> ret volume
             | None \<Rightarrow> fail (Wrapf [] ErrVolumeNotFound ('': '' @ apple_firstNonEmpty [vm_VolumeID mount, vm_Name mount])))))"

definition apple_check_mount :: "nat \<Rightarrow> volume_mount \<Rightarrow> go_error option" where
  "apple_check_mount index mount =
     (if TrimSpace (vm_VolumeID mount) = [] \<and> TrimSpace (vm_Name mount) = []
      then Some (ErrorString (''volume mount '' @ nat_digits index @ '' requires volumeID or name''))
      else if TrimSpace (vm_MountPath mount) = []
      then Some (ErrorString (''volume mount '' @ nat_digits index @ '' requires mount path''))
      else if \<not> HasPrefix (TrimSpace (vm_MountPath mount)) ''/''
      then Some (ErrorString (''volume mount path must be absolute: '' @ vm_MountPath mount))
      else None)"

fun apple_resolve_mounts :: "'e apple_runtime \<Rightarrow> 'e deadline_ctx \<Rightarrow> nat \<Rightarrow> volume_mount list \<Rightarrow>
    ('e, (volume_mount \<times> apple_filesystem) list) host_op" where
  "apple_resolve_mounts r ctx index [] = ret []"
| "apple_resolve_mounts r ctx index (mount # ms) =
     (case apple_check_mount index mount of
        Some e \<Rightarrow> fail e
      | None \<Rightarrow>
          bindE (resolveVolumeForMount r ctx mount) (\<lambda>volume.
          let v = runtimeVolumeFromAppleVolume volume
          in bindE (apple_resolve_mounts r ctx (index + 1) ms) (\<lambda>rest.
             ret ((mount\<lparr>vm_VolumeID := rv_VolumeID v, vm_Name := rv_Name v\<rparr>,
                   VolumeFilesystem (vg_Name volume) (vg_Format volume) (vg_Source volume) (vm_MountPath mount) False) # rest))))"

definition apple_resolveVolumeMounts :: "'e apple_runtime \<Rightarrow> 'e deadline_ctx \<Rightarrow> volume_mount list \<Rightarrow>
    ('e, volume_mount list \<times> apple_filesystem list) host_op" where
  "apple_resolveVolumeMounts r ctx volumeMounts =
     bindE (apple_resolve_mounts r ctx 0 (apple_normalizeVolumeMounts volumeMounts)) (\<lambda>resolved.
     ret (map fst resolved, map snd resolved))"

section \<open>The operations of the runtime\<close>

definition sandbox_container :: "'e apple_runtime \<Rightarrow> create_request \<Rightarrow> apple_template_config \<Rightarrow> image_description \<Rightarrow>
    apple_filesystem list \<Rightarrow> attachment_config list \<Rightarrow> (string, string) gomap \<Rightarrow> string \<Rightarrow> int \<Rightarrow> container_configuration" where
  "sandbox_container r req t img filesystems networks labels containerID hostPort =
     (let cpus = (if at_CPUs t \<le> 0 then ac_DefaultCPUs (ap_cfg r) else at_CPUs t);
          memoryMB = (if at_MemoryMB t \<le> 0 then ac_DefaultMemoryMB (ap_cfg r) else at_MemoryMB t)
      in \<lparr>cg_ID = containerID, cg_Image = img, cg_Mounts = filesystems,
          cg_PublishedPorts = [\<lparr>pp_HostAddress = appleEnvdHost, pp_HostPort = word_of_int hostPort,
             pp_ContainerPort = word_of_int (ac_EnvdPort (ap_cfg r)), pp_Proto = ''tcp'', pp_Count = 1\<rparr>],
          cg_PublishedSockets = [], cg_Labels = labels, cg_Sysctls = [], cg_Networks = networks,
          cg_DNS = dnsConfiguration (cr_AllowInternetAccess req), cg_Rosetta = False,
          cg_InitProcess = root_process ''/bin/sleep'' [appleInitSleepTime] (processEnvironment []),
          cg_Platform = None,
          cg_Resources = \<lparr>ar_CPUs = cpus, ar_MemoryBytes = word_of_int memoryMB * 1024 * 1024, ar_Storage = 0, ar_CPUOverhead = 1\<rparr>,
          cg_RuntimeHandler = defaultAppleContainerRuntimeHandler, cg_Virtualization = False, cg_SSH = False,
          cg_ReadOnly = False, cg_UseInit = False, cg_CapAdd = [], cg_CapDrop = [], cg_ShmSize = None,
          cg_StopSignal = None, cg_CreationDate = None\<rparr>)"

definition created_info :: "create_request \<Rightarrow> string \<Rightarrow> int \<Rightarrow> volume_mount list \<Rightarrow> runtime_info" where
  "created_info req containerID hostPort volumeMounts =
     \<lparr>ri_SandboxID = cr_SandboxID req, ri_EnvdURL = appleEnvdURL (Itoa hostPort), ri_ContainerID = containerID,
      ri_ContainerName = containerID, ri_ContainerIP = [], ri_HostPort = Itoa hostPort, ri_MachineID = containerID,
      ri_VolumeMounts = volumeMounts, ri_PublishedPorts = []\<rparr>"

text \<open>
  One attempt with a new host port, and \<open>n\<close> more: after a conflict of ports, and when the container is
  not found while the daemon is started in it.
\<close>

fun create_attempts :: "'e apple_runtime \<Rightarrow> 'e deadline_ctx \<Rightarrow> create_request \<Rightarrow> apple_template_config \<Rightarrow> string \<Rightarrow>
    (int \<Rightarrow> container_configuration) \<Rightarrow> volume_mount list \<Rightarrow> nat \<Rightarrow> ('e, runtime_info) host_op" where
  "create_attempts r ctx req t containerID config volumeMounts 0 = fail (ErrorString [])"
| "create_attempts r ctx req t containerID config volumeMounts (Suc n) =
     bindE (mapErr (wrap ''find free envd host port: '') (nextEnvdHostPort r)) (\<lambda>hostPort.
     caseE (ak_ContainerCreate (ap_client r) ctx (config hostPort))
       (\<lambda>err. if isPortAllocationError err
              then (if n > 0 then bindE (cleanupContainer r containerID) (\<lambda>u. create_attempts r ctx req t containerID config volumeMounts n)
                    else fail (wrap (''create apple container '' @ containerID @ '' after '' @ nat_digits maxAppleEnvdPortAttempts @
                           '' host port attempts: '') err))
              else fail (wrap (''create apple container '' @ containerID @ '': '') err))
       (\<lambda>u. caseE (ak_ContainerBootstrap (ap_client r) ctx containerID)
          (\<lambda>err. bindE (cleanupContainer r containerID) (\<lambda>u. fail (wrap (''bootstrap apple container '' @ containerID @ '': '') err)))
          (\<lambda>u. caseE (startEnvd r ctx containerID (cr_EnvVars req) t)
             (\<lambda>err. bindE (cleanupContainer r containerID) (\<lambda>u.
                if isAppleNotFound err \<and> n > 0 then create_attempts r ctx req t containerID config volumeMounts n else fail err))
             (\<lambda>u. caseE (apple_healthCheck r ctx (appleEnvdURL (Itoa hostPort)))
                (\<lambda>err. bindE (cleanupContainer r containerID) (\<lambda>u. fail (wrap ''envd health check: '' err)))
                (\<lambda>u. ret (created_info req containerID hostPort volumeMounts))))))"

definition create_locked :: "'e apple_runtime \<Rightarrow> 'e deadline_ctx \<Rightarrow> create_request \<Rightarrow> ('e, runtime_info) host_op" where
  "create_locked r ctx req =
     (let templateID = TrimSpace (cr_TemplateID req)
      in if templateID = [] then fail (ErrorString ''templateID is required'')
         else case map_of (ac_Templates (ap_cfg r)) templateID of
           None \<Rightarrow> fail (ErrorString (''template '' @ quoted templateID @ '' not found''))
         | Some t \<Rightarrow>
             (let imageRef = TrimSpace (at_Image t); containerID = appleSandboxContainerID (ap_cfg r) (cr_SandboxID req)
              in bindE (mapErr (wrap (''resolve apple container image '' @ quoted imageRef @ '': ''))
                          (ak_ResolveImage (ap_client r) ctx imageRef)) (\<lambda>img.
                 bindE (if TrimSpace (at_PrebakedEnvdPath t) = [] then validateAppleEnvdBinary (ac_EnvdBinary (ap_cfg r)) else ret ()) (\<lambda>u.
                 bindE (apple_resolveVolumeMounts r ctx (cr_VolumeMounts req)) (\<lambda>(volumeMounts, filesystems).
                 bindE (networkAttachments r ctx containerID (cr_AllowInternetAccess req)) (\<lambda>networks.
                 bindE (liftE (appleSandboxLabels (ap_codecs r) req templateID imageRef volumeMounts)) (\<lambda>labels.
                 create_attempts r ctx req t containerID (sandbox_container r req t img filesystems networks labels containerID)
                   volumeMounts maxAppleEnvdPortAttempts)))))))"

definition apple_CreateSandbox :: "'e apple_runtime \<Rightarrow> 'e deadline_ctx \<Rightarrow> create_request \<Rightarrow> ('e, runtime_info) host_op" where
  "apple_CreateSandbox r ctx req =
     bindE (liftE (Normalize (cr_OnTimeout req))) (\<lambda>onTimeout.
     with_operation_lock r ctx (create_locked r ctx (req\<lparr>cr_OnTimeout := onTimeout\<rparr>)))"

definition listed_template :: "'e apple_runtime \<Rightarrow> time \<Rightarrow> string \<Rightarrow> runtime_template" where
  "listed_template r listedAt i =
     (let t = the (map_of (ac_Templates (ap_cfg r)) i); imageRef = TrimSpace (at_Image t)
      in \<lparr>tr_TemplateID = i, tr_Names = [i], tr_ImageRef = imageRef, tr_BuildCount = 1,
          tr_BuildID = (if imageRef = [] then i else imageRef), tr_BuildStatus = BuildStatusReady,
          tr_CPUCount = (if at_CPUs t \<le> 0 then ac_DefaultCPUs (ap_cfg r) else at_CPUs t), tr_DiskSizeMB = 0,
          tr_MemoryMB = (if at_MemoryMB t \<le> 0 then ac_DefaultMemoryMB (ap_cfg r) else at_MemoryMB t),
          tr_Public = False, tr_SpawnCount = 0, tr_CreatedAt = listedAt, tr_UpdatedAt = listedAt, tr_LastSpawnedAt = None\<rparr>)"

definition apple_ListTemplates :: "'e apple_runtime \<Rightarrow> ('e, runtime_template list) host_op" where
  "apple_ListTemplates r =
     bindE time_Now (\<lambda>listedAt. ret (map (listed_template r listedAt) (sort (map fst (ac_Templates (ap_cfg r))))))"

definition apple_DeleteSandbox :: "'e apple_runtime \<Rightarrow> 'e deadline_ctx \<Rightarrow> runtime_info \<Rightarrow> ('e, unit) host_op" where
  "apple_DeleteSandbox r ctx info =
     (let containerID = appleContainerIDFromRuntimeInfo info
      in if containerID = [] then ret ()
         else caseE (ak_ContainerDelete (ap_client r) ctx containerID True)
                (\<lambda>err. if isAppleNotFound err then ret () else fail err) ret)"

definition apple_PauseSandbox :: "'e apple_runtime \<Rightarrow> 'e deadline_ctx \<Rightarrow> runtime_info \<Rightarrow> ('e, unit) host_op" where
  "apple_PauseSandbox r ctx info =
     (let containerID = appleContainerIDFromRuntimeInfo info
      in if containerID = [] then ret ()
         else caseE (ak_ContainerStop (ap_client r) ctx containerID)
                (\<lambda>err. if isAppleAlreadyStopped err then ret () else fail err) ret)"

definition containerSnapshot :: "'e apple_runtime \<Rightarrow> 'e deadline_ctx \<Rightarrow> string \<Rightarrow> ('e, container_snapshot) host_op" where
  "containerSnapshot r ctx containerID =
     bindE (ak_ContainerList (ap_client r) ctx (no_filter\<lparr>fl_IDs := [containerID]\<rparr>)) (\<lambda>snapshots.
     case snapshots of
       [] \<Rightarrow> fail (ap_NotFound r (ErrorString (''apple container '' @ containerID @ '' not found'')))
     | snapshot # _ \<Rightarrow> ret snapshot)"

text \<open>A container that is running only has to be healthy; otherwise it is started again.\<close>

definition resume_running :: "'e apple_runtime \<Rightarrow> 'e deadline_ctx \<Rightarrow> container_snapshot \<Rightarrow> runtime_info \<Rightarrow> string \<Rightarrow>
    ('e, runtime_info) host_op" where
  "resume_running r ctx snapshot info hostPort =
     (let info = runtimeInfoFromSnapshot r snapshot info;
          info = (if ri_EnvdURL info = [] then info\<lparr>ri_EnvdURL := appleEnvdURL hostPort\<rparr> else info)
      in bindE (mapErr (wrap ''envd health check: '') (apple_healthCheck r ctx (ri_EnvdURL info))) (\<lambda>u. ret info))"

definition resumed_info :: "'e apple_runtime \<Rightarrow> container_snapshot \<Rightarrow> runtime_info \<Rightarrow> string \<Rightarrow> string \<Rightarrow> runtime_info" where
  "resumed_info r snapshot info containerID hostPort =
     (let labels = cg_Labels (cn_Configuration snapshot)
      in info\<lparr>ri_SandboxID := apple_firstNonEmpty [ri_SandboxID info, map_read labels appleLocalSandboxIDLabel],
              ri_EnvdURL := appleEnvdURL hostPort, ri_ContainerID := containerID, ri_ContainerName := containerID,
              ri_HostPort := hostPort, ri_MachineID := containerID,
              ri_VolumeMounts := (if ri_VolumeMounts info = [] then appleVolumeMountsFromLabels (ap_codecs r) labels
                                  else ri_VolumeMounts info)\<rparr>)"

definition resume_stopped :: "'e apple_runtime \<Rightarrow> 'e deadline_ctx \<Rightarrow> container_snapshot \<Rightarrow> runtime_info \<Rightarrow> string \<Rightarrow> string \<Rightarrow>
    ('e, runtime_info) host_op" where
  "resume_stopped r ctx snapshot info containerID hostPort =
     (let t = templateForSnapshot r snapshot;
          env = stringMapFromLabel (ap_codecs r) (map_read (cg_Labels (cn_Configuration snapshot)) appleLocalSandboxEnvVarsLabel)
      in with_operation_lock r ctx
           (bindE (mapErr (wrap (''bootstrap apple container '' @ containerID @ '': ''))
                     (ak_ContainerBootstrap (ap_client r) ctx containerID)) (\<lambda>u.
            bindE (startEnvd r ctx containerID env t) (\<lambda>u.
            bindE (mapErr (wrap ''envd health check: '') (apple_healthCheck r ctx (appleEnvdURL hostPort))) (\<lambda>u.
            ret (resumed_info r snapshot info containerID hostPort))))))"

definition apple_ResumeSandbox :: "'e apple_runtime \<Rightarrow> 'e deadline_ctx \<Rightarrow> runtime_info \<Rightarrow> ('e, runtime_info) host_op" where
  "apple_ResumeSandbox r ctx info =
     (let containerID = appleContainerIDFromRuntimeInfo info
      in if containerID = [] then ret info
         else bindE (containerSnapshot r ctx containerID) (\<lambda>snapshot.
           let hostPort = TrimSpace (ri_HostPort info);
               hostPort = (if hostPort = [] then envdHostPort (cg_PublishedPorts (cn_Configuration snapshot)) (ac_EnvdPort (ap_cfg r))
                           else hostPort)
           in if hostPort = []
              then fail (ErrorString (''missing persisted envd host port for apple container '' @ containerID))
              else if e2bStateFromAppleStatus (cn_Status snapshot) = Running
              then resume_running r ctx snapshot info hostPort
              else resume_stopped r ctx snapshot info containerID hostPort))"

text \<open>\<open>n\<close> attempts are left after this one.\<close>

fun inspect_attempts :: "'e apple_runtime \<Rightarrow> 'e deadline_ctx \<Rightarrow> string \<Rightarrow> nat \<Rightarrow> ('e, container_snapshot option) host_op" where
  "inspect_attempts r ctx containerID 0 =
     bindE (ak_ContainerList (ap_client r) ctx (no_filter\<lparr>fl_IDs := [containerID]\<rparr>)) (\<lambda>snapshots.
     case snapshots of snapshot # _ \<Rightarrow> ret (Some snapshot) | [] \<Rightarrow> ret None)"
| "inspect_attempts r ctx containerID (Suc n) =
     bindE (ak_ContainerList (ap_client r) ctx (no_filter\<lparr>fl_IDs := [containerID]\<rparr>)) (\<lambda>snapshots.
     case snapshots of
       snapshot # _ \<Rightarrow> ret (Some snapshot)
     | [] \<Rightarrow> bindE (wait_for (cx_Err ctx) appleContainerInspectRetryDelay) (\<lambda>u. inspect_attempts r ctx containerID n))"

definition inspectContainerSnapshot :: "'e apple_runtime \<Rightarrow> 'e deadline_ctx \<Rightarrow> string \<Rightarrow> ('e, container_snapshot option) host_op" where
  "inspectContainerSnapshot r ctx containerID =
     inspect_attempts r ctx containerID (appleContainerInspectRetryAttempts - 1)"

definition apple_InspectSandbox :: "'e apple_runtime \<Rightarrow> 'e deadline_ctx \<Rightarrow> runtime_info \<Rightarrow> ('e, inspection) host_op" where
  "apple_InspectSandbox r ctx info =
     (let containerID = appleContainerIDFromRuntimeInfo info; gone = \<lparr>in_Info = info, in_State = [], in_Exists = False\<rparr>
      in if containerID = [] then ret gone
         else bindE (inspectContainerSnapshot r ctx containerID) (\<lambda>inspected.
           case inspected of
             None \<Rightarrow> ret gone
           | Some snapshot \<Rightarrow>
               ret \<lparr>in_Info = runtimeInfoFromSnapshot r snapshot info,
                    in_State = e2bStateFromAppleStatus (cn_Status snapshot), in_Exists = True\<rparr>))"

definition apple_restored_record :: "'e apple_runtime \<Rightarrow> time \<Rightarrow> container_snapshot \<Rightarrow> string \<Rightarrow> string \<Rightarrow> go_error + sandbox_record" where
  "apple_restored_record r now snapshot sandboxID state =
     (let labels = cg_Labels (cn_Configuration snapshot); cd = ap_codecs r;
          info = runtimeInfoFromSnapshot r snapshot
            \<lparr>ri_SandboxID = sandboxID, ri_EnvdURL = [], ri_ContainerID = [], ri_ContainerName = [], ri_ContainerIP = [],
             ri_HostPort = [], ri_MachineID = [], ri_VolumeMounts = [], ri_PublishedPorts = []\<rparr>;
          createdAt = timeFromLabel cd (map_read labels appleLocalSandboxCreatedAtLabel);
          createdAt = (if IsZero createdAt \<and> cg_CreationDate (cn_Configuration snapshot) \<noteq> None
                       then the (cg_CreationDate (cn_Configuration snapshot)) else createdAt);
          createdAt = (if IsZero createdAt then now else createdAt);
          endAt = timeFromLabel cd (map_read labels appleLocalSandboxEndAtLabel);
          endAt = (if IsZero endAt then defaultSandboxEndAt createdAt else endAt)
      in case appleSandboxTimeoutAction labels of
           Inl err \<Rightarrow> Inl (wrap (''restore apple container sandbox '' @ sandboxID @ '': '') err)
         | Inr onTimeout \<Rightarrow>
             Inr \<lparr>sr_ID = sandboxID, sr_TemplateID = TrimSpace (map_read labels appleLocalSandboxTemplateIDLabel), sr_Alias = [],
                  sr_ClientID = [], sr_EnvdVersion = [],
                  sr_Metadata = stringMapFromLabel cd (map_read labels appleLocalSandboxMetadataLabel),
                  sr_EnvdURL = ri_EnvdURL info, sr_RuntimeInfo = info, sr_CreatedAt = createdAt, sr_EndAt = endAt,
                  sr_State = state, sr_CPUCount = 0, sr_DiskSizeMB = 0, sr_MemoryMB = 0,
                  sr_InternetAccessPolicy =
                    InternetAccessPolicyFromBoolPtr (boolPtrFromLabel (map_read labels appleLocalSandboxAllowInternetLabel)),
                  sr_OnTimeout = onTimeout\<rparr>)"

fun apple_restore_records :: "'e apple_runtime \<Rightarrow> time \<Rightarrow> container_snapshot list \<Rightarrow> go_error + sandbox_record list" where
  "apple_restore_records r now [] = Inr []"
| "apple_restore_records r now (snapshot # ss) =
     (let sandboxID = TrimSpace (map_read (cg_Labels (cn_Configuration snapshot)) appleLocalSandboxIDLabel);
          state = e2bStateFromAppleStatus (cn_Status snapshot)
      in if sandboxID = [] \<or> state = [] then apple_restore_records r now ss
         else case apple_restored_record r now snapshot sandboxID state of
           Inl err \<Rightarrow> Inl err
         | Inr x \<Rightarrow> (case apple_restore_records r now ss of Inl err \<Rightarrow> Inl err | Inr xs \<Rightarrow> Inr (x # xs)))"

definition apple_RestoreSandboxes :: "'e apple_runtime \<Rightarrow> 'e deadline_ctx \<Rightarrow> ('e, sandbox_record list) host_op" where
  "apple_RestoreSandboxes r ctx =
     bindE (mapErr (wrap ''list apple container sandboxes: '')
       (ak_ContainerList (ap_client r) ctx (no_filter\<lparr>fl_Labels := [(appleLocalManagedLabel, ''true'')]\<rparr>))) (\<lambda>snapshots.
     bindE time_Now (\<lambda>now.
     bindE (liftE (apple_restore_records r now snapshots)) (\<lambda>records. ret (sort_key sr_CreatedAt records))))"

section \<open>The gateway's runtime\<close>

text \<open>The connection to the service has been made; the configuration is checked first.\<close>

definition NewAppleContainerRuntime :: "apple_config \<Rightarrow> 'w xpc_client \<Rightarrow> (string \<Rightarrow> ('w xpc_world, int) host_op) \<Rightarrow>
    ('w xpc_world, string) host_op \<Rightarrow> 'w xpc_world health_client \<Rightarrow> codecs \<Rightarrow> string \<Rightarrow>
    ('w xpc_world, nat \<times> go_error option) host_op \<Rightarrow> ('w xpc_world, unit) host_op \<Rightarrow>
    (go_error \<Rightarrow> go_error) \<Rightarrow> (go_error \<Rightarrow> bool) \<Rightarrow> ('w xpc_world, 'w xpc_world apple_runtime) host_op" where
  "NewAppleContainerRuntime cfg client listen newID hc cd tempDir flock unlock notFound isNotFound =
     (case validate_apple cfg of
        Some e \<Rightarrow> fail e
      | None \<Rightarrow>
          bindE (mapErr (wrap ''connect to Apple Container XPC services; ensure Apple Container is installed and running: '')
            (NewXPCClient client)) (\<lambda>u.
          ret \<lparr>ap_cfg = cfg, ap_client = xpc_as_client client, ap_checkHealthy = None, ap_findFreePort = findFreePort listen,
               ap_newID = newID, ap_NewString = newID, ap_http = hc, ap_codecs = cd, ap_TempDir = tempDir, ap_Flock = flock,
               ap_Unlock = unlock, ap_NotFound = notFound, ap_IsNotFound = isNotFound\<rparr>))"

definition apple_as_runtime :: "('e host \<Rightarrow> (go_error + string) \<times> 'e host) \<Rightarrow> 'e deadline_ctx \<Rightarrow> 'e apple_runtime \<Rightarrow> 'e host runtime" where
  "apple_as_runtime rand12 ctx r =
     \<lparr>rt_now = (\<lambda>h. (h_now h, h)),
      rt_rand12 = rand12,
      rt_present = True,
      rt_CreateSandbox = apple_CreateSandbox r ctx,
      rt_DeleteSandbox = (\<lambda>info h. as_error (apple_DeleteSandbox r ctx info h)),
      rt_PauseSandbox = (\<lambda>info h. as_error (apple_PauseSandbox r ctx info h)),
      rt_ResumeSandbox = apple_ResumeSandbox r ctx,
      rt_InspectSandbox = Some (apple_InspectSandbox r ctx),
      rt_RestoreSandboxes = Some (apple_RestoreSandboxes r ctx)\<rparr>"

end
