(* ===== verification/XpcProofs.thy ===== *)
theory XpcProofs
  imports AppleClient DockerProofs
begin

text \<open>
  The XPC client gives back what it takes: messages, replies and files. And which images its rule
  for references takes to be the same.
\<close>

section \<open>What a call holds\<close>

text \<open>\<open>holds i j\<close>: \<open>i\<close> messages and replies and \<open>j\<close> files more are held after than before.\<close>

definition holds :: "int \<Rightarrow> int \<Rightarrow> 'w xpc_world host \<Rightarrow> 'w xpc_world host \<Rightarrow> bool" where
  "holds i j h h' \<longleftrightarrow> xw_held (h_engine h') = xw_held (h_engine h) + i \<and> xw_files (h_engine h') = xw_files (h_engine h) + j"

text \<open>A call with a balance for an error and one for a result.\<close>

definition balance :: "int \<Rightarrow> int \<Rightarrow> int \<Rightarrow> int \<Rightarrow> ('w, 'a) xpc_op \<Rightarrow> bool" where
  "balance i j k l m \<longleftrightarrow> (\<forall>h. case m h of (Inl e, h') \<Rightarrow> holds i j h h' | (Inr x, h') \<Rightarrow> holds k l h h')"

abbreviation balanced :: "('w, 'a) xpc_op \<Rightarrow> bool" where
  "balanced \<equiv> balance 0 0 0 0"

lemma balanceD: "balance i j k l m \<Longrightarrow> m h = (Inl e, h') \<Longrightarrow> holds i j h h'"
  "balance i j k l m \<Longrightarrow> m h = (Inr x, h') \<Longrightarrow> holds k l h h'"
  unfolding balance_def by (drule spec [of _ h], simp)+

lemma balanceI:
  assumes "\<And>h e h'. m h = (Inl e, h') \<Longrightarrow> holds i j h h'" and "\<And>h x h'. m h = (Inr x, h') \<Longrightarrow> holds k l h h'"
  shows "balance i j k l m"
  unfolding balance_def using assms by (auto split: prod.split sum.split)

lemma holds_trans: "holds i j h h' \<Longrightarrow> holds k l h' h'' \<Longrightarrow> holds (i + k) (j + l) h h''"
  by (simp add: holds_def)

lemma holds_same [simp]: "holds 0 0 h h"
  by (simp add: holds_def)

lemma balance_case:
  assumes m: "balance i j k l m" and g: "\<And>e. balance (a - i) (b - j) (c - i) (d - j) (g e)"
    and f: "\<And>x. balance (a - k) (b - l) (c - k) (d - l) (f x)"
  shows "balance a b c d (caseE m g f)"
proof (rule balanceI)
  fix h e h' assume "caseE m g f h = (Inl e, h')"
  then show "holds a b h h'"
    using m [THEN balanceD(1), of h] m [THEN balanceD(2), of h] g [THEN balanceD(1)] f [THEN balanceD(1)]
    by (fastforce simp: caseE_def split: prod.splits sum.splits dest: holds_trans)
next
  fix h x h' assume "caseE m g f h = (Inr x, h')"
  then show "holds c d h h'"
    using m [THEN balanceD(1), of h] m [THEN balanceD(2), of h] g [THEN balanceD(2)] f [THEN balanceD(2)]
    by (fastforce simp: caseE_def split: prod.splits sum.splits dest: holds_trans)
qed

lemma balance_fail: "balance 0 0 c d (fail e)" and balance_ret: "balance a b 0 0 (ret x)"
  by (simp_all add: balance_def)

lemma balance_lift: "balanced (liftE r)"
  by (cases r) (simp_all add: balance_def)

lemma balance_bind:
  assumes "balance a b k l m" and "\<And>x. balance (a - k) (b - l) (c - k) (d - l) (f x)"
  shows "balance a b c d (bindE m f)"
  unfolding bindE_def by (rule balance_case [OF assms(1) _ assms(2)]) (simp add: balance_fail)

lemma balance_mapErr: "balance a b c d m \<Longrightarrow> balance a b c d (mapErr w m)"
proof -
  assume m: "balance a b c d m"
  show "balance a b c d (mapErr w m)"
  proof (rule balanceI)
    fix h e h' assume "mapErr w m h = (Inl e, h')"
    then obtain e' where "m h = (Inl e', h')" by (auto simp: mapErr_def caseE_def split: prod.splits sum.splits)
    with m show "holds a b h h'" by (rule balanceD(1))
  next
    fix h x h' assume "mapErr w m h = (Inr x, h')"
    then have "m h = (Inr x, h')" by (simp add: mapErr_Inr)
    with m show "holds c d h h'" by (rule balanceD(2))
  qed
qed

lemma balance_finally:
  assumes m: "balance (a - i) (b - j) (c - i) (d - j) m" and r: "balance i j i j r"
  shows "balance a b c d (finallyE m r)"
proof -
  have r': "holds i j h (snd (r h))" for h
    using r [THEN balanceD(1), of h] r [THEN balanceD(2), of h] by (cases "r h"; cases "fst (r h)") auto
  show ?thesis
  proof (rule balanceI)
    fix h e h' assume f: "finallyE m r h = (Inl e, h')"
    then obtain t where "m h = (Inl e, t)" "h' = snd (r t)" by (auto simp: finallyE_def split: prod.splits)
    with holds_trans [OF balanceD(1) [OF m] r'] show "holds a b h h'" by fastforce
  next
    fix h x h' assume f: "finallyE m r h = (Inr x, h')"
    then obtain t where "m h = (Inr x, t)" "h' = snd (r t)" by (auto simp: finallyE_def split: prod.splits)
    with holds_trans [OF balanceD(2) [OF m] r'] show "holds c d h h'" by fastforce
  qed
qed

lemma balance_bridge: "balanced (bridge_call br f)"
  by (auto simp: balance_def bridge_call_def holds_def split: prod.split)

lemma balance_hold: "balance 0 0 1 0 hold" and balance_release: "balance (-1) 0 (-1) 0 release_msg"
  and balance_close: "balance 0 (- int n) 0 (- int n) (closeFiles n)"
  and balance_kernel: "balanced (on_client (\<lambda>w. if xw_closed w then w else w\<lparr>xw_kernelData := data\<rparr>))"
  by (simp_all add: balance_def holds_def hold_def release_msg_def closeFiles_def on_client_def)

lemma balance_new: "balance 0 0 1 0 (newXPCMessage br route)"
  unfolding newXPCMessage_def
  by (rule balance_bind [OF balance_bridge]) (auto intro!: balance_fail balance_bind [OF balance_hold] balance_ret)

lemma balance_checked: "balance 0 0 1 0 (checked_reply c ctx sent)"
  by (auto simp: balance_def checked_reply_def call_defs hold_def release_msg_def on_client_def holds_def
      split: sum.split option.split)

lemma balance_send: "balance (-1) 0 0 0 (xpc_send c ctx service msg timeout)"
proof -
  have sent: "balance 0 0 1 0 (bindE (bridge_call br f) (checked_reply c ctx))" for br f
    by (rule balance_bind [OF balance_bridge]) (simp add: balance_checked)
  then have "balance 0 0 1 0 (\<lambda>h. case cx_Err ctx h of Some e \<Rightarrow> (Inl e, h) | None \<Rightarrow>
      (let timeoutMS = timeoutMilliseconds (cx_Deadline ctx) timeout (h_now h)
       in if xw_closed (h_engine h) then (Inl (ErrorString ''apple container XPC client is closed''), h)
          else if \<not> connection_open service (h_engine h)
          then (Inl (ErrorString (''apple container XPC '' @ service_name service @ '' connection is closed'')), h)
          else bindE (bridge_call (xc_bridge c) (xb_Send (xc_bridge c) service msg timeoutMS)) (checked_reply c ctx) h))"
    unfolding balance_def by (simp add: Let_def split: option.split)
  then show ?thesis
    unfolding xpc_send_def by (intro balance_finally [OF _ balance_release]) simp
qed

text \<open>The ways a message is used up.\<close>

abbreviation uses_message :: "('w, 'a) xpc_op \<Rightarrow> bool" where
  "uses_message \<equiv> balance (-1) 0 (-1) 0"

lemma new_used: "(\<And>msg. uses_message (f msg)) \<Longrightarrow> balanced (bindE (newXPCMessage br route) f)"
  by (rule balance_bind [OF balance_new]) simp

lemma no_body_uses: "uses_message (sendNoBodyAPI c ctx msg timeout)"
  unfolding sendNoBodyAPI_def by (rule balance_bind [OF balance_send]) (simp add: balance_release)

lemma with_reply_uses:
  "uses_message (with_reply (sendAPI c ctx msg timeout) read)" "uses_message (with_reply (sendImage c ctx msg timeout) read)"
proof -
  have "uses_message (with_reply (xpc_send c ctx service msg timeout) read)" for service
    unfolding with_reply_def
    by (rule balance_bind [OF balance_send], rule balance_finally [OF _ balance_release]) (simp add: balance_lift)
  then show "uses_message (with_reply (sendAPI c ctx msg timeout) read)" "uses_message (with_reply (sendImage c ctx msg timeout) read)"
    by (simp_all add: sendAPI_def sendImage_def)
qed

text \<open>The files of a message with standard input, output and error.\<close>

lemma open_stdio_spec:
  "case open_stdio br keys n msg h of
     (Inl e, h') \<Rightarrow> holds 0 (- int n) h h'
   | (Inr (msg', k), h') \<Rightarrow> k = n + length keys \<and> holds 0 (int (length keys)) h h'"
proof (induction keys arbitrary: n msg h)
  case (Cons key keys)
  obtain e h1 where b: "bridge_call br (xb_DevNull br) h = (Inr e, h1)"
    unfolding bridge_call_def by (cases "xb_DevNull br (xw_World (h_engine h))") auto
  then have s: "holds 0 0 h h1" by (rule balanceD(2) [OF balance_bridge])
  define h2 where "h2 = h1\<lparr>h_engine := (h_engine h1)\<lparr>xw_files := xw_files (h_engine h1) + 1\<rparr>\<rparr>"
  show ?case
  proof (cases e)
    case None
    have "open_stdio br (key # keys) n msg h = open_stdio br keys (n + 1) (setFD key msg) h2"
      using b None by (simp add: call_defs on_client_def h2_def)
    with Cons.IH [where n = "n + 1" and msg = "setFD key msg" and h = h2] s show ?thesis
      by (auto simp: holds_def h2_def split: prod.splits sum.splits)
  next
    case (Some err)
    with b s show ?thesis by (simp add: call_defs closeFiles_def on_client_def holds_def)
  qed
qed (simp add: ret_def)

lemma stdio_uses: "uses_message (send_with_stdio c ctx msg)"
proof (rule balanceI)
  fix h e h' assume run: "send_with_stdio c ctx msg h = (Inl e, h')"
  note spec = open_stdio_spec [where br = "xc_bridge c" and keys = "[''stdin'', ''stdout'', ''stderr'']" and n = 0 and msg = msg and h = h]
  obtain res h1 where o: "open_stdio (xc_bridge c) [''stdin'', ''stdout'', ''stderr''] 0 msg h = (res, h1)" by fastforce
  show "holds (-1) 0 h h'"
  proof (cases res)
    case (Inl err)
    with o spec run show ?thesis
      by (simp add: send_with_stdio_def setDevNullStdio_def call_defs release_msg_def on_client_def) (auto simp: holds_def)
  next
    case (Inr p)
    obtain m k where p: "p = (m, k)" by (cases p)
    have "balance (-1) (- int k) (-1) (- int k) (finallyE (sendNoBodyAPI c ctx m xpcTimeoutDefault) (closeFiles k))"
      by (rule balance_finally [OF _ balance_close]) (simp add: no_body_uses)
    moreover have "finallyE (sendNoBodyAPI c ctx m xpcTimeoutDefault) (closeFiles k) h1 = (Inl e, h')"
      using run o Inr p by (simp add: send_with_stdio_def setDevNullStdio_def caseE_def)
    ultimately have "holds (-1) (- int k) h1 h'" by (rule balanceD(1))
    with o spec Inr p show ?thesis by (simp add: holds_def)
  qed
next
  fix h x h' assume run: "send_with_stdio c ctx msg h = (Inr x, h')"
  note spec = open_stdio_spec [where br = "xc_bridge c" and keys = "[''stdin'', ''stdout'', ''stderr'']" and n = 0 and msg = msg and h = h]
  obtain res h1 where o: "open_stdio (xc_bridge c) [''stdin'', ''stdout'', ''stderr''] 0 msg h = (res, h1)" by fastforce
  with run obtain m k where p: "res = Inr (m, k)"
    by (cases res) (auto simp: send_with_stdio_def setDevNullStdio_def call_defs release_msg_def on_client_def)
  have "balance (-1) (- int k) (-1) (- int k) (finallyE (sendNoBodyAPI c ctx m xpcTimeoutDefault) (closeFiles k))"
    by (rule balance_finally [OF _ balance_close]) (simp add: no_body_uses)
  moreover have "finallyE (sendNoBodyAPI c ctx m xpcTimeoutDefault) (closeFiles k) h1 = (Inr x, h')"
    using run o p by (simp add: send_with_stdio_def setDevNullStdio_def caseE_def)
  ultimately have "holds (-1) (- int k) h1 h'" by (rule balanceD(2))
  with o spec p show "holds (-1) 0 h h'" by (simp add: holds_def)
qed

lemma kernel_balanced: "balanced (defaultKernelData c ctx)"
proof -
  have "balanced (bindE (newXPCMessage (xc_bridge c) ''getDefaultKernel'') (\<lambda>msg.
      bindE (mapErr w (sendAPI c ctx (g msg) timeout)) (\<lambda>reply.
        finallyE (bindE (liftE (r reply)) (\<lambda>kernelData.
          bindE (on_client (\<lambda>w. if xw_closed w then w else w\<lparr>xw_kernelData := kernelData\<rparr>)) (\<lambda>u. ret kernelData))) release_msg)))"
    for w g timeout and r :: "xpc_reply \<Rightarrow> go_error + string"
    unfolding sendAPI_def
    by (intro new_used balance_bind [OF balance_mapErr [OF balance_send]] balance_finally [OF _ balance_release])
       (simp, intro balance_bind [OF balance_lift], simp, rule balance_bind [OF balance_kernel], simp add: balance_ret)
  then show ?thesis
    unfolding balance_def defaultKernelData_def Let_def by simp
qed

lemmas message_methods = xpc_Ping_def sendAPI_def xpc_ContainerCreate_def xpc_ContainerBootstrap_def
  xpc_ContainerStartProcess_def xpc_ContainerCopyIn_def xpc_ContainerCreateProcess_def xpc_ContainerStop_def
  xpc_ContainerDelete_def xpc_VolumeCreate_def xpc_VolumeDelete_def

lemma listings_balanced:
  "balanced (xpc_ContainerList c ctx filters)" "balanced (xpc_VolumeInspect c ctx name)" "balanced (xpc_VolumeList c ctx)"
  "balanced (xpc_DefaultNetworkAttachment c ctx containerID)"
  unfolding xpc_ContainerList_def xpc_VolumeInspect_def xpc_VolumeList_def xpc_DefaultNetworkAttachment_def Let_def
  by (intro new_used with_reply_uses)+

lemma image_balanced: "balanced (xpc_ResolveImage c ctx ref)"
proof (cases "TrimSpace ref = []")
  case True
  then show ?thesis by (simp add: xpc_ResolveImage_def balance_fail)
next
  case False
  then show ?thesis
    unfolding xpc_ResolveImage_def Let_def by (simp only: if_False) (intro new_used with_reply_uses)
qed

lemma commands_balanced:
  "balanced (xpc_Ping c ctx)" "balanced (xpc_ContainerBootstrap c ctx i)" "balanced (xpc_ContainerStartProcess c ctx i p)"
  "balanced (xpc_ContainerCopyIn c ctx i src dst mode)" "balanced (xpc_ContainerCreateProcess c ctx i p conf)"
  "balanced (xpc_ContainerStop c ctx i)" "balanced (xpc_ContainerDelete c ctx i force)"
  "balanced (xpc_VolumeCreate c ctx name labels)" "balanced (xpc_VolumeDelete c ctx name)"
  unfolding message_methods Let_def
  by (intro new_used no_body_uses stdio_uses balance_bind [OF balance_send]; simp add: balance_release)+

lemma create_balanced: "balanced (xpc_ContainerCreate c ctx conf)"
  unfolding xpc_ContainerCreate_def Let_def
  by (intro balance_bind [OF kernel_balanced]) (simp, intro new_used no_body_uses)

section \<open>References of images\<close>

text \<open>
  What a reference stands for: the names of Docker's registry and of its library are left out, and a
  missing tag is \<open>latest\<close>.
\<close>

definition default_prefixes :: "string list" where
  "default_prefixes = [''registry-1.docker.io/'', ''docker.io/'', ''library/'']"

function strip_defaults :: "string \<Rightarrow> string" where
  "strip_defaults ref =
     (case find (HasPrefix ref) default_prefixes of None \<Rightarrow> ref | Some pre \<Rightarrow> strip_defaults (drop (length pre) ref))"
  by pat_completeness auto
termination
proof (relation "measure length", goal_cases)
  case (2 ref pre)
  then have "pre \<in> set default_prefixes" "HasPrefix ref pre" by (auto simp: find_Some_iff)
  then have "pre \<noteq> []" "ref \<noteq> []" by (auto simp: default_prefixes_def HasPrefix_def)
  then show ?case by simp
qed simp

declare strip_defaults.simps [simp del]

definition reference_meant :: "string \<Rightarrow> string" where
  "reference_meant ref =
     (let ref = strip_defaults ref in if imageReferenceHasTagOrDigest ref then ref else ref @ '':latest'')"

lemma HasPrefix_split: "HasPrefix s p \<Longrightarrow> s = p @ drop (length p) s"
  by (metis HasPrefix_def append_take_drop_id)

lemma HasPrefix_own: "HasPrefix (p @ s) p"
  by (simp add: HasPrefix_def)

lemma strip_default: "p \<in> set default_prefixes \<Longrightarrow> strip_defaults (p @ s) = strip_defaults s"
  by (subst strip_defaults.simps) (auto simp: default_prefixes_def HasPrefix_def)

lemma after_last_Cons: "after_last c (x # s) = (if c \<in> set s then after_last c s else if x = c then s else x # s)"
  using last_index_char_None [of c s] by (auto simp: after_last_def split: option.split)

lemma after_last_in: "c \<in> set s \<Longrightarrow> after_last c (p @ s) = after_last c s"
  by (induction p) (simp_all add: after_last_Cons)

lemma after_last_at: "c \<notin> set s \<Longrightarrow> after_last c (p @ c # s) = s"
  by (induction p) (simp_all add: after_last_Cons)

lemma after_last_end: "c \<notin> set t \<Longrightarrow> after_last c (s @ t) = after_last c s @ t"
  by (induction s) (auto simp: after_last_Cons after_last_id)

lemma tag_default: "p \<in> set default_prefixes \<Longrightarrow> imageReferenceHasTagOrDigest (p @ s) = imageReferenceHasTagOrDigest s"
proof -
  assume p: "p \<in> set default_prefixes"
  then have "CHR ''@'' \<notin> set p" and "p = butlast p @ [CHR ''/'']" by (auto simp: default_prefixes_def)
  moreover from this(2) have "after_last CHR ''/'' (p @ s) = after_last CHR ''/'' s"
    using after_last_in [of "CHR ''/''" s p] after_last_at [of "CHR ''/''" s "butlast p"] after_last_id [of "CHR ''/''" s]
    by (cases "CHR ''/'' \<in> set s") (simp_all, metis append.assoc append_Cons append_Nil)
  ultimately show ?thesis by (simp add: imageReferenceHasTagOrDigest_def)
qed

lemma tag_latest: "imageReferenceHasTagOrDigest (r @ '':latest'')"
  by (simp add: imageReferenceHasTagOrDigest_def after_last_end)

lemma found_default: "find (HasPrefix ref) default_prefixes = Some pre \<Longrightarrow> pre \<in> set default_prefixes \<and> ref = pre @ drop (length pre) ref"
  by (auto simp: find_Some_iff dest: HasPrefix_split)

lemma tag_strip: "imageReferenceHasTagOrDigest (strip_defaults ref) = imageReferenceHasTagOrDigest ref"
proof (induction ref rule: strip_defaults.induct)
  case (1 ref)
  show ?case
  proof (cases "find (HasPrefix ref) default_prefixes")
    case None
    then show ?thesis by (subst strip_defaults.simps) simp
  next
    case (Some pre)
    from "1.IH" [OF Some] tag_default [of pre "drop (length pre) ref"] found_default [OF Some] Some show ?thesis
      by (subst strip_defaults.simps) simp
  qed
qed

lemma prefix_latest: "p \<in> set default_prefixes \<Longrightarrow> HasPrefix (r @ '':latest'') p = HasPrefix r p"
proof
  assume p: "p \<in> set default_prefixes" and h: "HasPrefix (r @ '':latest'') p"
  have "length p \<le> length r"
  proof (rule ccontr)
    assume "\<not> length p \<le> length r"
    then have "p = r @ take (length p - length r) '':latest''" "take (length p - length r) '':latest'' \<noteq> []"
      using h by (simp_all add: HasPrefix_def)
    then have "last p \<in> set (take (length p - length r) '':latest'')" by (metis last_appendR last_in_set)
    then have "last p \<in> set '':latest''" by (rule in_set_takeD)
    with p show False by (auto simp: default_prefixes_def)
  qed
  with h show "HasPrefix r p" by (simp add: HasPrefix_def)
qed (metis HasPrefix_split HasPrefix_own append.assoc)

lemma strip_latest: "strip_defaults (r @ '':latest'') = strip_defaults r @ '':latest''"
proof (induction r rule: strip_defaults.induct)
  case (1 r)
  have same: "find (HasPrefix (r @ '':latest'')) default_prefixes = find (HasPrefix r) default_prefixes"
    by (rule find_cong) (simp_all only: prefix_latest)
  show ?case
  proof (cases "find (HasPrefix r) default_prefixes")
    case None
    with same show ?thesis by (subst (1 2) strip_defaults.simps) simp
  next
    case (Some pre)
    have "length pre \<le> length r" using found_default [OF Some] by (metis length_append le_add1)
    with "1.IH" [OF Some] same Some show ?thesis by (subst (1 2) strip_defaults.simps) simp
  qed
qed

lemma meant_default: "p \<in> set default_prefixes \<Longrightarrow> reference_meant (p @ s) = reference_meant s"
  by (simp add: reference_meant_def strip_default)

lemma meant_latest: "\<not> imageReferenceHasTagOrDigest r \<Longrightarrow> reference_meant (r @ '':latest'') = reference_meant r"
  by (simp add: reference_meant_def strip_latest tag_latest tag_strip)

lemma short_reference:
  "shortImageReference r = [] \<or> (\<exists>p q. set [p, q] \<subseteq> insert [] (set default_prefixes) \<and> r = p @ q @ shortImageReference r)"
proof -
  define ps where "ps = [''registry-1.docker.io/library/'', ''docker.io/library/'', ''registry-1.docker.io/'', ''docker.io/'']"
  show ?thesis
  proof (cases "find (HasPrefix r) ps")
    case (Some pre)
    then have pre: "pre \<in> set ps" "HasPrefix r pre" by (auto simp: find_Some_iff)
    then have r: "r = pre @ shortImageReference r"
      using HasPrefix_split [OF pre(2)] Some by (simp add: shortImageReference_def ps_def [symmetric] TrimPrefix_def)
    have "\<exists>p q. set [p, q] \<subseteq> insert [] (set default_prefixes) \<and> pre = p @ q"
    proof -
      have "pre \<in> {''registry-1.docker.io/'' @ ''library/'', ''docker.io/'' @ ''library/'', ''registry-1.docker.io/'' @ [], ''docker.io/'' @ []}"
        using pre(1) by (simp add: ps_def)
      then show ?thesis by (auto simp only: insert_iff empty_iff default_prefixes_def set_simps)
    qed
    with r show ?thesis by (metis append.assoc)
  qed (simp add: shortImageReference_def ps_def [symmetric])
qed

lemma default_or_none: "p \<in> insert [] (set default_prefixes) \<Longrightarrow> reference_meant (p @ s) = reference_meant s"
  "p \<in> insert [] (set default_prefixes) \<Longrightarrow> imageReferenceHasTagOrDigest (p @ s) = imageReferenceHasTagOrDigest s"
  by (auto simp: meant_default tag_default)

lemma short_meant:
  "shortImageReference r \<noteq> [] \<Longrightarrow> reference_meant (shortImageReference r) = reference_meant r \<and>
     imageReferenceHasTagOrDigest (shortImageReference r) = imageReferenceHasTagOrDigest r"
  using short_reference [of r] default_or_none by (metis insert_subset list.simps(15))

text \<open>Every candidate stands for what the reference stands for.\<close>

lemma candidate_meant:
  assumes "x \<in> set (imageReferenceCandidates ref)" shows "reference_meant x = reference_meant (TrimSpace ref)"
proof -
  define r where "r = TrimSpace ref"
  have d: "reference_meant (''docker.io/'' @ s) = reference_meant s" "reference_meant (''registry-1.docker.io/'' @ s) = reference_meant s"
    "reference_meant (''library/'' @ s) = reference_meant s" "imageReferenceHasTagOrDigest (''library/'' @ s) = imageReferenceHasTagOrDigest s" for s
    using meant_default [of "''docker.io/''" s] meant_default [of "''registry-1.docker.io/''" s] meant_default [of "''library/''" s]
      tag_default [of "''library/''" s]
    by (simp_all add: default_prefixes_def)
  have l: "reference_meant (''docker.io/'' @ s @ '':latest'') = reference_meant s"
    "reference_meant (''registry-1.docker.io/'' @ s @ '':latest'') = reference_meant s"
    if "\<not> imageReferenceHasTagOrDigest s" for s
    using d(1,2) meant_latest [OF that] by metis+
  show ?thesis
    using assms short_meant [of r] meant_latest d l
    unfolding imageReferenceCandidates_def Let_def r_def [symmetric]
    by (auto simp del: append_Cons append_Nil split: if_splits)
qed

lemma matches_meant:
  "imageReferenceMatches want got \<Longrightarrow> TrimSpace want \<noteq> [] \<and> reference_meant (TrimSpace got) = reference_meant (TrimSpace want)"
proof -
  assume "imageReferenceMatches want got"
  then obtain x where x: "x \<in> set (imageReferenceCandidates want)" "x \<in> set (imageReferenceCandidates got)"
    by (auto simp: imageReferenceMatches_def)
  then have "TrimSpace want \<noteq> []" by (auto simp: imageReferenceCandidates_def Let_def)
  with candidate_meant [OF x(1)] candidate_meant [OF x(2)] show ?thesis by simp
qed

text \<open>The spellings of an image of Docker's library; the name may have a tag.\<close>

definition library_name :: "string \<Rightarrow> bool" where
  "library_name n \<longleftrightarrow> n \<noteq> [] \<and> image_char (hd n) \<and> image_char (last n) \<and> CHR ''/'' \<notin> set n"

definition library_spellings :: "string \<Rightarrow> string list" where
  "library_spellings n = [n, ''library/'' @ n, ''docker.io/library/'' @ n, ''registry-1.docker.io/library/'' @ n]"

lemma TrimSpace_ends: "s \<noteq> [] \<Longrightarrow> image_char (hd s) \<Longrightarrow> image_char (last s) \<Longrightarrow> TrimSpace s = s"
proof -
  assume s: "s \<noteq> []" and i: "image_char (hd s)" "image_char (last s)"
  then have "s = hd s # tl s" and "rev s = last s # tl (rev s)"
    by simp (metis s hd_rev list.collapse rev_is_Nil_conv)
  with i strip_word_image strip_word_image_rev show ?thesis by (intro TrimSpace_id) metis+
qed

lemma candidate_own: "TrimSpace ref \<noteq> [] \<Longrightarrow> TrimSpace ref \<in> set (imageReferenceCandidates ref)"
  by (simp add: imageReferenceCandidates_def Let_def)

lemma candidate_short:
  "TrimSpace ref \<noteq> [] \<Longrightarrow> shortImageReference (TrimSpace ref) \<noteq> [] \<Longrightarrow>
     shortImageReference (TrimSpace ref) \<in> set (imageReferenceCandidates ref)"
  by (simp add: imageReferenceCandidates_def Let_def)

lemma matches_symmetric: "imageReferenceMatches want got = imageReferenceMatches got want"
  by (auto simp: imageReferenceMatches_def)

lemma matches_by: "x \<in> set (imageReferenceCandidates want) \<Longrightarrow> x \<in> set (imageReferenceCandidates got) \<Longrightarrow> imageReferenceMatches want got"
  by (auto simp: imageReferenceMatches_def)

lemma library_matches:
  assumes n: "library_name n" and want: "want \<in> set (library_spellings n)"
  shows "imageReferenceMatches want (''docker.io/library/'' @ n)"
proof -
  have t: "TrimSpace (p @ n) = p @ n" if "p = [] \<or> image_char (hd p)" for p
    using n that by (intro TrimSpace_ends) (auto simp: library_name_def hd_append)
  have i: "image_char CHR ''l''" "image_char CHR ''d''" "image_char CHR ''r''" by code_simp+
  have trims: "TrimSpace n = n" "TrimSpace (''library/'' @ n) = ''library/'' @ n"
    "TrimSpace (''docker.io/library/'' @ n) = ''docker.io/library/'' @ n"
    "TrimSpace (''registry-1.docker.io/library/'' @ n) = ''registry-1.docker.io/library/'' @ n"
    using t [of "[]"] t [of "''library/''"] t [of "''docker.io/library/''"] t [of "''registry-1.docker.io/library/''"] i by simp_all
  have short: "shortImageReference (''docker.io/library/'' @ n) = n" "shortImageReference (''registry-1.docker.io/library/'' @ n) = n"
    by (simp_all add: shortImageReference_def HasPrefix_def TrimPrefix_def)
  have n0: "n \<noteq> []" using n by (simp add: library_name_def)
  have full: "n \<in> set (imageReferenceCandidates (''docker.io/library/'' @ n))"
    "''docker.io/library/'' @ n \<in> set (imageReferenceCandidates (''docker.io/library/'' @ n))"
    using candidate_short [of "''docker.io/library/'' @ n"] candidate_own [of "''docker.io/library/'' @ n"] short n0
    by (simp_all only: trims append_is_Nil_conv simp_thms)
  have reg: "n \<in> set (imageReferenceCandidates (''registry-1.docker.io/library/'' @ n))"
    using candidate_short [of "''registry-1.docker.io/library/'' @ n"] short n0
    by (simp_all only: trims append_is_Nil_conv simp_thms)
  have own: "n \<in> set (imageReferenceCandidates n)" using candidate_own [of n] trims n0 by simp
  have lib: "''docker.io/library/'' @ n \<in> set (imageReferenceCandidates (''library/'' @ n))"
  proof -
    have "hd (Split CHR ''/'' (''library/'' @ n)) = ''library''" by simp
    moreover have "''docker.io/library/'' @ n = ''docker.io/'' @ ''library/'' @ n" by simp
    ultimately show ?thesis unfolding imageReferenceCandidates_def Let_def trims by simp
  qed
  from want show ?thesis
    unfolding library_spellings_def
    using matches_by [OF own full(1)] matches_by [OF lib full(2)] matches_by [OF full(2) full(2)] matches_by [OF reg full(1)]
    by (auto simp only: set_simps insert_iff empty_iff)
qed

text \<open>An image that is resolved is one the service has listed.\<close>

lemma resolved_listed:
  assumes "xpc_ResolveImage c ctx ref h = (Inr img, h')"
  shows "\<exists>data images. aj_ReadImages (xc_json c) data = Inr images \<and>
    find (\<lambda>i. imageReferenceMatches (TrimSpace ref) (id_Reference i)) images = Some img"
  using assms
  by (auto simp: xpc_ResolveImage_def with_reply_def reply_value_def decoded_def call_defs Let_def split: if_splits sum.splits prod.splits option.splits)

end
