(* ===== verification/AppleProofs.thy ===== *)
theory AppleProofs
  imports AppleRuntime XpcProofs OrbSandboxProofs
begin

text \<open>
  What the Apple container backend does to the set of containers. The backend relies on the interface
  \<open>appleContainerClient\<close>, whose contract is the locale \<open>containers\<close>; the XPC client keeps the contract
  when the service behind the bridge does what its routes are named for (\<open>container_service\<close>).
\<close>

section \<open>Calls of the host\<close>

text \<open>Calls that change neither the set \<open>live\<close> of containers nor whether the client is ready (\<open>ok\<close>).\<close>

definition kept :: "('e \<Rightarrow> string set) \<Rightarrow> ('e \<Rightarrow> bool) \<Rightarrow> 'e host \<Rightarrow> 'e host \<Rightarrow> bool" where
  "kept live ok h h' \<longleftrightarrow> live (h_engine h') = live (h_engine h) \<and> ok (h_engine h') = ok (h_engine h)"

interpretation kin: change_kind "kept live ok" for live ok
  by unfold_locales (auto simp: kept_def)

lemma kin_engine: "within same_engine m \<Longrightarrow> within (kept live ok) m"
  by (simp add: within_def same_engine_def kept_def)

lemmas kin_calls = engine_calls [THEN kin_engine] engine_orb_calls [THEN kin_engine]

lemma wait_for_keeps: "within (kept live ok) (wait_for ctx d)"
  by (auto simp: within_def kept_def wait_for_def Let_def split: option.split)

lemma open_lock_keeps: "within (kept live ok) (os_OpenOrCreate p mode)"
proof (rule kin_engine)
  show "within same_engine (os_OpenOrCreate p mode)"
    by (auto simp: os_OpenOrCreate_def intro!: engine_syscall engine_at_path split: option.split fs_node.split)
qed

lemma timed_same: "within (kept live ok) f \<Longrightarrow> within (kept live ok) (timed f)"
  by (simp add: within_def kept_def timed_def split: prod.split) (metis snd_conv)

lemma lock_polls_keeps: "within (kept live ok) (lock_polls ctx n answer)"
proof (induction n)
  case 0
  show ?case by (cases answer) (simp_all only: lock_polls.simps option.case kin.ret_in kin.fail_in)
next
  case (Suc n)
  then show ?case unfolding lock_polls.simps by (intro kin.call_in wait_for_keeps)
qed

lemma retry_keeps: "within (kept live ok) m \<Longrightarrow> within (kept live ok) (withAppleTransientNotFoundRetry ctx m)"
proof -
  assume m: "within (kept live ok) m"
  have "within (kept live ok) (transient_retry e m n d)" for e n d
  proof (induction n arbitrary: d)
    case (Suc n)
    show ?case unfolding transient_retry.simps by (intro kin.call_in wait_for_keeps m Suc.IH)
  qed (simp add: m)
  then show ?thesis by (simp add: withAppleTransientNotFoundRetry_def)
qed

lemma apple_poll_keeps:
  "(\<And>u. within (kept live ok) (hc_Get hc u)) \<Longrightarrow> kept live ok h (snd (apple_poll_health ctx hc url hurl deadline h))"
proof (induction ctx hc url hurl deadline h rule: apple_poll_health.induct)
  case (1 ctx hc url hurl deadline h)
  obtain res h1 where p: "timed (hc_Get hc hurl) h = (res, h1)" by fastforce
  then have k: "kept live ok h h1" by (rule withinD [OF timed_same [OF "1.prems"]])
  obtain w h2 where w: "wait_for ctx 500000000 h1 = (w, h2)" by fastforce
  then have k2: "kept live ok h1 h2" by (rule withinD [OF wait_for_keeps])
  from k k2 have k3: "kept live ok h h2" by (rule kin.steps)
  note IH = "1.IH" [OF _ _ p [symmetric] _ _ _ w [symmetric] _ "1.prems"]
  show ?case
    by (subst apple_poll_health.simps)
      (use k k3 p w IH in \<open>auto simp: kin.same intro: kin.steps split: option.split sum.split\<close>)
qed

section \<open>The contract of the client\<close>

text \<open>
  \<open>live\<close> gives the ids of the containers. A creation that succeeds adds its id, a new one; a deletion
  that succeeds takes the id away; one that fails changes nothing, and a deletion fails with an error
  for a missing container only if there is none. Nothing else changes the set.
\<close>

definition create_law :: "('e \<Rightarrow> string set) \<Rightarrow> ('e \<Rightarrow> bool) \<Rightarrow> string \<Rightarrow> ('e, unit) host_op \<Rightarrow> bool" where
  "create_law live ok i m \<longleftrightarrow>
     (\<forall>h. ok (h_engine (snd (m h))) = ok (h_engine h) \<and> (case m h of
        (Inl e, h') \<Rightarrow> live (h_engine h') = live (h_engine h)
      | (Inr u, h') \<Rightarrow> i \<notin> live (h_engine h) \<and> live (h_engine h') = insert i (live (h_engine h))))"

definition remove_law :: "('e \<Rightarrow> string set) \<Rightarrow> ('e \<Rightarrow> bool) \<Rightarrow> string \<Rightarrow> ('e, unit) host_op \<Rightarrow> bool" where
  "remove_law live ok i m \<longleftrightarrow>
     (\<forall>h. ok (h_engine (snd (m h))) = ok (h_engine h) \<and> (case m h of
        (Inl e, h') \<Rightarrow> live (h_engine h') = live (h_engine h)
      | (Inr u, h') \<Rightarrow> live (h_engine h') = live (h_engine h) - {i}))"

text \<open>A call that adds the container or leaves the set as it was, and one that removes it when it fails.\<close>

definition adds_from :: "('e \<Rightarrow> string set) \<Rightarrow> ('e \<Rightarrow> bool) \<Rightarrow> string \<Rightarrow> ('e, 'a) host_op \<Rightarrow> bool" where
  "adds_from live ok i m \<longleftrightarrow>
     (\<forall>h. ok (h_engine h) \<longrightarrow> i \<notin> live (h_engine h) \<longrightarrow> live (h_engine (snd (m h))) =
        (case fst (m h) of Inl e \<Rightarrow> live (h_engine h) | Inr x \<Rightarrow> insert i (live (h_engine h))))"

definition settles :: "('e \<Rightarrow> string set) \<Rightarrow> ('e \<Rightarrow> bool) \<Rightarrow> string \<Rightarrow> ('e, 'a) host_op \<Rightarrow> bool" where
  "settles live ok i m \<longleftrightarrow>
     (\<forall>h. ok (h_engine h) \<longrightarrow> i \<in> live (h_engine h) \<longrightarrow> live (h_engine (snd (m h))) =
        (case fst (m h) of Inl e \<Rightarrow> live (h_engine h) - {i} | Inr x \<Rightarrow> live (h_engine h)))"

lemma adds_fail: "adds_from live ok i (fail e)" and settles_ret: "settles live ok i (ret x)"
  by (simp_all add: adds_from_def settles_def)

lemma adds_bind:
  fixes live :: "'e \<Rightarrow> string set" and ok :: "'e \<Rightarrow> bool" and m :: "('e, 'a) host_op" and f :: "'a \<Rightarrow> ('e, 'b) host_op"
  assumes "within (kept live ok) m" and "\<And>x. adds_from live ok i (f x)" shows "adds_from live ok i (bindE m f)"
  unfolding adds_from_def
proof (intro allI impI)
  fix h :: "'e host" assume ready: "ok (h_engine h)" and "i \<notin> live (h_engine h)"
  moreover obtain r t where m: "m h = (r, t)" by fastforce
  ultimately have "live (h_engine t) = live (h_engine h)" "i \<notin> live (h_engine t)" "ok (h_engine t)"
    using withinD [OF assms(1) m] by (simp_all add: kept_def)
  with assms(2) m show "live (h_engine (snd (bindE m f h))) =
      (case fst (bindE m f h) of Inl e \<Rightarrow> live (h_engine h) | Inr x \<Rightarrow> insert i (live (h_engine h)))"
    by (cases r) (simp_all add: bindE_err bindE_ok adds_from_def split: sum.split)
qed

lemma adds_if: "adds_from live ok i m \<Longrightarrow> adds_from live ok i k \<Longrightarrow> adds_from live ok i (if b then m else k)"
  by simp

lemma adds_option:
  "adds_from live ok i m \<Longrightarrow> (\<And>x. adds_from live ok i (k x)) \<Longrightarrow> adds_from live ok i (case z of None \<Rightarrow> m | Some x \<Rightarrow> k x)"
  by (cases z) simp_all

lemma adds_finally:
  "adds_from live ok i m \<Longrightarrow> within (kept live ok) c \<Longrightarrow> adds_from live ok i (finallyE m c)"
  by (simp add: adds_from_def finallyE_def within_def kept_def split: prod.split) (metis fst_conv snd_conv)

lemma settles_case:
  fixes live :: "'e \<Rightarrow> string set" and ok :: "'e \<Rightarrow> bool" and m :: "('e, 'a) host_op" and f :: "'a \<Rightarrow> ('e, 'b) host_op"
  assumes "within (kept live ok) m" and "\<And>e. settles live ok i (g e)" and "\<And>x. settles live ok i (f x)"
  shows "settles live ok i (caseE m g f)"
  unfolding settles_def
proof (intro allI impI)
  fix h :: "'e host" assume ready: "ok (h_engine h)" and "i \<in> live (h_engine h)"
  moreover obtain r t where m: "m h = (r, t)" by fastforce
  ultimately have "live (h_engine t) = live (h_engine h)" "i \<in> live (h_engine t)" "ok (h_engine t)"
    using withinD [OF assms(1) m] by (simp_all add: kept_def)
  with assms(2,3) m show "live (h_engine (snd (caseE m g f h))) =
      (case fst (caseE m g f h) of Inl e \<Rightarrow> live (h_engine h) - {i} | Inr x \<Rightarrow> live (h_engine h))"
    by (cases r) (simp_all add: caseE_err caseE_ok settles_def split: sum.split)
qed

lemma adds_create:
  fixes live :: "'e \<Rightarrow> string set" and ok :: "'e \<Rightarrow> bool" and m :: "('e, unit) host_op" and f :: "unit \<Rightarrow> ('e, 'b) host_op"
  assumes "create_law live ok i m" and "\<And>e. adds_from live ok i (g e)" and "\<And>x. settles live ok i (f x)"
  shows "adds_from live ok i (caseE m g f)"
  unfolding adds_from_def
proof (intro allI impI)
  fix h :: "'e host" assume ready: "ok (h_engine h)" and i: "i \<notin> live (h_engine h)"
  obtain r t where m: "m h = (r, t)" by fastforce
  with assms(1) [unfolded create_law_def, rule_format, of h] i ready assms(2,3)
  show "live (h_engine (snd (caseE m g f h))) =
      (case fst (caseE m g f h) of Inl e \<Rightarrow> live (h_engine h) | Inr x \<Rightarrow> insert i (live (h_engine h)))"
    by (cases r) (auto simp: caseE_err caseE_ok settles_def adds_from_def split: sum.split)
qed

locale containers =
  fixes client :: "'e apple_client" and live :: "'e \<Rightarrow> string set" and ok :: "'e \<Rightarrow> bool"
  assumes create: "create_law live ok (cg_ID conf) (ak_ContainerCreate client ctx conf)"
    and delete: "CHR 0x00 \<notin> set i \<Longrightarrow> remove_law live ok i (ak_ContainerDelete client ctx i force)"
    and missing: "CHR 0x00 \<notin> set i \<Longrightarrow> ak_ContainerDelete client Background i True h = (Inl e, h') \<Longrightarrow>
      isAppleNotFound e \<Longrightarrow> i \<notin> live (h_engine h)"
    and resolve: "within (kept live ok) (ak_ResolveImage client ctx ref)"
    and bootstrap: "within (kept live ok) (ak_ContainerBootstrap client ctx i)"
    and start_process: "within (kept live ok) (ak_ContainerStartProcess client ctx i p)"
    and copy_in: "within (kept live ok) (ak_ContainerCopyIn client ctx i src dst mode)"
    and create_process: "within (kept live ok) (ak_ContainerCreateProcess client ctx i p pconf)"
    and inspect_volume: "within (kept live ok) (ak_VolumeInspect client ctx name)"
    and list_volumes: "within (kept live ok) (ak_VolumeList client ctx)"
    and network: "within (kept live ok) (ak_DefaultNetworkAttachment client ctx i)"
begin

text \<open>A container that can be deleted, or is not there.\<close>

definition deletable :: "string \<Rightarrow> bool" where
  "deletable i \<longleftrightarrow> CHR 0x00 \<notin> set i \<and>
     (\<forall>h e. ok (h_engine h) \<longrightarrow> fst (ak_ContainerDelete client Background i True h) = Inl e \<longrightarrow> isAppleNotFound e)"

lemma cleanup_removes:
  assumes "ap_client r = client" and "deletable i" and "ok (h_engine h)"
  obtains t where "cleanupContainer r i h = (Inr (), t)" "live (h_engine t) = live (h_engine h) - {i}" "ok (h_engine t)"
proof -
  obtain x t where d: "ak_ContainerDelete client Background i True h = (x, t)" by fastforce
  have z: "CHR 0x00 \<notin> set i" using assms(2) by (simp add: deletable_def)
  have law: "remove_law live ok i (ak_ContainerDelete client Background i True)" by (rule delete [OF z])
  have absent: "x = Inl e \<Longrightarrow> i \<notin> live (h_engine h)" for e
    using missing [OF z, where h = h] d assms(2,3) by (auto simp: deletable_def dest!: spec [where x = h])
  note law = law [unfolded remove_law_def, rule_format, of h, unfolded d]
  show thesis
  proof (rule that)
    show "cleanupContainer r i h = (Inr (), t)" using d assms(1) by (simp add: cleanupContainer_def ignoreE_def)
    show "ok (h_engine t)" using law assms(3) by simp
    show "live (h_engine t) = live (h_engine h) - {i}" using law absent by (cases x) auto
  qed
qed

lemma settles_cleanup:
  assumes "ap_client r = client" and "deletable i" and "adds_from live ok i m"
  shows "settles live ok i (bindE (cleanupContainer r i) (\<lambda>u. m))"
  unfolding settles_def
proof (intro allI impI)
  fix h :: "'e host" assume ready: "ok (h_engine h)" and i: "i \<in> live (h_engine h)"
  obtain t where "cleanupContainer r i h = (Inr (), t)" "live (h_engine t) = live (h_engine h) - {i}" "ok (h_engine t)"
    using cleanup_removes [OF assms(1,2) ready] by blast
  with i assms(3) show "live (h_engine (snd (bindE (cleanupContainer r i) (\<lambda>u. m) h))) =
      (case fst (bindE (cleanupContainer r i) (\<lambda>u. m) h) of Inl e \<Rightarrow> live (h_engine h) - {i} | Inr x \<Rightarrow> live (h_engine h))"
    by (auto simp: bindE_ok adds_from_def split: sum.split)
qed

lemma adds_cleanup:
  assumes "ap_client r = client" and "deletable i" and "adds_from live ok i m"
  shows "adds_from live ok i (bindE (cleanupContainer r i) (\<lambda>u. m))"
  unfolding adds_from_def
proof (intro allI impI)
  fix h :: "'e host" assume ready: "ok (h_engine h)" and i: "i \<notin> live (h_engine h)"
  obtain t where "cleanupContainer r i h = (Inr (), t)" "live (h_engine t) = live (h_engine h) - {i}" "ok (h_engine t)"
    using cleanup_removes [OF assms(1,2) ready] by blast
  with i assms(3) show "live (h_engine (snd (bindE (cleanupContainer r i) (\<lambda>u. m) h))) =
      (case fst (bindE (cleanupContainer r i) (\<lambda>u. m) h) of Inl e \<Rightarrow> live (h_engine h) | Inr x \<Rightarrow> insert i (live (h_engine h)))"
    by (simp add: bindE_ok adds_from_def split: sum.split)
qed

lemma start_keeps: "ap_client r = client \<Longrightarrow> within (kept live ok) (startEnvd r ctx i env t)"
  unfolding startEnvd_def Let_def
  by (intro kin.call_in retry_keeps) (simp_all add: start_process copy_in create_process)

lemma health_keeps:
  assumes "ap_checkHealthy r = None" and "\<And>u. within (kept live ok) (hc_Get (ap_http r) u)"
  shows "within (kept live ok) (apple_healthCheck r ctx u)"
  unfolding apple_healthCheck_def assms(1) option.case apple_defaultHealthCheck_def
  by (intro kin.call_in kin_calls withinI apple_poll_keeps assms(2))

lemma mounts_keep:
  assumes "ap_client r = client" shows "within (kept live ok) (apple_resolveVolumeMounts r ctx ms)"
proof -
  have i: "within (kept live ok) (inspect_candidates r ctx cs)" for cs
  proof (induction cs)
    case (Cons c cs)
    then show ?case unfolding inspect_candidates.simps assms by (intro kin.call_in inspect_volume)
  qed (simp only: inspect_candidates.simps kin.ret_in)
  have v: "within (kept live ok) (resolveVolumeForMount r ctx m)" for m
    unfolding resolveVolumeForMount_def Let_def assms
    by (intro kin.bind_in i) (auto split: option.split intro!: kin.call_in list_volumes)
  have each: "within (kept live ok) (apple_resolve_mounts r ctx n ms)" for n ms
  proof (induction ms arbitrary: n)
    case (Cons m ms)
    then show ?case unfolding apple_resolve_mounts.simps Let_def
      by (auto split: option.split intro!: kin.call_in v)
  qed (simp only: apple_resolve_mounts.simps kin.ret_in)
  show ?thesis unfolding apple_resolveVolumeMounts_def by (intro kin.call_in each)
qed

lemma attempts_add:
  assumes "ap_client r = client" and "deletable i" and "\<And>p. cg_ID (config p) = i"
    and "within (kept live ok) (ap_findFreePort r)" and "\<And>u. within (kept live ok) (apple_healthCheck r ctx u)"
  shows "adds_from live ok i (create_attempts r ctx req t i config ms n)"
proof (induction n)
  case 0
  show ?case by (simp only: create_attempts.simps adds_fail)
next
  case (Suc n)
  have port: "within (kept live ok) (nextEnvdHostPort r)"
    unfolding nextEnvdHostPort_def by (intro kin.call_in assms(4))
  have new: "create_law live ok i (ak_ContainerCreate (ap_client r) ctx (config p))" for p
    using create [of "config p" ctx] by (simp add: assms(1,3))
  note clean = settles_cleanup [OF assms(1,2)] and clean' = adds_cleanup [OF assms(1,2)]
  show ?case
    unfolding create_attempts.simps
  proof (rule adds_bind [OF kin.mapErr_in [OF port]], rule adds_create [OF new])
    fix p e show "adds_from live ok i (if isPortAllocationError e
        then if 0 < n then bindE (cleanupContainer r i) (\<lambda>u. create_attempts r ctx req t i config ms n)
          else fail (wrap (''create apple container '' @ i @ '' after '' @ nat_digits maxAppleEnvdPortAttempts @ '' host port attempts: '') e)
        else fail (wrap (''create apple container '' @ i @ '': '') e))"
      using clean' [OF Suc.IH] by (simp add: adds_fail)
  next
    fix p u
    show "settles live ok i (caseE (ak_ContainerBootstrap (ap_client r) ctx i)
        (\<lambda>err. bindE (cleanupContainer r i) (\<lambda>u. fail (wrap (''bootstrap apple container '' @ i @ '': '') err)))
        (\<lambda>u. caseE (startEnvd r ctx i (cr_EnvVars req) t)
           (\<lambda>err. bindE (cleanupContainer r i) (\<lambda>u. if isAppleNotFound err \<and> 0 < n
              then create_attempts r ctx req t i config ms n else fail err))
           (\<lambda>u. caseE (apple_healthCheck r ctx (appleEnvdURL (Itoa p)))
              (\<lambda>err. bindE (cleanupContainer r i) (\<lambda>u. fail (wrap ''envd health check: '' err)))
              (\<lambda>u. ret (created_info req i p ms)))))"
      using Suc.IH
      by (intro settles_case start_keeps assms(1,5) clean settles_ret adds_fail) (simp_all add: assms(1) bootstrap adds_fail)
  qed
qed

lemma create_adds:
  assumes "ap_client r = client" and "deletable (appleSandboxContainerID (ap_cfg r) (cr_SandboxID req))"
    and "within (kept live ok) (ap_findFreePort r)" and "within (kept live ok) (ap_Flock r)"
    and "within (kept live ok) (ap_Unlock r)"
    and "ap_checkHealthy r = None" and "\<And>u. within (kept live ok) (hc_Get (ap_http r) u)"
  shows "adds_from live ok (appleSandboxContainerID (ap_cfg r) (cr_SandboxID req)) (apple_CreateSandbox r ctx req)"
proof -
  let ?i = "appleSandboxContainerID (ap_cfg r) (cr_SandboxID req)"
  have lock: "within (kept live ok) (acquireAppleContainerOperationLock r ctx)"
    unfolding acquireAppleContainerOperationLock_def case_prod_unfold by (intro kin.call_in open_lock_keeps assms(4) lock_polls_keeps)
  have binary: "within (kept live ok) (if b then validateAppleEnvdBinary p else ret ())" for b p
    unfolding validateAppleEnvdBinary_def by (intro kin.call_in kin_calls)
  have net: "within (kept live ok) (networkAttachments r ctx i a)" for i a
    unfolding networkAttachments_def assms(1) by (intro kin.call_in network)
  have body: "adds_from live ok ?i (create_locked r ctx (req\<lparr>cr_OnTimeout := a\<rparr>))" for a
  proof -
    have "adds_from live ok ?i (create_attempts r ctx q t ?i (sandbox_container r q t img fss nets ls ?i) ms n)" for q t img fss nets ls ms n
      by (rule attempts_add [OF assms(1,2) _ assms(3) health_keeps [OF assms(6,7)]]) (simp add: sandbox_container_def Let_def)
    then show ?thesis
      unfolding create_locked_def Let_def case_prod_unfold
      by (intro adds_if adds_option adds_fail adds_bind kin.mapErr_in binary mounts_keep [OF assms(1)] net kin.lift_in)
        (simp_all add: assms(1) resolve)
  qed
  show ?thesis
    unfolding apple_CreateSandbox_def with_operation_lock_def
    by (intro adds_bind [OF kin.lift_in] adds_bind [OF kin.mapErr_in [OF lock]] adds_finally body assms(5))
qed

end

end
