(* ===== verification/AppleService.thy ===== *)
theory AppleService
  imports AppleProofs
begin

text \<open>
  The XPC client keeps the contract of the runtime when the services behind the bridge do what their
  routes are named for: a small service that keeps a list of containers does.
\<close>

section \<open>What the services do\<close>

text \<open>A request that is answered without an error.\<close>

definition answered :: "'w xpc_client \<Rightarrow> string + xpc_reply option \<Rightarrow> bool" where
  "answered c sent \<longleftrightarrow> (\<exists>reply. sent = Inr (Some reply) \<and> checkReply (aj_ReadError (xc_json c)) reply = None)"

text \<open>A call is refused before anything is sent, or sent once; it succeeds if the request is answered.\<close>

lemma local_errors_not_found: "\<not> isAppleNotFound (ErrorString text)"
  by (simp add: isAppleNotFound_def appleErrorHasCode_def)

lemma send_outcome:
  obtains (unsent) e where "fst (xpc_send c ctx service msg t h) = Inl e" "ctx = Background \<Longrightarrow> \<not> isAppleNotFound e"
      "xw_World (h_engine (snd (xpc_send c ctx service msg t h))) = xw_World (h_engine h)"
  | (sent) ms sent where "xb_Send (xc_bridge c) service msg ms (xw_World (h_engine h)) =
        (sent, xw_World (h_engine (snd (xpc_send c ctx service msg t h))))"
      "answered c sent \<longleftrightarrow> (\<exists>reply. fst (xpc_send c ctx service msg t h) = Inr reply)"
      "\<And>e. ctx = Background \<Longrightarrow> fst (xpc_send c ctx service msg t h) = Inl e \<Longrightarrow> isAppleNotFound e \<Longrightarrow>
        \<exists>reply. sent = Inr (Some reply) \<and> checkReply (aj_ReadError (xc_json c)) reply = Some e"
proof (cases "cx_Err ctx h = None \<and> \<not> xw_closed (h_engine h) \<and> connection_open service (h_engine h)")
  case False
  then show thesis
    by (intro unsent [of "case cx_Err ctx h of Some e \<Rightarrow> e | None \<Rightarrow> if xw_closed (h_engine h)
          then ErrorString ''apple container XPC client is closed''
          else ErrorString (''apple container XPC '' @ service_name service @ '' connection is closed'')"])
      (auto simp: xpc_send_def finallyE_def Let_def release_msg_def on_client_def local_errors_not_found Background_def split: option.split)
next
  case True
  define ms where "ms = timeoutMilliseconds (cx_Deadline ctx) t (h_now h)"
  obtain sent' w where w: "xb_Send (xc_bridge c) service msg ms (xw_World (h_engine h)) = (sent', w)" by fastforce
  define h1 where "h1 = h\<lparr>h_engine := (h_engine h)\<lparr>xw_World := w\<rparr>, h_now := h_now h + int (xb_Elapsed (xc_bridge c) w)\<rparr>"
  obtain r h2 where r: "checked_reply c ctx sent' h1 = (r, h2)" by fastforce
  have run: "xpc_send c ctx service msg t h = (r, snd (release_msg h2))"
    using True w r by (simp add: xpc_send_def finallyE_def Let_def bindE_def caseE_def bridge_call_def ms_def h1_def)
  have world: "xw_World (h_engine h2) = w" and ok: "answered c sent' \<longleftrightarrow> (\<exists>reply. r = Inr reply)"
    and refused: "ctx = Background \<Longrightarrow> r = Inl e \<Longrightarrow> isAppleNotFound e \<Longrightarrow>
        \<exists>reply. sent' = Inr (Some reply) \<and> checkReply (aj_ReadError (xc_json c)) reply = Some e" for e
    using r unfolding checked_reply_def answered_def
    by (auto simp: call_defs hold_def release_msg_def on_client_def h1_def Background_def local_errors_not_found
        split: sum.splits option.splits)
  show thesis
    by (rule sent [of ms sent']) (use w ok refused world run in \<open>auto simp: release_msg_def on_client_def\<close>)
qed

text \<open>A client is ready when both connections are open; no call changes that.\<close>

definition client_ready :: "'w xpc_world \<Rightarrow> bool" where
  "client_ready e \<longleftrightarrow> xw_apiConn e \<and> xw_imageConn e \<and> \<not> xw_closed e"

definition same_ready :: "'w xpc_world host \<Rightarrow> 'w xpc_world host \<Rightarrow> bool" where
  "same_ready h h' \<longleftrightarrow> client_ready (h_engine h') = client_ready (h_engine h)"

interpretation rdy: change_kind same_ready
  by unfold_locales (simp_all add: same_ready_def)

lemma bridge_ready: "within same_ready (bridge_call br f)"
  by (simp add: within_def same_ready_def bridge_call_def client_ready_def split: prod.split)

lemma counters_ready: "within same_ready hold" "within same_ready release_msg"
  by (simp_all add: within_def same_ready_def hold_def release_msg_def on_client_def client_ready_def)

lemma checked_ready: "within same_ready (checked_reply c ctx sent)"
  by (auto simp: within_def same_ready_def checked_reply_def call_defs hold_def release_msg_def on_client_def client_ready_def
      split: sum.split option.split)

lemma send_ready: "client_ready (h_engine (snd (xpc_send c ctx service msg t h))) = client_ready (h_engine h)"
proof -
  have b: "within same_ready (bindE (bridge_call br f) (checked_reply c ctx))" for br f
    by (intro rdy.bind_in bridge_ready checked_ready)
  have "within same_ready (\<lambda>h. case cx_Err ctx h of Some e \<Rightarrow> (Inl e, h) | None \<Rightarrow>
      (let timeoutMS = timeoutMilliseconds (cx_Deadline ctx) t (h_now h)
       in if xw_closed (h_engine h) then (Inl (ErrorString ''apple container XPC client is closed''), h)
          else if \<not> connection_open service (h_engine h)
          then (Inl (ErrorString (''apple container XPC '' @ service_name service @ '' connection is closed'')), h)
          else bindE (bridge_call (xc_bridge c) (xb_Send (xc_bridge c) service msg timeoutMS)) (checked_reply c ctx) h))"
    using b by (simp add: within_def Let_def rdy.same split: option.split)
  then have "within same_ready (xpc_send c ctx service msg t)"
    unfolding xpc_send_def by (intro rdy.finally_in counters_ready)
  then show ?thesis by (simp add: within_def same_ready_def)
qed

lemma no_body_ready: "client_ready (h_engine (snd (sendNoBodyAPI c ctx msg t h))) = client_ready (h_engine h)"
  using send_ready [of c ctx xpcAPIService msg t h]
  by (cases "xpc_send c ctx xpcAPIService msg t h"; cases "fst (xpc_send c ctx xpcAPIService msg t h)")
    (simp_all add: sendNoBodyAPI_def bindE_def caseE_def fail_def release_msg_def on_client_def client_ready_def)

lemma new_result: "newXPCMessage br route h = (Inr msg, h') \<Longrightarrow> msg = \<lparr>xm_Route = route, xm_Values = []\<rparr>"
  by (auto simp: newXPCMessage_def call_defs hold_def on_client_def split: prod.splits sum.splits if_splits)

lemma new_refused: "newXPCMessage br route h = (Inl e, h') \<Longrightarrow> \<not> isAppleNotFound e"
  by (auto simp: newXPCMessage_def call_defs hold_def on_client_def bridge_call_def local_errors_not_found
      split: prod.splits sum.splits if_splits)

lemma set_route [simp]: "xm_Route (setString key s msg) = xm_Route msg" "xm_Route (setData key s msg) = xm_Route msg"
  "xm_Route (setBool key b msg) = xm_Route msg" "xm_Route (setUint64 key n msg) = xm_Route msg"
  "xm_Route (setFD key msg) = xm_Route msg"
  by (simp_all add: setString_def setData_def setBool_def setUint64_def setFD_def set_value_def)

lemma stdio_route: "setDevNullStdio br msg h = (Inr (msg', n), h') \<Longrightarrow> xm_Route msg' = xm_Route msg"
proof -
  have each: "open_stdio br keys k m h = (Inr (msg', n), h') \<Longrightarrow> xm_Route msg' = xm_Route m" for keys k m h
  proof (induction keys arbitrary: k m h)
    case (Cons key keys)
    then show ?case
      by (fastforce simp: call_defs bridge_call_def on_client_def closeFiles_def split: prod.splits sum.splits option.splits)
  qed (simp add: ret_def)
  show "setDevNullStdio br msg h = (Inr (msg', n), h') \<Longrightarrow> xm_Route msg' = xm_Route msg"
    unfolding setDevNullStdio_def by (rule each)
qed

lemma c_string_id: "CHR 0x00 \<notin> set s \<Longrightarrow> c_string s = s"
  by (auto simp: c_string_def takeWhile_eq_all_conv)

locale container_service =
  fixes c :: "'w xpc_client" and live :: "'w \<Rightarrow> string set"
  assumes connecting: "live (snd (xb_Connect (xc_bridge c) s w)) = live w"
    and allocating: "live (snd (xb_Create (xc_bridge c) route w)) = live w"
    and open_null: "live (snd (xb_DevNull (xc_bridge c) w)) = live w"
    and others: "xm_Route msg \<noteq> ''containerCreate'' \<Longrightarrow> xm_Route msg \<noteq> ''containerDelete'' \<Longrightarrow>
      live (snd (xb_Send (xc_bridge c) service msg ms w)) = live w"
    and creating: "xm_Route msg = ''containerCreate'' \<Longrightarrow>
      map_of (xm_Values msg) ''containerConfig'' = Some (XData (aj_Configuration (xc_json c) conf)) \<Longrightarrow>
      xb_Send (xc_bridge c) service msg ms w = (sent, w') \<Longrightarrow>
      if answered c sent then cg_ID conf \<notin> live w \<and> live w' = insert (cg_ID conf) (live w) else live w' = live w"
    and deleting: "xm_Route msg = ''containerDelete'' \<Longrightarrow> map_of (xm_Values msg) ''id'' = Some (XString i) \<Longrightarrow>
      xb_Send (xc_bridge c) service msg ms w = (sent, w') \<Longrightarrow>
      live w' = (if answered c sent then live w - {i} else live w)"
    and refusing: "xm_Route msg = ''containerDelete'' \<Longrightarrow> map_of (xm_Values msg) ''id'' = Some (XString i) \<Longrightarrow>
      xb_Send (xc_bridge c) service msg ms w = (Inr (Some reply), w') \<Longrightarrow>
      checkReply (aj_ReadError (xc_json c)) reply = Some e \<Longrightarrow> isAppleNotFound e \<Longrightarrow> i \<notin> live w"
begin

definition client_live :: "'w xpc_world \<Rightarrow> string set" where
  "client_live e = live (xw_World e)"


abbreviation steady :: "('w, 'a) xpc_op \<Rightarrow> bool" where
  "steady m \<equiv> within (kept client_live client_ready) m"

lemma bridge_keeps:
  assumes "\<And>w. live (snd (f w)) = live w" shows "steady (bridge_call br f)"
proof (rule withinI)
  fix h :: "'w xpc_world host"
  show "kept client_live client_ready h (snd (bridge_call br f h))"
    using assms [of "xw_World (h_engine h)"]
    by (cases "f (xw_World (h_engine h))") (simp add: kept_def client_live_def client_ready_def bridge_call_def)
qed

lemma counters_keep: "steady hold" "steady release_msg" "steady (closeFiles n)"
  "steady (on_client (\<lambda>c. c\<lparr>xw_files := xw_files c + 1\<rparr>))"
  "steady (on_client (\<lambda>w. if xw_closed w then w else w\<lparr>xw_kernelData := data\<rparr>))"
  by (simp_all add: within_def kept_def client_live_def client_ready_def hold_def release_msg_def closeFiles_def on_client_def)

lemma new_keeps: "steady (newXPCMessage (xc_bridge c) route)"
  unfolding newXPCMessage_def by (intro kin.call_in bridge_keeps counters_keep allocating)

lemma new_then:
  assumes "\<And>msg. xm_Route msg = route \<Longrightarrow> steady (f msg)"
  shows "steady (bindE (newXPCMessage (xc_bridge c) route) f)"
proof (rule withinI)
  fix h :: "'w xpc_world host"
  obtain r t where n: "newXPCMessage (xc_bridge c) route h = (r, t)" by fastforce
  with new_keeps have k: "kept client_live client_ready h t" by (rule withinD)
  show "kept client_live client_ready h (snd (bindE (newXPCMessage (xc_bridge c) route) f h))"
  proof (cases r)
    case (Inr msg)
    with n have "xm_Route msg = route" by (auto dest: new_result)
    with assms have "kept client_live client_ready t (snd (f msg t))" by (simp add: within_def)
    with k n Inr show ?thesis by (auto simp: bindE_ok intro: kin.steps)
  qed (use k n in \<open>simp add: bindE_err\<close>)
qed

definition harmless :: "xpc_message \<Rightarrow> bool" where
  "harmless msg \<longleftrightarrow> xm_Route msg \<noteq> ''containerCreate'' \<and> xm_Route msg \<noteq> ''containerDelete''"

lemma send_keeps: "harmless msg \<Longrightarrow> steady (xpc_send c ctx service msg t)"
proof (rule withinI)
  fix h :: "'w xpc_world host" assume m: "harmless msg"
  show "kept client_live client_ready h (snd (xpc_send c ctx service msg t h))"
  proof (cases rule: send_outcome [of c ctx service msg t h])
    case (sent ms s)
    then show ?thesis
      using m others [of msg service ms "xw_World (h_engine h)"] by (simp add: kept_def send_ready client_live_def harmless_def)
  qed (simp add: kept_def send_ready client_live_def)
qed

lemma no_body_keeps: "harmless msg \<Longrightarrow> steady (sendNoBodyAPI c ctx msg t)"
  unfolding sendNoBodyAPI_def by (intro kin.call_in send_keeps counters_keep)

lemma with_reply_keeps:
  "harmless msg \<Longrightarrow> steady (with_reply (sendAPI c ctx msg t) read)"
  "harmless msg \<Longrightarrow> steady (with_reply (sendImage c ctx msg t) read)"
  unfolding with_reply_def sendAPI_def sendImage_def by (intro kin.call_in send_keeps counters_keep; assumption)+

lemma stdio_keeps: "harmless msg \<Longrightarrow> steady (send_with_stdio c ctx msg)"
proof -
  have o: "steady (open_stdio (xc_bridge c) keys n m)" for keys n m
  proof (induction keys arbitrary: n m)
    case (Cons key keys)
    show ?case unfolding open_stdio.simps
      by (rule kin.bind_in [OF bridge_keeps [OF open_null]])
        (auto split: option.split intro!: kin.call_in counters_keep Cons.IH)
  qed (simp only: open_stdio.simps kin.ret_in)
  assume m: "harmless msg"
  show ?thesis
  proof (rule withinI)
    fix h :: "'w xpc_world host"
    obtain r t where r: "setDevNullStdio (xc_bridge c) msg h = (r, t)" by fastforce
    then have k: "kept client_live client_ready h t" unfolding setDevNullStdio_def by (rule withinD [OF o])
    show "kept client_live client_ready h (snd (send_with_stdio c ctx msg h))"
    proof (cases r)
      case (Inl e)
      have "steady (bindE release_msg (\<lambda>u. fail e :: ('w, unit) xpc_op))" by (intro kin.call_in counters_keep)
      then have "kept client_live client_ready t (snd (bindE release_msg (\<lambda>u. fail e :: ('w, unit) xpc_op) t))" by (simp add: within_def)
      with k r Inl show ?thesis by (auto simp: send_with_stdio_def caseE_err intro: kin.steps)
    next
      case (Inr p)
      obtain msg' n where p: "p = (msg', n)" by (cases p)
      have "xm_Route msg' = xm_Route msg" using r Inr p stdio_route by blast
      with m have "harmless msg'" by (simp add: harmless_def)
      then have "steady (finallyE (sendNoBodyAPI c ctx msg' xpcTimeoutDefault) (closeFiles n))"
        by (intro kin.call_in no_body_keeps counters_keep)
      then have "kept client_live client_ready t (snd (finallyE (sendNoBodyAPI c ctx msg' xpcTimeoutDefault) (closeFiles n) t))"
        by (simp add: within_def)
      with k r Inr p show ?thesis by (auto simp: send_with_stdio_def caseE_ok intro: kin.steps)
    qed
  qed
qed

lemma kernel_keeps: "steady (defaultKernelData c ctx)"
proof -
  have "steady (bindE (newXPCMessage (xc_bridge c) ''getDefaultKernel'') (\<lambda>msg.
      bindE (mapErr w (sendAPI c ctx (setData key s msg) t)) (\<lambda>reply.
        finallyE (bindE (liftE (r reply)) (\<lambda>kernelData.
          bindE (on_client (\<lambda>w. if xw_closed w then w else w\<lparr>xw_kernelData := kernelData\<rparr>)) (\<lambda>u. ret kernelData))) release_msg)))"
    for w t key s and r :: "xpc_reply \<Rightarrow> go_error + string"
    unfolding sendAPI_def
    by (intro new_then kin.bind_in kin.mapErr_in kin.finally_in kin.lift_in kin.ret_in send_keeps counters_keep)
      (simp add: harmless_def)
  then show ?thesis
    unfolding within_def defaultKernelData_def Let_def by (simp add: kin.same)
qed

lemma create_then:
  assumes "steady m" and "\<And>x h h'. m h = (Inr x, h') \<Longrightarrow> create_law client_live client_ready i (f x)"
  shows "create_law client_live client_ready i (bindE m f)"
  unfolding create_law_def
proof
  fix h :: "'w xpc_world host"
  obtain r t where m: "m h = (r, t)" by fastforce
  with assms(1) have k: "client_live (h_engine t) = client_live (h_engine h)" "client_ready (h_engine t) = client_ready (h_engine h)"
    by (auto simp: kept_def dest: withinD)
  show "client_ready (h_engine (snd (bindE m f h))) = client_ready (h_engine h) \<and> (case bindE m f h of (Inl e, h') \<Rightarrow> client_live (h_engine h') = client_live (h_engine h)
      | (Inr u, h') \<Rightarrow> i \<notin> client_live (h_engine h) \<and> client_live (h_engine h') = insert i (client_live (h_engine h)))"
  proof (cases r)
    case (Inr x)
    with assms(2) m have "create_law client_live client_ready i (f x)" by blast
    from this [unfolded create_law_def, rule_format, of t] k m Inr show ?thesis
      by (cases "f x t"; cases "fst (f x t)") (auto simp: bindE_ok)
  qed (use k m in \<open>simp add: bindE_err\<close>)
qed

lemma remove_then:
  assumes "steady m" and "\<And>x h h'. m h = (Inr x, h') \<Longrightarrow> remove_law client_live client_ready i (f x)"
  shows "remove_law client_live client_ready i (bindE m f)"
  unfolding remove_law_def
proof
  fix h :: "'w xpc_world host"
  obtain r t where m: "m h = (r, t)" by fastforce
  with assms(1) have k: "client_live (h_engine t) = client_live (h_engine h)" "client_ready (h_engine t) = client_ready (h_engine h)"
    by (auto simp: kept_def dest: withinD)
  show "client_ready (h_engine (snd (bindE m f h))) = client_ready (h_engine h) \<and> (case bindE m f h of (Inl e, h') \<Rightarrow> client_live (h_engine h') = client_live (h_engine h)
      | (Inr u, h') \<Rightarrow> client_live (h_engine h') = client_live (h_engine h) - {i})"
  proof (cases r)
    case (Inr x)
    with assms(2) m have "remove_law client_live client_ready i (f x)" by blast
    from this [unfolded remove_law_def, rule_format, of t] k m Inr show ?thesis
      by (cases "f x t"; cases "fst (f x t)") (auto simp: bindE_ok)
  qed (use k m in \<open>simp add: bindE_err\<close>)
qed

lemma no_body_result:
  assumes "sendNoBodyAPI c ctx msg t h = (r, h')"
  obtains (refused) e where "fst (xpc_send c ctx xpcAPIService msg t h) = Inl e" "r = Inl e"
      "client_live (h_engine h') = client_live (h_engine (snd (xpc_send c ctx xpcAPIService msg t h)))"
  | (accepted) reply where "fst (xpc_send c ctx xpcAPIService msg t h) = Inr reply" "r = Inr ()"
      "client_live (h_engine h') = client_live (h_engine (snd (xpc_send c ctx xpcAPIService msg t h)))"
  using assms
  by (cases "xpc_send c ctx xpcAPIService msg t h"; cases "fst (xpc_send c ctx xpcAPIService msg t h)")
    (auto simp: sendNoBodyAPI_def bindE_def caseE_def fail_def release_msg_def on_client_def client_live_def)

lemma create_sent:
  assumes "xm_Route msg = ''containerCreate''"
    and "map_of (xm_Values msg) ''containerConfig'' = Some (XData (aj_Configuration (xc_json c) conf))"
  shows "create_law client_live client_ready (cg_ID conf) (sendNoBodyAPI c ctx msg t)"
  unfolding create_law_def
proof
  fix h :: "'w xpc_world host"
  obtain r h' where run: "sendNoBodyAPI c ctx msg t h = (r, h')" by fastforce
  show "client_ready (h_engine (snd (sendNoBodyAPI c ctx msg t h))) = client_ready (h_engine h) \<and> (case sendNoBodyAPI c ctx msg t h of (Inl e, h') \<Rightarrow> client_live (h_engine h') = client_live (h_engine h)
      | (Inr u, h') \<Rightarrow> cg_ID conf \<notin> client_live (h_engine h) \<and>
          client_live (h_engine h') = insert (cg_ID conf) (client_live (h_engine h)))"
  proof (cases rule: send_outcome [of c ctx xpcAPIService msg t h])
    case (unsent e)
    show ?thesis by (rule no_body_result [OF run]) (use run unsent no_body_ready [of c ctx msg t h] in \<open>simp_all add: client_live_def\<close>)
  next
    case (sent ms s)
    show ?thesis
      by (rule no_body_result [OF run]) (use run no_body_ready [of c ctx msg t h] sent(2) creating [OF assms sent(1)] in \<open>simp_all add: client_live_def\<close>)
  qed
qed

lemma delete_sent:
  assumes "xm_Route msg = ''containerDelete''" and "map_of (xm_Values msg) ''id'' = Some (XString i)"
  shows "remove_law client_live client_ready i (sendNoBodyAPI c ctx msg t)"
    and "sendNoBodyAPI c Background msg t h = (Inl e, h') \<Longrightarrow> isAppleNotFound e \<Longrightarrow> i \<notin> client_live (h_engine h)"
proof -
  show "remove_law client_live client_ready i (sendNoBodyAPI c ctx msg t)"
    unfolding remove_law_def
  proof
    fix h :: "'w xpc_world host"
    obtain r h' where run: "sendNoBodyAPI c ctx msg t h = (r, h')" by fastforce
    show "client_ready (h_engine (snd (sendNoBodyAPI c ctx msg t h))) = client_ready (h_engine h) \<and> (case sendNoBodyAPI c ctx msg t h of (Inl e, h') \<Rightarrow> client_live (h_engine h') = client_live (h_engine h)
        | (Inr u, h') \<Rightarrow> client_live (h_engine h') = client_live (h_engine h) - {i})"
      proof (cases rule: send_outcome [of c ctx xpcAPIService msg t h])
      case (unsent e)
      show ?thesis by (rule no_body_result [OF run]) (use run unsent no_body_ready [of c ctx msg t h] in \<open>simp_all add: client_live_def\<close>)
    next
      case (sent ms s)
      show ?thesis
        by (rule no_body_result [OF run]) (use run no_body_ready [of c ctx msg t h] sent(2) deleting [OF assms sent(1)] in \<open>simp_all add: client_live_def\<close>)
    qed
  qed
next
  assume run: "sendNoBodyAPI c Background msg t h = (Inl e, h')" and e: "isAppleNotFound e"
  then have f: "fst (xpc_send c Background xpcAPIService msg t h) = Inl e" by (elim no_body_result) simp_all
  show "i \<notin> client_live (h_engine h)"
  proof (cases rule: send_outcome [of c Background xpcAPIService msg t h])
    case (sent ms s)
    from sent(3) [OF refl f e] obtain reply where "s = Inr (Some reply)" "checkReply (aj_ReadError (xc_json c)) reply = Some e"
      by blast
    then show ?thesis using refusing [OF assms _ _ e] sent(1) by (simp add: client_live_def)
  qed (use f e in simp)
qed

end

sublocale container_service \<subseteq> client: containers "xpc_as_client c" client_live client_ready
proof unfold_locales
  fix conf ctx
  show "create_law client_live client_ready (cg_ID conf) (ak_ContainerCreate (xpc_as_client c) ctx conf)"
    unfolding xpc_as_client_def apple_client.simps xpc_ContainerCreate_def Let_def
    by (rule create_then [OF kernel_keeps], rule create_then [OF new_keeps], rule create_sent)
      (auto dest!: new_result simp: setData_def set_value_def update_conv')
next
  fix i ctx force assume i: "CHR 0x00 \<notin> set i"
  show "remove_law client_live client_ready i (ak_ContainerDelete (xpc_as_client c) ctx i force)"
    unfolding xpc_as_client_def apple_client.simps xpc_ContainerDelete_def Let_def
    by (rule remove_then [OF new_keeps], rule delete_sent(1))
      (use i in \<open>auto dest!: new_result simp: setString_def setBool_def set_value_def update_conv' c_string_id\<close>)
next
  fix i h e h' assume i: "CHR 0x00 \<notin> set i" and e: "isAppleNotFound e"
    and run: "ak_ContainerDelete (xpc_as_client c) Background i True h = (Inl e, h')"
  obtain r t where n: "newXPCMessage (xc_bridge c) ''containerDelete'' h = (r, t)" by fastforce
  then have k: "client_live (h_engine t) = client_live (h_engine h)"
    using withinD [OF new_keeps] by (fastforce simp: kept_def)
  show "i \<notin> client_live (h_engine h)"
  proof (cases r)
    case (Inl e')
    with n run e show ?thesis by (auto simp: xpc_as_client_def xpc_ContainerDelete_def bindE_err dest: new_refused)
  next
    case (Inr msg)
    define msg' where "msg' = setBool ''forceDelete'' True (setString ''id'' i msg)"
    have "xm_Route msg' = ''containerDelete''" "map_of (xm_Values msg') ''id'' = Some (XString i)"
      using n Inr i by (auto dest!: new_result simp: msg'_def setString_def setBool_def set_value_def update_conv' c_string_id)
    moreover have "sendNoBodyAPI c Background msg' xpcTimeoutDefault t = (Inl e, h')"
      using n Inr run by (simp add: xpc_as_client_def xpc_ContainerDelete_def bindE_ok Let_def msg'_def)
    ultimately show ?thesis using delete_sent(2) e k by blast
  qed
next
  fix ctx ref
  show "within (kept client_live client_ready) (ak_ResolveImage (xpc_as_client c) ctx ref)"
    unfolding xpc_as_client_def apple_client.simps xpc_ResolveImage_def Let_def
    by (intro kin.if_in kin.fail_in new_then with_reply_keeps) (simp add: harmless_def)
next
  fix ctx i
  show "within (kept client_live client_ready) (ak_ContainerBootstrap (xpc_as_client c) ctx i)"
    unfolding xpc_as_client_def apple_client.simps xpc_ContainerBootstrap_def Let_def
    by (intro new_then stdio_keeps) (simp add: harmless_def)
next
  fix ctx i p
  show "within (kept client_live client_ready) (ak_ContainerStartProcess (xpc_as_client c) ctx i p)"
    unfolding xpc_as_client_def apple_client.simps xpc_ContainerStartProcess_def Let_def
    by (intro new_then no_body_keeps) (simp add: harmless_def)
next
  fix ctx i src dst mode
  show "within (kept client_live client_ready) (ak_ContainerCopyIn (xpc_as_client c) ctx i src dst mode)"
    unfolding xpc_as_client_def apple_client.simps xpc_ContainerCopyIn_def Let_def
    by (intro new_then no_body_keeps) (simp add: harmless_def)
next
  fix ctx i p pconf
  show "within (kept client_live client_ready) (ak_ContainerCreateProcess (xpc_as_client c) ctx i p pconf)"
    unfolding xpc_as_client_def apple_client.simps xpc_ContainerCreateProcess_def Let_def
    by (intro new_then stdio_keeps) (simp add: harmless_def)
next
  fix ctx name
  show "within (kept client_live client_ready) (ak_VolumeInspect (xpc_as_client c) ctx name)"
    unfolding xpc_as_client_def apple_client.simps xpc_VolumeInspect_def Let_def
    by (intro new_then with_reply_keeps) (simp add: harmless_def)
next
  fix ctx
  show "within (kept client_live client_ready) (ak_VolumeList (xpc_as_client c) ctx)"
    unfolding xpc_as_client_def apple_client.simps xpc_VolumeList_def Let_def
    by (intro new_then with_reply_keeps) (simp add: harmless_def)
next
  fix ctx i
  show "within (kept client_live client_ready) (ak_DefaultNetworkAttachment (xpc_as_client c) ctx i)"
    unfolding xpc_as_client_def apple_client.simps xpc_DefaultNetworkAttachment_def Let_def
    by (intro new_then with_reply_keeps) (simp add: harmless_def)
qed

context container_service
begin

text \<open>What the contract gives for the runtime on the XPC client.\<close>

lemma create_adds_container:
  assumes "ap_client r = xpc_as_client c" and "CHR 0x00 \<notin> set (appleSandboxContainerID (ap_cfg r) (cr_SandboxID req))"
    and "\<And>h e. client_ready (h_engine h) \<Longrightarrow>
      fst (xpc_ContainerDelete c Background (appleSandboxContainerID (ap_cfg r) (cr_SandboxID req)) True h) = Inl e \<Longrightarrow> isAppleNotFound e"
    and "steady (ap_findFreePort r)" and "steady (ap_Flock r)" and "steady (ap_Unlock r)"
    and "ap_checkHealthy r = None" and "\<And>u. steady (hc_Get (ap_http r) u)"
  shows "adds_from client_live client_ready (appleSandboxContainerID (ap_cfg r) (cr_SandboxID req)) (apple_CreateSandbox r ctx req)"
proof (rule client.create_adds [OF assms(1) _ assms(4-8)])
  show "client.deletable (appleSandboxContainerID (ap_cfg r) (cr_SandboxID req))"
    unfolding client.deletable_def using assms(2,3) by (simp add: xpc_as_client_def)
qed

end

end
