(* ===== verification/AppleDemo.thy ===== *)
theory AppleDemo
  imports AppleService DockerDemo
begin

text \<open>
  A concrete service for the properties of the Apple backend: it keeps a list of containers, refuses
  an id that is taken, and knows no container that it has not made. The client on it keeps its contract.
\<close>

section \<open>The service\<close>

record demo_service =
  ds_Containers :: "string list"

definition ok_reply :: "string \<Rightarrow> string \<Rightarrow> xpc_reply" where
  "ok_reply key data = \<lparr>xr_Data = (\<lambda>k. if k = key then data else []), xr_Error = None\<rparr>"

definition error_reply :: "string \<Rightarrow> xpc_reply" where
  "error_reply code = \<lparr>xr_Data = (\<lambda>k. if k = xpcProtocolErrorKey then code else []), xr_Error = None\<rparr>"

definition demo_answer :: "xpc_message \<Rightarrow> demo_service \<Rightarrow> xpc_reply \<times> demo_service" where
  "demo_answer msg w =
     (if xm_Route msg = ''containerCreate'' then
        (case map_of (xm_Values msg) ''containerConfig'' of
           Some (XData i) \<Rightarrow>
             (if i \<in> set (ds_Containers w) then (error_reply ''exists'', w)
              else (ok_reply ''id'' i, w\<lparr>ds_Containers := i # ds_Containers w\<rparr>))
         | _ \<Rightarrow> (error_reply ''invalid_argument'', w))
      else if xm_Route msg = ''containerDelete'' then
        (case map_of (xm_Values msg) ''id'' of
           Some (XString i) \<Rightarrow>
             (if i \<in> set (ds_Containers w) then (ok_reply ''id'' i, w\<lparr>ds_Containers := filter (\<lambda>j. j \<noteq> i) (ds_Containers w)\<rparr>)
              else (error_reply ''notFound'', w))
         | _ \<Rightarrow> (error_reply ''invalid_argument'', w))
      else if xm_Route msg = ''getDefaultKernel'' then (ok_reply ''kernel'' ''vmlinux'', w)
      else if xm_Route msg = ''imageList'' then (ok_reply ''imageDescriptions'' ''docker.io/library/alpine:latest'', w)
      else if xm_Route msg = ''networkList'' then (ok_reply ''networkResources'' ''default'', w)
      else (ok_reply ''id'' ''ok'', w))"

definition demo_bridge :: "demo_service xpc_bridge" where
  "demo_bridge =
     \<lparr>xb_Connect = (\<lambda>s w. (True, w)), xb_Create = (\<lambda>route w. (True, w)),
      xb_Send = (\<lambda>service msg ms w. case demo_answer msg w of (reply, w') \<Rightarrow> (Inr (Some reply), w')),
      xb_DevNull = (\<lambda>w. (None, w)), xb_Elapsed = (\<lambda>w. 1000)\<rparr>"

definition demo_image_at :: "string \<Rightarrow> image_description" where
  "demo_image_at ref =
     \<lparr>id_Reference = ref,
      id_Descriptor = \<lparr>de_MediaType = [], de_Digest = ''sha256:00'', de_Size = 1, de_URLs = [], de_Annotations = [], de_Platform = None\<rparr>\<rparr>"

definition demo_xpc :: "demo_service xpc_client" where
  "demo_xpc =
     \<lparr>xc_bridge = demo_bridge,
      xc_json = \<lparr>aj_Configuration = cg_ID, aj_Process = pc_Executable, aj_CreateOptions = FormatBool, aj_StopOptions = (\<lambda>n. []),
        aj_Filters = (\<lambda>f. []), aj_Map = (\<lambda>m. []), aj_Platform = sy_OS, aj_ReadError = (\<lambda>s. Inr (s, ''container'')),
        aj_ReadImages = (\<lambda>s. Inr [demo_image_at s]), aj_ReadContainers = (\<lambda>s. Inr []),
        aj_ReadVolume = (\<lambda>s. Inl (ErrorString s)), aj_ReadVolumes = (\<lambda>s. Inr []),
        aj_ReadNetworks = (\<lambda>s. Inr [\<lparr>nr_Configuration = \<lparr>nc_Name = s, nc_Labels = []\<rparr>, nr_Status = JNull\<rparr>])\<rparr>,
      xc_GOARCH = ''arm64''\<rparr>"

definition service_live :: "demo_service \<Rightarrow> string set" where
  "service_live w = set (ds_Containers w)"

section \<open>It keeps the contract\<close>

lemma reply_checks:
  "key \<noteq> xpcProtocolErrorKey \<Longrightarrow> checkReply read (ok_reply key data) = None"
  "checkReply (aj_ReadError (xc_json demo_xpc)) (error_reply ''exists'') = Some (protocol_error ''exists'' ''container'')"
  "checkReply (aj_ReadError (xc_json demo_xpc)) (error_reply ''invalid_argument'') = Some (protocol_error ''invalid_argument'' ''container'')"
  "checkReply (aj_ReadError (xc_json demo_xpc)) (error_reply ''notFound'') = Some (protocol_error ''notFound'' ''container'')"
proof -
  have t: "TrimSpace ''exists'' \<noteq> []" "TrimSpace ''invalid_argument'' \<noteq> []" "TrimSpace ''notFound'' \<noteq> []" by code_simp+
  show "key \<noteq> xpcProtocolErrorKey \<Longrightarrow> checkReply read (ok_reply key data) = None"
    by (simp add: checkReply_def replyProtocolError_def replyData_def ok_reply_def missingXPCDataError_def errorsIsMissingXPCData_def)
  show "checkReply (aj_ReadError (xc_json demo_xpc)) (error_reply ''exists'') = Some (protocol_error ''exists'' ''container'')"
    "checkReply (aj_ReadError (xc_json demo_xpc)) (error_reply ''invalid_argument'') = Some (protocol_error ''invalid_argument'' ''container'')"
    "checkReply (aj_ReadError (xc_json demo_xpc)) (error_reply ''notFound'') = Some (protocol_error ''notFound'' ''container'')"
    using t by (simp_all add: checkReply_def replyProtocolError_def replyData_def error_reply_def demo_xpc_def decodeXPCProtocolError_def)
qed

lemma demo_codes: "isAppleNotFound (protocol_error ''notFound'' ''container'')"
  "\<not> isAppleNotFound (protocol_error ''exists'' ''container'')" "\<not> isAppleNotFound (protocol_error ''invalid_argument'' ''container'')"
  by code_simp+

lemma demo_key: "''id'' \<noteq> xpcProtocolErrorKey"
  by (simp add: xpcProtocolErrorKey_def)

lemma demo_send: "xb_Send (xc_bridge demo_xpc) service msg ms w = (case demo_answer msg w of (reply, w') \<Rightarrow> (Inr (Some reply), w'))"
  by (simp add: demo_xpc_def demo_bridge_def)

interpretation demo_service: container_service demo_xpc service_live
proof unfold_locales
  fix s w route
  show "service_live (snd (xb_Connect (xc_bridge demo_xpc) s w)) = service_live w"
    "service_live (snd (xb_Create (xc_bridge demo_xpc) route w)) = service_live w"
    "service_live (snd (xb_DevNull (xc_bridge demo_xpc) w)) = service_live w"
    by (simp_all add: demo_xpc_def demo_bridge_def)
next
  fix msg :: xpc_message and service ms w
  assume "xm_Route msg \<noteq> ''containerCreate''" "xm_Route msg \<noteq> ''containerDelete''"
  then show "service_live (snd (xb_Send (xc_bridge demo_xpc) service msg ms w)) = service_live w"
    by (simp add: demo_send demo_answer_def)
next
  fix msg :: xpc_message and conf service ms w sent w'
  assume a: "xm_Route msg = ''containerCreate''"
    "map_of (xm_Values msg) ''containerConfig'' = Some (XData (aj_Configuration (xc_json demo_xpc) conf))"
    "xb_Send (xc_bridge demo_xpc) service msg ms w = (sent, w')"
  have j: "aj_Configuration (xc_json demo_xpc) conf = cg_ID conf" by (simp add: demo_xpc_def)
  show "if answered demo_xpc sent then cg_ID conf \<notin> service_live w \<and> service_live w' = insert (cg_ID conf) (service_live w)
      else service_live w' = service_live w"
    using a unfolding j
    by (cases "cg_ID conf \<in> set (ds_Containers w)")
      (auto simp: demo_send demo_answer_def service_live_def answered_def reply_checks demo_key)
next
  fix msg :: xpc_message and i service ms w sent w'
  assume a: "xm_Route msg = ''containerDelete''" "map_of (xm_Values msg) ''id'' = Some (XString i)"
    "xb_Send (xc_bridge demo_xpc) service msg ms w = (sent, w')"
  then show "service_live w' = (if answered demo_xpc sent then service_live w - {i} else service_live w)"
    by (cases "i \<in> set (ds_Containers w)")
      (auto simp: demo_send demo_answer_def service_live_def answered_def reply_checks demo_key)
next
  fix msg :: xpc_message and i service ms w reply w' e
  assume a: "xm_Route msg = ''containerDelete''" "map_of (xm_Values msg) ''id'' = Some (XString i)"
    "xb_Send (xc_bridge demo_xpc) service msg ms w = (Inr (Some reply), w')"
    "checkReply (aj_ReadError (xc_json demo_xpc)) reply = Some e"
  then show "i \<notin> service_live w"
    by (cases "i \<in> set (ds_Containers w)")
      (auto simp: demo_send demo_answer_def service_live_def reply_checks demo_key)
qed

end
