(* ===== verification/AppleLabels.thy ===== *)
theory AppleLabels
  imports AppleRuntime LabelProofs
begin

text \<open>
  The labels of an Apple container carry the sandbox's record over a restart of the gateway.
\<close>

section \<open>What the labels read as\<close>

definition apple_fixed_labels :: "create_request \<Rightarrow> string \<Rightarrow> string \<Rightarrow> (string, string) gomap" where
  "apple_fixed_labels req templateID imageRef =
     [(appleLocalManagedLabel, ''true''), (appleLocalImageLabel, imageRef),
      (appleLocalSandboxIDLabel, TrimSpace (cr_SandboxID req)), (appleLocalSandboxTemplateIDLabel, TrimSpace templateID)]"

definition apple_more_labels :: "codecs \<Rightarrow> create_request \<Rightarrow> volume_mount list \<Rightarrow> timeout_action \<Rightarrow> (string \<times> string option) list" where
  "apple_more_labels cd req ms a =
     [(appleLocalSandboxCreatedAtLabel, if IsZero (cr_CreatedAt req) then None else Some (cd_time cd (cr_CreatedAt req))),
      (appleLocalSandboxEndAtLabel, if IsZero (cr_EndAt req) then None else Some (cd_time cd (cr_EndAt req))),
      (appleLocalSandboxMetadataLabel, if cr_Metadata req = [] then None else Some (cd_map cd (cr_Metadata req))),
      (appleLocalSandboxAllowInternetLabel, map_option FormatBool (cr_AllowInternetAccess req)),
      (appleLocalSandboxOnTimeoutLabel, Some a),
      (appleLocalSandboxVolumeMountsLabel, if ms = [] then None else Some (cd_mounts cd ms)),
      (appleLocalSandboxEnvVarsLabel, if cr_EnvVars req = [] then None else Some (cd_map cd (cr_EnvVars req)))]"

definition apple_raw_labels :: "codecs \<Rightarrow> create_request \<Rightarrow> string \<Rightarrow> string \<Rightarrow> volume_mount list \<Rightarrow> timeout_action \<Rightarrow> (string, string) gomap" where
  "apple_raw_labels cd req t i ms a = fold put_label (apple_more_labels cd req ms a) (apple_fixed_labels req t i)"

lemma apple_labels_raw:
  assumes "Normalize (cr_OnTimeout req) = Inr a"
  shows "appleSandboxLabels cd req t i ms = Inr (drop_blank_labels (apple_raw_labels cd req t i ms a))"
  by (cases "cr_AllowInternetAccess req")
    (simp_all add: assms appleSandboxLabels_def apple_raw_labels_def apple_more_labels_def apple_fixed_labels_def put_label_def
      optional_label_def Let_def)

lemma apple_raw_distinct: "distinct (map fst (apple_raw_labels cd req t i ms a))"
  unfolding apple_raw_labels_def by (rule put_labels_distinct) (simp add: apple_fixed_labels_def apple_labels)

lemma apple_raw_read:
  "map_of (apple_raw_labels cd req t i ms a) k = (case map_of (apple_more_labels cd req ms a) k of Some (Some v) \<Rightarrow> Some v
     | Some None \<Rightarrow> map_of (apple_fixed_labels req t i) k | None \<Rightarrow> map_of (apple_fixed_labels req t i) k)"
  unfolding apple_raw_labels_def by (rule put_labels_read) (simp add: apple_more_labels_def apple_labels)

lemma apple_label_read:
  assumes "Normalize (cr_OnTimeout req) = Inr a" and "appleSandboxLabels cd req t i ms = Inr ls"
  shows "map_read ls k = (case map_of (apple_raw_labels cd req t i ms a) k of None \<Rightarrow> []
    | Some v \<Rightarrow> if TrimSpace v = [] then [] else v)"
  using assms(2) drop_blank_read [OF apple_raw_distinct, of cd req t i ms a k]
  by (auto simp: apple_labels_raw [OF assms(1)] map_read_def split: option.splits)

lemmas apple_label_values = apple_raw_read apple_more_labels_def apple_fixed_labels_def apple_labels

section \<open>The record that comes back\<close>

text \<open>The request as the container was made for it: a normal action, an id and times that are set.\<close>

definition apple_restorable :: "create_request \<Rightarrow> bool" where
  "apple_restorable req \<longleftrightarrow>
     Normalize (cr_OnTimeout req) = Inr (cr_OnTimeout req) \<and> TrimSpace (cr_SandboxID req) \<noteq> [] \<and>
     \<not> IsZero (cr_CreatedAt req) \<and> \<not> IsZero (cr_EndAt req)"

text \<open>A container with the labels of a request, template, image and mounts, in a state that is known.\<close>

definition made_for :: "codecs \<Rightarrow> create_request \<times> string \<times> string \<times> volume_mount list \<Rightarrow> container_snapshot \<Rightarrow> bool" where
  "made_for cd = (\<lambda>(req, t, i, ms) snapshot.
     apple_restorable req \<and> appleSandboxLabels cd req t i ms = Inr (cg_Labels (cn_Configuration snapshot)) \<and>
     e2bStateFromAppleStatus (cn_Status snapshot) \<noteq> [])"

definition apple_restored_as :: "'e apple_runtime \<Rightarrow> create_request \<times> string \<times> string \<times> volume_mount list \<Rightarrow> container_snapshot \<Rightarrow>
    sandbox_record \<Rightarrow> bool" where
  "apple_restored_as r = (\<lambda>(req, t, i, ms) snapshot x.
     sr_ID x = TrimSpace (cr_SandboxID req) \<and> sr_TemplateID x = TrimSpace t \<and> sr_Metadata x = cr_Metadata req \<and>
     sr_CreatedAt x = cr_CreatedAt req \<and> sr_EndAt x = cr_EndAt req \<and> sr_OnTimeout x = cr_OnTimeout req \<and>
     sr_InternetAccessPolicy x = InternetAccessPolicyFromBoolPtr (cr_AllowInternetAccess req) \<and>
     sr_State x = e2bStateFromAppleStatus (cn_Status snapshot) \<and>
     ri_ContainerID (sr_RuntimeInfo x) = cg_ID (cn_Configuration snapshot) \<and>
     ri_HostPort (sr_RuntimeInfo x) = envdHostPort (cg_PublishedPorts (cn_Configuration snapshot)) (ac_EnvdPort (ap_cfg r)) \<and>
     ri_VolumeMounts (sr_RuntimeInfo x) = apple_normalizeVolumeMounts ms)"

lemma apple_time_label:
  "codec_laws cd \<Longrightarrow> timeFromLabel cd (if TrimSpace (cd_time cd x) = [] then [] else cd_time cd x) = x"
  by (simp add: codec_laws_def timeFromLabel_def)

lemma apple_map_label:
  "codec_laws cd \<Longrightarrow> stringMapFromLabel cd (if TrimSpace (cd_map cd m) = [] then [] else cd_map cd m) = m"
  by (simp add: codec_laws_def stringMapFromLabel_def)

lemma apple_bool_label: "boolPtrFromLabel (if TrimSpace (FormatBool b) = [] then [] else FormatBool b) = Some b"
proof -
  have "boolPtrFromLabel (FormatBool True) = Some True" "boolPtrFromLabel (FormatBool False) = Some False" by code_simp+
  then show ?thesis using FormatBool_not_blank by (cases b) simp_all
qed

lemma made_label:
  assumes "made_for cd (req, t, i, ms) snapshot"
  shows "map_read (cg_Labels (cn_Configuration snapshot)) k =
    (case map_of (apple_raw_labels cd req t i ms (cr_OnTimeout req)) k of None \<Rightarrow> [] | Some v \<Rightarrow> if TrimSpace v = [] then [] else v)"
  using assms by (intro apple_label_read) (auto simp: made_for_def apple_restorable_def)

text \<open>The label of an optional value: it is there when the value is, and absent it reads as the value's default.\<close>

lemma made_ids:
  assumes "made_for cd (req, t, i, ms) snapshot"
  shows "TrimSpace (map_read (cg_Labels (cn_Configuration snapshot)) appleLocalSandboxIDLabel) = TrimSpace (cr_SandboxID req)"
    and "TrimSpace (map_read (cg_Labels (cn_Configuration snapshot)) appleLocalSandboxTemplateIDLabel) = TrimSpace t"
  by (simp_all add: made_label [OF assms] apple_label_values)

lemma made_times:
  assumes "codec_laws cd" and "made_for cd (req, t, i, ms) snapshot"
  shows "timeFromLabel cd (map_read (cg_Labels (cn_Configuration snapshot)) appleLocalSandboxCreatedAtLabel) = cr_CreatedAt req"
    and "timeFromLabel cd (map_read (cg_Labels (cn_Configuration snapshot)) appleLocalSandboxEndAtLabel) = cr_EndAt req"
proof -
  have "\<not> IsZero (cr_CreatedAt req)" "\<not> IsZero (cr_EndAt req)"
    using assms(2) by (simp_all add: made_for_def apple_restorable_def)
  then show "timeFromLabel cd (map_read (cg_Labels (cn_Configuration snapshot)) appleLocalSandboxCreatedAtLabel) = cr_CreatedAt req"
    and "timeFromLabel cd (map_read (cg_Labels (cn_Configuration snapshot)) appleLocalSandboxEndAtLabel) = cr_EndAt req"
    using apple_time_label [OF assms(1)] by (simp_all add: made_label [OF assms(2)] apple_label_values)
qed

lemma made_maps:
  assumes "codec_laws cd" and "made_for cd (req, t, i, ms) snapshot"
  shows "stringMapFromLabel cd (map_read (cg_Labels (cn_Configuration snapshot)) appleLocalSandboxMetadataLabel) = cr_Metadata req"
    and "stringMapFromLabel cd (map_read (cg_Labels (cn_Configuration snapshot)) appleLocalSandboxEnvVarsLabel) = cr_EnvVars req"
proof -
  have e: "stringMapFromLabel cd [] = []" by (simp add: stringMapFromLabel_def)
  show "stringMapFromLabel cd (map_read (cg_Labels (cn_Configuration snapshot)) appleLocalSandboxMetadataLabel) = cr_Metadata req"
    using apple_map_label [OF assms(1), of "cr_Metadata req"] e
    by (cases "cr_Metadata req = []") (simp_all add: made_label [OF assms(2)] apple_label_values)
  show "stringMapFromLabel cd (map_read (cg_Labels (cn_Configuration snapshot)) appleLocalSandboxEnvVarsLabel) = cr_EnvVars req"
    using apple_map_label [OF assms(1), of "cr_EnvVars req"] e
    by (cases "cr_EnvVars req = []") (simp_all add: made_label [OF assms(2)] apple_label_values)
qed

lemma made_internet:
  assumes "made_for cd (req, t, i, ms) snapshot"
  shows "boolPtrFromLabel (map_read (cg_Labels (cn_Configuration snapshot)) appleLocalSandboxAllowInternetLabel) = cr_AllowInternetAccess req"
proof (cases "cr_AllowInternetAccess req")
  case None
  then show ?thesis by (simp add: made_label [OF assms] apple_label_values boolPtrFromLabel_def)
next
  case (Some b)
  then show ?thesis using apple_bool_label [of b] by (simp add: made_label [OF assms] apple_label_values)
qed

lemma made_timeout:
  assumes "made_for cd (req, t, i, ms) snapshot"
  shows "appleSandboxTimeoutAction (cg_Labels (cn_Configuration snapshot)) = Inr (cr_OnTimeout req)"
proof -
  have n: "Normalize (cr_OnTimeout req) = Inr (cr_OnTimeout req)" using assms by (simp add: made_for_def apple_restorable_def)
  then have a: "TrimSpace (cr_OnTimeout req) = cr_OnTimeout req" "cr_OnTimeout req \<noteq> []" "cr_OnTimeout req \<noteq> SandboxTimeoutActionUnspecified"
    using Normalize_range [OF n] timeout_actions by auto
  then have "map_read (cg_Labels (cn_Configuration snapshot)) appleLocalSandboxOnTimeoutLabel = cr_OnTimeout req"
    by (simp add: made_label [OF assms] apple_label_values)
  with a n show ?thesis by (simp add: appleSandboxTimeoutAction_def)
qed

lemma made_mounts:
  assumes "codec_laws cd" and "made_for cd (req, t, i, ms) snapshot"
  shows "appleVolumeMountsFromLabels cd (cg_Labels (cn_Configuration snapshot)) = apple_normalizeVolumeMounts ms"
proof (cases "ms = []")
  case True
  then show ?thesis
    by (simp add: appleVolumeMountsFromLabels_def made_label [OF assms(2)] apple_label_values apple_normalizeVolumeMounts_def)
next
  case False
  then have "map_read (cg_Labels (cn_Configuration snapshot)) appleLocalSandboxVolumeMountsLabel = cd_mounts cd ms"
    using assms(1) by (simp add: codec_laws_def made_label [OF assms(2)] apple_label_values)
  with assms(1) show ?thesis by (simp add: codec_laws_def appleVolumeMountsFromLabels_def)
qed

lemma record_restored:
  assumes "codec_laws (ap_codecs r)" and "made_for (ap_codecs r) q snapshot"
  shows "\<exists>x. apple_restored_record r now snapshot
      (TrimSpace (map_read (cg_Labels (cn_Configuration snapshot)) appleLocalSandboxIDLabel))
      (e2bStateFromAppleStatus (cn_Status snapshot)) = Inr x \<and> apple_restored_as r q snapshot x"
proof -
  obtain req t i ms where q: "q = (req, t, i, ms)" by (cases q)
  note m = assms(2) [unfolded q]
  have z: "\<not> IsZero (cr_CreatedAt req)" "\<not> IsZero (cr_EndAt req)" "TrimSpace (cr_SandboxID req) \<noteq> []"
    using m by (simp_all add: made_for_def apple_restorable_def)
  show ?thesis
    unfolding q apple_restored_record_def apple_restored_as_def Let_def made_timeout [OF m] made_ids [OF m]
      made_times [OF assms(1) m] made_maps [OF assms(1) m] made_internet [OF m]
    using z by (simp add: runtimeInfoFromSnapshot_def Let_def made_mounts [OF assms(1) m])
qed

lemma records_restored:
  assumes "codec_laws (ap_codecs r)" and "list_all2 (made_for (ap_codecs r)) qs snapshots"
  shows "\<exists>xs. apple_restore_records r now snapshots = Inr xs \<and> length xs = length qs \<and>
    (\<forall>j < length qs. apple_restored_as r (qs ! j) (snapshots ! j) (xs ! j))"
  using assms(2)
proof (induction rule: list_all2_induct)
  case (Cons q qs snapshot snapshots)
  obtain x where x: "apple_restored_record r now snapshot
      (TrimSpace (map_read (cg_Labels (cn_Configuration snapshot)) appleLocalSandboxIDLabel))
      (e2bStateFromAppleStatus (cn_Status snapshot)) = Inr x" "apple_restored_as r q snapshot x"
    using record_restored [OF assms(1) Cons(1)] by blast
  have i: "TrimSpace (map_read (cg_Labels (cn_Configuration snapshot)) appleLocalSandboxIDLabel) \<noteq> []"
    "e2bStateFromAppleStatus (cn_Status snapshot) \<noteq> []"
    using made_ids(1) Cons(1) by (cases q, fastforce simp: made_for_def apple_restorable_def)+
  obtain xs where xs: "apple_restore_records r now snapshots = Inr xs" "length xs = length qs"
    "\<forall>j < length qs. apple_restored_as r (qs ! j) (snapshots ! j) (xs ! j)"
    using Cons.IH by blast
  have "apple_restore_records r now (snapshot # snapshots) = Inr (x # xs)"
    using x(1) xs(1) i by (simp add: Let_def)
  with x(2) xs(2,3) show ?case by (intro exI [of _ "x # xs"]) (auto simp: nth_Cons split: nat.split)
qed simp

end
