(* ===== verification/AppleProperties.thy ===== *)
theory AppleProperties
  imports AppleDemo AppleLabels
begin

text \<open>
  The properties of the Apple container backend and of its XPC client, each with a witness on the
  service of \<open>AppleDemo\<close>.
\<close>

section \<open>The client\<close>

text \<open>After a call, however it ends, as many messages, replies and files are held as before.\<close>

definition releases_all :: "('w, 'a) xpc_op \<Rightarrow> bool" where
  "releases_all m \<longleftrightarrow>
     (\<forall>h. xw_held (h_engine (snd (m h))) = xw_held (h_engine h) \<and> xw_files (h_engine (snd (m h))) = xw_files (h_engine h))"

lemma balanced_releases: "balanced m \<Longrightarrow> releases_all m"
  unfolding releases_all_def
proof
  fix h
  assume m: "balanced m"
  obtain r h' where "m h = (r, h')" by fastforce
  with balanceD [OF m, of h] have "holds 0 0 h h'" by (cases r) auto
  with \<open>m h = (r, h')\<close> show "xw_held (h_engine (snd (m h))) = xw_held (h_engine h) \<and>
      xw_files (h_engine (snd (m h))) = xw_files (h_engine h)" by (simp add: holds_def)
qed

text \<open>C11: No call of the XPC client leaks. Each of its methods, whatever the services answer and wherever it ends, holds
  as many messages and replies and has as many files open after it as before.\<close>

theorem xpc_calls_release_everything:
  "releases_all (xpc_Ping c ctx) \<and> releases_all (xpc_ResolveImage c ctx ref) \<and> releases_all (xpc_ContainerCreate c ctx conf) \<and>
   releases_all (xpc_ContainerBootstrap c ctx i) \<and> releases_all (xpc_ContainerStartProcess c ctx i p) \<and>
   releases_all (xpc_ContainerCopyIn c ctx i src dst mode) \<and> releases_all (xpc_ContainerCreateProcess c ctx i p pconf) \<and>
   releases_all (xpc_ContainerStop c ctx i) \<and> releases_all (xpc_ContainerDelete c ctx i force) \<and>
   releases_all (xpc_ContainerList c ctx filters) \<and> releases_all (xpc_VolumeCreate c ctx name labels) \<and>
   releases_all (xpc_VolumeInspect c ctx name) \<and> releases_all (xpc_VolumeList c ctx) \<and>
   releases_all (xpc_VolumeDelete c ctx name) \<and> releases_all (xpc_DefaultNetworkAttachment c ctx i)"
  by (intro conjI balanced_releases commands_balanced listings_balanced image_balanced create_balanced)


definition demo_apple_host :: "demo_service xpc_world host" where
  "demo_apple_host =
     \<lparr>h_fs = [([''envd''], new_inode (File ''ELF'') 493 0), ([''tmp''], new_inode Dir 511 0)], h_faults = [], h_names = [7, 9],
      h_now = 0,
      h_engine = \<lparr>xw_apiConn = True, xw_imageConn = True, xw_closed = False, xw_kernelData = [], xw_held = 0, xw_files = 0,
        xw_World = \<lparr>ds_Containers = []\<rparr>\<rparr>\<rparr>"


section \<open>Creating a sandbox\<close>


text \<open>A demonstration: the runtime on the service of \<open>AppleDemo\<close>, with a sandbox that is healthy or is not.\<close>

definition demo_apple :: "bool \<Rightarrow> demo_service xpc_world apple_runtime" where
  "demo_apple healthy =
     \<lparr>ap_cfg = \<lparr>ac_ContainerNamePrefix = ''e2b-'', ac_EnvdBinary = ''/envd'', ac_EnvdPort = 49983, ac_HealthTimeoutSeconds = 60,
        ac_DefaultCPUs = 2, ac_DefaultMemoryMB = 512,
        ac_Templates = [(''base'', \<lparr>at_Image = ''alpine'', at_CPUs = 0, at_MemoryMB = 0, at_StartCmd = [], at_PrebakedEnvdPath = []\<rparr>)]\<rparr>,
      ap_client = xpc_as_client demo_xpc, ap_checkHealthy = None, ap_findFreePort = ret 49152, ap_newID = random_name,
      ap_NewString = random_name,
      ap_http = \<lparr>hc_RequestError = (\<lambda>u. None), hc_Get = (\<lambda>u. ret (if healthy then 204 else 503))\<rparr>,
      ap_codecs = demo_codecs, ap_TempDir = ''/tmp'', ap_Flock = ret (2, None), ap_Unlock = ret (),
      ap_NotFound = (\<lambda>e. Marked ''NotFound'' e), ap_IsNotFound = demo_IsNotFound\<rparr>"

definition demo_apple_request :: create_request where
  "demo_apple_request =
     \<lparr>cr_SandboxID = ''sb1'', cr_TemplateID = ''base'', cr_Metadata = [(''k'', ''v'')], cr_EnvVars = [(''A'', ''1'')], cr_VolumeMounts = [],
      cr_CreatedAt = 3, cr_EndAt = 9, cr_AllowInternetAccess = Some False, cr_OnTimeout = ''pause''\<rparr>"

lemma demo_container_deleted:
  assumes z: "CHR 0x00 \<notin> set i" and h: "client_ready (h_engine h)"
    and d: "fst (xpc_ContainerDelete demo_xpc Background i True h) = Inl e"
  shows "isAppleNotFound e"
proof -
  define msg where "msg = setBool ''forceDelete'' True (setString ''id'' i \<lparr>xm_Route = ''containerDelete'', xm_Values = []\<rparr>)"
  have m: "xm_Route msg = ''containerDelete''" "map_of (xm_Values msg) ''id'' = Some (XString i)"
    using z by (simp_all add: msg_def setString_def setBool_def set_value_def update_conv' c_string_id)
  obtain h1 where n: "newXPCMessage (xc_bridge demo_xpc) ''containerDelete'' h =
      (Inr \<lparr>xm_Route = ''containerDelete'', xm_Values = []\<rparr>, h1)" and h1: "client_ready (h_engine h1)"
    using h by (simp add: newXPCMessage_def demo_xpc_def demo_bridge_def call_defs bridge_call_def hold_def on_client_def client_ready_def)
  have "fst (sendNoBodyAPI demo_xpc Background msg xpcTimeoutDefault h1) = Inl e"
    using d n by (simp add: xpc_ContainerDelete_def bindE_ok Let_def msg_def)
  then have f: "fst (xpc_send demo_xpc Background xpcAPIService msg xpcTimeoutDefault h1) = Inl e"
    by (cases "xpc_send demo_xpc Background xpcAPIService msg xpcTimeoutDefault h1";
        cases "fst (xpc_send demo_xpc Background xpcAPIService msg xpcTimeoutDefault h1)")
      (auto simp: sendNoBodyAPI_def bindE_def caseE_def fail_def release_msg_def on_client_def)
  have "cx_Err Background h1 = None" for h1 :: "demo_service xpc_world host" by (simp add: Background_def)
  with f h1 m show ?thesis
    by (cases "i \<in> set (ds_Containers (xw_World (h_engine h1)))")
      (auto simp: xpc_send_def client_ready_def connection_open_def Let_def finallyE_def bindE_def caseE_def bridge_call_def
        demo_send demo_answer_def checked_reply_def reply_checks demo_key demo_codes fail_def ret_def hold_def release_msg_def on_client_def)
qed


section \<open>Restart\<close>


definition demo_snapshot :: "(string, string) gomap \<Rightarrow> container_snapshot" where
  "demo_snapshot labels =
     \<lparr>cn_Configuration = sandbox_container (demo_apple True) demo_apple_request
        \<lparr>at_Image = ''alpine'', at_CPUs = 0, at_MemoryMB = 0, at_StartCmd = [], at_PrebakedEnvdPath = []\<rparr>
        (demo_image_at ''docker.io/library/alpine:latest'') [] [] labels ''e2b-sb1'' 49152,
      cn_Status = ''stopped'', cn_Networks = [], cn_StartedDate = None\<rparr>"


section \<open>Retries\<close>

fun retry_delays :: "nat \<Rightarrow> nat \<Rightarrow> nat" where
  "retry_delays 0 d = 0"
| "retry_delays (Suc n) d = d + retry_delays n (min (2 * d) appleTransientNotFoundMaxDelay)"

lemma retry_clock:
  assumes b: "\<And>h. h_now h \<le> h_now (snd (m h)) \<and> h_now (snd (m h)) \<le> h_now h + B"
  shows "h_now h \<le> h_now (snd (transient_retry ctx m n d h)) \<and>
    h_now (snd (transient_retry ctx m n d h)) \<le> h_now h + int (Suc n) * B + int (retry_delays n d) \<and>
    ((\<forall>x. ctx x = None) \<longrightarrow> (\<exists>e. fst (transient_retry ctx m n d h) = Inl e \<and> isAppleNotFound e) \<longrightarrow>
      h_now h + int (retry_delays n d) \<le> h_now (snd (transient_retry ctx m n d h)))"
proof (induction n arbitrary: d h)
  case 0
  show ?case using b [of h] by simp
next
  case (Suc n)
  have pos: "0 \<le> B" using b [of h] by linarith
  obtain r t where m: "m h = (r, t)" by fastforce
  note bt = b [of h, unfolded m snd_conv]
  let ?k = "transient_retry ctx m n (min (2 * d) appleTransientNotFoundMaxDelay)"
  have split: "int (Suc (Suc n)) * B = B + int (Suc n) * B" by (simp add: algebra_simps)
  have low: "0 \<le> int (Suc n) * B" using pos by simp
  have eq: "int (retry_delays (Suc n) d) = int d + int (retry_delays n (min (2 * d) appleTransientNotFoundMaxDelay))" by simp
  show ?case
  proof (cases "\<exists>e. r = Inl e \<and> isAppleNotFound e")
    case False
    then have run: "transient_retry ctx m (Suc n) d h = (r, t)" using m by (cases r) (auto simp: caseE_err caseE_ok fail_def ret_def)
    have "h_now t \<le> h_now h + int (Suc (Suc n)) * B + int (retry_delays (Suc n) d)" using bt low split by linarith
    with bt False show ?thesis unfolding run by auto
  next
    case True
    obtain w u where w: "wait_for ctx d t = (w, u)" by fastforce
    have run: "transient_retry ctx m (Suc n) d h = (case w of Inl e \<Rightarrow> (Inl e, u) | Inr x \<Rightarrow> ?k u)"
      using True m w by (auto simp: caseE_err bindE_def caseE_def fail_def split: sum.split)
    have c: "h_now t \<le> h_now u" "h_now u \<le> h_now t + int d" "w = Inr () \<Longrightarrow> h_now u = h_now t + int d"
      "(\<forall>x. ctx x = None) \<Longrightarrow> w = Inr ()"
      using w by (auto simp: wait_for_def Let_def split: option.splits)
    show ?thesis
    proof (cases w)
      case (Inl e)
      then have run: "transient_retry ctx m (Suc n) d h = (Inl e, u)" using run by simp
      have "h_now u \<le> h_now h + int (Suc (Suc n)) * B + int (retry_delays (Suc n) d)" "h_now h \<le> h_now u"
        using bt low split c(1,2) eq by linarith+
      with c(4) Inl show ?thesis unfolding run by auto
    next
      case (Inr x)
      with run have run: "transient_retry ctx m (Suc n) d h = ?k u" by simp
      have "h_now u = h_now t + int d" using c(3) Inr by simp
      note wu = this
      note ih = Suc.IH [of u "min (2 * d) appleTransientNotFoundMaxDelay"]
      show ?thesis
        unfolding run eq split
      proof (intro conjI impI)
        show "h_now h \<le> h_now (snd (?k u))" using ih [THEN conjunct1] wu bt by linarith
        show "h_now (snd (?k u)) \<le> h_now h + (B + int (Suc n) * B) +
            (int d + int (retry_delays n (min (2 * d) appleTransientNotFoundMaxDelay)))"
          using ih [THEN conjunct2, THEN conjunct1] wu bt by linarith
        assume "\<forall>x. ctx x = None" and "\<exists>e. fst (?k u) = Inl e \<and> isAppleNotFound e"
        then have "h_now u + int (retry_delays n (min (2 * d) appleTransientNotFoundMaxDelay)) \<le> h_now (snd (?k u))"
          using ih [THEN conjunct2, THEN conjunct2] by blast
        then show "h_now h + (int d + int (retry_delays n (min (2 * d) appleTransientNotFoundMaxDelay))) \<le> h_now (snd (?k u))"
          using wu bt by linarith
      qed
    qed
  qed
qed

text \<open>C21: The retries for containers that are not there yet are bounded. With calls that take at most \<open>B\<close> nanoseconds a
  retried call returns within 20 calls and 8.25 seconds of waiting; and when it gives up with the error for a missing
  container, in a context that is never done, it has waited all of that time.\<close>

theorem transient_retries_are_bounded:
  assumes "\<And>h. h_now h \<le> h_now (snd (m h)) \<and> h_now (snd (m h)) \<le> h_now h + B"
    and "withAppleTransientNotFoundRetry ctx m h = (res, h')"
  shows "h_now h \<le> h_now h' \<and> h_now h' \<le> h_now h + 20 * B + 8250000000 \<and>
    ((\<forall>x. cx_Err ctx x = None) \<longrightarrow> (\<exists>e. res = Inl e \<and> isAppleNotFound e) \<longrightarrow> h_now h + 8250000000 \<le> h_now h')"
proof -
  have step: "retry_delays (numeral k) d = d + retry_delays (pred_numeral k) (min (2 * d) 500000000)" for k d
    by (simp only: numeral_eq_Suc [of k] retry_delays.simps appleTransientNotFoundMaxDelay_def)
  have d: "retry_delays 19 50000000 = 8250000000"
    by (simp add: step)
  from retry_clock [where m = m and B = B and ctx = "cx_Err ctx" and n = 19 and d = 50000000 and h = h, OF assms(1)]
  show ?thesis
    using assms(2) d
    by (simp add: withAppleTransientNotFoundRetry_def appleTransientNotFoundRetryAttempts_def appleTransientNotFoundInitialDelay_def)
qed

lemma transient_retries_are_bounded_witness:
  "h_now (snd (withAppleTransientNotFoundRetry Background (fail (protocol_error ''notFound'' ''container'')) demo_apple_host)) = 8250000000"
proof -
  let ?m = "fail (protocol_error ''notFound'' ''container'') :: (demo_service xpc_world, unit) host_op"
  obtain res h' where run: "withAppleTransientNotFoundRetry Background ?m demo_apple_host = (res, h')" by fastforce
  have 1: "h_now h \<le> h_now (snd (?m h)) \<and> h_now (snd (?m h)) \<le> h_now h + 0" for h :: "demo_service xpc_world host"
    by (simp add: fail_def)
  have r: "fst (transient_retry (\<lambda>h. None) ?m n d h) = Inl (protocol_error ''notFound'' ''container'')"
    for n d and h :: "demo_service xpc_world host"
    by (induction n arbitrary: d h) (simp_all add: fail_def caseE_def bindE_def demo_codes(1) wait_for_def Let_def)
  have "res = Inl (protocol_error ''notFound'' ''container'')"
    using run r by (simp add: withAppleTransientNotFoundRetry_def Background_def) (metis fst_conv)
  then show ?thesis
    using transient_retries_are_bounded [OF 1 run] run demo_codes(1) by (simp add: Background_def demo_apple_host_def)
qed

section \<open>Volumes\<close>

text \<open>
  A volume is looked for by id and by name in one pass, in the order of the names. A volume whose name
  is the id of another can stand before it: the other is then not reached by its id, and a request
  to delete it by its id deletes the wrong one.
\<close>

lemma apple_volume_name_hides_id:
  assumes "ak_VolumeList (ap_client r) ctx h = (Inr [x, y], h1)" and "managed_volume x" and "managed_volume y"
    and "runtimeVolumeFromAppleVolume x = \<lparr>rv_VolumeID = ''id1'', rv_Name = ''zoo''\<rparr>"
    and "runtimeVolumeFromAppleVolume y = \<lparr>rv_VolumeID = ''id2'', rv_Name = ''id1''\<rparr>"
  shows "apple_GetVolume r ctx ''id1'' h = (Inr \<lparr>rv_VolumeID = ''id2'', rv_Name = ''id1''\<rparr>, h1)"
proof -
  have t: "TrimSpace ''id1'' = ''id1''" by code_simp
  have l: "listed_volumes [x, y] = [\<lparr>rv_VolumeID = ''id2'', rv_Name = ''id1''\<rparr>, \<lparr>rv_VolumeID = ''id1'', rv_Name = ''zoo''\<rparr>]"
    using assms(2-5) by (simp add: listed_volumes_def)
  show ?thesis
    using assms(1) t l
    by (simp add: apple_GetVolume_def findRuntimeVolume_def apple_ListVolumes_def call_defs mapErr_def apple_volumeMatches_def Let_def)
qed

end
