(* ===== verification/MyOrb.thy ===== *)
theory MyOrb
  imports OrbControl
begin

text \<open>
  The command line program \<open>myorb\<close> (\<open>cmd/myorb/main.go\<close>): it reads its arguments and makes one of the
  calls of OrbControl. A run gives the text printed on standard output, or an error. Connecting to a
  socket and the JSON forms are parameters; printing does not fail.
\<close>

section \<open>Arguments\<close>

definition usageError :: "string \<Rightarrow> go_error" where
  "usageError text = Marked ''usageError'' (ErrorString text)"

text \<open>The path of the socket and what is left of the arguments.\<close>

fun parse_global :: "string \<Rightarrow> string list \<Rightarrow> go_error + string \<times> string list" where
  "parse_global sock [] = Inr (sock, [])"
| "parse_global sock (arg # args) =
     (if arg = ''--sock'' then
        (case args of [] \<Rightarrow> Inl (usageError ''--sock requires a value'') | v # rest \<Rightarrow> parse_global v rest)
      else if HasPrefix arg ''--sock='' then parse_global (TrimPrefix arg ''--sock='') args
      else Inr (sock, arg # args))"

definition parseGlobalOptions :: "string list \<Rightarrow> go_error + string \<times> string list" where
  "parseGlobalOptions args = parse_global [] args"

fun parse_format :: "string \<Rightarrow> string list \<Rightarrow> string list \<Rightarrow> go_error + string \<times> string list" where
  "parse_format fmt rest [] = Inr (TrimSpace fmt, rest)"
| "parse_format fmt rest (arg # args) =
     (if arg = ''--format'' \<or> arg = ''-f'' then
        (case args of [] \<Rightarrow> Inl (usageError (arg @ '' requires a value'')) | v # others \<Rightarrow> parse_format v rest others)
      else if HasPrefix arg ''--format='' then parse_format (TrimPrefix arg ''--format='') rest args
      else parse_format fmt (rest @ [arg]) args)"

definition parseFormat :: "string list \<Rightarrow> go_error + string \<times> string list" where
  "parseFormat args = parse_format [] [] args"

text \<open>\<open>strings.Cut\<close> with a separator of one character.\<close>

definition Cut :: "char \<Rightarrow> string \<Rightarrow> (string \<times> string) option" where
  "Cut c s = (case index_char c s of None \<Rightarrow> None | Some i \<Rightarrow> Some (take i s, drop (i + 1) s))"

definition parseMachineSetting :: "string \<Rightarrow> go_error + string \<times> string" where
  "parseMachineSetting v =
     (if \<not> HasPrefix v ''machine.'' then Inl (usageError ''config target must start with machine.'')
      else case Cut CHR ''.'' (TrimPrefix v ''machine.'') of
        None \<Rightarrow> Inl (usageError ''config target must be machine.<vm>.<option>'')
      | Some (machine, opt) \<Rightarrow>
          (if TrimSpace machine = [] \<or> TrimSpace opt = []
           then Inl (usageError ''config target must be machine.<vm>.<option>'') else Inr (machine, opt)))"

definition parseMountSpec :: "string \<Rightarrow> string \<times> string" where
  "parseMountSpec spec =
     (case Cut CHR '':'' spec of
        None \<Rightarrow> (TrimSpace spec, []) | Some (source, dest) \<Rightarrow> (TrimSpace source, TrimSpace dest))"

section \<open>Commands\<close>

text \<open>The JSON forms of what is printed, with the newline at their end.\<close>

record orb_printer =
  pj_Machines :: "container_record list \<Rightarrow> go_error + string"
  pj_Info :: "container_info \<Rightarrow> go_error + string"

definition machine_line :: "container_record \<Rightarrow> string" where
  "machine_line m = ct_Name m @ [CHR 0x09] @ ct_State m @ [CHR 0x0A]"

definition runList :: "orb_printer \<Rightarrow> 'w rpc_transport \<Rightarrow> string list \<Rightarrow> ('w, string) orb_op" where
  "runList pj tr args =
     (case parseFormat args of
        Inl e \<Rightarrow> fail e
      | Inr (fmt, rest) \<Rightarrow>
          (if rest \<noteq> [] then fail (usageError ''usage: myorb list [--format json]'')
           else bindE (ListMachines tr) (\<lambda>machines.
             if fmt = [] then ret (concat (map machine_line machines))
             else if fmt \<noteq> ''json'' then fail (usageError (''unsupported list format '' @ quoted fmt))
             else liftE (pj_Machines pj machines))))"

definition runInfo :: "orb_printer \<Rightarrow> 'w rpc_transport \<Rightarrow> string list \<Rightarrow> ('w, string) orb_op" where
  "runInfo pj tr args =
     (case parseFormat args of
        Inl e \<Rightarrow> fail e
      | Inr (fmt, rest) \<Rightarrow>
          (if length rest \<noteq> 1 then fail (usageError ''usage: myorb info [--format json] <vm>'')
           else bindE (orb_Info tr (rest ! 0)) (\<lambda>info.
             if fmt = [] then ret (''Name:'' @ [CHR 0x09] @ ct_Name (co_Record info) @ [CHR 0x0A] @
                 ''State:'' @ [CHR 0x09] @ ct_State (co_Record info) @ [CHR 0x0A])
             else if fmt \<noteq> ''json'' then fail (usageError (''unsupported info format '' @ quoted fmt))
             else liftE (pj_Info pj info))))"

definition silent :: "('w, unit) orb_op \<Rightarrow> ('w, string) orb_op" where
  "silent m = bindE m (\<lambda>u. ret [])"

definition runDelete :: "'w rpc_transport \<Rightarrow> string list \<Rightarrow> ('w, string) orb_op" where
  "runDelete tr args =
     (let rest = filter (\<lambda>arg. \<not> (arg = ''--force'' \<or> arg = ''-f'')) args
      in if length rest \<noteq> 1 then fail (usageError ''usage: myorb delete [--force] <vm>'')
         else silent (orb_Delete tr (rest ! 0)))"

definition runConfigSet :: "'w rpc_transport \<Rightarrow> string list \<Rightarrow> ('w, string) orb_op" where
  "runConfigSet tr args =
     (if length args \<noteq> 3 then fail (usageError ''usage: myorb config set machine.<vm>.isolated <true|false>'')
      else case parseMachineSetting (args ! 1) of
        Inl e \<Rightarrow> fail e
      | Inr (machine, opt) \<Rightarrow>
          (if opt \<noteq> ''isolated'' then fail (usageError (''unsupported config option '' @ quoted opt))
           else case ParseBool (args ! 2) of
             None \<Rightarrow> fail (usageError (''invalid bool value '' @ quoted (args ! 2)))
           | Some v \<Rightarrow> silent (orb_SetIsolated tr machine v)))"

definition runConfigAdd :: "'w rpc_transport \<Rightarrow> string list \<Rightarrow> ('w, string) orb_op" where
  "runConfigAdd tr args =
     (if length args \<noteq> 3 then fail (usageError ''usage: myorb config add machine.<vm>.mounts <host-path>[:<vm-path>]'')
      else case parseMachineSetting (args ! 1) of
        Inl e \<Rightarrow> fail e
      | Inr (machine, opt) \<Rightarrow>
          (if opt \<noteq> ''mounts'' then fail (usageError (''unsupported config option '' @ quoted opt))
           else case parseMountSpec (args ! 2) of (source, dest) \<Rightarrow> silent (orb_AddMount tr machine source dest)))"

definition runConfig :: "'w rpc_transport \<Rightarrow> string list \<Rightarrow> ('w, string) orb_op" where
  "runConfig tr args =
     (if args = [] then fail (usageError ''usage: myorb config <set|add> ...'')
      else if args ! 0 = ''set'' then runConfigSet tr args
      else if args ! 0 = ''add'' then runConfigAdd tr args
      else fail (usageError (''unsupported config command '' @ quoted (args ! 0))))"

definition run_command :: "orb_printer \<Rightarrow> 'w rpc_transport \<Rightarrow> string \<Rightarrow> string list \<Rightarrow> ('w, string) orb_op" where
  "run_command pj client cmd args =
     (if cmd = ''list'' then runList pj client args
      else if cmd = ''info'' then runInfo pj client args
      else if cmd = ''clone'' then
        (if length args \<noteq> 2 then fail (usageError ''usage: myorb clone <source-vm> <dest-vm>'')
         else silent (orb_Clone client (args ! 0) (args ! 1)))
      else if cmd = ''start'' then
        (if length args \<noteq> 1 then fail (usageError ''usage: myorb start <vm>'') else silent (orb_Start client (args ! 0)))
      else if cmd = ''stop'' then
        (if length args \<noteq> 1 then fail (usageError ''usage: myorb stop <vm>'') else silent (orb_Stop client (args ! 0)))
      else if cmd = ''delete'' then runDelete client args
      else if cmd = ''config'' then runConfig client args
      else if cmd = ''run'' then fail (ErrorString ''myorb run is not implemented through sconrpc.sock yet'')
      else fail (usageError (''unknown command '' @ quoted cmd)))"

text \<open>\<open>connect\<close> gives the transport to a socket, the default one for an empty path.\<close>

definition myorb_run :: "orb_printer \<Rightarrow> (string \<Rightarrow> string) \<Rightarrow> (string \<Rightarrow> 'w rpc_transport) \<Rightarrow> string list \<Rightarrow> ('w, string) orb_op" where
  "myorb_run pj getenv connect args =
     (case parseGlobalOptions args of
        Inl e \<Rightarrow> fail e
      | Inr (sock, []) \<Rightarrow> fail (usageError ''command is required'')
      | Inr (sock, cmd # rest) \<Rightarrow>
          (let socketPath = TrimSpace sock;
               socketPath = (if socketPath = [] then TrimSpace (getenv ''MYORB_SCONRPC_SOCK'') else socketPath)
           in run_command pj (connect socketPath) cmd rest))"

text \<open>The exit code, standard output and standard error of the program.\<close>

definition myorb_main :: "orb_printer \<Rightarrow> (string \<Rightarrow> string) \<Rightarrow> (string \<Rightarrow> 'w rpc_transport) \<Rightarrow> string list \<Rightarrow> 'w orb_world host \<Rightarrow>
    (int \<times> string \<times> string) \<times> 'w orb_world host" where
  "myorb_main pj getenv connect args h =
     (case myorb_run pj getenv connect args h of
        (Inl e, h) \<Rightarrow> ((1, [], error_text e @ [CHR 0x0A]), h)
      | (Inr out, h) \<Rightarrow> ((0, out, []), h))"

section \<open>What the arguments mean\<close>

lemma index_after: "c \<notin> set s \<Longrightarrow> index_char c (s @ c # t) = Some (length s)"
  by (induction s) auto

lemma Cut_first: "c \<notin> set s \<Longrightarrow> Cut c (s @ c # t) = Some (s, t)"
  by (simp add: Cut_def index_after)

text \<open>A setting of a machine is read as it was written, if the machine's name has no dot.\<close>

lemma machine_setting_read:
  assumes "CHR ''.'' \<notin> set machine" and "TrimSpace machine \<noteq> []" and "TrimSpace opt \<noteq> []"
  shows "parseMachineSetting (''machine.'' @ machine @ ''.'' @ opt) = Inr (machine, opt)"
  using assms Cut_first [OF assms(1), of opt] by (simp add: parseMachineSetting_def HasPrefix_def TrimPrefix_def)

text \<open>A machine with a dot in its name cannot be configured: the name ends at the first dot.\<close>

lemma dotted_machine_is_cut:
  assumes "CHR ''.'' \<notin> set a" and "TrimSpace a \<noteq> []" and "TrimSpace (b @ ''.isolated'') \<noteq> []"
  shows "runConfig tr [''set'', ''machine.'' @ a @ ''.'' @ b @ ''.isolated'', v] h =
    (Inl (usageError (''unsupported config option '' @ quoted (b @ ''.isolated''))), h)"
proof -
  have "b @ ''.isolated'' \<noteq> ''isolated''" by (auto dest: arg_cong [where f = length])
  moreover have "Cut CHR ''.'' (a @ CHR ''.'' # b @ ''.isolated'') = Some (a, b @ ''.isolated'')"
    by (rule Cut_first [OF assms(1)])
  ultimately show ?thesis
    using assms by (simp add: runConfig_def runConfigSet_def parseMachineSetting_def HasPrefix_def TrimPrefix_def fail_def)
qed

lemma mount_read:
  assumes "CHR '':'' \<notin> set source" shows "parseMountSpec (source @ '':'' @ dest) = (TrimSpace source, TrimSpace dest)"
  using Cut_first [OF assms, of dest] by (simp add: parseMountSpec_def)

text \<open>A deletion is of the one machine named, and with any other number of names nothing is sent.\<close>

lemma delete_calls:
  "runDelete tr args h = (Inl (usageError ''usage: myorb delete [--force] <vm>''), h) \<or>
   (\<exists>name \<in> set args. name \<notin> {''--force'', ''-f''} \<and> runDelete tr args h = silent (orb_Delete tr name) h)"
proof (cases "length (filter (\<lambda>arg. \<not> (arg = ''--force'' \<or> arg = ''-f'')) args) = 1")
  case True
  then obtain name where f: "filter (\<lambda>arg. \<not> (arg = ''--force'' \<or> arg = ''-f'')) args = [name]"
    by (auto simp: length_Suc_conv)
  then have "name \<in> set (filter (\<lambda>arg. \<not> (arg = ''--force'' \<or> arg = ''-f'')) args)" by simp
  then show ?thesis using f by (intro disjI2 bexI [of _ name]) (simp_all add: runDelete_def)
qed (simp add: runDelete_def Let_def fail_def)

end
