(* ===== verification/Spec2Isabelle.thy ===== *)
theory Spec2Isabelle
  imports SandboxProperties TemplateProperties Http Observability DockerProperties OrbProperties ServerProperties AppleProperties MyOrb
begin

text \<open>
  A model of e2b-local, the local gateway for E2B sandboxes (Go, \<open>src/internal/gateway\<close>), and the
  theorems that make it correct.

  The program. The gateway serves an HTTP API that creates, lists, pauses, resumes, connects to and
  kills sandboxes, builds templates for them and manages volumes. Its state is in memory: the sandbox
  store, the deadline manager with one timer per running sandbox, the management store (templates,
  their builds and tags, uploaded files) and the template build manager. The sandboxes themselves run
  in a container engine or in virtual machines behind the interface \<open>SandboxRuntime\<close>, which has one
  implementation for each of Docker, OrbStack and Apple's container service.

  The theories, in the order of the code's layers:

  \<^item> GoBase: strings, maps, machine integers, time and errors of Go as the code uses them.
  \<^item> Interfaces: contracts several components share, as locales: transition systems, the update of one
    entry of a keyed store, the gate a background manager closes on shutdown, and the simulation of an
    abstract specification. Each is
    interpreted in the theory of the component that provides it.
  \<^item> GatewayTypes: records, policies and the runtime interface (\<open>types.go\<close>, \<open>runtime.go\<close>, the small
    helper files). The runtime is a record of functions over a world \<open>'w\<close>: the container engine, the
    clock and the random source, which is code that is not in the repository.
  \<^item> SandboxStore (\<open>store.go\<close>), Deadlines (\<open>sandbox_deadlines.go\<close>), Lifecycle and Handlers (the sandbox
    part of \<open>gateway_callbacks.go\<close>, \<open>sandbox_deletion.go\<close>, \<open>server.go\<close>): one definition per method,
    function or handler, composed as the code composes them. A handler runs with the sandbox's
    \<open>lifecycleMu\<close> held, so it is one function from the application's state to a result and the next
    state; the protocol that makes this sound is LockProtocol, the steps of \<open>lockSandbox\<close> for any
    number of goroutines.
  \<^item> AppInvariant, HandlerProofs, ExpiryProofs, Walks, Application: the invariant that links records to
    deadlines, what each handler and callback does to it, and the gateway as a transition system.
  \<^item> BuildManager (\<open>template_build_manager.go\<close>), TemplateFiles (\<open>template_files.go\<close>), ManagementStore
    (\<open>management_store.go\<close>), TemplateNames and Templates (the template part of \<open>gateway_callbacks.go\<close>),
    TemplateProofs: the same for templates and their builds.
  \<^item> Http and Observability: request decoding and error responses (\<open>server.go\<close>, \<open>gateway_api.go\<close>), and
    the callbacks that report metrics, logs, snapshots, nodes and teams.
  \<^item> Demo: a concrete runtime and concrete states, to which the properties are applied.
  \<^item> SandboxProperties, TemplateProperties: the properties, each with its claim id and a witness.

  The Docker backend (\<open>internal/backends/docker\<close>):

  \<^item> GoEffects: sequences of fallible calls over a state, which is what a Go function with its
    \<open>if err != nil\<close> returns is, and the locale \<open>change_kind\<close> by which a body is shown, call by call, to
    make only changes of one kind. It is interpreted for changes below a path, for changes of nothing
    on the file system, of nothing in the engine and of no container.
  \<^item> GoPath, HostFs: the packages \<open>path\<close>, \<open>os\<close> and \<open>os.Root\<close> as far as they are used: a file system with
    symbolic links, and a list of faults, one for each call to come.
  \<^item> DockerClient: the daemon's messages and client, the codecs, the configuration; the client and the
    codecs are parameters, with their documented behaviour as \<open>errdefs_laws\<close> and \<open>codec_laws\<close>.
  \<^item> DockerVolumes (\<open>volumes.go\<close>), DockerImages, DockerReports and DockerRuntime (\<open>runtime.go\<close>): one
    definition per function, composed as the code composes them; \<open>docker_as_runtime\<close> is the backend as
    the gateway's runtime of GatewayTypes.
  \<^item> VolumeProofs, VolumeSafety, VolumeContentSafety: where each operation on volumes makes its changes.
    VolumeRefinement: on a file system without faults the volumes implement a set of names, as an
    interpretation of \<open>simulation\<close>. DockerProofs: image components, ports and build contexts. LabelProofs: labels written and read back.
    DockerSandboxProofs: the waits, through the locale \<open>polling\<close>, and the containers of the daemon, with
    the documented behaviour of the daemon as \<open>daemon_laws\<close>.
  \<^item> DockerDemo: a concrete daemon with its codecs. DockerProperties: the properties.

  The configuration and the OrbStack backend (\<open>internal/backends/orbstack\<close>, \<open>internal/orbctl\<close>):

  \<^item> GatewayConfig (\<open>config.go\<close>, \<open>config_route_linux.go\<close>): the configuration with its defaults, the
    resolution of paths, the detection of the advertised address, validation and \<open>LoadConfig\<close>, and two
    properties. YAML, the syntax of addresses and the network are parameters.
  \<^item> OrbConfig (\<open>config.go\<close>, \<open>cloud_init.go\<close>): names of machines, templates, the texts written.
    OrbControl (\<open>orbctl/client.go\<close>, \<open>types.go\<close>): JSON-RPC calls on the control socket. OrbVm
    (\<open>vm_client.go\<close>): machines, and files and commands in them over SSH. OrbVolumes and OrbRuntime
    (\<open>runtime.go\<close>, \<open>volume_metadata_*.go\<close>): volumes and sandboxes; \<open>orb_as_runtime\<close> is the backend as the
    gateway's runtime. The socket's transport, the SSH library, extended attributes, JSON and the HTTP
    client of the health check are parameters. MyOrb (\<open>cmd/myorb/main.go\<close>): the command line program for
    machines, from its arguments to the calls of OrbControl.
  \<^item> OrbSandboxProofs: the interface \<open>machineClient\<close> with its contract, the locale \<open>machines\<close>, and the
    set of machines through every operation; \<open>control_socket\<close> says what OrbStack does behind its
    socket, and the client on such a socket keeps the contract. A call that fails has no effect there:
    a clone that is made although its call fails, say by a timeout, is left behind by the code.
    OrbScripts: references for the words a shell takes from a script and the values systemd takes from
    a unit file. OrbVolumeProofs: the loops that look for a free name.
  \<^item> OrbDemo: a concrete control socket. OrbProperties: the properties.

  The server (\<open>internal/gateway\<close> again, the layer between HTTP and the handlers):

  \<^item> ApiTypes: the request, the context a callback gets from it, the parameters and the values of the
    responses. ApiHandlers (\<open>gateway_api.go\<close>, \<open>gateway_unimplemented.go\<close>): the record of callbacks, its
    defaults, and one handler per route: it decodes, calls the callback and answers.
  \<^item> ServerUrls: the table of the server's own routes, the URL of an upload and the syntax of URLs they
    rest on. DefaultCallbacks: the state of the whole application and the table of its callbacks,
    each a handler of Handlers, Templates, Observability or of the volumes.
  \<^item> Server (\<open>server.go\<close>, \<open>volume_content.go\<close>): the handlers of ports, uploads and the content of
    volumes, the CORS middleware, the dispatch, construction and shutdown. \<open>serve_call\<close> stands for the
    generated router: a call of the API with its parameters already parsed.
  \<^item> ServerProofs: which part of the state a callback may change, as locales for the callbacks
    about sandboxes, templates, nodes and teams, and volumes; each is interpreted on the application's
    own callbacks. ServerSystem: the server as a transition system, its steps being requests to any route,
    expiry callbacks, timers, builds that end, shutdown and changes of the world. ServerProperties: what
    the server guarantees to its clients.

  The Apple container backend (\<open>internal/backends/applecontainer\<close>):

  \<^item> AppleClient (\<open>types.go\<close>, \<open>errors.go\<close>, \<open>xpc_client_darwin.go\<close>): the records of the payloads, the error
    codes, and the XPC client over a bridge that connects, allocates messages and sends them. The state
    of the client counts the messages, replies and files it holds, which is what C and the kernel would
    have to free. The bridge (C code), the services behind it and JSON are parameters; so is \<open>AppleDate\<close>'s
    JSON form, a floating point number.
  \<^item> AppleRuntime (\<open>runtime_darwin.go\<close>): one definition per function; \<open>apple_as_runtime\<close> is the backend as the
    gateway's runtime. The lock on a file between processes is the parameter \<open>ap_Flock\<close>, which gives how
    often it is found taken. Of the attempts to create a container there are at most three, of those to
    run a call on a container that is not there yet at most 20.
  \<^item> XpcProofs: what each call of the client holds when it returns, by rules for sequences of calls; what an
    image reference stands for. AppleProofs: the interface \<open>appleContainerClient\<close> with its contract, the
    locale \<open>containers\<close>, and the set of containers through \<open>CreateSandbox\<close>. AppleService: what the services
    do behind their routes, the locale \<open>container_service\<close>; a client on such services keeps the contract,
    a \<open>sublocale\<close>. A request that fails has no effect there: a container that the service makes after the
    client has given up waiting is left behind by the code. AppleLabels: labels written and read back.
  \<^item> AppleDemo: concrete services. AppleProperties: the properties.

  Conventions. Times are integers in nanoseconds, 0 being Go's zero time; durations are 64-bit words
  with Go's wrap-around. Go maps are association lists with distinct keys. An error is a value of
  \<open>go_error\<close>; a fallible function returns a sum. Logging is left out. Concurrency is explicit where
  the code's correctness rests on it: timers that have fired but not yet run, callbacks in flight,
  other requests during an upload, goroutines that race for a lock.

  Loops that need no bound in the code need none here: the search for the bundled binary ends because
  the path gets shorter, the waits because every round takes a second of the clock and there is a
  deadline; a call never puts the clock back. Following symbolic links is bounded by 255, the limit of
  the package. The two loops of the OrbStack backend that look for a free name have fuel for one round
  more than the file system has entries; a property shows that this is enough.

  Not modelled: the connection to the Docker daemon, the commands of \<open>cmd/e2b-local\<close>, the generated API types with the wrapper that parses paths
  and queries, and the logging of requests.
\<close>

end
